(* ===== verification/Prelude.thy ===== *)
theory Prelude
  imports Main
begin

text \<open>
  What every component of the development shares: Python text (\<open>str.strip\<close>, \<open>join\<close>, \<open>partition\<close>,
  decimal rendering and parsing of integers), the computations of the stateful components (a function of
  the state that returns an error or a value, together with the state it leaves), and the generic
  notion of an invariant of a step relation.

  A Python \<open>str\<close> is a list of characters; an Isabelle \<open>char\<close> is one of the code points 0 to 255, so
  the character classes below (\<open>isspace\<close>, decimal digits, ASCII case) are Python's on that range.
\<close>

named_theorems store_simps
  \<open>evaluation of the primitive operations of a durable store\<close>

named_theorems row_simps
  \<open>effect of an update of a table on the queries over it\<close>


section \<open>Python text\<close>

definition py_space :: "char \<Rightarrow> bool" where
  "py_space c \<longleftrightarrow> (let n = (of_char c :: nat) in
     (9 \<le> n \<and> n \<le> 13) \<or> (28 \<le> n \<and> n \<le> 32) \<or> n = 133 \<or> n = 160)"

definition py_lstrip :: "string \<Rightarrow> string" where
  "py_lstrip s = dropWhile py_space s"

definition py_rstrip :: "string \<Rightarrow> string" where
  "py_rstrip s = rev (dropWhile py_space (rev s))"

definition py_strip :: "string \<Rightarrow> string" where
  "py_strip s = py_rstrip (py_lstrip s)"

definition py_blank :: "string \<Rightarrow> bool" where
  "py_blank s \<longleftrightarrow> py_strip s = []"

definition nl :: string where "nl = [CHR 0x0A]"

text \<open>The em dash of the texts, in its UTF-8 form.\<close>

definition em_dash :: string where "em_dash = [CHR 0xE2, CHR 0x80, CHR 0x94]"

text \<open>\<open>sep.join(parts)\<close>.\<close>

fun py_join :: "string \<Rightarrow> string list \<Rightarrow> string" where
  "py_join sep [] = []"
| "py_join sep [x] = x"
| "py_join sep (x # y # ys) = x @ sep @ py_join sep (y # ys)"

text \<open>\<open>text.split(c)\<close> on a one-character separator: never empty, keeps empty parts.\<close>

fun py_split :: "char \<Rightarrow> string \<Rightarrow> string list" where
  "py_split c [] = [[]]"
| "py_split c (x # xs) =
     (if x = c then [] # py_split c xs
      else (case py_split c xs of [] \<Rightarrow> [[x]] | p # ps \<Rightarrow> (x # p) # ps))"

text \<open>\<open>text.partition(c)\<close>: the text before the first separator and, if there was one, the text after it.\<close>

fun py_partition :: "char \<Rightarrow> string \<Rightarrow> string \<times> string option" where
  "py_partition c [] = ([], None)"
| "py_partition c (x # xs) =
     (if x = c then ([], Some xs)
      else (case py_partition c xs of (a, b) \<Rightarrow> (x # a, b)))"

definition py_startswith :: "string \<Rightarrow> string \<Rightarrow> bool" where
  "py_startswith p s \<longleftrightarrow> take (length p) s = p"

definition py_endswith :: "string \<Rightarrow> string \<Rightarrow> bool" where
  "py_endswith p s \<longleftrightarrow> py_startswith (rev p) (rev s)"

definition py_removesuffix :: "string \<Rightarrow> string \<Rightarrow> string" where
  "py_removesuffix p s = (if p \<noteq> [] \<and> py_endswith p s then take (length s - length p) s else s)"

fun py_contains :: "string \<Rightarrow> string \<Rightarrow> bool" where
  "py_contains p [] = (p = [])"
| "py_contains p (x # xs) = (py_startswith p (x # xs) \<or> py_contains p xs)"

lemma py_startswith_append: "py_startswith p s \<longleftrightarrow> (\<exists>b. s = p @ b)"
  unfolding py_startswith_def by (metis append_take_drop_id append_eq_conv_conj)

lemma py_contains_iff: "py_contains p s \<longleftrightarrow> (\<exists>a b. s = a @ p @ b)"
proof (induction s)
  case (Cons x s)
  show ?case
  proof
    assume "py_contains p (x # s)"
    then consider "py_startswith p (x # s)" | "py_contains p s" by auto
    then show "\<exists>a b. x # s = a @ p @ b"
    proof cases
      case 1
      then show ?thesis unfolding py_startswith_append by (metis append_Nil)
    next
      case 2
      with Cons show ?thesis by (metis append_Cons)
    qed
  next
    assume "\<exists>a b. x # s = a @ p @ b"
    then obtain a b where ab: "x # s = a @ p @ b" by blast
    show "py_contains p (x # s)"
    proof (cases a)
      case Nil
      with ab have "py_startswith p (x # s)" unfolding py_startswith_append by auto
      then show ?thesis by simp
    next
      case (Cons y as)
      with ab have "\<exists>a b. s = a @ p @ b" by auto
      with Cons.IH show ?thesis by simp
    qed
  qed
qed auto

lemma py_contains_append: "py_contains p s \<Longrightarrow> py_contains p (a @ s @ b)"
  unfolding py_contains_iff by (metis append.assoc)

text \<open>\<open>text.replace(old, new)\<close> for a non-empty \<open>old\<close>: leftmost occurrences, not overlapping.\<close>

function py_replace :: "string \<Rightarrow> string \<Rightarrow> string \<Rightarrow> string" where
  "py_replace old new s =
     (if old = [] \<or> s = [] then s
      else if py_startswith old s then new @ py_replace old new (drop (length old) s)
      else hd s # py_replace old new (tl s))"
  by auto
termination
  by (relation "measure (\<lambda>(old, new, s). length s)") auto

declare py_replace.simps [simp del]

lemma py_replace_skip: "c \<notin> set a \<Longrightarrow> py_replace (c # cs) new (a @ b) = a @ py_replace (c # cs) new b"
proof (induction a)
  case (Cons x a)
  then show ?case
    by (subst py_replace.simps) (auto simp: py_startswith_def)
qed simp

definition char_between :: "char \<Rightarrow> char \<Rightarrow> char \<Rightarrow> bool" where
  "char_between a b c \<longleftrightarrow> (of_char a :: nat) \<le> of_char c \<and> (of_char c :: nat) \<le> of_char b"

definition is_digit :: "char \<Rightarrow> bool" where
  "is_digit c \<longleftrightarrow> char_between CHR ''0'' CHR ''9'' c"

definition to_lower_char :: "char \<Rightarrow> char" where
  "to_lower_char c = (if char_between CHR ''A'' CHR ''Z'' c then char_of ((of_char c :: nat) + 32) else c)"

definition to_upper_char :: "char \<Rightarrow> char" where
  "to_upper_char c = (if char_between CHR ''a'' CHR ''z'' c then char_of ((of_char c :: nat) - 32) else c)"

definition py_lower :: "string \<Rightarrow> string" where
  "py_lower s = map to_lower_char s"

definition py_upper :: "string \<Rightarrow> string" where
  "py_upper s = map to_upper_char s"

text \<open>Decimal rendering (\<open>str(n)\<close>) and the value of a digit string (\<open>int(s, 10)\<close>).\<close>

definition digit_char :: "nat \<Rightarrow> char" where
  "digit_char d = char_of (48 + d)"

definition digit_val :: "char \<Rightarrow> nat" where
  "digit_val c = of_char c - 48"

fun str_of_nat :: "nat \<Rightarrow> string" where
  "str_of_nat n = (if n < 10 then [digit_char n] else str_of_nat (n div 10) @ [digit_char (n mod 10)])"

declare str_of_nat.simps [simp del]

definition str_of_int :: "int \<Rightarrow> string" where
  "str_of_int i = (if i < 0 then CHR ''-'' # str_of_nat (nat (- i)) else str_of_nat (nat i))"

definition nat_of_digits :: "string \<Rightarrow> nat" where
  "nat_of_digits s = foldl (\<lambda>acc c. 10 * acc + digit_val c) 0 s"

text \<open>
  The regular expression \<open>[+-]?[0-9]+\<close> matched against a whole string, with the integer it denotes.
\<close>

definition unsigned_literal :: "string \<Rightarrow> nat option" where
  "unsigned_literal s = (if s \<noteq> [] \<and> list_all is_digit s then Some (nat_of_digits s) else None)"

definition int_literal :: "string \<Rightarrow> int option" where
  "int_literal s = (case s of
     [] \<Rightarrow> None
   | c # cs \<Rightarrow>
       if c = CHR ''-'' then map_option (\<lambda>n. - int n) (unsigned_literal cs)
       else if c = CHR ''+'' then map_option int (unsigned_literal cs)
       else map_option int (unsigned_literal s))"

lemma str_of_nat_nonempty [simp]: "str_of_nat n \<noteq> []"
  by (subst str_of_nat.simps) simp

lemma digit_char_is_digit: "d < 10 \<Longrightarrow> is_digit (digit_char d)"
  by (simp add: is_digit_def digit_char_def char_between_def)

lemma digit_val_char: "d < 10 \<Longrightarrow> digit_val (digit_char d) = d"
  by (simp add: digit_val_def digit_char_def)

lemma str_of_nat_digits: "list_all is_digit (str_of_nat n)"
proof (induction n rule: str_of_nat.induct)
  case (1 n)
  then show ?case
    by (subst str_of_nat.simps) (simp add: digit_char_is_digit)
qed

lemma nat_of_digits_snoc: "nat_of_digits (s @ [c]) = 10 * nat_of_digits s + digit_val c"
  by (simp add: nat_of_digits_def)

lemma nat_of_digits_str_of_nat: "nat_of_digits (str_of_nat n) = n"
proof (induction n rule: str_of_nat.induct)
  case (1 n)
  show ?case
  proof (cases "n < 10")
    case True
    then show ?thesis
      by (subst str_of_nat.simps) (simp add: nat_of_digits_def digit_val_char)
  next
    case False
    with 1 show ?thesis
      by (subst str_of_nat.simps) (simp add: nat_of_digits_snoc digit_val_char)
  qed
qed

lemma unsigned_literal_str_of_nat [simp]: "unsigned_literal (str_of_nat n) = Some n"
  by (simp add: unsigned_literal_def str_of_nat_digits nat_of_digits_str_of_nat)

lemma str_of_nat_inject [simp]: "str_of_nat m = str_of_nat n \<longleftrightarrow> m = n"
  by (metis nat_of_digits_str_of_nat)

lemma str_of_nat_not_sign: "str_of_nat n = c # cs \<Longrightarrow> c \<noteq> CHR ''-'' \<and> c \<noteq> CHR ''+''"
proof -
  assume "str_of_nat n = c # cs"
  with str_of_nat_digits [of n] have "is_digit c" by simp
  moreover have "\<not> is_digit CHR ''-''" and "\<not> is_digit CHR ''+''"
    by (simp_all add: is_digit_def char_between_def)
  ultimately show ?thesis by blast
qed

lemma int_literal_str_of_int: "int_literal (str_of_int i) = Some i"
proof (cases "i < 0")
  case True
  then show ?thesis by (simp add: int_literal_def str_of_int_def)
next
  case False
  obtain c cs where s: "str_of_nat (nat i) = c # cs"
    using str_of_nat_nonempty by (meson neq_Nil_conv)
  then have "unsigned_literal (c # cs) = Some (nat i)"
    by (metis unsigned_literal_str_of_nat)
  with s False show ?thesis
    using str_of_nat_not_sign [OF s] by (simp add: int_literal_def str_of_int_def)
qed

lemma py_lstrip_no_lead: "py_lstrip s = c # cs \<Longrightarrow> \<not> py_space c"
  unfolding py_lstrip_def by (induction s) (auto split: if_splits)

lemma py_blank_iff: "py_blank s \<longleftrightarrow> (\<forall>c \<in> set s. py_space c)"
proof (cases "py_lstrip s")
  case Nil
  then show ?thesis
    by (auto simp: py_blank_def py_strip_def py_rstrip_def py_lstrip_def dropWhile_eq_Nil_conv
        dest: set_dropWhileD)
next
  case (Cons c cs)
  then have c: "\<not> py_space c" by (rule py_lstrip_no_lead)
  from Cons have "c \<in> set s"
    by (metis list.set_intros(1) py_lstrip_def set_dropWhileD)
  with c Cons show ?thesis
    by (auto simp: py_blank_def py_strip_def py_rstrip_def dropWhile_eq_Nil_conv)
qed

lemma py_blank_Nil [simp]: "py_blank []"
  by (simp add: py_blank_iff)

lemma py_blank_iff_strip: "py_strip s = [] \<longleftrightarrow> py_blank s"
  by (simp add: py_blank_def)

lemma py_partition_None: "py_partition c s = (a, None) \<Longrightarrow> a = s \<and> c \<notin> set s"
  by (induction s arbitrary: a) (auto split: if_splits prod.splits)

lemma py_partition_Some: "py_partition c s = (a, Some b) \<Longrightarrow> s = a @ c # b \<and> c \<notin> set a"
  by (induction s arbitrary: a) (auto split: if_splits prod.splits)

lemma py_partition_at: "c \<notin> set a \<Longrightarrow> py_partition c (a @ c # b) = (a, Some b)"
  by (induction a) auto

lemma py_split_nonempty: "py_split c s \<noteq> []"
  by (induction s) (auto split: list.splits)

lemma py_split_none: "c \<notin> set s \<Longrightarrow> py_split c s = [s]"
  by (induction s) auto

lemma py_split_at: "c \<notin> set a \<Longrightarrow> py_split c (a @ c # b) = a # py_split c b"
  by (induction a) auto

lemma py_split_join: "py_join [c] (py_split c s) = s"
proof (induction s)
  case Nil
  then show ?case by simp
next
  case (Cons x s)
  then show ?case
    using py_split_nonempty [of c s]
    by (cases "py_split c s"; cases "tl (py_split c s)") (auto split: list.splits)
qed


section \<open>Computations over a state\<close>

text \<open>
  A method of a stateful class is a function of the object's state: it returns or raises, and leaves a
  state behind in both cases. \<open>seq m f\<close> runs \<open>m\<close> and, unless it raised, the rest \<open>f\<close> on its value.
\<close>

type_synonym ('s, 'e, 'a) comp = "'s \<Rightarrow> ('e + 'a) \<times> 's"

definition ret :: "'a \<Rightarrow> ('s, 'e, 'a) comp" where
  "ret x s = (Inr x, s)"

definition throw :: "'e \<Rightarrow> ('s, 'e, 'a) comp" where
  "throw e s = (Inl e, s)"

definition seq :: "('s, 'e, 'a) comp \<Rightarrow> ('a \<Rightarrow> ('s, 'e, 'b) comp) \<Rightarrow> ('s, 'e, 'b) comp" where
  "seq m f s = (case m s of (Inl e, t) \<Rightarrow> (Inl e, t) | (Inr x, t) \<Rightarrow> f x t)"

definition guard_or :: "bool \<Rightarrow> 'e \<Rightarrow> ('s, 'e, unit) comp" where
  "guard_or b e = (if b then ret () else throw e)"

lemma ret_run [store_simps]: "ret x s = (Inr x, s)"
  by (simp add: ret_def)

lemma throw_run [store_simps]: "throw e s = (Inl e, s)"
  by (simp add: throw_def)

lemma seq_run_Inr: "m s = (Inr x, t) \<Longrightarrow> seq m f s = f x t"
  by (simp add: seq_def)

lemma seq_run_Inl: "m s = (Inl e, t) \<Longrightarrow> seq m f s = (Inl e, t)"
  by (simp add: seq_def)

lemma seq_eq_Inr:
  "seq m f s = (Inr y, u) \<longleftrightarrow> (\<exists>x t. m s = (Inr x, t) \<and> f x t = (Inr y, u))"
  by (auto simp: seq_def split: prod.splits sum.splits)

lemma seq_eq_Inl:
  "seq m f s = (Inl e, u) \<longleftrightarrow>
     m s = (Inl e, u) \<or> (\<exists>x t. m s = (Inr x, t) \<and> f x t = (Inl e, u))"
  by (auto simp: seq_def split: prod.splits sum.splits)

lemma seq_ret [simp]: "seq (ret x) f = f x"
  by (simp add: fun_eq_iff seq_def ret_def)

lemma seq_throw [simp]: "seq (throw e) f = throw e"
  by (simp add: fun_eq_iff seq_def throw_def)

lemma seq_assoc: "seq (seq m f) g = seq m (\<lambda>x. seq (f x) g)"
  by (auto simp: fun_eq_iff seq_def split: prod.splits sum.splits)

lemma guard_or_run [store_simps]: "guard_or b e s = (if b then Inr () else Inl e, s)"
  by (simp add: guard_or_def ret_def throw_def)


text \<open>
  \<open>keeps P m Q\<close>: whether \<open>m\<close> returns or raises, it leaves a state with \<open>P\<close>, and a value it returns has \<open>Q\<close>.
\<close>

definition keeps :: "('s \<Rightarrow> bool) \<Rightarrow> ('s, 'e, 'a) comp \<Rightarrow> ('a \<Rightarrow> bool) \<Rightarrow> bool" where
  "keeps P m Q \<longleftrightarrow> (\<forall>s. P s \<longrightarrow> P (snd (m s)) \<and> (\<forall>x. fst (m s) = Inr x \<longrightarrow> Q x))"

named_theorems keep_rules
  \<open>what keeps an invariant\<close>

lemma keepsI: "(\<And>s. P s \<Longrightarrow> P (snd (m s)) \<and> (\<forall>x. fst (m s) = Inr x \<longrightarrow> Q x)) \<Longrightarrow> keeps P m Q"
  by (simp add: keeps_def)

lemma keeps_state: "keeps P m Q \<Longrightarrow> P s \<Longrightarrow> P (snd (m s))"
  by (simp add: keeps_def)

lemma keeps_seq [keep_rules]:
  assumes "keeps P m Q" "\<And>x. Q x \<Longrightarrow> keeps P (f x) R"
  shows "keeps P (seq m f) R"
  using assms unfolding keeps_def seq_def by (fastforce split: prod.splits sum.splits)

lemma keeps_ret [keep_rules]: "Q x \<Longrightarrow> keeps P (ret x) Q"
  by (simp add: keeps_def ret_def)

lemma keeps_throw [keep_rules]: "keeps P (throw e) Q"
  by (simp add: keeps_def throw_def)

lemma keeps_guard [keep_rules]: "keeps P (guard_or b e) (\<lambda>u. b)"
  by (simp add: keeps_def guard_or_def ret_def throw_def)

lemma keeps_weaken: "keeps P m Q \<Longrightarrow> (\<And>x. Q x \<Longrightarrow> R x) \<Longrightarrow> keeps P m R"
  by (auto simp: keeps_def)


section \<open>Invariants of step relations\<close>

inductive reach :: "('s \<Rightarrow> bool) \<Rightarrow> ('s \<Rightarrow> 's \<Rightarrow> bool) \<Rightarrow> 's \<Rightarrow> bool"
  for init :: "'s \<Rightarrow> bool" and step :: "'s \<Rightarrow> 's \<Rightarrow> bool" where
  reach_init: "init s \<Longrightarrow> reach init step s"
| reach_step: "reach init step s \<Longrightarrow> step s t \<Longrightarrow> reach init step t"

locale invariant_system =
  fixes init :: "'s \<Rightarrow> bool"
    and step :: "'s \<Rightarrow> 's \<Rightarrow> bool"
    and inv :: "'s \<Rightarrow> bool"
  assumes inv_init: "init s \<Longrightarrow> inv s"
    and inv_step: "inv s \<Longrightarrow> step s t \<Longrightarrow> inv t"
begin

lemma reach_inv: "reach init step s \<Longrightarrow> inv s"
  by (induction rule: reach.induct) (auto intro: inv_init inv_step)

end

end
