(* ===== verification/Json.thy ===== *)
theory Json
  imports Prelude "HOL-Library.List_Lexorder" "HOL-Library.Char_ord"
begin

text \<open>
  JSON documents as the program's stores and messages see them, after \<open>json.loads\<close> and before
  \<open>json.dumps\<close>: \<open>None\<close>, \<open>bool\<close>, \<open>int\<close>, \<open>float\<close> (carried by the literal that \<open>repr\<close> writes), \<open>str\<close>,
  \<open>list\<close> and \<open>dict\<close> (an association list in insertion order). \<open>canonical\<close> is what
  \<open>json.loads(json.dumps(x, sort_keys=True))\<close> returns: two documents have the same sorted text exactly
  when their canonical documents are equal, so a column or file that holds such a text is modelled by
  the canonical document. A durable JSON file is absent, unreadable (an \<open>OSError\<close>), not JSON at all, or
  holds a document; \<open>os.replace\<close> of a complete temporary file makes a write atomic.
\<close>

datatype json =
    JNull
  | JBool bool
  | JInt int
  | JFloat string
  | JStr string
  | JList "json list"
  | JObj "(string \<times> json) list"

type_synonym obj = "(string \<times> json) list"

fun is_jstr :: "json \<Rightarrow> bool" where
  "is_jstr (JStr s) = True"
| "is_jstr v = False"

text \<open>\<open>isinstance(v, int) and not isinstance(v, bool)\<close>.\<close>

fun is_strict_int :: "json \<Rightarrow> bool" where
  "is_strict_int (JInt n) = True"
| "is_strict_int v = False"

fun is_jbool :: "json \<Rightarrow> bool" where
  "is_jbool (JBool b) = True"
| "is_jbool v = False"

text \<open>\<open>value.get(key, default)\<close>, \<open>key in value\<close> and \<open>set(value)\<close> on a dict.\<close>

definition jget :: "obj \<Rightarrow> string \<Rightarrow> json \<Rightarrow> json" where
  "jget d k v0 = (case map_of d k of None \<Rightarrow> v0 | Some v \<Rightarrow> v)"

definition jhas :: "obj \<Rightarrow> string \<Rightarrow> bool" where
  "jhas d k \<longleftrightarrow> map_of d k \<noteq> None"

definition jkeys :: "obj \<Rightarrow> string list" where
  "jkeys d = map fst d"

text \<open>\<open>value in (True, False)\<close>: Python compares \<open>1\<close>, \<open>1.0\<close>, \<open>0\<close> and \<open>0.0\<close> equal to booleans.\<close>

fun in_true_false :: "json \<Rightarrow> bool" where
  "in_true_false (JBool b) = True"
| "in_true_false (JInt n) = (n = 0 \<or> n = 1)"
| "in_true_false (JFloat r) = (r \<in> {''0.0'', ''-0.0'', ''1.0''})"
| "in_true_false v = False"

primrec canonical :: "json \<Rightarrow> json" where
  "canonical JNull = JNull"
| "canonical (JBool b) = JBool b"
| "canonical (JInt n) = JInt n"
| "canonical (JFloat r) = JFloat r"
| "canonical (JStr s) = JStr s"
| "canonical (JList xs) = JList (map canonical xs)"
| "canonical (JObj kvs) = JObj (sort_key fst (map (map_prod id canonical) kvs))"

lemma jget_sort:
  assumes "distinct (map fst d)"
  shows "jget (sort_key fst d) k v = jget d k v"
proof -
  have "map_of (sort_key fst d) = map_of d"
    using assms by (intro map_of_inject_set [THEN iffD2])
      (auto simp: distinct_map inj_on_def intro!: distinct_sort)
  then show ?thesis by (simp add: jget_def)
qed

lemma canonical_flat_obj:
  "(\<forall>(k, v) \<in> set d. canonical v = v) \<Longrightarrow> canonical (JObj d) = JObj (sort_key fst d)"
  by (induction d) (auto simp: map_idI)

text \<open>An optional string, and its rendering in a document.\<close>

definition opt_str :: "string option \<Rightarrow> json" where
  "opt_str v = (case v of None \<Rightarrow> JNull | Some s \<Rightarrow> JStr s)"

definition opt_int :: "int option \<Rightarrow> json" where
  "opt_int v = (case v of None \<Rightarrow> JNull | Some n \<Rightarrow> JInt n)"

lemma opt_str_simps [simp]: "opt_str None = JNull" "opt_str (Some s) = JStr s"
  by (simp_all add: opt_str_def)

lemma opt_int_simps [simp]: "opt_int None = JNull" "opt_int (Some n) = JInt n"
  by (simp_all add: opt_int_def)

lemma canonical_opt [simp]: "canonical (opt_str v) = opt_str v" "canonical (opt_int w) = opt_int w"
  by (cases v; simp) (cases w; simp)


section \<open>Durable JSON files\<close>

text \<open>
  What a file holds: nothing (\<open>FileNotFoundError\<close>), bytes that are not UTF-8 (\<open>UnicodeDecodeError\<close>), text that
  is not JSON (\<open>JSONDecodeError\<close>), or a document. A fault of the operating system during an operation is an
  \<open>OSError\<close> of the read, of the creation of the directory, of the write or of the removal.
\<close>

datatype file_state = Absent | Not_text | Not_json | Doc json

datatype io_fault = No_fault | Read_fault | Mkdir_fault | Write_fault | Unlink_fault

record json_file =
  content :: file_state
  fault :: io_fault

text \<open>
  Errors of the stores: the module's own error class with its message, an \<open>OSError\<close> or a
  \<open>UnicodeDecodeError\<close> that the module lets through, an \<open>OverflowError\<close> of the calendar, and the
  \<open>ValueError\<close> of a decoder.
\<close>

datatype store_error = StoreError string | OSError | UnicodeDecodeError | OverflowError

text \<open>
  Writing a file: \<open>mkdir\<close>, \<open>tempfile\<close>, \<open>json.dump(sort_keys=True)\<close>, \<open>fsync\<close>, \<open>os.replace\<close>. Either the file
  holds the whole new document or an \<open>OSError\<close> leaves it as it was; only the errors after \<open>mkdir\<close> are turned
  into the module's own. Removing the temporary file afterwards is taken not to fail.
\<close>

definition replace_file :: "string \<Rightarrow> json \<Rightarrow> (json_file, store_error, unit) comp" where
  "replace_file message doc f = (case fault f of
     Mkdir_fault \<Rightarrow> (Inl OSError, f)
   | Write_fault \<Rightarrow> (Inl (StoreError message), f)
   | _ \<Rightarrow> (Inr (), f\<lparr>content := Doc (canonical doc)\<rparr>))"

text \<open>\<open>path.unlink()\<close>, where a missing file is no error.\<close>

definition unlink_file :: "string \<Rightarrow> (json_file, store_error, unit) comp" where
  "unlink_file message f =
     (if content f = Absent then (Inr (), f)
      else if fault f = Unlink_fault then (Inl (StoreError message), f)
      else (Inr (), f\<lparr>content := Absent\<rparr>))"

lemma replace_file_ok [store_simps]:
  "fault f \<noteq> Mkdir_fault \<Longrightarrow> fault f \<noteq> Write_fault \<Longrightarrow>
     replace_file message doc f = (Inr (), f\<lparr>content := Doc (canonical doc)\<rparr>)"
  by (cases "fault f") (simp_all add: replace_file_def)

lemma replace_file_cases:
  "replace_file message doc f = (Inl e, g) \<Longrightarrow> g = f"
  "replace_file message doc f = (Inr u, g) \<Longrightarrow> g = f\<lparr>content := Doc (canonical doc)\<rparr>"
  by (auto simp: replace_file_def split: io_fault.splits)

lemma unlink_file_cases:
  "unlink_file message f = (Inl e, g) \<Longrightarrow> g = f"
  "unlink_file message f = (Inr u, g) \<Longrightarrow> g = f\<lparr>content := Absent\<rparr>"
  by (auto simp: unlink_file_def split: if_splits)

text \<open>
  The contract of a store that keeps one value in a JSON file: it writes the value's document and reads
  it back through a validating decoder that undoes the encoding on every legal value. Reading after a
  successful write returns the value written, and a failed write leaves the old value readable.
\<close>

locale json_store =
  fixes encode :: "'a \<Rightarrow> json"
    and decode :: "json \<Rightarrow> 'e + 'a"
    and legal :: "'a \<Rightarrow> bool"
  assumes decode_encode: "legal x \<Longrightarrow> decode (canonical (encode x)) = Inr x"
begin

lemma read_after_write:
  assumes "legal x" and "replace_file message (encode x) f = (Inr (), g)"
  shows "\<exists>doc. content g = Doc doc \<and> decode doc = Inr x"
  using assms by (auto dest!: replace_file_cases(2) simp: decode_encode)

lemma encode_inject: "legal x \<Longrightarrow> legal y \<Longrightarrow> encode x = encode y \<Longrightarrow> x = y"
  by (metis decode_encode sum.inject(2))

text \<open>The files such a store leaves: absent, or the document of a legal value.\<close>

definition stored :: "file_state \<Rightarrow> bool" where
  "stored c \<longleftrightarrow> c = Absent \<or> (\<exists>x. legal x \<and> c = Doc (canonical (encode x)))"

lemma stored_Absent: "stored Absent"
  by (simp add: stored_def)

lemma stored_replace:
  "stored (content f) \<Longrightarrow> legal x \<Longrightarrow> replace_file message (encode x) f = (r, g) \<Longrightarrow> stored (content g)"
  by (cases r) (auto simp: stored_def dest!: replace_file_cases)

lemma stored_unlink: "stored (content f) \<Longrightarrow> unlink_file message f = (r, g) \<Longrightarrow> stored (content g)"
  by (cases r) (auto simp: stored_def dest!: unlink_file_cases)

lemma stored_decodes: "stored (Doc d) \<Longrightarrow> \<exists>x. legal x \<and> decode d = Inr x"
  by (auto simp: stored_def decode_encode)

lemma stored_cases:
  assumes "stored c"
  obtains "c = Absent" | d x where "c = Doc d" "decode d = Inr x" "legal x"
  using assms by (auto simp: stored_def decode_encode)

end

end
