(* ===== verification/Control.thy ===== *)
theory Control
  imports Json
begin

text \<open>
  The durable operator-control store (\<open>control.py\<close>, class \<open>ControlStore\<close>): the three SQLite tables, the
  row-level queries and updates of the class's internals, and one definition per public command.

  A table is a list of rows in insertion order. The text columns hold the texts the code writes
  (\<open>row_ack\<close>, \<open>intake\<close>), and decoding them can fail, as \<open>CommandAcknowledgement(...)\<close> and
  \<open>IntakeState(...)\<close> do. The \<open>payload\<close> column holds the canonical document of
  \<open>json.dumps(payload, sort_keys=True)\<close>, or nothing when the text is not JSON. The injected clock is a
  sequence of readings, consumed one per \<open>_timestamp()\<close> call; a reading without a timezone raises.
  Every public method runs in one \<open>BEGIN IMMEDIATE\<close> transaction under the store's lock: an exception
  rolls the tables back, and an SQLite failure (the store cannot be opened, or a statement fails) is an
  environment input of the store.
\<close>

section \<open>Vocabulary\<close>

datatype intake_state = RUNNING | STOPPING | STOPPED

definition intake_value :: "intake_state \<Rightarrow> string" where
  "intake_value i = (case i of RUNNING \<Rightarrow> ''running'' | STOPPING \<Rightarrow> ''stopping'' | STOPPED \<Rightarrow> ''stopped'')"

definition intake_of_value :: "string \<Rightarrow> intake_state option" where
  "intake_of_value s =
     (if s = ''running'' then Some RUNNING else if s = ''stopping'' then Some STOPPING
      else if s = ''stopped'' then Some STOPPED else None)"

datatype acknowledgement = ACCEPTED | COMPLETED | SUPERSEDED | NOT_FULFILLED

definition ack_value :: "acknowledgement \<Rightarrow> string" where
  "ack_value a = (case a of ACCEPTED \<Rightarrow> ''accepted'' | COMPLETED \<Rightarrow> ''completed''
     | SUPERSEDED \<Rightarrow> ''superseded'' | NOT_FULFILLED \<Rightarrow> ''not fulfilled'')"

definition ack_of_value :: "string \<Rightarrow> acknowledgement option" where
  "ack_of_value s =
     (if s = ''accepted'' then Some ACCEPTED else if s = ''completed'' then Some COMPLETED
      else if s = ''superseded'' then Some SUPERSEDED
      else if s = ''not fulfilled'' then Some NOT_FULFILLED else None)"

datatype control_error =
    ControlStoreError string
  | RequestIdError string
  | PayloadMismatchError string
  | ResumeBlockedError string
  | StopAfterRejectedError string
  | InvalidAfterValue json
  | NextIssueRejectedError json
  | HandoffRejectedError string
  | RecoveryRejectedError string json string
  | PyTypeError

definition STOP_KIND :: string where "STOP_KIND = ''stop''"
definition STOP_AFTER_KIND :: string where "STOP_AFTER_KIND = ''stop_after''"
definition RESUME_KIND :: string where "RESUME_KIND = ''resume''"
definition NEXT_ISSUE_KIND :: string where "NEXT_ISSUE_KIND = ''next_issue''"
definition HANDOFF_KIND :: string where "HANDOFF_KIND = ''handoff''"
definition RECOVERY_RETRY_KIND :: string where "RECOVERY_RETRY_KIND = ''recovery_retry''"
definition RECOVERY_RELEASE_KIND :: string where "RECOVERY_RELEASE_KIND = ''recovery_release''"
definition ERRORS_RESET_KIND :: string where "ERRORS_RESET_KIND = ''errors_reset''"

lemmas kind_defs = STOP_KIND_def STOP_AFTER_KIND_def RESUME_KIND_def NEXT_ISSUE_KIND_def HANDOFF_KIND_def
  RECOVERY_RETRY_KIND_def RECOVERY_RELEASE_KIND_def ERRORS_RESET_KIND_def

definition STOP_PLAN_KINDS :: "string list" where
  "STOP_PLAN_KINDS = [STOP_KIND, STOP_AFTER_KIND]"


section \<open>Tables\<close>

record command_row =
  row_request_id :: string
  row_sequence :: int
  row_kind :: string
  row_payload :: "json option"
  row_ack :: string
  row_detail :: string
  row_created_at :: string
  row_updated_at :: string

record command_record =
  rec_request_id :: string
  rec_sequence :: int
  rec_kind :: string
  rec_ack :: acknowledgement
  rec_detail :: string
  rec_created_at :: string
  rec_updated_at :: string

record state_row =
  intake :: string
  pending_command_id :: "string option"
  stop_after_requested :: "int option"
  stop_after_remaining :: "int option"
  stop_after_active_attempt_id :: "string option"
  latest_counted_attempt_id :: "string option"
  latest_counted_outcome :: "string option"
  next_issue_number :: "int option"
  next_issue_request_id :: "string option"
  handoff_request_id :: "string option"
  handoff_accepted_at :: "string option"
  handoff_begun :: "int option"
  handoff_phase :: "string option"

record counted_row =
  counted_attempt_id :: string
  counted_plan_request_id :: string
  counted_outcome :: string
  counted_at :: string

record tables =
  commands :: "command_row list"
  control_state :: "state_row option"
  counted_attempts :: "counted_row list"

datatype instant = Aware string | Naive

datatype sqlite_condition = Sqlite_ok | Sqlite_no_open | Sqlite_no_commit

record control_store =
  tables :: tables
  clock :: "nat \<Rightarrow> instant"
  ticks :: nat
  sqlite :: sqlite_condition

type_synonym 'a ctl = "(control_store, control_error, 'a) comp"

text \<open>The state row \<open>_initialize\<close> inserts into a fresh database, with every added column \<open>NULL\<close>.\<close>

definition initial_state_row :: state_row where
  "initial_state_row =
     \<lparr>intake = intake_value RUNNING, pending_command_id = None,
      stop_after_requested = None, stop_after_remaining = None, stop_after_active_attempt_id = None,
      latest_counted_attempt_id = None, latest_counted_outcome = None,
      next_issue_number = None, next_issue_request_id = None,
      handoff_request_id = None, handoff_accepted_at = None, handoff_begun = None,
      handoff_phase = None\<rparr>"

text \<open>
  \<open>_initialize\<close> creates the missing tables and inserts the state row unless it exists
  (\<open>INSERT OR IGNORE\<close>); a store that already holds one is left as it is.
\<close>

definition initialize :: "unit ctl" where
  "initialize s = (case sqlite s of
     Sqlite_no_open \<Rightarrow> (Inl (ControlStoreError ''Control store could not be opened''), s)
   | Sqlite_no_commit \<Rightarrow> (Inl (ControlStoreError ''Control store could not be initialized''), s)
   | Sqlite_ok \<Rightarrow>
       (Inr (), s\<lparr>tables := (tables s)\<lparr>control_state :=
          Some (case control_state (tables s) of None \<Rightarrow> initial_state_row | Some r \<Rightarrow> r)\<rparr>\<rparr>))"

definition fresh_store :: "(nat \<Rightarrow> instant) \<Rightarrow> sqlite_condition \<Rightarrow> control_store" where
  "fresh_store clk q =
     \<lparr>tables = \<lparr>commands = [], control_state = Some initial_state_row, counted_attempts = []\<rparr>,
      clock = clk, ticks = 0, sqlite = q\<rparr>"


section \<open>Internals\<close>

text \<open>One transaction: an exception rolls the tables back.\<close>

definition transaction :: "'a ctl \<Rightarrow> 'a ctl" where
  "transaction body s = (case sqlite s of
     Sqlite_no_open \<Rightarrow> (Inl (ControlStoreError ''Control store could not be opened''), s)
   | Sqlite_no_commit \<Rightarrow> (Inl (ControlStoreError ''Control command could not be committed''), s)
   | Sqlite_ok \<Rightarrow> (case body s of
       (Inl e, t) \<Rightarrow> (Inl e, t\<lparr>tables := tables s\<rparr>)
     | (Inr x, t) \<Rightarrow> (Inr x, t)))"

text \<open>A read-only connection, with the error text of the method that opens it.\<close>

definition reading :: "string \<Rightarrow> 'a ctl \<Rightarrow> 'a ctl" where
  "reading failure body s = (case sqlite s of
     Sqlite_no_open \<Rightarrow> (Inl (ControlStoreError ''Control store could not be opened''), s)
   | Sqlite_no_commit \<Rightarrow> (Inl (ControlStoreError failure), s)
   | Sqlite_ok \<Rightarrow> body s)"

definition timestamp :: "string ctl" where
  "timestamp s = (case clock s (ticks s) of
     Naive \<Rightarrow> (Inl (ControlStoreError ''Control clock must include a timezone''), s\<lparr>ticks := Suc (ticks s)\<rparr>)
   | Aware t \<Rightarrow> (Inr t, s\<lparr>ticks := Suc (ticks s)\<rparr>))"

definition state_row_locked :: "state_row ctl" where
  "state_row_locked s = (case control_state (tables s) of
     None \<Rightarrow> (Inl (ControlStoreError ''Control state is missing''), s)
   | Some r \<Rightarrow> (Inr r, s))"

definition update_state :: "(state_row \<Rightarrow> state_row) \<Rightarrow> unit ctl" where
  "update_state f s =
     (Inr (), s\<lparr>tables := (tables s)\<lparr>control_state := map_option f (control_state (tables s))\<rparr>\<rparr>)"

definition select_rows :: "(command_row \<Rightarrow> bool) \<Rightarrow> command_row list ctl" where
  "select_rows P s = (Inr (sort_key row_sequence (filter P (commands (tables s)))), s)"

definition acknowledge_rows ::
  "(command_row \<Rightarrow> bool) \<Rightarrow> acknowledgement \<Rightarrow> string \<Rightarrow> string \<Rightarrow> command_row list \<Rightarrow> command_row list" where
  "acknowledge_rows P a d t rows =
     map (\<lambda>r. if P r then r\<lparr>row_ack := ack_value a, row_detail := d, row_updated_at := t\<rparr> else r) rows"

definition update_rows ::
  "(command_row \<Rightarrow> bool) \<Rightarrow> acknowledgement \<Rightarrow> string \<Rightarrow> string \<Rightarrow> unit ctl" where
  "update_rows P a d t s =
     (Inr (), s\<lparr>tables := (tables s)\<lparr>commands := acknowledge_rows P a d t (commands (tables s))\<rparr>\<rparr>)"

definition accepted_of :: "string list \<Rightarrow> command_row \<Rightarrow> bool" where
  "accepted_of kinds r \<longleftrightarrow> row_kind r \<in> set kinds \<and> row_ack r = ack_value ACCEPTED"

definition accepted_id :: "string \<Rightarrow> command_row \<Rightarrow> bool" where
  "accepted_id rid r \<longleftrightarrow> row_request_id r = rid \<and> row_ack r = ack_value ACCEPTED"

definition record_from_row :: "command_row \<Rightarrow> control_error + command_record" where
  "record_from_row r = (case ack_of_value (row_ack r) of
     None \<Rightarrow> Inl (ControlStoreError ''Control command is malformed'')
   | Some a \<Rightarrow> Inr \<lparr>rec_request_id = row_request_id r, rec_sequence = row_sequence r,
       rec_kind = row_kind r, rec_ack = a, rec_detail = row_detail r,
       rec_created_at = row_created_at r, rec_updated_at = row_updated_at r\<rparr>)"

definition lift_row :: "command_row \<Rightarrow> command_record ctl" where
  "lift_row r s = (record_from_row r, s)"

definition find_row :: "string \<Rightarrow> tables \<Rightarrow> command_row option" where
  "find_row rid db = find (\<lambda>r. row_request_id r = rid) (commands db)"

definition find_locked :: "string \<Rightarrow> command_record option ctl" where
  "find_locked rid s = (case find_row rid (tables s) of
     None \<Rightarrow> (Inr None, s)
   | Some r \<Rightarrow> (case record_from_row r of Inl e \<Rightarrow> (Inl e, s) | Inr c \<Rightarrow> (Inr (Some c), s)))"

definition max_sequence :: "command_row list \<Rightarrow> int" where
  "max_sequence rows = (if rows = [] then 0 else Max (set (map row_sequence rows)))"

text \<open>A second row with the same primary key is an SQLite integrity error.\<close>

definition insert_locked ::
  "string \<Rightarrow> string \<Rightarrow> obj \<Rightarrow> acknowledgement \<Rightarrow> string \<Rightarrow> command_record ctl" where
  "insert_locked rid kind payload ack detail =
     seq timestamp (\<lambda>t s.
       if find_row rid (tables s) \<noteq> None
       then (Inl (ControlStoreError ''Control command could not be committed''), s)
       else
         (let n = max_sequence (commands (tables s)) + 1;
              row = \<lparr>row_request_id = rid, row_sequence = n, row_kind = kind,
                     row_payload = Some (canonical (JObj payload)), row_ack = ack_value ack,
                     row_detail = detail, row_created_at = t, row_updated_at = t\<rparr>
          in (Inr \<lparr>rec_request_id = rid, rec_sequence = n, rec_kind = kind, rec_ack = ack,
                   rec_detail = detail, rec_created_at = t, rec_updated_at = t\<rparr>,
              s\<lparr>tables := (tables s)\<lparr>commands := commands (tables s) @ [row]\<rparr>\<rparr>)))"

definition ensure_payload_identical :: "command_record \<Rightarrow> string \<Rightarrow> obj \<Rightarrow> unit ctl" where
  "ensure_payload_identical existing kind payload s =
     (if rec_kind existing \<noteq> kind
      then (Inl (PayloadMismatchError (''Request ID '' @ rec_request_id existing
              @ '' was already used for a different command'')), s)
      else (case find_row (rec_request_id existing) (tables s) of
              None \<Rightarrow> (Inl (ControlStoreError ''Control command is missing''), s)
            | Some r \<Rightarrow>
                if row_payload r \<noteq> Some (canonical (JObj payload))
                then (Inl (PayloadMismatchError (''Request ID '' @ rec_request_id existing
                        @ '' was already used with a different payload'')), s)
                else (Inr (), s)))"

definition intake_locked :: "intake_state ctl" where
  "intake_locked = seq state_row_locked (\<lambda>r. case intake_of_value (intake r) of
     None \<Rightarrow> throw (ControlStoreError ''Control state is malformed'')
   | Some i \<Rightarrow> ret i)"

definition pending_locked :: "string option ctl" where
  "pending_locked = seq state_row_locked (\<lambda>r. ret (pending_command_id r))"

definition set_intake_locked :: "intake_state \<Rightarrow> string option \<Rightarrow> unit ctl" where
  "set_intake_locked i p = update_state (\<lambda>r. r\<lparr>intake := intake_value i, pending_command_id := p\<rparr>)"

definition accepted_plans_of_kinds_locked :: "string list \<Rightarrow> string list ctl" where
  "accepted_plans_of_kinds_locked kinds =
     seq (select_rows (accepted_of kinds)) (\<lambda>rows. ret (map row_request_id rows))"

definition supersede_plans_locked :: "string list \<Rightarrow> string \<Rightarrow> string list ctl" where
  "supersede_plans_locked kinds replacement_id =
     seq (accepted_plans_of_kinds_locked kinds) (\<lambda>superseded.
       if superseded \<noteq> [] then
         seq timestamp (\<lambda>t.
         seq (update_rows (accepted_of kinds) SUPERSEDED (''superseded by '' @ replacement_id) t) (\<lambda>_.
         ret superseded))
       else ret superseded)"

definition set_stop_plan_locked :: "int \<Rightarrow> int \<Rightarrow> string option \<Rightarrow> unit ctl" where
  "set_stop_plan_locked requested remaining active_attempt_id =
     update_state (\<lambda>r. r\<lparr>stop_after_requested := Some requested, stop_after_remaining := Some remaining,
       stop_after_active_attempt_id := active_attempt_id,
       latest_counted_attempt_id := None, latest_counted_outcome := None\<rparr>)"

definition clear_stop_plan_locked :: "unit ctl" where
  "clear_stop_plan_locked =
     update_state (\<lambda>r. r\<lparr>stop_after_requested := None, stop_after_remaining := None,
       stop_after_active_attempt_id := None\<rparr>)"

definition set_handoff_locked ::
  "string option \<Rightarrow> string option \<Rightarrow> bool \<Rightarrow> string option \<Rightarrow> unit ctl" where
  "set_handoff_locked request_id accepted_at begun phase =
     update_state (\<lambda>r. r\<lparr>handoff_request_id := request_id, handoff_accepted_at := accepted_at,
       handoff_begun := Some (if begun then 1 else 0), handoff_phase := phase\<rparr>)"

definition handoff_begun_locked :: "bool ctl" where
  "handoff_begun_locked = seq state_row_locked (\<lambda>r.
     case handoff_request_id r of
       None \<Rightarrow> ret False
     | Some h \<Rightarrow> seq (find_locked h) (\<lambda>record. ret (case record of
         None \<Rightarrow> False
       | Some c \<Rightarrow> rec_ack c = ACCEPTED
           \<and> (case handoff_begun r of None \<Rightarrow> False | Some b \<Rightarrow> b \<noteq> 0))))"

definition is_tracked_handoff_locked :: "string \<Rightarrow> bool ctl" where
  "is_tracked_handoff_locked rid = seq state_row_locked (\<lambda>r.
     if handoff_request_id r \<noteq> Some rid then ret False
     else seq (find_locked rid) (\<lambda>record. ret (case record of
       None \<Rightarrow> False | Some c \<Rightarrow> rec_ack c = ACCEPTED)))"

definition next_issue_locked :: "(int \<times> string) option ctl" where
  "next_issue_locked = seq state_row_locked (\<lambda>r. ret (case next_issue_number r of
     None \<Rightarrow> None
   | Some n \<Rightarrow> (case next_issue_request_id r of None \<Rightarrow> None | Some q \<Rightarrow> Some (n, q))))"

definition check_request_id :: "string \<Rightarrow> unit ctl" where
  "check_request_id rid =
     (if py_blank rid then throw (RequestIdError ''Request ID must be a non-empty string'')
      else if 128 < length rid then throw (RequestIdError ''Request ID must be at most 128 characters'')
      else ret ())"

text \<open>
  The start of every submit: a recorded request ID with the same kind and payload returns its record,
  one with different content is rejected, and a new one runs the command.
\<close>

definition replay_or :: "string \<Rightarrow> string \<Rightarrow> obj \<Rightarrow> command_record ctl \<Rightarrow> command_record ctl" where
  "replay_or rid kind payload fresh =
     seq (find_locked rid) (\<lambda>existing. case existing of
       Some c \<Rightarrow> seq (ensure_payload_identical c kind payload) (\<lambda>_. ret c)
     | None \<Rightarrow> fresh)"

definition superseded_note :: "string list \<Rightarrow> string" where
  "superseded_note ids = (if ids = [] then '''' else ''; stop plan '' @ py_join '', '' ids @ '' superseded'')"

end
