(* ===== verification/Control_Ops.thy ===== *)
theory Control_Ops
  imports Control
begin

text \<open>
  The public commands of \<open>ControlStore\<close> (\<open>control.py\<close>), one definition per method, in the order of the
  class. A method that raises after its \<open>COMMIT\<close> (decoding the row it just updated) does so outside the
  transaction here as well.
\<close>

section \<open>Argument checks\<close>

text \<open>
  \<open>parse_stop_after\<close> and \<open>parse_next_issue\<close>: the argument is whatever the request carried. The rejection
  carries the offending value, which the message shows with \<open>repr\<close>.
\<close>

definition parse_positive :: "(json \<Rightarrow> control_error) \<Rightarrow> json \<Rightarrow> control_error + int" where
  "parse_positive err v = (case v of
     JBool b \<Rightarrow> Inl (err v)
   | JInt n \<Rightarrow> if n \<le> 0 then Inl (err v) else Inr n
   | JStr s \<Rightarrow> (case int_literal (py_strip s) of
       None \<Rightarrow> Inl (err v)
     | Some n \<Rightarrow> if n \<le> 0 then Inl (err v) else Inr n)
   | _ \<Rightarrow> Inl (err v))"

definition parse_stop_after :: "json \<Rightarrow> control_error + int" where
  "parse_stop_after v = parse_positive InvalidAfterValue v"

definition parse_next_issue :: "json \<Rightarrow> control_error + int" where
  "parse_next_issue v = parse_positive NextIssueRejectedError v"

text \<open>
  \<open>recovery.parse_attempt_id\<close> and \<open>recovery.parse_saved_at\<close>. The rejection carries the argument's name, the
  offending value (shown with \<open>repr\<close> in the message) and the rule it breaks.
\<close>

definition parse_attempt_id :: "json \<Rightarrow> control_error + string" where
  "parse_attempt_id v = (case v of
     JStr s \<Rightarrow>
       if py_blank s then Inl (RecoveryRejectedError ''attempt ID'' v
         ''must be the stable attempt identity (the checkpoint's started_at)'')
       else if 256 < length s then Inl (RecoveryRejectedError ''attempt ID'' v ''must be at most 256 characters'')
       else Inr (py_strip s)
   | _ \<Rightarrow> Inl (RecoveryRejectedError ''attempt ID'' v
         ''must be the stable attempt identity (the checkpoint's started_at)''))"

definition parse_saved_at :: "json \<Rightarrow> control_error + string" where
  "parse_saved_at v = (case v of
     JStr s \<Rightarrow>
       if py_blank s then Inl (RecoveryRejectedError ''--saved-at value'' v
         ''must be a non-empty path or URL where the retained work was secured'')
       else if 1024 < length s then Inl (RecoveryRejectedError ''--saved-at value'' v ''must be at most 1024 characters'')
       else Inr (py_strip s)
   | _ \<Rightarrow> Inl (RecoveryRejectedError ''--saved-at value'' v
         ''must be a non-empty path or URL where the retained work was secured''))"

definition lift_sum :: "control_error + 'a \<Rightarrow> 'a ctl" where
  "lift_sum r s = (r, s)"

definition attempts_noun :: "int \<Rightarrow> string" where
  "attempts_noun n = (if n = 1 then ''1 attempt'' else str_of_int n @ '' attempts'')"

text \<open>An unresolved recovery state that blocks \<open>resume\<close> and \<open>handoff now\<close>.\<close>

record recovery_hold =
  hold_issue_number :: "int option"
  hold_attempt_id :: "string option"
  hold_branch :: "string option"
  hold_phase :: "string option"
  hold_reason :: string

definition nonempty_part :: "string \<Rightarrow> string option \<Rightarrow> string \<Rightarrow> string" where
  "nonempty_part before v after = (case v of
     None \<Rightarrow> '''' | Some x \<Rightarrow> if x = '''' then '''' else before @ x @ after)"

definition hold_where :: "recovery_hold \<Rightarrow> int \<Rightarrow> string" where
  "hold_where h n = ''issue #'' @ str_of_int n
     @ nonempty_part '' (attempt '' (hold_attempt_id h) '')''
     @ nonempty_part '' on '' (hold_branch h) ''''
     @ nonempty_part '' (phase '' (hold_phase h) '')''"

definition describe_hold :: "recovery_hold \<Rightarrow> string" where
  "describe_hold h = (case hold_issue_number h of
     Some n \<Rightarrow> ''Resume is blocked by the retained attempt for '' @ hold_where h n @ '': ''
       @ hold_reason h @ ''. Resolve recovery before resuming intake; no control change was accepted.''
   | None \<Rightarrow> ''Resume is blocked: '' @ hold_reason h @ ''. No control change was accepted.'')"

definition describe_handoff_hold :: "recovery_hold \<Rightarrow> string" where
  "describe_handoff_hold h =
     (if py_contains ''startup reconciliation is still running'' (hold_reason h)
      then ''handoff now is rejected while startup reconciliation is running; no control change was accepted.''
      else (case hold_issue_number h of
        Some n \<Rightarrow> ''handoff now is rejected under a recovery hold for '' @ hold_where h n @ '' (''
          @ hold_reason h @ ''); resolve it with agentctl recovery first. No control change was accepted.''
      | None \<Rightarrow> ''handoff now is rejected: '' @ hold_reason h @ '' No control change was accepted.''))"


section \<open>Stop\<close>

definition record_stop ::
  "string \<Rightarrow> acknowledgement \<Rightarrow> string \<Rightarrow> intake_state \<Rightarrow> string option \<Rightarrow> command_record ctl" where
  "record_stop rid ack detail new_intake new_pending =
     seq (insert_locked rid STOP_KIND [] ack detail) (\<lambda>record.
     seq (set_intake_locked new_intake new_pending) (\<lambda>_.
     ret record))"

text \<open>
  A stop for the active attempt is already pending. A \<open>stop --after\<close> plan, or a handoff the model has not
  begun, is superseded and this stop takes over the wait; otherwise it completes alongside.
\<close>

definition stop_while_stopping :: "string \<Rightarrow> command_record ctl" where
  "stop_while_stopping rid =
     seq pending_locked (\<lambda>pending0.
     seq (supersede_plans_locked [STOP_AFTER_KIND] rid) (\<lambda>superseded_after.
     seq (if superseded_after \<noteq> []
          then seq clear_stop_plan_locked (\<lambda>_. ret (Some rid)) else ret pending0) (\<lambda>pending1.
     seq (case pending1 of
            None \<Rightarrow> ret False
          | Some p \<Rightarrow> seq (is_tracked_handoff_locked p) (\<lambda>tracked.
              if tracked then seq handoff_begun_locked (\<lambda>begun. ret (\<not> begun)) else ret False))
       (\<lambda>replaceable.
     seq (if replaceable then supersede_plans_locked [HANDOFF_KIND] rid else ret [])
       (\<lambda>superseded_handoff.
     seq (if superseded_handoff \<noteq> []
          then seq (set_handoff_locked None None False None) (\<lambda>_. ret (Some rid)) else ret pending1)
       (\<lambda>pending2.
     record_stop rid ACCEPTED
       (''stop already pending; completes when the active attempt finishes''
        @ superseded_note superseded_after @ superseded_note superseded_handoff)
       STOPPING pending2))))))"

definition stop_while_running :: "string \<Rightarrow> bool \<Rightarrow> command_record ctl" where
  "stop_while_running rid has_active_attempt =
     seq handoff_begun_locked (\<lambda>begun.
     seq (supersede_plans_locked
            (if begun then [STOP_AFTER_KIND] else [STOP_AFTER_KIND, HANDOFF_KIND]) rid) (\<lambda>superseded.
     seq (if superseded \<noteq> []
          then seq clear_stop_plan_locked (\<lambda>_. set_handoff_locked None None False None)
          else ret ()) (\<lambda>_.
     if has_active_attempt
     then record_stop rid ACCEPTED (''finish active attempt, then stop intake'' @ superseded_note superseded)
            STOPPING (Some rid)
     else record_stop rid COMPLETED (''intake stopped'' @ superseded_note superseded) STOPPED None)))"

definition submit_stop :: "string \<Rightarrow> bool \<Rightarrow> command_record ctl" where
  "submit_stop rid has_active_attempt =
     seq (check_request_id rid) (\<lambda>_.
     transaction (replay_or rid STOP_KIND [] (
       seq intake_locked (\<lambda>i. case i of
         STOPPED \<Rightarrow> seq pending_locked (\<lambda>pending.
           record_stop rid COMPLETED ''intake already stopped'' STOPPED pending)
       | STOPPING \<Rightarrow> stop_while_stopping rid
       | RUNNING \<Rightarrow> stop_while_running rid has_active_attempt))))"


section \<open>Resume\<close>

definition resume_handoff_begun :: "string \<Rightarrow> command_record ctl" where
  "resume_handoff_begun rid =
     seq pending_locked (\<lambda>pending.
     insert_locked rid RESUME_KIND [] COMPLETED
       (''handoff '' @ (case pending of None \<Rightarrow> ''None'' | Some p \<Rightarrow> p)
        @ '' already begun; resume takes effect after handoff finalization, handoff continues''))"

definition resume_replacing :: "string \<Rightarrow> bool \<Rightarrow> command_record ctl" where
  "resume_replacing rid has_active_attempt =
     seq intake_locked (\<lambda>i.
     seq pending_locked (\<lambda>pending.
     seq (accepted_plans_of_kinds_locked STOP_PLAN_KINDS) (\<lambda>plan_ids.
     seq (supersede_plans_locked [HANDOFF_KIND] rid) (\<lambda>handoff_ids.
     seq (if handoff_ids \<noteq> [] then set_handoff_locked None None False None else ret ()) (\<lambda>_.
     let ids = handoff_ids @ plan_ids in
     if i = RUNNING \<and> pending = None \<and> ids = [] then
       seq (insert_locked rid RESUME_KIND [] COMPLETED ''intake already running'') (\<lambda>record.
       seq (set_intake_locked i pending) (\<lambda>_.
       seq clear_stop_plan_locked (\<lambda>_.
       ret record)))
     else
       seq timestamp (\<lambda>t.
       seq (if ids \<noteq> []
            then update_rows (accepted_of STOP_PLAN_KINDS) SUPERSEDED (''superseded by '' @ rid) t
            else ret ()) (\<lambda>_.
       let ids' = (case pending of
             Some p \<Rightarrow> if p \<in> set ids then ids else p # ids
           | None \<Rightarrow> ids) in
       seq (insert_locked rid RESUME_KIND [] COMPLETED
              (''intake resumed'' @ superseded_note ids'
               @ (if has_active_attempt then ''; active attempt continues'' else ''''))) (\<lambda>record.
       seq (set_intake_locked RUNNING None) (\<lambda>_.
       seq clear_stop_plan_locked (\<lambda>_.
       ret record))))))))))"

definition submit_resume :: "string \<Rightarrow> bool \<Rightarrow> recovery_hold option \<Rightarrow> command_record ctl" where
  "submit_resume rid has_active_attempt hold =
     seq (check_request_id rid) (\<lambda>_.
     transaction (replay_or rid RESUME_KIND [] (
       case hold of
         Some h \<Rightarrow> throw (ResumeBlockedError (describe_hold h))
       | None \<Rightarrow> seq handoff_begun_locked (\<lambda>begun.
           if begun then resume_handoff_begun rid else resume_replacing rid has_active_attempt))))"


section \<open>Stop after N attempts\<close>

definition plan_stop_after :: "string \<Rightarrow> int \<Rightarrow> string option \<Rightarrow> command_record ctl" where
  "plan_stop_after rid count active =
     seq (supersede_plans_locked (STOP_PLAN_KINDS @ [HANDOFF_KIND]) rid) (\<lambda>superseded.
     seq state_row_locked (\<lambda>r.
     seq (case handoff_request_id r of
            None \<Rightarrow> ret ()
          | Some h \<Rightarrow> if h \<in> set superseded then set_handoff_locked None None False None else ret ()) (\<lambda>_.
     seq (insert_locked rid STOP_AFTER_KIND [(''after'', JInt count)] ACCEPTED
            (''stop after '' @ attempts_noun count
             @ (case active of
                  Some a \<Rightarrow> ''; active attempt '' @ a @ '' is count one''
                | None \<Rightarrow> ''; counting starts with the next attempt'')
             @ superseded_note superseded)) (\<lambda>record.
     seq (set_intake_locked (if active \<noteq> None \<and> count = 1 then STOPPING else RUNNING) (Some rid)) (\<lambda>_.
     seq (set_stop_plan_locked count count active) (\<lambda>_.
     ret record))))))"

text \<open>\<open>has_active_attempt\<close> comes with the attempt's identity, which must not be blank.\<close>

definition submit_stop_after :: "string \<Rightarrow> json \<Rightarrow> bool \<Rightarrow> string option \<Rightarrow> command_record ctl" where
  "submit_stop_after rid after has_active_attempt active_attempt_id =
     seq (check_request_id rid) (\<lambda>_.
     seq (lift_sum (parse_stop_after after)) (\<lambda>count.
     transaction (replay_or rid STOP_AFTER_KIND [(''after'', JInt count)] (
       if has_active_attempt \<and> (case active_attempt_id of None \<Rightarrow> True | Some a \<Rightarrow> py_blank a) then
         throw (ControlStoreError ''An active attempt must carry a stable attempt identity'')
       else seq intake_locked (\<lambda>i.
         if i = STOPPED then
           throw (StopAfterRejectedError ''stop --after N is rejected while intake is stopped; resume first. No control change was accepted.'')
         else seq handoff_begun_locked (\<lambda>begun.
           if begun then
             throw (StopAfterRejectedError ''stop --after N is rejected while a handoff owns the model; the handoff cannot be replaced once begun. No control change was accepted.'')
           else plan_stop_after rid count (if has_active_attempt then active_attempt_id else None)))))))"


section \<open>Next issue\<close>

definition prioritize_issue :: "string \<Rightarrow> int \<Rightarrow> command_record ctl" where
  "prioritize_issue rid number =
     seq next_issue_locked (\<lambda>current.
     seq timestamp (\<lambda>t.
     seq (case current of
            Some (n, q) \<Rightarrow> seq (update_rows (accepted_id q) SUPERSEDED (''superseded by '' @ rid) t) (\<lambda>_.
              ret (''; supersedes '' @ q @ '' (was #'' @ str_of_int n @ '')''))
          | None \<Rightarrow> ret '''') (\<lambda>note.
     seq (insert_locked rid NEXT_ISSUE_KIND [(''issue'', JInt number)] ACCEPTED
            (''next issue #'' @ str_of_int number @ '' prioritized for the next permitted claim'' @ note))
       (\<lambda>record.
     seq (update_state (\<lambda>r. r\<lparr>next_issue_number := Some number, next_issue_request_id := Some rid\<rparr>)) (\<lambda>_.
     ret record)))))"

definition submit_next_issue :: "string \<Rightarrow> json \<Rightarrow> command_record ctl" where
  "submit_next_issue rid issue =
     seq (check_request_id rid) (\<lambda>_.
     seq (lift_sum (parse_next_issue issue)) (\<lambda>number.
     transaction (replay_or rid NEXT_ISSUE_KIND [(''issue'', JInt number)] (
       prioritize_issue rid number))))"

text \<open>
  Ending the priority: its row, if still accepted, becomes terminal and the priority is cleared. The
  terminal row is decoded after the commit.
\<close>

definition settle_next_issue ::
  "acknowledgement \<Rightarrow> (int \<Rightarrow> string) \<Rightarrow> (int \<Rightarrow> bool) \<Rightarrow> command_row option option ctl" where
  "settle_next_issue ack detail matches =
     transaction (seq next_issue_locked (\<lambda>current. case current of
       None \<Rightarrow> ret None
     | Some (n, q) \<Rightarrow>
         if \<not> matches n then ret None
         else
           seq timestamp (\<lambda>t.
           seq (update_rows (accepted_id q) ack (detail n) t) (\<lambda>_ s.
             seq (update_state (\<lambda>r. r\<lparr>next_issue_number := None, next_issue_request_id := None\<rparr>)) (\<lambda>_.
             ret (Some (find_row q (tables s)))) s))))"

definition decode_settled :: "command_row option option \<Rightarrow> command_record option ctl" where
  "decode_settled row = (case row of
     None \<Rightarrow> ret None
   | Some None \<Rightarrow> throw (ControlStoreError ''Control command is missing'')
   | Some (Some r) \<Rightarrow> seq (lift_row r) (\<lambda>c. ret (Some c)))"

definition complete_next_issue :: "int \<Rightarrow> command_record option ctl" where
  "complete_next_issue issue_number =
     seq (settle_next_issue COMPLETED
            (\<lambda>_. ''claimed issue #'' @ str_of_int issue_number @ '' as the prioritized next issue'')
            (\<lambda>n. n = issue_number))
       decode_settled"

definition fail_next_issue :: "string \<Rightarrow> command_record option ctl" where
  "fail_next_issue reason =
     (if py_blank reason
      then throw (ControlStoreError ''A not-fulfilled priority must carry a reason'')
      else seq (settle_next_issue NOT_FULFILLED
                  (\<lambda>n. ''next issue #'' @ str_of_int n @ '' not fulfilled: '' @ py_strip reason)
                  (\<lambda>_. True))
             decode_settled)"


section \<open>Handoff\<close>

definition plan_handoff :: "string \<Rightarrow> command_record ctl" where
  "plan_handoff rid =
     seq (supersede_plans_locked [STOP_KIND, STOP_AFTER_KIND, HANDOFF_KIND] rid) (\<lambda>superseded.
     seq clear_stop_plan_locked (\<lambda>_.
     seq (insert_locked rid HANDOFF_KIND [] ACCEPTED
            (''handoff requested; delivers at the next safe model boundary or its single fallback''
             @ superseded_note superseded)) (\<lambda>record.
     seq (set_intake_locked STOPPING (Some rid)) (\<lambda>_.
     seq timestamp (\<lambda>t.
     seq (set_handoff_locked (Some rid) (Some t) False (Some ''accepted'')) (\<lambda>_.
     ret record))))))"

definition submit_handoff :: "string \<Rightarrow> bool \<Rightarrow> recovery_hold option \<Rightarrow> command_record ctl" where
  "submit_handoff rid has_active_attempt hold =
     seq (check_request_id rid) (\<lambda>_.
     transaction (replay_or rid HANDOFF_KIND [] (
       case hold of
         Some h \<Rightarrow> throw (HandoffRejectedError (describe_handoff_hold h))
       | None \<Rightarrow>
           if \<not> has_active_attempt then
             throw (HandoffRejectedError ''handoff now is rejected without an active attempt; no control change was accepted.'')
           else seq handoff_begun_locked (\<lambda>begun.
             if begun then
               throw (HandoffRejectedError ''handoff now is rejected: the model has already begun the handoff skill and a second request cannot undo it. No control change was accepted.'')
             else plan_handoff rid))))"

definition mark_handoff :: "string \<Rightarrow> (state_row \<Rightarrow> state_row) \<Rightarrow> bool ctl" where
  "mark_handoff rid f = transaction (
     seq (is_tracked_handoff_locked rid) (\<lambda>tracked.
       if \<not> tracked then ret False
       else seq (update_state f) (\<lambda>_. ret True)))"

definition mark_handoff_delivering :: "string \<Rightarrow> bool ctl" where
  "mark_handoff_delivering rid = mark_handoff rid (\<lambda>r. r\<lparr>handoff_phase := Some ''delivering''\<rparr>)"

definition mark_handoff_begun :: "string \<Rightarrow> bool ctl" where
  "mark_handoff_begun rid =
     mark_handoff rid (\<lambda>r. r\<lparr>handoff_begun := Some 1, handoff_phase := Some ''model_work''\<rparr>)"

text \<open>
  The shared body of \<open>complete_handoff\<close> and \<open>fail_handoff\<close>: the accepted row becomes terminal; when it is
  the pending command intake stops and the plain stops waiting alongside complete on the same boundary.
\<close>

definition settle_handoff_body ::
  "string \<Rightarrow> acknowledgement \<Rightarrow> string \<Rightarrow> string \<Rightarrow> command_record \<Rightarrow> command_row option ctl" where
  "settle_handoff_body rid ack detail phase existing =
     seq timestamp (\<lambda>t.
     seq (update_rows (\<lambda>r. row_request_id r = rid) ack detail t) (\<lambda>_.
     seq pending_locked (\<lambda>pending.
     seq (if pending = Some rid then set_intake_locked STOPPED None else ret ()) (\<lambda>_.
     seq (if rec_kind existing = HANDOFF_KIND
          then update_state (\<lambda>r. r\<lparr>handoff_phase := Some phase\<rparr>) else ret ()) (\<lambda>_.
     seq (if pending = Some rid then
            seq (accepted_plans_of_kinds_locked [STOP_KIND]) (\<lambda>plain.
              if plain \<noteq> []
              then update_rows (accepted_of [STOP_KIND]) COMPLETED
                     ''intake stopped after handoff attempt'' t
              else ret ())
          else ret ()) (\<lambda>_ s.
     (Inr (find_row rid (tables s)), s)))))))"

definition settle_handoff ::
  "string \<Rightarrow> acknowledgement \<Rightarrow> string \<Rightarrow> string \<Rightarrow> command_record option ctl" where
  "settle_handoff rid ack detail phase =
     seq (transaction (
       seq (find_locked rid) (\<lambda>existing. case existing of
         None \<Rightarrow> ret (Inl None)
       | Some c \<Rightarrow>
           if rec_ack c \<noteq> ACCEPTED then ret (Inl (Some c))
           else seq (settle_handoff_body rid ack detail phase c) (\<lambda>row. ret (Inr row)))))
       (\<lambda>outcome. case outcome of
          Inl c \<Rightarrow> ret c
        | Inr row \<Rightarrow> decode_settled (Some row))"

definition complete_handoff :: "string \<Rightarrow> string \<Rightarrow> command_record option ctl" where
  "complete_handoff rid detail =
     (if py_blank detail then throw (ControlStoreError ''A completed handoff must carry a detail'')
      else settle_handoff rid COMPLETED (py_strip detail) ''completed'')"

definition fail_handoff :: "string \<Rightarrow> string \<Rightarrow> command_record option ctl" where
  "fail_handoff rid reason =
     (if py_blank reason then throw (ControlStoreError ''A not-fulfilled handoff must carry a reason'')
      else settle_handoff rid NOT_FULFILLED (py_strip reason) ''not_fulfilled'')"


section \<open>Recovery commands and the errors reset\<close>

definition submit_recovery_retry :: "string \<Rightarrow> json \<Rightarrow> command_record ctl" where
  "submit_recovery_retry rid attempt_id =
     seq (check_request_id rid) (\<lambda>_.
     seq (lift_sum (parse_attempt_id attempt_id)) (\<lambda>parsed.
     transaction (replay_or rid RECOVERY_RETRY_KIND [(''attempt_id'', JStr parsed)] (
       insert_locked rid RECOVERY_RETRY_KIND [(''attempt_id'', JStr parsed)] ACCEPTED
         (''recovery retry for attempt '' @ parsed @ '' accepted'')))))"

definition submit_recovery_release :: "string \<Rightarrow> json \<Rightarrow> json \<Rightarrow> command_record ctl" where
  "submit_recovery_release rid attempt_id saved_at =
     seq (check_request_id rid) (\<lambda>_.
     seq (lift_sum (parse_attempt_id attempt_id)) (\<lambda>parsed_attempt.
     seq (lift_sum (parse_saved_at saved_at)) (\<lambda>parsed_saved.
     (let payload = [(''attempt_id'', JStr parsed_attempt), (''saved_at'', JStr parsed_saved)] in
     transaction (replay_or rid RECOVERY_RELEASE_KIND payload (
       insert_locked rid RECOVERY_RELEASE_KIND payload ACCEPTED
         (''recovery release for attempt '' @ parsed_attempt @ '' accepted; retained work secured at ''
          @ parsed_saved)))))))"

definition settle_recovery_command ::
  "string \<Rightarrow> acknowledgement \<Rightarrow> string \<Rightarrow> command_record option ctl" where
  "settle_recovery_command rid ack detail =
     seq (transaction (
       seq (find_locked rid) (\<lambda>existing. case existing of
         None \<Rightarrow> ret (Inl None)
       | Some c \<Rightarrow>
           if rec_ack c \<noteq> ACCEPTED then ret (Inl (Some c))
           else
             seq timestamp (\<lambda>t.
             seq (update_rows (\<lambda>r. row_request_id r = rid) ack detail t) (\<lambda>_.
             ret (Inr ()))))))
       (\<lambda>outcome. case outcome of Inl c \<Rightarrow> ret c | Inr _ \<Rightarrow> find_locked rid)"

definition complete_recovery_command :: "string \<Rightarrow> string \<Rightarrow> command_record option ctl" where
  "complete_recovery_command rid detail =
     (if py_blank detail then throw (ControlStoreError ''A completed recovery command must carry a detail'')
      else settle_recovery_command rid COMPLETED (py_strip detail))"

definition fail_recovery_command :: "string \<Rightarrow> string \<Rightarrow> command_record option ctl" where
  "fail_recovery_command rid detail =
     (if py_blank detail then throw (ControlStoreError ''A not-fulfilled recovery command must carry a reason'')
      else settle_recovery_command rid NOT_FULFILLED (py_strip detail))"

definition submit_errors_reset :: "string \<Rightarrow> int option \<Rightarrow> command_record ctl" where
  "submit_errors_reset rid previous_count =
     seq (check_request_id rid) (\<lambda>_.
     transaction (replay_or rid ERRORS_RESET_KIND [] (
       insert_locked rid ERRORS_RESET_KIND [] COMPLETED (case previous_count of
         None \<Rightarrow> ''consecutive errors reset to 0''
       | Some n \<Rightarrow> ''consecutive errors reset from '' @ str_of_int n @ '' to 0''))))"

definition submit_command :: "string \<Rightarrow> string \<Rightarrow> obj \<Rightarrow> command_record ctl" where
  "submit_command kind rid payload =
     seq (check_request_id rid) (\<lambda>_.
     if py_blank kind then throw (RequestIdError ''Command kind must be a non-empty string'')
     else transaction (replay_or rid kind payload (
       throw (RequestIdError (''Unsupported command kind: '' @ kind)))))"


section \<open>Reads\<close>

definition get_command :: "string \<Rightarrow> command_record option ctl" where
  "get_command rid = reading ''Control command could not be read'' (find_locked rid)"

definition decode_with_payload :: "command_row \<Rightarrow> control_error + (command_record \<times> obj)" where
  "decode_with_payload r = (case row_payload r of
     Some (JObj d) \<Rightarrow> (case record_from_row r of Inl e \<Rightarrow> Inl e | Inr c \<Rightarrow> Inr (c, d))
   | _ \<Rightarrow> Inl (ControlStoreError ''Control command is malformed''))"

definition get_command_with_payload :: "string \<Rightarrow> (command_record \<times> obj) option ctl" where
  "get_command_with_payload rid = reading ''Control command could not be read'' (\<lambda>s.
     (case find_row rid (tables s) of
        None \<Rightarrow> Inr None
      | Some r \<Rightarrow> (case decode_with_payload r of Inl e \<Rightarrow> Inl e | Inr p \<Rightarrow> Inr (Some p)), s))"

fun decode_rows :: "(command_row \<Rightarrow> control_error + 'a) \<Rightarrow> command_row list \<Rightarrow> control_error + 'a list" where
  "decode_rows f [] = Inr []"
| "decode_rows f (r # rs) = (case f r of
     Inl e \<Rightarrow> Inl e
   | Inr x \<Rightarrow> (case decode_rows f rs of Inl e \<Rightarrow> Inl e | Inr xs \<Rightarrow> Inr (x # xs)))"

text \<open>\<open>ORDER BY sequence DESC LIMIT ?\<close>, reversed: the newest rows, newest last. A negative limit is none.\<close>

definition newest_rows :: "int \<Rightarrow> command_row list \<Rightarrow> command_row list" where
  "newest_rows limit rows =
     (let sorted = rev (sort_key row_sequence rows)
      in rev (if limit < 0 then sorted else take (nat limit) sorted))"

definition recent_commands :: "int \<Rightarrow> command_record list ctl" where
  "recent_commands limit = reading ''Control commands could not be read'' (\<lambda>s.
     (decode_rows record_from_row (newest_rows limit (commands (tables s))), s))"

definition recent_command_details :: "int \<Rightarrow> (command_record \<times> obj) list ctl" where
  "recent_command_details limit = reading ''Control commands could not be read'' (\<lambda>s.
     (decode_rows decode_with_payload (newest_rows limit (commands (tables s))), s))"

definition get_intake_state :: "intake_state ctl" where
  "get_intake_state = reading ''Control state could not be read'' intake_locked"

definition get_pending_command_id :: "string option ctl" where
  "get_pending_command_id = reading ''Control state could not be read'' pending_locked"

definition next_issue_snapshot :: "(string \<times> int) option ctl" where
  "next_issue_snapshot = reading ''Control state could not be read'' (
     seq next_issue_locked (\<lambda>current.
       ret (case current of None \<Rightarrow> None | Some (n, q) \<Rightarrow> Some (q, n))))"

record stop_plan =
  plan_request_id :: string
  plan_requested :: int
  plan_remaining :: int
  plan_active_attempt_id :: "string option"
  plan_latest_counted_attempt_id :: "string option"
  plan_latest_counted_outcome :: "string option"

text \<open>\<open>int(None)\<close> raises a \<open>TypeError\<close>; \<open>includes_active_attempt\<close> is derived from the attempt's identity.\<close>

definition stop_plan_snapshot :: "stop_plan option ctl" where
  "stop_plan_snapshot = reading ''Control state could not be read'' (
     seq state_row_locked (\<lambda>r. case (stop_after_requested r, pending_command_id r) of
       (Some q, Some p) \<Rightarrow> (case stop_after_remaining r of
           None \<Rightarrow> throw PyTypeError
         | Some m \<Rightarrow> ret (Some \<lparr>plan_request_id = p, plan_requested = q, plan_remaining = m,
             plan_active_attempt_id = stop_after_active_attempt_id r,
             plan_latest_counted_attempt_id = latest_counted_attempt_id r,
             plan_latest_counted_outcome = latest_counted_outcome r\<rparr>))
     | _ \<Rightarrow> ret None))"


section \<open>Completion boundaries\<close>

definition complete_plain_stops_in_txn :: "command_record list ctl" where
  "complete_plain_stops_in_txn =
     seq timestamp (\<lambda>t.
     seq (select_rows (accepted_of [STOP_KIND])) (\<lambda>rows.
     seq (update_rows (accepted_of [STOP_KIND]) COMPLETED ''intake stopped after active attempt'' t) (\<lambda>_.
     seq (set_intake_locked STOPPED None) (\<lambda>_.
     ret (map (\<lambda>r. \<lparr>rec_request_id = row_request_id r, rec_sequence = row_sequence r,
        rec_kind = row_kind r, rec_ack = COMPLETED, rec_detail = ''intake stopped after active attempt'',
        rec_created_at = row_created_at r, rec_updated_at = t\<rparr>) rows)))))"

definition complete_stops_if_plain :: "string option \<Rightarrow> command_record list ctl" where
  "complete_stops_if_plain pending = (case pending of
     None \<Rightarrow> ret []
   | Some p \<Rightarrow> seq (find_locked p) (\<lambda>record. case record of
       None \<Rightarrow> ret []
     | Some c \<Rightarrow> if rec_kind c \<noteq> STOP_KIND then ret [] else complete_plain_stops_in_txn))"

definition complete_pending_stop :: "command_record list ctl" where
  "complete_pending_stop = transaction (seq pending_locked complete_stops_if_plain)"

text \<open>One counted attempt against a \<open>stop --after\<close> plan: the last one stops intake and completes the plan.\<close>

definition insert_counted :: "string \<Rightarrow> string \<Rightarrow> string \<Rightarrow> string \<Rightarrow> unit ctl" where
  "insert_counted attempt_id plan outcome t s =
     (Inr (), s\<lparr>tables := (tables s)\<lparr>counted_attempts := counted_attempts (tables s)
        @ [\<lparr>counted_attempt_id = attempt_id, counted_plan_request_id = plan,
            counted_outcome = outcome, counted_at = t\<rparr>]\<rparr>\<rparr>)"

definition count_attempt ::
  "string \<Rightarrow> string \<Rightarrow> string \<Rightarrow> intake_state \<Rightarrow> int \<Rightarrow> int \<Rightarrow> command_row option ctl" where
  "count_attempt attempt_id outcome pending i requested remaining =
     seq timestamp (\<lambda>t.
     seq (insert_counted attempt_id pending outcome t) (\<lambda>_.
     let left = remaining - 1 in
     if left \<le> 0 then
       seq (update_rows (accepted_id pending) COMPLETED
              (''stopped after '' @ attempts_noun requested @ ''; last counted attempt '' @ attempt_id
               @ '' ('' @ outcome @ '')'') t) (\<lambda>_ s.
       seq (update_state (\<lambda>r. r\<lparr>intake := intake_value STOPPED, pending_command_id := None,
              stop_after_requested := None, stop_after_remaining := None,
              stop_after_active_attempt_id := None,
              latest_counted_attempt_id := Some attempt_id, latest_counted_outcome := Some outcome\<rparr>)) (\<lambda>_.
       ret (find_row pending (tables s))) s)
     else
       seq (update_state (\<lambda>r. r\<lparr>stop_after_remaining := Some left,
              latest_counted_attempt_id := Some attempt_id, latest_counted_outcome := Some outcome\<rparr>)) (\<lambda>_.
       seq (if i \<noteq> STOPPED then update_state (\<lambda>r. r\<lparr>intake := intake_value RUNNING\<rparr>) else ret ()) (\<lambda>_.
       ret None))))"

definition count_against_plan :: "string \<Rightarrow> string \<Rightarrow> state_row \<Rightarrow> int \<Rightarrow> command_row option ctl" where
  "count_against_plan attempt_id outcome r requested = (case pending_command_id r of
     None \<Rightarrow> ret None
   | Some pending \<Rightarrow> (case intake_of_value (intake r) of
       None \<Rightarrow> throw (ControlStoreError ''Control state is malformed'')
     | Some i \<Rightarrow> (case stop_after_remaining r of
         None \<Rightarrow> throw PyTypeError
       | Some remaining \<Rightarrow> count_attempt attempt_id outcome pending i requested remaining)))"

definition already_counted :: "string \<Rightarrow> tables \<Rightarrow> bool" where
  "already_counted attempt_id db = list_ex (\<lambda>r. counted_attempt_id r = attempt_id) (counted_attempts db)"

definition record_attempt_finalized :: "string \<Rightarrow> string \<Rightarrow> command_record list ctl" where
  "record_attempt_finalized attempt_id outcome =
     (if py_blank attempt_id then
        throw (ControlStoreError ''A finalized attempt must carry a stable attempt identity'')
      else if py_blank outcome then
        throw (ControlStoreError ''A finalized attempt must carry a terminal outcome'')
      else
        seq (transaction (\<lambda>s.
          if already_counted attempt_id (tables s) then (Inr (Inl []), s)
          else seq state_row_locked (\<lambda>r. case stop_after_requested r of
              Some requested \<Rightarrow>
                seq (count_against_plan attempt_id outcome r requested) (\<lambda>row. ret (Inr row))
            | None \<Rightarrow>
                seq (complete_stops_if_plain (pending_command_id r)) (\<lambda>done. ret (Inl done))) s))
        (\<lambda>result. case result of
           Inl records \<Rightarrow> ret records
         | Inr None \<Rightarrow> ret []
         | Inr (Some row) \<Rightarrow> seq (lift_row row) (\<lambda>c. ret [c])))"

definition enter_stopping_for_final_claim :: "bool ctl" where
  "enter_stopping_for_final_claim = transaction (
     seq state_row_locked (\<lambda>r.
       if pending_command_id r \<noteq> None \<and> stop_after_requested r \<noteq> None then
         (case stop_after_remaining r of
            None \<Rightarrow> throw PyTypeError
          | Some m \<Rightarrow>
              if m = 1 \<and> intake r = intake_value RUNNING
              then seq (update_state (\<lambda>r. r\<lparr>intake := intake_value STOPPING\<rparr>)) (\<lambda>_. ret True)
              else ret False)
       else ret False))"

end
