(* ===== verification/Control_Laws.thy ===== *)
theory Control_Laws
  imports Control_Ops
begin

text \<open>
  The laws of the control store's tables: which commands are accepted after an update, what the row-level
  queries return on a well-formed table, and the relation \<open>control_rel\<close> between the tables and the
  abstract intake gate that the commands implement.
\<close>

section \<open>Texts of the columns\<close>

lemma ack_of_value_ack_value [simp]: "ack_of_value (ack_value a) = Some a"
  by (cases a) (simp_all add: ack_of_value_def ack_value_def)

lemma ack_value_inject [simp]: "ack_value a = ack_value b \<longleftrightarrow> a = b"
  by (cases a; cases b) (simp_all add: ack_value_def)

lemma intake_of_value_intake_value [simp]: "intake_of_value (intake_value i) = Some i"
  by (cases i) (simp_all add: intake_of_value_def intake_value_def)

lemma intake_value_inject [simp]: "intake_value a = intake_value b \<longleftrightarrow> a = b"
  by (cases a; cases b) (simp_all add: intake_value_def)

lemma kinds_distinct [simp]:
  "distinct [STOP_KIND, STOP_AFTER_KIND, RESUME_KIND, NEXT_ISSUE_KIND, HANDOFF_KIND,
     RECOVERY_RETRY_KIND, RECOVERY_RELEASE_KIND, ERRORS_RESET_KIND]"
  by (simp add: kind_defs)

lemma kinds_neq [simp]:
  "STOP_KIND \<noteq> STOP_AFTER_KIND" "STOP_AFTER_KIND \<noteq> STOP_KIND"
  "STOP_KIND \<noteq> HANDOFF_KIND" "HANDOFF_KIND \<noteq> STOP_KIND"
  "STOP_KIND \<noteq> NEXT_ISSUE_KIND" "NEXT_ISSUE_KIND \<noteq> STOP_KIND"
  "STOP_AFTER_KIND \<noteq> HANDOFF_KIND" "HANDOFF_KIND \<noteq> STOP_AFTER_KIND"
  "STOP_AFTER_KIND \<noteq> NEXT_ISSUE_KIND" "NEXT_ISSUE_KIND \<noteq> STOP_AFTER_KIND"
  "HANDOFF_KIND \<noteq> NEXT_ISSUE_KIND" "NEXT_ISSUE_KIND \<noteq> HANDOFF_KIND"
  "RESUME_KIND \<noteq> STOP_KIND" "RESUME_KIND \<noteq> STOP_AFTER_KIND" "RESUME_KIND \<noteq> HANDOFF_KIND"
  "RESUME_KIND \<noteq> NEXT_ISSUE_KIND"
  "RECOVERY_RETRY_KIND \<noteq> STOP_KIND" "RECOVERY_RETRY_KIND \<noteq> STOP_AFTER_KIND"
  "RECOVERY_RETRY_KIND \<noteq> HANDOFF_KIND" "RECOVERY_RETRY_KIND \<noteq> NEXT_ISSUE_KIND"
  "RECOVERY_RELEASE_KIND \<noteq> STOP_KIND" "RECOVERY_RELEASE_KIND \<noteq> STOP_AFTER_KIND"
  "RECOVERY_RELEASE_KIND \<noteq> HANDOFF_KIND" "RECOVERY_RELEASE_KIND \<noteq> NEXT_ISSUE_KIND"
  "ERRORS_RESET_KIND \<noteq> STOP_KIND" "ERRORS_RESET_KIND \<noteq> STOP_AFTER_KIND"
  "ERRORS_RESET_KIND \<noteq> HANDOFF_KIND" "ERRORS_RESET_KIND \<noteq> NEXT_ISSUE_KIND"
  by (simp_all add: kind_defs)


section \<open>Accepted commands of a table\<close>

definition acc :: "string \<Rightarrow> command_row list \<Rightarrow> string list" where
  "acc k rows = map row_request_id (filter (accepted_of [k]) rows)"

definition acc_ids :: "string list \<Rightarrow> command_row list \<Rightarrow> string list" where
  "acc_ids ks rows = map row_request_id (sort_key row_sequence (filter (accepted_of ks) rows))"

definition ids_of_kinds :: "string set \<Rightarrow> command_row list \<Rightarrow> string set" where
  "ids_of_kinds K rows = set (map row_request_id (filter (\<lambda>r. row_kind r \<in> K) rows))"

definition row_ids :: "command_row list \<Rightarrow> string list" where
  "row_ids rows = map row_request_id rows"

text \<open>A well-formed command table: unique request IDs, sequences 1, 2, 3, \<dots> and readable acknowledgements.\<close>

definition wf_rows :: "command_row list \<Rightarrow> bool" where
  "wf_rows rows \<longleftrightarrow> distinct (row_ids rows)
     \<and> map row_sequence rows = map int [1..<Suc (length rows)]
     \<and> list_all (\<lambda>r. ack_of_value (row_ack r) \<noteq> None) rows"

lemma set_acc_ids: "set (acc_ids ks rows) = (\<Union>k \<in> set ks. set (acc k rows))"
  by (auto simp: acc_ids_def acc_def accepted_of_def)

lemma acc_ids_empty_iff: "acc_ids ks rows = [] \<longleftrightarrow> (\<forall>k \<in> set ks. acc k rows = [])"
proof -
  have "acc_ids ks rows = [] \<longleftrightarrow> set (acc_ids ks rows) = {}" by simp
  then show ?thesis by (auto simp only: set_acc_ids set_empty UNION_empty_conv)
qed

lemma acc_Nil [row_simps]: "acc k [] = []"
  by (simp add: acc_def)

lemma acc_append [row_simps]:
  "acc k (rows @ [r]) = acc k rows @ (if accepted_of [k] r then [row_request_id r] else [])"
  by (simp add: acc_def)

lemma acc_supersede [row_simps]:
  assumes "a \<noteq> ACCEPTED"
  shows "acc k (acknowledge_rows (accepted_of ks) a d t rows) = (if k \<in> set ks then [] else acc k rows)"
  using assms by (induction rows) (auto simp: acc_def acknowledge_rows_def accepted_of_def)

lemma acc_settle_id [row_simps]:
  assumes "a \<noteq> ACCEPTED"
  shows "acc k (acknowledge_rows (accepted_id q) a d t rows) = filter (\<lambda>x. x \<noteq> q) (acc k rows)"
  using assms by (induction rows) (auto simp: acc_def acknowledge_rows_def accepted_of_def accepted_id_def)

lemma acc_settle_rid [row_simps]:
  assumes "a \<noteq> ACCEPTED"
  shows "acc k (acknowledge_rows (\<lambda>r. row_request_id r = q) a d t rows) = filter (\<lambda>x. x \<noteq> q) (acc k rows)"
  using assms by (induction rows) (auto simp: acc_def acknowledge_rows_def accepted_of_def)

lemma row_ids_acknowledge [row_simps]: "row_ids (acknowledge_rows P a d t rows) = row_ids rows"
  by (simp add: row_ids_def acknowledge_rows_def o_def if_distrib cong: if_cong)

lemma ids_of_kinds_acknowledge [row_simps]:
  "ids_of_kinds K (acknowledge_rows P a d t rows) = ids_of_kinds K rows"
  by (induction rows) (auto simp: ids_of_kinds_def acknowledge_rows_def)

lemma ids_of_kinds_append [row_simps]:
  "ids_of_kinds K (rows @ [r]) = ids_of_kinds K rows \<union> (if row_kind r \<in> K then {row_request_id r} else {})"
  by (auto simp: ids_of_kinds_def)

lemma row_ids_append [row_simps]: "row_ids (rows @ [r]) = row_ids rows @ [row_request_id r]"
  by (simp add: row_ids_def)

lemma length_acknowledge [simp]: "length (acknowledge_rows P a d t rows) = length rows"
  by (simp add: acknowledge_rows_def)

lemma wf_rows_Nil: "wf_rows []"
  by (simp add: wf_rows_def row_ids_def)

lemma sequences_acknowledge [row_simps]:
  "map row_sequence (acknowledge_rows P a d t rows) = map row_sequence rows"
  by (simp add: acknowledge_rows_def o_def if_distrib cong: if_cong)

lemma wf_rows_acknowledge:
  assumes "wf_rows rows"
  shows "wf_rows (acknowledge_rows P a d t rows)"
proof -
  have "list_all (\<lambda>r. ack_of_value (row_ack r) \<noteq> None) (acknowledge_rows P a d t rows)"
    using assms by (auto simp: wf_rows_def list_all_iff acknowledge_rows_def)
  with assms show ?thesis by (simp add: wf_rows_def row_simps del: upt_Suc)
qed

lemma wf_rows_max: "wf_rows rows \<Longrightarrow> max_sequence rows = int (length rows)"
proof -
  assume wf: "wf_rows rows"
  have "set (map row_sequence rows) = set (map int [1..<Suc (length rows)])"
    using wf by (simp add: wf_rows_def)
  also have "\<dots> = int ` {1..length rows}" by auto
  finally have S: "set (map row_sequence rows) = int ` {1..length rows}" .
  show ?thesis
  proof (cases "rows = []")
    case True
    then show ?thesis by (simp add: max_sequence_def)
  next
    case False
    then have "1 \<le> length rows" by (cases rows) auto
    then have "Max (int ` {1..length rows}) = int (length rows)"
      by (intro Max_eqI) auto
    with False S show ?thesis by (simp add: max_sequence_def)
  qed
qed

lemma wf_rows_append:
  assumes "wf_rows rows" "row_request_id r \<notin> set (row_ids rows)"
    "row_sequence r = int (length rows) + 1" "ack_of_value (row_ack r) \<noteq> None"
  shows "wf_rows (rows @ [r])"
  using assms by (simp add: wf_rows_def row_simps)

lemma find_row_None: "find_row q db = None \<longleftrightarrow> q \<notin> set (row_ids (commands db))"
  by (auto simp: find_row_def row_ids_def find_None_iff)

lemma find_row_Some: "find_row q db = Some r \<Longrightarrow> r \<in> set (commands db) \<and> row_request_id r = q"
  by (auto simp: find_row_def find_Some_iff)

lemma find_row_unique:
  assumes "wf_rows (commands db)" "r \<in> set (commands db)" "row_request_id r = q"
  shows "find_row q db = Some r"
proof -
  obtain r' where r': "find_row q db = Some r'"
    using assms by (cases "find_row q db") (auto simp: find_row_None row_ids_def)
  from find_row_Some [OF r'] assms have "r' = r"
    by (auto simp: wf_rows_def row_ids_def distinct_map inj_on_def)
  with r' show ?thesis by simp
qed

lemma wf_record_from_row: "wf_rows rows \<Longrightarrow> r \<in> set rows \<Longrightarrow> \<exists>c. record_from_row r = Inr c"
  by (auto simp: wf_rows_def list_all_iff record_from_row_def split: option.splits)

lemma record_from_row_fields:
  "record_from_row r = Inr c \<Longrightarrow> rec_request_id c = row_request_id r \<and> rec_kind c = row_kind r
     \<and> row_ack r = ack_value (rec_ack c) \<and> rec_sequence c = row_sequence r \<and> rec_detail c = row_detail r"
  by (auto simp: record_from_row_def ack_of_value_def ack_value_def split: option.splits if_splits)

lemma acc_iff:
  "wf_rows (commands db) \<Longrightarrow> q \<in> set (acc k (commands db)) \<longleftrightarrow>
     (\<exists>r. find_row q db = Some r \<and> row_kind r = k \<and> row_ack r = ack_value ACCEPTED)"
  by (auto simp: acc_def accepted_of_def dest: find_row_Some intro: find_row_unique)

lemma ids_of_kinds_iff:
  "wf_rows (commands db) \<Longrightarrow> q \<in> ids_of_kinds K (commands db) \<longleftrightarrow>
     (\<exists>r. find_row q db = Some r \<and> row_kind r \<in> K)"
  by (auto simp: ids_of_kinds_def dest: find_row_Some intro: find_row_unique)

lemma acc_row_ids: "q \<in> set (acc k rows) \<Longrightarrow> q \<in> set (row_ids rows)"
  by (auto simp: acc_def row_ids_def)

lemma acc_ids_of_kinds: "q \<in> set (acc k rows) \<Longrightarrow> q \<in> ids_of_kinds {k} rows"
  by (auto simp: acc_def ids_of_kinds_def accepted_of_def)

text \<open>
  The abstract intake gate that the control store implements: the intake state and the one plan that can
  own the wait for the active attempt (none, plain stops, a countdown, a handoff). \<open>control_rel\<close> relates a
  gate to the tables; it is the store's invariant. The section after it evaluates the store's internals on
  related tables, where every query is determined by the gate.
\<close>

section \<open>The abstract gate\<close>

datatype plan = No_plan | Plain_stop | Countdown int int | Handing_off bool

type_synonym gate = "intake_state \<times> plan"

fun gate_stop :: "bool \<Rightarrow> gate \<Rightarrow> gate" where
  "gate_stop active (STOPPED, p) = (STOPPED, p)"
| "gate_stop active (STOPPING, p) = (STOPPING, if p = Handing_off True then p else Plain_stop)"
| "gate_stop active (RUNNING, p) = (if active then (STOPPING, Plain_stop) else (STOPPED, No_plan))"

fun gate_resume :: "gate \<Rightarrow> gate" where
  "gate_resume (i, p) = (if p = Handing_off True then (i, p) else (RUNNING, No_plan))"

fun gate_stop_after :: "int \<Rightarrow> bool \<Rightarrow> gate \<Rightarrow> gate option" where
  "gate_stop_after n active (i, p) =
     (if i = STOPPED \<or> p = Handing_off True then None
      else Some (if active \<and> n = 1 then STOPPING else RUNNING, Countdown n n))"

fun gate_handoff :: "bool \<Rightarrow> gate \<Rightarrow> gate option" where
  "gate_handoff active (i, p) =
     (if \<not> active \<or> p = Handing_off True then None else Some (STOPPING, Handing_off False))"

fun gate_begun :: "gate \<Rightarrow> gate" where
  "gate_begun (i, Handing_off b) = (i, Handing_off True)"
| "gate_begun g = g"

fun gate_finalized :: "gate \<Rightarrow> gate" where
  "gate_finalized (i, Countdown q m) = (if m \<le> 1 then (STOPPED, No_plan) else (RUNNING, Countdown q (m - 1)))"
| "gate_finalized (i, Plain_stop) = (STOPPED, No_plan)"
| "gate_finalized g = g"

fun gate_stop_completed :: "gate \<Rightarrow> gate" where
  "gate_stop_completed (i, Plain_stop) = (STOPPED, No_plan)"
| "gate_stop_completed g = g"

fun gate_final_claim :: "gate \<Rightarrow> gate" where
  "gate_final_claim (i, Countdown q m) =
     (if i = RUNNING \<and> m = 1 then (STOPPING, Countdown q m) else (i, Countdown q m))"
| "gate_final_claim g = g"

fun gate_ok :: "gate \<Rightarrow> bool" where
  "gate_ok (i, No_plan) = (i \<noteq> STOPPING)"
| "gate_ok (i, Plain_stop) = (i = STOPPING)"
| "gate_ok (i, Countdown q m) = (1 \<le> m \<and> m \<le> q \<and> i \<noteq> STOPPED \<and> (i = STOPPING \<longrightarrow> m = 1))"
| "gate_ok (i, Handing_off b) = (i = STOPPING)"


section \<open>The tables that implement a gate\<close>

text \<open>
  What the invariant observes of the tables: the state row, the accepted commands of the four kinds that
  wait for something, the IDs of all handoff commands and of all commands. \<open>v_env\<close> says that the database
  opens and commits and that the clock carries a time zone, so that no environment error can occur.
\<close>

record view =
  v_row :: state_row
  v_stop :: "string list"
  v_after :: "string list"
  v_handoff :: "string list"
  v_next :: "string list"
  v_handoff_ids :: "string set"
  v_ids :: "string set"
  v_env :: bool

definition env_ok :: "control_store \<Rightarrow> bool" where
  "env_ok s \<longleftrightarrow> sqlite s = Sqlite_ok \<and> (\<forall>n. clock s n \<noteq> Naive)"

lemma env_ok_update [simp]: "env_ok (s\<lparr>tables := x\<rparr>) = env_ok s" "env_ok (s\<lparr>ticks := n\<rparr>) = env_ok s"
  by (simp_all add: env_ok_def)

definition view_of :: "bool \<Rightarrow> state_row \<Rightarrow> command_row list \<Rightarrow> view" where
  "view_of e r rows =
     \<lparr>v_row = r, v_stop = acc STOP_KIND rows, v_after = acc STOP_AFTER_KIND rows,
      v_handoff = acc HANDOFF_KIND rows, v_next = acc NEXT_ISSUE_KIND rows,
      v_handoff_ids = ids_of_kinds {HANDOFF_KIND} rows, v_ids = set (row_ids rows), v_env = e\<rparr>"

definition begun_flag :: "state_row \<Rightarrow> bool" where
  "begun_flag r \<longleftrightarrow> (case handoff_begun r of None \<Rightarrow> False | Some b \<Rightarrow> b \<noteq> 0)"

fun plan_rel :: "plan \<Rightarrow> view \<Rightarrow> bool" where
  "plan_rel No_plan v \<longleftrightarrow>
     pending_command_id (v_row v) = None \<and> v_stop v = [] \<and> v_after v = [] \<and> v_handoff v = []
     \<and> stop_after_requested (v_row v) = None \<and> stop_after_remaining (v_row v) = None"
| "plan_rel Plain_stop v \<longleftrightarrow>
     (\<exists>p. pending_command_id (v_row v) = Some p \<and> p \<in> set (v_stop v)) \<and> v_after v = [] \<and> v_handoff v = []
     \<and> stop_after_requested (v_row v) = None \<and> stop_after_remaining (v_row v) = None"
| "plan_rel (Countdown q m) v \<longleftrightarrow>
     (\<exists>p. pending_command_id (v_row v) = Some p \<and> v_after v = [p]) \<and> v_stop v = [] \<and> v_handoff v = []
     \<and> stop_after_requested (v_row v) = Some q \<and> stop_after_remaining (v_row v) = Some m"
| "plan_rel (Handing_off b) v \<longleftrightarrow>
     (\<exists>p. pending_command_id (v_row v) = Some p \<and> v_handoff v = [p] \<and> handoff_request_id (v_row v) = Some p)
     \<and> v_after v = [] \<and> (b \<or> v_stop v = []) \<and> begun_flag (v_row v) = b
     \<and> stop_after_requested (v_row v) = None \<and> stop_after_remaining (v_row v) = None"

definition tracked_ok :: "view \<Rightarrow> bool" where
  "tracked_ok v \<longleftrightarrow> (\<forall>h. handoff_request_id (v_row v) = Some h \<longrightarrow> h \<in> v_handoff_ids v)"

definition priority_ok :: "view \<Rightarrow> bool" where
  "priority_ok v \<longleftrightarrow>
     (next_issue_number (v_row v) = None \<and> next_issue_request_id (v_row v) = None \<and> v_next v = [])
     \<or> (\<exists>n q. next_issue_number (v_row v) = Some n \<and> next_issue_request_id (v_row v) = Some q
          \<and> 0 < n \<and> v_next v = [q])"

definition sees :: "control_store \<Rightarrow> view \<Rightarrow> bool" where
  "sees s v \<longleftrightarrow> wf_rows (commands (tables s))
     \<and> distinct (map counted_attempt_id (counted_attempts (tables s)))
     \<and> (\<exists>r. control_state (tables s) = Some r \<and> v = view_of (env_ok s) r (commands (tables s)))"

definition view_rel :: "gate \<Rightarrow> view \<Rightarrow> bool" where
  "view_rel g v \<longleftrightarrow> intake (v_row v) = intake_value (fst g) \<and> gate_ok g \<and> plan_rel (snd g) v
     \<and> tracked_ok v \<and> priority_ok v"

definition control_rel :: "gate \<Rightarrow> control_store \<Rightarrow> bool" where
  "control_rel g s \<longleftrightarrow> (\<exists>v. sees s v \<and> view_rel g v)"

text \<open>The gate a store's tables show: what the store's own queries would answer.\<close>

definition plan_of :: "view \<Rightarrow> plan" where
  "plan_of v = (case pending_command_id (v_row v) of
     None \<Rightarrow> No_plan
   | Some p \<Rightarrow>
       if p \<in> set (v_after v) then
         (case (stop_after_requested (v_row v), stop_after_remaining (v_row v)) of
            (Some q, Some m) \<Rightarrow> Countdown q m | _ \<Rightarrow> No_plan)
       else if p \<in> set (v_handoff v) then Handing_off (begun_flag (v_row v))
       else if p \<in> set (v_stop v) then Plain_stop
       else No_plan)"

definition gate_of :: "control_store \<Rightarrow> gate" where
  "gate_of s = (case control_state (tables s) of
     None \<Rightarrow> (STOPPED, No_plan)
   | Some r \<Rightarrow> (case intake_of_value (intake r) of None \<Rightarrow> STOPPED | Some i \<Rightarrow> i,
                plan_of (view_of True r (commands (tables s)))))"

definition control_inv :: "control_store \<Rightarrow> bool" where
  "control_inv s \<longleftrightarrow> control_rel (gate_of s) s"

lemma plan_of_rel: "plan_rel p v \<Longrightarrow> plan_of v = p"
  by (cases p) (auto simp: plan_of_def split: option.splits)

lemma view_of_env: "view_of e r rs = (view_of b r rs)\<lparr>v_env := e\<rparr>"
  by (simp add: view_of_def)

lemma plan_of_env: "plan_of (view_of e r rs) = plan_of (view_of True r rs)"
  unfolding view_of_env [of e r rs True] by (simp add: plan_of_def split: option.split)

lemma gate_of_rel:
  assumes "control_rel g s"
  shows "gate_of s = g"
proof -
  from assms obtain r where r: "control_state (tables s) = Some r"
    and rel: "view_rel g (view_of (env_ok s) r (commands (tables s)))"
    by (auto simp: control_rel_def sees_def)
  from rel have "intake r = intake_value (fst g)" by (simp add: view_rel_def view_of_def)
  moreover from rel have "plan_of (view_of True r (commands (tables s))) = snd g"
    by (metis view_rel_def plan_of_rel plan_of_env)
  ultimately show ?thesis using r by (cases g) (simp add: gate_of_def)
qed

lemma control_inv_rel: "control_inv s \<longleftrightarrow> (\<exists>g. control_rel g s)"
  unfolding control_inv_def using gate_of_rel by metis

lemma control_rel_fresh: "control_rel (RUNNING, No_plan) (fresh_store clk q)"
  by (simp add: control_rel_def sees_def view_rel_def view_of_def fresh_store_def initial_state_row_def
      wf_rows_Nil row_simps tracked_ok_def priority_ok_def)

lemma control_inv_fresh: "control_inv (fresh_store clk q)"
  using control_rel_fresh by (auto simp: control_inv_rel)

lemma gate_of_fresh: "gate_of (fresh_store clk q) = (RUNNING, No_plan)"
  by (rule gate_of_rel) (rule control_rel_fresh)

text \<open>
  The effect of the control store's internals on the view, as rules of a weakest-precondition calculus:
  \<open>wp m Q s\<close> says that if \<open>m\<close> returns from \<open>s\<close>, its value and the state it leaves satisfy \<open>Q\<close>. A rule takes
  the view of the state before and gives the view after, so a command's proof runs forward through its
  statements.
\<close>

named_theorems wp_elims \<open>statements whose effect on the view is known\<close>
named_theorems wp_intros \<open>control structure\<close>

abbreviation rows :: "control_store \<Rightarrow> command_row list" where
  "rows s \<equiv> commands (tables s)"

abbreviation state :: "control_store \<Rightarrow> state_row option" where
  "state s \<equiv> control_state (tables s)"

abbreviation counted :: "control_store \<Rightarrow> counted_row list" where
  "counted s \<equiv> counted_attempts (tables s)"

definition wp :: "'a ctl \<Rightarrow> ('a \<Rightarrow> control_store \<Rightarrow> bool) \<Rightarrow> control_store \<Rightarrow> bool" where
  "wp m Q s \<longleftrightarrow> (\<forall>x t. m s = (Inr x, t) \<longrightarrow> Q x t)"

lemma wpD: "wp m Q s \<Longrightarrow> m s = (Inr x, t) \<Longrightarrow> Q x t"
  by (simp add: wp_def)

lemma wp_seq [wp_intros]: "wp m (\<lambda>x t. wp (f x) Q t) s \<Longrightarrow> wp (seq m f) Q s"
  by (auto simp: wp_def seq_eq_Inr)

lemma wp_ret [wp_intros]: "Q x s \<Longrightarrow> wp (ret x) Q s"
  by (simp add: wp_def ret_def)

lemma wp_throw [wp_intros]: "wp (throw e) Q s"
  by (simp add: wp_def throw_def)

lemma wp_if [wp_intros]:
  "(b \<Longrightarrow> wp m Q s) \<Longrightarrow> (\<not> b \<Longrightarrow> wp n Q s) \<Longrightarrow> wp (if b then m else n) Q s"
  by simp

lemma wp_option [wp_intros]:
  "(z = None \<Longrightarrow> wp m Q s) \<Longrightarrow> (\<And>y. z = Some y \<Longrightarrow> wp (f y) Q s) \<Longrightarrow>
     wp (case z of None \<Rightarrow> m | Some y \<Rightarrow> f y) Q s"
  by (cases z) auto

lemma wp_let [wp_intros]: "wp (f z) Q s \<Longrightarrow> wp (let y = z in f y) Q s"
  by simp

lemma wp_transaction: "wp m Q s \<Longrightarrow> wp (transaction m) Q s"
  by (auto simp: wp_def transaction_def split: sqlite_condition.splits prod.splits sum.splits)

lemma transaction_Inl: "transaction body s = (Inl e, t) \<Longrightarrow> tables t = tables s"
  by (auto simp: transaction_def split: sqlite_condition.splits prod.splits sum.splits)

lemma wp_check_request_id: "(\<not> py_blank q \<Longrightarrow> length q \<le> 128 \<Longrightarrow> Q () s) \<Longrightarrow> wp (check_request_id q) Q s"
  by (auto simp: wp_def check_request_id_def throw_def ret_def split: if_splits)

lemma wp_lift_sum: "(\<And>x. r = Inr x \<Longrightarrow> Q x s) \<Longrightarrow> wp (lift_sum r) Q s"
  by (auto simp: wp_def lift_sum_def)

lemma sees_tables: "tables t = tables s \<Longrightarrow> env_ok t = env_ok s \<Longrightarrow> sees s v \<Longrightarrow> sees t v"
  by (simp add: sees_def)

lemma wp_timestamp [wp_elims]:
  assumes "sees s v" "\<And>x t. sees t v \<Longrightarrow> Q x t"
  shows "wp timestamp Q s"
  using assms(1)
  by (auto simp: wp_def timestamp_def split: instant.splits intro!: assms(2) intro: sees_tables [rotated 2])

lemma wp_update_state [wp_elims]:
  assumes "sees s v" "\<And>t. sees t (v\<lparr>v_row := f (v_row v)\<rparr>) \<Longrightarrow> Q () t"
  shows "wp (update_state f) Q s"
  using assms by (auto simp: wp_def update_state_def sees_def view_of_def)

lemma wp_state_row [wp_elims]: "sees s v \<Longrightarrow> (sees s v \<Longrightarrow> Q (v_row v) s) \<Longrightarrow> wp state_row_locked Q s"
  by (auto simp: wp_def state_row_locked_def sees_def view_of_def)

lemma wp_pending [wp_elims]:
  "sees s v \<Longrightarrow> (sees s v \<Longrightarrow> Q (pending_command_id (v_row v)) s) \<Longrightarrow> wp pending_locked Q s"
  by (auto simp: wp_def pending_locked_def state_row_locked_def sees_def view_of_def seq_def ret_def)

lemma wp_set_intake [wp_elims]:
  assumes "sees s v"
    "\<And>t. sees t (v\<lparr>v_row := (v_row v)\<lparr>intake := intake_value i, pending_command_id := p\<rparr>\<rparr>) \<Longrightarrow> Q () t"
  shows "wp (set_intake_locked i p) Q s"
  using assms unfolding set_intake_locked_def by (rule wp_update_state)

lemma wp_clear_stop_plan [wp_elims]:
  assumes "sees s v"
    "\<And>t. sees t (v\<lparr>v_row := (v_row v)\<lparr>stop_after_requested := None, stop_after_remaining := None,
       stop_after_active_attempt_id := None\<rparr>\<rparr>) \<Longrightarrow> Q () t"
  shows "wp clear_stop_plan_locked Q s"
  using assms unfolding clear_stop_plan_locked_def by (rule wp_update_state)

lemma wp_set_stop_plan [wp_elims]:
  assumes "sees s v"
    "\<And>t. sees t (v\<lparr>v_row := (v_row v)\<lparr>stop_after_requested := Some n, stop_after_remaining := Some m,
       stop_after_active_attempt_id := a, latest_counted_attempt_id := None,
       latest_counted_outcome := None\<rparr>\<rparr>) \<Longrightarrow> Q () t"
  shows "wp (set_stop_plan_locked n m a) Q s"
  using assms unfolding set_stop_plan_locked_def by (rule wp_update_state)

lemma wp_set_handoff [wp_elims]:
  assumes "sees s v"
    "\<And>t. sees t (v\<lparr>v_row := (v_row v)\<lparr>handoff_request_id := h, handoff_accepted_at := x,
       handoff_begun := Some (if b then 1 else 0), handoff_phase := ph\<rparr>\<rparr>) \<Longrightarrow> Q () t"
  shows "wp (set_handoff_locked h x b ph) Q s"
  using assms unfolding set_handoff_locked_def by (rule wp_update_state)

text \<open>Updates of the command table: which accepted commands remain in the view.\<close>

definition v_without_kinds :: "string list \<Rightarrow> view \<Rightarrow> view" where
  "v_without_kinds ks v = v\<lparr>
     v_stop := (if STOP_KIND \<in> set ks then [] else v_stop v),
     v_after := (if STOP_AFTER_KIND \<in> set ks then [] else v_after v),
     v_handoff := (if HANDOFF_KIND \<in> set ks then [] else v_handoff v),
     v_next := (if NEXT_ISSUE_KIND \<in> set ks then [] else v_next v)\<rparr>"

definition v_without_id :: "string \<Rightarrow> view \<Rightarrow> view" where
  "v_without_id q v = v\<lparr>
     v_stop := filter (\<lambda>x. x \<noteq> q) (v_stop v), v_after := filter (\<lambda>x. x \<noteq> q) (v_after v),
     v_handoff := filter (\<lambda>x. x \<noteq> q) (v_handoff v), v_next := filter (\<lambda>x. x \<noteq> q) (v_next v)\<rparr>"

definition v_with :: "string \<Rightarrow> string \<Rightarrow> acknowledgement \<Rightarrow> view \<Rightarrow> view" where
  "v_with q k a v = v\<lparr>
     v_stop := v_stop v @ (if k = STOP_KIND \<and> a = ACCEPTED then [q] else []),
     v_after := v_after v @ (if k = STOP_AFTER_KIND \<and> a = ACCEPTED then [q] else []),
     v_handoff := v_handoff v @ (if k = HANDOFF_KIND \<and> a = ACCEPTED then [q] else []),
     v_next := v_next v @ (if k = NEXT_ISSUE_KIND \<and> a = ACCEPTED then [q] else []),
     v_handoff_ids := v_handoff_ids v \<union> (if k = HANDOFF_KIND then {q} else {}),
     v_ids := insert q (v_ids v)\<rparr>"

definition v_acc :: "view \<Rightarrow> string list \<Rightarrow> string set" where
  "v_acc v ks = (if STOP_KIND \<in> set ks then set (v_stop v) else {})
     \<union> (if STOP_AFTER_KIND \<in> set ks then set (v_after v) else {})
     \<union> (if HANDOFF_KIND \<in> set ks then set (v_handoff v) else {})
     \<union> (if NEXT_ISSUE_KIND \<in> set ks then set (v_next v) else {})"

abbreviation plan_kinds :: "string list" where
  "plan_kinds \<equiv> [STOP_KIND, STOP_AFTER_KIND, HANDOFF_KIND, NEXT_ISSUE_KIND]"

lemma sees_acknowledge_kinds:
  assumes "sees s v" "a \<noteq> ACCEPTED" "t = s\<lparr>tables := (tables s)\<lparr>commands := acknowledge_rows (accepted_of ks) a d x (rows s)\<rparr>\<rparr>"
  shows "sees t (v_without_kinds ks v)"
  using assms by (auto simp: sees_def view_of_def row_simps v_without_kinds_def wf_rows_acknowledge)

lemma sees_acknowledge_id:
  assumes "sees s v" "a \<noteq> ACCEPTED" "t = s\<lparr>tables := (tables s)\<lparr>commands := acknowledge_rows (accepted_id q) a d x (rows s)\<rparr>\<rparr>"
  shows "sees t (v_without_id q v)"
  using assms by (auto simp: sees_def view_of_def row_simps v_without_id_def wf_rows_acknowledge)

lemma sees_acknowledge_rid:
  assumes "sees s v" "a \<noteq> ACCEPTED"
    "t = s\<lparr>tables := (tables s)\<lparr>commands := acknowledge_rows (\<lambda>r. row_request_id r = q) a d x (rows s)\<rparr>\<rparr>"
  shows "sees t (v_without_id q v)"
  using assms by (auto simp: sees_def view_of_def row_simps v_without_id_def wf_rows_acknowledge)

lemma wp_update_kinds [wp_elims]:
  assumes "sees s v" "a \<noteq> ACCEPTED" "\<And>t. sees t (v_without_kinds ks v) \<Longrightarrow> Q () t"
  shows "wp (update_rows (accepted_of ks) a d x) Q s"
  using assms(1,2) by (auto simp: wp_def update_rows_def intro!: assms(3) sees_acknowledge_kinds)

lemma wp_update_id [wp_elims]:
  assumes "sees s v" "a \<noteq> ACCEPTED" "\<And>t. sees t (v_without_id q v) \<Longrightarrow> Q () t"
  shows "wp (update_rows (accepted_id q) a d x) Q s"
  using assms(1,2) by (auto simp: wp_def update_rows_def intro!: assms(3) sees_acknowledge_id)

lemma wp_update_rid [wp_elims]:
  assumes "sees s v" "a \<noteq> ACCEPTED" "\<And>t. sees t (v_without_id q v) \<Longrightarrow> Q () t"
  shows "wp (update_rows (\<lambda>r. row_request_id r = q) a d x) Q s"
  using assms(1,2) by (auto simp: wp_def update_rows_def intro!: assms(3) sees_acknowledge_rid)

lemma sees_acc_ids:
  assumes "sees s v" "set ks \<subseteq> set plan_kinds"
  shows "set (acc_ids ks (rows s)) = v_acc v ks"
  using assms by (auto simp: sees_def view_of_def set_acc_ids v_acc_def)

lemma wp_accepted_plans [wp_elims]:
  assumes "sees s v" "set ks \<subseteq> set plan_kinds" "\<And>ids. sees s v \<Longrightarrow> set ids = v_acc v ks \<Longrightarrow> Q ids s"
  shows "wp (accepted_plans_of_kinds_locked ks) Q s"
proof -
  have "accepted_plans_of_kinds_locked ks s = (Inr (acc_ids ks (rows s)), s)"
    by (simp add: accepted_plans_of_kinds_locked_def select_rows_def seq_def ret_def acc_ids_def)
  with assms sees_acc_ids [OF assms(1,2)] show ?thesis by (auto simp: wp_def)
qed

lemma v_without_none: "v_acc v ks = {} \<Longrightarrow> v_without_kinds ks v = v"
  by (auto simp: v_acc_def v_without_kinds_def split: if_splits)

lemma wp_supersede [wp_elims]:
  assumes "sees s v" "set ks \<subseteq> set plan_kinds"
    "\<And>ids t. sees t (v_without_kinds ks v) \<Longrightarrow> set ids = v_acc v ks \<Longrightarrow> Q ids t"
  shows "wp (supersede_plans_locked ks q) Q s"
  unfolding supersede_plans_locked_def
  apply (rule wp_seq)
  apply (rule wp_accepted_plans [OF assms(1,2)])
  apply (rule wp_if)
   apply (rule wp_seq, erule wp_timestamp, rule wp_seq, erule wp_update_kinds, simp, rule wp_ret)
   apply (erule assms(3), assumption)
  apply (rule wp_ret, rule assms(3))
   apply (metis set_empty v_without_none)
  apply assumption
  done

lemma wp_insert [wp_elims]:
  assumes "sees s v" "\<And>c t. sees t (v_with q k a v) \<Longrightarrow> rec_request_id c = q \<Longrightarrow> rec_kind c = k \<Longrightarrow>
      rec_ack c = a \<Longrightarrow> Q c t"
  shows "wp (insert_locked q k payload a d) Q s"
  unfolding insert_locked_def
proof (rule wp_seq, rule wp_timestamp [OF assms(1)], unfold wp_def, intro allI impI)
  fix x t c u
  assume t: "sees t v"
    and run: "(\<lambda>s. if find_row q (tables s) \<noteq> None
       then (Inl (ControlStoreError ''Control command could not be committed''), s)
       else
         (let n = max_sequence (commands (tables s)) + 1;
              row = \<lparr>row_request_id = q, row_sequence = n, row_kind = k,
                     row_payload = Some (canonical (JObj payload)), row_ack = ack_value a,
                     row_detail = d, row_created_at = x, row_updated_at = x\<rparr>
          in (Inr \<lparr>rec_request_id = q, rec_sequence = n, rec_kind = k, rec_ack = a,
                   rec_detail = d, rec_created_at = x, rec_updated_at = x\<rparr>,
              s\<lparr>tables := (tables s)\<lparr>commands := commands (tables s) @ [row]\<rparr>\<rparr>))) t = (Inr c, u)"
  then have new: "q \<notin> set (row_ids (rows t))"
    by (auto simp: find_row_None split: if_splits)
  with run t have "sees u (v_with q k a v)"
    by (auto simp: sees_def view_of_def v_with_def row_simps accepted_of_def Let_def wf_rows_max
        intro!: wf_rows_append split: if_splits)
  moreover from run new have "rec_request_id c = q \<and> rec_kind c = k \<and> rec_ack c = a"
    by (auto simp: find_row_None Let_def split: if_splits)
  ultimately show "Q c u" using assms(2) by blast
qed

end
