(* ===== verification/Control_Sim.thy ===== *)
theory Control_Sim
  imports Control_Laws
begin
text \<open>
  Every command of the control store, run on tables that implement a gate, leaves tables that implement the
  gate the abstract command moves to: one lemma per public method, built from the rules of the internals.
\<close>


text \<open>Looking a command up: what the view says about the record found.\<close>

definition found_ok :: "view \<Rightarrow> string \<Rightarrow> command_record \<Rightarrow> bool" where
  "found_ok v q c \<longleftrightarrow> rec_request_id c = q
     \<and> (\<forall>k \<in> set plan_kinds. q \<in> v_acc v [k] \<longleftrightarrow> rec_kind c = k \<and> rec_ack c = ACCEPTED)
     \<and> (q \<in> v_handoff_ids v \<longleftrightarrow> rec_kind c = HANDOFF_KIND)"

lemma wp_find:
  assumes s: "sees s v"
    and N: "sees s v \<Longrightarrow> find_row q (tables s) = None \<Longrightarrow> q \<notin> v_handoff_ids v \<Longrightarrow> q \<notin> v_acc v plan_kinds \<Longrightarrow> Q None s"
    and S: "\<And>c. sees s v \<Longrightarrow> found_ok v q c \<Longrightarrow> Q (Some c) s"
  shows "wp (find_locked q) Q s"
proof (cases "find_row q (tables s)")
  case None
  with s have "q \<notin> v_handoff_ids v \<and> q \<notin> v_acc v plan_kinds"
    by (auto simp: sees_def view_of_def v_acc_def acc_iff ids_of_kinds_iff)
  with None N [OF s None] show ?thesis by (auto simp: wp_def find_locked_def)
next
  case (Some r)
  show ?thesis
  proof (cases "record_from_row r")
    case (Inl e)
    with Some show ?thesis by (simp add: wp_def find_locked_def)
  next
    case (Inr c)
    have "found_ok v q c"
      using s Some record_from_row_fields [OF Inr] find_row_Some [OF Some]
      by (auto simp: found_ok_def sees_def view_of_def v_acc_def acc_iff ids_of_kinds_iff)
    with Some Inr S [OF s] show ?thesis by (simp add: wp_def find_locked_def)
  qed
qed

definition v_begun :: "view \<Rightarrow> bool" where
  "v_begun v \<longleftrightarrow> (\<exists>h. handoff_request_id (v_row v) = Some h \<and> h \<in> set (v_handoff v)) \<and> begun_flag (v_row v)"

lemma wp_handoff_begun [wp_elims]:
  assumes s: "sees s v" and tr: "tracked_ok v" and Q: "sees s v \<Longrightarrow> Q (v_begun v) s"
  shows "wp handoff_begun_locked Q s"
  unfolding handoff_begun_locked_def
proof (rule wp_seq, rule wp_state_row [OF s], rule wp_option)
  assume "handoff_request_id (v_row v) = None"
  then show "wp (ret False) Q s" using Q [OF s] by (auto simp: v_begun_def intro: wp_ret)
next
  fix h
  assume h: "handoff_request_id (v_row v) = Some h"
  with tr have "h \<in> v_handoff_ids v" by (simp add: tracked_ok_def)
  then show "wp (seq (find_locked h) (\<lambda>record. ret (case record of None \<Rightarrow> False
      | Some c \<Rightarrow> rec_ack c = ACCEPTED \<and>
          (case handoff_begun (v_row v) of None \<Rightarrow> False | Some b \<Rightarrow> b \<noteq> 0)))) Q s"
    using Q [OF s] h
    by (intro wp_seq wp_find [OF s])
      (auto simp: found_ok_def v_acc_def v_begun_def begun_flag_def intro!: wp_ret)
qed

lemma wp_is_tracked [wp_elims]:
  assumes s: "sees s v" and tr: "tracked_ok v"
    and Q: "sees s v \<Longrightarrow> Q (handoff_request_id (v_row v) = Some q \<and> q \<in> set (v_handoff v)) s"
  shows "wp (is_tracked_handoff_locked q) Q s"
  unfolding is_tracked_handoff_locked_def
proof (rule wp_seq, rule wp_state_row [OF s], rule wp_if)
  assume "handoff_request_id (v_row v) \<noteq> Some q"
  then show "wp (ret False) Q s" using Q [OF s] by (auto intro: wp_ret)
next
  assume h: "\<not> handoff_request_id (v_row v) \<noteq> Some q"
  with tr have "q \<in> v_handoff_ids v" by (simp add: tracked_ok_def)
  then show "wp (seq (find_locked q) (\<lambda>record. ret (case record of None \<Rightarrow> False
      | Some c \<Rightarrow> rec_ack c = ACCEPTED))) Q s"
    using Q [OF s] h
    by (intro wp_seq wp_find [OF s]) (auto simp: found_ok_def v_acc_def intro!: wp_ret)
qed

lemma wp_intake [wp_elims]:
  assumes s: "sees s v" and Q: "\<And>i. sees s v \<Longrightarrow> intake (v_row v) = intake_value i \<Longrightarrow> Q i s"
  shows "wp intake_locked Q s"
  unfolding intake_locked_def
proof (rule wp_seq, rule wp_state_row [OF s])
  show "wp (case intake_of_value (intake (v_row v)) of
      None \<Rightarrow> throw (ControlStoreError ''Control state is malformed'') | Some x \<Rightarrow> ret x) Q s"
    using Q [OF s]
    by (auto simp: intake_of_value_def intake_value_def intro!: wp_throw wp_ret split: if_splits)
qed

lemma wp_record_stop [wp_elims]:
  assumes s: "sees s v"
    and Q: "\<And>c t. sees t ((v_with q STOP_KIND a v)\<lparr>v_row := (v_row v)\<lparr>intake := intake_value i,
        pending_command_id := p\<rparr>\<rparr>) \<Longrightarrow> rec_ack c = a \<Longrightarrow> Q c t"
  shows "wp (record_stop q a d i p) Q s"
  unfolding record_stop_def
  apply (rule wp_seq, rule wp_insert [OF s])
  apply (rule wp_seq, erule wp_set_intake, rule wp_ret)
  apply (rule Q)
   apply (simp add: v_with_def)
  apply assumption
  done

lemmas view_defs = v_with_def v_without_kinds_def v_without_id_def v_acc_def v_begun_def
  tracked_ok_def priority_ok_def begun_flag_def

lemma control_relI: "sees s v \<Longrightarrow> view_rel g v \<Longrightarrow> control_rel g s"
  by (auto simp: control_rel_def)

lemma wp_replay:
  assumes s: "sees s v"
    and fresh: "find_row q (tables s) = None \<Longrightarrow> wp body Q s"
    and known: "\<And>c. find_row q (tables s) \<noteq> None \<Longrightarrow> Q c s"
  shows "wp (replay_or q k payload body) Q s"
proof (cases "find_row q (tables s)")
  case None
  then show ?thesis using fresh by (simp add: wp_def replay_or_def seq_def find_locked_def)
next
  case (Some r)
  then show ?thesis using known
    by (auto simp: wp_def replay_or_def seq_def find_locked_def ensure_payload_identical_def ret_def
        split: option.splits sum.splits prod.splits if_splits)
qed

lemma wp_sum:
  "(\<And>x. z = Inl x \<Longrightarrow> wp (f x) Q s) \<Longrightarrow> (\<And>y. z = Inr y \<Longrightarrow> wp (g y) Q s) \<Longrightarrow> wp (case z of Inl x \<Rightarrow> f x | Inr y \<Rightarrow> g y) Q s"
  by (cases z) auto

lemma wp_conseq: "wp m Q s \<Longrightarrow> (\<And>x t. Q x t \<Longrightarrow> R x t) \<Longrightarrow> wp m R s"
  by (auto simp: wp_def)

section \<open>Commands\<close>

lemma stop_while_running_rel:
  assumes "sees s v" "view_rel (RUNNING, p) v"
  shows "wp (stop_while_running q active) (\<lambda>c t. control_rel (gate_stop active (RUNNING, p)) t) s"
  unfolding stop_while_running_def
  apply (insert assms)
  apply (cases p)
  apply (rule wp_seq | rule wp_if | rule wp_ret | erule wp_elims | rule control_relI, assumption
      | (simp add: view_rel_def view_defs; fail))+
  done

lemma stop_while_stopping_rel:
  assumes "sees s v" "view_rel (STOPPING, p) v"
  shows "wp (stop_while_stopping q) (\<lambda>c t. control_rel (gate_stop active (STOPPING, p)) t) s"
  unfolding stop_while_stopping_def
  apply (insert assms)
  apply (cases p)
  apply (rule wp_seq | rule wp_if | rule wp_ret | rule wp_option | erule wp_elims | rule control_relI, assumption
      | (force simp add: view_rel_def view_defs; fail))+
  done

text \<open>A submit that replays a known request leaves the gate alone; a fresh one moves it.\<close>

definition fresh_to :: "string \<Rightarrow> control_store \<Rightarrow> gate \<Rightarrow> gate \<Rightarrow> gate" where
  "fresh_to q s g g' = (if find_row q (tables s) = None then g' else g)"

lemma wp_submit:
  assumes rel: "control_rel g s"
    and fresh: "\<And>v. sees s v \<Longrightarrow> view_rel g v \<Longrightarrow> find_row q (tables s) = None \<Longrightarrow>
      wp body (\<lambda>c t. control_rel g' t) s"
  shows "wp (transaction (replay_or q k payload body)) (\<lambda>c t. control_rel (fresh_to q s g g') t) s"
proof -
  from rel obtain v where v: "sees s v" "view_rel g v" by (auto simp: control_rel_def)
  show ?thesis
    by (rule wp_transaction, rule wp_replay [OF v(1)])
      (use v fresh in \<open>auto simp: fresh_to_def control_rel_def\<close>)
qed

lemma wp_checked_submit:
  assumes "control_rel g s"
    and "\<And>v. sees s v \<Longrightarrow> view_rel g v \<Longrightarrow> find_row q (tables s) = None \<Longrightarrow> wp body (\<lambda>c t. control_rel g' t) s"
  shows "wp (seq (check_request_id q) (\<lambda>_. transaction (replay_or q k payload body)))
    (\<lambda>c t. control_rel (fresh_to q s g g') t) s"
  by (rule wp_seq, rule wp_check_request_id, rule wp_submit [OF assms])

lemma submit_stop_rel:
  assumes "control_rel g s"
  shows "wp (submit_stop q active) (\<lambda>c t. control_rel (fresh_to q s g (gate_stop active g)) t) s"
  unfolding submit_stop_def
proof (rule wp_checked_submit [OF assms])
  fix v
  assume v: "sees s v" "view_rel g v"
  obtain i p where g: "g = (i, p)" by (cases g)
  show "wp (seq intake_locked (\<lambda>i. case i of
         STOPPED \<Rightarrow> seq pending_locked (\<lambda>pending.
           record_stop q COMPLETED ''intake already stopped'' STOPPED pending)
       | STOPPING \<Rightarrow> stop_while_stopping q
       | RUNNING \<Rightarrow> stop_while_running q active)) (\<lambda>c t. control_rel (gate_stop active g) t) s"
  proof (rule wp_seq, rule wp_intake [OF v(1)])
    fix j
    assume "intake (v_row v) = intake_value j"
    with v g have j: "j = i" by (simp add: view_rel_def)
    show "wp (case j of
         STOPPED \<Rightarrow> seq pending_locked (\<lambda>pending.
           record_stop q COMPLETED ''intake already stopped'' STOPPED pending)
       | STOPPING \<Rightarrow> stop_while_stopping q
       | RUNNING \<Rightarrow> stop_while_running q active) (\<lambda>c t. control_rel (gate_stop active g) t) s"
    proof (cases i)
      case RUNNING
      with v j g show ?thesis by (simp add: stop_while_running_rel del: gate_stop.simps)
    next
      case STOPPING
      with v j g show ?thesis by (simp add: stop_while_stopping_rel del: gate_stop.simps)
    next
      case STOPPED
      with v g have "p = No_plan" by (cases p) (auto simp: view_rel_def)
      with v g STOPPED j show ?thesis
        by (simp only: intake_state.case)
          (rule wp_seq | erule wp_elims | rule control_relI, assumption | (simp add: view_rel_def view_defs; fail))+
    qed
  qed
qed

lemma resume_rel:
  assumes "sees s v" "view_rel g v"
  shows "wp (seq handoff_begun_locked (\<lambda>begun.
           if begun then resume_handoff_begun q else resume_replacing q active))
         (\<lambda>c t. control_rel (gate_resume g) t) s"
  unfolding resume_handoff_begun_def resume_replacing_def STOP_PLAN_KINDS_def
  apply (insert assms)
  apply (cases g; cases "snd g")
  apply (rule wp_seq | rule wp_if | rule wp_ret | rule wp_let | rule wp_option | erule wp_elims | rule control_relI, assumption
      | (force simp add: view_rel_def view_defs; fail))+
  done

lemma submit_resume_rel:
  assumes "control_rel g s"
  shows "wp (submit_resume q active hold) (\<lambda>c t. control_rel (fresh_to q s g (gate_resume g)) t) s"
  unfolding submit_resume_def
  by (rule wp_checked_submit [OF assms]) (cases hold; auto intro: wp_throw resume_rel)

lemma wp_submit_opt:
  assumes rel: "control_rel g s"
    and fresh: "\<And>v. sees s v \<Longrightarrow> view_rel g v \<Longrightarrow> find_row q (tables s) = None \<Longrightarrow>
      wp body (\<lambda>c t. \<exists>g'. next = Some g' \<and> control_rel g' t) s"
  shows "wp (transaction (replay_or q k payload body))
    (\<lambda>c t. if find_row q (tables s) = None then \<exists>g'. next = Some g' \<and> control_rel g' t else control_rel g t) s"
proof -
  from rel obtain v where v: "sees s v" "view_rel g v" by (auto simp: control_rel_def)
  show ?thesis
    by (rule wp_transaction, rule wp_replay [OF v(1)]) (use v rel fresh in auto)
qed

lemma plan_stop_after_rel:
  assumes "sees s v" "view_rel g v" "fst g \<noteq> STOPPED" "snd g \<noteq> Handing_off True" "0 < n"
  shows "wp (plan_stop_after q n active)
    (\<lambda>c t. control_rel (if active \<noteq> None \<and> n = 1 then STOPPING else RUNNING, Countdown n n) t) s"
  unfolding plan_stop_after_def STOP_PLAN_KINDS_def
  apply (insert assms)
  apply (cases g; cases "snd g")
  apply (rule wp_seq | rule wp_if | rule wp_ret | rule wp_option | erule wp_elims | rule control_relI, assumption
      | (force simp add: view_rel_def view_defs; fail))+
  done

lemma submit_stop_after_rel:
  assumes rel: "control_rel g s"
  shows "wp (submit_stop_after q after active ident)
    (\<lambda>c t. \<exists>n. parse_stop_after after = Inr n \<and> (if find_row q (tables s) = None
        then \<exists>g'. gate_stop_after n active g = Some g' \<and> control_rel g' t else control_rel g t)) s"
  unfolding submit_stop_after_def
proof (rule wp_seq, rule wp_check_request_id, rule wp_seq, rule wp_lift_sum)
  fix n
  assume n: "parse_stop_after after = Inr n"
  then have pos: "0 < n"
    by (auto simp: parse_stop_after_def parse_positive_def split: json.splits if_splits option.splits)
  let ?body = "if active \<and> (case ident of None \<Rightarrow> True | Some a \<Rightarrow> py_blank a) then
         throw (ControlStoreError ''An active attempt must carry a stable attempt identity'')
       else seq intake_locked (\<lambda>i.
         if i = STOPPED then
           throw (StopAfterRejectedError ''stop --after N is rejected while intake is stopped; resume first. No control change was accepted.'')
         else seq handoff_begun_locked (\<lambda>begun.
           if begun then
             throw (StopAfterRejectedError ''stop --after N is rejected while a handoff owns the model; the handoff cannot be replaced once begun. No control change was accepted.'')
           else plan_stop_after q n (if active then ident else None)))"
  have "wp ?body (\<lambda>c t. \<exists>g'. gate_stop_after n active g = Some g' \<and> control_rel g' t) s"
    if v: "sees s v" "view_rel g v" for v
  proof (rule wp_if, rule wp_throw, rule wp_seq, rule wp_intake [OF v(1)], rule wp_if, rule wp_throw,
      rule wp_seq, rule wp_handoff_begun [OF v(1)], use v in \<open>simp add: view_rel_def\<close>, rule wp_if, rule wp_throw)
    fix i
    assume a: "\<not> (active \<and> (case ident of None \<Rightarrow> True | Some a \<Rightarrow> py_blank a))"
      and i: "intake (v_row v) = intake_value i" "i \<noteq> STOPPED" and b: "\<not> v_begun v"
    have eq: "((if active then ident else None) \<noteq> None) = active"
      using a by (auto split: option.splits)
    have "fst g \<noteq> STOPPED" "snd g \<noteq> Handing_off True"
      using v(2) i b by (cases g; auto simp: view_rel_def v_begun_def)+
    then have nxt: "gate_stop_after n active g = Some (if active \<and> n = 1 then STOPPING else RUNNING, Countdown n n)"
      by (cases g) simp
    show "wp (plan_stop_after q n (if active then ident else None))
        (\<lambda>c t. \<exists>g'. gate_stop_after n active g = Some g' \<and> control_rel g' t) s"
      using plan_stop_after_rel [OF v \<open>fst g \<noteq> STOPPED\<close> \<open>snd g \<noteq> Handing_off True\<close> pos, of q "if active then ident else None", unfolded eq]
      unfolding nxt by (rule wp_conseq) blast
  qed
  from wp_submit_opt [OF rel this, where q = q and k = STOP_AFTER_KIND and payload = "[(''after'', JInt n)]"] n
  show "wp (transaction (replay_or q STOP_AFTER_KIND [(''after'', JInt n)] ?body))
     (\<lambda>c t. \<exists>n. parse_stop_after after = Inr n \<and> (if find_row q (tables s) = None
        then \<exists>g'. gate_stop_after n active g = Some g' \<and> control_rel g' t else control_rel g t)) s"
    by simp
qed

lemma plan_handoff_rel:
  assumes "sees s v" "view_rel g v"
  shows "wp (plan_handoff q) (\<lambda>c t. control_rel (STOPPING, Handing_off False) t) s"
  unfolding plan_handoff_def
  apply (insert assms)
  apply (cases g; cases "snd g")
  apply (rule wp_seq | rule wp_if | rule wp_ret | erule wp_elims | rule control_relI, assumption
      | (force simp add: view_rel_def view_defs; fail))+
  done

lemma submit_handoff_rel:
  assumes rel: "control_rel g s"
  shows "wp (submit_handoff q active hold)
    (\<lambda>c t. if find_row q (tables s) = None
        then \<exists>g'. gate_handoff active g = Some g' \<and> control_rel g' t else control_rel g t) s"
  unfolding submit_handoff_def
proof (rule wp_seq, rule wp_check_request_id, rule wp_submit_opt [OF rel], rule wp_option)
  fix v
  assume v: "sees s v" "view_rel g v"
  show "wp (if \<not> active then throw (HandoffRejectedError
          ''handoff now is rejected without an active attempt; no control change was accepted.'')
        else seq handoff_begun_locked (\<lambda>begun. if begun then throw (HandoffRejectedError
          ''handoff now is rejected: the model has already begun the handoff skill and a second request cannot undo it. No control change was accepted.'')
          else plan_handoff q)) (\<lambda>c t. \<exists>g'. gate_handoff active g = Some g' \<and> control_rel g' t) s"
  proof (rule wp_if, rule wp_throw, rule wp_seq, rule wp_handoff_begun [OF v(1)],
      use v in \<open>simp add: view_rel_def\<close>, rule wp_if, rule wp_throw)
    assume "\<not> \<not> active" and b: "\<not> v_begun v"
    moreover have "snd g \<noteq> Handing_off True"
      using v(2) b by (auto simp: view_rel_def v_begun_def)
    ultimately have nxt: "gate_handoff active g = Some (STOPPING, Handing_off False)"
      by (cases g) simp
    show "wp (plan_handoff q) (\<lambda>c t. \<exists>g'. gate_handoff active g = Some g' \<and> control_rel g' t) s"
      unfolding nxt using plan_handoff_rel [OF v] by (rule wp_conseq) blast
  qed
qed (rule wp_throw)

lemma sees_kinds:
  assumes "sees s v"
  shows "q \<in> set (v_next v) \<Longrightarrow> q \<notin> set (v_stop v) \<and> q \<notin> set (v_after v) \<and> q \<notin> set (v_handoff v)"
    and "q \<in> v_handoff_ids v \<Longrightarrow> q \<notin> set (v_stop v) \<and> q \<notin> set (v_after v) \<and> q \<notin> set (v_next v)"
    and "q \<in> set (v_after v) \<Longrightarrow> q \<notin> set (v_stop v) \<and> q \<notin> set (v_next v) \<and> q \<notin> set (v_handoff v)"
  using assms by (auto simp: sees_def view_of_def acc_iff ids_of_kinds_iff)

lemma wp_next_issue:
  assumes s: "sees s v" and ok: "priority_ok v"
    and N: "sees s v \<Longrightarrow> next_issue_number (v_row v) = None \<Longrightarrow> v_next v = [] \<Longrightarrow> Q None s"
    and S: "\<And>n q. sees s v \<Longrightarrow> v_next v = [q] \<Longrightarrow> next_issue_request_id (v_row v) = Some q \<Longrightarrow>
      next_issue_number (v_row v) = Some n \<Longrightarrow> v_without_id q v = v\<lparr>v_next := []\<rparr> \<Longrightarrow> Q (Some (n, q)) s"
  shows "wp next_issue_locked Q s"
  unfolding next_issue_locked_def
proof (rule wp_seq, rule wp_state_row [OF s], rule wp_ret)
  have "v_without_id q v = v\<lparr>v_next := []\<rparr>" if "v_next v = [q]" for q
    using sees_kinds(1) [OF s, of q] that by (cases v) (auto simp: v_without_id_def filter_id_conv)
  then show "Q (case next_issue_number (v_row v) of None \<Rightarrow> None
      | Some n \<Rightarrow> (case next_issue_request_id (v_row v) of None \<Rightarrow> None | Some q \<Rightarrow> Some (n, q))) s"
    using ok N S s by (auto simp: priority_ok_def)
qed

lemma view_rel_next:
  assumes "view_rel g v" "0 < n"
  shows "view_rel g ((v_with q NEXT_ISSUE_KIND ACCEPTED (v\<lparr>v_next := []\<rparr>))
    \<lparr>v_row := (v_row v)\<lparr>next_issue_number := Some n, next_issue_request_id := Some q\<rparr>\<rparr>)"
  using assms by (cases g; cases "snd g") (auto simp: view_rel_def v_with_def tracked_ok_def priority_ok_def begun_flag_def)

lemma prioritize_issue_rel:
  assumes v: "sees s v" "view_rel g v" and pos: "0 < n"
  shows "wp (prioritize_issue q n) (\<lambda>c t. control_rel g t) s"
  unfolding prioritize_issue_def
proof (rule wp_seq, rule wp_next_issue [OF v(1)])
  show "priority_ok v" using v(2) by (simp add: view_rel_def)
  have fin: "control_rel g t" if "sees t ((v_with q NEXT_ISSUE_KIND ACCEPTED (v\<lparr>v_next := []\<rparr>))\<lparr>v_row := (v_row v)\<lparr>next_issue_number := Some n, next_issue_request_id := Some q\<rparr>\<rparr>)" for t
    using that view_rel_next [OF v(2) pos] by (rule control_relI)
  have rest: "wp (seq (insert_locked q NEXT_ISSUE_KIND [(''issue'', JInt n)] ACCEPTED d) (\<lambda>record.
      seq (update_state (\<lambda>r. r\<lparr>next_issue_number := Some n, next_issue_request_id := Some q\<rparr>)) (\<lambda>_. ret record)))
      (\<lambda>c t. control_rel g t) t" if "sees t (v\<lparr>v_next := []\<rparr>)" for d t
    by (rule wp_seq, rule wp_insert [OF that], rule wp_seq, erule wp_update_state, rule wp_ret)
      (auto simp: v_with_def intro!: fin)
  let ?k = "\<lambda>current. seq timestamp (\<lambda>t.
     seq (case current of
            Some (n, q') \<Rightarrow> seq (update_rows (accepted_id q') SUPERSEDED (''superseded by '' @ q) t) (\<lambda>_.
              ret (''; supersedes '' @ q' @ '' (was #'' @ str_of_int n @ '')''))
          | None \<Rightarrow> ret '''') (\<lambda>note.
     seq (insert_locked q NEXT_ISSUE_KIND [(''issue'', JInt n)] ACCEPTED
            (''next issue #'' @ str_of_int n @ '' prioritized for the next permitted claim'' @ note))
       (\<lambda>record.
     seq (update_state (\<lambda>r. r\<lparr>next_issue_number := Some n, next_issue_request_id := Some q\<rparr>)) (\<lambda>_.
     ret record))))"
  { assume a: "sees s v" "v_next v = []"
    then have "sees t (v\<lparr>v_next := []\<rparr>)" if "sees t v" for t using that by (cases v) simp
    then show "wp (?k None) (\<lambda>c t. control_rel g t) s"
      using a(1) by (simp only: option.case)
        (rule wp_seq, erule wp_timestamp, rule wp_seq, rule wp_ret, rule rest, simp) }
  { fix m p
    assume a: "sees s v" "v_without_id p v = v\<lparr>v_next := []\<rparr>"
    show "wp (?k (Some (m, p))) (\<lambda>c t. control_rel g t) s"
      by (simp only: option.case prod.case)
        (rule wp_seq, rule wp_timestamp [OF a(1)], rule wp_seq, rule wp_seq, erule wp_update_id, simp, rule wp_ret,
          rule rest, simp only: a(2)) }
qed

lemma submit_next_issue_rel:
  assumes rel: "control_rel g s"
  shows "wp (submit_next_issue q issue) (\<lambda>c t. control_rel g t) s"
  unfolding submit_next_issue_def
proof (rule wp_seq, rule wp_check_request_id, rule wp_seq, rule wp_lift_sum)
  fix n
  assume "parse_next_issue issue = Inr n"
  then have pos: "0 < n"
    by (auto simp: parse_next_issue_def parse_positive_def split: json.splits if_splits option.splits)
  have "wp (transaction (replay_or q NEXT_ISSUE_KIND [(''issue'', JInt n)] (prioritize_issue q n)))
     (\<lambda>c t. control_rel (fresh_to q s g g) t) s"
    by (rule wp_submit [OF rel]) (rule prioritize_issue_rel [OF _ _ pos])
  then show "wp (transaction (replay_or q NEXT_ISSUE_KIND [(''issue'', JInt n)] (prioritize_issue q n)))
     (\<lambda>c t. control_rel g t) s"
    by (simp add: fresh_to_def)
qed

lemma wp_at: "wp (seq m (f s)) Q s \<Longrightarrow> wp (\<lambda>s. seq m (f s) s) Q s"
  by (simp add: wp_def)

lemma wp_value: "Q (z s) s \<Longrightarrow> wp (\<lambda>s. (Inr (z s), s)) Q s"
  by (simp add: wp_def)

lemma wp_decode_settled: "(\<And>c. Q c s) \<Longrightarrow> wp (decode_settled row) Q s"
  by (auto simp: wp_def decode_settled_def seq_def lift_row_def ret_def throw_def
      split: option.splits sum.splits prod.splits)

lemma view_rel_no_next:
  assumes "view_rel g v"
  shows "view_rel g (v\<lparr>v_next := [], v_row := (v_row v)\<lparr>next_issue_number := None, next_issue_request_id := None\<rparr>\<rparr>)"
  using assms by (cases g; cases "snd g") (auto simp: view_rel_def tracked_ok_def priority_ok_def begun_flag_def)

lemma settle_next_issue_rel:
  assumes rel: "control_rel g s" and a: "a \<noteq> ACCEPTED"
  shows "wp (settle_next_issue a d m) (\<lambda>c t. control_rel g t) s"
proof -
  from rel obtain v where v: "sees s v" "view_rel g v" by (auto simp: control_rel_def)
  have fin: "control_rel g t" if "sees t (v\<lparr>v_next := [], v_row := (v_row v)\<lparr>next_issue_number := None, next_issue_request_id := None\<rparr>\<rparr>)" for t
    using that view_rel_no_next [OF v(2)] by (rule control_relI)
  show ?thesis
    unfolding settle_next_issue_def
  proof (rule wp_transaction, rule wp_seq, rule wp_next_issue [OF v(1)])
    show "priority_ok v" using v(2) by (simp add: view_rel_def)
    fix n q
    assume w: "v_without_id q v = v\<lparr>v_next := []\<rparr>"
    show "wp (case Some (n, q) of None \<Rightarrow> ret None | Some (n, q) \<Rightarrow>
         if \<not> m n then ret None
         else seq timestamp (\<lambda>t. seq (update_rows (accepted_id q) a (d n) t) (\<lambda>_ s.
             seq (update_state (\<lambda>r. r\<lparr>next_issue_number := None, next_issue_request_id := None\<rparr>)) (\<lambda>_.
             ret (Some (find_row q (tables s)))) s)))
       (\<lambda>c t. control_rel g t) s"
      by (simp only: option.case prod.case)
        (rule wp_if, rule wp_ret, rule rel, rule wp_seq, rule wp_timestamp [OF v(1)], rule wp_seq,
          erule wp_update_id, rule a, rule wp_at, rule wp_seq, erule wp_update_state, rule wp_ret, rule fin, simp add: w)
  qed (simp only: option.case, rule wp_ret, rule rel)
qed

lemma complete_next_issue_rel:
  "control_rel g s \<Longrightarrow> wp (complete_next_issue n) (\<lambda>c t. control_rel g t) s"
  unfolding complete_next_issue_def
  by (rule wp_seq, rule wp_conseq, erule settle_next_issue_rel, simp, rule wp_decode_settled)

lemma fail_next_issue_rel:
  "control_rel g s \<Longrightarrow> wp (fail_next_issue reason) (\<lambda>c t. control_rel g t) s"
  unfolding fail_next_issue_def
  by (rule wp_if, rule wp_throw, rule wp_seq, rule wp_conseq, erule settle_next_issue_rel, simp, rule wp_decode_settled)

text \<open>Delivery of a handoff.\<close>

lemma mark_handoff_rel:
  assumes rel: "control_rel g s"
    and f: "\<And>v. view_rel g v \<Longrightarrow> handoff_request_id (v_row v) = Some q \<Longrightarrow> q \<in> set (v_handoff v) \<Longrightarrow>
      view_rel g' (v\<lparr>v_row := f (v_row v)\<rparr>)"
  shows "wp (mark_handoff q f) (\<lambda>b t. control_rel (if b then g' else g) t) s"
proof -
  from rel obtain v where v: "sees s v" "view_rel g v" by (auto simp: control_rel_def)
  then have tr: "tracked_ok v" by (simp add: view_rel_def)
  have up: "wp (seq (update_state f) (\<lambda>_. ret True)) (\<lambda>b t. control_rel (if b then g' else g) t) s"
    if "handoff_request_id (v_row v) = Some q" "q \<in> set (v_handoff v)"
    by (rule wp_seq, rule wp_update_state [OF v(1)], rule wp_ret)
      (use f [OF v(2) that] in \<open>auto intro: control_relI\<close>)
  show ?thesis
    unfolding mark_handoff_def
    by (rule wp_transaction, rule wp_seq, rule wp_is_tracked [OF v(1) tr], rule wp_if, rule wp_ret)
      (use rel up in auto)
qed

lemma mark_handoff_delivering_rel:
  assumes "control_rel g s"
  shows "wp (mark_handoff_delivering q) (\<lambda>b t. control_rel g t) s"
proof -
  have "wp (mark_handoff_delivering q) (\<lambda>b t. control_rel (if b then g else g) t) s"
    unfolding mark_handoff_delivering_def
    by (rule mark_handoff_rel [OF assms], cases g, cases "snd g")
      (auto simp: view_rel_def tracked_ok_def priority_ok_def begun_flag_def)
  then show ?thesis by simp
qed

lemma mark_handoff_begun_rel:
  assumes "control_rel g s"
  shows "wp (mark_handoff_begun q) (\<lambda>b t. control_rel (if b then gate_begun g else g) t) s"
  unfolding mark_handoff_begun_def
  by (rule mark_handoff_rel [OF assms], cases g, cases "snd g")
    (auto simp: view_rel_def tracked_ok_def priority_ok_def begun_flag_def)

definition handoff_or_unknown :: "string \<Rightarrow> control_store \<Rightarrow> bool" where
  "handoff_or_unknown q s \<longleftrightarrow> (\<forall>r. find_row q (tables s) = Some r \<longrightarrow> row_kind r = HANDOFF_KIND)"

definition accepted_now :: "string \<Rightarrow> control_store \<Rightarrow> bool" where
  "accepted_now q s \<longleftrightarrow> (case find_row q (tables s) of None \<Rightarrow> False | Some r \<Rightarrow> row_ack r = ack_value ACCEPTED)"

lemma sees_handoff_or_unknown:
  "sees s v \<Longrightarrow> handoff_or_unknown q s \<Longrightarrow> find_row q (tables s) \<noteq> None \<Longrightarrow> q \<in> v_handoff_ids v"
  by (auto simp: sees_def view_of_def ids_of_kinds_iff handoff_or_unknown_def)

lemma sees_accepted_handoff:
  "sees s v \<Longrightarrow> q \<in> v_handoff_ids v \<Longrightarrow> accepted_now q s \<longleftrightarrow> q \<in> set (v_handoff v)"
  by (auto simp: sees_def view_of_def ids_of_kinds_iff acc_iff accepted_now_def split: option.splits)

lemma wp_find_row:
  assumes s: "sees s v"
    and N: "find_row q (tables s) = None \<Longrightarrow> Q None s"
    and S: "\<And>c. find_row q (tables s) \<noteq> None \<Longrightarrow> found_ok v q c \<Longrightarrow> (accepted_now q s \<longleftrightarrow> rec_ack c = ACCEPTED) \<Longrightarrow> Q (Some c) s"
  shows "wp (find_locked q) Q s"
proof (cases "find_row q (tables s)")
  case None
  with N show ?thesis by (auto simp: wp_def find_locked_def)
next
  case (Some r)
  show ?thesis
  proof (cases "record_from_row r")
    case (Inl e)
    with Some show ?thesis by (simp add: wp_def find_locked_def)
  next
    case (Inr c)
    have "found_ok v q c" "accepted_now q s \<longleftrightarrow> rec_ack c = ACCEPTED"
      using s Some record_from_row_fields [OF Inr] find_row_Some [OF Some]
      by (auto simp: found_ok_def sees_def view_of_def v_acc_def acc_iff ids_of_kinds_iff accepted_now_def)
    with Some Inr S show ?thesis by (simp add: wp_def find_locked_def)
  qed
qed

lemma settle_handoff_body_rel:
  assumes v: "sees s v" "view_rel g v" and q: "q \<in> set (v_handoff v)" "q \<in> v_handoff_ids v"
    and a: "a \<noteq> ACCEPTED" and c: "rec_kind c = HANDOFF_KIND"
  shows "wp (settle_handoff_body q a d ph c) (\<lambda>r t. control_rel (STOPPED, No_plan) t) s"
proof -
  from v(2) q(1) obtain b where g: "g = (STOPPING, Handing_off b)"
    by (cases g; cases "snd g") (auto simp: view_rel_def)
  with v(2) q(1) have h: "v_handoff v = [q]" "pending_command_id (v_row v) = Some q"
    by (auto simp: view_rel_def)
  have w: "v_without_id q v = v\<lparr>v_handoff := []\<rparr>"
    using sees_kinds(2) [OF v(1) q(2)] h by (cases v) (auto simp: v_without_id_def filter_id_conv)
  have fin: "control_rel (STOPPED, No_plan) t"
    if "sees t u" and "u = v\<lparr>v_handoff := [], v_stop := [], v_row := (v_row v)\<lparr>intake := intake_value STOPPED,
      pending_command_id := None, handoff_phase := Some ph\<rparr>\<rparr>" for t u
    using that v(2) g
    by (auto intro!: control_relI simp: view_rel_def tracked_ok_def priority_ok_def)
  show ?thesis
    unfolding settle_handoff_body_def
    apply (rule wp_seq, rule wp_timestamp [OF v(1)])
    apply (rule wp_seq, erule wp_update_rid, rule a)
    apply (simp only: w)
    apply (rule wp_seq, erule wp_pending)
    apply (rule wp_seq, rule wp_if)
     prefer 2 subgoal using h(2) by simp
    apply (erule wp_set_intake)
    apply (rule wp_seq, rule wp_if, erule wp_update_state)
     prefer 2 subgoal using c by simp
    apply (rule wp_seq, rule wp_if)
     prefer 2 subgoal by simp
    apply (rule wp_seq, erule wp_accepted_plans, simp)
    apply (rule wp_if)
     apply (erule wp_update_kinds, simp)
     apply (rule wp_value)
     apply (erule fin)
     apply (cases v, simp add: v_without_kinds_def)
    apply (rule wp_ret, rule wp_value, erule fin)
    apply (cases v, simp add: v_acc_def)
    done
qed

lemma settle_handoff_rel:
  assumes rel: "control_rel g s" and k: "handoff_or_unknown q s" and a: "a \<noteq> ACCEPTED"
  shows "wp (settle_handoff q a d ph) (\<lambda>c t. control_rel (if accepted_now q s then (STOPPED, No_plan) else g) t) s"
proof -
  from rel obtain v where v: "sees s v" "view_rel g v" by (auto simp: control_rel_def)
  show ?thesis
    unfolding settle_handoff_def
  proof (rule wp_seq, rule wp_transaction, rule wp_seq, rule wp_find_row [OF v(1)])
    assume "find_row q (tables s) = None"
    then show "wp (case None of None \<Rightarrow> ret (Inl None)
       | Some c \<Rightarrow> if rec_ack c \<noteq> ACCEPTED then ret (Inl (Some c))
           else seq (settle_handoff_body q a d ph c) (\<lambda>row. ret (Inr row)))
      (\<lambda>x t. wp (case x of Inl c \<Rightarrow> ret c | Inr row \<Rightarrow> decode_settled (Some row))
         (\<lambda>c t. control_rel (if accepted_now q s then (STOPPED, No_plan) else g) t) t) s"
      using rel by (auto simp: accepted_now_def intro!: wp_ret)
  next
    fix c
    assume f: "find_row q (tables s) \<noteq> None" "found_ok v q c" "accepted_now q s \<longleftrightarrow> rec_ack c = ACCEPTED"
    have ids: "q \<in> v_handoff_ids v" by (rule sees_handoff_or_unknown [OF v(1) k f(1)])
    have body: "wp (settle_handoff_body q a d ph c) (\<lambda>r t. control_rel (STOPPED, No_plan) t) s"
      if "accepted_now q s"
      using that f ids sees_accepted_handoff [OF v(1) ids] a
      by (intro settle_handoff_body_rel [OF v]) (auto simp: found_ok_def)
    show "wp (case Some c of None \<Rightarrow> ret (Inl None)
       | Some c \<Rightarrow> if rec_ack c \<noteq> ACCEPTED then ret (Inl (Some c))
           else seq (settle_handoff_body q a d ph c) (\<lambda>row. ret (Inr row)))
      (\<lambda>x t. wp (case x of Inl c \<Rightarrow> ret c | Inr row \<Rightarrow> decode_settled (Some row))
         (\<lambda>c t. control_rel (if accepted_now q s then (STOPPED, No_plan) else g) t) t) s"
    proof (simp only: option.case, rule wp_if)
      assume "rec_ack c \<noteq> ACCEPTED"
      with f(3) rel show "wp (ret (Inl (Some c))) (\<lambda>x t. wp (case x of Inl c \<Rightarrow> ret c | Inr row \<Rightarrow> decode_settled (Some row))
         (\<lambda>c t. control_rel (if accepted_now q s then (STOPPED, No_plan) else g) t) t) s"
        by (auto intro!: wp_ret)
    next
      assume "\<not> rec_ack c \<noteq> ACCEPTED"
      with f(3) have n: "accepted_now q s" by simp
      show "wp (seq (settle_handoff_body q a d ph c) (\<lambda>row. ret (Inr row))) (\<lambda>x t. wp (case x of Inl c \<Rightarrow> ret c | Inr row \<Rightarrow> decode_settled (Some row))
         (\<lambda>c t. control_rel (if accepted_now q s then (STOPPED, No_plan) else g) t) t) s"
        using body [OF n] n
        by (intro wp_seq) (erule wp_conseq, simp add: wp_ret wp_decode_settled)
    qed
  qed
qed

lemma complete_handoff_rel:
  assumes "control_rel g s" "handoff_or_unknown q s"
  shows "wp (complete_handoff q d) (\<lambda>c t. control_rel (if accepted_now q s then (STOPPED, No_plan) else g) t) s"
  unfolding complete_handoff_def by (rule wp_if, rule wp_throw, rule settle_handoff_rel [OF assms]) simp

lemma fail_handoff_rel:
  assumes "control_rel g s" "handoff_or_unknown q s"
  shows "wp (fail_handoff q d) (\<lambda>c t. control_rel (if accepted_now q s then (STOPPED, No_plan) else g) t) s"
  unfolding fail_handoff_def by (rule wp_if, rule wp_throw, rule settle_handoff_rel [OF assms]) simp

section \<open>Recovery commands and the errors reset\<close>

lemma insert_plain_rel:
  assumes v: "sees s v" "view_rel g v" and k: "k \<notin> set plan_kinds"
  shows "wp (insert_locked q k payload a d) (\<lambda>c t. control_rel g t) s"
proof (rule wp_insert [OF v(1)], erule control_relI)
  show "view_rel g (v_with q k a v)"
    using v(2) k by (cases g; cases "snd g") (auto simp: view_rel_def v_with_def tracked_ok_def priority_ok_def)
qed

lemma submit_plain_rel:
  assumes rel: "control_rel g s" and k: "k \<notin> set plan_kinds"
  shows "wp (transaction (replay_or q k payload (insert_locked q k payload a d))) (\<lambda>c t. control_rel g t) s"
proof -
  have "wp (transaction (replay_or q k payload (insert_locked q k payload a d)))
      (\<lambda>c t. control_rel (fresh_to q s g g) t) s"
    by (rule wp_submit [OF rel]) (rule insert_plain_rel [OF _ _ k])
  then show ?thesis by (simp add: fresh_to_def)
qed

lemma submit_recovery_retry_rel:
  "control_rel g s \<Longrightarrow> wp (submit_recovery_retry q x) (\<lambda>c t. control_rel g t) s"
  unfolding submit_recovery_retry_def
  by (rule wp_seq, rule wp_check_request_id, rule wp_seq, rule wp_lift_sum, erule submit_plain_rel) simp

lemma submit_recovery_release_rel:
  "control_rel g s \<Longrightarrow> wp (submit_recovery_release q x y) (\<lambda>c t. control_rel g t) s"
  unfolding submit_recovery_release_def Let_def
  by (rule wp_seq, rule wp_check_request_id, rule wp_seq, rule wp_lift_sum, rule wp_seq, rule wp_lift_sum,
      erule submit_plain_rel) simp

lemma submit_errors_reset_rel:
  "control_rel g s \<Longrightarrow> wp (submit_errors_reset q n) (\<lambda>c t. control_rel g t) s"
  unfolding submit_errors_reset_def
  by (rule wp_seq, rule wp_check_request_id, erule submit_plain_rel) simp

lemma submit_command_rel:
  assumes rel: "control_rel g s"
  shows "wp (submit_command k q payload) (\<lambda>c t. control_rel g t) s"
proof -
  have "wp (transaction (replay_or q k payload (throw (RequestIdError (''Unsupported command kind: '' @ k)))))
      (\<lambda>c t. control_rel (fresh_to q s g g) t) s"
    by (rule wp_submit [OF rel]) (rule wp_throw)
  then show ?thesis
    unfolding submit_command_def fresh_to_def
    by (intro wp_seq wp_check_request_id wp_if wp_throw) simp
qed

text \<open>Settling a recovery command names one of the two recovery kinds, or a request the store does not know.\<close>

definition recovery_or_unknown :: "string \<Rightarrow> control_store \<Rightarrow> bool" where
  "recovery_or_unknown q s \<longleftrightarrow> (\<forall>r. find_row q (tables s) = Some r \<longrightarrow>
     row_kind r = RECOVERY_RETRY_KIND \<or> row_kind r = RECOVERY_RELEASE_KIND)"

lemma sees_recovery:
  assumes s: "sees s v" and k: "recovery_or_unknown q s"
  shows "v_without_id q v = v"
proof -
  have "q \<notin> set (v_stop v)" "q \<notin> set (v_after v)" "q \<notin> set (v_handoff v)" "q \<notin> set (v_next v)"
    using s k by (auto simp: sees_def view_of_def acc_iff recovery_or_unknown_def kinds_neq [THEN not_sym])
  then show ?thesis by (cases v) (auto simp: v_without_id_def filter_id_conv)
qed

lemma wp_find_value: "(\<And>x. Q x s) \<Longrightarrow> wp (find_locked q) Q s"
  by (auto simp: wp_def find_locked_def split: option.splits sum.splits)

lemma settle_recovery_command_rel:
  assumes rel: "control_rel g s" and k: "recovery_or_unknown q s" and a: "a \<noteq> ACCEPTED"
  shows "wp (settle_recovery_command q a d) (\<lambda>c t. control_rel g t) s"
proof -
  from rel obtain v where v: "sees s v" "view_rel g v" by (auto simp: control_rel_def)
  have fin: "control_rel g t" if "sees t (v_without_id q v)" for t
    using that v(2) sees_recovery [OF v(1) k] by (auto simp: control_rel_def)
  show ?thesis
    unfolding settle_recovery_command_def
    apply (rule wp_seq, rule wp_transaction, rule wp_seq, rule wp_find_value)
    apply (rule wp_option, rule wp_ret, simp only: sum.case, rule wp_ret, rule rel)
    apply (rule wp_if, rule wp_ret, simp only: sum.case, rule wp_ret, rule rel)
    apply (rule wp_seq, rule wp_timestamp [OF v(1)], rule wp_seq, erule wp_update_rid, rule a)
    apply (rule wp_ret, simp only: sum.case, rule wp_find_value, erule fin)
    done
qed

lemma complete_recovery_command_rel:
  "control_rel g s \<Longrightarrow> recovery_or_unknown q s \<Longrightarrow> wp (complete_recovery_command q d) (\<lambda>c t. control_rel g t) s"
  unfolding complete_recovery_command_def
  by (rule wp_if, rule wp_throw, erule settle_recovery_command_rel, assumption) simp

lemma fail_recovery_command_rel:
  "control_rel g s \<Longrightarrow> recovery_or_unknown q s \<Longrightarrow> wp (fail_recovery_command q d) (\<lambda>c t. control_rel g t) s"
  unfolding fail_recovery_command_def
  by (rule wp_if, rule wp_throw, erule settle_recovery_command_rel, assumption) simp

section \<open>Completion boundaries\<close>

lemma wp_select_rows:
  "(\<And>rs. Q rs s) \<Longrightarrow> wp (select_rows P) Q s"
  by (simp add: wp_def select_rows_def)

lemma complete_plain_stops_rel:
  assumes v: "sees s v" "view_rel g v" and p: "pending_command_id (v_row v) = Some p" "p \<in> set (v_stop v)"
    and no_handoff: "snd g = Plain_stop"
  shows "wp complete_plain_stops_in_txn (\<lambda>c t. control_rel (STOPPED, No_plan) t) s"
proof -
  have fin: "control_rel (STOPPED, No_plan) t"
    if "sees t u" "u = v\<lparr>v_stop := [], v_row := (v_row v)\<lparr>intake := intake_value STOPPED, pending_command_id := None\<rparr>\<rparr>" for t u
    using that v(2) no_handoff
    by (auto intro!: control_relI simp: view_rel_def tracked_ok_def priority_ok_def)
  show ?thesis
    unfolding complete_plain_stops_in_txn_def
    by (rule wp_seq, rule wp_timestamp [OF v(1)], rule wp_seq, rule wp_select_rows, rule wp_seq,
        erule wp_update_kinds, simp, rule wp_seq, erule wp_set_intake, rule wp_ret, erule fin)
      (cases v, simp add: v_without_kinds_def)
qed

lemma complete_stops_if_plain_rel:
  assumes v: "sees s v" "view_rel g v"
  shows "wp (complete_stops_if_plain (pending_command_id (v_row v))) (\<lambda>c t. control_rel (gate_stop_completed g) t) s"
proof -
  have rel: "control_rel g s" using v by (auto simp: control_rel_def)
  show ?thesis
  proof (cases "snd g")
    case No_plan
    with v rel show ?thesis
      by (cases g) (auto simp: complete_stops_if_plain_def view_rel_def intro!: wp_ret)
  next
    case Plain_stop
    then have g: "gate_stop_completed g = (STOPPED, No_plan)" by (cases g) simp
    from Plain_stop v(2) obtain p where p: "pending_command_id (v_row v) = Some p" "p \<in> set (v_stop v)"
      by (auto simp: view_rel_def)
    show ?thesis
      unfolding complete_stops_if_plain_def p(1) option.case g
    proof (rule wp_seq, rule wp_find [OF v(1)])
      assume "p \<notin> v_acc v plan_kinds"
      with p show "wp (case None of None \<Rightarrow> ret [] | Some c \<Rightarrow> if rec_kind c \<noteq> STOP_KIND then ret [] else complete_plain_stops_in_txn)
          (\<lambda>c t. control_rel (STOPPED, No_plan) t) s"
        by (simp add: v_acc_def)
    next
      fix c
      assume "found_ok v p c"
      with p have "rec_kind c = STOP_KIND" by (auto simp: found_ok_def v_acc_def)
      then show "wp (case Some c of None \<Rightarrow> ret [] | Some c \<Rightarrow> if rec_kind c \<noteq> STOP_KIND then ret [] else complete_plain_stops_in_txn)
          (\<lambda>c t. control_rel (STOPPED, No_plan) t) s"
        using complete_plain_stops_rel [OF v p Plain_stop] by simp
    qed
  next
    case (Countdown n m)
    then have g: "gate_stop_completed g = g" by (cases g) simp
    from Countdown v(2) obtain p where p: "pending_command_id (v_row v) = Some p" "v_after v = [p]"
      by (auto simp: view_rel_def)
    show ?thesis
      unfolding complete_stops_if_plain_def p(1) option.case g
      by (rule wp_seq, rule wp_find [OF v(1)])
        (use p rel in \<open>auto simp: found_ok_def v_acc_def intro!: wp_ret\<close>)
  next
    case (Handing_off b)
    then have g: "gate_stop_completed g = g" by (cases g) simp
    from Handing_off v(2) obtain p where p: "pending_command_id (v_row v) = Some p" "v_handoff v = [p]"
      by (auto simp: view_rel_def)
    show ?thesis
      unfolding complete_stops_if_plain_def p(1) option.case g
      by (rule wp_seq, rule wp_find [OF v(1)])
        (use p rel in \<open>auto simp: found_ok_def v_acc_def intro!: wp_ret\<close>)
  qed
qed

lemma complete_pending_stop_rel:
  assumes "control_rel g s"
  shows "wp complete_pending_stop (\<lambda>c t. control_rel (gate_stop_completed g) t) s"
proof -
  from assms obtain v where v: "sees s v" "view_rel g v" by (auto simp: control_rel_def)
  show ?thesis
    unfolding complete_pending_stop_def
    by (rule wp_transaction, rule wp_seq, rule wp_pending [OF v(1)]) (rule complete_stops_if_plain_rel [OF v])
qed

end
