(* ===== verification/Control_System.thy ===== *)
theory Control_System
  imports Control_Sim
begin

text \<open>
  The completion boundaries of the control store on tables that implement a gate: a finalized attempt counts
  once against a plan, or completes the plain stops that wait for it.
\<close>

section \<open>Finalized attempts\<close>

lemma wp_insert_counted:
  assumes "sees s v" "\<not> already_counted a (tables s)" "\<And>t. sees t v \<Longrightarrow> Q () t"
  shows "wp (insert_counted a p out x) Q s"
proof -
  from assms(1,2) have "sees (snd (insert_counted a p out x s)) v"
    by (auto simp: insert_counted_def sees_def already_counted_def list_ex_iff)
  then show ?thesis using assms(3) by (auto simp: wp_def insert_counted_def)
qed

lemma wp_timestamp_tables:
  assumes "sees s v" "\<And>x t. sees t v \<Longrightarrow> tables t = tables s \<Longrightarrow> Q x t"
  shows "wp timestamp Q s"
  using assms(1)
  by (auto simp: wp_def timestamp_def split: instant.splits intro!: assms(2) intro: sees_tables [rotated 2])

lemma count_attempt_rel:
  assumes v: "sees s v" "view_rel (i, Countdown n m) v" and new: "\<not> already_counted a (tables s)"
    and p: "pending_command_id (v_row v) = Some p"
  shows "wp (count_attempt a out p i n m) (\<lambda>c t. control_rel (gate_finalized (i, Countdown n m)) t) s"
proof -
  from v(2) p have after: "v_after v = [p]" and i: "i \<noteq> STOPPED" by (auto simp: view_rel_def)
  have w: "v_without_id p v = v\<lparr>v_after := []\<rparr>"
    using sees_kinds(3) [OF v(1), of p] after by (cases v) (auto simp: v_without_id_def filter_id_conv)
  show ?thesis
    unfolding count_attempt_def Let_def
  proof (rule wp_seq, rule wp_timestamp_tables [OF v(1)], rule wp_seq, rule wp_insert_counted, assumption, use new in simp, rule wp_if)
    fix x t u
    assume t: "sees u v" and le: "m - 1 \<le> 0"
    have fin: "control_rel (STOPPED, No_plan) t"
      if "sees t w" "w = v\<lparr>v_after := [], v_row := (v_row v)\<lparr>intake := intake_value STOPPED, pending_command_id := None,
          stop_after_requested := None, stop_after_remaining := None, stop_after_active_attempt_id := None,
          latest_counted_attempt_id := Some a, latest_counted_outcome := Some out\<rparr>\<rparr>" for t w
      using that v(2) by (auto intro!: control_relI simp: view_rel_def tracked_ok_def priority_ok_def)
    show "wp (seq (update_rows (accepted_id p) COMPLETED
              (''stopped after '' @ attempts_noun n @ ''; last counted attempt '' @ a @ '' ('' @ out @ '')'') x) (\<lambda>_ s.
       seq (update_state (\<lambda>r. r\<lparr>intake := intake_value STOPPED, pending_command_id := None,
              stop_after_requested := None, stop_after_remaining := None,
              stop_after_active_attempt_id := None,
              latest_counted_attempt_id := Some a, latest_counted_outcome := Some out\<rparr>)) (\<lambda>_.
       ret (find_row p (tables s))) s)) (\<lambda>c t. control_rel (gate_finalized (i, Countdown n m)) t) u"
      using le
      by (intro wp_seq wp_update_id [OF t]) (simp, rule wp_at, rule wp_seq, erule wp_update_state, rule wp_ret,
        simp, erule fin, simp add: w)
  next
    fix x t u
    assume t: "sees u v" and gt: "\<not> m - 1 \<le> 0"
    have fin: "control_rel (RUNNING, Countdown n (m - 1)) t"
      if "sees t (v\<lparr>v_row := r\<rparr>)" "r = (v_row v)\<lparr>stop_after_remaining := Some (m - 1),
          latest_counted_attempt_id := Some a, latest_counted_outcome := Some out, intake := intake_value RUNNING\<rparr>" for t r
      using that v(2) gt by (auto intro!: control_relI simp: view_rel_def tracked_ok_def priority_ok_def)
    show "wp (seq (update_state (\<lambda>r. r\<lparr>stop_after_remaining := Some (m - 1),
              latest_counted_attempt_id := Some a, latest_counted_outcome := Some out\<rparr>)) (\<lambda>_.
       seq (if i \<noteq> STOPPED then update_state (\<lambda>r. r\<lparr>intake := intake_value RUNNING\<rparr>) else ret ()) (\<lambda>_.
       ret None))) (\<lambda>c t. control_rel (gate_finalized (i, Countdown n m)) t) u"
      using gt i
      by (intro wp_seq wp_update_state [OF t]) (simp, erule wp_update_state, rule wp_ret, simp, erule fin, simp)
  qed
qed

lemma record_attempt_finalized_rel:
  assumes rel: "control_rel g s"
  shows "wp (record_attempt_finalized a out)
    (\<lambda>c t. control_rel (if already_counted a (tables s) then g else gate_finalized g) t) s"
proof -
  from rel obtain v where v: "sees s v" "view_rel g v" by (auto simp: control_rel_def)
  let ?post = "\<lambda>c t. control_rel (if already_counted a (tables s) then g else gate_finalized g) t"
  have settle: "wp (case result of Inl records \<Rightarrow> ret records | Inr None \<Rightarrow> ret []
      | Inr (Some row) \<Rightarrow> seq (lift_row row) (\<lambda>c. ret [c])) ?post t" if "\<And>c. ?post c t" for result t
    using that by (auto simp: wp_def ret_def seq_def lift_row_def split: sum.splits option.splits)
  have body: "wp (seq state_row_locked (\<lambda>r. case stop_after_requested r of
       Some requested \<Rightarrow> seq (count_against_plan a out r requested) (\<lambda>row. ret (Inr row))
     | None \<Rightarrow> seq (complete_stops_if_plain (pending_command_id r)) (\<lambda>done. ret (Inl done))))
     (\<lambda>c t. control_rel (gate_finalized g) t) s" if new: "\<not> already_counted a (tables s)"
  proof (rule wp_seq, rule wp_state_row [OF v(1)], rule wp_option)
    assume none: "stop_after_requested (v_row v) = None"
    have "gate_finalized g = gate_stop_completed g"
      using v(2) none by (cases g; cases "snd g") (auto simp: view_rel_def)
    then show "wp (seq (complete_stops_if_plain (pending_command_id (v_row v))) (\<lambda>done. ret (Inl done)))
        (\<lambda>c t. control_rel (gate_finalized g) t) s"
      using complete_stops_if_plain_rel [OF v] by (intro wp_seq) (auto elim!: wp_conseq intro: wp_ret)
  next
    fix n
    assume some: "stop_after_requested (v_row v) = Some n"
    obtain i m where g: "g = (i, Countdown n m)"
      using v(2) some by (cases g; cases "snd g") (auto simp: view_rel_def)
    with v(2) obtain p where p: "pending_command_id (v_row v) = Some p" and m: "stop_after_remaining (v_row v) = Some m"
      and i: "intake (v_row v) = intake_value i"
      by (auto simp: view_rel_def)
    have "wp (count_against_plan a out (v_row v) n) (\<lambda>c t. control_rel (gate_finalized g) t) s"
      using count_attempt_rel [OF v(1) v(2) [unfolded g] new p, of out]
      by (simp add: count_against_plan_def p m i g)
    then show "wp (seq (count_against_plan a out (v_row v) n) (\<lambda>row. ret (Inr row)))
        (\<lambda>c t. control_rel (gate_finalized g) t) s"
      by (intro wp_seq) (auto elim!: wp_conseq intro: wp_ret)
  qed
  show ?thesis
    unfolding record_attempt_finalized_def
  proof (rule wp_if, rule wp_throw, rule wp_if, rule wp_throw, rule wp_seq, rule wp_transaction)
    show "wp (\<lambda>s. if already_counted a (tables s) then (Inr (Inl []), s)
          else seq state_row_locked (\<lambda>r. case stop_after_requested r of
              Some requested \<Rightarrow>
                seq (count_against_plan a out r requested) (\<lambda>row. ret (Inr row))
            | None \<Rightarrow>
                seq (complete_stops_if_plain (pending_command_id r)) (\<lambda>done. ret (Inl done))) s)
       (\<lambda>x t. wp (case x of Inl records \<Rightarrow> ret records | Inr None \<Rightarrow> ret []
         | Inr (Some row) \<Rightarrow> seq (lift_row row) (\<lambda>c. ret [c])) ?post t) s"
    proof (cases "already_counted a (tables s)")
      case True
      with rel show ?thesis by (simp add: wp_def ret_def)
    next
      case False
      from body [OF False] have "wp (seq state_row_locked (\<lambda>r. case stop_after_requested r of
              Some requested \<Rightarrow>
                seq (count_against_plan a out r requested) (\<lambda>row. ret (Inr row))
            | None \<Rightarrow>
                seq (complete_stops_if_plain (pending_command_id r)) (\<lambda>done. ret (Inl done))))
         (\<lambda>x t. wp (case x of Inl records \<Rightarrow> ret records | Inr None \<Rightarrow> ret []
         | Inr (Some row) \<Rightarrow> seq (lift_row row) (\<lambda>c. ret [c])) ?post t) s"
        by (rule wp_conseq) (rule settle, simp add: False)
      with False show ?thesis by (simp add: wp_def)
    qed
  qed
qed

lemma enter_stopping_for_final_claim_rel:
  assumes rel: "control_rel g s"
  shows "wp enter_stopping_for_final_claim (\<lambda>b t. control_rel (gate_final_claim g) t) s"
proof -
  from rel obtain v where v: "sees s v" "view_rel g v" by (auto simp: control_rel_def)
  show ?thesis
    unfolding enter_stopping_for_final_claim_def
    apply (rule wp_transaction)
    apply (insert v)
    apply (cases g; cases "snd g")
    apply (rule wp_seq | rule wp_if | rule wp_ret | rule wp_option | rule wp_throw | erule wp_elims | rule control_relI, assumption
      | (force simp add: view_rel_def view_defs; fail))+
    done
qed

text \<open>
  The control store as a transition system. \<open>control_event\<close> lists the public commands with their arguments,
  \<open>exec\<close> runs one on the store, \<open>gate_next\<close> is the abstract command on the gate and \<open>effective\<close> says when a
  command takes effect (a request the store has not recorded, an attempt it has not counted, a handoff still
  accepted). \<open>exec_refines\<close> is the simulation, from which the invariant of every reachable store follows.
\<close>

datatype control_event =
    Submit_stop string bool
  | Submit_resume string bool "recovery_hold option"
  | Submit_stop_after string json bool "string option"
  | Submit_next_issue string json
  | Submit_handoff string bool "recovery_hold option"
  | Submit_recovery_retry string json
  | Submit_recovery_release string json json
  | Submit_errors_reset string "int option"
  | Submit_other string string obj
  | Complete_next_issue int
  | Fail_next_issue string
  | Mark_handoff_delivering string
  | Mark_handoff_begun string
  | Complete_handoff string string
  | Fail_handoff string string
  | Complete_recovery string string
  | Fail_recovery string string
  | Complete_pending_stop
  | Attempt_finalized string string
  | Final_claim

definition ignore :: "'a ctl \<Rightarrow> unit ctl" where
  "ignore m = seq m (\<lambda>_. ret ())"

primrec exec :: "control_event \<Rightarrow> unit ctl" where
  "exec (Submit_stop q a) = ignore (submit_stop q a)"
| "exec (Submit_resume q a h) = ignore (submit_resume q a h)"
| "exec (Submit_stop_after q n a i) = ignore (submit_stop_after q n a i)"
| "exec (Submit_next_issue q n) = ignore (submit_next_issue q n)"
| "exec (Submit_handoff q a h) = ignore (submit_handoff q a h)"
| "exec (Submit_recovery_retry q x) = ignore (submit_recovery_retry q x)"
| "exec (Submit_recovery_release q x y) = ignore (submit_recovery_release q x y)"
| "exec (Submit_errors_reset q n) = ignore (submit_errors_reset q n)"
| "exec (Submit_other q k p) = ignore (submit_command k q p)"
| "exec (Complete_next_issue n) = ignore (complete_next_issue n)"
| "exec (Fail_next_issue r) = ignore (fail_next_issue r)"
| "exec (Mark_handoff_delivering q) = ignore (mark_handoff_delivering q)"
| "exec (Mark_handoff_begun q) = ignore (mark_handoff_begun q)"
| "exec (Complete_handoff q d) = ignore (complete_handoff q d)"
| "exec (Fail_handoff q d) = ignore (fail_handoff q d)"
| "exec (Complete_recovery q d) = ignore (complete_recovery_command q d)"
| "exec (Fail_recovery q d) = ignore (fail_recovery_command q d)"
| "exec Complete_pending_stop = ignore complete_pending_stop"
| "exec (Attempt_finalized a r) = ignore (record_attempt_finalized a r)"
| "exec Final_claim = ignore enter_stopping_for_final_claim"

text \<open>The request ID a submit carries.\<close>

fun submit_id :: "control_event \<Rightarrow> string option" where
  "submit_id (Submit_stop q a) = Some q"
| "submit_id (Submit_resume q a h) = Some q"
| "submit_id (Submit_stop_after q n a i) = Some q"
| "submit_id (Submit_next_issue q n) = Some q"
| "submit_id (Submit_handoff q a h) = Some q"
| "submit_id (Submit_recovery_retry q x) = Some q"
| "submit_id (Submit_recovery_release q x y) = Some q"
| "submit_id (Submit_errors_reset q n) = Some q"
| "submit_id (Submit_other q k p) = Some q"
| "submit_id e = None"

text \<open>
  The callers settle a handoff or a recovery command only under the ID of one; the methods themselves do not
  check the kind of the row they settle.
\<close>

fun well_named :: "control_event \<Rightarrow> control_store \<Rightarrow> bool" where
  "well_named (Complete_handoff q d) s = handoff_or_unknown q s"
| "well_named (Fail_handoff q d) s = handoff_or_unknown q s"
| "well_named (Complete_recovery q d) s = recovery_or_unknown q s"
| "well_named (Fail_recovery q d) s = recovery_or_unknown q s"
| "well_named e s = True"

definition tracked_now :: "string \<Rightarrow> control_store \<Rightarrow> bool" where
  "tracked_now q s \<longleftrightarrow> (case control_state (tables s) of None \<Rightarrow> False
     | Some r \<Rightarrow> handoff_request_id r = Some q \<and> accepted_now q s)"

fun effective :: "control_event \<Rightarrow> control_store \<Rightarrow> bool" where
  "effective (Attempt_finalized a r) s = (\<not> already_counted a (tables s))"
| "effective (Complete_handoff q d) s = accepted_now q s"
| "effective (Fail_handoff q d) s = accepted_now q s"
| "effective (Mark_handoff_begun q) s = tracked_now q s"
| "effective e s = (case submit_id e of None \<Rightarrow> True | Some q \<Rightarrow> find_row q (tables s) = None)"

text \<open>The abstract command: \<open>None\<close> when the gate refuses it.\<close>

fun gate_next :: "control_event \<Rightarrow> gate \<Rightarrow> gate option" where
  "gate_next (Submit_stop q a) g = Some (gate_stop a g)"
| "gate_next (Submit_resume q a h) g = (if h = None then Some (gate_resume g) else None)"
| "gate_next (Submit_stop_after q n a i) g =
     (case parse_stop_after n of Inl e \<Rightarrow> None | Inr m \<Rightarrow> gate_stop_after m a g)"
| "gate_next (Submit_handoff q a h) g = (if h = None then gate_handoff a g else None)"
| "gate_next (Submit_other q k p) g = None"
| "gate_next (Mark_handoff_begun q) g = Some (gate_begun g)"
| "gate_next (Complete_handoff q d) g = Some (STOPPED, No_plan)"
| "gate_next (Fail_handoff q d) g = Some (STOPPED, No_plan)"
| "gate_next Complete_pending_stop g = Some (gate_stop_completed g)"
| "gate_next (Attempt_finalized a r) g = Some (gate_finalized g)"
| "gate_next Final_claim g = Some (gate_final_claim g)"
| "gate_next e g = Some g"

definition gate_step :: "control_event \<Rightarrow> control_store \<Rightarrow> gate \<Rightarrow> control_store \<Rightarrow> bool" where
  "gate_step e s g t \<longleftrightarrow> (if effective e s then (\<exists>g'. gate_next e g = Some g' \<and> control_rel g' t) else control_rel g t)"

lemma wp_ignore: "wp m (\<lambda>_ t. Q () t) s \<Longrightarrow> wp (ignore m) Q s"
  unfolding ignore_def by (rule wp_seq, erule wp_conseq, rule wp_ret)

lemma mark_handoff_result:
  "mark_handoff q f s = (Inr b, t) \<Longrightarrow> control_inv s \<Longrightarrow> b = tracked_now q s"
  by (auto simp: mark_handoff_def transaction_def is_tracked_handoff_locked_def state_row_locked_def seq_def ret_def
      find_locked_def tracked_now_def accepted_now_def update_state_def throw_def record_from_row_def ack_of_value_def ack_value_def
      split: sqlite_condition.splits prod.splits sum.splits option.splits if_splits)

lemma submit_handoff_unheld: "submit_handoff q a h s = (Inr c, t) \<Longrightarrow> find_row q (tables s) = None \<Longrightarrow> h = None"
  by (auto simp: submit_handoff_def seq_def check_request_id_def throw_def ret_def transaction_def replay_or_def find_locked_def
      split: if_splits sqlite_condition.splits prod.splits sum.splits option.splits)

lemma submit_resume_unheld: "submit_resume q a h s = (Inr c, t) \<Longrightarrow> find_row q (tables s) = None \<Longrightarrow> h = None"
  by (auto simp: submit_resume_def seq_def check_request_id_def throw_def ret_def transaction_def replay_or_def find_locked_def
      split: if_splits sqlite_condition.splits prod.splits sum.splits option.splits)

lemma submit_command_unknown: "submit_command k q p s = (Inr c, t) \<Longrightarrow> find_row q (tables s) \<noteq> None"
  by (auto simp: submit_command_def seq_def check_request_id_def throw_def ret_def transaction_def replay_or_def find_locked_def
      split: if_splits sqlite_condition.splits prod.splits sum.splits option.splits)

lemma wp_conseq_run:
  "wp m P s \<Longrightarrow> (\<And>x t. m s = (Inr x, t) \<Longrightarrow> P x t \<Longrightarrow> Q x t) \<Longrightarrow> wp m Q s"
  by (auto simp: wp_def)

lemma control_invI: "control_rel g s \<Longrightarrow> control_inv s"
  by (metis control_inv_rel)

lemma gate_stepI:
  assumes "fresh_to q s g g' = h" "gate_next e g = Some g'" "effective e s = (find_row q (tables s) = None)"
    "control_rel h t"
  shows "gate_step e s g t"
  using assms by (auto simp: gate_step_def fresh_to_def)

lemma gate_step_same: "gate_next e g = Some g \<Longrightarrow> control_rel g t \<Longrightarrow> gate_step e s g t"
  by (simp add: gate_step_def)

lemma exec_sim_submits:
  assumes rel: "control_rel g s" and e: "submit_id e = Some q"
  shows "wp (exec e) (\<lambda>_ t. gate_step e s g t) s"
proof (cases e)
  case (Submit_stop q a)
  then show ?thesis using submit_stop_rel [OF rel, of q a]
    by (auto intro!: wp_ignore elim!: wp_conseq simp: gate_step_def fresh_to_def)
next
  case (Submit_resume q a h)
  have "wp (submit_resume q a h) (\<lambda>_ t. gate_step e s g t) s"
    by (rule wp_conseq_run [OF submit_resume_rel [OF rel]])
      (use Submit_resume submit_resume_unheld in \<open>auto simp: gate_step_def fresh_to_def\<close>)
  with Submit_resume show ?thesis by (auto intro: wp_ignore)
next
  case (Submit_stop_after q n a i)
  then show ?thesis using submit_stop_after_rel [OF rel, of q n a i]
    by (auto intro!: wp_ignore elim!: wp_conseq simp: gate_step_def)
next
  case (Submit_next_issue q n)
  then show ?thesis using submit_next_issue_rel [OF rel, of q n]
    by (auto intro!: wp_ignore elim!: wp_conseq simp: gate_step_def)
next
  case (Submit_handoff q a h)
  have "wp (submit_handoff q a h) (\<lambda>_ t. gate_step e s g t) s"
    by (rule wp_conseq_run [OF submit_handoff_rel [OF rel]])
      (use Submit_handoff submit_handoff_unheld in \<open>auto simp: gate_step_def split: if_splits\<close>)
  with Submit_handoff show ?thesis by (auto intro: wp_ignore)
next
  case (Submit_recovery_retry q x)
  then show ?thesis using submit_recovery_retry_rel [OF rel, of q x]
    by (auto intro!: wp_ignore gate_step_same elim!: wp_conseq)
next
  case (Submit_recovery_release q x y)
  then show ?thesis using submit_recovery_release_rel [OF rel, of q x y]
    by (auto intro!: wp_ignore gate_step_same elim!: wp_conseq)
next
  case (Submit_errors_reset q n)
  then show ?thesis using submit_errors_reset_rel [OF rel, of q n]
    by (auto intro!: wp_ignore gate_step_same elim!: wp_conseq)
next
  case (Submit_other q k p)
  have "wp (submit_command k q p) (\<lambda>_ t. gate_step e s g t) s"
    by (rule wp_conseq_run [OF submit_command_rel [OF rel]])
      (use Submit_other submit_command_unknown in \<open>auto simp: gate_step_def\<close>)
  with Submit_other show ?thesis by (auto intro: wp_ignore)
qed (use e in simp_all)

lemma exec_sim:
  assumes rel: "control_rel g s" and named: "well_named e s"
  shows "wp (exec e) (\<lambda>_ t. gate_step e s g t) s"
proof (cases "submit_id e")
  case (Some q)
  then show ?thesis by (rule exec_sim_submits [OF rel])
next
  case None
  show ?thesis
  proof (cases e)
    case (Complete_next_issue n)
    then show ?thesis using complete_next_issue_rel [OF rel, of n]
      by (auto intro!: wp_ignore gate_step_same elim!: wp_conseq)
  next
    case (Fail_next_issue r)
    then show ?thesis using fail_next_issue_rel [OF rel, of r]
      by (auto intro!: wp_ignore gate_step_same elim!: wp_conseq)
  next
    case (Mark_handoff_delivering q)
    then show ?thesis using mark_handoff_delivering_rel [OF rel, of q]
      by (auto intro!: wp_ignore gate_step_same elim!: wp_conseq)
  next
    case (Mark_handoff_begun q)
    have inv: "control_inv s" by (rule control_invI [OF rel])
    have "wp (mark_handoff_begun q) (\<lambda>_ t. gate_step e s g t) s"
      by (rule wp_conseq_run [OF mark_handoff_begun_rel [OF rel]])
        (use Mark_handoff_begun mark_handoff_result [OF _ inv] in \<open>force simp: gate_step_def mark_handoff_begun_def\<close>)
    with Mark_handoff_begun show ?thesis by (auto intro: wp_ignore)
  next
    case (Complete_handoff q d)
    with named have k: "handoff_or_unknown q s" by simp
    show ?thesis using complete_handoff_rel [OF rel k, of d] Complete_handoff
      by (auto intro!: wp_ignore elim!: wp_conseq simp: gate_step_def)
  next
    case (Fail_handoff q d)
    with named have k: "handoff_or_unknown q s" by simp
    show ?thesis using fail_handoff_rel [OF rel k, of d] Fail_handoff
      by (auto intro!: wp_ignore elim!: wp_conseq simp: gate_step_def)
  next
    case (Complete_recovery q d)
    with named have k: "recovery_or_unknown q s" by simp
    show ?thesis using complete_recovery_command_rel [OF rel k, of d] Complete_recovery
      by (auto intro!: wp_ignore gate_step_same elim!: wp_conseq)
  next
    case (Fail_recovery q d)
    with named have k: "recovery_or_unknown q s" by simp
    show ?thesis using fail_recovery_command_rel [OF rel k, of d] Fail_recovery
      by (auto intro!: wp_ignore gate_step_same elim!: wp_conseq)
  next
    case Complete_pending_stop
    then show ?thesis using complete_pending_stop_rel [OF rel]
      by (auto intro!: wp_ignore elim!: wp_conseq simp: gate_step_def)
  next
    case (Attempt_finalized a r)
    then show ?thesis using record_attempt_finalized_rel [OF rel, of a r]
      by (auto intro!: wp_ignore elim!: wp_conseq simp: gate_step_def)
  next
    case Final_claim
    then show ?thesis using enter_stopping_for_final_claim_rel [OF rel]
      by (auto intro!: wp_ignore elim!: wp_conseq simp: gate_step_def)
  qed (use None in simp_all)
qed

lemma exec_refines:
  assumes "control_inv s" "well_named e s" "exec e s = (Inr (), t)"
  shows "control_inv t \<and> (if effective e s then gate_next e (gate_of s) = Some (gate_of t) else gate_of t = gate_of s)"
proof -
  from assms(1) have rel: "control_rel (gate_of s) s" by (simp add: control_inv_def)
  from wpD [OF exec_sim [OF rel assms(2)] assms(3)]
  have "gate_step e s (gate_of s) t" .
  then show ?thesis
    by (auto simp: gate_step_def dest: control_invI gate_of_rel split: if_splits)
qed

end
