(* ===== verification/Control_Total.thy ===== *)
theory Control_Total
  imports Control_System
begin

text \<open>
  When the control store's commands return: \<open>safe m s\<close> says that \<open>m\<close> raises nothing from \<open>s\<close>. A command on a
  store that satisfies the invariant raises nothing after its commit, so an exception means that the tables
  are as they were; and with a working database and clock it raises only what the gate refuses.
\<close>

named_theorems safe_elims \<open>statements that raise nothing on tables that implement a gate\<close>

definition safe :: "'a ctl \<Rightarrow> control_store \<Rightarrow> bool" where
  "safe m s \<longleftrightarrow> (\<forall>e t. m s \<noteq> (Inl e, t))"

lemma safe_runs: "safe m s \<longleftrightarrow> (\<exists>x t. m s = (Inr x, t))"
  by (cases "m s"; cases "fst (m s)") (auto simp: safe_def)

lemma safe_seq: "safe m s \<Longrightarrow> wp m (\<lambda>x t. safe (f x) t) s \<Longrightarrow> safe (seq m f) s"
  by (fastforce simp: safe_def wp_def seq_def split: prod.splits sum.splits)

lemma safe_ret: "safe (ret x) s"
  by (simp add: safe_def ret_def)

lemma safe_if: "(b \<Longrightarrow> safe m s) \<Longrightarrow> (\<not> b \<Longrightarrow> safe n s) \<Longrightarrow> safe (if b then m else n) s"
  by simp

lemma safe_let: "safe (f z) s \<Longrightarrow> safe (let y = z in f y) s"
  by simp

lemma safe_option:
  "(z = None \<Longrightarrow> safe m s) \<Longrightarrow> (\<And>y. z = Some y \<Longrightarrow> safe (f y) s) \<Longrightarrow>
     safe (case z of None \<Rightarrow> m | Some y \<Rightarrow> f y) s"
  by (cases z) auto

lemma safe_at: "safe (seq m (f s)) s \<Longrightarrow> safe (\<lambda>s. seq m (f s) s) s"
  by (simp add: safe_def)

lemma safe_value: "safe (\<lambda>s. (Inr (z s), s)) s"
  by (simp add: safe_def)

lemma safe_transaction: "env_ok s \<Longrightarrow> safe m s \<Longrightarrow> safe (transaction m) s"
  by (auto simp: safe_def transaction_def env_ok_def split: prod.splits sum.splits)

lemma safe_timestamp [safe_elims]: "sees s v \<Longrightarrow> v_env v \<Longrightarrow> safe timestamp s"
  by (auto simp: sees_def view_of_def safe_def timestamp_def env_ok_def split: instant.splits)

lemma safe_update_state [safe_elims]: "sees s v \<Longrightarrow> safe (update_state f) s"
  by (simp add: safe_def update_state_def)

lemma safe_update_rows [safe_elims]: "sees s v \<Longrightarrow> safe (update_rows P a d x) s"
  by (simp add: safe_def update_rows_def)

lemma safe_select_rows [safe_elims]: "sees s v \<Longrightarrow> safe (select_rows P) s"
  by (simp add: safe_def select_rows_def)

lemma safe_state_row [safe_elims]: "sees s v \<Longrightarrow> safe state_row_locked s"
  by (auto simp: safe_def state_row_locked_def sees_def)

lemma safe_internals [safe_elims]:
  assumes "sees s v"
  shows "safe (set_intake_locked i p) s" "safe clear_stop_plan_locked s" "safe (set_stop_plan_locked n m a) s"
    "safe (set_handoff_locked h x b ph) s"
  using assms by (simp_all add: safe_update_state set_intake_locked_def clear_stop_plan_locked_def
      set_stop_plan_locked_def set_handoff_locked_def)

lemma safe_pending [safe_elims]: "sees s v \<Longrightarrow> safe pending_locked s"
  unfolding pending_locked_def by (rule safe_seq, erule safe_state_row, erule wp_state_row, rule safe_ret)

lemma safe_find [safe_elims]: "sees s v \<Longrightarrow> safe (find_locked q) s"
  using wf_record_from_row
  by (fastforce simp: safe_def find_locked_def sees_def dest: find_row_Some split: option.splits sum.splits)

lemma safe_intake [safe_elims]: "sees s v \<Longrightarrow> intake (v_row v) = intake_value i \<Longrightarrow> safe intake_locked s"
  unfolding intake_locked_def
  by (rule safe_seq, erule safe_state_row, erule wp_state_row) (simp add: safe_ret)

lemma safe_handoff_begun [safe_elims]: "sees s v \<Longrightarrow> safe handoff_begun_locked s"
  unfolding handoff_begun_locked_def
  by (rule safe_seq, erule safe_state_row, erule wp_state_row, rule safe_option, rule safe_ret,
      rule safe_seq, erule safe_find, rule wp_find_value, rule safe_ret)

lemma safe_is_tracked [safe_elims]: "sees s v \<Longrightarrow> safe (is_tracked_handoff_locked q) s"
  unfolding is_tracked_handoff_locked_def
  by (rule safe_seq, erule safe_state_row, erule wp_state_row, rule safe_if, rule safe_ret,
      rule safe_seq, erule safe_find, rule wp_find_value, rule safe_ret)

lemma safe_next_issue [safe_elims]: "sees s v \<Longrightarrow> safe next_issue_locked s"
  unfolding next_issue_locked_def by (rule safe_seq, erule safe_state_row, erule wp_state_row, rule safe_ret)

lemma safe_accepted_plans [safe_elims]: "sees s v \<Longrightarrow> safe (accepted_plans_of_kinds_locked ks) s"
  by (simp add: safe_def accepted_plans_of_kinds_locked_def seq_def ret_def select_rows_def)

lemma safe_supersede [safe_elims]:
  assumes "sees s v" "v_env v" "set ks \<subseteq> set plan_kinds"
  shows "safe (supersede_plans_locked ks q) s"
  unfolding supersede_plans_locked_def
  by (rule safe_seq, rule safe_accepted_plans [OF assms(1)], rule wp_accepted_plans [OF assms(1,3)], rule safe_if,
      rule safe_seq, erule safe_timestamp, rule assms(2), erule wp_timestamp, rule safe_seq, erule safe_update_rows,
      erule wp_update_kinds, simp, rule safe_ret, rule safe_ret)

lemma safe_insert [safe_elims]:
  assumes "sees s v" "v_env v" "q \<notin> v_ids v"
  shows "safe (insert_locked q k payload a d) s"
  unfolding insert_locked_def
proof (rule safe_seq, rule safe_timestamp [OF assms(1,2)], rule wp_timestamp_tables [OF assms(1)])
  fix x and t :: control_store
  assume "tables t = tables s"
  with assms have "find_row q (tables t) = None"
    by (auto simp: find_row_None sees_def view_of_def)
  then show "safe (\<lambda>s. if find_row q (tables s) \<noteq> None
       then (Inl (ControlStoreError ''Control command could not be committed''), s)
       else (let n = max_sequence (rows s) + 1;
              row = \<lparr>row_request_id = q, row_sequence = n, row_kind = k,
                     row_payload = Some (canonical (JObj payload)), row_ack = ack_value a,
                     row_detail = d, row_created_at = x, row_updated_at = x\<rparr>
          in (Inr \<lparr>rec_request_id = q, rec_sequence = n, rec_kind = k, rec_ack = a,
                   rec_detail = d, rec_created_at = x, rec_updated_at = x\<rparr>,
              s\<lparr>tables := (tables s)\<lparr>commands := rows s @ [row]\<rparr>\<rparr>))) t"
    by (simp add: safe_def Let_def)
qed

lemma safe_record_stop [safe_elims]:
  assumes "sees s v" "v_env v" "q \<notin> v_ids v"
  shows "safe (record_stop q a d i p) s"
  unfolding record_stop_def
  by (rule safe_seq, rule safe_insert [OF assms], rule wp_insert [OF assms(1)], rule safe_seq, erule safe_internals,
      erule wp_set_intake, rule safe_ret)

section \<open>Fresh commands return\<close>

lemmas view_ids = v_with_def v_without_kinds_def v_without_id_def

lemma stop_while_running_safe:
  assumes "sees s v" "view_rel (RUNNING, p) v" "v_env v" "q \<notin> v_ids v"
  shows "safe (stop_while_running q active) s"
  unfolding stop_while_running_def
  apply (insert assms)
  apply (rule safe_seq | rule safe_if | rule safe_ret | rule wp_seq | rule wp_if | rule wp_ret | erule wp_elims 
    | (erule safe_elims; (simp add: view_ids; fail)?)
    | (simp add: view_rel_def; fail))+
  done

lemma stop_while_stopping_safe:
  assumes "sees s v" "view_rel (STOPPING, p) v" "v_env v" "q \<notin> v_ids v"
  shows "safe (stop_while_stopping q) s"
  unfolding stop_while_stopping_def
  apply (insert assms)
  apply (cases p)
  apply (rule safe_seq | rule safe_if | rule safe_ret | rule safe_option | rule wp_seq | rule wp_if | rule wp_ret | rule wp_option | erule wp_elims 
    | (erule safe_elims; (simp add: view_ids; fail)?)
    | (force simp add: view_rel_def view_defs; fail))+
  done

lemma resume_safe:
  assumes "sees s v" "view_rel g v" "v_env v" "q \<notin> v_ids v"
  shows "safe (seq handoff_begun_locked (\<lambda>begun.
           if begun then resume_handoff_begun q else resume_replacing q active)) s"
  unfolding resume_handoff_begun_def resume_replacing_def STOP_PLAN_KINDS_def
  apply (insert assms)
  apply (cases g; cases "snd g")
  apply (rule safe_seq | rule safe_if | rule safe_ret | rule safe_let | rule safe_option | rule wp_seq | rule wp_if | rule wp_ret | rule wp_option | erule wp_elims 
    | (erule safe_elims; (simp add: view_ids view_rel_def; fail)?)
    | (force simp add: view_rel_def view_defs; fail))+
  done

lemma plan_stop_after_safe:
  assumes "sees s v" "view_rel g v" "v_env v" "q \<notin> v_ids v"
  shows "safe (plan_stop_after q n active) s"
  unfolding plan_stop_after_def STOP_PLAN_KINDS_def
  apply (insert assms)
  apply (cases g; cases "snd g")
  apply (rule safe_seq | rule safe_if | rule safe_ret | rule safe_option | rule wp_seq | rule wp_if | rule wp_ret | rule wp_option | erule wp_elims 
    | (erule safe_elims; (simp add: view_ids view_rel_def; fail)?)
    | (force simp add: view_rel_def view_defs; fail))+
  done

lemma plan_handoff_safe:
  assumes "sees s v" "view_rel g v" "v_env v" "q \<notin> v_ids v"
  shows "safe (plan_handoff q) s"
  unfolding plan_handoff_def
  apply (insert assms)
  apply (cases g; cases "snd g")
  apply (rule safe_seq | rule safe_if | rule safe_ret | rule wp_seq | rule wp_if | rule wp_ret | erule wp_elims 
    | (erule safe_elims; (simp add: view_ids view_rel_def; fail)?)
    | (force simp add: view_rel_def view_defs; fail))+
  done

lemma prioritize_issue_safe:
  assumes v: "sees s v" "view_rel g v" "v_env v" "q \<notin> v_ids v"
  shows "safe (prioritize_issue q n) s"
proof -
  have ok: "priority_ok v" using v(2) by (simp add: view_rel_def)
  have rest: "safe (seq (insert_locked q NEXT_ISSUE_KIND [(''issue'', JInt n)] ACCEPTED d) (\<lambda>record.
      seq (update_state (\<lambda>r. r\<lparr>next_issue_number := Some n, next_issue_request_id := Some q\<rparr>)) (\<lambda>_. ret record))) t"
    if "sees t u" "v_env u" "q \<notin> v_ids u" for d t u
    by (rule safe_seq, rule safe_insert [OF that], rule wp_insert [OF that(1)], rule safe_seq,
        erule safe_update_state, erule wp_update_state, rule safe_ret)
  show ?thesis
    unfolding prioritize_issue_def
  proof (rule safe_seq, rule safe_next_issue [OF v(1)], rule wp_next_issue [OF v(1) ok], goal_cases)
    case 1
    show ?case
      by (simp only: option.case) (rule safe_seq, rule safe_timestamp [OF v(1,3)], rule wp_timestamp [OF v(1)],
        rule safe_seq, rule safe_ret, rule wp_ret, erule rest, rule v(3), rule v(4))
  next
    case (2 m p)
    show ?case
      by (simp only: option.case prod.case) (rule safe_seq, rule safe_timestamp [OF v(1,3)], rule wp_timestamp [OF v(1)],
        rule safe_seq, rule safe_seq, erule safe_update_rows, erule wp_update_id, simp, rule safe_ret,
        rule wp_seq, erule wp_update_id, simp, rule wp_ret, erule rest, simp_all add: view_ids v)
  qed
qed

text \<open>The rows a command decodes after its commit are there and readable.\<close>

lemma sees_decodable:
  assumes "sees t u" "q \<in> v_ids u"
  shows "\<exists>r c. find_row q (tables t) = Some r \<and> record_from_row r = Inr c"
proof -
  from assms obtain r where r: "find_row q (tables t) = Some r"
    by (cases "find_row q (tables t)") (auto simp: find_row_None sees_def view_of_def)
  with assms wf_record_from_row find_row_Some [OF r] show ?thesis
    by (auto simp: sees_def)
qed

lemma safe_lift_row: "\<exists>c. record_from_row r = Inr c \<Longrightarrow> safe (seq (lift_row r) (\<lambda>c. ret (f c))) s"
  by (auto simp: safe_def seq_def lift_row_def ret_def)

lemma safe_decode_row:
  assumes "sees t u" "q \<in> v_ids u"
  shows "safe (decode_settled (Some (find_row q (tables t)))) t'"
proof -
  from sees_decodable [OF assms] obtain r c where "find_row q (tables t) = Some r" "record_from_row r = Inr c" by auto
  then show ?thesis by (simp add: decode_settled_def safe_lift_row)
qed

lemma sees_ids:
  assumes "sees s v"
  shows "set (v_stop v) \<subseteq> v_ids v" "set (v_after v) \<subseteq> v_ids v" "set (v_handoff v) \<subseteq> v_ids v"
    "set (v_next v) \<subseteq> v_ids v" "v_handoff_ids v \<subseteq> v_ids v"
  using assms by (auto simp: sees_def view_of_def ids_of_kinds_def row_ids_def acc_def)

lemma settle_next_issue_post:
  assumes rel: "control_rel g s" and a: "a \<noteq> ACCEPTED"
  shows "wp (settle_next_issue a d m) (\<lambda>row t. safe (decode_settled row) t) s"
proof -
  from rel obtain v where v: "sees s v" "view_rel g v" by (auto simp: control_rel_def)
  have none: "safe (decode_settled None) t" for t by (simp add: decode_settled_def safe_ret)
  show ?thesis
    unfolding settle_next_issue_def
  proof (rule wp_transaction, rule wp_seq, rule wp_next_issue [OF v(1)])
    show "priority_ok v" using v(2) by (simp add: view_rel_def)
    fix n q
    assume w: "v_without_id q v = v\<lparr>v_next := []\<rparr>" "v_next v = [q]"
    have q: "q \<in> v_ids v" using sees_ids(4) [OF v(1)] w(2) by auto
    have fin: "safe (decode_settled (Some (find_row q (tables t)))) t'" if "sees t u" "v_ids u = v_ids v" for t u t'
      using safe_decode_row [OF that(1)] that(2) q by simp
    show "wp (case Some (n, q) of None \<Rightarrow> ret None | Some (n, q) \<Rightarrow>
         if \<not> m n then ret None
         else seq timestamp (\<lambda>t. seq (update_rows (accepted_id q) a (d n) t) (\<lambda>_ s.
             seq (update_state (\<lambda>r. r\<lparr>next_issue_number := None, next_issue_request_id := None\<rparr>)) (\<lambda>_.
             ret (Some (find_row q (tables s)))) s)))
       (\<lambda>row t. safe (decode_settled row) t) s"
      by (simp only: option.case prod.case)
        (rule wp_if, rule wp_ret, rule none, rule wp_seq, rule wp_timestamp [OF v(1)], rule wp_seq, unfold wp_def,
          intro allI impI, auto simp: update_rows_def update_state_def seq_def ret_def intro!: fin sees_acknowledge_id a simp: v_without_id_def)
  qed (simp only: option.case, rule wp_ret, rule none)
qed

lemma settle_handoff_body_post:
  assumes v: "sees s v" "q \<in> v_ids v" and a: "a \<noteq> ACCEPTED"
  shows "wp (settle_handoff_body q a d ph c) (\<lambda>row t. safe (decode_settled (Some row)) t) s"
proof -
  have fin: "safe (decode_settled (Some (find_row q (tables t)))) t" if "sees t u" "v_ids u = v_ids v" for t u
    using safe_decode_row [OF that(1)] that(2) v(2) by simp
  show ?thesis
    unfolding settle_handoff_body_def
    apply (rule wp_seq, rule wp_timestamp [OF v(1)], rule wp_seq, erule wp_update_rid, rule a)
    apply (rule wp_seq | rule wp_if | rule wp_ret | rule wp_value | erule wp_elims | (erule fin, simp add: view_ids; fail)
      | (simp; fail))+
    done
qed

lemma settle_handoff_post:
  assumes rel: "control_rel g s" and a: "a \<noteq> ACCEPTED"
  shows "wp (transaction (seq (find_locked q) (\<lambda>existing. case existing of
         None \<Rightarrow> ret (Inl None)
       | Some c \<Rightarrow> if rec_ack c \<noteq> ACCEPTED then ret (Inl (Some c))
           else seq (settle_handoff_body q a d ph c) (\<lambda>row. ret (Inr row)))))
    (\<lambda>outcome t. safe (case outcome of Inl c \<Rightarrow> ret c | Inr row \<Rightarrow> decode_settled (Some row)) t) s"
proof -
  from rel obtain v where v: "sees s v" "view_rel g v" by (auto simp: control_rel_def)
  show ?thesis
  proof (rule wp_transaction, rule wp_seq, rule wp_find_row [OF v(1)], simp_all only: option.case)
    show "wp (ret (Inl None)) (\<lambda>outcome t. safe (case outcome of Inl c \<Rightarrow> ret c | Inr row \<Rightarrow> decode_settled (Some row)) t) s"
      by (rule wp_ret) (simp add: safe_ret)
    fix c
    assume "find_row q (tables s) \<noteq> None"
    with v(1) have q: "q \<in> v_ids v" by (auto simp: find_row_None sees_def view_of_def)
    have "wp (settle_handoff_body q a d ph c) (\<lambda>row t. wp (ret (Inr row))
        (\<lambda>outcome t. safe (case outcome of Inl c \<Rightarrow> ret c | Inr row \<Rightarrow> decode_settled (Some row)) t) t) s"
      by (rule wp_conseq [OF settle_handoff_body_post [OF v(1) q a]]) (simp add: wp_ret)
    then show "wp (if rec_ack c \<noteq> ACCEPTED then ret (Inl (Some c))
           else seq (settle_handoff_body q a d ph c) (\<lambda>row. ret (Inr row)))
        (\<lambda>outcome t. safe (case outcome of Inl c \<Rightarrow> ret c | Inr row \<Rightarrow> decode_settled (Some row)) t) s"
      by (intro wp_if wp_ret wp_seq) (simp_all add: safe_ret)
  qed
qed

lemma settle_recovery_post:
  assumes rel: "control_rel g s" and a: "a \<noteq> ACCEPTED"
  shows "wp (transaction (seq (find_locked q) (\<lambda>existing. case existing of
         None \<Rightarrow> ret (Inl None)
       | Some c \<Rightarrow> if rec_ack c \<noteq> ACCEPTED then ret (Inl (Some c))
           else seq timestamp (\<lambda>t. seq (update_rows (\<lambda>r. row_request_id r = q) a d t) (\<lambda>_. ret (Inr ()))))))
    (\<lambda>outcome t. safe (case outcome of Inl c \<Rightarrow> ret c | Inr _ \<Rightarrow> find_locked q) t) s"
proof -
  from rel obtain v where v: "sees s v" by (auto simp: control_rel_def)
  show ?thesis
    apply (rule wp_transaction, rule wp_seq, rule wp_find_value, rule wp_option, rule wp_ret)
     apply (simp only: sum.case, rule safe_ret)
    apply (rule wp_if, rule wp_ret, simp only: sum.case, rule safe_ret)
    apply (rule wp_seq, rule wp_timestamp [OF v], rule wp_seq, erule wp_update_rid, rule a, rule wp_ret)
    apply (simp only: sum.case, erule safe_find)
    done
qed

abbreviation finalized_body :: "string \<Rightarrow> string \<Rightarrow> (command_record list + command_row option) ctl" where
  "finalized_body a out \<equiv> (\<lambda>s.
     if already_counted a (tables s) then (Inr (Inl []), s)
     else seq state_row_locked (\<lambda>r. case stop_after_requested r of
         Some requested \<Rightarrow> seq (count_against_plan a out r requested) (\<lambda>row. ret (Inr row))
       | None \<Rightarrow> seq (complete_stops_if_plain (pending_command_id r)) (\<lambda>done. ret (Inl done))) s)"

lemma count_attempt_post:
  assumes v: "sees s v" "p \<in> v_ids v" and new: "\<not> already_counted a (tables s)"
  shows "wp (count_attempt a out p i n m) (\<lambda>row t. \<forall>r. row = Some r \<longrightarrow> (\<exists>c. record_from_row r = Inr c)) s"
proof -
  have fin: "\<forall>r. find_row p (tables t) = Some r \<longrightarrow> (\<exists>c. record_from_row r = Inr c)" if "sees t u" for t u
    using that wf_record_from_row find_row_Some by (fastforce simp: sees_def)
  show ?thesis
    unfolding count_attempt_def Let_def
    apply (rule wp_seq, rule wp_timestamp_tables [OF v(1)])
    apply (rule wp_seq, rule wp_insert_counted, assumption, use new in simp)
    apply (rule wp_if)
     apply (rule wp_seq, erule wp_update_id, simp)
     apply (rule wp_at, rule wp_seq)
    subgoal for x t u w
      by (auto simp: wp_def update_state_def ret_def intro: fin [rule_format])
    apply (rule wp_seq, erule wp_update_state, rule wp_seq, rule wp_if)
     apply (erule wp_update_state, rule wp_ret, simp)
    apply (rule wp_ret, rule wp_ret, simp)
    done
qed

lemma finalized_post:
  assumes rel: "control_rel g s"
  shows "wp (transaction (finalized_body a out)) (\<lambda>result t. safe (case result of Inl records \<Rightarrow> ret records
      | Inr None \<Rightarrow> ret [] | Inr (Some row) \<Rightarrow> seq (lift_row row) (\<lambda>c. ret [c])) t) s"
proof (rule wp_transaction, cases "already_counted a (tables s)")
  case True
  then show "wp (finalized_body a out) (\<lambda>result t. safe (case result of Inl records \<Rightarrow> ret records
      | Inr None \<Rightarrow> ret [] | Inr (Some row) \<Rightarrow> seq (lift_row row) (\<lambda>c. ret [c])) t) s"
    by (simp add: wp_def safe_ret)
next
  case False
  from rel obtain v where v: "sees s v" "view_rel g v" by (auto simp: control_rel_def)
  have plain: "wp (seq (complete_stops_if_plain p) (\<lambda>done. ret (Inl done))) (\<lambda>result t. safe (case result of Inl records \<Rightarrow> ret records
      | Inr None \<Rightarrow> ret [] | Inr (Some row) \<Rightarrow> seq (lift_row row) (\<lambda>c. ret [c])) t) s" for p
    by (auto simp: wp_def seq_eq_Inr ret_def safe_def)
  have counted: "wp (count_against_plan a out (v_row v) n) (\<lambda>row t. \<forall>r. row = Some r \<longrightarrow> (\<exists>c. record_from_row r = Inr c)) s"
    if "stop_after_requested (v_row v) = Some n" for n
  proof (cases g)
    case (Pair i p)
    with v(2) that obtain m where "p = Countdown n m"
      by (cases p) (auto simp: view_rel_def)
    with Pair v(2) obtain q where q: "pending_command_id (v_row v) = Some q" "q \<in> set (v_after v)"
      by (auto simp: view_rel_def)
    with sees_ids(2) [OF v(1)] have "q \<in> v_ids v" by auto
    with q count_attempt_post [OF v(1) _ False] show ?thesis
      by (auto simp: count_against_plan_def intro!: wp_option wp_throw)
  qed
  have "wp (seq state_row_locked (\<lambda>r. case stop_after_requested r of
         Some requested \<Rightarrow> seq (count_against_plan a out r requested) (\<lambda>row. ret (Inr row))
       | None \<Rightarrow> seq (complete_stops_if_plain (pending_command_id r)) (\<lambda>done. ret (Inl done))))
     (\<lambda>result t. safe (case result of Inl records \<Rightarrow> ret records
      | Inr None \<Rightarrow> ret [] | Inr (Some row) \<Rightarrow> seq (lift_row row) (\<lambda>c. ret [c])) t) s"
    apply (rule wp_seq, rule wp_state_row [OF v(1)], rule wp_option, rule plain, rule wp_seq)
    apply (rule wp_conseq, erule counted)
    apply (rule wp_ret)
    apply (auto simp: safe_ret split: option.splits intro!: safe_lift_row)
    done
  with False show "wp (finalized_body a out) (\<lambda>result t. safe (case result of Inl records \<Rightarrow> ret records
      | Inr None \<Rightarrow> ret [] | Inr (Some row) \<Rightarrow> seq (lift_row row) (\<lambda>c. ret [c])) t) s"
    by (simp add: wp_def)
qed

section \<open>An exception leaves the tables as they were\<close>

definition rolls :: "'a ctl \<Rightarrow> control_store \<Rightarrow> bool" where
  "rolls m s \<longleftrightarrow> (\<forall>e t. m s = (Inl e, t) \<longrightarrow> tables t = tables s)"

lemma rolls_transaction: "rolls (transaction m) s"
  using transaction_Inl by (auto simp: rolls_def)

lemma rolls_post: "rolls m s \<Longrightarrow> wp m (\<lambda>x t. safe (f x) t) s \<Longrightarrow> rolls (seq m f) s"
  unfolding rolls_def safe_def wp_def seq_eq_Inl by blast

lemma rolls_throw: "rolls (throw e) s"
  by (simp add: rolls_def throw_def)

lemma rolls_if: "rolls m s \<Longrightarrow> rolls n s \<Longrightarrow> rolls (if b then m else n) s"
  by simp

lemma rolls_check: "rolls m s \<Longrightarrow> rolls (seq (check_request_id q) (\<lambda>_. m)) s"
proof -
  obtain r where "check_request_id q s = (r, s)"
    by (cases "py_blank q"; cases "128 < length q") (simp_all add: check_request_id_def throw_def ret_def)
  then show "rolls m s \<Longrightarrow> rolls (seq (check_request_id q) (\<lambda>_. m)) s"
    unfolding rolls_def seq_eq_Inl by (metis prod.inject)
qed

lemma rolls_lift: "(\<And>x. rolls (f x) s) \<Longrightarrow> rolls (seq (lift_sum r) f) s"
  by (cases r) (auto simp: rolls_def seq_def lift_sum_def)

lemma rolls_ignore: "rolls m s \<Longrightarrow> rolls (ignore m) s"
  unfolding ignore_def by (rule rolls_post, assumption) (simp add: wp_def safe_ret)

lemmas rolls_rules = rolls_ignore rolls_check rolls_lift rolls_transaction rolls_throw rolls_if

lemma exec_rolls:
  assumes "control_inv s"
  shows "rolls (exec e) s"
proof -
  from assms have rel: "control_rel (gate_of s) s" by (simp add: control_inv_def)
  note next_post = settle_next_issue_post [OF rel]
  note post = settle_handoff_post [OF rel] settle_recovery_post [OF rel] finalized_post [OF rel]
  have nxt: "rolls (seq (settle_next_issue a d m) decode_settled) s" if "a \<noteq> ACCEPTED" for a d m
    using next_post [OF that, of d m] by (intro rolls_post) (simp_all add: settle_next_issue_def rolls_transaction)
  have marks: "rolls (mark_handoff q f) s" for q f
    unfolding mark_handoff_def by (rule rolls_transaction)
  have handoffs: "rolls (settle_handoff q a d ph) s" if "a \<noteq> ACCEPTED" for q a d ph
    unfolding settle_handoff_def by (rule rolls_post [OF rolls_transaction post(1) [OF that]])
  have recoveries: "rolls (settle_recovery_command q a d) s" if "a \<noteq> ACCEPTED" for q a d
    unfolding settle_recovery_command_def by (rule rolls_post [OF rolls_transaction post(2) [OF that]])
  show ?thesis
  proof (cases e)
    case (Attempt_finalized a out)
    show ?thesis
      unfolding Attempt_finalized exec.simps record_attempt_finalized_def
      by (intro rolls_ignore rolls_if rolls_throw rolls_post [OF rolls_transaction post(3)])
  qed (simp_all only: exec.simps submit_stop_def submit_resume_def submit_stop_after_def submit_next_issue_def
      submit_handoff_def submit_recovery_retry_def submit_recovery_release_def submit_errors_reset_def
      submit_command_def complete_next_issue_def fail_next_issue_def mark_handoff_delivering_def mark_handoff_begun_def
      complete_handoff_def fail_handoff_def complete_recovery_command_def fail_recovery_command_def
      complete_pending_stop_def enter_stopping_for_final_claim_def Let_def,
      (intro rolls_rules nxt marks handoffs recoveries; simp)+)
qed

end
