(* ===== verification/Control_Returns.thy ===== *)
theory Control_Returns
  imports Control_Total
begin

text \<open>
  Totality: on a store that satisfies the invariant, with a working database and clock, a fresh command that
  the gate accepts returns. With the refinement this settles every submit: it returns and moves the gate, or
  the gate refuses it and nothing changes.
\<close>

definition valid_id :: "string \<Rightarrow> bool" where
  "valid_id q \<longleftrightarrow> \<not> py_blank q \<and> length q \<le> 128"

definition parses :: "'e + 'a \<Rightarrow> bool" where
  "parses r \<longleftrightarrow> (case r of Inl e \<Rightarrow> False | Inr x \<Rightarrow> True)"

text \<open>What a fresh command needs, beyond a valid request ID, for the gate to take it.\<close>

fun accepts :: "control_event \<Rightarrow> gate \<Rightarrow> bool" where
  "accepts (Submit_resume q a h) g = (h = None)"
| "accepts (Submit_stop_after q n a i) g =
     (gate_next (Submit_stop_after q n a i) g \<noteq> None
      \<and> (a \<longrightarrow> (case i of None \<Rightarrow> False | Some x \<Rightarrow> \<not> py_blank x)))"
| "accepts (Submit_next_issue q n) g = parses (parse_next_issue n)"
| "accepts (Submit_handoff q a h) g = (h = None \<and> gate_handoff a g \<noteq> None)"
| "accepts (Submit_recovery_retry q x) g = parses (parse_attempt_id x)"
| "accepts (Submit_recovery_release q x y) g = (parses (parse_attempt_id x) \<and> parses (parse_saved_at y))"
| "accepts (Submit_other q k p) g = False"
| "accepts (Fail_next_issue r) g = (\<not> py_blank r)"
| "accepts (Complete_handoff q d) g = (\<not> py_blank d)"
| "accepts (Fail_handoff q d) g = (\<not> py_blank d)"
| "accepts (Complete_recovery q d) g = (\<not> py_blank d)"
| "accepts (Fail_recovery q d) g = (\<not> py_blank d)"
| "accepts (Attempt_finalized a out) g = (\<not> py_blank a \<and> \<not> py_blank out)"
| "accepts e g = True"

lemma safe_check: "valid_id q \<Longrightarrow> safe m s \<Longrightarrow> safe (seq (check_request_id q) (\<lambda>_. m)) s"
  by (simp add: valid_id_def check_request_id_def)

lemma safe_lift: "parses r \<Longrightarrow> (\<And>x. r = Inr x \<Longrightarrow> safe (f x) s) \<Longrightarrow> safe (seq (lift_sum r) f) s"
  by (cases r) (auto simp: safe_def seq_def lift_sum_def parses_def)

lemma safe_ignore: "safe m s \<Longrightarrow> safe (ignore m) s"
  unfolding ignore_def by (rule safe_seq, assumption) (simp add: wp_def safe_ret)

lemma safe_post: "safe m s \<Longrightarrow> wp m (\<lambda>x t. safe (f x) t) s \<Longrightarrow> safe (seq m f) s"
  by (rule safe_seq)

lemma safe_submit:
  assumes rel: "control_rel g s" and env: "env_ok s" and fresh: "find_row q (tables s) = None"
    and body: "\<And>v. sees s v \<Longrightarrow> view_rel g v \<Longrightarrow> v_env v \<Longrightarrow> q \<notin> v_ids v \<Longrightarrow> safe body s"
  shows "safe (transaction (replay_or q k payload body)) s"
proof -
  from rel obtain v where v: "sees s v" "view_rel g v" by (auto simp: control_rel_def)
  with env fresh have "v_env v" "q \<notin> v_ids v"
    by (auto simp: sees_def view_of_def find_row_None)
  from body [OF v this] fresh show ?thesis
    by (intro safe_transaction [OF env]) (simp add: replay_or_def safe_def seq_def find_locked_def)
qed

lemma submit_stop_safe:
  assumes "control_rel g s" "env_ok s" "find_row q (tables s) = None" "valid_id q"
  shows "safe (submit_stop q active) s"
  unfolding submit_stop_def
proof (rule safe_check [OF assms(4)], rule safe_submit [OF assms(1-3)])
  fix v
  assume v: "sees s v" "view_rel g v" "v_env v" "q \<notin> v_ids v"
  obtain i p where g: "g = (i, p)" by (cases g)
  show "safe (seq intake_locked (\<lambda>i. case i of
         STOPPED \<Rightarrow> seq pending_locked (\<lambda>pending.
           record_stop q COMPLETED ''intake already stopped'' STOPPED pending)
       | STOPPING \<Rightarrow> stop_while_stopping q
       | RUNNING \<Rightarrow> stop_while_running q active)) s"
  proof (rule safe_seq, rule safe_intake [OF v(1)], use v(2) g in \<open>simp add: view_rel_def\<close>, rule wp_intake [OF v(1)])
    fix j
    assume "intake (v_row v) = intake_value j"
    with v g have j: "j = i" by (simp add: view_rel_def)
    show "safe (case j of
         STOPPED \<Rightarrow> seq pending_locked (\<lambda>pending.
           record_stop q COMPLETED ''intake already stopped'' STOPPED pending)
       | STOPPING \<Rightarrow> stop_while_stopping q
       | RUNNING \<Rightarrow> stop_while_running q active) s"
    proof (cases i)
      case RUNNING
      with v j g show ?thesis by (simp add: stop_while_running_safe)
    next
      case STOPPING
      with v j g show ?thesis by (simp add: stop_while_stopping_safe)
    next
      case STOPPED
      with j show ?thesis
        by (simp only: intake_state.case)
          (rule safe_seq, rule safe_pending [OF v(1)], rule wp_pending [OF v(1)], rule safe_record_stop [OF v(1,3,4)])
    qed
  qed
qed

lemma submit_resume_safe:
  assumes "control_rel g s" "env_ok s" "find_row q (tables s) = None" "valid_id q"
  shows "safe (submit_resume q active None) s"
  unfolding submit_resume_def option.case
  by (rule safe_check [OF assms(4)], rule safe_submit [OF assms(1-3)], rule resume_safe)

lemma submit_stop_after_safe:
  assumes rel: "control_rel g s" and env: "env_ok s" and new: "find_row q (tables s) = None" and id: "valid_id q"
    and acc: "accepts (Submit_stop_after q n active ident) g"
  shows "safe (submit_stop_after q n active ident) s"
  unfolding submit_stop_after_def
proof (rule safe_check [OF id], rule safe_lift)
  show "parses (parse_stop_after n)" using acc by (auto simp: parses_def split: sum.splits)
  fix m
  assume "parse_stop_after n = Inr m"
  with acc have g: "fst g \<noteq> STOPPED" "snd g \<noteq> Handing_off True"
    and a: "\<not> (active \<and> (case ident of None \<Rightarrow> True | Some a \<Rightarrow> py_blank a))"
    by (cases g; auto split: option.splits if_splits)+
  let ?tail = "seq intake_locked (\<lambda>i.
         if i = STOPPED then
           throw (StopAfterRejectedError ''stop --after N is rejected while intake is stopped; resume first. No control change was accepted.'')
         else seq handoff_begun_locked (\<lambda>begun.
           if begun then
             throw (StopAfterRejectedError ''stop --after N is rejected while a handoff owns the model; the handoff cannot be replaced once begun. No control change was accepted.'')
           else plan_stop_after q m (if active then ident else None)))"
  have body: "safe ?tail s" if v: "sees s v" "view_rel g v" "v_env v" "q \<notin> v_ids v" for v
  proof (rule safe_seq, rule safe_intake [OF v(1)], use v(2) in \<open>simp add: view_rel_def\<close>, rule wp_intake [OF v(1)])
    fix i
    assume "intake (v_row v) = intake_value i"
    with v(2) g have i: "i \<noteq> STOPPED" by (simp add: view_rel_def)
    have tr: "tracked_ok v" and nb: "\<not> v_begun v"
      using v(2) g(2) by (cases "snd g"; auto simp: view_rel_def v_begun_def)+
    have "safe (seq handoff_begun_locked (\<lambda>begun.
           if begun then
             throw (StopAfterRejectedError ''stop --after N is rejected while a handoff owns the model; the handoff cannot be replaced once begun. No control change was accepted.'')
           else plan_stop_after q m (if active then ident else None))) s"
      by (rule safe_seq, rule safe_handoff_begun [OF v(1)], rule wp_handoff_begun [OF v(1) tr])
        (simp only: nb if_False, rule plan_stop_after_safe [OF v])
    with i show "safe (if i = STOPPED then
           throw (StopAfterRejectedError ''stop --after N is rejected while intake is stopped; resume first. No control change was accepted.'')
         else seq handoff_begun_locked (\<lambda>begun.
           if begun then
             throw (StopAfterRejectedError ''stop --after N is rejected while a handoff owns the model; the handoff cannot be replaced once begun. No control change was accepted.'')
           else plan_stop_after q m (if active then ident else None))) s"
      by (simp only: if_False)
  qed
  show "safe (transaction (replay_or q STOP_AFTER_KIND [(''after'', JInt m)]
     (if active \<and> (case ident of None \<Rightarrow> True | Some a \<Rightarrow> py_blank a) then
         throw (ControlStoreError ''An active attempt must carry a stable attempt identity'')
      else ?tail))) s"
    by (rule safe_submit [OF rel env new]) (simp only: a if_False, rule body)
qed

lemma submit_handoff_safe:
  assumes rel: "control_rel g s" and env: "env_ok s" and new: "find_row q (tables s) = None" and id: "valid_id q"
    and acc: "gate_handoff active g \<noteq> None"
  shows "safe (submit_handoff q active None) s"
  unfolding submit_handoff_def option.case
proof (rule safe_check [OF id], rule safe_submit [OF rel env new])
  fix v
  assume v: "sees s v" "view_rel g v" "v_env v" "q \<notin> v_ids v"
  have a: "active" and b: "snd g \<noteq> Handing_off True" using acc by (cases g; auto split: if_splits)+
  have tr: "tracked_ok v" and nb: "\<not> v_begun v"
    using v(2) b by (cases "snd g"; auto simp: view_rel_def v_begun_def)+
  show "safe (if \<not> active then throw (HandoffRejectedError
          ''handoff now is rejected without an active attempt; no control change was accepted.'')
        else seq handoff_begun_locked (\<lambda>begun. if begun then throw (HandoffRejectedError
          ''handoff now is rejected: the model has already begun the handoff skill and a second request cannot undo it. No control change was accepted.'')
          else plan_handoff q)) s"
    by (rule safe_if, use a in simp, rule safe_seq, rule safe_handoff_begun [OF v(1)], rule wp_handoff_begun [OF v(1) tr])
      (simp only: nb if_False, rule plan_handoff_safe [OF v])
qed

lemma settle_next_issue_safe:
  assumes rel: "control_rel g s" and env: "env_ok s" and a: "a \<noteq> ACCEPTED"
  shows "safe (settle_next_issue a d m) s"
proof -
  from rel obtain v where v: "sees s v" "view_rel g v" by (auto simp: control_rel_def)
  have e: "v_env v" using v(1) env by (auto simp: sees_def view_of_def)
  show ?thesis
    unfolding settle_next_issue_def
  proof (rule safe_transaction [OF env], rule safe_seq, rule safe_next_issue [OF v(1)], rule wp_next_issue [OF v(1)])
    show "priority_ok v" using v(2) by (simp add: view_rel_def)
    fix n q
    show "safe (case Some (n, q) of None \<Rightarrow> ret None | Some (n, q) \<Rightarrow>
         if \<not> m n then ret None
         else seq timestamp (\<lambda>t. seq (update_rows (accepted_id q) a (d n) t) (\<lambda>_ s.
             seq (update_state (\<lambda>r. r\<lparr>next_issue_number := None, next_issue_request_id := None\<rparr>)) (\<lambda>_.
             ret (Some (find_row q (tables s)))) s))) s"
      by (simp only: option.case prod.case)
        (rule safe_if, rule safe_ret, rule safe_seq, rule safe_timestamp [OF v(1) e], rule wp_timestamp [OF v(1)],
          rule safe_seq, erule safe_update_rows, erule wp_update_id, rule a, rule safe_at, rule safe_seq,
          erule safe_update_state, erule wp_update_state, rule safe_ret)
  qed (simp only: option.case, rule safe_ret)
qed

lemma mark_handoff_safe:
  assumes rel: "control_rel g s" and env: "env_ok s"
  shows "safe (mark_handoff q f) s"
proof -
  from rel obtain v where v: "sees s v" "view_rel g v" by (auto simp: control_rel_def)
  then have tr: "tracked_ok v" by (simp add: view_rel_def)
  show ?thesis
    unfolding mark_handoff_def
    by (rule safe_transaction [OF env], rule safe_seq, rule safe_is_tracked [OF v(1)], rule wp_is_tracked [OF v(1) tr],
        rule safe_if, rule safe_ret, rule safe_seq, rule safe_update_state [OF v(1)], rule wp_update_state [OF v(1)], rule safe_ret)
qed

lemma settle_handoff_safe:
  assumes rel: "control_rel g s" and env: "env_ok s" and a: "a \<noteq> ACCEPTED"
  shows "safe (settle_handoff q a d ph) s"
proof -
  from rel obtain v where v: "sees s v" "view_rel g v" by (auto simp: control_rel_def)
  have e: "v_env v" using v(1) env by (auto simp: sees_def view_of_def)
  have body: "safe (settle_handoff_body q a d ph c) s" for c
    unfolding settle_handoff_body_def
    apply (rule safe_seq, rule safe_timestamp [OF v(1) e], rule wp_timestamp [OF v(1)])
    apply (rule safe_seq, erule safe_update_rows, erule wp_update_rid, rule a)
    apply (rule safe_seq | rule safe_if | rule safe_ret | rule safe_value | rule wp_if | rule wp_ret | rule wp_seq
      | erule wp_elims | (erule safe_elims; (simp add: view_ids; fail)?) | (simp; fail))+
    done
  show ?thesis
    unfolding settle_handoff_def
    by (rule safe_post [OF _ settle_handoff_post [OF rel a]], rule safe_transaction [OF env], rule safe_seq,
        rule safe_find [OF v(1)], rule wp_find_value, rule safe_option, rule safe_ret, rule safe_if, rule safe_ret,
        rule safe_seq, rule body) (simp add: wp_def safe_ret)
qed

lemma settle_recovery_safe:
  assumes rel: "control_rel g s" and env: "env_ok s" and a: "a \<noteq> ACCEPTED"
  shows "safe (settle_recovery_command q a d) s"
proof -
  from rel obtain v where v: "sees s v" "view_rel g v" by (auto simp: control_rel_def)
  have e: "v_env v" using v(1) env by (auto simp: sees_def view_of_def)
  show ?thesis
    unfolding settle_recovery_command_def
    by (rule safe_post [OF _ settle_recovery_post [OF rel a]], rule safe_transaction [OF env], rule safe_seq,
        rule safe_find [OF v(1)], rule wp_find_value, rule safe_option, rule safe_ret, rule safe_if, rule safe_ret,
        rule safe_seq, rule safe_timestamp [OF v(1) e], rule wp_timestamp [OF v(1)], rule safe_seq,
        erule safe_update_rows, erule wp_update_rid, rule a, rule safe_ret)
qed

lemma complete_plain_stops_safe:
  "sees s v \<Longrightarrow> v_env v \<Longrightarrow> safe complete_plain_stops_in_txn s"
  unfolding complete_plain_stops_in_txn_def
  by (rule safe_seq, erule (1) safe_timestamp, erule wp_timestamp, rule safe_seq, erule safe_select_rows,
      rule wp_select_rows, rule safe_seq, simp add: safe_def update_rows_def, simp add: wp_def update_rows_def,
      rule safe_seq, simp add: safe_def set_intake_locked_def update_state_def,
      simp add: wp_def set_intake_locked_def update_state_def safe_ret)

lemma complete_stops_if_plain_safe:
  "sees s v \<Longrightarrow> v_env v \<Longrightarrow> safe (complete_stops_if_plain p) s"
  unfolding complete_stops_if_plain_def
  by (rule safe_option, rule safe_ret, rule safe_seq, erule safe_find, rule wp_find_value, rule safe_option, rule safe_ret,
      rule safe_if, rule safe_ret, erule (1) complete_plain_stops_safe)

lemma count_attempt_safe:
  assumes v: "sees s v" "v_env v"
  shows "safe (count_attempt a out p i n m) s"
  unfolding count_attempt_def Let_def
  by (rule safe_seq, rule safe_timestamp [OF v], rule wp_timestamp [OF v(1)], rule safe_seq, simp add: safe_def insert_counted_def)
    (auto simp: wp_def safe_def insert_counted_def seq_def ret_def update_rows_def update_state_def)

lemma finalized_body_safe:
  assumes rel: "control_rel g s" and env: "env_ok s"
  shows "safe (finalized_body a out) s"
proof -
  from rel obtain v where v: "sees s v" "view_rel g v" by (auto simp: control_rel_def)
  have e: "v_env v" using v(1) env by (auto simp: sees_def view_of_def)
  have count: "safe (count_against_plan a out (v_row v) n) s" if "stop_after_requested (v_row v) = Some n" for n
  proof -
    from v(2) that obtain i m where "g = (i, Countdown n m)"
      by (cases g; cases "snd g") (auto simp: view_rel_def)
    with v(2) have "stop_after_remaining (v_row v) = Some m" "intake (v_row v) = intake_value i"
      by (auto simp: view_rel_def)
    then show ?thesis
      by (simp add: count_against_plan_def safe_ret count_attempt_safe [OF v(1) e] split: option.splits)
  qed
  have "safe (seq state_row_locked (\<lambda>r. case stop_after_requested r of
         Some requested \<Rightarrow> seq (count_against_plan a out r requested) (\<lambda>row. ret (Inr row))
       | None \<Rightarrow> seq (complete_stops_if_plain (pending_command_id r)) (\<lambda>done. ret (Inl done)))) s"
    by (rule safe_seq, rule safe_state_row [OF v(1)], rule wp_state_row [OF v(1)], rule safe_option, rule safe_seq,
        rule complete_stops_if_plain_safe [OF v(1) e], simp add: wp_def safe_ret, rule safe_seq, erule count)
      (simp add: wp_def safe_ret)
  then show ?thesis by (simp add: safe_def)
qed

lemma final_claim_safe:
  assumes rel: "control_rel g s" and env: "env_ok s"
  shows "safe enter_stopping_for_final_claim s"
proof -
  from rel obtain v where v: "sees s v" "view_rel g v" by (auto simp: control_rel_def)
  have m: "stop_after_remaining (v_row v) \<noteq> None" if "stop_after_requested (v_row v) \<noteq> None"
    using v(2) that by (cases "snd g") (auto simp: view_rel_def)
  show ?thesis
    unfolding enter_stopping_for_final_claim_def
    by (rule safe_transaction [OF env], rule safe_seq, rule safe_state_row [OF v(1)], rule wp_state_row [OF v(1)],
        rule safe_if, rule safe_option, use m in simp, rule safe_if, rule safe_seq, rule safe_update_state [OF v(1)],
        rule wp_update_state [OF v(1)], rule safe_ret, rule safe_ret, rule safe_ret)
qed

lemma exec_returns:
  assumes inv: "control_inv s" and env: "env_ok s"
    and id: "\<And>q. submit_id e = Some q \<Longrightarrow> valid_id q \<and> find_row q (tables s) = None"
    and acc: "accepts e (gate_of s)"
  shows "safe (exec e) s"
proof -
  from inv have rel: "control_rel (gate_of s) s" by (simp add: control_inv_def)
  have plain: "safe (transaction (replay_or q k payload (insert_locked q k payload a d))) s"
    if "find_row q (tables s) = None" for q k payload a d
    by (rule safe_submit [OF rel env that]) (rule safe_insert)
  have next_issue: "safe (seq (settle_next_issue a d m) decode_settled) s" if "a \<noteq> ACCEPTED" for a d m
    by (rule safe_post [OF settle_next_issue_safe [OF rel env that] settle_next_issue_post [OF rel that]])
  show ?thesis
  proof (cases e)
    case (Submit_stop_after q n a i)
    with acc id show ?thesis by (auto intro!: safe_ignore submit_stop_after_safe [OF rel env] simp del: accepts.simps)
  next
    case (Submit_resume q a h)
    with acc id show ?thesis by (auto intro!: safe_ignore submit_resume_safe [OF rel env])
  next
    case (Submit_stop q a)
    with acc id show ?thesis by (auto intro!: safe_ignore submit_stop_safe [OF rel env])
  next
    case (Submit_next_issue q n)
    with acc id show ?thesis
      by (auto intro!: safe_ignore safe_check safe_lift safe_submit [OF rel env] prioritize_issue_safe simp: submit_next_issue_def)
  next
    case (Submit_handoff q a h)
    with acc id show ?thesis by (auto intro!: safe_ignore submit_handoff_safe [OF rel env])
  next
    case (Submit_recovery_retry q x)
    with acc id show ?thesis
      by (auto intro!: safe_ignore safe_check safe_lift plain simp: submit_recovery_retry_def)
  next
    case (Submit_recovery_release q x y)
    with acc id show ?thesis
      by (auto intro!: safe_ignore safe_check safe_lift plain simp: submit_recovery_release_def Let_def)
  next
    case (Submit_errors_reset q n)
    with acc id show ?thesis
      by (auto intro!: safe_ignore safe_check plain simp: submit_errors_reset_def)
  next
    case (Attempt_finalized a out)
    with acc have "safe (record_attempt_finalized a out) s"
      unfolding record_attempt_finalized_def
      by (intro safe_if safe_post [OF safe_transaction [OF env finalized_body_safe [OF rel env]] finalized_post [OF rel]]) auto
    with Attempt_finalized show ?thesis by (simp add: safe_ignore)
  next
    case Complete_pending_stop
    from rel obtain v where v: "sees s v" by (auto simp: control_rel_def)
    with env have "v_env v" by (auto simp: sees_def view_of_def)
    with v have "safe complete_pending_stop s"
      unfolding complete_pending_stop_def
      by (intro safe_transaction [OF env] safe_seq [OF safe_pending [OF v] wp_pending [OF v]] complete_stops_if_plain_safe)
    with Complete_pending_stop show ?thesis by (simp add: safe_ignore)
  qed (use acc next_issue mark_handoff_safe [OF rel env] settle_handoff_safe [OF rel env] settle_recovery_safe [OF rel env]
      final_claim_safe [OF rel env] in \<open>auto intro!: safe_ignore simp: complete_next_issue_def fail_next_issue_def
        mark_handoff_delivering_def mark_handoff_begun_def complete_handoff_def fail_handoff_def
        complete_recovery_command_def fail_recovery_command_def\<close>)
qed

end
