(* ===== verification/Control_Frame.thy ===== *)
theory Control_Frame
  imports Control_Returns
begin

text \<open>
  What every command of the control store leaves in place, whatever it does: the command table is a log (no
  row is removed, renumbered or given other content, and a terminal acknowledgement stays), the clock and the
  database are not the store's to change, and an attempt is counted only by its own finalization. Each is a
  relation between the states before and after, proved for the few primitive writes and then, once for all
  relations in \<open>control_frame\<close>, for every command.
\<close>

section \<open>The log order\<close>

definition row_le :: "command_row \<Rightarrow> command_row \<Rightarrow> bool" where
  "row_le r r' \<longleftrightarrow> row_request_id r' = row_request_id r \<and> row_sequence r' = row_sequence r
     \<and> row_kind r' = row_kind r \<and> row_payload r' = row_payload r \<and> row_created_at r' = row_created_at r
     \<and> (row_ack r \<noteq> ack_value ACCEPTED \<longrightarrow> r' = r)"

definition log_le :: "command_row list \<Rightarrow> command_row list \<Rightarrow> bool" where
  "log_le rs rs' \<longleftrightarrow> length rs \<le> length rs' \<and> list_all2 row_le rs (take (length rs) rs')"

lemma row_le_refl: "row_le r r"
  by (simp add: row_le_def)

lemma row_le_trans: "row_le a b \<Longrightarrow> row_le b c \<Longrightarrow> row_le a c"
  by (auto simp: row_le_def)

lemma log_le_iff: "log_le rs rs' \<longleftrightarrow> (\<exists>ys zs. rs' = ys @ zs \<and> list_all2 row_le rs ys)"
proof
  assume "log_le rs rs'"
  then show "\<exists>ys zs. rs' = ys @ zs \<and> list_all2 row_le rs ys"
    unfolding log_le_def by (metis append_take_drop_id)
next
  assume "\<exists>ys zs. rs' = ys @ zs \<and> list_all2 row_le rs ys"
  then obtain ys zs where "rs' = ys @ zs" "list_all2 row_le rs ys" by auto
  moreover from this(2) have "length rs = length ys" by (rule list_all2_lengthD)
  ultimately show "log_le rs rs'" by (simp add: log_le_def)
qed

lemma log_le_refl: "log_le rs rs"
  by (simp add: log_le_def list_all2_refl row_le_refl)

lemma log_le_trans:
  assumes "log_le a b" "log_le b c"
  shows "log_le a c"
proof -
  from assms obtain ys zs ys' zs' where b: "b = ys @ zs" "list_all2 row_le a ys"
    and c: "c = ys' @ zs'" "list_all2 row_le b ys'" by (auto simp: log_le_iff)
  from c(2) b(1) obtain us vs where u: "ys' = us @ vs" "list_all2 row_le ys us"
    by (auto simp: list_all2_append1)
  from b(2) u(2) have "list_all2 row_le a us"
    by (rule list_all2_trans [rotated]) (rule row_le_trans)
  with c(1) u(1) show ?thesis by (auto simp: log_le_iff)
qed

lemma log_le_append: "log_le rs (rs @ [r])"
  by (simp add: log_le_def list_all2_refl row_le_refl)

lemma log_le_acknowledge:
  assumes "\<And>r. r \<in> set rs \<Longrightarrow> P r \<Longrightarrow> row_ack r = ack_value ACCEPTED"
  shows "log_le rs (acknowledge_rows P a d t rs)"
  using assms
  by (auto simp: log_le_def acknowledge_rows_def list_all2_conv_all_nth row_le_def)

section \<open>Frames\<close>

named_theorems frame_intros \<open>statements that stay within a frame\<close>

definition frame :: "(control_store \<Rightarrow> control_store \<Rightarrow> bool) \<Rightarrow> 'a ctl \<Rightarrow> control_store \<Rightarrow> bool" where
  "frame R m s \<longleftrightarrow> R s (snd (m s))"

lemmas internals_defs = check_request_id_def replay_or_def intake_locked_def pending_locked_def set_intake_locked_def
  accepted_plans_of_kinds_locked_def supersede_plans_locked_def set_stop_plan_locked_def clear_stop_plan_locked_def
  set_handoff_locked_def handoff_begun_locked_def is_tracked_handoff_locked_def next_issue_locked_def record_stop_def

lemma timestamp_tables: "timestamp s = (r, t) \<Longrightarrow> tables t = tables s"
  by (auto simp: timestamp_def split: instant.splits)

lemma find_locked_Some: "find_locked q s = (Inr (Some c), t) \<Longrightarrow>
    t = s \<and> (\<exists>r. find_row q (tables s) = Some r \<and> row_ack r = ack_value (rec_ack c))"
  using record_from_row_fields by (fastforce simp: find_locked_def split: option.splits sum.splits)

text \<open>
  A frame: a preorder on stores that the store's primitive writes respect. \<open>C\<close> are the attempts that may be
  counted within it.
\<close>

locale control_frame =
  fixes R :: "control_store \<Rightarrow> control_store \<Rightarrow> bool"
    and C :: "string \<Rightarrow> bool"
  assumes R_refl: "R s s"
    and R_trans: "R s t \<Longrightarrow> R t u \<Longrightarrow> R s u"
    and R_tick: "R s (s\<lparr>ticks := n\<rparr>)"
    and R_state: "R s (s\<lparr>tables := (tables s)\<lparr>control_state := y\<rparr>\<rparr>)"
    and R_insert: "R s (s\<lparr>tables := (tables s)\<lparr>commands := rows s @ [r]\<rparr>\<rparr>)"
    and R_update: "(\<And>r. r \<in> set (rows s) \<Longrightarrow> P r \<Longrightarrow> row_ack r = ack_value ACCEPTED) \<Longrightarrow>
      R s (s\<lparr>tables := (tables s)\<lparr>commands := acknowledge_rows P a d x (rows s)\<rparr>\<rparr>)"
    and R_count: "C (counted_attempt_id k) \<Longrightarrow>
      R s (s\<lparr>tables := (tables s)\<lparr>counted_attempts := counted s @ [k]\<rparr>\<rparr>)"
    and R_rollback: "R s t \<Longrightarrow> R s (t\<lparr>tables := tables s\<rparr>)"
begin

lemma frame_seq [frame_intros]:
  assumes "frame R m s" "\<And>x t. m s = (Inr x, t) \<Longrightarrow> frame R (f x) t"
  shows "frame R (seq m f) s"
proof (cases "m s")
  case (Pair r t)
  show ?thesis
  proof (cases r)
    case (Inl e)
    with Pair assms(1) show ?thesis by (simp add: frame_def seq_def)
  next
    case (Inr x)
    with Pair assms show ?thesis by (auto simp: frame_def seq_def intro: R_trans)
  qed
qed

lemma frame_if [frame_intros]: "(b \<Longrightarrow> frame R m s) \<Longrightarrow> (\<not> b \<Longrightarrow> frame R n s) \<Longrightarrow> frame R (if b then m else n) s"
  by simp

lemma frame_option [frame_intros]:
  "(z = None \<Longrightarrow> frame R m s) \<Longrightarrow> (\<And>y. z = Some y \<Longrightarrow> frame R (f y) s) \<Longrightarrow> frame R (case z of None \<Rightarrow> m | Some y \<Rightarrow> f y) s"
  by (cases z) auto

lemma frame_pair [frame_intros]: "(\<And>x y. frame R (f x y) s) \<Longrightarrow> frame R (case z of (x, y) \<Rightarrow> f x y) s"
  by (cases z) auto

lemma frame_sum [frame_intros]:
  "(\<And>x. frame R (f x) s) \<Longrightarrow> (\<And>y. frame R (g y) s) \<Longrightarrow> frame R (case z of Inl x \<Rightarrow> f x | Inr y \<Rightarrow> g y) s"
  by (cases z) auto

lemma frame_intake [frame_intros]:
  "frame R m s \<Longrightarrow> frame R n s \<Longrightarrow> frame R k s \<Longrightarrow> frame R (case i of RUNNING \<Rightarrow> m | STOPPING \<Rightarrow> n | STOPPED \<Rightarrow> k) s"
  by (cases i) auto

lemma frame_same: "(\<And>r t. m s = (r, t) \<Longrightarrow> t = s) \<Longrightarrow> frame R m s"
  by (cases "m s") (simp add: frame_def R_refl)

lemma frame_values [frame_intros]:
  "frame R (ret x) s" "frame R (throw e) s" "frame R (lift_sum z) s" "frame R (lift_row r) s" "frame R (\<lambda>s. (Inr (w s), s)) s"
  "frame R state_row_locked s" "frame R (select_rows P) s" "frame R (find_locked q) s"
  "frame R (ensure_payload_identical c k p) s"
  by (auto intro!: frame_same simp: ret_def throw_def lift_sum_def lift_row_def state_row_locked_def select_rows_def
      find_locked_def ensure_payload_identical_def split: option.splits sum.splits if_splits)

lemma frame_timestamp [frame_intros]: "frame R timestamp s"
  using R_tick by (simp add: frame_def timestamp_def split: instant.splits)

lemma frame_update_state [frame_intros]: "frame R (update_state f) s"
  by (simp add: frame_def update_state_def R_state)

lemma frame_update_rows [frame_intros]:
  "frame R (update_rows (accepted_of ks) a d x) s" "frame R (update_rows (accepted_id q) a d x) s"
  by (auto simp: frame_def update_rows_def accepted_of_def accepted_id_def intro: R_update)

lemma frame_insert_counted [frame_intros]: "C a \<Longrightarrow> frame R (insert_counted a p out x) s"
  by (simp add: frame_def insert_counted_def R_count)

lemma frame_transaction [frame_intros]: "frame R m s \<Longrightarrow> frame R (transaction m) s"
  by (cases "m s") (auto simp: frame_def transaction_def R_refl R_rollback split: sqlite_condition.splits sum.splits)

lemma frame_at: "frame R (seq m (f s)) s \<Longrightarrow> frame R (\<lambda>s. seq m (f s) s) s"
  by (simp add: frame_def)

lemma frame_insert [frame_intros]: "frame R (insert_locked q k p a d) s"
  unfolding insert_locked_def
  by (rule frame_seq, rule frame_timestamp) (auto simp: frame_def Let_def R_refl R_insert)

lemma frame_ignore: "frame R m s \<Longrightarrow> frame R (ignore m) s"
  unfolding ignore_def by (intro frame_intros)

lemma frame_internals [frame_intros]:
  "frame R (check_request_id q) s" "frame R intake_locked s" "frame R pending_locked s" "frame R (set_intake_locked i p) s"
  "frame R (accepted_plans_of_kinds_locked ks) s" "frame R (supersede_plans_locked ks q) s"
  "frame R (set_stop_plan_locked n m b) s" "frame R clear_stop_plan_locked s" "frame R (set_handoff_locked h x c ph) s"
  "frame R handoff_begun_locked s" "frame R (is_tracked_handoff_locked q) s" "frame R next_issue_locked s"
  "frame R (record_stop q a d i p) s"
  unfolding internals_defs by (intro frame_intros)+

lemma frame_replay [frame_intros]: "(\<And>t. frame R m t) \<Longrightarrow> frame R (replay_or q k p m) s"
  unfolding replay_or_def by (intro frame_intros)

lemma frame_commands [frame_intros]:
  "frame R (submit_stop q a) s" "frame R (submit_resume q a h) s" "frame R (submit_stop_after q n a i) s"
  "frame R (submit_next_issue q n) s" "frame R (submit_handoff q a h) s" "frame R (submit_recovery_retry q n) s"
  "frame R (submit_recovery_release q n n') s" "frame R (submit_errors_reset q c) s" "frame R (submit_command d q p) s"
  "frame R (mark_handoff q f) s" "frame R complete_pending_stop s" "frame R enter_stopping_for_final_claim s"
  "frame R (settle_next_issue ack dt mt) s" "frame R (decode_settled row) s" "frame R (complete_stops_if_plain i) s"
  unfolding submit_stop_def stop_while_stopping_def stop_while_running_def submit_resume_def resume_handoff_begun_def
    resume_replacing_def submit_stop_after_def plan_stop_after_def submit_next_issue_def prioritize_issue_def
    submit_handoff_def plan_handoff_def submit_recovery_retry_def submit_recovery_release_def submit_errors_reset_def
    submit_command_def mark_handoff_def complete_pending_stop_def complete_stops_if_plain_def complete_plain_stops_in_txn_def
    enter_stopping_for_final_claim_def settle_next_issue_def decode_settled_def Let_def
  by ((intro frame_intros)?; (rule frame_at, intro frame_intros)?)+

text \<open>
  Settling a handoff or a recovery command updates by request ID alone, after it has read that the row is
  accepted; request IDs are unique, so no other row can be meant.
\<close>

lemma frame_update_rid:
  assumes "wf_rows (rows s)" "find_row q (tables s) = Some r" "row_ack r = ack_value ACCEPTED"
  shows "frame R (update_rows (\<lambda>r. row_request_id r = q) a d x) s"
proof -
  have "row_ack r' = ack_value ACCEPTED" if "r' \<in> set (rows s)" "row_request_id r' = q" for r'
    using find_row_unique [OF assms(1) that] assms(2,3) by simp
  then show ?thesis by (auto simp: frame_def update_rows_def intro: R_update)
qed

lemma frame_settle_rid:
  assumes wf: "wf_rows (rows s)" and found: "find_row q (tables s) = Some r" "row_ack r = ack_value ACCEPTED"
    and rest: "\<And>x t. frame R (f x) t"
  shows "frame R (seq timestamp (\<lambda>x. seq (update_rows (\<lambda>r. row_request_id r = q) a d x) (\<lambda>_. f x))) s"
proof (rule frame_seq, rule frame_timestamp, rule frame_seq)
  fix x t
  assume "timestamp s = (Inr x, t)"
  from timestamp_tables [OF this] wf found show "frame R (update_rows (\<lambda>r. row_request_id r = q) a d x) t"
    by (intro frame_update_rid) auto
qed (rule rest)

lemma frame_settle_handoff:
  assumes "wf_rows (rows s)"
  shows "frame R (settle_handoff q a d ph) s"
  unfolding settle_handoff_def settle_handoff_body_def
proof (rule frame_seq, rule frame_transaction, rule frame_seq, rule frame_values, rule frame_option, rule frame_values,
    rule frame_if, rule frame_values, rule frame_seq)
  fix x t c
  assume "find_locked q s = (Inr x, t)" "x = Some c" "\<not> rec_ack c \<noteq> ACCEPTED"
  with find_locked_Some obtain r where "t = s" "find_row q (tables s) = Some r" "row_ack r = ack_value ACCEPTED"
    by fastforce
  with assms show "frame R (seq timestamp (\<lambda>t. seq (update_rows (\<lambda>r. row_request_id r = q) a d t) (\<lambda>_.
     seq pending_locked (\<lambda>pending.
     seq (if pending = Some q then set_intake_locked STOPPED None else ret ()) (\<lambda>_.
     seq (if rec_kind c = HANDOFF_KIND then update_state (\<lambda>r. r\<lparr>handoff_phase := Some ph\<rparr>) else ret ()) (\<lambda>_.
     seq (if pending = Some q then
            seq (accepted_plans_of_kinds_locked [STOP_KIND]) (\<lambda>plain.
              if plain \<noteq> []
              then update_rows (accepted_of [STOP_KIND]) COMPLETED ''intake stopped after handoff attempt'' t
              else ret ())
          else ret ()) (\<lambda>_ s. (Inr (find_row q (tables s)), s)))))))) t"
    by (intro frame_settle_rid) (auto intro!: frame_intros)
qed (intro frame_intros)+

lemma frame_settle_recovery:
  assumes "wf_rows (rows s)"
  shows "frame R (settle_recovery_command q a d) s"
  unfolding settle_recovery_command_def
proof (rule frame_seq, rule frame_transaction, rule frame_seq, rule frame_values, rule frame_option, rule frame_values,
    rule frame_if, rule frame_values)
  fix x t c
  assume "find_locked q s = (Inr x, t)" "x = Some c" "\<not> rec_ack c \<noteq> ACCEPTED"
  with find_locked_Some obtain r where "t = s" "find_row q (tables s) = Some r" "row_ack r = ack_value ACCEPTED"
    by fastforce
  with assms show "frame R (seq timestamp (\<lambda>t. seq (update_rows (\<lambda>r. row_request_id r = q) a d t) (\<lambda>_. ret (Inr ())))) t"
    by (intro frame_settle_rid) (auto intro!: frame_intros)
qed (intro frame_intros)+

lemma frame_counted_body: "C a \<Longrightarrow> frame R (count_against_plan a out r n) s"
  unfolding count_against_plan_def count_attempt_def Let_def
  by (intro frame_intros, assumption, rule frame_at, intro frame_intros)

lemma frame_finalized_body:
  assumes "C a"
  shows "frame R (finalized_body a out) t"
proof (cases "already_counted a (tables t)")
  case True
  then show ?thesis by (simp add: frame_def R_refl)
next
  case False
  have "frame R (seq state_row_locked (\<lambda>r. case stop_after_requested r of
       Some requested \<Rightarrow> seq (count_against_plan a out r requested) (\<lambda>row. ret (Inr row))
     | None \<Rightarrow> seq (complete_stops_if_plain (pending_command_id r)) (\<lambda>done. ret (Inl done)))) t"
    using assms by (intro frame_intros frame_counted_body)
  with False show ?thesis by (simp add: frame_def)
qed

lemma frame_attempt_finalized: "C a \<Longrightarrow> frame R (record_attempt_finalized a out) s"
  unfolding record_attempt_finalized_def by (intro frame_intros frame_finalized_body)

lemma frame_exec:
  assumes "wf_rows (rows s)" and "\<And>a out. e = Attempt_finalized a out \<Longrightarrow> C a"
  shows "frame R (exec e) s"
proof (cases e)
  case (Attempt_finalized a out)
  then show ?thesis using frame_attempt_finalized [OF assms(2)] by (simp add: frame_ignore)
qed (simp_all only: exec.simps mark_handoff_delivering_def mark_handoff_begun_def complete_next_issue_def
      fail_next_issue_def complete_handoff_def fail_handoff_def complete_recovery_command_def fail_recovery_command_def,
     (intro frame_ignore frame_intros frame_settle_handoff [OF assms(1)] frame_settle_recovery [OF assms(1)])+)

end


section \<open>Three frames\<close>

definition log_order :: "control_store \<Rightarrow> control_store \<Rightarrow> bool" where
  "log_order s t \<longleftrightarrow> log_le (rows s) (rows t)"

definition same_environment :: "control_store \<Rightarrow> control_store \<Rightarrow> bool" where
  "same_environment s t \<longleftrightarrow> clock t = clock s \<and> sqlite t = sqlite s"

definition counts_only :: "string set \<Rightarrow> control_store \<Rightarrow> control_store \<Rightarrow> bool" where
  "counts_only A s t \<longleftrightarrow>
     set (map counted_attempt_id (counted t)) \<subseteq> A \<union> set (map counted_attempt_id (counted s))"

interpretation log: control_frame log_order "\<lambda>_. True"
  by unfold_locales
    (auto simp: log_order_def log_le_refl log_le_append intro: log_le_trans log_le_acknowledge)

interpretation env: control_frame same_environment "\<lambda>_. True"
  by unfold_locales (auto simp: same_environment_def)

interpretation counts: control_frame "counts_only A" "\<lambda>a. a \<in> A" for A
  by unfold_locales (simp_all add: counts_only_def, blast+)

lemma exec_log: "wf_rows (rows s) \<Longrightarrow> exec e s = (r, t) \<Longrightarrow> log_le (rows s) (rows t)"
  using log.frame_exec [of s e] by (simp add: frame_def log_order_def)

lemma exec_env: "wf_rows (rows s) \<Longrightarrow> exec e s = (r, t) \<Longrightarrow> env_ok t = env_ok s"
  using env.frame_exec [of s e] by (simp add: frame_def same_environment_def env_ok_def)

lemma exec_counts:
  "wf_rows (rows s) \<Longrightarrow> exec e s = (r, t) \<Longrightarrow> (\<And>a out. e = Attempt_finalized a out \<Longrightarrow> a \<in> A) \<Longrightarrow>
     set (map counted_attempt_id (counted t)) \<subseteq> A \<union> set (map counted_attempt_id (counted s))"
  using counts.frame_exec [of s e A] by (simp add: frame_def counts_only_def)

text \<open>
  The reachable stores: the control store under its commands, exceptions, reopenings and a changing clock and
  database, as an instance of \<open>invariant_system\<close>, and the concrete stores the examples run on.
\<close>

section \<open>Reachable stores\<close>

text \<open>
  A store moves by a command that returns, by one that raises, by being reopened, or when the clock or the
  database changes under it.
\<close>

inductive control_step :: "control_store \<Rightarrow> control_store \<Rightarrow> bool" where
  step_return: "well_named e s \<Longrightarrow> exec e s = (Inr (), t) \<Longrightarrow> control_step s t"
| step_raise: "exec e s = (Inl err, t) \<Longrightarrow> control_step s t"
| step_reopen: "initialize s = (r, t) \<Longrightarrow> control_step s t"
| step_environment: "tables t = tables s \<Longrightarrow> control_step s t"

definition fresh_control :: "control_store \<Rightarrow> bool" where
  "fresh_control s \<longleftrightarrow> tables s = tables (fresh_store (clock s) (sqlite s))"

definition reachable :: "control_store \<Rightarrow> bool" where
  "reachable s \<longleftrightarrow> reach fresh_control control_step s"

lemma control_rel_tables: "control_rel g s \<Longrightarrow> tables t = tables s \<Longrightarrow> control_rel g t"
proof -
  assume "control_rel g s" and eq: "tables t = tables s"
  then obtain r where r: "control_state (tables s) = Some r"
    "wf_rows (rows s)" "distinct (map counted_attempt_id (counted s))"
    and rel: "view_rel g (view_of (env_ok s) r (rows s))"
    by (auto simp: control_rel_def sees_def)
  have "view_rel g (view_of (env_ok t) r (rows s))"
    using rel unfolding view_of_env [of "env_ok t" r "rows s" "env_ok s"]
    by (cases "snd g") (auto simp: view_rel_def tracked_ok_def priority_ok_def)
  with r eq show ?thesis by (auto simp: control_rel_def sees_def)
qed

lemma control_inv_tables: "control_inv s \<Longrightarrow> tables t = tables s \<Longrightarrow> control_inv t"
  by (metis control_inv_rel control_rel_tables)

lemma control_inv_state: "control_inv s \<Longrightarrow> \<exists>r. control_state (tables s) = Some r"
  by (auto simp: control_inv_def control_rel_def sees_def)

lemma initialize_tables: "control_inv s \<Longrightarrow> initialize s = (r, t) \<Longrightarrow> tables t = tables s"
  using control_inv_state [of s] by (auto simp: initialize_def split: sqlite_condition.splits)

lemma control_inv_step:
  assumes inv: "control_inv s" and step: "control_step s t"
  shows "control_inv t"
  using step
proof cases
  case (step_return e)
  with exec_refines [OF inv] show ?thesis by simp
next
  case (step_raise e err)
  with exec_rolls [OF inv, of e] show ?thesis
    by (auto simp: rolls_def intro: control_inv_tables [OF inv])
next
  case (step_reopen r)
  then show ?thesis by (auto intro: control_inv_tables [OF inv] initialize_tables [OF inv])
next
  case step_environment
  then show ?thesis by (rule control_inv_tables [OF inv])
qed

interpretation control: invariant_system fresh_control control_step control_inv
proof
  fix s
  assume "fresh_control s"
  then show "control_inv s"
    by (auto simp: fresh_control_def intro: control_inv_tables [OF control_inv_fresh])
qed (rule control_inv_step)

lemma reachable_inv: "reachable s \<Longrightarrow> control_inv s"
  unfolding reachable_def by (rule control.reach_inv)

lemma reachable_wf: "reachable s \<Longrightarrow> wf_rows (rows s)"
  using reachable_inv by (auto simp: control_inv_def control_rel_def sees_def)

lemma reachable_fresh: "reachable (fresh_store clk q)"
  unfolding reachable_def by (rule reach_init) (simp add: fresh_control_def fresh_store_def)

lemma reachable_exec: "reachable s \<Longrightarrow> well_named e s \<Longrightarrow> reachable (snd (exec e s))"
  unfolding reachable_def
  by (cases "exec e s"; cases "fst (exec e s)")
    (auto intro: reach_step control_step.intros)

lemma well_named_submit: "submit_id e = Some q \<Longrightarrow> well_named e s"
  by (cases e) simp_all

definition run_all :: "control_event list \<Rightarrow> control_store \<Rightarrow> control_store" where
  "run_all es s = fold (\<lambda>e s. snd (exec e s)) es s"

fun all_well_named :: "control_event list \<Rightarrow> control_store \<Rightarrow> bool" where
  "all_well_named [] s = True"
| "all_well_named (e # es) s = (well_named e s \<and> all_well_named es (snd (exec e s)))"

lemma reachable_run: "reachable s \<Longrightarrow> all_well_named es s \<Longrightarrow> reachable (run_all es s)"
  by (induction es arbitrary: s) (auto simp: run_all_def intro: reachable_exec)

lemma exec_pair: "fst (exec e s) = r \<Longrightarrow> exec e s = (r, snd (exec e s))"
  by (metis prod.collapse)

definition demo :: control_store where
  "demo = fresh_store (\<lambda>_. Aware ''2026-01-01T00:00:00+00:00'') Sqlite_ok"

lemma reachable_demo: "reachable demo"
  unfolding demo_def by (rule reachable_fresh)

lemma env_demo: "env_ok demo"
  by (simp add: env_ok_def demo_def fresh_store_def)

end
