(* ===== verification/Control_Props.thy ===== *)
theory Control_Props
  imports Control_Frame
begin

text \<open>
  The properties of the control store: every reachable store satisfies the invariant and implements the
  abstract gate, an exception changes nothing, a fresh command the gate accepts returns, a repeated request
  is replayed, and what follows for countdowns, handoffs and the command log.
\<close>

section \<open>Refinement, exceptions, totality\<close>

text \<open>
  C6. The commands of \<open>ControlStore\<close> implement the abstract intake gate: on every reachable store, a command
  that returns moves the gate exactly as \<open>gate_next\<close> says when it takes effect (a fresh request ID, an
  attempt not yet counted, a handoff still accepted), and leaves the gate alone when it does not.
\<close>

theorem control_refinement:
  assumes "reachable s" "well_named e s" "exec e s = (Inr (), t)"
  shows "if effective e s then gate_next e (gate_of s) = Some (gate_of t) else gate_of t = gate_of s"
  using exec_refines [OF reachable_inv [OF assms(1)] assms(2,3)] by (simp split: if_splits)

theorem control_refinement_witness:
  "gate_next (Submit_stop_after ''plan'' (JStr '' 2 '') False None) (gate_of demo)
     = Some (gate_of (snd (exec (Submit_stop_after ''plan'' (JStr '' 2 '') False None) demo)))
   \<and> gate_of (snd (exec (Submit_stop_after ''plan'' (JStr '' 2 '') False None) demo)) = (RUNNING, Countdown 2 2)"
proof -
  let ?e = "Submit_stop_after ''plan'' (JStr '' 2 '') False None"
  have run: "exec ?e demo = (Inr (), snd (exec ?e demo))" by (rule exec_pair) code_simp
  have eff: "effective ?e demo" by code_simp
  have g: "gate_of (snd (exec ?e demo)) = (RUNNING, Countdown 2 2)" by code_simp
  from control_refinement [OF reachable_demo _ run] eff g show ?thesis by simp
qed

text \<open>
  C8. Every store reachable by any sequence of commands, exceptions, reopenings and changes of the clock and
  the database is consistent: its gate is a legal combination of intake state and plan (a plain stop only
  while stopping, a countdown between 1 and its size and never while stopped, a handoff only while
  stopping), request IDs are unique with sequences 1, 2, 3, \<dots>, no attempt is counted twice, and at most one
  accepted \<open>stop --after\<close> command, handoff and next-issue command exist at a time.
\<close>

theorem reachable_consistent:
  assumes "reachable s"
  shows "gate_ok (gate_of s) \<and> distinct (row_ids (commands (tables s)))
    \<and> map row_sequence (commands (tables s)) = map int [1..<Suc (length (commands (tables s)))]
    \<and> distinct (map counted_attempt_id (counted_attempts (tables s)))
    \<and> length (acc STOP_AFTER_KIND (commands (tables s))) \<le> 1
    \<and> length (acc HANDOFF_KIND (commands (tables s))) \<le> 1
    \<and> length (acc NEXT_ISSUE_KIND (commands (tables s))) \<le> 1"
proof -
  obtain v where v: "sees s v" "view_rel (gate_of s) v"
    using reachable_inv [OF assms] by (auto simp: control_inv_def control_rel_def)
  have "length (v_after v) \<le> 1 \<and> length (v_handoff v) \<le> 1 \<and> length (v_next v) \<le> 1"
    using v(2) by (cases "snd (gate_of s)") (auto simp: view_rel_def priority_ok_def)
  with v show ?thesis
    by (auto simp: sees_def view_of_def view_rel_def wf_rows_def simp del: upt_Suc)
qed

theorem reachable_consistent_witness:
  "gate_ok (gate_of (snd (exec (Submit_handoff ''h'' True None) demo)))"
  by (rule reachable_consistent [OF reachable_exec [OF reachable_demo], THEN conjunct1]) simp

text \<open>
  An exception means no change: whatever a command raises on a reachable store (a rejection, a bad
  request ID, a database error, a clock without a time zone), the tables are as they were; nothing raises
  after its commit.
\<close>

theorem exception_changes_nothing:
  assumes "reachable s" "exec e s = (Inl err, t)"
  shows "tables t = tables s"
  using exec_rolls [OF reachable_inv [OF assms(1)], of e] assms(2) by (auto simp: rolls_def)

theorem exception_changes_nothing_witness:
  "tables (snd (exec (Submit_handoff ''h'' False None) demo)) = tables demo"
proof -
  have "exec (Submit_handoff ''h'' False None) demo = (Inl (HandoffRejectedError
     ''handoff now is rejected without an active attempt; no control change was accepted.''),
     snd (exec (Submit_handoff ''h'' False None) demo))" by (rule exec_pair) code_simp
  from exception_changes_nothing [OF reachable_demo this] show ?thesis .
qed

text \<open>
  C9. With a working database and clock, every command the gate accepts returns: a submit with a valid, fresh
  request ID that is not refused by the gate, and every settling or completion command, raises nothing on a
  reachable store.
\<close>

theorem accepted_command_returns:
  assumes "reachable s" "env_ok s" "accepts e (gate_of s)"
    and "\<And>q. submit_id e = Some q \<Longrightarrow> valid_id q \<and> find_row q (tables s) = None"
  shows "\<exists>t. exec e s = (Inr (), t)"
  using exec_returns [OF reachable_inv [OF assms(1)] assms(2) _ assms(3)] assms(4)
  by (auto simp: safe_runs)

theorem accepted_command_returns_witness:
  "\<exists>t. exec (Submit_resume ''r'' True None) demo = (Inr (), t)"
proof (rule accepted_command_returns [OF reachable_demo env_demo])
  have "valid_id ''r'' \<and> find_row ''r'' (tables demo) = None" by code_simp
  then show "valid_id q \<and> find_row q (tables demo) = None"
    if "submit_id (Submit_resume ''r'' True None) = Some q" for q
    using that by simp
qed simp

text \<open>
  The command table is a log: whatever a command does on a reachable store, returning or raising, every
  row keeps its position, request ID, sequence, kind, payload and creation time, and a row whose
  acknowledgement is terminal is never touched again.
\<close>

theorem command_log_grows:
  assumes "reachable s" "exec e s = (r, t)"
  shows "log_le (commands (tables s)) (commands (tables t))"
  by (rule exec_log [OF reachable_wf [OF assms(1)] assms(2)])

theorem command_log_grows_witness:
  "log_le (commands (tables (run_all [Submit_stop ''a'' True, Submit_resume ''b'' True None] demo)))
     (commands (tables (run_all [Submit_stop ''a'' True, Submit_resume ''b'' True None, Submit_stop ''c'' False] demo)))"
proof -
  let ?s = "run_all [Submit_stop ''a'' True, Submit_resume ''b'' True None] demo"
  have "reachable ?s" by (rule reachable_run [OF reachable_demo]) simp
  from command_log_grows [OF this, of "Submit_stop ''c'' False" "fst (exec (Submit_stop ''c'' False) ?s)"]
  show ?thesis by (simp add: run_all_def)
qed

section \<open>Replay\<close>

text \<open>The command kind and payload a submit records.\<close>

fun submit_content :: "control_event \<Rightarrow> (string \<times> obj) option" where
  "submit_content (Submit_stop q a) = Some (STOP_KIND, [])"
| "submit_content (Submit_resume q a h) = Some (RESUME_KIND, [])"
| "submit_content (Submit_stop_after q n a i) = (case parse_stop_after n of Inl e \<Rightarrow> None
     | Inr m \<Rightarrow> Some (STOP_AFTER_KIND, [(''after'', JInt m)]))"
| "submit_content (Submit_next_issue q n) = (case parse_next_issue n of Inl e \<Rightarrow> None
     | Inr m \<Rightarrow> Some (NEXT_ISSUE_KIND, [(''issue'', JInt m)]))"
| "submit_content (Submit_handoff q a h) = Some (HANDOFF_KIND, [])"
| "submit_content (Submit_recovery_retry q x) = (case parse_attempt_id x of Inl e \<Rightarrow> None
     | Inr y \<Rightarrow> Some (RECOVERY_RETRY_KIND, [(''attempt_id'', JStr y)]))"
| "submit_content (Submit_recovery_release q x z) = (case parse_attempt_id x of Inl e \<Rightarrow> None
     | Inr y \<Rightarrow> (case parse_saved_at z of Inl e \<Rightarrow> None
         | Inr w \<Rightarrow> Some (RECOVERY_RELEASE_KIND, [(''attempt_id'', JStr y), (''saved_at'', JStr w)])))"
| "submit_content (Submit_errors_reset q n) = Some (ERRORS_RESET_KIND, [])"
| "submit_content (Submit_other q k p) = (if py_blank k then None else Some (k, p))"
| "submit_content e = None"

definition replay_verdict :: "string \<Rightarrow> command_row \<Rightarrow> string \<Rightarrow> obj \<Rightarrow> control_error + unit" where
  "replay_verdict q r k p =
     (if row_kind r \<noteq> k then Inl (PayloadMismatchError (''Request ID '' @ q @ '' was already used for a different command''))
      else if row_payload r \<noteq> Some (canonical (JObj p))
      then Inl (PayloadMismatchError (''Request ID '' @ q @ '' was already used with a different payload''))
      else Inr ())"

lemma check_valid: "valid_id q \<Longrightarrow> seq (check_request_id q) f = f ()"
  by (simp add: valid_id_def check_request_id_def)

lemma lift_parsed: "seq (lift_sum (Inr x)) f = f x"
  by (simp add: fun_eq_iff seq_def lift_sum_def)

lemma ignore_run: "ignore m s = (case m s of (Inl e, t) \<Rightarrow> (Inl e, t) | (Inr x, t) \<Rightarrow> (Inr (), t))"
  by (simp add: ignore_def seq_def ret_def split: prod.splits sum.splits)

lemma replay_known:
  assumes "wf_rows (rows s)" "sqlite s = Sqlite_ok" "find_row q (tables s) = Some r"
  shows "ignore (transaction (replay_or q k p body)) s = (replay_verdict q r k p, s)"
proof -
  obtain c where c: "record_from_row r = Inr c"
    using wf_record_from_row [OF assms(1)] find_row_Some [OF assms(3)] by auto
  with record_from_row_fields [OF c] find_row_Some [OF assms(3)] assms(2,3) show ?thesis
    by (simp add: ignore_run transaction_def replay_or_def seq_def find_locked_def ensure_payload_identical_def
        replay_verdict_def ret_def)
qed

text \<open>
  A request ID is used once: resubmitting a recorded one, with whatever else the request carries
  (a hold, an active attempt), leaves the store exactly as it is; it returns when the recorded command has
  the same kind and payload and raises a payload mismatch otherwise.
\<close>

theorem known_request_replays:
  assumes "reachable s" "sqlite s = Sqlite_ok" "submit_id e = Some q" "valid_id q"
    "submit_content e = Some (k, p)" "find_row q (tables s) = Some r"
  shows "exec e s = (replay_verdict q r k p, s)"
  using replay_known [OF reachable_wf [OF assms(1)] assms(2,6)] assms(3-5)
  by (cases e)
    (auto simp: submit_stop_def submit_resume_def submit_stop_after_def submit_next_issue_def submit_handoff_def
      submit_recovery_retry_def submit_recovery_release_def submit_errors_reset_def submit_command_def check_valid
      lift_parsed Let_def split: sum.splits if_splits)

theorem known_request_replays_witness:
  "\<exists>r. find_row ''p'' (tables (run_all [Submit_stop_after ''p'' (JInt 3) False None] demo)) = Some r \<and>
     exec (Submit_stop_after ''p'' (JStr ''3'') False None) (run_all [Submit_stop_after ''p'' (JInt 3) False None] demo)
       = (Inr (), run_all [Submit_stop_after ''p'' (JInt 3) False None] demo)"
proof -
  let ?s = "run_all [Submit_stop_after ''p'' (JInt 3) False None] demo"
  let ?e = "Submit_stop_after ''p'' (JStr ''3'') False None"
  have r: "reachable ?s" by (rule reachable_run [OF reachable_demo]) simp
  have f: "find_row ''p'' (tables ?s) = Some (the (find_row ''p'' (tables ?s)))" by code_simp
  have "sqlite ?s = Sqlite_ok" "valid_id ''p''" by code_simp+
  moreover have "submit_content ?e = Some (STOP_AFTER_KIND, [(''after'', JInt 3)])" by code_simp
  ultimately have "exec ?e ?s = (replay_verdict ''p'' (the (find_row ''p'' (tables ?s))) STOP_AFTER_KIND [(''after'', JInt 3)], ?s)"
    by (intro known_request_replays [OF r _ _ _ _ f]) simp_all
  moreover have "replay_verdict ''p'' (the (find_row ''p'' (tables ?s))) STOP_AFTER_KIND [(''after'', JInt 3)] = Inr ()"
    by code_simp
  ultimately show ?thesis using f by metis
qed

text \<open>A command that recorded its request keeps the record it made.\<close>

definition recorded :: "string \<Rightarrow> string \<Rightarrow> obj \<Rightarrow> control_store \<Rightarrow> bool" where
  "recorded q k p s \<longleftrightarrow> (\<exists>r \<in> set (rows s). row_request_id r = q \<and> row_kind r = k \<and> row_payload r = Some (canonical (JObj p)))"

lemma recorded_log: "recorded q k p s \<Longrightarrow> log_le (rows s) (rows t) \<Longrightarrow> recorded q k p t"
  by (fastforce simp: recorded_def log_le_iff row_le_def list_all2_conv_all_nth in_set_conv_nth nth_append)

lemma recorded_after: "recorded q k p s \<Longrightarrow> frame log_order m s \<Longrightarrow> wp m (\<lambda>_. recorded q k p) s"
  by (auto simp: frame_def log_order_def wp_def intro: recorded_log)

lemma wp_any: "(\<And>x t. Q x t) \<Longrightarrow> wp m Q s"
  by (simp add: wp_def)

lemma recorded_insert: "wp (insert_locked q k p a d) (\<lambda>_. recorded q k p) s"
  unfolding insert_locked_def
  by (rule wp_seq, rule wp_any) (auto simp: wp_def recorded_def Let_def)

lemma recorded_seq: "wp m (\<lambda>_. recorded q k p) s \<Longrightarrow> (\<And>x t. frame log_order (f x) t) \<Longrightarrow> wp (seq m f) (\<lambda>_. recorded q k p) s"
  by (rule wp_seq, erule wp_conseq, erule recorded_after, simp)

lemma recorded_skip: "(\<And>x t. wp (f x) (\<lambda>_. recorded q k p) t) \<Longrightarrow> wp (seq m f) (\<lambda>_. recorded q k p) s"
  by (rule wp_seq, rule wp_any)

lemma recorded_submit:
  assumes wf: "wf_rows (rows s)" and body: "\<And>t. wp body (\<lambda>_. recorded q k p) t"
  shows "wp (transaction (replay_or q k p body)) (\<lambda>_. recorded q k p) s"
proof (rule wp_transaction, cases "find_row q (tables s)")
  case None
  with body show "wp (replay_or q k p body) (\<lambda>_. recorded q k p) s"
    by (simp add: wp_def replay_or_def seq_def find_locked_def)
next
  case (Some r)
  then show "wp (replay_or q k p body) (\<lambda>_. recorded q k p) s"
    using find_row_Some [OF Some] record_from_row_fields
    by (fastforce simp: wp_def replay_or_def seq_def find_locked_def ensure_payload_identical_def ret_def recorded_def
        split: sum.splits if_splits)
qed

lemma recorded_if: "(b \<Longrightarrow> wp m Q s) \<Longrightarrow> (\<not> b \<Longrightarrow> wp n Q s) \<Longrightarrow> wp (if b then m else n) Q s"
  by simp

lemma recorded_stop: "wp (record_stop q a d i p) (\<lambda>_. recorded q STOP_KIND []) s"
  unfolding record_stop_def by (rule recorded_seq, rule recorded_insert) (intro frame_intros)

lemma recorded_bodies:
  "wp (stop_while_stopping q) (\<lambda>_. recorded q STOP_KIND []) s"
  "wp (stop_while_running q active) (\<lambda>_. recorded q STOP_KIND []) s"
  "wp (resume_handoff_begun q) (\<lambda>_. recorded q RESUME_KIND []) s"
  "wp (resume_replacing q active) (\<lambda>_. recorded q RESUME_KIND []) s"
  "wp (plan_stop_after q n a) (\<lambda>_. recorded q STOP_AFTER_KIND [(''after'', JInt n)]) s"
  "wp (prioritize_issue q n) (\<lambda>_. recorded q NEXT_ISSUE_KIND [(''issue'', JInt n)]) s"
  "wp (plan_handoff q) (\<lambda>_. recorded q HANDOFF_KIND []) s"
  unfolding stop_while_stopping_def stop_while_running_def resume_handoff_begun_def resume_replacing_def
    plan_stop_after_def prioritize_issue_def plan_handoff_def Let_def
  by ((rule recorded_stop | rule recorded_insert | (rule recorded_seq, rule recorded_insert, intro frame_intros)
      | rule wp_if | rule recorded_skip)+)

lemma recorded_stop_body:
  "wp (seq intake_locked (\<lambda>i. case i of
         STOPPED \<Rightarrow> seq pending_locked (\<lambda>pending.
           record_stop q COMPLETED ''intake already stopped'' STOPPED pending)
       | STOPPING \<Rightarrow> stop_while_stopping q
       | RUNNING \<Rightarrow> stop_while_running q active)) (\<lambda>_. recorded q STOP_KIND []) s"
  by (rule recorded_skip)
    (auto intro: recorded_bodies recorded_skip recorded_stop split: intake_state.splits)

lemma recorded_check: "wp m (\<lambda>_. recorded q k p) s \<Longrightarrow> wp (seq (check_request_id q') (\<lambda>_. m)) (\<lambda>_. recorded q k p) s"
  by (rule wp_seq, rule wp_check_request_id)

lemma recorded_lift:
  "(\<And>x. z = Inr x \<Longrightarrow> wp (f x) (\<lambda>_. recorded q k p) s) \<Longrightarrow> wp (seq (lift_sum z) f) (\<lambda>_. recorded q k p) s"
  by (rule wp_seq, rule wp_lift_sum)

lemma submit_recorded:
  assumes wf: "wf_rows (rows s)" and id: "submit_id e = Some q" and content: "submit_content e = Some (k, p)"
  shows "wp (exec e) (\<lambda>_. recorded q k p) s"
proof -
  note r = recorded_submit [OF wf]
  note check = recorded_check and lift = recorded_lift
  have begun_cases: "wp (seq handoff_begun_locked (\<lambda>b. if b then m else n)) Q u"
    if "\<And>u. wp m Q u" "\<And>u. wp n Q u" for m n :: "command_record ctl" and Q u
    by (rule wp_seq, rule wp_any) (simp add: that)
  have intake_cases: "wp (seq intake_locked (\<lambda>i. if i = STOPPED then m else seq handoff_begun_locked (\<lambda>b. if b then n else n'))) Q u"
    if "\<And>u. wp m Q u" "\<And>u. wp n Q u" "\<And>u. wp n' Q u" for m n n' :: "command_record ctl" and Q u
    by (rule wp_seq, rule wp_any) (simp add: that begun_cases)
  show ?thesis
  proof (cases e)
    case (Submit_stop q' a)
    with id content show ?thesis
      by (auto intro!: wp_ignore check r recorded_stop_body simp: submit_stop_def)
  next
    case (Submit_resume q' a h)
    with id content show ?thesis
      by (auto intro!: wp_ignore check r wp_option wp_throw begun_cases recorded_bodies simp: submit_resume_def)
  next
    case (Submit_stop_after q' n a i)
    with id content show ?thesis
      by (auto intro!: wp_ignore check lift r wp_throw intake_cases recorded_bodies simp: submit_stop_after_def split: sum.splits)
  next
    case (Submit_next_issue q' n)
    with id content show ?thesis
      by (auto intro!: wp_ignore check lift r recorded_bodies simp: submit_next_issue_def split: sum.splits)
  next
    case (Submit_handoff q' a h)
    with id content show ?thesis
      by (auto intro!: wp_ignore check r wp_option wp_throw begun_cases recorded_bodies simp: submit_handoff_def)
  next
    case (Submit_recovery_retry q' x)
    with id content show ?thesis
      by (auto intro!: wp_ignore check lift r recorded_insert simp: submit_recovery_retry_def split: sum.splits)
  next
    case (Submit_recovery_release q' x y)
    with id content show ?thesis
      by (auto intro!: wp_ignore check lift r recorded_insert simp: submit_recovery_release_def Let_def split: sum.splits)
  next
    case (Submit_errors_reset q' n)
    with id content show ?thesis
      by (auto intro!: wp_ignore check r recorded_insert simp: submit_errors_reset_def)
  next
    case (Submit_other q' k' p')
    with id content show ?thesis
      by (auto intro!: wp_ignore check r wp_throw simp: submit_command_def split: if_splits)
  qed (use id in simp_all)
qed

lemma returned_check:
  "ignore (seq (check_request_id q) f) s = (Inr (), t) \<Longrightarrow> valid_id q \<and> ignore (f ()) s = (Inr (), t)"
  by (cases "py_blank q"; cases "128 < length q")
    (simp_all add: valid_id_def check_request_id_def ignore_run throw_def)

lemma returned_lift:
  "ignore (seq (lift_sum z) f) s = (Inr (), t) \<Longrightarrow> \<exists>x. z = Inr x \<and> ignore (f x) s = (Inr (), t)"
  by (cases z) (simp_all add: ignore_run seq_def lift_sum_def)

lemma returned_submit_content:
  assumes "exec e s = (Inr (), t)" "submit_id e = Some q"
  shows "valid_id q \<and> submit_content e \<noteq> None"
  using assms
  by (cases e)
    (auto simp: submit_stop_def submit_resume_def submit_stop_after_def submit_next_issue_def submit_handoff_def
      submit_recovery_retry_def submit_recovery_release_def submit_errors_reset_def submit_command_def
      ignore_run [of "throw err" for err] throw_def
      dest!: returned_check returned_lift split: if_splits)

lemma find_recorded:
  assumes "wf_rows (rows s)" "recorded q k p s"
  shows "\<exists>r. find_row q (tables s) = Some r \<and> replay_verdict q r k p = Inr ()"
  using assms find_row_unique [of "tables s"] by (force simp: recorded_def replay_verdict_def)

text \<open>
  Retrying is safe: after a submit has returned, any request with the same ID and content, sent again as
  often as wanted, returns and leaves the store exactly as it is.
\<close>

theorem retry_after_success:
  assumes "reachable s" "exec e s = (Inr (), t)" "submit_id e = Some q" "sqlite t = Sqlite_ok"
    "submit_id e' = Some q" "submit_content e' = submit_content e"
  shows "exec e' t = (Inr (), t)"
proof -
  from returned_submit_content [OF assms(2,3)] obtain k p where id: "valid_id q" and content: "submit_content e = Some (k, p)"
    by auto
  have rec: "recorded q k p t"
    using wpD [OF submit_recorded [OF reachable_wf [OF assms(1)] assms(3) content] assms(2)] .
  have t: "reachable t"
    using reachable_exec [OF assms(1) well_named_submit [OF assms(3)]] assms(2) by (metis snd_conv)
  have known: "ignore (transaction (replay_or q k p body)) t = (Inr (), t)" for body
    using find_recorded [OF reachable_wf [OF t] rec] replay_known [OF reachable_wf [OF t] assms(4)] by fastforce
  show ?thesis
    using known id assms(5,6) content
    by (cases e')
      (auto simp: submit_stop_def submit_resume_def submit_stop_after_def submit_next_issue_def submit_handoff_def
        submit_recovery_retry_def submit_recovery_release_def submit_errors_reset_def submit_command_def check_valid
        lift_parsed Let_def split: sum.splits if_splits)
qed

theorem retry_after_success_witness:
  "exec (Submit_next_issue ''n'' (JInt 7)) (snd (exec (Submit_next_issue ''n'' (JStr ''07'')) demo))
     = (Inr (), snd (exec (Submit_next_issue ''n'' (JStr ''07'')) demo))"
proof -
  let ?e = "Submit_next_issue ''n'' (JStr ''07'')"
  have run: "exec ?e demo = (Inr (), snd (exec ?e demo))" by (rule exec_pair) code_simp
  have "sqlite (snd (exec ?e demo)) = Sqlite_ok" by code_simp
  moreover have "submit_content (Submit_next_issue ''n'' (JInt 7)) = submit_content ?e" by code_simp
  ultimately show ?thesis by (intro retry_after_success [OF reachable_demo run]) simp_all
qed

end
