(* ===== verification/Control_Plans.thy ===== *)
theory Control_Plans
  imports Control_Frame
begin

text \<open>
  Properties of the plans: \<open>stop --after N\<close> countdowns, handoffs, the one-shot priority, and the store's
  answers to the supervisor's questions.
\<close>

section \<open>Countdowns\<close>

primrec finalize_all :: "(string \<times> string) list \<Rightarrow> unit ctl" where
  "finalize_all [] = ret ()"
| "finalize_all (a # as) = seq (exec (Attempt_finalized (fst a) (snd a))) (\<lambda>_. finalize_all as)"

lemma already_counted_iff: "already_counted a db \<longleftrightarrow> a \<in> set (map counted_attempt_id (counted_attempts db))"
  by (auto simp: already_counted_def list_ex_iff)

lemma finalize_one:
  assumes "reachable s" "env_ok s" "gate_of s = (i, Countdown n m)" "\<not> already_counted a (tables s)"
    "\<not> py_blank a" "\<not> py_blank out"
  shows "\<exists>t. exec (Attempt_finalized a out) s = (Inr (), t) \<and> reachable t \<and> env_ok t
    \<and> gate_of t = gate_finalized (i, Countdown n m)
    \<and> (\<forall>b. b \<noteq> a \<longrightarrow> \<not> already_counted b (tables s) \<longrightarrow> \<not> already_counted b (tables t))"
proof -
  have inv: "control_inv s" by (rule reachable_inv [OF assms(1)])
  have "safe (exec (Attempt_finalized a out)) s"
    by (rule exec_returns [OF inv assms(2)]) (use assms in simp_all)
  then obtain t where t: "exec (Attempt_finalized a out) s = (Inr (), t)" by (auto simp: safe_runs)
  show ?thesis
  proof (intro exI conjI allI impI, rule t)
    show "reachable t" using reachable_exec [OF assms(1), of "Attempt_finalized a out"] t by simp
    show "env_ok t" using exec_env [OF reachable_wf [OF assms(1)] t] assms(2) by simp
    show "gate_of t = gate_finalized (i, Countdown n m)"
      using exec_refines [OF inv _ t] assms(3,4) by simp
    show "\<not> already_counted b (tables t)" if "b \<noteq> a" "\<not> already_counted b (tables s)" for b
      using exec_counts [OF reachable_wf [OF assms(1)] t, of "{a}"] that by (auto simp: already_counted_iff)
  qed
qed

text \<open>
  C10. \<open>stop --after N\<close> stops after exactly N attempts: from a reachable store whose plan has \<open>m\<close> attempts
  left, recording the finalization of any \<open>m\<close> distinct attempts that were not counted before returns and
  leaves intake stopped with no plan, and after fewer the countdown is running with what remains.
\<close>

theorem countdown_stops_after_n:
  assumes "reachable s" "env_ok s" "gate_of s = (i, Countdown n m)"
    and "distinct (map fst as)" "int (length as) \<le> m"
    and "\<forall>(a, out) \<in> set as. \<not> already_counted a (tables s) \<and> \<not> py_blank a \<and> \<not> py_blank out"
  shows "\<exists>t. finalize_all as s = (Inr (), t)
    \<and> gate_of t = (if as = [] then (i, Countdown n m)
         else if int (length as) = m then (STOPPED, No_plan)
         else (RUNNING, Countdown n (m - int (length as))))"
  using assms
proof (induction as arbitrary: s i m)
  case Nil
  then show ?case by (simp add: ret_def)
next
  case (Cons x as)
  obtain a out where x: "x = (a, out)" by (cases x)
  with Cons.prems have new: "\<not> already_counted a (tables s)" "\<not> py_blank a" "\<not> py_blank out" by auto
  obtain t where t: "exec (Attempt_finalized a out) s = (Inr (), t)" "reachable t" "env_ok t"
    "gate_of t = gate_finalized (i, Countdown n m)"
    "\<forall>b. b \<noteq> a \<longrightarrow> \<not> already_counted b (tables s) \<longrightarrow> \<not> already_counted b (tables t)"
    using finalize_one [OF Cons.prems(1-3) new] by blast
  show ?case
  proof (cases "as = []")
    case True
    with t x Cons.prems(5) show ?thesis by (auto simp: seq_def ret_def)
  next
    case False
    with Cons.prems(5) x have m: "\<not> m \<le> 1" by (cases as) auto
    have "\<exists>u. finalize_all as t = (Inr (), u) \<and> gate_of u = (if as = [] then (RUNNING, Countdown n (m - 1))
         else if int (length as) = m - 1 then (STOPPED, No_plan)
         else (RUNNING, Countdown n (m - 1 - int (length as))))"
    proof (rule Cons.IH [OF t(2,3)])
      show "gate_of t = (RUNNING, Countdown n (m - 1))" using t(4) m by simp
      show "distinct (map fst as)" "int (length as) \<le> m - 1" using Cons.prems(4,5) by simp_all
      show "\<forall>(b, o') \<in> set as. \<not> already_counted b (tables t) \<and> \<not> py_blank b \<and> \<not> py_blank o'"
      proof (intro ballI, clarify)
        fix b o'
        assume b: "(b, o') \<in> set as"
        with Cons.prems(4) x have "b \<noteq> a" by (auto simp: rev_image_eqI)
        with b Cons.prems(6) t(5) show "\<not> already_counted b (tables t) \<and> \<not> py_blank b \<and> \<not> py_blank o'" by auto
      qed
    qed
    with False t(1) x show ?thesis by (auto simp: seq_def)
  qed
qed

theorem countdown_stops_after_n_witness:
  "\<exists>t. finalize_all [(''a1'', ''merged''), (''a2'', ''blocked'')] (run_all [Submit_stop_after ''p'' (JInt 2) False None] demo)
       = (Inr (), t) \<and> gate_of t = (STOPPED, No_plan)"
proof -
  let ?s = "run_all [Submit_stop_after ''p'' (JInt 2) False None] demo"
  have r: "reachable ?s" by (rule reachable_run [OF reachable_demo]) simp
  have e: "env_ok ?s"
    using exec_env [OF reachable_wf [OF reachable_demo], of "Submit_stop_after ''p'' (JInt 2) False None"
        "fst (exec (Submit_stop_after ''p'' (JInt 2) False None) demo)" ?s] env_demo
    by (simp add: run_all_def)
  have g: "gate_of ?s = (RUNNING, Countdown 2 2)" by code_simp
  have c: "counted_attempts (tables ?s) = []" by code_simp
  have b: "\<not> py_blank ''a1''" "\<not> py_blank ''a2''" "\<not> py_blank ''merged''" "\<not> py_blank ''blocked''" by code_simp+
  show ?thesis
    using countdown_stops_after_n [OF r e g, of "[(''a1'', ''merged''), (''a2'', ''blocked'')]"] c b
    by (simp add: already_counted_def)
qed

text \<open>
  An attempt is counted once: recording the finalization of an attempt that is already counted returns no
  record and leaves the tables as they are, whatever the outcome reported the second time.
\<close>

theorem attempt_counted_once:
  assumes "sqlite s = Sqlite_ok" "already_counted a (tables s)" "\<not> py_blank a" "\<not> py_blank out"
  shows "record_attempt_finalized a out s = (Inr [], s)"
  using assms by (simp add: record_attempt_finalized_def seq_def transaction_def ret_def)

theorem attempt_counted_once_witness:
  "record_attempt_finalized ''a1'' ''again''
     (run_all [Submit_stop_after ''p'' (JInt 2) False None, Attempt_finalized ''a1'' ''merged''] demo)
   = (Inr [], run_all [Submit_stop_after ''p'' (JInt 2) False None, Attempt_finalized ''a1'' ''merged''] demo)"
proof -
  have "sqlite (run_all [Submit_stop_after ''p'' (JInt 2) False None, Attempt_finalized ''a1'' ''merged''] demo) = Sqlite_ok"
    "already_counted ''a1'' (tables (run_all [Submit_stop_after ''p'' (JInt 2) False None, Attempt_finalized ''a1'' ''merged''] demo))"
    "\<not> py_blank ''a1''" "\<not> py_blank ''again''"
    by code_simp+
  then show ?thesis by (rule attempt_counted_once)
qed

section \<open>Handoffs\<close>

text \<open>
  Once the model has begun a handoff, no submit replaces it: every submit that returns (a stop, a resume, a
  countdown, another handoff, any other command, fresh or replayed) leaves the gate stopping under that
  handoff.
\<close>

theorem begun_handoff_stays:
  assumes "reachable s" "gate_of s = (STOPPING, Handing_off True)" "submit_id e = Some q" "exec e s = (Inr (), t)"
  shows "gate_of t = (STOPPING, Handing_off True)"
proof -
  have stay: "gate_next e (STOPPING, Handing_off True) \<in> {None, Some (STOPPING, Handing_off True)}"
    using assms(3) by (cases e) (auto split: sum.splits)
  from exec_refines [OF reachable_inv [OF assms(1)] well_named_submit [OF assms(3)] assms(4)]
  show ?thesis unfolding assms(2) using stay by (simp split: if_splits)
qed

definition begun_store :: control_store where
  "begun_store = run_all [Submit_handoff ''h'' True None, Mark_handoff_begun ''h''] demo"

lemma begun_store_reachable: "reachable begun_store"
  unfolding begun_store_def by (rule reachable_run [OF reachable_demo]) simp

theorem begun_handoff_stays_witness:
  "gate_of (snd (exec (Submit_stop ''s'' True) begun_store)) = (STOPPING, Handing_off True)"
proof -
  have run: "exec (Submit_stop ''s'' True) begun_store = (Inr (), snd (exec (Submit_stop ''s'' True) begun_store))"
    by (rule exec_pair) code_simp
  have g: "gate_of begun_store = (STOPPING, Handing_off True)" by code_simp
  have id: "submit_id (Submit_stop ''s'' True) = Some ''s''" by simp
  show ?thesis by (rule begun_handoff_stays [OF begun_store_reachable g id run])
qed

text \<open>
  A resume accepted while a begun handoff runs is acknowledged as completed with the note that it takes
  effect after the handoff's finalization, but finalizing the handoff stops intake: nothing applies the
  resume.
\<close>

theorem resume_during_handoff_is_lost:
  assumes "reachable s" "gate_of s = (STOPPING, Handing_off True)"
    and "exec (Submit_resume q active hold) s = (Inr (), t)"
    and "accepted_now h t" "handoff_or_unknown h t" "exec (Complete_handoff h d) t = (Inr (), u)"
  shows "gate_of t = (STOPPING, Handing_off True) \<and> gate_of u = (STOPPED, No_plan)"
proof -
  have t: "gate_of t = (STOPPING, Handing_off True)"
    using exec_refines [OF reachable_inv [OF assms(1)] _ assms(3)] assms(2) by (auto split: if_splits)
  have "control_inv t" using exec_refines [OF reachable_inv [OF assms(1)] _ assms(3)] by simp
  from exec_refines [OF this _ assms(6)] assms(4,5) t show ?thesis by auto
qed

theorem resume_during_handoff_is_lost_witness:
  "gate_of (run_all [Submit_resume ''r'' True None, Complete_handoff ''h'' ''done''] begun_store) = (STOPPED, No_plan)
   \<and> map_option row_detail (find_row ''r'' (tables (run_all [Submit_resume ''r'' True None] begun_store)))
     = Some ''handoff h already begun; resume takes effect after handoff finalization, handoff continues''"
proof -
  let ?t = "snd (exec (Submit_resume ''r'' True None) begun_store)"
  have 1: "exec (Submit_resume ''r'' True None) begun_store = (Inr (), ?t)" by (rule exec_pair) code_simp
  have 2: "exec (Complete_handoff ''h'' ''done'') ?t = (Inr (), snd (exec (Complete_handoff ''h'' ''done'') ?t))"
    by (rule exec_pair) code_simp
  have g: "gate_of begun_store = (STOPPING, Handing_off True)" by code_simp
  have a: "accepted_now ''h'' ?t" by code_simp
  have "map_option row_kind (find_row ''h'' (tables ?t)) = Some HANDOFF_KIND" by code_simp
  then have k: "handoff_or_unknown ''h'' ?t" by (auto simp: handoff_or_unknown_def)
  have "map_option row_detail (find_row ''r'' (tables ?t))
     = Some ''handoff h already begun; resume takes effect after handoff finalization, handoff continues''" by code_simp
  with resume_during_handoff_is_lost [OF begun_store_reachable g 1 a k 2] show ?thesis
    by (simp add: run_all_def)
qed

section \<open>The supervisor's questions\<close>

lemma reachable_view:
  assumes "reachable s"
  shows "\<exists>v. sees s v \<and> view_rel (gate_of s) v \<and> control_state (tables s) = Some (v_row v)"
  using reachable_inv [OF assms] by (auto simp: control_inv_def control_rel_def sees_def view_of_def)

text \<open>
  What the supervisor reads between attempts is the gate: on a reachable store \<open>get_intake_state\<close> returns
  the gate's intake state, and \<open>stop_plan_snapshot\<close> returns a plan exactly when the gate counts down, with its
  size and what remains.
\<close>

theorem supervisor_reads_gate:
  assumes "reachable s" "sqlite s = Sqlite_ok"
  shows "get_intake_state s = (Inr (fst (gate_of s)), s) \<and> (case snd (gate_of s) of
       Countdown n m \<Rightarrow> \<exists>p. stop_plan_snapshot s = (Inr (Some p), s) \<and> plan_requested p = n \<and> plan_remaining p = m
     | _ \<Rightarrow> stop_plan_snapshot s = (Inr None, s))"
proof -
  from reachable_view [OF assms(1)] obtain v where v: "view_rel (gate_of s) v" "control_state (tables s) = Some (v_row v)"
    by blast
  have "get_intake_state s = (Inr (fst (gate_of s)), s)"
    using v assms(2)
    by (simp add: get_intake_state_def reading_def intake_locked_def seq_def state_row_locked_def view_rel_def ret_def)
  then show ?thesis
    using v assms(2)
    by (auto simp: stop_plan_snapshot_def reading_def seq_def state_row_locked_def view_rel_def ret_def split: plan.splits)
qed

theorem supervisor_reads_gate_witness:
  "\<exists>p. stop_plan_snapshot (run_all [Submit_stop_after ''p'' (JInt 4) True (Some ''a1''), Attempt_finalized ''a1'' ''merged''] demo)
     = (Inr (Some p), run_all [Submit_stop_after ''p'' (JInt 4) True (Some ''a1''), Attempt_finalized ''a1'' ''merged''] demo)
     \<and> plan_requested p = 4 \<and> plan_remaining p = 3"
proof -
  let ?s = "run_all [Submit_stop_after ''p'' (JInt 4) True (Some ''a1''), Attempt_finalized ''a1'' ''merged''] demo"
  have r: "reachable ?s" by (rule reachable_run [OF reachable_demo]) simp
  have g: "gate_of ?s = (RUNNING, Countdown 4 3)" by code_simp
  have "sqlite ?s = Sqlite_ok" by code_simp
  from supervisor_reads_gate [OF r this] show ?thesis by (simp only: g snd_conv plan.case)
qed

section \<open>The one-shot priority\<close>

lemma find_acknowledged:
  "find_row q (db\<lparr>commands := acknowledge_rows P a d x (commands db)\<rparr>) =
     map_option (\<lambda>r. if P r then r\<lparr>row_ack := ack_value a, row_detail := d, row_updated_at := x\<rparr> else r) (find_row q db)"
proof -
  have "find (\<lambda>r. row_request_id r = q) (acknowledge_rows P a d x rs) =
     map_option (\<lambda>r. if P r then r\<lparr>row_ack := ack_value a, row_detail := d, row_updated_at := x\<rparr> else r)
       (find (\<lambda>r. row_request_id r = q) rs)" for rs
    by (induction rs) (auto simp: acknowledge_rows_def)
  then show ?thesis by (simp add: find_row_def)
qed

text \<open>
  The priority is spent once, by the issue it names: completing it for another issue returns nothing and
  changes nothing; completing it for its own issue returns the command's record, completed, and leaves no
  priority.
\<close>

theorem next_issue_is_one_shot:
  assumes "reachable s" "env_ok s" "next_issue_snapshot s = (Inr (Some (q, n)), s)"
  shows "(n' \<noteq> n \<longrightarrow> complete_next_issue n' s = (Inr None, s))
    \<and> (\<exists>c t. complete_next_issue n s = (Inr (Some c), t) \<and> rec_request_id c = q \<and> rec_ack c = COMPLETED
         \<and> next_issue_snapshot t = (Inr None, t))"
proof -
  from reachable_view [OF assms(1)] obtain v where v: "sees s v" "view_rel (gate_of s) v" "control_state (tables s) = Some (v_row v)"
    by blast
  have ok: "sqlite s = Sqlite_ok" and "clock s (ticks s) \<noteq> Naive" using assms(2) by (simp_all add: env_ok_def)
  then obtain x where x: "clock s (ticks s) = Aware x" by (cases "clock s (ticks s)") auto
  from assms(3) v ok have nxt: "next_issue_number (v_row v) = Some n" "next_issue_request_id (v_row v) = Some q"
    by (auto simp: next_issue_snapshot_def reading_def seq_def next_issue_locked_def state_row_locked_def ret_def
        split: option.splits)
  with v(2) have "q \<in> set (v_next v)" by (auto simp: view_rel_def priority_ok_def)
  with v(1) obtain r where r: "find_row q (tables s) = Some r" "row_ack r = ack_value ACCEPTED" "row_request_id r = q"
    using find_row_Some [of q "tables s"] by (auto simp: sees_def view_of_def acc_iff)
  have locked: "next_issue_locked s = (Inr (Some (n, q)), s)"
    using v(3) nxt by (simp add: next_issue_locked_def seq_def state_row_locked_def ret_def)
  have other: "complete_next_issue n' s = (Inr None, s)" if "n' \<noteq> n"
    using that locked ok
    by (simp add: complete_next_issue_def settle_next_issue_def seq_def transaction_def ret_def decode_settled_def)
  obtain c t where run: "complete_next_issue n s = (Inr (Some c), t)" "rec_request_id c = q" "rec_ack c = COMPLETED"
    and st: "sqlite t = Sqlite_ok" "control_state (tables t) = Some ((v_row v)\<lparr>next_issue_number := None, next_issue_request_id := None\<rparr>)"
    using locked ok x r v(3) find_acknowledged [where q = q and db = "tables s"]
    by (simp add: complete_next_issue_def settle_next_issue_def seq_def transaction_def ret_def decode_settled_def timestamp_def
        update_rows_def update_state_def lift_row_def record_from_row_def accepted_id_def find_row_def)
  have "next_issue_snapshot t = (Inr None, t)"
    using st by (simp add: next_issue_snapshot_def reading_def seq_def next_issue_locked_def state_row_locked_def ret_def)
  with other run show ?thesis by blast
qed

theorem next_issue_is_one_shot_witness:
  "complete_next_issue 8 (run_all [Submit_next_issue ''n'' (JInt 7)] demo) = (Inr None, run_all [Submit_next_issue ''n'' (JInt 7)] demo)"
proof -
  let ?s = "run_all [Submit_next_issue ''n'' (JInt 7)] demo"
  have r: "reachable ?s" by (rule reachable_run [OF reachable_demo]) simp
  have e: "env_ok ?s" using env_demo exec_env [OF reachable_wf [OF reachable_demo], of "Submit_next_issue ''n'' (JInt 7)"]
    by (simp add: run_all_def) (metis prod.collapse)
  have "fst (next_issue_snapshot ?s) = Inr (Some (''n'', 7))" by code_simp
  moreover have "snd (next_issue_snapshot ?s) = ?s"
    by (auto simp: next_issue_snapshot_def reading_def seq_def next_issue_locked_def state_row_locked_def ret_def throw_def
        split: sqlite_condition.splits option.splits)
  ultimately have "next_issue_snapshot ?s = (Inr (Some (''n'', 7)), ?s)" by (metis prod.collapse)
  from next_issue_is_one_shot [OF r e this, of 8] show ?thesis by simp
qed

end
