(* ===== verification/Token_Ledger.thy ===== *)
theory Token_Ledger
  imports Prelude Complex_Main
begin

text \<open>
  The per-attempt token ledger (\<open>token_ledger.py\<close>): threads of responses that count as an estimate until
  reported usage replaces it. The definitions follow \<open>TokenLedger\<close> method by method; a dict is an association
  list in insertion order. Token amounts that the code keeps as floats are exact rationals here, and a usage
  report maps category names to an integer or \<open>None\<close>. The state part comes first, then the readings.
\<close>

section \<open>Constants and usage reports\<close>

definition INPUT_CHARS_PER_TOKEN :: rat where "INPUT_CHARS_PER_TOKEN = 4"
definition OUTPUT_CHARS_PER_TOKEN :: rat where "OUTPUT_CHARS_PER_TOKEN = 3"
definition FRAMING_TOKENS_PER_MESSAGE :: rat where "FRAMING_TOKENS_PER_MESSAGE = 60"
definition THINKING_ALLOWANCE_TOKENS :: rat where "THINKING_ALLOWANCE_TOKENS = 150"
definition MAIN_SYSTEM_BASE_TOKENS :: rat where "MAIN_SYSTEM_BASE_TOKENS = 19000"
definition DEFAULT_SUBAGENT_SYSTEM_BASE_TOKENS :: rat where "DEFAULT_SUBAGENT_SYSTEM_BASE_TOKENS = 15000"

definition SUBAGENT_SYSTEM_BASE_TOKENS_BY_TYPE :: "(string \<times> rat) list" where
  "SUBAGENT_SYSTEM_BASE_TOKENS_BY_TYPE = [(''Explore'', 15000), (''general-purpose'', 15000)]"

record usage =
  input_tokens :: int
  cache_read_input_tokens :: int
  cache_creation_input_tokens :: int
  output_tokens :: int

type_synonym usage_report = "(string \<times> int option) list"

text \<open>A category is read under its own name, else under its camel-case alias, else it is 0.\<close>

definition category_value :: "usage_report \<Rightarrow> string \<Rightarrow> string \<Rightarrow> int" where
  "category_value report category alias = (case map_of report category of
     Some (Some v) \<Rightarrow> v
   | _ \<Rightarrow> (case map_of report alias of Some (Some v) \<Rightarrow> v | _ \<Rightarrow> 0))"

definition usage_by_category :: "usage_report \<Rightarrow> usage" where
  "usage_by_category report =
     \<lparr>input_tokens = category_value report ''input_tokens'' ''inputTokens'',
      cache_read_input_tokens = category_value report ''cache_read_input_tokens'' ''cacheReadInputTokens'',
      cache_creation_input_tokens =
        category_value report ''cache_creation_input_tokens'' ''cacheCreationInputTokens'',
      output_tokens = category_value report ''output_tokens'' ''outputTokens''\<rparr>"

definition total_input_of :: "usage \<Rightarrow> int" where
  "total_input_of u = input_tokens u + cache_read_input_tokens u + cache_creation_input_tokens u"

definition usage_sum :: "usage \<Rightarrow> int" where
  "usage_sum u = input_tokens u + cache_read_input_tokens u + cache_creation_input_tokens u + output_tokens u"

definition usage_total :: "usage_report \<Rightarrow> int" where
  "usage_total report = usage_sum (usage_by_category report)"

definition usage_max :: "usage \<Rightarrow> usage \<Rightarrow> usage" where
  "usage_max u v =
     \<lparr>input_tokens = max (input_tokens u) (input_tokens v),
      cache_read_input_tokens = max (cache_read_input_tokens u) (cache_read_input_tokens v),
      cache_creation_input_tokens = max (cache_creation_input_tokens u) (cache_creation_input_tokens v),
      output_tokens = max (output_tokens u) (output_tokens v)\<rparr>"

definition usage_add :: "usage \<Rightarrow> usage \<Rightarrow> usage" where
  "usage_add u v =
     \<lparr>input_tokens = input_tokens u + input_tokens v,
      cache_read_input_tokens = cache_read_input_tokens u + cache_read_input_tokens v,
      cache_creation_input_tokens = cache_creation_input_tokens u + cache_creation_input_tokens v,
      output_tokens = output_tokens u + output_tokens v\<rparr>"

definition no_usage :: usage where
  "no_usage = \<lparr>input_tokens = 0, cache_read_input_tokens = 0, cache_creation_input_tokens = 0, output_tokens = 0\<rparr>"

definition hit_rate_of :: "usage \<Rightarrow> rat option" where
  "hit_rate_of totals = (if total_input_of totals = 0 then None
     else Some (of_int (cache_read_input_tokens totals) / of_int (total_input_of totals)))"


section \<open>State\<close>

record response =
  r_id :: string
  r_estimate :: rat
  r_output_estimate :: rat
  r_usage :: "usage option"
  r_settled :: bool
  r_compacted_before :: bool
  r_interrupted :: bool

record thread =
  t_kind :: string
  t_subagent_type :: "string option"
  t_context :: rat
  t_responses :: "response list"

record reading =
  rd_budget_tokens :: rat
  rd_measured_tokens :: rat
  rd_estimated_tokens :: rat
  rd_main_context_tokens :: rat
  rd_main_response_count :: nat

record degraded_notice =
  dn_thread :: string
  dn_subagent_type :: "string option"
  dn_response_id :: string

record ledger =
  l_main_base :: rat
  l_subagent_base :: rat
  l_bases_by_type :: "(string \<times> rat) list"
  l_threads :: "(string \<times> thread) list"
  l_first_notice :: "degraded_notice option"
  l_readings :: "(string \<times> string) \<Rightarrow> reading option"
  l_peak :: rat
  l_peak_basis :: string
  l_compaction :: "string set"

datatype ledger_error = Already_started string | Unknown_kind string | Unknown_thread string

definition new_ledger :: "rat \<Rightarrow> rat \<Rightarrow> (string \<times> rat) list \<Rightarrow> ledger" where
  "new_ledger main_base subagent_base bases =
     \<lparr>l_main_base = main_base, l_subagent_base = subagent_base, l_bases_by_type = bases, l_threads = [],
      l_first_notice = None, l_readings = (\<lambda>_. None), l_peak = 0, l_peak_basis = ''estimated'',
      l_compaction = {}\<rparr>"

definition default_ledger :: ledger where
  "default_ledger = new_ledger MAIN_SYSTEM_BASE_TOKENS DEFAULT_SUBAGENT_SYSTEM_BASE_TOKENS
     SUBAGENT_SYSTEM_BASE_TOKENS_BY_TYPE"

definition counted_tokens :: "response \<Rightarrow> rat" where
  "counted_tokens r = (case r_usage r of None \<Rightarrow> r_estimate r | Some u \<Rightarrow> of_int (usage_sum u))"

definition all_responses :: "ledger \<Rightarrow> response list" where
  "all_responses l = concat (map (\<lambda>(_, t). t_responses t) (l_threads l))"

definition measured_tokens :: "ledger \<Rightarrow> rat" where
  "measured_tokens l = sum_list (map counted_tokens (filter (\<lambda>r. r_usage r \<noteq> None) (all_responses l)))"

definition estimated_tokens :: "ledger \<Rightarrow> rat" where
  "estimated_tokens l = sum_list (map counted_tokens (filter (\<lambda>r. r_usage r = None) (all_responses l)))"

definition interrupted_estimated_tokens :: "ledger \<Rightarrow> rat" where
  "interrupted_estimated_tokens l =
     sum_list (map counted_tokens (filter (\<lambda>r. r_usage r = None \<and> r_interrupted r) (all_responses l)))"

definition budget_tokens :: "ledger \<Rightarrow> rat" where
  "budget_tokens l = measured_tokens l + estimated_tokens l"

definition current_reading :: "ledger \<Rightarrow> reading" where
  "current_reading l = (let main = map_of (l_threads l) ''main'' in
     \<lparr>rd_budget_tokens = budget_tokens l, rd_measured_tokens = measured_tokens l,
      rd_estimated_tokens = estimated_tokens l,
      rd_main_context_tokens = (case main of None \<Rightarrow> 0 | Some t \<Rightarrow> t_context t),
      rd_main_response_count = (case main of None \<Rightarrow> 0 | Some t \<Rightarrow> length (t_responses t))\<rparr>)"


section \<open>Events\<close>

definition put_thread :: "string \<Rightarrow> thread \<Rightarrow> (string \<times> thread) list \<Rightarrow> (string \<times> thread) list" where
  "put_thread tid t ts = map (\<lambda>(k, u). if k = tid then (k, t) else (k, u)) ts"

text \<open>\<open>_track_peak\<close>: a new main-thread peak carries the basis of the reading behind it.\<close>

definition latest_basis :: "thread \<Rightarrow> string" where
  "latest_basis t = (if t_responses t \<noteq> [] \<and> r_usage (last (t_responses t)) \<noteq> None
     then ''measured'' else ''estimated'')"

definition track_peak :: "thread \<Rightarrow> string \<Rightarrow> ledger \<Rightarrow> ledger" where
  "track_peak t basis l = (if t_kind t = ''main'' \<and> l_peak l < t_context t
     then l\<lparr>l_peak := t_context t, l_peak_basis := basis\<rparr> else l)"

text \<open>\<open>_settle\<close>: the reading is captured before the event that settles the response is applied.\<close>

definition settle :: "string \<Rightarrow> ledger \<Rightarrow> ledger" where
  "settle tid l = (case map_of (l_threads l) tid of
     None \<Rightarrow> l
   | Some t \<Rightarrow>
       if t_responses t = [] then l
       else let r = last (t_responses t) in
         if r_settled r then l
         else l\<lparr>l_readings := (l_readings l)((tid, r_id r) \<mapsto> current_reading l),
                l_threads := put_thread tid
                  (t\<lparr>t_responses := butlast (t_responses t) @ [r\<lparr>r_settled := True\<rparr>]\<rparr>) (l_threads l),
                l_first_notice := (if r_usage r = None \<and> l_first_notice l = None
                  then Some \<lparr>dn_thread = tid, dn_subagent_type = t_subagent_type t, dn_response_id = r_id r\<rparr>
                  else l_first_notice l)\<rparr>)"

definition start_thread ::
  "string \<Rightarrow> string \<Rightarrow> nat \<Rightarrow> string option \<Rightarrow> ledger \<Rightarrow> (ledger_error + unit) \<times> ledger" where
  "start_thread tid kind prompt_chars subagent_type l =
     (if map_of (l_threads l) tid \<noteq> None then (Inl (Already_started tid), l)
      else if kind \<noteq> ''main'' \<and> kind \<noteq> ''subagent'' then (Inl (Unknown_kind kind), l)
      else
        let base = (if kind = ''main'' then l_main_base l
              else (case map_of (l_bases_by_type l) (case subagent_type of None \<Rightarrow> '''' | Some x \<Rightarrow> x) of
                      None \<Rightarrow> l_subagent_base l | Some b \<Rightarrow> b));
            t = \<lparr>t_kind = kind, t_subagent_type = (if kind = ''subagent'' then subagent_type else None),
                 t_context = base + of_nat prompt_chars / INPUT_CHARS_PER_TOKEN, t_responses = []\<rparr>
        in (Inr (), track_peak t (latest_basis t)
             (l\<lparr>l_threads := l_threads l @ [(tid, t)], l_compaction := l_compaction l - {tid}\<rparr>)))"

definition find_response :: "string \<Rightarrow> response list \<Rightarrow> response option" where
  "find_response rid rs = find (\<lambda>r. r_id r = rid) rs"

definition observe_response ::
  "string \<Rightarrow> string \<Rightarrow> nat \<Rightarrow> ledger \<Rightarrow> (ledger_error + rat) \<times> ledger" where
  "observe_response tid rid visible_chars l = (case map_of (l_threads l) tid of
     None \<Rightarrow> (Inl (Unknown_thread tid), l)
   | Some t0 \<Rightarrow> (case find_response rid (t_responses t0) of
       Some r \<Rightarrow> (Inr (counted_tokens r), l)
     | None \<Rightarrow>
         let l1 = settle tid l;
             t = the (map_of (l_threads l1) tid);
             output_estimate = of_nat visible_chars / OUTPUT_CHARS_PER_TOKEN + THINKING_ALLOWANCE_TOKENS;
             estimate = t_context t + output_estimate;
             r = \<lparr>r_id = rid, r_estimate = estimate, r_output_estimate = output_estimate, r_usage = None,
                  r_settled = False, r_compacted_before = (tid \<in> l_compaction l1), r_interrupted = False\<rparr>;
             t' = t\<lparr>t_responses := t_responses t @ [r], t_context := t_context t + output_estimate\<rparr>
         in (Inr estimate, track_peak t' (latest_basis t')
              (l1\<lparr>l_threads := put_thread tid t' (l_threads l1), l_compaction := l_compaction l1 - {tid}\<rparr>))))"

text \<open>\<open>_response_for_usage\<close>: the response of that ID, else the latest one; as an index.\<close>

definition index_of :: "string \<Rightarrow> response list \<Rightarrow> nat option" where
  "index_of rid rs = (let i = length (takeWhile (\<lambda>r. r_id r \<noteq> rid) rs) in if i < length rs then Some i else None)"

definition response_for_usage :: "string \<Rightarrow> response list \<Rightarrow> nat option" where
  "response_for_usage rid rs = (case index_of rid rs of
     Some i \<Rightarrow> Some i | None \<Rightarrow> if rs = [] then None else Some (length rs - 1))"

definition merge_usage :: "usage option \<Rightarrow> usage \<Rightarrow> usage" where
  "merge_usage old new = (case old of None \<Rightarrow> new | Some u \<Rightarrow> usage_max u new)"

definition observe_usage ::
  "string \<Rightarrow> string \<Rightarrow> usage_report option \<Rightarrow> ledger \<Rightarrow> (ledger_error + unit) \<times> ledger" where
  "observe_usage tid rid report l = (case report of
     None \<Rightarrow> (Inr (), l)
   | Some rep \<Rightarrow>
       let merged = usage_by_category rep in
       if usage_sum merged = 0 then (Inr (), l)
       else (case map_of (l_threads l) tid of
           None \<Rightarrow> (Inl (Unknown_thread tid), l)
         | Some t \<Rightarrow> (case response_for_usage rid (t_responses t) of
             None \<Rightarrow> (Inr (), l)
           | Some i \<Rightarrow>
               let r = t_responses t ! i;
                   u = merge_usage (r_usage r) merged;
                   t' = t\<lparr>t_responses := (t_responses t)[i := r\<lparr>r_usage := Some u\<rparr>],
                          t_context := of_int (usage_sum u)\<rparr>
               in (Inr (), track_peak t' ''measured'' (l\<lparr>l_threads := put_thread tid t' (l_threads l)\<rparr>)))))"

definition observe_input :: "string \<Rightarrow> nat \<Rightarrow> ledger \<Rightarrow> (ledger_error + unit) \<times> ledger" where
  "observe_input tid chars l = (case map_of (l_threads l) tid of
     None \<Rightarrow> (Inl (Unknown_thread tid), l)
   | Some _ \<Rightarrow>
       let l1 = settle tid l;
           t = the (map_of (l_threads l1) tid);
           t' = t\<lparr>t_context := t_context t
                    + (of_nat chars / INPUT_CHARS_PER_TOKEN + FRAMING_TOKENS_PER_MESSAGE)\<rparr>
       in (Inr (), track_peak t' (latest_basis t') (l1\<lparr>l_threads := put_thread tid t' (l_threads l1)\<rparr>)))"

definition notify_compaction :: "string \<Rightarrow> ledger \<Rightarrow> ledger" where
  "notify_compaction tid l = l\<lparr>l_compaction := insert tid (l_compaction l)\<rparr>"

definition interruptible :: "response \<Rightarrow> bool" where
  "interruptible r \<longleftrightarrow> r_usage r = None \<and> \<not> r_settled r \<and> \<not> r_interrupted r"

definition mark_interrupted :: "ledger \<Rightarrow> nat \<times> ledger" where
  "mark_interrupted l =
     (length (filter interruptible (all_responses l)),
      l\<lparr>l_threads := map (\<lambda>(k, t). (k, t\<lparr>t_responses :=
          map (\<lambda>r. if interruptible r then r\<lparr>r_interrupted := True\<rparr> else r) (t_responses t)\<rparr>)) (l_threads l)\<rparr>)"

definition settle_thread :: "string \<Rightarrow> ledger \<Rightarrow> string list \<times> ledger" where
  "settle_thread tid l = (case map_of (l_threads l) tid of
     None \<Rightarrow> ([], l)
   | Some t \<Rightarrow>
       if t_responses t = [] then ([], l)
       else let r = last (t_responses t) in
         if r_settled r \<or> r_interrupted r then ([], l) else ([r_id r], settle tid l))"

primrec settle_threads :: "string list \<Rightarrow> ledger \<Rightarrow> (string \<times> string list) list \<times> ledger" where
  "settle_threads [] l = ([], l)"
| "settle_threads (tid # tids) l =
     (case settle_thread tid l of (ids, l1) \<Rightarrow>
      case settle_threads tids l1 of (rest, l2) \<Rightarrow> ((if ids = [] then rest else (tid, ids) # rest), l2))"

definition settle_all_threads :: "ledger \<Rightarrow> (string \<times> string list) list \<times> ledger" where
  "settle_all_threads l = settle_threads (map fst (l_threads l)) l"


section \<open>Reconciliation and readings\<close>

datatype mode = Measured | Mixed | Estimated

record reconciliation =
  rc_mode :: mode
  rc_estimated_tokens :: rat
  rc_actual_tokens :: "int option"
  rc_error_ratio :: "rat option"
  rc_unreported_estimated_tokens :: rat
  rc_unreported_actual_tokens :: "int option"
  rc_unreported_error_ratio :: "rat option"
  rc_interrupted_estimated_tokens :: rat

text \<open>Python's \<open>int\<close> truncates toward zero; measured totals are sums of integers.\<close>

definition int_of_rat :: "rat \<Rightarrow> int" where
  "int_of_rat x = (if x < 0 then \<lceil>x\<rceil> else \<lfloor>x\<rfloor>)"

definition reconcile :: "(string \<times> usage_report) list option \<Rightarrow> ledger \<Rightarrow> reconciliation \<times> ledger" where
  "reconcile model_usage l =
     (let l1 = fold settle (map fst (l_threads l)) l;
          estimated_total = budget_tokens l1;
          measured = measured_tokens l1;
          interrupted = interrupted_estimated_tokens l1;
          covered_estimated = estimated_total - interrupted;
          covered_unreported = estimated_tokens l1 - interrupted;
          mode = (if covered_unreported > 0 then (if measured > 0 then Mixed else Estimated)
                  else if measured > 0 \<or> interrupted = 0 then Measured else Estimated)
      in (case model_usage of
          None \<Rightarrow> \<lparr>rc_mode = mode, rc_estimated_tokens = estimated_total, rc_actual_tokens = None,
            rc_error_ratio = None, rc_unreported_estimated_tokens = covered_unreported,
            rc_unreported_actual_tokens = None, rc_unreported_error_ratio = None,
            rc_interrupted_estimated_tokens = interrupted\<rparr>
        | Some reports \<Rightarrow>
            let actual = sum_list (map (\<lambda>(_, rep). usage_total rep) reports);
                unreported = actual - int_of_rat measured
            in \<lparr>rc_mode = mode, rc_estimated_tokens = estimated_total, rc_actual_tokens = Some actual,
                rc_error_ratio = (if actual > 0
                  then Some ((covered_estimated - of_int actual) / of_int actual) else None),
                rc_unreported_estimated_tokens = covered_unreported,
                rc_unreported_actual_tokens = Some unreported,
                rc_unreported_error_ratio = (if unreported > 0
                  then Some ((covered_unreported - of_int unreported) / of_int unreported) else None),
                rc_interrupted_estimated_tokens = interrupted\<rparr>, l1))"

definition add_usages :: "response list \<Rightarrow> usage" where
  "add_usages rs = fold (\<lambda>r acc. case r_usage r of None \<Rightarrow> acc | Some u \<Rightarrow> usage_add acc u) rs no_usage"

definition measured_by_category :: "ledger \<Rightarrow> usage" where
  "measured_by_category l = add_usages (all_responses l)"

definition main_responses :: "ledger \<Rightarrow> response list" where
  "main_responses l = (case map_of (l_threads l) ''main'' of None \<Rightarrow> [] | Some t \<Rightarrow> t_responses t)"

definition measured_main_responses :: "nat option \<Rightarrow> ledger \<Rightarrow> response list" where
  "measured_main_responses limit l =
     (let measured = filter (\<lambda>r. r_usage r \<noteq> None) (main_responses l)
      in case limit of None \<Rightarrow> measured | Some n \<Rightarrow> take n measured)"

definition main_measured_by_category :: "nat option \<Rightarrow> ledger \<Rightarrow> usage" where
  "main_measured_by_category limit l = add_usages (measured_main_responses limit l)"

definition main_hit_rate :: "nat option \<Rightarrow> ledger \<Rightarrow> rat option" where
  "main_hit_rate limit l = hit_rate_of (main_measured_by_category limit l)"

definition main_miss_at :: "response list \<Rightarrow> nat \<Rightarrow> int option" where
  "main_miss_at rs i = (case r_usage (rs ! i) of
     None \<Rightarrow> None
   | Some u \<Rightarrow>
       if i = 0 \<or> r_compacted_before (rs ! i) then None
       else (case r_usage (rs ! (i - 1)) of
           None \<Rightarrow> None
         | Some p \<Rightarrow> Some (max 0 (total_input_of p - cache_read_input_tokens u))))"

text \<open>The indices of the first \<open>limit\<close> measured responses: the code compares object identities.\<close>

definition measured_indices :: "nat option \<Rightarrow> response list \<Rightarrow> nat list" where
  "measured_indices limit rs =
     (let is = filter (\<lambda>i. r_usage (rs ! i) \<noteq> None) [0..<length rs]
      in case limit of None \<Rightarrow> is | Some n \<Rightarrow> take n is)"

record main_cache_stats =
  cs_hit_rate :: "rat option"
  cs_miss_tokens :: int
  cs_counted :: nat
  cs_excluded :: nat

definition main_cache_stats :: "nat option \<Rightarrow> ledger \<Rightarrow> main_cache_stats" where
  "main_cache_stats limit l =
     (let rs = main_responses l;
          misses = map (main_miss_at rs) (measured_indices limit rs)
      in \<lparr>cs_hit_rate = main_hit_rate limit l,
          cs_miss_tokens = sum_list (map (\<lambda>m. case m of None \<Rightarrow> 0 | Some n \<Rightarrow> n) misses),
          cs_counted = length (filter (\<lambda>m. m \<noteq> None) misses),
          cs_excluded = length (filter (\<lambda>m. m = None) misses)\<rparr>)"

record response_cache_metrics =
  cm_input_tokens :: int
  cm_cache_read_tokens :: int
  cm_cache_creation_tokens :: int
  cm_hit_rate :: "rat option"
  cm_miss_tokens :: "int option"

definition response_cache_metrics :: "string \<Rightarrow> string \<Rightarrow> ledger \<Rightarrow> response_cache_metrics option" where
  "response_cache_metrics tid rid l = (case map_of (l_threads l) tid of
     None \<Rightarrow> None
   | Some t \<Rightarrow> (case index_of rid (t_responses t) of
       None \<Rightarrow> None
     | Some i \<Rightarrow> (case r_usage (t_responses t ! i) of
         None \<Rightarrow> None
       | Some u \<Rightarrow> Some \<lparr>cm_input_tokens = input_tokens u, cm_cache_read_tokens = cache_read_input_tokens u,
           cm_cache_creation_tokens = cache_creation_input_tokens u, cm_hit_rate = hit_rate_of u,
           cm_miss_tokens = (if tid = ''main'' then main_miss_at (t_responses t) i else None)\<rparr>)))"

definition main_context_basis :: "ledger \<Rightarrow> string" where
  "main_context_basis l = (case map_of (l_threads l) ''main'' of
     None \<Rightarrow> ''estimated'' | Some t \<Rightarrow> latest_basis t)"

definition main_measured_settled_count :: "ledger \<Rightarrow> nat" where
  "main_measured_settled_count l = length (filter (\<lambda>r. r_settled r \<and> r_usage r \<noteq> None) (main_responses l))"

definition settled_response_ids :: "string \<Rightarrow> ledger \<Rightarrow> string list option" where
  "settled_response_ids tid l = (case map_of (l_threads l) tid of
     None \<Rightarrow> None | Some t \<Rightarrow> Some (map r_id (filter r_settled (t_responses t))))"

definition settled_reading :: "string \<Rightarrow> string \<Rightarrow> ledger \<Rightarrow> reading option" where
  "settled_reading tid rid l = l_readings l (tid, rid)"

end
