(* ===== verification/Token_Ledger_Laws.thy ===== *)
theory Token_Ledger_Laws
  imports Token_Ledger
begin

text \<open>
  The laws of the token ledger: its events as one step function, the invariant they keep, and what no event
  takes back (a counted response, a settled reading).
\<close>

section \<open>Events and the invariant\<close>

datatype ledger_event =
    Start_thread string string nat "string option"
  | Response string string nat
  | Usage string string "usage_report option"
  | Tool_input string nat
  | Compaction string
  | Interrupt
  | Settle_thread string
  | Settle_all
  | Reconcile "(string \<times> usage_report) list option"

primrec ledger_step :: "ledger_event \<Rightarrow> ledger \<Rightarrow> ledger" where
  "ledger_step (Start_thread tid k n st) l = snd (start_thread tid k n st l)"
| "ledger_step (Response tid rid n) l = snd (observe_response tid rid n l)"
| "ledger_step (Usage tid rid u) l = snd (observe_usage tid rid u l)"
| "ledger_step (Tool_input tid n) l = snd (observe_input tid n l)"
| "ledger_step (Compaction tid) l = notify_compaction tid l"
| "ledger_step Interrupt l = snd (mark_interrupted l)"
| "ledger_step (Settle_thread tid) l = snd (settle_thread tid l)"
| "ledger_step Settle_all l = snd (settle_all_threads l)"
| "ledger_step (Reconcile mu) l = snd (reconcile mu l)"

definition thread_ok :: "thread \<Rightarrow> bool" where
  "thread_ok t \<longleftrightarrow> distinct (map r_id (t_responses t)) \<and> list_all r_settled (butlast (t_responses t))"

definition settled_in :: "ledger \<Rightarrow> string \<Rightarrow> string \<Rightarrow> bool" where
  "settled_in l tid rid \<longleftrightarrow> (\<exists>t. map_of (l_threads l) tid = Some t \<and> (\<exists>r \<in> set (t_responses t). r_id r = rid \<and> r_settled r))"

definition ledger_ok :: "ledger \<Rightarrow> bool" where
  "ledger_ok l \<longleftrightarrow> distinct (map fst (l_threads l))
     \<and> (\<forall>tid t. map_of (l_threads l) tid = Some t \<longrightarrow> thread_ok t \<and> (t_kind t = ''main'' \<longrightarrow> t_context t \<le> l_peak l))
     \<and> (\<forall>tid rid. l_readings l (tid, rid) \<noteq> None \<longleftrightarrow> settled_in l tid rid)"

declare map_of_eq_Some_iff [simp del]

lemma map_of_put: "map_of (put_thread tid t ts) k = (if k = tid \<and> map_of ts tid \<noteq> None then Some t else map_of ts k)"
  by (induction ts) (auto simp: put_thread_def)

lemma fst_put [simp]: "map fst (put_thread tid t ts) = map fst ts"
  by (induction ts) (auto simp: put_thread_def)

lemma ledger_okD:
  assumes "ledger_ok l" "map_of (l_threads l) tid = Some t"
  shows "thread_ok t" "t_kind t = ''main'' \<Longrightarrow> t_context t \<le> l_peak l"
  using assms by (auto simp: ledger_ok_def)

text \<open>Replacing a thread by one with the same settled responses.\<close>

definition settled_ids :: "thread \<Rightarrow> string set" where
  "settled_ids t = set (map r_id (filter r_settled (t_responses t)))"

lemma settled_in_iff: "settled_in l tid rid \<longleftrightarrow> (\<exists>t. map_of (l_threads l) tid = Some t \<and> rid \<in> settled_ids t)"
  by (fastforce simp: settled_in_def settled_ids_def)

lemma ledger_ok_put:
  assumes "ledger_ok l" "map_of (l_threads l) tid = Some t" "thread_ok t'" "settled_ids t' = settled_ids t"
    "t_kind t' = t_kind t"
  shows "ledger_ok (track_peak t' b (l\<lparr>l_threads := put_thread tid t' (l_threads l), l_compaction := c\<rparr>))"
proof -
  let ?l = "track_peak t' b (l\<lparr>l_threads := put_thread tid t' (l_threads l), l_compaction := c\<rparr>)"
  have th: "map_of (l_threads ?l) k = (if k = tid then Some t' else map_of (l_threads l) k)" for k
    using assms(2) by (auto simp: track_peak_def map_of_put)
  have rd: "l_readings ?l = l_readings l" by (simp add: track_peak_def)
  have pk: "l_peak l \<le> l_peak ?l" "t_kind t' = ''main'' \<Longrightarrow> t_context t' \<le> l_peak ?l"
    by (auto simp: track_peak_def)
  have "settled_in ?l k rid \<longleftrightarrow> settled_in l k rid" for k rid
    using assms(2,4) by (auto simp: settled_in_iff th)
  moreover have "distinct (map fst (l_threads ?l))"
    using assms(1) by (auto simp: ledger_ok_def track_peak_def)
  ultimately show ?thesis
    using assms(1,3) pk unfolding ledger_ok_def rd th
    by (fastforce split: if_splits)
qed

lemma track_peak_compaction:
  "track_peak t b (l\<lparr>l_threads := x\<rparr>) = track_peak t b (l\<lparr>l_threads := x, l_compaction := l_compaction l\<rparr>)"
  by simp

lemma thread_last:
  assumes "thread_ok t" "t_responses t \<noteq> []"
  shows "\<exists>rs r. t_responses t = rs @ [r] \<and> list_all r_settled rs \<and> distinct (map r_id rs) \<and> r_id r \<notin> r_id ` set rs"
proof -
  obtain rs r where eq: "t_responses t = rs @ [r]" using assms(2) by (metis append_butlast_last_id)
  with assms(1) show ?thesis by (auto simp: thread_ok_def)
qed

lemma ledger_ok_settle:
  assumes ok: "ledger_ok l"
  shows "ledger_ok (settle tid l)"
proof (cases "map_of (l_threads l) tid")
  case None
  with ok show ?thesis by (simp add: settle_def)
next
  case (Some t)
  show ?thesis
  proof (cases "t_responses t = [] \<or> r_settled (last (t_responses t))")
    case True
    with ok Some show ?thesis by (auto simp: settle_def Let_def)
  next
    case False
    obtain rs r where r: "t_responses t = rs @ [r]" "list_all r_settled rs" "distinct (map r_id rs)" "r_id r \<notin> r_id ` set rs"
      using False thread_last [OF ledger_okD(1) [OF ok Some]] by blast
    with False have uns: "\<not> r_settled r" by simp
    let ?t = "t\<lparr>t_responses := rs @ [r\<lparr>r_settled := True\<rparr>]\<rparr>"
    let ?l = "settle tid l"
    have l: "l_threads ?l = put_thread tid ?t (l_threads l)"
      "l_readings ?l = (l_readings l)((tid, r_id r) \<mapsto> current_reading l)" "l_peak ?l = l_peak l"
      using Some r uns by (simp_all add: settle_def Let_def)
    have th: "map_of (l_threads ?l) k = (if k = tid then Some ?t else map_of (l_threads l) k)" for k
      using Some by (simp add: l map_of_put)
    have ids: "settled_ids ?t = insert (r_id r) (settled_ids t)"
      using r(1) by (auto simp: settled_ids_def)
    have "settled_in ?l k rid \<longleftrightarrow> settled_in l k rid \<or> (k = tid \<and> rid = r_id r)" for k rid
      using Some ids by (auto simp: settled_in_iff th)
    moreover have "thread_ok ?t" using r by (simp add: thread_ok_def)
    ultimately show ?thesis
      using ok Some unfolding ledger_ok_def l by (auto simp: map_of_put split: if_splits)
  qed
qed

lemma ledger_ok_compaction: "ledger_ok l \<Longrightarrow> ledger_ok (l\<lparr>l_compaction := c\<rparr>)"
  by (simp add: ledger_ok_def settled_in_def)

lemma ledger_ok_start:
  assumes "ledger_ok l"
  shows "ledger_ok (snd (start_thread tid k n st l))"
proof -
  have "ledger_ok (track_peak t b (l\<lparr>l_threads := l_threads l @ [(tid, t)], l_compaction := c\<rparr>))"
    if new: "map_of (l_threads l) tid = None" and t: "t_responses t = []" for t b c
  proof -
    let ?l = "track_peak t b (l\<lparr>l_threads := l_threads l @ [(tid, t)], l_compaction := c\<rparr>)"
    have th: "map_of (l_threads ?l) i = (if i = tid then Some t else map_of (l_threads l) i)" for i
      using new by (auto simp: track_peak_def map_add_def split: option.splits)
    have d: "distinct (map fst (l_threads ?l))"
      using assms new by (auto simp: ledger_ok_def track_peak_def map_of_eq_None_iff)
    have rd: "l_readings ?l = l_readings l" by (simp add: track_peak_def)
    have pk: "l_peak l \<le> l_peak ?l" "t_kind t = ''main'' \<Longrightarrow> t_context t \<le> l_peak ?l"
      by (auto simp: track_peak_def)
    have "settled_in ?l i rid \<longleftrightarrow> settled_in l i rid" for i rid
      using t new by (auto simp: settled_in_iff th settled_ids_def)
    moreover have "thread_ok t" using t by (simp add: thread_ok_def)
    ultimately show ?thesis
      using assms d pk unfolding ledger_ok_def rd th by (fastforce split: if_splits)
  qed
  with assms show ?thesis by (auto simp: start_thread_def Let_def)
qed

lemma settle_thread_found:
  assumes "map_of (l_threads l) tid = Some t"
  shows "\<exists>t'. map_of (l_threads (settle tid l)) tid = Some t' \<and> map r_id (t_responses t') = map r_id (t_responses t)
    \<and> (thread_ok t \<longrightarrow> list_all r_settled (t_responses t')) \<and> t_context t' = t_context t \<and> t_kind t' = t_kind t
    \<and> map r_usage (t_responses t') = map r_usage (t_responses t)"
proof (cases "t_responses t = []")
  case True
  with assms show ?thesis by (auto simp: settle_def)
next
  case False
  then obtain rs r where r: "t_responses t = rs @ [r]" by (metis append_butlast_last_id)
  show ?thesis
    using assms r by (auto simp: settle_def Let_def map_of_put thread_ok_def)
qed

lemma ledger_ok_append:
  assumes ok: "ledger_ok l" and t: "map_of (l_threads l) tid = Some t" and set: "list_all r_settled (t_responses t)"
    and new: "r_id r \<notin> set (map r_id (t_responses t))" and r: "\<not> r_settled r"
  shows "ledger_ok (track_peak (t\<lparr>t_responses := t_responses t @ [r], t_context := x\<rparr>) b
    (l\<lparr>l_threads := put_thread tid (t\<lparr>t_responses := t_responses t @ [r], t_context := x\<rparr>) (l_threads l), l_compaction := c\<rparr>))"
  by (rule ledger_ok_put [OF ok t])
    (use ledger_okD(1) [OF ok t] set new r in \<open>auto simp: thread_ok_def settled_ids_def\<close>)

lemma find_response_None: "find_response rid rs = None \<longleftrightarrow> rid \<notin> set (map r_id rs)"
  by (auto simp: find_response_def find_None_iff)

lemma ledger_ok_response:
  assumes ok: "ledger_ok l"
  shows "ledger_ok (snd (observe_response tid rid n l))"
proof (cases "map_of (l_threads l) tid")
  case None
  with ok show ?thesis by (simp add: observe_response_def)
next
  case (Some t)
  show ?thesis
  proof (cases "find_response rid (t_responses t)")
    case None
    from settle_thread_found [OF Some] ledger_okD(1) [OF ok Some] obtain t' where
      t': "map_of (l_threads (settle tid l)) tid = Some t'" "map r_id (t_responses t') = map r_id (t_responses t)"
        "list_all r_settled (t_responses t')" by auto
    have new: "rid \<notin> set (map r_id (t_responses t'))" using None t'(2) by (metis find_response_None)
    have "ledger_ok (track_peak (t'\<lparr>t_responses := t_responses t' @ [r], t_context := x\<rparr>) b
        ((settle tid l)\<lparr>l_threads := put_thread tid (t'\<lparr>t_responses := t_responses t' @ [r], t_context := x\<rparr>)
           (l_threads (settle tid l)), l_compaction := c\<rparr>))" if "r_id r = rid" "\<not> r_settled r" for r x b c
      using ledger_ok_append [OF ledger_ok_settle [OF ok] t'(1,3)] new that by blast
    with None Some t'(1) show ?thesis by (simp add: observe_response_def Let_def)
  next
    case (Some r)
    with ok \<open>map_of (l_threads l) tid = Some t\<close> show ?thesis by (simp add: observe_response_def)
  qed
qed

lemma ledger_ok_input:
  assumes ok: "ledger_ok l"
  shows "ledger_ok (snd (observe_input tid n l))"
proof (cases "map_of (l_threads l) tid")
  case None
  with ok show ?thesis by (simp add: observe_input_def)
next
  case (Some t)
  from settle_thread_found [OF Some] obtain t' where t': "map_of (l_threads (settle tid l)) tid = Some t'" by auto
  have "ledger_ok (track_peak (t'\<lparr>t_context := x\<rparr>) b
     ((settle tid l)\<lparr>l_threads := put_thread tid (t'\<lparr>t_context := x\<rparr>) (l_threads (settle tid l))\<rparr>))" for x b
    unfolding track_peak_compaction
    by (rule ledger_ok_put [OF ledger_ok_settle [OF ok] t'])
      (use ledger_okD(1) [OF ledger_ok_settle [OF ok] t'] in \<open>auto simp: thread_ok_def settled_ids_def\<close>)
  with Some t' show ?thesis by (simp add: observe_input_def Let_def)
qed

lemma index_of_Some: "index_of rid rs = Some i \<Longrightarrow> i < length rs \<and> r_id (rs ! i) = rid"
  using nth_length_takeWhile [of "\<lambda>r. r_id r \<noteq> rid" rs] by (auto simp: index_of_def Let_def split: if_splits)

lemma response_for_usage_less: "response_for_usage rid rs = Some i \<Longrightarrow> i < length rs"
  using index_of_Some [of rid rs] by (auto simp: response_for_usage_def split: option.splits if_splits)

lemma update_usage_fields:
  assumes "i < length rs"
  shows "map r_id (rs[i := (rs ! i)\<lparr>r_usage := u\<rparr>]) = map r_id rs"
    "map r_settled (rs[i := (rs ! i)\<lparr>r_usage := u\<rparr>]) = map r_settled rs"
    "map r_id (filter r_settled (rs[i := (rs ! i)\<lparr>r_usage := u\<rparr>])) = map r_id (filter r_settled rs)"
proof -
  obtain xs y ys where "rs = xs @ y # ys" "length xs = i" using assms by (metis id_take_nth_drop length_take min.absorb4)
  then show "map r_id (rs[i := (rs ! i)\<lparr>r_usage := u\<rparr>]) = map r_id rs"
    "map r_settled (rs[i := (rs ! i)\<lparr>r_usage := u\<rparr>]) = map r_settled rs"
    "map r_id (filter r_settled (rs[i := (rs ! i)\<lparr>r_usage := u\<rparr>])) = map r_id (filter r_settled rs)"
    by auto
qed

lemma ledger_ok_usage:
  assumes ok: "ledger_ok l"
  shows "ledger_ok (snd (observe_usage tid rid u l))"
proof -
  have step: "ledger_ok (track_peak (t\<lparr>t_responses := (t_responses t)[i := (t_responses t ! i)\<lparr>r_usage := v\<rparr>], t_context := x\<rparr>) b
     (l\<lparr>l_threads := put_thread tid (t\<lparr>t_responses := (t_responses t)[i := (t_responses t ! i)\<lparr>r_usage := v\<rparr>], t_context := x\<rparr>) (l_threads l)\<rparr>))"
    if t: "map_of (l_threads l) tid = Some t" and i: "i < length (t_responses t)" for t i v x b
    unfolding track_peak_compaction
  proof (rule ledger_ok_put [OF ok t])
    let ?rs = "(t_responses t)[i := (t_responses t ! i)\<lparr>r_usage := v\<rparr>]"
    have "list_all r_settled (butlast ?rs) \<longleftrightarrow> list_all id (butlast (map r_settled ?rs))"
      by (simp add: list_all_iff map_butlast [symmetric])
    also have "\<dots> \<longleftrightarrow> list_all r_settled (butlast (t_responses t))"
      unfolding update_usage_fields(2) [OF i] by (simp add: list_all_iff map_butlast [symmetric])
    finally show "thread_ok (t\<lparr>t_responses := ?rs, t_context := x\<rparr>)"
      using ledger_okD(1) [OF ok t] update_usage_fields(1) [OF i, of v] by (simp add: thread_ok_def)
    show "settled_ids (t\<lparr>t_responses := ?rs, t_context := x\<rparr>) = settled_ids t"
      using update_usage_fields(3) [OF i, of v] by (simp add: settled_ids_def)
  qed simp
  show ?thesis
    using ok by (auto simp: observe_usage_def Let_def dest: response_for_usage_less intro!: step split: option.splits)
qed

abbreviation interrupt_response :: "response \<Rightarrow> response" where
  "interrupt_response r \<equiv> (if interruptible r then r\<lparr>r_interrupted := True\<rparr> else r)"

lemma interrupt_fields [simp]:
  "r_id (interrupt_response r) = r_id r" "r_settled (interrupt_response r) = r_settled r"
  "r_usage (interrupt_response r) = r_usage r" "r_estimate (interrupt_response r) = r_estimate r"
  by simp_all

lemma interrupt_settled: "map r_id (filter r_settled (map interrupt_response rs)) = map r_id (filter r_settled rs)"
  by (induction rs) auto

lemma ledger_ok_interrupt:
  assumes "ledger_ok l"
  shows "ledger_ok (snd (mark_interrupted l))"
proof -
  let ?f = "\<lambda>t. t\<lparr>t_responses := map interrupt_response (t_responses t)\<rparr>"
  let ?l = "snd (mark_interrupted l)"
  have th: "map_of (l_threads ?l) k = map_option ?f (map_of (l_threads l) k)" for k
    by (simp add: mark_interrupted_def map_of_map)
  have ids: "settled_ids (?f t) = settled_ids t" for t
    using interrupt_settled [of "t_responses t"] by (simp add: settled_ids_def del: set_map)
  have "settled_in ?l k rid \<longleftrightarrow> settled_in l k rid" for k rid
    by (auto simp: settled_in_iff th ids)
  moreover have "thread_ok t \<Longrightarrow> thread_ok (?f t)" for t
    by (auto simp: thread_ok_def list_all_iff o_def simp flip: map_butlast)
  moreover have "distinct (map fst (l_threads ?l))" "l_readings ?l = l_readings l" "l_peak ?l = l_peak l"
    using assms by (auto simp: ledger_ok_def mark_interrupted_def o_def split_def)
  ultimately show ?thesis using assms by (auto simp: ledger_ok_def th)
qed

lemma ledger_ok_settle_thread: "ledger_ok l \<Longrightarrow> ledger_ok (snd (settle_thread tid l))"
  by (auto simp: settle_thread_def Let_def ledger_ok_settle split: option.splits)

lemma ledger_ok_settle_threads: "ledger_ok l \<Longrightarrow> ledger_ok (snd (settle_threads tids l))"
proof (induction tids arbitrary: l)
  case (Cons tid tids)
  then show ?case using ledger_ok_settle_thread [of l tid] by (simp add: split_def)
qed simp

lemma ledger_ok_fold: "ledger_ok l \<Longrightarrow> ledger_ok (fold settle tids l)"
  by (induction tids arbitrary: l) (auto intro: ledger_ok_settle)

lemma ledger_ok_step: "ledger_ok l \<Longrightarrow> ledger_ok (ledger_step e l)"
proof (cases e)
  case (Reconcile mu)
  moreover assume "ledger_ok l"
  ultimately show ?thesis using ledger_ok_fold [of l] by (simp add: reconcile_def Let_def)
qed (simp_all add: ledger_ok_start ledger_ok_response ledger_ok_usage ledger_ok_input notify_compaction_def
    ledger_ok_compaction ledger_ok_interrupt ledger_ok_settle_thread settle_all_threads_def ledger_ok_settle_threads)

lemma ledger_ok_new: "ledger_ok (new_ledger b s bs)"
  by (simp add: ledger_ok_def new_ledger_def settled_in_def)

interpretation ledger: invariant_system "\<lambda>l. \<exists>b s bs. l = new_ledger b s bs" "\<lambda>l l'. \<exists>e. l' = ledger_step e l" ledger_ok
  by unfold_locales (auto intro: ledger_ok_new ledger_ok_step)

definition ledger_run :: "ledger_event list \<Rightarrow> ledger \<Rightarrow> ledger" where
  "ledger_run es l = fold ledger_step es l"

definition reachable_ledger :: "ledger \<Rightarrow> bool" where
  "reachable_ledger l \<longleftrightarrow> reach (\<lambda>l. \<exists>b s bs. l = new_ledger b s bs) (\<lambda>l l'. \<exists>e. l' = ledger_step e l) l"

lemma reachable_ledger_ok: "reachable_ledger l \<Longrightarrow> ledger_ok l"
  unfolding reachable_ledger_def by (rule ledger.reach_inv)

lemma reachable_ledger_step: "reachable_ledger l \<Longrightarrow> reachable_ledger (ledger_step e l)"
  unfolding reachable_ledger_def by (blast intro: reach_step)

lemma reachable_ledger_new: "reachable_ledger (new_ledger b s bs)"
  unfolding reachable_ledger_def by (blast intro: reach_init)

lemma reachable_ledger_run: "reachable_ledger l \<Longrightarrow> reachable_ledger (ledger_run es l)"
  by (induction es arbitrary: l) (auto simp: ledger_run_def reachable_ledger_step)

section \<open>Settled once\<close>

text \<open>A reading, once taken, is never replaced: only an unsettled response is settled.\<close>

lemma ledger_ok_reading: "ledger_ok l \<Longrightarrow> l_readings l (k, rid) \<noteq> None \<longleftrightarrow> settled_in l k rid"
  unfolding ledger_ok_def by blast

lemma settle_keeps_readings:
  assumes "ledger_ok l" "l_readings l (k, rid) = Some x"
  shows "l_readings (settle tid l) (k, rid) = Some x"
proof (cases "map_of (l_threads l) tid")
  case None
  with assms show ?thesis by (simp add: settle_def)
next
  case (Some t)
  show ?thesis
  proof (cases "t_responses t = [] \<or> r_settled (last (t_responses t))")
    case True
    with assms Some show ?thesis by (auto simp: settle_def Let_def)
  next
    case False
    obtain rs r where r: "t_responses t = rs @ [r]" "list_all r_settled rs" "r_id r \<notin> r_id ` set rs"
      using False thread_last [OF ledger_okD(1) [OF assms(1) Some]] by blast
    with False have "\<not> settled_in l tid (r_id r)"
      using Some by (auto simp: settled_in_def rev_image_eqI)
    with assms ledger_ok_reading [OF assms(1)] have "(k, rid) \<noteq> (tid, r_id r)" by auto
    with assms(2) Some r show ?thesis by (auto simp: settle_def Let_def)
  qed
qed

lemma settle_thread_keeps_readings:
  "ledger_ok l \<Longrightarrow> l_readings l (k, rid) = Some x \<Longrightarrow> l_readings (snd (settle_thread tid l)) (k, rid) = Some x"
  by (auto simp: settle_thread_def Let_def settle_keeps_readings split: option.splits)

lemma settle_threads_keeps_readings:
  "ledger_ok l \<Longrightarrow> l_readings l (k, rid) = Some x \<Longrightarrow> l_readings (snd (settle_threads tids l)) (k, rid) = Some x"
proof (induction tids arbitrary: l)
  case (Cons tid tids)
  then show ?case
    using ledger_ok_settle_thread [of l tid] settle_thread_keeps_readings [of l k rid x tid] by (simp add: split_def)
qed simp

lemma fold_settle_keeps_readings:
  "ledger_ok l \<Longrightarrow> l_readings l (k, rid) = Some x \<Longrightarrow> l_readings (fold settle tids l) (k, rid) = Some x"
  by (induction tids arbitrary: l) (auto intro: ledger_ok_settle settle_keeps_readings)

lemma track_peak_readings [simp]: "l_readings (track_peak t b l) = l_readings l"
  by (simp add: track_peak_def)

lemma step_keeps_readings:
  assumes "ledger_ok l" "l_readings l (k, rid) = Some x"
  shows "l_readings (ledger_step e l) (k, rid) = Some x"
  using assms
  by (cases e)
    (auto simp: start_thread_def observe_response_def observe_usage_def observe_input_def notify_compaction_def
      mark_interrupted_def settle_all_threads_def reconcile_def Let_def settle_keeps_readings settle_thread_keeps_readings
      settle_threads_keeps_readings fold_settle_keeps_readings split: option.splits)

lemma run_keeps_readings:
  "ledger_ok l \<Longrightarrow> l_readings l (k, rid) = Some x \<Longrightarrow> l_readings (ledger_run es l) (k, rid) = Some x"
  by (induction es arbitrary: l) (auto simp: ledger_run_def ledger_ok_step step_keeps_readings)

section \<open>Counted responses stay\<close>

definition counted_ids :: "ledger \<Rightarrow> string \<Rightarrow> string list" where
  "counted_ids l tid = (case map_of (l_threads l) tid of None \<Rightarrow> [] | Some t \<Rightarrow> map r_id (t_responses t))"

lemma track_peak_threads [simp]: "l_threads (track_peak t b l) = l_threads l"
  by (simp add: track_peak_def)

lemma counted_ids_settle [simp]: "counted_ids (settle tid l) k = counted_ids l k"
proof (cases "map_of (l_threads l) tid")
  case (Some t)
  then show ?thesis
    by (cases "t_responses t" rule: rev_cases) (auto simp: settle_def counted_ids_def Let_def map_of_put)
qed (simp add: settle_def)

lemma counted_ids_settle_thread: "counted_ids (snd (settle_thread tid l)) k = counted_ids l k"
  by (auto simp: settle_thread_def Let_def split: option.splits)

lemma counted_ids_settle_threads: "counted_ids (snd (settle_threads tids l)) k = counted_ids l k"
  by (induction tids arbitrary: l) (simp_all add: split_def counted_ids_settle_thread)

lemma counted_ids_fold: "counted_ids (fold settle tids l) k = counted_ids l k"
  by (induction tids arbitrary: l) simp_all

lemma counted_ids_response:
  assumes "observe_response tid rid n l = (Inr x, l')"
  shows "set (counted_ids l' k) = set (counted_ids l k) \<union> (if k = tid then {rid} else {})"
proof -
  from assms obtain t where t: "map_of (l_threads l) tid = Some t"
    by (auto simp: observe_response_def split: option.splits)
  show ?thesis
  proof (cases "find_response rid (t_responses t)")
    case (Some r)
    then have "rid \<in> r_id ` set (t_responses t)" using find_response_None [of rid "t_responses t"] by auto
    with assms t Some show ?thesis by (auto simp: observe_response_def counted_ids_def)
  next
    case None
    from settle_thread_found [OF t] obtain t' where
      t': "map_of (l_threads (settle tid l)) tid = Some t'" "map r_id (t_responses t') = map r_id (t_responses t)" by auto
    then have ids: "r_id ` set (t_responses t') = r_id ` set (t_responses t)" by (metis list.set_map)
    have "\<exists>u. (\<forall>i. map_of (l_threads l') i = (if i = tid then Some u else map_of (l_threads (settle tid l)) i))
        \<and> map r_id (t_responses u) = map r_id (t_responses t') @ [rid]"
      using assms t None t'(1) by (auto simp: observe_response_def Let_def map_of_put)
    then obtain u where u: "\<And>i. map_of (l_threads l') i = (if i = tid then Some u else map_of (l_threads (settle tid l)) i)"
      "map r_id (t_responses u) = map r_id (t_responses t') @ [rid]" by blast
    have "counted_ids l' k = counted_ids (settle tid l) k @ (if k = tid then [rid] else [])"
      using t' u by (simp add: counted_ids_def)
    then show ?thesis by simp
  qed
qed

lemma response_error: "observe_response tid rid n l = (Inl e, l') \<Longrightarrow> l' = l"
  by (auto simp: observe_response_def Let_def split: option.splits)

lemma counted_ids_usage: "counted_ids (snd (observe_usage tid rid u l)) k = counted_ids l k"
  by (auto simp: observe_usage_def Let_def counted_ids_def map_of_put update_usage_fields dest!: response_for_usage_less
      split: option.splits)

lemma counted_ids_input: "counted_ids (snd (observe_input tid n l)) k = counted_ids l k"
proof (cases "map_of (l_threads l) tid")
  case (Some t)
  from settle_thread_found [OF Some] obtain t' where
    t': "map_of (l_threads (settle tid l)) tid = Some t'" "map r_id (t_responses t') = map r_id (t_responses t)" by auto
  have "counted_ids (settle tid l) k = counted_ids l k" by simp
  with Some t' show ?thesis by (simp add: observe_input_def Let_def counted_ids_def map_of_put)
qed (simp add: observe_input_def)

lemma counted_ids_step: "set (counted_ids l k) \<subseteq> set (counted_ids (ledger_step e l) k)"
proof (cases e)
  case (Start_thread tid kind n st)
  then show ?thesis by (auto simp: start_thread_def Let_def counted_ids_def map_add_def split: option.splits)
next
  case (Response tid rid n)
  show ?thesis
  proof (cases "observe_response tid rid n l")
    case (Pair res l')
    with Response counted_ids_response [of tid rid n l] response_error [of tid rid n l] show ?thesis
      by (cases res) auto
  qed
next
  case Interrupt
  then show ?thesis by (auto simp: mark_interrupted_def counted_ids_def map_of_map image_image split: option.splits)
qed (simp_all add: counted_ids_usage counted_ids_input notify_compaction_def counted_ids_settle_thread settle_all_threads_def
    counted_ids_settle_threads reconcile_def Let_def counted_ids_fold, simp_all add: counted_ids_def)

lemma counted_ids_run: "set (counted_ids l k) \<subseteq> set (counted_ids (ledger_run es l) k)"
  by (induction es arbitrary: l) (auto simp: ledger_run_def dest: subsetD [OF counted_ids_step])

end
