(* ===== verification/Token_Ledger_Props.thy ===== *)
theory Token_Ledger_Props
  imports Token_Ledger_Laws
begin

text \<open>
  Properties of the token ledger: a response counts once and settles once, reported usage may repeat or
  arrive out of order, the accounting identities, and what reconciliation does to interrupted responses.
\<close>

text \<open>
  A response is counted once: after it has been observed, observing the same response ID on its thread
  again, after any further events and with any number of visible characters, changes nothing and returns what
  the response counts by then.
\<close>

theorem response_counted_once:
  assumes "observe_response tid rid n l = (Inr x, l')"
  shows "\<exists>y. observe_response tid rid m (ledger_run es l') = (Inr y, ledger_run es l')"
proof -
  let ?l = "ledger_run es l'"
  have "rid \<in> set (counted_ids ?l tid)"
    using counted_ids_run [of l' tid es] counted_ids_response [OF assms, of tid] by auto
  then obtain t where t: "map_of (l_threads ?l) tid = Some t" "rid \<in> set (map r_id (t_responses t))"
    by (cases "map_of (l_threads ?l) tid") (auto simp: counted_ids_def)
  then obtain r where "find_response rid (t_responses t) = Some r"
    using find_response_None [of rid "t_responses t"] by auto
  with t show ?thesis by (simp add: observe_response_def)
qed

theorem response_counted_once_witness:
  "\<exists>y. observe_response ''main'' ''r1'' 999
     (ledger_run [Usage ''main'' ''r1'' (Some [(''output_tokens'', Some 5)]), Tool_input ''main'' 40]
       (snd (observe_response ''main'' ''r1'' 30 (ledger_step (Start_thread ''main'' ''main'' 400 None) default_ledger))))
   = (Inr y, ledger_run [Usage ''main'' ''r1'' (Some [(''output_tokens'', Some 5)]), Tool_input ''main'' 40]
       (snd (observe_response ''main'' ''r1'' 30 (ledger_step (Start_thread ''main'' ''main'' 400 None) default_ledger))))"
proof -
  let ?l = "ledger_step (Start_thread ''main'' ''main'' 400 None) default_ledger"
  have "\<exists>x. fst (observe_response ''main'' ''r1'' 30 ?l) = Inr x"
    by (simp add: start_thread_def default_ledger_def new_ledger_def Let_def observe_response_def find_response_def
        settle_def track_peak_def)
  then obtain x where "observe_response ''main'' ''r1'' 30 ?l = (Inr x, snd (observe_response ''main'' ''r1'' 30 ?l))"
    by (metis prod.collapse)
  from response_counted_once [OF this] show ?thesis .
qed

text \<open>
  C11. In every ledger reachable by any sequence of events, each thread holds a response ID once and only its
  last response can be in flight, a settled reading exists exactly for the settled responses, and no main
  thread's context exceeds the recorded peak.
\<close>

theorem ledger_consistent:
  assumes "reachable_ledger l" "map_of (l_threads l) tid = Some t"
  shows "distinct (map r_id (t_responses t)) \<and> list_all r_settled (butlast (t_responses t))
    \<and> (settled_reading tid rid l \<noteq> None \<longleftrightarrow> (\<exists>r \<in> set (t_responses t). r_id r = rid \<and> r_settled r))
    \<and> (t_kind t = ''main'' \<longrightarrow> t_context t \<le> l_peak l)"
  using reachable_ledger_ok [OF assms(1)] assms(2) ledger_ok_reading [of l tid rid]
  by (auto simp: ledger_ok_def thread_ok_def settled_reading_def settled_in_def)

definition demo_events :: "ledger_event list" where
  "demo_events = [Start_thread ''main'' ''main'' 0 None, Response ''main'' ''r1'' 0,
     Usage ''main'' ''r1'' (Some [(''input_tokens'', Some 2), (''outputTokens'', Some 1)]),
     Response ''main'' ''r2'' 0, Interrupt]"

definition demo_ledger :: ledger where
  "demo_ledger = ledger_run demo_events (new_ledger 1 1 [])"

lemma demo_ledger_reachable: "reachable_ledger demo_ledger"
  unfolding demo_ledger_def by (rule reachable_ledger_run) (rule reachable_ledger_new)

theorem ledger_consistent_witness:
  "settled_reading ''main'' ''r1'' demo_ledger \<noteq> None \<and> settled_reading ''main'' ''r2'' demo_ledger = None"
proof -
  let ?t = "the (map_of (l_threads demo_ledger) ''main'')"
  have t: "map_of (l_threads demo_ledger) ''main'' = Some ?t" by code_simp
  have "\<exists>r \<in> set (t_responses ?t). r_id r = ''r1'' \<and> r_settled r"
    "\<not> (\<exists>r \<in> set (t_responses ?t). r_id r = ''r2'' \<and> r_settled r)" by code_simp+
  with ledger_consistent [OF demo_ledger_reachable t] show ?thesis by blast
qed

text \<open>
  A settled reading is final: whatever happens afterwards, the figures captured when a response settled
  stay the ones reported for it.
\<close>

theorem settled_reading_final:
  assumes "reachable_ledger l" "settled_reading tid rid l = Some x"
  shows "settled_reading tid rid (ledger_run es l) = Some x"
  using run_keeps_readings [OF reachable_ledger_ok [OF assms(1)]] assms(2) by (simp add: settled_reading_def)

theorem settled_reading_final_witness:
  "settled_reading ''main'' ''r1'' (ledger_run [Response ''main'' ''r1'' 5, Usage ''main'' ''r1'' (Some [(''output_tokens'', Some 99999)]), Reconcile None] demo_ledger)
     = settled_reading ''main'' ''r1'' demo_ledger"
proof -
  have "settled_reading ''main'' ''r1'' demo_ledger \<noteq> None" by code_simp
  then obtain x where "settled_reading ''main'' ''r1'' demo_ledger = Some x" by auto
  from settled_reading_final [OF demo_ledger_reachable this] this show ?thesis by simp
qed

section \<open>Reported usage\<close>

lemma put_put [simp]: "put_thread k b (put_thread k a ts) = put_thread k b ts"
  by (auto simp: put_thread_def)

lemma track_peak_twice:
  assumes "t_kind t1 = t_kind t2" "t_context t1 \<le> t_context t2"
  shows "track_peak t2 b ((track_peak t1 b (l\<lparr>l_threads := x\<rparr>))\<lparr>l_threads := y\<rparr>) = track_peak t2 b (l\<lparr>l_threads := y\<rparr>)"
  using assms by (simp add: track_peak_def)

lemma usage_max_comm: "usage_max u v = usage_max v u"
  by (simp add: usage_max_def max.commute)

lemma usage_max_assoc: "usage_max (usage_max u v) w = usage_max u (usage_max v w)"
  by (simp add: usage_max_def max.assoc)

lemma usage_max_idem: "usage_max u u = u"
  by (simp add: usage_max_def)

lemma usage_sum_max: "usage_sum u \<le> usage_sum (usage_max u v)"
  unfolding usage_sum_def usage_max_def usage.simps by (intro add_mono max.cobounded1)

lemma index_of_ids: "map r_id rs = map r_id rs' \<Longrightarrow> index_of rid rs = index_of rid rs'"
proof -
  have "takeWhile (\<lambda>r. r_id r \<noteq> rid) xs = take (length (takeWhile (\<lambda>i. i \<noteq> rid) (map r_id xs))) xs" for xs
    by (induction xs) auto
  then have "length (takeWhile (\<lambda>r. r_id r \<noteq> rid) xs) = length (takeWhile (\<lambda>i. i \<noteq> rid) (map r_id xs))" for xs
    by (induction xs) auto
  then show "map r_id rs = map r_id rs' \<Longrightarrow> index_of rid rs = index_of rid rs'"
    by (metis index_of_def length_map)
qed

definition with_usage :: "thread \<Rightarrow> nat \<Rightarrow> usage \<Rightarrow> thread" where
  "with_usage t i u = t\<lparr>t_responses := (t_responses t)[i := (t_responses t ! i)\<lparr>r_usage := Some u\<rparr>],
     t_context := of_int (usage_sum u)\<rparr>"

lemma observe_usage_known:
  assumes "map_of (l_threads l) tid = Some t" "index_of rid (t_responses t) = Some i"
    "usage_sum (usage_by_category rep) \<noteq> 0"
  shows "observe_usage tid rid (Some rep) l =
    (Inr (), track_peak (with_usage t i (merge_usage (r_usage (t_responses t ! i)) (usage_by_category rep))) ''measured''
       (l\<lparr>l_threads := put_thread tid (with_usage t i (merge_usage (r_usage (t_responses t ! i)) (usage_by_category rep))) (l_threads l)\<rparr>))"
  using assms by (simp add: observe_usage_def response_for_usage_def with_usage_def Let_def)

lemma observe_usage_twice:
  assumes t: "map_of (l_threads l) tid = Some t" and i: "index_of rid (t_responses t) = Some i"
    and n: "usage_sum (usage_by_category a) \<noteq> 0" "usage_sum (usage_by_category b) \<noteq> 0"
  shows "snd (observe_usage tid rid (Some b) (snd (observe_usage tid rid (Some a) l))) =
    (let u = merge_usage (r_usage (t_responses t ! i)) (usage_max (usage_by_category a) (usage_by_category b))
     in track_peak (with_usage t i u) ''measured'' (l\<lparr>l_threads := put_thread tid (with_usage t i u) (l_threads l)\<rparr>))"
proof -
  let ?u1 = "merge_usage (r_usage (t_responses t ! i)) (usage_by_category a)"
  let ?l1 = "snd (observe_usage tid rid (Some a) l)"
  have less: "i < length (t_responses t)" using index_of_Some [OF i] by simp
  have l1: "?l1 = track_peak (with_usage t i ?u1) ''measured'' (l\<lparr>l_threads := put_thread tid (with_usage t i ?u1) (l_threads l)\<rparr>)"
    by (simp add: observe_usage_known [OF t i n(1)])
  have t1: "map_of (l_threads ?l1) tid = Some (with_usage t i ?u1)"
    using t by (simp add: l1 map_of_put)
  have "map r_id (t_responses (with_usage t i ?u1)) = map r_id (t_responses t)"
    using less by (simp add: with_usage_def update_usage_fields)
  from index_of_ids [OF this] i have i1: "index_of rid (t_responses (with_usage t i ?u1)) = Some i" by simp
  let ?u = "merge_usage (r_usage (t_responses t ! i)) (usage_max (usage_by_category a) (usage_by_category b))"
  have u: "merge_usage (r_usage (t_responses (with_usage t i ?u1) ! i)) (usage_by_category b) = ?u"
    using less by (simp add: with_usage_def merge_usage_def usage_max_assoc split: option.split)
  have w: "with_usage (with_usage t i ?u1) i ?u = with_usage t i ?u"
    using less by (simp add: with_usage_def)
  have "?u = usage_max ?u1 (usage_by_category b)"
    by (simp add: merge_usage_def usage_max_assoc split: option.split)
  then have "usage_sum ?u1 \<le> usage_sum ?u" using usage_sum_max by metis
  then have c: "t_context (with_usage t i ?u1) \<le> t_context (with_usage t i ?u)" by (simp add: with_usage_def)
  have "snd (observe_usage tid rid (Some b) ?l1) =
      track_peak (with_usage t i ?u) ''measured'' (?l1\<lparr>l_threads := put_thread tid (with_usage t i ?u) (l_threads ?l1)\<rparr>)"
    by (simp add: observe_usage_known [OF t1 i1 n(2)] u w)
  also have "\<dots> = track_peak (with_usage t i ?u) ''measured'' (l\<lparr>l_threads := put_thread tid (with_usage t i ?u) (l_threads l)\<rparr>)"
    unfolding l1 by (subst track_peak_twice) (use c in \<open>simp_all add: with_usage_def\<close>)
  finally show ?thesis by (simp add: Let_def)
qed

lemma observe_usage_ignored: "usage_sum (usage_by_category a) = 0 \<Longrightarrow> observe_usage tid rid (Some a) l = (Inr (), l)"
  by (simp add: observe_usage_def)

text \<open>
  Usage reports for a counted response may arrive late, twice or out of order: two reports in either
  order leave the same ledger (usage, context, peak and its basis), and a repeated report changes nothing.
\<close>

theorem usage_reports_commute:
  assumes "map_of (l_threads l) tid = Some t" "index_of rid (t_responses t) = Some i"
  shows "snd (observe_usage tid rid (Some b) (snd (observe_usage tid rid (Some a) l))) =
      snd (observe_usage tid rid (Some a) (snd (observe_usage tid rid (Some b) l)))
    \<and> snd (observe_usage tid rid (Some a) (snd (observe_usage tid rid (Some a) l))) = snd (observe_usage tid rid (Some a) l)"
proof -
  have idem: "snd (observe_usage tid rid (Some a) (snd (observe_usage tid rid (Some a) l))) = snd (observe_usage tid rid (Some a) l)"
  proof (cases "usage_sum (usage_by_category a) = 0")
    case True
    then show ?thesis by (simp add: observe_usage_ignored)
  next
    case False
    show ?thesis
      by (simp only: observe_usage_twice [OF assms False False] usage_max_idem Let_def)
        (simp add: observe_usage_known [OF assms False])
  qed
  consider "usage_sum (usage_by_category a) = 0" | "usage_sum (usage_by_category b) = 0"
    | "usage_sum (usage_by_category a) \<noteq> 0" "usage_sum (usage_by_category b) \<noteq> 0" by blast
  then have "snd (observe_usage tid rid (Some b) (snd (observe_usage tid rid (Some a) l))) =
      snd (observe_usage tid rid (Some a) (snd (observe_usage tid rid (Some b) l)))"
  proof cases
    case 3
    then show ?thesis
      unfolding observe_usage_twice [OF assms 3] observe_usage_twice [OF assms 3(2,1)]
      by (simp add: usage_max_comm)
  qed (simp_all add: observe_usage_ignored)
  with idem show ?thesis by blast
qed

theorem usage_reports_commute_witness:
  "snd (observe_usage ''main'' ''r2'' (Some [(''output_tokens'', Some 7)])
       (snd (observe_usage ''main'' ''r2'' (Some [(''input_tokens'', Some 30000)]) demo_ledger)))
   = snd (observe_usage ''main'' ''r2'' (Some [(''input_tokens'', Some 30000)])
       (snd (observe_usage ''main'' ''r2'' (Some [(''output_tokens'', Some 7)]) demo_ledger)))"
proof -
  let ?t = "the (map_of (l_threads demo_ledger) ''main'')"
  have t: "map_of (l_threads demo_ledger) ''main'' = Some ?t" by code_simp
  have "index_of ''r2'' (t_responses ?t) = Some 1" by code_simp
  from usage_reports_commute [OF t this] show ?thesis by blast
qed

section \<open>Accounting\<close>

lemma sum_partition:
  "sum_list (map f (filter P xs)) + sum_list (map f (filter (\<lambda>x. \<not> P x) xs)) = (sum_list (map f xs) :: rat)"
  by (induction xs) (auto simp: algebra_simps)

lemma usage_sum_add: "usage_sum (usage_add u v) = usage_sum u + usage_sum v"
  by (simp add: usage_sum_def usage_add_def)

lemma add_usages_sum:
  "of_int (usage_sum (fold (\<lambda>r acc. case r_usage r of None \<Rightarrow> acc | Some u \<Rightarrow> usage_add acc u) rs u0))
     = of_int (usage_sum u0) + sum_list (map counted_tokens (filter (\<lambda>r. r_usage r \<noteq> None) rs))"
  by (induction rs arbitrary: u0) (auto simp: usage_sum_add counted_tokens_def split: option.splits)

lemma measured_by_category_total: "measured_tokens l = of_int (usage_sum (measured_by_category l))"
  unfolding measured_by_category_def add_usages_def add_usages_sum
  by (simp add: measured_tokens_def no_usage_def usage_sum_def)

text \<open>
  The budget reading is the sum of what every response counts: measured plus estimated splits it, the
  measured part is the sum of the four category totals, and the estimated part splits into interrupted
  responses and the rest.
\<close>

theorem budget_accounting:
  "budget_tokens l = sum_list (map counted_tokens (all_responses l))
   \<and> measured_tokens l = of_int (usage_sum (measured_by_category l))
   \<and> estimated_tokens l = interrupted_estimated_tokens l
        + sum_list (map r_estimate (filter (\<lambda>r. r_usage r = None \<and> \<not> r_interrupted r) (all_responses l)))"
proof (intro conjI)
  show "budget_tokens l = sum_list (map counted_tokens (all_responses l))"
    using sum_partition [of counted_tokens "\<lambda>r. r_usage r \<noteq> None" "all_responses l"]
    by (simp add: budget_tokens_def measured_tokens_def estimated_tokens_def)
  have "map counted_tokens (filter (\<lambda>r. \<not> r_interrupted r \<and> r_usage r = None) (all_responses l))
      = map r_estimate (filter (\<lambda>r. \<not> r_interrupted r \<and> r_usage r = None) (all_responses l))"
    by (simp add: counted_tokens_def)
  then show "estimated_tokens l = interrupted_estimated_tokens l
      + sum_list (map r_estimate (filter (\<lambda>r. r_usage r = None \<and> \<not> r_interrupted r) (all_responses l)))"
    using sum_partition [of counted_tokens r_interrupted "filter (\<lambda>r. r_usage r = None) (all_responses l)"]
    by (simp add: estimated_tokens_def interrupted_estimated_tokens_def conj_commute del: map_eq_conv)
qed (rule measured_by_category_total)

section \<open>Interrupts and reconciliation\<close>

lemma interrupted_none: "filter interruptible (map interrupt_response rs) = []"
  by (induction rs) (auto simp: interruptible_def)

lemma all_responses_interrupt: "all_responses (snd (mark_interrupted l)) = map interrupt_response (all_responses l)"
  by (simp add: all_responses_def mark_interrupted_def map_concat o_def split_def)

lemma counted_interrupt: "counted_tokens (interrupt_response r) = counted_tokens r"
  by (simp add: counted_tokens_def split: option.split)

text \<open>
  Flagging interrupted responses does not change enforcement: the budget, measured and estimated readings
  stay what they were, everything unmeasured and in flight is flagged, and flagging again flags nothing.
\<close>

theorem interrupt_keeps_budget:
  "budget_tokens (snd (mark_interrupted l)) = budget_tokens l
   \<and> estimated_tokens (snd (mark_interrupted l)) = estimated_tokens l
   \<and> filter interruptible (all_responses (snd (mark_interrupted l))) = []
   \<and> fst (mark_interrupted (snd (mark_interrupted l))) = 0"
proof -
  have f: "map counted_tokens (filter (\<lambda>r. r_usage r = None) (map interrupt_response rs)) = map counted_tokens (filter (\<lambda>r. r_usage r = None) rs)"
    "map counted_tokens (filter (\<lambda>r. r_usage r \<noteq> None) (map interrupt_response rs)) = map counted_tokens (filter (\<lambda>r. r_usage r \<noteq> None) rs)"
    for rs by (induction rs) (auto simp: counted_interrupt counted_tokens_def)
  have n: "filter interruptible (all_responses (snd (mark_interrupted l))) = []"
    unfolding all_responses_interrupt by (rule interrupted_none)
  then have "fst (mark_interrupted (snd (mark_interrupted l))) = 0" by (simp add: mark_interrupted_def)
  with n show ?thesis
    unfolding budget_tokens_def measured_tokens_def estimated_tokens_def all_responses_interrupt f by simp
qed

lemma settle_in_flight:
  assumes "map_of (l_threads l) tid = Some t" "t_responses t = rs @ [r]"
  shows "l_readings (settle tid l) (tid, r_id r) \<noteq> None \<or> r_settled r"
  using assms by (simp add: settle_def Let_def)

lemma fold_settle_other: "tid \<notin> set tids \<Longrightarrow> map_of (l_threads (fold settle tids l)) tid = map_of (l_threads l) tid"
proof (induction tids arbitrary: l)
  case (Cons k tids)
  then show ?case by (auto simp: settle_def Let_def map_of_put split: option.splits)
qed simp

text \<open>
  A response cut off by an interrupt produces no entry when its thread is settled explicitly, but
  \<open>reconcile\<close> settles it after all: the flag keeps it out of \<open>settle_thread\<close>, and reconciliation gives it a
  settled reading all the same.
\<close>

theorem reconcile_settles_interrupted:
  assumes "reachable_ledger l" "map_of (l_threads l) tid = Some t" "t_responses t = rs @ [r]"
    "r_interrupted r" "\<not> r_settled r"
  shows "settle_thread tid l = ([], l) \<and> settled_reading tid (r_id r) l = None
    \<and> settled_reading tid (r_id r) (snd (reconcile mu l)) \<noteq> None"
proof -
  have ok: "ledger_ok l" by (rule reachable_ledger_ok [OF assms(1)])
  have "r_id r \<notin> r_id ` set rs" using ledger_okD(1) [OF ok assms(2)] assms(3) by (simp add: thread_ok_def)
  then have "\<not> settled_in l tid (r_id r)" using assms(2,3,5) by (auto simp: settled_in_def rev_image_eqI)
  then have none: "settled_reading tid (r_id r) l = None"
    using ledger_ok_reading [OF ok, of tid "r_id r"] by (auto simp: settled_reading_def)
  obtain xs ys where split: "map fst (l_threads l) = xs @ tid # ys" "tid \<notin> set xs"
    using map_of_SomeD [OF assms(2)] split_list_first [of tid "map fst (l_threads l)"] by force
  have "map_of (l_threads (fold settle xs l)) tid = Some t" using fold_settle_other split(2) assms(2) by simp
  from settle_in_flight [OF this assms(3)] assms(5) obtain x where
    "l_readings (settle tid (fold settle xs l)) (tid, r_id r) = Some x" by auto
  then have "l_readings (fold settle ys (settle tid (fold settle xs l))) (tid, r_id r) = Some x"
    by (intro fold_settle_keeps_readings ledger_ok_settle ledger_ok_fold ok)
  then have "settled_reading tid (r_id r) (snd (reconcile mu l)) \<noteq> None"
    using split(1) by (simp add: reconcile_def Let_def settled_reading_def)
  with none assms(2-4) show ?thesis by (simp add: settle_thread_def Let_def)
qed

theorem reconcile_settles_interrupted_witness:
  "settled_reading ''main'' ''r2'' demo_ledger = None \<and> settled_reading ''main'' ''r2'' (snd (reconcile None demo_ledger)) \<noteq> None"
proof -
  let ?t = "the (map_of (l_threads demo_ledger) ''main'')"
  have t: "map_of (l_threads demo_ledger) ''main'' = Some ?t" by code_simp
  have r: "t_responses ?t = butlast (t_responses ?t) @ [last (t_responses ?t)]" by code_simp
  have "r_interrupted (last (t_responses ?t))" "\<not> r_settled (last (t_responses ?t))" by code_simp+
  moreover have "r_id (last (t_responses ?t)) = ''r2''" by code_simp
  ultimately show ?thesis
    using reconcile_settles_interrupted [OF demo_ledger_reachable t r, of None] by simp
qed

section \<open>The prompt cache\<close>

lemma filter_not_None: "length (filter (\<lambda>m. m \<noteq> None) xs) + length (filter (\<lambda>m. m = None) xs) = length xs"
  by (induction xs) auto

lemma measured_indices_length:
  "length (measured_indices limit (main_responses l)) = length (measured_main_responses limit l)"
proof -
  have "length (filter (\<lambda>i. r_usage (rs ! i) \<noteq> None) [0..<length rs]) = length (filter (\<lambda>r. r_usage r \<noteq> None) rs)" for rs
  proof -
    have "filter (\<lambda>r. r_usage r \<noteq> None) rs = map ((!) rs) (filter (\<lambda>i. r_usage (rs ! i) \<noteq> None) [0..<length rs])"
      by (subst map_nth [of rs, symmetric], subst filter_map) (simp add: o_def)
    then show ?thesis by simp
  qed
  from this [of "main_responses l"] show ?thesis
    by (simp add: measured_indices_def measured_main_responses_def Let_def split: option.split)
qed

text \<open>
  The cache statistics account for every measured main response exactly once, as counted or excluded, and
  the miss tokens are never negative.
\<close>

theorem cache_stats_complete:
  "cs_counted (main_cache_stats limit l) + cs_excluded (main_cache_stats limit l) = length (measured_main_responses limit l)
   \<and> 0 \<le> cs_miss_tokens (main_cache_stats limit l)"
proof
  let ?ms = "map (main_miss_at (main_responses l)) (measured_indices limit (main_responses l))"
  show "cs_counted (main_cache_stats limit l) + cs_excluded (main_cache_stats limit l) = length (measured_main_responses limit l)"
    using filter_not_None [of ?ms] by (simp add: main_cache_stats_def Let_def measured_indices_length)
  have "0 \<le> (case main_miss_at rs i of None \<Rightarrow> 0 | Some n \<Rightarrow> n)" for rs i
    by (auto simp: main_miss_at_def split: option.split)
  then show "0 \<le> cs_miss_tokens (main_cache_stats limit l)"
    by (auto simp: main_cache_stats_def Let_def o_def intro!: sum_list_nonneg)
qed

end
