(* ===== verification/Command_Runner.thy ===== *)
theory Command_Runner
  imports Prelude Complex_Main
begin

text \<open>
  The bounded execution of repository commands (\<open>command_runner.py\<close>): one timeout budget for a sequence of
  commands, scrubbing of secrets from their output, and the environment they see. The clock
  (\<open>time.monotonic\<close>) is the sequence of its readings; the processes are an oracle that answers the n-th
  command started, given the time it may take. Output that the operating system delivers as bytes is taken
  after decoding.
\<close>

section \<open>Redaction\<close>

definition REDACTED :: string where "REDACTED = ''[REDACTED]''"

definition scrub :: "string list \<Rightarrow> string option \<Rightarrow> string" where
  "scrub redactions output =
     fold (\<lambda>secret v. py_replace secret REDACTED v) redactions (case output of None \<Rightarrow> [] | Some x \<Rightarrow> x)"


section \<open>The environment of the commands\<close>

definition CREDENTIALS :: "string list" where
  "CREDENTIALS = [''GITHUB_TOKEN'', ''META_API_KEY'', ''MODEL_API_KEY'', ''ANTHROPIC_API_KEY'', ''ANTHROPIC_AUTH_TOKEN'']"

definition build_environment :: "string \<Rightarrow> (string \<rightharpoonup> string) \<Rightarrow> string \<Rightarrow> (string \<rightharpoonup> string)" where
  "build_environment defpath profile_environment extra_path =
     (let path = (if extra_path \<noteq> [] then extra_path @ '':'' @ defpath else defpath)
      in (\<lambda>k. if k \<in> set CREDENTIALS then None else ([''PATH'' \<mapsto> path] ++ profile_environment) k))"


section \<open>Running a sequence of commands\<close>

datatype command_status = SUCCEEDED | FAILED | TIMED_OUT

record command_execution =
  ex_command :: string
  ex_exit_code :: "int option"
  ex_stdout :: string
  ex_stderr :: string
  ex_timed_out :: bool

record command_result =
  cr_status :: command_status
  cr_commands :: "command_execution list"
  cr_duration :: rat

datatype process = Completed int "string option" "string option" | Timeout_expired "string option" "string option"

definition cr_succeeded :: "command_result \<Rightarrow> bool" where
  "cr_succeeded r \<longleftrightarrow> cr_status r = SUCCEEDED"

definition cr_exit_code :: "command_result \<Rightarrow> int option" where
  "cr_exit_code r = (if cr_commands r = [] then None else ex_exit_code (last (cr_commands r)))"

text \<open>
  The loop over the commands, after \<open>n\<close> of them: the n-th command reads the clock for what remains of the
  budget, and the result reads it once more for the duration.
\<close>

primrec run_loop ::
  "string list \<Rightarrow> (nat \<Rightarrow> rat) \<Rightarrow> (nat \<Rightarrow> string \<Rightarrow> rat \<Rightarrow> process) \<Rightarrow> rat \<Rightarrow> rat \<Rightarrow>
   string list \<Rightarrow> nat \<Rightarrow> command_execution list \<Rightarrow> command_result" where
  "run_loop redactions clock proc started deadline [] n done =
     \<lparr>cr_status = SUCCEEDED, cr_commands = done, cr_duration = clock (Suc n) - started\<rparr>"
| "run_loop redactions clock proc started deadline (c # cs) n done =
     (let remaining = deadline - clock (Suc n) in
      if remaining \<le> 0 then
        \<lparr>cr_status = TIMED_OUT, cr_commands = done @ [\<lparr>ex_command = c, ex_exit_code = None, ex_stdout = [],
           ex_stderr = [], ex_timed_out = True\<rparr>], cr_duration = clock (Suc (Suc n)) - started\<rparr>
      else (case proc n c remaining of
          Timeout_expired out err \<Rightarrow>
            \<lparr>cr_status = TIMED_OUT, cr_commands = done @ [\<lparr>ex_command = c, ex_exit_code = None,
               ex_stdout = scrub redactions out, ex_stderr = scrub redactions err, ex_timed_out = True\<rparr>],
             cr_duration = clock (Suc (Suc n)) - started\<rparr>
        | Completed code out err \<Rightarrow>
            let done' = done @ [\<lparr>ex_command = c, ex_exit_code = Some code, ex_stdout = scrub redactions out,
                  ex_stderr = scrub redactions err, ex_timed_out = False\<rparr>]
            in if code \<noteq> 0 then
                 \<lparr>cr_status = FAILED, cr_commands = done', cr_duration = clock (Suc (Suc n)) - started\<rparr>
               else run_loop redactions clock proc started deadline cs (Suc n) done'))"

record command_runner =
  ru_redactions :: "string list"
  ru_extra_path :: string

definition new_command_runner :: "string list \<Rightarrow> string \<Rightarrow> command_runner" where
  "new_command_runner redactions extra_path =
     \<lparr>ru_redactions = filter (\<lambda>r. r \<noteq> []) redactions, ru_extra_path = extra_path\<rparr>"

text \<open>
  \<open>CommandRunner.run\<close>: \<open>defpath\<close> is \<open>os.defpath\<close>; the processes see the environment built here and nothing of
  the orchestrator's.
\<close>

definition run_commands ::
  "command_runner \<Rightarrow> string \<Rightarrow> (nat \<Rightarrow> rat) \<Rightarrow> ((string \<rightharpoonup> string) \<Rightarrow> nat \<Rightarrow> string \<Rightarrow> rat \<Rightarrow> process) \<Rightarrow>
   string list \<Rightarrow> rat \<Rightarrow> (string \<rightharpoonup> string) \<Rightarrow> command_result" where
  "run_commands runner defpath clock proc commands timeout environment =
     (let started = clock 0; deadline = started + timeout
      in run_loop (ru_redactions runner) clock (proc (build_environment defpath environment (ru_extra_path runner)))
           started deadline commands 0 [])"


section \<open>Properties\<close>

lemma run_loop_shape:
  assumes "list_all (\<lambda>e. ex_exit_code e = Some 0 \<and> \<not> ex_timed_out e) done"
  shows "case run_loop redactions clock proc started deadline cs n done of r \<Rightarrow>
    \<exists>ran. cr_commands r = done @ ran \<and> map ex_command ran = take (length ran) cs
      \<and> list_all (\<lambda>e. ex_exit_code e = Some 0 \<and> \<not> ex_timed_out e) (butlast ran)
      \<and> (case cr_status r of
           SUCCEEDED \<Rightarrow> map ex_command ran = cs \<and> list_all (\<lambda>e. ex_exit_code e = Some 0 \<and> \<not> ex_timed_out e) ran
         | FAILED \<Rightarrow> ran \<noteq> [] \<and> \<not> ex_timed_out (last ran) \<and> (\<exists>code. code \<noteq> 0 \<and> ex_exit_code (last ran) = Some code)
         | TIMED_OUT \<Rightarrow> ran \<noteq> [] \<and> ex_timed_out (last ran) \<and> ex_exit_code (last ran) = None)"
  using assms
proof (induction cs arbitrary: n "done")
  case Nil
  then show ?case by simp
next
  case (Cons c cs)
  show ?case
  proof (cases "deadline - clock (Suc n) \<le> 0")
    case True
    then show ?thesis by simp
  next
    case False
    show ?thesis
    proof (cases "proc n c (deadline - clock (Suc n))")
      case (Timeout_expired out err)
      with False show ?thesis by simp
    next
      case (Completed code out err)
      let ?e = "\<lparr>ex_command = c, ex_exit_code = Some code, ex_stdout = scrub redactions out,
                  ex_stderr = scrub redactions err, ex_timed_out = False\<rparr>"
      show ?thesis
      proof (cases "code = 0")
        case False
        with Completed \<open>\<not> deadline - clock (Suc n) \<le> 0\<close> show ?thesis by simp
      next
        case True
        with Cons.prems have "list_all (\<lambda>e. ex_exit_code e = Some 0 \<and> \<not> ex_timed_out e) (done @ [?e])" by simp
        from Cons.IH [OF this, of "Suc n"] obtain ran where
          ran: "cr_commands (run_loop redactions clock proc started deadline cs (Suc n) (done @ [?e])) = (done @ [?e]) @ ran"
            "map ex_command ran = take (length ran) cs"
            "list_all (\<lambda>e. ex_exit_code e = Some 0 \<and> \<not> ex_timed_out e) (butlast ran)"
          and st: "case cr_status (run_loop redactions clock proc started deadline cs (Suc n) (done @ [?e])) of
           SUCCEEDED \<Rightarrow> map ex_command ran = cs \<and> list_all (\<lambda>e. ex_exit_code e = Some 0 \<and> \<not> ex_timed_out e) ran
         | FAILED \<Rightarrow> ran \<noteq> [] \<and> \<not> ex_timed_out (last ran) \<and> (\<exists>code. code \<noteq> 0 \<and> ex_exit_code (last ran) = Some code)
         | TIMED_OUT \<Rightarrow> ran \<noteq> [] \<and> ex_timed_out (last ran) \<and> ex_exit_code (last ran) = None"
          by auto
        have eq: "run_loop redactions clock proc started deadline (c # cs) n done
            = run_loop redactions clock proc started deadline cs (Suc n) (done @ [?e])"
          using False Completed True by simp
        show ?thesis
          unfolding eq
          by (rule exI [of _ "?e # ran"]) (use ran st True in \<open>auto split: command_status.splits\<close>)
      qed
    qed
  qed
qed

text \<open>
  The status tells what ran: a sequence succeeds exactly when every command ran in order with exit code 0;
  it fails when the last command that ran exited with another code, and times out when the last one did; the
  commands that ran are a prefix of the sequence, and all before the last exited with 0.
\<close>

theorem command_sequence_status:
  "case run_commands runner defpath clock proc commands timeout env of r \<Rightarrow>
     map ex_command (cr_commands r) = take (length (cr_commands r)) commands
     \<and> list_all (\<lambda>e. ex_exit_code e = Some 0 \<and> \<not> ex_timed_out e) (butlast (cr_commands r))
     \<and> (cr_succeeded r \<longleftrightarrow> map ex_command (cr_commands r) = commands
          \<and> list_all (\<lambda>e. ex_exit_code e = Some 0 \<and> \<not> ex_timed_out e) (cr_commands r))
     \<and> (cr_status r = TIMED_OUT \<longleftrightarrow> cr_commands r \<noteq> [] \<and> ex_timed_out (last (cr_commands r)))"
proof -
  obtain r where r: "r = run_commands runner defpath clock proc commands timeout env" by simp
  have shape: "map ex_command (cr_commands r) = take (length (cr_commands r)) commands"
    "list_all (\<lambda>e. ex_exit_code e = Some 0 \<and> \<not> ex_timed_out e) (butlast (cr_commands r))"
    and st: "case cr_status r of
       SUCCEEDED \<Rightarrow> map ex_command (cr_commands r) = commands \<and> list_all (\<lambda>e. ex_exit_code e = Some 0 \<and> \<not> ex_timed_out e) (cr_commands r)
     | FAILED \<Rightarrow> cr_commands r \<noteq> [] \<and> \<not> ex_timed_out (last (cr_commands r)) \<and> (\<exists>code. code \<noteq> 0 \<and> ex_exit_code (last (cr_commands r)) = Some code)
     | TIMED_OUT \<Rightarrow> cr_commands r \<noteq> [] \<and> ex_timed_out (last (cr_commands r)) \<and> ex_exit_code (last (cr_commands r)) = None"
    using run_loop_shape [of "[]" "ru_redactions runner" clock "proc (build_environment defpath env (ru_extra_path runner))"
        "clock 0" "clock 0 + timeout" commands 0]
    unfolding r run_commands_def Let_def by simp_all
  have l: "last (cr_commands r) \<in> set (cr_commands r)" if "cr_commands r \<noteq> []" using that by simp
  have "cr_succeeded r \<longleftrightarrow> map ex_command (cr_commands r) = commands
      \<and> list_all (\<lambda>e. ex_exit_code e = Some 0 \<and> \<not> ex_timed_out e) (cr_commands r)"
    using st l by (cases "cr_status r") (fastforce simp: cr_succeeded_def list_all_iff)+
  moreover have "cr_status r = TIMED_OUT \<longleftrightarrow> cr_commands r \<noteq> [] \<and> ex_timed_out (last (cr_commands r))"
    using st l by (cases "cr_status r") (fastforce simp: list_all_iff)+
  ultimately show ?thesis using shape by (simp flip: r)
qed

text \<open>
  One budget for the whole sequence: with a clock that does not run backwards, every process is started
  with a positive allowance of at most the timeout, so what the processes would do with any other allowance
  does not matter.
\<close>

theorem command_budget_respected:
  assumes "mono clock"
    and "\<And>e n c allowance. 0 < allowance \<Longrightarrow> allowance \<le> timeout \<Longrightarrow> proc e n c allowance = proc' e n c allowance"
  shows "run_commands runner defpath clock proc commands timeout env = run_commands runner defpath clock proc' commands timeout env"
proof -
  have "run_loop rs clock (proc e) (clock 0) (clock 0 + timeout) cs n d
      = run_loop rs clock (proc' e) (clock 0) (clock 0 + timeout) cs n d" for rs e cs n d
  proof (induction cs arbitrary: n d)
    case (Cons c cs)
    have "clock 0 \<le> clock (Suc n)" using assms(1) by (simp add: monoD)
    then have "0 < clock 0 + timeout - clock (Suc n) \<Longrightarrow>
        proc e n c (clock 0 + timeout - clock (Suc n)) = proc' e n c (clock 0 + timeout - clock (Suc n))"
      by (intro assms(2)) simp_all
    then show ?case using Cons by (auto simp: Let_def split: process.split)
  qed simp
  then show ?thesis by (simp add: run_commands_def Let_def)
qed

theorem command_budget_respected_witness:
  "run_commands (new_command_runner [] []) ''/bin'' (\<lambda>n. of_nat n) (\<lambda>e n c a. Completed 0 None None) [''make''] 5 (\<lambda>k. None)
     = run_commands (new_command_runner [] []) ''/bin'' (\<lambda>n. of_nat n)
         (\<lambda>e n c a. if 5 < a then Timeout_expired None None else Completed 0 None None) [''make''] 5 (\<lambda>k. None)"
  by (rule command_budget_respected) (auto simp: mono_def)

text \<open>
  No credential reaches a repository command: a run depends on its processes only as far as they are given
  an environment in which the five credential variables are absent, every other variable is the profile's, and
  \<open>PATH\<close> is the runner's unless the profile sets it; what they would do with any other environment does not
  matter.
\<close>

theorem environment_without_credentials:
  assumes "\<And>e. e = (\<lambda>k.
      if k \<in> {''GITHUB_TOKEN'', ''META_API_KEY'', ''MODEL_API_KEY'', ''ANTHROPIC_API_KEY'', ''ANTHROPIC_AUTH_TOKEN''} then None
      else case profile k of Some v \<Rightarrow> Some v
        | None \<Rightarrow> if k = ''PATH'' then Some (if extra = [] then defpath else extra @ '':'' @ defpath) else None)
      \<Longrightarrow> proc e = proc' e"
  shows "run_commands (new_command_runner rs extra) defpath clock proc commands timeout profile
    = run_commands (new_command_runner rs extra) defpath clock proc' commands timeout profile"
proof -
  have "build_environment defpath profile extra = (\<lambda>k.
      if k \<in> {''GITHUB_TOKEN'', ''META_API_KEY'', ''MODEL_API_KEY'', ''ANTHROPIC_API_KEY'', ''ANTHROPIC_AUTH_TOKEN''} then None
      else case profile k of Some v \<Rightarrow> Some v
        | None \<Rightarrow> if k = ''PATH'' then Some (if extra = [] then defpath else extra @ '':'' @ defpath) else None)"
    by (auto simp: fun_eq_iff build_environment_def CREDENTIALS_def Let_def map_add_def split: option.split)
  with assms show ?thesis by (simp add: run_commands_def new_command_runner_def)
qed

theorem environment_without_credentials_witness:
  "run_commands (new_command_runner [] ''/opt'') ''/bin'' (\<lambda>n. of_nat n) (\<lambda>e n c a. Completed 0 (e ''PATH'') None)
       [''make''] 5 [''GITHUB_TOKEN'' \<mapsto> ''t'']
     = run_commands (new_command_runner [] ''/opt'') ''/bin'' (\<lambda>n. of_nat n)
         (\<lambda>e n c a. if e ''GITHUB_TOKEN'' = None then Completed 0 (e ''PATH'') None else Completed 1 None None)
         [''make''] 5 [''GITHUB_TOKEN'' \<mapsto> ''t'']"
  by (rule environment_without_credentials) simp

section \<open>Scrubbing\<close>

text \<open>A text without \<open>c\<close> occurs on one side of a \<open>c\<close> or the other.\<close>

lemma py_contains_separator:
  assumes "c \<notin> set p" "p \<noteq> []" "py_contains p (a @ c # b)"
  shows "py_contains p a \<or> py_contains p b"
proof -
  from assms(3) obtain x y where eq: "a @ c # b = x @ p @ y" unfolding py_contains_iff by blast
  then consider us where "a = x @ us" "us @ c # b = p @ y" | us where "a @ us = x" "c # b = us @ p @ y"
    by (auto simp: append_eq_append_conv2)
  then show ?thesis
  proof cases
    case 1
    then consider vs where "us = p @ vs" | vs where "us @ vs = p" "c # b = vs @ y"
      by (auto simp: append_eq_append_conv2)
    then show ?thesis
    proof cases
      case (1 vs)
      with \<open>a = x @ us\<close> show ?thesis unfolding py_contains_iff by blast
    next
      case (2 vs)
      with assms(1) have "vs = []" by (cases vs) auto
      with 2 \<open>a = x @ us\<close> show ?thesis unfolding py_contains_iff by (metis append_Nil2)
    qed
  next
    case 2
    then show ?thesis using assms(1,2)
      unfolding py_contains_iff by (cases us; cases p) auto
  qed
qed

definition plain_secret :: "string \<Rightarrow> bool" where
  "plain_secret s \<longleftrightarrow> s \<noteq> [] \<and> CHR ''['' \<notin> set s \<and> CHR '']'' \<notin> set s \<and> \<not> py_contains s ''REDACTED''"

lemma contains_redacted:
  assumes "plain_secret s" "py_contains s (u @ REDACTED @ w)"
  shows "py_contains s u \<or> py_contains s w"
proof -
  have eq: "u @ REDACTED @ w = u @ CHR ''['' # (''REDACTED'' @ CHR '']'' # w)" by (simp add: REDACTED_def)
  have "py_contains s u \<or> py_contains s (''REDACTED'' @ CHR '']'' # w)"
    using assms py_contains_separator [of "CHR ''[''" s u "''REDACTED'' @ CHR '']'' # w"]
    unfolding eq plain_secret_def by blast
  then show ?thesis
    using assms(1) py_contains_separator [of "CHR '']''" s "''REDACTED''" w] unfolding plain_secret_def by blast
qed

lemma replace_adds_none:
  assumes "plain_secret s" "py_contains s (u @ py_replace old REDACTED v)"
  shows "py_contains s (u @ v)"
  using assms(2)
proof (induction old "REDACTED :: string" v arbitrary: u rule: py_replace.induct)
  case (1 old v)
  show ?case
  proof (cases "old = [] \<or> v = []")
    case True
    with 1 show ?thesis by (simp add: py_replace.simps [of old REDACTED v])
  next
    case False
    show ?thesis
    proof (cases "py_startswith old v")
      case True
      then obtain w where v: "v = old @ w" unfolding py_startswith_append by blast
      have "py_replace old REDACTED v = REDACTED @ py_replace old REDACTED w"
        using False True by (subst py_replace.simps) (simp add: v)
      with 1(3) have "py_contains s (u @ REDACTED @ py_replace old REDACTED w)" by simp
      from contains_redacted [OF assms(1) this] consider "py_contains s u" | "py_contains s ([] @ py_replace old REDACTED w)" by auto
      then show ?thesis
      proof cases
        case 1
        then show ?thesis using py_contains_append [of s u "[]"] by simp
      next
        case 2
        with 1(1) [of "[]"] False True v have "py_contains s w" by simp
        then show ?thesis using py_contains_append [of s w "u @ old" "[]"] v by simp
      qed
    next
      case no: False
      with 1(3) False have "py_contains s ((u @ [hd v]) @ py_replace old REDACTED (tl v))"
        by (simp add: py_replace.simps [of old REDACTED v])
      with 1(2) [of "u @ [hd v]"] False no show ?thesis by simp
    qed
  qed
qed

lemma replace_removes:
  assumes "plain_secret s" "\<And>a b. length a < length u \<Longrightarrow> u @ v \<noteq> a @ s @ b"
  shows "\<not> py_contains s (u @ py_replace s REDACTED v)"
  using assms
proof (induction s "REDACTED :: string" v arbitrary: u rule: py_replace.induct)
  case (1 s v)
  have s: "s \<noteq> []" using 1(3) by (simp add: plain_secret_def)
  have u: "\<not> py_contains s u"
  proof
    assume "py_contains s u"
    then obtain a b where "u = a @ s @ b" unfolding py_contains_iff by blast
    with 1(4) [of a "b @ v"] s show False by simp
  qed
  show ?case
  proof (cases "v = []")
    case True
    with u show ?thesis by (simp add: py_replace.simps [of s REDACTED "[]"])
  next
    case False
    show ?thesis
    proof (cases "py_startswith s v")
      case True
      then obtain w where v: "v = s @ w" unfolding py_startswith_append by blast
      have eq: "py_replace s REDACTED v = REDACTED @ py_replace s REDACTED w"
        using False True s by (subst py_replace.simps) (simp add: v)
      have "\<not> py_contains s ([] @ py_replace s REDACTED w)"
        using 1(1) [of "[]"] 1(3) s False True v by simp
      with contains_redacted [OF 1(3)] u show ?thesis unfolding eq by auto
    next
      case no: False
      have "(u @ [hd v]) @ tl v \<noteq> a @ s @ b" if "length a < length (u @ [hd v])" for a b
      proof
        assume eq: "(u @ [hd v]) @ tl v = a @ s @ b"
        then have uv: "u @ v = a @ s @ b" using False by simp
        with 1(4) [of a b] that have "length a = length u" by (cases "length a < length u") auto
        with uv have "v = s @ b" by simp
        with no show False unfolding py_startswith_append by blast
      qed
      with 1(2) [of "u @ [hd v]"] 1(3) s False no
      have "\<not> py_contains s ((u @ [hd v]) @ py_replace s REDACTED (tl v))" by simp
      then show ?thesis using s False no by (simp add: py_replace.simps [of s REDACTED v])
    qed
  qed
qed

lemma fold_replace_absent:
  "plain_secret s \<Longrightarrow> \<not> py_contains s v \<Longrightarrow>
     \<not> py_contains s (fold (\<lambda>secret v. py_replace secret REDACTED v) rs v)"
  by (induction rs arbitrary: v) (use replace_adds_none [of s "[]"] in auto)

lemma fold_replace_removes:
  "plain_secret s \<Longrightarrow> s \<in> set rs \<Longrightarrow> \<not> py_contains s (fold (\<lambda>secret v. py_replace secret REDACTED v) rs v)"
proof (induction rs arbitrary: v)
  case (Cons r rs)
  show ?case
  proof (cases "s = r")
    case True
    have "\<not> py_contains s (py_replace s REDACTED v)"
      using replace_removes [OF Cons.prems(1), of "[]" v] by simp
    from fold_replace_absent [OF Cons.prems(1) this] True show ?thesis by simp
  next
    case False
    with Cons show ?thesis by simp
  qed
qed simp

text \<open>
  C14. No secret survives scrubbing: a configured secret that has no brackets and does not occur in the word
  \<open>REDACTED\<close> does not occur in the captured output, whatever the other redactions are and in whatever order
  they are applied.
\<close>

theorem scrubbed_output_has_no_secret:
  assumes "s \<in> set redactions" "plain_secret s"
  shows "\<not> py_contains s (scrub (ru_redactions (new_command_runner redactions extra)) output)"
proof -
  have "s \<in> set (ru_redactions (new_command_runner redactions extra))"
    using assms by (simp add: new_command_runner_def plain_secret_def)
  from fold_replace_removes [OF assms(2) this] show ?thesis unfolding scrub_def .
qed

theorem scrubbed_output_has_no_secret_witness:
  "\<not> py_contains ''tok'' (scrub (ru_redactions (new_command_runner [''toktok'', [], ''tok''] []))
      (Some ''x toktoktok y''))"
proof (rule scrubbed_output_has_no_secret)
  show "plain_secret ''tok''" by code_simp
qed simp

end
