(* ===== verification/Completion.thy ===== *)
theory Completion
  imports Command_Runner Json
begin

text \<open>
  The completion contract of an attempt (\<open>completion.py\<close>): the order in which setup, baseline, review and the
  final check run (\<open>VerificationRunner\<close>), and the classification of the observed evidence into an outcome and
  a publication path (\<open>CompletionEvaluator\<close>), with its texts. The command runner is a parameter: the function
  that answers the commands it is given.
\<close>

section \<open>Evidence\<close>

datatype attempt_outcome = COMPLETE | INCOMPLETE | INFRASTRUCTURE_ERROR | NO_CHANGES | HANDOFF

datatype publication_path = PATH_NONE | PATH_COMPLETE | PATH_PARTIAL

datatype model_status =
    MODEL_SUCCEEDED | MODEL_LIMIT_REACHED | MODEL_INFRASTRUCTURE_ERROR | HANDOFF_REQUESTED | OPERATOR_HANDOFF_EXPIRED

record preparation_evidence =
  pe_setup :: command_result
  pe_baseline :: "command_result option"

record review_finding =
  rf_severity :: string
  rf_summary :: string

record review_evidence =
  rv_findings :: "review_finding list"
  rv_repair_cycles :: int

record repository_profile =
  pf_setup :: "string list"
  pf_check :: "string list"
  pf_base_branch :: string
  pf_timeout :: int
  pf_setup_timeout :: int
  pf_env :: "(string \<times> string) list"
  pf_model_instructions :: string

record completion_decision =
  cd_outcome :: "attempt_outcome option"
  cd_publication_eligible :: bool
  cd_publication_path :: publication_path
  cd_reasons :: "string list"


section \<open>Texts\<close>

definition final_check_dirty_reason :: "string list \<Rightarrow> string" where
  "final_check_dirty_reason paths =
     ''The implementation and the final check succeeded, but the final check left uncommitted changes: ''
     @ py_join '', '' paths
     @ ''. No re-implementation is needed, only a short cleanup round: commit these files in the form the toolchain writes them, or add the generated ones to `.gitignore`, then finish.''"

text \<open>The command the failure detail blames: the first that did not exit with 0, else the last.\<close>

definition select_failed_command :: "command_result \<Rightarrow> command_execution option" where
  "select_failed_command result = (case find (\<lambda>e. ex_exit_code e \<noteq> Some 0) (cr_commands result) of
     Some e \<Rightarrow> Some e
   | None \<Rightarrow> if cr_commands result = [] then None else Some (last (cr_commands result)))"

definition BASELINE_PROMPT_STREAM_LIMIT :: nat where "BASELINE_PROMPT_STREAM_LIMIT = 4000"

definition tail_stream :: "string \<Rightarrow> nat \<Rightarrow> string" where
  "tail_stream text limit =
     (if py_blank text then ''(no output)''
      else if length text \<le> limit then text
      else ''...[truncated; showing the last '' @ str_of_nat limit @ '' characters]'' @ nl
           @ drop (length text - limit) text)"

definition build_baseline_failure_section :: "command_result \<Rightarrow> bool \<Rightarrow> string" where
  "build_baseline_failure_section baseline after_conflict_resolution =
     (let header = ''## Baseline check failure (fix before finishing)'' @ nl @ nl
            @ (if after_conflict_resolution
               then ''The baseline check '' @ em_dash @ '' the same gate the final check uses '' @ em_dash
                 @ '' failed on the resolved branch after the rebase conflicts were resolved''
               else ''The baseline check '' @ em_dash @ '' the same gate the final check uses '' @ em_dash
                 @ '' failed on the current branch before this attempt started'');
          instruction = (if after_conflict_resolution
            then ''The conflicts are resolved, so the next round must start by making this check pass on the resolved branch: fix the underlying failure as part of that attempt rather than working around it.''
            else ''This failure most likely comes from the earlier attempt's own commits on this branch. You must pass this check before the work is considered done: fix the underlying failure as part of this attempt rather than working around it.'')
      in case select_failed_command baseline of
           None \<Rightarrow> header @ '' (it timed out before any command ran).'' @ nl @ nl @ instruction
         | Some failed \<Rightarrow>
             let result = (case ex_exit_code failed of
                   None \<Rightarrow> ''timed out''
                 | Some code \<Rightarrow> if ex_timed_out failed then ''timed out'' else ''exit '' @ str_of_int code)
             in header @ '': `'' @ ex_command failed @ ''` ('' @ result @ '').'' @ nl @ nl
                @ instruction @ nl @ nl
                @ ''Failing command stdout (tail):'' @ nl
                @ ''```'' @ nl @ tail_stream (ex_stdout failed) BASELINE_PROMPT_STREAM_LIMIT @ nl @ ''```'' @ nl @ nl
                @ ''Failing command stderr (tail):'' @ nl
                @ ''```'' @ nl @ tail_stream (ex_stderr failed) BASELINE_PROMPT_STREAM_LIMIT @ nl @ ''```'')"

definition deferred_baseline_failed_reason :: "command_result \<Rightarrow> string" where
  "deferred_baseline_failed_reason baseline =
     ''The rebase conflicts were resolved, but the baseline check run after the resolution failed; the next round must start by making the check pass on the resolved branch.''
     @ nl @ nl @ build_baseline_failure_section baseline True"


section \<open>The order of verification\<close>

record verification =
  vr_baseline_passed :: bool
  vr_review_completed :: bool

definition new_verification :: verification where
  "new_verification = \<lparr>vr_baseline_passed = False, vr_review_completed = False\<rparr>"

datatype order_error = VerificationOrderError string

type_synonym runner = "string list \<Rightarrow> rat \<Rightarrow> (string \<rightharpoonup> string) \<Rightarrow> command_result"

definition run_check :: "runner \<Rightarrow> repository_profile \<Rightarrow> command_result" where
  "run_check run profile = run (pf_check profile) (of_int (pf_timeout profile)) (map_of (pf_env profile))"

definition prepare :: "runner \<Rightarrow> repository_profile \<Rightarrow> bool \<Rightarrow> (verification, order_error, preparation_evidence) comp" where
  "prepare run profile continuation s =
     (let s0 = \<lparr>vr_baseline_passed = False, vr_review_completed = False\<rparr>;
          setup = run (pf_setup profile) (of_int (pf_setup_timeout profile)) (map_of (pf_env profile))
      in if \<not> cr_succeeded setup
         then (Inr \<lparr>pe_setup = setup, pe_baseline = None\<rparr>, s0\<lparr>vr_baseline_passed := False\<rparr>)
         else let baseline = run_check run profile
              in (Inr \<lparr>pe_setup = setup, pe_baseline = Some baseline\<rparr>,
                  s0\<lparr>vr_baseline_passed := cr_succeeded baseline \<or> continuation\<rparr>))"

definition mark_review_complete ::
  "model_status \<Rightarrow> int \<Rightarrow> review_evidence \<Rightarrow> (verification, order_error, unit) comp" where
  "mark_review_complete status commit_count review s =
     (if \<not> vr_baseline_passed s then
        (Inl (VerificationOrderError ''A successful baseline check is required before review completion.''), s)
      else if status \<noteq> MODEL_SUCCEEDED then
        (Inl (VerificationOrderError ''Final check requires successful model execution.''), s)
      else if commit_count \<le> 0 then
        (Inl (VerificationOrderError ''Final check requires at least one local commit.''), s)
      else if 2 < rv_repair_cycles review then
        (Inl (VerificationOrderError ''Final check requires a review within the repair-cycle limit.''), s)
      else (Inr (), s\<lparr>vr_review_completed := True\<rparr>))"

definition final_check :: "runner \<Rightarrow> repository_profile \<Rightarrow> (verification, order_error, command_result) comp" where
  "final_check run profile s =
     (if \<not> vr_review_completed s
      then (Inl (VerificationOrderError ''Final check requires completed model review.''), s)
      else (Inr (run_check run profile), s))"


section \<open>Evaluation\<close>

definition decision :: "attempt_outcome \<Rightarrow> string \<Rightarrow> int \<Rightarrow> completion_decision" where
  "decision outcome reason commit_count =
     \<lparr>cd_outcome = Some outcome, cd_publication_eligible = False,
      cd_publication_path = (if outcome = INCOMPLETE \<and> 0 < commit_count then PATH_PARTIAL else PATH_NONE),
      cd_reasons = [reason]\<rparr>"

record evidence =
  ev_setup :: "command_result option"
  ev_baseline :: "command_result option"
  ev_model_status :: "model_status option"
  ev_commit_count :: int
  ev_acceptance_criteria_satisfied :: bool
  ev_review :: review_evidence
  ev_final_check :: "command_result option"
  ev_push_succeeded :: "bool option"
  ev_pr_exists :: "bool option"
  ev_profile_error :: bool
  ev_continuation :: bool
  ev_final_check_dirty_paths :: "string list"
  ev_deferred_baseline_failed :: bool

definition check_passed :: "command_result option \<Rightarrow> bool" where
  "check_passed r \<longleftrightarrow> (case r of None \<Rightarrow> False | Some x \<Rightarrow> cr_succeeded x)"

text \<open>The part of \<open>evaluate\<close> that is reached with a model run to judge and a positive number of commits.\<close>

definition evaluate_work :: "string set \<Rightarrow> evidence \<Rightarrow> completion_decision" where
  "evaluate_work blocking e =
     (if \<not> ev_acceptance_criteria_satisfied e then
        decision INCOMPLETE ''Acceptance criteria are not satisfied.'' (ev_commit_count e)
      else if filter (\<lambda>f. rf_severity f \<in> blocking) (rv_findings (ev_review e)) \<noteq> [] then
        decision INCOMPLETE ''Final review has blocking findings.'' (ev_commit_count e)
      else if 2 < rv_repair_cycles (ev_review e) then
        decision INCOMPLETE ''The review repair-cycle limit was exceeded.'' (ev_commit_count e)
      else if \<not> check_passed (ev_final_check e) then
        decision INCOMPLETE ''Final authoritative check did not succeed.'' (ev_commit_count e)
      else if ev_final_check_dirty_paths e \<noteq> [] then
        decision INCOMPLETE (final_check_dirty_reason (sort (ev_final_check_dirty_paths e))) (ev_commit_count e)
      else if ev_push_succeeded e = Some False then
        decision INFRASTRUCTURE_ERROR ''Push failed after local completion evidence.'' (ev_commit_count e)
      else if ev_pr_exists e = Some False then
        decision INFRASTRUCTURE_ERROR ''Pull request creation failed after push.'' (ev_commit_count e)
      else if ev_push_succeeded e = Some True \<and> ev_pr_exists e = Some True then
        decision COMPLETE ''All six completion conditions were observed.'' (ev_commit_count e)
      else \<lparr>cd_outcome = None, cd_publication_eligible = True, cd_publication_path = PATH_COMPLETE,
            cd_reasons = [''Local completion evidence is sufficient to begin publication.'']\<rparr>)"

definition evaluate_model :: "string set \<Rightarrow> evidence \<Rightarrow> command_result \<Rightarrow> completion_decision" where
  "evaluate_model blocking e baseline = (case ev_model_status e of
     Some MODEL_INFRASTRUCTURE_ERROR \<Rightarrow>
       decision INFRASTRUCTURE_ERROR ''Model execution had an infrastructure error.'' (ev_commit_count e)
   | Some MODEL_LIMIT_REACHED \<Rightarrow> decision INCOMPLETE ''Model execution reached its limit.'' (ev_commit_count e)
   | Some HANDOFF_REQUESTED \<Rightarrow>
       if ev_commit_count e \<le> 0
       then decision NO_CHANGES ''Handoff was requested without any commits on the branch.'' (ev_commit_count e)
       else \<lparr>cd_outcome = Some HANDOFF, cd_publication_eligible = False, cd_publication_path = PATH_PARTIAL,
             cd_reasons = [''Handoff was requested with committed progress to preserve.'']\<rparr>
   | Some OPERATOR_HANDOFF_EXPIRED \<Rightarrow>
       if ev_commit_count e \<le> 0
       then decision NO_CHANGES
              ''Operator handoff reached its model deadline without any commits on the branch.'' (ev_commit_count e)
       else \<lparr>cd_outcome = Some INCOMPLETE, cd_publication_eligible = False, cd_publication_path = PATH_PARTIAL,
             cd_reasons = [''Operator handoff reached its model deadline without the model invoking the handoff skill; preserved work is reported with its ordinary outcome.'']\<rparr>
   | None \<Rightarrow> decision INCOMPLETE ''Model execution was not observed.'' (ev_commit_count e)
   | Some MODEL_SUCCEEDED \<Rightarrow>
       if ev_commit_count e = 0 then
         decision NO_CHANGES ''The skill workflow completed without commits.'' (ev_commit_count e)
       else if ev_commit_count e < 0 then
         decision INFRASTRUCTURE_ERROR ''Commit count is invalid.'' (ev_commit_count e)
       else if ev_deferred_baseline_failed e then
         decision INCOMPLETE (deferred_baseline_failed_reason baseline) (ev_commit_count e)
       else evaluate_work blocking e)"

definition evaluate :: "string set \<Rightarrow> evidence \<Rightarrow> completion_decision" where
  "evaluate blocking e =
     (if ev_profile_error e then
        decision INFRASTRUCTURE_ERROR ''Repository profile could not be loaded.'' (ev_commit_count e)
      else if \<not> check_passed (ev_setup e) then
        decision INFRASTRUCTURE_ERROR ''Setup did not succeed.'' (ev_commit_count e)
      else (case ev_baseline e of
          None \<Rightarrow> decision INFRASTRUCTURE_ERROR ''Baseline check was not observed.'' (ev_commit_count e)
        | Some baseline \<Rightarrow>
            if \<not> cr_succeeded baseline \<and> \<not> ev_continuation e then
              decision INCOMPLETE ''Baseline check failed before model execution.'' (ev_commit_count e)
            else evaluate_model blocking e baseline))"

end
