(* ===== verification/Completion_Props.thy ===== *)
theory Completion_Props
  imports Completion
begin

text \<open>
  Properties of the completion contract: which evidence makes an attempt complete or eligible for publication,
  which publication path each decision permits, and that the final check runs only after the gates before it.
\<close>

section \<open>Decisions\<close>

definition local_evidence :: "string set \<Rightarrow> evidence \<Rightarrow> bool" where
  "local_evidence blocking e \<longleftrightarrow>
     \<not> ev_profile_error e
     \<and> check_passed (ev_setup e)
     \<and> (\<exists>b. ev_baseline e = Some b \<and> (cr_succeeded b \<or> ev_continuation e))
     \<and> ev_model_status e = Some MODEL_SUCCEEDED
     \<and> 0 < ev_commit_count e
     \<and> \<not> ev_deferred_baseline_failed e
     \<and> ev_acceptance_criteria_satisfied e
     \<and> (\<forall>f \<in> set (rv_findings (ev_review e)). rf_severity f \<notin> blocking)
     \<and> rv_repair_cycles (ev_review e) \<le> 2
     \<and> check_passed (ev_final_check e)
     \<and> ev_final_check_dirty_paths e = []"

named_theorems decision_simps

lemma decision_fields [decision_simps]:
  "cd_outcome (decision x r n) = Some x" "cd_publication_eligible (decision x r n) = False"
  "cd_publication_path (decision x r n) = (if x = INCOMPLETE \<and> 0 < n then PATH_PARTIAL else PATH_NONE)"
  by (simp_all add: decision_def)

lemma work_outcome:
  "cd_outcome (evaluate_work blocking e) = Some COMPLETE \<longleftrightarrow>
     ev_acceptance_criteria_satisfied e \<and> (\<forall>f \<in> set (rv_findings (ev_review e)). rf_severity f \<notin> blocking)
     \<and> rv_repair_cycles (ev_review e) \<le> 2 \<and> check_passed (ev_final_check e) \<and> ev_final_check_dirty_paths e = []
     \<and> ev_push_succeeded e = Some True \<and> ev_pr_exists e = Some True"
  "cd_publication_eligible (evaluate_work blocking e) \<longleftrightarrow>
     ev_acceptance_criteria_satisfied e \<and> (\<forall>f \<in> set (rv_findings (ev_review e)). rf_severity f \<notin> blocking)
     \<and> rv_repair_cycles (ev_review e) \<le> 2 \<and> check_passed (ev_final_check e) \<and> ev_final_check_dirty_paths e = []
     \<and> ev_push_succeeded e \<noteq> Some False \<and> ev_pr_exists e \<noteq> Some False
     \<and> \<not> (ev_push_succeeded e = Some True \<and> ev_pr_exists e = Some True)"
  by (simp_all add: evaluate_work_def decision_simps filter_empty_conv not_le)

lemma work_path:
  "0 < ev_commit_count e \<Longrightarrow> cd_publication_path (evaluate_work blocking e) =
     (if cd_publication_eligible (evaluate_work blocking e) then PATH_COMPLETE
      else if cd_outcome (evaluate_work blocking e) = Some INCOMPLETE then PATH_PARTIAL else PATH_NONE)"
  by (simp add: evaluate_work_def decision_simps)

lemma model_succeeded:
  "ev_model_status e = Some MODEL_SUCCEEDED \<Longrightarrow> 0 < ev_commit_count e \<Longrightarrow> \<not> ev_deferred_baseline_failed e \<Longrightarrow>
     evaluate_model blocking e b = evaluate_work blocking e"
  by (simp add: evaluate_model_def)

lemma model_other:
  assumes "\<not> (ev_model_status e = Some MODEL_SUCCEEDED \<and> 0 < ev_commit_count e \<and> \<not> ev_deferred_baseline_failed e)"
  shows "cd_outcome (evaluate_model blocking e b) \<noteq> Some COMPLETE" "\<not> cd_publication_eligible (evaluate_model blocking e b)"
  using assms by (auto simp: evaluate_model_def decision_simps split: option.splits model_status.splits)

lemma eligible_has_commits:
  "cd_publication_eligible (evaluate blocking e) \<Longrightarrow> 0 < ev_commit_count e"
  using model_other(2) [of e blocking] by (auto simp: evaluate_def decision_simps split: option.splits if_splits)

text \<open>
  C12. An attempt is complete exactly when all six conditions were observed: a loaded profile with a
  successful setup and a baseline that passed (or a continuation), a successful model run with commits and
  satisfied acceptance criteria, a review without blocking findings within the repair limit, a clean final
  check, a successful push, and an existing pull request.
\<close>

theorem complete_iff_all_conditions:
  "cd_outcome (evaluate blocking e) = Some COMPLETE \<longleftrightarrow>
     local_evidence blocking e \<and> ev_push_succeeded e = Some True \<and> ev_pr_exists e = Some True"
proof (cases "ev_model_status e = Some MODEL_SUCCEEDED \<and> 0 < ev_commit_count e \<and> \<not> ev_deferred_baseline_failed e")
  case True
  then show ?thesis
    by (auto simp: evaluate_def decision_simps model_succeeded work_outcome local_evidence_def split: option.splits)
next
  case False
  with model_other(1) [OF False] show ?thesis
    by (auto simp: evaluate_def decision_simps local_evidence_def split: option.splits)
qed

text \<open>
  Publication may begin exactly when the local evidence is all there and neither push nor pull request has
  been observed to fail, nor both to be done.
\<close>

theorem eligible_iff_local_evidence:
  "cd_publication_eligible (evaluate blocking e) \<longleftrightarrow>
     local_evidence blocking e \<and> ev_push_succeeded e \<noteq> Some False \<and> ev_pr_exists e \<noteq> Some False
     \<and> \<not> (ev_push_succeeded e = Some True \<and> ev_pr_exists e = Some True)"
proof (cases "ev_model_status e = Some MODEL_SUCCEEDED \<and> 0 < ev_commit_count e \<and> \<not> ev_deferred_baseline_failed e")
  case True
  then show ?thesis
    by (auto simp: evaluate_def decision_simps model_succeeded work_outcome local_evidence_def split: option.splits)
next
  case False
  with model_other(2) [OF False] show ?thesis
    by (auto simp: evaluate_def decision_simps local_evidence_def split: option.splits)
qed

text \<open>
  The publication path follows from the outcome: the complete path exactly when publication may begin, the
  partial path exactly for an incomplete or handed-over attempt that has commits, and none otherwise; nothing
  is ever published from a branch without commits.
\<close>

theorem publication_path_of_decision:
  "cd_publication_path (evaluate blocking e) =
     (if cd_publication_eligible (evaluate blocking e) then PATH_COMPLETE
      else if cd_outcome (evaluate blocking e) \<in> {Some INCOMPLETE, Some HANDOFF} \<and> 0 < ev_commit_count e then PATH_PARTIAL
      else PATH_NONE)
   \<and> (cd_publication_path (evaluate blocking e) = PATH_NONE \<or> 0 < ev_commit_count e)"
proof -
  have work: "cd_publication_path (evaluate_model blocking e b) =
     (if cd_publication_eligible (evaluate_model blocking e b) then PATH_COMPLETE
      else if cd_outcome (evaluate_model blocking e b) \<in> {Some INCOMPLETE, Some HANDOFF} \<and> 0 < ev_commit_count e then PATH_PARTIAL
      else PATH_NONE)" for b
  proof (cases "ev_model_status e = Some MODEL_SUCCEEDED \<and> 0 < ev_commit_count e \<and> \<not> ev_deferred_baseline_failed e")
    case True
    have "cd_outcome (evaluate_work blocking e) \<noteq> Some HANDOFF"
      by (simp add: evaluate_work_def decision_simps)
    with True show ?thesis by (simp add: model_succeeded work_path)
  next
    case False
    then show ?thesis
      by (auto simp: evaluate_model_def decision_simps split: option.splits model_status.splits)
  qed
  have "cd_publication_path (evaluate blocking e) =
     (if cd_publication_eligible (evaluate blocking e) then PATH_COMPLETE
      else if cd_outcome (evaluate blocking e) \<in> {Some INCOMPLETE, Some HANDOFF} \<and> 0 < ev_commit_count e then PATH_PARTIAL
      else PATH_NONE)"
    using work by (simp add: evaluate_def decision_simps split: option.splits)
  then show ?thesis using eligible_has_commits [of blocking e] by auto
qed

section \<open>The order of verification\<close>

text \<open>The calls of one attempt, with what the command runner answers in each.\<close>

datatype verification_call =
    Prepare runner repository_profile bool
  | Mark_review model_status int review_evidence
  | Final_check runner repository_profile

fun verification_step :: "verification_call \<Rightarrow> verification \<Rightarrow> verification" where
  "verification_step (Prepare run p c) s = snd (prepare run p c s)"
| "verification_step (Mark_review m n r) s = snd (mark_review_complete m n r s)"
| "verification_step (Final_check run p) s = snd (final_check run p s)"

fun is_prepare :: "verification_call \<Rightarrow> bool" where
  "is_prepare (Prepare run p c) = True"
| "is_prepare _ = False"

fun passing_prepare :: "verification_call \<Rightarrow> bool" where
  "passing_prepare (Prepare run p c) =
     (cr_succeeded (run (pf_setup p) (of_int (pf_setup_timeout p)) (map_of (pf_env p))) \<and> (cr_succeeded (run_check run p) \<or> c))"
| "passing_prepare _ = False"

fun good_review :: "verification_call \<Rightarrow> bool" where
  "good_review (Mark_review m n r) = (m = MODEL_SUCCEEDED \<and> 0 < n \<and> rv_repair_cycles r \<le> 2)"
| "good_review _ = False"

text \<open>The calls since the last preparation, newest first, ending with it.\<close>

definition since_prepare :: "verification_call list \<Rightarrow> verification_call list" where
  "since_prepare past = takeWhile (\<lambda>c. \<not> is_prepare c) past"

definition last_prepare :: "verification_call list \<Rightarrow> verification_call option" where
  "last_prepare past = find is_prepare past"

definition run_verification :: "verification_call list \<Rightarrow> verification" where
  "run_verification past = foldr verification_step past new_verification"

lemma baseline_passed_iff:
  "vr_baseline_passed (run_verification past) \<longleftrightarrow> (\<exists>c. last_prepare past = Some c \<and> passing_prepare c)"
proof (induction past)
  case Nil
  then show ?case by (simp add: run_verification_def new_verification_def last_prepare_def)
next
  case (Cons c past)
  then show ?case
    by (cases c) (auto simp: run_verification_def last_prepare_def prepare_def Let_def mark_review_complete_def final_check_def)
qed

lemma review_completed_iff:
  "vr_review_completed (run_verification past) \<longleftrightarrow>
     (\<exists>c. last_prepare past = Some c \<and> passing_prepare c) \<and> (\<exists>c \<in> set (since_prepare past). good_review c)"
proof (induction past)
  case Nil
  then show ?case by (simp add: run_verification_def new_verification_def since_prepare_def)
next
  case (Cons c past)
  then show ?case
    using baseline_passed_iff [of past]
    by (cases c) (auto simp: run_verification_def since_prepare_def last_prepare_def prepare_def Let_def
        mark_review_complete_def final_check_def)
qed

text \<open>
  C13. The final check runs only behind its gates: after any calls (newest first), it returns exactly when the
  last preparation had a successful setup and a passing baseline (or was a continuation), and since then a
  review was marked complete with a successful model run, at least one commit and at most two repair cycles;
  it then answers with the profile's check.
\<close>

theorem final_check_behind_gates:
  "final_check run profile (run_verification past) =
     (if (\<exists>c. last_prepare past = Some c \<and> passing_prepare c) \<and> (\<exists>c \<in> set (since_prepare past). good_review c)
      then (Inr (run_check run profile), run_verification past)
      else (Inl (VerificationOrderError ''Final check requires completed model review.''), run_verification past))"
  by (simp add: final_check_def review_completed_iff)

end
