(* ===== verification/Timestamps.thy ===== *)
theory Timestamps
  imports Json "HOL-Library.Product_Lexorder"
begin

text \<open>
  Instants as the stores record them: an aware \<open>datetime\<close> in UTC at microsecond resolution, its successor
  (\<open>+ timedelta(microseconds=1)\<close>), and the text \<open>isoformat().replace("+00:00", "Z")\<close>. Rendering is injective
  on dates of the calendar, so later instants have other texts.
\<close>

section \<open>Instants\<close>

datatype datetime = Datetime (dt_year: nat) (dt_month: nat) (dt_day: nat)
  (dt_hour: nat) (dt_minute: nat) (dt_second: nat) (dt_micro: nat)

definition dt_key :: "datetime \<Rightarrow> nat \<times> nat \<times> nat \<times> nat \<times> nat \<times> nat \<times> nat" where
  "dt_key t = (dt_year t, dt_month t, dt_day t, dt_hour t, dt_minute t, dt_second t, dt_micro t)"

lemma dt_key_inject: "dt_key s = dt_key t \<longleftrightarrow> s = t"
  by (cases s; cases t) (auto simp: dt_key_def)

instantiation datetime :: linorder
begin

definition less_eq_datetime :: "datetime \<Rightarrow> datetime \<Rightarrow> bool" where
  "s \<le> t \<longleftrightarrow> dt_key s \<le> dt_key t"

definition less_datetime :: "datetime \<Rightarrow> datetime \<Rightarrow> bool" where
  "s < t \<longleftrightarrow> dt_key s < dt_key t"

instance
proof
  fix s t u :: datetime
  show "s < t \<longleftrightarrow> s \<le> t \<and> \<not> t \<le> s" by (auto simp: less_eq_datetime_def less_datetime_def)
  show "s \<le> s" by (simp add: less_eq_datetime_def)
  show "s \<le> t \<Longrightarrow> t \<le> u \<Longrightarrow> s \<le> u" by (simp add: less_eq_datetime_def)
  show "s \<le> t \<Longrightarrow> t \<le> s \<Longrightarrow> s = t" by (simp add: less_eq_datetime_def flip: dt_key_inject)
  show "s \<le> t \<or> t \<le> s" by (auto simp: less_eq_datetime_def)
qed

end

definition leap :: "nat \<Rightarrow> bool" where
  "leap y \<longleftrightarrow> 4 dvd y \<and> (\<not> 100 dvd y \<or> 400 dvd y)"

definition days_in_month :: "nat \<Rightarrow> nat \<Rightarrow> nat" where
  "days_in_month y m = (if m = 2 then (if leap y then 29 else 28) else if m \<in> {4, 6, 9, 11} then 30 else 31)"

definition valid_datetime :: "datetime \<Rightarrow> bool" where
  "valid_datetime t \<longleftrightarrow>
     1 \<le> dt_year t \<and> dt_year t \<le> 9999 \<and> 1 \<le> dt_month t \<and> dt_month t \<le> 12
     \<and> 1 \<le> dt_day t \<and> dt_day t \<le> days_in_month (dt_year t) (dt_month t)
     \<and> dt_hour t \<le> 23 \<and> dt_minute t \<le> 59 \<and> dt_second t \<le> 59 \<and> dt_micro t \<le> 999999"

text \<open>The next microsecond; \<open>None\<close> is the \<open>OverflowError\<close> past the year 9999.\<close>

fun next_day :: "nat \<Rightarrow> nat \<Rightarrow> nat \<Rightarrow> (nat \<times> nat \<times> nat) option" where
  "next_day y m d =
     (if d < days_in_month y m then Some (y, m, d + 1)
      else if m < 12 then Some (y, m + 1, 1)
      else if y < 9999 then Some (y + 1, 1, 1)
      else None)"

fun tick :: "datetime \<Rightarrow> datetime option" where
  "tick (Datetime y mo d h mi s us) =
     (if us < 999999 then Some (Datetime y mo d h mi s (us + 1))
      else if s < 59 then Some (Datetime y mo d h mi (s + 1) 0)
      else if mi < 59 then Some (Datetime y mo d h (mi + 1) 0 0)
      else if h < 23 then Some (Datetime y mo d (h + 1) 0 0 0)
      else map_option (\<lambda>(y, mo, d). Datetime y mo d 0 0 0 0) (next_day y mo d))"

lemma tick_later: "tick t = Some u \<Longrightarrow> t < u"
  by (cases t) (auto simp: less_datetime_def dt_key_def split: if_splits)

lemma days_in_month_pos: "Suc 0 \<le> days_in_month y m"
  by (simp add: days_in_month_def)

lemma tick_valid: "tick t = Some u \<Longrightarrow> valid_datetime t \<Longrightarrow> valid_datetime u"
  by (cases t) (auto simp: valid_datetime_def days_in_month_pos split: if_splits)


section \<open>Rendering\<close>

text \<open>Decimal with leading zeros to a width.\<close>

definition zpad :: "nat \<Rightarrow> nat \<Rightarrow> string" where
  "zpad w n = replicate (w - length (str_of_nat n)) (CHR ''0'') @ str_of_nat n"

definition iso_instant :: "datetime \<Rightarrow> string" where
  "iso_instant t =
     zpad 4 (dt_year t) @ ''-'' @ zpad 2 (dt_month t) @ ''-'' @ zpad 2 (dt_day t) @ ''T''
     @ zpad 2 (dt_hour t) @ '':'' @ zpad 2 (dt_minute t) @ '':'' @ zpad 2 (dt_second t)
     @ (if dt_micro t = 0 then [] else ''.'' @ zpad 6 (dt_micro t))"

definition isoformat :: "datetime \<Rightarrow> string" where
  "isoformat t = iso_instant t @ ''+00:00''"

definition timestamp :: "datetime \<Rightarrow> string" where
  "timestamp t = py_replace ''+00:00'' ''Z'' (isoformat t)"

lemma zpad_digits: "list_all is_digit (zpad w n)"
  using str_of_nat_digits [of n] by (auto simp: zpad_def list_all_iff is_digit_def char_between_def)

lemma nat_of_digits_zeros: "nat_of_digits (replicate k (CHR ''0'') @ s) = nat_of_digits s"
proof (induction k)
  case (Suc k)
  then show ?case by (simp add: nat_of_digits_def digit_val_def)
qed simp

lemma zpad_value: "nat_of_digits (zpad w n) = n"
  by (simp add: zpad_def nat_of_digits_zeros nat_of_digits_str_of_nat)

lemma zpad_inject: "zpad w m = zpad w n \<longleftrightarrow> m = n"
  by (metis zpad_value)

lemma length_str_of_nat: "n < 10 ^ k \<Longrightarrow> 0 < k \<Longrightarrow> length (str_of_nat n) \<le> k"
proof (induction n arbitrary: k rule: str_of_nat.induct)
  case (1 n)
  show ?case
  proof (cases "n < 10")
    case True
    then show ?thesis using 1(3) by (subst str_of_nat.simps) simp
  next
    case False
    then obtain j where k: "k = Suc j" and j: "0 < j"
      using 1(2,3) by (cases k; cases "k = 1") auto
    then have "n div 10 < 10 ^ j" using 1(2) by auto
    with 1(1) [OF False, of j] j k False show ?thesis
      by (subst str_of_nat.simps) simp
  qed
qed

lemma length_zpad: "n < 10 ^ k \<Longrightarrow> 0 < k \<Longrightarrow> length (zpad k n) = k"
  using length_str_of_nat [of n k] by (simp add: zpad_def)

lemma iso_instant_chars: "CHR ''+'' \<notin> set (iso_instant t)" "CHR ''Z'' \<notin> set (iso_instant t)"
proof -
  have "\<not> is_digit CHR ''+''" "\<not> is_digit CHR ''Z''" by (simp_all add: is_digit_def char_between_def)
  then have "CHR ''+'' \<notin> set (zpad w n) \<and> CHR ''Z'' \<notin> set (zpad w n)" for w n
    using zpad_digits [of w n] by (auto simp: list_all_iff)
  then show "CHR ''+'' \<notin> set (iso_instant t)" "CHR ''Z'' \<notin> set (iso_instant t)"
    by (simp_all add: iso_instant_def)
qed

lemma timestamp_eq: "timestamp t = iso_instant t @ ''Z''"
proof -
  have "py_replace ''+00:00'' ''Z'' ''+00:00'' = ''Z''"
    by (simp add: py_replace.simps [of "''+00:00''" _ "''+00:00''"] py_replace.simps [of _ _ "[]"] py_startswith_def)
  with py_replace_skip [OF iso_instant_chars(1), where cs = "''00:00''"] show ?thesis
    by (simp add: timestamp_def isoformat_def)
qed

lemma iso_instant_inject:
  assumes "valid_datetime s" "valid_datetime t"
  shows "iso_instant s = iso_instant t \<longleftrightarrow> s = t"
proof
  assume eq: "iso_instant s = iso_instant t"
  have two: "length (zpad 2 n) = 2" if "n \<le> 59" for n using that length_zpad [of n 2] by simp
  have four: "length (zpad 4 n) = 4" if "n \<le> 9999" for n using that length_zpad [of n 4] by simp
  have day: "dt_day u \<le> 59" if "valid_datetime u" for u
    using that by (auto simp: valid_datetime_def days_in_month_def split: if_splits)
  show "s = t"
    using eq assms day [OF assms(1)] day [OF assms(2)]
    by (cases s; cases t)
      (auto simp: iso_instant_def valid_datetime_def two four zpad_inject split: if_splits)
qed simp

lemma timestamp_inject:
  "valid_datetime s \<Longrightarrow> valid_datetime t \<Longrightarrow> timestamp s = timestamp t \<longleftrightarrow> s = t"
  by (simp add: timestamp_eq iso_instant_inject)


section \<open>Clocks\<close>

text \<open>
  A reading of the injected clock: naive, which the stores refuse, or aware, given as the instant
  \<open>astimezone(UTC)\<close> returns.
\<close>

datatype clock_reading = Naive | Aware datetime

definition stamp :: "string \<Rightarrow> clock_reading \<Rightarrow> store_error + string" where
  "stamp message now = (case now of Naive \<Rightarrow> Inl (StoreError message) | Aware t \<Rightarrow> Inr (timestamp t))"

end
