(* ===== verification/Attempt_State.thy ===== *)
theory Attempt_State
  imports Timestamps
begin

text \<open>
  The checkpoint of the one active attempt (\<open>attempt_state.py\<close>): its phases, its document with the shapes of
  earlier versions, and the operations of \<open>AttemptStateStore\<close> on the file. The validator
  \<open>datetime.fromisoformat\<close> differs between Python versions in what it accepts; it is the parameter \<open>valid_iso\<close>
  (does it accept this text?), of which the proofs use only that it accepts what \<open>isoformat\<close> writes.
\<close>

section \<open>Phases\<close>

datatype attempt_phase = CLAIMED | SETUP | MODEL_RUNNING | PUSHING | PUBLISHING

fun next_phase :: "attempt_phase \<Rightarrow> attempt_phase option" where
  "next_phase CLAIMED = Some SETUP"
| "next_phase SETUP = Some MODEL_RUNNING"
| "next_phase MODEL_RUNNING = Some PUSHING"
| "next_phase PUSHING = Some PUBLISHING"
| "next_phase PUBLISHING = None"

fun phase_rank :: "attempt_phase \<Rightarrow> nat" where
  "phase_rank CLAIMED = 0"
| "phase_rank SETUP = 1"
| "phase_rank MODEL_RUNNING = 2"
| "phase_rank PUSHING = 3"
| "phase_rank PUBLISHING = 4"

lemma phase_rank_inject: "phase_rank p = phase_rank q \<longleftrightarrow> p = q"
  by (cases p; cases q) simp_all

text \<open>The order in which an attempt goes through its phases.\<close>

instantiation attempt_phase :: linorder
begin

definition less_eq_attempt_phase :: "attempt_phase \<Rightarrow> attempt_phase \<Rightarrow> bool" where
  "p \<le> q \<longleftrightarrow> phase_rank p \<le> phase_rank q"

definition less_attempt_phase :: "attempt_phase \<Rightarrow> attempt_phase \<Rightarrow> bool" where
  "p < q \<longleftrightarrow> phase_rank p < phase_rank q"

instance
  by standard (auto simp: less_eq_attempt_phase_def less_attempt_phase_def phase_rank_inject)

end

lemma next_phase_later: "next_phase p = Some q \<Longrightarrow> p < q"
  by (cases p) (auto simp: less_attempt_phase_def)

fun phase_value :: "attempt_phase \<Rightarrow> string" where
  "phase_value CLAIMED = ''claimed''"
| "phase_value SETUP = ''setup''"
| "phase_value MODEL_RUNNING = ''model_running''"
| "phase_value PUSHING = ''pushing''"
| "phase_value PUBLISHING = ''publishing''"

definition phase_of_value :: "string \<Rightarrow> attempt_phase option" where
  "phase_of_value s = find (\<lambda>p. phase_value p = s) [CLAIMED, SETUP, MODEL_RUNNING, PUSHING, PUBLISHING]"

lemma phase_of_value_value [simp]: "phase_of_value (phase_value p) = Some p"
  by (cases p) (simp_all add: phase_of_value_def)


section \<open>Checkpoints\<close>

record checkpoint =
  ck_issue_number :: int
  ck_branch :: string
  ck_phase :: attempt_phase
  ck_started_at :: string
  ck_updated_at :: string
  ck_auto_merge_opt_in :: bool
  ck_requeue_source :: string
  ck_issue_title :: "string option"
  ck_continuation_index :: "int option"
  ck_attempt_kind :: string
  ck_claim_branch_revision :: "string option"
  ck_claim_lease_recorded :: bool

definition ATTEMPT_KIND_ORDINARY :: string where "ATTEMPT_KIND_ORDINARY = ''ordinary''"

definition ATTEMPT_KIND_CONFLICT :: string where "ATTEMPT_KIND_CONFLICT = ''conflict''"

definition ATTEMPT_KINDS :: "string list" where
  "ATTEMPT_KINDS = [ATTEMPT_KIND_ORDINARY, ATTEMPT_KIND_CONFLICT]"

definition requeue_sources :: "string list" where
  "requeue_sources = [''human'', ''automatic'', ''conflict'']"

definition checkpoint_fields :: "checkpoint \<Rightarrow> obj" where
  "checkpoint_fields c =
     [(''issue_number'', JInt (ck_issue_number c)), (''branch'', JStr (ck_branch c)),
      (''phase'', JStr (phase_value (ck_phase c))), (''started_at'', JStr (ck_started_at c)),
      (''updated_at'', JStr (ck_updated_at c)), (''auto_merge_opt_in'', JBool (ck_auto_merge_opt_in c)),
      (''requeue_source'', JStr (ck_requeue_source c)), (''issue_title'', opt_str (ck_issue_title c)),
      (''continuation_index'', opt_int (ck_continuation_index c)), (''attempt_kind'', JStr (ck_attempt_kind c)),
      (''claim_branch_revision'', opt_str (ck_claim_branch_revision c)),
      (''claim_lease_recorded'', JBool (ck_claim_lease_recorded c))]"

definition checkpoint_to_json :: "checkpoint \<Rightarrow> json" where
  "checkpoint_to_json c = JObj (checkpoint_fields c)"

text \<open>A revision without whitespace that is not blank.\<close>

definition revision_ok :: "string \<Rightarrow> bool" where
  "revision_ok r \<longleftrightarrow> \<not> py_blank r \<and> \<not> list_ex py_space r"

definition parse_timestamp :: "(string \<Rightarrow> bool) \<Rightarrow> string \<Rightarrow> string + unit" where
  "parse_timestamp valid_iso v =
     (if \<not> py_endswith ''Z'' v then Inl ''timestamp must be UTC''
      else if \<not> valid_iso (py_removesuffix ''Z'' v @ ''+00:00'') then Inl ''Invalid isoformat string''
      else Inr ())"

definition required_keys :: "string list" where
  "required_keys = [''issue_number'', ''branch'', ''phase'', ''started_at'', ''updated_at'']"

definition optional_keys :: "string list" where
  "optional_keys = [''auto_merge_opt_in'', ''requeue_source'', ''issue_title'', ''continuation_index'',
     ''attempt_kind'', ''is_conflict_claim'', ''claim_branch_revision'', ''claim_lease_recorded'']"

text \<open>The kind of a document: older shapes have none, or a boolean flag for the conflict claim.\<close>

definition kind_field :: "obj \<Rightarrow> json" where
  "kind_field d = (case jget d ''attempt_kind'' JNull of
     JNull \<Rightarrow> if jget d ''is_conflict_claim'' (JBool False) = JBool True
              then JStr ATTEMPT_KIND_CONFLICT else JStr ATTEMPT_KIND_ORDINARY
   | v \<Rightarrow> v)"

fun positive_int :: "json \<Rightarrow> int option" where
  "positive_int (JInt n) = (if 0 < n then Some n else None)"
| "positive_int v = None"

fun nonblank_str :: "json \<Rightarrow> string option" where
  "nonblank_str (JStr s) = (if py_blank s then None else Some s)"
| "nonblank_str v = None"

fun json_str :: "json \<Rightarrow> string option" where
  "json_str (JStr s) = Some s"
| "json_str v = None"

fun json_bool :: "json \<Rightarrow> bool option" where
  "json_bool (JBool b) = Some b"
| "json_bool v = None"

text \<open>A field that may be \<open>None\<close>: the value, or a rejection.\<close>

definition nullable :: "(json \<Rightarrow> 'a option) \<Rightarrow> json \<Rightarrow> 'a option option" where
  "nullable p v = (if v = JNull then Some None else map_option Some (p v))"

fun nonneg_int :: "json \<Rightarrow> int option" where
  "nonneg_int (JInt n) = (if n < 0 then None else Some n)"
| "nonneg_int v = None"

fun revision_str :: "json \<Rightarrow> string option" where
  "revision_str (JStr s) = (if revision_ok s then Some s else None)"
| "revision_str v = None"

definition check_some :: "'e \<Rightarrow> 'a option \<Rightarrow> ('a \<Rightarrow> 'e + 'b) \<Rightarrow> 'e + 'b" where
  "check_some e v f = (case v of None \<Rightarrow> Inl e | Some x \<Rightarrow> f x)"

definition check_ok :: "'e + unit \<Rightarrow> 'e + 'b \<Rightarrow> 'e + 'b" where
  "check_ok r x = (case r of Inl e \<Rightarrow> Inl e | Inr u \<Rightarrow> x)"

text \<open>
  \<open>_checkpoint_from_json\<close>: the checks in the order of the code, each with its message. A kind that cannot be
  hashed is a \<open>TypeError\<close>, which the caller treats like the others.
\<close>

definition checkpoint_from_json :: "(string \<Rightarrow> bool) \<Rightarrow> json \<Rightarrow> string + checkpoint" where
  "checkpoint_from_json valid_iso v = (case v of
     JObj d \<Rightarrow>
       if \<not> (set required_keys \<subseteq> set (jkeys d) \<and> set (jkeys d) \<subseteq> set required_keys \<union> set optional_keys)
       then Inl ''invalid checkpoint shape''
       else check_some ''invalid issue number'' (positive_int (jget d ''issue_number'' JNull)) (\<lambda>issue_number.
            check_some ''invalid branch'' (nonblank_str (jget d ''branch'' JNull)) (\<lambda>branch.
            check_some ''invalid phase'' (json_str (jget d ''phase'' JNull)) (\<lambda>phase.
            check_some ''invalid timestamps'' (json_str (jget d ''started_at'' JNull)) (\<lambda>started_at.
            check_some ''invalid timestamps'' (json_str (jget d ''updated_at'' JNull)) (\<lambda>updated_at.
            check_some ''invalid auto-merge opt-in'' (json_bool (jget d ''auto_merge_opt_in'' (JBool False))) (\<lambda>auto_merge.
            check_some ''invalid requeue source''
              (find (\<lambda>s. JStr s = jget d ''requeue_source'' (JStr ''human'')) requeue_sources) (\<lambda>source.
            check_some ''invalid issue title'' (nullable json_str (jget d ''issue_title'' JNull)) (\<lambda>title.
            check_some ''invalid continuation index'' (nullable nonneg_int (jget d ''continuation_index'' JNull)) (\<lambda>index.
            check_some ''invalid attempt kind'' (find (\<lambda>s. JStr s = kind_field d) ATTEMPT_KINDS) (\<lambda>kind.
            if jhas d ''is_conflict_claim'' \<and> \<not> in_true_false (jget d ''is_conflict_claim'' JNull)
            then Inl ''invalid conflict-claim flag''
            else check_some ''invalid claim lease flag'' (json_bool (jget d ''claim_lease_recorded'' (JBool False))) (\<lambda>recorded.
            check_some ''invalid claim lease revision'' (nullable revision_str (jget d ''claim_branch_revision'' JNull)) (\<lambda>revision.
            check_ok (parse_timestamp valid_iso started_at) (check_ok (parse_timestamp valid_iso updated_at) (
            check_some ''invalid phase value'' (phase_of_value phase) (\<lambda>ph.
              Inr \<lparr>ck_issue_number = issue_number, ck_branch = branch, ck_phase = ph, ck_started_at = started_at,
                   ck_updated_at = updated_at, ck_auto_merge_opt_in = auto_merge, ck_requeue_source = source,
                   ck_issue_title = title, ck_continuation_index = index, ck_attempt_kind = kind,
                   ck_claim_branch_revision = (if recorded then revision else None),
                   ck_claim_lease_recorded = recorded\<rparr>)))))))))))))))
   | _ \<Rightarrow> Inl ''invalid checkpoint shape'')"


section \<open>The store\<close>

text \<open>The file, and the last timestamp this process issued.\<close>

record attempt_store =
  as_file :: json_file
  as_last :: "datetime option"

type_synonym 'a attempt_op = "(attempt_store, store_error, 'a) comp"

definition on_file :: "(json_file, store_error, 'a) comp \<Rightarrow> 'a attempt_op" where
  "on_file m s = (case m (as_file s) of (r, f) \<Rightarrow> (r, s\<lparr>as_file := f\<rparr>))"

definition read_checkpoint :: "(string \<Rightarrow> bool) \<Rightarrow> checkpoint option attempt_op" where
  "read_checkpoint valid_iso s =
     (if content (as_file s) = Absent then (Inr None, s)
      else if fault (as_file s) = Read_fault then (Inl (StoreError ''Attempt checkpoint could not be read''), s)
      else (case content (as_file s) of
          Not_text \<Rightarrow> (Inl UnicodeDecodeError, s)
        | Doc d \<Rightarrow> (case checkpoint_from_json valid_iso d of
              Inl e \<Rightarrow> (Inl (StoreError ''Attempt checkpoint is malformed''), s)
            | Inr c \<Rightarrow> (Inr (Some c), s))
        | _ \<Rightarrow> (Inl (StoreError ''Attempt checkpoint is malformed''), s)))"

definition write_checkpoint :: "checkpoint \<Rightarrow> unit attempt_op" where
  "write_checkpoint c = on_file (replace_file ''Attempt checkpoint could not be written'' (checkpoint_to_json c))"

definition next_timestamp :: "clock_reading \<Rightarrow> string attempt_op" where
  "next_timestamp now s = (case now of
     Naive \<Rightarrow> (Inl (StoreError ''Attempt timestamp must include a timezone''), s)
   | Aware t \<Rightarrow>
       (case (case as_last s of None \<Rightarrow> Some t | Some l \<Rightarrow> if t \<le> l then tick l else Some t) of
          None \<Rightarrow> (Inl OverflowError, s)
        | Some u \<Rightarrow> (Inr (timestamp u), s\<lparr>as_last := Some u\<rparr>)))"

record start_request =
  rq_issue_number :: int
  rq_branch :: string
  rq_auto_merge_opt_in :: bool
  rq_requeue_source :: string
  rq_issue_title :: "string option"
  rq_continuation_index :: "int option"
  rq_attempt_kind :: string

definition start :: "(string \<Rightarrow> bool) \<Rightarrow> clock_reading \<Rightarrow> start_request \<Rightarrow> checkpoint attempt_op" where
  "start valid_iso now r =
     seq (read_checkpoint valid_iso) (\<lambda>active.
     seq (guard_or (active = None) (StoreError ''An implementation attempt is already active'')) (\<lambda>_.
     seq (guard_or (0 < rq_issue_number r) (StoreError ''Issue number must be a positive integer'')) (\<lambda>_.
     seq (guard_or (\<not> py_blank (rq_branch r)) (StoreError ''Branch must be a non-empty string'')) (\<lambda>_.
     seq (guard_or (rq_requeue_source r \<in> set requeue_sources)
       (StoreError (''Requeue source must be 'human', 'automatic', or 'conflict'' @ [CHR 0x27]))) (\<lambda>_.
     seq (guard_or (case rq_continuation_index r of None \<Rightarrow> True | Some n \<Rightarrow> 0 \<le> n)
       (StoreError ''Continuation index must be a non-negative integer or None'')) (\<lambda>_.
     seq (guard_or (rq_attempt_kind r \<in> set ATTEMPT_KINDS)
       (StoreError (''Attempt kind must be 'ordinary' or 'conflict'' @ [CHR 0x27]))) (\<lambda>_.
     seq (next_timestamp now) (\<lambda>timestamp.
       let c = \<lparr>ck_issue_number = rq_issue_number r, ck_branch = rq_branch r, ck_phase = CLAIMED,
           ck_started_at = timestamp, ck_updated_at = timestamp, ck_auto_merge_opt_in = rq_auto_merge_opt_in r,
           ck_requeue_source = rq_requeue_source r, ck_issue_title = rq_issue_title r,
           ck_continuation_index = rq_continuation_index r, ck_attempt_kind = rq_attempt_kind r,
           ck_claim_branch_revision = None, ck_claim_lease_recorded = False\<rparr>
       in seq (write_checkpoint c) (\<lambda>_. ret c)))))))))"

definition active_checkpoint :: "(string \<Rightarrow> bool) \<Rightarrow> checkpoint attempt_op" where
  "active_checkpoint valid_iso =
     seq (read_checkpoint valid_iso) (\<lambda>active. case active of
       None \<Rightarrow> throw (StoreError ''No implementation attempt is active'')
     | Some c \<Rightarrow> ret c)"

definition transition :: "(string \<Rightarrow> bool) \<Rightarrow> clock_reading \<Rightarrow> attempt_phase \<Rightarrow> checkpoint attempt_op" where
  "transition valid_iso now phase =
     seq (active_checkpoint valid_iso) (\<lambda>c.
     seq (guard_or (next_phase (ck_phase c) = Some phase)
       (StoreError (''Cannot transition from '' @ phase_value (ck_phase c) @ '' to '' @ phase_value phase))) (\<lambda>_.
     seq (next_timestamp now) (\<lambda>timestamp.
       let c' = c\<lparr>ck_phase := phase, ck_updated_at := timestamp\<rparr>
       in seq (write_checkpoint c') (\<lambda>_. ret c'))))"

definition with_claim_lease :: "checkpoint \<Rightarrow> string option \<Rightarrow> string \<Rightarrow> checkpoint" where
  "with_claim_lease c revision updated_at =
     c\<lparr>ck_updated_at := updated_at, ck_claim_branch_revision := revision, ck_claim_lease_recorded := True\<rparr>"

definition validate_claim_lease :: "string option \<Rightarrow> unit attempt_op" where
  "validate_claim_lease revision = (case revision of
     None \<Rightarrow> ret ()
   | Some r \<Rightarrow>
       if py_blank r then throw (StoreError ''Claim lease revision must be a non-empty string or None'')
       else if list_ex py_space r then throw (StoreError ''Claim lease revision must not contain whitespace'')
       else ret ())"

definition record_claim_lease :: "(string \<Rightarrow> bool) \<Rightarrow> clock_reading \<Rightarrow> string option \<Rightarrow> checkpoint attempt_op" where
  "record_claim_lease valid_iso now revision =
     seq (active_checkpoint valid_iso) (\<lambda>c.
     seq (validate_claim_lease revision) (\<lambda>_.
     if ck_claim_lease_recorded c then ret c
     else seq (next_timestamp now) (\<lambda>timestamp.
       let c' = with_claim_lease c revision timestamp
       in seq (write_checkpoint c') (\<lambda>_. ret c'))))"

definition advance_claim_lease :: "(string \<Rightarrow> bool) \<Rightarrow> clock_reading \<Rightarrow> string option \<Rightarrow> checkpoint attempt_op" where
  "advance_claim_lease valid_iso now revision =
     seq (active_checkpoint valid_iso) (\<lambda>c.
     seq (guard_or (revision \<noteq> None) (StoreError ''Claim lease advance requires a revision'')) (\<lambda>_.
     seq (validate_claim_lease revision) (\<lambda>_.
     seq (next_timestamp now) (\<lambda>timestamp.
       let c' = with_claim_lease c revision timestamp
       in seq (write_checkpoint c') (\<lambda>_. ret c')))))"

definition delete_checkpoint :: "unit attempt_op" where
  "delete_checkpoint = on_file (unlink_file ''Attempt checkpoint could not be deleted'')"

end
