(* ===== verification/Attempt_Props.thy ===== *)
theory Attempt_Props
  imports Attempt_State
begin

text \<open>
  Properties of the attempt checkpoint: decoding undoes encoding, every state the store reaches holds nothing or
  a legal checkpoint, phases only move forward, the first recorded claim lease stays, and no two timestamps of a
  process are the same.
\<close>

section \<open>Legal checkpoints\<close>

text \<open>What the model relies on of \<open>datetime.fromisoformat\<close>: it accepts what \<open>isoformat\<close> writes.\<close>

definition iso_accepts :: "(string \<Rightarrow> bool) \<Rightarrow> bool" where
  "iso_accepts valid_iso \<longleftrightarrow> (\<forall>t. valid_datetime t \<longrightarrow> valid_iso (isoformat t))"

definition legal_checkpoint :: "(string \<Rightarrow> bool) \<Rightarrow> checkpoint \<Rightarrow> bool" where
  "legal_checkpoint valid_iso c \<longleftrightarrow>
     0 < ck_issue_number c \<and> \<not> py_blank (ck_branch c)
     \<and> parse_timestamp valid_iso (ck_started_at c) = Inr () \<and> parse_timestamp valid_iso (ck_updated_at c) = Inr ()
     \<and> ck_requeue_source c \<in> set requeue_sources
     \<and> (case ck_continuation_index c of None \<Rightarrow> True | Some n \<Rightarrow> 0 \<le> n)
     \<and> ck_attempt_kind c \<in> set ATTEMPT_KINDS
     \<and> (case ck_claim_branch_revision c of None \<Rightarrow> True | Some r \<Rightarrow> ck_claim_lease_recorded c \<and> revision_ok r)"

lemma parse_timestamp_stamp:
  assumes "iso_accepts valid_iso" "valid_datetime t"
  shows "parse_timestamp valid_iso (timestamp t) = Inr ()"
proof -
  have "py_endswith ''Z'' (timestamp t)"
    by (simp add: timestamp_eq py_endswith_def py_startswith_def)
  moreover from this have "py_removesuffix ''Z'' (timestamp t) @ ''+00:00'' = isoformat t"
    by (simp add: py_removesuffix_def timestamp_eq isoformat_def)
  ultimately show ?thesis
    using assms by (simp add: parse_timestamp_def iso_accepts_def)
qed

lemma find_member: "x \<in> set xs \<Longrightarrow> find (\<lambda>s. s = x) xs = Some x"
  by (induction xs) auto

lemma nullable_str [simp]: "nullable json_str (opt_str v) = Some v"
  by (cases v) (simp_all add: nullable_def)

lemma nullable_int [simp]:
  "(case i of None \<Rightarrow> True | Some n \<Rightarrow> 0 \<le> n) \<Longrightarrow> nullable nonneg_int (opt_int i) = Some i"
  by (cases i) (simp_all add: nullable_def)

lemma nullable_revision [simp]:
  "(case v of None \<Rightarrow> True | Some r \<Rightarrow> revision_ok r) \<Longrightarrow> nullable revision_str (opt_str v) = Some v"
  by (cases v) (simp_all add: nullable_def)

lemma check_some_Some [simp]: "check_some e (Some x) f = f x" "check_ok (Inr ()) y = y"
  by (simp_all add: check_some_def check_ok_def)

lemma canonical_checkpoint: "canonical (checkpoint_to_json c) = JObj (sort_key fst (checkpoint_fields c))"
  unfolding checkpoint_to_json_def by (rule canonical_flat_obj) (auto simp: checkpoint_fields_def)

lemma distinct_checkpoint_keys: "distinct (map fst (checkpoint_fields c))"
  by (simp add: checkpoint_fields_def)

lemma decode_encode_checkpoint:
  assumes "legal_checkpoint valid_iso c"
  shows "checkpoint_from_json valid_iso (canonical (checkpoint_to_json c)) = Inr c"
proof -
  let ?d = "sort_key fst (checkpoint_fields c)"
  have keys: "set (jkeys ?d) = set (map fst (checkpoint_fields c))" by (simp add: jkeys_def)
  have get: "jget ?d k v = jget (checkpoint_fields c) k v" for k v
    by (rule jget_sort [OF distinct_checkpoint_keys])
  have kind: "kind_field ?d = JStr (ck_attempt_kind c)"
    by (simp add: kind_field_def get) (simp add: jget_def checkpoint_fields_def)
  have no_flag: "\<not> jhas ?d ''is_conflict_claim''"
    by (simp add: jhas_def map_of_eq_None_iff) (auto simp: checkpoint_fields_def)
  have shape: "set required_keys \<subseteq> set (jkeys ?d) \<and> set (jkeys ?d) \<subseteq> set required_keys \<union> set optional_keys"
    unfolding keys by (simp add: checkpoint_fields_def required_keys_def optional_keys_def)
  from assms have revision: "case ck_claim_branch_revision c of None \<Rightarrow> True | Some r \<Rightarrow> revision_ok r"
    and unrecorded: "\<not> ck_claim_lease_recorded c \<Longrightarrow> ck_claim_branch_revision c = None"
    by (auto simp: legal_checkpoint_def split: option.splits)
  show ?thesis
    using assms unrecorded revision
    unfolding canonical_checkpoint checkpoint_from_json_def json.case kind get legal_checkpoint_def
    by (simp add: shape no_flag) (simp add: jget_def checkpoint_fields_def find_member)
qed

interpretation checkpoint_file: json_store checkpoint_to_json "checkpoint_from_json valid_iso" "legal_checkpoint valid_iso"
  for valid_iso
  by unfold_locales (rule decode_encode_checkpoint)


section \<open>The store over time\<close>

text \<open>What may happen to a store: its operations, a restart of the process, and faults of the operating system.\<close>

datatype attempt_event =
    Start clock_reading start_request
  | Transition clock_reading attempt_phase
  | Record_lease clock_reading "string option"
  | Advance_lease clock_reading "string option"
  | Delete
  | Restart
  | Fault io_fault

fun attempt_exec :: "(string \<Rightarrow> bool) \<Rightarrow> attempt_event \<Rightarrow> attempt_store \<Rightarrow> attempt_store" where
  "attempt_exec valid_iso (Start now r) s = snd (start valid_iso now r s)"
| "attempt_exec valid_iso (Transition now p) s = snd (transition valid_iso now p s)"
| "attempt_exec valid_iso (Record_lease now r) s = snd (record_claim_lease valid_iso now r s)"
| "attempt_exec valid_iso (Advance_lease now r) s = snd (advance_claim_lease valid_iso now r s)"
| "attempt_exec valid_iso Delete s = snd (delete_checkpoint s)"
| "attempt_exec valid_iso Restart s = s\<lparr>as_last := None\<rparr>"
| "attempt_exec valid_iso (Fault x) s = s\<lparr>as_file := (as_file s)\<lparr>fault := x\<rparr>\<rparr>"

fun reading_ok :: "clock_reading \<Rightarrow> bool" where
  "reading_ok Naive = True"
| "reading_ok (Aware t) = valid_datetime t"

fun attempt_reading :: "attempt_event \<Rightarrow> clock_reading" where
  "attempt_reading (Start now r) = now"
| "attempt_reading (Transition now p) = now"
| "attempt_reading (Record_lease now r) = now"
| "attempt_reading (Advance_lease now r) = now"
| "attempt_reading _ = Naive"

inductive attempt_step :: "(string \<Rightarrow> bool) \<Rightarrow> attempt_store \<Rightarrow> attempt_store \<Rightarrow> bool" for valid_iso where
  "reading_ok (attempt_reading e) \<Longrightarrow> attempt_step valid_iso s (attempt_exec valid_iso e s)"

definition new_attempt_store :: "attempt_store \<Rightarrow> bool" where
  "new_attempt_store s \<longleftrightarrow> content (as_file s) = Absent \<and> as_last s = None"

definition attempt_ok :: "(string \<Rightarrow> bool) \<Rightarrow> attempt_store \<Rightarrow> bool" where
  "attempt_ok valid_iso s \<longleftrightarrow> iso_accepts valid_iso \<and> checkpoint_file.stored valid_iso (content (as_file s))
     \<and> (\<forall>t. as_last s = Some t \<longrightarrow> valid_datetime t)"

lemma keeps_read [keep_rules]:
  "keeps (attempt_ok valid_iso) (read_checkpoint valid_iso) (\<lambda>v. \<forall>c. v = Some c \<longrightarrow> legal_checkpoint valid_iso c)"
  by (rule keepsI) (auto simp: read_checkpoint_def attempt_ok_def elim: checkpoint_file.stored_cases
      split: file_state.splits sum.splits)

lemma keeps_active [keep_rules]:
  "keeps (attempt_ok valid_iso) (active_checkpoint valid_iso) (legal_checkpoint valid_iso)"
  unfolding active_checkpoint_def
  by (rule keeps_seq [OF keeps_read]) (auto intro: keep_rules split: option.split)

lemma keeps_next_timestamp [keep_rules]:
  "reading_ok now \<Longrightarrow> keeps (attempt_ok valid_iso) (next_timestamp now) (\<lambda>v. parse_timestamp valid_iso v = Inr ())"
  by (rule keepsI) (auto simp: next_timestamp_def attempt_ok_def parse_timestamp_stamp tick_valid
      split: clock_reading.splits option.splits)

lemma keeps_write [keep_rules]:
  assumes "legal_checkpoint valid_iso c"
  shows "keeps (attempt_ok valid_iso) (write_checkpoint c) (\<lambda>u. True)"
  using assms
  by (intro keepsI) (auto simp: write_checkpoint_def on_file_def attempt_ok_def
      intro: checkpoint_file.stored_replace split: prod.split)

lemma keeps_delete [keep_rules]: "keeps (attempt_ok valid_iso) delete_checkpoint (\<lambda>u. True)"
  by (intro keepsI) (auto simp: delete_checkpoint_def on_file_def attempt_ok_def
      intro: checkpoint_file.stored_unlink split: prod.split)

lemma keeps_validate [keep_rules]:
  "keeps (attempt_ok valid_iso) (validate_claim_lease revision) (\<lambda>u. case revision of None \<Rightarrow> True | Some r \<Rightarrow> revision_ok r)"
  unfolding validate_claim_lease_def by (auto intro: keep_rules simp: revision_ok_def split: option.split)

lemma legal_with_claim_lease:
  "legal_checkpoint valid_iso c \<Longrightarrow> parse_timestamp valid_iso v = Inr () \<Longrightarrow>
     (case revision of None \<Rightarrow> True | Some r \<Rightarrow> revision_ok r) \<Longrightarrow> legal_checkpoint valid_iso (with_claim_lease c revision v)"
  by (auto simp: legal_checkpoint_def with_claim_lease_def split: option.splits)

lemma legal_transition:
  "legal_checkpoint valid_iso c \<Longrightarrow> parse_timestamp valid_iso v = Inr () \<Longrightarrow>
     legal_checkpoint valid_iso (c\<lparr>ck_phase := p, ck_updated_at := v\<rparr>)"
  by (auto simp: legal_checkpoint_def split: option.splits)

lemma keeps_start:
  assumes "reading_ok now"
  shows "keeps (attempt_ok valid_iso) (start valid_iso now r) (legal_checkpoint valid_iso)"
  unfolding start_def Let_def using assms
  by (auto intro!: keep_rules simp: legal_checkpoint_def)

lemma keeps_transition:
  assumes "reading_ok now"
  shows "keeps (attempt_ok valid_iso) (transition valid_iso now p) (legal_checkpoint valid_iso)"
  unfolding transition_def Let_def using assms
  by (auto intro!: keep_rules legal_transition)

lemma keeps_record:
  assumes "reading_ok now"
  shows "keeps (attempt_ok valid_iso) (record_claim_lease valid_iso now r) (legal_checkpoint valid_iso)"
  unfolding record_claim_lease_def Let_def using assms
  by (auto intro!: keep_rules legal_with_claim_lease)

lemma keeps_advance:
  assumes "reading_ok now"
  shows "keeps (attempt_ok valid_iso) (advance_claim_lease valid_iso now r) (legal_checkpoint valid_iso)"
  unfolding advance_claim_lease_def Let_def using assms
  by (auto intro!: keep_rules legal_with_claim_lease)

lemma attempt_exec_ok:
  assumes "attempt_ok valid_iso s" "reading_ok (attempt_reading e)"
  shows "attempt_ok valid_iso (attempt_exec valid_iso e s)"
proof (cases e)
  case Restart
  with assms show ?thesis by (simp add: attempt_ok_def)
next
  case (Fault x)
  with assms show ?thesis by (simp add: attempt_ok_def)
qed (use assms in \<open>auto intro: keeps_state keeps_start keeps_transition keeps_record keeps_advance keeps_delete\<close>)

inductive_cases attempt_stepE: "attempt_step valid_iso s t"

interpretation attempt: invariant_system "\<lambda>s. iso_accepts valid_iso \<and> new_attempt_store s" "attempt_step valid_iso"
  "attempt_ok valid_iso" for valid_iso
proof
  show "iso_accepts valid_iso \<and> new_attempt_store s \<Longrightarrow> attempt_ok valid_iso s" for s
    by (simp add: attempt_ok_def new_attempt_store_def checkpoint_file.stored_Absent)
  show "attempt_ok valid_iso s \<Longrightarrow> attempt_step valid_iso s t \<Longrightarrow> attempt_ok valid_iso t" for s t
    by (auto elim!: attempt_stepE intro: attempt_exec_ok)
qed

text \<open>The checkpoint the file holds.\<close>

definition active :: "(string \<Rightarrow> bool) \<Rightarrow> attempt_store \<Rightarrow> checkpoint option" where
  "active valid_iso s = (case content (as_file s) of
     Doc d \<Rightarrow> (case checkpoint_from_json valid_iso d of Inl e \<Rightarrow> None | Inr c \<Rightarrow> Some c)
   | _ \<Rightarrow> None)"

lemma active_legal: "attempt_ok valid_iso s \<Longrightarrow> active valid_iso s = Some c \<Longrightarrow> legal_checkpoint valid_iso c"
  by (auto simp: active_def attempt_ok_def elim!: checkpoint_file.stored_cases)

lemma read_ok:
  assumes "attempt_ok valid_iso s"
  shows "read_checkpoint valid_iso s =
    (if active valid_iso s \<noteq> None \<and> fault (as_file s) = Read_fault
     then Inl (StoreError ''Attempt checkpoint could not be read'') else Inr (active valid_iso s), s)"
  using assms by (auto simp: attempt_ok_def read_checkpoint_def active_def elim!: checkpoint_file.stored_cases)

lemma active_write:
  assumes "legal_checkpoint valid_iso c"
  shows "active valid_iso (snd (write_checkpoint c s)) = (case fst (write_checkpoint c s) of
    Inl e \<Rightarrow> active valid_iso s | Inr u \<Rightarrow> Some c)"
  using assms
  by (auto simp: write_checkpoint_def on_file_def active_def replace_file_def checkpoint_file.decode_encode
      split: io_fault.splits)

lemma active_next_timestamp [simp]: "active valid_iso (snd (next_timestamp now s)) = active valid_iso s"
  by (auto simp: next_timestamp_def active_def split: clock_reading.splits option.splits)

text \<open>Writing a legal checkpoint with a fresh timestamp: the one file effect of every operation.\<close>

definition stamp_and_write :: "clock_reading \<Rightarrow> (string \<Rightarrow> checkpoint) \<Rightarrow> checkpoint attempt_op" where
  "stamp_and_write now f = seq (next_timestamp now) (\<lambda>v. seq (write_checkpoint (f v)) (\<lambda>_. ret (f v)))"

lemma active_stamp_and_write:
  assumes "attempt_ok valid_iso s" "reading_ok now"
    and "\<And>v. parse_timestamp valid_iso v = Inr () \<Longrightarrow> legal_checkpoint valid_iso (f v)"
  shows "active valid_iso (snd (stamp_and_write now f s)) = active valid_iso s
    \<or> (\<exists>v. active valid_iso (snd (stamp_and_write now f s)) = Some (f v))"
proof (cases "next_timestamp now s")
  case (Pair r t)
  then have t: "active valid_iso t = active valid_iso s" using active_next_timestamp [of valid_iso now s] by simp
  show ?thesis
  proof (cases r)
    case (Inl e)
    with Pair t show ?thesis by (simp add: stamp_and_write_def seq_def)
  next
    case (Inr v)
    with Pair keeps_next_timestamp [OF assms(2), of valid_iso] assms(1) have "parse_timestamp valid_iso v = Inr ()"
      unfolding keeps_def by (metis fst_conv)
    from active_write [OF assms(3) [OF this], of t] show ?thesis
      using Pair Inr t
      by (cases "write_checkpoint (f v) t") (auto simp: stamp_and_write_def seq_def ret_def split: sum.splits)
  qed
qed

lemma transition_alt:
  "transition valid_iso now p = seq (active_checkpoint valid_iso) (\<lambda>c.
     seq (guard_or (next_phase (ck_phase c) = Some p)
       (StoreError (''Cannot transition from '' @ phase_value (ck_phase c) @ '' to '' @ phase_value p))) (\<lambda>_.
     stamp_and_write now (\<lambda>v. c\<lparr>ck_phase := p, ck_updated_at := v\<rparr>)))"
  by (simp add: transition_def stamp_and_write_def Let_def)

lemma record_alt:
  "record_claim_lease valid_iso now revision = seq (active_checkpoint valid_iso) (\<lambda>c.
     seq (validate_claim_lease revision) (\<lambda>_.
     if ck_claim_lease_recorded c then ret c else stamp_and_write now (with_claim_lease c revision)))"
  unfolding record_claim_lease_def stamp_and_write_def Let_def by (rule refl)

lemma advance_alt:
  "advance_claim_lease valid_iso now revision = seq (active_checkpoint valid_iso) (\<lambda>c.
     seq (guard_or (revision \<noteq> None) (StoreError ''Claim lease advance requires a revision'')) (\<lambda>_.
     seq (validate_claim_lease revision) (\<lambda>_. stamp_and_write now (with_claim_lease c revision))))"
  by (simp add: advance_claim_lease_def stamp_and_write_def Let_def)

lemma active_checkpoint_ok:
  assumes "attempt_ok valid_iso s"
  shows "active_checkpoint valid_iso s = (case active valid_iso s of
     None \<Rightarrow> Inl (StoreError ''No implementation attempt is active'')
   | Some c \<Rightarrow> if fault (as_file s) = Read_fault then Inl (StoreError ''Attempt checkpoint could not be read'') else Inr c, s)"
  by (simp add: active_checkpoint_def seq_def read_ok [OF assms] ret_def throw_def split: option.split)

lemma validate_cases:
  "validate_claim_lease revision s =
     (if case revision of None \<Rightarrow> True | Some r \<Rightarrow> revision_ok r then Inr ()
      else fst (validate_claim_lease revision s), s)
   \<and> ((case revision of None \<Rightarrow> True | Some r \<Rightarrow> revision_ok r) \<or> (\<exists>e. fst (validate_claim_lease revision s) = Inl e))"
  by (auto simp: validate_claim_lease_def revision_ok_def ret_def throw_def split: option.splits)

lemma transition_effect:
  assumes "attempt_ok valid_iso s" "reading_ok now"
  shows "active valid_iso (snd (transition valid_iso now p s)) = active valid_iso s
    \<or> (\<exists>c v. active valid_iso s = Some c \<and> next_phase (ck_phase c) = Some p
        \<and> active valid_iso (snd (transition valid_iso now p s)) = Some (c\<lparr>ck_phase := p, ck_updated_at := v\<rparr>))"
proof (cases "active valid_iso s")
  case (Some c)
  from active_legal [OF assms(1) this] have "parse_timestamp valid_iso v = Inr () \<Longrightarrow>
      legal_checkpoint valid_iso (c\<lparr>ck_phase := p, ck_updated_at := v\<rparr>)" for v by (rule legal_transition)
  from active_stamp_and_write [OF assms this] Some show ?thesis
    by (auto simp: transition_alt seq_def [of "active_checkpoint valid_iso"] active_checkpoint_ok [OF assms(1)]
        seq_def [of "guard_or _ _"] guard_or_run)
qed (simp add: transition_alt seq_def active_checkpoint_ok [OF assms(1)])

lemma lease_effect:
  assumes "attempt_ok valid_iso s" "reading_ok now" "active valid_iso s = Some c"
    and "case revision of None \<Rightarrow> True | Some r \<Rightarrow> revision_ok r"
  shows "active valid_iso (snd (stamp_and_write now (with_claim_lease c revision) s)) = active valid_iso s
    \<or> (\<exists>v. active valid_iso (snd (stamp_and_write now (with_claim_lease c revision) s)) = Some (with_claim_lease c revision v))"
  using legal_with_claim_lease [OF active_legal [OF assms(1,3)] _ assms(4)]
  by (rule active_stamp_and_write [OF assms(1,2)])

lemma record_effect:
  assumes "attempt_ok valid_iso s" "reading_ok now"
  shows "active valid_iso (snd (record_claim_lease valid_iso now r s)) = active valid_iso s
    \<or> (\<exists>c v. active valid_iso s = Some c \<and> \<not> ck_claim_lease_recorded c
        \<and> active valid_iso (snd (record_claim_lease valid_iso now r s)) = Some (with_claim_lease c r v))"
proof (cases "active valid_iso s")
  case (Some c)
  show ?thesis
    using lease_effect [OF assms Some, of r] Some validate_cases [of r s]
    by (auto simp: record_alt seq_def active_checkpoint_ok [OF assms(1)] ret_def split: prod.splits sum.splits if_splits)
qed (simp add: record_alt seq_def active_checkpoint_ok [OF assms(1)])

lemma advance_effect:
  assumes "attempt_ok valid_iso s" "reading_ok now"
  shows "active valid_iso (snd (advance_claim_lease valid_iso now r s)) = active valid_iso s
    \<or> (\<exists>c v. active valid_iso s = Some c \<and> r \<noteq> None
        \<and> active valid_iso (snd (advance_claim_lease valid_iso now r s)) = Some (with_claim_lease c r v))"
proof (cases "active valid_iso s")
  case (Some c)
  show ?thesis
    using lease_effect [OF assms Some, of r] Some validate_cases [of r s]
    by (auto simp: advance_alt seq_def guard_or_def active_checkpoint_ok [OF assms(1)] ret_def throw_def
        split: prod.splits sum.splits if_splits)
qed (simp add: advance_alt seq_def active_checkpoint_ok [OF assms(1)])

lemma start_effect:
  assumes "attempt_ok valid_iso s" "reading_ok now"
  shows "active valid_iso (snd (start valid_iso now r s)) = active valid_iso s
    \<or> (\<exists>c. active valid_iso s = None \<and> active valid_iso (snd (start valid_iso now r s)) = Some c
        \<and> ck_phase c = CLAIMED \<and> \<not> ck_claim_lease_recorded c)"
proof -
  let ?c = "\<lambda>v. \<lparr>ck_issue_number = rq_issue_number r, ck_branch = rq_branch r, ck_phase = CLAIMED,
           ck_started_at = v, ck_updated_at = v, ck_auto_merge_opt_in = rq_auto_merge_opt_in r,
           ck_requeue_source = rq_requeue_source r, ck_issue_title = rq_issue_title r,
           ck_continuation_index = rq_continuation_index r, ck_attempt_kind = rq_attempt_kind r,
           ck_claim_branch_revision = None, ck_claim_lease_recorded = False\<rparr>"
  have wrote: "active valid_iso (snd (stamp_and_write now ?c s)) = active valid_iso s
      \<or> (\<exists>v. active valid_iso (snd (stamp_and_write now ?c s)) = Some (?c v))"
    if "0 < rq_issue_number r" "\<not> py_blank (rq_branch r)" "rq_requeue_source r \<in> set requeue_sources"
      "case rq_continuation_index r of None \<Rightarrow> True | Some n \<Rightarrow> 0 \<le> n" "rq_attempt_kind r \<in> set ATTEMPT_KINDS"
    by (rule active_stamp_and_write [OF assms]) (use that in \<open>simp add: legal_checkpoint_def\<close>)
  have run: "start valid_iso now r s = (if active valid_iso s \<noteq> None then (fst (start valid_iso now r s), s)
      else if 0 < rq_issue_number r \<and> \<not> py_blank (rq_branch r) \<and> rq_requeue_source r \<in> set requeue_sources
          \<and> (case rq_continuation_index r of None \<Rightarrow> True | Some n \<Rightarrow> 0 \<le> n) \<and> rq_attempt_kind r \<in> set ATTEMPT_KINDS
      then stamp_and_write now ?c s else (fst (start valid_iso now r s), s))"
    by (auto simp: start_def seq_def [of "read_checkpoint valid_iso"] read_ok [OF assms(1)] seq_def [of "guard_or _ _"]
        guard_or_run stamp_and_write_def Let_def)
  show ?thesis
  proof (cases "active valid_iso s")
    case None
    with wrote show ?thesis by (subst run, subst (2) run) auto
  next
    case (Some c)
    then show ?thesis by (subst run) simp
  qed
qed


section \<open>Properties\<close>

abbreviation attempt_reachable :: "(string \<Rightarrow> bool) \<Rightarrow> attempt_store \<Rightarrow> bool" where
  "attempt_reachable valid_iso \<equiv> reach (\<lambda>s. iso_accepts valid_iso \<and> new_attempt_store s) (attempt_step valid_iso)"

definition empty_attempt_store :: attempt_store where
  "empty_attempt_store = \<lparr>as_file = \<lparr>content = Absent, fault = No_fault\<rparr>, as_last = None\<rparr>"

lemma attempt_reachable_run:
  assumes "iso_accepts valid_iso" "list_all (\<lambda>e. reading_ok (attempt_reading e)) es"
  shows "attempt_reachable valid_iso (fold (attempt_exec valid_iso) es empty_attempt_store)"
proof -
  have "attempt_reachable valid_iso s \<Longrightarrow> attempt_reachable valid_iso (fold (attempt_exec valid_iso) es s)" for s
    using assms(2) by (induction es arbitrary: s) (auto intro: reach_step attempt_step.intros)
  moreover have "attempt_reachable valid_iso empty_attempt_store"
    using assms(1) by (intro reach_init) (simp add: empty_attempt_store_def new_attempt_store_def)
  ultimately show ?thesis by blast
qed

lemma iso_accepts_all: "iso_accepts (\<lambda>v. True)"
  by (simp add: iso_accepts_def)

definition demo_instant :: datetime where
  "demo_instant = Datetime 2026 1 31 23 59 59 999999"

definition demo_request :: start_request where
  "demo_request = \<lparr>rq_issue_number = 7, rq_branch = ''agent/7'', rq_auto_merge_opt_in = True,
     rq_requeue_source = ''human'', rq_issue_title = None, rq_continuation_index = Some 0,
     rq_attempt_kind = ''ordinary''\<rparr>"

definition demo_store :: attempt_store where
  "demo_store = attempt_exec (\<lambda>v. True) (Start (Aware demo_instant) demo_request) empty_attempt_store"

lemma demo_instant_ok: "valid_datetime demo_instant"
  by (simp add: demo_instant_def valid_datetime_def days_in_month_def)

lemma demo_reachable: "attempt_reachable (\<lambda>v. True) demo_store"
  using attempt_reachable_run [OF iso_accepts_all, of "[Start (Aware demo_instant) demo_request]"]
  by (simp add: demo_store_def demo_instant_ok)

definition demo_checkpoint :: checkpoint where
  "demo_checkpoint = \<lparr>ck_issue_number = 7, ck_branch = ''agent/7'', ck_phase = CLAIMED,
     ck_started_at = timestamp demo_instant, ck_updated_at = timestamp demo_instant, ck_auto_merge_opt_in = True,
     ck_requeue_source = ''human'', ck_issue_title = None, ck_continuation_index = Some 0,
     ck_attempt_kind = ''ordinary'', ck_claim_branch_revision = None, ck_claim_lease_recorded = False\<rparr>"

lemma not_blank_agent: "\<not> py_blank ''agent/7''"
  by (simp add: py_blank_iff py_space_def)

lemma demo_store_eq: "demo_store = \<lparr>as_file = \<lparr>content = Doc (canonical (checkpoint_to_json demo_checkpoint)), fault = No_fault\<rparr>,
    as_last = Some demo_instant\<rparr>"
  unfolding demo_checkpoint_def
  by (simp add: demo_store_def start_def seq_def guard_or_def ret_def read_checkpoint_def empty_attempt_store_def
      demo_request_def not_blank_agent requeue_sources_def ATTEMPT_KINDS_def ATTEMPT_KIND_ORDINARY_def next_timestamp_def
      Let_def write_checkpoint_def on_file_def replace_file_def)

lemma legal_demo: "legal_checkpoint (\<lambda>v. True) demo_checkpoint"
  using parse_timestamp_stamp [OF iso_accepts_all demo_instant_ok]
  by (simp add: legal_checkpoint_def demo_checkpoint_def not_blank_agent requeue_sources_def ATTEMPT_KINDS_def ATTEMPT_KIND_ORDINARY_def)

lemma demo_active: "active (\<lambda>v. True) demo_store = Some demo_checkpoint"
  by (simp add: demo_store_eq active_def checkpoint_file.decode_encode legal_demo)

text \<open>
  C15. A checkpoint survives the file: decoding the sorted document of a legal checkpoint returns exactly that
  checkpoint, so two legal checkpoints with the same document are equal.
\<close>

theorem checkpoint_roundtrip:
  assumes "legal_checkpoint valid_iso c"
  shows "checkpoint_from_json valid_iso (canonical (checkpoint_to_json c)) = Inr c"
  using assms by (rule checkpoint_file.decode_encode)

theorem checkpoint_roundtrip_witness:
  "checkpoint_from_json (\<lambda>v. True) (canonical (checkpoint_to_json
     \<lparr>ck_issue_number = 7, ck_branch = ''b'', ck_phase = PUSHING, ck_started_at = ''aZ'', ck_updated_at = ''bZ'',
      ck_auto_merge_opt_in = True, ck_requeue_source = ''conflict'', ck_issue_title = Some ''t'',
      ck_continuation_index = Some 2, ck_attempt_kind = ''conflict'', ck_claim_branch_revision = Some ''abc'',
      ck_claim_lease_recorded = True\<rparr>))
   = Inr \<lparr>ck_issue_number = 7, ck_branch = ''b'', ck_phase = PUSHING, ck_started_at = ''aZ'', ck_updated_at = ''bZ'',
      ck_auto_merge_opt_in = True, ck_requeue_source = ''conflict'', ck_issue_title = Some ''t'',
      ck_continuation_index = Some 2, ck_attempt_kind = ''conflict'', ck_claim_branch_revision = Some ''abc'',
      ck_claim_lease_recorded = True\<rparr>"
  by (rule checkpoint_roundtrip)
    (simp add: legal_checkpoint_def parse_timestamp_def py_endswith_def py_startswith_def py_blank_iff py_space_def
      requeue_sources_def ATTEMPT_KINDS_def ATTEMPT_KIND_ORDINARY_def ATTEMPT_KIND_CONFLICT_def revision_ok_def)

text \<open>
  The store never finds its own file malformed: whatever operations, restarts and faults came before, reading
  returns the active checkpoint, which is legal, or that there is none; only a fault of the read itself raises.
\<close>

theorem attempt_store_readable:
  assumes "attempt_reachable valid_iso s"
  shows "case read_checkpoint valid_iso s of (r, t) \<Rightarrow> t = s \<and>
    (case r of
       Inl e \<Rightarrow> e = StoreError ''Attempt checkpoint could not be read'' \<and> fault (as_file s) = Read_fault
     | Inr None \<Rightarrow> content (as_file s) = Absent
     | Inr (Some c) \<Rightarrow> legal_checkpoint valid_iso c \<and> content (as_file s) = Doc (canonical (checkpoint_to_json c)))"
proof -
  from attempt.reach_inv [OF assms] have ok: "attempt_ok valid_iso s" .
  then show ?thesis
    by (auto simp: read_checkpoint_def attempt_ok_def checkpoint_file.stored_def checkpoint_file.decode_encode)
qed

theorem attempt_store_readable_witness:
  "active (\<lambda>v. True) demo_store \<noteq> None \<and>
     (case read_checkpoint (\<lambda>v. True) demo_store of (r, t) \<Rightarrow> t = demo_store \<and>
      (case r of
         Inl e \<Rightarrow> e = StoreError ''Attempt checkpoint could not be read'' \<and> fault (as_file demo_store) = Read_fault
       | Inr None \<Rightarrow> content (as_file demo_store) = Absent
       | Inr (Some c) \<Rightarrow> legal_checkpoint (\<lambda>v. True) c \<and> content (as_file demo_store) = Doc (canonical (checkpoint_to_json c))))"
  using attempt_store_readable [OF demo_reachable] by (simp add: demo_active)

text \<open>
  What one step can do to the active attempt: a new one starts only when there is none, claimed and without a
  lease; one disappears only by deletion; otherwise its identity stays, its phase stays or becomes the next one,
  and a recorded lease stays recorded and changes only by advancing it after a push.
\<close>

theorem attempt_step_effect:
  assumes "attempt_reachable valid_iso s" "reading_ok (attempt_reading e)"
  shows "case (active valid_iso s, active valid_iso (attempt_exec valid_iso e s)) of
      (None, None) \<Rightarrow> True
    | (None, Some c') \<Rightarrow> (\<exists>now r. e = Start now r) \<and> ck_phase c' = CLAIMED \<and> \<not> ck_claim_lease_recorded c'
    | (Some c, None) \<Rightarrow> e = Delete
    | (Some c, Some c') \<Rightarrow>
        c' = c\<lparr>ck_phase := ck_phase c', ck_updated_at := ck_updated_at c',
               ck_claim_branch_revision := ck_claim_branch_revision c', ck_claim_lease_recorded := ck_claim_lease_recorded c'\<rparr>
        \<and> ck_phase c' \<in> {ck_phase c} \<union> set_option (next_phase (ck_phase c)) \<and> ck_phase c \<le> ck_phase c'
        \<and> (\<not> ck_claim_lease_recorded c \<or> ck_claim_lease_recorded c'
             \<and> (ck_claim_branch_revision c' = ck_claim_branch_revision c
                \<or> (\<exists>now r. e = Advance_lease now (Some r) \<and> ck_claim_branch_revision c' = Some r)))"
proof -
  from attempt.reach_inv [OF assms(1)] have ok: "attempt_ok valid_iso s" .
  note effect_simps = with_claim_lease_def next_phase_later [THEN less_imp_le]
  show ?thesis
  proof (cases e)
    case (Start now r)
    with start_effect [OF ok, of now r] assms(2) show ?thesis by (cases "active valid_iso s") auto
  next
    case (Transition now p)
    with transition_effect [OF ok, of now p] assms(2) show ?thesis
      by (cases "active valid_iso s") (auto simp: effect_simps)
  next
    case (Record_lease now r)
    with record_effect [OF ok, of now r] assms(2) show ?thesis
      by (cases "active valid_iso s") (auto simp: effect_simps)
  next
    case (Advance_lease now r)
    with advance_effect [OF ok, of now r] assms(2) show ?thesis
      by (cases "active valid_iso s") (auto simp: effect_simps)
  next
    case Delete
    then show ?thesis
      by (auto simp: delete_checkpoint_def on_file_def unlink_file_def active_def split: option.splits)
  qed (simp_all add: active_def split: option.split)
qed

theorem attempt_step_effect_witness:
  "active (\<lambda>v. True) demo_store = Some demo_checkpoint \<and>
   (case (active (\<lambda>v. True) demo_store, active (\<lambda>v. True) (attempt_exec (\<lambda>v. True) (Transition (Aware demo_instant) SETUP) demo_store)) of
      (None, None) \<Rightarrow> True
    | (None, Some c') \<Rightarrow> ck_phase c' = CLAIMED \<and> \<not> ck_claim_lease_recorded c'
    | (Some c, None) \<Rightarrow> False
    | (Some c, Some c') \<Rightarrow> ck_phase c' \<in> {CLAIMED, SETUP} \<and> ck_phase c \<le> ck_phase c')"
  using attempt_step_effect [OF demo_reachable, of "Transition (Aware demo_instant) SETUP"]
  by (auto simp: demo_active demo_instant_ok demo_checkpoint_def split: option.splits)

text \<open>The timestamps a store issues for a sequence of clock readings.\<close>

primrec issued :: "clock_reading list \<Rightarrow> attempt_store \<Rightarrow> string list" where
  "issued [] s = []"
| "issued (now # rs) s = (case next_timestamp now s of
     (Inl e, t) \<Rightarrow> issued rs t
   | (Inr v, t) \<Rightarrow> v # issued rs t)"

lemma issued_increasing:
  assumes "list_all reading_ok rs" "\<And>l. as_last s = Some l \<Longrightarrow> valid_datetime l"
  shows "\<exists>ds. issued rs s = map timestamp ds \<and> sorted_wrt (<) ds \<and> list_all valid_datetime ds
    \<and> (\<forall>l. as_last s = Some l \<longrightarrow> list_all (\<lambda>d. l < d) ds)"
  using assms
proof (induction rs arbitrary: s)
  case Nil
  then show ?case by simp
next
  case (Cons now rs)
  show ?case
  proof (cases "next_timestamp now s")
    case (Pair r t)
    show ?thesis
    proof (cases r)
      case (Inl e)
      with Pair have "t = s" by (auto simp: next_timestamp_def split: clock_reading.splits option.splits if_splits)
      with Cons Pair Inl show ?thesis by simp
    next
      case (Inr v)
      with Pair Cons.prems obtain u where u: "v = timestamp u" "as_last t = Some u" "valid_datetime u"
        and later: "\<forall>l. as_last s = Some l \<longrightarrow> l < u"
        by (auto simp: next_timestamp_def tick_later tick_valid split: clock_reading.splits option.splits if_splits)
      from Cons.IH [of t] Cons.prems(1) u obtain ds where
        "issued rs t = map timestamp ds" "sorted_wrt (<) ds" "list_all valid_datetime ds" "list_all (\<lambda>d. u < d) ds" by auto
      then show ?thesis
        using Pair Inr u later by (intro exI [of _ "u # ds"]) (auto simp: list_all_iff intro: less_trans)
    qed
  qed
qed

text \<open>
  The timestamps of one process are all different, whatever the clock does: also when it stands still or runs
  backwards they are the texts of strictly increasing instants, so no two attempts of a process share the
  \<open>started_at\<close> that identifies them.
\<close>

theorem timestamps_distinct:
  assumes "attempt_reachable valid_iso s" "list_all reading_ok rs"
  shows "distinct (issued rs s) \<and> (\<exists>ds. issued rs s = map timestamp ds \<and> sorted_wrt (<) ds)"
proof -
  have "valid_datetime l" if "as_last s = Some l" for l
    using attempt.reach_inv [OF assms(1)] that by (simp add: attempt_ok_def)
  from issued_increasing [OF assms(2) this] obtain ds where
    ds: "issued rs s = map timestamp ds" "sorted_wrt (<) ds" "list_all valid_datetime ds" by blast
  then have "inj_on timestamp (set ds)" by (auto simp: inj_on_def list_all_iff timestamp_inject)
  moreover have "distinct ds" using ds(2) by (simp add: strict_sorted_iff)
  ultimately show ?thesis using ds by (auto simp: distinct_map)
qed

lemma demo_issued:
  "issued [Aware demo_instant, Aware demo_instant] empty_attempt_store
     = [''2026-01-31T23:59:59.999999Z'', ''2026-02-01T00:00:00Z'']"
  by (simp add: next_timestamp_def empty_attempt_store_def demo_instant_def timestamp_eq iso_instant_def zpad_def
      str_of_nat.simps digit_char_def days_in_month_def char_of_eq_iff take_bit_eq_mod)

theorem timestamps_distinct_witness:
  "issued [Aware demo_instant, Aware demo_instant] empty_attempt_store
     = [''2026-01-31T23:59:59.999999Z'', ''2026-02-01T00:00:00Z'']
   \<and> distinct (issued [Aware demo_instant, Aware demo_instant] empty_attempt_store)"
  using timestamps_distinct [OF attempt_reachable_run [OF iso_accepts_all, of "[]"], of "[Aware demo_instant, Aware demo_instant]"]
  by (simp del: issued.simps add: demo_instant_ok demo_issued)

end
