(* ===== verification/Text.thy ===== *)
theory Text
  imports Prelude
begin

text \<open>
  The text functions behind the markers in issue comments: the first occurrence of a text (\<open>str.find\<close> with the
  slices around it), \<open>str.split()\<close>, \<open>str.splitlines()\<close>, \<open>int(str)\<close> and the character classes of \<open>re\<close>, on the code
  points 0 to 255.
\<close>

section \<open>Searching and splitting\<close>

text \<open>The text before the first occurrence of \<open>p\<close> and the text after it.\<close>

fun py_cut :: "string \<Rightarrow> string \<Rightarrow> (string \<times> string) option" where
  "py_cut p [] = (if p = [] then Some ([], []) else None)"
| "py_cut p (x # xs) =
     (if py_startswith p (x # xs) then Some ([], drop (length p) (x # xs))
      else map_option (\<lambda>(a, b). (x # a, b)) (py_cut p xs))"

lemma py_cut_Some: "py_cut p s = Some (a, b) \<Longrightarrow> s = a @ p @ b"
proof (induction s arbitrary: a)
  case (Cons x xs)
  then show ?case
    by (auto simp: py_startswith_append split: if_splits)
qed (auto split: if_splits)

lemma py_cut_None: "py_cut p s = None \<longleftrightarrow> \<not> py_contains p s"
  by (induction s) auto

lemma py_cut_at:
  assumes "c \<notin> set a"
  shows "py_cut (c # cs) (a @ (c # cs) @ b) = Some (a, b)"
  using assms by (induction a) (auto simp: py_startswith_def)

lemma py_cut_skip: "c \<notin> set a \<Longrightarrow> py_cut (c # cs) (a @ s) = map_option (\<lambda>(x, y). (a @ x, y)) (py_cut (c # cs) s)"
  by (induction a) (auto simp: py_startswith_def option.map_comp comp_def split_beta option.map_ident id_def intro!: option.map_cong0)

text \<open>\<open>text.split()\<close>.\<close>

function py_words :: "string \<Rightarrow> string list" where
  "py_words s = (case dropWhile py_space s of
     [] \<Rightarrow> []
   | c # cs \<Rightarrow> (c # takeWhile (\<lambda>d. \<not> py_space d) cs) # py_words (dropWhile (\<lambda>d. \<not> py_space d) cs))"
  by auto
termination
proof (relation "measure length")
  fix s c cs
  assume eq: "dropWhile py_space s = c # cs"
  have "length (dropWhile (\<lambda>d. \<not> py_space d) cs) \<le> length cs" by (rule length_dropWhile_le)
  also have "\<dots> < length (dropWhile py_space s)" by (simp add: eq)
  also have "\<dots> \<le> length s" by (rule length_dropWhile_le)
  finally show "(dropWhile (\<lambda>d. \<not> py_space d) cs, s) \<in> measure length" by simp
qed simp

declare py_words.simps [simp del]

definition word_like :: "string \<Rightarrow> bool" where
  "word_like w \<longleftrightarrow> w \<noteq> [] \<and> list_all (\<lambda>c. \<not> py_space c) w"

lemma py_words_Nil [simp]: "py_words [] = []"
  by (simp add: py_words.simps)

lemma py_words_space [simp]: "py_space c \<Longrightarrow> py_words (c # s) = py_words s"
  by (subst (1 2) py_words.simps) simp

lemma py_words_word: "word_like w \<Longrightarrow> s = [] \<or> py_space (hd s) \<Longrightarrow> py_words (w @ s) = w # py_words s"
proof -
  assume w: "word_like w" and s: "s = [] \<or> py_space (hd s)"
  then obtain c cs where ccs: "w = c # cs" "\<not> py_space c" "list_all (\<lambda>c. \<not> py_space c) cs"
    by (cases w) (auto simp: word_like_def)
  have "takeWhile (\<lambda>d. \<not> py_space d) (cs @ s) = cs" "dropWhile (\<lambda>d. \<not> py_space d) (cs @ s) = s"
    using ccs(3) s by (induction cs) (cases s; simp)+
  with ccs show ?thesis by (subst py_words.simps) simp
qed

lemma py_space_blank [simp]: "py_space CHR '' ''"
  by (simp add: py_space_def)

lemma py_words_join: "list_all word_like ws \<Longrightarrow> py_words (py_join '' '' ws) = ws"
proof (induction "'' '' :: string" ws rule: py_join.induct)
  case (2 x)
  then show ?case using py_words_word [of x "[]"] by simp
next
  case (3 x y ys)
  then show ?case using py_words_word [of x "CHR '' '' # py_join '' '' (y # ys)"] by simp
qed simp

text \<open>\<open>text.splitlines()\<close>: a carriage return followed by a line feed is one line break.\<close>

definition line_break :: "char \<Rightarrow> bool" where
  "line_break c \<longleftrightarrow> (let n = (of_char c :: nat) in (10 \<le> n \<and> n \<le> 13) \<or> (28 \<le> n \<and> n \<le> 30) \<or> n = 133)"

fun split_lines :: "string \<Rightarrow> string \<Rightarrow> string list" where
  "split_lines acc [] = (if acc = [] then [] else [rev acc])"
| "split_lines acc (c # cs) =
     (if line_break c
      then rev acc # split_lines [] (if c = CHR 0x0D \<and> cs \<noteq> [] \<and> hd cs = CHR 0x0A then tl cs else cs)
      else split_lines (c # acc) cs)"

definition py_splitlines :: "string \<Rightarrow> string list" where
  "py_splitlines s = split_lines [] s"


section \<open>Integers\<close>

text \<open>
  \<open>int(text)\<close>: surrounding whitespace, a sign, digits with single underscores between them, and the limit of
  4300 digits; \<open>None\<close> is the \<open>ValueError\<close>.
\<close>

definition underscored_digits :: "string \<Rightarrow> string option" where
  "underscored_digits s =
     (let parts = py_split (CHR ''_'') s; digits = concat parts
      in if list_all (\<lambda>p. p \<noteq> [] \<and> list_all is_digit p) parts \<and> length digits \<le> 4300 then Some digits else None)"

definition py_int :: "string \<Rightarrow> int option" where
  "py_int text = (case py_strip text of
     [] \<Rightarrow> None
   | c # cs \<Rightarrow>
       if c = CHR ''-'' then map_option (\<lambda>d. - int (nat_of_digits d)) (underscored_digits cs)
       else if c = CHR ''+'' then map_option (\<lambda>d. int (nat_of_digits d)) (underscored_digits cs)
       else map_option (\<lambda>d. int (nat_of_digits d)) (underscored_digits (c # cs)))"

lemma digit_not_space: "is_digit c \<Longrightarrow> \<not> py_space c"
  by (auto simp: is_digit_def char_between_def py_space_def Let_def)

lemma py_strip_no_space:
  assumes "list_all (\<lambda>c. \<not> py_space c) s"
  shows "py_strip s = s"
proof -
  have id: "dropWhile py_space t = t" if "list_all (\<lambda>c. \<not> py_space c) t" for t
    using that by (cases t) auto
  from assms have "list_all (\<lambda>c. \<not> py_space c) (rev s)" by (simp add: list_all_iff)
  from id [OF assms] id [OF this] show ?thesis by (simp add: py_strip_def py_rstrip_def py_lstrip_def)
qed

lemma py_int_str_of_int:
  assumes "0 \<le> i" "length (str_of_nat (nat i)) \<le> 4300"
  shows "py_int (str_of_int i) = Some i"
proof -
  have digits: "list_all is_digit (str_of_nat (nat i))" by (rule str_of_nat_digits)
  then have "CHR ''_'' \<notin> set (str_of_nat (nat i))"
    by (auto simp: list_all_iff is_digit_def char_between_def)
  then have "underscored_digits (str_of_nat (nat i)) = Some (str_of_nat (nat i))"
    using digits assms(2) by (simp add: underscored_digits_def py_split_none Let_def)
  moreover have "py_strip (str_of_nat (nat i)) = str_of_nat (nat i)"
    using digits by (intro py_strip_no_space) (auto simp: list_all_iff digit_not_space)
  moreover obtain c cs where cs: "str_of_nat (nat i) = c # cs" by (meson neq_Nil_conv str_of_nat_nonempty)
  moreover from nat_of_digits_str_of_nat [of "nat i"] cs have "nat_of_digits (c # cs) = nat i" by simp
  ultimately show ?thesis
    using assms(1) str_of_nat_not_sign [OF cs] by (simp add: py_int_def str_of_int_def)
qed


section \<open>Pieces of regular expressions\<close>

text \<open>\<open>\w\<close> (\<open>str.isalnum()\<close> or an underscore).\<close>

definition word_char :: "char \<Rightarrow> bool" where
  "word_char c \<longleftrightarrow> (let n = (of_char c :: nat) in
     (48 \<le> n \<and> n \<le> 57) \<or> (65 \<le> n \<and> n \<le> 90) \<or> n = 95 \<or> (97 \<le> n \<and> n \<le> 122)
     \<or> n \<in> {170, 178, 179, 181, 185, 186, 188, 189, 190} \<or> (192 \<le> n \<and> n \<noteq> 215 \<and> n \<noteq> 247))"

text \<open>
  The lazy \<open>(.*?)\s*-->\<close> matched from the start of a text: the shortest text without a line feed that is followed,
  after whitespace, by the closing arrow.
\<close>

fun lazy_until_arrow :: "string \<Rightarrow> string option" where
  "lazy_until_arrow s =
     (if py_startswith ''-->'' (dropWhile py_space s) then Some []
      else (case s of
          [] \<Rightarrow> None
        | c # cs \<Rightarrow> if c = CHR 0x0A then None else map_option (\<lambda>v. c # v) (lazy_until_arrow cs)))"

declare lazy_until_arrow.simps [simp del]

text \<open>All suffixes of a text, the positions at which \<open>re.search\<close> tries a match.\<close>

primrec suffixes_of :: "string \<Rightarrow> string list" where
  "suffixes_of [] = [[]]"
| "suffixes_of (c # cs) = (c # cs) # suffixes_of cs"

definition re_search :: "(string \<Rightarrow> 'a option) \<Rightarrow> string \<Rightarrow> 'a option" where
  "re_search m s = (case map_option m (find (\<lambda>t. m t \<noteq> None) (suffixes_of s)) of Some r \<Rightarrow> r | None \<Rightarrow> None)"

text \<open>A literal at the start of a text.\<close>

definition lit :: "string \<Rightarrow> string \<Rightarrow> string option" where
  "lit p s = (if py_startswith p s then Some (drop (length p) s) else None)"

lemma lit_append [simp]: "lit p (p @ s) = Some s"
  by (simp add: lit_def py_startswith_def)

end
