(* ===== verification/Markers.thy ===== *)
theory Markers
  imports Text Timestamps
begin

text \<open>
  The hidden markers of issue comments and what is read back from them (\<open>recovery.py\<close>, and the record part of
  \<open>handoff_record.py\<close>): attempt and Worker identities, requeue sources, conflict attempts, stale-head notices, the
  shared handoff record, and the standings counted over a comment history, newest comment first.
\<close>

section \<open>Attempt and Worker markers\<close>

definition attempt_marker :: "string \<Rightarrow> string" where
  "attempt_marker attempt_id = ''<!-- agent-attempt: '' @ attempt_id @ '' -->''"

definition AGENT_WORKER_MARKER_PREFIX :: string where
  "AGENT_WORKER_MARKER_PREFIX = ''<!-- agent-worker:''"

definition worker_marker :: "string \<Rightarrow> string" where
  "worker_marker worker_id = ''<!-- agent-worker: '' @ py_strip worker_id @ '' -->''"

text \<open>The group \<open>\s*(.*?)\s*-->\<close> of a marker, stripped; an empty value reads as none.\<close>

definition marker_group :: "string \<Rightarrow> string option" where
  "marker_group s = map_option py_strip (lazy_until_arrow (dropWhile py_space s))"

definition nonempty :: "string option \<Rightarrow> string option" where
  "nonempty v = (case v of None \<Rightarrow> None | Some x \<Rightarrow> if x = [] then None else Some x)"

definition parse_agent_worker :: "string \<Rightarrow> string option" where
  "parse_agent_worker body = nonempty (re_search (\<lambda>t. Option.bind (lit AGENT_WORKER_MARKER_PREFIX t) marker_group) body)"

definition worker_line :: "string \<Rightarrow> string" where
  "worker_line worker_id = (if py_blank worker_id then [] else ''Worker: '' @ py_strip worker_id)"

definition worker_blocks :: "string \<Rightarrow> string \<times> string" where
  "worker_blocks worker_id =
     (if py_blank worker_id then ([], [])
      else (worker_line (py_strip worker_id) @ nl, worker_marker (py_strip worker_id) @ nl))"

definition parse_comment_attempt_id :: "string \<Rightarrow> string option" where
  "parse_comment_attempt_id body = nonempty (re_search (\<lambda>t.
     Option.bind (lit ''<!--'' t) (\<lambda>u. Option.bind (lit ''agent-attempt:'' (dropWhile py_space u)) marker_group)) body)"


section \<open>Requeue sources\<close>

datatype marker_error = Invalid_source string | Invalid_outcome string | Invalid_value string | Invalid_number int

definition REQUEUE_SOURCE_HUMAN :: string where "REQUEUE_SOURCE_HUMAN = ''human''"

definition REQUEUE_SOURCE_AUTOMATIC :: string where "REQUEUE_SOURCE_AUTOMATIC = ''automatic''"

definition REQUEUE_SOURCE_CONFLICT :: string where "REQUEUE_SOURCE_CONFLICT = ''conflict''"

definition REQUEUE_SOURCES :: "string list" where
  "REQUEUE_SOURCES = [REQUEUE_SOURCE_HUMAN, REQUEUE_SOURCE_AUTOMATIC, REQUEUE_SOURCE_CONFLICT]"

definition source_text :: "string \<Rightarrow> string" where
  "source_text source = ''<!-- requeue-source: '' @ source @ '' -->''"

definition requeue_source_marker :: "string \<Rightarrow> marker_error + string" where
  "requeue_source_marker source =
     (if source \<notin> set REQUEUE_SOURCES then Inl (Invalid_source source) else Inr (source_text source))"

definition parse_requeue_source :: "string \<Rightarrow> string option" where
  "parse_requeue_source body =
     (if py_contains (source_text REQUEUE_SOURCE_CONFLICT) body then Some REQUEUE_SOURCE_CONFLICT
      else if py_contains (source_text REQUEUE_SOURCE_AUTOMATIC) body then Some REQUEUE_SOURCE_AUTOMATIC
      else if py_contains (source_text REQUEUE_SOURCE_HUMAN) body then Some REQUEUE_SOURCE_HUMAN
      else None)"

definition requeue_source_for_labels :: "string list \<Rightarrow> string" where
  "requeue_source_for_labels labels =
     (if ''ready-for-agent'' \<in> set labels then REQUEUE_SOURCE_HUMAN else REQUEUE_SOURCE_AUTOMATIC)"


section \<open>Markers with fields\<close>

text \<open>\<open>key, separator, value = token.partition("=")\<close>, kept when all three are there.\<close>

definition field_of :: "string \<Rightarrow> (string \<times> string) option" where
  "field_of token = (case py_partition (CHR ''='') token of
     (key, Some value) \<Rightarrow> if key \<noteq> [] \<and> value \<noteq> [] then Some (key, value) else None
   | _ \<Rightarrow> None)"

text \<open>The fields between a marker's prefix and its arrow, the last one first, so \<open>map_of\<close> reads the dict.\<close>

definition fields_of :: "string \<Rightarrow> (string \<times> string) list" where
  "fields_of inner = rev (List.map_filter field_of (py_words inner))"

definition marker_fields :: "string \<Rightarrow> string \<Rightarrow> (string \<times> string) list option" where
  "marker_fields prefix body = (case py_cut prefix body of
     None \<Rightarrow> None
   | Some (before, rest) \<Rightarrow> map_option (\<lambda>(inner, after). fields_of inner) (py_cut ''-->'' rest))"

definition HANDOFF_RECORD_VERSION :: int where "HANDOFF_RECORD_VERSION = 1"

definition HANDOFF_RECORD_MARKER_PREFIX :: string where
  "HANDOFF_RECORD_MARKER_PREFIX = ''<!-- handoff-record:''"

definition is_handoff_record :: "string \<Rightarrow> bool" where
  "is_handoff_record body = (marker_fields HANDOFF_RECORD_MARKER_PREFIX body \<noteq> None)"

definition CONFLICT_OUTCOMES :: "string list" where
  "CONFLICT_OUTCOMES = [''success'', ''skipped'', ''rebase_conflict'', ''setup_failed'', ''check_failed'',
     ''push_failed'', ''error'', ''model_limit'', ''resolution_failed'', ''no_change'']"

definition CONFLICT_MARKER_PREFIX :: string where "CONFLICT_MARKER_PREFIX = ''<!-- conflict-attempt:''"

definition or_none :: "string option \<Rightarrow> string" where
  "or_none v = (case nonempty v of None \<Rightarrow> ''none'' | Some x \<Rightarrow> x)"

definition conflict_parts ::
  "string \<Rightarrow> string option \<Rightarrow> string option \<Rightarrow> string list \<Rightarrow> string list \<Rightarrow> string list \<Rightarrow> string list" where
  "conflict_parts outcome sha reason files fix_commits extra_files =
     [''outcome='' @ outcome, ''sha='' @ or_none sha]
     @ (case nonempty reason of None \<Rightarrow> [] | Some r \<Rightarrow> [''reason='' @ r])
     @ (if files = [] then [] else [''files='' @ py_join '','' files])
     @ (if fix_commits = [] then [] else [''fix_commits='' @ py_join '','' fix_commits])
     @ (if extra_files = [] then [] else [''extra_files='' @ py_join '','' extra_files])"

definition conflict_attempt_marker ::
  "string \<Rightarrow> string option \<Rightarrow> string option \<Rightarrow> string list \<Rightarrow> string list \<Rightarrow> string list \<Rightarrow> marker_error + string" where
  "conflict_attempt_marker outcome sha reason files fix_commits extra_files =
     (if outcome \<notin> set CONFLICT_OUTCOMES then Inl (Invalid_outcome outcome)
      else let values = [outcome, or_none sha] @ (case nonempty reason of None \<Rightarrow> [] | Some r \<Rightarrow> [r])
                 @ files @ fix_commits @ extra_files
           in (case find (\<lambda>v. \<not> word_like v) values of
                 Some v \<Rightarrow> Inl (Invalid_value v)
               | None \<Rightarrow> Inr (CONFLICT_MARKER_PREFIX @ '' ''
                    @ py_join '' '' (conflict_parts outcome sha reason files fix_commits extra_files) @ '' -->'')))"

definition parse_conflict_attempt :: "string \<Rightarrow> (string \<times> string) list option" where
  "parse_conflict_attempt body = (case marker_fields CONFLICT_MARKER_PREFIX body of
     None \<Rightarrow> None
   | Some fs \<Rightarrow> if map_of fs ''outcome'' = None then None else Some fs)"

definition is_conflict_attempt :: "string \<Rightarrow> bool" where
  "is_conflict_attempt body = (parse_conflict_attempt body \<noteq> None)"

definition CONFLICT_ESCALATION_MARKER :: string where
  "CONFLICT_ESCALATION_MARKER = ''<!-- conflict-escalation -->''"

definition is_conflict_escalation :: "string \<Rightarrow> bool" where
  "is_conflict_escalation body = py_contains CONFLICT_ESCALATION_MARKER body"

definition PR_HEAD_STALE_MARKER_PREFIX :: string where
  "PR_HEAD_STALE_MARKER_PREFIX = ''<!-- pr-head-stale:''"

definition pr_head_stale_marker :: "int \<Rightarrow> string \<Rightarrow> string \<Rightarrow> marker_error + string" where
  "pr_head_stale_marker pr_number head_sha branch_tip =
     (case find (\<lambda>v. \<not> word_like v) [head_sha, branch_tip] of
        Some v \<Rightarrow> Inl (Invalid_value v)
      | None \<Rightarrow> if pr_number \<le> 0 then Inl (Invalid_number pr_number)
          else Inr (PR_HEAD_STALE_MARKER_PREFIX @ '' pr='' @ str_of_int pr_number
            @ '' head='' @ head_sha @ '' tip='' @ branch_tip @ '' -->''))"

definition parse_pr_head_stale :: "string \<Rightarrow> (string \<times> string) list option" where
  "parse_pr_head_stale body = (case marker_fields PR_HEAD_STALE_MARKER_PREFIX body of
     None \<Rightarrow> None
   | Some fs \<Rightarrow> if list_all (\<lambda>k. map_of fs k \<noteq> None) [''pr'', ''head'', ''tip''] then Some fs else None)"

definition is_pr_head_stale_notice :: "string \<Rightarrow> bool" where
  "is_pr_head_stale_notice body = (parse_pr_head_stale body \<noteq> None)"

definition pr_head_stale_notice_body :: "string \<Rightarrow> string \<Rightarrow> int \<Rightarrow> string \<Rightarrow> string \<Rightarrow> marker_error + string" where
  "pr_head_stale_notice_body repository branch pr_number head_sha branch_tip =
     (let pr_link = ''https://github.com/'' @ repository @ ''/pull/'' @ str_of_int pr_number
      in map_sum id (\<lambda>marker.
         ''## Pull request head out of sync'' @ nl @ nl
         @ ''The pull request [#'' @ str_of_int pr_number @ ''](''  @ pr_link @ '') behind `'' @ branch @ ''` reports''
         @ '' merge conflicts, but its recorded head `'' @ head_sha @ ''` differs from''
         @ '' the tip of the branch (`'' @ branch_tip @ ''`). The detector skipped the''
         @ '' `merge-conflict` requeue, so no conflict attempt will run until a''
         @ '' human resolves the desync.'' @ nl @ nl
         @ ''Do not close and reopen the pull request: GitHub refuses the reopen''
         @ '' with `422 ... branch was force-pushed or recreated`. Open a''
         @ '' replacement pull request from the same `'' @ branch @ ''` branch''
         @ '' instead.'' @ nl @ nl @ marker) (pr_head_stale_marker pr_number head_sha branch_tip))"

definition is_conflict_failure :: "string \<Rightarrow> bool" where
  "is_conflict_failure body =
     (if is_conflict_escalation body then False
      else (case parse_conflict_attempt body of
          None \<Rightarrow> False
        | Some fs \<Rightarrow>
            (case map_of fs ''outcome'' of
               Some outcome \<Rightarrow>
                 if outcome = ''skipped'' then False
                 else if outcome = ''success''
                 then (case map_of fs ''sha'' of None \<Rightarrow> True | Some sha \<Rightarrow> sha \<in> {[], ''none''})
                 else True
             | None \<Rightarrow> True)))"

text \<open>Comments that neither count nor stop a count.\<close>

fun count_conflict_failures :: "string list \<Rightarrow> nat" where
  "count_conflict_failures [] = 0"
| "count_conflict_failures (body # bodies) =
     (if is_conflict_escalation body then 0
      else if is_handoff_record body then count_conflict_failures bodies
      else if is_pr_head_stale_notice body then count_conflict_failures bodies
      else if \<not> is_conflict_attempt body then 0
      else if \<not> is_conflict_failure body then 0
      else Suc (count_conflict_failures bodies))"

fun count_automatic_continuations :: "string list \<Rightarrow> nat" where
  "count_automatic_continuations [] = 0"
| "count_automatic_continuations (body # bodies) =
     (if is_handoff_record body then count_automatic_continuations bodies
      else if is_conflict_attempt body then count_automatic_continuations bodies
      else if is_pr_head_stale_notice body then count_automatic_continuations bodies
      else if parse_requeue_source body \<noteq> Some REQUEUE_SOURCE_AUTOMATIC then 0
      else Suc (count_automatic_continuations bodies))"

end
