(* ===== verification/Handoff_Records.thy ===== *)
theory Handoff_Records
  imports Markers
begin

text \<open>
  The shared handoff record of an issue (\<open>handoff_record.py\<close>): its marker in the one shared comment, the store of
  intended records, and the automatic-continuation standing that \<open>recovery.py\<close> resolves from it. What
  \<open>datetime.fromisoformat\<close> makes of an attempt ID is the parameter \<open>parse_iso\<close>.
\<close>

section \<open>Records\<close>

record handoff_record =
  hr_version :: int
  hr_repository :: string
  hr_issue_number :: int
  hr_attempt_id :: string
  hr_requeue_source :: string
  hr_continuation_count :: int
  hr_branch :: string
  hr_branch_sha :: string
  hr_note_sha :: string

text \<open>A value that is neither blank nor contains whitespace.\<close>

definition check_value :: "string \<Rightarrow> string \<Rightarrow> string + unit" where
  "check_value name v =
     (if py_blank v then Inl (name @ '' must be a non-empty string'')
      else if list_ex py_space v then Inl (name @ '' must not contain whitespace'')
      else Inr ())"

definition and_then :: "'e + unit \<Rightarrow> 'e + 'b \<Rightarrow> 'e + 'b" where
  "and_then r x = (case r of Inl e \<Rightarrow> Inl e | Inr u \<Rightarrow> x)"

definition validate_record :: "handoff_record \<Rightarrow> string + unit" where
  "validate_record r =
     (if hr_version r \<noteq> HANDOFF_RECORD_VERSION
      then Inl (''Unsupported handoff record version '' @ str_of_int (hr_version r))
      else if py_blank (hr_repository r) then Inl ''Repository must be a non-empty string''
      else if hr_issue_number r \<le> 0 then Inl ''Issue number must be a positive integer''
      else and_then (check_value ''attempt_id'' (hr_attempt_id r))
          (and_then (check_value ''branch'' (hr_branch r))
          (and_then (check_value ''branch_sha'' (hr_branch_sha r))
          (and_then (check_value ''note_sha'' (hr_note_sha r))
          (if hr_requeue_source r \<notin> set REQUEUE_SOURCES then Inl (''Invalid requeue source '' @ hr_requeue_source r)
           else if hr_continuation_count r < 0 then Inl ''Continuation count must be a non-negative integer''
           else Inr ())))))"

definition record_parts :: "handoff_record \<Rightarrow> string list" where
  "record_parts r =
     [''v='' @ str_of_int (hr_version r), ''repo='' @ hr_repository r, ''issue='' @ str_of_int (hr_issue_number r),
      ''attempt='' @ hr_attempt_id r, ''source='' @ hr_requeue_source r, ''count='' @ str_of_int (hr_continuation_count r),
      ''branch='' @ hr_branch r, ''branch_sha='' @ hr_branch_sha r, ''note_sha='' @ hr_note_sha r]"

definition handoff_record_marker :: "handoff_record \<Rightarrow> string + string" where
  "handoff_record_marker r = and_then (validate_record r)
     (Inr (HANDOFF_RECORD_MARKER_PREFIX @ '' '' @ py_join '' '' (record_parts r) @ '' -->''))"

definition record_of_fields :: "(string \<times> string) list \<Rightarrow> handoff_record option" where
  "record_of_fields fs =
     Option.bind (map_of fs ''v'') (\<lambda>v. Option.bind (py_int v) (\<lambda>version.
     Option.bind (map_of fs ''repo'') (\<lambda>repository.
     Option.bind (map_of fs ''issue'') (\<lambda>i. Option.bind (py_int i) (\<lambda>issue_number.
     Option.bind (map_of fs ''attempt'') (\<lambda>attempt_id.
     Option.bind (map_of fs ''source'') (\<lambda>source.
     Option.bind (map_of fs ''count'') (\<lambda>c. Option.bind (py_int c) (\<lambda>count.
     Option.bind (map_of fs ''branch'') (\<lambda>branch.
     Option.bind (map_of fs ''branch_sha'') (\<lambda>branch_sha.
     Option.bind (map_of fs ''note_sha'') (\<lambda>note_sha.
       Some \<lparr>hr_version = version, hr_repository = repository, hr_issue_number = issue_number,
         hr_attempt_id = attempt_id, hr_requeue_source = source, hr_continuation_count = count, hr_branch = branch,
         hr_branch_sha = branch_sha, hr_note_sha = note_sha\<rparr>))))))))))))"

definition parse_handoff_record :: "string \<Rightarrow> handoff_record option" where
  "parse_handoff_record body =
     Option.bind (marker_fields HANDOFF_RECORD_MARKER_PREFIX body) (\<lambda>fs.
     Option.bind (record_of_fields fs) (\<lambda>r. case validate_record r of Inl e \<Rightarrow> None | Inr u \<Rightarrow> Some r))"

definition handoff_note_blob_url :: "string \<Rightarrow> string \<Rightarrow> int \<Rightarrow> string" where
  "handoff_note_blob_url repository branch issue_number =
     ''https://github.com/'' @ repository @ ''/blob/'' @ branch @ ''/.agent/handoff/'' @ str_of_int issue_number @ ''.md''"

definition record_prose :: "handoff_record \<Rightarrow> string" where
  "record_prose r =
     ''## Handoff note'' @ nl @ nl @ ''The current Handoff note for this issue is preserved on'' @ '' `'' @ hr_branch r
     @ ''`:'' @ '' [`.agent/handoff/'' @ str_of_int (hr_issue_number r) @ ''.md`](''
     @ handoff_note_blob_url (hr_repository r) (hr_branch r) (hr_issue_number r) @ '').'' @ nl @ nl"

definition build_handoff_record_body :: "handoff_record \<Rightarrow> string + string" where
  "build_handoff_record_body r = map_sum id (\<lambda>marker. record_prose r @ marker) (handoff_record_marker r)"


section \<open>The order of attempts\<close>

datatype parsed_iso = Naive_at datetime | Aware_at datetime

type_synonym iso_parser = "string \<Rightarrow> parsed_iso option"

text \<open>
  The key of an attempt ID is \<open>(0, datetime)\<close>, or \<open>(1, text)\<close> when it does not parse; comparing a naive instant
  with an aware one is a \<open>TypeError\<close>.
\<close>

datatype order_key = Key_instant parsed_iso | Key_text string

definition attempt_id_sort_key :: "iso_parser \<Rightarrow> string \<Rightarrow> order_key" where
  "attempt_id_sort_key parse_iso v = (case parse_iso (py_removesuffix ''Z'' v @ ''+00:00'') of
     None \<Rightarrow> Key_text v
   | Some t \<Rightarrow> Key_instant t)"

datatype type_error = TypeError

fun key_greater :: "order_key \<Rightarrow> order_key \<Rightarrow> type_error + bool" where
  "key_greater (Key_instant (Aware_at s)) (Key_instant (Aware_at t)) = Inr (t < s)"
| "key_greater (Key_instant (Naive_at s)) (Key_instant (Naive_at t)) = Inr (t < s)"
| "key_greater (Key_instant s) (Key_instant t) = Inl TypeError"
| "key_greater (Key_instant s) (Key_text t) = Inr False"
| "key_greater (Key_text s) (Key_instant t) = Inr True"
| "key_greater (Key_text s) (Key_text t) = Inr (t < s)"

definition attempt_id_greater :: "iso_parser \<Rightarrow> string \<Rightarrow> string \<Rightarrow> type_error + bool" where
  "attempt_id_greater parse_iso first second = key_greater (attempt_id_sort_key parse_iso first) (attempt_id_sort_key parse_iso second)"

definition is_newer_attempt :: "iso_parser \<Rightarrow> handoff_record \<Rightarrow> handoff_record \<Rightarrow> type_error + bool" where
  "is_newer_attempt parse_iso candidate baseline = attempt_id_greater parse_iso (hr_attempt_id candidate) (hr_attempt_id baseline)"


section \<open>The automatic-continuation standing\<close>

datatype continuation_error = AmbiguousContinuationError string | Incomparable_ids

text \<open>Ordinary results newer than the shared record's attempt, on top of its standing.\<close>

fun reconcile_newer :: "iso_parser \<Rightarrow> string \<Rightarrow> int \<Rightarrow> string list \<Rightarrow> int \<Rightarrow> continuation_error + int" where
  "reconcile_newer parse_iso shared count [] newer = Inr (count + newer)"
| "reconcile_newer parse_iso shared count (body # bodies) newer =
     (if is_handoff_record body then reconcile_newer parse_iso shared count bodies newer
      else if is_conflict_attempt body then reconcile_newer parse_iso shared count bodies newer
      else if is_pr_head_stale_notice body then reconcile_newer parse_iso shared count bodies newer
      else (case parse_comment_attempt_id body of
          None \<Rightarrow> reconcile_newer parse_iso shared count bodies newer
        | Some attempt_id \<Rightarrow>
            if attempt_id = shared then reconcile_newer parse_iso shared count bodies newer
            else (case attempt_id_greater parse_iso attempt_id shared of
                Inl e \<Rightarrow> Inl Incomparable_ids
              | Inr later \<Rightarrow>
                  if \<not> later then reconcile_newer parse_iso shared count bodies newer
                  else if parse_requeue_source body \<noteq> Some REQUEUE_SOURCE_AUTOMATIC then Inr newer
                  else reconcile_newer parse_iso shared count bodies (newer + 1))))"

definition resolve_automatic_continuation_count ::
  "iso_parser \<Rightarrow> string list \<Rightarrow> int option \<Rightarrow> string option \<Rightarrow> continuation_error + int" where
  "resolve_automatic_continuation_count parse_iso bodies issue_number repository =
     (let shared_bodies = filter is_handoff_record bodies in
      if shared_bodies = [] then Inr (int (count_automatic_continuations bodies))
      else if list_ex (\<lambda>b. parse_handoff_record b = None) shared_bodies
      then Inl (AmbiguousContinuationError ''the shared handoff record is malformed or uses an unsupported version; the standing cannot be verified'')
      else (case List.map_filter parse_handoff_record shared_bodies of
          [record] \<Rightarrow>
            if issue_number \<noteq> None \<and> issue_number \<noteq> Some (hr_issue_number record)
            then Inl (AmbiguousContinuationError ''the shared handoff record names a different issue; the standing cannot be verified'')
            else if repository \<noteq> None \<and> repository \<noteq> Some (hr_repository record)
            then Inl (AmbiguousContinuationError ''the shared handoff record names a different repository; the standing cannot be verified'')
            else reconcile_newer parse_iso (hr_attempt_id record) (hr_continuation_count record) bodies 0
        | _ \<Rightarrow> Inl (AmbiguousContinuationError ''more than one shared handoff comment is present; the standing cannot be verified'')))"


section \<open>The store of intended records\<close>

definition record_to_json :: "handoff_record \<Rightarrow> json" where
  "record_to_json r = JObj
     [(''version'', JInt (hr_version r)), (''repository'', JStr (hr_repository r)),
      (''issue_number'', JInt (hr_issue_number r)), (''requeue_source'', JStr (hr_requeue_source r)),
      (''continuation_count'', JInt (hr_continuation_count r)), (''branch'', JStr (hr_branch r)),
      (''branch_sha'', JStr (hr_branch_sha r)), (''note_sha'', JStr (hr_note_sha r))]"

definition record_keys :: "string list" where
  "record_keys = [''version'', ''repository'', ''issue_number'', ''requeue_source'', ''continuation_count'', ''branch'',
     ''branch_sha'', ''note_sha'']"

text \<open>
  The version is compared with \<open>!=\<close> only, so a document may also write it as \<open>true\<close> or \<open>1.0\<close>, which Python takes
  for \<open>1\<close>.
\<close>

definition equals_one :: "json \<Rightarrow> bool" where
  "equals_one v \<longleftrightarrow> v \<in> {JInt 1, JBool True, JFloat ''1.0''}"

definition record_from_json :: "string \<Rightarrow> json \<Rightarrow> handoff_record option" where
  "record_from_json attempt_id v =
     (if attempt_id = [] then None
      else (case v of
          JObj d \<Rightarrow>
            if set (jkeys d) \<noteq> set record_keys \<or> \<not> equals_one (jget d ''version'' JNull) then None
            else (case (jget d ''repository'' JNull, jget d ''issue_number'' JNull, jget d ''requeue_source'' JNull,
                jget d ''continuation_count'' JNull, jget d ''branch'' JNull, jget d ''branch_sha'' JNull, jget d ''note_sha'' JNull) of
                (JStr repository, JInt issue_number, JStr source, JInt count, JStr branch, JStr branch_sha, JStr note_sha) \<Rightarrow>
                  let r = \<lparr>hr_version = 1, hr_repository = repository, hr_issue_number = issue_number,
                      hr_attempt_id = attempt_id, hr_requeue_source = source, hr_continuation_count = count,
                      hr_branch = branch, hr_branch_sha = branch_sha, hr_note_sha = note_sha\<rparr>
                  in (case validate_record r of Inl e \<Rightarrow> None | Inr u \<Rightarrow> Some r)
              | _ \<Rightarrow> None)
        | _ \<Rightarrow> None))"

text \<open>\<open>records[k] = v\<close> on a dict kept as its entries in insertion order.\<close>

primrec put_entry :: "string \<Rightarrow> 'a \<Rightarrow> (string \<times> 'a) list \<Rightarrow> (string \<times> 'a) list" where
  "put_entry k v [] = [(k, v)]"
| "put_entry k v (e # es) = (if fst e = k then (k, v) # es else e # put_entry k v es)"

fun entries_from_json :: "(string \<Rightarrow> json \<Rightarrow> 'a option) \<Rightarrow> obj \<Rightarrow> (string \<times> 'a) list option" where
  "entries_from_json dec [] = Some []"
| "entries_from_json dec ((k, v) # d) =
     Option.bind (dec k v) (\<lambda>x. map_option (\<lambda>es. (k, x) # es) (entries_from_json dec d))"

text \<open>A JSON file that keeps a dict of entries by attempt ID: how it is read and written.\<close>

definition read_entries :: "string \<Rightarrow> string \<Rightarrow> (string \<Rightarrow> json \<Rightarrow> 'a option) \<Rightarrow> (json_file, store_error, (string \<times> 'a) list) comp" where
  "read_entries unreadable malformed dec f =
     (if content f = Absent then (Inr [], f)
      else if fault f = Read_fault then (Inl (StoreError unreadable), f)
      else (case content f of
          Not_text \<Rightarrow> (Inl UnicodeDecodeError, f)
        | Doc (JObj d) \<Rightarrow> (case entries_from_json dec d of
              None \<Rightarrow> (Inl (StoreError malformed), f)
            | Some es \<Rightarrow> (Inr es, f))
        | _ \<Rightarrow> (Inl (StoreError malformed), f)))"

definition entries_to_json :: "('a \<Rightarrow> json) \<Rightarrow> (string \<times> 'a) list \<Rightarrow> json" where
  "entries_to_json enc es = JObj (map (\<lambda>(k, x). (k, enc x)) (sort_key fst es))"

definition read_handoff_records :: "(json_file, store_error, (string \<times> handoff_record) list) comp" where
  "read_handoff_records = read_entries ''Handoff record store could not be read'' ''Handoff record store is malformed''
     record_from_json"

definition load_handoff_record :: "string \<Rightarrow> (json_file, store_error, handoff_record option) comp" where
  "load_handoff_record attempt_id = seq read_handoff_records (\<lambda>records. ret (map_of records attempt_id))"

definition save_if_absent :: "handoff_record \<Rightarrow> (json_file, store_error, handoff_record) comp" where
  "save_if_absent r = (case validate_record r of
     Inl e \<Rightarrow> throw (StoreError (''Handoff record is invalid: '' @ e))
   | Inr u \<Rightarrow>
       seq read_handoff_records (\<lambda>records. case map_of records (hr_attempt_id r) of
         Some existing \<Rightarrow> ret existing
       | None \<Rightarrow>
           seq (replace_file ''Handoff record store could not be written''
             (entries_to_json record_to_json (put_entry (hr_attempt_id r) r records))) (\<lambda>_. ret r)))"

text \<open>\<open>MemoryHandoffPublicationStore\<close>: the same rule on a dict of the process.\<close>

definition memory_save_if_absent :: "handoff_record \<Rightarrow> ((string \<times> handoff_record) list, store_error, handoff_record) comp" where
  "memory_save_if_absent r records = (case validate_record r of
     Inl e \<Rightarrow> (Inl (StoreError (''Handoff record is invalid: '' @ e)), records)
   | Inr u \<Rightarrow> (case map_of records (hr_attempt_id r) of
         Some existing \<Rightarrow> (Inr existing, records)
       | None \<Rightarrow> (Inr r, put_entry (hr_attempt_id r) r records)))"

end
