(* ===== verification/Handoff_Record_Props.thy ===== *)
theory Handoff_Record_Props
  imports Handoff_Records
begin

text \<open>
  Properties of the shared handoff record: reading a published comment returns the record it was built from if
  no name in it has a bracket or a blank, and never if the repository has a blank; and moving an issue from result comments to the shared record does not change its continuation standing.
\<close>

section \<open>Reading a published record\<close>

text \<open>A separator that ends in a character which neither the text before it nor its other characters contain.\<close>

lemma py_cut_at_last:
  assumes "d \<notin> set a" "d \<notin> set q"
  shows "py_cut (q @ [d]) (a @ (q @ [d]) @ b) = Some (a, b)"
  using assms(1)
proof (induction a)
  case Nil
  then show ?case by (cases q) (auto simp: py_startswith_def)
next
  case (Cons x a)
  have "\<not> py_startswith (q @ [d]) (x # a @ (q @ [d]) @ b)"
  proof
    assume "py_startswith (q @ [d]) (x # a @ (q @ [d]) @ b)"
    then have "(x # a @ q @ [d] @ b) ! length q = d"
      unfolding py_startswith_append by (metis append.assoc append_Cons append_Nil nth_append_length)
    moreover have "(x # a @ q @ [d] @ b) ! length q = ((x # a) @ q) ! length q"
      using nth_append [of "(x # a) @ q" "[d] @ b" "length q"] by simp
    moreover have "((x # a) @ q) ! length q \<in> set ((x # a) @ q)" by (rule nth_mem) simp
    ultimately show False using Cons.prems assms(2) by auto
  qed
  with Cons show ?case by simp
qed

lemma py_words_join_end: "list_all word_like ws \<Longrightarrow> py_words (py_join '' '' ws @ '' '') = ws"
proof (induction "'' '' :: string" ws rule: py_join.induct)
  case (2 x)
  then show ?case using py_words_word [of x "'' ''"] by simp
next
  case (3 x y ys)
  then show ?case using py_words_word [of x "CHR '' '' # py_join '' '' (y # ys) @ '' ''"] by simp
qed simp

lemma field_of_part: "k \<noteq> [] \<Longrightarrow> CHR ''='' \<notin> set k \<Longrightarrow> v \<noteq> [] \<Longrightarrow> field_of (k @ CHR ''='' # v) = Some (k, v)"
  by (simp add: field_of_def py_partition_at)

lemma word_like_append: "word_like k \<Longrightarrow> list_all (\<lambda>c. \<not> py_space c) v \<Longrightarrow> word_like (k @ v)"
  by (auto simp: word_like_def)

lemma word_like_str_of_int: "word_like (str_of_int i)"
proof -
  have "list_all (\<lambda>c. \<not> py_space c) (str_of_nat n)" for n
    using str_of_nat_digits [of n] by (auto simp: list_all_iff digit_not_space)
  then show ?thesis by (auto simp: word_like_def str_of_int_def py_space_def)
qed

lemma set_py_join: "set (py_join sep ws) \<subseteq> set sep \<union> \<Union> (set ` set ws)"
  by (induction sep ws rule: py_join.induct) auto

text \<open>
  Values that survive in a marker: no whitespace (only the repository is not checked for it) and no angle brackets;
  numbers that \<open>int\<close> reads back.
\<close>

definition marker_safe :: "string \<Rightarrow> bool" where
  "marker_safe v \<longleftrightarrow> word_like v \<and> CHR ''<'' \<notin> set v \<and> CHR ''>'' \<notin> set v"

definition record_safe :: "handoff_record \<Rightarrow> bool" where
  "record_safe r \<longleftrightarrow> marker_safe (hr_repository r) \<and> marker_safe (hr_attempt_id r) \<and> marker_safe (hr_branch r)
     \<and> marker_safe (hr_branch_sha r) \<and> marker_safe (hr_note_sha r)
     \<and> length (str_of_nat (nat (hr_issue_number r))) \<le> 4300
     \<and> length (str_of_nat (nat (hr_continuation_count r))) \<le> 4300"

lemma and_then_Inr: "and_then r x = Inr y \<longleftrightarrow> r = Inr () \<and> x = Inr y"
  by (cases r) (auto simp: and_then_def)

lemma valid_record:
  "validate_record r = Inr () \<longleftrightarrow>
     hr_version r = 1 \<and> \<not> py_blank (hr_repository r) \<and> 0 < hr_issue_number r
     \<and> check_value ''attempt_id'' (hr_attempt_id r) = Inr () \<and> check_value ''branch'' (hr_branch r) = Inr ()
     \<and> check_value ''branch_sha'' (hr_branch_sha r) = Inr () \<and> check_value ''note_sha'' (hr_note_sha r) = Inr ()
     \<and> hr_requeue_source r \<in> set REQUEUE_SOURCES \<and> 0 \<le> hr_continuation_count r"
  by (auto simp: validate_record_def and_then_Inr HANDOFF_RECORD_VERSION_def)

lemma source_word: "s \<in> set REQUEUE_SOURCES \<Longrightarrow> marker_safe s"
  by (auto simp: REQUEUE_SOURCES_def REQUEUE_SOURCE_HUMAN_def REQUEUE_SOURCE_AUTOMATIC_def
      REQUEUE_SOURCE_CONFLICT_def marker_safe_def word_like_def py_space_def)

lemma str_of_int_safe: "0 \<le> i \<Longrightarrow> marker_safe (str_of_int i)"
  using word_like_str_of_int [of i] str_of_nat_digits [of "nat i"]
  by (auto simp: marker_safe_def str_of_int_def list_all_iff is_digit_def char_between_def)

lemma record_fields:
  assumes "record_safe r" "validate_record r = Inr ()"
  shows "record_of_fields (fields_of ('' '' @ py_join '' '' (record_parts r) @ '' '')) = Some r"
proof -
  have v: "hr_version r = 1" "0 < hr_issue_number r" "0 \<le> hr_continuation_count r" "hr_requeue_source r \<in> set REQUEUE_SOURCES"
    using assms(2) by (simp_all add: valid_record)
  have w: "word_like (hr_repository r)" "word_like (hr_attempt_id r)" "word_like (hr_branch r)"
    "word_like (hr_branch_sha r)" "word_like (hr_note_sha r)" "word_like (hr_requeue_source r)"
    using assms(1) source_word [OF v(4)] by (simp_all add: record_safe_def marker_safe_def)
  have ne: "x \<noteq> []" "list_all (\<lambda>c. \<not> py_space c) x" if "word_like x" for x using that by (simp_all add: word_like_def)
  have parts: "list_all word_like (record_parts r)"
    using w word_like_str_of_int
    by (simp add: record_parts_def) (simp add: word_like_def py_space_def)
  have one: "py_int (str_of_int 1) = Some 1" by (rule py_int_str_of_int) (simp_all add: str_of_nat.simps)
  have num: "py_int (str_of_int (hr_issue_number r)) = Some (hr_issue_number r)"
    "py_int (str_of_int (hr_continuation_count r)) = Some (hr_continuation_count r)"
    using v assms(1) by (auto simp: record_safe_def intro!: py_int_str_of_int)
  have pn: "str_of_int i \<noteq> []" for i using word_like_str_of_int [of i] by (simp add: word_like_def)
  have "fields_of ('' '' @ py_join '' '' (record_parts r) @ '' '') = rev
      [(''v'', str_of_int (hr_version r)), (''repo'', hr_repository r), (''issue'', str_of_int (hr_issue_number r)),
       (''attempt'', hr_attempt_id r), (''source'', hr_requeue_source r), (''count'', str_of_int (hr_continuation_count r)),
       (''branch'', hr_branch r), (''branch_sha'', hr_branch_sha r), (''note_sha'', hr_note_sha r)]"
    using field_of_part [of "''v''"] field_of_part [of "''repo''"] field_of_part [of "''issue''"]
      field_of_part [of "''attempt''"] field_of_part [of "''source''"] field_of_part [of "''count''"]
      field_of_part [of "''branch''"] field_of_part [of "''branch_sha''"] field_of_part [of "''note_sha''"]
      w [THEN ne(1)] pn py_words_join_end [OF parts]
    by (simp add: fields_of_def) (simp add: record_parts_def List.map_filter_def)
  then show ?thesis
    using v(1) one num by (simp add: record_of_fields_def)
qed

lemma read_published:
  assumes "record_safe r" "build_handoff_record_body r = Inr body"
  shows "parse_handoff_record body = Some r \<and> is_handoff_record body"
proof -
  from assms(2) have valid: "validate_record r = Inr ()"
    and body: "body = record_prose r @ HANDOFF_RECORD_MARKER_PREFIX @ ('' '' @ py_join '' '' (record_parts r) @ '' '') @ ''-->''"
    by (cases "validate_record r"; simp add: build_handoff_record_body_def handoff_record_marker_def and_then_def)+
  have safe: "marker_safe (hr_repository r)" "marker_safe (hr_attempt_id r)" "marker_safe (hr_branch r)"
    "marker_safe (hr_branch_sha r)" "marker_safe (hr_note_sha r)" "marker_safe (hr_requeue_source r)"
    using assms(1) valid source_word by (simp_all add: record_safe_def valid_record)
  have num: "marker_safe (str_of_int (hr_version r))" "marker_safe (str_of_int (hr_issue_number r))"
    "marker_safe (str_of_int (hr_continuation_count r))"
    using valid by (simp_all add: valid_record str_of_int_safe)
  have "CHR ''<'' \<notin> set (record_prose r)"
    using safe num by (simp add: record_prose_def handoff_note_blob_url_def nl_def marker_safe_def)
  then have prefix: "py_cut HANDOFF_RECORD_MARKER_PREFIX body
      = Some (record_prose r, ('' '' @ py_join '' '' (record_parts r) @ '' '') @ ''-->'')"
    unfolding body HANDOFF_RECORD_MARKER_PREFIX_def by (rule py_cut_at)
  have "CHR ''>'' \<notin> set ('' '' @ py_join '' '' (record_parts r) @ '' '')"
    using set_py_join [of "'' ''" "record_parts r"] safe num by (auto simp: record_parts_def marker_safe_def)
  from py_cut_at_last [OF this, of "''--''" "[]"]
  have arrow: "py_cut ''-->'' (('' '' @ py_join '' '' (record_parts r) @ '' '') @ ''-->'')
      = Some ('' '' @ py_join '' '' (record_parts r) @ '' '', [])" by simp
  show ?thesis
    using record_fields [OF assms(1) valid] valid
    by (simp add: parse_handoff_record_def is_handoff_record_def marker_fields_def prefix arrow [unfolded append_assoc] del: append_Cons append_Nil)
qed

text \<open>No comment at all reads as a record whose repository has whitespace in it, although such a record is valid.\<close>

lemma py_words_word_like: "w \<in> set (py_words s) \<Longrightarrow> word_like w"
proof (induction s rule: py_words.induct)
  case (1 s)
  show ?case
  proof (cases "dropWhile py_space s")
    case Nil
    with "1.prems" show ?thesis by (simp add: py_words.simps [of s])
  next
    case (Cons c cs)
    then have "\<not> py_space c" by (metis hd_dropWhile list.distinct(1) list.sel(1))
    then have "word_like (c # takeWhile (\<lambda>d. \<not> py_space d) cs)"
      by (auto simp: word_like_def list_all_iff dest: set_takeWhileD)
    with "1.prems" "1.IH" [OF Cons] show ?thesis by (auto simp: py_words.simps [of s] Cons)
  qed
qed

lemma fields_of_values: "map_of (fields_of inner) k = Some v \<Longrightarrow> list_all (\<lambda>c. \<not> py_space c) v"
proof -
  assume "map_of (fields_of inner) k = Some v"
  then have "(k, v) \<in> set (List.map_filter field_of (py_words inner))" by (auto simp: fields_of_def dest: map_of_SomeD)
  then obtain w where w: "w \<in> set (py_words inner)" "field_of w = Some (k, v)" by (auto simp: List.map_filter_def)
  then have "w = k @ CHR ''='' # v"
    by (auto simp: field_of_def split: prod.splits option.splits if_splits dest!: py_partition_Some)
  with py_words_word_like [OF w(1)] show ?thesis by (simp add: word_like_def)
qed

lemma parsed_repository: "parse_handoff_record body = Some r \<Longrightarrow> list_all (\<lambda>c. \<not> py_space c) (hr_repository r)"
proof -
  have accepted: "(case v of Inl e \<Rightarrow> None | Inr u \<Rightarrow> Some x) = Some r \<Longrightarrow> x = r" for v :: "string + unit" and x
    by (cases v) simp_all
  assume "parse_handoff_record body = Some r"
  then obtain fs where fs: "marker_fields HANDOFF_RECORD_MARKER_PREFIX body = Some fs" "record_of_fields fs = Some r"
    by (auto simp: parse_handoff_record_def bind_eq_Some_conv dest!: accepted)
  then obtain inner where "fs = fields_of inner" by (auto simp: marker_fields_def split: option.splits)
  moreover have "map_of fs ''repo'' = Some (hr_repository r)" using fs(2) by (auto simp: record_of_fields_def bind_eq_Some_conv)
  ultimately show ?thesis by (simp add: fields_of_values)
qed

text \<open>
  C18. Which published records can be read back: when the repository, the attempt, the branch and the two revisions are
  words without angle brackets, and the numbers have at most the 4300 digits that Python reads, then parsing the
  comment built from the record returns exactly that record, and the comment is recognised as the shared record. The
  check before publishing does not ask for this: a record whose repository has whitespace in it passes it, and its
  comment never reads back as the record.
\<close>

theorem handoff_record_roundtrip:
  assumes "build_handoff_record_body r = Inr body"
  shows "(record_safe r \<longrightarrow> parse_handoff_record body = Some r \<and> is_handoff_record body)
    \<and> (list_ex py_space (hr_repository r) \<longrightarrow> parse_handoff_record body \<noteq> Some r)"
  using read_published [OF _ assms] parsed_repository [of body r] by (auto simp: list_all_iff list_ex_iff)

definition demo_record :: handoff_record where
  "demo_record = \<lparr>hr_version = 1, hr_repository = ''o/r'', hr_issue_number = 7, hr_attempt_id = ''t1Z'',
     hr_requeue_source = ''automatic'', hr_continuation_count = 2, hr_branch = ''agent/issue-7'',
     hr_branch_sha = ''abc'', hr_note_sha = ''def''\<rparr>"

definition demo_body :: string where
  "demo_body = (case build_handoff_record_body demo_record of Inl e \<Rightarrow> [] | Inr b \<Rightarrow> b)"

lemma demo_record_safe: "record_safe demo_record"
  by (simp add: demo_record_def record_safe_def marker_safe_def word_like_def py_space_def str_of_nat.simps)

lemma demo_body: "build_handoff_record_body demo_record = Inr demo_body"
proof -
  have "validate_record demo_record = Inr ()"
    by (simp add: valid_record demo_record_def check_value_def py_blank_iff py_space_def REQUEUE_SOURCES_def
        REQUEUE_SOURCE_HUMAN_def REQUEUE_SOURCE_AUTOMATIC_def REQUEUE_SOURCE_CONFLICT_def)
  then show ?thesis
    by (simp add: demo_body_def build_handoff_record_body_def handoff_record_marker_def and_then_def)
qed

definition spaced_record :: handoff_record where
  "spaced_record = demo_record\<lparr>hr_repository := ''o/r s''\<rparr>"

definition spaced_body :: string where
  "spaced_body = (case build_handoff_record_body spaced_record of Inl e \<Rightarrow> [] | Inr b \<Rightarrow> b)"

lemma spaced_body: "build_handoff_record_body spaced_record = Inr spaced_body"
proof -
  have "(case build_handoff_record_body spaced_record of Inl e \<Rightarrow> False | Inr b \<Rightarrow> True)" by code_simp
  then show ?thesis by (auto simp: spaced_body_def split: sum.splits)
qed

theorem handoff_record_roundtrip_witness:
  "parse_handoff_record demo_body = Some demo_record \<and> is_handoff_record demo_body
   \<and> parse_handoff_record spaced_body \<noteq> Some spaced_record"
  using handoff_record_roundtrip [OF demo_body] handoff_record_roundtrip [OF spaced_body] demo_record_safe
  by (simp add: spaced_record_def py_space_def)


section \<open>The continuation standing\<close>

text \<open>Comments that no count looks at.\<close>

definition transparent :: "string \<Rightarrow> bool" where
  "transparent body \<longleftrightarrow> is_handoff_record body \<or> is_conflict_attempt body \<or> is_pr_head_stale_notice body"

text \<open>A result comment of an attempt that is later, or not later, than the shared one.\<close>

definition later_result :: "iso_parser \<Rightarrow> string \<Rightarrow> string \<Rightarrow> bool" where
  "later_result parse_iso shared body \<longleftrightarrow> (case parse_comment_attempt_id body of
     None \<Rightarrow> False | Some a \<Rightarrow> a \<noteq> shared \<and> attempt_id_greater parse_iso a shared = Inr True)"

definition earlier_result :: "iso_parser \<Rightarrow> string \<Rightarrow> string \<Rightarrow> bool" where
  "earlier_result parse_iso shared body \<longleftrightarrow> (case parse_comment_attempt_id body of
     None \<Rightarrow> True | Some a \<Rightarrow> a = shared \<or> attempt_id_greater parse_iso a shared = Inr False)"

lemma count_transparent [simp]:
  "transparent body \<Longrightarrow> count_automatic_continuations (body # bodies) = count_automatic_continuations bodies"
  by (auto simp: transparent_def)

lemma reconcile_transparent [simp]:
  "transparent body \<Longrightarrow> reconcile_newer parse_iso shared count (body # bodies) n = reconcile_newer parse_iso shared count bodies n"
  by (auto simp: transparent_def)

lemma reconcile_earlier:
  "list_all (\<lambda>b. transparent b \<or> earlier_result parse_iso shared b) bodies \<Longrightarrow>
     reconcile_newer parse_iso shared count bodies n = Inr (count + n)"
proof (induction bodies)
  case (Cons b bodies)
  show ?case
  proof (cases "transparent b")
    case True
    with Cons show ?thesis by (simp del: reconcile_newer.simps)
  next
    case False
    with Cons show ?thesis by (auto simp: earlier_result_def transparent_def split: option.splits)
  qed
qed simp

lemma reconcile_later:
  assumes "list_all (\<lambda>b. transparent b \<or> later_result parse_iso shared b) newer"
    and "list_all (\<lambda>b. transparent b \<or> earlier_result parse_iso shared b) older"
    and "int (count_automatic_continuations older) = count"
  shows "reconcile_newer parse_iso shared count (newer @ older) n = Inr (int (count_automatic_continuations (newer @ older)) + n)"
  using assms(1)
proof (induction newer arbitrary: n)
  case Nil
  with assms(2,3) show ?case by (simp add: reconcile_earlier)
next
  case (Cons b newer)
  show ?case
  proof (cases "transparent b")
    case True
    with Cons show ?thesis by (simp del: reconcile_newer.simps count_automatic_continuations.simps)
  next
    case False
    with Cons.prems have "later_result parse_iso shared b" by simp
    then obtain a where a: "parse_comment_attempt_id b = Some a" "a \<noteq> shared" "attempt_id_greater parse_iso a shared = Inr True"
      by (auto simp: later_result_def split: option.splits)
    from Cons.IH [of "n + 1"] Cons.prems False a show ?thesis by (simp add: transparent_def)
  qed
qed

text \<open>
  Moving an issue to the shared record keeps its standing: when the record's count is the count of the history up
  to its own attempt, then the standing resolved from the record and the newer results is the count over the whole
  history of result comments, as before the record existed.
\<close>

theorem shared_record_keeps_standing:
  assumes "filter is_handoff_record (newer @ older) = [body]" "parse_handoff_record body = Some r"
    and "list_all (\<lambda>b. transparent b \<or> later_result parse_iso (hr_attempt_id r) b) newer"
    and "list_all (\<lambda>b. transparent b \<or> earlier_result parse_iso (hr_attempt_id r) b) older"
    and "int (count_automatic_continuations older) = hr_continuation_count r"
  shows "resolve_automatic_continuation_count parse_iso (newer @ older) (Some (hr_issue_number r)) (Some (hr_repository r))
    = Inr (int (count_automatic_continuations (filter (\<lambda>b. \<not> is_handoff_record b) (newer @ older))))"
proof -
  have "count_automatic_continuations (filter (\<lambda>b. \<not> is_handoff_record b) bs) = count_automatic_continuations bs" for bs
    by (induction bs) auto
  with reconcile_later [OF assms(3,4,5), of 0] assms(1,2) show ?thesis
    by (simp add: resolve_automatic_continuation_count_def List.map_filter_def del: filter_append)
qed

definition demo_result :: string where
  "demo_result = attempt_marker ''t2Z'' @ nl @ source_text REQUEUE_SOURCE_AUTOMATIC"

definition demo_old_result :: string where
  "demo_old_result = attempt_marker ''t1Z'' @ nl @ source_text REQUEUE_SOURCE_AUTOMATIC"

text \<open>Attempt IDs that do not parse are compared as texts.\<close>

lemma demo_kinds:
  "\<not> transparent demo_result" "\<not> transparent demo_old_result" "\<not> is_handoff_record demo_result" "\<not> is_handoff_record demo_old_result"
  "parse_comment_attempt_id demo_result = Some ''t2Z''" "parse_comment_attempt_id demo_old_result = Some ''t1Z''"
  "parse_requeue_source demo_result = Some REQUEUE_SOURCE_AUTOMATIC"
  "parse_requeue_source demo_old_result = Some REQUEUE_SOURCE_AUTOMATIC"
  by code_simp+

lemma demo_later:
  "later_result (\<lambda>v. None) ''t1Z'' demo_result" "earlier_result (\<lambda>v. None) ''t1Z'' demo_old_result"
  by (code_simp, simp add: earlier_result_def demo_kinds)

theorem shared_record_keeps_standing_witness:
  "resolve_automatic_continuation_count (\<lambda>v. None)
      [demo_result, demo_body, demo_old_result, demo_old_result] (Some 7) (Some ''o/r'') = Inr 3"
proof -
  have body: "parse_handoff_record demo_body = Some demo_record" "is_handoff_record demo_body"
    using read_published [OF demo_record_safe demo_body] by simp_all
  have r: "hr_attempt_id demo_record = ''t1Z''" "hr_issue_number demo_record = 7" "hr_repository demo_record = ''o/r''"
    "hr_continuation_count demo_record = 2" by (simp_all add: demo_record_def)
  have t: "transparent demo_body" using body by (simp add: transparent_def)
  have two: "count_automatic_continuations [demo_old_result, demo_old_result] = 2"
    using demo_kinds by (simp add: transparent_def)
  show ?thesis
    using shared_record_keeps_standing [of "[demo_result, demo_body]" "[demo_old_result, demo_old_result]" demo_body demo_record "\<lambda>v. None"]
      body r t two demo_kinds demo_later
    by (simp add: transparent_def)
qed

end
