(* ===== verification/Comments.thy ===== *)
theory Comments
  imports Handoff_Record_Props
begin

text \<open>
  Comments built and read for people (\<open>recovery.py\<close>): the abandonment comment of \<open>recovery release\<close>, the
  descriptions of a hold, and the filter that decides what of an issue's comments a starting prompt carries.
\<close>

section \<open>Texts for the operator\<close>

text \<open>The operator's arguments of a recovery; the length limit counts the text as given.\<close>

datatype rejection = Not_given string | Too_long string

definition parse_attempt_id :: "string \<Rightarrow> rejection + string" where
  "parse_attempt_id v =
     (if py_blank v then Inl (Not_given v) else if 256 < length v then Inl (Too_long v) else Inr (py_strip v))"

definition parse_saved_at :: "string \<Rightarrow> rejection + string" where
  "parse_saved_at v =
     (if py_blank v then Inl (Not_given v) else if 1024 < length v then Inl (Too_long v) else Inr (py_strip v))"

definition release_comment_body ::
  "int \<Rightarrow> string \<Rightarrow> string \<Rightarrow> string \<Rightarrow> string \<Rightarrow> string \<Rightarrow> string \<Rightarrow> string \<Rightarrow> marker_error + string" where
  "release_comment_body issue_number attempt_id actual_outcome failure_reason saved_at branch requeue_source worker_id =
     map_sum id (\<lambda>source_marker.
       ''## Agent Attempt Result: '' @ actual_outcome @ nl @ nl
       @ ''**Branch**: `'' @ branch @ ''` (retained work secured by the operator; not published as a success)'' @ nl
       @ fst (worker_blocks worker_id) @ nl
       @ ''### Outcome'' @ nl
       @ ''The attempt `'' @ attempt_id @ ''` for issue #'' @ str_of_int issue_number @ '' did not complete''
       @ '' finalization and was explicitly released by the operator.'' @ nl @ nl
       @ ''### Failure'' @ nl @ failure_reason @ nl @ nl
       @ ''### Saved work'' @ nl
       @ ''Retained work was secured at: `'' @ saved_at @ ''`'' @ nl @ nl
       @ ''This release does not claim a successful handoff and does not'' @ '' requeue the issue.'' @ nl @ nl
       @ attempt_marker attempt_id @ nl
       @ snd (worker_blocks worker_id)
       @ source_marker) (requeue_source_marker requeue_source)"

definition retry_next_action :: "string \<Rightarrow> string" where
  "retry_next_action attempt_id =
     ''Run `agentctl recovery retry '' @ attempt_id @ ''` to retry the unconfirmed''
     @ '' publication, release, cleanup, and accounting steps; if the retained''
     @ '' work is already secured elsewhere, run''
     @ '' `agentctl recovery release '' @ attempt_id @ '' --saved-at <path-or-url>` instead.''"

definition release_next_action :: string where
  "release_next_action =
     ''Secure the retained branch, worktree, and checkpoint first, then run''
     @ '' `agentctl recovery release <attempt-id> --saved-at <path-or-url>`.''"

definition describe_hold :: "int option \<Rightarrow> string option \<Rightarrow> string option \<Rightarrow> string \<Rightarrow> string" where
  "describe_hold issue_number attempt_id phase reason =
     (case (issue_number, nonempty attempt_id) of
        (Some n, Some a) \<Rightarrow>
          ''Retained attempt for issue #'' @ str_of_int n @ '' (attempt '' @ a @ '')''
          @ (case nonempty phase of None \<Rightarrow> [] | Some p \<Rightarrow> '' (phase '' @ p @ '')'') @ '': '' @ reason
      | (None, Some a) \<Rightarrow> ''Retained attempt '' @ a @ '': '' @ reason
      | (_, None) \<Rightarrow> reason)"


section \<open>Generated results\<close>

text \<open>The positions at which \<open>^\<close> matches in multi-line mode: the start and every position after a line feed.\<close>

fun line_starts :: "string \<Rightarrow> string list" where
  "line_starts [] = []"
| "line_starts (c # cs) = (if c = CHR 0x0A then cs # line_starts cs else line_starts cs)"

definition multiline_match :: "(string \<Rightarrow> bool) \<Rightarrow> string \<Rightarrow> bool" where
  "multiline_match m s = list_ex m (s # line_starts s)"

text \<open>\<open>#{1,6}\s*\<close> and what follows.\<close>

definition heading :: "string \<Rightarrow> string option" where
  "heading s = (let n = length (takeWhile (\<lambda>c. c = CHR ''#'') s)
     in if 1 \<le> n \<and> n \<le> 6 then Some (dropWhile py_space (drop n s)) else None)"

text \<open>A literal that a \<open>\b\<close> ends.\<close>

definition lit_word :: "string \<Rightarrow> string \<Rightarrow> bool" where
  "lit_word w s = (case lit w s of None \<Rightarrow> False | Some r \<Rightarrow> r = [] \<or> \<not> word_char (hd r))"

definition is_generated_handoff_result :: "string \<Rightarrow> bool" where
  "is_generated_handoff_result body = multiline_match (\<lambda>s.
     (case Option.bind (heading s) (lit ''Agent Attempt Result:'') of
        None \<Rightarrow> False | Some r \<Rightarrow> lit_word ''handoff'' (dropWhile py_space r))) body"

definition GENERATED_RESULT_MARKERS :: "string list" where
  "GENERATED_RESULT_MARKERS = [''<!-- agent-attempt:'', ''<!-- conflict-attempt:'', ''<!-- conflict-escalation -->'',
     ''<!-- requeue-source:'']"

definition is_generated_result_comment :: "string \<Rightarrow> bool" where
  "is_generated_result_comment body \<longleftrightarrow>
     multiline_match (\<lambda>s. (case heading s of
        None \<Rightarrow> False
      | Some r \<Rightarrow> lit ''Agent Attempt Result:'' r \<noteq> None \<or> lit_word ''Conflict Attempt Result'' r)) body
     \<or> list_ex (\<lambda>m. py_contains m body) GENERATED_RESULT_MARKERS"

text \<open>Removal of the hidden markers of one line, leftmost first and without a second pass.\<close>

function remove_hidden :: "string \<Rightarrow> string" where
  "remove_hidden s = (case py_cut ''<!--'' s of
     None \<Rightarrow> s
   | Some (before, rest) \<Rightarrow> (case py_cut ''-->'' rest of
       None \<Rightarrow> s
     | Some (inner, after) \<Rightarrow> before @ remove_hidden after))"
  by auto
termination
  by (relation "measure length") (auto dest!: py_cut_Some)

declare remove_hidden.simps [simp del]

text \<open>\<open>\d+\<close> at the start of a text, and what follows.\<close>

definition digits1 :: "string \<Rightarrow> string option" where
  "digits1 s = (if takeWhile is_digit s = [] then None else Some (dropWhile is_digit s))"

definition bookkeeping_line :: "string \<Rightarrow> bool" where
  "bookkeeping_line s \<longleftrightarrow>
     list_ex (\<lambda>name. py_startswith (''**'' @ name @ ''**:'') s)
       [''Branch'', ''PR'', ''Handoff note commit'', ''Merge'', ''Conflict attempts'']
     \<or> Option.bind (lit ''Automatic continuation '' s) (\<lambda>r. Option.bind (digits1 r) (\<lambda>r. Option.bind (lit ''/'' r) (\<lambda>r.
         Option.bind (digits1 r) (lit '' used;'')))) \<noteq> None
     \<or> py_startswith ''Worker:'' s"

definition strip_result_bookkeeping :: "string \<Rightarrow> string" where
  "strip_result_bookkeeping body =
     py_strip (py_join nl (List.map_filter (\<lambda>line.
       let stripped = remove_hidden line
       in if py_blank stripped then None
          else if bookkeeping_line (py_strip stripped) then None
          else Some (py_rstrip stripped)) (py_splitlines body)))"

definition filter_prompt_comments :: "string list \<Rightarrow> string list" where
  "filter_prompt_comments bodies = List.map_filter (\<lambda>body.
     if is_generated_handoff_result body then None
     else if is_generated_result_comment body then
       (let stripped = strip_result_bookkeeping body in if stripped = [] then None else Some stripped)
     else Some body) bodies"


section \<open>A released attempt in the history\<close>

lemma contains_skip: "c \<notin> set a \<Longrightarrow> py_contains (c # cs) (a @ s) \<longleftrightarrow> py_contains (c # cs) s"
  by (induction a) (auto simp: py_startswith_def)

lemma re_search_skip:
  assumes "\<And>t. m t \<noteq> None \<Longrightarrow> t \<noteq> [] \<and> hd t = c" "c \<notin> set a"
  shows "re_search m (a @ s) = re_search m s"
  using assms(2)
proof (induction a)
  case (Cons x a)
  then have "m (x # a @ s) = None" using assms(1) [of "x # a @ s"] by (cases "m (x # a @ s)") auto
  with Cons show ?case by (simp add: re_search_def)
qed simp

lemma lit_hd: "Option.bind (lit (c # cs) t) f \<noteq> None \<Longrightarrow> t \<noteq> [] \<and> hd t = c"
  by (cases t) (auto simp: lit_def py_startswith_def split: if_splits)

lemma re_search_here: "m s = Some v \<Longrightarrow> re_search m s = Some v"
  by (cases s) (simp_all add: re_search_def)

lemma no_arrow: "CHR ''>'' \<notin> set t \<Longrightarrow> t \<noteq> [] \<Longrightarrow> \<not> py_startswith ''-->'' (t @ CHR '' '' # s)"
  by (cases t; cases "tl t"; cases "tl (tl t)") (auto simp: py_startswith_def)

lemma lazy_until_arrow_here:
  "list_all (\<lambda>c. \<not> py_space c) v \<Longrightarrow> CHR ''>'' \<notin> set v \<Longrightarrow> lazy_until_arrow (v @ CHR '' '' # ''-->'' @ s) = Some v"
proof (induction v)
  case Nil
  have "\<not> py_space CHR ''-''" by (simp add: py_space_def)
  then show ?case by (subst lazy_until_arrow.simps) (simp add: py_startswith_def)
next
  case (Cons c v)
  then have c: "\<not> py_space c" "c \<noteq> CHR 0x0A" by (auto simp: py_space_def)
  from no_arrow [OF Cons.prems(2)] have "\<not> py_startswith ''-->'' (c # v @ CHR '' '' # ''-->'' @ s)" by simp
  with Cons c show ?case by (subst lazy_until_arrow.simps) simp
qed

lemma marker_group_here:
  assumes "word_like v" "CHR ''>'' \<notin> set v"
  shows "marker_group (CHR '' '' # v @ '' -->'' @ s) = Some v"
proof -
  from assms(1) have "list_all (\<lambda>c. \<not> py_space c) v" "dropWhile py_space (v @ '' -->'' @ s) = v @ '' -->'' @ s"
    by (cases v; simp add: word_like_def)+
  with lazy_until_arrow_here [OF this(1) assms(2), of s] py_strip_no_space [of v] show ?thesis
    by (simp add: marker_group_def)
qed

lemma parse_attempt_marker:
  assumes "CHR ''<'' \<notin> set a" "word_like v" "CHR ''>'' \<notin> set v"
  shows "parse_comment_attempt_id (a @ attempt_marker v @ s) = Some v"
proof -
  have "\<not> py_space CHR ''a''" by (simp add: py_space_def)
  with marker_group_here [OF assms(2,3), of s] have
    "re_search (\<lambda>t. Option.bind (lit ''<!--'' t) (\<lambda>u. Option.bind (lit ''agent-attempt:'' (dropWhile py_space u)) marker_group))
      (attempt_marker v @ s) = Some v"
    by (intro re_search_here) (simp add: attempt_marker_def lit_def py_startswith_def)
  moreover have "re_search (\<lambda>t. Option.bind (lit ''<!--'' t) (\<lambda>u. Option.bind (lit ''agent-attempt:'' (dropWhile py_space u)) marker_group))
      (a @ attempt_marker v @ s) = re_search (\<lambda>t. Option.bind (lit ''<!--'' t) (\<lambda>u. Option.bind (lit ''agent-attempt:'' (dropWhile py_space u)) marker_group))
      (attempt_marker v @ s)"
    by (rule re_search_skip [where c = "CHR ''<''", OF lit_hd assms(1)])
  ultimately show ?thesis using assms(2) by (simp add: parse_comment_attempt_id_def nonempty_def word_like_def)
qed


text \<open>The text of a release comment before its markers.\<close>

definition release_prose :: "int \<Rightarrow> string \<Rightarrow> string \<Rightarrow> string \<Rightarrow> string \<Rightarrow> string \<Rightarrow> string \<Rightarrow> string" where
  "release_prose issue_number attempt_id actual_outcome failure_reason saved_at branch worker_id =
     ''## Agent Attempt Result: '' @ actual_outcome @ nl @ nl
     @ ''**Branch**: `'' @ branch @ ''` (retained work secured by the operator; not published as a success)'' @ nl
     @ fst (worker_blocks worker_id) @ nl
     @ ''### Outcome'' @ nl
     @ ''The attempt `'' @ attempt_id @ ''` for issue #'' @ str_of_int issue_number @ '' did not complete''
     @ '' finalization and was explicitly released by the operator.'' @ nl @ nl
     @ ''### Failure'' @ nl @ failure_reason @ nl @ nl
     @ ''### Saved work'' @ nl
     @ ''Retained work was secured at: `'' @ saved_at @ ''`'' @ nl @ nl
     @ ''This release does not claim a successful handoff and does not'' @ '' requeue the issue.'' @ nl @ nl"

lemma release_comment_body_eq:
  assumes "source \<in> set REQUEUE_SOURCES"
  shows "release_comment_body n a outcome reason saved branch source worker =
    Inr (release_prose n a outcome reason saved branch worker @ attempt_marker a @ nl @ snd (worker_blocks worker) @ source_text source)"
  using assms by (simp add: release_comment_body_def release_prose_def requeue_source_marker_def)

text \<open>A marker that starts with an opening bracket occurs in a text only where that bracket does.\<close>

lemma contains_open:
  "CHR ''<'' \<notin> set a \<Longrightarrow> py_contains (CHR ''<'' # cs) (a @ s) \<longleftrightarrow> py_contains (CHR ''<'' # cs) s"
  "CHR ''<'' \<notin> set a \<Longrightarrow> py_contains (CHR ''<'' # cs) (CHR ''<'' # a @ s) \<longleftrightarrow>
     py_startswith (CHR ''<'' # cs) (CHR ''<'' # a @ s) \<or> py_contains (CHR ''<'' # cs) s"
  by (simp_all add: contains_skip)

lemma no_open:
  "CHR ''<'' \<notin> set s \<Longrightarrow> \<not> py_contains (CHR ''<'' # cs) s"
  using contains_skip [of "CHR ''<''" s cs "[]"] by simp

text \<open>The markers of a release comment: one of the attempt, possibly one of the Worker, one of the source.\<close>

definition release_tail :: "string \<Rightarrow> string \<Rightarrow> string \<Rightarrow> string" where
  "release_tail a worker source = attempt_marker a @ nl @ snd (worker_blocks worker) @ source_text source"

lemma release_tail_contains:
  assumes "CHR ''<'' \<notin> set a" "CHR ''<'' \<notin> set worker" "CHR ''<'' \<notin> set source"
  shows "py_contains (CHR ''<'' # cs) (release_tail a worker source) \<longleftrightarrow>
     py_startswith (CHR ''<'' # cs) (attempt_marker a @ nl @ snd (worker_blocks worker) @ source_text source)
     \<or> (\<not> py_blank worker \<and> py_startswith (CHR ''<'' # cs) (worker_marker (py_strip worker) @ nl @ source_text source))
     \<or> py_startswith (CHR ''<'' # cs) (source_text source)"
proof -
  have strip: "set (py_strip s) \<subseteq> set s" for s
    by (auto simp: py_strip_def py_rstrip_def py_lstrip_def dest!: set_dropWhileD)
  have w: "CHR ''<'' \<notin> set (py_strip worker)" "CHR ''<'' \<notin> set (py_strip (py_strip worker))"
    using assms(2) strip [of worker] strip [of "py_strip worker"] by blast+
  have src: "py_contains (CHR ''<'' # cs) (source_text source) \<longleftrightarrow> py_startswith (CHR ''<'' # cs) (source_text source)"
    using contains_open(2) [of "''!-- requeue-source: '' @ source @ '' -->''" cs "[]"] assms(3)
    by (simp add: source_text_def)
  have att: "py_contains (CHR ''<'' # cs) (attempt_marker a @ nl @ s) \<longleftrightarrow>
      py_startswith (CHR ''<'' # cs) (attempt_marker a @ nl @ s) \<or> py_contains (CHR ''<'' # cs) s" for s
    using contains_open(2) [of "''!-- agent-attempt: '' @ a @ '' -->'' @ nl" cs s] assms(1)
    by (simp add: attempt_marker_def nl_def)
  have wrk: "py_contains (CHR ''<'' # cs) (worker_marker (py_strip worker) @ nl @ s) \<longleftrightarrow>
      py_startswith (CHR ''<'' # cs) (worker_marker (py_strip worker) @ nl @ s) \<or> py_contains (CHR ''<'' # cs) s" for s
    using contains_open(2) [of "''!-- agent-worker: '' @ py_strip (py_strip worker) @ '' -->'' @ nl" cs s] w
    by (simp add: worker_marker_def nl_def)
  show ?thesis
    by (cases "py_blank worker") (simp_all add: release_tail_def att worker_blocks_def wrk src)
qed

definition plain :: "string \<Rightarrow> bool" where
  "plain v \<longleftrightarrow> CHR ''<'' \<notin> set v"

lemma release_prose_plain:
  assumes "list_all plain [outcome, reason, saved, branch, worker, a]"
  shows "CHR ''<'' \<notin> set (release_prose n a outcome reason saved branch worker)"
proof -
  have "set (py_strip s) \<subseteq> set s" for s
    by (auto simp: py_strip_def py_rstrip_def py_lstrip_def dest!: set_dropWhileD)
  from this [of worker] this [of "py_strip worker"] have "CHR ''<'' \<notin> set (fst (worker_blocks worker))"
    using assms by (auto simp: plain_def worker_blocks_def worker_line_def nl_def)
  moreover have "CHR ''<'' \<notin> set (str_of_int n)"
    using str_of_nat_digits [of "nat n"] str_of_nat_digits [of "nat (- n)"]
    by (auto simp: str_of_int_def list_all_iff is_digit_def char_between_def)
  ultimately show ?thesis using assms by (simp add: release_prose_def plain_def nl_def)
qed

lemma marker_fields_absent: "\<not> py_contains p body \<Longrightarrow> marker_fields p body = None"
  by (simp add: marker_fields_def py_cut_None [symmetric])

text \<open>
  A release comment is read back as what it says: for texts without an opening angle bracket it names its
  attempt and its requeue source and is none of the other comments, so it counts toward the automatic
  continuations exactly when the attempt was an automatic one, and ends the row otherwise.
\<close>

theorem release_comment_counts:
  assumes "release_comment_body n a outcome reason saved branch source worker = Inr body"
    and "list_all plain [outcome, reason, saved, branch, worker, a]" "word_like a" "CHR ''>'' \<notin> set a"
  shows "parse_comment_attempt_id body = Some a \<and> parse_requeue_source body = Some source
    \<and> count_automatic_continuations (body # bodies) =
        (if source = REQUEUE_SOURCE_AUTOMATIC then Suc (count_automatic_continuations bodies) else 0)
    \<and> count_conflict_failures (body # bodies) = 0"
proof -
  from assms(1) have source: "source \<in> set REQUEUE_SOURCES"
    by (auto simp: release_comment_body_def requeue_source_marker_def split: if_splits)
  have body: "body = release_prose n a outcome reason saved branch worker @ release_tail a worker source"
    using assms(1) release_comment_body_eq [OF source] by (simp add: release_tail_def)
  note prose = release_prose_plain [OF assms(2)]
  have "CHR ''<'' \<notin> set source"
    using source_word [OF source] by (simp add: marker_safe_def)
  with assms(2) have contains: "py_contains (CHR ''<'' # cs) body \<longleftrightarrow>
     py_startswith (CHR ''<'' # cs) (attempt_marker a @ nl @ snd (worker_blocks worker) @ source_text source)
     \<or> (\<not> py_blank worker \<and> py_startswith (CHR ''<'' # cs) (worker_marker (py_strip worker) @ nl @ source_text source))
     \<or> py_startswith (CHR ''<'' # cs) (source_text source)" for cs
    unfolding body contains_open(1) [OF prose] by (intro release_tail_contains) (simp_all add: plain_def)
  note starts = contains attempt_marker_def worker_marker_def source_text_def py_startswith_def
  have other: "\<not> py_contains HANDOFF_RECORD_MARKER_PREFIX body" "\<not> py_contains CONFLICT_MARKER_PREFIX body"
    "\<not> py_contains PR_HEAD_STALE_MARKER_PREFIX body" "\<not> is_conflict_escalation body"
    by (simp_all add: HANDOFF_RECORD_MARKER_PREFIX_def CONFLICT_MARKER_PREFIX_def PR_HEAD_STALE_MARKER_PREFIX_def
        CONFLICT_ESCALATION_MARKER_def is_conflict_escalation_def starts)
  have kind: "\<not> is_handoff_record body" "\<not> is_conflict_attempt body" "\<not> is_pr_head_stale_notice body"
    using other by (simp_all add: is_handoff_record_def is_conflict_attempt_def parse_conflict_attempt_def
        is_pr_head_stale_notice_def parse_pr_head_stale_def marker_fields_absent)
  have "parse_requeue_source body = Some source"
    using source by (auto simp: parse_requeue_source_def starts REQUEUE_SOURCES_def REQUEUE_SOURCE_HUMAN_def
        REQUEUE_SOURCE_AUTOMATIC_def REQUEUE_SOURCE_CONFLICT_def)
  moreover have "parse_comment_attempt_id body = Some a"
    unfolding body release_tail_def using prose assms(3,4) by (rule parse_attempt_marker)
  ultimately show ?thesis using kind other by simp
qed

theorem release_comment_counts_witness:
  "\<exists>body. release_comment_body 7 ''t1Z'' ''incomplete'' ''lost'' ''/backup'' ''agent/issue-7'' ''automatic'' ''w1'' = Inr body
     \<and> parse_comment_attempt_id body = Some ''t1Z'' \<and> count_automatic_continuations [body, body] = 2"
proof -
  have s: "''automatic'' \<in> set REQUEUE_SOURCES"
    by (simp add: REQUEUE_SOURCES_def REQUEUE_SOURCE_AUTOMATIC_def)
  from release_comment_body_eq [OF s] obtain body where
    b: "release_comment_body 7 ''t1Z'' ''incomplete'' ''lost'' ''/backup'' ''agent/issue-7'' ''automatic'' ''w1'' = Inr body" by blast
  have p: "list_all plain [''incomplete'', ''lost'', ''/backup'', ''agent/issue-7'', ''w1'', ''t1Z'']" "word_like ''t1Z''"
    "CHR ''>'' \<notin> set ''t1Z''" by (simp_all add: plain_def word_like_def py_space_def)
  from release_comment_counts [OF b p, of "[body]"] release_comment_counts [OF b p, of "[]"] b show ?thesis
    by (auto simp: REQUEUE_SOURCE_AUTOMATIC_def simp del: count_automatic_continuations.simps(2))
qed

end
