(* ===== verification/Stores.thy ===== *)
theory Stores
  imports Handoff_Records Completion
begin

text \<open>
  The small durable stores of the state directory: the circuit breaker for infrastructure errors
  (\<open>operating.py\<close>), the last engine-decided exit (\<open>halt.py\<close>), the identity of the instance (\<open>instance.py\<close>), and the
  fully finalized attempts (\<open>finalization.py\<close>). Each keeps its whole state in one JSON file, so the file is the
  state; a clock reading is an argument.
\<close>

definition lift_result :: "'e + 'a \<Rightarrow> ('s, 'e, 'a) comp" where
  "lift_result r s = (r, s)"


section \<open>Consecutive errors\<close>

record error_state =
  es_count :: int
  es_last_success_at :: "string option"
  es_last_attempt_id :: "string option"

definition zero_errors :: error_state where
  "zero_errors = \<lparr>es_count = 0, es_last_success_at = None, es_last_attempt_id = None\<rparr>"

definition errors_to_json :: "error_state \<Rightarrow> json" where
  "errors_to_json st = JObj
     [(''count'', JInt (es_count st)), (''last_success_at'', opt_str (es_last_success_at st)),
      (''last_attempt_id'', opt_str (es_last_attempt_id st))]"

fun optional_str :: "json \<Rightarrow> string option option" where
  "optional_str JNull = Some None"
| "optional_str (JStr s) = Some (Some s)"
| "optional_str v = None"

definition errors_from_json :: "json \<Rightarrow> string + error_state" where
  "errors_from_json v = (case v of
     JObj d \<Rightarrow>
       (case (jget d ''count'' JNull, optional_str (jget d ''last_success_at'' JNull),
              optional_str (jget d ''last_attempt_id'' JNull)) of
          (JInt n, Some success, Some attempt) \<Rightarrow>
            if n < 0 then Inl ''Consecutive-error state is malformed''
            else Inr \<lparr>es_count = n, es_last_success_at = success, es_last_attempt_id = attempt\<rparr>
        | _ \<Rightarrow> Inl ''Consecutive-error state is malformed'')
   | _ \<Rightarrow> Inl ''Consecutive-error state is malformed'')"

definition read_errors :: "(json_file, store_error, error_state) comp" where
  "read_errors f =
     (if content f = Absent then (Inr zero_errors, f)
      else if fault f = Read_fault then (Inl (StoreError ''Consecutive-error state could not be read''), f)
      else (case content f of
          Doc d \<Rightarrow> (map_sum StoreError id (errors_from_json d), f)
        | Not_text \<Rightarrow> (Inl UnicodeDecodeError, f)
        | _ \<Rightarrow> (Inl (StoreError ''Consecutive-error state could not be read''), f)))"

definition write_errors :: "error_state \<Rightarrow> (json_file, store_error, unit) comp" where
  "write_errors st = replace_file ''Consecutive-error state could not be written'' (errors_to_json st)"

definition record_outcome :: "clock_reading \<Rightarrow> attempt_outcome \<Rightarrow> string \<Rightarrow> (json_file, store_error, int) comp" where
  "record_outcome now outcome attempt_id =
     seq read_errors (\<lambda>st.
     if es_last_attempt_id st = Some attempt_id then ret (es_count st)
     else seq (if outcome = INFRASTRUCTURE_ERROR
               then ret \<lparr>es_count = es_count st + 1, es_last_success_at = es_last_success_at st,
                         es_last_attempt_id = Some attempt_id\<rparr>
               else seq (lift_result (stamp ''Operating-control clock must include a timezone'' now)) (\<lambda>stamped.
                    ret \<lparr>es_count = 0, es_last_success_at = Some stamped, es_last_attempt_id = Some attempt_id\<rparr>))
       (\<lambda>updated. seq (write_errors updated) (\<lambda>_. ret (es_count updated))))"

text \<open>\<open>reset\<close> catches the module's own error only.\<close>

definition reset_errors :: "(json_file, store_error, error_state) comp" where
  "reset_errors f =
     seq (\<lambda>f. case read_errors f of (Inl (StoreError e), g) \<Rightarrow> (Inr zero_errors, g) | r \<Rightarrow> r) (\<lambda>previous.
     seq (write_errors (previous\<lparr>es_count := 0\<rparr>)) (\<lambda>_. ret previous)) f"


section \<open>Halts\<close>

definition HALT_PROVENANCE_FAILED :: string where
  "HALT_PROVENANCE_FAILED = ''provenance_verification_failed''"

definition HALT_CONTROL_ENDPOINT_UNAVAILABLE :: string where
  "HALT_CONTROL_ENDPOINT_UNAVAILABLE = ''control_endpoint_unavailable''"

definition HALT_CONSECUTIVE_ERROR_LIMIT :: string where
  "HALT_CONSECUTIVE_ERROR_LIMIT = ''consecutive_error_limit_reached''"

record halt =
  ha_reason :: string
  ha_detail :: string
  ha_at :: string

definition halt_document :: "halt \<Rightarrow> json" where
  "halt_document h = JObj [(''reason'', JStr (ha_reason h)), (''detail'', JStr (ha_detail h)), (''at'', JStr (ha_at h))]"

definition halt_from_json :: "json \<Rightarrow> string + halt" where
  "halt_from_json v = (case v of
     JObj d \<Rightarrow> (case (jget d ''reason'' JNull, jget d ''detail'' JNull, jget d ''at'' JNull) of
         (JStr reason, JStr detail, JStr moment) \<Rightarrow>
           if reason = [] \<or> moment = [] then Inl ''Halt record is malformed''
           else Inr \<lparr>ha_reason = reason, ha_detail = detail, ha_at = moment\<rparr>
       | _ \<Rightarrow> Inl ''Halt record is malformed'')
   | _ \<Rightarrow> Inl ''Halt record is malformed'')"

definition read_halt :: "(json_file, store_error, halt option) comp" where
  "read_halt f =
     (if content f = Absent then (Inr None, f)
      else if fault f = Read_fault then (Inl (StoreError ''Halt record could not be read''), f)
      else (case content f of
          Doc d \<Rightarrow> (map_sum StoreError Some (halt_from_json d), f)
        | Not_text \<Rightarrow> (Inl UnicodeDecodeError, f)
        | _ \<Rightarrow> (Inl (StoreError ''Halt record is malformed''), f)))"

definition record_halt :: "clock_reading \<Rightarrow> string \<Rightarrow> string \<Rightarrow> (json_file, store_error, halt) comp" where
  "record_halt now reason detail =
     seq (guard_or (\<not> py_blank reason) (StoreError ''Halt reason must not be empty'')) (\<lambda>_.
     seq (lift_result (stamp ''Halt clock must include a timezone'' now)) (\<lambda>stamped.
       let h = \<lparr>ha_reason = reason, ha_detail = detail, ha_at = stamped\<rparr>
       in seq (replace_file ''Halt record could not be written'' (halt_document h)) (\<lambda>_. ret h)))"

definition halt_to_json :: "halt option \<Rightarrow> json option" where
  "halt_to_json h = map_option halt_document h"


section \<open>The instance\<close>

record instance_identity =
  in_repository :: string
  in_worker_id :: string
  in_agent_version :: string

definition instance_document :: "instance_identity \<Rightarrow> json" where
  "instance_document i = JObj
     [(''repository'', JStr (in_repository i)), (''worker_id'', JStr (in_worker_id i)),
      (''agent_version'', JStr (in_agent_version i))]"

definition instance_from_json :: "json \<Rightarrow> string + instance_identity" where
  "instance_from_json v = (case v of
     JObj d \<Rightarrow> (case (jget d ''repository'' JNull, jget d ''worker_id'' (JStr []), jget d ''agent_version'' (JStr [])) of
         (JStr repository, JStr worker_id, JStr agent_version) \<Rightarrow>
           if py_blank repository then Inl ''Instance identity is malformed''
           else Inr \<lparr>in_repository = repository, in_worker_id = worker_id, in_agent_version = agent_version\<rparr>
       | _ \<Rightarrow> Inl ''Instance identity is malformed'')
   | _ \<Rightarrow> Inl ''Instance identity is malformed'')"

definition record_instance :: "instance_identity \<Rightarrow> (json_file, store_error, unit) comp" where
  "record_instance i =
     seq (guard_or (\<not> py_blank (in_repository i)) (StoreError ''Instance repository must be a non-empty string'')) (\<lambda>_.
     replace_file ''Instance identity could not be written'' (instance_document i))"

definition read_instance :: "string \<Rightarrow> (json_file, store_error, instance_identity) comp" where
  "read_instance path f =
     (if content f = Absent
      then (Inl (StoreError (''Instance identity '' @ path @ '' is missing; the stopped instance cannot be identified reliably.'')), f)
      else if fault f = Read_fault then (Inl (StoreError (''Instance identity '' @ path @ '' could not be read'')), f)
      else (case content f of
          Doc d \<Rightarrow> (map_sum StoreError id (instance_from_json d), f)
        | Not_text \<Rightarrow> (Inl UnicodeDecodeError, f)
        | _ \<Rightarrow> (Inl (StoreError ''Instance identity is malformed''), f)))"


section \<open>Finalized attempts\<close>

record attempt_completion =
  ac_attempt_id :: string
  ac_issue_number :: int
  ac_branch :: string
  ac_outcome :: attempt_outcome
  ac_completed_at :: string

fun outcome_value :: "attempt_outcome \<Rightarrow> string" where
  "outcome_value COMPLETE = ''complete''"
| "outcome_value INCOMPLETE = ''incomplete''"
| "outcome_value INFRASTRUCTURE_ERROR = ''infrastructure_error''"
| "outcome_value NO_CHANGES = ''no_changes''"
| "outcome_value HANDOFF = ''handoff''"

definition outcome_of_value :: "string \<Rightarrow> attempt_outcome option" where
  "outcome_of_value s = find (\<lambda>x. outcome_value x = s) [COMPLETE, INCOMPLETE, INFRASTRUCTURE_ERROR, NO_CHANGES, HANDOFF]"

lemma outcome_of_value [simp]: "outcome_of_value (outcome_value x) = Some x"
  by (cases x) (simp_all add: outcome_of_value_def)

definition completion_to_json :: "attempt_completion \<Rightarrow> json" where
  "completion_to_json c = JObj
     [(''issue_number'', JInt (ac_issue_number c)), (''branch'', JStr (ac_branch c)),
      (''outcome'', JStr (outcome_value (ac_outcome c))), (''completed_at'', JStr (ac_completed_at c))]"

definition completion_from_json :: "string \<Rightarrow> json \<Rightarrow> attempt_completion option" where
  "completion_from_json attempt_id v =
     (if attempt_id = [] then None
      else (case v of
          JObj d \<Rightarrow>
            if set (jkeys d) \<noteq> {''issue_number'', ''branch'', ''outcome'', ''completed_at''} then None
            else (case (jget d ''issue_number'' JNull, jget d ''branch'' JNull, jget d ''outcome'' JNull, jget d ''completed_at'' JNull) of
                (JInt n, JStr branch, JStr outcome, JStr completed_at) \<Rightarrow>
                  if n \<le> 0 \<or> py_blank branch \<or> completed_at = [] then None
                  else map_option (\<lambda>x. \<lparr>ac_attempt_id = attempt_id, ac_issue_number = n, ac_branch = branch,
                    ac_outcome = x, ac_completed_at = completed_at\<rparr>) (outcome_of_value outcome)
              | _ \<Rightarrow> None)
        | _ \<Rightarrow> None))"

definition read_completions :: "(json_file, store_error, (string \<times> attempt_completion) list) comp" where
  "read_completions = read_entries ''Completion record could not be read'' ''Completion record is malformed'' completion_from_json"

definition is_finalized :: "string \<Rightarrow> (json_file, store_error, bool) comp" where
  "is_finalized attempt_id = seq read_completions (\<lambda>records. ret (map_of records attempt_id \<noteq> None))"

definition record_completion ::
  "clock_reading \<Rightarrow> string \<Rightarrow> int \<Rightarrow> string \<Rightarrow> attempt_outcome \<Rightarrow> (json_file, store_error, bool) comp" where
  "record_completion now attempt_id issue_number branch outcome =
     seq read_completions (\<lambda>records.
     if map_of records attempt_id \<noteq> None then ret False
     else seq (guard_or (0 < issue_number) (StoreError ''Issue number must be a positive integer'')) (\<lambda>_.
       seq (guard_or (\<not> py_blank branch) (StoreError ''Branch must be a non-empty string'')) (\<lambda>_.
       seq (lift_result (stamp ''Completion clock must include a timezone'' now)) (\<lambda>stamped.
       seq (replace_file ''Completion record could not be written''
         (entries_to_json completion_to_json
           (put_entry attempt_id \<lparr>ac_attempt_id = attempt_id, ac_issue_number = issue_number, ac_branch = branch,
              ac_outcome = outcome, ac_completed_at = stamped\<rparr> records))) (\<lambda>_. ret True)))))"

end
