(* ===== verification/Store_Laws.thy ===== *)
theory Store_Laws
  imports Stores
begin

text \<open>
  The contract of the stores that keep a dict of entries by attempt ID in one file: an entry's decoder undoes its
  encoder, so the file always holds legal entries and a later write never loses or changes an earlier entry.
  The stores of the model interpret it.
\<close>

section \<open>Files of entries\<close>

text \<open>The dict a file holds.\<close>

definition entry_view :: "(string \<Rightarrow> json \<Rightarrow> 'a option) \<Rightarrow> file_state \<Rightarrow> (string \<rightharpoonup> 'a)" where
  "entry_view dec c = (case c of
     Doc (JObj d) \<Rightarrow> (case entries_from_json dec d of None \<Rightarrow> Map.empty | Some es \<Rightarrow> map_of es)
   | _ \<Rightarrow> Map.empty)"

definition entries_document :: "(string \<Rightarrow> json \<Rightarrow> 'a option) \<Rightarrow> json \<Rightarrow> string + (string \<times> 'a) list" where
  "entries_document dec v = (case v of
     JObj d \<Rightarrow> (case entries_from_json dec d of None \<Rightarrow> Inl ''malformed'' | Some es \<Rightarrow> Inr es)
   | _ \<Rightarrow> Inl ''malformed'')"

lemma map_of_put_entry: "map_of (put_entry k v es) = (map_of es)(k \<mapsto> v)"
  by (induction es) (auto simp: fun_eq_iff)

lemma set_put_entry: "set (put_entry k v es) \<subseteq> insert (k, v) (set es)"
  by (induction es) auto

lemma keys_put_entry: "distinct (map fst es) \<Longrightarrow> distinct (map fst (put_entry k v es)) \<and> fst ` set (put_entry k v es) = insert k (fst ` set es)"
  by (induction es) auto

lemma map_of_sort_entries: "distinct (map fst es) \<Longrightarrow> map_of (sort_key fst es) = map_of es"
  by (intro map_of_inject_set [THEN iffD2]) (auto simp: distinct_map inj_on_def)

locale entry_store =
  fixes enc :: "'a \<Rightarrow> json"
    and dec :: "string \<Rightarrow> json \<Rightarrow> 'a option"
    and legal_entry :: "string \<Rightarrow> 'a \<Rightarrow> bool"
  assumes dec_enc: "legal_entry k x \<Longrightarrow> dec k (canonical (enc x)) = Some x"
begin

definition legal_entries :: "(string \<times> 'a) list \<Rightarrow> bool" where
  "legal_entries es \<longleftrightarrow> sorted (map fst es) \<and> distinct (map fst es) \<and> (\<forall>(k, x) \<in> set es. legal_entry k x)"

lemma entries_decode:
  "\<forall>(k, x) \<in> set es. legal_entry k x \<Longrightarrow> entries_from_json dec (map (\<lambda>(k, x). (k, canonical (enc x))) es) = Some es"
  by (induction es) (auto simp: dec_enc)

lemma canonical_entries:
  "sorted (map fst es) \<Longrightarrow> canonical (entries_to_json enc es) = JObj (map (\<lambda>(k, x). (k, canonical (enc x))) es)"
proof -
  assume "sorted (map fst es)"
  then have "sort_key fst es = es" by (rule sort_key_id_if_sorted)
  moreover from \<open>sorted (map fst es)\<close> have "sort_key fst (map (\<lambda>(k, x). (k, canonical (enc x))) es) = map (\<lambda>(k, x). (k, canonical (enc x))) es"
    by (intro sort_key_id_if_sorted) (simp add: comp_def split_beta)
  ultimately show ?thesis by (simp add: entries_to_json_def comp_def case_prod_unfold map_prod_def)
qed

lemma decode_legal: "legal_entries es \<Longrightarrow> entries_document dec (canonical (entries_to_json enc es)) = Inr es"
  by (simp add: legal_entries_def canonical_entries entries_document_def entries_decode)

end

sublocale entry_store \<subseteq> entries: json_store "entries_to_json enc" "entries_document dec" legal_entries
  by unfold_locales (rule decode_legal)

context entry_store
begin

lemma to_json_sorted: "entries_to_json enc (sort_key fst es) = entries_to_json enc es"
  by (simp add: entries_to_json_def sort_key_id_if_sorted)

lemma stored_read:
  assumes "entries.stored (content f)"
  shows "\<exists>es. map_of es = entry_view dec (content f) \<and> distinct (map fst es) \<and> (\<forall>(k, x) \<in> set es. legal_entry k x)
    \<and> read_entries unreadable malformed dec f =
      (if content f \<noteq> Absent \<and> fault f = Read_fault then Inl (StoreError unreadable) else Inr es, f)"
  using assms
proof (cases rule: entries.stored_cases)
  case 1
  then show ?thesis by (intro exI [of _ "[]"]) (simp add: read_entries_def entry_view_def)
next
  case (2 d es)
  from 2(2) obtain o' where "d = JObj o'" "entries_from_json dec o' = Some es"
    by (auto simp: entries_document_def split: json.splits option.splits)
  with 2 show ?thesis
    by (intro exI [of _ es]) (simp add: read_entries_def entry_view_def legal_entries_def)
qed

text \<open>Adding an entry for a new key: the file stays legal and keeps every entry it had.\<close>

lemma add_entry:
  assumes "entries.stored (content f)" "map_of es = entry_view dec (content f)" "distinct (map fst es)"
    "\<forall>(k, x) \<in> set es. legal_entry k x" "legal_entry k x" "map_of es k = None"
    and r: "replace_file message (entries_to_json enc (put_entry k x es)) f = (r, g)"
  shows "entries.stored (content g)"
    "entry_view dec (content g) = (case r of Inl e \<Rightarrow> entry_view dec (content f) | Inr u \<Rightarrow> (entry_view dec (content f))(k \<mapsto> x))"
proof -
  let ?es = "sort_key fst (put_entry k x es)"
  have d: "distinct (map fst (put_entry k x es))" using keys_put_entry [OF assms(3)] by blast
  have legal: "legal_entries ?es"
    using d assms(4,5) set_put_entry [of k x es] by (auto simp: legal_entries_def distinct_map)
  show "entries.stored (content g)"
    using entries.stored_replace [OF assms(1) legal, of message r g] r by (simp add: to_json_sorted)
  from decode_legal [OF legal] have "entries_document dec (canonical (entries_to_json enc (put_entry k x es))) = Inr ?es"
    by (simp add: to_json_sorted)
  then have "entry_view dec (Doc (canonical (entries_to_json enc (put_entry k x es)))) = map_of ?es"
    by (auto simp: entry_view_def entries_document_def split: json.splits option.splits)
  also have "\<dots> = (entry_view dec (content f))(k \<mapsto> x)"
    using assms(2) by (simp add: map_of_sort_entries [OF d] map_of_put_entry)
  finally show "entry_view dec (content g) = (case r of Inl e \<Rightarrow> entry_view dec (content f) | Inr u \<Rightarrow> (entry_view dec (content f))(k \<mapsto> x))"
    using r by (cases r) (auto dest: replace_file_cases)
qed

end


section \<open>The stores of the model\<close>

text \<open>A flat document with distinct keys: sorting it changes no lookup.\<close>

lemma flat_obj:
  assumes "distinct (map fst d)" "\<forall>(k, v) \<in> set d. canonical v = v"
  shows "\<exists>d'. canonical (JObj d) = JObj d' \<and> set (jkeys d') = fst ` set d \<and> (\<forall>k v. jget d' k v = jget d k v)"
  using canonical_flat_obj [OF assms(2)] jget_sort [OF assms(1)] by (auto simp: jkeys_def)

definition legal_errors :: "error_state \<Rightarrow> bool" where
  "legal_errors st \<longleftrightarrow> 0 \<le> es_count st"

lemma optional_str_opt [simp]: "optional_str (opt_str v) = Some v"
  by (cases v) simp_all

interpretation errors_file: json_store errors_to_json errors_from_json legal_errors
proof
  fix st
  assume "legal_errors st"
  from flat_obj [of "[(''count'', JInt (es_count st)), (''last_success_at'', opt_str (es_last_success_at st)),
      (''last_attempt_id'', opt_str (es_last_attempt_id st))]"] obtain d where
    "canonical (errors_to_json st) = JObj d" "\<And>k v. jget d k v = jget [(''count'', JInt (es_count st)),
      (''last_success_at'', opt_str (es_last_success_at st)), (''last_attempt_id'', opt_str (es_last_attempt_id st))] k v"
    unfolding errors_to_json_def by auto
  with \<open>legal_errors st\<close> show "errors_from_json (canonical (errors_to_json st)) = Inr st"
    by (simp add: errors_from_json_def jget_def legal_errors_def)
qed

definition legal_halt :: "halt \<Rightarrow> bool" where
  "legal_halt h \<longleftrightarrow> ha_reason h \<noteq> [] \<and> ha_at h \<noteq> []"

interpretation halt_file: json_store halt_document halt_from_json legal_halt
proof
  fix h
  assume "legal_halt h"
  from flat_obj [of "[(''reason'', JStr (ha_reason h)), (''detail'', JStr (ha_detail h)), (''at'', JStr (ha_at h))]"]
  obtain d where "canonical (halt_document h) = JObj d"
    "\<And>k v. jget d k v = jget [(''reason'', JStr (ha_reason h)), (''detail'', JStr (ha_detail h)), (''at'', JStr (ha_at h))] k v"
    unfolding halt_document_def by auto
  with \<open>legal_halt h\<close> show "halt_from_json (canonical (halt_document h)) = Inr h"
    by (simp add: halt_from_json_def jget_def legal_halt_def)
qed

definition legal_instance :: "instance_identity \<Rightarrow> bool" where
  "legal_instance i \<longleftrightarrow> \<not> py_blank (in_repository i)"

interpretation instance_file: json_store instance_document instance_from_json legal_instance
proof
  fix i
  assume "legal_instance i"
  from flat_obj [of "[(''repository'', JStr (in_repository i)), (''worker_id'', JStr (in_worker_id i)),
      (''agent_version'', JStr (in_agent_version i))]"] obtain d where "canonical (instance_document i) = JObj d"
    "\<And>k v. jget d k v = jget [(''repository'', JStr (in_repository i)), (''worker_id'', JStr (in_worker_id i)),
      (''agent_version'', JStr (in_agent_version i))] k v"
    unfolding instance_document_def by auto
  with \<open>legal_instance i\<close> show "instance_from_json (canonical (instance_document i)) = Inr i"
    by (simp add: instance_from_json_def jget_def legal_instance_def)
qed

definition legal_completion :: "string \<Rightarrow> attempt_completion \<Rightarrow> bool" where
  "legal_completion k c \<longleftrightarrow> k \<noteq> [] \<and> ac_attempt_id c = k \<and> 0 < ac_issue_number c \<and> \<not> py_blank (ac_branch c)
     \<and> ac_completed_at c \<noteq> []"

interpretation completions: entry_store completion_to_json completion_from_json legal_completion
proof
  fix k c
  assume legal: "legal_completion k c"
  let ?d = "[(''issue_number'', JInt (ac_issue_number c)), (''branch'', JStr (ac_branch c)),
      (''outcome'', JStr (outcome_value (ac_outcome c))), (''completed_at'', JStr (ac_completed_at c))]"
  from flat_obj [of ?d] obtain d where "canonical (completion_to_json c) = JObj d" "set (jkeys d) = fst ` set ?d"
    "\<And>k v. jget d k v = jget ?d k v"
    unfolding completion_to_json_def by auto
  with legal show "completion_from_json k (canonical (completion_to_json c)) = Some c"
    by (simp add: completion_from_json_def jget_def legal_completion_def)
qed

definition legal_record :: "string \<Rightarrow> handoff_record \<Rightarrow> bool" where
  "legal_record k r \<longleftrightarrow> hr_attempt_id r = k \<and> validate_record r = Inr ()"

lemma validated_fields:
  "validate_record r = Inr () \<Longrightarrow> hr_version r = 1 \<and> hr_attempt_id r \<noteq> []"
  by (auto simp: validate_record_def and_then_def HANDOFF_RECORD_VERSION_def check_value_def split: if_splits sum.splits)

lemma record_eta:
  "hr_version r = 1 \<Longrightarrow> hr_attempt_id r = k \<Longrightarrow>
     \<lparr>hr_version = 1, hr_repository = hr_repository r, hr_issue_number = hr_issue_number r, hr_attempt_id = k,
      hr_requeue_source = hr_requeue_source r, hr_continuation_count = hr_continuation_count r, hr_branch = hr_branch r,
      hr_branch_sha = hr_branch_sha r, hr_note_sha = hr_note_sha r\<rparr> = r"
  by simp

interpretation handoff_records: entry_store record_to_json record_from_json legal_record
proof
  fix k r
  assume legal: "legal_record k r"
  let ?d = "[(''version'', JInt (hr_version r)), (''repository'', JStr (hr_repository r)),
      (''issue_number'', JInt (hr_issue_number r)), (''requeue_source'', JStr (hr_requeue_source r)),
      (''continuation_count'', JInt (hr_continuation_count r)), (''branch'', JStr (hr_branch r)),
      (''branch_sha'', JStr (hr_branch_sha r)), (''note_sha'', JStr (hr_note_sha r))]"
  from flat_obj [of ?d] obtain d where "canonical (record_to_json r) = JObj d" "set (jkeys d) = fst ` set ?d"
    "\<And>k v. jget d k v = jget ?d k v"
    unfolding record_to_json_def by auto
  with legal validated_fields [of r] show "record_from_json k (canonical (record_to_json r)) = Some r"
    by (simp add: record_from_json_def jget_def legal_record_def record_keys_def equals_one_def Let_def record_eta del: map_of.simps)
qed

end
