(* ===== verification/Store_Props.thy ===== *)
theory Store_Props
  imports Store_Laws
begin

text \<open>
  Properties of the small stores: an attempt is finalized at most once and stays finalized, the first intended
  handoff record of an attempt wins, the circuit breaker counts the current streak of infrastructure errors, and
  its reset repairs every damage of the file but one.
\<close>

section \<open>Finalized attempts\<close>

abbreviation finalized_view :: "json_file \<Rightarrow> (string \<rightharpoonup> attempt_completion)" where
  "finalized_view f \<equiv> entry_view completion_from_json (content f)"

datatype completion_event = Finalize clock_reading string int string attempt_outcome | Completion_fault io_fault

fun completion_exec :: "completion_event \<Rightarrow> json_file \<Rightarrow> json_file" where
  "completion_exec (Finalize now a n b x) f = snd (record_completion now a n b x f)"
| "completion_exec (Completion_fault x) f = f\<lparr>fault := x\<rparr>"

fun names_attempt :: "completion_event \<Rightarrow> bool" where
  "names_attempt (Finalize now a n b x) = (a \<noteq> [])"
| "names_attempt (Completion_fault x) = True"

inductive completion_step :: "json_file \<Rightarrow> json_file \<Rightarrow> bool" where
  "names_attempt e \<Longrightarrow> completion_step f (completion_exec e f)"

inductive_cases completion_stepE: "completion_step f g"

lemma timestamp_nonempty: "timestamp t \<noteq> []"
  by (simp add: timestamp_eq)

lemma record_completion_effect:
  assumes "completions.entries.stored (content f)" "a \<noteq> []"
  shows "case record_completion now a n b x f of (r, g) \<Rightarrow>
    completions.entries.stored (content g) \<and>
    (if r = Inr True
     then finalized_view f a = None \<and> (\<exists>moment. finalized_view g = (finalized_view f)(a \<mapsto> \<lparr>ac_attempt_id = a,
        ac_issue_number = n, ac_branch = b, ac_outcome = x, ac_completed_at = moment\<rparr>))
     else finalized_view g = finalized_view f)
    \<and> (r = Inr False \<longleftrightarrow> finalized_view f a \<noteq> None \<and> \<not> (content f \<noteq> Absent \<and> fault f = Read_fault))"
proof -
  from completions.stored_read [OF assms(1), of "''Completion record could not be read''" "''Completion record is malformed''"]
  obtain es where es: "map_of es = finalized_view f" "distinct (map fst es)" "\<forall>(k, x) \<in> set es. legal_completion k x"
    "read_completions f = (if content f \<noteq> Absent \<and> fault f = Read_fault
       then Inl (StoreError ''Completion record could not be read'') else Inr es, f)"
    unfolding read_completions_def by blast
  show ?thesis
  proof (cases "(content f \<noteq> Absent \<and> fault f = Read_fault) \<or> finalized_view f a \<noteq> None \<or> n \<le> 0 \<or> py_blank b \<or> now = Naive")
    case True
    then show ?thesis
      using es(1,4) assms(1)
      by (auto simp: record_completion_def seq_def guard_or_def ret_def throw_def lift_result_def stamp_def
          split: clock_reading.splits)
  next
    case False
    then obtain t where t: "now = Aware t" "0 < n" "\<not> py_blank b" by (cases now) auto
    let ?c = "\<lparr>ac_attempt_id = a, ac_issue_number = n, ac_branch = b, ac_outcome = x, ac_completed_at = timestamp t\<rparr>"
    obtain r g where rg: "replace_file ''Completion record could not be written'' (entries_to_json completion_to_json (put_entry a ?c es)) f = (r, g)"
      by fastforce
    have legal: "legal_completion a ?c" using t assms(2) by (simp add: legal_completion_def timestamp_nonempty)
    have none: "map_of es a = None" using es(1) False by simp
    have "read_completions f = (Inr es, f)" using es(4) False by auto
    then have run: "record_completion now a n b x f = (map_sum id (\<lambda>u. True) r, g)"
      using t none rg
      by (cases r) (simp_all add: record_completion_def seq_def guard_or_def ret_def lift_result_def stamp_def)
    from completions.add_entry [OF assms(1) es(1,2,3) legal none rg] False run show ?thesis
      by (cases r) auto
  qed
qed

lemma completion_not_again:
  "completions.entries.stored (content f) \<Longrightarrow> a \<noteq> [] \<Longrightarrow> finalized_view f a \<noteq> None \<Longrightarrow> fst (record_completion now a n b x f) \<noteq> Inr True"
  using record_completion_effect [of f a, where now = now and n = n and b = b and x = x] by (cases "record_completion now a n b x f") (simp split: if_splits)

interpretation completion: invariant_system "\<lambda>f. content f = Absent" completion_step
  "\<lambda>f. completions.entries.stored (content f)"
proof
  show "content f = Absent \<Longrightarrow> completions.entries.stored (content f)" for f :: json_file
    by (simp add: completions.entries.stored_Absent)
next
  fix f g
  assume ok: "completions.entries.stored (content f)" and "completion_step f g"
  from this(2) obtain e where e: "names_attempt e" "g = completion_exec e f" by (rule completion_stepE)
  then show "completions.entries.stored (content g)"
  proof (cases e)
    case (Finalize now a n b x)
    with e record_completion_effect [OF ok, where a = a and now = now and n = n and b = b and x = x] show ?thesis by (auto split: prod.splits)
  qed (use ok in simp)
qed

lemma completion_step_keeps:
  assumes "reach (\<lambda>f. content f = Absent) completion_step f" "names_attempt e"
  shows "finalized_view f \<subseteq>\<^sub>m finalized_view (completion_exec e f)"
proof (cases e)
  case (Finalize now a n b x)
  with assms record_completion_effect [OF completion.reach_inv [OF assms(1)], where a = a and now = now and n = n and b = b and x = x] show ?thesis
    by (auto simp: map_le_def split: prod.splits if_splits)
qed simp

lemma completion_run:
  "reach (\<lambda>f. content f = Absent) completion_step f \<Longrightarrow> list_all names_attempt es \<Longrightarrow>
     reach (\<lambda>f. content f = Absent) completion_step (fold completion_exec es f)
     \<and> finalized_view f \<subseteq>\<^sub>m finalized_view (fold completion_exec es f)"
proof (induction es arbitrary: f)
  case (Cons e es)
  from Cons.prems have "reach (\<lambda>f. content f = Absent) completion_step (completion_exec e f)"
    by (auto intro: reach_step completion_step.intros)
  from Cons.IH [OF this] completion_step_keeps [OF Cons.prems(1)] Cons.prems(2) show ?case
    by (auto intro: map_le_trans)
qed simp

text \<open>
  The completion boundary is crossed once: recording an attempt returns \<open>True\<close> only when it was not finalized
  before, it is then finalized with exactly what was recorded, and whatever operations and faults follow, it stays
  finalized with that record and recording it again never returns \<open>True\<close>.
\<close>

theorem completion_recorded_once:
  assumes "reach (\<lambda>f. content f = Absent) completion_step f" "a \<noteq> []" "list_all names_attempt es"
    and "record_completion now a n b x f = (Inr True, g)"
  shows "finalized_view f a = None
    \<and> (\<exists>c. finalized_view (fold completion_exec es g) a = Some c \<and> ac_issue_number c = n \<and> ac_branch c = b \<and> ac_outcome c = x)
    \<and> fst (record_completion now' a n' b' x' (fold completion_exec es g)) \<noteq> Inr True"
proof -
  from completion.reach_inv [OF assms(1)] have ok: "completions.entries.stored (content f)" .
  obtain moment where fresh: "finalized_view f a = None"
    and g: "finalized_view g = (finalized_view f)(a \<mapsto> \<lparr>ac_attempt_id = a, ac_issue_number = n, ac_branch = b,
      ac_outcome = x, ac_completed_at = moment\<rparr>)"
    using record_completion_effect [OF ok assms(2), where now = now and n = n and b = b and x = x] assms(4) by auto
  have "reach (\<lambda>f. content f = Absent) completion_step (completion_exec (Finalize now a n b x) f)"
    by (rule reach_step [OF assms(1)], rule completion_step.intros) (simp add: assms(2))
  then have "reach (\<lambda>f. content f = Absent) completion_step g" using assms(4) by simp
  from completion_run [OF this assms(3)] have
    r: "reach (\<lambda>f. content f = Absent) completion_step (fold completion_exec es g)"
    and le: "finalized_view g \<subseteq>\<^sub>m finalized_view (fold completion_exec es g)" by simp_all
  from le g have stays: "finalized_view (fold completion_exec es g) a = finalized_view g a"
    by (auto simp: map_le_def)
  have "fst (record_completion now' a n' b' x' (fold completion_exec es g)) \<noteq> Inr True"
    by (rule completion_not_again [OF completion.reach_inv [OF r] assms(2)]) (simp add: stays, simp add: g)
  with fresh stays g show ?thesis by simp
qed

definition empty_file :: json_file where
  "empty_file = \<lparr>content = Absent, fault = No_fault\<rparr>"

theorem completion_recorded_once_witness:
  "\<exists>g. record_completion (Aware (Datetime 2026 1 1 0 0 0 0)) ''a'' 7 ''b'' COMPLETE empty_file = (Inr True, g)
    \<and> (\<exists>c. finalized_view (fold completion_exec [Completion_fault Write_fault] g) ''a'' = Some c \<and> ac_issue_number c = 7)"
proof -
  obtain g where g: "record_completion (Aware (Datetime 2026 1 1 0 0 0 0)) ''a'' 7 ''b'' COMPLETE empty_file = (Inr True, g)"
    by (simp add: record_completion_def read_completions_def read_entries_def empty_file_def seq_def guard_or_def ret_def
        py_blank_iff py_space_def lift_result_def stamp_def replace_file_def)
  have "reach (\<lambda>f. content f = Absent) completion_step empty_file" by (rule reach_init) (simp add: empty_file_def)
  from completion_recorded_once [OF this _ _ g, of "[Completion_fault Write_fault]" Naive 1 "[]" COMPLETE] g show ?thesis by auto
qed


section \<open>Intended handoff records\<close>

abbreviation intent_view :: "json_file \<Rightarrow> (string \<rightharpoonup> handoff_record)" where
  "intent_view f \<equiv> entry_view record_from_json (content f)"

datatype intent_event = Save handoff_record | Intent_fault io_fault

fun intent_exec :: "intent_event \<Rightarrow> json_file \<Rightarrow> json_file" where
  "intent_exec (Save r) f = snd (save_if_absent r f)"
| "intent_exec (Intent_fault x) f = f\<lparr>fault := x\<rparr>"

inductive intent_step :: "json_file \<Rightarrow> json_file \<Rightarrow> bool" where
  "intent_step f (intent_exec e f)"

inductive_cases intent_stepE: "intent_step f g"

lemma save_effect:
  assumes "handoff_records.entries.stored (content f)"
  shows "case save_if_absent r f of (w, g) \<Rightarrow>
    handoff_records.entries.stored (content g) \<and> intent_view f \<subseteq>\<^sub>m intent_view g
    \<and> (\<forall>x. w = Inr x \<longrightarrow> intent_view g (hr_attempt_id r) = Some x)
    \<and> (intent_view f (hr_attempt_id r) = None \<or> w = Inr (the (intent_view f (hr_attempt_id r))) \<or> (\<exists>e. w = Inl e))"
proof (cases "validate_record r")
  case (Inl e)
  with assms show ?thesis by (simp add: save_if_absent_def throw_def)
next
  case (Inr u)
  from handoff_records.stored_read [OF assms, of "''Handoff record store could not be read''" "''Handoff record store is malformed''"]
  obtain es where es: "map_of es = intent_view f" "distinct (map fst es)" "\<forall>(k, x) \<in> set es. legal_record k x"
    "read_handoff_records f = (if content f \<noteq> Absent \<and> fault f = Read_fault
       then Inl (StoreError ''Handoff record store could not be read'') else Inr es, f)"
    unfolding read_handoff_records_def by blast
  show ?thesis
  proof (cases "(content f \<noteq> Absent \<and> fault f = Read_fault) \<or> intent_view f (hr_attempt_id r) \<noteq> None")
    case True
    then show ?thesis
      using es(1,4) assms Inr
      by (cases "content f \<noteq> Absent \<and> fault f = Read_fault") (auto simp: save_if_absent_def seq_def ret_def)
  next
    case False
    let ?a = "hr_attempt_id r"
    obtain w g where wg: "replace_file ''Handoff record store could not be written'' (entries_to_json record_to_json (put_entry ?a r es)) f = (w, g)"
      by fastforce
    have legal: "legal_record ?a r" using Inr by (simp add: legal_record_def)
    have none: "map_of es ?a = None" using es(1) False by simp
    have "read_handoff_records f = (Inr es, f)" using es(4) False by auto
    then have run: "save_if_absent r f = (map_sum id (\<lambda>u. r) w, g)"
      using Inr none wg by (cases w) (simp_all add: save_if_absent_def seq_def ret_def)
    from handoff_records.add_entry [OF assms es(1,2,3) legal none wg] False run show ?thesis
      by (cases w) (auto simp: map_le_def)
  qed
qed

interpretation intents: invariant_system "\<lambda>f. content f = Absent" intent_step
  "\<lambda>f. handoff_records.entries.stored (content f)"
proof
  show "content f = Absent \<Longrightarrow> handoff_records.entries.stored (content f)" for f :: json_file
    by (simp add: handoff_records.entries.stored_Absent)
next
  fix f g
  assume ok: "handoff_records.entries.stored (content f)" and "intent_step f g"
  from this(2) obtain e where e: "g = intent_exec e f" by (rule intent_stepE)
  then show "handoff_records.entries.stored (content g)"
  proof (cases e)
    case (Save r)
    with e save_effect [OF ok, of r] show ?thesis by (auto split: prod.splits)
  qed (use ok in simp)
qed

lemma intent_run:
  "reach (\<lambda>f. content f = Absent) intent_step f \<Longrightarrow>
     reach (\<lambda>f. content f = Absent) intent_step (fold intent_exec es f) \<and> intent_view f \<subseteq>\<^sub>m intent_view (fold intent_exec es f)"
proof (induction es arbitrary: f)
  case (Cons e es)
  have r: "reach (\<lambda>f. content f = Absent) intent_step (intent_exec e f)"
    using Cons.prems by (auto intro: reach_step intent_step.intros)
  have "intent_view f \<subseteq>\<^sub>m intent_view (intent_exec e f)"
  proof (cases e)
    case (Save r)
    with save_effect [OF intents.reach_inv [OF Cons.prems], of r] show ?thesis by (cases "save_if_absent r f") simp
  qed simp
  with Cons.IH [OF r] show ?case by (auto intro: map_le_trans)
qed simp

text \<open>
  The first intended record of an attempt wins: once a save returned a record, every later save for the same
  attempt returns that same record or raises, whatever saves, restarts and faults came between, so a retry never
  counts the continuation a second time.
\<close>

theorem first_intent_wins:
  assumes "reach (\<lambda>f. content f = Absent) intent_step f" "save_if_absent r f = (Inr w, g)"
    and "save_if_absent r' (fold intent_exec es g) = (Inr w', h)" "hr_attempt_id r' = hr_attempt_id r"
  shows "w' = w"
proof -
  have w: "intent_view g (hr_attempt_id r) = Some w"
    using save_effect [OF intents.reach_inv [OF assms(1)], of r] assms(2) by simp
  have "reach (\<lambda>f. content f = Absent) intent_step (intent_exec (Save r) f)"
    by (rule reach_step [OF assms(1)], rule intent_step.intros)
  then have "reach (\<lambda>f. content f = Absent) intent_step g" using assms(2) by simp
  from intent_run [OF this, of es] have
    r: "reach (\<lambda>f. content f = Absent) intent_step (fold intent_exec es g)"
    and "intent_view g \<subseteq>\<^sub>m intent_view (fold intent_exec es g)" by simp_all
  with w have "intent_view (fold intent_exec es g) (hr_attempt_id r) = Some w" by (metis domI map_le_def)
  with save_effect [OF intents.reach_inv [OF r], of r'] assms(3,4) show ?thesis by simp
qed

definition demo_intent :: "int \<Rightarrow> handoff_record" where
  "demo_intent n = \<lparr>hr_version = 1, hr_repository = ''o/r'', hr_issue_number = 7, hr_attempt_id = ''a'',
     hr_requeue_source = ''automatic'', hr_continuation_count = n, hr_branch = ''b'', hr_branch_sha = ''s'', hr_note_sha = ''t''\<rparr>"

lemma demo_intent_valid: "0 \<le> n \<Longrightarrow> validate_record (demo_intent n) = Inr ()"
  by (simp add: validate_record_def demo_intent_def HANDOFF_RECORD_VERSION_def check_value_def and_then_def py_blank_iff
      py_space_def REQUEUE_SOURCES_def REQUEUE_SOURCE_AUTOMATIC_def)

theorem first_intent_wins_witness:
  "\<exists>g h. save_if_absent (demo_intent 1) empty_file = (Inr (demo_intent 1), g)
     \<and> save_if_absent (demo_intent 2) g = (Inr (demo_intent 1), h)"
proof -
  have r: "reach (\<lambda>f. content f = Absent) intent_step empty_file" by (rule reach_init) (simp add: empty_file_def)
  obtain g where g: "save_if_absent (demo_intent 1) empty_file = (Inr (demo_intent 1), g)" "fault g = No_fault"
    by (simp add: save_if_absent_def demo_intent_valid read_handoff_records_def read_entries_def empty_file_def seq_def
        ret_def replace_file_def)
  have "reach (\<lambda>f. content f = Absent) intent_step (intent_exec (Save (demo_intent 1)) empty_file)"
    by (rule reach_step [OF r], rule intent_step.intros)
  then have "reach (\<lambda>f. content f = Absent) intent_step g" using g by simp
  note ok = intents.reach_inv [OF this]
  obtain es where "read_handoff_records g = (Inr es, g)" "map_of es = intent_view g"
    using handoff_records.stored_read [OF ok] g(2) unfolding read_handoff_records_def by fastforce
  moreover have "intent_view g ''a'' = Some (demo_intent 1)"
    using save_effect [OF intents.reach_inv [OF r], of "demo_intent 1"] g(1) by (simp add: demo_intent_def)
  ultimately have "save_if_absent (demo_intent 2) g = (Inr (demo_intent 1), g)"
    by (simp add: save_if_absent_def demo_intent_valid seq_def ret_def) (simp add: demo_intent_def ret_def)
  with first_intent_wins [OF r g(1), of "demo_intent 2" "[]"] g(1) show ?thesis by (auto simp: demo_intent_def)
qed


section \<open>The circuit breaker\<close>

text \<open>The streak of infrastructure errors in a history, newest first: an attempt recorded twice in a row counts once.\<close>

fun error_streak :: "(attempt_outcome \<times> string) list \<Rightarrow> nat" where
  "error_streak [] = 0"
| "error_streak ((outcome, attempt_id) # past) =
     (if past \<noteq> [] \<and> snd (hd past) = attempt_id then error_streak past
      else if outcome = INFRASTRUCTURE_ERROR then Suc (error_streak past)
      else 0)"

definition outcomes_run :: "(attempt_outcome \<times> string \<times> datetime) list \<Rightarrow> json_file \<Rightarrow> json_file" where
  "outcomes_run past f = foldr (\<lambda>(outcome, a, now) g. snd (record_outcome (Aware now) outcome a g)) past f"

lemma read_errors_of:
  assumes "legal_errors st" "fault f = No_fault" "content f = Doc (canonical (errors_to_json st))"
  shows "read_errors f = (Inr st, f)"
  using assms errors_file.decode_encode by (simp add: read_errors_def)

lemma record_outcome_of:
  assumes "read_errors f = (Inr st, f)" "fault f = No_fault"
  shows "record_outcome (Aware now) outcome a f = (if es_last_attempt_id st = Some a then (Inr (es_count st), f)
    else let upd = (if outcome = INFRASTRUCTURE_ERROR
         then \<lparr>es_count = es_count st + 1, es_last_success_at = es_last_success_at st, es_last_attempt_id = Some a\<rparr>
         else \<lparr>es_count = 0, es_last_success_at = Some (timestamp now), es_last_attempt_id = Some a\<rparr>)
      in (Inr (es_count upd), f\<lparr>content := Doc (canonical (errors_to_json upd))\<rparr>))"
  using assms by (simp add: record_outcome_def seq_def ret_def lift_result_def stamp_def write_errors_def replace_file_def Let_def)

lemma outcomes_run_state:
  assumes "content f = Absent" "fault f = No_fault"
  shows "\<exists>st. read_errors (outcomes_run past f) = (Inr st, outcomes_run past f) \<and> legal_errors st
    \<and> fault (outcomes_run past f) = No_fault
    \<and> es_count st = int (error_streak (map (\<lambda>(x, a, now). (x, a)) past))
    \<and> es_last_attempt_id st = (if past = [] then None else Some (fst (snd (hd past))))"
proof (induction past)
  case Nil
  with assms show ?case by (simp add: outcomes_run_def read_errors_def zero_errors_def legal_errors_def)
next
  case (Cons e past)
  obtain x a now where e: "e = (x, a, now)" by (cases e)
  from Cons obtain st where st: "read_errors (outcomes_run past f) = (Inr st, outcomes_run past f)" "legal_errors st"
    "fault (outcomes_run past f) = No_fault" "es_count st = int (error_streak (map (\<lambda>(x, a, now). (x, a)) past))"
    "es_last_attempt_id st = (if past = [] then None else Some (fst (snd (hd past))))" by blast
  have step: "outcomes_run (e # past) f = snd (record_outcome (Aware now) x a (outcomes_run past f))"
    by (simp add: e outcomes_run_def)
  have hd: "past \<noteq> [] \<Longrightarrow> snd (hd (map (\<lambda>(x, a, now). (x, a)) past)) = fst (snd (hd past))"
    by (cases past) auto
  show ?case
  proof (cases "es_last_attempt_id st = Some a")
    case True
    with st hd show ?thesis
      unfolding step record_outcome_of [OF st(1,3)] by (auto simp: e split: if_splits)
  next
    case False
    obtain upd where upd: "upd = (if x = INFRASTRUCTURE_ERROR
         then \<lparr>es_count = es_count st + 1, es_last_success_at = es_last_success_at st, es_last_attempt_id = Some a\<rparr>
         else \<lparr>es_count = 0, es_last_success_at = Some (timestamp now), es_last_attempt_id = Some a\<rparr>)" by blast
    have run: "outcomes_run (e # past) f = (outcomes_run past f)\<lparr>content := Doc (canonical (errors_to_json upd))\<rparr>"
      using False unfolding step record_outcome_of [OF st(1,3)] upd by (simp add: Let_def)
    have legal: "legal_errors upd" using st(2) by (simp add: legal_errors_def upd)
    from read_errors_of [OF this, of "outcomes_run (e # past) f"] st(3) have
      "read_errors (outcomes_run (e # past) f) = (Inr upd, outcomes_run (e # past) f)" by (simp add: run)
    moreover have "es_count upd = int (error_streak (map (\<lambda>(x, a, now). (x, a)) (e # past)))"
      using st(4,5) False hd by (cases past) (auto simp: upd e)
    moreover have "es_last_attempt_id upd = Some a" by (simp add: upd)
    moreover have "fault (outcomes_run (e # past) f) = No_fault" using st(3) by (simp add: run)
    ultimately show ?thesis using legal by (intro exI [of _ upd]) (simp add: e)
  qed
qed

text \<open>
  The circuit breaker counts the current streak: after any history of recorded attempts, newest first, the store
  reads as the number of infrastructure errors since the last other outcome, where an attempt that is recorded again
  right after itself (a crash between recording and cleaning up) is not counted twice.
\<close>

theorem errors_count_streak:
  assumes "content f = Absent" "fault f = No_fault"
  shows "\<exists>st. fst (read_errors (outcomes_run past f)) = Inr st
    \<and> es_count st = int (error_streak (map (\<lambda>(x, a, now). (x, a)) past))"
  using outcomes_run_state [OF assms, of past] by auto

definition noon :: datetime where
  "noon = Datetime 2026 1 1 12 0 0 0"

theorem errors_count_streak_witness:
  "\<exists>st. fst (read_errors (outcomes_run [(INFRASTRUCTURE_ERROR, ''b'', noon), (INFRASTRUCTURE_ERROR, ''b'', noon),
      (INFRASTRUCTURE_ERROR, ''a'', noon), (COMPLETE, ''c'', noon)] empty_file)) = Inr st \<and> es_count st = 2"
  using errors_count_streak [of empty_file "[(INFRASTRUCTURE_ERROR, ''b'', noon), (INFRASTRUCTURE_ERROR, ''b'', noon),
      (INFRASTRUCTURE_ERROR, ''a'', noon), (COMPLETE, ''c'', noon)]"] by (simp add: empty_file_def)

lemma read_errors_cases:
  assumes "fault f = No_fault" "content f \<noteq> Not_text"
  shows "(\<exists>st. read_errors f = (Inr st, f)) \<or> (\<exists>e. read_errors f = (Inl (StoreError e), f))"
proof (cases "content f")
  case (Doc d)
  with assms show ?thesis by (cases "errors_from_json d") (simp_all add: read_errors_def)
qed (use assms in \<open>simp_all add: read_errors_def\<close>)

lemma reset_run:
  assumes "fault f = No_fault" "content f \<noteq> Not_text"
  shows "reset_errors f = (let previous = (case fst (read_errors f) of Inr st \<Rightarrow> st | Inl e \<Rightarrow> zero_errors)
    in (Inr previous, f\<lparr>content := Doc (canonical (errors_to_json (previous\<lparr>es_count := 0\<rparr>)))\<rparr>))"
  using read_errors_cases [OF assms] assms(1)
  by (auto simp: reset_errors_def seq_def write_errors_def replace_file_def ret_def Let_def)

text \<open>
  A reset repairs what it can read as damage: whatever the file holds, an undisturbed reset returns and leaves the
  count at zero, keeping the last success of a readable state, except for a file that is not UTF-8: there the
  \<open>UnicodeDecodeError\<close> passes the handler for the module's own error, and nothing is repaired.
\<close>

theorem reset_repairs_damage:
  assumes "fault f = No_fault"
  shows "case reset_errors f of (r, g) \<Rightarrow>
    (if content f = Not_text then r = Inl UnicodeDecodeError \<and> g = f
     else (\<exists>previous. r = Inr previous
       \<and> previous = (case fst (read_errors f) of Inr st \<Rightarrow> st | Inl e \<Rightarrow> zero_errors)
       \<and> content g = Doc (canonical (errors_to_json (previous\<lparr>es_count := 0\<rparr>)))
       \<and> fst (read_errors g) = Inr (previous\<lparr>es_count := 0\<rparr>)))"
proof -
  have "fst (read_errors (f\<lparr>content := Doc (canonical (errors_to_json (st\<lparr>es_count := 0\<rparr>)))\<rparr>)) = Inr (st\<lparr>es_count := 0\<rparr>)" for st
    using read_errors_of [of "st\<lparr>es_count := 0\<rparr>"] assms by (simp add: legal_errors_def)
  moreover have "reset_errors f = (Inl UnicodeDecodeError, f)" if "content f = Not_text"
    using that assms by (simp add: reset_errors_def read_errors_def seq_def)
  ultimately show ?thesis
    using reset_run [OF assms] by (auto simp: Let_def)
qed

theorem reset_repairs_damage_witness:
  "case reset_errors \<lparr>content = Not_text, fault = No_fault\<rparr> of (r, g) \<Rightarrow> r = Inl UnicodeDecodeError"
  using reset_repairs_damage [of "\<lparr>content = Not_text, fault = No_fault\<rparr>"] by (simp split: prod.splits)

end
