(* ===== verification/Effects.thy ===== *)
theory Effects
  imports Prelude
begin

text \<open>
  Code that talks to a service: a program either returns, raises, or makes one call and goes on with the answer.
  The service is not part of the program, so every answer is possible; what is proved of a program holds for all
  answers, or names what it relies on. Between two calls nothing but the program itself runs, and any number of
  such programs may be interleaved at their calls.
\<close>

section \<open>Programs\<close>

datatype ('q, 'r, 'e, 'a) prog =
    Return 'a
  | Raise 'e
  | Call 'q "'r \<Rightarrow> ('q, 'r, 'e, 'a) prog"

primrec bind :: "('q, 'r, 'e, 'a) prog \<Rightarrow> ('a \<Rightarrow> ('q, 'r, 'e, 'b) prog) \<Rightarrow> ('q, 'r, 'e, 'b) prog" where
  "bind (Return x) f = f x"
| "bind (Raise e) f = Raise e"
| "bind (Call q k) f = Call q (\<lambda>r. bind (k r) f)"

text \<open>\<open>try: m except e: h e\<close>, where \<open>h\<close> raises again what it does not catch.\<close>

primrec handle :: "('q, 'r, 'e, 'a) prog \<Rightarrow> ('e \<Rightarrow> ('q, 'r, 'e, 'a) prog) \<Rightarrow> ('q, 'r, 'e, 'a) prog" where
  "handle (Return x) h = Return x"
| "handle (Raise e) h = h e"
| "handle (Call q k) h = Call q (\<lambda>r. handle (k r) h)"

text \<open>One call whose answer is decoded into a value or an exception.\<close>

definition ask :: "'q \<Rightarrow> ('r \<Rightarrow> 'e + 'a) \<Rightarrow> ('q, 'r, 'e, 'a) prog" where
  "ask q dec = Call q (\<lambda>r. case dec r of Inl e \<Rightarrow> Raise e | Inr x \<Rightarrow> Return x)"

definition when_prog :: "bool \<Rightarrow> ('q, 'r, 'e, unit) prog \<Rightarrow> ('q, 'r, 'e, unit) prog" where
  "when_prog b m = (if b then m else Return ())"

lemma bind_assoc: "bind (bind m f) g = bind m (\<lambda>x. bind (f x) g)"
  by (induction m) auto

lemma bind_Return [simp]: "bind m Return = m"
  by (induction m) auto


section \<open>Execution\<close>

text \<open>A run against a service with a state of its own.\<close>

primrec run_prog :: "('w \<Rightarrow> 'q \<Rightarrow> 'r \<times> 'w) \<Rightarrow> ('q, 'r, 'e, 'a) prog \<Rightarrow> 'w \<Rightarrow> ('e + 'a) \<times> 'w" where
  "run_prog serve (Return x) w = (Inr x, w)"
| "run_prog serve (Raise e) w = (Inl e, w)"
| "run_prog serve (Call q k) w = (case serve w q of (r, v) \<Rightarrow> run_prog serve (k r) v)"

lemma run_bind:
  "run_prog serve (bind m f) w = (case run_prog serve m w of (Inl e, v) \<Rightarrow> (Inl e, v) | (Inr x, v) \<Rightarrow> run_prog serve (f x) v)"
  by (induction m arbitrary: w) (auto split: prod.splits)

text \<open>Whatever the answers, every call satisfies \<open>P\<close> and every outcome satisfies \<open>Q\<close>.\<close>

primrec every :: "('q \<Rightarrow> bool) \<Rightarrow> ('e + 'a \<Rightarrow> bool) \<Rightarrow> ('q, 'r, 'e, 'a) prog \<Rightarrow> bool" where
  "every P Q (Return x) = Q (Inr x)"
| "every P Q (Raise e) = Q (Inl e)"
| "every P Q (Call q k) = (P q \<and> (\<forall>r. every P Q (k r)))"

named_theorems every_rules
  \<open>calls and outcomes of the program constructs\<close>

lemma every_bind [every_rules]:
  "every P (\<lambda>y. case y of Inl e \<Rightarrow> Q (Inl e) | Inr x \<Rightarrow> every P Q (f x)) m \<Longrightarrow> every P Q (bind m f)"
  by (induction m) auto

lemma every_bindI:
  assumes "every P R m" "\<And>e. R (Inl e) \<Longrightarrow> Q (Inl e)" "\<And>x. R (Inr x) \<Longrightarrow> every P Q (f x)"
  shows "every P Q (bind m f)"
  using assms(1) by (induction m) (auto intro: assms(2,3))

lemma every_handleI:
  assumes "every P R m" "\<And>x. R (Inr x) \<Longrightarrow> Q (Inr x)" "\<And>e. R (Inl e) \<Longrightarrow> every P Q (h e)"
  shows "every P Q (handle m h)"
  using assms(1) by (induction m) (auto intro: assms(2,3))

lemma every_ask: "P q \<Longrightarrow> (\<And>e. Q (Inl e)) \<Longrightarrow> (\<And>x. Q (Inr x)) \<Longrightarrow> every P Q (ask q dec)"
  by (auto simp: ask_def split: sum.split)

lemma every_mono:
  assumes "every P Q m" "\<And>q. P q \<Longrightarrow> P' q" "\<And>y. Q y \<Longrightarrow> Q' y"
  shows "every P' Q' m"
  using assms(1) by (induction m) (auto intro: assms(2,3))

lemma every_run: "every P Q m \<Longrightarrow> Q (fst (run_prog serve m w))"
  by (induction m arbitrary: w) (auto split: prod.split)


text \<open>Only the calls are restricted.\<close>

abbreviation calls :: "('q \<Rightarrow> bool) \<Rightarrow> ('q, 'r, 'e, 'a) prog \<Rightarrow> bool" where
  "calls P m \<equiv> every P (\<lambda>_. True) m"

named_theorems calls_rules
  \<open>which calls a program makes\<close>

lemma calls_any [simp]: "calls (\<lambda>_. True) m"
  by (induction m) auto

lemma calls_Return [calls_rules]: "calls P (Return x)"
  by simp

lemma calls_Raise [calls_rules]: "calls P (Raise e)"
  by simp

lemma calls_bind [calls_rules]: "calls P m \<Longrightarrow> (\<And>x. calls P (f x)) \<Longrightarrow> calls P (bind m f)"
  by (rule every_bindI) auto

lemma calls_handle [calls_rules]: "calls P m \<Longrightarrow> (\<And>e. calls P (h e)) \<Longrightarrow> calls P (handle m h)"
  by (rule every_handleI) auto

lemma calls_ask [calls_rules]: "P q \<Longrightarrow> calls P (ask q dec)"
  by (rule every_ask) auto

lemma calls_when [calls_rules]: "(b \<Longrightarrow> calls P m) \<Longrightarrow> calls P (when_prog b m)"
  by (simp add: when_prog_def)

lemma calls_if [calls_rules]: "(b \<Longrightarrow> calls P m) \<Longrightarrow> (\<not> b \<Longrightarrow> calls P n) \<Longrightarrow> calls P (if b then m else n)"
  by simp

lemma calls_option [calls_rules]:
  "(x = None \<Longrightarrow> calls P m) \<Longrightarrow> (\<And>y. x = Some y \<Longrightarrow> calls P (f y)) \<Longrightarrow> calls P (case x of None \<Rightarrow> m | Some y \<Rightarrow> f y)"
  by (cases x) auto

lemma calls_sum [calls_rules]:
  "(\<And>e. x = Inl e \<Longrightarrow> calls P (g e)) \<Longrightarrow> (\<And>y. x = Inr y \<Longrightarrow> calls P (f y)) \<Longrightarrow> calls P (case x of Inl e \<Rightarrow> g e | Inr y \<Rightarrow> f y)"
  by (cases x) auto

lemma calls_prod [calls_rules]: "(\<And>a b. calls P (f a b)) \<Longrightarrow> calls P (case x of (a, b) \<Rightarrow> f a b)"
  by (cases x) auto

lemma every_conj: "calls P m \<Longrightarrow> every (\<lambda>_. True) Q m \<Longrightarrow> every P Q m"
  by (induction m) auto

lemma every_after: "calls P m \<Longrightarrow> (\<And>e. Q (Inl e)) \<Longrightarrow> (\<And>x. every P Q (f x)) \<Longrightarrow> every P Q (bind m f)"
  by (rule every_bindI) auto

text \<open>
  A state followed along a program's calls: \<open>step s q r\<close> is the state after the call \<open>q\<close> was answered by \<open>r\<close>, and
  only answers with \<open>legal q r\<close> are considered. \<open>Q\<close> holds of the state and the outcome at the end.
\<close>

primrec follow ::
  "('q \<Rightarrow> 'r \<Rightarrow> bool) \<Rightarrow> ('s \<Rightarrow> 'q \<Rightarrow> 'r \<Rightarrow> 's) \<Rightarrow> ('s \<Rightarrow> 'e + 'a \<Rightarrow> bool) \<Rightarrow> ('q, 'r, 'e, 'a) prog \<Rightarrow> 's \<Rightarrow> bool" where
  "follow legal step Q (Return x) s = Q s (Inr x)"
| "follow legal step Q (Raise e) s = Q s (Inl e)"
| "follow legal step Q (Call q k) s = (\<forall>r. legal q r \<longrightarrow> follow legal step Q (k r) (step s q r))"

lemma follow_bind [simp]:
  "follow legal step Q (bind m f) s =
     follow legal step (\<lambda>s y. case y of Inl e \<Rightarrow> Q s (Inl e) | Inr x \<Rightarrow> follow legal step Q (f x) s) m s"
  by (induction m arbitrary: s) auto

lemma follow_handle [simp]:
  "follow legal step Q (handle m h) s =
     follow legal step (\<lambda>s y. case y of Inl e \<Rightarrow> follow legal step Q (h e) s | Inr x \<Rightarrow> Q s (Inr x)) m s"
  by (induction m arbitrary: s) auto

lemma follow_ask [simp]:
  "follow legal step Q (ask q dec) s = (\<forall>r. legal q r \<longrightarrow> Q (step s q r) (dec r))"
  unfolding ask_def follow.simps
proof (intro all_cong1 imp_cong refl)
  fix r
  show "follow legal step Q (case dec r of Inl e \<Rightarrow> Raise e | Inr x \<Rightarrow> Return x) (step s q r) = Q (step s q r) (dec r)"
    by (cases "dec r") simp_all
qed

lemma follow_mono:
  assumes "follow legal step Q m s" "\<And>s y. Q s y \<Longrightarrow> Q' s y"
  shows "follow legal step Q' m s"
  using assms(1) by (induction m arbitrary: s) (auto intro: assms(2))

lemma follow_bindI:
  assumes "follow legal step R m s" "\<And>s e. R s (Inl e) \<Longrightarrow> Q s (Inl e)"
    and "\<And>s x. R s (Inr x) \<Longrightarrow> follow legal step Q (f x) s"
  shows "follow legal step Q (bind m f) s"
  using assms(1) unfolding follow_bind by (rule follow_mono) (auto split: sum.split intro: assms(2,3))

lemma follow_handleI:
  assumes "follow legal step R m s" "\<And>s x. R s (Inr x) \<Longrightarrow> Q s (Inr x)"
    and "\<And>s e. R s (Inl e) \<Longrightarrow> follow legal step Q (h e) s"
  shows "follow legal step Q (handle m h) s"
  using assms(1) unfolding follow_handle by (rule follow_mono) (auto split: sum.split intro: assms(2,3))

lemma follow_any: "(\<And>s y. Q s y) \<Longrightarrow> follow legal step Q m s"
  by (induction m arbitrary: s) auto

lemma follow_bind_any:
  "(\<And>s e. Q s (Inl e)) \<Longrightarrow> (\<And>s x. follow legal step Q (f x) s) \<Longrightarrow> follow legal step Q (bind m f) s"
  by (rule follow_bindI [where R = "\<lambda>s y. True"]) (auto intro: follow_any)

lemma follow_if: "(b \<Longrightarrow> follow legal step Q m s) \<Longrightarrow> (\<not> b \<Longrightarrow> follow legal step Q n s) \<Longrightarrow> follow legal step Q (if b then m else n) s"
  by simp

lemma follow_calls:
  assumes "calls P m" "\<And>s q r. I s \<Longrightarrow> P q \<Longrightarrow> legal q r \<Longrightarrow> I (step s q r)" "I s"
  shows "follow legal step (\<lambda>s y. I s) m s"
  using assms(1,3) by (induction m arbitrary: s) (auto intro: assms(2))

lemma follow_project:
  assumes "follow legal step Q m (proj s)" "\<And>s q r. proj (step' s q r) = step (proj s) q r" "\<And>q r. legal' q r \<Longrightarrow> legal q r"
  shows "follow legal' step' (\<lambda>s y. Q (proj s) y) m s"
  using assms(1) by (induction m arbitrary: s) (auto simp: assms(2) intro: assms(3))

lemma follow_every: "every (\<lambda>_. True) Q m \<Longrightarrow> follow legal step (\<lambda>s y. Q y) m s"
  by (induction m arbitrary: s) auto

lemma follow_conj:
  "follow legal step Q m s \<Longrightarrow> follow legal step R m s \<Longrightarrow> follow legal step (\<lambda>s y. Q s y \<and> R s y) m s"
  by (induction m arbitrary: s) auto


section \<open>Several programs at one service\<close>

text \<open>
  The programs \<open>ps i\<close> run interleaved: in one step a program that is at a call gets the service's answer to it, or
  the service changes by itself. What the service may do is a relation \<open>serve\<close> of its own.
\<close>

type_synonym ('w, 'q, 'r) service = "'w \<Rightarrow> 'q \<Rightarrow> 'r \<Rightarrow> 'w \<Rightarrow> bool"

inductive together ::
  "('w, 'q, 'r) service \<Rightarrow> ('w \<Rightarrow> 'w \<Rightarrow> bool) \<Rightarrow> ('i \<Rightarrow> ('q, 'r, 'e, 'a) prog) \<times> 'w \<Rightarrow> ('i \<Rightarrow> ('q, 'r, 'e, 'a) prog) \<times> 'w \<Rightarrow> bool"
  for serve :: "('w, 'q, 'r) service" and drift :: "'w \<Rightarrow> 'w \<Rightarrow> bool" where
  together_refl: "together serve drift c c"
| together_call: "together serve drift c (ps, w) \<Longrightarrow> ps i = Call q k \<Longrightarrow> serve w q r v \<Longrightarrow> together serve drift c (ps(i := k r), v)"
| together_drift: "together serve drift c (ps, w) \<Longrightarrow> drift w v \<Longrightarrow> together serve drift c (ps, v)"

text \<open>One schedule of the programs at a deterministic service; who is not at a call stays where he is.\<close>

fun schedule ::
  "('w \<Rightarrow> 'q \<Rightarrow> 'r \<times> 'w) \<Rightarrow> 'i list \<Rightarrow> ('i \<Rightarrow> ('q, 'r, 'e, 'a) prog) \<times> 'w \<Rightarrow> ('i \<Rightarrow> ('q, 'r, 'e, 'a) prog) \<times> 'w" where
  "schedule serve [] c = c"
| "schedule serve (i # is) (ps, w) =
     (case ps i of Call q k \<Rightarrow> schedule serve is (ps(i := k (fst (serve w q))), snd (serve w q)) | _ \<Rightarrow> schedule serve is (ps, w))"

lemma together_schedule:
  "together (\<lambda>w q r v. serve w q = (r, v)) drift c d \<Longrightarrow> together (\<lambda>w q r v. serve w q = (r, v)) drift c (schedule serve is d)"
proof (induction "is" arbitrary: d)
  case (Cons i "is")
  obtain ps w where d: "d = (ps, w)" by (cases d)
  show ?case
  proof (cases "ps i")
    case (Call q k)
    then have "together (\<lambda>w q r v. serve w q = (r, v)) drift c (ps(i := k (fst (serve w q))), snd (serve w q))"
      using Cons.prems by (auto simp: d intro: together_call)
    then show ?thesis using Cons.IH by (simp add: d Call)
  qed (use Cons in \<open>simp_all add: d\<close>)
qed simp

end
