(* ===== verification/Tracker.thy ===== *)
theory Tracker
  imports Effects Handoff_Records Comments "HOL-Library.AList" "HOL-Library.Product_Lexorder"
begin

text \<open>
  Selecting and claiming an issue (\<open>github_tracker.py\<close>): which issues the queue holds and in which order, the
  detector of merge conflicts, and the claim protocol of Workers that share one repository, possibly one login.
  GitHub is the service behind the transport; a method of the tracker is a program that calls it. A poll reads at
  most a given number of pages; beyond that the model's program raises \<open>Too_many_pages\<close>, where the code would go
  on reading.
\<close>

section \<open>Issues\<close>

definition READY_FOR_AGENT :: string where "READY_FOR_AGENT = ''ready-for-agent''"

definition ROUND_FINISHED :: string where "ROUND_FINISHED = ''round-finished''"

definition READY_FOR_HUMAN :: string where "READY_FOR_HUMAN = ''ready-for-human''"

definition MERGE_CONFLICT :: string where "MERGE_CONFLICT = ''merge-conflict''"

definition CLAIM_MARKER_PREFIX :: string where "CLAIM_MARKER_PREFIX = ''claimed-by:''"

definition claim_marker_label :: "string \<Rightarrow> string" where
  "claim_marker_label worker_id = CLAIM_MARKER_PREFIX @ worker_id"

text \<open>Labels are a frozen set; a list stands for it, and only membership matters.\<close>

definition claim_marker_labels :: "string list \<Rightarrow> string list" where
  "claim_marker_labels labels = filter (py_startswith CLAIM_MARKER_PREFIX) labels"

definition has_claim_marker :: "string list \<Rightarrow> bool" where
  "has_claim_marker labels = list_ex (py_startswith CLAIM_MARKER_PREFIX) labels"

record tracker_issue =
  ti_id :: string
  ti_number :: int
  ti_title :: string
  ti_body :: string
  ti_created_at :: datetime
  ti_state :: string
  ti_labels :: "string list"
  ti_assignees :: "string list"
  ti_blocked_by :: int
  ti_author :: string

definition meets_base_queue_rules :: "tracker_issue \<Rightarrow> bool" where
  "meets_base_queue_rules i \<longleftrightarrow>
     ti_state i = ''OPEN'' \<and> ti_assignees i = [] \<and> \<not> has_claim_marker (ti_labels i) \<and> \<not> py_blank (ti_body i)
     \<and> ti_blocked_by i = 0"

definition is_eligible :: "tracker_issue \<Rightarrow> bool" where
  "is_eligible i \<longleftrightarrow>
     ti_state i = ''OPEN'' \<and> READY_FOR_AGENT \<in> set (ti_labels i) \<and> ti_assignees i = [] \<and> \<not> has_claim_marker (ti_labels i)
     \<and> \<not> py_blank (ti_body i) \<and> ti_blocked_by i = 0"

definition is_continuation_signal :: "tracker_issue \<Rightarrow> bool" where
  "is_continuation_signal i \<longleftrightarrow> ROUND_FINISHED \<in> set (ti_labels i) \<and> READY_FOR_AGENT \<notin> set (ti_labels i)"

definition is_conflict_signal :: "tracker_issue \<Rightarrow> bool" where
  "is_conflict_signal i \<longleftrightarrow>
     MERGE_CONFLICT \<in> set (ti_labels i) \<and> READY_FOR_AGENT \<notin> set (ti_labels i)
     \<and> ROUND_FINISHED \<notin> set (ti_labels i) \<and> READY_FOR_HUMAN \<notin> set (ti_labels i)"

text \<open>\<open>^agent/issue-(\d+)$\<close> against the whole name.\<close>

definition conflict_branch_issue_number :: "string \<Rightarrow> int option" where
  "conflict_branch_issue_number head_ref =
     Option.bind (lit ''agent/issue-'' head_ref) (\<lambda>digits. map_option int (unsigned_literal digits))"

definition is_pr_head_stale :: "string \<Rightarrow> string option \<Rightarrow> bool" where
  "is_pr_head_stale head_sha branch_tip =
     (if head_sha = [] then False else (case nonempty branch_tip of None \<Rightarrow> False | Some tip \<Rightarrow> tip \<noteq> head_sha))"

definition is_conflict_detection_eligible :: "tracker_issue \<Rightarrow> bool \<Rightarrow> string \<Rightarrow> string \<Rightarrow> string option \<Rightarrow> bool" where
  "is_conflict_detection_eligible issue draft mergeable head_sha branch_tip =
     (if draft \<or> mergeable \<noteq> ''CONFLICTING'' then False
      else if is_pr_head_stale head_sha branch_tip then False
      else if \<not> meets_base_queue_rules issue then False
      else set (ti_labels issue) \<inter> {READY_FOR_AGENT, ROUND_FINISHED, READY_FOR_HUMAN, MERGE_CONFLICT} = {})"

definition ineligibility_reason :: "tracker_issue option \<Rightarrow> int \<Rightarrow> int \<Rightarrow> int \<Rightarrow> int \<Rightarrow> string option" where
  "ineligibility_reason issue number max_auto auto_count max_conflict =
     (let name = ''issue #'' @ str_of_int number;
          common = (\<lambda>i. if ti_assignees i \<noteq> []
              then Some (name @ '' is already assigned to '' @ py_join '', '' (ti_assignees i))
            else if has_claim_marker (ti_labels i)
              then Some (name @ '' is claimed by another worker (labelled `claimed-by:*`)'')
            else if py_blank (ti_body i) then Some (name @ '' has an empty body'')
            else if ti_blocked_by i \<noteq> 0
              then Some (name @ '' has '' @ str_of_int (ti_blocked_by i) @ '' open ''
                @ (if ti_blocked_by i = 1 then ''blocker'' else ''blockers''))
            else None)
      in case issue of
        None \<Rightarrow> Some (name @ '' was not found'')
      | Some i \<Rightarrow>
          if ti_state i \<noteq> ''OPEN'' then Some (name @ '' is not open (state '' @ ti_state i @ '')'')
          else if READY_FOR_AGENT \<notin> set (ti_labels i) then
            (if 0 < max_auto \<and> ROUND_FINISHED \<in> set (ti_labels i) then
               (if meets_base_queue_rules i then
                  (if auto_count < max_auto then None
                   else Some (name @ '': automatic continuation limit reached ('' @ str_of_int auto_count @ ''/''
                     @ str_of_int max_auto @ '')''))
                else common i)
             else if READY_FOR_HUMAN \<in> set (ti_labels i)
             then Some (name @ '' requires human implementation (labelled `'' @ READY_FOR_HUMAN @ ''`)'')
             else if 0 < max_conflict \<and> MERGE_CONFLICT \<in> set (ti_labels i) \<and> READY_FOR_HUMAN \<notin> set (ti_labels i)
               \<and> ROUND_FINISHED \<notin> set (ti_labels i)
             then (if meets_base_queue_rules i then None else common i)
             else Some (name @ '' is not labelled `'' @ READY_FOR_AGENT @ ''`''))
          else common i)"


section \<open>The service\<close>

record issue_page =
  ip_issues :: "tracker_issue list"
  ip_next :: "string option"

record identity =
  id_id :: string
  id_login :: string

record assignment =
  as_issue_id :: string
  as_assignee_id :: string

record claim =
  cl_issue :: tracker_issue
  cl_assignment :: assignment

record issue_comment =
  co_author :: string
  co_body :: string

record open_pull_request =
  pr_number :: int
  pr_head_ref :: string
  pr_base_ref :: string
  pr_head_sha :: string
  pr_draft :: bool
  pr_mergeable :: string
  pr_branch_tip :: "string option"

record pr_page =
  pp_pull_requests :: "open_pull_request list"
  pp_next :: "string option"

datatype tracker_error =
    GitHubTrackerError string
  | ClaimLostError int "string list"
  | AmbiguousContinuation string
  | Incomparable
  | Marker_value marker_error
  | Unexpected_answer
  | Too_many_pages

text \<open>An event whose text quotes an exception carries the exception itself.\<close>

datatype request =
    List_issues string "string option"
  | List_open_pull_requests string "string option"
  | Get_issue string int
  | Viewer
  | Assign_issue string string
  | Remove_assignee string string
  | Remove_label string string
  | Add_label string string
  | List_issue_comments string int
  | Add_comment string int string
  | Sleep
  | Event_log string string string int
  | Event_error string tracker_error string int

datatype response =
    Failed string
  | Issues issue_page
  | Pull_requests pr_page
  | Issue "tracker_issue option"
  | Identity identity
  | Assigned assignment
  | Comment_list "issue_comment list"
  | Done

type_synonym 'a tracker_prog = "(request, response, tracker_error, 'a) prog"

definition answer :: "(response \<Rightarrow> 'a option) \<Rightarrow> response \<Rightarrow> tracker_error + 'a" where
  "answer sel r = (case r of
     Failed m \<Rightarrow> Inl (GitHubTrackerError m)
   | _ \<Rightarrow> (case sel r of None \<Rightarrow> Inl Unexpected_answer | Some x \<Rightarrow> Inr x))"

definition get_issue :: "string \<Rightarrow> int \<Rightarrow> tracker_issue option tracker_prog" where
  "get_issue repo n = ask (Get_issue repo n) (answer (\<lambda>r. case r of Issue i \<Rightarrow> Some i | _ \<Rightarrow> None))"

definition list_issues :: "string \<Rightarrow> string option \<Rightarrow> issue_page tracker_prog" where
  "list_issues repo cursor = ask (List_issues repo cursor) (answer (\<lambda>r. case r of Issues p \<Rightarrow> Some p | _ \<Rightarrow> None))"

definition list_open_pull_requests :: "string \<Rightarrow> string option \<Rightarrow> pr_page tracker_prog" where
  "list_open_pull_requests repo cursor =
     ask (List_open_pull_requests repo cursor) (answer (\<lambda>r. case r of Pull_requests p \<Rightarrow> Some p | _ \<Rightarrow> None))"

definition viewer :: "identity tracker_prog" where
  "viewer = ask Viewer (answer (\<lambda>r. case r of Identity i \<Rightarrow> Some i | _ \<Rightarrow> None))"

definition assign_issue :: "string \<Rightarrow> string \<Rightarrow> assignment tracker_prog" where
  "assign_issue i a = ask (Assign_issue i a) (answer (\<lambda>r. case r of Assigned x \<Rightarrow> Some x | _ \<Rightarrow> None))"

definition list_issue_comments :: "string \<Rightarrow> int \<Rightarrow> issue_comment list tracker_prog" where
  "list_issue_comments repo n =
     ask (List_issue_comments repo n) (answer (\<lambda>r. case r of Comment_list c \<Rightarrow> Some c | _ \<Rightarrow> None))"

text \<open>A call whose answer carries no value; waiting and logging do not fail.\<close>

definition command :: "request \<Rightarrow> unit tracker_prog" where
  "command q = ask q (answer (\<lambda>r. Some ()))"

definition silently :: "request \<Rightarrow> unit tracker_prog" where
  "silently q = ask q (\<lambda>r. Inr ())"


section \<open>The tracker\<close>

record tracker =
  tk_repo :: string
  tk_max_auto :: int
  tk_max_conflict :: int
  tk_peers :: "string list"
  tk_worker_id :: string
  tk_lists_pull_requests :: bool
  tk_adds_comments :: bool

text \<open>\<open>re.split(r"[,\s]+", raw)\<close> without its empty parts.\<close>

fun split_logins :: "string \<Rightarrow> string \<Rightarrow> string list" where
  "split_logins acc [] = (if acc = [] then [] else [rev acc])"
| "split_logins acc (c # cs) =
     (if c = CHR '','' \<or> py_space c then (if acc = [] then [] else [rev acc]) @ split_logins [] cs
      else split_logins (c # acc) cs)"

definition peer_login_set :: "string list option \<Rightarrow> string \<Rightarrow> string list" where
  "peer_login_set peers environment = (case peers of
     Some logins \<Rightarrow> map py_strip (filter (\<lambda>l. \<not> py_blank l) logins)
   | None \<Rightarrow> split_logins [] environment)"

definition trusted_agent_logins :: "string \<Rightarrow> string list \<Rightarrow> string list" where
  "trusted_agent_logins login peers = filter (\<lambda>l. l \<noteq> []) (login # peers)"

definition worker_id_char :: "char \<Rightarrow> bool" where
  "worker_id_char c \<longleftrightarrow> char_between CHR ''a'' CHR ''z'' c \<or> is_digit c \<or> c = CHR ''-''"

definition new_tracker :: "string \<Rightarrow> int \<Rightarrow> int \<Rightarrow> string list option \<Rightarrow> string \<Rightarrow> string \<Rightarrow> bool \<Rightarrow> bool \<Rightarrow> tracker_error + tracker" where
  "new_tracker repo max_auto max_conflict peers environment worker_id can_list can_comment =
     (if max_auto < 0 then Inl (GitHubTrackerError ''MAX_AUTO_CONTINUATIONS must be a non-negative integer'')
      else if max_conflict < 0 then Inl (GitHubTrackerError ''MAX_CONFLICT_ATTEMPTS must be a non-negative integer'')
      else if worker_id \<noteq> [] \<and> (32 < length worker_id \<or> worker_id \<noteq> py_strip worker_id \<or> \<not> list_all worker_id_char worker_id)
      then Inl (GitHubTrackerError ''WORKER_ID must use [a-z0-9-], at most 32 characters'')
      else Inr \<lparr>tk_repo = repo, tk_max_auto = max_auto, tk_max_conflict = max_conflict,
             tk_peers = peer_login_set peers environment, tk_worker_id = worker_id,
             tk_lists_pull_requests = can_list, tk_adds_comments = can_comment\<rparr>)"

definition own_marker :: "tracker \<Rightarrow> string option" where
  "own_marker tk = (if tk_worker_id tk \<noteq> [] then Some (claim_marker_label (tk_worker_id tk)) else None)"

definition other_markers :: "tracker \<Rightarrow> string list \<Rightarrow> string list" where
  "other_markers tk labels = sort (remdups (filter (\<lambda>l. Some l \<noteq> own_marker tk) (claim_marker_labels labels)))"

definition is_conflict_eligible :: "tracker \<Rightarrow> tracker_issue \<Rightarrow> bool" where
  "is_conflict_eligible tk issue =
     (if tk_max_conflict tk \<le> 0 then False else is_conflict_signal issue \<and> meets_base_queue_rules issue)"


section \<open>Comments of an issue\<close>

definition own_comments :: "tracker \<Rightarrow> tracker_issue \<Rightarrow> issue_comment list tracker_prog" where
  "own_comments tk issue =
     bind viewer (\<lambda>me.
     bind (list_issue_comments (tk_repo tk) (ti_number issue)) (\<lambda>comments.
     Return (filter (\<lambda>c. co_author c \<noteq> [] \<and> co_author c \<in> set (trusted_agent_logins (id_login me) (tk_peers tk))) (rev comments))))"

definition automatic_continuation_count :: "iso_parser \<Rightarrow> tracker \<Rightarrow> tracker_issue \<Rightarrow> int tracker_prog" where
  "automatic_continuation_count parse_iso tk issue =
     bind (own_comments tk issue) (\<lambda>comments.
     case resolve_automatic_continuation_count parse_iso (map co_body comments) (Some (ti_number issue)) (Some (tk_repo tk)) of
       Inr n \<Rightarrow> Return n
     | Inl (AmbiguousContinuationError m) \<Rightarrow> Raise (AmbiguousContinuation m)
     | Inl Incomparable_ids \<Rightarrow> Raise Incomparable)"

definition conflict_failure_streak :: "tracker \<Rightarrow> tracker_issue \<Rightarrow> nat tracker_prog" where
  "conflict_failure_streak tk issue = bind (own_comments tk issue) (\<lambda>comments. Return (count_conflict_failures (map co_body comments)))"

text \<open>The newest comment with a conflict marker decides.\<close>

definition last_conflict_result_sha :: "tracker \<Rightarrow> tracker_issue \<Rightarrow> string option tracker_prog" where
  "last_conflict_result_sha tk issue = bind (own_comments tk issue) (\<lambda>comments. Return
     (case List.map_filter parse_conflict_attempt (map co_body comments) of
        [] \<Rightarrow> None
      | fs # _ \<Rightarrow> (case nonempty (map_of fs ''sha'') of
          None \<Rightarrow> None | Some sha \<Rightarrow> if sha = ''none'' then None else Some sha)))"

definition trusted_comments :: "tracker \<Rightarrow> tracker_issue \<Rightarrow> string list tracker_prog" where
  "trusted_comments tk issue =
     bind viewer (\<lambda>me.
     bind (list_issue_comments (tk_repo tk) (ti_number issue)) (\<lambda>comments.
     Return (map co_body (filter (\<lambda>c. co_author c \<noteq> []
         \<and> (co_author c = ti_author issue \<or> co_author c \<in> set (trusted_agent_logins (id_login me) (tk_peers tk)))
         \<and> \<not> is_handoff_record (co_body c)) comments))))"

definition prompt_comments :: "tracker \<Rightarrow> tracker_issue \<Rightarrow> string list tracker_prog" where
  "prompt_comments tk issue = bind (trusted_comments tk issue) (\<lambda>bodies. Return (filter_prompt_comments bodies))"

definition is_auto_continuation_eligible :: "iso_parser \<Rightarrow> tracker \<Rightarrow> tracker_issue \<Rightarrow> bool tracker_prog" where
  "is_auto_continuation_eligible parse_iso tk issue =
     (if tk_max_auto tk \<le> 0 then Return False
      else if \<not> is_continuation_signal issue \<or> \<not> meets_base_queue_rules issue then Return False
      else handle (bind (automatic_continuation_count parse_iso tk issue) (\<lambda>n. Return (n < tk_max_auto tk)))
        (\<lambda>e. case e of AmbiguousContinuation m \<Rightarrow> Return False | _ \<Rightarrow> Raise e))"

end
