(* ===== verification/Tracker_Ops.thy ===== *)
theory Tracker_Ops
  imports Tracker
begin

text \<open>
  The operations of the tracker that act on GitHub: the detector of merge conflicts, the runnable queue, the claim
  with its settle window, the losing side's retreat, recovery and the releases. Each is a program over the
  transport; the number of pages a poll reads is bounded by its first argument.
\<close>

section \<open>The conflict detector\<close>

type_synonym issue_dict = "(int \<times> tracker_issue) list"

type_synonym trust_state = "string list option \<times> bool"

record detection =
  dt_issues :: issue_dict
  dt_detected :: "(int \<times> int \<times> string) list"
  dt_trust :: trust_state

text \<open>
  The warning and the notice about a stale head. Every exception of the notice ends in a warning; the logins read
  so far are kept.
\<close>

definition skip_stale_pr_head :: "tracker \<Rightarrow> tracker_issue \<Rightarrow> open_pull_request \<Rightarrow> trust_state \<Rightarrow> trust_state tracker_prog" where
  "skip_stale_pr_head tk issue pr trust =
     (let tip = (case pr_branch_tip pr of None \<Rightarrow> [] | Some t \<Rightarrow> t);
          notice = (\<lambda>logins.
            bind (list_issue_comments (tk_repo tk) (ti_number issue)) (\<lambda>comments.
            case pr_head_stale_marker (pr_number pr) (pr_head_sha pr) tip of
              Inl e \<Rightarrow> Raise (Marker_value e)
            | Inr marker \<Rightarrow>
                if list_ex (\<lambda>c. co_author c \<noteq> [] \<and> co_author c \<in> set logins \<and> py_contains marker (co_body c)) comments
                then Return ()
                else if tk_adds_comments tk then
                  (case pr_head_stale_notice_body (tk_repo tk) (pr_head_ref pr) (pr_number pr) (pr_head_sha pr) tip of
                     Inl e \<Rightarrow> Raise (Marker_value e)
                   | Inr body \<Rightarrow> command (Add_comment (tk_repo tk) (ti_number issue) body))
                else Return ()));
          finish = (\<lambda>logins failed.
            bind (handle (notice logins)
              (\<lambda>e. silently (Event_error ''stale_notice_failed'' e ''WARNING'' (ti_number issue))))
              (\<lambda>_. Return (Some logins, failed)))
      in bind (silently (Event_log ''conflict_requeue_skipped''
            (''issue #'' @ str_of_int (ti_number issue) @ ''; pull request #'' @ str_of_int (pr_number pr)
             @ '' head '' @ pr_head_sha pr @ '' differs from branch tip '' @ tip @ '' (reason=pr_head_stale);''
             @ '' merge-conflict not applied'') ''WARNING'' (ti_number issue)))
         (\<lambda>_. case trust of
            (Some logins, failed) \<Rightarrow> finish logins failed
          | (None, True) \<Rightarrow> Return (None, True)
          | (None, False) \<Rightarrow>
              bind (handle (bind viewer (\<lambda>me. Return (Some (id_login me))))
                (\<lambda>e. bind (silently (Event_error ''stale_notice_check_failed'' e ''WARNING'' (ti_number issue)))
                  (\<lambda>_. Return None)))
              (\<lambda>login. case login of
                 None \<Rightarrow> Return (None, True)
               | Some l \<Rightarrow> finish (trusted_agent_logins l (tk_peers tk)) False)))"

definition detect_pull_request :: "tracker \<Rightarrow> open_pull_request \<Rightarrow> detection \<Rightarrow> detection tracker_prog" where
  "detect_pull_request tk pr d =
     (case conflict_branch_issue_number (pr_head_ref pr) of
        None \<Rightarrow> Return d
      | Some number \<Rightarrow>
          (case map_of (dt_issues d) number of
             None \<Rightarrow> Return d
           | Some issue \<Rightarrow>
               if \<not> is_conflict_detection_eligible issue (pr_draft pr) (pr_mergeable pr) (pr_head_sha pr) (pr_branch_tip pr)
               then (if is_pr_head_stale (pr_head_sha pr) (pr_branch_tip pr)
                       \<and> is_conflict_detection_eligible issue (pr_draft pr) (pr_mergeable pr) [] None
                     then bind (skip_stale_pr_head tk issue pr (dt_trust d)) (\<lambda>trust. Return (d\<lparr>dt_trust := trust\<rparr>))
                     else Return d)
               else
                 bind (command (Add_label (ti_id issue) MERGE_CONFLICT)) (\<lambda>_.
                 bind (silently (Event_log ''conflict_requeue_detected''
                   (''issue #'' @ str_of_int number @ ''; pull request #'' @ str_of_int (pr_number pr)
                    @ '' ('' @ pr_head_sha pr @ '') reports merge conflicts'') ''INFO'' number)) (\<lambda>_.
                 Return (d\<lparr>dt_issues := AList.update number (issue\<lparr>ti_labels := MERGE_CONFLICT # ti_labels issue\<rparr>) (dt_issues d),
                   dt_detected := dt_detected d @ [(number, pr_number pr, pr_head_sha pr)]\<rparr>)))))"

fun detect_page :: "tracker \<Rightarrow> open_pull_request list \<Rightarrow> detection \<Rightarrow> detection tracker_prog" where
  "detect_page tk [] d = Return d"
| "detect_page tk (pr # prs) d = bind (detect_pull_request tk pr d) (detect_page tk prs)"

fun detect_pages :: "nat \<Rightarrow> tracker \<Rightarrow> string option \<Rightarrow> detection \<Rightarrow> detection tracker_prog" where
  "detect_pages 0 tk cursor d = Raise Too_many_pages"
| "detect_pages (Suc pages) tk cursor d =
     bind (list_open_pull_requests (tk_repo tk) cursor) (\<lambda>page.
     bind (detect_page tk (pp_pull_requests page) d) (\<lambda>d'.
     if pp_next page = None then Return d' else detect_pages pages tk (pp_next page) d'))"

text \<open>The poll's issues, with the labels just given, and the detected conflicts.\<close>

definition detect_conflict_requeues :: "nat \<Rightarrow> tracker \<Rightarrow> issue_dict \<Rightarrow> (issue_dict \<times> (int \<times> int \<times> string) list) tracker_prog" where
  "detect_conflict_requeues pages tk by_number =
     (if tk_max_conflict tk \<le> 0 \<or> \<not> tk_lists_pull_requests tk then Return (by_number, [])
      else bind (detect_pages pages tk None \<lparr>dt_issues = by_number, dt_detected = [], dt_trust = (None, False)\<rparr>)
        (\<lambda>d. Return (dt_issues d, dt_detected d)))"


section \<open>The queue\<close>

definition by_fifo :: "tracker_issue \<Rightarrow> datetime \<times> int" where
  "by_fifo i = (ti_created_at i, ti_number i)"

fun read_issues :: "nat \<Rightarrow> tracker \<Rightarrow> string option \<Rightarrow> issue_dict \<Rightarrow> issue_dict tracker_prog" where
  "read_issues 0 tk cursor by_number = Raise Too_many_pages"
| "read_issues (Suc pages) tk cursor by_number =
     bind (list_issues (tk_repo tk) cursor) (\<lambda>page.
     let d = fold (\<lambda>i. AList.update (ti_number i) i) (ip_issues page) by_number
     in if ip_next page = None then Return d else read_issues pages tk (ip_next page) d)"

text \<open>The three groups, each in the order in which the poll met its issues.\<close>

fun sort_groups :: "iso_parser \<Rightarrow> tracker \<Rightarrow> tracker_issue list \<Rightarrow> (tracker_issue list \<times> tracker_issue list \<times> tracker_issue list) tracker_prog" where
  "sort_groups parse_iso tk [] = Return ([], [], [])"
| "sort_groups parse_iso tk (i # issues) =
     (if is_eligible i then bind (sort_groups parse_iso tk issues) (\<lambda>(cs, rs, os). Return (cs, rs, i # os))
      else if is_conflict_eligible tk i then bind (sort_groups parse_iso tk issues) (\<lambda>(cs, rs, os). Return (i # cs, rs, os))
      else bind (is_auto_continuation_eligible parse_iso tk i) (\<lambda>continues.
        bind (sort_groups parse_iso tk issues) (\<lambda>(cs, rs, os). Return (if continues then (cs, i # rs, os) else (cs, rs, os)))))"

definition runnable_queue :: "iso_parser \<Rightarrow> nat \<Rightarrow> tracker \<Rightarrow> tracker_issue list tracker_prog" where
  "runnable_queue parse_iso pages tk =
     bind (read_issues pages tk None []) (\<lambda>read.
     bind (detect_conflict_requeues pages tk read) (\<lambda>(by_number, detected).
     bind (sort_groups parse_iso tk (map snd by_number)) (\<lambda>(conflicts, continuations, ordinary).
     Return (sort_key by_fifo conflicts @ sort_key by_fifo continuations @ sort_key by_fifo ordinary))))"

definition fetch_issue :: "tracker \<Rightarrow> int \<Rightarrow> tracker_issue option tracker_prog" where
  "fetch_issue tk number = get_issue (tk_repo tk) number"

definition is_self_assigned :: "tracker \<Rightarrow> tracker_issue \<Rightarrow> bool tracker_prog" where
  "is_self_assigned tk issue =
     bind viewer (\<lambda>me. Return
       (if id_login me \<notin> set (ti_assignees issue) then False
        else (case own_marker tk of None \<Rightarrow> True | Some own \<Rightarrow> own \<in> set (ti_labels issue))))"


section \<open>Claiming\<close>

definition yield_losing_claim :: "tracker \<Rightarrow> tracker_issue \<Rightarrow> identity \<Rightarrow> unit tracker_prog" where
  "yield_losing_claim tk fresh me =
     (case own_marker tk of
        None \<Rightarrow> command (Remove_assignee (ti_id fresh) (id_id me))
      | Some own \<Rightarrow>
          bind (get_issue (tk_repo tk) (ti_number fresh)) (\<lambda>current.
          case current of
            None \<Rightarrow> Return ()
          | Some c \<Rightarrow>
              bind (when_prog (own \<in> set (ti_labels c)) (command (Remove_label (ti_id c) own))) (\<lambda>_.
              bind (get_issue (tk_repo tk) (ti_number fresh)) (\<lambda>current.
              case current of
                None \<Rightarrow> Return ()
              | Some c \<Rightarrow>
                  when_prog (id_login me \<in> set (ti_assignees c) \<and> \<not> has_claim_marker (ti_labels c))
                    (command (Remove_assignee (ti_id c) (id_id me)))))))"

definition claim_lost_event :: "int \<Rightarrow> string \<Rightarrow> unit tracker_prog" where
  "claim_lost_event number holders = silently (Event_log ''claim_lost''
     (''issue #'' @ str_of_int number @ '' claimed by another assignee ('' @ holders @ ''); yielding'') ''WARNING'' number)"

definition verify_claim :: "tracker \<Rightarrow> tracker_issue \<Rightarrow> identity \<Rightarrow> tracker_issue tracker_prog" where
  "verify_claim tk issue me =
     bind (silently Sleep) (\<lambda>_.
     bind (get_issue (tk_repo tk) (ti_number issue)) (\<lambda>answered.
     case answered of
       None \<Rightarrow>
         bind (claim_lost_event (ti_number issue) ''issue unavailable on re-read'') (\<lambda>_.
         Raise (ClaimLostError (ti_number issue) []))
     | Some fresh \<Rightarrow>
         (let others = filter (\<lambda>login. login \<noteq> id_login me) (ti_assignees fresh);
              foreign = (if tk_worker_id tk \<noteq> [] then other_markers tk (ti_labels fresh) else [])
          in if others \<noteq> [] \<or> foreign \<noteq> [] then
               bind (claim_lost_event (ti_number issue) (py_join '', '' (others @ foreign))) (\<lambda>_.
               bind (yield_losing_claim tk fresh me) (\<lambda>_.
               Raise (ClaimLostError (ti_number issue) (others @ foreign))))
             else Return fresh)))"

definition remove_stale_claim_labels :: "tracker_issue \<Rightarrow> unit tracker_prog" where
  "remove_stale_claim_labels verified =
     bind (when_prog (ROUND_FINISHED \<in> set (ti_labels verified)) (command (Remove_label (ti_id verified) ROUND_FINISHED))) (\<lambda>_.
     when_prog (MERGE_CONFLICT \<in> set (ti_labels verified)
         \<and> (READY_FOR_AGENT \<in> set (ti_labels verified) \<or> ROUND_FINISHED \<in> set (ti_labels verified)))
       (command (Remove_label (ti_id verified) MERGE_CONFLICT)))"

definition mark_own :: "tracker \<Rightarrow> string \<Rightarrow> unit tracker_prog" where
  "mark_own tk issue_id = (case own_marker tk of None \<Rightarrow> Return () | Some own \<Rightarrow> command (Add_label issue_id own))"

definition claim_verified :: "tracker \<Rightarrow> tracker_issue \<Rightarrow> claim tracker_prog" where
  "claim_verified tk issue =
     bind viewer (\<lambda>me.
     bind (assign_issue (ti_id issue) (id_id me)) (\<lambda>assigned.
     bind (mark_own tk (ti_id issue)) (\<lambda>_.
     bind (verify_claim tk issue me) (\<lambda>verified.
     bind (remove_stale_claim_labels verified) (\<lambda>_.
     Return \<lparr>cl_issue = issue, cl_assignment = assigned\<rparr>)))))"

text \<open>Still eligible at the moment of the claim, under the rules of the queue.\<close>

definition still_eligible :: "iso_parser \<Rightarrow> tracker \<Rightarrow> tracker_issue \<Rightarrow> bool tracker_prog" where
  "still_eligible parse_iso tk i =
     (if is_eligible i then Return True
      else if is_conflict_eligible tk i then Return True
      else is_auto_continuation_eligible parse_iso tk i)"

fun claim_first :: "iso_parser \<Rightarrow> tracker \<Rightarrow> identity \<Rightarrow> tracker_issue list \<Rightarrow> claim option tracker_prog" where
  "claim_first parse_iso tk me [] = Return None"
| "claim_first parse_iso tk me (candidate # queue) =
     bind (get_issue (tk_repo tk) (ti_number candidate)) (\<lambda>answered.
     case answered of
       None \<Rightarrow> claim_first parse_iso tk me queue
     | Some current \<Rightarrow>
         bind (still_eligible parse_iso tk current) (\<lambda>eligible.
         if \<not> eligible then claim_first parse_iso tk me queue
         else
           bind (assign_issue (ti_id current) (id_id me)) (\<lambda>assigned.
           bind (mark_own tk (ti_id current)) (\<lambda>_.
           bind (handle (bind (verify_claim tk current me) (\<lambda>verified. Return (Some verified)))
             (\<lambda>e. case e of ClaimLostError n others \<Rightarrow> Return None | _ \<Rightarrow> Raise e)) (\<lambda>won.
           case won of
             None \<Rightarrow> claim_first parse_iso tk me queue
           | Some verified \<Rightarrow>
               bind (remove_stale_claim_labels verified) (\<lambda>_.
               Return (Some \<lparr>cl_issue = current, cl_assignment = assigned\<rparr>)))))))"

definition claim_next :: "iso_parser \<Rightarrow> nat \<Rightarrow> tracker \<Rightarrow> claim option tracker_prog" where
  "claim_next parse_iso pages tk =
     bind (runnable_queue parse_iso pages tk) (\<lambda>queue.
     if queue = [] then Return None
     else bind viewer (\<lambda>me. claim_first parse_iso tk me queue))"


section \<open>Recovery and release\<close>

definition recover_claim :: "tracker \<Rightarrow> int \<Rightarrow> claim option tracker_prog" where
  "recover_claim tk number =
     bind (get_issue (tk_repo tk) number) (\<lambda>answered.
     case answered of
       None \<Rightarrow> Return None
     | Some current \<Rightarrow>
         bind viewer (\<lambda>me.
         let mine = \<lparr>cl_issue = current, cl_assignment = \<lparr>as_issue_id = ti_id current, as_assignee_id = id_id me\<rparr>\<rparr>
         in case own_marker tk of
              None \<Rightarrow> Return (Some mine)
            | Some own \<Rightarrow>
                if id_login me \<notin> set (ti_assignees current) then Return None
                else if own \<notin> set (ti_labels current) \<and> has_claim_marker (ti_labels current) then Return None
                else Return (Some mine)))"

definition release_own_marker :: "tracker \<Rightarrow> int \<Rightarrow> bool tracker_prog" where
  "release_own_marker tk number =
     (case own_marker tk of
        None \<Rightarrow> Return True
      | Some own \<Rightarrow>
          bind (get_issue (tk_repo tk) number) (\<lambda>answered.
          case answered of
            None \<Rightarrow> Return False
          | Some current \<Rightarrow>
              bind (when_prog (own \<in> set (ti_labels current)) (command (Remove_label (ti_id current) own)))
                (\<lambda>_. Return True)))"

text \<open>The last steps that both releases share: the own marker, then the login's assignment.\<close>

definition release_assignment :: "tracker \<Rightarrow> int \<Rightarrow> string \<Rightarrow> unit tracker_prog" where
  "release_assignment tk number assignee_id =
     bind (release_own_marker tk number) (\<lambda>there.
     if \<not> there then Return ()
     else bind (get_issue (tk_repo tk) number) (\<lambda>answered.
       case answered of
         None \<Rightarrow> Return ()
       | Some current \<Rightarrow>
           bind viewer (\<lambda>me.
           when_prog (id_login me \<in> set (ti_assignees current)
               \<and> \<not> (tk_worker_id tk \<noteq> [] \<and> has_claim_marker (ti_labels current)))
             (command (Remove_assignee (ti_id current) assignee_id)))))"

definition release_attempt :: "tracker \<Rightarrow> int \<Rightarrow> string \<Rightarrow> string \<Rightarrow> unit tracker_prog" where
  "release_attempt tk number label assignee_id =
     bind (get_issue (tk_repo tk) number) (\<lambda>answered.
     case answered of
       None \<Rightarrow> Return ()
     | Some current \<Rightarrow>
         bind (when_prog (label \<in> set (ti_labels current)) (command (Remove_label (ti_id current) label))) (\<lambda>_.
         release_assignment tk number assignee_id))"

definition release_handoff :: "tracker \<Rightarrow> int \<Rightarrow> string \<Rightarrow> unit tracker_prog" where
  "release_handoff tk number assignee_id =
     bind (get_issue (tk_repo tk) number) (\<lambda>answered.
     case answered of
       None \<Rightarrow> Return ()
     | Some current \<Rightarrow>
         bind (when_prog (READY_FOR_AGENT \<in> set (ti_labels current)) (command (Remove_label (ti_id current) READY_FOR_AGENT))) (\<lambda>_.
         bind (get_issue (tk_repo tk) number) (\<lambda>answered.
         case answered of
           None \<Rightarrow> Return ()
         | Some current \<Rightarrow>
             bind (when_prog (ROUND_FINISHED \<notin> set (ti_labels current)) (command (Add_label (ti_id current) ROUND_FINISHED))) (\<lambda>_.
             release_assignment tk number assignee_id))))"

definition escalate_conflict_to_human :: "tracker_issue \<Rightarrow> unit tracker_prog" where
  "escalate_conflict_to_human issue = command (Add_label (ti_id issue) READY_FOR_HUMAN)"

end
