(* ===== verification/Tracker_Props.thy ===== *)
theory Tracker_Props
  imports Tracker_Ops "HOL-Library.Multiset"
begin

text \<open>
  What the tracker guarantees: which calls a claim makes, that two Workers of a pool never both win an issue, however
  their calls interleave, and which issues a poll offers in which order.
\<close>

section \<open>Calls\<close>

text \<open>A Worker removes no marker but its own, and no queue label but the two stale ones.\<close>

definition marks_own :: "tracker \<Rightarrow> request \<Rightarrow> bool" where
  "marks_own tk q = (case q of
     Remove_label x l \<Rightarrow> Some l = own_marker tk \<or> l \<in> {ROUND_FINISHED, MERGE_CONFLICT}
   | Add_label x l \<Rightarrow> Some l = own_marker tk \<or> l = MERGE_CONFLICT
   | _ \<Rightarrow> True)"

lemmas transport_defs = get_issue_def list_issues_def list_open_pull_requests_def viewer_def assign_issue_def
  list_issue_comments_def command_def silently_def

lemma marks_own_simps [simp]:
  "marks_own tk (List_issues r c)" "marks_own tk (List_open_pull_requests r c)" "marks_own tk (Get_issue r n)"
  "marks_own tk Viewer" "marks_own tk (Assign_issue a b)" "marks_own tk (Remove_assignee a b)"
  "marks_own tk (List_issue_comments r n)" "marks_own tk (Add_comment r n b)" "marks_own tk Sleep"
  "marks_own tk (Event_log e d l n)" "marks_own tk (Event_error e err l n)"
  "marks_own tk (Add_label y MERGE_CONFLICT)" "marks_own tk (Remove_label y MERGE_CONFLICT)"
  "marks_own tk (Remove_label y ROUND_FINISHED)"
  by (simp_all add: marks_own_def)

lemma marks_own_marker:
  "own_marker tk = Some own \<Longrightarrow> marks_own tk (Add_label x own)" "own_marker tk = Some own \<Longrightarrow> marks_own tk (Remove_label x own)"
  by (simp_all add: marks_own_def)

lemma calls_own_comments: "(\<And>r n. P (List_issue_comments r n)) \<Longrightarrow> P Viewer \<Longrightarrow> calls P (own_comments tk i)"
  by (auto simp: own_comments_def transport_defs intro!: calls_rules)

lemma calls_continuation:
  assumes "\<And>r n. P (List_issue_comments r n)" "P Viewer"
  shows "calls P (is_auto_continuation_eligible parse_iso tk i)"
  unfolding is_auto_continuation_eligible_def automatic_continuation_count_def
  by (intro calls_rules calls_own_comments assms)
    (auto split: sum.split tracker_error.split continuation_error.split intro!: calls_rules)

text \<open>Building the queue marks no claim; the only label it adds is the one of the detector.\<close>

definition poll_call :: "request \<Rightarrow> bool" where
  "poll_call q = (case q of
     Add_label x l \<Rightarrow> l = MERGE_CONFLICT
   | Remove_label x l \<Rightarrow> False
   | Assign_issue x a \<Rightarrow> False
   | Remove_assignee x a \<Rightarrow> False
   | _ \<Rightarrow> True)"

lemma poll_call_simps [simp]:
  "poll_call (List_issues r c)" "poll_call (List_open_pull_requests r c)" "poll_call (Get_issue r n)" "poll_call Viewer"
  "poll_call (List_issue_comments r n)" "poll_call (Add_comment r n b)" "poll_call (Event_log e d l n)"
  "poll_call (Event_error e err l n)" "poll_call (Add_label y MERGE_CONFLICT)"
  by (simp_all add: poll_call_def)

lemma poll_marks_own: "poll_call q \<Longrightarrow> marks_own tk q"
  by (cases q) (simp_all add: poll_call_def)

lemma skip_polls: "calls poll_call (skip_stale_pr_head tk i pr trust)"
  unfolding skip_stale_pr_head_def Let_def transport_defs
  by (intro calls_rules) (auto split: option.split bool.split prod.split intro!: calls_rules)

lemma detect_polls: "calls poll_call (detect_pull_request tk pr d)"
  unfolding detect_pull_request_def transport_defs
  by (intro calls_rules skip_polls) simp_all

lemma detect_page_polls: "calls poll_call (detect_page tk prs d)"
  by (induction prs arbitrary: d) (auto intro!: calls_rules detect_polls)

lemma detect_pages_polls: "calls poll_call (detect_pages pages tk cursor d)"
  by (induction pages arbitrary: cursor d) (auto simp: transport_defs intro!: calls_rules detect_page_polls)

lemma read_issues_polls: "calls poll_call (read_issues pages tk cursor d)"
  by (induction pages arbitrary: cursor d) (auto simp: transport_defs Let_def intro!: calls_rules)

lemma sort_groups_calls:
  assumes "\<And>r n. P (List_issue_comments r n)" "P Viewer"
  shows "calls P (sort_groups parse_iso tk issues)"
  by (induction issues) (auto intro!: calls_rules calls_continuation assms)

lemma queue_polls: "calls poll_call (runnable_queue parse_iso pages tk)"
  unfolding runnable_queue_def detect_conflict_requeues_def
  by (intro calls_rules read_issues_polls detect_pages_polls sort_groups_calls) simp_all

lemma queue_marks_own: "calls (marks_own tk) (runnable_queue parse_iso pages tk)"
  by (rule every_mono [OF queue_polls poll_marks_own]) simp_all

lemma yield_marks_own: "calls (marks_own tk) (yield_losing_claim tk fresh me)"
  unfolding yield_losing_claim_def transport_defs by (intro calls_rules) (simp_all add: marks_own_marker)

lemma verify_marks_own: "calls (marks_own tk) (verify_claim tk i me)"
  unfolding verify_claim_def claim_lost_event_def transport_defs Let_def
  by (intro calls_rules yield_marks_own) simp_all

lemma stale_marks_own: "calls (marks_own tk) (remove_stale_claim_labels i)"
  unfolding remove_stale_claim_labels_def transport_defs by (intro calls_rules) simp_all

lemma mark_marks_own: "calls (marks_own tk) (mark_own tk x)"
  unfolding mark_own_def transport_defs by (intro calls_rules) (simp_all add: marks_own_marker)

lemma claim_verified_marks_own: "calls (marks_own tk) (claim_verified tk i)"
  unfolding claim_verified_def
  by (intro calls_rules verify_marks_own stale_marks_own mark_marks_own) (simp_all add: transport_defs calls_ask)

lemma claim_first_marks_own: "calls (marks_own tk) (claim_first parse_iso tk me queue)"
proof (induction queue)
  case (Cons i queue)
  show ?case unfolding claim_first.simps still_eligible_def
    by (intro calls_rules calls_continuation verify_marks_own stale_marks_own mark_marks_own Cons.IH)
      (auto simp: transport_defs calls_ask split: tracker_error.split)
qed simp

lemma claim_next_marks_own: "calls (marks_own tk) (claim_next parse_iso pages tk)"
  unfolding claim_next_def
  by (intro calls_rules queue_marks_own claim_first_marks_own) (simp add: transport_defs calls_ask)


section \<open>One winner\<close>

text \<open>
  What the claim relies on of the service, for the issue \<open>n\<close> of the repository \<open>repo\<close> whose node has the ID
  \<open>ident n\<close>; \<open>labels w\<close> are the labels it has in the state \<open>w\<close>. A read tells the labels of that moment, an
  answered addition has happened, and a claim marker goes away only when a call removes it.
\<close>

definition reads_are_current :: "('w, request, response) service \<Rightarrow> ('w \<Rightarrow> string set) \<Rightarrow> (int \<Rightarrow> string) \<Rightarrow> string \<Rightarrow> int \<Rightarrow> bool" where
  "reads_are_current serve labels ident repo n \<longleftrightarrow>
     (\<forall>w m i v. serve w (Get_issue repo m) (Issue (Some i)) v \<longrightarrow>
        ti_number i = m \<and> ti_id i = ident m \<and> (m = n \<longrightarrow> set (ti_labels i) = labels w))"

definition additions_happen :: "('w, request, response) service \<Rightarrow> ('w \<Rightarrow> string set) \<Rightarrow> (int \<Rightarrow> string) \<Rightarrow> int \<Rightarrow> bool" where
  "additions_happen serve labels ident n \<longleftrightarrow>
     (\<forall>w l r v. serve w (Add_label (ident n) l) r v \<longrightarrow> (\<forall>m. r \<noteq> Failed m) \<longrightarrow> l \<in> labels v)"

definition markers_stay :: "('w, request, response) service \<Rightarrow> ('w \<Rightarrow> 'w \<Rightarrow> bool) \<Rightarrow> ('w \<Rightarrow> string set) \<Rightarrow> (int \<Rightarrow> string) \<Rightarrow> int \<Rightarrow> bool" where
  "markers_stay serve drift labels ident n \<longleftrightarrow>
     (\<forall>w q r v l. serve w q r v \<longrightarrow> py_startswith CLAIM_MARKER_PREFIX l \<longrightarrow> q \<noteq> Remove_label (ident n) l \<longrightarrow>
        l \<in> labels w \<longrightarrow> l \<in> labels v)
     \<and> (\<forall>w v l. drift w v \<longrightarrow> py_startswith CLAIM_MARKER_PREFIX l \<longrightarrow> l \<in> labels w \<longrightarrow> l \<in> labels v)"

definition claim_service :: "('w, request, response) service \<Rightarrow> ('w \<Rightarrow> 'w \<Rightarrow> bool) \<Rightarrow> ('w \<Rightarrow> string set) \<Rightarrow> (int \<Rightarrow> string) \<Rightarrow> string \<Rightarrow> int \<Rightarrow> bool" where
  "claim_service serve drift labels ident repo n \<longleftrightarrow>
     inj ident \<and> reads_are_current serve labels ident repo n \<and> additions_happen serve labels ident n
     \<and> markers_stay serve drift labels ident n"

text \<open>A claim that a Worker may start: of the next issue of the queue, or of an issue it has just read.\<close>

definition starts_claim :: "iso_parser \<Rightarrow> tracker \<Rightarrow> (int \<Rightarrow> string) \<Rightarrow> claim option tracker_prog \<Rightarrow> bool" where
  "starts_claim parse_iso tk ident p \<longleftrightarrow>
     (\<exists>pages. p = claim_next parse_iso pages tk)
     \<or> (\<exists>i. ti_id i = ident (ti_number i) \<and> p = bind (claim_verified tk i) (\<lambda>c. Return (Some c)))"

definition won :: "int \<Rightarrow> claim option tracker_prog \<Rightarrow> bool" where
  "won n p \<longleftrightarrow> (\<exists>c. p = Return (Some c) \<and> ti_number (cl_issue c) = n)"

text \<open>How far a Worker's claim of the issue is: its marker set, then no other marker seen after that.\<close>

datatype hold = Free | Marked | Alone

definition hold_step :: "tracker \<Rightarrow> (int \<Rightarrow> string) \<Rightarrow> int \<Rightarrow> hold \<Rightarrow> request \<Rightarrow> response \<Rightarrow> hold" where
  "hold_step tk ident n s q r = (case q of
     Add_label x l \<Rightarrow> if x = ident n \<and> Some l = own_marker tk \<and> (\<forall>m. r \<noteq> Failed m) \<and> s = Free then Marked else s
   | Remove_label x l \<Rightarrow> if x = ident n \<and> Some l = own_marker tk then Free else s
   | Get_issue repo m \<Rightarrow> (case r of
       Issue (Some i) \<Rightarrow> if repo = tk_repo tk \<and> m = n \<and> s = Marked \<and> other_markers tk (ti_labels i) = [] then Alone else s
     | _ \<Rightarrow> s)
   | _ \<Rightarrow> s)"

definition plausible :: "string \<Rightarrow> (int \<Rightarrow> string) \<Rightarrow> request \<Rightarrow> response \<Rightarrow> bool" where
  "plausible repo ident q r \<longleftrightarrow>
     (\<forall>m i. q = Get_issue repo m \<longrightarrow> r = Issue (Some i) \<longrightarrow> ti_number i = m \<and> ti_id i = ident m)"

abbreviation claims_alone :: "int \<Rightarrow> hold \<Rightarrow> tracker_error + claim option \<Rightarrow> bool" where
  "claims_alone n s y \<equiv> \<forall>c. y = Inr (Some c) \<longrightarrow> ti_number (cl_issue c) = n \<longrightarrow> s = Alone"

text \<open>The parts of a claim that end in it: marked before the settle window, alone after it.\<close>

abbreviation pursue :: "tracker \<Rightarrow> (int \<Rightarrow> string) \<Rightarrow> int \<Rightarrow> (hold \<Rightarrow> tracker_error + 'a \<Rightarrow> bool) \<Rightarrow> 'a tracker_prog \<Rightarrow> hold \<Rightarrow> bool" where
  "pursue tk ident n \<equiv> follow (plausible (tk_repo tk) ident) (hold_step tk ident n)"

lemma hold_step_simps [simp]:
  "hold_step tk ident n s Viewer r = s" "hold_step tk ident n s (Assign_issue a b) r = s"
  "hold_step tk ident n s Sleep r = s" "hold_step tk ident n s (Event_log e d l m) r = s"
  "hold_step tk ident n s (Remove_assignee a b) r = s" "hold_step tk ident n s (Remove_label y ROUND_FINISHED) r = s"
  "hold_step tk ident n s (Remove_label y MERGE_CONFLICT) r = s"
  by (auto simp: hold_step_def own_marker_def claim_marker_label_def CLAIM_MARKER_PREFIX_def ROUND_FINISHED_def MERGE_CONFLICT_def)

lemma pursue_mark:
  assumes "tk_worker_id tk \<noteq> []"
  shows "pursue tk ident n (\<lambda>s y. \<forall>u. y = Inr u \<longrightarrow> s \<noteq> Free) (mark_own tk (ident n)) s"
  using assms by (cases s) (auto simp: mark_own_def own_marker_def command_def answer_def hold_step_def split: response.split)

lemma pursue_stale: "pursue tk ident n (\<lambda>s' y. s' = s) (remove_stale_claim_labels i) s"
  by (auto simp: remove_stale_claim_labels_def command_def when_prog_def split: sum.split)

lemma pursue_verify:
  assumes "tk_worker_id tk \<noteq> []" "ti_number i = n" "s \<noteq> Free"
  shows "pursue tk ident n (\<lambda>s y. \<forall>x. y = Inr x \<longrightarrow> s = Alone) (verify_claim tk i me) s"
  using assms
  by (cases s)
    (auto simp: verify_claim_def silently_def claim_lost_event_def get_issue_def Let_def hold_step_def answer_def
      split: response.splits option.splits sum.splits intro!: follow_any)


text \<open>From the marker to the claim, for the issue \<open>n\<close> or another one.\<close>

lemma pursue_claim:
  assumes "tk_worker_id tk \<noteq> []" "ti_id i = ident (ti_number i)"
  shows "pursue tk ident n (\<lambda>s y. \<forall>x. y = Inr x \<longrightarrow> ti_number i = n \<longrightarrow> s = Alone)
    (bind (mark_own tk (ti_id i)) (\<lambda>_. verify_claim tk i me)) s"
proof (cases "ti_number i = n")
  case True
  have "pursue tk ident n (\<lambda>s y. \<forall>u. y = Inr u \<longrightarrow> s \<noteq> Free) (mark_own tk (ti_id i)) s"
    unfolding assms(2) True by (rule pursue_mark [OF assms(1)])
  then show ?thesis
    by (rule follow_bindI)
      (auto intro!: follow_mono [OF pursue_verify [OF assms(1) True]])
qed (auto intro: follow_any simp del: follow_bind)

lemma claim_tail:
  assumes "tk_worker_id tk \<noteq> []" "ti_id i = ident (ti_number i)"
    and lost: "\<And>s. pursue tk ident n (claims_alone n) lost s"
  shows "pursue tk ident n (claims_alone n)
    (bind (mark_own tk (ti_id i)) (\<lambda>_.
     bind (handle (bind (verify_claim tk i me) (\<lambda>verified. Return (Some verified)))
       (\<lambda>e. case e of ClaimLostError n others \<Rightarrow> Return None | _ \<Rightarrow> Raise e)) (\<lambda>won.
     case won of
       None \<Rightarrow> lost
     | Some verified \<Rightarrow>
         bind (remove_stale_claim_labels verified) (\<lambda>_.
         Return (Some \<lparr>cl_issue = i, cl_assignment = assigned\<rparr>))))) s"
proof -
  let ?alone = "\<lambda>s. ti_number i = n \<longrightarrow> s = Alone"
  let ?rest = "\<lambda>won. case won of None \<Rightarrow> lost
     | Some verified \<Rightarrow> bind (remove_stale_claim_labels verified) (\<lambda>_. Return (Some \<lparr>cl_issue = i, cl_assignment = assigned\<rparr>))"
  have rest: "pursue tk ident n (claims_alone n) (?rest w) s" if "w \<noteq> None \<Longrightarrow> ?alone s" for w s
    using that lost by (cases w) (auto intro!: follow_bindI [OF pursue_stale] simp del: follow_bind)
  have "pursue tk ident n (\<lambda>s y. case y of Inl e \<Rightarrow> True
      | Inr u \<Rightarrow> pursue tk ident n (\<lambda>s y. \<forall>x. y = Inr x \<longrightarrow> ?alone s) (verify_claim tk i me) s) (mark_own tk (ti_id i)) s"
    using pursue_claim [where ident = ident and i = i and n = n and me = me and s = s, OF assms(1,2)] unfolding follow_bind
    by (rule follow_mono) (auto split: sum.split)
  then show ?thesis
  proof (rule follow_bindI)
    fix s u
    assume "case Inr u of Inl e \<Rightarrow> True
      | Inr u \<Rightarrow> pursue tk ident n (\<lambda>s y. \<forall>x. y = Inr x \<longrightarrow> ?alone s) (verify_claim tk i me) s"
    then have v: "pursue tk ident n (\<lambda>s y. \<forall>x. y = Inr x \<longrightarrow> ?alone s) (verify_claim tk i me) s" by simp
    have "pursue tk ident n (\<lambda>s y. \<forall>w. y = Inr w \<longrightarrow> w \<noteq> None \<longrightarrow> ?alone s)
      (handle (bind (verify_claim tk i me) (\<lambda>verified. Return (Some verified)))
       (\<lambda>e. case e of ClaimLostError n others \<Rightarrow> Return None | _ \<Rightarrow> Raise e)) s"
      unfolding follow_handle follow_bind using v
      by (rule follow_mono) (auto split: sum.split tracker_error.split)
    then show "pursue tk ident n (claims_alone n)
      (bind (handle (bind (verify_claim tk i me) (\<lambda>verified. Return (Some verified)))
       (\<lambda>e. case e of ClaimLostError n others \<Rightarrow> Return None | _ \<Rightarrow> Raise e)) ?rest) s"
      by (rule follow_bindI) (auto intro!: rest simp del: follow_bind)
  qed simp
qed

lemma pursue_assign:
  "(\<And>x s. pursue tk ident n (claims_alone n) (f x) s) \<Longrightarrow>
   pursue tk ident n (claims_alone n) (bind (assign_issue a b) f :: claim option tracker_prog) s"
  by (rule follow_bind_any) auto

lemma pursue_get:
  assumes "\<And>s. pursue tk ident n (claims_alone n) (f None) s"
    and "\<And>i s. ti_number i = m \<Longrightarrow> ti_id i = ident m \<Longrightarrow> pursue tk ident n (claims_alone n) (f (Some i)) s"
  shows "pursue tk ident n (claims_alone n) (bind (get_issue (tk_repo tk) m) f :: claim option tracker_prog) s"
proof -
  have "pursue tk ident n (claims_alone n) (f x) s" if "\<And>i. x = Some i \<Longrightarrow> ti_number i = m \<and> ti_id i = ident m" for x s
    using that assms by (cases x) auto
  then show ?thesis
    by (auto simp: get_issue_def plausible_def answer_def split: sum.split option.split response.splits)
qed

lemma pursue_candidate:
  assumes "tk_worker_id tk \<noteq> []" "ti_id c = ident (ti_number c)"
    and lost: "\<And>s. pursue tk ident n (claims_alone n) lost s"
  shows "pursue tk ident n (claims_alone n)
    (bind (still_eligible parse_iso tk c) (\<lambda>eligible.
       if \<not> eligible then lost
       else
         bind (assign_issue (ti_id c) (id_id me)) (\<lambda>assigned.
         bind (mark_own tk (ti_id c)) (\<lambda>_.
         bind (handle (bind (verify_claim tk c me) (\<lambda>verified. Return (Some verified)))
           (\<lambda>e. case e of ClaimLostError n others \<Rightarrow> Return None | _ \<Rightarrow> Raise e)) (\<lambda>won.
         case won of
           None \<Rightarrow> lost
         | Some verified \<Rightarrow>
             bind (remove_stale_claim_labels verified) (\<lambda>_.
             Return (Some \<lparr>cl_issue = c, cl_assignment = assigned\<rparr>))))))) s"
  by (intro follow_bind_any)
    (auto intro!: pursue_assign claim_tail [where i = c and ident = ident, OF assms(1,2)] lost simp del: follow_bind)

lemma pursue_claim_first:
  assumes "tk_worker_id tk \<noteq> []"
  shows "pursue tk ident n (claims_alone n) (claim_first parse_iso tk me queue) s"
proof (induction queue arbitrary: s)
  case (Cons i queue)
  show ?case
    unfolding claim_first.simps
    by (rule pursue_get) (auto intro!: pursue_candidate [where ident = ident] Cons.IH assms simp del: follow_bind)
qed simp

lemma claim_verified_eq:
  "claim_verified tk i = bind viewer (\<lambda>me. bind (assign_issue (ti_id i) (id_id me)) (\<lambda>assigned.
     bind (bind (mark_own tk (ti_id i)) (\<lambda>_. verify_claim tk i me)) (\<lambda>verified.
     bind (remove_stale_claim_labels verified) (\<lambda>_. Return \<lparr>cl_issue = i, cl_assignment = assigned\<rparr>))))"
  by (simp add: claim_verified_def bind_assoc)

lemma pursue_start:
  assumes "tk_worker_id tk \<noteq> []" "starts_claim parse_iso tk ident p"
  shows "pursue tk ident n (claims_alone n) p s"
  using assms(2) unfolding starts_claim_def
proof (elim disjE exE conjE)
  fix pages
  assume p: "p = claim_next parse_iso pages tk"
  have "pursue tk ident n (claims_alone n)
      (if queue = [] then Return None else bind viewer (\<lambda>me. claim_first parse_iso tk me queue)) s" for queue s
    by (auto intro!: follow_bind_any pursue_claim_first assms(1) simp del: follow_bind)
  then show ?thesis unfolding p claim_next_def
    by (intro follow_bind_any) auto
next
  fix i
  assume i: "ti_id i = ident (ti_number i)" and p: "p = bind (claim_verified tk i) (\<lambda>c. Return (Some c))"
  have step: "pursue tk ident n (\<lambda>s y. \<forall>c. y = Inr c \<longrightarrow> cl_issue c = i \<and> (ti_number i = n \<longrightarrow> s = Alone))
      (bind (bind (mark_own tk (ti_id i)) (\<lambda>_. verify_claim tk i me)) (\<lambda>verified.
       bind (remove_stale_claim_labels verified) (\<lambda>_. Return \<lparr>cl_issue = i, cl_assignment = a\<rparr>))) s" for me a s
    by (rule follow_bindI [OF pursue_claim [where ident = ident and i = i and n = n and me = me and s = s, OF assms(1) i]])
      (auto split: sum.split intro!: follow_bindI [OF pursue_stale] simp del: follow_bind)
  have "pursue tk ident n (\<lambda>s y. \<forall>c. y = Inr c \<longrightarrow> cl_issue c = i \<and> (ti_number i = n \<longrightarrow> s = Alone)) (claim_verified tk i) s"
    unfolding claim_verified_eq by (rule follow_bind_any, simp, rule follow_bind_any, simp, rule step)
  then show ?thesis unfolding p
    by (rule follow_bindI) auto
qed


text \<open>The pool: every Worker follows the protocol, marks stand for holds, and one Worker at most is alone.\<close>

definition pool_ok :: "('i \<Rightarrow> tracker) \<Rightarrow> (int \<Rightarrow> string) \<Rightarrow> int \<Rightarrow> ('i \<Rightarrow> claim option tracker_prog) \<Rightarrow> string set \<Rightarrow> ('i \<Rightarrow> hold) \<Rightarrow> bool" where
  "pool_ok tk ident n ps here S \<longleftrightarrow>
     (\<forall>i. calls (marks_own (tk i)) (ps i) \<and> pursue (tk i) ident n (claims_alone n) (ps i) (S i)
        \<and> (S i \<noteq> Free \<longrightarrow> claim_marker_label (tk_worker_id (tk i)) \<in> here))
     \<and> (\<forall>i j. S i = Alone \<longrightarrow> S j = Alone \<longrightarrow> i = j)"

lemma claim_marker_label_inject [simp]: "claim_marker_label a = claim_marker_label b \<longleftrightarrow> a = b"
  by (simp add: claim_marker_label_def)

lemma claim_marker_is_marker [simp]: "py_startswith CLAIM_MARKER_PREFIX (claim_marker_label a)"
  by (simp add: claim_marker_label_def py_startswith_append)

lemma claim_marker_not_queue_label [simp]:
  "claim_marker_label a \<noteq> ROUND_FINISHED" "claim_marker_label a \<noteq> MERGE_CONFLICT"
  by (simp_all add: claim_marker_label_def CLAIM_MARKER_PREFIX_def ROUND_FINISHED_def MERGE_CONFLICT_def)

lemma no_other_markers:
  "other_markers tk ls = [] \<Longrightarrow> claim_marker_label a \<in> set ls \<Longrightarrow> Some (claim_marker_label a) = own_marker tk"
proof -
  assume none: "other_markers tk ls = []" and there: "claim_marker_label a \<in> set ls"
  have "set (other_markers tk ls) = {l \<in> set ls. py_startswith CLAIM_MARKER_PREFIX l \<and> Some l \<noteq> own_marker tk}"
    by (auto simp: other_markers_def claim_marker_labels_def)
  then have "{l \<in> set ls. py_startswith CLAIM_MARKER_PREFIX l \<and> Some l \<noteq> own_marker tk} = {}" unfolding none by simp
  then show ?thesis using there by auto
qed

lemma own_marker_Some: "tk_worker_id tk \<noteq> [] \<Longrightarrow> own_marker tk = Some (claim_marker_label (tk_worker_id tk))"
  by (simp add: own_marker_def)

lemma pool_step:
  fixes tk :: "'i \<Rightarrow> tracker"
  assumes laws: "claim_service serve drift labels ident repo n"
    and pool: "\<And>i. tk_repo (tk i) = repo" "\<And>i. tk_worker_id (tk i) \<noteq> []" "inj (\<lambda>i. tk_worker_id (tk i))"
    and ok: "pool_ok tk ident n ps (labels w) S" and call: "ps i = Call q k" "serve w q r v"
  shows "pool_ok tk ident n (ps(i := k r)) (labels v) (S(i := hold_step (tk i) ident n (S i) q r))"
proof -
  let ?s = "hold_step (tk i) ident n (S i) q r"
  have own: "own_marker (tk j) = Some (claim_marker_label (tk_worker_id (tk j)))" for j
    by (rule own_marker_Some [OF pool(2)])
  from ok have j: "calls (marks_own (tk j)) (ps j)" "pursue (tk j) ident n (claims_alone n) (ps j) (S j)"
      "S j \<noteq> Free \<Longrightarrow> claim_marker_label (tk_worker_id (tk j)) \<in> labels w" for j
    by (auto simp: pool_ok_def)
  from ok have one: "S a = Alone \<Longrightarrow> S b = Alone \<Longrightarrow> a = b" for a b by (auto simp: pool_ok_def)
  have plausible: "plausible (tk_repo (tk i)) ident q r"
    using laws call(2) by (auto simp: plausible_def pool(1) claim_service_def reads_are_current_def)
  have mine: "marks_own (tk i) q" using j(1) [of i] call(1) by simp
  have stays: "claim_marker_label a \<in> labels v" if "claim_marker_label a \<in> labels w" "q \<noteq> Remove_label (ident n) (claim_marker_label a)" for a
    using laws call(2) that unfolding claim_service_def markers_stay_def by (meson claim_marker_is_marker)
  have others: "claim_marker_label (tk_worker_id (tk j)) \<in> labels v" if "S j \<noteq> Free" "j \<noteq> i" for j
  proof (rule stays)
    show "q \<noteq> Remove_label (ident n) (claim_marker_label (tk_worker_id (tk j)))"
      using mine that(2) pool(3) by (auto simp: marks_own_def own dest: injD)
  qed (use j(3) that in blast)
  have self: "claim_marker_label (tk_worker_id (tk i)) \<in> labels v" if "?s \<noteq> Free"
  proof (cases "S i = Free")
    case True
    then have "q = Add_label (ident n) (claim_marker_label (tk_worker_id (tk i)))" "\<forall>m. r \<noteq> Failed m"
      using that by (auto simp: hold_step_def own split: request.splits if_splits response.splits option.splits)
    then show ?thesis using laws call(2) by (auto simp: claim_service_def additions_happen_def)
  next
    case False
    have "q \<noteq> Remove_label (ident n) (claim_marker_label (tk_worker_id (tk i)))"
      using that by (auto simp: hold_step_def own)
    then show ?thesis using stays [OF j(3) [OF False]] by blast
  qed
  have alone: "S j = Free" if "?s = Alone" "S i \<noteq> Alone" "j \<noteq> i" for j
  proof (rule ccontr)
    assume "S j \<noteq> Free"
    then have there: "claim_marker_label (tk_worker_id (tk j)) \<in> labels w" by (rule j(3))
    from that(1,2) obtain x where q: "q = Get_issue repo n" "r = Issue (Some x)" "other_markers (tk i) (ti_labels x) = []"
      by (auto simp: hold_step_def pool(1) split: request.splits if_splits response.splits option.splits)
    then have "set (ti_labels x) = labels w"
      using laws call(2) by (auto simp: claim_service_def reads_are_current_def)
    then have "Some (claim_marker_label (tk_worker_id (tk j))) = own_marker (tk i)"
      using no_other_markers [OF q(3)] there by simp
    then show False using pool(3) that(3) by (auto simp: own dest: injD)
  qed
  have c: "calls (marks_own (tk i)) (k r)" using j(1) [of i] call(1) by simp
  have f: "pursue (tk i) ident n (claims_alone n) (k r) ?s" using j(2) [of i] call(1) plausible by simp
  have o: "(S(i := ?s)) a = Alone \<Longrightarrow> (S(i := ?s)) b = Alone \<Longrightarrow> a = b" for a b
    using one alone by (metis fun_upd_other fun_upd_same hold.distinct(4))
  show ?thesis
    unfolding pool_ok_def
  proof (intro conjI allI impI)
    fix a
    show "calls (marks_own (tk a)) ((ps(i := k r)) a)" using c j(1) by simp
    show "pursue (tk a) ident n (claims_alone n) ((ps(i := k r)) a) ((S(i := ?s)) a)"
      using f j(2) by (cases "a = i") simp_all
    show "claim_marker_label (tk_worker_id (tk a)) \<in> labels v" if "(S(i := ?s)) a \<noteq> Free"
      using self others that by (cases "a = i") simp_all
  next
    fix a b
    assume "(S(i := ?s)) a = Alone" "(S(i := ?s)) b = Alone"
    then show "a = b" by (rule o)
  qed
qed

lemma pool_run:
  fixes tk :: "'i \<Rightarrow> tracker"
  assumes laws: "claim_service serve drift labels ident repo n"
    and pool: "\<And>i. tk_repo (tk i) = repo" "\<And>i. tk_worker_id (tk i) \<noteq> []" "inj (\<lambda>i. tk_worker_id (tk i))"
    and start: "\<And>i. starts_claim parse_iso (tk i) ident (ps0 i)"
    and run: "together serve drift (ps0, w0) d"
  shows "\<exists>S. pool_ok tk ident n (fst d) (labels (snd d)) S"
  using run
proof (induction "(ps0, w0)" d rule: together.induct)
  case together_refl
  have "calls (marks_own (tk i)) (ps0 i)" for i
    using start [of i] unfolding starts_claim_def
    by (auto intro!: claim_next_marks_own claim_verified_marks_own calls_rules)
  then have "pool_ok tk ident n ps0 (labels w0) (\<lambda>i. Free)"
    using pursue_start [OF pool(2) start] by (simp add: pool_ok_def)
  then show ?case by auto
next
  case (together_call ps w i q k r v)
  then show ?case using pool_step [OF laws pool] by fastforce
next
  case (together_drift ps w v)
  then obtain S where S: "pool_ok tk ident n ps (labels w) S" by auto
  have "claim_marker_label a \<in> labels v" if "claim_marker_label a \<in> labels w" for a
    using laws that together_drift unfolding claim_service_def markers_stay_def by (meson claim_marker_is_marker)
  with S have "pool_ok tk ident n ps (labels v) S" by (auto simp: pool_ok_def)
  then show ?case by auto
qed

lemma won_code [code]: "won n p = (case p of Return (Some c) \<Rightarrow> ti_number (cl_issue c) = n | _ \<Rightarrow> False)"
  by (auto simp: won_def split: prog.split option.split)

text \<open>A service with one issue, for examples: its state is the list of that issue's labels.\<close>

definition example_issue :: "string list \<Rightarrow> tracker_issue" where
  "example_issue ls = \<lparr>ti_id = ''1'', ti_number = 1, ti_title = ''t'', ti_body = ''b'', ti_created_at = Datetime 2026 1 1 0 0 0 0, ti_state = ''OPEN'',
     ti_labels = ls, ti_assignees = [''bot''], ti_blocked_by = 0, ti_author = ''ann''\<rparr>"

definition example_serve :: "string list \<Rightarrow> request \<Rightarrow> response \<times> string list" where
  "example_serve ls q = (case q of
     Get_issue repo m \<Rightarrow> (Issue (if m = 1 then Some (example_issue ls) else None), ls)
   | Add_label x l \<Rightarrow> (Done, if x = ''1'' then l # ls else ls)
   | Remove_label x l \<Rightarrow> (Done, if x = ''1'' then removeAll l ls else ls)
   | Viewer \<Rightarrow> (Identity \<lparr>id_id = ''U'', id_login = ''bot''\<rparr>, ls)
   | Assign_issue x a \<Rightarrow> (Assigned \<lparr>as_issue_id = x, as_assignee_id = a\<rparr>, ls)
   | _ \<Rightarrow> (Done, ls))"

definition example_tracker :: "bool \<Rightarrow> tracker" where
  "example_tracker b = \<lparr>tk_repo = ''r'', tk_max_auto = 0, tk_max_conflict = 0, tk_peers = [], tk_worker_id = (if b then ''w1'' else ''w2''),
     tk_lists_pull_requests = True, tk_adds_comments = True\<rparr>"

definition example_claim :: "bool \<Rightarrow> claim option tracker_prog" where
  "example_claim b = bind (claim_verified (example_tracker b) (example_issue [])) (\<lambda>c. Return (Some c))"

lemma example_claim_service:
  "claim_service (\<lambda>w q r v. example_serve w q = (r, v)) (\<lambda>w v. False) set str_of_int ''r'' 1"
proof -
  have 1: "str_of_int 1 = ''1''" by code_simp
  have "inj str_of_int" by (metis injI int_literal_str_of_int option.inject)
  then show ?thesis
    unfolding claim_service_def reads_are_current_def additions_happen_def markers_stay_def
    by (auto simp: example_serve_def example_issue_def 1 split: request.splits if_splits)
qed

text \<open>
  C5. Workers of a pool with distinct IDs, all logged in as the same user, claim issues of one repository at the same
  time, each the next issue of its queue or a priority target: however their calls interleave with each other and
  with changes of others, and whatever calls fail, two Workers never both come out with a claim of the same issue.
\<close>

theorem claim_mutual_exclusion:
  fixes tk :: "'i \<Rightarrow> tracker"
  assumes "claim_service serve drift labels ident repo n"
    and "\<And>i. tk_repo (tk i) = repo" "\<And>i. tk_worker_id (tk i) \<noteq> []" "inj (\<lambda>i. tk_worker_id (tk i))"
    and "\<And>i. starts_claim parse_iso (tk i) ident (ps0 i)"
    and "together serve drift (ps0, w0) (ps, w)"
    and "won n (ps i)" "won n (ps j)"
  shows "i = j"
proof -
  obtain S where "pool_ok tk ident n ps (labels w) S"
    using pool_run [OF assms(1-6)] by auto
  then have ok: "pursue (tk l) ident n (claims_alone n) (ps l) (S l)" "S l = Alone \<Longrightarrow> S m = Alone \<Longrightarrow> l = m" for l m
    by (auto simp: pool_ok_def)
  have "S l = Alone" if "won n (ps l)" for l
    using ok(1) [of l] that by (auto simp: won_def)
  then show ?thesis using assms(7,8) ok(2) by blast
qed


theorem claim_mutual_exclusion_witness:
  "case schedule example_serve [True, True, False, False, True, True, True, False, False, False, False, False, False, False]
     (example_claim, [READY_FOR_AGENT]) of
   (ps, w) \<Rightarrow> won 1 (ps True) \<and> \<not> won 1 (ps False)"
proof -
  let ?s = "schedule example_serve [True, True, False, False, True, True, True, False, False, False, False, False, False, False]
    (example_claim, [READY_FOR_AGENT])"
  have run: "together (\<lambda>w q r v. example_serve w q = (r, v)) (\<lambda>w v. False) (example_claim, [READY_FOR_AGENT]) (fst ?s, snd ?s)"
    unfolding prod.collapse by (rule together_schedule [OF together_refl])
  have "won 1 (fst ?s True)"
    by code_simp
  moreover have "True = False" if "won 1 (fst ?s True)" "won 1 (fst ?s False)"
  proof (rule claim_mutual_exclusion [OF example_claim_service _ _ _ _ run that])
    show "inj (\<lambda>i. tk_worker_id (example_tracker i))" by (auto simp: inj_def example_tracker_def)
    show "starts_claim (\<lambda>s. None) (example_tracker b) str_of_int (example_claim b)" for b
      unfolding starts_claim_def example_claim_def
      by (rule disjI2, rule exI [of _ "example_issue []"]) (simp, code_simp)
  qed (simp_all add: example_tracker_def)
  ultimately show ?thesis by (auto simp: case_prod_unfold)
qed


section \<open>What a claim touches\<close>

definition only_own_claim :: "tracker \<Rightarrow> identity \<Rightarrow> request \<Rightarrow> bool" where
  "only_own_claim tk me q = (case q of
     Add_label x l \<Rightarrow> False
   | Remove_label x l \<Rightarrow> Some l = own_marker tk
   | Remove_assignee x a \<Rightarrow> a = id_id me
   | Assign_issue x a \<Rightarrow> False
   | Add_comment r n b \<Rightarrow> False
   | _ \<Rightarrow> True)"

lemma yield_only_own: "calls (only_own_claim tk me) (yield_losing_claim tk fresh me)"
  unfolding yield_losing_claim_def transport_defs by (intro calls_rules) (simp_all add: only_own_claim_def)

text \<open>
  The check after the settle window changes nothing but this Worker's own claim: it removes at most its own
  marker and its own login's assignment, adds no label and no comment, whatever it is answered. It passes only on a
  state of the issue with no other assignee and, in a pool, no other Worker's marker.
\<close>

theorem lost_claim_touches_own_only:
  "every (only_own_claim tk me)
     (\<lambda>y. case y of
        Inl e \<Rightarrow> True
      | Inr fresh \<Rightarrow> set (ti_assignees fresh) \<subseteq> {id_login me} \<and> (tk_worker_id tk = [] \<or> other_markers tk (ti_labels fresh) = []))
     (verify_claim tk issue me)"
proof -
  let ?Q = "\<lambda>y. case y of
      Inl (e :: tracker_error) \<Rightarrow> True
    | Inr fresh \<Rightarrow> set (ti_assignees fresh) \<subseteq> {id_login me} \<and> (tk_worker_id tk = [] \<or> other_markers tk (ti_labels fresh) = [])"
  have quiet: "calls (only_own_claim tk me) (silently Sleep)" "calls (only_own_claim tk me) (get_issue r n)"
    "calls (only_own_claim tk me) (claim_lost_event n h)" for r n h
    by (simp_all add: transport_defs claim_lost_event_def calls_ask only_own_claim_def)
  have fresh: "every (only_own_claim tk me) ?Q
    (let others = filter (\<lambda>login. login \<noteq> id_login me) (ti_assignees fresh);
         foreign = (if tk_worker_id tk \<noteq> [] then other_markers tk (ti_labels fresh) else [])
     in if others \<noteq> [] \<or> foreign \<noteq> [] then
          bind (claim_lost_event (ti_number issue) (py_join '', '' (others @ foreign))) (\<lambda>_.
          bind (yield_losing_claim tk fresh me) (\<lambda>_.
          Raise (ClaimLostError (ti_number issue) (others @ foreign))))
        else Return fresh)" for fresh
    unfolding Let_def
  proof (split if_split, intro conjI impI)
    assume "\<not> (filter (\<lambda>login. login \<noteq> id_login me) (ti_assignees fresh) \<noteq> []
      \<or> (if tk_worker_id tk \<noteq> [] then other_markers tk (ti_labels fresh) else []) \<noteq> [])"
    then show "every (only_own_claim tk me) ?Q (Return fresh)"
      by (auto simp: filter_empty_conv split: if_splits)
  qed (intro every_after quiet yield_only_own, simp_all)
  show ?thesis
    unfolding verify_claim_def
  proof (intro every_after quiet)
    fix u and answered :: "tracker_issue option"
    show "every (only_own_claim tk me) ?Q (case answered of
       None \<Rightarrow> bind (claim_lost_event (ti_number issue) ''issue unavailable on re-read'') (\<lambda>_. Raise (ClaimLostError (ti_number issue) []))
     | Some fresh \<Rightarrow>
         (let others = filter (\<lambda>login. login \<noteq> id_login me) (ti_assignees fresh);
              foreign = (if tk_worker_id tk \<noteq> [] then other_markers tk (ti_labels fresh) else [])
          in if others \<noteq> [] \<or> foreign \<noteq> [] then
               bind (claim_lost_event (ti_number issue) (py_join '', '' (others @ foreign))) (\<lambda>_.
               bind (yield_losing_claim tk fresh me) (\<lambda>_.
               Raise (ClaimLostError (ti_number issue) (others @ foreign))))
             else Return fresh))"
      using fresh by (cases answered) (auto intro: every_after quiet)
  qed simp_all
qed

section \<open>The order of the queue\<close>

text \<open>The poll's issues are kept under their numbers.\<close>

definition keyed :: "issue_dict \<Rightarrow> bool" where
  "keyed d \<longleftrightarrow> distinct (map fst d) \<and> list_all (\<lambda>(k, i). ti_number i = k) d"

lemma keyed_numbers: "keyed d \<Longrightarrow> map ti_number (map snd d) = map fst d"
  by (induction d) (auto simp: keyed_def)

lemma keyed_update: "keyed d \<Longrightarrow> ti_number i = k \<Longrightarrow> keyed (AList.update k i d)"
proof -
  have "list_all (\<lambda>(k, i). ti_number i = k) (AList.update k i d)"
    if "list_all (\<lambda>(k, i). ti_number i = k) d" "ti_number i = k" for d
    using that by (induction d) auto
  then show "keyed d \<Longrightarrow> ti_number i = k \<Longrightarrow> keyed (AList.update k i d)"
    by (simp add: keyed_def distinct_update)
qed

lemma keyed_lookup: "keyed d \<Longrightarrow> map_of d k = Some i \<Longrightarrow> ti_number i = k"
  by (auto simp: keyed_def list_all_iff dest!: map_of_SomeD)

lemma keyed_relabel:
  "keyed d \<Longrightarrow> map_of d k = Some i \<Longrightarrow> keyed (AList.update k (i\<lparr>ti_labels := ls\<rparr>) d)"
  using keyed_lookup by (fastforce intro: keyed_update)

lemma keyed_fold: "keyed d \<Longrightarrow> keyed (fold (\<lambda>i. AList.update (ti_number i) i) issues d)"
  by (induction issues arbitrary: d) (auto intro: keyed_update)

abbreviation yields :: "('a \<Rightarrow> bool) \<Rightarrow> 'a tracker_prog \<Rightarrow> bool" where
  "yields Q \<equiv> every (\<lambda>_. True) (\<lambda>y. case y of Inl e \<Rightarrow> True | Inr x \<Rightarrow> Q x)"

lemma yields_any: "(\<And>x. Q x) \<Longrightarrow> yields Q m"
  by (induction m) auto

lemma yields_bind: "yields R m \<Longrightarrow> (\<And>x. R x \<Longrightarrow> yields Q (f x)) \<Longrightarrow> yields Q (bind m f)"
  by (rule every_bindI [where R = "\<lambda>y. case y of Inl e \<Rightarrow> True | Inr x \<Rightarrow> R x"]) auto

lemma yields_bind_any: "(\<And>x. yields Q (f x)) \<Longrightarrow> yields Q (bind m f)"
  by (rule yields_bind [OF yields_any [where Q = "\<lambda>_. True"]]) auto

lemma read_issues_keyed: "keyed d \<Longrightarrow> yields keyed (read_issues pages tk cursor d)"
proof (induction pages arbitrary: cursor d)
  case (Suc pages)
  show ?case by (auto simp: Let_def intro!: yields_bind_any keyed_fold Suc)
qed simp

lemma detect_pull_request_keyed:
  "keyed (dt_issues d) \<Longrightarrow> yields (\<lambda>d. keyed (dt_issues d)) (detect_pull_request tk pr d)"
  by (auto simp: detect_pull_request_def split: option.split
      intro!: yields_bind_any keyed_relabel)

lemma detect_page_keyed: "keyed (dt_issues d) \<Longrightarrow> yields (\<lambda>d. keyed (dt_issues d)) (detect_page tk prs d)"
  by (induction prs arbitrary: d) (auto intro: yields_bind [OF detect_pull_request_keyed])

lemma detect_pages_keyed: "keyed (dt_issues d) \<Longrightarrow> yields (\<lambda>d. keyed (dt_issues d)) (detect_pages pages tk cursor d)"
proof (induction pages arbitrary: cursor d)
  case (Suc pages)
  show ?case unfolding detect_pages.simps
    by (rule yields_bind_any, rule yields_bind [OF detect_page_keyed [OF Suc.prems]]) (use Suc.IH in simp)
qed simp

lemma detect_keyed: "keyed d \<Longrightarrow> yields (\<lambda>(d, found). keyed d) (detect_conflict_requeues pages tk d)"
  by (auto simp: detect_conflict_requeues_def intro!: yields_bind [OF detect_pages_keyed])

definition groups_ok :: "tracker \<Rightarrow> tracker_issue list \<Rightarrow> tracker_issue list \<times> tracker_issue list \<times> tracker_issue list \<Rightarrow> bool" where
  "groups_ok tk issues g = (case g of (cs, rs, os) \<Rightarrow>
     list_all (is_conflict_eligible tk) cs
     \<and> list_all (\<lambda>i. is_continuation_signal i \<and> meets_base_queue_rules i) rs
     \<and> list_all is_eligible os
     \<and> mset cs + mset rs + mset os \<subseteq># mset issues)"

lemma continuation_rules:
  "yields (\<lambda>b. b \<longrightarrow> is_continuation_signal i \<and> meets_base_queue_rules i) (is_auto_continuation_eligible parse_iso tk i)"
  by (auto simp: is_auto_continuation_eligible_def)

lemma groups_ok_add:
  assumes "groups_ok tk issues (cs, rs, os)"
  shows "is_eligible i \<Longrightarrow> groups_ok tk (i # issues) (cs, rs, i # os)"
    and "is_conflict_eligible tk i \<Longrightarrow> groups_ok tk (i # issues) (i # cs, rs, os)"
    and "is_continuation_signal i \<Longrightarrow> meets_base_queue_rules i \<Longrightarrow> groups_ok tk (i # issues) (cs, i # rs, os)"
    and "groups_ok tk (i # issues) (cs, rs, os)"
proof -
  have more: "A \<subseteq># B \<Longrightarrow> A \<subseteq># add_mset i B" for A B :: "tracker_issue multiset"
    by (auto simp: subseteq_mset_def le_SucI)
  show "is_eligible i \<Longrightarrow> groups_ok tk (i # issues) (cs, rs, i # os)"
    and "is_conflict_eligible tk i \<Longrightarrow> groups_ok tk (i # issues) (i # cs, rs, os)"
    and "is_continuation_signal i \<Longrightarrow> meets_base_queue_rules i \<Longrightarrow> groups_ok tk (i # issues) (cs, i # rs, os)"
    and "groups_ok tk (i # issues) (cs, rs, os)"
    using assms more by (simp_all add: groups_ok_def add.assoc)
qed

lemma sort_groups_ok: "yields (groups_ok tk issues) (sort_groups parse_iso tk issues)"
proof (induction issues)
  case (Cons i issues)
  have rest: "yields (groups_ok tk (i # issues)) (bind (sort_groups parse_iso tk issues) f)"
    if "\<And>cs rs os. groups_ok tk issues (cs, rs, os) \<Longrightarrow> yields (groups_ok tk (i # issues)) (f (cs, rs, os))" for f
    using that by (auto intro!: yields_bind [OF Cons.IH])
  have "yields (groups_ok tk (i # issues)) (bind (is_auto_continuation_eligible parse_iso tk i) (\<lambda>continues.
      bind (sort_groups parse_iso tk issues) (\<lambda>(cs, rs, os). Return (if continues then (cs, i # rs, os) else (cs, rs, os)))))"
    by (rule yields_bind [OF continuation_rules]) (auto intro!: rest intro: groups_ok_add)
  then show ?case by (auto intro!: rest intro: groups_ok_add)
qed (simp add: groups_ok_def)

lemma distinct_submset: "A \<subseteq># mset xs \<Longrightarrow> distinct (map f xs) \<Longrightarrow> A = mset ys \<Longrightarrow> distinct (map f ys)"
proof -
  assume A: "A \<subseteq># mset xs" "A = mset ys" and xs: "distinct (map f xs)"
  have le: "count (mset (map f ys)) a \<le> count (mset (map f xs)) a" for a
    using image_mset_subseteq_mono [OF A(1), of f] A(2) by (metis mset_map mset_subset_eq_count)
  have "count (mset (map f ys)) a \<le> 1" for a
    using le [of a] xs by (simp add: distinct_count_atmost_1 split: if_splits)
  moreover have "a \<in> set (map f ys) \<Longrightarrow> 1 \<le> count (mset (map f ys)) a" for a
    using count_greater_eq_one_iff set_mset_mset by metis
  ultimately show "distinct (map f ys)"
    unfolding distinct_count_atmost_1 by (metis (full_types) antisym count_eq_zero_iff set_mset_mset)
qed

text \<open>What a poll's queue is: conflicts, then continuations, then ordinary issues, each oldest first.\<close>

definition ordered_queue :: "tracker \<Rightarrow> tracker_issue list \<Rightarrow> bool" where
  "ordered_queue tk queue \<longleftrightarrow>
     (\<exists>conflicts continuations ordinary. queue = conflicts @ continuations @ ordinary
        \<and> list_all (is_conflict_eligible tk) conflicts \<and> sorted (map by_fifo conflicts)
        \<and> list_all (\<lambda>i. is_continuation_signal i \<and> meets_base_queue_rules i) continuations \<and> sorted (map by_fifo continuations)
        \<and> list_all is_eligible ordinary \<and> sorted (map by_fifo ordinary))
     \<and> distinct (map ti_number queue)"

lemma ordered_groups:
  assumes "keyed d" "groups_ok tk (map snd d) (cs, rs, os)"
  shows "ordered_queue tk (sort_key by_fifo cs @ sort_key by_fifo rs @ sort_key by_fifo os)"
proof -
  have "distinct (map ti_number (sort_key by_fifo cs @ sort_key by_fifo rs @ sort_key by_fifo os))"
  proof (rule distinct_submset)
    show "mset cs + mset rs + mset os \<subseteq># mset (map snd d)" using assms(2) by (simp add: groups_ok_def)
    show "distinct (map ti_number (map snd d))" unfolding keyed_numbers [OF assms(1)] using assms(1) by (simp add: keyed_def)
  qed (simp add: add.assoc)
  moreover have "list_all P (sort_key by_fifo xs) = list_all P xs" for P :: "tracker_issue \<Rightarrow> bool" and xs
    by (simp add: list_all_iff)
  ultimately show ?thesis
    using assms(2) unfolding ordered_queue_def groups_ok_def
    by (intro conjI exI [of _ "sort_key by_fifo cs"] exI [of _ "sort_key by_fifo rs"] exI [of _ "sort_key by_fifo os"]) simp_all
qed

text \<open>
  Whatever GitHub answers, a queue that a poll offers lists conflict requeues first, then continuations, then
  ordinary issues, each group oldest first, every issue of a group eligible under that group's rules, and no issue
  twice. Building it marks no claim and removes no label.
\<close>

theorem runnable_queue_order:
  "every poll_call (\<lambda>y. case y of Inl e \<Rightarrow> True | Inr queue \<Rightarrow> ordered_queue tk queue) (runnable_queue parse_iso pages tk)"
proof (rule every_conj [OF queue_polls])
  show "yields (ordered_queue tk) (runnable_queue parse_iso pages tk)"
    unfolding runnable_queue_def
  proof (rule yields_bind [OF read_issues_keyed])
    fix read assume "keyed read"
    then show "yields (ordered_queue tk) (bind (detect_conflict_requeues pages tk read) (\<lambda>(by_number, detected).
        bind (sort_groups parse_iso tk (map snd by_number)) (\<lambda>(conflicts, continuations, ordinary).
        Return (sort_key by_fifo conflicts @ sort_key by_fifo continuations @ sort_key by_fifo ordinary))))"
      by (rule yields_bind [OF detect_keyed]) (auto intro!: yields_bind [OF sort_groups_ok] ordered_groups)
  qed (simp add: keyed_def)
qed


section \<open>Reading to the end\<close>

text \<open>The listing that starts at a cursor ends after at most so many pages.\<close>

fun listing_ends :: "(string option \<Rightarrow> issue_page) \<Rightarrow> nat \<Rightarrow> string option \<Rightarrow> bool" where
  "listing_ends page 0 cursor = False"
| "listing_ends page (Suc k) cursor = (ip_next (page cursor) = None \<or> listing_ends page k (ip_next (page cursor)))"

fun listed :: "(string option \<Rightarrow> issue_page) \<Rightarrow> nat \<Rightarrow> string option \<Rightarrow> tracker_issue list" where
  "listed page 0 cursor = []"
| "listed page (Suc k) cursor =
     ip_issues (page cursor) @ (if ip_next (page cursor) = None then [] else listed page k (ip_next (page cursor)))"

text \<open>
  C16. A listing of at most \<open>k\<close> pages is read to its end by every bound of at least \<open>k\<close> pages, and the poll has then
  every listed issue under its number, a later listing of a number replacing an earlier one.
\<close>

theorem poll_reads_to_the_end:
  assumes "\<And>w c. serve w (List_issues (tk_repo tk) c) = (Issues (page c), w)"
    and "listing_ends page k cursor" "k \<le> pages"
  shows "run_prog serve (read_issues pages tk cursor d) w
    = (Inr (fold (\<lambda>i. AList.update (ti_number i) i) (listed page k cursor) d), w)"
  using assms(2,3)
proof (induction pages arbitrary: k cursor d)
  case (Suc pages)
  then obtain l where k: "k = Suc l" by (cases k) auto
  with Suc.prems Suc.IH [of l "ip_next (page cursor)"] show ?case
    by (auto simp: run_bind list_issues_def ask_def answer_def assms(1) Let_def)
qed simp

theorem poll_reads_to_the_end_witness:
  "run_prog (\<lambda>ls q. case q of
       List_issues r c \<Rightarrow> (Issues (if c = None then \<lparr>ip_issues = [example_issue [''a'']], ip_next = Some ''p''\<rparr>
         else \<lparr>ip_issues = [example_issue [''b'']], ip_next = None\<rparr>), ls)
     | _ \<Rightarrow> example_serve ls q)
     (read_issues 5 (example_tracker True) None []) [] = (Inr [(1, example_issue [''b''])], [])"
  by (subst poll_reads_to_the_end [where k = 2 and
        page = "\<lambda>c. if c = None then \<lparr>ip_issues = [example_issue [''a'']], ip_next = Some ''p''\<rparr>
         else \<lparr>ip_issues = [example_issue [''b'']], ip_next = None\<rparr>"])
    (simp_all add: eval_nat_numeral example_issue_def)

end
