(* ===== verification/Publication.thy ===== *)
theory Publication
  imports Stores Attempt_State Comments Effects
begin

text \<open>
  Publishing the result of an attempt (\<open>publication.py\<close>): requests and results, the failures that the publisher
  tells apart, its calls of git, GitHub and the stores, and the texts of pull requests and comments. Times are
  rational seconds; lengths are those of text in single-byte characters.
\<close>

section \<open>Failures and calls\<close>

text \<open>
  The exceptions by class. The first three are subclasses of \<open>GitWorkspaceError\<close>; the last stands for every other
  class, given by its name.
\<close>

datatype failure =
    BranchMovedSinceClaimError string
  | ClaimLeaseError string
  | GitWorkspaceError string string
  | TimeoutError string
  | HandoffPublicationStoreError string
  | OtherError string string

fun failure_type :: "failure \<Rightarrow> string" where
  "failure_type (BranchMovedSinceClaimError m) = ''BranchMovedSinceClaimError''"
| "failure_type (ClaimLeaseError m) = ''ClaimLeaseError''"
| "failure_type (GitWorkspaceError c m) = c"
| "failure_type (TimeoutError m) = ''TimeoutError''"
| "failure_type (HandoffPublicationStoreError m) = ''HandoffPublicationStoreError''"
| "failure_type (OtherError c m) = c"

fun failure_text :: "failure \<Rightarrow> string" where
  "failure_text (BranchMovedSinceClaimError m) = m"
| "failure_text (ClaimLeaseError m) = m"
| "failure_text (GitWorkspaceError c m) = m"
| "failure_text (TimeoutError m) = m"
| "failure_text (HandoffPublicationStoreError m) = m"
| "failure_text (OtherError c m) = m"

definition failure_line :: "failure \<Rightarrow> string" where
  "failure_line e = failure_type e @ '': '' @ failure_text e"

fun is_git_or_timeout :: "failure \<Rightarrow> bool" where
  "is_git_or_timeout (HandoffPublicationStoreError m) = False"
| "is_git_or_timeout (OtherError c m) = False"
| "is_git_or_timeout e = True"

record pull_request =
  pq_number :: int
  pq_url :: string
  pq_node_id :: string
  pq_draft :: bool
  pq_mergeable :: string
  pq_base_ref :: string
  pq_head_sha :: string

record handoff_record_ref =
  hf_comment_id :: string
  hf_body :: string

text \<open>Calls of the clock, the log, the checkpoint, the intent store, git and GitHub.\<close>

datatype pub_call =
    Monotonic
  | Pause rat
  | Log string string string int
  | Read_attempt
  | Advance_lease string
  | Enter_phase attempt_phase
  | Push_branch string int rat "string option" bool
  | Save_intent handoff_record
  | Load_intent string
  | Find_pull_request string string
  | Create_pull_request string string string string string
  | Enable_auto_merge string pull_request string
  | Merge_pull_request string pull_request string
  | Find_attempt_comment string int string
  | Post_comment string int string
  | Find_handoff_record string int
  | Create_handoff_record string int string
  | Update_handoff_record string string string

datatype pub_answer =
    Raised failure
  | Time rat
  | Attempt "checkpoint option"
  | Pushed string
  | Intent handoff_record
  | Stored_intent "handoff_record option"
  | Pull "pull_request option"
  | Pull_made pull_request
  | There bool
  | Record_found "handoff_record_ref option"
  | Well

type_synonym 'a pub_prog = "(pub_call, pub_answer, failure, 'a) prog"

definition reply :: "(pub_answer \<Rightarrow> 'a option) \<Rightarrow> pub_answer \<Rightarrow> failure + 'a" where
  "reply sel r = (case r of
     Raised e \<Rightarrow> Inl e
   | _ \<Rightarrow> (case sel r of None \<Rightarrow> Inl (OtherError ''TypeError'' ''unexpected answer'') | Some x \<Rightarrow> Inr x))"

definition monotonic :: "rat pub_prog" where
  "monotonic = ask Monotonic (reply (\<lambda>r. case r of Time t \<Rightarrow> Some t | _ \<Rightarrow> None))"

definition log_event :: "string \<Rightarrow> string \<Rightarrow> string \<Rightarrow> int \<Rightarrow> unit pub_prog" where
  "log_event event detail level n = ask (Log event detail level n) (\<lambda>r. Inr ())"

definition act :: "pub_call \<Rightarrow> unit pub_prog" where
  "act q = ask q (reply (\<lambda>r. Some ()))"


section \<open>Requests and results\<close>

definition AUTO_MERGE_LABEL :: string where "AUTO_MERGE_LABEL = ''agent-auto-merge''"

definition AUTO_MERGE_SKIPPED :: string where
  "AUTO_MERGE_SKIPPED = ''auto-merge skipped (issue not labelled `'' @ AUTO_MERGE_LABEL @ ''` at claim time)''"

definition SUCCEEDED_BUT_UNPUBLISHED :: string where
  "SUCCEEDED_BUT_UNPUBLISHED = ''Implementation succeeded but publication failed.''"

definition normalize_handoff_comment_mode :: "string \<Rightarrow> string + string" where
  "normalize_handoff_comment_mode v =
     (let m = py_lower (py_strip v) in
      if m \<in> {''link'', ''verbose''} then Inr m else Inl ''handoff_comment_mode must be one of ['link', 'verbose']'')"

text \<open>The setting is a flag of earlier versions, or a text.\<close>

definition normalize_auto_merge :: "bool + string \<Rightarrow> string + string" where
  "normalize_auto_merge v = (case v of
     Inl b \<Rightarrow> Inr (if b then ''true'' else ''false'')
   | Inr s \<Rightarrow> (let m = py_lower (py_strip s) in
       if m \<in> {''false'', ''true'', ''label''} then Inr m else Inl ''auto_merge must be one of ['false', 'label', 'true']''))"

text \<open>What both requests know of the check and of the Worker.\<close>

record check_report =
  ck_command :: string
  ck_exit_code :: "int option"
  ck_steps :: "string list"
  ck_failed_step :: "string option"
  ck_failed_index :: "int option"
  ck_not_run_reason :: "string option"

record publication_request =
  pr_issue_number :: int
  pr_issue_title :: string
  pr_branch :: string
  pr_started_at :: string
  pr_decision :: completion_decision
  pr_check :: check_report
  pr_review_cycles :: int
  pr_review_findings :: string
  pr_details :: string
  pr_base_branch :: string
  pr_note_commit_sha :: "string option"
  pr_auto_merge_opt_in :: bool
  pr_reviews_performed :: int
  pr_requeue_source :: string
  pr_handoff_continuation_count :: "int option"
  pr_handoff_notify :: bool
  pr_worker_id :: string

record publication_result =
  rs_outcome :: attempt_outcome
  rs_branch_url :: "string option"
  rs_pull_request :: "pull_request option"
  rs_comment_posted :: bool
  rs_details :: string
  rs_merge_result :: "string option"
  rs_conflict_outcome :: string
  rs_escalated :: bool
  rs_handoff_posted :: bool
  rs_comment_suppressed :: bool

record conflict_request =
  cq_issue_number :: int
  cq_issue_title :: string
  cq_branch :: string
  cq_started_at :: string
  cq_base_branch :: string
  cq_outcome :: attempt_outcome
  cq_conflict_outcome :: string
  cq_reason :: string
  cq_details :: string
  cq_push_branch :: bool
  cq_pull_request :: "pull_request option"
  cq_check :: check_report
  cq_conflicted_files :: "string list"
  cq_auto_merge_opt_in :: bool
  cq_extra_files :: "string list"
  cq_fix_commits :: "string list"
  cq_conflict_index :: int
  cq_conflict_budget :: int
  cq_escalate :: bool
  cq_conflict_prior :: int
  cq_failure_output :: string
  cq_requeue_source :: "string option"
  cq_worker_id :: string
  cq_prior_conflict_sha :: "string option"

text \<open>\<open>__post_init__\<close>: a request with an unknown requeue source is not built.\<close>

definition conflict_request_ok :: "conflict_request \<Rightarrow> bool" where
  "conflict_request_ok rq = (case cq_requeue_source rq of
     None \<Rightarrow> True
   | Some s \<Rightarrow> (case requeue_source_marker s of Inl e \<Rightarrow> False | Inr m \<Rightarrow> True))"

definition conflict_failure_standing :: "conflict_request \<Rightarrow> int \<times> bool" where
  "conflict_failure_standing rq =
     (let index = cq_conflict_prior rq + 1
      in (index, 0 < cq_conflict_budget rq \<and> cq_conflict_budget rq \<le> index))"


section \<open>Texts\<close>

definition review_lines :: "publication_request \<Rightarrow> string list" where
  "review_lines rq =
     [''- Reviews performed: '' @ str_of_int (pr_reviews_performed rq),
      ''- Review repair cycles: '' @ str_of_int (pr_review_cycles rq) @ ''/2'']
     @ (if pr_reviews_performed rq = 0 then [''- code-review was not run''] else [])"

definition CHECK_STEP_LIMIT :: nat where "CHECK_STEP_LIMIT = 200"

text \<open>The ellipsis in its UTF-8 form.\<close>

definition ellipsis :: string where "ellipsis = [CHR 0xE2, CHR 0x80, CHR 0xA6]"

definition collapse_check_step :: "string \<Rightarrow> string" where
  "collapse_check_step step =
     (let collapsed = py_join '' '' (py_words step) in
      if collapsed = [] then ''(empty step)''
      else let quoted = map (\<lambda>c. if c = CHR ''`'' then CHR 0x27 else c) collapsed in
        if CHECK_STEP_LIMIT < length quoted then py_rstrip (take CHECK_STEP_LIMIT quoted) @ ellipsis else quoted)"

definition step_position :: "check_report \<Rightarrow> string \<Rightarrow> string" where
  "step_position c step = (case ck_failed_index c of
     Some i \<Rightarrow> if ck_steps c \<noteq> []
       then '' at step '' @ str_of_int i @ ''/'' @ str_of_nat (length (ck_steps c)) @ '': `'' @ collapse_check_step step @ ''`''
       else '': `'' @ collapse_check_step step @ ''`''
   | None \<Rightarrow> '': `'' @ collapse_check_step step @ ''`'')"

definition not_run_reason :: "check_report \<Rightarrow> string option" where
  "not_run_reason c = (case ck_not_run_reason c of
     Some r \<Rightarrow> Some r
   | None \<Rightarrow> if ck_command c \<noteq> ''not run'' \<and> py_startswith ''not '' (ck_command c) then Some (ck_command c) else None)"

definition check_evidence_line :: "check_report \<Rightarrow> string" where
  "check_evidence_line c = (case ck_exit_code c of
     Some code \<Rightarrow>
       if code = 0 then ''- Check: passed (exit 0)''
       else (case ck_failed_step c of
           Some step \<Rightarrow> ''- Check: failed (exit '' @ str_of_int code @ '')'' @ step_position c step
         | None \<Rightarrow> ''- Check: failed (exit '' @ str_of_int code @ '')'')
   | None \<Rightarrow>
       (case ck_failed_step c of
          Some step \<Rightarrow> ''- Check: failed (timed out)'' @ step_position c step
        | None \<Rightarrow>
            (case not_run_reason c of
               Some r \<Rightarrow> if py_blank r then ''- Check: not run'' else ''- Check: not run ('' @ py_strip r @ '')''
             | None \<Rightarrow> ''- Check: not run'')))"

definition pull_request_body :: "publication_request \<Rightarrow> string" where
  "pull_request_body rq =
     ''Closes #'' @ str_of_int (pr_issue_number rq) @ nl @ nl
     @ ''## Summary'' @ nl
     @ pr_details rq @ nl @ nl
     @ ''## Evidence'' @ nl
     @ check_evidence_line (pr_check rq) @ nl
     @ py_join nl (review_lines rq)
     @ nl @ nl
     @ ''---'' @ nl
     @ ''*Generated by simple-coding-agent*''"

definition value_error :: "marker_error \<Rightarrow> failure" where
  "value_error e = OtherError ''ValueError'' (case e of
     Invalid_source s \<Rightarrow> ''Invalid requeue source '' @ s
   | Invalid_outcome s \<Rightarrow> ''Invalid conflict outcome '' @ s
   | Invalid_value s \<Rightarrow> ''Invalid conflict marker value '' @ s
   | Invalid_number n \<Rightarrow> ''Invalid stale-head pull request number '' @ str_of_int n)"

definition link_of :: "pull_request option \<Rightarrow> string" where
  "link_of p = (case p of None \<Rightarrow> ''none'' | Some p \<Rightarrow> ''[#'' @ str_of_int (pq_number p) @ ''](''  @ pq_url p @ '')'')"

definition merge_line_of :: "string option \<Rightarrow> string" where
  "merge_line_of m = (case m of None \<Rightarrow> [] | Some r \<Rightarrow> ''**Merge**: '' @ r @ nl)"

definition result_comment ::
  "publication_request \<Rightarrow> attempt_outcome \<Rightarrow> string option \<Rightarrow> pull_request option \<Rightarrow> string \<Rightarrow> string \<Rightarrow> string option \<Rightarrow> failure + string" where
  "result_comment rq outcome branch_url pull details marker merge_result =
     (let branch = (case nonempty branch_url of None \<Rightarrow> ''no branch created''
                    | Some url \<Rightarrow> ''['' @ pr_branch rq @ ''](''  @ url @ '')'');
          commit_line = (case nonempty (pr_note_commit_sha rq) of
              Some sha \<Rightarrow> if outcome = HANDOFF then ''**Handoff note commit**: `'' @ sha @ ''`'' @ nl else []
            | None \<Rightarrow> []);
          blocks = worker_blocks (pr_worker_id rq)
      in case requeue_source_marker (pr_requeue_source rq) of
           Inl e \<Rightarrow> Inl (value_error e)
         | Inr source_marker \<Rightarrow> Inr
             (''## Agent Attempt Result: '' @ outcome_value outcome @ nl @ nl
              @ ''**Branch**: '' @ branch @ nl
              @ ''**PR**: '' @ link_of pull @ nl
              @ merge_line_of merge_result
              @ commit_line
              @ fst blocks @ nl
              @ ''### Evidence'' @ nl
              @ check_evidence_line (pr_check rq) @ nl
              @ py_join nl (review_lines rq) @ nl
              @ ''- Review findings: '' @ pr_review_findings rq @ nl @ nl
              @ ''### Details'' @ nl
              @ details @ nl @ nl
              @ marker @ nl
              @ snd blocks
              @ source_marker))"

definition short_revisions :: "string list \<Rightarrow> string list" where
  "short_revisions revisions = map (\<lambda>r. if 12 < length r then take 12 r else r) revisions"

definition ESCALATION_FAILURE_LIMIT :: nat where "ESCALATION_FAILURE_LIMIT = 4000"

definition escalation_failure_text :: "string \<Rightarrow> string" where
  "escalation_failure_text text =
     (if py_blank text then ''(no details recorded)''
      else if length text \<le> ESCALATION_FAILURE_LIMIT then text
      else ''...[truncated; showing the last '' @ str_of_nat ESCALATION_FAILURE_LIMIT @ '' characters]'' @ nl
        @ drop (length text - ESCALATION_FAILURE_LIMIT) text)"

definition escalation_text :: "conflict_request \<Rightarrow> int \<Rightarrow> pull_request option \<Rightarrow> string \<Rightarrow> string" where
  "escalation_text rq index pull details =
     (let failure_text = (if cq_failure_output rq \<noteq> [] then cq_failure_output rq
            else escalation_failure_text (if details \<noteq> [] then details else cq_reason rq))
      in ''### Human handoff'' @ nl @ nl
         @ ''The conflict-attempt budget is exhausted ''
         @ ''('' @ str_of_int index @ ''/'' @ str_of_int (cq_conflict_budget rq) @ '' consecutive failures). ''
         @ ''The issue is labelled `ready-for-human`.'' @ nl @ nl
         @ ''<details>'' @ nl
         @ ''<summary>Failure output (tail)</summary>'' @ nl @ nl
         @ failure_text @ nl @ nl
         @ ''</details>'' @ nl @ nl
         @ ''Pull request: '' @ link_of pull @ nl @ nl
         @ ''Remove the `ready-for-human` label to hand the issue back ''
         @ ''for '' @ str_of_int (cq_conflict_budget rq) @ '' more attempts.'' @ nl @ nl)"

definition escalation_section :: "conflict_request \<Rightarrow> int \<Rightarrow> pull_request option \<Rightarrow> string \<Rightarrow> string" where
  "escalation_section rq index pull details = escalation_text rq index pull details @ CONFLICT_ESCALATION_MARKER @ nl @ nl"

definition list_line :: "string \<Rightarrow> string list \<Rightarrow> string" where
  "list_line caption items = (if items = [] then [] else caption @ py_join '', '' items @ nl)"

text \<open>The visible part of a conflict result, up to the hidden markers.\<close>

definition conflict_prose ::
  "conflict_request \<Rightarrow> attempt_outcome \<Rightarrow> string \<Rightarrow> string option \<Rightarrow> pull_request option \<Rightarrow> string \<Rightarrow> string option \<Rightarrow> string option \<Rightarrow> int \<Rightarrow> bool \<Rightarrow> string" where
  "conflict_prose rq outcome conflict_outcome branch_url pull details merge_result pushed_sha index escalate =
     (let branch = (case (nonempty branch_url, nonempty pushed_sha) of
              (Some url, Some sha) \<Rightarrow> ''['' @ cq_branch rq @ ''](''  @ url @ '') (sha `'' @ sha @ ''`)''
            | (Some url, None) \<Rightarrow> ''['' @ cq_branch rq @ ''](''  @ url @ '')''
            | _ \<Rightarrow> ''`'' @ cq_branch rq @ ''` (not pushed)'')
      in ''## Conflict Attempt Result: '' @ conflict_outcome @ nl @ nl
         @ ''**Branch**: '' @ branch @ nl
         @ ''**PR**: '' @ link_of pull @ nl
         @ merge_line_of merge_result
         @ ''**Lifecycle outcome**: '' @ outcome_value outcome @ nl
         @ (if 0 < cq_conflict_budget rq
            then ''**Conflict attempts**: '' @ str_of_int index @ ''/'' @ str_of_int (cq_conflict_budget rq) @ nl else [])
         @ fst (worker_blocks (cq_worker_id rq)) @ nl
         @ ''### Evidence'' @ nl
         @ check_evidence_line (cq_check rq) @ nl
         @ list_line ''- Conflicted files: '' (cq_conflicted_files rq)
         @ list_line ''- Files changed outside the conflicted set: '' (cq_extra_files rq)
         @ list_line ''- Fix commits: '' (short_revisions (cq_fix_commits rq)) @ nl
         @ ''### Details'' @ nl
         @ details @ nl @ nl
         @ (if escalate then escalation_section rq index pull details else []))"

definition conflict_result_comment ::
  "conflict_request \<Rightarrow> attempt_outcome \<Rightarrow> string \<Rightarrow> string option \<Rightarrow> pull_request option \<Rightarrow> string \<Rightarrow> string \<Rightarrow> string option \<Rightarrow> string option \<Rightarrow> int \<Rightarrow> bool \<Rightarrow> failure + string" where
  "conflict_result_comment rq outcome conflict_outcome branch_url pull details marker merge_result pushed_sha index escalate =
     (case conflict_attempt_marker conflict_outcome pushed_sha (nonempty (Some (cq_reason rq)))
         (cq_conflicted_files rq) (cq_fix_commits rq) (cq_extra_files rq) of
        Inl e \<Rightarrow> Inl (value_error e)
      | Inr conflict_marker \<Rightarrow>
          (let body = conflict_prose rq outcome conflict_outcome branch_url pull details merge_result pushed_sha index escalate
                @ marker @ nl
                @ snd (worker_blocks (cq_worker_id rq))
                @ conflict_marker
           in case cq_requeue_source rq of
                None \<Rightarrow> Inr body
              | Some s \<Rightarrow> (case requeue_source_marker s of Inl e \<Rightarrow> Inl (value_error e) | Inr m \<Rightarrow> Inr (body @ nl @ m))))"

definition error_text :: "failure \<Rightarrow> string" where
  "error_text e = py_lower (failure_line e)"

definition is_already_mergeable :: "failure \<Rightarrow> bool" where
  "is_already_mergeable e \<longleftrightarrow>
     py_contains ''mergeable'' (error_text e) \<or> py_contains ''clean status'' (error_text e)
     \<or> py_contains ''unstable status'' (error_text e)
     \<or> py_contains ''protected branch rules not configured'' (error_text e)"

definition is_already_enabled :: "failure \<Rightarrow> bool" where
  "is_already_enabled e \<longleftrightarrow>
     py_contains ''already'' (error_text e)
     \<and> (py_contains ''auto-merge'' (error_text e) \<or> py_contains ''auto_merge'' (error_text e)
        \<or> py_contains ''auto merge'' (error_text e))"

definition is_already_merged :: "failure \<Rightarrow> bool" where
  "is_already_merged e \<longleftrightarrow>
     py_contains ''merg'' (error_text e)
     \<and> (py_contains ''already merged'' (error_text e) \<or> py_contains ''was merged'' (error_text e)
        \<or> py_contains ''is merged'' (error_text e))"

definition exception_detail :: "failure \<Rightarrow> string" where
  "exception_detail e =
     (let line = py_strip (failure_line e) in if line = [] then failure_type e else line)"

end
