(* ===== verification/Publication_Ops.thy ===== *)
theory Publication_Ops
  imports Publication
begin

text \<open>
  The operations of \<open>Publisher\<close>, as programs over its calls: the push with its lease, the pull request with its
  retries, merging, result comments, the shared handoff comment, and the publication of ordinary and of conflict
  attempts.
\<close>

section \<open>The publisher\<close>

record publisher =
  pb_repository :: string
  pb_max_retries :: int
  pb_publish_timeout :: rat
  pb_has_attempt_state :: bool
  pb_auto_merge :: string
  pb_merge_method :: string
  pb_comment_mode :: string

definition new_publisher :: "string \<Rightarrow> int \<Rightarrow> rat \<Rightarrow> bool \<Rightarrow> bool + string \<Rightarrow> string \<Rightarrow> string \<Rightarrow> string + publisher" where
  "new_publisher repository max_retries publish_timeout has_attempt_state auto_merge merge_method mode =
     (case normalize_auto_merge auto_merge of
        Inl e \<Rightarrow> Inl e
      | Inr am \<Rightarrow> (case normalize_handoff_comment_mode mode of
          Inl e \<Rightarrow> Inl e
        | Inr cm \<Rightarrow> Inr \<lparr>pb_repository = repository, pb_max_retries = max_retries, pb_publish_timeout = publish_timeout,
            pb_has_attempt_state = has_attempt_state, pb_auto_merge = am, pb_merge_method = merge_method,
            pb_comment_mode = cm\<rparr>))"

definition find_pull_request :: "publisher \<Rightarrow> string \<Rightarrow> pull_request option pub_prog" where
  "find_pull_request pb head =
     ask (Find_pull_request (pb_repository pb) head) (reply (\<lambda>r. case r of Pull p \<Rightarrow> Some p | _ \<Rightarrow> None))"

definition find_handoff_record :: "publisher \<Rightarrow> int \<Rightarrow> handoff_record_ref option pub_prog" where
  "find_handoff_record pb n =
     ask (Find_handoff_record (pb_repository pb) n) (reply (\<lambda>r. case r of Record_found x \<Rightarrow> Some x | _ \<Rightarrow> None))"

definition handoff_intent :: "publisher \<Rightarrow> string \<Rightarrow> handoff_record option pub_prog" where
  "handoff_intent pb attempt_id =
     handle (ask (Load_intent attempt_id) (reply (\<lambda>r. case r of Stored_intent x \<Rightarrow> Some x | _ \<Rightarrow> None)))
       (\<lambda>e. Return None)"

definition check_deadline :: "rat \<Rightarrow> unit pub_prog" where
  "check_deadline deadline = bind monotonic (\<lambda>now.
     if deadline \<le> now then Raise (TimeoutError ''PUBLISH_TIMEOUT exceeded'') else Return ())"

text \<open>The active checkpoint; without an attempt store there is none.\<close>

definition read_attempt :: "publisher \<Rightarrow> checkpoint option pub_prog" where
  "read_attempt pb =
     (if pb_has_attempt_state pb
      then ask Read_attempt (reply (\<lambda>r. case r of Attempt c \<Rightarrow> Some c | _ \<Rightarrow> None)) else Return None)"


section \<open>Pushing\<close>

definition claim_lease :: "publisher \<Rightarrow> int \<Rightarrow> (string option \<times> bool) pub_prog" where
  "claim_lease pb issue_number =
     bind (handle (bind (read_attempt pb) (\<lambda>c. Return (Some c)))
       (\<lambda>e. bind (log_event ''claim_lease_read_failed''
              (''the claim-time lease could not be read: '' @ failure_text e @ '';''
               @ '' falling back to today's observed lease'') ''WARNING'' issue_number)
            (\<lambda>_. Return None)))
       (\<lambda>answered. Return
         (case answered of
            None \<Rightarrow> (None, False)
          | Some None \<Rightarrow> (None, False)
          | Some (Some c) \<Rightarrow> if ck_claim_lease_recorded c then (ck_claim_branch_revision c, True) else (None, False)))"

definition advance_lease :: "publisher \<Rightarrow> string \<Rightarrow> unit pub_prog" where
  "advance_lease pb revision =
     (if pb_has_attempt_state pb
      then handle (act (Advance_lease revision))
        (\<lambda>e. Raise (ClaimLeaseError (''Claim lease could not be advanced: '' @ failure_text e)))
      else Return ())"

definition push_branch :: "publisher \<Rightarrow> string \<Rightarrow> rat \<Rightarrow> int \<Rightarrow> string pub_prog" where
  "push_branch pb branch deadline issue_number =
     bind (claim_lease pb issue_number) (\<lambda>(expected, known).
     bind (ask (Push_branch branch (pb_max_retries pb) deadline expected known)
        (reply (\<lambda>r. case r of Pushed sha \<Rightarrow> Some sha | _ \<Rightarrow> None))) (\<lambda>pushed.
     bind (advance_lease pb pushed) (\<lambda>_. Return pushed)))"

definition mark_publishing :: "publisher \<Rightarrow> unit pub_prog" where
  "mark_publishing pb =
     (if \<not> pb_has_attempt_state pb then Return ()
      else bind (read_attempt pb) (\<lambda>found.
        case found of
          None \<Rightarrow> Raise (GitWorkspaceError ''GitWorkspaceError'' ''Attempt checkpoint is missing during publication'')
        | Some c \<Rightarrow>
            if ck_phase c = PUBLISHING then Return ()
            else if ck_phase c \<noteq> PUSHING
            then Raise (GitWorkspaceError ''GitWorkspaceError'' ''Attempt is not ready to publish'')
            else act (Enter_phase PUBLISHING)))"

definition push_and_mark :: "publisher \<Rightarrow> string \<Rightarrow> rat \<Rightarrow> int \<Rightarrow> string pub_prog" where
  "push_and_mark pb branch deadline issue_number =
     bind (check_deadline deadline) (\<lambda>_.
     bind (push_branch pb branch deadline issue_number) (\<lambda>sha.
     bind (check_deadline deadline) (\<lambda>_.
     bind (mark_publishing pb) (\<lambda>_. Return sha))))"

text \<open>Nothing is pushed again once the checkpoint says that the branch is published.\<close>

definition push_unless_published :: "publisher \<Rightarrow> string \<Rightarrow> rat \<Rightarrow> int \<Rightarrow> string option pub_prog" where
  "push_unless_published pb branch deadline issue_number =
     bind (read_attempt pb) (\<lambda>found.
     if (case found of None \<Rightarrow> True | Some c \<Rightarrow> ck_phase c \<noteq> PUBLISHING)
     then bind (push_and_mark pb branch deadline issue_number) (\<lambda>sha. Return (Some sha))
     else Return None)"


section \<open>Pull request and merge\<close>

primrec create_attempts :: "nat \<Rightarrow> publisher \<Rightarrow> publication_request \<Rightarrow> rat \<Rightarrow> pull_request pub_prog" where
  "create_attempts 0 pb rq deadline = Raise (OtherError ''AssertionError'' ''unreachable'')"
| "create_attempts (Suc left) pb rq deadline =
     bind (check_deadline deadline) (\<lambda>_.
     handle (ask (Create_pull_request (pb_repository pb) (pr_branch rq) (pr_base_branch rq) (pr_issue_title rq)
           (pull_request_body rq)) (reply (\<lambda>r. case r of Pull_made p \<Rightarrow> Some p | _ \<Rightarrow> None)))
       (\<lambda>e. bind (find_pull_request pb (pr_branch rq)) (\<lambda>existing.
          case existing of
            Some p \<Rightarrow> Return p
          | None \<Rightarrow>
              if left = 0 then Raise e
              else bind (act (Pause (min (2 * 2 ^ (nat (pb_max_retries pb) - Suc left)) 30)))
                (\<lambda>_. create_attempts left pb rq deadline))))"

definition ensure_pull_request :: "publisher \<Rightarrow> publication_request \<Rightarrow> rat \<Rightarrow> pull_request pub_prog" where
  "ensure_pull_request pb rq deadline =
     bind (find_pull_request pb (pr_branch rq)) (\<lambda>existing.
     case existing of
       Some p \<Rightarrow> Return p
     | None \<Rightarrow> create_attempts (nat (pb_max_retries pb)) pb rq deadline)"

definition merge_failure :: "int \<Rightarrow> failure \<Rightarrow> string pub_prog" where
  "merge_failure issue_number e =
     (let reason = (if py_blank (failure_text e) then failure_type e else py_strip (failure_text e));
          result = ''auto-merge failed: '' @ reason
      in bind (log_event ''auto_merge_failed'' result ''WARNING'' issue_number) (\<lambda>_. Return result))"

definition merge_directly :: "publisher \<Rightarrow> int \<Rightarrow> pull_request \<Rightarrow> rat \<Rightarrow> string pub_prog" where
  "merge_directly pb issue_number pull deadline =
     handle (bind (check_deadline deadline) (\<lambda>_.
         bind (act (Merge_pull_request (pb_repository pb) pull (pb_merge_method pb))) (\<lambda>_.
         bind (log_event ''pull_request_merged'' (''merged with method '' @ pb_merge_method pb) ''INFO'' issue_number) (\<lambda>_.
         Return ''merged''))))
       (\<lambda>e. if is_already_merged e then Return ''merged'' else merge_failure issue_number e)"

definition maybe_auto_merge :: "publisher \<Rightarrow> int \<Rightarrow> pull_request \<Rightarrow> rat \<Rightarrow> string pub_prog" where
  "maybe_auto_merge pb issue_number pull deadline =
     (let enabled = ''auto-merge enabled ('' @ pb_merge_method pb @ '')''
      in handle (bind (check_deadline deadline) (\<lambda>_.
           bind (act (Enable_auto_merge (pb_repository pb) pull (pb_merge_method pb))) (\<lambda>_.
           bind (log_event ''auto_merge_enabled'' enabled ''INFO'' issue_number) (\<lambda>_. Return enabled))))
         (\<lambda>e. if is_already_merged e
            then bind (log_event ''pull_request_merged'' ''pull request was already merged'' ''INFO'' issue_number)
              (\<lambda>_. Return ''merged'')
            else if is_already_enabled e
            then bind (log_event ''auto_merge_enabled'' enabled ''INFO'' issue_number) (\<lambda>_. Return enabled)
            else if is_already_mergeable e then merge_directly pb issue_number pull deadline
            else merge_failure issue_number e))"

text \<open>The merge step of both publications: nothing without the mode, and in label mode without the opt-in.\<close>

definition merge_step :: "publisher \<Rightarrow> int \<Rightarrow> bool \<Rightarrow> pull_request \<Rightarrow> rat \<Rightarrow> string option pub_prog" where
  "merge_step pb issue_number opt_in pull deadline =
     (if pb_auto_merge pb = ''true'' \<or> (pb_auto_merge pb = ''label'' \<and> opt_in)
      then bind (maybe_auto_merge pb issue_number pull deadline) (\<lambda>m. Return (Some m))
      else if pb_auto_merge pb = ''label'' then Return (Some AUTO_MERGE_SKIPPED)
      else Return None)"


section \<open>Result comments\<close>

text \<open>Posted once per attempt; every failure only means that nothing was posted.\<close>

definition post_once :: "publisher \<Rightarrow> int \<Rightarrow> string \<Rightarrow> failure + string \<Rightarrow> bool pub_prog" where
  "post_once pb issue_number marker body =
     handle (bind (ask (Find_attempt_comment (pb_repository pb) issue_number marker)
           (reply (\<lambda>r. case r of There b \<Rightarrow> Some b | _ \<Rightarrow> None))) (\<lambda>there.
         if there then Return True
         else (case body of
             Inl e \<Rightarrow> Raise e
           | Inr text \<Rightarrow> bind (act (Post_comment (pb_repository pb) issue_number text)) (\<lambda>_. Return True))))
       (\<lambda>e. Return False)"

definition attempt_comment_marker :: "string \<Rightarrow> string" where
  "attempt_comment_marker started_at = ''<!-- agent-attempt: '' @ started_at @ '' -->''"

definition post_result ::
  "publisher \<Rightarrow> publication_request \<Rightarrow> attempt_outcome \<Rightarrow> string option \<Rightarrow> pull_request option \<Rightarrow> string \<Rightarrow> string option \<Rightarrow> bool pub_prog" where
  "post_result pb rq outcome branch_url pull details merge_result =
     (let marker = attempt_comment_marker (pr_started_at rq)
      in post_once pb (pr_issue_number rq) marker
           (result_comment rq outcome branch_url pull details marker merge_result))"

definition post_conflict_result ::
  "publisher \<Rightarrow> conflict_request \<Rightarrow> attempt_outcome \<Rightarrow> string \<Rightarrow> string option \<Rightarrow> pull_request option \<Rightarrow> string \<Rightarrow> string option \<Rightarrow> string option \<Rightarrow> int \<Rightarrow> bool \<Rightarrow> bool pub_prog" where
  "post_conflict_result pb rq outcome conflict_outcome branch_url pull details merge_result pushed_sha index escalate =
     (let marker = attempt_comment_marker (cq_started_at rq)
      in post_once pb (cq_issue_number rq) marker
           (conflict_result_comment rq outcome conflict_outcome branch_url pull details marker merge_result pushed_sha index escalate))"



section \<open>The shared handoff comment\<close>

definition record_failed :: "string \<Rightarrow> int \<Rightarrow> bool pub_prog" where
  "record_failed detail issue_number =
     bind (log_event ''handoff_record_failed'' detail ''ERROR'' issue_number) (\<lambda>_. Return False)"

definition confirm_shared_comment :: "publisher \<Rightarrow> handoff_record \<Rightarrow> bool pub_prog" where
  "confirm_shared_comment pb intent =
     bind (handle (bind (find_handoff_record pb (hr_issue_number intent)) (\<lambda>x. Return (Inr x))) (\<lambda>e. Return (Inl e)))
       (\<lambda>answered. case answered of
          Inl e \<Rightarrow> record_failed (''the shared handoff comment could not be confirmed: '' @ exception_detail e) (hr_issue_number intent)
        | Inr None \<Rightarrow> record_failed ''the shared handoff comment is absent after publication'' (hr_issue_number intent)
        | Inr (Some current) \<Rightarrow>
            if parse_handoff_record (hf_body current) = Some intent then Return True
            else record_failed
              (''the shared handoff comment does not carry the intended attempt'' @ '' and revisions after publication'')
              (hr_issue_number intent))"

text \<open>A write whose answer is lost may have happened: only a re-read decides.\<close>

definition write_shared_comment :: "publisher \<Rightarrow> handoff_record \<Rightarrow> rat \<Rightarrow> (string \<Rightarrow> pub_call) \<Rightarrow> string \<Rightarrow> string \<Rightarrow> bool pub_prog" where
  "write_shared_comment pb intent deadline write_call verb event =
     bind (handle (bind (check_deadline deadline) (\<lambda>_.
           case build_handoff_record_body intent of
             Inl e \<Rightarrow> Raise (OtherError ''ValueError'' e)
           | Inr body \<Rightarrow> bind (act (write_call body)) (\<lambda>_. Return True)))
         (\<lambda>e. bind (log_event ''handoff_record_failed''
              (''Shared handoff comment could not be '' @ verb @ '': '' @ exception_detail e) ''ERROR'' (hr_issue_number intent))
            (\<lambda>_. Return False)))
       (\<lambda>written. bind (confirm_shared_comment pb intent) (\<lambda>confirmed.
          if written \<and> confirmed
          then bind (log_event event (''shared handoff comment for attempt '' @ hr_attempt_id intent) ''INFO'' (hr_issue_number intent))
            (\<lambda>_. Return True)
          else Return confirmed))"

definition create_shared_comment :: "publisher \<Rightarrow> handoff_record \<Rightarrow> rat \<Rightarrow> bool pub_prog" where
  "create_shared_comment pb intent deadline =
     write_shared_comment pb intent deadline (Create_handoff_record (pb_repository pb) (hr_issue_number intent))
       ''created'' ''handoff_record_created''"

definition update_shared_comment :: "publisher \<Rightarrow> string \<Rightarrow> handoff_record \<Rightarrow> rat \<Rightarrow> bool pub_prog" where
  "update_shared_comment pb comment_id intent deadline =
     write_shared_comment pb intent deadline (Update_handoff_record (pb_repository pb) comment_id)
       ''updated'' ''handoff_record_updated''"

text \<open>The revision that the record is about to name: pushed now, unless this pass pushed it already.\<close>

definition verified_revision :: "publisher \<Rightarrow> publication_request \<Rightarrow> string option \<Rightarrow> rat \<Rightarrow> string option pub_prog" where
  "verified_revision pb rq pushed_sha deadline = (case pushed_sha of
     Some sha \<Rightarrow> Return (Some sha)
   | None \<Rightarrow>
       handle (bind (push_and_mark pb (pr_branch rq) deadline (pr_issue_number rq)) (\<lambda>sha. Return (Some sha)))
         (\<lambda>e. case e of
            BranchMovedSinceClaimError m \<Rightarrow> Raise e
          | _ \<Rightarrow>
              if is_git_or_timeout e
              then bind (log_event ''publication_failed'' (''Shared handoff branch push failed: '' @ failure_line e) ''ERROR''
                  (pr_issue_number rq)) (\<lambda>_. Return None)
              else bind (log_event ''handoff_record_failed''
                  (''Shared handoff publication is not ready: '' @ exception_detail e) ''ERROR'' (pr_issue_number rq))
                (\<lambda>_. Return None)))"

definition place_record :: "publisher \<Rightarrow> iso_parser \<Rightarrow> handoff_record \<Rightarrow> rat \<Rightarrow> bool pub_prog" where
  "place_record pb parse_iso intent deadline =
     bind (handle (bind (find_handoff_record pb (hr_issue_number intent)) (\<lambda>x. Return (Inr x))) (\<lambda>e. Return (Inl e)))
       (\<lambda>answered. case answered of
          Inl e \<Rightarrow> record_failed (''Shared handoff record could not be read: '' @ exception_detail e) (hr_issue_number intent)
        | Inr None \<Rightarrow> create_shared_comment pb intent deadline
        | Inr (Some existing) \<Rightarrow>
            (case parse_handoff_record (hf_body existing) of
               None \<Rightarrow> record_failed (''the existing shared handoff comment is unreadable; it is left''
                 @ '' untouched and the attempt is retained for recovery'') (hr_issue_number intent)
             | Some parsed \<Rightarrow>
                 if hr_attempt_id parsed = hr_attempt_id intent
                 then (if parsed = intent then Return True
                       else update_shared_comment pb (hf_comment_id existing) intent deadline)
                 else (case is_newer_attempt parse_iso parsed intent of
                     Inl e \<Rightarrow> Raise (OtherError ''TypeError'' ''can't compare offset-naive and offset-aware datetimes'')
                   | Inr True \<Rightarrow> record_failed (''a newer attempt already owns the shared handoff comment;''
                       @ '' the older record is not published over it'') (hr_issue_number intent)
                   | Inr False \<Rightarrow> update_shared_comment pb (hf_comment_id existing) intent deadline)))"

definition valid_record_request :: "publication_request \<Rightarrow> int \<Rightarrow> string \<Rightarrow> bool" where
  "valid_record_request rq count note_sha \<longleftrightarrow>
     0 \<le> count \<and> pr_requeue_source rq \<in> set REQUEUE_SOURCES \<and> \<not> py_blank note_sha \<and> \<not> list_ex py_space note_sha"

definition intended_record :: "publisher \<Rightarrow> publication_request \<Rightarrow> int \<Rightarrow> string \<Rightarrow> string \<Rightarrow> handoff_record" where
  "intended_record pb rq count note_sha sha =
     \<lparr>hr_version = HANDOFF_RECORD_VERSION, hr_repository = pb_repository pb, hr_issue_number = pr_issue_number rq,
      hr_attempt_id = pr_started_at rq, hr_requeue_source = pr_requeue_source rq, hr_continuation_count = count,
      hr_branch = pr_branch rq, hr_branch_sha = sha, hr_note_sha = note_sha\<rparr>"

definition save_intent :: "handoff_record \<Rightarrow> handoff_record option pub_prog" where
  "save_intent r =
     handle (bind (ask (Save_intent r) (reply (\<lambda>r. case r of Intent i \<Rightarrow> Some i | _ \<Rightarrow> None))) (\<lambda>i. Return (Some i)))
       (\<lambda>e. case e of
          HandoffPublicationStoreError m \<Rightarrow>
            bind (log_event ''handoff_record_failed''
                (''Shared handoff intent could not be persisted: '' @ m) ''ERROR'' (hr_issue_number r))
              (\<lambda>_. Return None)
        | _ \<Rightarrow> Raise e)"

text \<open>The first intent of an attempt stands; one for another revision or issue is not published.\<close>

definition publish_verified :: "publisher \<Rightarrow> iso_parser \<Rightarrow> publication_request \<Rightarrow> int \<Rightarrow> string \<Rightarrow> string \<Rightarrow> rat \<Rightarrow> bool pub_prog" where
  "publish_verified pb parse_iso rq count note_sha sha deadline =
     bind (save_intent (intended_record pb rq count note_sha sha)) (\<lambda>saved.
     case saved of
       None \<Rightarrow> Return False
     | Some intent \<Rightarrow>
         if hr_branch_sha intent \<noteq> sha \<or> hr_note_sha intent \<noteq> note_sha \<or> hr_branch intent \<noteq> pr_branch rq
           \<or> hr_issue_number intent \<noteq> pr_issue_number rq \<or> hr_repository intent \<noteq> pb_repository pb
         then record_failed (''the persisted handoff intent no longer matches the verified''
             @ '' branch revision; the attempt is retained for recovery'') (pr_issue_number rq)
         else place_record pb parse_iso intent deadline)"

definition publish_handoff_record :: "publisher \<Rightarrow> iso_parser \<Rightarrow> publication_request \<Rightarrow> string option \<Rightarrow> rat \<Rightarrow> bool pub_prog" where
  "publish_handoff_record pb parse_iso rq pushed_sha deadline =
     (case (pr_handoff_continuation_count rq, pr_note_commit_sha rq) of
        (Some count, Some note_sha) \<Rightarrow>
          if \<not> valid_record_request rq count note_sha
          then record_failed (''the shared handoff record was not requested with a valid''
              @ '' continuation standing and note revision'') (pr_issue_number rq)
          else bind (verified_revision pb rq pushed_sha deadline) (\<lambda>verified.
            case verified of
              None \<Rightarrow> Return False
            | Some sha \<Rightarrow> publish_verified pb parse_iso rq count note_sha sha deadline)
      | _ \<Rightarrow> Return True)"

definition confirm_shared_handoff :: "publisher \<Rightarrow> int \<Rightarrow> string \<Rightarrow> string option \<Rightarrow> string option \<Rightarrow> handoff_record option pub_prog" where
  "confirm_shared_handoff pb issue_number attempt_id branch_sha note_sha =
     bind (handle (find_handoff_record pb issue_number) (\<lambda>e. Return None)) (\<lambda>existing. Return
       (Option.bind existing (\<lambda>x. Option.bind (parse_handoff_record (hf_body x)) (\<lambda>parsed.
          if hr_attempt_id parsed \<noteq> attempt_id then None
          else if hr_issue_number parsed \<noteq> issue_number \<or> hr_repository parsed \<noteq> pb_repository pb then None
          else if branch_sha \<noteq> None \<and> branch_sha \<noteq> Some (hr_branch_sha parsed) then None
          else if note_sha \<noteq> None \<and> note_sha \<noteq> Some (hr_note_sha parsed) then None
          else Some parsed))))"



section \<open>Ordinary attempts\<close>

definition result_of ::
  "attempt_outcome \<Rightarrow> string option \<Rightarrow> pull_request option \<Rightarrow> bool \<Rightarrow> string \<Rightarrow> string option \<Rightarrow> publication_result" where
  "result_of outcome branch_url pull posted details merge_result =
     \<lparr>rs_outcome = outcome, rs_branch_url = branch_url, rs_pull_request = pull, rs_comment_posted = posted,
      rs_details = details, rs_merge_result = merge_result, rs_conflict_outcome = [], rs_escalated = False,
      rs_handoff_posted = True, rs_comment_suppressed = False\<rparr>"

definition branch_link :: "publisher \<Rightarrow> string \<Rightarrow> string" where
  "branch_link pb branch = ''https://github.com/'' @ pb_repository pb @ ''/tree/'' @ branch"

definition needs_push :: "completion_decision \<Rightarrow> bool" where
  "needs_push d \<longleftrightarrow>
     cd_publication_eligible d
     \<or> (cd_outcome d \<in> {Some INCOMPLETE, Some HANDOFF} \<and> cd_publication_path d = PATH_PARTIAL)"

text \<open>The end of a publication whose push failed.\<close>

definition push_failed :: "publisher \<Rightarrow> publication_request \<Rightarrow> failure \<Rightarrow> publication_result pub_prog" where
  "push_failed pb rq e =
     (let d = pr_decision rq;
          failed = (case e of ClaimLeaseError m \<Rightarrow> ''Claim lease advance failed: '' @ failure_line e
                    | _ \<Rightarrow> ''Partial branch push failed: '' @ failure_line e);
          secondary = (cd_outcome d = Some INCOMPLETE \<and> \<not> cd_publication_eligible d);
          ending = (case e of
              BranchMovedSinceClaimError m \<Rightarrow> (INFRASTRUCTURE_ERROR, failed)
            | ClaimLeaseError m \<Rightarrow>
                if secondary then (INCOMPLETE, py_join ''; '' (cd_reasons d @ [failed])) else (INFRASTRUCTURE_ERROR, failed)
            | _ \<Rightarrow>
                if secondary then (INCOMPLETE, py_join ''; '' (cd_reasons d @ [failed]))
                else (INFRASTRUCTURE_ERROR, SUCCEEDED_BUT_UNPUBLISHED))
      in bind (log_event ''publication_failed'' failed ''ERROR'' (pr_issue_number rq)) (\<lambda>_.
         bind (post_result pb rq (fst ending) None None (snd ending) None) (\<lambda>posted.
         Return (result_of (fst ending) None None posted (snd ending) None))))"

definition push_stage :: "publisher \<Rightarrow> publication_request \<Rightarrow> rat \<Rightarrow> (publication_result + string option \<times> string option) pub_prog" where
  "push_stage pb rq deadline =
     (if \<not> needs_push (pr_decision rq) then Return (Inr (None, None))
      else handle (bind (push_unless_published pb (pr_branch rq) deadline (pr_issue_number rq)) (\<lambda>sha.
             Return (Inr (Some (branch_link pb (pr_branch rq)), sha))))
           (\<lambda>e. if is_git_or_timeout e then bind (push_failed pb rq e) (\<lambda>r. Return (Inl r)) else Raise e))"

definition moved_handoff_result ::
  "publisher \<Rightarrow> publication_request \<Rightarrow> string option \<Rightarrow> pull_request option \<Rightarrow> string option \<Rightarrow> failure \<Rightarrow> publication_result pub_prog" where
  "moved_handoff_result pb rq branch_url pull merge_result e =
     (let moved = ''Shared handoff branch push failed: '' @ failure_line e
      in bind (log_event ''publication_failed'' moved ''ERROR'' (pr_issue_number rq)) (\<lambda>_.
         bind (post_result pb rq INFRASTRUCTURE_ERROR branch_url pull moved merge_result) (\<lambda>posted.
         Return (result_of INFRASTRUCTURE_ERROR branch_url pull posted moved merge_result))))"

definition publish_handoff_link_mode ::
  "publisher \<Rightarrow> iso_parser \<Rightarrow> publication_request \<Rightarrow> attempt_outcome \<Rightarrow> string option \<Rightarrow> pull_request option \<Rightarrow> string option \<Rightarrow> rat \<Rightarrow> string option \<Rightarrow> publication_result pub_prog" where
  "publish_handoff_link_mode pb parse_iso rq outcome branch_url pull pushed_sha deadline merge_result =
     (let requested = (pr_handoff_continuation_count rq \<noteq> None \<and> pr_note_commit_sha rq \<noteq> None)
      in bind (publish_handoff_record pb parse_iso rq pushed_sha deadline) (\<lambda>handoff_posted.
         if pr_handoff_notify rq \<or> \<not> requested \<or> \<not> handoff_posted
         then bind (post_result pb rq outcome branch_url pull (pr_details rq) merge_result) (\<lambda>posted.
              bind (if \<not> requested
                    then log_event ''handoff_comment_verbose_fallback'' (''handoff published without a shared record request;''
                      @ '' the individual result comment was posted'') ''INFO'' (pr_issue_number rq)
                    else if \<not> handoff_posted
                    then log_event ''handoff_notification_posted'' (''the shared handoff record is unconfirmed; an explicit''
                      @ '' notification comment was posted'') ''WARNING'' (pr_issue_number rq)
                    else log_event ''handoff_notification_posted'' (''human action is needed; an explicit notification comment''
                      @ '' was posted with the current standing'') ''WARNING'' (pr_issue_number rq)) (\<lambda>_.
              Return ((result_of outcome branch_url pull posted (pr_details rq) merge_result)\<lparr>rs_handoff_posted := handoff_posted\<rparr>)))
         else bind (log_event ''handoff_comment_suppressed'' (''routine handoff for attempt '' @ pr_started_at rq @ '' published to the''
                 @ '' shared record without an individual result comment'') ''INFO'' (pr_issue_number rq)) (\<lambda>_.
              Return ((result_of outcome branch_url pull True (pr_details rq) merge_result)
                \<lparr>rs_handoff_posted := handoff_posted, rs_comment_suppressed := True\<rparr>))))"

text \<open>After the branch and the pull request: merging, the comments, the shared record.\<close>

definition publish_reports ::
  "publisher \<Rightarrow> iso_parser \<Rightarrow> publication_request \<Rightarrow> attempt_outcome \<Rightarrow> string option \<Rightarrow> pull_request option \<Rightarrow> string option \<Rightarrow> rat \<Rightarrow> publication_result pub_prog" where
  "publish_reports pb parse_iso rq outcome branch_url pull pushed_sha deadline =
     bind (case pull of
         Some p \<Rightarrow> if outcome = COMPLETE then merge_step pb (pr_issue_number rq) (pr_auto_merge_opt_in rq) p deadline else Return None
       | None \<Rightarrow> Return None) (\<lambda>merge_result.
     let moved = (\<lambda>m e. case e of
           BranchMovedSinceClaimError x \<Rightarrow> moved_handoff_result pb rq branch_url pull m e
         | _ \<Rightarrow> Raise e)
     in if outcome = HANDOFF \<and> pb_comment_mode pb = ''link''
        then handle (publish_handoff_link_mode pb parse_iso rq outcome branch_url pull pushed_sha deadline merge_result) (moved merge_result)
        else bind (post_result pb rq outcome branch_url pull (pr_details rq) merge_result) (\<lambda>posted.
          if outcome = HANDOFF
          then handle (bind (publish_handoff_record pb parse_iso rq pushed_sha deadline) (\<lambda>handoff_posted.
                 Return ((result_of outcome branch_url pull posted (pr_details rq) merge_result)\<lparr>rs_handoff_posted := handoff_posted\<rparr>)))
               (moved merge_result)
          else Return (result_of outcome branch_url pull posted (pr_details rq) merge_result)))"

text \<open>What follows the push: the pull request of an eligible attempt, then the reports.\<close>

definition publish_pushed ::
  "publisher \<Rightarrow> iso_parser \<Rightarrow> publication_request \<Rightarrow> rat \<Rightarrow> string option \<Rightarrow> string option \<Rightarrow> publication_result pub_prog" where
  "publish_pushed pb parse_iso rq deadline branch_url pushed_sha =
     (if cd_publication_eligible (pr_decision rq)
      then bind (handle (bind (ensure_pull_request pb rq deadline) (\<lambda>p. Return (Some p))) (\<lambda>e. Return None)) (\<lambda>pull.
        case pull of
          None \<Rightarrow>
            bind (post_result pb rq INFRASTRUCTURE_ERROR branch_url None SUCCEEDED_BUT_UNPUBLISHED None) (\<lambda>posted.
            Return (result_of INFRASTRUCTURE_ERROR branch_url None posted SUCCEEDED_BUT_UNPUBLISHED None))
        | Some p \<Rightarrow> publish_reports pb parse_iso rq COMPLETE branch_url (Some p) pushed_sha deadline)
      else publish_reports pb parse_iso rq
        (case cd_outcome (pr_decision rq) of None \<Rightarrow> INFRASTRUCTURE_ERROR | Some x \<Rightarrow> x) branch_url None pushed_sha deadline)"

definition publish_until :: "publisher \<Rightarrow> iso_parser \<Rightarrow> publication_request \<Rightarrow> rat \<Rightarrow> publication_result pub_prog" where
  "publish_until pb parse_iso rq deadline =
     bind (push_stage pb rq deadline) (\<lambda>stage. case stage of
         Inl result \<Rightarrow> Return result
       | Inr pushed \<Rightarrow> publish_pushed pb parse_iso rq deadline (fst pushed) (snd pushed))"

definition publish :: "publisher \<Rightarrow> iso_parser \<Rightarrow> publication_request \<Rightarrow> rat option \<Rightarrow> publication_result pub_prog" where
  "publish pb parse_iso rq timeout =
     bind monotonic (\<lambda>start.
     publish_until pb parse_iso rq (start + (case timeout of None \<Rightarrow> pb_publish_timeout pb | Some t \<Rightarrow> t)))"


section \<open>Conflict attempts\<close>

definition conflict_result ::
  "conflict_request \<Rightarrow> attempt_outcome \<Rightarrow> string option \<Rightarrow> bool \<Rightarrow> string \<Rightarrow> string option \<Rightarrow> string \<Rightarrow> bool \<Rightarrow> publication_result" where
  "conflict_result rq outcome branch_url posted details merge_result conflict_outcome escalated =
     (result_of outcome branch_url (cq_pull_request rq) posted details merge_result)
       \<lparr>rs_conflict_outcome := conflict_outcome, rs_escalated := escalated\<rparr>"

definition conflict_push_failed :: "publisher \<Rightarrow> conflict_request \<Rightarrow> failure \<Rightarrow> publication_result pub_prog" where
  "conflict_push_failed pb rq e =
     (let failed = (case e of ClaimLeaseError m \<Rightarrow> ''Claim lease advance failed: '' @ failure_line e
                    | _ \<Rightarrow> ''Rebased branch push failed: '' @ failure_line e);
          details = (if cq_details rq \<noteq> [] then cq_details rq @ ''; '' @ failed else failed);
          standing = conflict_failure_standing rq
      in bind (log_event ''publication_failed'' failed ''ERROR'' (cq_issue_number rq)) (\<lambda>_.
         bind (post_conflict_result pb rq INFRASTRUCTURE_ERROR ''push_failed'' None None details None None (fst standing) (snd standing)) (\<lambda>posted.
         Return (conflict_result rq INFRASTRUCTURE_ERROR None posted details None ''push_failed'' (snd standing)))))"

text \<open>A green push that changed nothing on the remote branch.\<close>

definition push_changed_nothing :: "conflict_request \<Rightarrow> string option \<times> bool \<Rightarrow> string \<Rightarrow> bool" where
  "push_changed_nothing rq lease sha \<longleftrightarrow>
     (case cq_pull_request rq of None \<Rightarrow> False | Some p \<Rightarrow> pq_head_sha p \<noteq> [] \<and> sha = pq_head_sha p)
     \<or> (snd lease \<and> nonempty (fst lease) = Some sha)
     \<or> nonempty (cq_prior_conflict_sha rq) = Some sha"

definition conflict_push_stage :: "publisher \<Rightarrow> conflict_request \<Rightarrow> rat \<Rightarrow> (publication_result + (string option \<times> bool) \<times> string option) pub_prog" where
  "conflict_push_stage pb rq deadline =
     handle (bind (claim_lease pb (cq_issue_number rq)) (\<lambda>lease.
        bind (push_unless_published pb (cq_branch rq) deadline (cq_issue_number rq)) (\<lambda>sha.
        Return (Inr (lease, sha)))))
      (\<lambda>e. if is_git_or_timeout e then bind (conflict_push_failed pb rq e) (\<lambda>r. Return (Inl r)) else Raise e)"

definition publish_conflict_reports ::
  "publisher \<Rightarrow> conflict_request \<Rightarrow> rat \<Rightarrow> string option \<Rightarrow> string option \<Rightarrow> string \<Rightarrow> int \<Rightarrow> bool \<Rightarrow> publication_result pub_prog" where
  "publish_conflict_reports pb rq deadline branch_url pushed_sha conflict_outcome index escalate =
     bind (case (branch_url, cq_pull_request rq) of
         (Some url, Some p) \<Rightarrow> merge_step pb (cq_issue_number rq) (cq_auto_merge_opt_in rq) p deadline
       | _ \<Rightarrow> Return None) (\<lambda>merge_result.
     bind (post_conflict_result pb rq (cq_outcome rq) conflict_outcome branch_url (cq_pull_request rq) (cq_details rq)
        merge_result pushed_sha index escalate) (\<lambda>posted.
     Return (conflict_result rq (cq_outcome rq) branch_url posted (cq_details rq) merge_result conflict_outcome escalate)))"

text \<open>A green push that changed nothing counts as a failure toward the budget.\<close>

definition publish_conflict_pushed ::
  "publisher \<Rightarrow> conflict_request \<Rightarrow> rat \<Rightarrow> string option \<times> bool \<Rightarrow> string option \<Rightarrow> publication_result pub_prog" where
  "publish_conflict_pushed pb rq deadline lease pushed_sha =
     (let unchanged = (cq_conflict_outcome rq = ''success''
            \<and> (case nonempty pushed_sha of None \<Rightarrow> False | Some sha \<Rightarrow> push_changed_nothing rq lease sha));
          standing = (if unchanged then conflict_failure_standing rq else (cq_conflict_index rq, cq_escalate rq))
      in publish_conflict_reports pb rq deadline (Some (branch_link pb (cq_branch rq))) pushed_sha
           (if unchanged then ''no_change'' else cq_conflict_outcome rq) (fst standing) (snd standing))"

definition publish_conflict :: "publisher \<Rightarrow> conflict_request \<Rightarrow> rat option \<Rightarrow> publication_result pub_prog" where
  "publish_conflict pb rq timeout =
     bind monotonic (\<lambda>start.
     let deadline = start + (case timeout of None \<Rightarrow> pb_publish_timeout pb | Some t \<Rightarrow> t)
     in if \<not> cq_push_branch rq
        then publish_conflict_reports pb rq deadline None None (cq_conflict_outcome rq) (cq_conflict_index rq) (cq_escalate rq)
        else bind (conflict_push_stage pb rq deadline) (\<lambda>stage. case stage of
          Inl result \<Rightarrow> Return result
        | Inr pushed \<Rightarrow> publish_conflict_pushed pb rq deadline (fst pushed) (snd pushed)))"

end
