(* ===== verification/Publication_Props.thy ===== *)
theory Publication_Props
  imports Publication_Ops
begin

text \<open>
  What publication guarantees, whatever git, GitHub and the stores answer: a complete result has a branch and a pull
  request behind it; the pull request is created only after the durable mark and a lookup without result; a handoff
  counts as confirmed only by reading its record back; a failed conflict attempt writes nothing but its comment.
\<close>

section \<open>Which parts make which calls\<close>

text \<open>Calls that write to the branch, to pull requests or to the checkpoint.\<close>

definition reports_only :: "pub_call \<Rightarrow> bool" where
  "reports_only q = (case q of
     Push_branch a b c d e \<Rightarrow> False
   | Advance_lease a \<Rightarrow> False
   | Enter_phase a \<Rightarrow> False
   | Create_pull_request a b c d e \<Rightarrow> False
   | Enable_auto_merge a b c \<Rightarrow> False
   | Merge_pull_request a b c \<Rightarrow> False
   | _ \<Rightarrow> True)"

definition no_creation :: "pub_call \<Rightarrow> bool" where
  "no_creation q = (case q of Create_pull_request a b c d e \<Rightarrow> False | _ \<Rightarrow> True)"

lemma no_creation_simps [simp]:
  "no_creation Monotonic" "no_creation (Pause x)" "no_creation (Log a b c n)" "no_creation Read_attempt"
  "no_creation (Advance_lease a)" "no_creation (Enter_phase p)" "no_creation (Push_branch a i x d e)"
  "no_creation (Save_intent r)" "no_creation (Load_intent a)" "no_creation (Find_pull_request a b)"
  "no_creation (Enable_auto_merge a pl b)" "no_creation (Merge_pull_request a pl b)"
  "no_creation (Find_attempt_comment a n b)" "no_creation (Post_comment a n b)" "no_creation (Find_handoff_record a n)"
  "no_creation (Create_handoff_record a n b)" "no_creation (Update_handoff_record a b c)"
  by (simp_all add: no_creation_def)

lemma reports_only_simps [simp]:
  "reports_only Monotonic" "reports_only (Pause x)" "reports_only (Log a b c n)" "reports_only Read_attempt"
  "reports_only (Find_pull_request a b)" "reports_only (Find_attempt_comment a n b)" "reports_only (Post_comment a n b)"
  by (simp_all add: reports_only_def)

lemmas pub_call_defs = monotonic_def log_event_def act_def find_pull_request_def find_handoff_record_def

text \<open>The small programs, for any set of calls that has theirs.\<close>

lemma calls_deadline [calls_rules]: "P Monotonic \<Longrightarrow> calls P (check_deadline d)"
  unfolding check_deadline_def monotonic_def by (intro calls_rules)

lemma calls_log [calls_rules]: "P (Log event detail level n) \<Longrightarrow> calls P (log_event event detail level n)"
  unfolding log_event_def by (intro calls_rules)

lemma calls_act [calls_rules]: "P q \<Longrightarrow> calls P (act q)"
  unfolding act_def by (intro calls_rules)

lemma calls_post_once:
  assumes "\<And>a n b. P (Find_attempt_comment a n b)" "\<And>a n b. P (Post_comment a n b)"
  shows "calls P (post_once pb n marker body)"
  unfolding post_once_def by (intro calls_rules assms)

lemma calls_post_result:
  assumes "\<And>a n b. P (Find_attempt_comment a n b)" "\<And>a n b. P (Post_comment a n b)"
  shows "calls P (post_result pb rq outcome url pull details m)"
  unfolding post_result_def Let_def by (intro calls_post_once assms)

lemma calls_post_conflict_result:
  assumes "\<And>a n b. P (Find_attempt_comment a n b)" "\<And>a n b. P (Post_comment a n b)"
  shows "calls P (post_conflict_result pb rq outcome co url pull details m sha index escalate)"
  unfolding post_conflict_result_def Let_def by (intro calls_post_once assms)

lemma push_and_mark_creates_nothing: "calls no_creation (push_and_mark pb branch deadline n)"
  unfolding push_and_mark_def push_branch_def claim_lease_def advance_lease_def mark_publishing_def read_attempt_def
  by (intro calls_rules) simp_all

lemma merge_step_creates_nothing: "calls no_creation (merge_step pb n opt_in pull deadline)"
  unfolding merge_step_def maybe_auto_merge_def merge_directly_def merge_failure_def Let_def
  by (intro calls_rules) simp_all

lemma handoff_record_creates_nothing: "calls no_creation (publish_handoff_record pb parse_iso rq sha deadline)"
  unfolding publish_handoff_record_def publish_verified_def save_intent_def verified_revision_def place_record_def create_shared_comment_def
    update_shared_comment_def write_shared_comment_def confirm_shared_comment_def record_failed_def find_handoff_record_def
  by (intro calls_rules push_and_mark_creates_nothing)
    (auto split: option.split failure.split bool.split intro!: calls_rules push_and_mark_creates_nothing)

lemma reports_create_nothing: "calls no_creation (publish_reports pb parse_iso rq outcome url pull sha deadline)"
  unfolding publish_reports_def publish_handoff_link_mode_def moved_handoff_result_def Let_def
  by (intro calls_rules merge_step_creates_nothing handoff_record_creates_nothing calls_post_result)
    (auto split: failure.split intro!: calls_rules calls_post_result)



section \<open>A complete result\<close>

abbreviation results :: "('a \<Rightarrow> bool) \<Rightarrow> 'a pub_prog \<Rightarrow> bool" where
  "results Q \<equiv> every (\<lambda>_. True) (\<lambda>y. case y of Inl e \<Rightarrow> True | Inr x \<Rightarrow> Q x)"

lemma results_bind: "results R m \<Longrightarrow> (\<And>x. R x \<Longrightarrow> results Q (f x)) \<Longrightarrow> results Q (bind m f)"
  by (rule every_bindI [where R = "\<lambda>y. case y of Inl e \<Rightarrow> True | Inr x \<Rightarrow> R x"]) auto

lemma results_any: "(\<And>x. Q x) \<Longrightarrow> results Q m"
  by (induction m) auto

lemma results_bind_any: "(\<And>x. results Q (f x)) \<Longrightarrow> results Q (bind m f)"
  by (rule results_bind [OF results_any [where Q = "\<lambda>_. True"]]) auto

lemma results_handle: "results Q m \<Longrightarrow> (\<And>e. results Q (h e)) \<Longrightarrow> results Q (handle m h)"
  by (rule every_handleI [where R = "\<lambda>y. case y of Inl e \<Rightarrow> True | Inr x \<Rightarrow> Q x"]) auto

definition published_result :: "publisher \<Rightarrow> publication_request \<Rightarrow> publication_result \<Rightarrow> bool" where
  "published_result pb rq r \<longleftrightarrow>
     cd_publication_eligible (pr_decision rq) \<and> rs_pull_request r \<noteq> None \<and> rs_branch_url r = Some (branch_link pb (pr_branch rq))"

text \<open>What a result may be: complete only with everything published.\<close>

definition truthful :: "publisher \<Rightarrow> publication_request \<Rightarrow> publication_result \<Rightarrow> bool" where
  "truthful pb rq r \<longleftrightarrow> rs_outcome r \<noteq> COMPLETE \<or> published_result pb rq r"

lemma truthful_result_of:
  "truthful pb rq (result_of outcome url pull posted details m) \<longleftrightarrow>
     outcome \<noteq> COMPLETE \<or> (cd_publication_eligible (pr_decision rq) \<and> pull \<noteq> None \<and> url = Some (branch_link pb (pr_branch rq)))"
  by (auto simp: truthful_def published_result_def result_of_def)

lemma truthful_update [simp]:
  "truthful pb rq (r\<lparr>rs_handoff_posted := h\<rparr>) = truthful pb rq r"
  "truthful pb rq (r\<lparr>rs_comment_suppressed := h\<rparr>) = truthful pb rq r"
  by (simp_all add: truthful_def published_result_def)

lemma moved_truthful: "results (truthful pb rq) (moved_handoff_result pb rq url pull m e)"
  unfolding moved_handoff_result_def Let_def by (intro results_bind_any) (simp add: truthful_result_of)

lemma reports_truthful:
  assumes "outcome \<noteq> COMPLETE \<or> (cd_publication_eligible (pr_decision rq) \<and> pull \<noteq> None \<and> url = Some (branch_link pb (pr_branch rq)))"
  shows "results (truthful pb rq) (publish_reports pb parse_iso rq outcome url pull sha deadline)"
proof -
  have moved: "results (truthful pb rq) (case e of BranchMovedSinceClaimError x \<Rightarrow> moved_handoff_result pb rq url pull m e | _ \<Rightarrow> Raise e)" for m e url pull
    by (cases e) (simp_all add: moved_truthful)
  show ?thesis
    unfolding publish_reports_def publish_handoff_link_mode_def Let_def
    using assms by (auto simp: truthful_result_of intro!: results_bind_any results_handle moved)
qed

lemma push_failed_truthful:
  "results (truthful pb rq) (push_failed pb rq e)"
  unfolding push_failed_def Let_def
  by (intro results_bind_any) (auto simp: truthful_result_of split: failure.split)

lemma push_stage_truthful:
  "results (\<lambda>stage. case stage of Inl r \<Rightarrow> truthful pb rq r
      | Inr (url, sha) \<Rightarrow> (if needs_push (pr_decision rq) then url = Some (branch_link pb (pr_branch rq)) else url = None))
    (push_stage pb rq deadline)"
  unfolding push_stage_def
  by (auto intro!: results_bind_any results_handle results_bind [OF push_failed_truthful])

text \<open>
  Publication reports an attempt as complete only when the decision made it eligible, its branch is published and
  its pull request exists; the evaluator never decides for complete by itself, and no failure of git or GitHub is
  turned into success.
\<close>

theorem complete_means_published:
  assumes "cd_outcome (pr_decision rq) \<noteq> Some COMPLETE"
  shows "every (\<lambda>_. True) (\<lambda>y. case y of Inl e \<Rightarrow> True | Inr r \<Rightarrow> truthful pb rq r) (publish pb parse_iso rq timeout)"
proof -
  have pushed: "results (truthful pb rq) (publish_pushed pb parse_iso rq deadline url sha)"
    if "needs_push (pr_decision rq) \<Longrightarrow> url = Some (branch_link pb (pr_branch rq))" for deadline url sha
    unfolding publish_pushed_def using that assms
    by (auto simp: truthful_result_of needs_push_def split: option.split intro!: results_bind_any reports_truthful)
  show ?thesis
    unfolding publish_def publish_until_def
    by (rule results_bind_any, rule results_bind [OF push_stage_truthful]) (auto split: sum.split if_splits intro!: pushed)
qed


section \<open>The pull request\<close>

text \<open>
  Followed along a publication: is the branch durably published, has the last lookup found no pull request with no
  creation since, and was a pull request ever created out of turn.
\<close>

record pull_trace =
  pt_published :: bool
  pt_absent :: bool
  pt_out_of_turn :: bool

definition pull_step :: "publisher \<Rightarrow> pull_trace \<Rightarrow> pub_call \<Rightarrow> pub_answer \<Rightarrow> pull_trace" where
  "pull_step pb s q r = (case q of
     Create_pull_request a b c d e \<Rightarrow>
       s\<lparr>pt_absent := False, pt_out_of_turn := pt_out_of_turn s \<or> \<not> pt_published s \<or> \<not> pt_absent s\<rparr>
   | Find_pull_request a b \<Rightarrow> s\<lparr>pt_absent := (r = Pull None)\<rparr>
   | Read_attempt \<Rightarrow> (case r of
       Attempt (Some c) \<Rightarrow> s\<lparr>pt_published := pt_published s \<or> ck_phase c = PUBLISHING\<rparr>
     | _ \<Rightarrow> s)
   | Enter_phase p \<Rightarrow> s\<lparr>pt_published := pt_published s \<or> (p = PUBLISHING \<and> (\<forall>e. r \<noteq> Raised e))\<rparr>
   | Push_branch a b c d e \<Rightarrow> s\<lparr>pt_published := pt_published s \<or> (\<not> pb_has_attempt_state pb \<and> (\<forall>e. r \<noteq> Raised e))\<rparr>
   | _ \<Rightarrow> s)"

abbreviation tracing :: "publisher \<Rightarrow> (pull_trace \<Rightarrow> failure + 'a \<Rightarrow> bool) \<Rightarrow> 'a pub_prog \<Rightarrow> pull_trace \<Rightarrow> bool" where
  "tracing pb \<equiv> follow (\<lambda>q r. True) (pull_step pb)"

lemma pull_step_quiet [simp]:
  "pull_step pb s Monotonic r = s" "pull_step pb s (Log a b c n) r = s" "pull_step pb s (Pause t) r = s"
  "pull_step pb s (Advance_lease l) r = s"
  by (simp_all add: pull_step_def)

lemma pull_step_keeps:
  "pt_published s \<Longrightarrow> pt_published (pull_step pb s q r)"
  "no_creation q \<Longrightarrow> pt_out_of_turn (pull_step pb s q r) = pt_out_of_turn s"
  by (cases q; simp add: pull_step_def no_creation_def split: pub_answer.split option.split)+

lemma quiet_calls:
  "calls no_creation m \<Longrightarrow> \<not> pt_out_of_turn s \<Longrightarrow> tracing pb (\<lambda>s y. \<not> pt_out_of_turn s) m s"
  by (rule follow_calls [where P = no_creation and I = "\<lambda>s. \<not> pt_out_of_turn s"]) (simp_all add: pull_step_keeps)

lemma published_calls: "pt_published s \<Longrightarrow> tracing pb (\<lambda>s y. pt_published s) m s"
  by (rule follow_calls [where P = "\<lambda>_. True"]) (auto simp: pull_step_keeps)

lemma deadline_quiet: "tracing pb (\<lambda>s' y. s' = s) (check_deadline d) s"
  by (auto simp: check_deadline_def monotonic_def split: sum.split)

lemma mark_published:
  assumes "pb_has_attempt_state pb"
  shows "tracing pb (\<lambda>s y. isl y \<or> pt_published s) (mark_publishing pb) s"
  using assms
  by (auto simp: mark_publishing_def read_attempt_def reply_def act_def pull_step_def
      split: sum.split option.split pub_answer.split)

lemma push_branch_published:
  "tracing pb (\<lambda>s y. isl y \<or> pb_has_attempt_state pb \<or> pt_published s) (push_branch pb branch deadline n) s"
proof -
  have "tracing pb (\<lambda>s y. isl y \<or> pb_has_attempt_state pb \<or> pt_published s)
      (bind (ask (Push_branch branch (pb_max_retries pb) deadline expected known)
        (reply (\<lambda>r. case r of Pushed sha \<Rightarrow> Some sha | _ \<Rightarrow> None))) (\<lambda>pushed.
       bind (advance_lease pb pushed) (\<lambda>_. Return pushed))) s" for expected known s
  proof (rule follow_bindI [where R = "\<lambda>s y. isl y \<or> pb_has_attempt_state pb \<or> pt_published s"])
    fix s :: pull_trace and sha
    assume "isl (Inr sha :: failure + string) \<or> pb_has_attempt_state pb \<or> pt_published s"
    then show "tracing pb (\<lambda>s y. isl y \<or> pb_has_attempt_state pb \<or> pt_published s) (bind (advance_lease pb sha) (\<lambda>_. Return sha)) s"
      by (auto intro: follow_any follow_mono [OF published_calls] simp del: follow_bind)
  qed (auto simp: reply_def pull_step_def split: pub_answer.split)
  then show ?thesis
    unfolding push_branch_def by (intro follow_bind_any) (auto split: prod.split simp del: follow_bind)
qed

lemma push_published: "tracing pb (\<lambda>s y. isl y \<or> pt_published s) (push_and_mark pb branch deadline n) s"
proof -
  have mark: "tracing pb (\<lambda>s y. isl y \<or> pt_published s) (bind (mark_publishing pb) (\<lambda>_. Return sha)) s"
    if "pb_has_attempt_state pb \<or> pt_published s" for sha s
    using that by (auto intro: follow_bindI [OF mark_published] follow_mono [OF published_calls] simp del: follow_bind)
  have deadline: "tracing pb (\<lambda>s y. isl y \<or> pt_published s) (bind (check_deadline deadline) (\<lambda>_. bind (mark_publishing pb) (\<lambda>_. Return sha))) s"
    if "pb_has_attempt_state pb \<or> pt_published s" for sha s
    by (rule follow_bindI [OF deadline_quiet]) (use that in \<open>auto intro!: mark simp del: follow_bind\<close>)
  show ?thesis
    unfolding push_and_mark_def
    by (rule follow_bind_any, simp, rule follow_bindI [OF push_branch_published], simp, rule deadline, simp)
qed

lemma lookup_in_turn:
  assumes "\<not> pt_out_of_turn s" "\<And>p. tracing pb (\<lambda>s y. \<not> pt_out_of_turn s) (f (Some p)) (s\<lparr>pt_absent := False\<rparr>)"
    "tracing pb (\<lambda>s y. \<not> pt_out_of_turn s) (f None) (s\<lparr>pt_absent := True\<rparr>)"
  shows "tracing pb (\<lambda>s y. \<not> pt_out_of_turn s) (bind (find_pull_request pb branch) f) s"
proof -
  have "tracing pb (\<lambda>s y. \<not> pt_out_of_turn s) (f p) (s\<lparr>pt_absent := (p = None)\<rparr>)" for p
    using assms(2,3) by (cases p) simp_all
  then show ?thesis
    using assms(1) by (auto simp: find_pull_request_def reply_def pull_step_def split: pub_answer.split sum.split)
qed

lemma create_in_turn:
  assumes "pt_published s" "pt_absent s" "\<not> pt_out_of_turn s"
  shows "tracing pb (\<lambda>s y. \<not> pt_out_of_turn s) (create_attempts left pb rq deadline) s"
  using assms
proof (induction left arbitrary: s)
  case (Suc left)
  have creation: "tracing pb (\<lambda>s y. pt_published s \<and> \<not> pt_out_of_turn s) (ask (Create_pull_request a b c d e) dec) s"
    for a b c d e and dec :: "pub_answer \<Rightarrow> failure + pull_request"
    using Suc.prems by (simp add: pull_step_def)
  have pause: "tracing pb (\<lambda>s' y. s' = s) (act (Pause t)) s" for t s
    by (simp add: act_def)
  have again: "tracing pb (\<lambda>s y. \<not> pt_out_of_turn s) (bind (act (Pause t)) (\<lambda>_. create_attempts left pb rq deadline)) s"
    if "pt_published s" "pt_absent s" "\<not> pt_out_of_turn s" for t s
    by (rule follow_bindI [OF pause]) (use that Suc.IH in auto)
  show ?case
    unfolding create_attempts.simps
    by (rule follow_bindI [OF deadline_quiet], use Suc.prems in simp, simp only:, rule follow_handleI [OF creation])
      (auto intro!: lookup_in_turn again simp del: follow_bind)
qed simp

lemma push_stage_creates_nothing: "calls no_creation (push_stage pb rq deadline)"
  unfolding push_stage_def push_unless_published_def push_failed_def read_attempt_def Let_def
  by (intro calls_rules push_and_mark_creates_nothing calls_post_result) simp_all

lemma push_stage_published:
  "tracing pb (\<lambda>s y. \<forall>url sha. y = Inr (Inr (url, sha)) \<longrightarrow> needs_push (pr_decision rq) \<longrightarrow> pt_published s)
    (push_stage pb rq deadline) s"
proof -
  have found: "tracing pb (\<lambda>s y. isl y \<or> pt_published s) (push_unless_published pb branch deadline n) s" for branch n s
  proof -
    have push: "tracing pb (\<lambda>s y. isl y \<or> pt_published s)
        (bind (push_and_mark pb branch deadline n) (\<lambda>sha. Return (Some sha))) s" for s
      by (rule follow_bindI [OF push_published]) auto
    have "tracing pb (\<lambda>s y. \<forall>c. y = Inr (Some c) \<longrightarrow> ck_phase c = PUBLISHING \<longrightarrow> pt_published s) (read_attempt pb) s"
      by (auto simp: read_attempt_def reply_def pull_step_def split: pub_answer.split option.split)
    then show ?thesis
      unfolding push_unless_published_def
      by (rule follow_bindI) (auto split: option.split intro!: push simp del: follow_bind)
  qed
  have "tracing pb (\<lambda>s y. \<forall>url sha. y = Inr (Inr (url, sha)) \<longrightarrow> pt_published s)
      (handle (bind (push_unless_published pb (pr_branch rq) deadline (pr_issue_number rq)) (\<lambda>sha.
             Return (Inr (Some (branch_link pb (pr_branch rq)), sha))))
           (\<lambda>e. if is_git_or_timeout e then bind (push_failed pb rq e) (\<lambda>r. Return (Inl r)) else Raise e)) s"
    unfolding follow_handle follow_bind
    by (rule follow_mono [OF found]) (auto split: sum.split intro!: follow_any)
  then show ?thesis
    unfolding push_stage_def by (auto simp del: follow_handle elim!: follow_mono)
qed

lemma created_in_turn:
  assumes "pt_out_of_turn s = False"
  shows "follow (\<lambda>q r. True) (pull_step pb) (\<lambda>s y. \<not> pt_out_of_turn s) (publish pb parse_iso rq timeout) s"
proof -
  have stage: "tracing pb (\<lambda>s y. \<not> pt_out_of_turn s \<and> (\<forall>url sha. y = Inr (Inr (url, sha)) \<longrightarrow> needs_push (pr_decision rq) \<longrightarrow> pt_published s))
      (push_stage pb rq deadline) s" if "\<not> pt_out_of_turn s" for deadline s
    using follow_conj [OF quiet_calls [OF push_stage_creates_nothing that] push_stage_published] by (rule follow_mono) auto
  have ensure: "tracing pb (\<lambda>s y. \<not> pt_out_of_turn s) (ensure_pull_request pb rq deadline) s"
    if "pt_published s" "\<not> pt_out_of_turn s" for deadline s
    unfolding ensure_pull_request_def using that by (intro lookup_in_turn) (simp_all add: create_in_turn)
  have some: "tracing pb (\<lambda>s y. \<not> pt_out_of_turn s) (handle (bind (ensure_pull_request pb rq deadline) (\<lambda>p. Return (Some p))) (\<lambda>e. Return None)) s"
    if "pt_published s" "\<not> pt_out_of_turn s" for deadline s
    unfolding follow_handle follow_bind by (rule follow_mono [OF ensure [OF that]]) (auto split: sum.split)
  have pushed: "tracing pb (\<lambda>s y. \<not> pt_out_of_turn s) (publish_pushed pb parse_iso rq deadline url sha) s"
    if "needs_push (pr_decision rq) \<Longrightarrow> pt_published s" "\<not> pt_out_of_turn s" for deadline url sha s
  proof (cases "cd_publication_eligible (pr_decision rq)")
    case True
    then have "pt_published s" using that(1) by (simp add: needs_push_def)
    then show ?thesis
      unfolding publish_pushed_def using True
      by (simp only: if_True) (rule follow_bindI [OF some [OF _ that(2)]],
        auto split: option.split intro!: quiet_calls reports_create_nothing calls_rules calls_post_result simp del: follow_bind)
  next
    case False
    then show ?thesis
      unfolding publish_pushed_def by (simp add: quiet_calls reports_create_nothing that(2))
  qed
  have start: "tracing pb (\<lambda>s' y. s' = s) monotonic s"
    by (simp add: monotonic_def)
  show ?thesis
    unfolding publish_def publish_until_def
    by (rule follow_bindI [OF start], use assms in simp, rule follow_bindI [OF stage])
      (use assms in \<open>auto split: sum.split intro!: pushed simp del: follow_bind\<close>)
qed

text \<open>
  C19. A pull request is created only in turn: after the branch was pushed and the checkpoint durably says so, and
  right after a lookup that found none; between two creations of one publication there is always such a lookup.
\<close>

theorem pull_request_created_in_turn:
  "follow (\<lambda>q r. True) (pull_step pb) (\<lambda>s y. \<not> pt_out_of_turn s) (publish pb parse_iso rq timeout)
     \<lparr>pt_published = False, pt_absent = False, pt_out_of_turn = False\<rparr>"
  by (rule created_in_turn) simp



section \<open>Conflict attempts\<close>

definition keeps_request :: "conflict_request \<Rightarrow> publication_result \<Rightarrow> bool" where
  "keeps_request rq r \<longleftrightarrow>
     rs_outcome r = cq_outcome rq \<and> rs_branch_url r = None \<and> rs_merge_result r = None
     \<and> rs_conflict_outcome r = cq_conflict_outcome rq \<and> rs_escalated r = cq_escalate rq"

text \<open>
  A conflict attempt that did not verify its resolution leaves GitHub as it was, but for its comment: nothing is
  pushed, merged or marked, and the result is the one the attempt reported.
\<close>

theorem failed_conflict_writes_only_its_comment:
  assumes "cq_push_branch rq = False"
  shows "every reports_only (\<lambda>y. case y of Inl e \<Rightarrow> True | Inr r \<Rightarrow> keeps_request rq r) (publish_conflict pb rq timeout)"
proof (rule every_conj)
  show "calls reports_only (publish_conflict pb rq timeout)"
    unfolding publish_conflict_def publish_conflict_reports_def Let_def using assms
    by (auto simp: monotonic_def intro!: calls_rules calls_post_conflict_result)
  show "results (keeps_request rq) (publish_conflict pb rq timeout)"
    unfolding publish_conflict_def publish_conflict_reports_def Let_def using assms
    by (auto intro!: results_bind_any simp: keeps_request_def conflict_result_def result_of_def)
qed

definition no_post :: "pub_call \<Rightarrow> bool" where
  "no_post q = (case q of Post_comment a n b \<Rightarrow> False | _ \<Rightarrow> True)"

lemma no_post_simps [simp]:
  "no_post Monotonic" "no_post (Pause x)" "no_post (Log a b c n)" "no_post Read_attempt"
  "no_post (Advance_lease a)" "no_post (Enter_phase p)" "no_post (Push_branch a i x d e)"
  "no_post (Enable_auto_merge a pl b)" "no_post (Merge_pull_request a pl b)" "no_post (Find_attempt_comment a n b)"
  by (simp_all add: no_post_def)

lemma unbuildable_comment:
  assumes "f \<in> set (cq_conflicted_files rq)" "\<not> word_like f"
  shows "\<exists>e. conflict_result_comment rq outcome co url pull details marker m sha index escalate = Inl e"
proof -
  have "find (\<lambda>v. \<not> word_like v) ([co, or_none sha] @ (case nonempty (nonempty (Some (cq_reason rq))) of None \<Rightarrow> [] | Some r \<Rightarrow> [r])
      @ cq_conflicted_files rq @ cq_fix_commits rq @ cq_extra_files rq) \<noteq> None"
    using assms unfolding find_None_iff by auto
  then show ?thesis
    unfolding conflict_result_comment_def conflict_attempt_marker_def Let_def by (auto split: option.split)
qed

lemma unbuildable_post: "calls no_post (post_once pb n marker (Inl e))"
  unfolding post_once_def by (intro calls_rules) (simp_all add: calls_rules)

text \<open>
  A conflict in a file whose name contains whitespace is never reported: the hidden marker refuses the name, so
  whatever the outcome of the attempt, no result comment is posted, and nothing tells the next attempt of this one.
\<close>

theorem spaced_conflict_file_never_reported:
  assumes "f \<in> set (cq_conflicted_files rq)" "\<not> word_like f"
  shows "every (\<lambda>q. case q of Post_comment a n b \<Rightarrow> False | _ \<Rightarrow> True) (\<lambda>_. True) (publish_conflict pb rq timeout)"
proof -
  have post: "calls no_post (post_conflict_result pb rq outcome co url pull details m sha index escalate)"
    for outcome co url pull details m sha index escalate
    using unbuildable_comment [OF assms, of outcome co url pull details "attempt_comment_marker (cq_started_at rq)" m sha index escalate] unbuildable_post
    by (auto simp: post_conflict_result_def)
  have push: "calls no_post (push_unless_published pb branch deadline n)" for branch deadline n
    unfolding push_unless_published_def push_and_mark_def push_branch_def claim_lease_def advance_lease_def
      mark_publishing_def read_attempt_def
    by (intro calls_rules) simp_all
  have merge: "calls no_post (merge_step pb n opt_in pull deadline)" for n opt_in pull deadline
    unfolding merge_step_def maybe_auto_merge_def merge_directly_def merge_failure_def Let_def
    by (intro calls_rules) simp_all
  have lease: "calls no_post (claim_lease pb n)" for n
    unfolding claim_lease_def read_attempt_def by (intro calls_rules) simp_all
  have "calls no_post (publish_conflict pb rq timeout)"
    unfolding publish_conflict_def publish_conflict_pushed_def publish_conflict_reports_def conflict_push_stage_def conflict_push_failed_def Let_def
      monotonic_def
    by (intro calls_rules post push merge lease) simp_all
  then show ?thesis by (rule every_mono) (simp_all add: no_post_def)
qed

text \<open>The revision that the publication pushed, if it pushed one.\<close>

definition pushed_step :: "string option \<Rightarrow> pub_call \<Rightarrow> pub_answer \<Rightarrow> string option" where
  "pushed_step s q r = (case q of
     Push_branch a b c d e \<Rightarrow> (case r of Pushed sha \<Rightarrow> Some sha | _ \<Rightarrow> s)
   | _ \<Rightarrow> s)"


definition no_push :: "pub_call \<Rightarrow> bool" where
  "no_push q = (case q of Push_branch a b c d e \<Rightarrow> False | _ \<Rightarrow> True)"

lemma no_push_simps [simp]:
  "no_push Monotonic" "no_push (Log a b c n)" "no_push Read_attempt" "no_push (Advance_lease a)" "no_push (Enter_phase p)"
  "no_push (Enable_auto_merge a pl b)" "no_push (Merge_pull_request a pl b)" "no_push (Find_attempt_comment a n b)"
  "no_push (Post_comment a n b)"
  by (simp_all add: no_push_def)

abbreviation pushing :: "(string option \<Rightarrow> failure + 'a \<Rightarrow> bool) \<Rightarrow> 'a pub_prog \<Rightarrow> string option \<Rightarrow> bool" where
  "pushing \<equiv> follow (\<lambda>q r. True) pushed_step"

lemma no_push_keeps: "calls no_push m \<Longrightarrow> pushing (\<lambda>t y. t = s) m s"
  by (rule follow_calls [where P = no_push and I = "\<lambda>t. t = s"]) (auto simp: no_push_def pushed_step_def split: pub_call.splits)

lemma mark_pushes_nothing: "calls no_push (mark_publishing pb)" "calls no_push (check_deadline d)"
  "calls no_push (claim_lease pb n)" "calls no_push (advance_lease pb sha)" "calls no_push (read_attempt pb)"
  unfolding mark_publishing_def read_attempt_def claim_lease_def advance_lease_def
  by (intro calls_rules; simp)+

lemma push_records:
  "pushing (\<lambda>t y. \<forall>sha. y = Inr sha \<longrightarrow> t = Some sha) (push_and_mark pb branch deadline n) s"
proof -
  have keep: "pushing (\<lambda>t y. \<forall>x. y = Inr x \<longrightarrow> t = Some x) (bind m (\<lambda>_. Return sha)) (Some sha)"
    if "calls no_push m" for m :: "unit pub_prog" and sha
    by (rule follow_bindI [OF no_push_keeps [OF that]]) auto
  have push: "pushing (\<lambda>t y. \<forall>x. y = Inr x \<longrightarrow> t = Some x) (push_branch pb branch deadline n) s" for s
    unfolding push_branch_def
  proof (rule follow_bind_any)
    fix s lease
    show "pushing (\<lambda>t y. \<forall>x. y = Inr x \<longrightarrow> t = Some x) (case lease of (expected, known) \<Rightarrow>
      bind (ask (Push_branch branch (pb_max_retries pb) deadline expected known)
        (reply (\<lambda>r. case r of Pushed sha \<Rightarrow> Some sha | _ \<Rightarrow> None))) (\<lambda>pushed.
      bind (advance_lease pb pushed) (\<lambda>_. Return pushed))) s"
    proof (cases lease)
      case (Pair expected known)
      have "pushing (\<lambda>t y. \<forall>x. y = Inr x \<longrightarrow> t = Some x) (ask (Push_branch branch (pb_max_retries pb) deadline expected known)
          (reply (\<lambda>r. case r of Pushed sha \<Rightarrow> Some sha | _ \<Rightarrow> None))) s"
        by (auto simp: reply_def pushed_step_def split: pub_answer.splits)
      then show ?thesis unfolding Pair prod.case
        by (rule follow_bindI) (auto intro!: keep mark_pushes_nothing simp del: follow_bind)
    qed
  qed simp
  have rest: "pushing (\<lambda>t y. \<forall>x. y = Inr x \<longrightarrow> t = Some x)
      (bind (check_deadline deadline) (\<lambda>_. bind (mark_publishing pb) (\<lambda>_. Return sha))) (Some sha)" for sha
    by (rule follow_bindI [OF no_push_keeps [OF mark_pushes_nothing(2)]]) (auto intro!: keep mark_pushes_nothing simp del: follow_bind)
  show ?thesis
    unfolding push_and_mark_def
    by (rule follow_bind_any, simp, rule follow_bindI [OF push]) (auto intro!: rest simp del: follow_bind)
qed

lemma push_unless_published_records:
  "pushing (\<lambda>t y. \<forall>x. y = Inr x \<longrightarrow> t = x) (push_unless_published pb branch deadline n) None"
proof -
  have pushed: "pushing (\<lambda>t y. \<forall>x. y = Inr x \<longrightarrow> t = x) (bind (push_and_mark pb branch deadline n) (\<lambda>sha. Return (Some sha))) s" for s
    by (rule follow_bindI [OF push_records]) auto
  show ?thesis
    unfolding push_unless_published_def
    by (rule follow_bindI [OF no_push_keeps [OF mark_pushes_nothing(5)]]) (auto intro!: pushed simp del: follow_bind)
qed

definition new_revision :: "conflict_request \<Rightarrow> string option \<Rightarrow> bool" where
  "new_revision rq pushed = (case nonempty pushed of
     None \<Rightarrow> True
   | Some sha \<Rightarrow> (case cq_pull_request rq of None \<Rightarrow> True | Some p \<Rightarrow> pq_head_sha p \<noteq> sha) \<and> cq_prior_conflict_sha rq \<noteq> Some sha)"

lemma changed_something: "nonempty pushed = Some sha \<Longrightarrow> \<not> push_changed_nothing rq lease sha \<Longrightarrow> new_revision rq pushed"
  by (auto simp: push_changed_nothing_def new_revision_def nonempty_def split: option.splits if_splits)

lemma conflict_reports_push_nothing: "calls no_push (publish_conflict_reports pb rq deadline url sha co index escalate)"
  unfolding publish_conflict_reports_def merge_step_def maybe_auto_merge_def merge_directly_def merge_failure_def Let_def
  by (intro calls_rules calls_post_conflict_result) simp_all

definition honest_success :: "conflict_request \<Rightarrow> string option \<Rightarrow> failure + publication_result \<Rightarrow> bool" where
  "honest_success rq pushed y = (case y of
     Inl e \<Rightarrow> True
   | Inr r \<Rightarrow> rs_conflict_outcome r \<noteq> ''success'' \<or> new_revision rq pushed)"

lemma outcome_of_reports:
  "results (\<lambda>r. rs_conflict_outcome r = co) (publish_conflict_reports pb rq deadline url sha co index escalate)"
  unfolding publish_conflict_reports_def by (intro results_bind_any) (simp add: conflict_result_def)

lemma honest_reports:
  assumes "co \<noteq> ''success'' \<or> new_revision rq s"
  shows "pushing (honest_success rq) (publish_conflict_reports pb rq deadline url sha co index escalate) s"
  using follow_conj [OF no_push_keeps [OF conflict_reports_push_nothing] follow_every [OF outcome_of_reports]]
  by (rule follow_mono) (use assms in \<open>auto simp: honest_success_def split: sum.splits\<close>)

lemma honest_failure: "pushing (honest_success rq) (conflict_push_failed pb rq e) s"
proof -
  have res: "results (\<lambda>r. rs_conflict_outcome r = ''push_failed'') (conflict_push_failed pb rq e)"
    unfolding conflict_push_failed_def Let_def by (intro results_bind_any) (simp add: conflict_result_def)
  show ?thesis
    by (rule follow_mono [OF follow_every [OF res]]) (auto simp: honest_success_def split: sum.splits)
qed

lemma honest_pushed:
  "pushing (honest_success rq) (publish_conflict_pushed pb rq deadline lease sha) sha"
proof -
  have new: "(if cq_conflict_outcome rq = ''success''
        \<and> (case nonempty sha of None \<Rightarrow> False | Some sha \<Rightarrow> push_changed_nothing rq lease sha)
      then ''no_change'' else cq_conflict_outcome rq) \<noteq> ''success'' \<or> new_revision rq sha"
    using changed_something [of sha _ rq lease] by (auto simp: new_revision_def split: option.splits)
  show ?thesis
    unfolding publish_conflict_pushed_def Let_def by (rule honest_reports [OF new])
qed

text \<open>The end of the push stage: a result of its own, or the revision that was pushed.\<close>

definition staged :: "conflict_request \<Rightarrow> string option \<Rightarrow> failure + publication_result + (string option \<times> bool) \<times> string option \<Rightarrow> bool" where
  "staged rq pushed y = (case y of
     Inl e \<Rightarrow> True
   | Inr (Inl r) \<Rightarrow> honest_success rq pushed (Inr r)
   | Inr (Inr v) \<Rightarrow> pushed = snd v)"

lemma conflict_stage: "pushing (staged rq) (conflict_push_stage pb rq deadline) None"
proof -
  have "pushing (staged rq) (bind (push_unless_published pb (cq_branch rq) deadline (cq_issue_number rq)) (\<lambda>sha.
      Return (Inr (lease, sha)))) None" for lease
    by (rule follow_bindI [OF push_unless_published_records]) (simp_all add: staged_def)
  then have body: "pushing (staged rq) (bind (claim_lease pb (cq_issue_number rq)) (\<lambda>lease.
      bind (push_unless_published pb (cq_branch rq) deadline (cq_issue_number rq)) (\<lambda>sha. Return (Inr (lease, sha))))) None"
    by (intro follow_bindI [OF no_push_keeps [OF mark_pushes_nothing(3)]]) (simp_all add: staged_def del: follow_bind)
  have failed: "pushing (staged rq) (if is_git_or_timeout e then bind (conflict_push_failed pb rq e) (\<lambda>r. Return (Inl r)) else Raise e) s" for e s
    by (auto intro!: follow_bindI [OF honest_failure] simp: staged_def simp del: follow_bind)
  show ?thesis
    unfolding conflict_push_stage_def
    by (rule follow_handleI [OF body], assumption, rule failed)
qed

text \<open>
  A conflict attempt is reported as a success only for a push that brought something new: a revision which is
  neither the head that the pull request had nor the one of the latest conflict result; any other green push counts
  as \<open>no_change\<close> toward the budget.
\<close>

theorem conflict_success_is_new:
  "follow (\<lambda>q r. True) pushed_step (honest_success rq) (publish_conflict pb rq timeout) None"
proof -
  have stage: "pushing (honest_success rq) (bind (conflict_push_stage pb rq deadline) (\<lambda>stage. case stage of
          Inl result \<Rightarrow> Return result
        | Inr pushed \<Rightarrow> publish_conflict_pushed pb rq deadline (fst pushed) (snd pushed))) None" for deadline
    by (rule follow_bindI [OF conflict_stage])
      (auto simp: staged_def honest_success_def [of _ _ "Inl e" for e] honest_pushed split: sum.split)
  show ?thesis
    unfolding publish_conflict_def Let_def
    by (rule follow_bindI [OF no_push_keeps])
      (auto simp: monotonic_def calls_ask stage new_revision_def nonempty_def honest_success_def [of _ _ "Inl e" for e]
        intro!: honest_reports simp del: follow_bind)
qed



section \<open>Examples\<close>

definition example_publisher :: publisher where
  "example_publisher = \<lparr>pb_repository = ''o/r'', pb_max_retries = 3, pb_publish_timeout = 120, pb_has_attempt_state = False,
     pb_auto_merge = ''false'', pb_merge_method = ''merge'', pb_comment_mode = ''link''\<rparr>"

definition example_check :: check_report where
  "example_check = \<lparr>ck_command = ''make'', ck_exit_code = Some 0, ck_steps = [], ck_failed_step = None,
     ck_failed_index = None, ck_not_run_reason = None\<rparr>"

definition example_request :: publication_request where
  "example_request = \<lparr>pr_issue_number = 7, pr_issue_title = ''t'', pr_branch = ''agent/issue-7'', pr_started_at = ''t1Z'',
     pr_decision = \<lparr>cd_outcome = None, cd_publication_eligible = True, cd_publication_path = PATH_COMPLETE, cd_reasons = []\<rparr>,
     pr_check = example_check, pr_review_cycles = 0, pr_review_findings = ''none'', pr_details = ''d'', pr_base_branch = ''main'',
     pr_note_commit_sha = None, pr_auto_merge_opt_in = False, pr_reviews_performed = 1, pr_requeue_source = ''human'',
     pr_handoff_continuation_count = None, pr_handoff_notify = False, pr_worker_id = []\<rparr>"

definition example_pull :: pull_request where
  "example_pull = \<lparr>pq_number = 1, pq_url = ''u'', pq_node_id = [], pq_draft = False, pq_mergeable = [], pq_base_ref = [], pq_head_sha = ''old''\<rparr>"

definition example_conflict :: conflict_request where
  "example_conflict = \<lparr>cq_issue_number = 7, cq_issue_title = ''t'', cq_branch = ''agent/issue-7'', cq_started_at = ''t1Z'',
     cq_base_branch = ''main'', cq_outcome = INCOMPLETE, cq_conflict_outcome = ''rebase_conflict'', cq_reason = [],
     cq_details = ''d'', cq_push_branch = False, cq_pull_request = Some example_pull, cq_check = example_check,
     cq_conflicted_files = [''a b''], cq_auto_merge_opt_in = False, cq_extra_files = [], cq_fix_commits = [],
     cq_conflict_index = 1, cq_conflict_budget = 3, cq_escalate = False, cq_conflict_prior = 0, cq_failure_output = [],
     cq_requeue_source = None, cq_worker_id = [], cq_prior_conflict_sha = None\<rparr>"

text \<open>GitHub and git as they answer when all goes well; the state is the list of the comments posted.\<close>

definition example_pub_serve :: "string list \<Rightarrow> pub_call \<Rightarrow> pub_answer \<times> string list" where
  "example_pub_serve cs q = (case q of
     Monotonic \<Rightarrow> (Time 0, cs)
   | Push_branch a b c d e \<Rightarrow> (Pushed ''new'', cs)
   | Find_pull_request a b \<Rightarrow> (Pull None, cs)
   | Create_pull_request a b c d e \<Rightarrow> (Pull_made example_pull, cs)
   | Find_attempt_comment a n m \<Rightarrow> (There (list_ex (py_contains m) cs), cs)
   | Post_comment a n b \<Rightarrow> (Well, b # cs)
   | _ \<Rightarrow> (Well, cs))"

theorem complete_means_published_witness:
  "case run_prog example_pub_serve (publish example_publisher (\<lambda>s. None) example_request None) [] of
     (Inl e, w) \<Rightarrow> False
   | (Inr r, w) \<Rightarrow> rs_outcome r = COMPLETE \<and> published_result example_publisher example_request r"
proof -
  have "every (\<lambda>_. True) (\<lambda>y. case y of Inl e \<Rightarrow> True | Inr r \<Rightarrow> truthful example_publisher example_request r)
      (publish example_publisher (\<lambda>s. None) example_request None)"
    by (rule complete_means_published) (simp add: example_request_def)
  from every_run [OF this, of example_pub_serve "[]"]
  have "case fst (run_prog example_pub_serve (publish example_publisher (\<lambda>s. None) example_request None) []) of
      Inl e \<Rightarrow> True | Inr r \<Rightarrow> truthful example_publisher example_request r" .
  moreover have "case fst (run_prog example_pub_serve (publish example_publisher (\<lambda>s. None) example_request None) []) of
      Inl e \<Rightarrow> False | Inr r \<Rightarrow> rs_outcome r = COMPLETE"
    by code_simp
  ultimately show ?thesis by (auto simp: truthful_def split: prod.splits sum.splits)
qed

theorem failed_conflict_writes_only_its_comment_witness:
  "every reports_only (\<lambda>y. case y of Inl e \<Rightarrow> True | Inr r \<Rightarrow> keeps_request example_conflict r)
     (publish_conflict example_publisher example_conflict None)"
  by (rule failed_conflict_writes_only_its_comment) (simp add: example_conflict_def)

theorem spaced_conflict_file_never_reported_witness:
  "every (\<lambda>q. case q of Post_comment a n b \<Rightarrow> False | _ \<Rightarrow> True) (\<lambda>_. True) (publish_conflict example_publisher example_conflict None)"
  by (rule spaced_conflict_file_never_reported [of "''a b''"]) (simp_all add: example_conflict_def word_like_def py_space_def)

end
