(* ===== verification/Publication_Record.thy ===== *)
theory Publication_Record
  imports Publication_Props
begin

text \<open>
  The shared handoff comment of an issue: publication calls it confirmed only when the comment, read back, carries the
  record of this attempt and of the pushed revision, and never writes over the record of a later attempt.
\<close>

section \<open>The shared handoff comment\<close>

text \<open>
  Followed along the publication of a record: the record that the last read of the shared comment told, the revision
  last pushed, and whether the comment was ever written over one that should stay.
\<close>

record record_trace =
  rt_read :: "handoff_record option"
  rt_pushed :: "string option"
  rt_overwrote :: bool

definition stays :: "iso_parser \<Rightarrow> string \<Rightarrow> handoff_record \<Rightarrow> bool" where
  "stays parse_iso attempt_id r \<longleftrightarrow>
     hr_attempt_id r \<noteq> attempt_id \<and> attempt_id_greater parse_iso (hr_attempt_id r) attempt_id \<noteq> Inr False"

definition record_step :: "iso_parser \<Rightarrow> string \<Rightarrow> record_trace \<Rightarrow> pub_call \<Rightarrow> pub_answer \<Rightarrow> record_trace" where
  "record_step parse_iso attempt_id s q r = (case q of
     Find_handoff_record a n \<Rightarrow>
       s\<lparr>rt_read := (case r of Record_found (Some x) \<Rightarrow> parse_handoff_record (hf_body x) | _ \<Rightarrow> None)\<rparr>
   | Update_handoff_record a b c \<Rightarrow>
       s\<lparr>rt_read := None,
         rt_overwrote := rt_overwrote s \<or> (case rt_read s of None \<Rightarrow> True | Some p \<Rightarrow> stays parse_iso attempt_id p)\<rparr>
   | Create_handoff_record a n c \<Rightarrow> s\<lparr>rt_read := None\<rparr>
   | Push_branch a b c d e \<Rightarrow> (case r of Pushed sha \<Rightarrow> s\<lparr>rt_pushed := Some sha\<rparr> | _ \<Rightarrow> s)
   | _ \<Rightarrow> s)"

text \<open>The intent store answers with a record of the attempt that it was asked for (see \<open>first_intent_wins\<close>).\<close>

definition intent_of_attempt :: "pub_call \<Rightarrow> pub_answer \<Rightarrow> bool" where
  "intent_of_attempt q r = (case q of
     Save_intent i \<Rightarrow> (case r of Intent j \<Rightarrow> hr_attempt_id j = hr_attempt_id i | _ \<Rightarrow> True)
   | _ \<Rightarrow> True)"

definition names_attempt :: "publisher \<Rightarrow> publication_request \<Rightarrow> string option \<Rightarrow> handoff_record \<Rightarrow> bool" where
  "names_attempt pb rq sha p \<longleftrightarrow>
     hr_attempt_id p = pr_started_at rq \<and> hr_repository p = pb_repository pb \<and> hr_issue_number p = pr_issue_number rq
     \<and> hr_branch p = pr_branch rq \<and> Some (hr_note_sha p) = pr_note_commit_sha rq \<and> Some (hr_branch_sha p) = sha"

definition confirmed :: "publisher \<Rightarrow> publication_request \<Rightarrow> record_trace \<Rightarrow> failure + bool \<Rightarrow> bool" where
  "confirmed pb rq s y \<longleftrightarrow>
     \<not> rt_overwrote s
     \<and> (y = Inr True \<longrightarrow> pr_handoff_continuation_count rq = None \<or> pr_note_commit_sha rq = None
        \<or> (\<exists>p. rt_read s = Some p \<and> names_attempt pb rq (rt_pushed s) p))"

abbreviation recording ::
  "iso_parser \<Rightarrow> string \<Rightarrow> (record_trace \<Rightarrow> failure + 'a \<Rightarrow> bool) \<Rightarrow> 'a pub_prog \<Rightarrow> record_trace \<Rightarrow> bool" where
  "recording parse_iso a \<equiv> follow intent_of_attempt (record_step parse_iso a)"

lemma record_step_quiet [simp]:
  "record_step f a s Monotonic r = s" "record_step f a s (Log b c d n) r = s" "record_step f a s Read_attempt r = s"
  "record_step f a s (Advance_lease l) r = s" "record_step f a s (Enter_phase p) r = s" "record_step f a s (Save_intent i) r = s"
  by (simp_all add: record_step_def)

text \<open>Reading the shared comment, and what the confirmation says.\<close>

definition read_ok :: "handoff_record \<Rightarrow> record_trace \<Rightarrow> record_trace \<Rightarrow> failure + bool \<Rightarrow> bool" where
  "read_ok intent s t y \<longleftrightarrow>
     rt_overwrote t = rt_overwrote s \<and> rt_pushed t = rt_pushed s \<and> (y = Inr True \<longrightarrow> rt_read t = Some intent)"

lemma log_followed [simp]: "recording f a Q (log_event e d l n) s \<longleftrightarrow> Q s (Inr ())"
  by (simp add: log_event_def intent_of_attempt_def)

lemma failure_followed [simp]: "recording f a Q (record_failed d n) s \<longleftrightarrow> Q s (Inr False)"
  by (simp add: record_failed_def)

lemma find_followed:
  "recording f a Q (find_handoff_record pb n) s \<longleftrightarrow>
     (\<forall>r. Q (record_step f a s (Find_handoff_record (pb_repository pb) n) r)
       (reply (\<lambda>r. case r of Record_found x \<Rightarrow> Some x | _ \<Rightarrow> None) r))"
  by (simp add: find_handoff_record_def intent_of_attempt_def)

lemma confirm_reads: "recording f a (read_ok intent s) (confirm_shared_comment pb intent) s"
proof -
  have "recording f a (\<lambda>t y. rt_overwrote t = rt_overwrote s \<and> rt_pushed t = rt_pushed s
      \<and> (\<forall>x. y = Inr (Some x) \<longrightarrow> rt_read t = parse_handoff_record (hf_body x))) (find_handoff_record pb n) s" for n
    unfolding find_followed by (auto simp: record_step_def reply_def split: pub_answer.splits option.splits)
  then have "recording f a (\<lambda>t y. rt_overwrote t = rt_overwrote s \<and> rt_pushed t = rt_pushed s
      \<and> (\<forall>x. y = Inr (Inr (Some x)) \<longrightarrow> rt_read t = parse_handoff_record (hf_body x)))
      (handle (bind (find_handoff_record pb n) (\<lambda>x. Return (Inr x))) (\<lambda>e. Return (Inl e))) s" for n
    unfolding follow_handle follow_bind by (rule follow_mono) (auto split: sum.split)
  then show ?thesis
    unfolding confirm_shared_comment_def
    by (rule follow_bindI) (auto simp: read_ok_def split: sum.split option.split)
qed

lemma read_ok_trans:
  "rt_overwrote t = rt_overwrote s \<Longrightarrow> rt_pushed t = rt_pushed s \<Longrightarrow> read_ok intent t u y \<Longrightarrow> read_ok intent s u y"
  by (simp add: read_ok_def)

lemma write_confirmed:
  assumes "\<And>t body r. rt_overwrote t = rt_overwrote s \<Longrightarrow> rt_read t = rt_read s \<Longrightarrow> rt_overwrote (record_step f a t (write_call body) r) = rt_overwrote s"
    and "\<And>t body r. rt_pushed (record_step f a t (write_call body) r) = rt_pushed t"
  shows "recording f a (read_ok intent s) (write_shared_comment pb intent deadline write_call verb event) s"
proof -
  have deadline: "recording f a (\<lambda>t y. t = s) (check_deadline deadline) s"
    by (auto simp: check_deadline_def monotonic_def intent_of_attempt_def split: sum.split)
  let ?same = "\<lambda>t. rt_overwrote t = rt_overwrote s \<and> rt_pushed t = rt_pushed s"
  have written: "recording f a (\<lambda>t y. ?same t) (bind (act (write_call body)) (\<lambda>_. Return True)) s" for body
    using assms(1) [OF refl refl] assms(2) [of s] by (auto simp: act_def split: sum.split)
  have body: "recording f a (\<lambda>t y. ?same t) (handle (bind (check_deadline deadline) (\<lambda>_.
           case build_handoff_record_body intent of
             Inl e \<Rightarrow> Raise (OtherError ''ValueError'' e)
           | Inr body \<Rightarrow> bind (act (write_call body)) (\<lambda>_. Return True)))
         (\<lambda>e. bind (log_event ''handoff_record_failed''
              (''Shared handoff comment could not be '' @ verb @ '': '' @ exception_detail e) ''ERROR'' (hr_issue_number intent))
            (\<lambda>_. Return False))) s"
  proof (rule follow_handleI [where R = "\<lambda>t y. ?same t"])
    show "recording f a (\<lambda>t y. ?same t) (bind (check_deadline deadline) (\<lambda>_.
           case build_handoff_record_body intent of
             Inl e \<Rightarrow> Raise (OtherError ''ValueError'' e)
           | Inr body \<Rightarrow> bind (act (write_call body)) (\<lambda>_. Return True))) s"
      by (rule follow_bindI [OF deadline]) (auto split: sum.split intro!: written simp del: follow_bind)
  qed simp_all
  have rest: "recording f a (read_ok intent s) (bind (confirm_shared_comment pb intent) (\<lambda>confirmed.
          if w \<and> confirmed
          then bind (log_event event d ''INFO'' n) (\<lambda>_. Return True)
          else Return confirmed)) t" if "?same t" for t w d n
    using that by (intro follow_bindI [OF follow_mono [OF confirm_reads, where Q' = "read_ok intent s"]])
      (auto simp: read_ok_def)
  show ?thesis
    unfolding write_shared_comment_def
    by (rule follow_bindI [OF body]) (auto simp: read_ok_def intro!: rest simp del: follow_bind)
qed

lemma create_confirmed: "recording f a (read_ok intent s) (create_shared_comment pb intent deadline) s"
  unfolding create_shared_comment_def by (rule write_confirmed) (simp_all add: record_step_def)

lemma update_confirmed:
  assumes "rt_read s = Some p" "\<not> stays f a p"
  shows "recording f a (read_ok intent s) (update_shared_comment pb comment intent deadline) s"
  unfolding update_shared_comment_def by (rule write_confirmed) (use assms in \<open>simp_all add: record_step_def\<close>)

lemma place_confirmed: "recording f (hr_attempt_id intent) (read_ok intent s) (place_record pb f intent deadline) s"
proof -
  let ?same = "\<lambda>t. rt_overwrote t = rt_overwrote s \<and> rt_pushed t = rt_pushed s"
  have "recording f (hr_attempt_id intent) (\<lambda>t y. ?same t \<and> (\<forall>x. y = Inr (Some x) \<longrightarrow> rt_read t = parse_handoff_record (hf_body x)))
      (find_handoff_record pb n) s" for n
    unfolding find_followed by (auto simp: record_step_def reply_def split: pub_answer.splits option.splits)
  then have found: "recording f (hr_attempt_id intent) (\<lambda>t y. ?same t \<and> (\<forall>x. y = Inr (Inr (Some x)) \<longrightarrow> rt_read t = parse_handoff_record (hf_body x)))
      (handle (bind (find_handoff_record pb n) (\<lambda>x. Return (Inr x))) (\<lambda>e. Return (Inl e))) s" for n
    unfolding follow_handle follow_bind by (rule follow_mono) (auto split: sum.split)
  have create: "recording f (hr_attempt_id intent) (read_ok intent s) (create_shared_comment pb intent deadline) t" if "?same t" for t
    by (rule follow_mono [OF create_confirmed]) (use that read_ok_trans in blast)
  have update: "recording f (hr_attempt_id intent) (read_ok intent s) (update_shared_comment pb c intent deadline) t"
    if "?same t" "rt_read t = Some p" "\<not> stays f (hr_attempt_id intent) p" for t c p
    by (rule follow_mono [OF update_confirmed [OF that(2,3)]]) (use that(1) read_ok_trans in blast)
  show ?thesis
    unfolding place_record_def
    by (rule follow_bindI [OF found])
      (auto simp: read_ok_def stays_def is_newer_attempt_def split: sum.split option.split bool.split
        intro!: create update simp del: follow_bind)
qed


text \<open>The revision under which the record is published is the one pushed last.\<close>

definition no_update :: "pub_call \<Rightarrow> bool" where
  "no_update q = (case q of Update_handoff_record a b c \<Rightarrow> False | _ \<Rightarrow> True)"

lemma no_update_keeps: "calls no_update m \<Longrightarrow> recording f a (\<lambda>t y. rt_overwrote t = rt_overwrote s) m s"
  by (rule follow_calls [where P = no_update and I = "\<lambda>t. rt_overwrote t = rt_overwrote s"])
    (auto simp: no_update_def record_step_def split: pub_call.splits pub_answer.splits)

lemma push_updates_nothing: "calls no_update (push_and_mark pb branch deadline n)"
  unfolding push_and_mark_def push_branch_def claim_lease_def advance_lease_def mark_publishing_def read_attempt_def
  by (intro calls_rules) (simp_all add: no_update_def)

lemma push_recorded:
  "recording f a (\<lambda>t y. rt_overwrote t = rt_overwrote s \<and> (\<forall>sha. y = Inr sha \<longrightarrow> rt_pushed t = Some sha))
    (push_and_mark pb branch deadline n) s"
proof -
  have "recording f a (\<lambda>t y. \<forall>sha. y = Inr sha \<longrightarrow> rt_pushed t = Some sha) (push_and_mark pb branch deadline n) s"
    by (rule follow_project [where proj = rt_pushed, OF push_records])
      (auto simp: record_step_def pushed_step_def split: pub_call.split pub_answer.split)
  from follow_conj [OF no_update_keeps [OF push_updates_nothing] this] show ?thesis .
qed

lemma revision_verified:
  assumes "\<And>x. pushed_sha = Some x \<Longrightarrow> rt_pushed s = Some x"
  shows "recording f a (\<lambda>t y. rt_overwrote t = rt_overwrote s \<and> (\<forall>sha. y = Inr (Some sha) \<longrightarrow> rt_pushed t = Some sha))
    (verified_revision pb rq pushed_sha deadline) s"
proof (cases pushed_sha)
  case None
  have body: "recording f a (\<lambda>t y. rt_overwrote t = rt_overwrote s \<and> (\<forall>sha. y = Inr (Some sha) \<longrightarrow> rt_pushed t = Some sha))
      (bind (push_and_mark pb branch deadline n) (\<lambda>sha. Return (Some sha))) s" for branch n
    by (rule follow_bindI [OF push_recorded]) auto
  show ?thesis
    unfolding verified_revision_def None option.case
    by (rule follow_handleI [OF body]) (auto split: failure.split)
qed (use assms in \<open>simp add: verified_revision_def\<close>)

lemma intent_saved:
  "recording f (hr_attempt_id r) (\<lambda>t y. t = s \<and> (\<forall>i. y = Inr (Some i) \<longrightarrow> hr_attempt_id i = hr_attempt_id r)) (save_intent r) s"
  by (auto simp: save_intent_def reply_def intent_of_attempt_def split: sum.split failure.split pub_answer.splits)

lemma verified_published:
  assumes "\<not> rt_overwrote s" "rt_pushed s = Some sha"
    and "pr_handoff_continuation_count rq = Some count" "pr_note_commit_sha rq = Some note_sha"
  shows "recording f (pr_started_at rq) (confirmed pb rq) (publish_verified pb f rq count note_sha sha deadline) s"
proof -
  have saved: "recording f (pr_started_at rq) (\<lambda>t y. t = s \<and> (\<forall>i. y = Inr (Some i) \<longrightarrow> hr_attempt_id i = pr_started_at rq))
      (save_intent (intended_record pb rq count note_sha sha)) s"
    using intent_saved [of f "intended_record pb rq count note_sha sha" s] by (simp add: intended_record_def)
  have place: "recording f (pr_started_at rq) (confirmed pb rq) (place_record pb f i deadline) s"
    if "hr_attempt_id i = pr_started_at rq" "hr_branch_sha i = sha" "hr_note_sha i = note_sha" "hr_branch i = pr_branch rq"
      "hr_issue_number i = pr_issue_number rq" "hr_repository i = pb_repository pb" for i
    using place_confirmed [of f i s pb deadline] unfolding that(1)
    by (rule follow_mono) (use that assms in \<open>auto simp: read_ok_def confirmed_def names_attempt_def\<close>)
  show ?thesis
    unfolding publish_verified_def
    by (rule follow_bindI [OF saved]) (use assms(1) in \<open>auto simp: confirmed_def [of _ _ _ "Inl e" for e]
      confirmed_def [of _ _ _ "Inr False"] split: option.split intro!: place\<close>)
qed

text \<open>
  C20. A handoff is confirmed only by reading it back: publication returns true, when a record was asked for, only if
  the shared comment as it was last read parses to the record of this attempt, repository, issue, branch and note,
  with the revision that was last pushed. And it never updates a comment that it has not read to be this attempt's
  or that of an earlier one.
\<close>

theorem handoff_confirmed_by_rereading:
  assumes "rt_overwrote s = False" "\<And>x. pushed_sha = Some x \<Longrightarrow> rt_pushed s = Some x"
  shows "follow intent_of_attempt (record_step parse_iso (pr_started_at rq)) (confirmed pb rq)
    (publish_handoff_record pb parse_iso rq pushed_sha deadline) s"
proof (cases "pr_handoff_continuation_count rq = None \<or> pr_note_commit_sha rq = None")
  case False
  then obtain count note_sha where some: "pr_handoff_continuation_count rq = Some count" "pr_note_commit_sha rq = Some note_sha"
    by auto
  have rest: "recording parse_iso (pr_started_at rq) (confirmed pb rq)
      (case verified of None \<Rightarrow> Return False | Some sha \<Rightarrow> publish_verified pb parse_iso rq count note_sha sha deadline) t"
    if "rt_overwrote t = rt_overwrote s \<and> (\<forall>sha. Inr verified = Inr (Some sha) \<longrightarrow> rt_pushed t = Some sha)" for t verified
    using that assms(1) some by (cases verified) (auto simp: confirmed_def intro!: verified_published)
  show ?thesis
  proof (cases "valid_record_request rq count note_sha")
    case True
    then show ?thesis
      unfolding publish_handoff_record_def some option.case prod.case
      by (simp only: not_True_eq_False if_False, intro follow_bindI [OF revision_verified [OF assms(2)] _ rest])
        (use assms(1) in \<open>simp_all add: confirmed_def\<close>)
  qed (use assms(1) some in \<open>simp add: publish_handoff_record_def confirmed_def\<close>)
qed (use assms(1) in \<open>auto simp: publish_handoff_record_def confirmed_def split: option.split\<close>)


theorem handoff_confirmed_by_rereading_witness:
  "follow intent_of_attempt (record_step (\<lambda>s. None) ''t1Z'')
     (confirmed example_publisher (example_request\<lparr>pr_handoff_continuation_count := Some 1, pr_note_commit_sha := Some ''abc''\<rparr>))
     (publish_handoff_record example_publisher (\<lambda>s. None)
        (example_request\<lparr>pr_handoff_continuation_count := Some 1, pr_note_commit_sha := Some ''abc''\<rparr>) (Some ''new'') 10)
     \<lparr>rt_read = None, rt_pushed = Some ''new'', rt_overwrote = False\<rparr>"
  using handoff_confirmed_by_rereading [of "\<lparr>rt_read = None, rt_pushed = Some ''new'', rt_overwrote = False\<rparr>" "Some ''new''"
      "\<lambda>s. None" "example_request\<lparr>pr_handoff_continuation_count := Some 1, pr_note_commit_sha := Some ''abc''\<rparr>"]
  by (simp add: example_request_def)



section \<open>A handoff whose branch moved\<close>

text \<open>
  In the verbose mode the result comment is posted before the record, once per attempt. When the push that verifies
  the record then finds the branch moved, the attempt ends as an infrastructure error, but its only comment says
  handoff: the comment of the failure is taken for posted already.
\<close>

definition moved_checkpoint :: checkpoint where
  "moved_checkpoint = \<lparr>ck_issue_number = 7, ck_branch = ''agent/issue-7'', ck_phase = PUBLISHING, ck_started_at = ''t1Z'',
     ck_updated_at = ''t2Z'', ck_auto_merge_opt_in = False, ck_requeue_source = ''human'', ck_issue_title = None,
     ck_continuation_index = None, ck_attempt_kind = ''ordinary'', ck_claim_branch_revision = Some ''old'',
     ck_claim_lease_recorded = True\<rparr>"

definition moved_serve :: "string list \<Rightarrow> pub_call \<Rightarrow> pub_answer \<times> string list" where
  "moved_serve cs q = (case q of
     Push_branch a b c d e \<Rightarrow> (Raised (BranchMovedSinceClaimError ''branch moved since claim''), cs)
   | Read_attempt \<Rightarrow> (Attempt (Some moved_checkpoint), cs)
   | _ \<Rightarrow> example_pub_serve cs q)"

definition handoff_request :: publication_request where
  "handoff_request = example_request\<lparr>
     pr_decision := \<lparr>cd_outcome = Some HANDOFF, cd_publication_eligible = False, cd_publication_path = PATH_PARTIAL, cd_reasons = []\<rparr>,
     pr_handoff_continuation_count := Some 1, pr_note_commit_sha := Some ''abc''\<rparr>"

lemma verbose_moved_handoff_comment:
  "case run_prog moved_serve
       (publish (example_publisher\<lparr>pb_has_attempt_state := True, pb_comment_mode := ''verbose''\<rparr>) (\<lambda>s. None) handoff_request None) [] of
     (Inr r, [body]) \<Rightarrow> rs_outcome r = INFRASTRUCTURE_ERROR \<and> rs_comment_posted r
       \<and> py_startswith ''## Agent Attempt Result: handoff'' body
   | _ \<Rightarrow> False"
  by code_simp

end
