(* ===== verification/Conflict_Comments.thy ===== *)
theory Conflict_Comments
  imports Publication_Props Handoff_Record_Props
begin

text \<open>
  The comment of a conflict attempt, read back by the next attempt: the outcome and the revision in its marker, and
  the count of failures in a row that it leaves.
\<close>

section \<open>The marker\<close>

lemma plain_str_of_int: "CHR ''<'' \<notin> set (str_of_int n)"
  using str_of_nat_digits [of "nat n"] str_of_nat_digits [of "nat (- n)"]
  by (auto simp: str_of_int_def list_all_iff is_digit_def char_between_def)

lemma find_not: "find (\<lambda>v. \<not> P v) xs = None \<longleftrightarrow> list_all P xs"
  by (auto simp: find_None_iff list_all_iff)

text \<open>The values that a marker was built from.\<close>

lemma marker_built:
  assumes "conflict_attempt_marker co sha reason files fxs extras = Inr m"
  shows "co \<in> set CONFLICT_OUTCOMES" "word_like (or_none sha)" "\<And>r. nonempty reason = Some r \<Longrightarrow> word_like r"
    "list_all word_like files" "list_all word_like fxs" "list_all word_like extras"
    "m = CONFLICT_MARKER_PREFIX @ ('' '' @ py_join '' '' (conflict_parts co sha reason files fxs extras) @ '' '') @ ''-->''"
proof -
  have "find (\<lambda>v. \<not> word_like v) ([co, or_none sha] @ (case nonempty reason of None \<Rightarrow> [] | Some r \<Rightarrow> [r]) @ files @ fxs @ extras) = None"
    and co: "co \<in> set CONFLICT_OUTCOMES"
    and m: "m = CONFLICT_MARKER_PREFIX @ '' '' @ py_join '' '' (conflict_parts co sha reason files fxs extras) @ '' -->''"
    using assms unfolding conflict_attempt_marker_def Let_def by (auto split: if_splits option.splits)
  then have all: "list_all word_like ([co, or_none sha] @ (case nonempty reason of None \<Rightarrow> [] | Some r \<Rightarrow> [r]) @ files @ fxs @ extras)"
    unfolding find_not by simp
  then show "word_like (or_none sha)" "list_all word_like files" "list_all word_like fxs" "list_all word_like extras"
    by simp_all
  show "word_like r" if "nonempty reason = Some r" for r
    using all that by simp
  show "co \<in> set CONFLICT_OUTCOMES" by (rule co)
  show "m = CONFLICT_MARKER_PREFIX @ ('' '' @ py_join '' '' (conflict_parts co sha reason files fxs extras) @ '' '') @ ''-->''"
    using m by simp
qed

lemma join_word:
  assumes "xs \<noteq> []" "list_all word_like xs"
  shows "word_like (py_join '','' xs)"
proof -
  have "list_all (\<lambda>c. \<not> py_space c) (py_join '','' xs)" if "list_all word_like xs" for xs
    using that by (induction "'','' :: string" xs rule: py_join.induct) (auto simp: word_like_def py_space_def)
  moreover have "py_join '','' xs \<noteq> []"
    using assms by (cases xs; cases "tl xs") (auto simp: word_like_def)
  ultimately show ?thesis using assms(2) by (simp add: word_like_def)
qed

lemma key_word: "word_like v \<Longrightarrow> list_all (\<lambda>c. \<not> py_space c) k \<Longrightarrow> word_like (k @ v)"
  by (auto simp: word_like_def)

lemma conflict_parts_words:
  assumes "word_like co" "word_like (or_none sha)" "\<And>r. nonempty reason = Some r \<Longrightarrow> word_like r"
    "list_all word_like files" "list_all word_like fxs" "list_all word_like extras"
  shows "list_all word_like (conflict_parts co sha reason files fxs extras)"
  using assms join_word [of files] join_word [of fxs] join_word [of extras]
  by (auto simp: conflict_parts_def split: option.split intro!: key_word) (simp_all add: py_space_def word_like_def)


lemma conflict_fields:
  assumes "co \<in> set CONFLICT_OUTCOMES" "word_like (or_none sha)" "\<And>r. nonempty reason = Some r \<Longrightarrow> word_like r"
    "list_all word_like files" "list_all word_like fxs" "list_all word_like extras"
  shows "map_of (fields_of ('' '' @ py_join '' '' (conflict_parts co sha reason files fxs extras) @ '' '')) ''outcome'' = Some co"
    and "map_of (fields_of ('' '' @ py_join '' '' (conflict_parts co sha reason files fxs extras) @ '' '')) ''sha'' = Some (or_none sha)"
proof -
  have co: "word_like co" using assms(1) by (auto simp: CONFLICT_OUTCOMES_def word_like_def py_space_def)
  have ne: "x \<noteq> []" if "word_like x" for x using that by (simp add: word_like_def)
  obtain rest where rest: "rest = (case nonempty reason of None \<Rightarrow> [] | Some r \<Rightarrow> [(''reason'', r)])
    @ (if files = [] then [] else [(''files'', py_join '','' files)])
    @ (if fxs = [] then [] else [(''fix_commits'', py_join '','' fxs)])
    @ (if extras = [] then [] else [(''extra_files'', py_join '','' extras)])"
    by simp
  have words: "py_words ('' '' @ py_join '' '' (conflict_parts co sha reason files fxs extras) @ '' '')
      = conflict_parts co sha reason files fxs extras"
    using py_words_join_end [OF conflict_parts_words [OF co assms(2-6)]] by simp
  have f: "List.map_filter field_of (conflict_parts co sha reason files fxs extras)
      = [(''outcome'', co), (''sha'', or_none sha)] @ rest"
    using field_of_part [of "''outcome''" co] field_of_part [of "''sha''" "or_none sha"] field_of_part [of "''reason''"]
      field_of_part [of "''files''" "py_join '','' files"] field_of_part [of "''fix_commits''" "py_join '','' fxs"]
      field_of_part [of "''extra_files''" "py_join '','' extras"]
      co [THEN ne] assms(2,3) [THEN ne] join_word [of files] join_word [of fxs] join_word [of extras] assms(4-6)
    by (auto simp: rest conflict_parts_def List.map_filter_def word_like_def split: option.split)
  have k: "map_of (rev rest) ''outcome'' = None" "map_of (rev rest) ''sha'' = None"
    unfolding rest by (cases "nonempty reason"; simp)+
  show "map_of (fields_of ('' '' @ py_join '' '' (conflict_parts co sha reason files fxs extras) @ '' '')) ''outcome'' = Some co"
    "map_of (fields_of ('' '' @ py_join '' '' (conflict_parts co sha reason files fxs extras) @ '' '')) ''sha'' = Some (or_none sha)"
    unfolding fields_of_def words f rev_append map_of_append map_add_def k by simp_all
qed

lemma py_cut_open:
  assumes "CHR ''<'' \<notin> set a" "\<not> py_startswith (CHR ''<'' # cs) (CHR ''<'' # a @ s)"
  shows "py_cut (CHR ''<'' # cs) (CHR ''<'' # a @ s) = map_option (\<lambda>(x, y). (CHR ''<'' # a @ x, y)) (py_cut (CHR ''<'' # cs) s)"
  using assms(2) py_cut_skip [OF assms(1), of cs s] by (cases "py_cut (CHR ''<'' # cs) s") (auto simp: split_beta)

section \<open>The comment\<close>

text \<open>The hidden part: the attempt, possibly the Worker, the conflict, possibly the requeue source.\<close>

definition conflict_tail :: "string \<Rightarrow> string \<Rightarrow> string \<Rightarrow> string \<Rightarrow> string" where
  "conflict_tail started_at worker_id inner source =
     attempt_comment_marker started_at @ nl @ snd (worker_blocks worker_id)
     @ CONFLICT_MARKER_PREFIX @ inner @ ''-->'' @ source"

lemma tail_cut:
  assumes "CHR ''<'' \<notin> set started_at" "CHR ''<'' \<notin> set worker"
  shows "\<exists>a. py_cut CONFLICT_MARKER_PREFIX (conflict_tail started_at worker inner source) = Some (a, inner @ ''-->'' @ source)"
proof -
  have strip: "set (py_strip s) \<subseteq> set s" for s
    by (auto simp: py_strip_def py_rstrip_def py_lstrip_def dest!: set_dropWhileD)
  have w: "CHR ''<'' \<notin> set (py_strip (py_strip worker))"
    using assms(2) strip [of worker] strip [of "py_strip worker"] by blast
  have att: "py_cut CONFLICT_MARKER_PREFIX (attempt_comment_marker started_at @ nl @ s)
      = map_option (\<lambda>(x, y). (attempt_comment_marker started_at @ nl @ x, y)) (py_cut CONFLICT_MARKER_PREFIX s)" for s
    using py_cut_open [of "''!-- agent-attempt: '' @ started_at @ '' -->'' @ nl" "tl CONFLICT_MARKER_PREFIX" s] assms(1)
    by (simp add: attempt_comment_marker_def nl_def CONFLICT_MARKER_PREFIX_def py_startswith_def)
  have wrk: "py_cut CONFLICT_MARKER_PREFIX (snd (worker_blocks worker) @ s)
      = map_option (\<lambda>(x, y). (snd (worker_blocks worker) @ x, y)) (py_cut CONFLICT_MARKER_PREFIX s)" for s
    using py_cut_open [of "''!-- agent-worker: '' @ py_strip (py_strip worker) @ '' -->'' @ nl" "tl CONFLICT_MARKER_PREFIX" s] w
    by (cases "py_cut CONFLICT_MARKER_PREFIX s")
      (auto simp: worker_blocks_def worker_marker_def nl_def CONFLICT_MARKER_PREFIX_def py_startswith_def)
  have "py_cut CONFLICT_MARKER_PREFIX (CONFLICT_MARKER_PREFIX @ inner @ ''-->'' @ source) = Some ([], inner @ ''-->'' @ source)"
    unfolding CONFLICT_MARKER_PREFIX_def using py_cut_at [of "CHR ''<''" "[]"] by (metis append_Nil empty_iff empty_set)
  then show ?thesis unfolding conflict_tail_def att wrk by auto
qed


lemma tail_contains:
  assumes "CHR ''<'' \<notin> set started_at" "CHR ''<'' \<notin> set worker" "CHR ''<'' \<notin> set inner"
  shows "py_contains (CHR ''<'' # cs) (conflict_tail started_at worker inner source) \<longleftrightarrow>
     py_startswith (CHR ''<'' # cs) (attempt_comment_marker started_at @ nl @ snd (worker_blocks worker) @ CONFLICT_MARKER_PREFIX @ inner @ ''-->'' @ source)
     \<or> (\<not> py_blank worker \<and> py_startswith (CHR ''<'' # cs) (worker_marker (py_strip worker) @ nl @ CONFLICT_MARKER_PREFIX @ inner @ ''-->'' @ source))
     \<or> py_startswith (CHR ''<'' # cs) (CONFLICT_MARKER_PREFIX @ inner @ ''-->'' @ source)
     \<or> py_contains (CHR ''<'' # cs) source"
proof -
  have strip: "set (py_strip s) \<subseteq> set s" for s
    by (auto simp: py_strip_def py_rstrip_def py_lstrip_def dest!: set_dropWhileD)
  have w: "CHR ''<'' \<notin> set (py_strip (py_strip worker))"
    using assms(2) strip [of worker] strip [of "py_strip worker"] by blast
  have con: "py_contains (CHR ''<'' # cs) (CONFLICT_MARKER_PREFIX @ inner @ ''-->'' @ source) \<longleftrightarrow>
      py_startswith (CHR ''<'' # cs) (CONFLICT_MARKER_PREFIX @ inner @ ''-->'' @ source) \<or> py_contains (CHR ''<'' # cs) source"
    using contains_open(2) [of "tl CONFLICT_MARKER_PREFIX @ inner @ ''-->''" cs source] assms(3)
    by (simp add: CONFLICT_MARKER_PREFIX_def)
  have att: "py_contains (CHR ''<'' # cs) (attempt_comment_marker started_at @ nl @ s) \<longleftrightarrow>
      py_startswith (CHR ''<'' # cs) (attempt_comment_marker started_at @ nl @ s) \<or> py_contains (CHR ''<'' # cs) s" for s
    using contains_open(2) [of "''!-- agent-attempt: '' @ started_at @ '' -->'' @ nl" cs s] assms(1)
    by (simp add: attempt_comment_marker_def nl_def)
  have wrk: "py_contains (CHR ''<'' # cs) (worker_marker (py_strip worker) @ nl @ s) \<longleftrightarrow>
      py_startswith (CHR ''<'' # cs) (worker_marker (py_strip worker) @ nl @ s) \<or> py_contains (CHR ''<'' # cs) s" for s
    using contains_open(2) [of "''!-- agent-worker: '' @ py_strip (py_strip worker) @ '' -->'' @ nl" cs s] w
    by (simp add: worker_marker_def nl_def)
  show ?thesis
    by (cases "py_blank worker") (simp_all add: conflict_tail_def att worker_blocks_def wrk con [simplified])
qed

definition marker_values :: "conflict_request \<Rightarrow> string option \<Rightarrow> string list" where
  "marker_values rq sha = or_none sha # cq_reason rq # cq_conflicted_files rq @ cq_fix_commits rq @ cq_extra_files rq"

definition no_brackets :: "string \<Rightarrow> bool" where
  "no_brackets v \<longleftrightarrow> CHR ''<'' \<notin> set v \<and> CHR ''>'' \<notin> set v"

lemma inner_no_brackets:
  assumes "co \<in> set CONFLICT_OUTCOMES" "list_all no_brackets (marker_values rq sha)"
  shows "no_brackets ('' '' @ py_join '' '' (conflict_parts co sha (nonempty (Some (cq_reason rq)))
    (cq_conflicted_files rq) (cq_fix_commits rq) (cq_extra_files rq)) @ '' '')"
proof -
  have join: "no_brackets (py_join sep xs)" if "no_brackets sep" "list_all no_brackets xs" for sep xs
    using that set_py_join [of sep xs] by (force simp: no_brackets_def list_all_iff)
  have co: "no_brackets co" using assms(1) by (auto simp: CONFLICT_OUTCOMES_def no_brackets_def)
  have app: "no_brackets (a @ b) \<longleftrightarrow> no_brackets a \<and> no_brackets b" for a b by (auto simp: no_brackets_def)
  have comma: "no_brackets '',''" "no_brackets '' ''" by (simp_all add: no_brackets_def)
  have "list_all no_brackets (conflict_parts co sha (nonempty (Some (cq_reason rq))) (cq_conflicted_files rq) (cq_fix_commits rq) (cq_extra_files rq))"
    using assms(2) co join [OF comma(1), of "cq_conflicted_files rq"] join [OF comma(1), of "cq_fix_commits rq"]
      join [OF comma(1), of "cq_extra_files rq"]
    by (auto simp: marker_values_def conflict_parts_def nonempty_def) (auto simp: no_brackets_def)
  from join [OF comma(2) this] show ?thesis by (simp only: app comma)
qed

definition is_success :: "string \<Rightarrow> string option \<Rightarrow> bool" where
  "is_success co sha \<longleftrightarrow> co = ''success'' \<and> or_none sha \<noteq> ''none''"

lemma body_parts:
  assumes "conflict_result_comment rq outcome co url pull details (attempt_comment_marker (cq_started_at rq)) merge_result sha index escalate = Inr body"
    and "conflict_attempt_marker co sha (nonempty (Some (cq_reason rq))) (cq_conflicted_files rq) (cq_fix_commits rq) (cq_extra_files rq) = Inr m"
    and "m = CONFLICT_MARKER_PREFIX @ inner @ ''-->''"
  shows "\<exists>source. body = conflict_prose rq outcome co url pull details merge_result sha index escalate
      @ conflict_tail (cq_started_at rq) (cq_worker_id rq) inner source
    \<and> (source = [] \<or> (\<exists>s \<in> set REQUEUE_SOURCES. source = nl @ source_text s))"
proof (cases "cq_requeue_source rq")
  case None
  then have "body = conflict_prose rq outcome co url pull details merge_result sha index escalate
      @ conflict_tail (cq_started_at rq) (cq_worker_id rq) inner []"
    using assms(1) by (simp add: conflict_result_comment_def assms(2) conflict_tail_def assms(3))
  then show ?thesis by blast
next
  case (Some s)
  then have "s \<in> set REQUEUE_SOURCES" "body = conflict_prose rq outcome co url pull details merge_result sha index escalate
      @ conflict_tail (cq_started_at rq) (cq_worker_id rq) inner (nl @ source_text s)"
    using assms(1) by (auto simp: conflict_result_comment_def assms(2) conflict_tail_def assms(3) requeue_source_marker_def Let_def
      split: if_splits)
  then show ?thesis by blast
qed

lemma contains_right: "py_contains p s \<Longrightarrow> py_contains p (a @ s)"
  using py_contains_append [of p s a "[]"] by simp

lemma escalation_in_body:
  assumes "conflict_result_comment rq outcome co url pull details marker merge_result sha index True = Inr body"
  shows "is_conflict_escalation body"
proof -
  obtain x where body: "body = conflict_prose rq outcome co url pull details merge_result sha index True @ x"
    using assms by (auto simp: conflict_result_comment_def Let_def split: sum.splits option.splits)
  have "py_contains CONFLICT_ESCALATION_MARKER (escalation_section rq index pull details)"
    unfolding escalation_section_def py_contains_iff by blast
  then have "py_contains CONFLICT_ESCALATION_MARKER (conflict_prose rq outcome co url pull details merge_result sha index True)"
    unfolding conflict_prose_def Let_def if_True by (intro contains_right)
  then show ?thesis
    using py_contains_append [of _ _ "[]" x] by (simp add: is_conflict_escalation_def body)
qed

lemma no_other_marker:
  assumes "CHR ''<'' \<notin> set prose" "CHR ''<'' \<notin> set started_at" "CHR ''<'' \<notin> set worker" "CHR ''<'' \<notin> set inner"
    and "source = [] \<or> (\<exists>s \<in> set REQUEUE_SOURCES. source = nl @ source_text s)"
  shows "\<not> is_conflict_escalation (prose @ conflict_tail started_at worker inner source)"
    "\<not> is_handoff_record (prose @ conflict_tail started_at worker inner source)"
    "\<not> is_pr_head_stale_notice (prose @ conflict_tail started_at worker inner source)"
proof -
  have src: "py_contains (CHR ''<'' # cs) source \<longleftrightarrow> (\<exists>s \<in> set REQUEUE_SOURCES. source = nl @ source_text s \<and> py_startswith (CHR ''<'' # cs) (source_text s))" for cs
  proof -
    have "py_contains (CHR ''<'' # cs) (nl @ source_text s) \<longleftrightarrow> py_startswith (CHR ''<'' # cs) (source_text s)" if "s \<in> set REQUEUE_SOURCES" for s
      using contains_open(1) [of nl cs "source_text s"] contains_open(2) [of "''!-- requeue-source: '' @ s @ '' -->''" cs "[]"] source_word [OF that]
      by (simp add: source_text_def marker_safe_def nl_def)
    moreover have "\<not> py_contains (CHR ''<'' # cs) []" by simp
    ultimately show ?thesis using assms(5) by (auto simp: nl_def)
  qed
  note contains = contains_open(1) [OF assms(1)] tail_contains [OF assms(2-4)] src attempt_comment_marker_def
    worker_marker_def source_text_def py_startswith_def
  show "\<not> is_conflict_escalation (prose @ conflict_tail started_at worker inner source)"
    by (simp add: is_conflict_escalation_def CONFLICT_ESCALATION_MARKER_def CONFLICT_MARKER_PREFIX_def contains)
  have "\<not> py_contains HANDOFF_RECORD_MARKER_PREFIX (prose @ conflict_tail started_at worker inner source)"
    by (simp add: HANDOFF_RECORD_MARKER_PREFIX_def CONFLICT_MARKER_PREFIX_def contains)
  then show "\<not> is_handoff_record (prose @ conflict_tail started_at worker inner source)"
    by (simp add: is_handoff_record_def marker_fields_absent)
  have "\<not> py_contains PR_HEAD_STALE_MARKER_PREFIX (prose @ conflict_tail started_at worker inner source)"
    by (simp add: PR_HEAD_STALE_MARKER_PREFIX_def CONFLICT_MARKER_PREFIX_def contains)
  then show "\<not> is_pr_head_stale_notice (prose @ conflict_tail started_at worker inner source)"
    by (simp add: is_pr_head_stale_notice_def parse_pr_head_stale_def marker_fields_absent)
qed

text \<open>
  What a conflict attempt tells the next one: the outcome and the revision of its comment are read back from the
  marker, and the count of failures in a row grows by one for a failure, restarts after a success or a skip, and
  restarts after an escalation. A failure that carries its own standing thus prints the number that the next attempt
  will count, unless it escalates. (The visible text of a comment that does not escalate, and the values of the
  marker, are free of angle brackets.)
\<close>

theorem conflict_comment_counts:
  assumes "conflict_result_comment rq outcome co url pull details (attempt_comment_marker (cq_started_at rq)) merge_result sha index escalate = Inr body"
    and "escalate \<or> plain (conflict_prose rq outcome co url pull details merge_result sha index escalate)"
    and "plain (cq_started_at rq)" "plain (cq_worker_id rq)" "list_all no_brackets (marker_values rq sha)"
  shows "count_conflict_failures (body # bodies)
      = (if escalate \<or> co = ''skipped'' \<or> is_success co sha then 0 else Suc (count_conflict_failures bodies))
    \<and> (escalate \<or> (\<exists>fs. parse_conflict_attempt body = Some fs \<and> map_of fs ''outcome'' = Some co \<and> map_of fs ''sha'' = Some (or_none sha)))"
proof (cases escalate)
  case True
  then have "is_conflict_escalation body"
    using assms(1) escalation_in_body by simp
  with True show ?thesis by simp
next
  case False
  with assms(2) have prose: "CHR ''<'' \<notin> set (conflict_prose rq outcome co url pull details merge_result sha index escalate)"
    by (simp add: plain_def)
  obtain m where m: "conflict_attempt_marker co sha (nonempty (Some (cq_reason rq)))
      (cq_conflicted_files rq) (cq_fix_commits rq) (cq_extra_files rq) = Inr m"
    using assms(1) by (auto simp: conflict_result_comment_def split: sum.splits)
  note built = marker_built [OF m]
  let ?inner = "'' '' @ py_join '' '' (conflict_parts co sha (nonempty (Some (cq_reason rq)))
      (cq_conflicted_files rq) (cq_fix_commits rq) (cq_extra_files rq)) @ '' ''"
  obtain source where body: "body = conflict_prose rq outcome co url pull details merge_result sha index escalate
      @ conflict_tail (cq_started_at rq) (cq_worker_id rq) ?inner source"
    and source: "source = [] \<or> (\<exists>s \<in> set REQUEUE_SOURCES. source = nl @ source_text s)"
    using body_parts [OF assms(1) m built(7)] by blast
  have brackets: "CHR ''<'' \<notin> set ?inner" "CHR ''>'' \<notin> set ?inner"
    using inner_no_brackets [OF built(1) assms(5)] by (simp_all add: no_brackets_def)
  have names: "CHR ''<'' \<notin> set (cq_started_at rq)" "CHR ''<'' \<notin> set (cq_worker_id rq)"
    using assms(3,4) by (simp_all add: plain_def)
  obtain a where "py_cut CONFLICT_MARKER_PREFIX body = Some (a, ?inner @ ''-->'' @ source)"
    using tail_cut [OF names, of ?inner source] py_cut_skip [OF prose, of "tl CONFLICT_MARKER_PREFIX"]
    unfolding body CONFLICT_MARKER_PREFIX_def by auto
  moreover have "py_cut ''-->'' (?inner @ ''-->'' @ source) = Some (?inner, source)"
    using py_cut_at_last [OF brackets(2), of "''--''" source] by simp
  ultimately have marker: "marker_fields CONFLICT_MARKER_PREFIX body = Some (fields_of ?inner)"
    unfolding marker_fields_def by (simp only: option.case prod.case option.map)
  have "\<exists>fs. parse_conflict_attempt body = Some fs \<and> map_of fs ''outcome'' = Some co \<and> map_of fs ''sha'' = Some (or_none sha)"
    unfolding parse_conflict_attempt_def marker option.case conflict_fields [OF built(1-6)]
    by (intro exI [of _ "fields_of ?inner"]) (simp only: conflict_fields [OF built(1-6)] option.distinct if_False simp_thms)
  then obtain fs where parse: "parse_conflict_attempt body = Some fs" "map_of fs ''outcome'' = Some co" "map_of fs ''sha'' = Some (or_none sha)"
    by blast
  note other = no_other_marker [OF prose names brackets(1) source, folded body]
  have ne: "or_none sha \<noteq> []"
    by (simp add: or_none_def nonempty_def split: option.split)
  have "is_conflict_attempt body" using parse by (simp add: is_conflict_attempt_def)
  moreover have "is_conflict_failure body \<longleftrightarrow> \<not> (co = ''skipped'' \<or> is_success co sha)"
    using other(1) ne by (simp add: is_conflict_failure_def parse is_success_def)
  ultimately show ?thesis
    using False parse other by simp
qed


lemma witness_plain:
  "plain (conflict_prose (example_conflict\<lparr>cq_conflicted_files := [''a.c'']\<rparr>) INCOMPLETE ''rebase_conflict'' None (Some example_pull) ''d'' None None 1 False)"
  "plain (cq_started_at (example_conflict\<lparr>cq_conflicted_files := [''a.c'']\<rparr>))"
  "plain (cq_worker_id (example_conflict\<lparr>cq_conflicted_files := [''a.c'']\<rparr>))"
  "list_all no_brackets (marker_values (example_conflict\<lparr>cq_conflicted_files := [''a.c'']\<rparr>) None)"
  by code_simp+

theorem conflict_comment_counts_witness:
  "case conflict_result_comment (example_conflict\<lparr>cq_conflicted_files := [''a.c'']\<rparr>) INCOMPLETE ''rebase_conflict'' None
       (Some example_pull) ''d'' (attempt_comment_marker ''t1Z'') None None 1 False of
     Inl e \<Rightarrow> False
   | Inr body \<Rightarrow> count_conflict_failures [body, body] = 2"
proof -
  let ?rq = "example_conflict\<lparr>cq_conflicted_files := [''a.c'']\<rparr>"
  have "case conflict_result_comment ?rq INCOMPLETE ''rebase_conflict'' None (Some example_pull) ''d'' (attempt_comment_marker ''t1Z'') None None 1 False of
      Inl e \<Rightarrow> False | Inr body \<Rightarrow> True"
    by code_simp
  then obtain body where body: "conflict_result_comment ?rq INCOMPLETE ''rebase_conflict'' None (Some example_pull) ''d''
      (attempt_comment_marker (cq_started_at ?rq)) None None 1 False = Inr body"
    by (auto simp: example_conflict_def split: sum.splits)
  have count: "count_conflict_failures (body # bodies) = Suc (count_conflict_failures bodies)" for bodies
    using conflict_comment_counts [OF body disjI2 [OF witness_plain(1)] witness_plain(2-4), of bodies]
    by (simp add: is_success_def)
  show ?thesis
    using body count [of "[body]"] count [of "[]"] by (simp add: example_conflict_def)
qed

end
