(* ===== verification/Git_Workspace.thy ===== *)
theory Git_Workspace
  imports Publication
begin

text \<open>
  The git workspace (git_workspace.py): one persistent clone, with every method of \<open>GitWorkspace\<close> as a program over
  its calls: the token provider, git itself, the files of the clone and the clock. Git's answers are its raw output
  or a failure; what the code makes of them (stripping, splitting, parsing) is modelled. The temporary credential
  script belongs to the call of git: its failures are failures of that call.
\<close>

section \<open>Calls\<close>

datatype ws_call =
    Token
  | Run_git "string option" "string list"
  | Path_exists string
  | Path_is_dir string
  | Path_is_file string
  | Path_is_symlink string
  | Make_parents string
  | Write_text string string
  | Read_bytes string
  | Unlink string
  | Remove_tree string
  | Clock
  | Sleep rat

datatype ws_answer =
    Crash failure
  | Os_error
  | Exit_failure
  | Output string
  | Yes_no bool
  | Clock_at rat
  | Fine

type_synonym 'a ws_prog = "(ws_call, ws_answer, failure, 'a) prog"

definition os_error :: failure where "os_error = OtherError ''OSError'' []"

definition ws_reply :: "(ws_answer \<Rightarrow> 'a option) \<Rightarrow> ws_answer \<Rightarrow> failure + 'a" where
  "ws_reply sel r = (case r of
     Crash e \<Rightarrow> Inl e
   | Os_error \<Rightarrow> Inl os_error
   | Exit_failure \<Rightarrow> Inl (OtherError ''CalledProcessError'' [])
   | _ \<Rightarrow> (case sel r of None \<Rightarrow> Inl (OtherError ''TypeError'' ''unexpected answer'') | Some x \<Rightarrow> Inr x))"

definition text_answer :: "ws_answer \<Rightarrow> string option" where
  "text_answer r = (case r of Output s \<Rightarrow> Some s | _ \<Rightarrow> None)"

definition ask_text :: "ws_call \<Rightarrow> string ws_prog" where
  "ask_text q = ask q (ws_reply text_answer)"

definition ask_bool :: "ws_call \<Rightarrow> bool ws_prog" where
  "ask_bool q = ask q (ws_reply (\<lambda>r. case r of Yes_no b \<Rightarrow> Some b | _ \<Rightarrow> None))"

definition effect :: "ws_call \<Rightarrow> unit ws_prog" where
  "effect q = ask q (ws_reply (\<lambda>r. Some ()))"

definition clock :: "rat ws_prog" where
  "clock = ask Clock (ws_reply (\<lambda>r. case r of Clock_at t \<Rightarrow> Some t | _ \<Rightarrow> None))"

definition git_error :: "string \<Rightarrow> failure" where
  "git_error m = GitWorkspaceError ''GitWorkspaceError'' m"

definition recovery_error :: "string \<Rightarrow> failure" where
  "recovery_error m = GitWorkspaceError ''GitWorkspaceRecoveryError'' m"

definition dirty_error :: "string \<Rightarrow> failure" where
  "dirty_error m = GitWorkspaceError ''DirtyWorkspaceError'' m"

text \<open>What \<open>except GitWorkspaceError\<close> catches: the class and its subclasses.\<close>

fun is_git_error :: "failure \<Rightarrow> bool" where
  "is_git_error (GitWorkspaceError c m) = True"
| "is_git_error (BranchMovedSinceClaimError m) = True"
| "is_git_error (ClaimLeaseError m) = True"
| "is_git_error e = False"

definition on_git_error :: "'a ws_prog \<Rightarrow> (failure \<Rightarrow> 'a ws_prog) \<Rightarrow> 'a ws_prog" where
  "on_git_error m h = handle m (\<lambda>e. if is_git_error e then h e else Raise e)"

record workspace =
  ws_clone_dir :: string
  ws_repository_url :: string

definition join_path :: "string \<Rightarrow> string \<Rightarrow> string" where
  "join_path a b = (if py_startswith ''/'' b then b else a @ ''/'' @ b)"

definition in_clone :: "workspace \<Rightarrow> string \<Rightarrow> string" where
  "in_clone w p = join_path (ws_clone_dir w) p"

text \<open>\<open>_git\<close>: without a token git is not run; \<open>_run_git\<close> strips what git printed.\<close>

definition git_result :: "ws_answer \<Rightarrow> failure + string" where
  "git_result r = (case r of
     Os_error \<Rightarrow> Inl (git_error ''Git command failed'')
   | Exit_failure \<Rightarrow> Inl (git_error ''Git command failed'')
   | _ \<Rightarrow> map_sum id py_strip (ws_reply text_answer r))"

definition git_at :: "string option \<Rightarrow> string list \<Rightarrow> string ws_prog" where
  "git_at cwd args =
     bind (ask_text Token) (\<lambda>token.
       if token = [] then Raise (git_error ''GITHUB_TOKEN is unavailable'') else ask (Run_git cwd args) git_result)"

definition git :: "workspace \<Rightarrow> string list \<Rightarrow> string ws_prog" where
  "git w args = git_at (Some (ws_clone_dir w)) args"


text \<open>The calls that the push depends on.\<close>

definition remote_call :: "string \<Rightarrow> string list" where
  "remote_call branch = [''ls-remote'', ''--heads'', ''origin'', ''refs/heads/'' @ branch]"

definition verify_call :: "string \<Rightarrow> string list" where
  "verify_call reference = [''rev-parse'', ''--verify'', reference]"

definition fetch_call :: "string \<Rightarrow> string list" where
  "fetch_call branch = [''fetch'', ''origin'', branch]"

definition push_call :: "string \<Rightarrow> string \<Rightarrow> string list" where
  "push_call branch expected =
     [''push'', ''--force-with-lease='' @ branch @ '':'' @ expected, ''origin'', branch @ '':refs/heads/'' @ branch]"


section \<open>Parsing what git prints\<close>

text \<open>\<open>text.rpartition(" -> ")\<close>: the part after the last separator.\<close>

fun after_last :: "string \<Rightarrow> string \<Rightarrow> string option" where
  "after_last p [] = None"
| "after_last p (c # cs) =
     (case after_last p cs of
        Some rest \<Rightarrow> Some rest
      | None \<Rightarrow> if py_startswith p (c # cs) then Some (drop (length p) (c # cs)) else None)"

definition porcelain_path :: "string \<Rightarrow> string" where
  "porcelain_path line =
     (let path = (if length line > 3 then drop 3 line else py_strip line)
      in case after_last '' -> '' path of Some destination \<Rightarrow> py_strip destination | None \<Rightarrow> py_strip path)"

definition nonblank_lines :: "string \<Rightarrow> string list" where
  "nonblank_lines s = filter (\<lambda>l. \<not> py_blank l) (py_splitlines s)"

definition rstrip_slashes :: "string \<Rightarrow> string" where
  "rstrip_slashes s = rev (dropWhile (\<lambda>c. c = CHR ''/'') (rev s))"

definition normal_path :: "string \<Rightarrow> string" where
  "normal_path p = rstrip_slashes (py_strip p)"

definition covered_by_ignored :: "string list \<Rightarrow> string list \<Rightarrow> bool" where
  "covered_by_ignored dirty ignored =
     (let candidates = map normal_path (filter (\<lambda>p. \<not> py_blank p) ignored)
      in list_all (\<lambda>relpath. let n = normal_path relpath in
           n \<noteq> [] \<and> candidates \<noteq> []
           \<and> list_ex (\<lambda>c. n = c \<or> py_startswith (c @ ''/'') n \<or> py_startswith (n @ ''/'') c) candidates) dirty)"

text \<open>\<open>Path(p).is_absolute() or ".." in Path(p).parts\<close>\<close>

definition escapes :: "string \<Rightarrow> bool" where
  "escapes p \<longleftrightarrow> py_startswith ''/'' p \<or> ''..'' \<in> set (py_split (CHR ''/'') p)"

record attempt_commit =
  ac_revision :: string
  ac_subject :: string

definition NUL :: char where "NUL = CHR 0x00"

definition commit_of_line :: "string \<Rightarrow> attempt_commit option" where
  "commit_of_line line = (case py_partition NUL line of
     (revision, Some subject) \<Rightarrow> if revision = [] then None else Some \<lparr>ac_revision = revision, ac_subject = subject\<rparr>
   | (_, None) \<Rightarrow> None)"

text \<open>\<open>str.isdigit\<close>, which also accepts the superscript digits of Latin-1.\<close>

definition py_isdigit :: "string \<Rightarrow> bool" where
  "py_isdigit s \<longleftrightarrow> s \<noteq> [] \<and> list_all (\<lambda>c. is_digit c \<or> c \<in> {CHR 0xB2, CHR 0xB3, CHR 0xB9}) s"

text \<open>A line of the note's log: revision, author time and subject.\<close>

definition note_line :: "string \<Rightarrow> (string \<times> string \<times> string) option" where
  "note_line line = (case py_partition NUL line of
     (revision, rest) \<Rightarrow> (case py_partition NUL (case rest of None \<Rightarrow> [] | Some x \<Rightarrow> x) of
         (authored, Some subject) \<Rightarrow>
           if revision = [] \<or> \<not> py_isdigit authored then None else Some (revision, authored, subject)
       | (_, None) \<Rightarrow> None))"

definition collect_option :: "('a \<Rightarrow> 'b option) \<Rightarrow> 'a list \<Rightarrow> 'b list option" where
  "collect_option f xs = (if list_all (\<lambda>x. f x \<noteq> None) xs then Some (map (\<lambda>x. the (f x)) xs) else None)"

text \<open>\<open>bytes.splitlines()\<close> and \<open>bytes.strip()\<close>, which know fewer characters than \<open>str\<close> does.\<close>

fun byte_lines :: "string \<Rightarrow> string \<Rightarrow> string list" where
  "byte_lines acc [] = (if acc = [] then [] else [rev acc])"
| "byte_lines acc (c # cs) =
     (if c = CHR 0x0A then rev acc # byte_lines [] cs
      else if c = CHR 0x0D then rev acc # byte_lines [] (if cs \<noteq> [] \<and> hd cs = CHR 0x0A then tl cs else cs)
      else byte_lines (c # acc) cs)"

definition byte_space :: "char \<Rightarrow> bool" where
  "byte_space c \<longleftrightarrow> c = CHR '' '' \<or> (let n = (of_char c :: nat) in 9 \<le> n \<and> n \<le> 13)"

definition byte_strip :: "string \<Rightarrow> string" where
  "byte_strip s = rev (dropWhile byte_space (rev (dropWhile byte_space s)))"

definition marker_line :: "string \<Rightarrow> bool" where
  "marker_line line = (let s = byte_strip line in
     py_startswith ''<<<<<<<'' s
     \<or> (7 \<le> length s \<and> py_startswith ''======='' s \<and> list_all (\<lambda>c. c = CHR ''='') s)
     \<or> py_startswith ''>>>>>>>'' s)"

definition has_markers :: "string \<Rightarrow> bool" where
  "has_markers text \<longleftrightarrow> list_ex marker_line (byte_lines [] text)"

definition attempt_branch :: "int \<Rightarrow> failure + string" where
  "attempt_branch n =
     (if n \<le> 0 then Inl (git_error ''Issue number must be a positive integer'')
      else Inr (''agent/issue-'' @ str_of_int n))"

definition handoff_note_relpath :: "int \<Rightarrow> string" where
  "handoff_note_relpath n = ''.agent/handoff/'' @ str_of_int n @ ''.md''"

text \<open>Seconds since 1970; a fraction of a second is truncated toward zero.\<close>

definition days_before_year :: "nat \<Rightarrow> int" where
  "days_before_year y = (let k = int y - 1 in 365 * k + k div 4 - k div 100 + k div 400)"

definition days_before_month :: "nat \<Rightarrow> nat \<Rightarrow> int" where
  "days_before_month y m = int (sum_list (map (days_in_month y) [1..<m]))"

definition epoch_micros :: "datetime \<Rightarrow> int" where
  "epoch_micros t =
     (let days = days_before_year (dt_year t) + days_before_month (dt_year t) (dt_month t) + int (dt_day t) - 719163;
          seconds = days * 86400 + int (dt_hour t) * 3600 + int (dt_minute t) * 60 + int (dt_second t)
      in seconds * 1000000 + int (dt_micro t))"

definition truncated_seconds :: "int \<Rightarrow> int" where
  "truncated_seconds us = (if 0 \<le> us then us div 1000000 else - (- us div 1000000))"

definition attempt_start_epoch :: "iso_parser \<Rightarrow> string \<Rightarrow> int option" where
  "attempt_start_epoch parse_iso attempt_id = (case parse_iso (py_replace ''Z'' ''+00:00'' attempt_id) of
     Some (Aware_at t) \<Rightarrow> Some (truncated_seconds (epoch_micros t))
   | _ \<Rightarrow> None)"

text \<open>
  \<open>urlsplit(url)\<close> has a user or a password exactly when its authority contains an at sign. The authority follows
  \<open>//\<close> after an optional scheme and ends at a slash, a question mark or a hash; unbalanced brackets in it are a
  \<open>ValueError\<close>. (The form of a bracketed host is not checked here.)
\<close>

definition ascii_letter :: "char \<Rightarrow> bool" where
  "ascii_letter c \<longleftrightarrow> char_between (CHR ''a'') (CHR ''z'') c \<or> char_between (CHR ''A'') (CHR ''Z'') c"

definition scheme_char :: "char \<Rightarrow> bool" where
  "scheme_char c \<longleftrightarrow> ascii_letter c \<or> is_digit c \<or> c \<in> set ''+-.''"

definition clean_url :: "string \<Rightarrow> string" where
  "clean_url url = filter (\<lambda>c. c \<notin> {CHR 0x09, CHR 0x0A, CHR 0x0D}) (dropWhile (\<lambda>c. (of_char c :: nat) \<le> 32) url)"

definition without_scheme :: "string \<Rightarrow> string" where
  "without_scheme url = (case py_partition (CHR '':'') url of
     (scheme, Some rest) \<Rightarrow> if scheme \<noteq> [] \<and> ascii_letter (hd scheme) \<and> list_all scheme_char scheme then rest else url
   | (_, None) \<Rightarrow> url)"

definition authority :: "string \<Rightarrow> string" where
  "authority url = (let rest = without_scheme (clean_url url) in
     if py_startswith ''//'' rest then takeWhile (\<lambda>c. c \<notin> set ''/?#'') (drop 2 rest) else [])"

definition reject_url_credentials :: "string \<Rightarrow> failure + unit" where
  "reject_url_credentials url = (let a = authority url in
     if (CHR ''['' \<in> set a) \<noteq> (CHR '']'' \<in> set a) then Inl (OtherError ''ValueError'' ''Invalid IPv6 URL'')
     else if CHR ''@'' \<in> set a then Inl (git_error ''Repository URL must not contain credentials'')
     else Inr ())"

end
