(* ===== verification/Git_Workspace_Ops.thy ===== *)
theory Git_Workspace_Ops
  imports Git_Workspace
begin

text \<open>
  The methods of \<open>GitWorkspace\<close>: preparing the clone and an attempt's branch, reading the state of a rebase, sealing
  and committing, cleaning up, and pushing under a lease.
\<close>

section \<open>Reading the tree\<close>

definition dirty_status :: "workspace \<Rightarrow> string ws_prog" where
  "dirty_status w = git w [''status'', ''--porcelain'']"

definition is_clean :: "workspace \<Rightarrow> bool ws_prog" where
  "is_clean w = bind (ask_bool (Path_exists (in_clone w ''.git''))) (\<lambda>there.
     if \<not> there then Return True else bind (dirty_status w) (\<lambda>s. Return (py_blank s)))"

definition dirty_paths :: "workspace \<Rightarrow> string list ws_prog" where
  "dirty_paths w = bind (dirty_status w) (\<lambda>s. Return (map porcelain_path (nonblank_lines s)))"

text \<open>A disjunction whose later parts are only looked up when the earlier ones are false.\<close>

primrec any_exists :: "string list \<Rightarrow> bool ws_prog" where
  "any_exists [] = Return False"
| "any_exists (p # ps) = bind (ask_bool (Path_exists p)) (\<lambda>b. if b then Return True else any_exists ps)"

definition has_unresolved_conflicts :: "workspace \<Rightarrow> bool ws_prog" where
  "has_unresolved_conflicts w = bind (ask_bool (Path_is_dir (in_clone w ''.git''))) (\<lambda>d.
     if \<not> d then Return False
     else bind (any_exists (map (\<lambda>p. in_clone w (''.git/'' @ p)) [''rebase-merge'', ''rebase-apply'', ''MERGE_HEAD''])) (\<lambda>b.
       if b then Return True
       else bind (git w [''ls-files'', ''--unmerged'']) (\<lambda>s. Return (\<not> py_blank s))))"

definition conflicted_files :: "workspace \<Rightarrow> string list ws_prog" where
  "conflicted_files w = on_git_error
     (bind (git w [''diff'', ''--name-only'', ''--diff-filter=U'']) (\<lambda>s. Return (nonblank_lines s))) (\<lambda>e. Return [])"

definition files_changed :: "workspace \<Rightarrow> string \<Rightarrow> string list ws_prog" where
  "files_changed w revision = on_git_error
     (bind (git w [''diff-tree'', ''--no-commit-id'', ''--name-only'', ''-r'', ''--root'', revision, ''--''])
        (\<lambda>s. Return (nonblank_lines s))) (\<lambda>e. Return [])"

primrec marked_files :: "workspace \<Rightarrow> string list \<Rightarrow> string list ws_prog" where
  "marked_files w [] = Return []"
| "marked_files w (name # names) =
     bind (ask (Read_bytes (in_clone w name)) (\<lambda>r. case r of
         Os_error \<Rightarrow> Inr False
       | _ \<Rightarrow> map_sum id has_markers (ws_reply text_answer r))) (\<lambda>marked.
     bind (marked_files w names) (\<lambda>rest. Return (if marked then name # rest else rest)))"

definition conflict_marker_files :: "workspace \<Rightarrow> string list ws_prog" where
  "conflict_marker_files w =
     bind (on_git_error
         (bind (git w [''ls-files'', ''-z'']) (\<lambda>tracked.
          bind (git w [''ls-files'', ''--others'', ''--exclude-standard'', ''-z'']) (\<lambda>untracked.
          Return (Some (filter (\<lambda>n. \<not> py_blank n) (py_split NUL tracked @ py_split NUL untracked))))))
         (\<lambda>e. Return None))
       (\<lambda>names. case names of None \<Rightarrow> Return [] | Some ns \<Rightarrow> marked_files w ns)"

definition diff_check_clean :: "workspace \<Rightarrow> bool ws_prog" where
  "diff_check_clean w = on_git_error
     (bind (git w [''diff'', ''--check'']) (\<lambda>_.
      bind (git w [''diff'', ''--cached'', ''--check'']) (\<lambda>_. Return True))) (\<lambda>e. Return False)"

definition rebase_resolution_problems :: "workspace \<Rightarrow> string list ws_prog" where
  "rebase_resolution_problems w =
     bind (has_unresolved_conflicts w) (\<lambda>unresolved.
     bind (if unresolved
           then bind (conflicted_files w) (\<lambda>files. Return [''A rebase or merge is still in progress.''
             @ (if files = [] then [] else '' Conflicting files: '' @ py_join '', '' files @ ''.'')])
           else Return []) (\<lambda>progress.
     bind (conflict_marker_files w) (\<lambda>marked.
     bind (diff_check_clean w) (\<lambda>clean. Return
       (progress
        @ (if marked = [] then [] else [''Conflict markers remain in: '' @ py_join '', '' marked @ ''.''])
        @ (if clean then [] else [''`git diff --check` reports whitespace errors.'']))))))"

record conflict_state =
  cs_in_progress :: bool
  cs_conflicted_files :: "string list"
  cs_resolution_problems :: "string list"

definition STATE_UNVERIFIED :: string where
  "STATE_UNVERIFIED = ''Conflict state could not be verified; treating the tree as conflicted.''"

definition RESOLUTION_UNVERIFIED :: string where
  "RESOLUTION_UNVERIFIED = ''Conflict-resolution verification failed; treating the tree as conflicted.''"

definition STILL_IN_PROGRESS :: string where
  "STILL_IN_PROGRESS = ''A rebase or merge is still in progress or paths remain unmerged.''"

definition read_conflict_state :: "workspace \<Rightarrow> conflict_state ws_prog" where
  "read_conflict_state w =
     bind (handle (bind (has_unresolved_conflicts w) (\<lambda>b. Return (Some b))) (\<lambda>e. Return None)) (\<lambda>found.
     case found of
       None \<Rightarrow> Return \<lparr>cs_in_progress = True, cs_conflicted_files = [], cs_resolution_problems = [STATE_UNVERIFIED]\<rparr>
     | Some in_progress \<Rightarrow>
         bind (handle (conflicted_files w) (\<lambda>e. Return [])) (\<lambda>files.
         bind (handle (rebase_resolution_problems w) (\<lambda>e. Return [RESOLUTION_UNVERIFIED])) (\<lambda>problems.
         Return \<lparr>cs_in_progress = in_progress, cs_conflicted_files = files,
           cs_resolution_problems = (if in_progress \<and> problems = [] then [STILL_IN_PROGRESS] else problems)\<rparr>)))"

definition rebase_in_progress :: "workspace \<Rightarrow> bool ws_prog" where
  "rebase_in_progress w =
     bind (ask_bool (Path_is_dir (in_clone w ''.git''))) (\<lambda>d.
     bind (if d then any_exists (map (\<lambda>p. in_clone w (''.git/'' @ p)) [''rebase-merge'', ''rebase-apply'']) else Return False) (\<lambda>b.
     if b then Return True
     else on_git_error (bind (git w (verify_call ''REBASE_HEAD'')) (\<lambda>_. Return True)) (\<lambda>e. Return False)))"

definition branch_exists :: "workspace \<Rightarrow> string \<Rightarrow> bool ws_prog" where
  "branch_exists w branch = on_git_error
     (bind (git w [''show-ref'', ''--verify'', ''--quiet'', ''refs/heads/'' @ branch]) (\<lambda>_. Return True)) (\<lambda>e. Return False)"

definition revision_of :: "workspace \<Rightarrow> string \<Rightarrow> bool \<Rightarrow> string ws_prog" where
  "revision_of w reference remote = on_git_error (git w (verify_call reference))
     (\<lambda>e. Raise (git_error (''Base branch is unavailable in the '' @ (if remote then ''origin'' else ''local clone''))))"

text \<open>The revision that the remote reports for a branch, \<open>None\<close> when it has none.\<close>

definition remote_line :: "string \<Rightarrow> string \<Rightarrow> failure + string option" where
  "remote_line branch out =
     (if out = [] then Inr None
      else case py_partition (CHR 0x09) out of
        (revision, Some reference) \<Rightarrow>
          if reference \<noteq> ''refs/heads/'' @ branch \<or> revision = [] then Inl (git_error ''Remote branch revision is invalid'')
          else Inr (Some revision)
      | (_, None) \<Rightarrow> Inl (git_error ''Remote branch revision is invalid''))"

definition remote_branch_revision :: "workspace \<Rightarrow> string \<Rightarrow> string option ws_prog" where
  "remote_branch_revision w branch =
     bind (git w (remote_call branch)) (\<lambda>out.
     case remote_line branch out of Inl e \<Rightarrow> Raise e | Inr x \<Rightarrow> Return x)"


section \<open>Preparing\<close>

definition ensure_clone :: "workspace \<Rightarrow> unit ws_prog" where
  "ensure_clone w =
     bind (case reject_url_credentials (ws_repository_url w) of Inl e \<Rightarrow> Raise e | Inr u \<Rightarrow> Return u) (\<lambda>_.
     bind (ask_bool (Path_exists (ws_clone_dir w))) (\<lambda>there.
     if there
     then bind (ask_bool (Path_is_dir (ws_clone_dir w))) (\<lambda>d.
       bind (if d then ask_bool (Path_exists (in_clone w ''.git'')) else Return False) (\<lambda>g.
       if \<not> g then Raise (git_error ''CLONE_DIR exists but is not a git clone'')
       else bind (git w [''remote'', ''get-url'', ''origin'']) (\<lambda>url.
         if url \<noteq> ws_repository_url w then Raise (git_error ''CLONE_DIR is not the configured repository'') else Return ())))
     else bind (effect (Make_parents (ws_clone_dir w))) (\<lambda>_.
       bind (git_at None [''clone'', ws_repository_url w, ws_clone_dir w]) (\<lambda>_. Return ()))))"

definition refuse_dirty :: "workspace \<Rightarrow> unit ws_prog" where
  "refuse_dirty w = bind (is_clean w) (\<lambda>clean.
     if clean then Return ()
     else bind (dirty_status w) (\<lambda>s. Raise (dirty_error
       (''Repository working tree contains uncommitted or untracked changes:'' @ nl @ s))))"

definition reset_local_base :: "workspace \<Rightarrow> string \<Rightarrow> unit ws_prog" where
  "reset_local_base w base = on_git_error
     (bind (git w [''rev-parse'', ''--abbrev-ref'', ''HEAD'']) (\<lambda>current.
      if current = base then bind (git w [''reset'', ''--hard'', ''origin/'' @ base]) (\<lambda>_. Return ())
      else bind (git w [''branch'', ''-f'', base, ''origin/'' @ base]) (\<lambda>_. Return ()))) (\<lambda>e. Return ())"

definition ensure_verified_base :: "workspace \<Rightarrow> string \<Rightarrow> string ws_prog" where
  "ensure_verified_base w base =
     bind (revision_of w (''origin/'' @ base) True) (\<lambda>base_revision.
     bind (on_git_error (bind (revision_of w base False) (\<lambda>r. Return (Some r))) (\<lambda>e. Return None)) (\<lambda>found.
     if found = Some base_revision then Return base_revision
     else bind (reset_local_base w base) (\<lambda>_.
       bind (revision_of w base False) (\<lambda>repaired.
       if repaired = base_revision then Return base_revision
       else Raise (recovery_error ''Local base branch has diverged from origin and could not be repaired'')))))"

definition fetch_attempt_branch :: "workspace \<Rightarrow> string \<Rightarrow> string option ws_prog" where
  "fetch_attempt_branch w branch =
     bind (on_git_error (bind (git w (fetch_call branch)) (\<lambda>_. Return True)) (\<lambda>e. Return False)) (\<lambda>fetched.
     if fetched then remote_branch_revision w branch else Return None)"

text \<open>A conflicting rebase is left in place and reported; a rebase that fails otherwise is an error.\<close>

definition rebase_onto_base :: "workspace \<Rightarrow> string \<Rightarrow> string \<Rightarrow> (string option \<times> string list) ws_prog" where
  "rebase_onto_base w branch base =
     bind (git w (verify_call branch)) (\<lambda>before.
     on_git_error (bind (git w [''rebase'', base]) (\<lambda>_. Return (None, [])))
       (\<lambda>e. bind (conflicted_files w) (\<lambda>files.
          if files \<noteq> [] then Return (Some before, files)
          else bind (rebase_in_progress w) (\<lambda>b. if b then Return (Some before, files) else Raise e))))"

definition prepare_for_profile_read :: "workspace \<Rightarrow> string \<Rightarrow> string ws_prog" where
  "prepare_for_profile_read w base =
     bind (ensure_clone w) (\<lambda>_.
     bind (refuse_dirty w) (\<lambda>_.
     bind (git w [''fetch'', ''origin'']) (\<lambda>_.
     bind (ensure_verified_base w base) (\<lambda>base_revision.
     bind (git w [''checkout'', base]) (\<lambda>_. Return base_revision)))))"

record prepared_attempt =
  pa_branch :: string
  pa_base_revision :: string
  pa_restored_from_remote :: bool
  pa_rebase_conflicts :: "string list"
  pa_pre_rebase_revision :: "string option"
  pa_remote_branch_revision :: "string option"
  pa_remote_branch_known :: bool

text \<open>A published branch is the starting point, whatever the clone holds; without one a local branch is, then the base.\<close>

definition check_out_attempt :: "workspace \<Rightarrow> string \<Rightarrow> string \<Rightarrow> string option \<Rightarrow> (string option \<times> string list) ws_prog" where
  "check_out_attempt w branch base remote = (case remote of
     Some revision \<Rightarrow>
       bind (git w [''checkout'', base]) (\<lambda>_.
       bind (git w [''branch'', ''-f'', branch, revision]) (\<lambda>_.
       bind (git w [''checkout'', branch]) (\<lambda>_. rebase_onto_base w branch base)))
   | None \<Rightarrow>
       bind (branch_exists w branch) (\<lambda>there.
       if there then bind (git w [''checkout'', branch]) (\<lambda>_. rebase_onto_base w branch base)
       else bind (git w [''checkout'', ''-b'', branch, base]) (\<lambda>_. Return (None, []))))"

definition prepare_attempt :: "workspace \<Rightarrow> string \<Rightarrow> int \<Rightarrow> prepared_attempt ws_prog" where
  "prepare_attempt w base issue_number =
     bind (case attempt_branch issue_number of Inl e \<Rightarrow> Raise e | Inr b \<Rightarrow> Return b) (\<lambda>branch.
     bind (ensure_clone w) (\<lambda>_.
     bind (refuse_dirty w) (\<lambda>_.
     bind (git w [''fetch'', ''origin'']) (\<lambda>_.
     bind (ensure_verified_base w base) (\<lambda>base_revision.
     bind (fetch_attempt_branch w branch) (\<lambda>remote.
     bind (check_out_attempt w branch base remote) (\<lambda>(before, conflicts).
     Return \<lparr>pa_branch = branch, pa_base_revision = base_revision, pa_restored_from_remote = (remote \<noteq> None),
       pa_rebase_conflicts = conflicts, pa_pre_rebase_revision = before, pa_remote_branch_revision = remote,
       pa_remote_branch_known = True\<rparr>)))))))"

definition abort_unresolved_rebase :: "workspace \<Rightarrow> prepared_attempt \<Rightarrow> unit ws_prog" where
  "abort_unresolved_rebase w p =
     bind (on_git_error (bind (git w [''rebase'', ''--abort'']) (\<lambda>_. Return ())) (\<lambda>e. Return ())) (\<lambda>_.
     case pa_pre_rebase_revision p of
       None \<Rightarrow> Return ()
     | Some revision \<Rightarrow>
         bind (on_git_error (bind (git w [''reset'', ''--hard'', revision]) (\<lambda>_. git w [''checkout'', pa_branch p]))
             (\<lambda>e. Raise (recovery_error (''Rebase of '' @ pa_branch p
               @ '' could not be aborted and the branch '' @ ''could not be restored; human cleanup is required'')))) (\<lambda>_.
         bind (has_unresolved_conflicts w) (\<lambda>b.
         if b then Raise (recovery_error (''Rebase of '' @ pa_branch p
           @ '' still holds unresolved conflicts '' @ ''after abort; human cleanup is required'')) else Return ())))"

end
