(* ===== verification/Git_Workspace_Push.thy ===== *)
theory Git_Workspace_Push
  imports Git_Workspace_Ops
begin

text \<open>Commits, handoff notes, cleaning up, and the push under a lease.\<close>

section \<open>Commits\<close>

definition invalid_listing :: failure where
  "invalid_listing = git_error ''Git returned an invalid commit listing''"

definition or_raise :: "failure \<Rightarrow> 'a option \<Rightarrow> 'a ws_prog" where
  "or_raise e x = (case x of None \<Rightarrow> Raise e | Some y \<Rightarrow> Return y)"

definition commits_added :: "workspace \<Rightarrow> prepared_attempt \<Rightarrow> attempt_commit list ws_prog" where
  "commits_added w p =
     bind (git w [''log'', ''--format=%H%x00%s'', pa_base_revision p @ ''..'' @ pa_branch p]) (\<lambda>out.
     if out = [] then Return [] else or_raise invalid_listing (collect_option commit_of_line (py_splitlines out)))"

definition seal_subject :: "int \<Rightarrow> string \<Rightarrow> string" where
  "seal_subject n status = ''Seal attempt work for #'' @ str_of_int n @ '' ('' @ status @ '')''"

definition seal :: "workspace \<Rightarrow> int \<Rightarrow> string \<Rightarrow> string \<Rightarrow> attempt_commit option ws_prog" where
  "seal w issue_number attempt_id status =
     bind (read_conflict_state w) (\<lambda>state.
     if cs_in_progress state then Raise (git_error ''Cannot seal attempt work while a rebase or merge is unresolved'')
     else bind (is_clean w) (\<lambda>clean.
       if clean then Return None
       else let subject = seal_subject issue_number status
         in bind (git w [''add'', ''-A'']) (\<lambda>_.
            bind (git w [''commit'', ''--message'', subject @ nl @ nl @ ''Attempt-Id: '' @ attempt_id @ nl]) (\<lambda>_.
            bind (git w [''rev-parse'', ''HEAD'']) (\<lambda>revision.
            Return (Some \<lparr>ac_revision = revision, ac_subject = subject\<rparr>))))))"

definition commit_handoff_note :: "workspace \<Rightarrow> int \<Rightarrow> string \<Rightarrow> attempt_commit ws_prog" where
  "commit_handoff_note w issue_number text =
     (let path = handoff_note_relpath issue_number; subject = ''Handoff note: issue #'' @ str_of_int issue_number
      in bind (effect (Make_parents (in_clone w path))) (\<lambda>_.
         bind (effect (Write_text (in_clone w path) text)) (\<lambda>_.
         bind (git w [''add'', ''--'', path]) (\<lambda>_.
         bind (git w [''commit'', ''--message'', subject]) (\<lambda>_.
         bind (git w [''rev-parse'', ''HEAD'']) (\<lambda>revision.
         Return \<lparr>ac_revision = revision, ac_subject = subject\<rparr>))))))"

text \<open>The commits of a note that were authored at or after the start; \<open>None\<close> is the \<open>ValueError\<close> of \<open>int\<close>.\<close>

primrec notes_since :: "int option \<Rightarrow> string list \<Rightarrow> failure + attempt_commit list" where
  "notes_since started [] = Inr []"
| "notes_since started (line # lines) = (case note_line line of
     None \<Rightarrow> Inl invalid_listing
   | Some (revision, authored, subject) \<Rightarrow>
       (let commit = \<lparr>ac_revision = revision, ac_subject = subject\<rparr> in
        case started of
          None \<Rightarrow> map_sum id (Cons commit) (notes_since started lines)
        | Some t \<Rightarrow> (case py_int authored of
            None \<Rightarrow> Inl (OtherError ''ValueError'' ''invalid literal for int()'')
          | Some at_time \<Rightarrow> if t \<le> at_time then map_sum id (Cons commit) (notes_since started lines)
              else notes_since started lines)))"

definition handoff_note_commits :: "workspace \<Rightarrow> iso_parser \<Rightarrow> prepared_attempt \<Rightarrow> int \<Rightarrow> string \<Rightarrow> attempt_commit list ws_prog" where
  "handoff_note_commits w parse_iso p issue_number attempt_id =
     bind (git w [''log'', ''--format=%H%x00%at%x00%s'', pa_base_revision p @ ''..'' @ pa_branch p, ''--'',
         handoff_note_relpath issue_number]) (\<lambda>out.
     case notes_since (attempt_start_epoch parse_iso attempt_id) (py_splitlines out) of Inl e \<Rightarrow> Raise e | Inr cs \<Rightarrow> Return cs)"

definition handoff_note_commit :: "workspace \<Rightarrow> iso_parser \<Rightarrow> prepared_attempt \<Rightarrow> int \<Rightarrow> string \<Rightarrow> attempt_commit option ws_prog" where
  "handoff_note_commit w parse_iso p issue_number attempt_id =
     bind (handoff_note_commits w parse_iso p issue_number attempt_id) (\<lambda>cs.
     Return (case cs of [] \<Rightarrow> None | c # _ \<Rightarrow> Some c))"

definition handoff_note_content_at_revision :: "workspace \<Rightarrow> string \<Rightarrow> int \<Rightarrow> string option ws_prog" where
  "handoff_note_content_at_revision w revision issue_number = on_git_error
     (bind (git w [''show'', revision @ '':'' @ handoff_note_relpath issue_number]) (\<lambda>s. Return (Some s))) (\<lambda>e. Return None)"

definition handoff_note_commit_carries_work :: "workspace \<Rightarrow> string \<Rightarrow> int \<Rightarrow> bool ws_prog" where
  "handoff_note_commit_carries_work w revision issue_number =
     (let path = handoff_note_relpath issue_number
      in bind (git w [''diff-tree'', ''--no-commit-id'', ''--name-only'', ''-r'', ''--root'', revision, ''--'']) (\<lambda>out.
         if list_all (\<lambda>l. py_strip l = path) (nonblank_lines out) then Return False
         else on_git_error (bind (git w [''cat-file'', ''-e'', revision @ '':'' @ path]) (\<lambda>_. Return False)) (\<lambda>e. Return True)))"


section \<open>Cleaning up\<close>

definition ignored_files_snapshot :: "workspace \<Rightarrow> string list ws_prog" where
  "ignored_files_snapshot w = on_git_error
     (bind (git w [''ls-files'', ''--others'', ''--ignored'', ''--exclude-standard'']) (\<lambda>s. Return (nonblank_lines s)))
     (\<lambda>e. Return [])"

text \<open>A link or a file is unlinked, a directory removed with its content; what the system refuses stays.\<close>

definition remove_target :: "string \<Rightarrow> unit ws_prog" where
  "remove_target target = handle
     (bind (ask_bool (Path_is_symlink target)) (\<lambda>l.
      bind (if l then Return True else ask_bool (Path_is_file target)) (\<lambda>f.
      if f then effect (Unlink target)
      else bind (ask_bool (Path_is_dir target)) (\<lambda>d. if d then effect (Remove_tree target) else Return ()))))
     (\<lambda>e. if e = os_error then Return () else Raise e)"

primrec remove_all :: "string list \<Rightarrow> unit ws_prog" where
  "remove_all [] = Return ()"
| "remove_all (t # ts) = bind (remove_target t) (\<lambda>_. remove_all ts)"

definition remove_branch_ignored_leftovers :: "workspace \<Rightarrow> string list \<Rightarrow> unit ws_prog" where
  "remove_branch_ignored_leftovers w ignored =
     (if ignored = [] then Return ()
      else bind (on_git_error (dirty_paths w) (\<lambda>e. Return [])) (\<lambda>dirty.
        if dirty = [] \<or> \<not> covered_by_ignored dirty ignored \<or> list_ex escapes dirty then Return ()
        else remove_all (map (in_clone w) dirty)))"

definition cleanup :: "workspace \<Rightarrow> string \<Rightarrow> unit ws_prog" where
  "cleanup w base =
     bind (on_git_error (bind (git w [''rebase'', ''--abort'']) (\<lambda>_. Return ())) (\<lambda>e. Return ())) (\<lambda>_.
     bind (is_clean w) (\<lambda>clean.
     if \<not> clean then Raise (dirty_error (''Repository working tree contains uncommitted or untracked changes; ''
       @ ''leaving the workspace on the attempt branch for operator inspection.''))
     else bind (ignored_files_snapshot w) (\<lambda>ignored.
       bind (on_git_error (bind (git w [''checkout'', base]) (\<lambda>_. Return ())) (\<lambda>e. Return ())) (\<lambda>_.
       remove_branch_ignored_leftovers w ignored))))"


section \<open>Pushing\<close>

definition past :: "rat option \<Rightarrow> rat \<Rightarrow> bool ws_prog" where
  "past deadline delay = (case deadline of
     None \<Rightarrow> Return False
   | Some d \<Rightarrow> bind clock (\<lambda>now. Return (d \<le> now + delay)))"

definition push_retry_delay :: "nat \<Rightarrow> rat option \<Rightarrow> unit ws_prog" where
  "push_retry_delay attempt deadline =
     (let delay = min (2 * 2 ^ attempt) 30
      in bind (past deadline delay) (\<lambda>late.
         if late then Raise (git_error ''PUBLISH_TIMEOUT exceeded while retrying push'') else effect (Sleep delay)))"

definition leased_push :: "workspace \<Rightarrow> string \<Rightarrow> string \<Rightarrow> string ws_prog" where
  "leased_push w branch expected = git w (push_call branch expected)"

definition fetch_remote_branch :: "workspace \<Rightarrow> string \<Rightarrow> string option ws_prog" where
  "fetch_remote_branch w branch =
     bind (handle (bind (git w (fetch_call branch)) (\<lambda>_. Return None))
       (\<lambda>e. if \<not> is_git_error e then Raise e
          else bind (on_git_error (remote_branch_revision w branch) (\<lambda>x. Raise e)) (\<lambda>observed.
            if observed \<noteq> None then Raise e else Return (Some ())))) (\<lambda>absent.
     if absent = None then remote_branch_revision w branch else Return None)"

definition push_and_confirm :: "workspace \<Rightarrow> string \<Rightarrow> string \<Rightarrow> string \<Rightarrow> unit ws_prog" where
  "push_and_confirm w branch local_revision expected =
     bind (leased_push w branch expected) (\<lambda>_.
     bind (remote_branch_revision w branch) (\<lambda>current.
     if current = Some local_revision then Return ()
     else Raise (git_error ''Pushed branch does not match the local revision'')))"

text \<open>The two loops of the push; the first argument counts the attempts that are left, the second those made.\<close>

definition push_failed_error :: failure where
  "push_failed_error = git_error ''Attempt branch could not be pushed safely''"

definition push_timed_out :: failure where
  "push_timed_out = git_error ''PUBLISH_TIMEOUT exceeded while pushing''"

text \<open>After a failed push: done when the remote shows the revision, otherwise a pause unless this was the last attempt.\<close>

definition landed :: "workspace \<Rightarrow> string \<Rightarrow> string \<Rightarrow> bool ws_prog" where
  "landed w branch local_revision =
     on_git_error (bind (remote_branch_revision w branch) (\<lambda>r. Return (r = Some local_revision))) (\<lambda>x. Return False)"

definition pause_unless :: "bool \<Rightarrow> nat \<Rightarrow> nat \<Rightarrow> rat option \<Rightarrow> bool ws_prog" where
  "pause_unless done_now left made deadline =
     (if done_now then Return True
      else if 0 < left then bind (push_retry_delay made deadline) (\<lambda>_. Return False)
      else Return False)"

definition observed_push :: "workspace \<Rightarrow> string \<Rightarrow> string \<Rightarrow> bool ws_prog" where
  "observed_push w branch local_revision =
     bind (fetch_remote_branch w branch) (\<lambda>observed.
     bind (push_and_confirm w branch local_revision (case observed of None \<Rightarrow> [] | Some r \<Rightarrow> r)) (\<lambda>_. Return True))"

primrec push_observed :: "nat \<Rightarrow> nat \<Rightarrow> workspace \<Rightarrow> string \<Rightarrow> string \<Rightarrow> rat option \<Rightarrow> string ws_prog" where
  "push_observed 0 made w branch local_revision deadline = Raise push_failed_error"
| "push_observed (Suc left) made w branch local_revision deadline =
     bind (past deadline 0) (\<lambda>late.
     if late then Raise push_timed_out
     else bind (on_git_error (observed_push w branch local_revision)
         (\<lambda>e. bind (landed w branch local_revision) (\<lambda>there. pause_unless there left made deadline)))
       (\<lambda>pushed. if pushed then Return local_revision
          else push_observed left (Suc made) w branch local_revision deadline))"

definition UNREADABLE :: string where "UNREADABLE = ''__unreadable__''"

definition revision_word :: "string option \<Rightarrow> string" where
  "revision_word r = (case r of None \<Rightarrow> ''absent'' | Some s \<Rightarrow> s)"

text \<open>What the remote holds after a failed push decides: landed, moved by another Worker, or try again.\<close>

definition reconcile_push :: "workspace \<Rightarrow> string \<Rightarrow> string \<Rightarrow> string option \<Rightarrow> bool ws_prog" where
  "reconcile_push w branch local_revision expected_revision =
     bind (on_git_error (remote_branch_revision w branch) (\<lambda>x. Return (Some UNREADABLE))) (\<lambda>current.
     if current = Some local_revision then Return True
     else if current \<noteq> Some UNREADABLE \<and> current \<noteq> expected_revision
     then Raise (BranchMovedSinceClaimError (''branch moved since claim: remote '' @ branch @ '' is '' @ revision_word current
       @ '', '' @ ''claim-time lease was '' @ revision_word expected_revision))
     else Return False)"

definition is_moved :: "failure \<Rightarrow> bool" where
  "is_moved e = (case e of BranchMovedSinceClaimError m \<Rightarrow> True | _ \<Rightarrow> False)"

primrec push_with_claim_lease :: "nat \<Rightarrow> nat \<Rightarrow> workspace \<Rightarrow> string \<Rightarrow> string \<Rightarrow> string option \<Rightarrow> rat option \<Rightarrow> string ws_prog" where
  "push_with_claim_lease 0 made w branch local_revision expected deadline = Raise push_failed_error"
| "push_with_claim_lease (Suc left) made w branch local_revision expected deadline =
     bind (past deadline 0) (\<lambda>late.
     if late then Raise push_timed_out
     else bind (on_git_error
         (bind (push_and_confirm w branch local_revision (case expected of None \<Rightarrow> [] | Some r \<Rightarrow> r)) (\<lambda>_. Return True))
         (\<lambda>e. if is_moved e then Raise e
            else bind (reconcile_push w branch local_revision expected) (\<lambda>there. pause_unless there left made deadline)))
       (\<lambda>pushed. if pushed then Return local_revision
          else push_with_claim_lease left (Suc made) w branch local_revision expected deadline))"

definition push_attempt_branch ::
  "workspace \<Rightarrow> string \<Rightarrow> int \<Rightarrow> rat option \<Rightarrow> string option \<Rightarrow> bool \<Rightarrow> string ws_prog" where
  "push_attempt_branch w branch max_retries deadline expected_revision lease_known =
     (if max_retries \<le> 0 then Raise (git_error ''Push retry count must be positive'')
      else if lease_known \<and> (case expected_revision of None \<Rightarrow> False | Some r \<Rightarrow> py_blank r \<or> list_ex py_space r)
      then Raise (git_error ''Claim lease revision must be a non-empty string or None'')
      else bind (revision_of w branch False) (\<lambda>local_revision.
        if lease_known then push_with_claim_lease (nat max_retries) 0 w branch local_revision expected_revision deadline
        else push_observed (nat max_retries) 0 w branch local_revision deadline))"

end
