(* ===== verification/Git_Workspace_Props.thy ===== *)
theory Git_Workspace_Props
  imports Git_Workspace_Push "HOL-Library.Sublist"
begin

text \<open>
  What a push, a cleanup and a prepared branch may rely on, for all answers of git: a push is reported only for the
  revision that the remote showed afterwards, it is tried at most as often as configured, and of the Workers that
  hold the same lease at most one succeeds.
\<close>

section \<open>Following git\<close>

text \<open>What is followed does not depend on the token.\<close>

definition ignores_token :: "('s \<Rightarrow> ws_call \<Rightarrow> ws_answer \<Rightarrow> 's) \<Rightarrow> bool" where
  "ignores_token step \<longleftrightarrow> (\<forall>s r. step s Token r = s)"

lemma follow_git_at:
  assumes "ignores_token step" "\<And>e. Q s (Inl e)" "\<And>r. legal (Run_git d args) r \<Longrightarrow> Q (step s (Run_git d args) r) (git_result r)"
  shows "follow legal step Q (git_at d args) s"
  using assms by (auto simp: git_at_def ask_text_def ignores_token_def split: sum.split)

lemma follow_git:
  assumes "ignores_token step" "\<And>e. Q s (Inl e)"
    and "\<And>r. legal (Run_git (Some (ws_clone_dir w)) args) r \<Longrightarrow> Q (step s (Run_git (Some (ws_clone_dir w)) args) r) (git_result r)"
  shows "follow legal step Q (git w args) s"
  unfolding git_def by (rule follow_git_at) (fact assms)+

lemma calls_git_at: "P Token \<Longrightarrow> P (Run_git d args) \<Longrightarrow> calls P (git_at d args)"
  by (auto simp: git_at_def ask_text_def intro!: calls_rules)

lemma calls_git [calls_rules]: "P Token \<Longrightarrow> P (Run_git (Some (ws_clone_dir w)) args) \<Longrightarrow> calls P (git w args)"
  by (simp add: git_def calls_git_at)

lemma calls_effect [calls_rules]: "P q \<Longrightarrow> calls P (effect q)"
  by (auto simp: effect_def intro!: calls_rules)

lemma calls_ask_bool [calls_rules]: "P q \<Longrightarrow> calls P (ask_bool q)"
  by (auto simp: ask_bool_def intro!: calls_rules)

lemma calls_on_git_error [calls_rules]: "calls P m \<Longrightarrow> (\<And>e. calls P (h e)) \<Longrightarrow> calls P (on_git_error m h)"
  by (auto simp: on_git_error_def intro!: calls_rules)

lemma calls_past [calls_rules]: "P Clock \<Longrightarrow> calls P (past deadline delay)"
  by (auto simp: past_def clock_def intro!: calls_rules split: option.split)


section \<open>Pushing\<close>

text \<open>The revision of the branch in the clone, what the remote showed since the last push, and how often was pushed and waited.\<close>

record push_trace =
  ph_local :: "string option"
  ph_remote :: "string option option"
  ph_pushes :: nat
  ph_waits :: nat
  ph_wait_ok :: bool

definition shown :: "string \<Rightarrow> ws_answer \<Rightarrow> string option option" where
  "shown branch r = (case git_result r of Inl e \<Rightarrow> None | Inr out \<Rightarrow> (case remote_line branch out of Inl e \<Rightarrow> None | Inr x \<Rightarrow> Some x))"

definition push_step :: "string \<Rightarrow> push_trace \<Rightarrow> ws_call \<Rightarrow> ws_answer \<Rightarrow> push_trace" where
  "push_step branch s q r = (case q of
     Run_git d args \<Rightarrow>
       if args = remote_call branch then s\<lparr>ph_remote := shown branch r\<rparr>
       else if args = verify_call branch then s\<lparr>ph_local := (case git_result r of Inl e \<Rightarrow> None | Inr x \<Rightarrow> Some x)\<rparr>
       else if args \<noteq> [] \<and> hd args = ''push'' then s\<lparr>ph_remote := None, ph_pushes := Suc (ph_pushes s)\<rparr>
       else s
   | Sleep d \<Rightarrow> s\<lparr>ph_waits := Suc (ph_waits s), ph_wait_ok := (ph_wait_ok s \<and> 0 < d \<and> d \<le> 30)\<rparr>
   | _ \<Rightarrow> s)"

abbreviation pushes_as :: "string \<Rightarrow> (push_trace \<Rightarrow> failure + 'a \<Rightarrow> bool) \<Rightarrow> 'a ws_prog \<Rightarrow> push_trace \<Rightarrow> bool" where
  "pushes_as branch \<equiv> follow (\<lambda>q r. True) (push_step branch)"

lemma push_step_simps [simp]:
  "push_step b s Token r = s" "push_step b s Clock r = s"
  "push_step b s (Run_git d (remote_call b)) r = s\<lparr>ph_remote := shown b r\<rparr>"
  "push_step b s (Run_git d (push_call b e)) r = s\<lparr>ph_remote := None, ph_pushes := Suc (ph_pushes s)\<rparr>"
  "push_step b s (Run_git d (verify_call b)) r = s\<lparr>ph_local := (case git_result r of Inl e \<Rightarrow> None | Inr x \<Rightarrow> Some x)\<rparr>"
  "push_step b s (Run_git d (fetch_call b)) r = s"
  "push_step b s (Sleep t) r = s\<lparr>ph_waits := Suc (ph_waits s), ph_wait_ok := (ph_wait_ok s \<and> 0 < t \<and> t \<le> 30)\<rparr>"
  by (simp_all add: push_step_def remote_call_def verify_call_def fetch_call_def push_call_def)

lemma push_ignores [simp]: "ignores_token (push_step b)"
  by (simp add: ignores_token_def)

text \<open>The state but for what the remote showed last.\<close>

abbreviation unread :: "push_trace \<Rightarrow> push_trace" where
  "unread s \<equiv> s\<lparr>ph_remote := None\<rparr>"

lemma reads_remote:
  "pushes_as b (\<lambda>t y. unread t = unread s \<and> (\<forall>x. y = Inr x \<longrightarrow> ph_remote t = Some x)) (remote_branch_revision w b) s"
  unfolding remote_branch_revision_def
proof (rule follow_bindI)
  show "pushes_as b (\<lambda>t y. unread t = unread s \<and> (\<forall>out. y = Inr out \<longrightarrow> (\<forall>x. remote_line b out = Inr x \<longrightarrow> ph_remote t = Some x)))
      (git w (remote_call b)) s"
    by (rule follow_git) (simp_all add: shown_def)
qed (auto split: sum.split)

lemma past_quiet: "pushes_as b (\<lambda>t y. t = s) (past deadline delay) s"
  by (auto simp: past_def clock_def split: option.split sum.split)

text \<open>At most \<open>n\<close> pushes and \<open>k\<close> waits later, on the same local branch.\<close>

definition gained :: "nat \<Rightarrow> nat \<Rightarrow> push_trace \<Rightarrow> push_trace \<Rightarrow> bool" where
  "gained n k s t \<longleftrightarrow> ph_local t = ph_local s \<and> ph_pushes t \<le> ph_pushes s + n \<and> ph_waits t \<le> ph_waits s + k
     \<and> (ph_wait_ok s \<longrightarrow> ph_wait_ok t)"

lemma gained_refl [simp]: "gained n k s s"
  by (simp add: gained_def)

lemma gained_trans: "gained n k s t \<Longrightarrow> gained m j t u \<Longrightarrow> n + m \<le> a \<Longrightarrow> k + j \<le> b \<Longrightarrow> gained a b s u"
  by (auto simp: gained_def)

lemma gained_unread: "unread t = unread s \<Longrightarrow> gained n k s t"
  by (cases s; cases t) (simp add: gained_def)

lemma remote_within: "pushes_as b (\<lambda>t y. gained n k s t) (remote_branch_revision w b) s"
  by (rule follow_mono [OF reads_remote]) (auto intro: gained_unread)

lemma fetch_within: "pushes_as b (\<lambda>t y. gained 0 0 s t) (fetch_remote_branch w b) s"
  unfolding fetch_remote_branch_def
proof (rule follow_bindI [where R = "\<lambda>t y. gained 0 0 s t"])
  have "pushes_as b (\<lambda>t y. gained 0 0 s t) (git w (fetch_call b)) s"
    by (rule follow_git) simp_all
  moreover have again: "pushes_as b (\<lambda>t y. gained 0 0 s t) (remote_branch_revision w b) t" if "gained 0 0 s t" for t
    by (rule follow_mono [OF remote_within [where n = 0 and k = 0]]) (auto intro: gained_trans [OF that])
  ultimately show "pushes_as b (\<lambda>t y. gained 0 0 s t)
     (handle (bind (git w (fetch_call b)) (\<lambda>_. Return None))
       (\<lambda>e. if \<not> is_git_error e then Raise e
          else bind (on_git_error (remote_branch_revision w b) (\<lambda>x. Raise e)) (\<lambda>observed.
            if observed \<noteq> None then Raise e else Return (Some ())))) s"
    by (auto simp: on_git_error_def split: sum.split elim!: follow_mono intro!: follow_mono [OF again])
  show "pushes_as b (\<lambda>t y. gained 0 0 s t) (if x = None then remote_branch_revision w b else Return None) t"
    if "gained 0 0 s t" for t x
    using again that by simp
qed

lemma delay_within: "pushes_as b (\<lambda>t y. gained 0 1 s t) (push_retry_delay made deadline) s"
  unfolding push_retry_delay_def Let_def
  by (rule follow_bindI [OF past_quiet]) (auto simp: effect_def gained_def split: sum.split)

lemma confirm_within:
  "pushes_as b (\<lambda>t y. gained 1 0 s t \<and> (\<forall>u. y = Inr u \<longrightarrow> ph_remote t = Some (Some sha))) (push_and_confirm w b sha expected) s"
  unfolding push_and_confirm_def leased_push_def
proof (rule follow_bindI)
  show "pushes_as b (\<lambda>t y. gained 1 0 s t) (git w (push_call b expected)) s"
    by (rule follow_git) (simp_all add: gained_def)
  show "pushes_as b (\<lambda>t y. gained 1 0 s t \<and> (\<forall>u. y = Inr u \<longrightarrow> ph_remote t = Some (Some sha)))
      (bind (remote_branch_revision w b) (\<lambda>current. if current = Some sha then Return ()
        else Raise (git_error ''Pushed branch does not match the local revision''))) t" if "gained 1 0 s t" for t
    by (rule follow_bindI [OF reads_remote]) (auto intro: gained_trans [OF that gained_unread [where n = 0 and k = 0]])
qed auto

text \<open>What one round of either loop keeps: it ends the push only at the revision that the remote shows.\<close>

definition round_ok :: "nat \<Rightarrow> nat \<Rightarrow> string \<Rightarrow> push_trace \<Rightarrow> push_trace \<Rightarrow> failure + bool \<Rightarrow> bool" where
  "round_ok n k sha s t y \<longleftrightarrow> gained n k s t \<and> (y = Inr True \<longrightarrow> sha \<noteq> UNREADABLE \<longrightarrow> ph_remote t = Some (Some sha))"

lemma round_okD: "round_ok n k sha s t y \<Longrightarrow> gained n k s t"
  by (simp add: round_ok_def)

lemma round_trans: "gained n k s t \<Longrightarrow> round_ok m j sha t u y \<Longrightarrow> n + m \<le> a \<Longrightarrow> k + j \<le> b \<Longrightarrow> round_ok a b sha s u y"
  by (auto simp: round_ok_def intro: gained_trans)

lemma pause_round:
  assumes "round_ok 0 0 sha s s (Inr there)"
  shows "pushes_as b (round_ok 0 (if 0 < left then 1 else 0) sha s) (pause_unless there left made deadline) s"
proof (cases "there \<or> left = 0")
  case False
  have "pushes_as b (round_ok 0 1 sha s) (bind (push_retry_delay made deadline) (\<lambda>_. Return False)) s"
    by (rule follow_bindI [OF delay_within]) (simp_all add: round_ok_def)
  with False show ?thesis by (simp add: pause_unless_def)
qed (use assms in \<open>auto simp: pause_unless_def round_ok_def gained_def\<close>)

lemma landed_round: "pushes_as b (round_ok 0 0 sha s) (landed w b sha) s"
  unfolding landed_def on_git_error_def
proof (rule follow_handleI)
  show "pushes_as b (\<lambda>t y. round_ok 0 0 sha s t y) (bind (remote_branch_revision w b) (\<lambda>r. Return (r = Some sha))) s"
    by (rule follow_bindI [OF reads_remote]) (auto simp: round_ok_def intro: gained_unread)
qed (auto simp: round_ok_def)

lemma reconcile_round: "pushes_as b (round_ok 0 0 sha s) (reconcile_push w b sha expected) s"
  unfolding reconcile_push_def
proof (rule follow_bindI [where R = "\<lambda>t y. gained 0 0 s t \<and> (\<forall>x. y = Inr x \<longrightarrow> x = Some UNREADABLE \<or> ph_remote t = Some x)"])
  show "pushes_as b (\<lambda>t y. gained 0 0 s t \<and> (\<forall>x. y = Inr x \<longrightarrow> x = Some UNREADABLE \<or> ph_remote t = Some x))
      (on_git_error (remote_branch_revision w b) (\<lambda>x. Return (Some UNREADABLE))) s"
    unfolding on_git_error_def by (rule follow_handleI [OF reads_remote]) (auto intro: gained_unread)
qed (auto simp: round_ok_def)

lemma then_pause:
  assumes "pushes_as b (round_ok 0 0 sha t) m t" "gained 1 0 s t"
  shows "pushes_as b (round_ok 1 (if 0 < left then 1 else 0) sha s) (bind m (\<lambda>there. pause_unless there left made deadline)) t"
proof (rule follow_bindI [OF assms(1)])
  show "round_ok 1 (if 0 < left then 1 else 0) sha s u (Inl e)" if "round_ok 0 0 sha t u (Inl e)" for u e
    using that assms(2) by (auto simp: round_ok_def gained_def)
  show "pushes_as b (round_ok 1 (if 0 < left then 1 else 0) sha s) (pause_unless there left made deadline) u"
    if u: "round_ok 0 0 sha t u (Inr there)" for u there
  proof (rule follow_mono [OF pause_round])
    show "round_ok 0 0 sha u u (Inr there)" using u by (simp add: round_ok_def)
    show "round_ok 1 (if 0 < left then 1 else 0) sha s v y" if "round_ok 0 (if 0 < left then 1 else 0) sha u v y" for v y
      using that round_okD [OF u] assms(2) by (auto simp: round_ok_def gained_def)
  qed
qed

definition pushed_ok :: "string \<Rightarrow> push_trace \<Rightarrow> push_trace \<Rightarrow> failure + bool \<Rightarrow> bool" where
  "pushed_ok sha s t y \<longleftrightarrow> gained 1 0 s t \<and> (y = Inr True \<longrightarrow> ph_remote t = Some (Some sha))"

lemma confirm_pushed:
  "gained 0 0 s t \<Longrightarrow> pushes_as b (pushed_ok sha s) (bind (push_and_confirm w b sha expected) (\<lambda>_. Return True)) t"
  by (rule follow_bindI [OF confirm_within]) (auto simp: pushed_ok_def gained_def)

lemma observed_pushed: "pushes_as b (pushed_ok sha s) (observed_push w b sha) s"
  unfolding observed_push_def
  by (rule follow_bindI [OF fetch_within]) (simp add: pushed_ok_def gained_def, erule confirm_pushed)

lemma round_after_push:
  assumes "pushes_as b (pushed_ok sha s) m s"
    and "\<And>e t. gained 1 0 s t \<Longrightarrow> is_git_error e \<Longrightarrow> pushes_as b (round_ok 1 k sha s) (h e) t"
  shows "pushes_as b (round_ok 1 k sha s) (on_git_error m h) s"
  unfolding on_git_error_def
proof (rule follow_handleI [OF assms(1)])
  show "pushes_as b (round_ok 1 k sha s) (if is_git_error e then h e else Raise e) t" if "pushed_ok sha s t (Inl e)" for t e
    using that assms(2) [of t e] by (cases "is_git_error e") (simp_all add: pushed_ok_def round_ok_def gained_def)
qed (simp add: pushed_ok_def round_ok_def gained_def)

text \<open>At the end of a push: at most \<open>n\<close> attempts with pauses between them, and the revision is the one that the remote showed.\<close>

definition push_ok :: "nat \<Rightarrow> push_trace \<Rightarrow> push_trace \<Rightarrow> failure + string \<Rightarrow> bool" where
  "push_ok n s t y \<longleftrightarrow> gained n (n - 1) s t
     \<and> (case y of Inl e \<Rightarrow> True | Inr sha \<Rightarrow> sha = UNREADABLE \<or> ph_remote t = Some (Some sha))"

lemma round_then:
  assumes "pushes_as b (round_ok 1 (if 0 < left then 1 else 0) sha s) m s"
    and "\<And>t. pushes_as b (push_ok left t) rest t"
  shows "pushes_as b (push_ok (Suc left) s) (bind m (\<lambda>there. if there then Return sha else rest)) s"
proof (rule follow_bindI [OF assms(1)])
  show "pushes_as b (push_ok (Suc left) s) (if there then Return sha else rest) t"
    if "round_ok 1 (if 0 < left then 1 else 0) sha s t (Inr there)" for t there
  proof (cases there)
    case False
    show ?thesis unfolding if_not_P [OF False]
      by (rule follow_mono [OF assms(2) [of t]])
        (use that in \<open>auto simp: push_ok_def round_ok_def gained_def split: if_splits\<close>)
  qed (use that in \<open>auto simp: push_ok_def round_ok_def gained_def split: if_splits\<close>)
qed (auto simp: push_ok_def round_ok_def gained_def split: if_splits)

lemma late_or:
  "pushes_as b (push_ok n s) m s \<Longrightarrow> pushes_as b (push_ok n s) (bind (past deadline 0) (\<lambda>late. if late then Raise e else m)) s"
  by (rule follow_bindI [OF past_quiet]) (auto simp: push_ok_def)

lemma observed_ok: "pushes_as b (push_ok left s) (push_observed left made w b sha deadline) s"
proof (induction left arbitrary: made s)
  case (Suc left)
  show ?case
    unfolding push_observed.simps
    by (intro late_or round_then round_after_push observed_pushed then_pause landed_round Suc.IH)
qed (simp add: push_ok_def)

lemma leased_ok: "pushes_as b (push_ok left s) (push_with_claim_lease left made w b sha expected deadline) s"
proof (induction left arbitrary: made s)
  case (Suc left)
  have h: "pushes_as b (round_ok 1 (if 0 < left then 1 else 0) sha s)
      (if is_moved e then Raise e
       else bind (reconcile_push w b sha expected) (\<lambda>there. pause_unless there left made deadline)) t"
    if "gained 1 0 s t" for e t
    using then_pause [OF reconcile_round that] that by (auto simp: round_ok_def gained_def simp del: follow_bind)
  show ?case
    unfolding push_with_claim_lease.simps
    by (intro late_or round_then round_after_push confirm_pushed h Suc.IH) simp_all
qed (simp add: push_ok_def)

lemma verify_followed:
  "pushes_as b (\<lambda>t y. t = s\<lparr>ph_local := ph_local t\<rparr> \<and> (\<forall>x. y = Inr x \<longrightarrow> ph_local t = Some x)) (revision_of w b remote) s"
  unfolding revision_of_def on_git_error_def
proof (rule follow_handleI)
  show "pushes_as b (\<lambda>t y. t = s\<lparr>ph_local := ph_local t\<rparr> \<and> (\<forall>x. y = Inr x \<longrightarrow> ph_local t = Some x)) (git w (verify_call b)) s"
    by (rule follow_git) (auto split: sum.split)
qed auto

definition push_start :: push_trace where
  "push_start = \<lparr>ph_local = None, ph_remote = None, ph_pushes = 0, ph_waits = 0, ph_wait_ok = True\<rparr>"

lemma returns_local:
  "every (\<lambda>q. True) (\<lambda>y. \<forall>x. y = Inr x \<longrightarrow> x = sha) (push_observed left made w b sha deadline)"
  "every (\<lambda>q. True) (\<lambda>y. \<forall>x. y = Inr x \<longrightarrow> x = sha) (push_with_claim_lease left made w b sha expected deadline)"
  by (induction left arbitrary: made) (auto intro!: every_bindI [OF calls_any] split: if_splits)

text \<open>The whole push: how often it pushed and waited, and what it may return.\<close>

definition push_ends :: "nat \<Rightarrow> push_trace \<Rightarrow> failure + string \<Rightarrow> bool" where
  "push_ends n t y \<longleftrightarrow> ph_pushes t \<le> n \<and> ph_waits t \<le> n - 1 \<and> ph_wait_ok t
     \<and> (case y of Inl e \<Rightarrow> True
        | Inr sha \<Rightarrow> ph_local t = Some sha \<and> (ph_remote t = Some (Some sha) \<or> sha = UNREADABLE))"

lemma loops_end:
  assumes s: "ph_pushes s = 0" "ph_waits s = 0" "ph_wait_ok s" "ph_local s = Some sha"
  shows "pushes_as b (push_ends n) (if known then push_with_claim_lease n 0 w b sha expected deadline
      else push_observed n 0 w b sha deadline) s"
proof -
  have "pushes_as b (\<lambda>t y. push_ok n s t y \<and> (\<forall>x. y = Inr x \<longrightarrow> x = sha))
      (if known then push_with_claim_lease n 0 w b sha expected deadline else push_observed n 0 w b sha deadline) s"
    by (auto intro!: follow_conj observed_ok leased_ok follow_every returns_local)
  then show ?thesis
    by (rule follow_mono) (use s in \<open>auto simp: push_ok_def gained_def push_ends_def split: sum.splits\<close>)
qed

lemma push_followed: "pushes_as b (push_ends (nat n)) (push_attempt_branch w b n deadline expected known) push_start"
  unfolding push_attempt_branch_def
proof (intro follow_if)
  have fresh: "ph_pushes t = 0" "ph_waits t = 0" "ph_wait_ok t" if "t = push_start\<lparr>ph_local := ph_local t\<rparr>" for t
    by (subst that; simp add: push_start_def)+
  show "pushes_as b (push_ends (nat n)) (bind (revision_of w b False) (\<lambda>sha. if known
      then push_with_claim_lease (nat n) 0 w b sha expected deadline else push_observed (nat n) 0 w b sha deadline)) push_start"
  proof (rule follow_bindI [OF verify_followed], goal_cases)
    case (1 t e)
    then show ?case using fresh [of t] by (simp add: push_ends_def)
  next
    case (2 t sha)
    show ?case by (rule loops_end) (use 2 fresh [of t] in auto)
  qed
qed (simp_all add: push_ends_def push_start_def)

text \<open>
  A push is reported only when it arrived: \<open>push_attempt_branch\<close> returns the revision that the clone had for the
  branch, and the remote showed exactly this revision when it was read after the last push, whatever git answered in
  between, with a claim-time lease or without one. (A revision with the name of the code's own sentinel for an
  unreadable remote is left out.)
\<close>
theorem push_confirmed_by_remote:
  "follow (\<lambda>q r. True) (push_step branch)
     (\<lambda>t y. case y of Inl e \<Rightarrow> True
        | Inr sha \<Rightarrow> ph_local t = Some sha \<and> (ph_remote t = Some (Some sha) \<or> sha = UNREADABLE))
     (push_attempt_branch w branch max_retries deadline expected lease_known) push_start"
  by (rule follow_mono [OF push_followed]) (simp add: push_ends_def)

text \<open>
  C22. The push is bounded: with \<open>max_retries\<close> it runs git push at most so many times (never for a count below one),
  pauses fewer times than that, and no pause is longer than 30 seconds, whatever git answers.
\<close>
theorem pushes_bounded:
  "follow (\<lambda>q r. True) (push_step branch)
     (\<lambda>t y. ph_pushes t \<le> nat max_retries \<and> ph_waits t \<le> nat max_retries - 1 \<and> ph_wait_ok t)
     (push_attempt_branch w branch max_retries deadline expected lease_known) push_start"
  by (rule follow_mono [OF push_followed]) (simp add: push_ends_def)


section \<open>Several Workers push the same branch\<close>

text \<open>
  What is relied on of git and its server: a listing shows the branch as it is, a clone names its own tip, and the
  branch changes only by a push whose lease names the value it has, to the tip of the pushing clone. (That is what
  \<open>--force-with-lease\<close> documents.) The tip of a clone is given by \<open>tip\<close>.
\<close>

definition listing_is_current :: "('w, ws_call, ws_answer) service \<Rightarrow> ('w \<Rightarrow> string option) \<Rightarrow> string \<Rightarrow> bool" where
  "listing_is_current serve remote b \<longleftrightarrow>
     (\<forall>w d r v x. serve w (Run_git d (remote_call b)) r v \<longrightarrow> shown b r = Some x \<longrightarrow> x = remote w)"

definition clone_names_tip :: "('w, ws_call, ws_answer) service \<Rightarrow> (string \<Rightarrow> string) \<Rightarrow> string \<Rightarrow> bool" where
  "clone_names_tip serve tip b \<longleftrightarrow>
     (\<forall>w d r v x. serve w (Run_git (Some d) (verify_call b)) r v \<longrightarrow> git_result r = Inr x \<longrightarrow> x = tip d)"

definition lease_guards :: "('w, ws_call, ws_answer) service \<Rightarrow> ('w \<Rightarrow> 'w \<Rightarrow> bool) \<Rightarrow> ('w \<Rightarrow> string option) \<Rightarrow> (string \<Rightarrow> string) \<Rightarrow> string \<Rightarrow> bool" where
  "lease_guards serve drift remote tip b \<longleftrightarrow>
     (\<forall>w q r v. serve w q r v \<longrightarrow> remote v \<noteq> remote w \<longrightarrow>
        (\<exists>d e. q = Run_git (Some d) (push_call b e) \<and> remote w = (if e = [] then None else Some e) \<and> remote v = Some (tip d)))
     \<and> (\<forall>w v. drift w v \<longrightarrow> remote v = remote w)"

definition own_calls :: "string \<Rightarrow> string \<Rightarrow> string option \<Rightarrow> ws_call \<Rightarrow> bool" where
  "own_calls dir b lease q \<longleftrightarrow> (\<forall>d args. q = Run_git d args \<longrightarrow>
     d = Some dir \<and> (\<forall>e. args = push_call b e \<longrightarrow> (if e = [] then None else Some e) = lease))"

lemma own_calls_simps [simp]:
  "own_calls dir b l Token" "own_calls dir b l Clock" "own_calls dir b l (Sleep t)"
  "own_calls dir b l (Run_git (Some dir) (remote_call b))" "own_calls dir b l (Run_git (Some dir) (verify_call x))"
  "own_calls dir b l (Run_git (Some dir) (push_call b e)) \<longleftrightarrow> (if e = [] then None else Some e) = l"
  by (simp_all add: own_calls_def remote_call_def verify_call_def push_call_def)

lemma leased_push_calls:
  assumes "lease \<noteq> Some []"
  shows "calls (own_calls (ws_clone_dir w) b lease) (push_attempt_branch w b n deadline lease True)"
proof -
  have e: "own_calls (ws_clone_dir w) b lease (Run_git (Some (ws_clone_dir w)) (push_call b (case lease of None \<Rightarrow> [] | Some r \<Rightarrow> r)))"
    using assms by (auto split: option.split)
  let ?P = "own_calls (ws_clone_dir w) b lease"
  have remote: "calls ?P (remote_branch_revision w b)"
    by (auto simp: remote_branch_revision_def intro!: calls_rules)
  have confirm: "calls ?P (push_and_confirm w b sha (case lease of None \<Rightarrow> [] | Some r \<Rightarrow> r))" for sha
    unfolding push_and_confirm_def leased_push_def by (intro calls_rules remote e own_calls_simps)
  have reconcile: "calls ?P (reconcile_push w b sha lease)" for sha
    unfolding reconcile_push_def by (intro calls_rules remote)
  have pause: "calls ?P (pause_unless there left made deadline)" for there left made
    unfolding pause_unless_def push_retry_delay_def Let_def by (intro calls_rules own_calls_simps)
  have "calls ?P (push_with_claim_lease left made w b sha lease deadline)" for left made sha
    by (induction left arbitrary: made)
      (simp_all only: push_with_claim_lease.simps, (intro calls_rules confirm reconcile pause own_calls_simps | assumption)+)
  then show ?thesis
    unfolding push_attempt_branch_def revision_of_def by (intro calls_rules own_calls_simps) simp_all
qed

text \<open>Where the Workers are: what each program still does, with the last reading of each that shows its own tip true.\<close>

definition racing :: "('i \<Rightarrow> workspace) \<Rightarrow> (string \<Rightarrow> string) \<Rightarrow> string \<Rightarrow> string option \<Rightarrow> ('i \<Rightarrow> string ws_prog) \<Rightarrow> string option \<Rightarrow> ('i \<Rightarrow> push_trace) \<Rightarrow> bool" where
  "racing ws tip b lease ps remote S \<longleftrightarrow> (\<forall>i.
     calls (own_calls (ws_clone_dir (ws i)) b lease) (ps i)
     \<and> (\<exists>n. pushes_as b (push_ends n) (ps i) (S i))
     \<and> (ph_local (S i) = None \<or> ph_local (S i) = Some (tip (ws_clone_dir (ws i))))
     \<and> (ph_remote (S i) = Some (Some (tip (ws_clone_dir (ws i)))) \<longrightarrow> remote = Some (tip (ws_clone_dir (ws i)))))"

lemma racing_step:
  assumes laws: "listing_is_current serve remote b" "clone_names_tip serve tip b" "lease_guards serve drift remote tip b"
    and lease: "\<And>i. lease \<noteq> Some (tip (ws_clone_dir (ws i)))"
    and ok: "racing ws tip b lease ps (remote w) S" and call: "ps i = Call q k" "serve w q r v"
  shows "racing ws tip b lease (ps(i := k r)) (remote v) (S(i := push_step b (S i) q r))"
proof -
  let ?s = "push_step b (S i) q r" and ?tip = "\<lambda>j. tip (ws_clone_dir (ws j))"
  from ok have j: "calls (own_calls (ws_clone_dir (ws j)) b lease) (ps j)" "\<exists>n. pushes_as b (push_ends n) (ps j) (S j)"
      "ph_local (S j) = None \<or> ph_local (S j) = Some (?tip j)" "ph_remote (S j) = Some (Some (?tip j)) \<Longrightarrow> remote w = Some (?tip j)" for j
    by (auto simp: racing_def)
  have mine: "own_calls (ws_clone_dir (ws i)) b lease q" using j(1) [of i] call(1) by simp
  have keeps: "remote v = Some (?tip m)" if "remote w = Some (?tip m)" for m
  proof (rule ccontr)
    assume "remote v \<noteq> Some (?tip m)"
    with that have "remote v \<noteq> remote w" by simp
    with laws(3) call(2) obtain d e where q: "q = Run_git (Some d) (push_call b e)" "remote w = (if e = [] then None else Some e)"
      unfolding lease_guards_def by blast
    from mine q(1) have "(if e = [] then None else Some e) = lease" unfolding own_calls_def by blast
    with that q(2) lease [of m] show False by simp
  qed
  have local: "ph_local ?s = None \<or> ph_local ?s = Some (?tip i)"
  proof (cases "\<exists>d. q = Run_git d (verify_call b)")
    case True
    then have "q = Run_git (Some (ws_clone_dir (ws i))) (verify_call b)" using mine by (auto simp: own_calls_def)
    with laws(2) call(2) show ?thesis unfolding clone_names_tip_def by (auto split: sum.split)
  next
    case False
    then have "ph_local ?s = ph_local (S i)" by (auto simp: push_step_def split: ws_call.split)
    with j(3) [of i] show ?thesis by simp
  qed
  have seen: "remote v = Some (?tip i)" if "ph_remote ?s = Some (Some (?tip i))"
  proof (cases "\<exists>d. q = Run_git d (remote_call b)")
    case True
    then have "shown b r = Some (Some (?tip i))" using that by auto
    with True laws(1) call(2) have "remote w = Some (?tip i)" unfolding listing_is_current_def by metis
    then show ?thesis by (rule keeps)
  next
    case False
    with that have "ph_remote (S i) = Some (Some (?tip i))"
      by (auto simp: push_step_def split: ws_call.splits if_splits)
    then show ?thesis by (intro keeps j(4))
  qed
  have "calls (own_calls (ws_clone_dir (ws i)) b lease) (k r)" using j(1) [of i] call(1) by simp
  moreover have "\<exists>n. pushes_as b (push_ends n) (k r) ?s" using j(2) [of i] call(1) by auto
  ultimately show ?thesis
    using j local seen keeps by (simp add: racing_def)
qed

lemma racing_run:
  assumes laws: "listing_is_current serve remote b" "clone_names_tip serve tip b" "lease_guards serve drift remote tip b"
    and lease: "\<And>i. lease \<noteq> Some (tip (ws_clone_dir (ws i)))" "lease \<noteq> Some []"
    and run: "together serve drift (\<lambda>i. push_attempt_branch (ws i) b (n i) (deadline i) lease True, w0) d"
  shows "\<exists>S. racing ws tip b lease (fst d) (remote (snd d)) S"
  using run
proof (induction "(\<lambda>i. push_attempt_branch (ws i) b (n i) (deadline i) lease True, w0)" d rule: together.induct)
  case together_refl
  have "racing ws tip b lease (\<lambda>i. push_attempt_branch (ws i) b (n i) (deadline i) lease True) (remote w0) (\<lambda>i. push_start)"
    unfolding racing_def
  proof (intro allI conjI)
    fix i
    show "calls (own_calls (ws_clone_dir (ws i)) b lease) (push_attempt_branch (ws i) b (n i) (deadline i) lease True)"
      by (rule leased_push_calls [OF lease(2)])
    show "\<exists>m. pushes_as b (push_ends m) (push_attempt_branch (ws i) b (n i) (deadline i) lease True) push_start"
      by (rule exI, rule push_followed)
  qed (simp_all add: push_start_def)
  then show ?case by auto
next
  case (together_call ps w i q k r v)
  then show ?case using racing_step [OF laws lease(1)] by fastforce
next
  case (together_drift ps w v)
  then show ?case using laws(3) by (auto simp: lease_guards_def)
qed

text \<open>
  C21. Workers that hold the same claim-time lease of a shared branch push different commits, each from its own clone,
  at the same time: however their calls interleave and whatever calls fail, at most one of them reports a push.
\<close>
theorem one_push_wins:
  fixes ws :: "'i \<Rightarrow> workspace"
  assumes "listing_is_current serve remote b" "clone_names_tip serve tip b" "lease_guards serve drift remote tip b"
    and "inj (\<lambda>i. tip (ws_clone_dir (ws i)))" "\<And>i. tip (ws_clone_dir (ws i)) \<noteq> UNREADABLE"
    and "\<And>i. lease \<noteq> Some (tip (ws_clone_dir (ws i)))" "lease \<noteq> Some []"
    and "together serve drift (\<lambda>i. push_attempt_branch (ws i) b (n i) (deadline i) lease True, w0) (ps, w)"
    and "ps i = Return sha" "ps j = Return sha'"
  shows "i = j"
proof -
  obtain S where S: "racing ws tip b lease ps (remote w) S"
    using racing_run [OF assms(1-3,6-8)] by auto
  have "remote w = Some (tip (ws_clone_dir (ws l)))" if "ps l = Return x" for l x
  proof -
    from S obtain m where "pushes_as b (push_ends m) (ps l) (S l)" unfolding racing_def by blast
    moreover from S have "ph_local (S l) = None \<or> ph_local (S l) = Some (tip (ws_clone_dir (ws l)))"
      "ph_remote (S l) = Some (Some (tip (ws_clone_dir (ws l)))) \<longrightarrow> remote w = Some (tip (ws_clone_dir (ws l)))"
      unfolding racing_def by blast+
    ultimately show ?thesis using that assms(5) [of l] by (auto simp: push_ends_def)
  qed
  from this [OF assms(9)] this [OF assms(10)] have "tip (ws_clone_dir (ws i)) = tip (ws_clone_dir (ws j))" by simp
  then show ?thesis using assms(4) by (auto dest: injD)
qed

text \<open>Two clones at one remote, for examples: its state is the clone whose tip the branch has, if it was pushed to.\<close>

definition example_branch :: string where "example_branch = ''agent/issue-1''"

definition example_tip :: "string \<Rightarrow> string" where
  "example_tip d = (if d = ''/a'' then ''aaa'' else ''bbb'')"

definition example_remote :: "bool option \<Rightarrow> string option" where
  "example_remote w = Some (case w of None \<Rightarrow> ''old'' | Some True \<Rightarrow> ''aaa'' | Some False \<Rightarrow> ''bbb'')"

definition example_git :: "bool option \<Rightarrow> ws_call \<Rightarrow> ws_answer \<times> bool option" where
  "example_git w q = (case q of
     Run_git (Some d) args \<Rightarrow>
       if args = remote_call example_branch
       then (Output (the (example_remote w) @ [CHR 0x09] @ ''refs/heads/'' @ example_branch), w)
       else if args = verify_call example_branch then (Output (example_tip d), w)
       else if args = push_call example_branch ''old'' \<and> w = None then (Output [], Some (d = ''/a''))
       else (Exit_failure, w)
   | Run_git None args \<Rightarrow> (Exit_failure, w)
   | _ \<Rightarrow> (Output ''token'', w))"

definition example_clone :: "bool \<Rightarrow> workspace" where
  "example_clone i = \<lparr>ws_clone_dir = (if i then ''/a'' else ''/b''), ws_repository_url = ''https://host/o/r''\<rparr>"

definition example_pushes :: "bool \<Rightarrow> string ws_prog" where
  "example_pushes i = push_attempt_branch (example_clone i) example_branch 3 None (Some ''old'') True"

definition example_race :: "(bool \<Rightarrow> string ws_prog) \<times> bool option" where
  "example_race = schedule example_git [True, False, True, False, True, False, True, False, True, False, True, False, True, False, False]
     (example_pushes, None)"

definition returned :: "string ws_prog \<Rightarrow> bool" where
  "returned p \<longleftrightarrow> (case p of Return s \<Rightarrow> True | _ \<Rightarrow> False)"

lemma returned_iff: "returned p \<longleftrightarrow> (\<exists>s. p = Return s)"
  by (cases p) (auto simp: returned_def)

lemma example_shown: "shown example_branch (Output (the (example_remote w) @ [CHR 0x09] @ ''refs/heads/'' @ example_branch)) = Some (example_remote w)"
proof -
  have "list_all (\<lambda>w. shown example_branch (Output (the (example_remote w) @ [CHR 0x09] @ ''refs/heads/'' @ example_branch))
      = Some (example_remote w)) [None, Some True, Some False]"
    by code_simp
  then show ?thesis by (cases w; cases "the w") auto
qed

lemma example_tip_stripped: "py_strip (example_tip d) = example_tip d"
proof -
  have "list_all (\<lambda>t. py_strip t = t) [''aaa'', ''bbb'']" by code_simp
  then show ?thesis by (auto simp: example_tip_def)
qed

lemma example_git_laws:
  "listing_is_current (\<lambda>w q r v. example_git w q = (r, v)) example_remote example_branch"
  "clone_names_tip (\<lambda>w q r v. example_git w q = (r, v)) example_tip example_branch"
  "lease_guards (\<lambda>w q r v. example_git w q = (r, v)) (\<lambda>w v. False) example_remote example_tip example_branch"
proof -
  have git_failed: "shown example_branch Exit_failure = None"
    by (simp add: shown_def git_result_def)
  have other: "verify_call example_branch \<noteq> remote_call example_branch"
    by (simp add: verify_call_def remote_call_def)
  show "listing_is_current (\<lambda>w q r v. example_git w q = (r, v)) example_remote example_branch"
    unfolding listing_is_current_def using example_shown git_failed
    by (auto simp: example_git_def split: option.splits)
  show "clone_names_tip (\<lambda>w q r v. example_git w q = (r, v)) example_tip example_branch"
    unfolding clone_names_tip_def using other
    by (auto simp: example_git_def git_result_def ws_reply_def text_answer_def example_tip_stripped)
  show "lease_guards (\<lambda>w q r v. example_git w q = (r, v)) (\<lambda>w v. False) example_remote example_tip example_branch"
    unfolding lease_guards_def
  proof (intro conjI allI impI)
    fix w q r v assume q: "example_git w q = (r, v)" "example_remote v \<noteq> example_remote w"
    then obtain d where "q = Run_git (Some d) (push_call example_branch ''old'')" "w = None" "v = Some (d = ''/a'')"
      by (auto simp: example_git_def split: ws_call.splits option.splits if_splits)
    then show "\<exists>d e. q = Run_git (Some d) (push_call example_branch e) \<and> example_remote w = (if e = [] then None else Some e)
        \<and> example_remote v = Some (example_tip d)"
      by (intro exI [of _ d] exI [of _ "''old''"]) (simp add: example_remote_def example_tip_def)
  qed simp
qed

theorem one_push_wins_witness: "returned (fst example_race True) \<and> \<not> returned (fst example_race False)"
proof -
  have run: "together (\<lambda>w q r v. example_git w q = (r, v)) (\<lambda>w v. False) (example_pushes, None) (fst example_race, snd example_race)"
    unfolding prod.collapse example_race_def by (rule together_schedule [OF together_refl])
  have "True = False" if "fst example_race True = Return a" "fst example_race False = Return b" for a b
  proof (rule one_push_wins [where ws = example_clone and n = "\<lambda>i. 3" and deadline = "\<lambda>i. None" and lease = "Some ''old''",
        OF example_git_laws _ _ _ _ _ that])
    show "inj (\<lambda>i. example_tip (ws_clone_dir (example_clone i)))"
      by (auto simp: inj_def example_tip_def example_clone_def split: if_splits)
    show "together (\<lambda>w q r v. example_git w q = (r, v)) (\<lambda>w v. False)
       (\<lambda>i. push_attempt_branch (example_clone i) example_branch 3 None (Some ''old'') True, None) (fst example_race, snd example_race)"
      using run by (simp add: example_pushes_def [abs_def])
  qed (simp_all add: example_tip_def example_clone_def UNREADABLE_def)
  moreover have "returned (fst example_race True)"
    by code_simp
  ultimately show ?thesis by (auto simp: returned_iff)
qed

end
