(* ===== verification/Git_Cleanup.thy ===== *)
theory Git_Cleanup
  imports Git_Workspace_Props
begin

text \<open>
  Cleaning up after an attempt: the base branch is checked out only over a clean tree, and something is removed only
  when everything that is dirty was ignored by the attempt branch. Also, how the listing of changed paths is read.
\<close>

section \<open>Coverage by ignored paths\<close>

definition segments :: "string \<Rightarrow> string list" where
  "segments p = py_split (CHR ''/'') (normal_path p)"

lemma py_split_append: "py_split c (a @ c # b) = py_split c a @ py_split c b"
  by (induction a) (auto simp: py_split_nonempty split: list.split)

lemma py_join_append: "xs \<noteq> [] \<Longrightarrow> ys \<noteq> [] \<Longrightarrow> py_join d (xs @ ys) = py_join d xs @ d @ py_join d ys"
proof (induction d xs rule: py_join.induct)
  case (2 d x)
  then show ?case by (cases ys) auto
qed auto

lemma segments_prefix: "prefix (py_split c a) (py_split c b) \<longleftrightarrow> b = a \<or> py_startswith (a @ [c]) b"
proof
  assume "prefix (py_split c a) (py_split c b)"
  then obtain zs where zs: "py_split c b = py_split c a @ zs" by (auto simp: prefix_def)
  show "b = a \<or> py_startswith (a @ [c]) b"
  proof (cases "zs = []")
    case True
    with zs have "py_join [c] (py_split c b) = py_join [c] (py_split c a)" by simp
    then show ?thesis unfolding py_split_join by simp
  next
    case False
    have "b = py_join [c] (py_split c b)" by (simp only: py_split_join)
    also have "\<dots> = py_join [c] (py_split c a @ zs)" by (simp only: zs)
    also have "\<dots> = a @ [c] @ py_join [c] zs" by (simp add: py_join_append [OF py_split_nonempty False] py_split_join)
    finally show ?thesis by (simp add: py_startswith_append)
  qed
next
  assume "b = a \<or> py_startswith (a @ [c]) b"
  then show "prefix (py_split c a) (py_split c b)"
    by (auto simp: py_startswith_append py_split_append)
qed

text \<open>
  A changed path counts as ignored exactly when it and some ignored path, read segment by segment, are one the
  beginning of the other: a directory covers what is in it and the other way round, but never a sibling whose name
  only begins the same.
\<close>
theorem covered_by_segments:
  "covered_by_ignored dirty ignored =
     list_all (\<lambda>p. normal_path p \<noteq> [] \<and>
       list_ex (\<lambda>q. \<not> py_blank q \<and> (prefix (segments q) (segments p) \<or> prefix (segments p) (segments q))) ignored) dirty"
proof -
  have one: "(n \<noteq> [] \<and> map normal_path xs \<noteq> [] \<and> list_ex (\<lambda>c. n = c \<or> py_startswith (c @ ''/'') n \<or> py_startswith (n @ ''/'') c) (map normal_path xs))
      \<longleftrightarrow> n \<noteq> [] \<and> list_ex (\<lambda>q. (n = normal_path q \<or> py_startswith (normal_path q @ ''/'') n)
          \<or> (normal_path q = n \<or> py_startswith (n @ ''/'') (normal_path q))) xs" for n :: string and xs :: "string list"
    by (induction xs) auto
  have filtered: "list_ex P (filter Q xs) = list_ex (\<lambda>q. Q q \<and> P q) xs" for P Q :: "string \<Rightarrow> bool" and xs
    by (induction xs) auto
  show ?thesis
    unfolding covered_by_ignored_def Let_def segments_def segments_prefix
      one filtered ..
qed


section \<open>Cleaning up\<close>

text \<open>
  What is recorded: the last listing of changed paths since the ignored paths were listed, whether the tree was last
  found clean (a listing without a path, or no repository at all), whether it was so when the ignored paths were
  listed, and these paths.
\<close>

record cleanup_trace =
  ct_dirty :: "string list"
  ct_clean :: bool
  ct_sealed :: bool
  ct_ignored :: "string list"
  ct_ok :: bool

definition status_call :: "string list" where "status_call = [''status'', ''--porcelain'']"

definition ignored_call :: "string list" where
  "ignored_call = [''ls-files'', ''--others'', ''--ignored'', ''--exclude-standard'']"

definition lines_of :: "ws_answer \<Rightarrow> string list" where
  "lines_of r = (case git_result r of Inl e \<Rightarrow> [] | Inr out \<Rightarrow> nonblank_lines out)"

text \<open>
  When a path may be removed: the tree was clean on the attempt branch, every path that is changed now lies inside the
  clone and is covered by what that branch ignored, and the path is one of them. One path that is not explained leaves
  nothing that may be removed.
\<close>

definition removable :: "workspace \<Rightarrow> cleanup_trace \<Rightarrow> string \<Rightarrow> bool" where
  "removable w s target \<longleftrightarrow> ct_sealed s \<and> covered_by_ignored (ct_dirty s) (ct_ignored s)
     \<and> list_all (\<lambda>p. \<not> py_startswith ''/'' p \<and> ''..'' \<notin> set (py_split (CHR ''/'') p)) (ct_dirty s)
     \<and> target \<in> set (map (\<lambda>p. ws_clone_dir w @ ''/'' @ p) (ct_dirty s))"

definition cleanup_step :: "workspace \<Rightarrow> string \<Rightarrow> cleanup_trace \<Rightarrow> ws_call \<Rightarrow> ws_answer \<Rightarrow> cleanup_trace" where
  "cleanup_step w base s q r = (case q of
     Path_exists p \<Rightarrow> if p = in_clone w ''.git'' \<and> r = Yes_no False then s\<lparr>ct_clean := True\<rparr> else s
   | Run_git d args \<Rightarrow>
       if args = status_call then (case git_result r of
           Inl e \<Rightarrow> s
         | Inr out \<Rightarrow> s\<lparr>ct_dirty := map porcelain_path (nonblank_lines out), ct_clean := py_blank out\<rparr>)
       else if args = ignored_call then s\<lparr>ct_ignored := lines_of r, ct_dirty := [], ct_sealed := ct_clean s\<rparr>
       else s\<lparr>ct_ok := (ct_ok s \<and> (args = [''rebase'', ''--abort''] \<or> args = [''checkout'', base] \<and> ct_clean s))\<rparr>
   | Unlink t \<Rightarrow> s\<lparr>ct_ok := (ct_ok s \<and> removable w s t)\<rparr>
   | Remove_tree t \<Rightarrow> s\<lparr>ct_ok := (ct_ok s \<and> removable w s t)\<rparr>
   | Write_text p x \<Rightarrow> s\<lparr>ct_ok := False\<rparr>
   | Make_parents p \<Rightarrow> s\<lparr>ct_ok := False\<rparr>
   | _ \<Rightarrow> s)"

lemma cleanup_step_simps [simp]:
  "cleanup_step w b s Token r = s" "cleanup_step w b s (Path_is_dir p) r = s"
  "cleanup_step w b s (Path_is_file p) r = s" "cleanup_step w b s (Path_is_symlink p) r = s"
  "cleanup_step w b s (Path_exists p) r = (if p = in_clone w ''.git'' \<and> r = Yes_no False then s\<lparr>ct_clean := True\<rparr> else s)"
  "cleanup_step w b s (Run_git d status_call) r = (case git_result r of Inl e \<Rightarrow> s
     | Inr out \<Rightarrow> s\<lparr>ct_dirty := map porcelain_path (nonblank_lines out), ct_clean := py_blank out\<rparr>)"
  "cleanup_step w b s (Run_git d ignored_call) r = s\<lparr>ct_ignored := lines_of r, ct_dirty := [], ct_sealed := ct_clean s\<rparr>"
  "cleanup_step w b s (Run_git d [''rebase'', ''--abort'']) r = s"
  "cleanup_step w b s (Run_git d [''checkout'', base]) r = s\<lparr>ct_ok := (ct_ok s \<and> base = b \<and> ct_clean s)\<rparr>"
  "cleanup_step w b s (Unlink t) r = s\<lparr>ct_ok := (ct_ok s \<and> removable w s t)\<rparr>"
  "cleanup_step w b s (Remove_tree t) r = s\<lparr>ct_ok := (ct_ok s \<and> removable w s t)\<rparr>"
  by (auto simp: cleanup_step_def status_call_def ignored_call_def)

abbreviation cleaning :: "workspace \<Rightarrow> string \<Rightarrow> (cleanup_trace \<Rightarrow> failure + 'a \<Rightarrow> bool) \<Rightarrow> 'a ws_prog \<Rightarrow> cleanup_trace \<Rightarrow> bool" where
  "cleaning w base \<equiv> follow (\<lambda>q r. True) (cleanup_step w base)"

lemma cleanup_ignores [simp]: "ignores_token (cleanup_step w b)"
  by (simp add: ignores_token_def)

lemma git_quiet:
  "(\<And>r. cleanup_step w b s (Run_git (Some (ws_clone_dir v)) args) r = s) \<Longrightarrow> cleaning w b (\<lambda>t y. t = s) (git v args) s"
  by (rule follow_git) simp_all

lemma attempt_keeps:
  assumes "cleaning w b (\<lambda>t y. K t) m s"
  shows "cleaning w b (\<lambda>t y. K t) (on_git_error (bind m (\<lambda>_. Return ())) (\<lambda>e. Return ())) s"
  unfolding on_git_error_def
proof (rule follow_handleI [where R = "\<lambda>t y. K t"])
  show "cleaning w b (\<lambda>t y. K t) (bind m (\<lambda>_. Return ())) s"
    by (rule follow_bindI [OF assms]) auto
qed auto

text \<open>Looking at the tree changes neither the verdict nor what was sealed, and finds out whether it is clean.\<close>

abbreviation same_seal :: "cleanup_trace \<Rightarrow> cleanup_trace \<Rightarrow> bool" where
  "same_seal s t \<equiv> ct_ok t = ct_ok s \<and> ct_ignored t = ct_ignored s \<and> ct_sealed t = ct_sealed s"

lemma status_cleaning:
  "cleaning w b (\<lambda>t y. same_seal s t
      \<and> (\<forall>out. y = Inr out \<longrightarrow> ct_dirty t = map porcelain_path (nonblank_lines out) \<and> ct_clean t = py_blank out)) (dirty_status w) s"
  unfolding dirty_status_def status_call_def [symmetric] by (rule follow_git) (simp_all split: sum.split)

lemma is_clean_cleaning: "cleaning w b (\<lambda>t y. same_seal s t \<and> (y = Inr True \<longrightarrow> ct_clean t)) (is_clean w) s"
  unfolding is_clean_def
proof (rule follow_bindI [where R = "\<lambda>t y. same_seal s t \<and> (y = Inr False \<longrightarrow> ct_clean t)"])
  show "cleaning w b (\<lambda>t y. same_seal s t \<and> (y = Inr False \<longrightarrow> ct_clean t)) (ask_bool (Path_exists (in_clone w ''.git''))) s"
    by (auto simp: ask_bool_def ws_reply_def split: ws_answer.splits)
next
  fix t :: cleanup_trace and there :: bool
  assume t: "same_seal s t \<and> (Inr there = Inr False \<longrightarrow> ct_clean t)"
  have "cleaning w b (\<lambda>u y. same_seal s u \<and> (y = Inr True \<longrightarrow> ct_clean u)) (bind (dirty_status w) (\<lambda>s. Return (py_blank s))) t"
    by (rule follow_bindI [OF status_cleaning]) (use t in auto)
  then show "cleaning w b (\<lambda>u y. same_seal s u \<and> (y = Inr True \<longrightarrow> ct_clean u))
      (if \<not> there then Return True else bind (dirty_status w) (\<lambda>s. Return (py_blank s))) t"
    using t by (cases there) (simp_all del: follow_bind)
qed simp

lemma paths_cleaning: "cleaning w b (\<lambda>t y. same_seal s t \<and> (\<forall>ps. y = Inr ps \<longrightarrow> ct_dirty t = ps)) (dirty_paths w) s"
  unfolding dirty_paths_def by (rule follow_bindI [OF status_cleaning]) auto

lemma snapshot_cleaning:
  "ct_clean s \<Longrightarrow> cleaning w b (\<lambda>t y. ct_ok t = ct_ok s \<and> ct_clean t \<and> (\<forall>ls. y = Inr ls \<longrightarrow> ls = [] \<or> ct_ignored t = ls \<and> ct_sealed t))
     (ignored_files_snapshot w) s"
  unfolding ignored_files_snapshot_def on_git_error_def ignored_call_def [symmetric]
proof (rule follow_handleI)
  assume "ct_clean s"
  then show "cleaning w b (\<lambda>t y. ct_ok t = ct_ok s \<and> ct_clean t \<and> (\<forall>ls. y = Inr ls \<longrightarrow> ct_ignored t = ls \<and> ct_sealed t))
      (bind (git w ignored_call) (\<lambda>s. Return (nonblank_lines s))) s"
  proof (intro follow_bindI [where R = "\<lambda>t y. ct_ok t = ct_ok s \<and> ct_clean t \<and> (\<forall>ls. y = Inr ls \<longrightarrow> ct_ignored t = nonblank_lines ls \<and> ct_sealed t)"])
    show "cleaning w b (\<lambda>t y. ct_ok t = ct_ok s \<and> ct_clean t \<and> (\<forall>ls. y = Inr ls \<longrightarrow> ct_ignored t = nonblank_lines ls \<and> ct_sealed t))
      (git w ignored_call) s" if "ct_clean s"
      by (rule follow_git) (use that in \<open>simp_all add: lines_of_def\<close>)
  qed auto
qed auto

lemma target_cleaning:
  "removable w s t \<Longrightarrow> cleaning w b (\<lambda>u y. same_seal s u \<and> ct_dirty u = ct_dirty s) (remove_target t) s"
  unfolding remove_target_def
  by (auto simp: ask_bool_def effect_def split: sum.split)

lemma targets_cleaning:
  "list_all (removable w s) ts \<Longrightarrow> cleaning w b (\<lambda>u y. ct_ok u = ct_ok s) (remove_all ts) s"
proof (induction ts arbitrary: s)
  case (Cons t ts)
  have "removable w s t" using Cons.prems by simp
  show ?case
    unfolding remove_all.simps
  proof (rule follow_bindI [OF target_cleaning [OF \<open>removable w s t\<close>]])
    fix u :: cleanup_trace assume u: "same_seal s u \<and> ct_dirty u = ct_dirty s"
    with Cons.prems have "list_all (removable w u) ts" by (simp add: list_all_iff removable_def)
    from Cons.IH [OF this] show "cleaning w b (\<lambda>u y. ct_ok u = ct_ok s) (remove_all ts) u"
      by (rule follow_mono) (simp add: u)
  qed simp
qed simp

lemma leftovers_cleaning:
  "ignored = [] \<or> ct_ignored s = ignored \<and> ct_sealed s \<Longrightarrow>
     cleaning w b (\<lambda>u y. ct_ok u = ct_ok s) (remove_branch_ignored_leftovers w ignored) s"
  unfolding remove_branch_ignored_leftovers_def
proof (intro follow_if follow_bindI [where R = "\<lambda>t y. same_seal s t \<and> (\<forall>ps. y = Inr ps \<longrightarrow> ps = [] \<or> ct_dirty t = ps)"], goal_cases)
  case 2
  show ?case unfolding on_git_error_def by (rule follow_handleI [OF paths_cleaning]) auto
next
  case (5 t ps)
  then have "list_all (removable w t) (map (in_clone w) ps)"
    by (auto simp: list_all_iff list_ex_iff removable_def escapes_def in_clone_def join_path_def)
  from targets_cleaning [OF this] show ?case by (rule follow_mono) (use 5 in simp)
qed simp_all

definition cleanup_start :: cleanup_trace where
  "cleanup_start = \<lparr>ct_dirty = [], ct_clean = False, ct_sealed = False, ct_ignored = [], ct_ok = True\<rparr>"

text \<open>
  C23. Cleaning up loses no work, whatever git and the system answer: nothing is written or committed; the base branch
  is checked out only after the tree was found clean (or no repository was there); and a path is removed only if the
  tree was clean when the paths that the attempt branch ignores were listed, every path listed as changed afterwards
  lies inside the clone and is covered by those paths, and it is one of them. A single path that is not explained so
  leaves everything in place.
\<close>
theorem cleanup_keeps_work:
  "follow (\<lambda>q r. True) (cleanup_step w base) (\<lambda>t y. ct_ok t) (cleanup w base) cleanup_start"
  unfolding cleanup_def
proof (rule follow_bindI [where R = "\<lambda>t y. t = cleanup_start"])
  show "cleaning w base (\<lambda>t y. t = cleanup_start) (on_git_error (bind (git w [''rebase'', ''--abort'']) (\<lambda>_. Return ())) (\<lambda>e. Return ())) cleanup_start"
    by (rule attempt_keeps, rule git_quiet) simp
next
  fix t :: cleanup_trace and u :: unit assume "t = cleanup_start"
  then have t: "ct_ok t" by (simp add: cleanup_start_def)
  show "cleaning w base (\<lambda>t y. ct_ok t) (bind (is_clean w) (\<lambda>clean.
     if \<not> clean then Raise (dirty_error (''Repository working tree contains uncommitted or untracked changes; ''
       @ ''leaving the workspace on the attempt branch for operator inspection.''))
     else bind (ignored_files_snapshot w) (\<lambda>ignored.
       bind (on_git_error (bind (git w [''checkout'', base]) (\<lambda>_. Return ())) (\<lambda>e. Return ())) (\<lambda>_.
       remove_branch_ignored_leftovers w ignored)))) t"
  proof (rule follow_bindI [OF is_clean_cleaning], goal_cases)
    case (2 t' clean)
    show ?case
    proof (cases clean)
      case True
      then have clean: "ct_clean t'" using 2 by simp
      show ?thesis
      proof (simp only: True, simp only: not_True_eq_False if_False, rule follow_bindI [OF snapshot_cleaning [OF clean]], goal_cases)
        case (2 t'' ignored)
        have "cleaning w base (\<lambda>v y. ct_ok v \<and> ct_ignored v = ct_ignored t'' \<and> ct_sealed v = ct_sealed t'') (git w [''checkout'', base]) t''"
          by (rule follow_git) (use 2 \<open>same_seal t t' \<and> (Inr clean = Inr True \<longrightarrow> ct_clean t')\<close> t in auto)
        from attempt_keeps [OF this] show ?case
          by (rule follow_bindI) (use 2 in \<open>auto intro: follow_mono [OF leftovers_cleaning]\<close>)
      qed (use 2 t in simp)
    qed (use 2 t in simp)
  qed (use t in simp)
qed (simp add: cleanup_start_def)

section \<open>Reading the changed paths\<close>

lemma line_break_space: "line_break c \<Longrightarrow> py_space c"
  by (auto simp: line_break_def py_space_def Let_def)

lemma split_line: "list_all (\<lambda>c. \<not> line_break c) l \<Longrightarrow> split_lines acc (l @ nl @ rest) = (rev acc @ l) # split_lines [] rest"
proof (induction l arbitrary: acc)
  case Nil
  have "line_break (CHR 0x0A)" by code_simp
  then show ?case by (simp add: nl_def)
qed simp

lemma split_last: "list_all (\<lambda>c. \<not> line_break c) l \<Longrightarrow> acc @ l \<noteq> [] \<Longrightarrow> split_lines acc l = [rev acc @ l]"
  by (induction l arbitrary: acc) auto

lemma splitlines_join:
  "list_all (\<lambda>l. l \<noteq> [] \<and> list_all (\<lambda>c. \<not> line_break c) l) ls \<Longrightarrow> py_splitlines (py_join nl ls) = ls"
  unfolding py_splitlines_def
  by (induction nl ls rule: py_join.induct) (auto simp: split_line split_last)

lemma join_lines: "ls \<noteq> [] \<Longrightarrow> concat (map (\<lambda>l. l @ d) ls) = py_join d ls @ d"
  by (induction d ls rule: py_join.induct) auto

lemma join_ends:
  "ls \<noteq> [] \<Longrightarrow> list_all (\<lambda>l. l \<noteq> [] \<and> \<not> py_space (hd l) \<and> \<not> py_space (last l)) ls
    \<Longrightarrow> py_join d ls \<noteq> [] \<and> \<not> py_space (hd (py_join d ls)) \<and> \<not> py_space (last (py_join d ls))"
  by (induction d ls rule: py_join.induct) auto

lemma strip_ends: "s \<noteq> [] \<Longrightarrow> \<not> py_space (hd s) \<Longrightarrow> \<not> py_space (last s) \<Longrightarrow> list_all py_space e \<Longrightarrow> py_strip (s @ e) = s"
proof -
  assume s: "s \<noteq> []" "\<not> py_space (hd s)" "\<not> py_space (last s)" "list_all py_space e"
  have "py_lstrip (s @ e) = s @ e" using s(1,2) by (cases s) (simp_all add: py_lstrip_def)
  moreover have "dropWhile py_space (rev e @ rev s) = rev s"
  proof -
    have "dropWhile py_space (rev e @ rev s) = dropWhile py_space (rev s)"
      using s(4) by (intro dropWhile_append2) (auto simp: list_all_iff)
    also have "\<dots> = rev s"
    proof (cases "rev s")
      case (Cons c cs)
      then have "last s = c" using hd_rev [of s] by simp
      then show ?thesis using Cons s(3) by simp
    qed simp
    finally show ?thesis .
  qed
  ultimately show ?thesis by (simp add: py_strip_def py_rstrip_def)
qed

definition word_chars :: "string \<Rightarrow> bool" where
  "word_chars p \<longleftrightarrow> p \<noteq> [] \<and> list_all (\<lambda>c. \<not> py_space c) p"

lemma no_arrow_within: "list_all (\<lambda>c. \<not> py_space c) p \<Longrightarrow> after_last '' -> '' p = None"
  by (induction p) (auto simp: py_startswith_def)

lemma path_of_line: "word_chars p \<Longrightarrow> porcelain_path ([x, y, CHR '' ''] @ p) = p"
  by (auto simp: porcelain_path_def word_chars_def no_arrow_within py_strip_no_space)

text \<open>Git's answer when it prints the given text, whatever it is asked.\<close>

definition prints :: "string \<Rightarrow> unit \<Rightarrow> ws_call \<Rightarrow> ws_answer \<times> unit" where
  "prints text u q = (case q of Token \<Rightarrow> Output ''token'' | _ \<Rightarrow> Output text, u)"

lemma dirty_paths_prints: "fst (run_prog (prints text) (dirty_paths w) ()) = Inr (map porcelain_path (nonblank_lines (py_strip text)))"
  by (simp add: dirty_paths_def dirty_status_def git_def git_at_def ask_text_def ask_def prints_def ws_reply_def text_answer_def
      git_result_def run_bind)

definition status_line :: "char \<times> char \<times> string \<Rightarrow> string" where
  "status_line e = (case e of (x, y, p) \<Rightarrow> [x, y, CHR '' ''] @ p)"

text \<open>
  The paths of a status listing are read back: for entries whose first column is not blank (staged, untracked or
  unmerged paths) and names without whitespace, \<open>dirty_paths\<close> gives exactly the listed names, in their order.
\<close>
theorem changed_paths_read:
  assumes "list_all (\<lambda>(x, y, p). \<not> py_space x \<and> \<not> line_break y \<and> word_chars p) entries"
  shows "fst (run_prog (prints (concat (map (\<lambda>e. status_line e @ nl) entries))) (dirty_paths w) ()) = Inr (map (\<lambda>(x, y, p). p) entries)"
proof (cases "entries = []")
  case False
  let ?ls = "map status_line entries"
  have ends: "list_all (\<lambda>l. l \<noteq> [] \<and> \<not> py_space (hd l) \<and> \<not> py_space (last l)) ?ls"
    using assms by (auto simp: list_all_iff status_line_def word_chars_def)
  have breaks: "list_all (\<lambda>l. l \<noteq> [] \<and> list_all (\<lambda>c. \<not> line_break c) l) ?ls"
    using assms line_break_space by (fastforce simp: list_all_iff status_line_def word_chars_def line_break_def)
  have "list_all py_space nl" by code_simp
  then have "py_strip (concat (map (\<lambda>l. l @ nl) ?ls)) = py_join nl ?ls"
    using strip_ends [of "py_join nl ?ls" nl] join_ends [OF _ ends, of nl] False
    by (simp add: join_lines del: map_map)
  then have "py_strip (concat (map (\<lambda>e. status_line e @ nl) entries)) = py_join nl ?ls"
    by (simp add: comp_def)
  moreover have "nonblank_lines (py_join nl ?ls) = ?ls"
    using ends by (auto simp: nonblank_lines_def splitlines_join [OF breaks] filter_id_conv py_blank_iff list_all_iff)
  moreover have "map porcelain_path ?ls = map (\<lambda>(x, y, p). p) entries"
    using assms path_of_line by (auto simp: list_all_iff status_line_def simp del: append.simps)
  ultimately show ?thesis by (simp add: dirty_paths_prints)
qed (simp add: dirty_paths_prints nonblank_lines_def py_splitlines_def py_strip_def py_lstrip_def py_rstrip_def)

theorem changed_paths_read_witness:
  "fst (run_prog (prints (''?? new.txt'' @ nl @ ''MM a/b.py'' @ nl)) (dirty_paths (example_clone True)) ()) = Inr [''new.txt'', ''a/b.py'']"
proof -
  have "list_all (\<lambda>(x, y, p). \<not> py_space x \<and> \<not> line_break y \<and> word_chars p)
     [(CHR ''?'', CHR ''?'', ''new.txt''), (CHR ''M'', CHR ''M'', ''a/b.py'')]" by code_simp
  from changed_paths_read [OF this, of "example_clone True"] show ?thesis by (simp add: status_line_def)
qed

text \<open>
  A first entry that is changed but not staged is reported under a wrong name: its first column is blank, the
  whole output of git is stripped before it is split, and the path loses its first character.
\<close>
theorem unstaged_change_misreported:
  assumes "word_chars p" "1 < length p"
  shows "fst (run_prog (prints (status_line (CHR '' '', CHR ''M'', p) @ nl)) (dirty_paths w) ()) = Inr [tl p]"
proof -
  have p: "p \<noteq> []" "list_all (\<lambda>c. \<not> py_space c) p" using assms(1) by (simp_all add: word_chars_def)
  have "py_strip (''M '' @ p @ nl) = ''M '' @ p"
    using strip_ends [of "''M '' @ p" nl] p by (simp add: nl_def py_space_def list_all_iff)
  moreover have "py_strip ([CHR '' ''] @ ''M '' @ p @ nl) = py_strip (''M '' @ p @ nl)"
    by (simp add: py_strip_def py_lstrip_def)
  ultimately have stripped: "py_strip (status_line (CHR '' '', CHR ''M'', p) @ nl) = ''M '' @ p"
    by (simp add: status_line_def)
  have "list_all (\<lambda>c. \<not> line_break c) (''M '' @ p)"
    using p(2) line_break_space by (auto simp: list_all_iff line_break_def)
  then have lines: "nonblank_lines (''M '' @ p) = [''M '' @ p]"
    by (simp add: nonblank_lines_def py_splitlines_def split_last py_blank_iff py_space_def del: append.simps)
  obtain c cs where q: "p = c # cs" "cs \<noteq> []" using assms(2) by (cases p) auto
  have "porcelain_path (''M '' @ p) = tl p"
    using p(2) q by (simp add: porcelain_path_def no_arrow_within py_strip_no_space)
  then show ?thesis by (simp add: dirty_paths_prints stripped lines del: append.simps)
qed

theorem unstaged_change_misreported_witness:
  "fst (run_prog (prints ('' M setup.py'' @ nl)) (dirty_paths (example_clone True)) ()) = Inr [''etup.py'']"
proof -
  have "word_chars ''setup.py''" by code_simp
  from unstaged_change_misreported [OF this, of "example_clone True"] show ?thesis by (simp add: status_line_def)
qed

end
