(* ===== verification/Config.thy ===== *)
theory Config
  imports Text Completion "HOL-Library.Log_Nat"
begin

text \<open>
  The operator's configuration (config.py): the settings of one Worker, read from environment variables, and the
  repository's profile, read from a parsed YAML document. An error is the text of its \<open>ConfigurationError\<close> or
  \<open>ProfileError\<close>.
\<close>

section \<open>Floating point numbers\<close>

text \<open>
  Numbers of the machine: 53 bits, rounded to nearest with ties to even (numbers whose exponent leaves the range of a
  double are not distinguished). \<open>round_half_even q\<close> is the integer next to \<open>q\<close>.
\<close>

definition round_half_even :: "rat \<Rightarrow> int" where
  "round_half_even q = (let f = \<lfloor>q\<rfloor>; d = q - of_int f in
     if d < 1 / 2 then f else if d > 1 / 2 then f + 1 else if even f then f else f + 1)"

text \<open>The exponent \<open>e\<close> with \<open>2 ^ e \<le> q < 2 ^ (e + 1)\<close>, from the lengths of numerator and denominator.\<close>

definition pow2 :: "int \<Rightarrow> rat" where
  "pow2 e = power_int 2 e"

definition binary_exponent :: "rat \<Rightarrow> int" where
  "binary_exponent q = (case quotient_of q of (a, b) \<Rightarrow>
     let e = int (floorlog 2 (nat a)) - int (floorlog 2 (nat b)) in if pow2 e \<le> q then e else e - 1)"

definition round_double :: "rat \<Rightarrow> rat" where
  "round_double q =
     (if q = 0 then 0
      else let u = pow2 (binary_exponent \<bar>q\<bar> - 52); r = of_int (round_half_even (\<bar>q\<bar> / u)) * u
        in if 0 < q then r else - r)"

definition truncated :: "rat \<Rightarrow> int" where
  "truncated q = (if 0 \<le> q then \<lfloor>q\<rfloor> else \<lceil>q\<rceil>)"

text \<open>\<open>float(text)\<close>: a decimal number, an infinity or not a number; \<open>None\<close> is the \<open>ValueError\<close>.\<close>

datatype py_number = Finite rat | Infinite bool | Not_a_number

definition split_sign :: "string \<Rightarrow> bool \<times> string" where
  "split_sign s = (case s of
     [] \<Rightarrow> (False, [])
   | c # cs \<Rightarrow> if c = CHR ''-'' then (True, cs) else if c = CHR ''+'' then (False, cs) else (False, s))"

text \<open>Digits with single underscores between them, or nothing at all.\<close>

definition float_digits :: "string \<Rightarrow> string option" where
  "float_digits s = (if s = [] then Some [] else
     (let parts = py_split (CHR ''_'') s in if list_all (\<lambda>p. p \<noteq> [] \<and> list_all is_digit p) parts then Some (concat parts) else None))"

definition exponent_of :: "string option \<Rightarrow> int option" where
  "exponent_of e = (case e of
     None \<Rightarrow> Some 0
   | Some t \<Rightarrow> (case split_sign t of (negative, digits) \<Rightarrow> (case float_digits digits of
         None \<Rightarrow> None
       | Some d \<Rightarrow> if d = [] then None else Some (if negative then - int (nat_of_digits d) else int (nat_of_digits d)))))"

definition power10 :: "int \<Rightarrow> rat" where
  "power10 e = power_int 10 e"

definition decimal_value :: "string \<Rightarrow> rat option" where
  "decimal_value s =
     (case py_partition (CHR ''e'') s of (mantissa, e) \<Rightarrow>
      case py_partition (CHR ''.'') mantissa of (whole, fraction) \<Rightarrow>
      case (float_digits whole, float_digits (case fraction of None \<Rightarrow> [] | Some f \<Rightarrow> f), exponent_of e) of
        (Some w, Some f, Some x) \<Rightarrow>
          if w = [] \<and> f = [] then None
          else Some (rat_of_nat (nat_of_digits (w @ f)) * power10 (x - int (length f)))
      | _ \<Rightarrow> None)"

definition py_float :: "string \<Rightarrow> py_number option" where
  "py_float text = (case split_sign (py_lower (py_strip text)) of (negative, s) \<Rightarrow>
     if s \<in> {''inf'', ''infinity''} then Some (Infinite negative)
     else if s = ''nan'' then Some Not_a_number
     else map_option (\<lambda>v. Finite (round_double (if negative then - v else v))) (decimal_value s))"


section \<open>The token thresholds\<close>

text \<open>
  \<open>int(max_budget_tokens * (1 - percentage))\<close> and \<open>int((turns + 1) * context)\<close> in the arithmetic of the machine. The
  earlier of the two rules decides.
\<close>

definition percentage_threshold :: "int \<Rightarrow> rat \<Rightarrow> int" where
  "percentage_threshold budget percentage =
     truncated (round_double (round_double (of_int budget) * round_double (1 - percentage)))"

definition effective_soft_threshold_tokens :: "int \<Rightarrow> rat \<Rightarrow> int \<Rightarrow> rat \<Rightarrow> int \<times> string \<times> int" where
  "effective_soft_threshold_tokens budget percentage reserve_turns context =
     (let by_percentage = percentage_threshold budget percentage;
          reserve_tokens = truncated (round_double (of_int (reserve_turns + 1) * context));
          by_reserve = budget - reserve_tokens
      in if by_reserve \<le> by_percentage then (by_reserve, ''reserve'', reserve_tokens)
         else (by_percentage, ''percentage'', reserve_tokens))"


section \<open>Settings\<close>

type_synonym environment = "string \<rightharpoonup> string"

definition setting :: "environment \<Rightarrow> string \<Rightarrow> string \<Rightarrow> string" where
  "setting values name standard = (case values name of None \<Rightarrow> standard | Some v \<Rightarrow> v)"

definition and_then :: "string + 'a \<Rightarrow> ('a \<Rightarrow> string + 'b) \<Rightarrow> string + 'b" where
  "and_then m f = (case m of Inl e \<Rightarrow> Inl e | Inr x \<Rightarrow> f x)"

lemma and_then_eq_Inr: "and_then m f = Inr y \<longleftrightarrow> (\<exists>x. m = Inr x \<and> f x = Inr y)"
  by (cases m) (auto simp: and_then_def)

definition required :: "environment \<Rightarrow> string \<Rightarrow> string + string" where
  "required values name = (let v = setting values name [] in if py_blank v then Inl (name @ '' must be set'') else Inr v)"

definition non_empty :: "environment \<Rightarrow> string \<Rightarrow> string \<Rightarrow> string + string" where
  "non_empty values name standard =
     (let v = setting values name standard in if py_blank v then Inl (name @ '' must not be empty'') else Inr v)"

text \<open>What \<open>Path(value).expanduser()\<close> makes of a text depends on the system and is a parameter.\<close>

definition path_setting :: "(string \<Rightarrow> string) \<Rightarrow> string \<Rightarrow> string \<Rightarrow> string + string" where
  "path_setting expand v name = (if py_blank v then Inl (name @ '' must not be empty'') else Inr (expand v))"

text \<open>An integer setting: the text that is set, or the text of the default.\<close>

definition integer_setting :: "environment \<Rightarrow> string \<Rightarrow> int \<Rightarrow> int option" where
  "integer_setting values name standard = (case values name of None \<Rightarrow> py_int (str_of_int standard) | Some v \<Rightarrow> py_int v)"

definition positive_integer :: "environment \<Rightarrow> string \<Rightarrow> int \<Rightarrow> string + int" where
  "positive_integer values name standard = (case integer_setting values name standard of
     None \<Rightarrow> Inl (name @ '' must be a positive integer'')
   | Some n \<Rightarrow> if n \<le> 0 then Inl (name @ '' must be a positive integer'') else Inr n)"

definition non_negative_integer :: "environment \<Rightarrow> string \<Rightarrow> int \<Rightarrow> string + int" where
  "non_negative_integer values name standard = (case integer_setting values name standard of
     None \<Rightarrow> Inl (name @ '' must be a non-negative integer'')
   | Some n \<Rightarrow> if n < 0 then Inl (name @ '' must be a non-negative integer'') else Inr n)"

text \<open>The default is given by its text, \<open>str(0.2)\<close>.\<close>

definition fraction :: "environment \<Rightarrow> string \<Rightarrow> string \<Rightarrow> string + rat" where
  "fraction values name standard = (case py_float (setting values name standard) of
     Some (Finite q) \<Rightarrow> if 0 \<le> q \<and> q < 1 then Inr q else Inl (name @ '' must be a number between 0 and 1'')
   | _ \<Rightarrow> Inl (name @ '' must be a number between 0 and 1''))"

definition MAX_HANDOFF_RESERVE_TURNS :: int where "MAX_HANDOFF_RESERVE_TURNS = 20"

definition reserve_turns :: "environment \<Rightarrow> string \<Rightarrow> int \<Rightarrow> string + int" where
  "reserve_turns values name standard =
     (let refused = Inl (name @ '' must be an integer between 1 and '' @ str_of_int MAX_HANDOFF_RESERVE_TURNS)
      in case integer_setting values name standard of
           None \<Rightarrow> refused
         | Some n \<Rightarrow> if 1 \<le> n \<and> n \<le> MAX_HANDOFF_RESERVE_TURNS then Inr n else refused)"

definition boolean :: "environment \<Rightarrow> string \<Rightarrow> bool \<Rightarrow> string + bool" where
  "boolean values name standard = (let v = py_lower (setting values name (if standard then ''true'' else ''false'')) in
     if v = ''true'' then Inr True else if v = ''false'' then Inr False else Inl (name @ '' must be true or false''))"

definition one_of :: "environment \<Rightarrow> string \<Rightarrow> string \<Rightarrow> string list \<Rightarrow> string \<Rightarrow> string + string" where
  "one_of values name standard allowed message =
     (let v = py_lower (py_strip (setting values name standard)) in if v \<in> set allowed then Inr v else Inl message)"

definition auto_merge_mode :: "environment \<Rightarrow> string + string" where
  "auto_merge_mode values =
     one_of values ''PR_AUTO_MERGE'' ''false'' [''false'', ''true'', ''label''] ''PR_AUTO_MERGE must be false, true, or label''"

definition merge_method :: "environment \<Rightarrow> string + string" where
  "merge_method values =
     one_of values ''PR_MERGE_METHOD'' ''merge'' [''merge'', ''squash'', ''rebase''] ''PR_MERGE_METHOD must be merge, squash, or rebase''"

definition handoff_comment_mode :: "environment \<Rightarrow> string + string" where
  "handoff_comment_mode values =
     one_of values ''HANDOFF_COMMENT_MODE'' ''link'' [''link'', ''verbose''] ''HANDOFF_COMMENT_MODE must be link or verbose''"

definition setting_char :: "char \<Rightarrow> bool" where
  "setting_char c \<longleftrightarrow> char_between (CHR ''a'') (CHR ''z'') c \<or> is_digit c \<or> c = CHR ''-''"

definition worker_id_setting :: "environment \<Rightarrow> string + string" where
  "worker_id_setting values = (let w = py_strip (setting values ''WORKER_ID'' []) in
     if w = [] then Inr []
     else if length w > 32 \<or> \<not> list_all setting_char w then Inl ''WORKER_ID must use [a-z0-9-], at most 32 characters''
     else Inr w)"

definition review_severities :: "environment \<Rightarrow> string + string set" where
  "review_severities values = (let v = setting values ''REVIEW_BLOCKING_SEVERITIES'' ''must-fix'' in
     if v = [] then Inr {}
     else let names = map py_strip (py_split (CHR '','') v)
       in if \<not> list_all (\<lambda>n. n \<noteq> []) names
          then Inl ''REVIEW_BLOCKING_SEVERITIES must be empty or a comma-separated severity list''
          else if \<not> list_all (\<lambda>n. n \<in> {''must-fix'', ''suggestion''}) names
          then Inl ''REVIEW_BLOCKING_SEVERITIES contains an unknown severity''
          else Inr (set names))"

definition repository_name :: "string \<Rightarrow> bool" where
  "repository_name s = (case py_partition (CHR ''/'') s of
     (owner, Some name) \<Rightarrow> owner \<noteq> [] \<and> name \<noteq> [] \<and> CHR ''/'' \<notin> set name
       \<and> list_all (\<lambda>c. \<not> py_space c) owner \<and> list_all (\<lambda>c. \<not> py_space c) name
   | (_, None) \<Rightarrow> False)"

record runtime_config =
  rc_github_token :: string
  rc_meta_api_key :: string
  rc_target_repo :: string
  rc_data_dir :: string
  rc_clone_dir :: string
  rc_poll_interval :: int
  rc_log_level :: string
  rc_model_timeout :: int
  rc_publish_timeout :: int
  rc_max_retries :: int
  rc_max_consecutive_errors :: int
  rc_trust_project_settings :: bool
  rc_review_blocking_severities :: "string set"
  rc_profile_extra_path :: string
  rc_profile_path :: string
  rc_model :: string
  rc_max_turns :: int
  rc_max_budget_usd :: int
  rc_max_budget_tokens :: int
  rc_soft_threshold_percentage :: rat
  rc_handoff_reserve_turns :: int
  rc_model_base_url :: string
  rc_model_api_key :: string
  rc_model_auth_mode :: string
  rc_model_stream_idle_timeout_ms :: int
  rc_pr_auto_merge :: string
  rc_pr_merge_method :: string
  rc_max_auto_continuations :: int
  rc_max_conflict_attempts :: int
  rc_handoff_comment_mode :: string
  rc_worker_id :: string
  rc_background_task_grace_seconds :: int

text \<open>The settings that are checked before any other: credentials, the model's endpoint, the repository, the directories.\<close>

definition model_api_key_setting :: "environment \<Rightarrow> string + string" where
  "model_api_key_setting values =
     (let model = setting values ''MODEL_API_KEY'' []; meta = setting values ''META_API_KEY'' []
      in if \<not> py_blank model then Inr model else if \<not> py_blank meta then Inr meta
         else Inl ''MODEL_API_KEY or META_API_KEY must be set'')"

definition model_auth_mode_setting :: "environment \<Rightarrow> string + string" where
  "model_auth_mode_setting values = (let m = py_strip (setting values ''MODEL_AUTH_MODE'' ''auth_token'') in
     if m \<in> {''auth_token'', ''api_key''} then Inr m else Inl ''MODEL_AUTH_MODE must be auth_token or api_key'')"

definition model_base_url_setting :: "environment \<Rightarrow> string" where
  "model_base_url_setting values = (case values ''MODEL_BASE_URL'' of None \<Rightarrow> ''https://api.meta.ai'' | Some raw \<Rightarrow> py_strip raw)"

definition target_repo_setting :: "environment \<Rightarrow> string + string" where
  "target_repo_setting values = and_then (required values ''TARGET_REPO'') (\<lambda>r.
     if repository_name r then Inr r else Inl ''TARGET_REPO must use the owner/repo format'')"

definition log_level_setting :: "environment \<Rightarrow> string + string" where
  "log_level_setting values = (let l = py_upper (setting values ''LOG_LEVEL'' ''INFO'') in
     if l \<in> {''CRITICAL'', ''ERROR'', ''WARNING'', ''INFO'', ''DEBUG''} then Inr l
     else Inl ''LOG_LEVEL must be a standard Python logging level'')"

text \<open>\<open>load_runtime_config\<close>, in the order in which the code evaluates the settings.\<close>

definition load_runtime_config :: "(string \<Rightarrow> string) \<Rightarrow> environment \<Rightarrow> string + runtime_config" where
  "load_runtime_config expand values =
     and_then (required values ''GITHUB_TOKEN'') (\<lambda>github_token.
     and_then (model_api_key_setting values) (\<lambda>api_key.
     and_then (model_auth_mode_setting values) (\<lambda>auth_mode.
     and_then (target_repo_setting values) (\<lambda>target_repo.
     and_then (path_setting expand (setting values ''DATA_DIR'' ''~/.simple-coding-agent/'') ''DATA_DIR'') (\<lambda>data_dir.
     and_then (path_setting expand (setting values ''CLONE_DIR'' (data_dir @ ''/repo'')) ''CLONE_DIR'') (\<lambda>clone_dir.
     and_then (log_level_setting values) (\<lambda>log_level.
     and_then (positive_integer values ''MODEL_STREAM_IDLE_TIMEOUT_MS'' 60000) (\<lambda>idle.
     and_then (positive_integer values ''POLL_INTERVAL'' 60) (\<lambda>poll.
     and_then (positive_integer values ''MODEL_TIMEOUT'' 3600) (\<lambda>model_timeout.
     and_then (positive_integer values ''BACKGROUND_TASK_GRACE_SECONDS'' 300) (\<lambda>grace.
     and_then (positive_integer values ''PUBLISH_TIMEOUT'' 120) (\<lambda>publish_timeout.
     and_then (positive_integer values ''MAX_RETRIES'' 3) (\<lambda>retries.
     and_then (positive_integer values ''MAX_CONSECUTIVE_ERRORS'' 3) (\<lambda>errors.
     and_then (boolean values ''AGENT_TRUST_PROJECT_SETTINGS'' False) (\<lambda>trust.
     and_then (review_severities values) (\<lambda>severities.
     and_then (non_empty values ''MODEL_NAME'' ''muse-spark-1.3-contributor'') (\<lambda>model.
     and_then (positive_integer values ''MAX_TURNS'' 60) (\<lambda>turns.
     and_then (positive_integer values ''MAX_BUDGET_USD'' 20) (\<lambda>usd.
     and_then (positive_integer values ''MAX_BUDGET_TOKENS'' 4000000) (\<lambda>tokens.
     and_then (fraction values ''SOFT_THRESHOLD_PERCENTAGE'' ''0.2'') (\<lambda>percentage.
     and_then (reserve_turns values ''HANDOFF_RESERVE_TURNS'' 6) (\<lambda>reserve.
     and_then (auto_merge_mode values) (\<lambda>auto_merge.
     and_then (merge_method values) (\<lambda>method.
     and_then (non_negative_integer values ''MAX_AUTO_CONTINUATIONS'' 0) (\<lambda>auto_continuations.
     and_then (non_negative_integer values ''MAX_CONFLICT_ATTEMPTS'' 0) (\<lambda>conflict_attempts.
     and_then (handoff_comment_mode values) (\<lambda>comment_mode.
     and_then (worker_id_setting values) (\<lambda>worker_id.
     Inr \<lparr>rc_github_token = github_token, rc_meta_api_key = setting values ''META_API_KEY'' [], rc_target_repo = target_repo,
       rc_data_dir = data_dir, rc_clone_dir = clone_dir, rc_poll_interval = poll, rc_log_level = log_level,
       rc_model_timeout = model_timeout, rc_publish_timeout = publish_timeout, rc_max_retries = retries,
       rc_max_consecutive_errors = errors, rc_trust_project_settings = trust, rc_review_blocking_severities = severities,
       rc_profile_extra_path = setting values ''PROFILE_EXTRA_PATH'' [], rc_profile_path = setting values ''PROFILE_PATH'' [],
       rc_model = model, rc_max_turns = turns, rc_max_budget_usd = usd, rc_max_budget_tokens = tokens,
       rc_soft_threshold_percentage = percentage, rc_handoff_reserve_turns = reserve,
       rc_model_base_url = model_base_url_setting values, rc_model_api_key = api_key, rc_model_auth_mode = auth_mode,
       rc_model_stream_idle_timeout_ms = idle, rc_pr_auto_merge = auto_merge, rc_pr_merge_method = method,
       rc_max_auto_continuations = auto_continuations, rc_max_conflict_attempts = conflict_attempts,
       rc_handoff_comment_mode = comment_mode, rc_worker_id = worker_id, rc_background_task_grace_seconds = grace\<rparr>))))))))))))))))))))))))))))"

definition soft_threshold_tokens :: "runtime_config \<Rightarrow> int" where
  "soft_threshold_tokens c = percentage_threshold (rc_max_budget_tokens c) (rc_soft_threshold_percentage c)"

definition effective_soft_threshold :: "runtime_config \<Rightarrow> rat \<Rightarrow> int \<times> string \<times> int" where
  "effective_soft_threshold c context = effective_soft_threshold_tokens (rc_max_budget_tokens c)
     (rc_soft_threshold_percentage c) (rc_handoff_reserve_turns c) context"

definition credential_redactions :: "runtime_config \<Rightarrow> string list" where
  "credential_redactions c = filter (\<lambda>s. s \<noteq> []) [rc_github_token c, rc_meta_api_key c, rc_model_api_key c]"

text \<open>Which warnings a loaded configuration logs.\<close>

definition usd_backstop_is_tighter :: "runtime_config \<Rightarrow> bool" where
  "usd_backstop_is_tighter c \<longleftrightarrow>
     of_int (rc_max_budget_usd c) < round_double (of_int (rc_max_budget_tokens c) * 5 / 1000000)"


section \<open>The repository's profile\<close>

text \<open>What \<open>yaml.safe_load\<close> returns; other scalars (numbers with a fraction, dates) are \<open>YOther\<close>.\<close>

datatype yaml = YNull | YBool bool | YInt int | YStr string | YOther | YList "yaml list" | YMap "(yaml \<times> yaml) list"

definition yaml_get :: "(yaml \<times> yaml) list \<Rightarrow> string \<Rightarrow> yaml option" where
  "yaml_get profile name = map_of profile (YStr name)"

definition nonblank_text :: "yaml \<Rightarrow> bool" where
  "nonblank_text y = (case y of YStr s \<Rightarrow> \<not> py_blank s | _ \<Rightarrow> False)"

definition text_of :: "yaml \<Rightarrow> string" where
  "text_of y = (case y of YStr s \<Rightarrow> s | _ \<Rightarrow> [])"

definition profile_commands :: "(yaml \<times> yaml) list \<Rightarrow> string \<Rightarrow> string + string list" where
  "profile_commands profile name =
     (let refused = Inl (''Repository profile '' @ name @ '' must be a command or non-empty command list'')
      in case yaml_get profile name of
           Some (YStr s) \<Rightarrow> if py_blank s then refused else Inr [s]
         | Some (YList ys) \<Rightarrow> if ys \<noteq> [] \<and> list_all nonblank_text ys then Inr (map text_of ys) else refused
         | _ \<Rightarrow> refused)"

definition profile_string :: "(yaml \<times> yaml) list \<Rightarrow> string \<Rightarrow> string \<Rightarrow> string + string" where
  "profile_string profile name standard = (case yaml_get profile name of
     None \<Rightarrow> if py_blank standard then Inl (''Repository profile '' @ name @ '' must be a non-empty string'') else Inr standard
   | Some y \<Rightarrow> if nonblank_text y then Inr (text_of y) else Inl (''Repository profile '' @ name @ '' must be a non-empty string''))"

definition profile_duration :: "(yaml \<times> yaml) list \<Rightarrow> string \<Rightarrow> int \<Rightarrow> string + int" where
  "profile_duration profile name standard =
     (let refused = Inl (''Repository profile '' @ name @ '' must be a positive integer'')
      in case yaml_get profile name of
           None \<Rightarrow> if standard \<le> 0 then refused else Inr standard
         | Some (YInt n) \<Rightarrow> if n \<le> 0 then refused else Inr n
         | Some y \<Rightarrow> refused)"

definition is_text :: "yaml \<Rightarrow> bool" where
  "is_text y = (case y of YStr s \<Rightarrow> True | _ \<Rightarrow> False)"

definition profile_environment :: "(yaml \<times> yaml) list \<Rightarrow> string + (string \<times> string) list" where
  "profile_environment profile = (case yaml_get profile ''env'' of
     None \<Rightarrow> Inr []
   | Some (YMap entries) \<Rightarrow>
       if list_all (\<lambda>(k, v). is_text k \<and> is_text v) entries then Inr (map (\<lambda>(k, v). (text_of k, text_of v)) entries)
       else Inl ''Repository profile env must map strings to strings''
   | Some y \<Rightarrow> Inl ''Repository profile env must map strings to strings'')"

definition profile_model_instructions :: "(yaml \<times> yaml) list \<Rightarrow> string + string" where
  "profile_model_instructions profile = (case yaml_get profile ''model_instructions'' of
     None \<Rightarrow> Inr []
   | Some YNull \<Rightarrow> Inr []
   | Some (YStr s) \<Rightarrow> Inr s
   | Some y \<Rightarrow> Inl ''Repository profile model_instructions must be a string'')"

definition PROFILE_KEYS :: "string list" where
  "PROFILE_KEYS = [''setup'', ''check'', ''base_branch'', ''timeout'', ''setup_timeout'', ''env'', ''model_instructions'']"

text \<open>What reading and parsing the profile's file gives: the file may be unreadable or not YAML.\<close>

datatype profile_file = Unreadable | Not_yaml | Parsed yaml

definition load_repository_profile :: "profile_file \<Rightarrow> string + repository_profile" where
  "load_repository_profile file = (case file of
     Unreadable \<Rightarrow> Inl ''Repository profile could not be read''
   | Not_yaml \<Rightarrow> Inl ''Repository profile is not valid YAML''
   | Parsed (YMap profile) \<Rightarrow>
       if \<not> list_all (\<lambda>(k, v). k \<in> YStr ` set PROFILE_KEYS) profile then Inl ''Repository profile contains unsupported settings''
       else and_then (profile_commands profile ''setup'') (\<lambda>setup.
            and_then (profile_commands profile ''check'') (\<lambda>check.
            and_then (profile_string profile ''base_branch'' ''main'') (\<lambda>base.
            and_then (profile_duration profile ''timeout'' 300) (\<lambda>timeout.
            and_then (profile_duration profile ''setup_timeout'' 120) (\<lambda>setup_timeout.
            and_then (profile_environment profile) (\<lambda>env.
            and_then (profile_model_instructions profile) (\<lambda>instructions.
            Inr \<lparr>pf_setup = setup, pf_check = check, pf_base_branch = base, pf_timeout = timeout,
              pf_setup_timeout = setup_timeout, pf_env = env, pf_model_instructions = instructions\<rparr>)))))))
   | Parsed y \<Rightarrow> Inl ''Repository profile must be a mapping'')"

end
