(* ===== verification/Config_Props.thy ===== *)
theory Config_Props
  imports Config Publication_Ops Tracker Handoff_Record_Props
begin

text \<open>
  What a loaded configuration guarantees to the components that use it, and the bounds of the token thresholds in the
  arithmetic of the machine.
\<close>

section \<open>Rounding\<close>

lemma round_half_even_mono_int: "q \<le> of_int m \<Longrightarrow> round_half_even q \<le> m"
  unfolding round_half_even_def Let_def by (auto split: if_splits; linarith)

lemma round_half_even_nonneg: "0 \<le> q \<Longrightarrow> 0 \<le> round_half_even q"
  unfolding round_half_even_def Let_def by (auto split: if_splits; linarith)

lemma binary_exponent_le:
  assumes "0 < q"
  shows "pow2 (binary_exponent q) \<le> q"
proof -
  obtain a b where ab: "quotient_of q = (a, b)" by (cases "quotient_of q")
  then have b: "0 < b" and q: "q = of_int a / of_int b"
    using quotient_of_denom_pos quotient_of_div by blast+
  with assms have a: "0 < a" by (simp add: zero_less_divide_iff)
  let ?la = "floorlog 2 (nat a)" and ?lb = "floorlog 2 (nat b)"
  have la: "2 ^ (?la - 1) \<le> nat a" and lb: "nat b < 2 ^ ?lb" and la1: "0 < ?la"
    using floorlog_bounds [of "nat a" 2] floorlog_bounds [of "nat b" 2] a b by (auto simp: floorlog_def)
  let ?e = "int ?la - int ?lb"
  have "pow2 (?e - 1) \<le> q"
  proof -
    have "pow2 (?e - 1) = power_int 2 (int (?la - 1)) / power_int 2 (int ?lb)"
    proof -
      have "?e - 1 = int (?la - 1) - int ?lb" using la1 by simp
      then show ?thesis unfolding pow2_def \<open>?e - 1 = int (?la - 1) - int ?lb\<close> by (intro power_int_diff) simp
    qed
    also have "\<dots> = 2 ^ (?la - 1) / 2 ^ ?lb" by (simp only: power_int_of_nat)
    also have "\<dots> \<le> of_int a / of_int b"
    proof (rule frac_le)
      have "int (2 ^ (?la - 1)) \<le> a" using la a by linarith
      then show "(2 :: rat) ^ (?la - 1) \<le> of_int a" by (metis of_int_le_iff of_int_of_nat_eq of_nat_numeral of_nat_power)
      have "b \<le> int (2 ^ ?lb)" using lb b by linarith
      then show "of_int b \<le> (2 :: rat) ^ ?lb" by (metis of_int_le_iff of_int_of_nat_eq of_nat_numeral of_nat_power)
    qed (use a b in simp_all)
    finally show ?thesis by (simp add: q)
  qed
  then show ?thesis by (simp add: binary_exponent_def ab Let_def)
qed

lemma power_int_nat: "0 \<le> k \<Longrightarrow> pow2 k = of_int (2 ^ nat k)"
  by (simp add: pow2_def power_int_def)

lemma round_double_bounds:
  assumes "0 \<le> q" "q \<le> of_int n" "n \<le> 2 ^ 53"
  shows "0 \<le> round_double q" "round_double q \<le> of_int n"
proof -
  let ?u = "pow2 (binary_exponent q - 52)"
  have u: "0 < ?u" by (simp add: pow2_def)
  have r: "round_double q = of_int (round_half_even (q / ?u)) * ?u" if "q \<noteq> 0"
    using assms(1) that by (simp add: round_double_def Let_def)
  show "0 \<le> round_double q"
  proof (cases "q = 0")
    case False
    have "0 \<le> round_half_even (q / ?u)" using assms(1) u by (intro round_half_even_nonneg) simp
    with r [OF False] u show ?thesis by simp
  qed (simp add: round_double_def)
  have exact: "round_double q \<le> of_int m * ?u" if "q \<noteq> 0" "q \<le> of_int m * ?u" for m
  proof -
    have "round_half_even (q / ?u) \<le> m"
      using that(2) u by (intro round_half_even_mono_int) (simp add: pos_divide_le_eq)
    then show ?thesis using r [OF that(1)] u by simp
  qed
  show "round_double q \<le> of_int n"
  proof (cases "q = 0")
    case True
    then show ?thesis using assms(2) by (simp add: round_double_def)
  next
    case False
    with assms(1) have q: "0 < q" by simp
    show ?thesis
    proof (cases "binary_exponent q \<le> 52")
      case True
      let ?m = "n * 2 ^ nat (52 - binary_exponent q)"
      have "of_int ?m * ?u = of_int n * (pow2 (52 - binary_exponent q) * ?u)"
        using True by (simp add: power_int_nat)
      also have "pow2 (52 - binary_exponent q) * ?u = 1"
        unfolding pow2_def by (subst power_int_add [symmetric]) simp_all
      finally have m: "of_int ?m * ?u = of_int n" by simp
      show ?thesis using exact [of ?m] False assms(2) unfolding m by blast
    next
      case False
      then have "pow2 53 \<le> pow2 (binary_exponent q)"
        unfolding pow2_def by (intro power_int_increasing) simp_all
      also have "\<dots> \<le> q" by (rule binary_exponent_le [OF q])
      finally have "(2 :: rat) ^ 53 \<le> q" by (simp add: pow2_def power_int_def)
      moreover have "of_int n \<le> (2 :: rat) ^ 53" using assms(3) by (metis of_int_le_iff of_int_numeral of_int_power)
      ultimately have n: "q = of_int n" "q = 2 ^ 53" using assms(2) by simp_all
      have "\<not> 53 < binary_exponent q"
      proof
        assume "53 < binary_exponent q"
        then have "pow2 53 < pow2 (binary_exponent q)" unfolding pow2_def by (intro power_int_strict_increasing) simp_all
        also have "\<dots> \<le> q" by (rule binary_exponent_le [OF q])
        finally show False using n(2) by (simp add: pow2_def power_int_def)
      qed
      with False have e: "binary_exponent q = 53" by simp
      have two: "?u = 2" by (simp add: e pow2_def)
      have "of_int (2 ^ 52) * (2 :: rat) = q" by (simp add: n(2))
      with exact [of "2 ^ 52", unfolded two] \<open>q > 0\<close> n(1) show ?thesis by simp
    qed
  qed
qed

lemma percentage_threshold_bounds:
  assumes "0 \<le> percentage" "percentage < 1" "0 < budget" "budget \<le> 2 ^ 53"
  shows "0 \<le> percentage_threshold budget percentage" "percentage_threshold budget percentage \<le> budget"
proof -
  have one: "0 \<le> round_double (1 - percentage)" "round_double (1 - percentage) \<le> 1"
    using round_double_bounds [of "1 - percentage" 1] assms(1,2) by simp_all
  have b: "0 \<le> round_double (of_int budget)" "round_double (of_int budget) \<le> of_int budget"
    using round_double_bounds [of "of_int budget" budget] assms(3,4) by simp_all
  have "round_double (of_int budget) * round_double (1 - percentage) \<le> of_int budget * 1"
    using one b assms(3) by (intro mult_mono) simp_all
  moreover have "0 \<le> round_double (of_int budget) * round_double (1 - percentage)" using one b by simp
  ultimately have r: "0 \<le> round_double (round_double (of_int budget) * round_double (1 - percentage))"
    "round_double (round_double (of_int budget) * round_double (1 - percentage)) \<le> of_int budget"
    using round_double_bounds [of _ budget] assms(4) by simp_all
  then show "0 \<le> percentage_threshold budget percentage" "percentage_threshold budget percentage \<le> budget"
    unfolding percentage_threshold_def truncated_def by (simp_all add: floor_le_iff)
qed


section \<open>What a loaded configuration is\<close>

definition config_ok :: "runtime_config \<Rightarrow> bool" where
  "config_ok c \<longleftrightarrow>
     \<not> py_blank (rc_github_token c) \<and> \<not> py_blank (rc_model_api_key c) \<and> repository_name (rc_target_repo c)
     \<and> list_all (\<lambda>n. 0 < n) [rc_poll_interval c, rc_model_timeout c, rc_publish_timeout c, rc_max_retries c,
         rc_max_consecutive_errors c, rc_max_turns c, rc_max_budget_usd c, rc_max_budget_tokens c,
         rc_model_stream_idle_timeout_ms c, rc_background_task_grace_seconds c]
     \<and> 0 \<le> rc_max_auto_continuations c \<and> 0 \<le> rc_max_conflict_attempts c
     \<and> 0 \<le> rc_soft_threshold_percentage c \<and> rc_soft_threshold_percentage c < 1
     \<and> 1 \<le> rc_handoff_reserve_turns c \<and> rc_handoff_reserve_turns c \<le> 20
     \<and> rc_review_blocking_severities c \<subseteq> {''must-fix'', ''suggestion''}
     \<and> rc_pr_auto_merge c \<in> {''false'', ''true'', ''label''} \<and> rc_pr_merge_method c \<in> {''merge'', ''squash'', ''rebase''}
     \<and> rc_handoff_comment_mode c \<in> {''link'', ''verbose''}
     \<and> rc_log_level c \<in> {''CRITICAL'', ''ERROR'', ''WARNING'', ''INFO'', ''DEBUG''}
     \<and> rc_model_auth_mode c \<in> {''auth_token'', ''api_key''} \<and> \<not> py_blank (rc_model c)
     \<and> length (rc_worker_id c) \<le> 32 \<and> list_all setting_char (rc_worker_id c)
     \<and> (rc_worker_id c = [] \<or> marker_safe (rc_worker_id c))"

lemma positive_ok: "positive_integer values name d = Inr n \<Longrightarrow> 0 < n"
  by (auto simp: positive_integer_def split: option.splits if_splits)

lemma non_negative_ok: "non_negative_integer values name d = Inr n \<Longrightarrow> 0 \<le> n"
  by (auto simp: non_negative_integer_def split: option.splits if_splits)

lemma fraction_ok: "fraction values name d = Inr q \<Longrightarrow> 0 \<le> q \<and> q < 1"
  by (auto simp: fraction_def split: option.splits py_number.splits if_splits)

lemma reserve_ok: "reserve_turns values name d = Inr n \<Longrightarrow> 1 \<le> n \<and> n \<le> 20"
  by (auto simp: reserve_turns_def MAX_HANDOFF_RESERVE_TURNS_def Let_def split: option.splits if_splits)

lemma one_of_ok: "one_of values name d allowed message = Inr v \<Longrightarrow> v \<in> set allowed"
  by (auto simp: one_of_def Let_def split: if_splits)

lemma setting_chars_safe: "list_all setting_char w \<Longrightarrow> w = [] \<or> marker_safe w"
  by (auto simp: marker_safe_def word_like_def list_all_iff setting_char_def char_between_def is_digit_def py_space_def Let_def)

lemma worker_ok: "worker_id_setting values = Inr w \<Longrightarrow> length w \<le> 32 \<and> list_all setting_char w \<and> (w = [] \<or> marker_safe w)"
  using setting_chars_safe [of w] by (auto simp: worker_id_setting_def Let_def split: if_splits)

lemma log_level_ok: "log_level_setting values = Inr l \<Longrightarrow> l \<in> {''CRITICAL'', ''ERROR'', ''WARNING'', ''INFO'', ''DEBUG''}"
  by (auto simp: log_level_setting_def Let_def split: if_splits)

lemma auth_mode_ok: "model_auth_mode_setting values = Inr m \<Longrightarrow> m \<in> {''auth_token'', ''api_key''}"
  by (auto simp: model_auth_mode_setting_def Let_def split: if_splits)

lemma non_empty_ok: "non_empty values name d = Inr v \<Longrightarrow> \<not> py_blank v"
  by (auto simp: non_empty_def Let_def split: if_splits)

lemma severities_ok: "review_severities values = Inr s \<Longrightarrow> s \<subseteq> {''must-fix'', ''suggestion''}"
  by (auto simp: review_severities_def Let_def list_all_iff split: if_splits)

lemma required_ok: "required values name = Inr v \<Longrightarrow> \<not> py_blank v"
  by (auto simp: required_def Let_def split: if_splits)

lemma target_ok: "target_repo_setting values = Inr r \<Longrightarrow> repository_name r"
  by (auto simp: target_repo_setting_def and_then_eq_Inr split: if_splits)

lemma api_key_ok: "model_api_key_setting values = Inr k \<Longrightarrow> \<not> py_blank k"
  by (auto simp: model_api_key_setting_def Let_def split: if_splits)

lemmas settings_ok = positive_ok non_negative_ok fraction_ok reserve_ok worker_ok severities_ok required_ok target_ok
  api_key_ok one_of_ok log_level_ok auth_mode_ok non_empty_ok

lemma load_config_ok: "load_runtime_config expand values = Inr c \<Longrightarrow> config_ok c"
  unfolding load_runtime_config_def and_then_eq_Inr auto_merge_mode_def merge_method_def handoff_comment_mode_def
  by (elim exE conjE, drule sum.inject(2) [THEN iffD1], hypsubst, (drule settings_ok)+) (simp add: config_ok_def)

lemma setting_chars_plain: "list_all setting_char w \<Longrightarrow> py_strip w = w \<and> list_all worker_id_char w"
  by (rule conjI, rule py_strip_no_space) (auto simp: list_all_iff setting_char_def worker_id_char_def char_between_def is_digit_def py_space_def Let_def)

text \<open>
  C17. A configuration that loads is well formed, and every part of the Worker that checks its settings again accepts
  them: all counts and timeouts are positive, percentages and turns are in their ranges, the log level, the way of
  authentication and every mode are known ones, credentials and the model's name are not blank, the worker id is empty
  or safe in a marker, the tracker and the publisher can be built from it, and the Worker's claim label fits the 50
  characters that GitHub allows.
\<close>
theorem configuration_accepted:
  assumes "load_runtime_config expand values = Inr c"
  shows "config_ok c \<and> length (claim_marker_label (rc_worker_id c)) \<le> 50
    \<and> new_tracker (rc_target_repo c) (rc_max_auto_continuations c) (rc_max_conflict_attempts c) peers logins (rc_worker_id c) l k
      = Inr \<lparr>tk_repo = rc_target_repo c, tk_max_auto = rc_max_auto_continuations c, tk_max_conflict = rc_max_conflict_attempts c,
             tk_peers = peer_login_set peers logins, tk_worker_id = rc_worker_id c, tk_lists_pull_requests = l, tk_adds_comments = k\<rparr>
    \<and> new_publisher (rc_target_repo c) (rc_max_retries c) timeout has_state (Inr (rc_pr_auto_merge c)) (rc_pr_merge_method c) (rc_handoff_comment_mode c)
      = Inr \<lparr>pb_repository = rc_target_repo c, pb_max_retries = rc_max_retries c, pb_publish_timeout = timeout, pb_has_attempt_state = has_state,
             pb_auto_merge = rc_pr_auto_merge c, pb_merge_method = rc_pr_merge_method c, pb_comment_mode = rc_handoff_comment_mode c\<rparr>"
proof -
  have ok: "config_ok c" by (rule load_config_ok [OF assms])
  have modes: "list_all (\<lambda>m. normalize_auto_merge (Inr m) = Inr m) [''false'', ''true'', ''label'']"
    "list_all (\<lambda>m. normalize_handoff_comment_mode m = Inr m) [''link'', ''verbose'']"
    by code_simp+
  have mode: "rc_pr_auto_merge c \<in> {''false'', ''true'', ''label''}" "rc_handoff_comment_mode c \<in> {''link'', ''verbose''}"
    using ok unfolding config_ok_def by - (elim conjE, assumption)+
  have "length (claim_marker_label (rc_worker_id c)) \<le> 50"
    using ok by (simp add: config_ok_def claim_marker_label_def CLAIM_MARKER_PREFIX_def)
  moreover have "normalize_auto_merge (Inr (rc_pr_auto_merge c)) = Inr (rc_pr_auto_merge c)"
    "normalize_handoff_comment_mode (rc_handoff_comment_mode c) = Inr (rc_handoff_comment_mode c)"
    using mode modes by auto
  moreover have "0 \<le> rc_max_auto_continuations c" "0 \<le> rc_max_conflict_attempts c" "length (rc_worker_id c) \<le> 32"
    "py_strip (rc_worker_id c) = rc_worker_id c" "list_all worker_id_char (rc_worker_id c)"
    using ok setting_chars_plain [of "rc_worker_id c"] by (simp_all add: config_ok_def)
  ultimately show ?thesis using ok by (simp add: new_tracker_def new_publisher_def)
qed

definition example_environment :: environment where
  "example_environment = map_of [(''GITHUB_TOKEN'', ''t''), (''MODEL_API_KEY'', ''k''), (''TARGET_REPO'', ''o/r''), (''WORKER_ID'', '' w-1 ''),
     (''MAX_RETRIES'', ''5''), (''SOFT_THRESHOLD_PERCENTAGE'', ''2.5e-1''), (''PR_AUTO_MERGE'', ''Label''),
     (''MAX_BUDGET_TOKENS'', ''1_000''), (''MODEL_TIMEOUT'', '' 9''), (''MODEL_STREAM_IDLE_TIMEOUT_MS'', ''+7'')]"

definition example_config :: runtime_config where
  "example_config = (case load_runtime_config id example_environment of Inr c \<Rightarrow> c | Inl e \<Rightarrow> undefined)"

lemma example_loads: "load_runtime_config id example_environment = Inr example_config"
proof -
  have "(case load_runtime_config id example_environment of Inr c \<Rightarrow> True | Inl e \<Rightarrow> False)" by code_simp
  then show ?thesis by (auto simp: example_config_def split: sum.splits)
qed

theorem configuration_accepted_witness: "config_ok example_config \<and> length (claim_marker_label (rc_worker_id example_config)) \<le> 50"
  by (rule conjI [OF configuration_accepted [OF example_loads, THEN conjunct1]
        configuration_accepted [OF example_loads, THEN conjunct2, THEN conjunct1]])

text \<open>
  The token thresholds of a loaded configuration stay in bounds, also in the rounding arithmetic of the machine: for
  budgets up to 2 to the 53 the soft threshold lies between zero and the budget, and the effective threshold, which
  also reserves turns for a handoff, is never above it nor above what the reserve leaves.
\<close>
theorem soft_threshold_in_bounds:
  assumes "load_runtime_config expand values = Inr c" "rc_max_budget_tokens c \<le> 2 ^ 53"
    and "effective_soft_threshold c context = (threshold, rule, reserve)"
  shows "0 \<le> soft_threshold_tokens c \<and> soft_threshold_tokens c \<le> rc_max_budget_tokens c
    \<and> threshold \<le> soft_threshold_tokens c \<and> threshold \<le> rc_max_budget_tokens c - reserve
    \<and> threshold = (if rule = ''reserve'' then rc_max_budget_tokens c - reserve else soft_threshold_tokens c)"
proof -
  have ok: "config_ok c" by (rule load_config_ok [OF assms(1)])
  then have "0 \<le> soft_threshold_tokens c" "soft_threshold_tokens c \<le> rc_max_budget_tokens c"
    using percentage_threshold_bounds [OF _ _ _ assms(2)] by (simp_all add: config_ok_def soft_threshold_tokens_def)
  with assms(3) show ?thesis
    by (auto simp: effective_soft_threshold_def effective_soft_threshold_tokens_def soft_threshold_tokens_def Let_def split: if_splits)
qed

theorem soft_threshold_in_bounds_witness:
  "soft_threshold_tokens example_config = 750 \<and> effective_soft_threshold example_config 50 = (650, ''reserve'', 350)
   \<and> 0 \<le> soft_threshold_tokens example_config"
proof -
  have "(case load_runtime_config id example_environment of Inr c \<Rightarrow> soft_threshold_tokens c = 750 \<and> rc_max_budget_tokens c \<le> 2 ^ 53
      \<and> effective_soft_threshold c 50 = (650, ''reserve'', 350) | Inl e \<Rightarrow> False)"
    by code_simp
  then have "soft_threshold_tokens example_config = 750" "rc_max_budget_tokens example_config \<le> 2 ^ 53"
    "effective_soft_threshold example_config 50 = (650, ''reserve'', 350)"
    by (simp_all add: example_loads)
  with soft_threshold_in_bounds [OF example_loads] show ?thesis by blast
qed

end
