(* ===== verification/Conflict_Attempt.thy ===== *)
theory Conflict_Attempt
  imports Git_Workspace Tracker Markers Command_Runner
begin

text \<open>
  The helpers of a conflict attempt (conflict_attempt.py): which claims become conflict attempts, when one ends before
  any work, what its outcomes mean, what is told about failures, and how the model's resolution is judged.
\<close>

section \<open>Outcomes\<close>

abbreviation "CONFLICT_SUCCESS \<equiv> ''success''"
abbreviation "CONFLICT_SKIPPED \<equiv> ''skipped''"
abbreviation "CONFLICT_REBASE \<equiv> ''rebase_conflict''"
abbreviation "CONFLICT_SETUP_FAILED \<equiv> ''setup_failed''"
abbreviation "CONFLICT_CHECK_FAILED \<equiv> ''check_failed''"
abbreviation "CONFLICT_PUSH_FAILED \<equiv> ''push_failed''"
abbreviation "CONFLICT_ERROR \<equiv> ''error''"
abbreviation "CONFLICT_MODEL_LIMIT \<equiv> ''model_limit''"
abbreviation "CONFLICT_RESOLUTION_FAILED \<equiv> ''resolution_failed''"
abbreviation "CONFLICT_NO_CHANGE \<equiv> ''no_change''"

definition is_conflict_claim :: "string list \<Rightarrow> bool" where
  "is_conflict_claim labels \<longleftrightarrow>
     MERGE_CONFLICT \<in> set labels \<and> READY_FOR_AGENT \<notin> set labels \<and> ROUND_FINISHED \<notin> set labels \<and> READY_FOR_HUMAN \<notin> set labels"

definition conflict_branch :: "int \<Rightarrow> string" where
  "conflict_branch n = ''agent/issue-'' @ str_of_int n"

definition lifecycle_outcome :: "string \<Rightarrow> attempt_outcome" where
  "lifecycle_outcome outcome =
     (if outcome = CONFLICT_SUCCESS then COMPLETE
      else if outcome = CONFLICT_SKIPPED then NO_CHANGES
      else if outcome \<in> {CONFLICT_REBASE, CONFLICT_CHECK_FAILED, CONFLICT_MODEL_LIMIT, CONFLICT_RESOLUTION_FAILED, CONFLICT_NO_CHANGE}
      then INCOMPLETE
      else INFRASTRUCTURE_ERROR)"

text \<open>Why a conflict attempt ends as skipped before any git work, from the pull request as it is after the claim.\<close>

definition entry_skip_reason :: "pull_request option \<Rightarrow> string \<Rightarrow> string option \<Rightarrow> bool \<Rightarrow> (string \<times> string) option" where
  "entry_skip_reason pr branch claim_revision lease_recorded = (case pr of
     None \<Rightarrow> Some (''no_open_pr'',
       ''No open pull request for branch `'' @ branch @ ''`; there is nothing to bring up to date.'')
   | Some p \<Rightarrow>
       let name = ''Pull request #'' @ str_of_int (pq_number p)
       in if pq_draft p then Some (''draft'', name @ '' is a draft; a conflict attempt never publishes draft work.'')
          else if pq_mergeable p \<notin> {''CONFLICTING'', ''UNKNOWN''}
          then Some (''not_conflicting'', name @ '' reports `'' @ pq_mergeable p @ ''`, not `CONFLICTING`; ''
            @ ''there is nothing to bring up to date.'')
          else (case nonempty claim_revision of
              None \<Rightarrow> None
            | Some revision \<Rightarrow>
                if lease_recorded \<and> pq_head_sha p \<noteq> [] \<and> revision \<noteq> pq_head_sha p
                then Some (''stale_head'', name @ '' reports head `'' @ pq_head_sha p @ ''`, but the ''
                  @ ''published branch was observed at `'' @ revision @ ''` when ''
                  @ ''claimed; the pull request head is out of sync with its branch, ''
                  @ ''so there is nothing to bring up to date.'')
                else None))"

definition base_mismatch_reason :: "pull_request \<Rightarrow> string \<Rightarrow> (string \<times> string) option" where
  "base_mismatch_reason p base =
     (if pq_base_ref p = base then None
      else Some (''base_mismatch'', ''Pull request #'' @ str_of_int (pq_number p) @ '' targets `''
        @ (if pq_base_ref p = [] then ''unknown'' else pq_base_ref p) @ ''`, not the profile ''
        @ ''base branch `'' @ base @ ''`; a conflict attempt only rebases onto its own base.''))"


section \<open>Details for people\<close>

definition left_untouched :: string where
  "left_untouched = ''the remote branch is left untouched so the pull request stays `CONFLICTING`.''"

definition named_files :: "string \<Rightarrow> string list \<Rightarrow> string" where
  "named_files title files = (if files = [] then [] else '' '' @ title @ '': '' @ py_join '', '' files @ ''.'')"

definition rebase_conflict_details :: "string \<Rightarrow> string \<Rightarrow> string list \<Rightarrow> string" where
  "rebase_conflict_details branch base files =
     ''Rebase of `'' @ branch @ ''` onto `'' @ base @ ''` hit conflicts '' @ ''('' @ CONFLICT_REBASE @ '').''
     @ named_files ''Conflicting files'' files @ '' No model resolution ran; '' @ left_untouched"

definition model_unresolved_details :: "string \<Rightarrow> string \<Rightarrow> string list \<Rightarrow> bool \<Rightarrow> string" where
  "model_unresolved_details branch base files after_check =
     ''Rebase of `'' @ branch @ ''` onto `'' @ base @ ''` hit conflicts '' @ ''('' @ CONFLICT_REBASE @ '').''
     @ named_files ''Conflicting files'' files @ '' ''
     @ (if after_check
        then ''The profile check stayed red, so the model session ran but the branch '' @ ''is still not up to date''
        else ''The rebase conflicted, so one model resolution session ran but '' @ ''the rebase is still unresolved'')
     @ ''; '' @ left_untouched"

definition model_limit_details :: "string \<Rightarrow> string \<Rightarrow> string list \<Rightarrow> string" where
  "model_limit_details branch base files =
     ''The single model resolution session for `'' @ branch @ ''` onto `'' @ base @ ''` ''
     @ ''reached its ordinary turn, time, or token limit ('' @ CONFLICT_MODEL_LIMIT @ '').''
     @ named_files ''Conflicting files'' files @ '' No handoff note was written and no further session runs; '' @ left_untouched"

definition commit_count_changed_details :: "string \<Rightarrow> string \<Rightarrow> int \<Rightarrow> int \<Rightarrow> string" where
  "commit_count_changed_details branch base expected actual =
     ''The model resolution for `'' @ branch @ ''` onto `'' @ base @ ''` changed the ''
     @ ''rebased commit count ('' @ CONFLICT_RESOLUTION_FAILED @ ''): the pull ''
     @ ''request carried '' @ str_of_int expected @ '' commit(s) and now carries '' @ str_of_int actual @ '' in total, ''
     @ ''so commits were squashed, dropped, or amended instead ''
     @ ''of adding fixes only on top. The remote branch is left untouched so the '' @ ''pull request stays `CONFLICTING`.''"

definition model_error_details :: "string \<Rightarrow> string \<Rightarrow> string \<Rightarrow> string" where
  "model_error_details branch base detail =
     ''The single model resolution session for `'' @ branch @ ''` onto `'' @ base @ ''` ''
     @ ''could not finish: '' @ detail @ '' The remote branch is left untouched so the '' @ ''pull request stays `CONFLICTING`.''"

text \<open>The command that a failure is blamed on: the first that did not exit with zero, or the last one.\<close>

definition failed_command :: "command_result \<Rightarrow> command_execution option" where
  "failed_command r = (case find (\<lambda>c. ex_exit_code c \<noteq> Some 0) (cr_commands r) of
     Some c \<Rightarrow> Some c
   | None \<Rightarrow> (if cr_commands r = [] then None else Some (last (cr_commands r))))"

definition failed_command_text :: "command_result \<Rightarrow> string" where
  "failed_command_text r = (case failed_command r of
     None \<Rightarrow> ''no command ran''
   | Some c \<Rightarrow> ''`'' @ ex_command c @ ''` '' @ (case (ex_timed_out c, ex_exit_code c) of
         (False, Some code) \<Rightarrow> ''(exit '' @ str_of_int code @ '')''
       | _ \<Rightarrow> ''(timed out)''))"

definition setup_failed_details :: "command_result \<Rightarrow> string" where
  "setup_failed_details r =
     ''Setup did not succeed on the rebased branch; the remote branch is left ''
     @ ''untouched so the pull request stays `CONFLICTING`. Failing command: '' @ failed_command_text r @ ''.''"

definition check_failed_details :: "command_result \<Rightarrow> string" where
  "check_failed_details r =
     ''The profile check did not pass on the rebased branch; the remote branch ''
     @ ''is left untouched so the pull request stays `CONFLICTING`. Failing command: '' @ failed_command_text r @ ''.''"

definition FAILURE_OUTPUT_STREAM_LIMIT :: nat where "FAILURE_OUTPUT_STREAM_LIMIT = 4000"

definition tail_text :: "string \<Rightarrow> string" where
  "tail_text value =
     (if py_blank value then ''(no output)''
      else if length value \<le> FAILURE_OUTPUT_STREAM_LIMIT then value
      else ''...[truncated; showing the last '' @ str_of_nat FAILURE_OUTPUT_STREAM_LIMIT @ '' characters]'' @ nl
        @ drop (length value - FAILURE_OUTPUT_STREAM_LIMIT) value)"

definition fenced :: "string \<Rightarrow> string" where "fenced s = ''```'' @ nl @ s @ nl @ ''```''"

definition failure_output_tail :: "command_result \<Rightarrow> string" where
  "failure_output_tail r = (case failed_command r of
     None \<Rightarrow> ''(no command ran)''
   | Some c \<Rightarrow> ''Failing command: `'' @ ex_command c @ ''`'' @ nl @ nl
       @ ''stdout (tail):'' @ nl @ fenced (tail_text (ex_stdout c)) @ nl @ nl
       @ ''stderr (tail):'' @ nl @ fenced (tail_text (ex_stderr c)))"

definition format_check_output :: "command_result \<Rightarrow> string" where
  "format_check_output r = (case failed_command r of
     None \<Rightarrow> ''The profile check failed before any command ran.''
   | Some c \<Rightarrow> ''Failing command: `'' @ ex_command c @ ''` ('' @ (case (ex_timed_out c, ex_exit_code c) of
         (False, Some code) \<Rightarrow> ''exit '' @ str_of_int code
       | _ \<Rightarrow> ''timed out'') @ '').'' @ nl @ nl
       @ ''Failing command stdout (tail):'' @ nl @ fenced (tail_text (ex_stdout c)) @ nl @ nl
       @ ''Failing command stderr (tail):'' @ nl @ fenced (tail_text (ex_stderr c)))"

definition pushed_as_line :: "string option \<Rightarrow> string" where
  "pushed_as_line sha = (case nonempty sha of None \<Rightarrow> [] | Some s \<Rightarrow> '' Pushed as `'' @ s @ ''`.'')"

definition success_details :: "string \<Rightarrow> string \<Rightarrow> string option \<Rightarrow> string" where
  "success_details branch base sha =
     ''Rebased `'' @ branch @ ''` onto `'' @ base @ ''` with no conflicts; setup and the ''
     @ ''profile check passed, so the rebased branch was force-pushed.'' @ pushed_as_line sha"

definition model_success_details :: "string \<Rightarrow> string \<Rightarrow> string list \<Rightarrow> string list \<Rightarrow> string list \<Rightarrow> string option \<Rightarrow> string" where
  "model_success_details branch base files extra_files fix_commits sha =
     ''One model resolution session brought `'' @ branch @ ''` onto `'' @ base @ ''`; ''
     @ ''the rebase completed with the pull request's commit count preserved, ''
     @ ''fixes landed only as commits on top, and setup plus the profile check ''
     @ ''passed, so the resolved branch was force-pushed.'' @ pushed_as_line sha
     @ named_files ''Conflicted files'' files @ named_files ''Files changed outside the conflicted set'' extra_files
     @ named_files ''Fix commits'' fix_commits"


section \<open>Judging a resolution\<close>

text \<open>The fixes on top of a preserved history; \<open>None\<close> when the history was rewritten.\<close>

definition fix_commit_count :: "string list \<Rightarrow> string list \<Rightarrow> nat option" where
  "fix_commit_count before after =
     (if length after < length before then None
      else if take (length before) after \<noteq> before then None
      else Some (length after - length before))"

definition files_outside_conflict :: "string list \<Rightarrow> string list \<Rightarrow> string list" where
  "files_outside_conflict fix_files conflicted =
     sort (remdups (filter (\<lambda>p. p \<noteq> [] \<and> p \<notin> set conflicted) fix_files))"

definition short_revision :: "string \<Rightarrow> string" where
  "short_revision revision = (if length revision > 12 then take 12 revision else revision)"


section \<open>The prompt of the resolution\<close>

definition quiet_git :: "string \<Rightarrow> string list \<Rightarrow> string ws_prog" where
  "quiet_git dir args = ask (Run_git (Some dir) args) (\<lambda>r. case r of
       Exit_failure \<Rightarrow> Inl (OtherError ''RuntimeError'' (''git '' @ py_join '' '' args @ '' failed''))
     | _ \<Rightarrow> map_sum id py_strip (ws_reply text_answer r))"

definition base_changes_text :: "string \<Rightarrow> string \<Rightarrow> string list \<Rightarrow> string ws_prog" where
  "base_changes_text dir base files =
     (if files = [] then Return ''(no conflicted files; nothing to look up)''
      else bind (handle
          (bind (quiet_git dir [''merge-base'', ''HEAD'', ''origin/'' @ base]) (\<lambda>merge_base.
           bind (quiet_git dir ([''log'', ''--max-count=20'', ''--format=%h %s'', merge_base @ ''..origin/'' @ base, ''--''] @ files))
             (\<lambda>commits. Return (Some commits))))
          (\<lambda>e. Return None))
        (\<lambda>found. Return (case found of
           None \<Rightarrow> ''(base changes unavailable: could not read commits on '' @ ''`origin/'' @ base @ ''` since the merge-base)''
         | Some commits \<Rightarrow>
             if py_blank commits then ''(no commits on `origin/'' @ base @ ''` since the merge-base touched '' @ ''these files)''
             else py_strip commits)))"

definition context_lines :: "string \<Rightarrow> string list \<Rightarrow> string list" where
  "context_lines issue_body comments =
     [''## Context only '' @ em_dash @ '' do not implement'', [],
      ''The issue body and trusted comments below are context for understanding'',
      ''the conflicting change. Do NOT implement the issue, do NOT start new work,'',
      ''and do NOT invoke the `code-review` skill: this session only brings the'',
      ''published branch up to date.'', [], ''### Issue body'', [],
      (if py_blank issue_body then ''(empty issue body)'' else py_strip issue_body)]
     @ concat (map (\<lambda>(index, comment). [[], ''### Trusted comment '' @ str_of_nat index, [], py_strip comment])
         (zip [1..<Suc (length comments)] comments))"

definition files_lines :: "string list \<Rightarrow> string \<Rightarrow> string list" where
  "files_lines files base_changes =
     [''## Conflicts to resolve'', [],
      (if files = [] then ''Resolve the remaining rebase conflicts.''
       else ''Resolve the conflicts in: '' @ py_join '', '' files @ ''.''),
      ''Inspect with `git status`, edit the conflicted files, stage with `git add`,'',
      ''and run `git rebase --continue` until the rebase completes.'',
      ''Keep the pull request's commits exactly as they are: do not squash, drop,'',
      ''amend, or reorder them. Once the rebase completes, any further fix that the'',
      ''check gate needs goes only as a new commit on top '' @ em_dash @ '' never by rewriting'',
      ''the rebased commits.'', [], ''## Base changes since the merge-base'', [],
      (if py_blank base_changes then ''(unavailable)'' else py_strip base_changes)]"

definition build_resolution_prompt :: "string \<Rightarrow> string list \<Rightarrow> string list \<Rightarrow> string \<Rightarrow> string option \<Rightarrow> string \<Rightarrow> string" where
  "build_resolution_prompt issue_body comments files base_changes check_output gate_section =
     py_join (nl @ nl)
       ([py_join nl (context_lines issue_body comments), py_join nl (files_lines files base_changes)]
        @ (case check_output of
             None \<Rightarrow> []
           | Some output \<Rightarrow> [''## Failing check output (semantic conflict)'' @ nl @ nl
               @ ''The cleanly rebased branch failed the profile check below. ''
               @ ''Fix only what this output requires, as commits on top.'' @ nl @ nl @ py_strip output])
        @ [gate_section])"

end
