(* ===== verification/Conflict_Execution.thy ===== *)
theory Conflict_Execution
  imports Conflict_Attempt Git_Workspace_Push
begin

text \<open>
  The conflict attempt as the Worker runs it (lifecycle.py, the conflict attempts of \<open>AgentLifecycle\<close>): the fast path,
  the one resolution session of the model, and the requests that are published. A program over the calls of the
  Worker's parts: the workspace, the checkpoint, the command runner, the model, the archive and the log. A call that
  raises answers \<open>Failed\<close>.
\<close>

section \<open>Calls\<close>

datatype conflict_call =
    Event string string string int
  | Look_up_pull string
  | Prepare_profile_read string
  | Load_profile
  | Move_to attempt_phase
  | Read_checkpoint
  | Prepare_branch string int
  | Save_lease "string option"
  | Conflict_snapshot
  | Abort_rebase prepared_attempt
  | Run_commands "string list" int "(string \<times> string) list"
  | List_commits prepared_attempt
  | Changed_files string
  | Issue_comments tracker_issue
  | Base_changes string "string list"
  | Open_archive int string
  | Run_model string int string string string
  | Write_usage
  | Copy_transcripts int
  | Seal_work int string model_status
  | Failure_streak tracker_issue
  | Newest_result_sha tracker_issue
  | Label_for_human tracker_issue

datatype conflict_answer =
    Failed failure
  | Fine
  | Pull_is "pull_request option"
  | Profile_is repository_profile
  | Checkpoint_is "checkpoint option"
  | Prepared_is prepared_attempt
  | State_is conflict_state
  | Ran command_result
  | Commits_are "attempt_commit list"
  | Names_are "string list"
  | Text_is string
  | Maybe_text "string option"
  | Count_is int
  | Model_ended model_status
  | Archive_is bool

type_synonym 'a conflict_prog = "(conflict_call, conflict_answer, failure, 'a) prog"

definition answered :: "(conflict_answer \<Rightarrow> 'a option) \<Rightarrow> conflict_answer \<Rightarrow> failure + 'a" where
  "answered sel r = (case r of
     Failed e \<Rightarrow> Inl e
   | _ \<Rightarrow> (case sel r of None \<Rightarrow> Inl (OtherError ''TypeError'' ''unexpected answer'') | Some x \<Rightarrow> Inr x))"

definition commanded :: "conflict_call \<Rightarrow> unit conflict_prog" where
  "commanded q = ask q (answered (\<lambda>r. Some ()))"

definition event :: "string \<Rightarrow> string \<Rightarrow> string \<Rightarrow> int \<Rightarrow> unit conflict_prog" where
  "event name detail level n = commanded (Event name detail level n)"

definition snapshot :: "conflict_state conflict_prog" where
  "snapshot = ask Conflict_snapshot (answered (\<lambda>r. case r of State_is s \<Rightarrow> Some s | _ \<Rightarrow> None))"

definition commits_of :: "prepared_attempt \<Rightarrow> attempt_commit list conflict_prog" where
  "commits_of p = ask (List_commits p) (answered (\<lambda>r. case r of Commits_are cs \<Rightarrow> Some cs | _ \<Rightarrow> None))"

definition run_profile :: "string list \<Rightarrow> int \<Rightarrow> repository_profile \<Rightarrow> command_result conflict_prog" where
  "run_profile commands timeout pf =
     ask (Run_commands commands timeout (pf_env pf)) (answered (\<lambda>r. case r of Ran x \<Rightarrow> Some x | _ \<Rightarrow> None))"

text \<open>\<open>try: m except Exception as error: h error\<close> around a value, with the handler's value in place.\<close>

definition attempted :: "'a conflict_prog \<Rightarrow> (failure + 'a) conflict_prog" where
  "attempted m = handle (bind m (\<lambda>x. Return (Inr x))) (\<lambda>e. Return (Inl e))"

definition enter_phase :: "attempt_phase \<Rightarrow> int \<Rightarrow> unit conflict_prog" where
  "enter_phase phase n =
     bind (commanded (Move_to phase)) (\<lambda>_.
     event ''attempt_phase_transitioned'' (''phase='' @ phase_value phase) ''INFO'' n)"

text \<open>What the Worker was configured with; a part that is not configured is skipped or reported.\<close>

record conflict_parts_of =
  cw_runner :: bool
  cw_executor :: bool
  cw_reads_comments :: bool
  cw_redactions :: "string list"
  cw_worker_id :: string
  cw_max_conflict_attempts :: int


section \<open>The prompt's gate\<close>

text \<open>\<open>Redactor.redact\<close> on a text, with the operator's credentials and the values of the profile's environment.\<close>

definition redact :: "string list \<Rightarrow> string \<Rightarrow> string" where
  "redact secrets s = fold (\<lambda>secret v. py_replace secret REDACTED v) (filter (\<lambda>x. x \<noteq> []) secrets) s"

definition prompt_secrets :: "repository_profile \<Rightarrow> string list \<Rightarrow> string list" where
  "prompt_secrets pf redactions = redactions @ filter (\<lambda>v. v \<noteq> []) (map snd (pf_env pf))"

definition REVIEW_INSTRUCTION :: string where
  "REVIEW_INSTRUCTION = ''Before finishing, invoke the `code-review` skill on your changes: ''
     @ ''an attempt with commits but no `code-review` invocation in this run ''
     @ ''is classified as incomplete, even when the checks pass and the '' @ ''change is small (for example formatting).''"

definition gate_section :: "repository_profile \<Rightarrow> string list \<Rightarrow> bool \<Rightarrow> string" where
  "gate_section pf redactions include_review =
     (let hide = redact (prompt_secrets pf redactions)
      in py_join nl
       ([''---'', ''## Completion gate'', [],
         ''Before the attempt counts as complete, the branch must pass the '' @ ''following commands, in this order:'', []]
        @ map (\<lambda>(index, command). str_of_nat index @ ''. '' @ hide command) (zip [1..<Suc (length (pf_check pf))] (pf_check pf))
        @ [[], ''The agent runs these commands itself as the final check after the ''
              @ ''model finishes. They run in sequence and the first failure fails '' @ ''the gate.'', []]
        @ (if include_review then [REVIEW_INSTRUCTION] else [])
        @ (if pf_env pf = [] then []
           else [''The gate runs with these environment variables set: '' @ py_join '', '' (map fst (pf_env pf))
             @ ''. Their values are not shown here.''])
        @ (if py_blank (pf_model_instructions pf) then []
           else [[], ''### Repository guidance'', [], ''The following repository-provided guidance also applies:'', [],
             hide (pf_model_instructions pf)])))"


section \<open>Requests\<close>

text \<open>The opt-in is the one the checkpoint recorded at claim time; without a checkpoint the labels of the claim decide.\<close>

definition claim_time_opt_in :: "claim \<Rightarrow> checkpoint option \<Rightarrow> bool" where
  "claim_time_opt_in cl c = (case c of Some c \<Rightarrow> ck_auto_merge_opt_in c | None \<Rightarrow> AUTO_MERGE_LABEL \<in> set (ti_labels (cl_issue cl)))"

definition claim_time_requeue_source :: "claim \<Rightarrow> checkpoint option \<Rightarrow> string" where
  "claim_time_requeue_source cl c = (case c of
     Some c \<Rightarrow> if ck_requeue_source c \<in> {REQUEUE_SOURCE_HUMAN, REQUEUE_SOURCE_AUTOMATIC, REQUEUE_SOURCE_CONFLICT}
       then ck_requeue_source c else requeue_source_for_labels (ti_labels (cl_issue cl))
   | None \<Rightarrow> requeue_source_for_labels (ti_labels (cl_issue cl)))"

definition no_check :: check_report where
  "no_check = \<lparr>ck_command = ''not run'', ck_exit_code = None, ck_steps = [], ck_failed_step = None, ck_failed_index = None,
     ck_not_run_reason = None\<rparr>"

definition check_failure_step :: "command_result \<Rightarrow> string option \<times> int option" where
  "check_failure_step r = (let commands = cr_commands r in
     case find (\<lambda>i. ex_exit_code (commands ! i) \<noteq> Some 0) [0..<length commands] of
       Some i \<Rightarrow> (Some (ex_command (commands ! i)), Some (int i + 1))
     | None \<Rightarrow> if commands = [] then (None, None) else (Some (ex_command (last commands)), Some (int (length commands))))"

definition passed_check :: "repository_profile \<Rightarrow> command_result \<Rightarrow> check_report" where
  "passed_check pf r = no_check\<lparr>ck_command := py_join '' && '' (pf_check pf), ck_exit_code := cr_exit_code r, ck_steps := pf_check pf\<rparr>"

definition failed_check :: "repository_profile \<Rightarrow> command_result \<Rightarrow> check_report" where
  "failed_check pf r =
     (passed_check pf r)\<lparr>ck_failed_step := fst (check_failure_step r), ck_failed_index := snd (check_failure_step r)\<rparr>"

definition build_conflict_request ::
  "conflict_parts_of \<Rightarrow> claim \<Rightarrow> checkpoint \<Rightarrow> string \<Rightarrow> string \<Rightarrow> pull_request option \<Rightarrow> string \<Rightarrow> string \<Rightarrow> string \<Rightarrow> bool \<Rightarrow> conflict_request" where
  "build_conflict_request cw cl c branch base pull outcome reason details push =
     \<lparr>cq_issue_number = ti_number (cl_issue cl), cq_issue_title = ti_title (cl_issue cl), cq_branch = branch,
      cq_started_at = ck_started_at c, cq_base_branch = base, cq_outcome = lifecycle_outcome outcome,
      cq_conflict_outcome = outcome, cq_reason = reason, cq_details = details, cq_push_branch = push,
      cq_pull_request = pull, cq_check = no_check, cq_conflicted_files = [],
      cq_auto_merge_opt_in = claim_time_opt_in cl (Some c), cq_extra_files = [], cq_fix_commits = [],
      cq_conflict_index = 0, cq_conflict_budget = 0, cq_escalate = False, cq_conflict_prior = 0,
      cq_failure_output = [], cq_requeue_source = None, cq_worker_id = cw_worker_id cw, cq_prior_conflict_sha = None\<rparr>"

definition conflict_error_request ::
  "conflict_parts_of \<Rightarrow> claim \<Rightarrow> checkpoint \<Rightarrow> prepared_attempt option \<Rightarrow> repository_profile option \<Rightarrow> string \<Rightarrow> conflict_request" where
  "conflict_error_request cw cl c prepared pf detail =
     build_conflict_request cw cl c
       (case prepared of Some p \<Rightarrow> pa_branch p | None \<Rightarrow> conflict_branch (ti_number (cl_issue cl)))
       (case pf of Some pf \<Rightarrow> pf_base_branch pf | None \<Rightarrow> ''main'') None CONFLICT_ERROR []
       (''Conflict attempt failed before a result could be verified: '' @ detail) False"

definition conflict_rebase_request ::
  "conflict_parts_of \<Rightarrow> claim \<Rightarrow> checkpoint \<Rightarrow> prepared_attempt option \<Rightarrow> repository_profile option \<Rightarrow> pull_request option \<Rightarrow> string list \<Rightarrow> conflict_request" where
  "conflict_rebase_request cw cl c prepared pf pull files =
     (let branch = (case prepared of Some p \<Rightarrow> pa_branch p | None \<Rightarrow> conflict_branch (ti_number (cl_issue cl)));
          base = (case pf of Some pf \<Rightarrow> pf_base_branch pf | None \<Rightarrow> ''main'')
      in (build_conflict_request cw cl c branch base pull CONFLICT_REBASE [] (rebase_conflict_details branch base files) False)
           \<lparr>cq_conflicted_files := files\<rparr>)"


section \<open>The claim-time lease\<close>

text \<open>The first recording wins; what fails is logged, nothing is raised.\<close>

definition record_lease :: "prepared_attempt \<Rightarrow> int \<Rightarrow> unit conflict_prog" where
  "record_lease p n =
     bind (attempted (ask Read_checkpoint (answered (\<lambda>r. case r of Checkpoint_is c \<Rightarrow> Some c | _ \<Rightarrow> None)))) (\<lambda>current.
     case current of
       Inr (Some c) \<Rightarrow>
         if ck_claim_lease_recorded c \<or> \<not> pa_remote_branch_known p then Return ()
         else bind (attempted (commanded (Save_lease (pa_remote_branch_revision p)))) (\<lambda>saved.
           case saved of
             Inl e \<Rightarrow> event ''claim_lease_record_failed'' (''the claim-time lease could not be recorded: '' @ failure_text e) ''WARNING'' n
           | Inr u \<Rightarrow> event ''claim_lease_recorded'' (''branch='' @ pa_branch p @ ''; lease='' @ revision_word (pa_remote_branch_revision p)) ''INFO'' n)
     | _ \<Rightarrow> Return ())"


section \<open>Best effort\<close>

definition abort_best_effort :: "prepared_attempt \<Rightarrow> int \<Rightarrow> unit conflict_prog" where
  "abort_best_effort p n =
     bind (attempted (bind snapshot (\<lambda>s. if cs_in_progress s then commanded (Abort_rebase p) else Return ()))) (\<lambda>r.
     case r of Inl e \<Rightarrow> event ''conflict_abort_failed'' (''reason='' @ failure_line e) ''WARNING'' n | Inr u \<Rightarrow> Return ())"

definition seal_best_effort :: "int \<Rightarrow> string \<Rightarrow> model_status \<Rightarrow> unit conflict_prog" where
  "seal_best_effort n attempt_id status =
     bind (attempted (commanded (Seal_work n attempt_id status))) (\<lambda>r.
     case r of Inl e \<Rightarrow> event ''seal_attempt_work_failed'' (failure_line e) ''ERROR'' n | Inr u \<Rightarrow> Return ())"

definition archive_model_result :: "bool \<Rightarrow> int \<Rightarrow> unit conflict_prog" where
  "archive_model_result archived n =
     (if \<not> archived then Return ()
      else bind (attempted (commanded Write_usage)) (\<lambda>r.
        bind (case r of Inl e \<Rightarrow> event ''conflict_archive_failed'' (''reason='' @ failure_line e) ''WARNING'' n | Inr u \<Rightarrow> Return ()) (\<lambda>_.
        bind (attempted (commanded (Copy_transcripts n))) (\<lambda>r.
        case r of Inl e \<Rightarrow> event ''transcripts_copy_failed'' (''reason='' @ failure_line e) ''WARNING'' n | Inr u \<Rightarrow> Return ()))))"


section \<open>The resolution session\<close>

fun status_value :: "model_status \<Rightarrow> string" where
  "status_value MODEL_SUCCEEDED = ''succeeded''"
| "status_value MODEL_LIMIT_REACHED = ''model_limit_reached''"
| "status_value MODEL_INFRASTRUCTURE_ERROR = ''infrastructure_error''"
| "status_value HANDOFF_REQUESTED = ''handoff_requested''"
| "status_value OPERATOR_HANDOFF_EXPIRED = ''operator_handoff_expired''"

text \<open>The attempt as its steps know it.\<close>

record conflict_attempt =
  at_claim :: claim
  at_checkpoint :: checkpoint
  at_prepared :: prepared_attempt
  at_profile :: repository_profile
  at_pull :: "pull_request option"
  at_conflicted :: "string list"
  at_check_output :: "string option"

definition at_number :: "conflict_attempt \<Rightarrow> int" where
  "at_number a = ti_number (cl_issue (at_claim a))"

definition at_branch :: "conflict_attempt \<Rightarrow> string" where
  "at_branch a = pa_branch (at_prepared a)"

definition at_base :: "conflict_attempt \<Rightarrow> string" where
  "at_base a = pf_base_branch (at_profile a)"

definition files_note :: "string \<Rightarrow> string list \<Rightarrow> string" where
  "files_note key files = (if files = [] then [] else ''; '' @ key @ ''='' @ py_join '', '' files)"

definition not_pushed :: "conflict_parts_of \<Rightarrow> conflict_attempt \<Rightarrow> string \<Rightarrow> string \<Rightarrow> conflict_request" where
  "not_pushed cw a outcome details =
     build_conflict_request cw (at_claim a) (at_checkpoint a) (at_branch a) (at_base a) (at_pull a) outcome [] details False"

definition not_resolved :: "conflict_parts_of \<Rightarrow> conflict_attempt \<Rightarrow> string \<Rightarrow> string \<Rightarrow> conflict_request" where
  "not_resolved cw a outcome details = (not_pushed cw a outcome details)\<lparr>cq_conflicted_files := at_conflicted a\<rparr>"

definition attempt_error :: "conflict_parts_of \<Rightarrow> conflict_attempt \<Rightarrow> string \<Rightarrow> conflict_request" where
  "attempt_error cw a detail =
     conflict_error_request cw (at_claim a) (at_checkpoint a) (Some (at_prepared a)) (Some (at_profile a)) detail"

definition NO_RUNNER :: "string \<Rightarrow> string" where
  "NO_RUNNER which = ''No command runner is configured for conflict attempts; the '' @ which @ '' ''
     @ ''branch was not verified, so the remote branch is left untouched.''"

text \<open>After a green check: the branch is to be pushed, and what was added on top is reported.\<close>

primrec files_of_revisions :: "string list \<Rightarrow> string list conflict_prog" where
  "files_of_revisions [] = Return []"
| "files_of_revisions (r # rs) =
     bind (ask (Changed_files r) (answered (\<lambda>x. case x of Names_are fs \<Rightarrow> Some fs | _ \<Rightarrow> None))) (\<lambda>fs.
     bind (files_of_revisions rs) (\<lambda>more. Return (fs @ more)))"

definition resolution_verified ::
  "conflict_parts_of \<Rightarrow> conflict_attempt \<Rightarrow> string list \<Rightarrow> command_result \<Rightarrow> conflict_request conflict_prog" where
  "resolution_verified cw a fixes check =
     bind (enter_phase PUSHING (at_number a)) (\<lambda>_.
     bind (files_of_revisions fixes) (\<lambda>fix_files.
     let extra = files_outside_conflict fix_files (at_conflicted a) in
     bind (event ''conflict_resolution_verified''
         (''branch='' @ at_branch a @ ''; fix_commits=''
          @ (let shown = py_join '', '' (map short_revision fixes) in if shown = [] then ''none'' else shown) @ files_note ''extra_files'' extra) ''INFO'' (at_number a)) (\<lambda>_.
     Return ((build_conflict_request cw (at_claim a) (at_checkpoint a) (at_branch a) (at_base a) (at_pull a) CONFLICT_SUCCESS []
        (model_success_details (at_branch a) (at_base a) (at_conflicted a) extra fixes None) True)
        \<lparr>cq_check := passed_check (at_profile a) check, cq_conflicted_files := at_conflicted a, cq_extra_files := extra,
         cq_fix_commits := fixes\<rparr>))))"

definition verify_resolution ::
  "conflict_parts_of \<Rightarrow> conflict_attempt \<Rightarrow> string list \<Rightarrow> conflict_request conflict_prog" where
  "verify_resolution cw a fixes =
     (let pf = at_profile a; n = at_number a in
      if \<not> cw_runner cw then Return (attempt_error cw a (NO_RUNNER ''resolved''))
      else bind (run_profile (pf_setup pf) (pf_setup_timeout pf) pf) (\<lambda>setup.
        if \<not> cr_succeeded setup then
          bind (event ''conflict_setup_failed'' (setup_failed_details setup) ''WARNING'' n) (\<lambda>_.
          Return (not_resolved cw a CONFLICT_SETUP_FAILED (setup_failed_details setup)))
        else bind (run_profile (pf_check pf) (pf_timeout pf) pf) (\<lambda>check.
          if \<not> cr_succeeded check then
            bind (event ''conflict_check_failed'' (check_failed_details check) ''WARNING'' n) (\<lambda>_.
            Return ((not_resolved cw a CONFLICT_CHECK_FAILED (check_failed_details check))
              \<lparr>cq_check := failed_check pf check, cq_failure_output := failure_output_tail check\<rparr>))
          else resolution_verified cw a fixes check)))"

text \<open>After the model: the work is sealed, and the history below the fixes must be the one that was there before.\<close>

definition judge_history :: "conflict_parts_of \<Rightarrow> conflict_attempt \<Rightarrow> string list \<Rightarrow> conflict_request conflict_prog" where
  "judge_history cw a before =
     bind (attempted (commanded (Seal_work (at_number a) (ck_started_at (at_checkpoint a)) MODEL_SUCCEEDED))) (\<lambda>sealed.
     case sealed of
       Inl e \<Rightarrow> Return (attempt_error cw a (''Failed to seal conflict resolution work: '' @ failure_line e))
     | Inr u \<Rightarrow>
         bind (attempted (commits_of (at_prepared a))) (\<lambda>found.
         case found of
           Inl e \<Rightarrow> Return (attempt_error cw a
             (''Could not read the pull request's commits after model resolution: '' @ failure_line e))
         | Inr commits \<Rightarrow>
             (let after = map ac_subject (rev commits)
              in case fix_commit_count before after of
                   None \<Rightarrow> Return (not_resolved cw a CONFLICT_RESOLUTION_FAILED
                     (commit_count_changed_details (at_branch a) (at_base a) (int (length before)) (int (length after))))
                 | Some fix_count \<Rightarrow> verify_resolution cw a (map ac_revision (take fix_count commits)))))"

definition given_up :: "conflict_parts_of \<Rightarrow> conflict_attempt \<Rightarrow> model_status \<Rightarrow> conflict_request \<Rightarrow> conflict_request conflict_prog" where
  "given_up cw a status rq =
     bind (abort_best_effort (at_prepared a) (at_number a)) (\<lambda>_.
     bind (seal_best_effort (at_number a) (ck_started_at (at_checkpoint a)) status) (\<lambda>_. Return rq))"

definition judge_session :: "conflict_parts_of \<Rightarrow> conflict_attempt \<Rightarrow> string list \<Rightarrow> model_status \<Rightarrow> conflict_request conflict_prog" where
  "judge_session cw a before status =
     (if status = MODEL_LIMIT_REACHED then
        given_up cw a status (not_resolved cw a CONFLICT_MODEL_LIMIT (model_limit_details (at_branch a) (at_base a) (at_conflicted a)))
      else if status \<noteq> MODEL_SUCCEEDED then
        given_up cw a status (not_resolved cw a CONFLICT_ERROR (model_error_details (at_branch a) (at_base a)
          (''the model session ended with status `'' @ status_value status @ ''` instead of '' @ ''resolving the conflict. '')))
      else bind snapshot (\<lambda>post.
        if cs_resolution_problems post \<noteq> [] then
          (let remaining = (if cs_conflicted_files post \<noteq> [] then cs_conflicted_files post else at_conflicted a) in
           bind (event ''conflict_model_unresolved'' (py_join ''; '' (cs_resolution_problems post)) ''WARNING'' (at_number a)) (\<lambda>_.
           given_up cw a status ((not_pushed cw a CONFLICT_REBASE
             (model_unresolved_details (at_branch a) (at_base a) remaining (at_check_output a \<noteq> None)))\<lparr>cq_conflicted_files := remaining\<rparr>)))
        else judge_history cw a before))"

definition resolution_prompt :: "conflict_parts_of \<Rightarrow> conflict_attempt \<Rightarrow> string conflict_prog" where
  "resolution_prompt cw a =
     bind (if cw_reads_comments cw
        then ask (Issue_comments (cl_issue (at_claim a))) (answered (\<lambda>r. case r of Names_are cs \<Rightarrow> Some cs | _ \<Rightarrow> None))
        else Return []) (\<lambda>comments.
     bind (ask (Base_changes (at_base a) (at_conflicted a)) (answered (\<lambda>r. case r of Text_is t \<Rightarrow> Some t | _ \<Rightarrow> None))) (\<lambda>changes.
     Return (build_resolution_prompt (ti_body (cl_issue (at_claim a))) comments (at_conflicted a) changes (at_check_output a)
       (gate_section (at_profile a) (cw_redactions cw) False))))"

text \<open>The rebase conflict comes straight from the setup; after a red check the attempt already is with the model.\<close>

definition enter_model_phase :: "conflict_attempt \<Rightarrow> unit conflict_prog" where
  "enter_model_phase a =
     bind (attempted (ask Read_checkpoint (answered (\<lambda>r. case r of Checkpoint_is c \<Rightarrow> Some c | _ \<Rightarrow> None)))) (\<lambda>current.
     case current of
       Inr (Some c) \<Rightarrow> if ck_phase c = SETUP then enter_phase MODEL_RUNNING (at_number a) else Return ()
     | _ \<Rightarrow> Return ())"

definition run_session :: "conflict_parts_of \<Rightarrow> conflict_attempt \<Rightarrow> string list \<Rightarrow> conflict_request conflict_prog" where
  "run_session cw a before =
     bind (enter_model_phase a) (\<lambda>_.
     bind (resolution_prompt cw a) (\<lambda>prompt.
     bind (event ''conflict_model_started'' (''branch='' @ at_branch a @ ''; base_branch='' @ at_base a @ files_note ''files'' (at_conflicted a)
        @ (if at_check_output a \<noteq> None then ''; after_check=true'' else [])) ''INFO'' (at_number a)) (\<lambda>_.
     bind (ask (Open_archive (at_number a) (ck_started_at (at_checkpoint a))) (answered (\<lambda>r. case r of Archive_is b \<Rightarrow> Some b | _ \<Rightarrow> None))) (\<lambda>archived.
     bind (attempted (ask (Run_model prompt (at_number a) (ck_started_at (at_checkpoint a)) (at_branch a) (pa_base_revision (at_prepared a)))
         (answered (\<lambda>r. case r of Model_ended st \<Rightarrow> Some st | _ \<Rightarrow> None)))) (\<lambda>ended.
     case ended of
       Inl e \<Rightarrow>
         (let detail = ''The conflict resolution session could not finish: '' @ failure_line e in
          bind (event ''conflict_model_failed'' detail ''ERROR'' (at_number a)) (\<lambda>_.
          given_up cw a MODEL_INFRASTRUCTURE_ERROR
            (not_resolved cw a CONFLICT_ERROR (model_error_details (at_branch a) (at_base a) (detail @ '' '')))))
     | Inr status \<Rightarrow>
         bind (archive_model_result archived (at_number a)) (\<lambda>_.
         bind (event ''conflict_model_finished'' (''status='' @ status_value status)
           (if status = MODEL_SUCCEEDED then ''INFO'' else ''WARNING'') (at_number a)) (\<lambda>_.
         judge_session cw a before status)))))))"

definition resolve_conflict_with_model :: "conflict_parts_of \<Rightarrow> conflict_attempt \<Rightarrow> conflict_request conflict_prog" where
  "resolve_conflict_with_model cw a =
     bind (attempted (commits_of (at_prepared a))) (\<lambda>found.
     case found of
       Inl e \<Rightarrow> Return (attempt_error cw a
         (''Could not read the pull request's commits before model resolution: '' @ failure_line e))
     | Inr commits \<Rightarrow>
         if \<not> cw_executor cw then Return (attempt_error cw a
           (''No model executor is configured for conflict resolution; the remote '' @ ''branch is left untouched so the pull request stays `CONFLICTING`.''))
         else run_session cw a (map ac_subject (rev commits)))"


section \<open>The attempt\<close>

type_synonym conflict_end = "conflict_request \<times> prepared_attempt option \<times> repository_profile option"

definition skipped ::
  "conflict_parts_of \<Rightarrow> claim \<Rightarrow> checkpoint \<Rightarrow> string \<Rightarrow> string \<Rightarrow> pull_request option \<Rightarrow> string \<times> string \<Rightarrow> conflict_request conflict_prog" where
  "skipped cw cl c branch base pull why =
     bind (event ''conflict_attempt_skipped'' (fst why @ '': '' @ snd why) ''INFO'' (ti_number (cl_issue cl))) (\<lambda>_.
     Return (build_conflict_request cw cl c branch base pull CONFLICT_SKIPPED (fst why) (snd why) False))"

text \<open>No conflict: setup and one check; only a green check lets the rebased branch be pushed.\<close>

definition fast_path :: "conflict_parts_of \<Rightarrow> conflict_attempt \<Rightarrow> conflict_request conflict_prog" where
  "fast_path cw a =
     (let pf = at_profile a; n = at_number a in
      if \<not> cw_runner cw then
        bind (event ''conflict_attempt_error'' (NO_RUNNER ''rebased'') ''ERROR'' n) (\<lambda>_.
        Return (attempt_error cw a (NO_RUNNER ''rebased'')))
      else bind (run_profile (pf_setup pf) (pf_setup_timeout pf) pf) (\<lambda>setup.
        if \<not> cr_succeeded setup then
          bind (event ''conflict_setup_failed'' (setup_failed_details setup) ''WARNING'' n) (\<lambda>_.
          Return (not_pushed cw a CONFLICT_SETUP_FAILED (setup_failed_details setup)))
        else bind (enter_phase MODEL_RUNNING n) (\<lambda>_.
          bind (run_profile (pf_check pf) (pf_timeout pf) pf) (\<lambda>check.
          if \<not> cr_succeeded check then
            bind (event ''conflict_check_failed'' (check_failed_details check) ''WARNING'' n) (\<lambda>_.
            resolve_conflict_with_model cw (a\<lparr>at_conflicted := [], at_check_output := Some (format_check_output check)\<rparr>))
          else bind (enter_phase PUSHING n) (\<lambda>_.
            Return ((build_conflict_request cw (at_claim a) (at_checkpoint a) (at_branch a) (at_base a) (at_pull a) CONFLICT_SUCCESS []
              (success_details (at_branch a) (at_base a) None) True)\<lparr>cq_check := passed_check pf check\<rparr>))))))"

definition bring_up_to_date ::
  "conflict_parts_of \<Rightarrow> claim \<Rightarrow> checkpoint \<Rightarrow> pull_request option \<Rightarrow> repository_profile \<Rightarrow> conflict_end conflict_prog" where
  "bring_up_to_date cw cl c pull pf =
     (let n = ti_number (cl_issue cl) in
      bind (enter_phase SETUP n) (\<lambda>_.
      bind (ask (Prepare_branch (pf_base_branch pf) n) (answered (\<lambda>r. case r of Prepared_is p \<Rightarrow> Some p | _ \<Rightarrow> None))) (\<lambda>p.
      bind (record_lease p n) (\<lambda>_.
      bind (event ''workspace_prepared'' (''branch='' @ pa_branch p @ ''; base_branch='' @ pf_base_branch pf) ''INFO'' n) (\<lambda>_.
      bind snapshot (\<lambda>state.
      let conflicted = (if cs_conflicted_files state \<noteq> [] then cs_conflicted_files state else pa_rebase_conflicts p);
          a = \<lparr>at_claim = cl, at_checkpoint = c, at_prepared = p, at_profile = pf, at_pull = pull,
               at_conflicted = conflicted, at_check_output = None\<rparr>
      in bind (if cs_in_progress state \<or> pa_rebase_conflicts p \<noteq> []
           then bind (event ''conflict_rebase_conflict''
               (''branch='' @ pa_branch p @ ''; base_branch='' @ pf_base_branch pf @ files_note ''files'' conflicted) ''WARNING'' n) (\<lambda>_.
             resolve_conflict_with_model cw a)
           else fast_path cw a)
         (\<lambda>rq. Return (rq, Some p, Some pf))))))))"

definition execute_conflict_attempt :: "conflict_parts_of \<Rightarrow> claim \<Rightarrow> checkpoint \<Rightarrow> conflict_end conflict_prog" where
  "execute_conflict_attempt cw cl c =
     (let n = ti_number (cl_issue cl); branch = conflict_branch n; recorded = ck_claim_lease_recorded c in
      bind (ask (Look_up_pull branch) (answered (\<lambda>r. case r of Pull_is p \<Rightarrow> Some p | _ \<Rightarrow> None))) (\<lambda>pull.
      case entry_skip_reason pull branch (if recorded then ck_claim_branch_revision c else None) recorded of
        Some why \<Rightarrow> bind (skipped cw cl c branch ''main'' pull why) (\<lambda>rq. Return (rq, None, None))
      | None \<Rightarrow>
          bind (commanded (Prepare_profile_read ''main'')) (\<lambda>_.
          bind (event ''workspace_prepared_for_profile_read'' ''base_branch=main'' ''INFO'' n) (\<lambda>_.
          bind (ask Load_profile (answered (\<lambda>r. case r of Profile_is pf \<Rightarrow> Some pf | _ \<Rightarrow> None))) (\<lambda>pf.
          bind (event ''profile_loaded'' (''base_branch='' @ pf_base_branch pf) ''INFO'' n) (\<lambda>_.
          case (case pull of Some p \<Rightarrow> base_mismatch_reason p (pf_base_branch pf) | None \<Rightarrow> None) of
            Some why \<Rightarrow> bind (skipped cw cl c branch (pf_base_branch pf) pull why) (\<lambda>rq. Return (rq, None, Some pf))
          | None \<Rightarrow> bring_up_to_date cw cl c pull pf))))))"


section \<open>The budget of failures\<close>

definition stamp_conflict_budget :: "conflict_parts_of \<Rightarrow> claim \<Rightarrow> conflict_request \<Rightarrow> conflict_request conflict_prog" where
  "stamp_conflict_budget cw cl rq =
     bind (ask (Failure_streak (cl_issue cl)) (answered (\<lambda>r. case r of Count_is k \<Rightarrow> Some k | _ \<Rightarrow> None))) (\<lambda>prior.
     bind (ask (Newest_result_sha (cl_issue cl)) (answered (\<lambda>r. case r of Maybe_text t \<Rightarrow> Some (nonempty t) | _ \<Rightarrow> None))) (\<lambda>prior_sha.
     let budget = cw_max_conflict_attempts cw;
         good = cq_conflict_outcome rq \<in> {CONFLICT_SUCCESS, CONFLICT_SKIPPED};
         index = (if good then 0 else prior + 1)
     in Return (rq\<lparr>cq_conflict_prior := prior, cq_conflict_index := index, cq_conflict_budget := budget,
          cq_escalate := (\<not> good \<and> 0 < budget \<and> budget \<le> index), cq_prior_conflict_sha := prior_sha\<rparr>)))"

text \<open>Only a posted comment hands the issue to a human; a label that fails is logged.\<close>

definition escalate_to_human :: "claim \<Rightarrow> publication_result \<Rightarrow> bool \<Rightarrow> unit conflict_prog" where
  "escalate_to_human cl published escalate =
     (if \<not> escalate \<or> \<not> rs_comment_posted published then Return ()
      else let n = ti_number (cl_issue cl) in
        handle (bind (commanded (Label_for_human (cl_issue cl))) (\<lambda>_.
          event ''conflict_escalated'' (''issue #'' @ str_of_int n @ ''; conflict attempts exhausted; '' @ ''labelled ready-for-human'') ''WARNING'' n))
        (\<lambda>e. event ''conflict_escalation_failed'' (failure_line e) ''WARNING'' n))"

end
