(* ===== verification/Conflict_Execution_Props.thy ===== *)
theory Conflict_Execution_Props
  imports Conflict_Execution Attempt_Props
begin

text \<open>
  What a conflict attempt guarantees whatever its parts answer: a branch is pushed only after a green check of a
  verified resolution, and the model is asked at most once.
\<close>

section \<open>What happened so far\<close>

text \<open>Command sequences and commit listings are kept newest first.\<close>

record conflict_trace =
  ct_ran :: "(string list \<times> bool) list"
  ct_state :: "conflict_state option"
  ct_commits :: "attempt_commit list list"
  ct_models :: nat

definition conflict_step :: "conflict_trace \<Rightarrow> conflict_call \<Rightarrow> conflict_answer \<Rightarrow> conflict_trace" where
  "conflict_step s q r = (case q of
     Run_commands cs t env \<Rightarrow> (case r of Ran x \<Rightarrow> s\<lparr>ct_ran := (cs, cr_succeeded x) # ct_ran s\<rparr> | _ \<Rightarrow> s)
   | Conflict_snapshot \<Rightarrow> (case r of State_is st \<Rightarrow> s\<lparr>ct_state := Some st\<rparr> | _ \<Rightarrow> s)
   | List_commits p \<Rightarrow> (case r of Commits_are cs \<Rightarrow> s\<lparr>ct_commits := cs # ct_commits s\<rparr> | _ \<Rightarrow> s)
   | Run_model prompt n attempt_id branch base \<Rightarrow> s\<lparr>ct_models := Suc (ct_models s)\<rparr>
   | _ \<Rightarrow> s)"

abbreviation traced :: "(conflict_trace \<Rightarrow> failure + 'a \<Rightarrow> bool) \<Rightarrow> 'a conflict_prog \<Rightarrow> conflict_trace \<Rightarrow> bool" where
  "traced \<equiv> follow (\<lambda>q r. True) conflict_step"

definition conflict_start :: conflict_trace where
  "conflict_start = \<lparr>ct_ran = [], ct_state = None, ct_commits = [], ct_models = 0\<rparr>"

text \<open>Calls that leave the trace as it is, and calls that are not the model.\<close>

definition quiet :: "conflict_call \<Rightarrow> bool" where
  "quiet q \<longleftrightarrow> (case q of
     Run_commands cs t env \<Rightarrow> False
   | Conflict_snapshot \<Rightarrow> False
   | List_commits p \<Rightarrow> False
   | Run_model prompt n attempt_id branch base \<Rightarrow> False
   | _ \<Rightarrow> True)"

definition modelless :: "conflict_call \<Rightarrow> bool" where
  "modelless q \<longleftrightarrow> (case q of Run_model prompt n attempt_id branch base \<Rightarrow> False | _ \<Rightarrow> True)"

lemma quiet_step: "quiet q \<Longrightarrow> conflict_step s q r = s"
  by (simp add: quiet_def conflict_step_def split: conflict_call.splits)

lemma modelless_step: "modelless q \<Longrightarrow> ct_models (conflict_step s q r) = ct_models s"
  by (simp add: modelless_def conflict_step_def split: conflict_call.splits conflict_answer.splits)

lemma quiet_bind:
  assumes "calls quiet m" "\<And>e. Q s (Inl e)" "\<And>x. traced Q (f x) s"
  shows "traced Q (bind m f) s"
  by (rule follow_bindI [OF follow_calls [where I = "\<lambda>t. t = s", OF assms(1)]]) (auto simp: quiet_step assms(2,3))

lemma modelless_bind:
  assumes "calls modelless m" "\<And>t e. ct_models t = ct_models s \<Longrightarrow> Q t (Inl e)"
    and "\<And>t x. ct_models t = ct_models s \<Longrightarrow> traced Q (f x) t"
  shows "traced Q (bind m f) s"
  by (rule follow_bindI [OF follow_calls [where I = "\<lambda>t. ct_models t = ct_models s", OF assms(1)]])
     (auto simp: modelless_step assms(2,3))

lemma calls_commanded [calls_rules]: "P q \<Longrightarrow> calls P (commanded q)"
  by (simp add: commanded_def calls_rules)

lemma calls_event [calls_rules]: "P (Event a b c n) \<Longrightarrow> calls P (event a b c n)"
  by (simp add: event_def calls_rules)

lemma calls_attempted [calls_rules]: "calls P m \<Longrightarrow> calls P (attempted m)"
  by (simp add: attempted_def calls_rules)

lemma calls_enter [calls_rules]: "P (Move_to p) \<Longrightarrow> (\<And>b c. P (Event ''attempt_phase_transitioned'' b c n)) \<Longrightarrow> calls P (enter_phase p n)"
  by (simp add: enter_phase_def calls_rules)

lemma calls_let [calls_rules]: "calls P (f x) \<Longrightarrow> calls P (let y = x in f y)"
  by simp

lemma quiet_attempt_calls [simp]:
  "quiet (Event a b c n)" "quiet (Look_up_pull b)" "quiet (Prepare_profile_read b)" "quiet Load_profile" "quiet (Move_to p)"
  "quiet Read_checkpoint" "quiet (Prepare_branch b n)" "quiet (Save_lease v)" "quiet (Abort_rebase pa)" "quiet (Changed_files r)"
  "quiet (Issue_comments i)" "quiet (Base_changes b fs)" "quiet (Open_archive n a)" "quiet Write_usage" "quiet (Copy_transcripts n)"
  "quiet (Seal_work n a st)"
  by (simp_all add: quiet_def)

lemma modelless_calls [simp]: "modelless Conflict_snapshot" "quiet q \<Longrightarrow> modelless q"
  by (simp_all add: quiet_def modelless_def split: conflict_call.splits)

lemma quiet_parts:
  "calls quiet (record_lease p n)"
  "calls quiet (seal_best_effort n a st)"
  "calls quiet (archive_model_result b n)"
  "calls quiet (resolution_prompt cw a')"
  "calls quiet (enter_model_phase a')"
  "calls quiet (files_of_revisions rs)"
  subgoal unfolding record_lease_def by (intro calls_rules quiet_attempt_calls)
  subgoal unfolding seal_best_effort_def by (intro calls_rules quiet_attempt_calls)
  subgoal unfolding archive_model_result_def by (intro calls_rules quiet_attempt_calls)
  subgoal unfolding resolution_prompt_def by (intro calls_rules quiet_attempt_calls)
  subgoal unfolding enter_model_phase_def by (intro calls_rules quiet_attempt_calls)
  subgoal by (induction rs) (auto intro!: calls_rules)
  done

lemma modelless_abort: "calls modelless (abort_best_effort p n)"
  unfolding abort_best_effort_def snapshot_def by (intro calls_rules) auto


section \<open>Verdicts\<close>

text \<open>
  What a push needs: the profile's setup and check ran last and both succeeded; without the model the tree was free
  of conflicts, with it the last look found no problem, and the commits from before are all there below the fixes.
\<close>

definition history_kept :: "conflict_trace \<Rightarrow> string list \<Rightarrow> bool" where
  "history_kept s fixes = (case ct_commits s of
     after # before # rest \<Rightarrow>
       (let k = length fixes in fixes = map ac_revision (take k after) \<and> map ac_subject (drop k after) = map ac_subject before)
   | _ \<Rightarrow> False)"

definition push_verified :: "conflict_trace \<Rightarrow> repository_profile \<Rightarrow> conflict_request \<Rightarrow> bool" where
  "push_verified s pf rq \<longleftrightarrow>
     cq_conflict_outcome rq = CONFLICT_SUCCESS
     \<and> take 2 (ct_ran s) = [(pf_check pf, True), (pf_setup pf, True)]
     \<and> (case ct_state s of
          None \<Rightarrow> False
        | Some st \<Rightarrow> if ct_models s = 0 then \<not> cs_in_progress st
            else cs_resolution_problems st = [] \<and> history_kept s (cq_fix_commits rq))"

definition request_ok :: "repository_profile \<Rightarrow> conflict_trace \<Rightarrow> failure + conflict_request \<Rightarrow> bool" where
  "request_ok pf s y \<longleftrightarrow> ct_models s \<le> 1 \<and> (case y of
     Inl e \<Rightarrow> True
   | Inr rq \<Rightarrow> if cq_push_branch rq then push_verified s pf rq else cq_outcome rq \<noteq> COMPLETE)"

lemma request_ok_Inl [simp]: "request_ok pf s (Inl e) \<longleftrightarrow> ct_models s \<le> 1"
  by (simp add: request_ok_def)

definition held_back :: "conflict_request \<Rightarrow> bool" where
  "held_back rq \<longleftrightarrow> \<not> cq_push_branch rq \<and> cq_outcome rq \<noteq> COMPLETE"

lemma held_back_ok: "held_back rq \<Longrightarrow> ct_models s \<le> 1 \<Longrightarrow> request_ok pf s (Inr rq)"
  by (simp add: held_back_def request_ok_def)

lemma held_back_simps [simp]:
  "held_back (attempt_error cw a d)"
  "oc \<noteq> CONFLICT_SUCCESS \<Longrightarrow> held_back (not_pushed cw a oc d)"
  "oc \<noteq> CONFLICT_SUCCESS \<Longrightarrow> held_back (not_resolved cw a oc d)"
  "held_back (rq\<lparr>cq_conflicted_files := fs\<rparr>) = held_back rq"
  "held_back (rq\<lparr>cq_check := ck, cq_failure_output := t\<rparr>) = held_back rq"
  by (auto simp: held_back_def attempt_error_def conflict_error_request_def build_conflict_request_def lifecycle_outcome_def
        not_pushed_def not_resolved_def)

lemma logged_held_back:
  "held_back rq \<Longrightarrow> ct_models s \<le> 1 \<Longrightarrow> traced (request_ok pf) (bind (event a b c n) (\<lambda>_. Return rq)) s"
  by (rule quiet_bind) (auto intro!: calls_rules held_back_ok)

lemma given_up_ok: "held_back rq \<Longrightarrow> ct_models s \<le> 1 \<Longrightarrow> traced (request_ok pf) (given_up cw a st rq) s"
  unfolding given_up_def
  by (rule modelless_bind [OF modelless_abort]; (rule modelless_bind [OF every_mono [OF quiet_parts(2)]])?)
     (auto intro: held_back_ok)


section \<open>The session\<close>

lemma run_profile_traced:
  assumes "\<And>e. Q s (Inl e)" "\<And>x. traced Q (f x) (s\<lparr>ct_ran := (cs, cr_succeeded x) # ct_ran s\<rparr>)"
  shows "traced Q (bind (run_profile cs t pf) f) s"
proof -
  have "case answered (\<lambda>r. case r of Ran x \<Rightarrow> Some x | _ \<Rightarrow> None) r of
      Inl e \<Rightarrow> Q (conflict_step s (Run_commands cs t (pf_env pf)) r) (Inl e)
    | Inr x \<Rightarrow> traced Q (f x) (conflict_step s (Run_commands cs t (pf_env pf)) r)" for r
    by (cases r) (simp_all add: answered_def conflict_step_def assms)
  then show ?thesis unfolding run_profile_def follow_bind follow_ask by simp
qed

lemma snapshot_traced:
  assumes "\<And>e. Q s (Inl e)" "\<And>x. traced Q (f x) (s\<lparr>ct_state := Some x\<rparr>)"
  shows "traced Q (bind snapshot f) s"
proof -
  have "case answered (\<lambda>r. case r of State_is x \<Rightarrow> Some x | _ \<Rightarrow> None) r of
      Inl e \<Rightarrow> Q (conflict_step s Conflict_snapshot r) (Inl e)
    | Inr x \<Rightarrow> traced Q (f x) (conflict_step s Conflict_snapshot r)" for r
    by (cases r) (simp_all add: answered_def conflict_step_def assms)
  then show ?thesis unfolding snapshot_def follow_bind follow_ask by simp
qed

lemma commits_traced:
  assumes "\<And>e. traced Q (f (Inl e)) s" "\<And>x. traced Q (f (Inr x)) (s\<lparr>ct_commits := x # ct_commits s\<rparr>)"
  shows "traced Q (bind (attempted (commits_of p)) f) s"
proof -
  have "case answered (\<lambda>r. case r of Commits_are x \<Rightarrow> Some x | _ \<Rightarrow> None) r of
      Inl e \<Rightarrow> traced Q (f (Inl e)) (conflict_step s (List_commits p) r)
    | Inr x \<Rightarrow> traced Q (f (Inr x)) (conflict_step s (List_commits p) r)" for r
    by (cases r) (simp_all add: answered_def conflict_step_def assms)
  then show ?thesis unfolding commits_of_def attempted_def follow_bind follow_handle follow_ask
    by (simp add: sum.case_distrib [where h = "\<lambda>z. case z of Inl e \<Rightarrow> _ e | Inr x \<Rightarrow> _ x"] cong: sum.case_cong split: sum.splits)
qed

lemma model_traced:
  assumes "\<And>y. traced Q (f y) (s\<lparr>ct_models := Suc (ct_models s)\<rparr>)"
  shows "traced Q (bind (attempted (ask (Run_model p n a b c) dec)) f) s"
  unfolding attempted_def follow_bind follow_handle follow_ask
  using assms by (auto simp: conflict_step_def split: sum.split)

lemma verified_ok:
  assumes "ct_models s = 1" "ct_ran s = (pf_check (at_profile a), True) # (pf_setup (at_profile a), True) # rest"
    "ct_state s = Some st" "cs_resolution_problems st = []" "history_kept s fixes"
  shows "traced (request_ok (at_profile a)) (resolution_verified cw a fixes check) s"
  unfolding resolution_verified_def Let_def
  by (intro quiet_bind; (intro calls_rules quiet_attempt_calls quiet_parts)?)
     (use assms in \<open>simp_all add: request_ok_def push_verified_def build_conflict_request_def\<close>)

lemma verify_ok:
  assumes "ct_models s = 1" "ct_state s = Some st" "cs_resolution_problems st = []" "history_kept s fixes"
  shows "traced (request_ok (at_profile a)) (verify_resolution cw a fixes) s"
  unfolding verify_resolution_def Let_def
  by (intro follow_if run_profile_traced verified_ok logged_held_back; (rule assms)?)
     (use assms in \<open>auto simp: history_kept_def intro!: held_back_ok verified_ok\<close>)

lemma fix_commit_count_kept:
  assumes "fix_commit_count (map ac_subject (rev before)) (map ac_subject (rev after)) = Some k"
  shows "k \<le> length after \<and> map ac_subject (drop k after) = map ac_subject before"
proof -
  let ?b = "map ac_subject (rev before)" and ?a = "map ac_subject (rev after)"
  have len: "length before \<le> length after" and eq: "take (length before) ?a = ?b" and k: "k = length after - length before"
    using assms by (auto simp: fix_commit_count_def split: if_splits)
  have "rev (take (length before) ?a) = rev ?b" using eq by simp
  then have "drop (length after - length before) (map ac_subject after) = map ac_subject before"
    by (simp add: rev_take rev_map [symmetric])
  then show ?thesis using k by (simp add: drop_map)
qed

lemma history_ok:
  assumes "ct_models s = 1" "ct_state s = Some st" "cs_resolution_problems st = []" "ct_commits s = before # rest"
  shows "traced (request_ok (at_profile a)) (judge_history cw a (map ac_subject (rev before))) s"
  unfolding judge_history_def Let_def
proof (rule quiet_bind)
  fix sealed :: "failure + unit"
  show "traced (request_ok (at_profile a)) (case sealed of
       Inl e \<Rightarrow> Return (attempt_error cw a (''Failed to seal conflict resolution work: '' @ failure_line e))
     | Inr u \<Rightarrow>
         bind (attempted (commits_of (at_prepared a))) (\<lambda>found.
         case found of
           Inl e \<Rightarrow> Return (attempt_error cw a
             (''Could not read the pull request's commits after model resolution: '' @ failure_line e))
         | Inr commits \<Rightarrow>
             (case fix_commit_count (map ac_subject (rev before)) (map ac_subject (rev commits)) of
                   None \<Rightarrow> Return (not_resolved cw a CONFLICT_RESOLUTION_FAILED
                     (commit_count_changed_details (at_branch a) (at_base a) (int (length (map ac_subject (rev before)))) (int (length (map ac_subject (rev commits))))))
                 | Some fix_count \<Rightarrow> verify_resolution cw a (map ac_revision (take fix_count commits))))) s"
  proof (cases sealed)
    case (Inr u)
    then show ?thesis
      using assms
      by (auto intro!: commits_traced held_back_ok verify_ok [where st = st] split: option.split
          dest!: fix_commit_count_kept simp: history_kept_def min_def simp del: follow_bind)
  qed (use assms in \<open>auto intro!: held_back_ok\<close>)
qed (use assms in \<open>auto intro!: calls_rules\<close>)

lemma session_judged:
  assumes "ct_models s = 1" "ct_commits s = before # rest"
  shows "traced (request_ok (at_profile a)) (judge_session cw a (map ac_subject (rev before)) status) s"
  unfolding judge_session_def Let_def
  using assms
  by (intro follow_if given_up_ok snapshot_traced quiet_bind history_ok calls_rules; simp)


lemma ended_ok:
  assumes "ct_models s = 1" "ct_commits s = before # rest"
  shows "traced (request_ok (at_profile a)) (case ended of
       Inl e \<Rightarrow>
         (let detail = ''The conflict resolution session could not finish: '' @ failure_line e in
          bind (event ''conflict_model_failed'' detail ''ERROR'' (at_number a)) (\<lambda>_.
          given_up cw a MODEL_INFRASTRUCTURE_ERROR
            (not_resolved cw a CONFLICT_ERROR (model_error_details (at_branch a) (at_base a) (detail @ '' '')))))
     | Inr status \<Rightarrow>
         bind (archive_model_result archived (at_number a)) (\<lambda>_.
         bind (event ''conflict_model_finished'' (''status='' @ status_value status)
           (if status = MODEL_SUCCEEDED then ''INFO'' else ''WARNING'') (at_number a)) (\<lambda>_.
         judge_session cw a (map ac_subject (rev before)) status))) s"
proof (cases ended)
  case (Inl e)
  show ?thesis unfolding Inl sum.case Let_def
    using assms by (intro quiet_bind given_up_ok calls_rules) auto
next
  case (Inr status)
  show ?thesis unfolding Inr sum.case
    using assms by (intro quiet_bind quiet_parts calls_rules session_judged) auto
qed

lemma session_ok:
  assumes "ct_models s = 0" "ct_commits s = before # rest"
  shows "traced (request_ok (at_profile a)) (run_session cw a (map ac_subject (rev before))) s"
  unfolding run_session_def
  by (intro quiet_bind quiet_parts calls_rules model_traced ended_ok) (use assms in auto)

lemma resolved_ok: "ct_models s = 0 \<Longrightarrow> traced (request_ok (at_profile a)) (resolve_conflict_with_model cw a) s"
  unfolding resolve_conflict_with_model_def
proof (rule commits_traced)
  assume m: "ct_models s = 0"
  show "traced (request_ok (at_profile a)) (case Inl e of
       Inl e \<Rightarrow> Return (attempt_error cw a
         (''Could not read the pull request's commits before model resolution: '' @ failure_line e))
     | Inr commits \<Rightarrow>
         if \<not> cw_executor cw then Return (attempt_error cw a
           (''No model executor is configured for conflict resolution; the remote '' @ ''branch is left untouched so the pull request stays `CONFLICTING`.''))
         else run_session cw a (map ac_subject (rev commits))) s" for e
    using m by (auto intro: held_back_ok)
  show "traced (request_ok (at_profile a)) (case Inr x of
       Inl e \<Rightarrow> Return (attempt_error cw a
         (''Could not read the pull request's commits before model resolution: '' @ failure_line e))
     | Inr commits \<Rightarrow>
         if \<not> cw_executor cw then Return (attempt_error cw a
           (''No model executor is configured for conflict resolution; the remote '' @ ''branch is left untouched so the pull request stays `CONFLICTING`.''))
         else run_session cw a (map ac_subject (rev commits))) (s\<lparr>ct_commits := x # ct_commits s\<rparr>)" for x
    using m by (auto intro!: held_back_ok session_ok)
qed

lemma resolved_same: "ct_models s = 0 \<Longrightarrow> at_profile a' = at_profile a \<Longrightarrow> traced (request_ok (at_profile a)) (resolve_conflict_with_model cw a') s"
  using resolved_ok [where a = a'] by simp

lemma fast_path_ok:
  assumes "ct_models s = 0" "ct_state s = Some st" "\<not> cs_in_progress st"
  shows "traced (request_ok (at_profile a)) (fast_path cw a) s"
  unfolding fast_path_def Let_def
  by (intro follow_if run_profile_traced logged_held_back quiet_bind calls_rules resolved_same quiet_attempt_calls)
     (use assms in \<open>simp_all add: request_ok_def push_verified_def build_conflict_request_def\<close>)


section \<open>The whole attempt\<close>

definition conflict_verdict :: "conflict_trace \<Rightarrow> failure + conflict_end \<Rightarrow> bool" where
  "conflict_verdict s y \<longleftrightarrow> ct_models s \<le> 1 \<and> (case y of
     Inl e \<Rightarrow> True
   | Inr (rq, prepared, pf) \<Rightarrow>
       if cq_push_branch rq then (case pf of None \<Rightarrow> False | Some pf \<Rightarrow> push_verified s pf rq) else cq_outcome rq \<noteq> COMPLETE)"

lemma verdict_Inl [simp]: "conflict_verdict s (Inl e) \<longleftrightarrow> ct_models s \<le> 1"
  by (simp add: conflict_verdict_def)

lemma request_verdict:
  assumes "traced (request_ok pf) m s"
  shows "traced conflict_verdict (bind m (\<lambda>rq. Return (rq, p, Some pf))) s"
  using assms unfolding follow_bind
  by (rule follow_mono) (auto simp: conflict_verdict_def request_ok_def split: sum.split)

lemma up_to_date_ok:
  assumes "ct_models s = 0"
  shows "traced conflict_verdict (bring_up_to_date cw cl c pull pf) s"
proof -
  let ?a = "\<lambda>p st. \<lparr>at_claim = cl, at_checkpoint = c, at_prepared = p, at_profile = pf, at_pull = pull,
       at_conflicted = (if cs_conflicted_files st \<noteq> [] then cs_conflicted_files st else pa_rebase_conflicts p), at_check_output = None\<rparr>"
  have fast: "traced (request_ok pf) (fast_path cw (?a p st)) t"
    if "ct_models t = 0" "ct_state t = Some st" "\<not> cs_in_progress st" for p st t
    using fast_path_ok [OF that, of "?a p st" cw] by simp
  have slow: "traced (request_ok pf) (resolve_conflict_with_model cw (?a p st)) t" if "ct_models t = 0" for p st t
    using resolved_ok [OF that, of "?a p st" cw] by simp
  show ?thesis unfolding bring_up_to_date_def Let_def
    by (intro quiet_bind snapshot_traced request_verdict calls_rules quiet_attempt_calls quiet_parts follow_if fast slow) (use assms in auto)
qed

lemma skipped_ok: "ct_models s = 0 \<Longrightarrow> traced conflict_verdict (bind (skipped cw cl c b base pull why) (\<lambda>rq. Return (rq, p, pf))) s"
  unfolding skipped_def bind_assoc
  by (rule quiet_bind)
     (auto intro!: calls_rules simp: conflict_verdict_def build_conflict_request_def lifecycle_outcome_def)

text \<open>
  C24. Whatever the workspace, the model and the commands answer: a conflict attempt asks the model at most once, and
  its request has the branch pushed only when the last two commands of the attempt were the profile's setup and
  check, both successful, and either there was no conflict or the model's resolution was verified, with every commit
  of the pull request kept below the fixes that are reported. Any other request does not count as complete.
\<close>

theorem conflict_push_verified: "traced conflict_verdict (execute_conflict_attempt cw cl c) conflict_start"
proof -
  have cases: "traced conflict_verdict (case x of Some why \<Rightarrow> f why | None \<Rightarrow> m) conflict_start"
    if "\<And>why. traced conflict_verdict (f why) conflict_start" "traced conflict_verdict m conflict_start"
    for x and f :: "string \<times> string \<Rightarrow> conflict_end conflict_prog" and m
    using that by (cases x) auto
  show ?thesis unfolding execute_conflict_attempt_def Let_def
    by (intro quiet_bind calls_rules quiet_attempt_calls cases skipped_ok up_to_date_ok) (simp_all add: conflict_start_def)
qed


section \<open>The stale head is never reported\<close>

text \<open>A request without a reason, and a request that has one only for a skipped attempt.\<close>

abbreviation gives :: "('a \<Rightarrow> bool) \<Rightarrow> 'a conflict_prog \<Rightarrow> bool" where
  "gives P m \<equiv> every (\<lambda>q. True) (\<lambda>y. case y of Inl e \<Rightarrow> True | Inr x \<Rightarrow> P x) m"

abbreviation unreasoned :: "conflict_request conflict_prog \<Rightarrow> bool" where
  "unreasoned \<equiv> gives (\<lambda>rq. cq_reason rq = [])"

lemma gives_bind: "(\<And>x. gives P (f x)) \<Longrightarrow> gives P (bind m f)"
  by (rule every_bindI [where R = "\<lambda>y. True"]) auto

lemma gives_then: "gives P m \<Longrightarrow> (\<And>x. P x \<Longrightarrow> gives R (f x)) \<Longrightarrow> gives R (bind m f)"
  by (rule every_bindI [where R = "\<lambda>y. case y of Inl e \<Rightarrow> True | Inr x \<Rightarrow> P x"]) auto

lemma gives_if: "(b \<Longrightarrow> gives P m) \<Longrightarrow> (\<not> b \<Longrightarrow> gives P n) \<Longrightarrow> gives P (if b then m else n)"
  by simp

lemma gives_option: "gives P m \<Longrightarrow> (\<And>y. gives P (f y)) \<Longrightarrow> gives P (case x of None \<Rightarrow> m | Some y \<Rightarrow> f y)"
  by (cases x) auto

lemma gives_sum: "(\<And>e. gives P (g e)) \<Longrightarrow> (\<And>y. gives P (f y)) \<Longrightarrow> gives P (case x of Inl e \<Rightarrow> g e | Inr y \<Rightarrow> f y)"
  by (cases x) auto

lemmas gives_rules = gives_if gives_option gives_sum gives_bind

lemma reason_simps [simp]:
  "cq_reason (attempt_error cw a d) = []" "cq_reason (not_pushed cw a oc d) = []" "cq_reason (not_resolved cw a oc d) = []"
  "cq_reason (build_conflict_request cw cl c b base pull oc r d push) = r"
  by (simp_all add: attempt_error_def conflict_error_request_def not_pushed_def not_resolved_def build_conflict_request_def)

lemma unreasoned_given_up: "cq_reason rq = [] \<Longrightarrow> unreasoned (given_up cw a st rq)"
  unfolding given_up_def by (intro gives_rules) simp

lemma unreasoned_resolution: "unreasoned (resolve_conflict_with_model cw a)"
  unfolding resolve_conflict_with_model_def run_session_def judge_session_def judge_history_def verify_resolution_def
    resolution_verified_def Let_def
  by (intro gives_rules unreasoned_given_up) simp_all

lemma unreasoned_fast_path: "unreasoned (fast_path cw a)"
  unfolding fast_path_def Let_def by (intro gives_rules unreasoned_resolution) simp_all

definition not_stale :: "conflict_end \<Rightarrow> bool" where
  "not_stale y \<longleftrightarrow> cq_reason (fst y) \<noteq> ''stale_head''"

lemma up_to_date_unreasoned: "gives not_stale (bring_up_to_date cw cl c pull pf)"
  unfolding bring_up_to_date_def Let_def
proof (rule gives_bind, rule gives_bind, rule gives_bind, rule gives_bind, rule gives_bind,
    rule gives_then [where P = "\<lambda>rq. cq_reason rq = []"])
  fix p and st :: conflict_state
  let ?a = "\<lparr>at_claim = cl, at_checkpoint = c, at_prepared = p, at_profile = pf, at_pull = pull,
    at_conflicted = (if cs_conflicted_files st \<noteq> [] then cs_conflicted_files st else pa_rebase_conflicts p), at_check_output = None\<rparr>"
  show "unreasoned (if cs_in_progress st \<or> pa_rebase_conflicts p \<noteq> []
     then bind (event ''conflict_rebase_conflict''
         (''branch='' @ pa_branch p @ ''; base_branch='' @ pf_base_branch pf
          @ files_note ''files'' (if cs_conflicted_files st \<noteq> [] then cs_conflicted_files st else pa_rebase_conflicts p))
         ''WARNING'' (ti_number (cl_issue cl))) (\<lambda>_. resolve_conflict_with_model cw ?a)
     else fast_path cw ?a)"
    by (intro gives_rules unreasoned_resolution unreasoned_fast_path)
qed (simp add: not_stale_def)

lemma entry_never_stale: "entry_skip_reason pull b revision False = Some why \<Longrightarrow> fst why \<noteq> ''stale_head''"
  by (auto simp: entry_skip_reason_def Let_def split: option.splits if_splits)

lemma mismatch_never_stale: "base_mismatch_reason p b = Some why \<Longrightarrow> fst why \<noteq> ''stale_head''"
  by (auto simp: base_mismatch_reason_def split: if_splits)

lemma started_without_lease: "start valid now rq s = (Inr c, t) \<Longrightarrow> \<not> ck_claim_lease_recorded c"
  by (auto simp: start_def seq_def ret_def guard_or_def throw_def next_timestamp_def Let_def split: sum.splits prod.splits if_splits option.splits)


text \<open>
  C25. An attempt that works with the checkpoint it was started with never reports a stale pull request head: the lease
  which that check compares is recorded only later, so the check has nothing to compare.
\<close>

theorem stale_head_never_reported:
  assumes "start valid_iso now rq s = (Inr c, t)"
  shows "gives not_stale (execute_conflict_attempt cw cl c)"
proof -
  have unrecorded: "\<not> ck_claim_lease_recorded c" by (rule started_without_lease [OF assms])
  have skip: "gives not_stale (bind (skipped cw cl c b base pull why) (\<lambda>rq. Return (rq, p, pf)))"
    if "fst why \<noteq> ''stale_head''" for b base pull why p pf
    unfolding skipped_def bind_assoc by (rule gives_bind) (simp add: not_stale_def that)
  have cases: "gives not_stale (case x of Some why \<Rightarrow> f why | None \<Rightarrow> m)"
    if "\<And>why. x = Some why \<Longrightarrow> gives not_stale (f why)" "gives not_stale m"
    for x and f :: "string \<times> string \<Rightarrow> conflict_end conflict_prog" and m
    using that by (cases x) auto
  show ?thesis unfolding execute_conflict_attempt_def Let_def
    by (intro gives_bind cases skip up_to_date_unreasoned)
       (use unrecorded in \<open>auto dest: entry_never_stale mismatch_never_stale split: option.splits\<close>)
qed


theorem stale_head_never_reported_witness: "\<forall>cw cl. gives not_stale (execute_conflict_attempt cw cl demo_checkpoint)"
proof -
  have "start (\<lambda>v. True) (Aware demo_instant) demo_request empty_attempt_store = (Inr demo_checkpoint, demo_store)"
    unfolding demo_store_eq unfolding demo_checkpoint_def
    by (simp add: start_def seq_def guard_or_def ret_def read_checkpoint_def empty_attempt_store_def
        demo_request_def not_blank_agent requeue_sources_def ATTEMPT_KINDS_def ATTEMPT_KIND_ORDINARY_def next_timestamp_def
        Let_def write_checkpoint_def on_file_def replace_file_def)
  then show ?thesis using stale_head_never_reported [of "\<lambda>v. True" "Aware demo_instant" demo_request empty_attempt_store] by blast
qed

end
