(* ===== verification/Handoff_Note.thy ===== *)
theory Handoff_Note
  imports Git_Workspace_Push
begin

text \<open>
  The handoff note (lifecycle.py): parsing its fields, the commits that carry it, and the decision whether the note is
  trustworthy enough to be published. \<open>datetime.fromisoformat\<close> is a parameter; git and the file system are called
  as in the workspace.
\<close>

section \<open>Fields\<close>

text \<open>\<open>^#\s*Handoff note:\s*issue #(\d+)\<close> at the start of a line.\<close>

definition title_issue :: "string \<Rightarrow> string option" where
  "title_issue line =
     (case lit ''#'' line of None \<Rightarrow> None
      | Some r \<Rightarrow> (case lit ''Handoff note:'' (py_lstrip r) of None \<Rightarrow> None
          | Some r \<Rightarrow> (case lit ''issue #'' (py_lstrip r) of None \<Rightarrow> None
              | Some r \<Rightarrow> (let d = takeWhile is_digit r in if d = [] then None else Some d))))"

text \<open>\<open>\s*(.+?)\s*$\<close>: the rest of the line without surrounding whitespace, or the last blank of a blank rest.\<close>

definition field_value :: "string \<Rightarrow> string option" where
  "field_value r = (if r = [] then None else if py_blank r then Some [last r] else Some (py_strip r))"

definition NOTE_KEYS :: "string list" where "NOTE_KEYS = [''issue'', ''started_at'', ''reason'', ''last_work_commit'']"

definition note_field :: "string \<Rightarrow> (string \<times> string) option" where
  "note_field line =
     (case lit ''-'' line of None \<Rightarrow> None
      | Some r \<Rightarrow> (case find (\<lambda>k. py_startswith (k @ '':'') (py_lstrip r)) NOTE_KEYS of
            None \<Rightarrow> None
          | Some k \<Rightarrow> map_option (\<lambda>v. (k, v)) (field_value (drop (length k + 1) (py_lstrip r)))))"

text \<open>The first title counts, and the last line of every other field.\<close>

type_synonym note_fields = "string \<rightharpoonup> string"

definition note_line_fields :: "string \<Rightarrow> note_fields \<Rightarrow> note_fields" where
  "note_line_fields line fs =
     (case (title_issue line, fs ''title_issue'') of
        (Some n, None) \<Rightarrow> fs(''title_issue'' \<mapsto> n)
      | _ \<Rightarrow> (case note_field line of Some (k, v) \<Rightarrow> fs(k \<mapsto> v) | None \<Rightarrow> fs))"

definition parse_handoff_note_fields :: "string \<Rightarrow> note_fields" where
  "parse_handoff_note_fields text = fold note_line_fields (py_splitlines text) (\<lambda>k. None)"

definition note_value :: "note_fields \<Rightarrow> string \<Rightarrow> string" where
  "note_value fs k = (case fs k of None \<Rightarrow> [] | Some v \<Rightarrow> v)"

definition ALLOWED_HANDOFF_REASONS :: "string list" where
  "ALLOWED_HANDOFF_REASONS = [''token_soft_threshold'', ''token_hard_ceiling'', ''cost_soft_threshold'', ''cost_hard_limit'',
     ''turn_limit'', ''time_limit'', ''operator_request'']"

definition is_iso8601 :: "(string \<Rightarrow> bool) \<Rightarrow> string \<Rightarrow> bool" where
  "is_iso8601 valid_iso v = valid_iso (if py_endswith ''Z'' v then butlast v @ ''+00:00'' else v)"


section \<open>Slips of transcription\<close>

definition is_hex :: "string \<Rightarrow> bool" where
  "is_hex v \<longleftrightarrow> v \<noteq> [] \<and> list_all (\<lambda>c. c \<in> set ''0123456789abcdefABCDEF'') v"

text \<open>The edit distance by rows; a row whose cells all exceed the limit ends the search.\<close>

fun lev_cells :: "char \<Rightarrow> string \<Rightarrow> nat list \<Rightarrow> nat \<Rightarrow> nat list" where
  "lev_cells c (d # ds) (p # q # ps) left =
     (let best = min (min (q + 1) (left + 1)) (p + (if c = d then 0 else 1)) in best # lev_cells c ds (q # ps) best)"
| "lev_cells c ds ps left = []"

definition lev_row :: "nat \<Rightarrow> char \<Rightarrow> string \<Rightarrow> nat list \<Rightarrow> nat list" where
  "lev_row i c second previous = i # lev_cells c second previous i"

fun lev_rows :: "nat \<Rightarrow> string \<Rightarrow> string \<Rightarrow> nat list \<Rightarrow> nat \<Rightarrow> nat list option" where
  "lev_rows i [] second previous limit = Some previous"
| "lev_rows i (c # cs) second previous limit =
     (let row = lev_row i c second previous
      in if limit < Min (set row) then None else lev_rows (Suc i) cs second row limit)"

definition levenshtein_within :: "string \<Rightarrow> string \<Rightarrow> nat \<Rightarrow> nat" where
  "levenshtein_within first second limit =
     (if first = second then 0
      else if limit < length first - length second \<or> limit < length second - length first then limit + 1
      else (case lev_rows 1 first second [0..<length second + 1] limit of
          None \<Rightarrow> limit + 1
        | Some row \<Rightarrow> if last row \<le> limit then last row else limit + 1))"

text \<open>The smallest distance to a prefix of at least seven characters; nothing can be closer than zero.\<close>

fun typo_distance_from :: "nat list \<Rightarrow> nat \<Rightarrow> string \<Rightarrow> string \<Rightarrow> nat \<Rightarrow> nat" where
  "typo_distance_from [] best v expected limit = best"
| "typo_distance_from (e # es) best v expected limit =
     (let distance = levenshtein_within v (take e expected) limit
      in if distance < best then (if distance = 0 then 0 else typo_distance_from es distance v expected limit)
         else typo_distance_from es best v expected limit)"

definition last_work_commit_typo_distance :: "string \<Rightarrow> string \<Rightarrow> nat \<Rightarrow> nat" where
  "last_work_commit_typo_distance v expected limit = typo_distance_from [7..<length expected + 1] (limit + 1) v expected limit"


section \<open>The commits of the note\<close>

definition attempted_git :: "'a ws_prog \<Rightarrow> 'a option ws_prog" where
  "attempted_git m = handle (bind m (\<lambda>x. Return (Some x))) (\<lambda>e. Return None)"

definition resolves_to_commit :: "string \<Rightarrow> string \<Rightarrow> bool ws_prog" where
  "resolves_to_commit dir v =
     bind (attempted_git (ask (Run_git (Some dir) [''rev-parse'', ''--verify'', ''--quiet'', v @ ''^{commit}'']) (ws_reply text_answer)))
       (\<lambda>r. Return (r \<noteq> None))"

primrec note_run :: "workspace \<Rightarrow> int \<Rightarrow> attempt_commit list \<Rightarrow> string list ws_prog" where
  "note_run w n [] = Return []"
| "note_run w n (c # cs) =
     bind (attempted_git (handoff_note_commit_carries_work w (ac_revision c) n)) (\<lambda>carries.
     bind (note_run w n cs) (\<lambda>run. Return (if carries = Some False then ac_revision c # run else run)))"

definition this_attempt_note_commit_revisions ::
  "workspace \<Rightarrow> iso_parser \<Rightarrow> prepared_attempt \<Rightarrow> int \<Rightarrow> string \<Rightarrow> string list ws_prog" where
  "this_attempt_note_commit_revisions w parse_iso p n attempt_id =
     bind (attempted_git (handoff_note_commits w parse_iso p n attempt_id)) (\<lambda>found.
     case found of None \<Rightarrow> Return [] | Some commits \<Rightarrow> note_run w n commits)"

text \<open>From the position \<open>first\<close> on, newest first: the first commit that is no note of this attempt, or the base.\<close>

definition expected_handoff_last_work_commit :: "string list \<Rightarrow> string list \<Rightarrow> string \<Rightarrow> nat \<Rightarrow> string" where
  "expected_handoff_last_work_commit revisions notes base first =
     (case dropWhile (\<lambda>r. r \<in> set notes) (drop first revisions) of [] \<Rightarrow> base | r # _ \<Rightarrow> r)"


section \<open>Validation\<close>

record note_validation =
  nv_valid :: bool
  nv_reason :: string
  nv_started_at_warning :: "string option"
  nv_last_work_commit_warning :: "string option"

definition universal_newlines :: "string \<Rightarrow> string" where
  "universal_newlines s = py_replace [CHR 0x0D] nl (py_replace [CHR 0x0D, CHR 0x0A] nl s)"

definition note_path :: "workspace \<Rightarrow> int \<Rightarrow> string" where
  "note_path w n = in_clone w (handoff_note_relpath n)"

definition read_note :: "workspace \<Rightarrow> int \<Rightarrow> string option ws_prog" where
  "read_note w n = handle (bind (ask_text (Read_bytes (note_path w n))) (\<lambda>b. Return (Some (universal_newlines b))))
     (\<lambda>e. if e = os_error then Return None else Raise e)"

definition read_handoff_note :: "workspace \<Rightarrow> int \<Rightarrow> string ws_prog" where
  "read_handoff_note w n = bind (read_note w n) (\<lambda>t.
     Return (case t of None \<Rightarrow> ''Handoff was requested, but the handoff note file could not be read.'' | Some s \<Rightarrow> s))"

text \<open>\<open>repr\<close> of a text.\<close>

definition hex_digit :: "nat \<Rightarrow> char" where
  "hex_digit k = ''0123456789abcdef'' ! k"

definition repr_char :: "char \<Rightarrow> char \<Rightarrow> string" where
  "repr_char quote c = (let n = (of_char c :: nat) in
     if c = quote \<or> c = CHR 0x5C then [CHR 0x5C, c]
     else if n = 10 then [CHR 0x5C, CHR ''n''] else if n = 13 then [CHR 0x5C, CHR ''r''] else if n = 9 then [CHR 0x5C, CHR ''t'']
     else if n < 32 \<or> (127 \<le> n \<and> n \<le> 160) \<or> n = 173 then [CHR 0x5C, CHR ''x'', hex_digit (n div 16), hex_digit (n mod 16)]
     else [c])"

definition py_repr :: "string \<Rightarrow> string" where
  "py_repr s = (let quote = (if CHR 0x27 \<in> set s \<and> CHR 0x22 \<notin> set s then CHR 0x22 else CHR 0x27)
     in quote # concat (map (repr_char quote) s) @ [quote])"

definition started_at_warning :: "(string \<Rightarrow> bool) \<Rightarrow> int \<Rightarrow> note_fields \<Rightarrow> string option" where
  "started_at_warning valid_iso n fs =
     (let started_at = note_value fs ''started_at'' in
      if started_at = [] then Some (''issue #'' @ str_of_int n @ '': the handoff note's `started_at` field is''
        @ '' missing; it should carry the attempt id.'')
      else if \<not> is_iso8601 valid_iso started_at then Some (''issue #'' @ str_of_int n @ '': the handoff note's `started_at` value''
        @ '' '' @ py_repr started_at @ '' is not valid ISO-8601; it should carry the attempt id.'')
      else None)"

definition note_invalid :: "string \<Rightarrow> string option \<Rightarrow> note_validation" where
  "note_invalid reason warning =
     \<lparr>nv_valid = False, nv_reason = reason, nv_started_at_warning = warning, nv_last_work_commit_warning = None\<rparr>"

definition note_valid :: "string option \<Rightarrow> string option \<Rightarrow> note_validation" where
  "note_valid warning slip = \<lparr>nv_valid = True, nv_reason = [], nv_started_at_warning = warning, nv_last_work_commit_warning = slip\<rparr>"

text \<open>What is wrong with the header of a note, if anything is.\<close>

definition header_problem :: "int \<Rightarrow> note_fields \<Rightarrow> string option" where
  "header_problem n fs =
     (if fs ''title_issue'' \<noteq> Some (str_of_int n) then Some ''Handoff note does not carry the required title for this issue.''
      else if fs ''issue'' \<noteq> Some (str_of_int n) then Some ''Handoff note is missing a matching `issue` field.''
      else if (case fs ''reason'' of None \<Rightarrow> True | Some r \<Rightarrow> r \<notin> set ALLOWED_HANDOFF_REASONS)
      then Some ''Handoff note is missing a valid `reason` field.''
      else None)"

text \<open>The work that the note must name: the first commit beneath the run of this attempt's notes.\<close>

definition expected_work :: "string \<Rightarrow> string list \<Rightarrow> string \<Rightarrow> string list option \<Rightarrow> string" where
  "expected_work note_revision revisions base note_revisions =
     (let notes = (case note_revisions of None \<Rightarrow> [note_revision] | Some rs \<Rightarrow> note_revision # rs)
      in if note_revision \<notin> set revisions then base
         else expected_handoff_last_work_commit revisions notes base (length (takeWhile (\<lambda>r. r \<noteq> note_revision) revisions) + 1))"

definition names_work :: "string \<Rightarrow> string \<Rightarrow> bool" where
  "names_work v expected \<longleftrightarrow> py_startswith v expected \<and> 7 \<le> length v"

definition validate_work_commit :: "workspace \<Rightarrow> int \<Rightarrow> string \<Rightarrow> string \<Rightarrow> string option \<Rightarrow> note_validation ws_prog" where
  "validate_work_commit w n v expected warning =
     (let stale = Return (note_invalid (''Handoff note's `last_work_commit` does not match the last preserved '' @ ''work commit.'') warning)
      in if names_work v expected then Return (note_valid warning None)
         else if \<not> (7 \<le> length v \<and> is_hex v) then stale
         else bind (resolves_to_commit (ws_clone_dir w) v) (\<lambda>there.
           if \<not> there \<and> last_work_commit_typo_distance v expected 2 \<le> 2
           then Return (note_valid warning (Some (''issue #'' @ str_of_int n @ '': the handoff note's `last_work_commit` value ''
             @ py_repr v @ '' is not an exact prefix of the expected revision '' @ py_repr expected
             @ ''; accepting as a transcription slip.'')))
           else stale))"

definition validate_handoff_note ::
  "workspace \<Rightarrow> (string \<Rightarrow> bool) \<Rightarrow> attempt_commit option \<Rightarrow> attempt_commit list \<Rightarrow> int \<Rightarrow> string \<Rightarrow> string list option \<Rightarrow> note_validation ws_prog" where
  "validate_handoff_note w valid_iso note_commit commits n base note_revisions = (case note_commit of
     None \<Rightarrow> Return (note_invalid ''Handoff was requested, but no handoff note commit is on the branch.'' None)
   | Some note \<Rightarrow>
       bind (read_note w n) (\<lambda>text.
       case text of
         None \<Rightarrow> Return (note_invalid (''Handoff was requested, but the handoff note file could not be read '' @ ''from the committed branch state.'') None)
       | Some text \<Rightarrow>
           (let fs = parse_handoff_note_fields text;
                warning = started_at_warning valid_iso n fs
            in case header_problem n fs of
                 Some reason \<Rightarrow> Return (note_invalid reason warning)
               | None \<Rightarrow> validate_work_commit w n (note_value fs ''last_work_commit'')
                   (expected_work (ac_revision note) (map ac_revision commits) base note_revisions) warning)))"

end
