(* ===== verification/Handoff_Note_Props.thy ===== *)
theory Handoff_Note_Props
  imports Handoff_Note
begin

text \<open>
  The handoff note's guarantees: the row algorithm computes the number of edits between two texts up to its limit, and
  what a valid verdict says about the note.
\<close>

section \<open>Edits\<close>

text \<open>\<open>edits n a b\<close>: \<open>n\<close> insertions, deletions and replacements of single characters lead from \<open>a\<close> to \<open>b\<close>.\<close>

inductive edits :: "nat \<Rightarrow> string \<Rightarrow> string \<Rightarrow> bool" where
  edits_Nil: "edits 0 [] []"
| edits_keep: "edits n a b \<Longrightarrow> edits n (c # a) (c # b)"
| edits_replace: "edits n a b \<Longrightarrow> edits (Suc n) (c # a) (d # b)"
| edits_delete: "edits n a b \<Longrightarrow> edits (Suc n) (c # a) b"
| edits_insert: "edits n a b \<Longrightarrow> edits (Suc n) a (d # b)"

lemma edits_append: "edits n a b \<Longrightarrow> edits m u v \<Longrightarrow> edits (n + m) (a @ u) (b @ v)"
  by (induction rule: edits.induct) (auto intro: edits.intros)

lemma edits_single: "edits 0 [c] [c]" "edits (Suc 0) [c] [d]" "edits (Suc 0) [c] []" "edits (Suc 0) [] [d]"
  using edits_Nil by (auto intro: edits.intros)

lemma edits_rev: "edits n a b \<Longrightarrow> edits n (rev a) (rev b)"
proof (induction rule: edits.induct)
  case (edits_keep n a b c)
  then show ?case using edits_append [of n "rev a" "rev b" 0 "[c]" "[c]"] by (simp add: edits_single)
next
  case (edits_replace n a b c d)
  then show ?case using edits_append [of n "rev a" "rev b" "Suc 0" "[c]" "[d]"] by (simp add: edits_single)
next
  case (edits_delete n a b c)
  then show ?case using edits_append [of n "rev a" "rev b" "Suc 0" "[c]" "[]"] by (simp add: edits_single)
next
  case (edits_insert n a b d)
  then show ?case using edits_append [of n "rev a" "rev b" "Suc 0" "[]" "[d]"] by (simp add: edits_single)
qed (simp add: edits_Nil)

text \<open>The distance by recursion on both texts.\<close>

fun distance :: "string \<Rightarrow> string \<Rightarrow> nat" where
  "distance [] b = length b"
| "distance a [] = length a"
| "distance (c # a) (d # b) =
     min (min (distance a (d # b) + 1) (distance (c # a) b + 1)) (distance a b + (if c = d then 0 else 1))"

lemma distance_Nil [simp]: "distance a [] = length a"
  by (cases a) auto

lemma edits_distance: "edits (distance a b) a b"
proof (induction a b rule: distance.induct)
  case (1 b)
  show ?case by (induction b) (auto intro: edits.intros)
next
  case (2 v va)
  have "edits (length x) x []" for x by (induction x) (auto intro: edits.intros)
  from this [of "v # va"] show ?case by simp
next
  case (3 c a d b)
  let ?m = "distance (c # a) (d # b)"
  have "?m = distance a (d # b) + 1 \<or> ?m = distance (c # a) b + 1 \<or> ?m = distance a b + (if c = d then 0 else 1)"
    by (auto simp: min_def)
  then show ?case
    using 3 edits_delete [of "distance a (d # b)" a "d # b" c] edits_insert [of "distance (c # a) b" "c # a" b d]
      edits_keep [of "distance a b" a b c] edits_replace [of "distance a b" a b c d]
    by (auto split: if_splits)
qed

lemma distance_Cons_le: "distance (c # a) b \<le> Suc (distance a b)" "distance a (d # b) \<le> Suc (distance a b)"
proof -
  show "distance (c # a) b \<le> Suc (distance a b)" by (cases b) auto
  show "distance a (d # b) \<le> Suc (distance a b)" by (cases a) auto
qed

lemma distance_le: "edits n a b \<Longrightarrow> distance a b \<le> n"
proof (induction rule: edits.induct)
  case (edits_delete n a b c)
  then show ?case using distance_Cons_le(1) [of c a b] by simp
next
  case (edits_insert n a b d)
  then show ?case using distance_Cons_le(2) [of a d b] by simp
qed (auto simp: min_le_iff_disj)

lemma distance_Least: "distance a b = (LEAST n. edits n a b)"
  by (rule Least_equality [symmetric]) (auto intro: edits_distance distance_le)

lemma distance_rev: "distance (rev a) (rev b) = distance a b"
proof (rule antisym)
  show "distance (rev a) (rev b) \<le> distance a b" by (intro distance_le edits_rev edits_distance)
  show "distance a b \<le> distance (rev a) (rev b)"
    using edits_rev [OF edits_distance, of "rev a" "rev b"] by (auto intro: distance_le)
qed

lemma distance_snoc:
  "distance (a @ [c]) (b @ [d]) =
     min (min (distance a (b @ [d]) + 1) (distance (a @ [c]) b + 1)) (distance a b + (if c = d then 0 else 1))"
proof -
  have "distance (rev (a @ [c])) (rev (b @ [d])) =
     min (min (distance (rev a) (rev (b @ [d])) + 1) (distance (rev (a @ [c])) (rev b) + 1)) (distance (rev a) (rev b) + (if c = d then 0 else 1))"
    by simp
  then show ?thesis unfolding distance_rev .
qed

lemma distance_length: "length a - length b \<le> distance a b" "length b - length a \<le> distance a b"
  by (induction a b rule: distance.induct) auto

lemma distance_zero: "distance a b = 0 \<longleftrightarrow> a = b"
  by (induction a b rule: distance.induct) (auto simp: min_def)

lemma distance_self [simp]: "distance a a = 0"
  by (simp add: distance_zero)


section \<open>The rows\<close>

text \<open>The row of a prefix \<open>a\<close> of the first text: its distances to all prefixes of the second.\<close>

definition row_of :: "string \<Rightarrow> string \<Rightarrow> nat list" where
  "row_of a b = map (\<lambda>j. distance a (take j b)) [0..<length b + 1]"

lemma lev_cells_row:
  "lev_cells c ds (map (\<lambda>j. distance a (b @ take j ds)) [0..<length ds + 1]) (distance (a @ [c]) b)
     = map (\<lambda>j. distance (a @ [c]) (b @ take (Suc j) ds)) [0..<length ds]"
proof (induction ds arbitrary: b)
  case Nil
  then show ?case by simp
next
  case (Cons d ds)
  have up: "[0..<length (d # ds) + 1] = 0 # map Suc [0..<length ds + 1]"
    by (simp add: map_Suc_upt upt_conv_Cons del: upt_Suc)
  have up': "[0..<length ds + 1] = 0 # map Suc [0..<length ds]" "[0..<length (d # ds)] = 0 # map Suc [0..<length ds]"
    by (simp_all add: map_Suc_upt upt_conv_Cons del: upt_Suc)
  from Cons.IH [of "b @ [d]"] show ?case
    unfolding up unfolding up'
    by (simp add: distance_snoc Let_def comp_def del: upt_Suc)
qed

lemma lev_row_of: "lev_row (Suc (length a)) c b (row_of a b) = row_of (a @ [c]) b"
proof -
  have "lev_cells c b (row_of a b) (distance (a @ [c]) []) = map (\<lambda>j. distance (a @ [c]) (take (Suc j) b)) [0..<length b]"
    using lev_cells_row [of c b a "[]"] by (simp add: row_of_def)
  moreover have "[0..<length b + 1] = 0 # map Suc [0..<length b]"
    by (simp add: map_Suc_upt upt_conv_Cons del: upt_Suc)
  ultimately show ?thesis by (simp add: lev_row_def row_of_def comp_def del: upt_Suc)
qed

text \<open>No later row has a cell below the smallest of an earlier row.\<close>

lemma row_min_mono:
  assumes "\<And>j. j \<le> length b \<Longrightarrow> m \<le> distance a (take j b)"
  shows "j \<le> length b \<Longrightarrow> m \<le> distance (a @ [c]) (take j b)"
proof (induction j)
  case 0
  then show ?case using assms [of 0] by simp
next
  case (Suc j)
  then have "take (Suc j) b = take j b @ [b ! j]" by (simp add: take_Suc_conv_app_nth)
  then show ?case using Suc assms [of j] assms [of "Suc j"] by (simp add: distance_snoc)
qed

lemma row_min_append: "(\<And>j. j \<le> length b \<Longrightarrow> m \<le> distance a (take j b)) \<Longrightarrow> j \<le> length b \<Longrightarrow> m \<le> distance (a @ u) (take j b)"
proof (induction u arbitrary: a j)
  case (Cons c u)
  then show ?case using Cons.IH [of "a @ [c]" j] row_min_mono [of b m a _ c] by simp
qed simp

lemma row_Min: "limit < Min (set (row_of a b)) \<Longrightarrow> j \<le> length b \<Longrightarrow> Suc limit \<le> distance a (take j b)"
proof -
  assume m: "limit < Min (set (row_of a b))" and j: "j \<le> length b"
  have "distance a (take j b) \<in> set (row_of a b)" using j by (auto simp: row_of_def simp del: upt_Suc)
  then show "Suc limit \<le> distance a (take j b)" using m by (meson Min_le List.finite_set Suc_leI less_le_trans)
qed

lemma lev_rows_of:
  "case lev_rows (Suc (length a)) u b (row_of a b) limit of
     None \<Rightarrow> limit < distance (a @ u) b
   | Some row \<Rightarrow> row = row_of (a @ u) b"
proof (induction u arbitrary: a)
  case (Cons c u)
  show ?case
  proof (cases "limit < Min (set (row_of (a @ [c]) b))")
    case True
    then have "Suc limit \<le> distance ((a @ [c]) @ u) (take (length b) b)"
      by (intro row_min_append row_Min) auto
    with True show ?thesis by (simp add: lev_row_of Let_def)
  next
    case False
    with Cons.IH [of "a @ [c]"] show ?thesis by (auto simp: lev_row_of Let_def split: option.splits)
  qed
qed simp

lemma levenshtein_distance: "levenshtein_within a b limit = min (distance a b) (limit + 1)"
proof -
  have row0: "row_of [] b = [0..<length b + 1]"
    by (rule nth_equalityI) (simp_all add: row_of_def min_def del: upt_Suc)
  have last_row: "last (row_of a b) = distance a b"
    by (simp add: row_of_def)
  have len: "limit < length a - length b \<or> limit < length b - length a \<Longrightarrow> limit < distance a b"
    using distance_length(1) [of a b] distance_length(2) [of b a] by linarith
  show ?thesis
    using lev_rows_of [where a = "[]" and u = a and b = b and limit = limit] len
    by (auto simp: levenshtein_within_def row0 last_row distance_zero split: option.splits)
qed


text \<open>
  C26. The two-row algorithm with its early exits computes the smallest number of edits between two texts, cut off one
  above the limit.
\<close>

theorem levenshtein_is_edit_distance: "levenshtein_within a b limit = min (LEAST n. edits n a b) (limit + 1)"
  by (simp add: levenshtein_distance distance_Least)


section \<open>Valid notes\<close>

text \<open>A value within two edits of a prefix of at least seven characters.\<close>

definition slip_of :: "string \<Rightarrow> string \<Rightarrow> bool" where
  "slip_of v expected \<longleftrightarrow> (\<exists>k n. 7 \<le> k \<and> k \<le> length expected \<and> n \<le> 2 \<and> edits n v (take k expected))"

lemma typo_distance_le:
  "typo_distance_from es best v expected limit \<le> d \<Longrightarrow> best \<le> d \<or> list_ex (\<lambda>e. levenshtein_within v (take e expected) limit \<le> d) es"
proof (induction es arbitrary: best)
  case (Cons e es)
  show ?case
  proof (cases "levenshtein_within v (take e expected) limit \<le> d")
    case False
    with Cons.prems have "typo_distance_from es (if levenshtein_within v (take e expected) limit < best
        then levenshtein_within v (take e expected) limit else best) v expected limit \<le> d"
      by (auto simp: Let_def split: if_splits)
    from Cons.IH [OF this] False show ?thesis by (auto split: if_splits)
  qed simp
qed simp

lemma slip_of_distance:
  assumes "last_work_commit_typo_distance v expected 2 \<le> 2"
  shows "slip_of v expected"
proof -
  from typo_distance_le [OF assms [unfolded last_work_commit_typo_distance_def]]
  obtain k where k: "7 \<le> k" "k \<le> length expected" "levenshtein_within v (take k expected) 2 \<le> 2"
    by (auto simp: list_ex_iff simp del: upt_Suc)
  then have "distance v (take k expected) \<le> 2" by (simp add: levenshtein_distance)
  then show ?thesis unfolding slip_of_def using k edits_distance by blast
qed

text \<open>What was read: the note's file, and whether its \<open>last_work_commit\<close> names a commit of the repository.\<close>

type_synonym note_evidence = "string option \<times> bool option"

definition note_step :: "note_evidence \<Rightarrow> ws_call \<Rightarrow> ws_answer \<Rightarrow> note_evidence" where
  "note_step s q r = (case q of
     Read_bytes p \<Rightarrow> (case r of Output b \<Rightarrow> (Some b, snd s) | _ \<Rightarrow> s)
   | Run_git d args \<Rightarrow> (fst s, Some (case r of Output b \<Rightarrow> True | _ \<Rightarrow> False))
   | _ \<Rightarrow> s)"

definition trustworthy :: "int \<Rightarrow> (note_fields \<Rightarrow> string) \<Rightarrow> note_evidence \<Rightarrow> bool" where
  "trustworthy n expected s = (case fst s of
     None \<Rightarrow> False
   | Some b \<Rightarrow> (let fs = parse_handoff_note_fields (universal_newlines b); v = note_value fs ''last_work_commit'' in
       header_problem n fs = None \<and> 7 \<le> length v
       \<and> (py_startswith v (expected fs) \<or> is_hex v \<and> snd s = Some False \<and> slip_of v (expected fs))))"

definition verdict_sound :: "int \<Rightarrow> string \<Rightarrow> note_evidence \<Rightarrow> failure + note_validation \<Rightarrow> bool" where
  "verdict_sound n expected s y = (case y of
     Inl e \<Rightarrow> True
   | Inr v \<Rightarrow> if nv_valid v then trustworthy n (\<lambda>fs. expected) s else nv_reason v \<noteq> [])"

lemma work_commit_sound:
  assumes "header_problem n (parse_handoff_note_fields (universal_newlines b)) = None"
  shows "follow (\<lambda>q r. True) note_step (verdict_sound n expected)
      (validate_work_commit w n (note_value (parse_handoff_note_fields (universal_newlines b)) ''last_work_commit'') expected warning)
      (Some b, None)"
proof -
  let ?v = "note_value (parse_handoff_note_fields (universal_newlines b)) ''last_work_commit''"
  have stale: "verdict_sound n expected s (Inr (note_invalid (r # reason) warning))" for s r reason
    by (simp add: verdict_sound_def note_invalid_def)
  have accepted: "verdict_sound n expected s (Inr (note_valid warning slip))" if "trustworthy n (\<lambda>fs. expected) s" for s slip
    using that by (simp add: verdict_sound_def note_valid_def)
  have "follow (\<lambda>q r. True) note_step
      (\<lambda>s y. case y of Inl e \<Rightarrow> False | Inr there \<Rightarrow> s = (Some b, Some there)) (resolves_to_commit (ws_clone_dir w) ?v) (Some b, None)"
    by (auto simp: resolves_to_commit_def attempted_git_def note_step_def ws_reply_def text_answer_def split: ws_answer.splits)
  then have resolved: "follow (\<lambda>q r. True) note_step (verdict_sound n expected)
      (bind (resolves_to_commit (ws_clone_dir w) ?v) f) (Some b, None)"
    if "\<And>there. follow (\<lambda>q r. True) note_step (verdict_sound n expected) (f there) (Some b, Some there)" for f
    by (rule follow_bindI) (auto intro: that)
  show ?thesis unfolding validate_work_commit_def Let_def names_work_def
    using assms by (intro follow_if resolved) (auto simp: trustworthy_def Let_def intro!: stale accepted dest: slip_of_distance)
qed

text \<open>
  C27. Whatever git and the file system answer, a note is valid only if its commit is on the branch, the file that was
  read carries the title and number of this issue and an allowed reason, and its \<open>last_work_commit\<close> is a prefix of at
  least seven characters of the expected commit, or hexadecimal, unknown to the repository, and at most two edits
  away from such a prefix; and whenever a note is rejected, a reason is given.
\<close>

theorem valid_note_is_trustworthy:
  "follow (\<lambda>q r. True) note_step
     (\<lambda>s y. case newest of
        None \<Rightarrow> verdict_sound n [] s y \<and> (case y of Inl e \<Rightarrow> False | Inr v \<Rightarrow> \<not> nv_valid v)
      | Some c \<Rightarrow> verdict_sound n (expected_work (ac_revision c) (map ac_revision commits) base revisions) s y)
     (validate_handoff_note w valid_iso newest commits n base revisions) (None, None)"
proof (cases newest)
  case None
  then show ?thesis by (simp add: validate_handoff_note_def verdict_sound_def note_invalid_def)
next
  case (Some c)
  let ?expected = "expected_work (ac_revision c) (map ac_revision commits) base revisions"
  have work: "follow (\<lambda>q r. True) note_step (verdict_sound n ?expected)
      (validate_work_commit w n (note_value (parse_handoff_note_fields (universal_newlines b)) ''last_work_commit'') ?expected warning)
      (Some b, None)"
    if "header_problem n (parse_handoff_note_fields (universal_newlines b)) = None" for b warning
    by (rule work_commit_sound [OF that])
  have file_read: "follow (\<lambda>q r. True) note_step
      (\<lambda>s y. case y of Inl e \<Rightarrow> True | Inr t \<Rightarrow> (case t of None \<Rightarrow> s = (None, None) | Some u \<Rightarrow> \<exists>b. s = (Some b, None) \<and> u = universal_newlines b))
      (read_note w n) (None, None)"
    by (auto simp: read_note_def ask_text_def ws_reply_def text_answer_def note_step_def split: ws_answer.splits)
  show ?thesis unfolding Some validate_handoff_note_def option.case
  proof (rule follow_bindI [OF file_read])
    fix s :: note_evidence and t :: "string option"
    assume t: "case Inr t of Inl e \<Rightarrow> True | Inr t \<Rightarrow> (case t of None \<Rightarrow> s = (None, None) | Some u \<Rightarrow> \<exists>b. s = (Some b, None) \<and> u = universal_newlines b)"
    show "follow (\<lambda>q r. True) note_step (verdict_sound n ?expected) (case t of
         None \<Rightarrow> Return (note_invalid (''Handoff was requested, but the handoff note file could not be read '' @ ''from the committed branch state.'') None)
       | Some text \<Rightarrow>
           (let fs = parse_handoff_note_fields text; warning = started_at_warning valid_iso n fs
            in case header_problem n fs of
                 Some reason \<Rightarrow> Return (note_invalid reason warning)
               | None \<Rightarrow> validate_work_commit w n (note_value fs ''last_work_commit'') ?expected warning)) s"
    proof (cases t)
      case (Some u)
      with t obtain b where b: "s = (Some b, None)" "u = universal_newlines b" by auto
      show ?thesis
      proof (cases "header_problem n (parse_handoff_note_fields u)")
        case None
        then show ?thesis using work [of b] by (simp add: Some b Let_def)
      next
        case (Some reason)
        then have "reason \<noteq> []" by (auto simp: header_problem_def split: if_splits)
        with Some show ?thesis by (simp add: \<open>t = Some u\<close> Let_def verdict_sound_def note_invalid_def)
      qed
    qed (simp add: verdict_sound_def note_invalid_def)
  qed (simp add: verdict_sound_def)
qed

end
