(* ===== verification/Emergency_Note.thy ===== *)
theory Emergency_Note
  imports Handoff_Note Completion Tracker
begin

text \<open>
  The runtime's own handoff note for an attempt that a limit stopped before the model wrote one (lifecycle.py): the
  classification of the limit, the previous note, and every section of the text. Also the signals that a claim
  continues earlier work.
\<close>

section \<open>Continuations\<close>

definition NO_PUBLISHED_BRANCH_MARKER :: string where "NO_PUBLISHED_BRANCH_MARKER = ''no branch created''"

definition CONTINUATION_MISSING_MARKER :: string where "CONTINUATION_MISSING_MARKER = ''was not found on origin''"

definition HANDOFF_RESULT_MARKERS :: "string list" where
  "HANDOFF_RESULT_MARKERS = [''Agent Attempt Result: incomplete'', ''Agent Attempt Result: handoff'']"

definition promises_branch :: "string \<Rightarrow> bool" where
  "promises_branch comment \<longleftrightarrow> list_ex (\<lambda>m. py_contains m comment) HANDOFF_RESULT_MARKERS
     \<and> \<not> py_contains CONTINUATION_MISSING_MARKER comment \<and> \<not> py_contains NO_PUBLISHED_BRANCH_MARKER comment"

text \<open>The comments are fetched only when the label is absent; the fetch is the argument of the program.\<close>

definition continuation_expected :: "tracker_issue \<Rightarrow> ('q, 'r, 'e, string list) prog \<Rightarrow> ('q, 'r, 'e, bool) prog" where
  "continuation_expected issue fetch =
     (if ROUND_FINISHED \<in> set (ti_labels issue) then Return True else bind fetch (\<lambda>comments. Return (list_ex promises_branch comments)))"


section \<open>Which limit fired\<close>

definition classify_handoff_reason :: "bool \<Rightarrow> string \<Rightarrow> string \<Rightarrow> string" where
  "classify_handoff_reason token_ceiling stop_reason terminal_reason =
     (let stop = py_lower stop_reason; terminal = py_lower terminal_reason in
      if token_ceiling then ''token_hard_ceiling''
      else if terminal \<in> {''budget_exhausted'', ''error_max_budget_usd''} \<or> py_contains ''budget'' terminal
        \<or> stop = ''max_budget_usd_exceeded'' \<or> py_contains ''budget'' stop then ''cost_hard_limit''
      else if terminal \<in> {''max_turns'', ''error_max_turns''} \<or> py_contains ''turn'' terminal
        \<or> stop = ''max_turns_exceeded'' \<or> py_contains ''turn'' stop then ''turn_limit''
      else if stop = ''timeout'' \<or> py_contains ''timeout'' terminal \<or> py_contains ''timeout'' stop
        \<or> py_startswith ''aborted_'' stop \<or> py_startswith ''aborted_'' terminal then ''time_limit''
      else ''cost_hard_limit'')"


section \<open>The note of an earlier round\<close>

record previous_note =
  pn_revision :: string
  pn_text :: "string option"

definition RUNTIME_WRITTEN_MARKER :: string where "RUNTIME_WRITTEN_MARKER = ''written by the runtime''"

definition is_complete_handoff_note :: "string \<Rightarrow> int \<Rightarrow> bool" where
  "is_complete_handoff_note text n =
     (let fs = parse_handoff_note_fields text in
      fs ''title_issue'' = Some (str_of_int n) \<and> fs ''issue'' = Some (str_of_int n) \<and> \<not> py_contains RUNTIME_WRITTEN_MARKER text)"

definition PREVIOUS_NOTE_ATTEMPT_ID :: string where "PREVIOUS_NOTE_ATTEMPT_ID = ''previous-rounds''"

primrec search_note :: "workspace \<Rightarrow> int \<Rightarrow> string option \<Rightarrow> attempt_commit list \<Rightarrow> previous_note option ws_prog" where
  "search_note w n unreadable [] =
     Return (case unreadable of None \<Rightarrow> None | Some r \<Rightarrow> Some \<lparr>pn_revision = r, pn_text = None\<rparr>)"
| "search_note w n unreadable (c # cs) =
     bind (attempted_git (handoff_note_content_at_revision w (ac_revision c) n)) (\<lambda>found.
     case found of
       Some (Some text) \<Rightarrow>
         if is_complete_handoff_note text n then Return (Some \<lparr>pn_revision = ac_revision c, pn_text = Some text\<rparr>)
         else search_note w n unreadable cs
     | _ \<Rightarrow> search_note w n (if unreadable = None then Some (ac_revision c) else unreadable) cs)"

definition previous_complete_note :: "workspace \<Rightarrow> iso_parser \<Rightarrow> prepared_attempt \<Rightarrow> int \<Rightarrow> previous_note option ws_prog" where
  "previous_complete_note w parse_iso p n =
     bind (attempted_git (handoff_note_commits w parse_iso p n PREVIOUS_NOTE_ATTEMPT_ID)) (\<lambda>found.
     case found of None \<Rightarrow> Return None | Some commits \<Rightarrow> search_note w n None commits)"


section \<open>Sections of the note\<close>

definition stripped_or :: "string \<Rightarrow> string option \<Rightarrow> string" where
  "stripped_or standard v = (case v of None \<Rightarrow> standard | Some s \<Rightarrow> if py_blank s then standard else py_strip s)"

definition blockquote :: "string \<Rightarrow> string" where
  "blockquote s = (let lines = (case py_splitlines (py_strip s) of [] \<Rightarrow> [s] | ls \<Rightarrow> ls) in
     py_join nl (map (\<lambda>l. if py_blank l then ''>'' else ''> '' @ l) lines))"

definition EMERGENCY_FILE_LIST_LIMIT :: nat where "EMERGENCY_FILE_LIST_LIMIT = 50"

definition format_capped_files :: "string list \<Rightarrow> string \<Rightarrow> string" where
  "format_capped_files files nothing =
     (let paths = filter (\<lambda>p. p \<noteq> []) (map py_strip files); more = length paths - EMERGENCY_FILE_LIST_LIMIT in
      if paths = [] then nothing
      else py_join nl (map (\<lambda>p. ''- `'' @ p @ ''`'') (take EMERGENCY_FILE_LIST_LIMIT paths)
        @ (if 0 < more then [''- +'' @ str_of_nat more @ '' more''] else [])))"

definition emergency_provenance :: "string \<Rightarrow> string \<Rightarrow> string" where
  "emergency_provenance reason explanation =
     ''This note was written by the runtime because the model did not write '' @ ''a handoff note before the attempt ended.'' @ nl
     @ ''The limit that fired was `'' @ reason @ ''`.'' @ nl @ nl
     @ ''Model's terminal explanation:'' @ nl @ nl
     @ blockquote (stripped_or ''not available'' (Some explanation))"

definition EMERGENCY_PREVIOUS_NOTE_LIMIT :: nat where "EMERGENCY_PREVIOUS_NOTE_LIMIT = 3000"

definition truncated_text :: "nat \<Rightarrow> string \<Rightarrow> string" where
  "truncated_text limit s = (if limit < length s then take limit s @ ''...[truncated]'' else s)"

definition emergency_previous_note :: "previous_note option \<Rightarrow> string" where
  "emergency_previous_note previous = (case previous of
     None \<Rightarrow> ''No previous complete Handoff note was found on this branch: ''
       @ ''no earlier round committed a readable, complete note for this issue.''
   | Some p \<Rightarrow> (case pn_text p of
         None \<Rightarrow> ''The previous round's Handoff note commit '' @ ''`'' @ pn_revision p @ ''` could not be read from this branch, ''
           @ ''so its older context is unavailable; only the runtime evidence '' @ ''below describes the current branch.''
       | Some text \<Rightarrow> ''The last complete Handoff note '' @ ''(revision `'' @ pn_revision p @ ''`) is preserved below as older ''
           @ ''context: it describes the branch as an earlier round left it; the ''
           @ ''runtime evidence below describes the current branch.'' @ nl @ nl
           @ blockquote (truncated_text EMERGENCY_PREVIOUS_NOTE_LIMIT (py_strip text))))"

definition emergency_changes :: "string option \<Rightarrow> string list \<Rightarrow> string list option \<Rightarrow> string list \<Rightarrow> string" where
  "emergency_changes diff_stat attempt_commits sealed_files edited_files =
     (let commits = filter (\<lambda>l. l \<noteq> []) (map py_strip attempt_commits) in
      ''Changes since the verified base '' @ ''(`git diff --stat <base>..<seal or HEAD>`):'' @ nl @ nl
      @ ''```diff'' @ nl @ stripped_or ''not available'' diff_stat @ nl @ ''```'' @ nl @ nl
      @ ''Attempt commits (`git log --oneline <base>..HEAD`):'' @ nl @ nl
      @ (if commits = [] then ''none'' else py_join nl (map (\<lambda>l. ''- '' @ l) commits)) @ nl @ nl
      @ ''Files that were uncommitted when sealing happened '' @ ''(committed by the seal commit):'' @ nl @ nl
      @ (case sealed_files of None \<Rightarrow> ''none'' | Some fs \<Rightarrow> format_capped_files fs ''none'') @ nl @ nl
      @ ''Files the model edited or created (Edit/Write calls):'' @ nl @ nl
      @ format_capped_files edited_files ''none recorded'')"

definition EMERGENCY_ASSISTANT_TEXT_LIMIT :: nat where "EMERGENCY_ASSISTANT_TEXT_LIMIT = 1500"

definition emergency_last_intent :: "string option \<Rightarrow> bool \<Rightarrow> string" where
  "emergency_last_intent last_text invoked =
     (let detail = (case last_text of None \<Rightarrow> [] | Some t \<Rightarrow> py_strip t) in
      ''Last assistant text (truncated to about 1,500 characters):'' @ nl @ nl
      @ (if detail = [] then ''not available'' else blockquote (truncated_text EMERGENCY_ASSISTANT_TEXT_LIMIT detail)) @ nl @ nl
      @ ''Handoff skill on the main thread: '' @ (if invoked then ''invoked'' else ''not invoked'') @ ''.'')"

record tool_call =
  tc_tool :: string
  tc_target :: string
  tc_outcome :: string
  tc_command :: string

definition format_tool_call :: "tool_call \<Rightarrow> string" where
  "format_tool_call t = ''- `'' @ tc_tool t @ ''`'' @ (if tc_target t = [] then [] else '' '' @ tc_target t) @ '' ('' @ tc_outcome t @ '')''"

definition EMERGENCY_TOOL_TRAIL_LIMIT :: nat where "EMERGENCY_TOOL_TRAIL_LIMIT = 15"

definition emergency_activity :: "string list \<Rightarrow> tool_call list \<Rightarrow> tool_call option \<Rightarrow> string" where
  "emergency_activity edited_files tool_calls last_check =
     (let trail = drop (length tool_calls - EMERGENCY_TOOL_TRAIL_LIMIT) tool_calls in
      ''Files the model edited or created (Edit/Write calls):'' @ nl @ nl
      @ format_capped_files edited_files ''none recorded'' @ nl @ nl
      @ ''Recent tool calls (last 15: tool, short target, ok/error flag):'' @ nl @ nl
      @ (if trail = [] then ''none recorded'' else py_join nl (map format_tool_call trail)) @ nl @ nl
      @ ''Last Bash call running a profile `check` command:'' @ nl @ nl
      @ (case last_check of None \<Rightarrow> ''none recorded''
         | Some t \<Rightarrow> ''`'' @ py_join '' '' (py_words (tc_command t)) @ ''` ('' @ tc_outcome t @ '')''))"

definition command_failure_detail :: "command_result \<Rightarrow> string" where
  "command_failure_detail r = (case select_failed_command r of
     None \<Rightarrow> ''timed out before any command ran''
   | Some c \<Rightarrow> take 4000 (''`'' @ ex_command c @ ''` (exit '' @ (case ex_exit_code c of None \<Rightarrow> ''None'' | Some k \<Rightarrow> str_of_int k) @ ''): ''
       @ (if py_strip (ex_stderr c) \<noteq> [] then py_strip (ex_stderr c) else py_strip (ex_stdout c))))"

definition emergency_check_state :: "command_result option \<Rightarrow> string" where
  "emergency_check_state baseline =
     ''final check: not run (the runtime does not run the final check '' @ ''before writing an emergency note).'' @ nl @ nl
     @ ''Baseline check (pre-model): ''
     @ (case baseline of
          None \<Rightarrow> ''not available (no baseline check ran)''
        | Some r \<Rightarrow>
            if cr_succeeded r then ''passed (exit '' @ (case cr_exit_code r of None \<Rightarrow> ''None'' | Some k \<Rightarrow> str_of_int k) @ '')''
            else ''failed: '' @ command_failure_detail r) @ ''.''"

text \<open>The token budget's facts; the two fractions are given by the text that Python prints for them.\<close>

record budget_facts =
  bf_soft_crossed :: bool
  bf_soft_at :: "int option"
  bf_hit_rate :: "string option"
  bf_budget_tokens :: "int option"
  bf_max_budget_tokens :: "int option"
  bf_peak_context :: "int option"
  bf_turns :: "int option"
  bf_elapsed :: "string option"

definition no_facts :: budget_facts where
  "no_facts = \<lparr>bf_soft_crossed = False, bf_soft_at = None, bf_hit_rate = None, bf_budget_tokens = None,
     bf_max_budget_tokens = None, bf_peak_context = None, bf_turns = None, bf_elapsed = None\<rparr>"

definition budget_value :: "int option \<Rightarrow> string" where
  "budget_value v = (case v of None \<Rightarrow> ''not available'' | Some k \<Rightarrow> str_of_int k)"

definition emergency_budget :: "budget_facts option \<Rightarrow> string" where
  "emergency_budget facts = (let b = (case facts of None \<Rightarrow> no_facts | Some b \<Rightarrow> b) in
     py_join nl
      [''- budget_tokens: '' @ budget_value (bf_budget_tokens b),
       ''- max_budget_tokens: '' @ budget_value (bf_max_budget_tokens b),
       ''- soft threshold: '' @ (if bf_soft_crossed b
          then (case bf_soft_at b of Some k \<Rightarrow> ''crossed at '' @ str_of_int k @ '' tokens'' | None \<Rightarrow> ''crossed'') else ''not crossed''),
       ''- peak_main_context_tokens: '' @ budget_value (bf_peak_context b),
       ''- main prompt-cache hit rate: '' @ (case bf_hit_rate b of None \<Rightarrow> ''not available'' | Some t \<Rightarrow> t),
       ''- turns: '' @ budget_value (bf_turns b),
       ''- elapsed: '' @ (case bf_elapsed b of None \<Rightarrow> ''not available'' | Some t \<Rightarrow> t @ ''s'')])"

definition emergency_pointers :: "string option \<Rightarrow> string option \<Rightarrow> string" where
  "emergency_pointers archive_dir session =
     ''- attempt log directory: '' @ stripped_or ''not available'' archive_dir @ nl
     @ ''- CLI transcript session id: '' @ stripped_or ''not available'' session"

definition emergency_remaining_work :: string where
  "emergency_remaining_work =
     ''The runtime could not determine what work remains: the attempt '' @ ''stopped at a limit without a model-written assessment of what is ''
     @ ''left.'' @ nl @ nl
     @ ''The issue's acceptance criteria are the reference for what '' @ [CHR 0x22] @ ''done'' @ [CHR 0x22] @ '' ''
     @ ''means. None were verified by the runtime on this path.'' @ nl @ nl
     @ ''Review the sections above and continue implementation from the '' @ ''preserved work on this branch.''"

text \<open>What the note is made of.\<close>

record emergency_evidence =
  em_explanation :: string
  em_diff_stat :: "string option"
  em_attempt_commits :: "string list"
  em_sealed_files :: "string list option"
  em_edited_files :: "string list"
  em_last_text :: "string option"
  em_skill_invoked :: bool
  em_tool_calls :: "tool_call list"
  em_last_check :: "tool_call option"
  em_baseline :: "command_result option"
  em_budget :: "budget_facts option"
  em_archive_dir :: "string option"
  em_session :: "string option"
  em_previous :: "previous_note option"

definition note_header :: "int \<Rightarrow> string \<Rightarrow> string \<Rightarrow> string \<Rightarrow> string" where
  "note_header n started_at reason last_work_commit =
     ''# Handoff note: issue #'' @ str_of_int n @ nl @ nl
     @ ''- issue: '' @ str_of_int n @ nl
     @ ''- started_at: '' @ started_at @ nl
     @ ''- reason: '' @ reason @ nl
     @ ''- last_work_commit: '' @ last_work_commit @ nl"

definition emergency_sections :: "string \<Rightarrow> emergency_evidence \<Rightarrow> (string \<times> string) list" where
  "emergency_sections reason em =
     [(''Provenance'', emergency_provenance reason (em_explanation em)),
      (''Previous complete note'', emergency_previous_note (em_previous em)),
      (''Changes'', emergency_changes (em_diff_stat em) (em_attempt_commits em) (em_sealed_files em) (em_edited_files em)),
      (''Last model intent'', emergency_last_intent (em_last_text em) (em_skill_invoked em)),
      (''Activity trail'', emergency_activity (em_edited_files em) (em_tool_calls em) (em_last_check em)),
      (''Check state'', emergency_check_state (em_baseline em)),
      (''Budget facts'', emergency_budget (em_budget em)),
      (''Pointers'', emergency_pointers (em_archive_dir em) (em_session em)),
      (''Remaining work'', emergency_remaining_work)]"

definition build_emergency_handoff_note :: "int \<Rightarrow> string \<Rightarrow> string \<Rightarrow> string \<Rightarrow> emergency_evidence \<Rightarrow> string" where
  "build_emergency_handoff_note n started_at reason last_work_commit em =
     note_header n started_at reason last_work_commit
     @ concat (map (\<lambda>(title, body). nl @ ''## '' @ title @ nl @ nl @ body @ nl) (emergency_sections reason em))"


section \<open>Evidence\<close>

definition last_check_call :: "tool_call list \<Rightarrow> string list \<Rightarrow> tool_call option" where
  "last_check_call bash_calls commands =
     (let checks = filter (\<lambda>c. c \<noteq> []) commands in
      if checks = [] then None else find (\<lambda>t. list_ex (\<lambda>c. py_contains c (tc_command t)) checks) (rev bash_calls))"

definition git_diff_stat :: "string \<Rightarrow> string \<Rightarrow> string \<Rightarrow> string option ws_prog" where
  "git_diff_stat dir base endpoint =
     bind (attempted_git (ask (Run_git (Some dir) [''diff'', ''--stat'', base @ ''..'' @ endpoint]) (ws_reply text_answer)))
       (\<lambda>r. Return (map_option (\<lambda>t. if py_blank t then ''(no differences)'' else py_strip t) r))"

text \<open>The skill events of the main thread: the name of the skill and the agent that used it, if any.\<close>

definition main_thread_handoff_invoked :: "(string \<times> string option) list \<Rightarrow> bool" where
  "main_thread_handoff_invoked events = list_ex (\<lambda>(name, agent). name = ''handoff'' \<and> agent = None) events"

end
