(* ===== verification/Emergency_Note_Props.thy ===== *)
theory Emergency_Note_Props
  imports Emergency_Note
begin

text \<open>
  The runtime's note is read back by the validation of handoff notes: its header is found again, and text of the model
  that is quoted in it cannot be taken for a header. Output of a failed baseline check is not quoted, and can.
\<close>

section \<open>Lines\<close>

definition one_line :: "string \<Rightarrow> bool" where
  "one_line s \<longleftrightarrow> list_all (\<lambda>c. \<not> line_break c) s"

lemma one_line_simps [simp]:
  "one_line []" "one_line (c # s) \<longleftrightarrow> \<not> line_break c \<and> one_line s" "one_line (s @ t) \<longleftrightarrow> one_line s \<and> one_line t"
  by (auto simp: one_line_def)

lemma line_break_nl: "line_break (CHR 0x0A)"
  by (simp add: line_break_def)

lemma split_one_line: "one_line a \<Longrightarrow> split_lines acc (a @ nl @ b) = (rev acc @ a) # split_lines [] b"
  by (induction a arbitrary: acc) (simp_all add: nl_def line_break_nl)

lemma splitlines_line: "one_line a \<Longrightarrow> py_splitlines (a @ nl @ b) = a # py_splitlines b"
  using split_one_line [of a "[]" b] by (simp add: py_splitlines_def)

lemma split_lines_nl: "set (split_lines acc (a @ nl @ b)) \<subseteq> insert [] (set (split_lines acc a) \<union> set (split_lines [] b))"
proof (induction acc a rule: split_lines.induct)
  case (1 acc)
  then show ?case by (auto simp: nl_def line_break_nl)
next
  case (2 acc c cs)
  show ?case
  proof (cases "line_break c")
    case True
    show ?thesis
    proof (cases cs)
      case Nil
      then show ?thesis using True by (auto simp: nl_def line_break_nl)
    next
      case (Cons d ds)
      then show ?thesis using 2(1) True by (auto split: if_splits)
    qed
  qed (use 2(2) in auto)
qed

lemma split_lines_prefix: "one_line a \<Longrightarrow> split_lines acc (a @ x) = split_lines (rev a @ acc) x"
  by (induction a arbitrary: acc) auto

lemma split_lines_base: "base \<noteq> [] \<Longrightarrow> \<exists>l. split_lines (acc @ base) x = (rev base @ l) # tl (split_lines acc x)"
proof (induction acc x rule: split_lines.induct)
  case (2 acc c cs)
  then show ?case by (cases "line_break c") auto
qed simp


section \<open>Text without header fields\<close>

definition harmless :: "string \<Rightarrow> bool" where
  "harmless s \<longleftrightarrow> list_all (\<lambda>l. note_field l = None) (py_splitlines s)"

lemma note_field_other: "l = [] \<or> hd l \<noteq> CHR ''-'' \<Longrightarrow> note_field l = None"
  by (cases l) (auto simp: note_field_def lit_def py_startswith_def)

lemma harmless_nl: "harmless a \<Longrightarrow> harmless b \<Longrightarrow> harmless (a @ nl @ b)"
  using split_lines_nl [of "[]" a b] note_field_other [of "[]"] by (auto simp: harmless_def py_splitlines_def list_all_iff)

lemma harmless_Nil [simp]: "harmless []"
  by (simp add: harmless_def py_splitlines_def)

text \<open>What begins a line with another character than a dash cannot turn what follows into a field.\<close>

lemma harmless_prefix:
  assumes "one_line a" "a \<noteq> []" "hd a \<noteq> CHR ''-''" "harmless x"
  shows "harmless (a @ x)"
proof -
  from split_lines_base [of "rev a" "[]" x] assms(2)
  obtain l where l: "split_lines (rev a) x = (a @ l) # tl (split_lines [] x)" by auto
  have "set (tl (split_lines [] x)) \<subseteq> set (split_lines [] x)" by (cases "split_lines [] x") auto
  then show ?thesis
    using assms l split_lines_prefix [of a "[]" x] note_field_other [of "a @ l"]
    by (auto simp: harmless_def py_splitlines_def list_all_iff)
qed

lemma harmless_line: "one_line a \<Longrightarrow> a = [] \<or> hd a \<noteq> CHR ''-'' \<Longrightarrow> harmless a"
  using harmless_prefix [of a "[]"] by (cases "a = []") auto

lemma split_lines_one_line: "one_line (rev acc) \<Longrightarrow> l \<in> set (split_lines acc s) \<Longrightarrow> one_line l"
proof (induction acc s rule: split_lines.induct)
  case (2 acc c cs)
  then show ?case by (auto split: if_splits simp: one_line_def)
qed (auto split: if_splits)

lemma harmless_join: "list_all harmless xs \<Longrightarrow> harmless (py_join nl xs)"
proof (induction nl xs rule: py_join.induct)
  case (3 x y ys)
  then show ?case by (simp add: harmless_nl)
qed simp_all

lemma split_lines_nonempty: "split_lines acc x = [] \<Longrightarrow> acc = [] \<and> x = []"
  by (induction acc x rule: split_lines.induct) (auto split: if_splits)

text \<open>The lines of a quotation, each of them behind the quotation's mark.\<close>

definition quoted_lines :: "string \<Rightarrow> string list" where
  "quoted_lines s = map (\<lambda>l. if py_blank l then ''>'' else ''> '' @ l) (case py_splitlines (py_strip s) of [] \<Rightarrow> [s] | ls \<Rightarrow> ls)"

lemma blockquote_lines: "blockquote s = py_join nl (quoted_lines s)" "quoted_lines s \<noteq> []"
  by (simp_all add: blockquote_def quoted_lines_def Let_def split: list.splits)

lemma quoted_line: "l \<in> set (quoted_lines s) \<Longrightarrow> one_line l \<and> l \<noteq> [] \<and> hd l = CHR ''>''"
proof -
  let ?lines = "case py_splitlines (py_strip s) of [] \<Rightarrow> [s] | ls \<Rightarrow> ls"
  have "one_line (if py_blank l then ''>'' else ''> '' @ l)" if "l \<in> set ?lines" for l
  proof (cases "py_blank l")
    case False
    have "one_line l"
    proof (cases "py_splitlines (py_strip s)")
      case Nil
      then have "py_strip s = []"
        unfolding py_splitlines_def by (blast dest: split_lines_nonempty)
      with False that Nil show ?thesis by (simp add: py_blank_def)
    next
      case (Cons x xs)
      with that show ?thesis
        using split_lines_one_line [of "[]" l "py_strip s"] by (auto simp: py_splitlines_def)
    qed
    with False show ?thesis by (simp add: line_break_def)
  qed (simp add: line_break_def)
  moreover assume "l \<in> set (quoted_lines s)"
  then obtain x where "x \<in> set ?lines" "l = (if py_blank x then ''>'' else ''> '' @ x)" unfolding quoted_lines_def set_map by blast
  ultimately show "one_line l \<and> l \<noteq> [] \<and> hd l = CHR ''>''" by simp
qed

lemma harmless_blockquote: "harmless (blockquote s)"
  unfolding blockquote_lines(1) using quoted_line [of _ s]
  by (intro harmless_join) (auto simp: list_all_iff intro!: harmless_line)

text \<open>Lines in the middle of a text are lines of the text, and a line behind the mark leaves the fields as they are.\<close>

lemma lines_before_nl: "\<exists>ls. \<forall>b. split_lines acc (a @ nl @ b) = ls @ split_lines [] b"
proof (induction acc a rule: split_lines.induct)
  case (1 acc)
  show ?case by (rule exI [of _ "[rev acc]"]) (simp add: nl_def line_break_nl)
next
  case (2 acc c cs)
  show ?case
  proof (cases "line_break c")
    case True
    define rest where "rest = (if c = CHR 0x0D \<and> cs \<noteq> [] \<and> hd cs = CHR 0x0A then tl cs else cs)"
    obtain ls where ls: "\<And>b. split_lines [] (rest @ nl @ b) = ls @ split_lines [] b" using 2(1) [OF True] by (auto simp: rest_def)
    show ?thesis
    proof (cases "c = CHR 0x0D \<and> cs = []")
      case r: True
      show ?thesis by (rule exI [of _ "[rev acc]"]) (simp add: nl_def line_break_def r)
    next
      case False
      then have "split_lines acc ((c # cs) @ nl @ b) = rev acc # split_lines [] (rest @ nl @ b)" for b
        using True by (cases cs) (auto simp: nl_def rest_def)
      with ls show ?thesis by (intro exI [of _ "rev acc # ls"]) simp
    qed
  qed (use 2(2) in simp)
qed

lemma lines_of_join:
  "ls \<noteq> [] \<Longrightarrow> list_all one_line ls \<Longrightarrow> py_splitlines (py_join nl ls @ nl @ b) = ls @ py_splitlines b"
proof (induction nl ls rule: py_join.induct)
  case (3 x y ys)
  then show ?case using splitlines_line [of x "py_join nl (y # ys) @ nl @ b"] by simp
qed (simp_all add: splitlines_line)

lemma marked_line: "l \<noteq> [] \<Longrightarrow> hd l = CHR ''>'' \<Longrightarrow> note_field l = None \<and> title_issue l = None"
  by (cases l) (simp_all add: note_field_other title_issue_def lit_def py_startswith_def)

lemma fold_marked: "list_all (\<lambda>l. note_field l = None \<and> title_issue l = None) ls \<Longrightarrow> fold note_line_fields ls fs = fs"
  by (induction ls) (simp_all add: note_line_fields_def)

text \<open>
  C28. Free text of the model is quoted so that it cannot change how a note is read, whatever the text is: every line
  of a quotation starts with its mark and is neither a title nor a field of the note's header, and a note that has the
  quotation between two of its lines is read exactly as the note without it.
\<close>

theorem quoted_text_has_no_field:
  "list_all (\<lambda>l. note_field l = None \<and> title_issue l = None) (quoted_lines s)
   \<and> py_splitlines (blockquote s @ nl) = quoted_lines s
   \<and> parse_handoff_note_fields (before @ nl @ blockquote s @ nl @ after) = parse_handoff_note_fields (before @ nl @ after)"
proof -
  have ls: "list_all one_line (quoted_lines s)" and marked: "list_all (\<lambda>l. note_field l = None \<and> title_issue l = None) (quoted_lines s)"
    using quoted_line [of _ s] marked_line by (auto simp: list_all_iff)
  obtain xs where xs: "\<And>b. py_splitlines (before @ nl @ b) = xs @ py_splitlines b"
    using lines_before_nl [of "[]" before] by (auto simp: py_splitlines_def)
  show ?thesis
    using marked lines_of_join [OF blockquote_lines(2) ls, of "[]"] lines_of_join [OF blockquote_lines(2) ls, of after]
    by (simp add: blockquote_lines(1) parse_handoff_note_fields_def xs fold_marked) (simp add: py_splitlines_def)
qed


section \<open>The header\<close>

text \<open>A value that a header field keeps: on one line, not blank, without surrounding whitespace.\<close>

definition plain_value :: "string \<Rightarrow> bool" where
  "plain_value v \<longleftrightarrow> one_line v \<and> v \<noteq> [] \<and> py_strip v = v"

lemma strip_space: "py_strip (CHR '' '' # v) = py_strip v"
  by (simp add: py_strip_def py_lstrip_def py_space_def)

lemma field_of_value: "plain_value v \<Longrightarrow> field_value (CHR '' '' # v) = Some v"
  by (simp add: plain_value_def field_value_def py_blank_def strip_space)

lemma header_fields:
  assumes "plain_value v"
  shows "note_field (''- issue: '' @ v) = Some (''issue'', v)" "note_field (''- started_at: '' @ v) = Some (''started_at'', v)"
    "note_field (''- reason: '' @ v) = Some (''reason'', v)" "note_field (''- last_work_commit: '' @ v) = Some (''last_work_commit'', v)"
  using field_of_value [OF assms]
  by (simp_all add: note_field_def lit_def py_startswith_def NOTE_KEYS_def py_lstrip_def py_space_def)

lemma takeWhile_digits: "takeWhile is_digit (str_of_nat n) = str_of_nat n"
  using str_of_nat_digits [of n] by (simp add: takeWhile_eq_all_conv list_all_iff)

lemma title_read_back: "0 \<le> n \<Longrightarrow> title_issue (''# Handoff note: issue #'' @ str_of_int n) = Some (str_of_int n)"
  by (simp add: title_issue_def lit_def py_startswith_def py_lstrip_def py_space_def str_of_int_def takeWhile_digits Let_def)

lemma digit_no_break: "is_digit c \<Longrightarrow> \<not> line_break c"
  by (auto simp: is_digit_def char_between_def line_break_def Let_def)

lemma number_plain: "0 \<le> n \<Longrightarrow> plain_value (str_of_int n)"
  using str_of_nat_digits [of "nat n"] py_strip_no_space [of "str_of_nat (nat n)"] digit_not_space digit_no_break
  by (auto simp: plain_value_def one_line_def str_of_int_def list_all_iff)

lemma fold_harmless:
  "fs ''title_issue'' \<noteq> None \<Longrightarrow> list_all (\<lambda>l. note_field l = None) ls \<Longrightarrow> fold note_line_fields ls fs = fs"
proof (induction ls arbitrary: fs)
  case (Cons l ls)
  then have "note_line_fields l fs = fs"
    by (auto simp: note_line_fields_def split: option.splits)
  with Cons show ?case by simp
qed simp

definition header_of :: "int \<Rightarrow> string \<Rightarrow> string \<Rightarrow> string \<Rightarrow> note_fields" where
  "header_of n started_at reason commit = [''title_issue'' \<mapsto> str_of_int n, ''issue'' \<mapsto> str_of_int n,
     ''started_at'' \<mapsto> started_at, ''reason'' \<mapsto> reason, ''last_work_commit'' \<mapsto> commit]"

lemma parsed_header:
  assumes "0 \<le> n" "plain_value started_at" "plain_value reason" "plain_value commit"
  shows "parse_handoff_note_fields (note_header n started_at reason commit @ body)
    = fold note_line_fields (py_splitlines body) (header_of n started_at reason commit)"
proof -
  from number_plain [OF assms(1)] assms(2-4)
  have ones: "one_line (str_of_int n)" "one_line started_at" "one_line reason" "one_line commit"
    by (simp_all add: plain_value_def)
  have "py_splitlines (note_header n started_at reason commit @ body) =
      [''# Handoff note: issue #'' @ str_of_int n, [], ''- issue: '' @ str_of_int n, ''- started_at: '' @ started_at,
       ''- reason: '' @ reason, ''- last_work_commit: '' @ commit] @ py_splitlines body"
    using splitlines_line [of "''# Handoff note: issue #'' @ str_of_int n"] splitlines_line [of "[]"]
      splitlines_line [of "''- issue: '' @ str_of_int n"] splitlines_line [of "''- started_at: '' @ started_at"]
      splitlines_line [of "''- reason: '' @ reason"] splitlines_line [of "''- last_work_commit: '' @ commit"] ones
    by (simp add: note_header_def line_break_def)
  moreover have "title_issue (''- '' @ x) = None" "title_issue [] = None" for x
    by (simp_all add: title_issue_def lit_def py_startswith_def)
  ultimately show ?thesis
    unfolding parse_handoff_note_fields_def
    using title_read_back [OF assms(1)] header_fields(1) [OF number_plain [OF assms(1)]] header_fields(2) [OF assms(2)]
      header_fields(3) [OF assms(3)] header_fields(4) [OF assms(4)]
    by (simp add: note_line_fields_def header_of_def note_field_other)
qed

lemma header_read_back:
  assumes "0 \<le> n" "plain_value started_at" "plain_value reason" "plain_value commit" "harmless body"
  shows "parse_handoff_note_fields (note_header n started_at reason commit @ body) = header_of n started_at reason commit"
  unfolding parsed_header [OF assms(1-4)]
  using assms(5) by (intro fold_harmless) (simp_all add: harmless_def header_of_def)


section \<open>The whole note\<close>

lemma harmless_titles: "list_all (\<lambda>t. harmless (''## '' @ t))
  [''Provenance'', ''Previous complete note'', ''Changes'', ''Last model intent'', ''Activity trail'', ''Check state'',
   ''Budget facts'', ''Pointers'', ''Remaining work'']"
  by (simp add: harmless_line line_break_def)

text \<open>The sections that quote no text of the model; the others are free of fields by themselves.\<close>

definition facts_harmless :: "emergency_evidence \<Rightarrow> bool" where
  "facts_harmless em \<longleftrightarrow>
     harmless (emergency_changes (em_diff_stat em) (em_attempt_commits em) (em_sealed_files em) (em_edited_files em))
     \<and> harmless (emergency_activity (em_edited_files em) (em_tool_calls em) (em_last_check em))
     \<and> harmless (emergency_check_state (em_baseline em)) \<and> harmless (emergency_budget (em_budget em))
     \<and> harmless (emergency_pointers (em_archive_dir em) (em_session em))
     \<and> (case em_previous em of None \<Rightarrow> True | Some p \<Rightarrow> one_line (pn_revision p))"

text \<open>Texts built from left to right: \<open>mid t\<close> when \<open>t\<close> may follow the begin of a line that starts with no dash.\<close>

definition mid :: "string \<Rightarrow> bool" where
  "mid t \<longleftrightarrow> (\<forall>a. one_line a \<and> a \<noteq> [] \<and> hd a \<noteq> CHR ''-'' \<longrightarrow> harmless (a @ t))"

lemma harmless_start: "mid t \<Longrightarrow> one_line a \<Longrightarrow> a \<noteq> [] \<Longrightarrow> hd a \<noteq> CHR ''-'' \<Longrightarrow> harmless (a @ t)"
  by (simp add: mid_def)

lemma harmless_blank: "harmless t \<Longrightarrow> harmless (nl @ t)"
  using harmless_nl [of "[]" t] by simp

lemma mid_nl: "harmless t \<Longrightarrow> mid (nl @ t)"
  unfolding mid_def by (auto intro: harmless_nl harmless_line)

lemma mid_append: "mid t \<Longrightarrow> one_line s \<Longrightarrow> mid (s @ t)"
  unfolding mid_def by (auto simp flip: append_assoc)

lemma mid_line: "one_line s \<Longrightarrow> mid s"
  unfolding mid_def by (auto intro: harmless_line)

lemma provenance_harmless: "one_line reason \<Longrightarrow> harmless (emergency_provenance reason explanation)"
  unfolding emergency_provenance_def append_assoc
  by ((rule harmless_blockquote harmless_blank mid_nl harmless_start mid_append)+; simp add: line_break_def)

lemma previous_harmless:
  "case previous of None \<Rightarrow> True | Some p \<Rightarrow> one_line (pn_revision p) \<Longrightarrow> harmless (emergency_previous_note previous)"
proof (cases previous)
  case None
  then show ?thesis by (simp add: emergency_previous_note_def harmless_line line_break_def)
next
  case (Some p)
  assume "case previous of None \<Rightarrow> True | Some p \<Rightarrow> one_line (pn_revision p)"
  with Some have one: "one_line (pn_revision p)" by simp
  show ?thesis
  proof (cases "pn_text p")
    case None
    with Some one show ?thesis by (simp add: emergency_previous_note_def harmless_line line_break_def)
  next
    case (Some t)
    show ?thesis unfolding emergency_previous_note_def \<open>previous = Some p\<close> option.case Some append_assoc
      by ((rule harmless_blockquote harmless_blank mid_nl harmless_start mid_append)+; simp add: line_break_def one)
  qed
qed

lemma intent_harmless: "harmless (emergency_last_intent last_text invoked)"
proof -
  have "harmless (if d = [] then ''not available'' else blockquote (truncated_text k d))" for d k
    by (simp add: harmless_blockquote harmless_line line_break_def)
  then show ?thesis unfolding emergency_last_intent_def Let_def append_assoc
    by (intro harmless_nl harmless_blank) (auto simp: harmless_line line_break_def)
qed

lemma remaining_harmless: "harmless emergency_remaining_work"
  unfolding emergency_remaining_work_def append_assoc
  by ((rule harmless_blank mid_nl harmless_start mid_append)+; simp add: line_break_def mid_line)

lemma sections_harmless:
  "list_all (\<lambda>(title, body). harmless (''## '' @ title) \<and> harmless body) xs
   \<Longrightarrow> harmless (concat (map (\<lambda>(title, body). nl @ ''## '' @ title @ nl @ nl @ body @ nl) xs))"
proof (induction xs)
  case (Cons x xs)
  obtain t b where x: "x = (t, b)" by (cases x)
  have "harmless (nl @ (''## '' @ t) @ nl @ nl @ b @ nl @ concat (map (\<lambda>(title, body). nl @ ''## '' @ title @ nl @ nl @ body @ nl) xs))"
    using Cons by (intro harmless_nl harmless_blank) (simp_all add: x)
  then show ?case by (simp add: x)
qed simp

lemma body_harmless:
  assumes "facts_harmless em" "one_line reason"
  shows "harmless (concat (map (\<lambda>(title, body). nl @ ''## '' @ title @ nl @ nl @ body @ nl) (emergency_sections reason em)))"
  using harmless_titles assms provenance_harmless [OF assms(2)] intent_harmless remaining_harmless
    previous_harmless [of "em_previous em"]
  by (intro sections_harmless) (simp add: emergency_sections_def facts_harmless_def)

text \<open>
  The runtime's note is read back: the validation finds the issue, the attempt, the reason and the commit that the
  note was built from, whatever the model said last, provided that no listed fact looks like a header field. So a note
  with an allowed reason has no header problem.
\<close>

theorem emergency_note_read_back:
  assumes "0 < n" "plain_value started_at" "reason \<in> set ALLOWED_HANDOFF_REASONS" "plain_value commit" "facts_harmless em"
  shows "parse_handoff_note_fields (build_emergency_handoff_note n started_at reason commit em) = header_of n started_at reason commit
     \<and> header_problem n (parse_handoff_note_fields (build_emergency_handoff_note n started_at reason commit em)) = None"
proof -
  have "list_all plain_value ALLOWED_HANDOFF_REASONS" by code_simp
  with assms(3) have reason: "plain_value reason" by (simp add: list_all_iff)
  then have "one_line reason" by (simp add: plain_value_def)
  from header_read_back [OF _ assms(2) reason assms(4) body_harmless [OF assms(5) this], of n] assms(1)
  have "parse_handoff_note_fields (build_emergency_handoff_note n started_at reason commit em) = header_of n started_at reason commit"
    by (simp add: build_emergency_handoff_note_def)
  then show ?thesis using assms(3) by (simp add: header_problem_def header_of_def)
qed

definition example_evidence :: emergency_evidence where
  "example_evidence = \<lparr>em_explanation = ''stopped'' @ nl @ ''- issue: 9'', em_diff_stat = Some '' a.py | 2 +-'',
     em_attempt_commits = [''abc1234 Fix it''], em_sealed_files = Some [''a.py''], em_edited_files = [''a.py''],
     em_last_text = Some ''- reason: done'', em_skill_invoked = False,
     em_tool_calls = [\<lparr>tc_tool = ''Bash'', tc_target = ''make'', tc_outcome = ''ok'', tc_command = ''make''\<rparr>],
     em_last_check = None, em_baseline = None, em_budget = None, em_archive_dir = Some ''/data/7'', em_session = None,
     em_previous = Some \<lparr>pn_revision = ''deadbeef'', pn_text = Some ''- issue: 3''\<rparr>\<rparr>"

lemma example_plain: "plain_value ''2026-01-31T23:59:59Z''" "plain_value ''turn_limit''" "plain_value ''0123456789abcdef''"
  by code_simp+

lemma example_facts: "facts_harmless example_evidence"
  by code_simp

theorem emergency_note_read_back_witness:
  "header_problem 7 (parse_handoff_note_fields
     (build_emergency_handoff_note 7 ''2026-01-31T23:59:59Z'' ''turn_limit'' ''0123456789abcdef'' example_evidence)) = None"
  by (intro emergency_note_read_back [THEN conjunct2]) (simp_all add: ALLOWED_HANDOFF_REASONS_def example_plain example_facts)


section \<open>Output that is not quoted\<close>

definition red_baseline :: "string \<Rightarrow> command_result" where
  "red_baseline output = \<lparr>cr_status = FAILED, cr_commands =
     [\<lparr>ex_command = ''make check'', ex_exit_code = Some 1, ex_stdout = [], ex_stderr = output, ex_timed_out = False\<rparr>], cr_duration = 1\<rparr>"

definition red_evidence :: emergency_evidence where
  "red_evidence = example_evidence\<lparr>em_baseline := Some (red_baseline (''FAILED:'' @ nl @ ''- issue: 12'' @ nl @ ''see the log''))\<rparr>"

lemma red_detail:
  "command_failure_detail (red_baseline (''FAILED:'' @ nl @ ''- issue: 12'' @ nl @ ''see the log''))
   = ''`make check` (exit 1): FAILED:'' @ nl @ ''- issue: 12'' @ nl @ ''see the log''"
proof -
  have strip: "py_strip (''FAILED:'' @ nl @ ''- issue: 12'' @ nl @ ''see the log'') = ''FAILED:'' @ nl @ ''- issue: 12'' @ nl @ ''see the log''"
    by code_simp
  have one: "str_of_int 1 = ''1''" by code_simp
  have whole: "take 4000 s = s" if "length s \<le> 4000" for s :: string using that by simp
  show ?thesis unfolding command_failure_detail_def select_failed_command_def red_baseline_def
    by (simp add: strip [simplified nl_def, simplified] one whole nl_def)
qed

lemma split_lines_after: "set (split_lines [] b) \<subseteq> set (split_lines acc (a @ nl @ b))"
proof (induction acc a rule: split_lines.induct)
  case (1 acc)
  then show ?case by (auto simp: nl_def line_break_nl)
next
  case (2 acc c cs)
  show ?case
  proof (cases "line_break c")
    case True
    then show ?thesis using 2(1) by (cases cs) (auto simp: nl_def line_break_nl split: if_splits)
  qed (use 2(2) in auto)
qed

lemma line_of: "one_line l \<Longrightarrow> l \<in> set (py_splitlines (a @ nl @ l @ nl @ b))"
  using split_lines_after [of "l @ nl @ b" "[]" a] splitlines_line [of l b] by (auto simp: py_splitlines_def)

lemma fold_one_field:
  "fs ''title_issue'' = Some t \<Longrightarrow> k \<noteq> ''title_issue'' \<Longrightarrow> list_all (\<lambda>l. note_field l \<in> {None, Some (k, v)}) ls
   \<Longrightarrow> fold note_line_fields ls fs = (if list_ex (\<lambda>l. note_field l = Some (k, v)) ls then fs(k \<mapsto> v) else fs)"
proof (induction ls arbitrary: fs)
  case (Cons l ls)
  have "note_line_fields l fs = (if note_field l = Some (k, v) then fs(k \<mapsto> v) else fs)"
    using Cons.prems by (auto simp: note_line_fields_def split: option.splits)
  with Cons show ?case by (auto split: if_splits)
qed simp

text \<open>One line among harmless text that reads as a field replaces the field of the header.\<close>

lemma field_replaced:
  assumes "0 \<le> n" "plain_value started_at" "plain_value reason" "plain_value commit"
    and "harmless a" "harmless b" "one_line l" "note_field l = Some (k, v)" "k \<noteq> ''title_issue''"
  shows "parse_handoff_note_fields (note_header n started_at reason commit @ a @ nl @ l @ nl @ b) = (header_of n started_at reason commit)(k \<mapsto> v)"
proof -
  let ?body = "a @ nl @ l @ nl @ b"
  have lines: "set (py_splitlines ?body) \<subseteq> {[], l} \<union> {x. note_field x = None}"
    using split_lines_nl [of "[]" a "l @ nl @ b"] splitlines_line [OF assms(7), of b] assms(5,6)
    by (auto simp: py_splitlines_def harmless_def list_all_iff)
  have "fold note_line_fields (py_splitlines ?body) (header_of n started_at reason commit) = (header_of n started_at reason commit)(k \<mapsto> v)"
    using lines line_of [OF assms(7), of a b] assms(8,9) note_field_other [of "[]"]
    by (subst fold_one_field [where k = k and v = v and t = "str_of_int n"]) (auto simp: header_of_def list_all_iff list_ex_iff)
  then show ?thesis unfolding parsed_header [OF assms(1-4)] .
qed

text \<open>
  The output of a failed baseline check stands in the note as it is: a line of it that looks like a header field
  replaces the field, and the runtime's own note is then rejected for its issue.
\<close>

theorem baseline_output_replaces_field:
  "header_problem 7 (parse_handoff_note_fields (build_emergency_handoff_note 7 ''2026-01-31T23:59:59Z'' ''turn_limit'' ''0123456789abcdef'' red_evidence))
   = Some ''Handoff note is missing a matching `issue` field.''"
proof -
  let ?texts = "\<lambda>xs. concat (map (\<lambda>(title, body). nl @ ''## '' @ title @ nl @ nl @ body @ nl) xs)"
  let ?sections = "emergency_sections ''turn_limit'' example_evidence"
  let ?a = "?texts (take 5 ?sections) @ nl @ ''## Check state'' @ nl @ nl
      @ ''final check: not run (the runtime does not run the final check before writing an emergency note).'' @ nl @ nl
      @ ''Baseline check (pre-model): failed: `make check` (exit 1): FAILED:''"
  let ?b = "''see the log.'' @ nl @ ?texts (drop 6 ?sections)"
  have "\<not> cr_succeeded (red_baseline t)" for t by (simp add: cr_succeeded_def red_baseline_def)
  then have whole_note: "build_emergency_handoff_note 7 ''2026-01-31T23:59:59Z'' ''turn_limit'' ''0123456789abcdef'' red_evidence
      = note_header 7 ''2026-01-31T23:59:59Z'' ''turn_limit'' ''0123456789abcdef'' @ ?a @ nl @ ''- issue: 12'' @ nl @ ?b"
    by (simp add: build_emergency_handoff_note_def emergency_sections_def red_evidence_def emergency_check_state_def red_detail [simplified])
  note facts = example_facts and plain = example_plain
  have "list_all (\<lambda>(title, body). harmless (''## '' @ title) \<and> harmless body) ?sections"
    using harmless_titles facts provenance_harmless [of "''turn_limit''"] plain(2) intent_harmless remaining_harmless
      previous_harmless [of "em_previous example_evidence"]
    by (simp add: emergency_sections_def facts_harmless_def plain_value_def)
  then have sections: "harmless (?texts (take 5 ?sections))" "harmless (?texts (drop 6 ?sections))"
    by (intro sections_harmless; auto simp: list_all_iff dest: in_set_takeD in_set_dropD)+
  have "harmless ?a"
    by (intro harmless_nl harmless_blank sections) (simp_all add: harmless_line line_break_def)
  moreover have "harmless ?b"
    by (intro harmless_nl sections) (simp add: harmless_line line_break_def)
  moreover have "note_field ''- issue: 12'' = Some (''issue'', ''12'')" "one_line ''- issue: 12''" by code_simp+
  ultimately have "parse_handoff_note_fields (build_emergency_handoff_note 7 ''2026-01-31T23:59:59Z'' ''turn_limit'' ''0123456789abcdef'' red_evidence)
      = (header_of 7 ''2026-01-31T23:59:59Z'' ''turn_limit'' ''0123456789abcdef'')(''issue'' \<mapsto> ''12'')"
    unfolding whole_note by (intro field_replaced plain) simp_all
  moreover have "str_of_int 7 = ''7''" by code_simp
  ultimately show ?thesis by (simp add: header_problem_def header_of_def)
qed

end
