(* ===== verification/Worker.thy ===== *)
theory Worker
  imports Conflict_Execution Handoff_Note Control Handoff_Records
begin

text \<open>
  The Worker's loop over its parts (lifecycle.py, \<open>AgentLifecycle\<close>): the calls it makes, its exceptions, and the
  evidence it handles. Every part is called through one datatype of calls: the attempt checkpoint, the control store,
  the tracker, the workspace, the publisher, the stores, the archive and the log. Fields that other threads read (the
  active issue, whether an attempt is processed) are written by calls, too. Times are rational seconds.
\<close>

section \<open>Failures\<close>

text \<open>
  \<open>Error\<close> and the next two are subclasses of \<open>Exception\<close>; \<open>System_exit\<close> and \<open>Interrupt\<close> are not.
\<close>

datatype worker_failure =
    Error failure
  | Rebase_failed string "string list"
  | Claim_lost string "string list"
  | System_exit int
  | Interrupt string string

fun is_exception :: "worker_failure \<Rightarrow> bool" where
  "is_exception (System_exit k) = False"
| "is_exception (Interrupt c m) = False"
| "is_exception e = True"

fun worker_failure_type :: "worker_failure \<Rightarrow> string" where
  "worker_failure_type (Error e) = failure_type e"
| "worker_failure_type (Rebase_failed m fs) = ''RebaseConflictError''"
| "worker_failure_type (Claim_lost m others) = ''ClaimLostError''"
| "worker_failure_type (System_exit k) = ''SystemExit''"
| "worker_failure_type (Interrupt c m) = c"

fun worker_failure_text :: "worker_failure \<Rightarrow> string" where
  "worker_failure_text (Error e) = failure_text e"
| "worker_failure_text (Rebase_failed m fs) = m"
| "worker_failure_text (Claim_lost m others) = m"
| "worker_failure_text (System_exit k) = str_of_int k"
| "worker_failure_text (Interrupt c m) = m"

definition detail_of :: "worker_failure \<Rightarrow> string" where
  "detail_of e = worker_failure_type e @ '': '' @ worker_failure_text e"

definition is_dirty :: "worker_failure \<Rightarrow> bool" where
  "is_dirty e \<longleftrightarrow> worker_failure_type e = ''DirtyWorkspaceError''"

definition is_unrecoverable :: "worker_failure \<Rightarrow> bool" where
  "is_unrecoverable e \<longleftrightarrow> worker_failure_type e = ''GitWorkspaceRecoveryError''"

text \<open>The classes below \<open>RuntimeError\<close> and \<open>OSError\<close> that a store raises.\<close>

definition store_trouble :: "worker_failure \<Rightarrow> bool" where
  "store_trouble e \<longleftrightarrow> worker_failure_type e \<in> {''ControlStoreError'', ''RuntimeError'', ''AttemptStateError'', ''CompletionStoreError'',
     ''OSError'', ''PermissionError'', ''FileNotFoundError'', ''TimeoutError'', ''ConnectionError''}"

definition control_error_of :: "string \<Rightarrow> worker_failure" where
  "control_error_of m = Error (OtherError ''ControlStoreError'' m)"


section \<open>What the parts exchange\<close>

record handoff_view =
  hv_acknowledgement :: string
  hv_request_id :: "string option"
  hv_begun :: bool
  hv_accepted_at :: "string option"
  hv_detail :: "string option"

record attempt_evidence =
  ae_decision :: completion_decision
  ae_check :: check_report
  ae_review_cycles :: int
  ae_review_findings :: string
  ae_details :: string
  ae_note_commit_sha :: "string option"
  ae_reviews_performed :: int

datatype attempt_call =
    Read_attempt_state
  | Begin_attempt start_request
  | Enter attempt_phase
  | Delete_attempt
  | Keep_lease "string option"

datatype store_call =
    Is_finished string
  | Finished_outcome string
  | Record_finished string int string attempt_outcome
  | Count_error attempt_outcome string
  | Read_ledger
  | Keep_halt string string

datatype control_call =
    Handoff_state
  | Fail_handoff string string
  | Complete_handoff string string
  | Count_finalized string attempt_outcome
  | Intake_state
  | Finish_stop
  | Next_issue
  | Fail_next string
  | Complete_next int
  | Enter_stopping
  | Announce_resolved string

datatype queue_call =
    Recover_claim int
  | Claim_first
  | Fetch_fresh int
  | Claim_verified tracker_issue
  | Own_assignment tracker_issue
  | Automatic_count tracker_issue
  | Release_handed_off int string
  | Release_with int string string

datatype tree_call =
    Ready_base string
  | Get_profile
  | Ready_branch string int
  | Branch_commits prepared_attempt
  | Note_commit_of prepared_attempt int string
  | Judge_note "attempt_commit option" "attempt_commit list" int prepared_attempt string
  | Note_text int
  | Clean_up string
  | Abort_branch prepared_attempt
  | Tree_clean
  | Dirty_list

datatype publisher_call =
    Publish_result publication_request "rat option"
  | Publish_conflict_result conflict_request "rat option"
  | Stored_intent_of string

datatype log_call =
    Log_line string string string "int option"
  | Now
  | Poll_sleep
  | Set_active "int option"
  | Set_processing bool
  | Note_dirty string
  | Remember string publication_result
  | Observe_dirty string
  | Get_archive int string
  | Final_check_marks
  | Write_archive string
  | Seal_archive string
  | Telemetry string

datatype worker_call =
    Of_attempt attempt_call
  | Of_store store_call
  | Of_control control_call
  | Of_queue queue_call
  | Of_tree tree_call
  | Of_publisher publisher_call
  | Of_log log_call
  | Run_attempt claim repository_profile prepared_attempt
  | Conflict_part conflict_call

datatype worker_answer =
    Threw worker_failure
  | Good
  | Flag bool
  | Numbered int
  | At rat
  | Maybe "string option"
  | Strings "string list"
  | The_checkpoint "checkpoint option"
  | The_handoff "handoff_view option"
  | The_profile repository_profile
  | The_branch prepared_attempt
  | The_commits "attempt_commit list"
  | The_commit "attempt_commit option"
  | The_verdict note_validation
  | The_evidence attempt_evidence
  | The_result publication_result
  | The_claim "claim option"
  | The_issue "tracker_issue option"
  | The_outcome "attempt_outcome option"
  | The_intake intake_state
  | The_intent "handoff_record option"
  | Marks bool bool
  | Conflict_reply conflict_answer

type_synonym 'a worker_prog = "(worker_call, worker_answer, worker_failure, 'a) prog"

definition got :: "(worker_answer \<Rightarrow> 'a option) \<Rightarrow> worker_answer \<Rightarrow> worker_failure + 'a" where
  "got sel r = (case r of
     Threw e \<Rightarrow> Inl e
   | _ \<Rightarrow> (case sel r of None \<Rightarrow> Inl (Error (OtherError ''TypeError'' ''unexpected answer'')) | Some x \<Rightarrow> Inr x))"

definition perform :: "worker_call \<Rightarrow> unit worker_prog" where
  "perform q = ask q (got (\<lambda>r. Some ()))"

definition ask_flag :: "worker_call \<Rightarrow> bool worker_prog" where
  "ask_flag q = ask q (got (\<lambda>r. case r of Flag b \<Rightarrow> Some b | _ \<Rightarrow> None))"

definition ask_number :: "worker_call \<Rightarrow> int worker_prog" where
  "ask_number q = ask q (got (\<lambda>r. case r of Numbered k \<Rightarrow> Some k | _ \<Rightarrow> None))"

definition ask_maybe :: "worker_call \<Rightarrow> string option worker_prog" where
  "ask_maybe q = ask q (got (\<lambda>r. case r of Maybe t \<Rightarrow> Some t | _ \<Rightarrow> None))"

definition ask_strings :: "worker_call \<Rightarrow> string list worker_prog" where
  "ask_strings q = ask q (got (\<lambda>r. case r of Strings t \<Rightarrow> Some t | _ \<Rightarrow> None))"

definition now :: "rat worker_prog" where
  "now = ask (Of_log Now) (got (\<lambda>r. case r of At t \<Rightarrow> Some t | _ \<Rightarrow> None))"

definition stored_checkpoint :: "checkpoint option worker_prog" where
  "stored_checkpoint = ask (Of_attempt Read_attempt_state) (got (\<lambda>r. case r of The_checkpoint c \<Rightarrow> Some c | _ \<Rightarrow> None))"

definition handoff_state :: "handoff_view option worker_prog" where
  "handoff_state = ask (Of_control Handoff_state) (got (\<lambda>r. case r of The_handoff h \<Rightarrow> Some h | _ \<Rightarrow> None))"

definition branch_commits :: "prepared_attempt \<Rightarrow> attempt_commit list worker_prog" where
  "branch_commits p = ask (Of_tree (Branch_commits p)) (got (\<lambda>r. case r of The_commits cs \<Rightarrow> Some cs | _ \<Rightarrow> None))"

definition note_commit_of :: "prepared_attempt \<Rightarrow> int \<Rightarrow> string \<Rightarrow> attempt_commit option worker_prog" where
  "note_commit_of p n attempt_id = ask (Of_tree (Note_commit_of p n attempt_id)) (got (\<lambda>r. case r of The_commit c \<Rightarrow> Some c | _ \<Rightarrow> None))"

definition judge_note :: "attempt_commit option \<Rightarrow> attempt_commit list \<Rightarrow> int \<Rightarrow> prepared_attempt \<Rightarrow> string \<Rightarrow> note_validation worker_prog" where
  "judge_note c cs n p attempt_id = ask (Of_tree (Judge_note c cs n p attempt_id)) (got (\<lambda>r. case r of The_verdict v \<Rightarrow> Some v | _ \<Rightarrow> None))"

definition text_answered :: "worker_call \<Rightarrow> string worker_prog" where
  "text_answered q = bind (ask_maybe q) (\<lambda>t. Return (case t of None \<Rightarrow> [] | Some s \<Rightarrow> s))"

definition the_archive :: "int \<Rightarrow> string \<Rightarrow> bool worker_prog" where
  "the_archive n attempt_id = ask_flag (Of_log (Get_archive n attempt_id))"

definition log_line :: "string \<Rightarrow> string \<Rightarrow> string \<Rightarrow> int option \<Rightarrow> unit worker_prog" where
  "log_line name detail level n = perform (Of_log (Log_line name detail level n))"

definition info :: "string \<Rightarrow> string \<Rightarrow> int \<Rightarrow> unit worker_prog" where
  "info name detail n = log_line name detail ''INFO'' (Some n)"

definition warning :: "string \<Rightarrow> string \<Rightarrow> int \<Rightarrow> unit worker_prog" where
  "warning name detail n = log_line name detail ''WARNING'' (Some n)"


section \<open>Exceptions\<close>

text \<open>\<open>try: m except Exception\<close>, and the same for every exception, as \<open>finally\<close> sees it.\<close>

definition tried :: "'a worker_prog \<Rightarrow> (worker_failure + 'a) worker_prog" where
  "tried m = handle (bind m (\<lambda>x. Return (Inr x))) (\<lambda>e. if is_exception e then Return (Inl e) else Raise e)"

definition ended :: "'a worker_prog \<Rightarrow> (worker_failure + 'a) worker_prog" where
  "ended m = handle (bind m (\<lambda>x. Return (Inr x))) (\<lambda>e. Return (Inl e))"

definition quietly :: "unit worker_prog \<Rightarrow> unit worker_prog" where
  "quietly m = bind (tried m) (\<lambda>r. Return ())"

definition raised_or :: "worker_failure + 'a \<Rightarrow> 'b worker_prog \<Rightarrow> 'b worker_prog" where
  "raised_or r m = (case r of Inl e \<Rightarrow> Raise e | Inr x \<Rightarrow> m)"

text \<open>A program of another part, run through the calls of the Worker.\<close>

primrec embed :: "('p \<Rightarrow> 'q) \<Rightarrow> ('s \<Rightarrow> 'f + 'r) \<Rightarrow> ('e \<Rightarrow> 'f) \<Rightarrow> ('p, 'r, 'e, 'a) prog \<Rightarrow> ('q, 's, 'f, 'a) prog" where
  "embed c d e (Return x) = Return x"
| "embed c d e (Raise err) = Raise (e err)"
| "embed c d e (Call q k) = Call (c q) (\<lambda>s. case d s of Inl f \<Rightarrow> Raise f | Inr r \<Rightarrow> embed c d e (k r))"

text \<open>The conflict attempt catches exceptions of its calls; what is none passes through it.\<close>

definition conflict_answer_of :: "worker_answer \<Rightarrow> worker_failure + conflict_answer" where
  "conflict_answer_of r = (case r of
     Conflict_reply a \<Rightarrow> Inr a
   | Threw e \<Rightarrow> (case e of Error f \<Rightarrow> Inr (Failed f) | _ \<Rightarrow> Inl e)
   | _ \<Rightarrow> Inr (Failed (OtherError ''TypeError'' ''unexpected answer'')))"

definition of_conflict :: "'a conflict_prog \<Rightarrow> 'a worker_prog" where
  "of_conflict m = embed Conflict_part conflict_answer_of Error m"


section \<open>Configuration\<close>

record worker =
  wk_control :: bool
  wk_completions :: bool
  wk_errors :: bool
  wk_halts :: bool
  wk_runner :: bool
  wk_poll_interval :: int
  wk_max_consecutive_errors :: int
  wk_max_auto_continuations :: int
  wk_parse_instant :: "string \<Rightarrow> rat option"
  wk_conflict :: conflict_parts_of

definition HANDOFF_PUBLICATION_ALLOWANCE_SECONDS :: rat where "HANDOFF_PUBLICATION_ALLOWANCE_SECONDS = 120"

definition HANDOFF_ABSOLUTE_DEADLINE_SECONDS :: rat where
  "HANDOFF_ABSOLUTE_DEADLINE_SECONDS = 240 + HANDOFF_PUBLICATION_ALLOWANCE_SECONDS"

text \<open>\<open>None\<close> for a value that is no text, is blank, does not parse or has no timezone.\<close>

definition parse_operator_accepted_at :: "worker \<Rightarrow> string option \<Rightarrow> rat option" where
  "parse_operator_accepted_at wk v = (case v of
     None \<Rightarrow> None
   | Some s \<Rightarrow> if py_blank s then None else wk_parse_instant wk (py_replace ''Z'' ''+00:00'' (py_strip s)))"

text \<open>What is left of the whole command's time for one publication, while an operator's handoff is accepted.\<close>

definition handoff_publish_budget :: "worker \<Rightarrow> rat option worker_prog" where
  "handoff_publish_budget wk =
     (if \<not> wk_control wk then Return None
      else bind (handle handoff_state (\<lambda>e. if store_trouble e then Return None else Raise e)) (\<lambda>h.
        case h of
          None \<Rightarrow> Return None
        | Some h \<Rightarrow>
            if hv_acknowledgement h \<noteq> ''accepted'' then Return None
            else (case parse_operator_accepted_at wk (hv_accepted_at h) of
                None \<Rightarrow> Return None
              | Some accepted \<Rightarrow> bind now (\<lambda>t.
                  Return (Some (max 0 (min HANDOFF_PUBLICATION_ALLOWANCE_SECONDS (HANDOFF_ABSOLUTE_DEADLINE_SECONDS - (t - accepted)))))))))"

definition publication_confirmed :: "publication_result \<Rightarrow> bool" where
  "publication_confirmed r \<longleftrightarrow> rs_comment_posted r \<and> rs_handoff_posted r"

definition is_conflict_attempt :: "checkpoint \<Rightarrow> bool" where
  "is_conflict_attempt c \<longleftrightarrow> ck_attempt_kind c = ATTEMPT_KIND_CONFLICT"

definition attempt_id_of :: "checkpoint option \<Rightarrow> string" where
  "attempt_id_of c = (case c of None \<Rightarrow> ''unknown'' | Some c \<Rightarrow> ck_started_at c)"

definition emit_handoff_note_events :: "int \<Rightarrow> note_validation \<Rightarrow> unit worker_prog" where
  "emit_handoff_note_events n v =
     bind (case nv_started_at_warning v of None \<Rightarrow> Return () | Some w \<Rightarrow> warning ''handoff_note_started_at_invalid'' w n) (\<lambda>_.
     bind (case nv_last_work_commit_warning v of None \<Rightarrow> Return () | Some w \<Rightarrow> warning ''handoff_note_last_work_commit_mistyped'' w n) (\<lambda>_.
     if nv_valid v then Return () else warning ''handoff_note_rejected'' (nv_reason v) n))"

end
