(* ===== verification/Worker_Finalize.thy ===== *)
theory Worker_Finalize
  imports Worker
begin

text \<open>
  The end of an attempt (lifecycle.py): whether a pending operator handoff can complete or holds the attempt, the release
  of the issue, the durable completion boundary, and the boundary that the live attempt and the startup share.
\<close>

section \<open>Completing an operator's handoff\<close>

definition OPERATOR_HANDOFF_REASON :: string where "OPERATOR_HANDOFF_REASON = ''operator_request''"

text \<open>\<open>None\<close> when the branch carries a valid note of the operator's request, else what is wrong.\<close>

definition judged_operator_note :: "int \<Rightarrow> prepared_attempt \<Rightarrow> attempt_commit list \<Rightarrow> string \<Rightarrow> string option worker_prog" where
  "judged_operator_note n p commits attempt_id =
     bind (tried (bind (note_commit_of p n attempt_id) (\<lambda>c. judge_note c commits n p attempt_id))) (\<lambda>judged.
     case judged of
       Inl e \<Rightarrow> Return (Some (''the handoff note could not be validated ('' @ detail_of e @ '')''))
     | Inr v \<Rightarrow> bind (emit_handoff_note_events n v) (\<lambda>_.
         if \<not> nv_valid v then Return (Some (nv_reason v))
         else bind (tried (text_answered (Of_tree (Note_text n)))) (\<lambda>text.
           case text of
             Inl e \<Rightarrow> Return (Some (''the handoff note could not be read ('' @ detail_of e @ '')''))
           | Inr t \<Rightarrow> (let reason = parse_handoff_note_fields t ''reason'' in
               Return (if reason = Some OPERATOR_HANDOFF_REASON then None
                 else Some (''the note cites reason '' @ (case reason of None \<Rightarrow> ''None'' | Some r \<Rightarrow> py_repr r) @ '' instead of''
                   @ '' `'' @ OPERATOR_HANDOFF_REASON @ ''`''))))))"

definition check_operator_note :: "int \<Rightarrow> prepared_attempt option \<Rightarrow> string option worker_prog" where
  "check_operator_note n prepared = (case prepared of
     None \<Rightarrow> Return None
   | Some p \<Rightarrow>
       bind (tried (bind (branch_commits p) (\<lambda>commits. bind stored_checkpoint (\<lambda>c. Return (commits, attempt_id_of c))))) (\<lambda>found.
       case found of
         Inl e \<Rightarrow> Return (Some (''the branch state could not be read ('' @ detail_of e @ '')''))
       | Inr (commits, attempt_id) \<Rightarrow> judged_operator_note n p commits attempt_id))"

text \<open>The cause of a handoff that is not fulfilled; \<open>allowance\<close> is false for the last check after a confirmed publication.\<close>

definition too_late :: "worker \<Rightarrow> handoff_view \<Rightarrow> rat option \<Rightarrow> bool \<Rightarrow> rat \<Rightarrow> string option" where
  "too_late wk h published_at allowance t = (case parse_operator_accepted_at wk (hv_accepted_at h) of
     None \<Rightarrow> Some (''the original acceptance time is unavailable, so the'' @ '' 360-second budget cannot be verified'')
   | Some accepted \<Rightarrow>
       if HANDOFF_ABSOLUTE_DEADLINE_SECONDS < t - accepted
       then Some (''the 360-second budget from acceptance elapsed before'' @ '' publication, release, and cleanup finished''
         @ '' (accepted '' @ (case hv_accepted_at h of None \<Rightarrow> ''None'' | Some a \<Rightarrow> a) @ '')'')
       else (case published_at of
           Some p \<Rightarrow> if allowance \<and> HANDOFF_PUBLICATION_ALLOWANCE_SECONDS < t - p
             then Some (''publication was not confirmed within 120 seconds after'' @ '' the valid local handoff'') else None
         | None \<Rightarrow> None))"

definition handoff_completion_cause ::
  "worker \<Rightarrow> handoff_view \<Rightarrow> int \<Rightarrow> attempt_outcome \<Rightarrow> prepared_attempt option \<Rightarrow> rat option \<Rightarrow> bool \<Rightarrow> string option worker_prog" where
  "handoff_completion_cause wk h n oc prepared published_at allowance =
     bind (check_operator_note n prepared) (\<lambda>problem.
     if oc \<noteq> HANDOFF then Return (Some (''the attempt finalized with the ordinary outcome '' @ outcome_value oc))
     else if \<not> hv_begun h then Return (Some ''model execution never began the handoff skill'')
     else (case problem of
         Some why \<Rightarrow> Return (Some (''the committed handoff note is not a valid operator note ('' @ why @ '')''))
       | None \<Rightarrow> bind now (\<lambda>t. Return (too_late wk h published_at allowance t))))"

text \<open>The snapshot of the handoff, or its unavailability in the log; both readers of it go on without one.\<close>

definition handoff_snapshot :: "int \<Rightarrow> handoff_view option worker_prog" where
  "handoff_snapshot n =
     handle handoff_state (\<lambda>e. if store_trouble e
       then bind (log_line ''operator_handoff_resolution_unavailable'' (detail_of e @ '' The pending handoff keeps waiting;'') ''ERROR'' (Some n))
         (\<lambda>_. Return None)
       else Raise e)"

definition request_of :: "handoff_view \<Rightarrow> string option" where
  "request_of h = nonempty (hv_request_id h)"

definition announce :: "string option \<Rightarrow> unit worker_prog" where
  "announce resolved = (case resolved of None \<Rightarrow> Return () | Some request_id \<Rightarrow> quietly (perform (Of_control (Announce_resolved request_id))))"

definition fail_handoff :: "string \<Rightarrow> string \<Rightarrow> string \<Rightarrow> int \<Rightarrow> unit worker_prog" where
  "fail_handoff request_id cause suffix n =
     bind (ask_maybe (Of_control (Fail_handoff request_id
       (''Operator handoff '' @ request_id @ '' is not fulfilled: '' @ cause @ ''; the''
        @ '' branch, checkpoint, and working tree are retained for recovery'' @ suffix @ ''.'')))) (\<lambda>resolved.
     bind (announce resolved) (\<lambda>_.
     warning ''operator_handoff_not_fulfilled'' (''request='' @ request_id @ ''; '' @ cause) n))"

definition owned_clause :: "string \<Rightarrow> string" where
  "owned_clause attempt_id = ''of attempt '' @ attempt_id @ ''.''"

definition handoff_owned_by_attempt :: "worker \<Rightarrow> string \<Rightarrow> bool worker_prog" where
  "handoff_owned_by_attempt wk attempt_id =
     (if \<not> wk_control wk \<or> attempt_id = [] then Return False
      else handle (bind handoff_state (\<lambda>h. Return (case h of
            None \<Rightarrow> False
          | Some h \<Rightarrow> hv_acknowledgement h = ''not fulfilled''
              \<and> (case hv_detail h of None \<Rightarrow> False | Some d \<Rightarrow> py_contains (owned_clause attempt_id) d))))
        (\<lambda>e. if store_trouble e then Return False else Raise e))"

text \<open>Whether a handoff that cannot complete holds this attempt; an accepted one is failed here.\<close>

definition hold_failed_handoff ::
  "worker \<Rightarrow> int \<Rightarrow> string \<Rightarrow> attempt_outcome \<Rightarrow> prepared_attempt option \<Rightarrow> rat option \<Rightarrow> bool \<Rightarrow> bool worker_prog" where
  "hold_failed_handoff wk n attempt_id oc prepared published_at allowance =
     (if \<not> wk_control wk then Return False
      else bind (handoff_snapshot n) (\<lambda>h. case h of
        None \<Rightarrow> Return False
      | Some h \<Rightarrow>
          if hv_acknowledgement h = ''completed'' then Return False
          else (case request_of h of
              None \<Rightarrow> Return False
            | Some request_id \<Rightarrow>
                if hv_acknowledgement h \<noteq> ''accepted''
                then (if hv_acknowledgement h \<noteq> ''not fulfilled'' then Return False else handoff_owned_by_attempt wk attempt_id)
                else bind (handoff_completion_cause wk h n oc prepared published_at allowance) (\<lambda>cause. case cause of
                    None \<Rightarrow> Return False
                  | Some cause \<Rightarrow> bind (fail_handoff request_id cause ('' of attempt '' @ attempt_id) n) (\<lambda>_. Return True)))))"

text \<open>After the finalization: true when the handoff completed, false when it is not fulfilled, none when there is none.\<close>

definition resolve_pending_handoff ::
  "worker \<Rightarrow> int \<Rightarrow> string option \<Rightarrow> attempt_outcome \<Rightarrow> prepared_attempt option \<Rightarrow> rat option \<Rightarrow> bool \<Rightarrow> bool option worker_prog" where
  "resolve_pending_handoff wk n attempt_id oc prepared published_at allowance =
     (if \<not> wk_control wk then Return None
      else bind (handoff_snapshot n) (\<lambda>h. case h of
        None \<Rightarrow> Return None
      | Some h \<Rightarrow>
          if hv_acknowledgement h = ''completed'' then Return (Some True)
          else if hv_acknowledgement h \<noteq> ''accepted''
          then Return (if hv_acknowledgement h = ''not fulfilled'' then Some False else None)
          else (case request_of h of
              None \<Rightarrow> Return None
            | Some request_id \<Rightarrow> bind (handoff_completion_cause wk h n oc prepared published_at allowance) (\<lambda>cause. case cause of
                None \<Rightarrow>
                  bind (ask_maybe (Of_control (Complete_handoff request_id
                    (''operator handoff fulfilled for issue #'' @ str_of_int n @ '': a valid''
                     @ '' `operator_request` handoff note was published, the issue was'' @ '' released, and cleanup is durable'')))) (\<lambda>resolved.
                  bind (announce resolved) (\<lambda>_.
                  bind (info ''operator_handoff_completed'' (''request='' @ request_id @ ''; issue #'' @ str_of_int n @ '' handed off'') n) (\<lambda>_.
                  Return (Some True))))
              | Some cause \<Rightarrow>
                  bind (fail_handoff request_id cause (case nonempty attempt_id of None \<Rightarrow> [] | Some a \<Rightarrow> '' of attempt '' @ a) n) (\<lambda>_.
                  Return (Some False))))))"

text \<open>A pending handoff whose attempt is gone; the caller holds the control lock.\<close>

definition fail_orphan_handoff :: "worker \<Rightarrow> unit worker_prog" where
  "fail_orphan_handoff wk =
     (if \<not> wk_control wk then Return ()
      else bind handoff_state (\<lambda>h. case h of
        None \<Rightarrow> Return ()
      | Some h \<Rightarrow>
          if hv_acknowledgement h \<noteq> ''accepted'' then Return ()
          else (case request_of h of
              None \<Rightarrow> Return ()
            | Some request_id \<Rightarrow>
                bind (ask_maybe (Of_control (Fail_handoff request_id
                  (''Operator handoff '' @ request_id @ '' is not fulfilled: the active''
                   @ '' attempt ended without finalizing through the agent, so no model'' @ '' execution can still observe the request.'')))) (\<lambda>resolved.
                bind (announce resolved) (\<lambda>_.
                log_line ''operator_handoff_not_fulfilled'' (''request='' @ request_id @ ''; the active attempt is gone'') ''WARNING'' None)))))"


section \<open>Release\<close>

definition release :: "claim \<Rightarrow> attempt_outcome \<Rightarrow> checkpoint option \<Rightarrow> unit worker_prog" where
  "release cl oc c =
     (let n = ti_number (cl_issue cl); assignee = as_assignee_id (cl_assignment cl) in
      if oc = HANDOFF then perform (Of_queue (Release_handed_off n assignee))
      else if (case c of Some c \<Rightarrow> is_conflict_attempt c | None \<Rightarrow> is_conflict_claim (ti_labels (cl_issue cl)))
      then perform (Of_queue (Release_with n MERGE_CONFLICT assignee))
      else perform (Of_queue (Release_with n ''ready-for-agent'' assignee)))"


section \<open>The durable boundary\<close>

text \<open>The names of paths that make the tree dirty, as every hold on a dirty tree shows them.\<close>

definition DIRTY_PATH_DISPLAY_LIMIT :: nat where "DIRTY_PATH_DISPLAY_LIMIT = 5"

definition dirty_path_list :: "string worker_prog" where
  "dirty_path_list =
     bind (tried (ask_strings (Of_tree Dirty_list))) (\<lambda>r.
     Return (case r of
       Inl e \<Rightarrow> []
     | Inr paths \<Rightarrow>
         if paths = [] then []
         else py_join '', '' (take DIRTY_PATH_DISPLAY_LIMIT paths)
           @ (if DIRTY_PATH_DISPLAY_LIMIT < length paths
              then '' (and '' @ str_of_nat (length paths - DIRTY_PATH_DISPLAY_LIMIT) @ '' more)'' else [])))"

definition dirty_paths_suffix :: "string worker_prog" where
  "dirty_paths_suffix = bind dirty_path_list (\<lambda>listed. Return (if listed = [] then [] else ''; offending paths: '' @ listed @ ''.''))"

definition note_dirty_attempt :: "unit worker_prog" where
  "note_dirty_attempt = quietly (bind stored_checkpoint (\<lambda>c. perform (Of_log (Note_dirty (attempt_id_of c)))))"

definition emit_workspace_hold :: "int \<Rightarrow> worker_failure \<Rightarrow> unit worker_prog" where
  "emit_workspace_hold n e =
     bind note_dirty_attempt (\<lambda>_.
     bind dirty_paths_suffix (\<lambda>suffix.
     warning ''workspace_hold'' (detail_of e @ '' The branch, checkpoint, and working tree ''
       @ ''are preserved for inspection; issue intake is held until the '' @ ''workspace is repaired by an operator''
       @ (if suffix = [] then ''.'' else suffix)) n))"

definition hold_dirty_workspace :: "int \<Rightarrow> worker_failure \<Rightarrow> unit worker_prog" where
  "hold_dirty_workspace n e = bind note_dirty_attempt (\<lambda>_. emit_workspace_hold n e)"

text \<open>The error counter, and the halt of the whole Worker when it reaches its limit.\<close>

definition record_halt :: "worker \<Rightarrow> string \<Rightarrow> string \<Rightarrow> unit worker_prog" where
  "record_halt wk reason detail =
     bind (quietly (log_line ''halted'' reason ''ERROR'' None)) (\<lambda>_.
     if \<not> wk_halts wk then Return ()
     else bind (tried (perform (Of_store (Keep_halt reason detail)))) (\<lambda>r.
       case r of Inl e \<Rightarrow> log_line ''halt_record_failed'' (detail_of e) ''WARNING'' None | Inr u \<Rightarrow> Return ()))"

definition record_terminal_outcome :: "worker \<Rightarrow> attempt_outcome \<Rightarrow> string \<Rightarrow> int \<Rightarrow> unit worker_prog" where
  "record_terminal_outcome wk oc attempt_id n =
     (if \<not> wk_errors wk then Return ()
      else bind (ask_number (Of_store (Count_error oc attempt_id))) (\<lambda>count.
        if count < wk_max_consecutive_errors wk then Return ()
        else let detail = str_of_int count @ '' consecutive infrastructure errors reached the limit'' @ '' of ''
               @ str_of_int (wk_max_consecutive_errors wk) @ '' (attempt '' @ attempt_id @ '')''
          in bind (log_line ''consecutive_error_limit_reached'' detail ''ERROR'' (Some n)) (\<lambda>_.
             bind (record_halt wk ''consecutive_error_limit_reached'' detail) (\<lambda>_. Raise (System_exit 1)))))"

primrec announce_stops :: "string list \<Rightarrow> unit worker_prog" where
  "announce_stops [] = Return ()"
| "announce_stops (request_id # rest) =
     bind (log_line ''intake_stopped'' (''stop plan '' @ request_id @ '' completed after the final counted attempt finished'') ''INFO'' None) (\<lambda>_.
     bind (quietly (perform (Of_control (Announce_resolved request_id)))) (\<lambda>_. announce_stops rest))"

definition record_control_finalization :: "worker \<Rightarrow> string \<Rightarrow> attempt_outcome \<Rightarrow> unit worker_prog" where
  "record_control_finalization wk attempt_id oc =
     (if \<not> wk_control wk then Return ()
      else bind (ask_strings (Of_control (Count_finalized attempt_id oc))) announce_stops)"

text \<open>The order matters: accounting and ledger first, the checkpoint is removed last.\<close>

definition commit_finalization ::
  "worker \<Rightarrow> checkpoint \<Rightarrow> int \<Rightarrow> string \<Rightarrow> attempt_outcome \<Rightarrow> bool \<Rightarrow> bool \<Rightarrow> unit worker_prog" where
  "commit_finalization wk c n branch oc archived released_only =
     (let attempt_id = ck_started_at c in
      bind (record_terminal_outcome wk oc attempt_id n) (\<lambda>_.
      bind (if archived then perform (Of_log (Write_archive ''outcome'')) else Return ()) (\<lambda>_.
      bind (if archived then quietly (perform (Of_log (Write_archive ''pull_request''))) else Return ()) (\<lambda>_.
      bind (if wk_completions wk then perform (Of_store (Record_finished attempt_id n branch oc)) else Return ()) (\<lambda>_.
      bind (info ''outcome_recorded'' (outcome_value oc) n) (\<lambda>_.
      bind (record_control_finalization wk attempt_id oc) (\<lambda>_.
      bind (info ''attempt_finished'' [] n) (\<lambda>_.
      bind (if released_only \<and> archived then quietly (perform (Of_log (Write_archive ''lifecycle_state''))) else Return ()) (\<lambda>_.
      bind (perform (Of_attempt Delete_attempt)) (\<lambda>_.
      bind (if archived then quietly (perform (Of_log (Seal_archive attempt_id))) else Return ()) (\<lambda>_.
      quietly (perform (Of_log (Telemetry ''finish''))))))))))))))"


section \<open>The boundary of an attempt\<close>

text \<open>What the attempt's branches leave for its end.\<close>

record run_locals =
  rl_prepared :: "prepared_attempt option"
  rl_profile :: "repository_profile option"
  rl_outcome :: attempt_outcome
  rl_posted :: bool
  rl_retain :: bool
  rl_published_at :: "rat option"

definition fresh_locals :: run_locals where
  "fresh_locals = \<lparr>rl_prepared = None, rl_profile = None, rl_outcome = INFRASTRUCTURE_ERROR, rl_posted = True, rl_retain = False,
     rl_published_at = None\<rparr>"

definition clean_up :: "string \<Rightarrow> int \<Rightarrow> run_locals \<Rightarrow> bool \<Rightarrow> bool worker_prog" where
  "clean_up attempt_id n l hold =
     (if rl_prepared l = None \<or> hold then Return (rl_prepared l = None)
      else handle (bind (perform (Of_tree (Clean_up (case rl_profile l of Some pf \<Rightarrow> pf_base_branch pf | None \<Rightarrow> ''main'')))) (\<lambda>_.
          bind (quietly (perform (Of_log (Observe_dirty attempt_id)))) (\<lambda>_. Return True)))
        (\<lambda>e. if is_dirty e then bind (hold_dirty_workspace n e) (\<lambda>_. Return False) else Raise e))"

definition finish_or_hold ::
  "worker \<Rightarrow> checkpoint \<Rightarrow> int \<Rightarrow> string \<Rightarrow> bool \<Rightarrow> run_locals \<Rightarrow> bool \<Rightarrow> bool \<Rightarrow> bool \<Rightarrow> unit worker_prog" where
  "finish_or_hold wk c n fallback archived l released cleaned hold =
     (let ready = (rl_posted l \<and> released \<and> cleaned \<and> \<not> hold); attempt_id = ck_started_at c in
      bind (if ready then hold_failed_handoff wk n attempt_id (rl_outcome l) (rl_prepared l) (rl_published_at l) False else Return hold) (\<lambda>held.
      bind (if ready \<and> \<not> held
        then bind (commit_finalization wk c n (case rl_prepared l of Some p \<Rightarrow> pa_branch p | None \<Rightarrow> fallback) (rl_outcome l) archived False) (\<lambda>_.
             bind (resolve_pending_handoff wk n (Some attempt_id) (rl_outcome l) (rl_prepared l) (rl_published_at l) False) (\<lambda>_. Return ()))
        else warning ''attempt_finalization_held'' (''Publication, release, or cleanup is unconfirmed, or a failed''
          @ '' operator handoff owns this attempt; the branch, '' @ ''checkpoint, and working tree are preserved for recovery.'') n) (\<lambda>_.
      perform (Of_log (Set_processing False)))))"

text \<open>
  The \<open>finally\<close> of an attempt: release, then cleanup, then the finalization, each only when the one before is
  confirmed; what was raised on the way is raised again at the end.
\<close>

definition complete_boundary :: "worker \<Rightarrow> claim \<Rightarrow> checkpoint \<Rightarrow> string \<Rightarrow> bool \<Rightarrow> run_locals \<Rightarrow> unit worker_prog" where
  "complete_boundary wk cl c fallback archived l =
     (let n = ti_number (cl_issue cl); attempt_id = ck_started_at c in
      bind (if rl_posted l then hold_failed_handoff wk n attempt_id (rl_outcome l) (rl_prepared l) (rl_published_at l) True else Return False) (\<lambda>hold.
      bind (ended (if rl_posted l \<and> \<not> hold then bind (release cl (rl_outcome l) (Some c)) (\<lambda>_. Return True) else Return False)) (\<lambda>released.
      bind (ended (clean_up attempt_id n l hold)) (\<lambda>cleaned.
      bind (finish_or_hold wk c n fallback archived l (released = Inr True) (cleaned = Inr True) hold) (\<lambda>_.
      raised_or cleaned (raised_or released (Return ())))))))"

end
