(* ===== verification/Worker_Run.thy ===== *)
theory Worker_Run
  imports Worker_Finalize
begin

text \<open>
  One attempt from its claim to its end (lifecycle.py, \<open>AgentLifecycle.run_once\<close>): the conflict path, the ordinary
  path, what each class of exception does, and the boundary that every way out passes. The local variables which the
  handlers and the \<open>finally\<close> read are carried along with an exception.
\<close>

section \<open>Publishing\<close>

definition published_by :: "worker_call \<Rightarrow> publication_result worker_prog" where
  "published_by q = ask q (got (\<lambda>r. case r of The_result x \<Rightarrow> Some x | _ \<Rightarrow> None))"

definition archive_pull_request :: "int \<Rightarrow> string \<Rightarrow> unit worker_prog" where
  "archive_pull_request n attempt_id =
     bind (tried (bind (the_archive n attempt_id) (\<lambda>archived.
       if archived then perform (Of_log (Write_archive ''pull_request'')) else Return ()))) (\<lambda>r.
     case r of
       Inl e \<Rightarrow> warning ''archive_pull_request_failed'' (''the pull request could not be archived: '' @ worker_failure_text e) n
     | Inr u \<Rightarrow> Return ())"

text \<open>What follows each publication: the result for the telemetry, the archive, the state of the tree.\<close>

definition remember_publication :: "int \<Rightarrow> string \<Rightarrow> publication_result \<Rightarrow> publication_result worker_prog" where
  "remember_publication n attempt_id r =
     bind (quietly (perform (Of_log (Remember attempt_id r)))) (\<lambda>_.
     bind (archive_pull_request n attempt_id) (\<lambda>_.
     bind (quietly (perform (Of_log (Observe_dirty attempt_id)))) (\<lambda>_.
     Return r)))"

definition publish_bounded :: "worker \<Rightarrow> publication_request \<Rightarrow> publication_result worker_prog" where
  "publish_bounded wk rq =
     bind (handoff_publish_budget wk) (\<lambda>budget.
     bind (published_by (Of_publisher (Publish_result rq budget)))
       (remember_publication (pr_issue_number rq) (pr_started_at rq)))"

definition publish_conflict_bounded :: "worker \<Rightarrow> conflict_request \<Rightarrow> claim \<Rightarrow> publication_result worker_prog" where
  "publish_conflict_bounded wk rq cl =
     bind (of_conflict (stamp_conflict_budget (wk_conflict wk) cl rq)) (\<lambda>stamped.
     bind (handoff_publish_budget wk) (\<lambda>budget.
     bind (published_by (Of_publisher (Publish_conflict_result stamped budget))) (\<lambda>published.
     bind (of_conflict (escalate_to_human cl published (rs_escalated published))) (\<lambda>_.
     remember_publication (cq_issue_number rq) (cq_started_at rq) published))))"

definition TERMINAL_DETAILS :: string where
  "TERMINAL_DETAILS = ''Repository profile could not be loaded or the attempt could not start.''"

text \<open>The request of an attempt that ends without evidence.\<close>

definition terminal_request :: "worker \<Rightarrow> claim \<Rightarrow> checkpoint \<Rightarrow> run_locals \<Rightarrow> attempt_outcome \<Rightarrow> string \<Rightarrow> publication_request" where
  "terminal_request wk cl c l oc details =
     \<lparr>pr_issue_number = ti_number (cl_issue cl), pr_issue_title = ti_title (cl_issue cl),
      pr_branch = (case rl_prepared l of Some p \<Rightarrow> pa_branch p | None \<Rightarrow> ''agent/issue-'' @ str_of_int (ti_number (cl_issue cl))),
      pr_started_at = ck_started_at c,
      pr_decision = \<lparr>cd_outcome = Some oc, cd_publication_eligible = False, cd_publication_path = PATH_NONE, cd_reasons = [details]\<rparr>,
      pr_check = no_check, pr_review_cycles = 0, pr_review_findings = ''not run'', pr_details = details,
      pr_base_branch = (case rl_profile l of Some pf \<Rightarrow> pf_base_branch pf | None \<Rightarrow> ''main''), pr_note_commit_sha = None,
      pr_auto_merge_opt_in = claim_time_opt_in cl (Some c), pr_reviews_performed = 0,
      pr_requeue_source = claim_time_requeue_source cl (Some c), pr_handoff_continuation_count = None,
      pr_handoff_notify = False, pr_worker_id = cw_worker_id (wk_conflict wk)\<rparr>"

definition publish_terminal :: "worker \<Rightarrow> claim \<Rightarrow> checkpoint \<Rightarrow> run_locals \<Rightarrow> attempt_outcome \<Rightarrow> string \<Rightarrow> publication_result worker_prog" where
  "publish_terminal wk cl c l oc details =
     bind (handoff_publish_budget wk) (\<lambda>budget.
     bind (published_by (Of_publisher (Publish_result (terminal_request wk cl c l oc details) budget)))
       (remember_publication (ti_number (cl_issue cl)) (ck_started_at c)))"

definition publish_rebase_conflict :: "worker \<Rightarrow> claim \<Rightarrow> checkpoint \<Rightarrow> run_locals \<Rightarrow> worker_failure \<Rightarrow> publication_result worker_prog" where
  "publish_rebase_conflict wk cl c l e =
     bind (handoff_publish_budget wk) (\<lambda>budget.
     bind (log_line ''rebase_conflict'' (detail_of e) ''ERROR'' (Some (ti_number (cl_issue cl)))) (\<lambda>_.
     bind (published_by (Of_publisher (Publish_result (terminal_request wk cl c l INFRASTRUCTURE_ERROR
         (worker_failure_text e @ '' '' @ ''Setup was not started so the failure is reported here '' @ ''instead of as an unrelated setup error.'')) budget)))
       (remember_publication (ti_number (cl_issue cl)) (ck_started_at c))))"


section \<open>What a handoff reports\<close>

definition auto_continuation_count :: "tracker_issue \<Rightarrow> int worker_prog" where
  "auto_continuation_count issue = ask_number (Of_queue (Automatic_count issue))"

definition auto_continuation_status_line :: "worker \<Rightarrow> claim \<Rightarrow> checkpoint \<Rightarrow> string option worker_prog" where
  "auto_continuation_status_line wk cl c =
     (let budget = wk_max_auto_continuations wk in
      if budget \<le> 0 then Return None
      else bind (tried (auto_continuation_count (cl_issue cl))) (\<lambda>found. case found of
        Inl e \<Rightarrow> Return None
      | Inr before \<Rightarrow>
          (let used = (if claim_time_requeue_source cl (Some c) = REQUEUE_SOURCE_AUTOMATIC then before + 1 else 0);
               standing = ''Automatic continuation '' @ str_of_int (min used budget) @ ''/'' @ str_of_int budget
           in Return (Some (if budget \<le> used
                then standing @ '' used; the automatic'' @ '' continuation budget is exhausted and the issue now needs a''
                  @ '' human requeue (re-apply `ready-for-agent`) before the agent'' @ '' can continue it.''
                else standing @ '' used; the agent will'' @ '' continue automatically.'')))))"

definition handoff_publication_details ::
  "worker \<Rightarrow> claim \<Rightarrow> checkpoint \<Rightarrow> string \<Rightarrow> attempt_outcome option \<Rightarrow> string worker_prog" where
  "handoff_publication_details wk cl c details oc =
     (if oc \<noteq> Some HANDOFF then Return details
      else bind (auto_continuation_status_line wk cl c) (\<lambda>line. Return (case line of
          None \<Rightarrow> details
        | Some t \<Rightarrow> if details = [] then t else details @ nl @ nl @ t)))"

definition handoff_needs_notification :: "worker \<Rightarrow> claim \<Rightarrow> checkpoint \<Rightarrow> bool worker_prog" where
  "handoff_needs_notification wk cl c =
     (if wk_max_auto_continuations wk \<le> 0 then Return False
      else bind (tried (auto_continuation_count (cl_issue cl))) (\<lambda>found. Return (case found of
          Inl e \<Rightarrow> True
        | Inr before \<Rightarrow> wk_max_auto_continuations wk
            \<le> (if claim_time_requeue_source cl (Some c) = REQUEUE_SOURCE_AUTOMATIC then before + 1 else 0))))"

definition stored_handoff_continuation :: "checkpoint \<Rightarrow> int option worker_prog" where
  "stored_handoff_continuation c =
     bind (tried (ask (Of_publisher (Stored_intent_of (ck_started_at c))) (got (\<lambda>r. case r of The_intent i \<Rightarrow> Some i | _ \<Rightarrow> None)))) (\<lambda>found.
     Return (case found of
       Inr (Some i) \<Rightarrow> if hr_continuation_count i < 0 then None else Some (hr_continuation_count i)
     | _ \<Rightarrow> None))"

definition handoff_continuation_used :: "claim \<Rightarrow> checkpoint \<Rightarrow> int option worker_prog" where
  "handoff_continuation_used cl c =
     (if claim_time_requeue_source cl (Some c) \<noteq> REQUEUE_SOURCE_AUTOMATIC then Return (Some 0)
      else bind (tried (bind (stored_handoff_continuation c) (\<lambda>stored. case stored of
          Some k \<Rightarrow> Return k
        | None \<Rightarrow> bind (auto_continuation_count (cl_issue cl)) (\<lambda>k. Return (k + 1))))) (\<lambda>r.
        Return (case r of Inl e \<Rightarrow> None | Inr k \<Rightarrow> Some k)))"


section \<open>The attempt\<close>

text \<open>A program whose exceptions carry the local variables at the place where they were raised.\<close>

type_synonym 'a attempt_body = "(worker_call, worker_answer, worker_failure \<times> run_locals, 'a) prog"

definition with_locals :: "'l \<Rightarrow> 'a worker_prog \<Rightarrow> (worker_call, worker_answer, worker_failure \<times> 'l, 'a) prog" where
  "with_locals l m = embed (\<lambda>q. q) Inr (\<lambda>e. (e, l)) m"

text \<open>The time before a publication, and the publication; \<open>f\<close> sets what its result decides.\<close>

definition published_then ::
  "run_locals \<Rightarrow> (run_locals \<Rightarrow> publication_result worker_prog) \<Rightarrow> (publication_result \<Rightarrow> run_locals \<Rightarrow> run_locals) \<Rightarrow> run_locals attempt_body" where
  "published_then l publish f =
     bind (with_locals l now) (\<lambda>t.
     let l = l\<lparr>rl_published_at := Some t\<rparr> in
     bind (with_locals l (publish l)) (\<lambda>r. Return (f r l)))"

definition conflict_result_locals :: "publication_result \<Rightarrow> run_locals \<Rightarrow> run_locals" where
  "conflict_result_locals r l = l\<lparr>rl_outcome := rs_outcome r, rl_posted := rs_comment_posted r,
     rl_retain := (rs_branch_url r = None \<and> rs_outcome r = INFRASTRUCTURE_ERROR)\<rparr>"

definition conflict_published ::
  "worker \<Rightarrow> claim \<Rightarrow> conflict_request \<Rightarrow> prepared_attempt option \<Rightarrow> repository_profile option \<Rightarrow> run_locals attempt_body" where
  "conflict_published wk cl rq prepared profile =
     published_then (fresh_locals\<lparr>rl_prepared := prepared, rl_profile := profile\<rparr>)
       (\<lambda>l. publish_conflict_bounded wk rq cl) conflict_result_locals"

definition conflict_body :: "worker \<Rightarrow> claim \<Rightarrow> checkpoint \<Rightarrow> run_locals attempt_body" where
  "conflict_body wk cl c =
     bind (with_locals fresh_locals (of_conflict (execute_conflict_attempt (wk_conflict wk) cl c))) (\<lambda>(rq, prepared, profile).
     conflict_published wk cl rq prepared profile)"

definition ready_branch :: "string \<Rightarrow> int \<Rightarrow> prepared_attempt worker_prog" where
  "ready_branch base n = ask (Of_tree (Ready_branch base n)) (got (\<lambda>r. case r of The_branch p \<Rightarrow> Some p | _ \<Rightarrow> None))"

definition load_profile :: "int \<Rightarrow> repository_profile worker_prog" where
  "load_profile n =
     bind (perform (Of_tree (Ready_base ''main''))) (\<lambda>_.
     bind (info ''workspace_prepared_for_profile_read'' ''base_branch=main'' n) (\<lambda>_.
     bind (ask (Of_tree Get_profile) (got (\<lambda>r. case r of The_profile pf \<Rightarrow> Some pf | _ \<Rightarrow> None))) (\<lambda>pf.
     bind (info ''profile_loaded'' (''base_branch='' @ pf_base_branch pf) n) (\<lambda>_.
     Return pf))))"

definition enter_setup :: "prepared_attempt \<Rightarrow> repository_profile \<Rightarrow> int \<Rightarrow> unit worker_prog" where
  "enter_setup p pf n =
     bind (of_conflict (record_lease p n)) (\<lambda>_.
     bind (info ''workspace_prepared'' (''branch='' @ pa_branch p @ ''; base_branch='' @ pf_base_branch pf
       @ (if pa_rebase_conflicts p = [] then [] else ''; rebase_conflicts='' @ py_join '', '' (pa_rebase_conflicts p))) n) (\<lambda>_.
     bind (perform (Of_attempt (Enter SETUP))) (\<lambda>_.
     info ''attempt_phase_transitioned'' (''phase='' @ phase_value SETUP) n)))"

definition evidence_request :: "worker \<Rightarrow> claim \<Rightarrow> checkpoint \<Rightarrow> prepared_attempt \<Rightarrow> repository_profile \<Rightarrow> attempt_evidence \<Rightarrow> publication_request worker_prog" where
  "evidence_request wk cl c p pf ev =
     (let oc = cd_outcome (ae_decision ev) in
      bind (handoff_publication_details wk cl c (ae_details ev) oc) (\<lambda>details.
      bind (if oc = Some HANDOFF then handoff_continuation_used cl c else Return None) (\<lambda>used.
      bind (if oc = Some HANDOFF then handoff_needs_notification wk cl c else Return False) (\<lambda>notify.
      Return \<lparr>pr_issue_number = ti_number (cl_issue cl), pr_issue_title = ti_title (cl_issue cl), pr_branch = pa_branch p,
        pr_started_at = ck_started_at c, pr_decision = ae_decision ev, pr_check = ae_check ev,
        pr_review_cycles = ae_review_cycles ev, pr_review_findings = ae_review_findings ev, pr_details = details,
        pr_base_branch = pf_base_branch pf, pr_note_commit_sha = ae_note_commit_sha ev,
        pr_auto_merge_opt_in = claim_time_opt_in cl (Some c), pr_reviews_performed = ae_reviews_performed ev,
        pr_requeue_source = claim_time_requeue_source cl (Some c), pr_handoff_continuation_count = used,
        pr_handoff_notify = notify, pr_worker_id = cw_worker_id (wk_conflict wk)\<rparr>))))"

definition evidence_locals :: "completion_decision \<Rightarrow> publication_result \<Rightarrow> run_locals \<Rightarrow> run_locals" where
  "evidence_locals d r l = l\<lparr>rl_outcome := rs_outcome r, rl_posted := publication_confirmed r,
     rl_retain := (rs_branch_url r = None \<and> (rs_outcome r = INFRASTRUCTURE_ERROR
       \<or> rs_outcome r = INCOMPLETE \<and> cd_publication_path d = PATH_PARTIAL))\<rparr>"

definition run_attempt :: "claim \<Rightarrow> repository_profile \<Rightarrow> prepared_attempt \<Rightarrow> attempt_evidence worker_prog" where
  "run_attempt cl pf p = ask (Run_attempt cl pf p) (got (\<lambda>r. case r of The_evidence ev \<Rightarrow> Some ev | _ \<Rightarrow> None))"

definition ordinary_body :: "worker \<Rightarrow> claim \<Rightarrow> checkpoint \<Rightarrow> run_locals attempt_body" where
  "ordinary_body wk cl c =
     (let n = ti_number (cl_issue cl); l = fresh_locals in
      bind (with_locals l (load_profile n)) (\<lambda>pf.
      let l = l\<lparr>rl_profile := Some pf\<rparr> in
      bind (with_locals l (ready_branch (pf_base_branch pf) n)) (\<lambda>p.
      let l = l\<lparr>rl_prepared := Some p\<rparr> in
      bind (with_locals l (enter_setup p pf n)) (\<lambda>_.
      if \<not> wk_runner wk
      then published_then l (\<lambda>l. publish_terminal wk cl c l INFRASTRUCTURE_ERROR TERMINAL_DETAILS)
             (\<lambda>r l. l\<lparr>rl_outcome := INFRASTRUCTURE_ERROR, rl_posted := rs_comment_posted r\<rparr>)
      else bind (with_locals l (run_attempt cl pf p)) (\<lambda>ev.
        published_then l (\<lambda>l. bind (evidence_request wk cl c p pf ev) (publish_bounded wk)) (evidence_locals (ae_decision ev)))))))"


section \<open>Exceptions of an attempt\<close>

text \<open>Nothing is published and nothing is cleaned up: the attempt is held.\<close>

definition held_with :: "run_locals \<Rightarrow> unit worker_prog \<Rightarrow> run_locals attempt_body" where
  "held_with l m = bind (with_locals l m) (\<lambda>_. Return (l\<lparr>rl_posted := False, rl_prepared := None\<rparr>))"

definition report_dirty :: "int \<Rightarrow> string \<Rightarrow> worker_failure \<Rightarrow> unit worker_prog" where
  "report_dirty n attempt_id e =
     bind (quietly (perform (Of_log (Note_dirty attempt_id)))) (\<lambda>_.
     warning ''workspace_hold'' (detail_of e @ '' The branch, checkpoint, and working tree ''
       @ ''are preserved for inspection; issue intake is held until the '' @ ''workspace is repaired by an operator.'') n)"

text \<open>A publication from a handler; an ordinary attempt keeps its outcome, a conflict attempt takes the result's.\<close>

definition report_failure ::
  "worker \<Rightarrow> claim \<Rightarrow> checkpoint \<Rightarrow> bool \<Rightarrow> worker_failure \<Rightarrow> run_locals \<Rightarrow> run_locals attempt_body" where
  "report_failure wk cl c conflict e l =
     (if conflict
      then published_then l (\<lambda>l. publish_conflict_bounded wk
               (conflict_error_request (wk_conflict wk) cl c (rl_prepared l) (rl_profile l) (detail_of e)) cl)
             (\<lambda>r l. l\<lparr>rl_outcome := rs_outcome r, rl_posted := rs_comment_posted r\<rparr>)
      else published_then l (\<lambda>l. publish_terminal wk cl c l (rl_outcome l) TERMINAL_DETAILS)
             (\<lambda>r l. l\<lparr>rl_posted := rs_comment_posted r\<rparr>))"

definition abort_defensively :: "int \<Rightarrow> run_locals \<Rightarrow> unit worker_prog" where
  "abort_defensively n l = (case rl_prepared l of
     None \<Rightarrow> Return ()
   | Some p \<Rightarrow> bind (tried (perform (Of_tree (Abort_branch p)))) (\<lambda>r. case r of
       Inl e \<Rightarrow> warning ''conflict_abort_failed'' (detail_of e) n
     | Inr u \<Rightarrow> Return ()))"

definition report_rebase ::
  "worker \<Rightarrow> claim \<Rightarrow> checkpoint \<Rightarrow> bool \<Rightarrow> worker_failure \<Rightarrow> string list \<Rightarrow> run_locals \<Rightarrow> run_locals attempt_body" where
  "report_rebase wk cl c conflict e files l =
     (if conflict
      then published_then l (\<lambda>l. bind (abort_defensively (ti_number (cl_issue cl)) l) (\<lambda>_. publish_conflict_bounded wk
               (conflict_rebase_request (wk_conflict wk) cl c (rl_prepared l) (rl_profile l) None files) cl))
             (\<lambda>r l. l\<lparr>rl_outcome := rs_outcome r, rl_posted := rs_comment_posted r\<rparr>)
      else published_then l (\<lambda>l. publish_rebase_conflict wk cl c l e)
             (\<lambda>r l. l\<lparr>rl_outcome := INFRASTRUCTURE_ERROR, rl_posted := rs_comment_posted r\<rparr>))"

text \<open>The handlers in the order of the code.\<close>

definition on_failure :: "worker \<Rightarrow> claim \<Rightarrow> checkpoint \<Rightarrow> bool \<Rightarrow> worker_failure \<Rightarrow> run_locals \<Rightarrow> run_locals attempt_body" where
  "on_failure wk cl c conflict e l =
     (let n = ti_number (cl_issue cl);
          log_exception = with_locals l (log_line ''attempt_exception'' (detail_of e) ''ERROR'' (Some n))
      in if is_dirty e then held_with l (report_dirty n (ck_started_at c) e)
      else if is_unrecoverable e then held_with l (log_line ''git_workspace_unrecoverable'' (detail_of e) ''ERROR'' (Some n))
      else (case e of
          System_exit k \<Rightarrow> Raise (e, l)
        | Rebase_failed m files \<Rightarrow> report_rebase wk cl c conflict e files l
        | Interrupt k m \<Rightarrow>
            bind log_exception (\<lambda>_.
            bind (handle (report_failure wk cl c conflict e l)
                (\<lambda>(e', l'). if is_exception e' then Return (l'\<lparr>rl_posted := False\<rparr>) else Raise (e', l'))) (\<lambda>l'.
            Raise (e, l')))
        | _ \<Rightarrow> bind log_exception (\<lambda>_. report_failure wk cl c conflict e l)))"

text \<open>The end of the \<open>try\<close>: the local variables, and what was raised, if anything.\<close>

primrec settle :: "('q, 'r, 'e \<times> 'l, 'l) prog \<Rightarrow> ('q, 'r, 'f, 'e option \<times> 'l) prog" where
  "settle (Return l) = Return (None, l)"
| "settle (Raise x) = Return (Some (fst x), snd x)"
| "settle (Call q k) = Call q (\<lambda>r. settle (k r))"

definition attempt_to_boundary :: "worker \<Rightarrow> claim \<Rightarrow> checkpoint \<Rightarrow> (worker_failure option \<times> run_locals) worker_prog" where
  "attempt_to_boundary wk cl c =
     (let conflict = is_conflict_claim (ti_labels (cl_issue cl)) in
      settle (handle (if conflict then conflict_body wk cl c else ordinary_body wk cl c)
        (\<lambda>(e, l). on_failure wk cl c conflict e l)))"

text \<open>\<open>finally\<close>, the exception that was on its way, and the outcome.\<close>

definition end_attempt ::
  "worker \<Rightarrow> claim \<Rightarrow> checkpoint \<Rightarrow> string \<Rightarrow> bool \<Rightarrow> worker_failure option \<times> run_locals \<Rightarrow> attempt_outcome worker_prog" where
  "end_attempt wk cl c fallback archived reached =
     bind (complete_boundary wk cl c fallback archived (snd reached)) (\<lambda>_.
     case fst reached of
       Some e \<Rightarrow> Raise e
     | None \<Rightarrow> bind (perform (Of_log (Set_active None))) (\<lambda>_. Return (rl_outcome (snd reached))))"

definition process_claim :: "worker \<Rightarrow> claim \<Rightarrow> checkpoint \<Rightarrow> attempt_outcome worker_prog" where
  "process_claim wk cl c =
     (let n = ti_number (cl_issue cl) in
      bind (info ''issue_claimed'' (''title='' @ py_repr (ti_title (cl_issue cl))) n) (\<lambda>_.
      bind (perform (Of_log (Set_active (Some n)))) (\<lambda>_.
      bind (the_archive n (ck_started_at c)) (\<lambda>archived.
      bind (attempt_to_boundary wk cl c) (end_attempt wk cl c (''agent/issue-'' @ str_of_int n) archived)))))"

end
