(* ===== verification/Worker_Run_Props.thy ===== *)
theory Worker_Run_Props
  imports Worker_Run
begin

text \<open>
  What the end of an attempt promises. A trace of the calls records the last publication, the release, the prepared
  branch, its cleanup and a failed handoff; it is sound as long as the checkpoint was removed only when all of them
  stood as the boundary demands.
\<close>

section \<open>The trace\<close>

record end_trace =
  et_posted :: bool
  et_released :: bool
  et_ready :: bool
  et_cleaned :: bool
  et_failed :: bool
  et_sound :: bool

definition end_start :: end_trace where
  "end_start = \<lparr>et_posted = False, et_released = False, et_ready = False, et_cleaned = False, et_failed = False, et_sound = True\<rparr>"

definition confirmed :: "worker_answer \<Rightarrow> bool" where
  "confirmed r = (case r of Threw e \<Rightarrow> False | _ \<Rightarrow> True)"

definition posted_in :: "worker_answer \<Rightarrow> bool" where
  "posted_in r = (case r of The_result x \<Rightarrow> rs_comment_posted x | _ \<Rightarrow> False)"

definition removal_sound :: "end_trace \<Rightarrow> bool" where
  "removal_sound s \<longleftrightarrow> et_posted s \<and> et_released s \<and> (et_ready s \<longrightarrow> et_cleaned s) \<and> \<not> et_failed s"

fun end_step :: "end_trace \<Rightarrow> worker_call \<Rightarrow> worker_answer \<Rightarrow> end_trace" where
  "end_step s (Of_publisher (Publish_result rq b)) r = s\<lparr>et_posted := posted_in r\<rparr>"
| "end_step s (Of_publisher (Publish_conflict_result rq b)) r = s\<lparr>et_posted := posted_in r\<rparr>"
| "end_step s (Of_queue (Release_handed_off n a)) r = s\<lparr>et_released := confirmed r\<rparr>"
| "end_step s (Of_queue (Release_with n l a)) r = s\<lparr>et_released := confirmed r\<rparr>"
| "end_step s (Of_tree (Ready_branch b n)) r = s\<lparr>et_ready := (case r of The_branch p \<Rightarrow> True | _ \<Rightarrow> False)\<rparr>"
| "end_step s (Of_tree (Clean_up b)) r = s\<lparr>et_cleaned := confirmed r\<rparr>"
| "end_step s (Of_control (Fail_handoff i d)) r = s\<lparr>et_failed := True\<rparr>"
| "end_step s (Of_attempt Delete_attempt) r = s\<lparr>et_sound := (et_sound s \<and> removal_sound s)\<rparr>"
| "end_step s q r = s"

fun unmarked :: "worker_call \<Rightarrow> bool" where
  "unmarked (Of_publisher (Publish_result rq b)) = False"
| "unmarked (Of_publisher (Publish_conflict_result rq b)) = False"
| "unmarked (Of_queue (Release_handed_off n a)) = False"
| "unmarked (Of_queue (Release_with n l a)) = False"
| "unmarked (Of_tree (Ready_branch b n)) = False"
| "unmarked (Of_tree (Clean_up b)) = False"
| "unmarked (Of_control (Fail_handoff i d)) = False"
| "unmarked (Of_attempt Delete_attempt) = False"
| "unmarked q = True"

lemma unmarked_step: "unmarked q \<Longrightarrow> end_step s q r = s"
  by (induction s q r rule: end_step.induct) auto

abbreviation traces :: "(end_trace \<Rightarrow> 'e + 'a \<Rightarrow> bool) \<Rightarrow> (worker_call, worker_answer, 'e, 'a) prog \<Rightarrow> end_trace \<Rightarrow> bool" where
  "traces Q m s \<equiv> follow (\<lambda>q r. True) end_step Q m s"


section \<open>Programs that leave the trace as it is\<close>

lemma unmarked_keeps: "calls unmarked m \<Longrightarrow> traces (\<lambda>s' y. s' = s) m s"
  by (rule follow_calls [where P = unmarked]) (auto simp: unmarked_step)

lemma unmarked_any: "calls unmarked m \<Longrightarrow> (\<And>y. Q s y) \<Longrightarrow> traces Q m s"
  by (rule follow_mono [OF unmarked_keeps]) auto

lemma unmarked_bind:
  assumes "calls unmarked m" "\<And>e. Q s (Inl e)" "\<And>x. traces Q (f x) s"
  shows "traces Q (bind m f) s"
  using assms by (intro follow_bindI [OF unmarked_keeps [OF assms(1)]]) auto

lemma calls_embed: "(\<And>q. P (c q)) \<Longrightarrow> calls P (embed c d e m)"
  by (induction m) (auto split: sum.split)

lemma calls_with_locals [calls_rules]: "calls P m \<Longrightarrow> calls P (with_locals l m)"
  by (induction m) (auto simp: with_locals_def)

lemma calls_of_conflict [calls_rules]: "calls unmarked (of_conflict m)"
  by (simp add: of_conflict_def calls_embed)

lemma calls_tried [calls_rules]: "calls P m \<Longrightarrow> calls P (tried m)"
  by (auto simp: tried_def intro!: calls_rules)

lemma calls_quietly [calls_rules]: "calls P m \<Longrightarrow> calls P (quietly m)"
  by (auto simp: quietly_def intro!: calls_rules)

lemma calls_perform [calls_rules]: "P q \<Longrightarrow> calls P (perform q)"
  by (simp add: perform_def calls_ask)

lemma unmarked_logs [calls_rules]: "calls unmarked (log_line a b d n)" "calls unmarked (info a b k)" "calls unmarked (warning a b k)"
  by (auto simp: log_line_def info_def warning_def intro!: calls_rules)

lemma calls_questions [calls_rules]:
  "P q \<Longrightarrow> calls P (ask_flag q)" "P q \<Longrightarrow> calls P (ask_number q)" "P q \<Longrightarrow> calls P (ask_maybe q)" "P q \<Longrightarrow> calls P (ask_strings q)"
  by (auto simp: ask_flag_def ask_number_def ask_maybe_def ask_strings_def intro!: calls_rules)

lemma calls_state [calls_rules]:
  "calls unmarked now" "calls unmarked stored_checkpoint" "calls unmarked handoff_state" "calls unmarked (branch_commits p)"
  "calls unmarked (note_commit_of p n i)" "calls unmarked (judge_note x cs n p i)" "calls unmarked (the_archive n i)"
  by (auto simp: now_def stored_checkpoint_def handoff_state_def branch_commits_def note_commit_of_def judge_note_def
      the_archive_def intro!: calls_rules)

lemma calls_budget [calls_rules]: "calls unmarked (handoff_publish_budget wk)"
  unfolding handoff_publish_budget_def by (auto intro!: calls_rules)

lemma calls_remember [calls_rules]: "calls unmarked (remember_publication n i r)"
  unfolding remember_publication_def archive_pull_request_def by (auto intro!: calls_rules)

lemma calls_note_events [calls_rules]: "calls unmarked (emit_handoff_note_events n v)"
  unfolding emit_handoff_note_events_def by (auto intro!: calls_rules)

lemma calls_operator_note [calls_rules]: "calls unmarked (check_operator_note n p)"
  unfolding check_operator_note_def judged_operator_note_def text_answered_def Let_def by (auto intro!: calls_rules)

lemma calls_cause [calls_rules]: "calls unmarked (handoff_completion_cause wk h n oc p t a)"
  unfolding handoff_completion_cause_def by (auto intro!: calls_rules)

lemma calls_snapshot [calls_rules]: "calls unmarked (handoff_snapshot n)"
  unfolding handoff_snapshot_def by (auto intro!: calls_rules)

lemma calls_owned [calls_rules]: "calls unmarked (handoff_owned_by_attempt wk i)"
  unfolding handoff_owned_by_attempt_def by (auto intro!: calls_rules)

lemma calls_profile [calls_rules]: "calls unmarked (load_profile n)" "calls unmarked (enter_setup p pf n)"
  by (auto simp: load_profile_def enter_setup_def intro!: calls_rules)

lemma calls_counts [calls_rules]:
  "calls unmarked (auto_continuation_count i)" "calls unmarked (auto_continuation_status_line wk cl c)"
  "calls unmarked (handoff_publication_details wk cl c t oc)" "calls unmarked (handoff_needs_notification wk cl c)"
  "calls unmarked (stored_handoff_continuation c)" "calls unmarked (handoff_continuation_used cl c)"
  unfolding auto_continuation_count_def auto_continuation_status_line_def handoff_publication_details_def
    handoff_needs_notification_def stored_handoff_continuation_def handoff_continuation_used_def Let_def
  by (auto intro!: calls_rules)

lemma calls_evidence [calls_rules]: "calls unmarked (evidence_request wk cl c p pf ev)" "calls unmarked (run_attempt cl pf p)"
  unfolding evidence_request_def run_attempt_def Let_def by (auto intro!: calls_rules)

lemma calls_reports [calls_rules]: "calls unmarked (report_dirty n i e)" "calls unmarked (abort_defensively n l)"
  unfolding report_dirty_def abort_defensively_def by (auto intro!: calls_rules)

lemma calls_holds [calls_rules]:
  "calls unmarked note_dirty_attempt" "calls unmarked dirty_paths_suffix" "calls unmarked (emit_workspace_hold n e)"
  "calls unmarked (hold_dirty_workspace n e)"
  unfolding hold_dirty_workspace_def emit_workspace_hold_def note_dirty_attempt_def dirty_paths_suffix_def dirty_path_list_def
  by (auto intro!: calls_rules)


lemma calls_finalization [calls_rules]:
  "calls unmarked (announce v)" "calls unmarked (record_halt wk w d)" "calls unmarked (record_terminal_outcome wk oc i n)"
  "calls unmarked (announce_stops xs)" "calls unmarked (record_control_finalization wk i oc)"
proof -
  show "calls unmarked (announce v)" by (auto simp: announce_def intro!: calls_rules)
  show halts: "calls unmarked (record_halt wk w d)" for w d by (auto simp: record_halt_def intro!: calls_rules)
  show "calls unmarked (record_terminal_outcome wk oc i n)"
    by (auto simp: record_terminal_outcome_def Let_def intro!: calls_rules halts)
  show stops: "calls unmarked (announce_stops xs)" for xs by (induction xs) (auto intro!: calls_rules)
  show "calls unmarked (record_control_finalization wk i oc)"
    by (auto simp: record_control_finalization_def intro!: calls_rules stops)
qed


section \<open>Steps of the boundary\<close>

lemma fail_marks: "traces (\<lambda>s' y. s' = s\<lparr>et_failed := True\<rparr>) (fail_handoff i w x n) s"
  by (auto simp: fail_handoff_def ask_maybe_def split: sum.split intro!: unmarked_any calls_rules)

lemma judged_handoff:
  assumes "\<And>e. Q s (Inl e)" "traces Q m s" "\<And>w. traces Q (f w) s"
  shows "traces Q (bind (handoff_completion_cause wk h n oc p t a) (\<lambda>cause. case cause of None \<Rightarrow> m | Some w \<Rightarrow> f w)) s"
  by (rule unmarked_bind) (auto intro: assms calls_cause split: option.split)

lemma hold_effect:
  "traces (\<lambda>s' y. s' = s \<or> s' = s\<lparr>et_failed := True\<rparr> \<and> y \<noteq> Inr False) (hold_failed_handoff wk n i oc p t a) s"
  (is "traces ?Q _ s")
proof -
  have fail: "traces ?Q (bind (fail_handoff r w x n) (\<lambda>_. Return True)) s" for r w x
    by (rule follow_bindI [OF fail_marks]) auto
  have judged: "traces ?Q (bind (handoff_completion_cause wk h n oc p t a) (\<lambda>cause. case cause of
      None \<Rightarrow> Return False | Some w \<Rightarrow> bind (fail_handoff r w x n) (\<lambda>_. Return True))) s" for h r x
    by (rule judged_handoff) (auto intro: fail simp del: follow_bind)
  have owned: "traces ?Q (handoff_owned_by_attempt wk i) s" by (rule unmarked_any [OF calls_owned]) simp
  show ?thesis unfolding hold_failed_handoff_def
    by (intro follow_if unmarked_bind [OF calls_snapshot]) (auto intro: judged owned simp del: follow_bind split: option.split)
qed

lemma resolve_effect:
  assumes "et_sound s"
  shows "traces (\<lambda>s' y. et_sound s') (resolve_pending_handoff wk n i oc p t a) s" (is "traces ?Q _ s")
proof -
  have fail: "traces ?Q (bind (fail_handoff r w x n) (\<lambda>_. Return (Some False))) s" for r w x
    using assms by (intro follow_bindI [OF fail_marks]) auto
  have complete: "traces ?Q (bind (ask_maybe (Of_control (Complete_handoff r d))) (\<lambda>v.
      bind (announce v) (\<lambda>_. bind (info a' b' n) (\<lambda>_. Return (Some True))))) s" for r d a' b'
    using assms by (intro unmarked_bind calls_rules) simp_all
  have judged: "traces ?Q (bind (handoff_completion_cause wk h n oc p t a) (\<lambda>cause. case cause of
      None \<Rightarrow> bind (ask_maybe (Of_control (Complete_handoff r d))) (\<lambda>v. bind (announce v) (\<lambda>_. bind (info a' b' n) (\<lambda>_. Return (Some True))))
    | Some w \<Rightarrow> bind (fail_handoff r w x n) (\<lambda>_. Return (Some False)))) s" for h r d a' b' x
    using assms by (intro judged_handoff complete fail)
  show ?thesis unfolding resolve_pending_handoff_def
    using assms by (intro follow_if unmarked_bind [OF calls_snapshot]) (auto intro: judged simp del: follow_bind split: option.split)
qed

lemma traces_perform:
  "traces Q (perform q) s \<longleftrightarrow> (\<forall>r. Q (end_step s q r) (got (\<lambda>r. Some ()) r))"
  by (simp add: perform_def)

lemma got_unit: "got (\<lambda>r. Some ()) r = (case r of Threw e \<Rightarrow> Inl e | _ \<Rightarrow> Inr ())"
  by (simp add: got_def split: worker_answer.split)

lemma perform_bind:
  assumes "\<And>e. Q (end_step s q (Threw e)) (Inl e)" "\<And>r. confirmed r \<Longrightarrow> traces Q m (end_step s q r)"
  shows "traces Q (bind (perform q) (\<lambda>_. m)) s"
  unfolding follow_bind traces_perform got_unit
proof
  fix r
  show "case case r of Threw e \<Rightarrow> Inl e | _ \<Rightarrow> Inr () of Inl e \<Rightarrow> Q (end_step s q r) (Inl e) | Inr x \<Rightarrow> traces Q m (end_step s q r)"
    using assms by (cases r) (simp_all add: confirmed_def)
qed

lemma release_effect: "traces (\<lambda>s' y. s' = s\<lparr>et_released := (y = Inr ())\<rparr>) (release cl oc c) s"
  by (auto simp: release_def Let_def traces_perform got_unit confirmed_def split: worker_answer.split option.split)

lemma traces_ended [simp]: "traces Q (ended m) s = traces (\<lambda>s y. Q s (Inr y)) m s"
  unfolding ended_def follow_handle follow_bind
  by (rule arg_cong [where f = "\<lambda>Q. traces Q m s"]) (auto simp: fun_eq_iff split: sum.split)

lemma clean_up_effect:
  "traces (\<lambda>s' y. (\<exists>b. s' = s\<lparr>et_cleaned := b\<rparr>) \<and> (y = Inr True \<longrightarrow> rl_prepared l = None \<or> et_cleaned s')) (clean_up i n l hold) s"
proof (cases "rl_prepared l = None \<or> hold")
  case True
  then show ?thesis by (auto simp: clean_up_def intro: exI [where x = "et_cleaned s"])
next
  case False
  then obtain p where p: "rl_prepared l = Some p" "\<not> hold" by auto
  let ?Q = "\<lambda>s' y. (\<exists>b. s' = s\<lparr>et_cleaned := b\<rparr>) \<and> (y = Inr True \<longrightarrow> et_cleaned s')"
  have rest: "traces ?Q (bind (quietly (perform (Of_log (Observe_dirty i)))) (\<lambda>_. Return True)) (s\<lparr>et_cleaned := True\<rparr>)"
    by (intro unmarked_bind calls_rules) auto
  have dirty: "traces ?Q (bind (hold_dirty_workspace n e) (\<lambda>_. Return False)) (s\<lparr>et_cleaned := b\<rparr>)" for e b
    by (intro unmarked_bind calls_rules) auto
  have work: "traces (\<lambda>s' y. \<exists>b. s' = s\<lparr>et_cleaned := b\<rparr> \<and> (y = Inr True \<longrightarrow> b))
      (bind (perform (Of_tree (Clean_up base))) (\<lambda>_. bind (quietly (perform (Of_log (Observe_dirty i)))) (\<lambda>_. Return True))) s" for base
    by (intro perform_bind) (auto intro!: unmarked_bind calls_rules simp: confirmed_def simp del: follow_bind)
  show ?thesis unfolding clean_up_def using p
    by (simp del: follow_bind follow_handle) (rule follow_handleI [OF work], auto intro: dirty simp del: follow_bind)
qed

lemma commit_sound:
  assumes "et_sound s" "removal_sound s"
  shows "traces (\<lambda>s' y. et_sound s') (commit_finalization wk c n b oc arch ro) s"
proof -
  have delete: "traces (\<lambda>s' y. et_sound s') (bind (perform (Of_attempt Delete_attempt)) (\<lambda>_.
      bind (if arch then quietly (perform (Of_log (Seal_archive i))) else Return ()) (\<lambda>_. quietly (perform (Of_log (Telemetry t)))))) s" for i t
    using assms by (intro perform_bind unmarked_bind unmarked_any calls_rules) simp_all
  show ?thesis unfolding commit_finalization_def Let_def
    by (intro unmarked_bind calls_rules delete) (use assms in simp_all)
qed

lemma finish_sound:
  assumes "et_sound s" "rl_posted l \<and> released \<and> cleaned \<and> \<not> hold \<Longrightarrow> removal_sound s"
  shows "traces (\<lambda>s' y. et_sound s') (finish_or_hold wk c n fb arch l released cleaned hold) s"
proof -
  let ?ready = "rl_posted l \<and> released \<and> cleaned \<and> \<not> hold"
  have finish: "traces (\<lambda>s' y. et_sound s')
      (bind (bind (commit_finalization wk c n b oc arch False) (\<lambda>_. bind (resolve_pending_handoff wk n i oc p t a) (\<lambda>_. Return ())))
        (\<lambda>_. perform (Of_log (Set_processing False)))) s'" if "et_sound s'" "removal_sound s'" for s' b oc i p t a
    using that by (intro follow_bindI [where R = "\<lambda>s' y. et_sound s'"] commit_sound resolve_effect)
       (auto simp: traces_perform intro: unmarked_any)
  have held: "traces (\<lambda>s' y. et_sound s')
      (bind (warning w d n) (\<lambda>_. perform (Of_log (Set_processing False)))) s'" if "et_sound s'" for s' w d
    using that by (intro unmarked_bind calls_rules) (auto simp: traces_perform)
  show ?thesis unfolding finish_or_hold_def Let_def
  proof (rule follow_bindI [where R = "\<lambda>s' y. et_sound s' \<and> (?ready \<and> y = Inr False \<longrightarrow> removal_sound s')"])
    show "traces (\<lambda>s' y. et_sound s' \<and> (?ready \<and> y = Inr False \<longrightarrow> removal_sound s'))
        (if ?ready then hold_failed_handoff wk n (ck_started_at c) (rl_outcome l) (rl_prepared l) (rl_published_at l) False else Return hold) s"
      using assms by (auto intro!: follow_mono [OF hold_effect])
  qed (auto intro!: finish held simp del: follow_bind)
qed


section \<open>The boundary\<close>

definition stands :: "end_trace \<Rightarrow> run_locals \<Rightarrow> bool" where
  "stands s l \<longleftrightarrow> et_sound s \<and> \<not> et_failed s \<and> (rl_posted l \<longrightarrow> et_posted s \<and> (et_ready s \<longrightarrow> rl_prepared l \<noteq> None))"

lemma boundary_sound:
  assumes "stands s l"
  shows "traces (\<lambda>s' y. et_sound s') (complete_boundary wk cl c fb arch l) s"
proof -
  have s: "et_sound s" "\<not> et_failed s" "rl_posted l \<Longrightarrow> et_posted s" "rl_posted l \<Longrightarrow> et_ready s \<Longrightarrow> rl_prepared l \<noteq> None"
    using assms by (auto simp: stands_def)
  let ?R = "\<lambda>hold s'. et_sound s' \<and> (rl_posted l \<and> \<not> hold \<longrightarrow> s' = s)"
  let ?released = "\<lambda>hold y s'. et_sound s' \<and> (rl_posted l \<and> \<not> hold \<longrightarrow> (\<exists>b. s' = s\<lparr>et_released := b\<rparr>) \<and> (y = Inr True \<longrightarrow> et_released s'))"
  have finish: "traces (\<lambda>s' y. et_sound s')
      (bind (finish_or_hold wk c n fb arch l (released = Inr True) (cleaned = Inr True) hold) (\<lambda>_. raised_or cleaned (raised_or released (Return ())))) s'"
    if "et_sound s'" "rl_posted l \<and> released = Inr True \<and> cleaned = Inr True \<and> \<not> hold \<Longrightarrow> removal_sound s'" for s' n hold and released cleaned :: "worker_failure + bool"
    by (rule follow_bindI [OF finish_sound [OF that(1)]]) (use that(2) in \<open>auto simp: raised_or_def split: sum.split\<close>)
  have clean: "traces (\<lambda>s' y. et_sound s')
      (bind (ended (clean_up i n l hold)) (\<lambda>cleaned.
        bind (finish_or_hold wk c n fb arch l (released = Inr True) (cleaned = Inr True) hold) (\<lambda>_. raised_or cleaned (raised_or released (Return ()))))) s'"
    if r: "?released hold released s'" for s' i n hold and released :: "worker_failure + bool"
  proof (rule follow_bindI [where R = "\<lambda>t y. \<exists>cleaned. y = Inr cleaned \<and> (\<exists>b. t = s'\<lparr>et_cleaned := b\<rparr>)
      \<and> (cleaned = Inr True \<longrightarrow> rl_prepared l = None \<or> et_cleaned t)"])
    show "traces (\<lambda>t y. \<exists>cleaned. y = Inr cleaned \<and> (\<exists>b. t = s'\<lparr>et_cleaned := b\<rparr>)
        \<and> (cleaned = Inr True \<longrightarrow> rl_prepared l = None \<or> et_cleaned t)) (ended (clean_up i n l hold)) s'"
      by (simp add: clean_up_effect)
  qed (use r s in \<open>auto intro!: finish simp: removal_sound_def simp del: follow_bind\<close>)
  have rel: "traces (\<lambda>s' y. et_sound s')
      (bind (ended (if rl_posted l \<and> \<not> hold then bind (release cl (rl_outcome l) (Some c)) (\<lambda>_. Return True) else Return False)) (\<lambda>released.
       bind (ended (clean_up i n l hold)) (\<lambda>cleaned.
        bind (finish_or_hold wk c n fb arch l (released = Inr True) (cleaned = Inr True) hold) (\<lambda>_. raised_or cleaned (raised_or released (Return ())))))) s'"
    if r: "?R hold s'" for s' i n hold
  proof (rule follow_bindI [where R = "\<lambda>t y. \<exists>released. y = Inr released \<and> ?released hold released t"])
    have "traces (\<lambda>t y. ?released hold y t) (bind (release cl (rl_outcome l) (Some c)) (\<lambda>_. Return True)) s"
      if "rl_posted l" "\<not> hold" using s(1) that by (intro follow_bindI [OF release_effect]) auto
    then show "traces (\<lambda>t y. \<exists>released. y = Inr released \<and> ?released hold released t)
        (ended (if rl_posted l \<and> \<not> hold then bind (release cl (rl_outcome l) (Some c)) (\<lambda>_. Return True) else Return False)) s'"
      using r by auto
  qed ((erule exE conjE)+, (hypsubst | simp only: sum.case)+, rule clean, simp)?
  show ?thesis unfolding complete_boundary_def Let_def
  proof (rule follow_bindI [where R = "\<lambda>t y. et_sound t \<and> (case y of Inl e \<Rightarrow> True | Inr hold \<Rightarrow> ?R hold t)"])
    show "traces (\<lambda>t y. et_sound t \<and> (case y of Inl e \<Rightarrow> True | Inr hold \<Rightarrow> ?R hold t))
        (if rl_posted l then hold_failed_handoff wk (ti_number (cl_issue cl)) (ck_started_at c) (rl_outcome l) (rl_prepared l) (rl_published_at l) True
         else Return False) s"
      using s(1) by (auto intro!: follow_mono [OF hold_effect] split: sum.split)
  qed ((rule rel | simp del: follow_bind follow_ask)+)
qed

end
