(* ===== verification/Worker_Claim.thy ===== *)
theory Worker_Claim
  imports Worker_Run
begin

text \<open>
  How the Worker takes its next issue (lifecycle.py): the holds that keep it from claiming, the operator's one-shot
  priority, the runnable queue, and the checkpoint that opens the attempt. What the Worker remembers of its holds is a
  record that is carried along with every exception. The whole claim runs under the control lock.
\<close>

section \<open>Holds\<close>

record claim_memory =
  cm_starting :: bool
  cm_hold_kind :: "string option"
  cm_hold_detail :: "string option"
  cm_hold_reported :: bool
  cm_dirty_reported :: bool

type_synonym 'a claim_body = "(worker_call, worker_answer, worker_failure \<times> claim_memory, 'a \<times> claim_memory) prog"

definition remembering :: "claim_memory \<Rightarrow> 'a worker_prog \<Rightarrow> 'a claim_body" where
  "remembering m p = bind (with_locals m p) (\<lambda>x. Return (x, m))"

definition is_class :: "string \<Rightarrow> worker_failure \<Rightarrow> bool" where
  "is_class c e \<longleftrightarrow> worker_failure_type e = c"

definition checkpoint_hold_detail :: "worker_failure \<Rightarrow> string" where
  "checkpoint_hold_detail e = detail_of e @ '' The checkpoint is preserved for'' @ '' inspection; issue intake is held until it is repaired or''
     @ '' removed by an operator.''"

definition sleeping :: "worker \<Rightarrow> string" where
  "sleeping wk = ''sleeping '' @ str_of_int (wk_poll_interval wk) @ ''s''"

definition note_startup_hold :: "worker \<Rightarrow> string \<Rightarrow> int option \<Rightarrow> claim_memory \<Rightarrow> unit claim_body" where
  "note_startup_hold wk detail n m =
     (if cm_hold_reported m then Return ((), m)
      else remembering (m\<lparr>cm_hold_reported := True\<rparr>)
        (log_line ''intake_held_for_recovery'' (detail @ '' '' @ sleeping wk) ''WARNING'' n))"

definition enter_checkpoint_hold :: "worker \<Rightarrow> worker_failure \<Rightarrow> claim_memory \<Rightarrow> unit claim_body" where
  "enter_checkpoint_hold wk e m = (case cm_hold_detail m of
     Some detail \<Rightarrow> note_startup_hold wk detail None m
   | None \<Rightarrow>
       (let detail = checkpoint_hold_detail e; m' = m\<lparr>cm_hold_kind := Some ''checkpoint'', cm_hold_detail := Some detail\<rparr>
        in bind (remembering m' (log_line ''attempt_checkpoint_unusable'' detail ''ERROR'' None))
             (\<lambda>(u, m). note_startup_hold wk detail None m)))"

text \<open>Whether what could not be read at startup reads again.\<close>

definition reread_after_startup_hold :: "worker \<Rightarrow> claim_memory \<Rightarrow> checkpoint option option worker_prog" where
  "reread_after_startup_hold wk m =
     bind (tried (bind stored_checkpoint (\<lambda>c.
       bind (if cm_hold_kind m = Some ''completion'' \<and> wk_completions wk then perform (Of_store Read_ledger) else Return ()) (\<lambda>_.
       Return c)))) (\<lambda>r. Return (case r of Inl e \<Rightarrow> None | Inr c \<Rightarrow> Some c))"

definition clear_startup_hold :: "worker \<Rightarrow> claim_memory \<Rightarrow> checkpoint option option claim_body" where
  "clear_startup_hold wk m =
     bind (with_locals m (reread_after_startup_hold wk m)) (\<lambda>found. case found of
       None \<Rightarrow> Return (None, m)
     | Some c \<Rightarrow>
         bind (remembering (m\<lparr>cm_hold_detail := None, cm_hold_kind := None, cm_hold_reported := False\<rparr>)
             (log_line ''startup_hold_cleared'' ''the unreadable state now reads cleanly; the startup hold is cleared'' ''INFO'' None))
           (\<lambda>(u, m). Return (Some c, m)))"

definition dirty_tree_detail :: "string worker_prog" where
  "dirty_tree_detail = bind dirty_paths_suffix (\<lambda>suffix.
     let base = ''repository working tree holds unexplained dirty or untracked'' @ '' work with no active attempt; manual repair is required before''
           @ '' intake''
     in Return (if suffix = [] then base @ ''.'' else base @ suffix))"

text \<open>An unreadable tree counts as dirty; the episode is reported once.\<close>

definition dirty_tree_hold :: "claim_memory \<Rightarrow> bool claim_body" where
  "dirty_tree_hold m =
     bind (with_locals m (tried (ask_flag (Of_tree Tree_clean)))) (\<lambda>r.
     if r = Inr True then
       (if cm_dirty_reported m
        then bind (remembering (m\<lparr>cm_dirty_reported := False\<rparr>) (log_line ''working_tree_clean''
               ''repository working tree is clean again; intake hold cleared'' ''INFO'' None)) (\<lambda>(u, m). Return (False, m))
        else Return (False, m))
     else if cm_dirty_reported m then Return (True, m)
     else bind (remembering (m\<lparr>cm_dirty_reported := True\<rparr>)
            (bind dirty_tree_detail (\<lambda>detail. log_line ''working_tree_dirty'' detail ''WARNING'' None))) (\<lambda>(u, m). Return (True, m)))"


section \<open>The operator's gate\<close>

definition intake_now :: "intake_state worker_prog" where
  "intake_now = ask (Of_control Intake_state) (got (\<lambda>r. case r of The_intake i \<Rightarrow> Some i | _ \<Rightarrow> None))"

primrec announce_all :: "string list \<Rightarrow> unit worker_prog" where
  "announce_all [] = Return ()"
| "announce_all (i # is) = bind (announce (Some i)) (\<lambda>_. announce_all is)"

text \<open>The checkpoint, where one that cannot be read enters the hold.\<close>

definition checkpoint_or_hold :: "worker \<Rightarrow> claim_memory \<Rightarrow> checkpoint option option claim_body" where
  "checkpoint_or_hold wk m =
     bind (with_locals m (ended stored_checkpoint)) (\<lambda>r. case r of
       Inr c \<Rightarrow> Return (Some c, m)
     | Inl e \<Rightarrow> if is_class ''AttemptStateError'' e
         then bind (enter_checkpoint_hold wk e m) (\<lambda>(u, m). Return (None, m)) else Raise (e, m))"

text \<open>A stop that waited for an attempt which is gone is finished here.\<close>

definition finish_empty_stop :: "worker \<Rightarrow> unit worker_prog" where
  "finish_empty_stop wk = bind (fail_orphan_handoff wk) (\<lambda>_. bind (ask_strings (Of_control Finish_stop)) announce_all)"

definition report_stopped :: "worker \<Rightarrow> unit worker_prog" where
  "report_stopped wk = bind intake_now (\<lambda>i. log_line ''intake_stopped'' (''issue intake is '' @ intake_value i @ ''; '' @ sleeping wk) ''INFO'' None)"

definition intake_closed :: "worker \<Rightarrow> intake_state \<Rightarrow> claim_memory \<Rightarrow> bool claim_body" where
  "intake_closed wk i m =
     (if i = STOPPING then
        bind (checkpoint_or_hold wk m) (\<lambda>(found, m). case found of
          None \<Rightarrow> Return (False, m)
        | Some c \<Rightarrow> bind (remembering m (bind (if c = None then finish_empty_stop wk else Return ()) (\<lambda>_. report_stopped wk)))
            (\<lambda>(u, m). Return (False, m)))
      else bind (remembering m (report_stopped wk)) (\<lambda>(u, m). Return (False, m)))"

definition report_retained :: "worker \<Rightarrow> checkpoint \<Rightarrow> unit worker_prog" where
  "report_retained wk c =
     warning ''intake_held_for_recovery'' (''retained attempt '' @ py_repr (ck_started_at c) @ '' for issue''
       @ '' #'' @ str_of_int (ck_issue_number c) @ '' is held for recovery;'' @ '' '' @ sleeping wk) (ck_issue_number c)"

definition intake_permits :: "worker \<Rightarrow> claim_memory \<Rightarrow> bool claim_body" where
  "intake_permits wk m =
     (if \<not> wk_control wk then Return (True, m)
      else bind (with_locals m intake_now) (\<lambda>i.
        if i \<noteq> RUNNING then intake_closed wk i m
        else bind (checkpoint_or_hold wk m) (\<lambda>(found, m). case found of
          None \<Rightarrow> Return (False, m)
        | Some None \<Rightarrow> Return (True, m)
        | Some (Some c) \<Rightarrow>
            bind (remembering m (report_retained wk c)) (\<lambda>(u, m). Return (False, m)))))"


section \<open>Opening an attempt\<close>

definition continuation_index_for_claim :: "string \<Rightarrow> int option \<Rightarrow> int option" where
  "continuation_index_for_claim source auto_count =
     (if source \<noteq> REQUEUE_SOURCE_AUTOMATIC then Some 0 else map_option (\<lambda>k. k + 1) auto_count)"

definition emit_auto_continuation_claim :: "worker \<Rightarrow> int \<Rightarrow> int option \<Rightarrow> unit worker_prog" where
  "emit_auto_continuation_claim wk n auto_count =
     info ''auto_continuation_claimed'' (''issue #'' @ str_of_int n @ ''; automatic continuation count ''
       @ (case auto_count of None \<Rightarrow> ''unknown'' | Some k \<Rightarrow> str_of_int k @ ''/'' @ str_of_int (wk_max_auto_continuations wk))) n"

definition emit_conflict_attempt_claim :: "int \<Rightarrow> unit worker_prog" where
  "emit_conflict_attempt_claim n = info ''conflict_attempt_claimed'' (''issue #'' @ str_of_int n @ ''; merge-conflict requeue'') n"

definition archived_or_warned :: "int \<Rightarrow> string \<Rightarrow> string \<Rightarrow> string \<Rightarrow> string \<Rightarrow> unit worker_prog" where
  "archived_or_warned n attempt_id what name complaint =
     bind (tried (bind (the_archive n attempt_id) (\<lambda>archived. if archived then perform (Of_log (Write_archive what)) else Return ()))) (\<lambda>r.
     case r of Inl e \<Rightarrow> warning name (complaint @ '' could not be archived: '' @ worker_failure_text e) n | Inr u \<Rightarrow> Return ())"

definition record_attempt_open :: "int \<Rightarrow> checkpoint \<Rightarrow> unit worker_prog" where
  "record_attempt_open n c = archived_or_warned n (ck_started_at c) ''identity'' ''archive_attempt_open_failed'' ''the attempt identity''"

definition record_attempt_kind :: "int \<Rightarrow> checkpoint \<Rightarrow> unit worker_prog" where
  "record_attempt_kind n c =
     (if \<not> is_conflict_attempt c then Return ()
      else archived_or_warned n (ck_started_at c) ''attempt_kind'' ''archive_attempt_kind_failed'' ''the attempt kind'')"

definition telemetry_begin :: "checkpoint \<Rightarrow> unit worker_prog" where
  "telemetry_begin c =
     bind (tried (perform (Of_log (Telemetry ''begin'')))) (\<lambda>r. case r of
       Inl e \<Rightarrow> warning ''telemetry_publish_failed'' (''telemetry begin_attempt failed: '' @ worker_failure_text e @ ''; keeping previous view'')
         (ck_issue_number c)
     | Inr u \<Rightarrow> Return ())"

text \<open>The checkpoint is started after the claim and before anything else.\<close>

definition open_attempt :: "claim \<Rightarrow> string \<Rightarrow> int option \<Rightarrow> bool \<Rightarrow> checkpoint worker_prog" where
  "open_attempt cl source index conflict =
     (let i = cl_issue cl; n = ti_number i in
      bind (ask (Of_attempt (Begin_attempt \<lparr>rq_issue_number = n, rq_branch = ''agent/issue-'' @ str_of_int n,
          rq_auto_merge_opt_in = (AUTO_MERGE_LABEL \<in> set (ti_labels i)), rq_requeue_source = source,
          rq_issue_title = Some (ti_title i), rq_continuation_index = index,
          rq_attempt_kind = (if conflict then ATTEMPT_KIND_CONFLICT else ATTEMPT_KIND_ORDINARY)\<rparr>))
        (got (\<lambda>r. case r of The_checkpoint c \<Rightarrow> c | _ \<Rightarrow> None))) (\<lambda>c.
      bind (record_attempt_open n c) (\<lambda>_.
      bind (record_attempt_kind n c) (\<lambda>_.
      bind (perform (Of_log (Set_processing True))) (\<lambda>_.
      bind (telemetry_begin c) (\<lambda>_.
      Return c))))))"


section \<open>The one-shot priority\<close>

definition next_issue_snapshot :: "int option worker_prog" where
  "next_issue_snapshot = ask (Of_control Next_issue) (got (\<lambda>r. case r of
     Numbered k \<Rightarrow> Some (Some k) | Maybe t \<Rightarrow> (if t = None then Some None else None) | _ \<Rightarrow> None))"

definition fetch_fresh :: "int \<Rightarrow> tracker_issue option worker_prog" where
  "fetch_fresh n = ask (Of_queue (Fetch_fresh n)) (got (\<lambda>r. case r of The_issue i \<Rightarrow> Some i | _ \<Rightarrow> None))"

definition claim_verified :: "tracker_issue \<Rightarrow> claim worker_prog" where
  "claim_verified i = ask (Of_queue (Claim_verified i)) (got (\<lambda>r. case r of The_claim cl \<Rightarrow> cl | _ \<Rightarrow> None))"

definition ambiguous :: "int \<Rightarrow> string \<Rightarrow> unit worker_prog" where
  "ambiguous n what = log_line ''next_issue_claim_ambiguous'' what ''ERROR'' (Some n)"

definition STAYS_PENDING :: string where
  "STAYS_PENDING = '' the priority stays pending and no other claim may begin'' @ '' until reconciled''"

definition foreign_marker_detail :: "string \<Rightarrow> tracker_issue \<Rightarrow> string" where
  "foreign_marker_detail worker_id i =
     (if worker_id = [] then []
      else let foreign = filter (\<lambda>l. l \<noteq> claim_marker_label worker_id) (sort (remdups (claim_marker_labels (ti_labels i))))
        in if foreign = [] then [] else ''; claimed by another worker ('' @ py_join '', '' foreign @ '')'')"

text \<open>The priority ends as not fulfilled, and the same cycle goes on with the queue.\<close>

definition give_up_priority :: "int \<Rightarrow> string \<Rightarrow> unit worker_prog" where
  "give_up_priority n reason =
     bind (ask_maybe (Of_control (Fail_next reason))) (\<lambda>resolved.
     bind (announce resolved) (\<lambda>_.
     warning ''next_issue_not_fulfilled'' (''issue #'' @ str_of_int n @ '' not fulfilled: '' @ reason @ '';''
       @ '' falling back to the runnable queue'') n))"

definition revalidate :: "worker \<Rightarrow> int \<Rightarrow> (tracker_issue option \<times> int) worker_prog" where
  "revalidate wk n =
     bind (tried (bind (fetch_fresh n) (\<lambda>fresh. case fresh of
         None \<Rightarrow> Return (None, 0)
       | Some i \<Rightarrow>
           if 0 < wk_max_auto_continuations wk \<and> is_continuation_signal i
           then bind (auto_continuation_count i) (\<lambda>k. Return (Some i, k)) else Return (Some i, 0)))) (\<lambda>r.
     case r of
       Inl e \<Rightarrow> bind (ambiguous n (''issue #'' @ str_of_int n @ '' could not be revalidated: '' @ worker_failure_text e @ '';'' @ STAYS_PENDING))
         (\<lambda>_. Raise e)
     | Inr found \<Rightarrow> Return found)"

definition lost_eligibility :: "worker \<Rightarrow> int \<Rightarrow> tracker_issue option \<Rightarrow> string \<Rightarrow> unit worker_prog" where
  "lost_eligibility wk n fresh reason =
     bind (case fresh of None \<Rightarrow> Return False | Some i \<Rightarrow> ask_flag (Of_queue (Own_assignment i))) (\<lambda>own.
     if own then
       bind (ambiguous n (''issue #'' @ str_of_int n @ '' is assigned to this agent after'' @ '' an unconfirmed assignment; the priority stays pending''
           @ '' and no other claim may begin until reconciled'')) (\<lambda>_.
       Raise (control_error_of (''Issue #'' @ str_of_int n @ '' has an ambiguous assignment to''
           @ '' this agent; the priority stays pending until reconciled.'')))
     else give_up_priority n (reason @ (case fresh of None \<Rightarrow> [] | Some i \<Rightarrow> foreign_marker_detail (cw_worker_id (wk_conflict wk)) i)))"

definition assign_priority :: "int \<Rightarrow> tracker_issue \<Rightarrow> claim option worker_prog" where
  "assign_priority n fresh =
     bind (tried (claim_verified fresh)) (\<lambda>r. case r of
       Inr cl \<Rightarrow> Return (Some cl)
     | Inl (Claim_lost m others) \<Rightarrow>
         bind (give_up_priority n (''issue #'' @ str_of_int n @ '' claimed by another assignee''
           @ (let holders = py_join '', '' others in if holders = [] then [] else '' ('' @ holders @ '')''))) (\<lambda>_. Return None)
     | Inl e \<Rightarrow>
         bind (ambiguous n (''issue #'' @ str_of_int n @ '' assignment is ambiguous: '' @ worker_failure_text e @ '';'' @ STAYS_PENDING))
           (\<lambda>_. Raise e))"

definition announce_claim :: "worker \<Rightarrow> int \<Rightarrow> bool \<Rightarrow> string \<Rightarrow> int option \<Rightarrow> unit worker_prog" where
  "announce_claim wk n conflict source auto_count =
     (if conflict then emit_conflict_attempt_claim n
      else if source = REQUEUE_SOURCE_AUTOMATIC then emit_auto_continuation_claim wk n auto_count else Return ())"

definition open_prioritized :: "worker \<Rightarrow> int \<Rightarrow> tracker_issue \<Rightarrow> int \<Rightarrow> claim \<Rightarrow> (claim \<times> checkpoint) worker_prog" where
  "open_prioritized wk n fresh auto_count cl =
     (let k = ti_number (cl_issue cl) in
      bind (ask_maybe (Of_control (Complete_next k))) (\<lambda>completed.
      bind (announce completed) (\<lambda>_.
      if completed = None then
        bind (ambiguous n (''claimed issue #'' @ str_of_int k @ '' does not match the'' @ '' prioritized issue #'' @ str_of_int n
            @ ''; the priority stays'' @ '' pending and no other claim may begin until reconciled'')) (\<lambda>_.
        Raise (control_error_of ''The prioritized claim does not match the pending priority''))
      else
        bind (info ''next_issue_claimed'' (''title='' @ py_repr (ti_title (cl_issue cl)) @ '' (prioritized next issue''
            @ '' #'' @ str_of_int n @ '')'') k) (\<lambda>_.
        let source = requeue_source_for_labels (ti_labels fresh); conflict = is_conflict_claim (ti_labels fresh) in
        bind (announce_claim wk k conflict source (Some auto_count)) (\<lambda>_.
        bind (open_attempt cl (if conflict then REQUEUE_SOURCE_CONFLICT else source)
            (if conflict then None else continuation_index_for_claim source (Some auto_count)) conflict) (\<lambda>c.
        Return (cl, c)))))))"

definition claim_prioritized :: "worker \<Rightarrow> (claim \<times> checkpoint) option worker_prog" where
  "claim_prioritized wk =
     bind next_issue_snapshot (\<lambda>target. case target of
       None \<Rightarrow> Return None
     | Some n \<Rightarrow>
         bind (revalidate wk n) (\<lambda>(fresh, auto_count).
         if (case fresh of Some i \<Rightarrow> ti_number i \<noteq> n | None \<Rightarrow> False)
         then Raise (control_error_of ''The tracker returned a different issue than the pending priority'')
         else case ineligibility_reason fresh n (wk_max_auto_continuations wk) auto_count (cw_max_conflict_attempts (wk_conflict wk)) of
           Some reason \<Rightarrow> bind (lost_eligibility wk n fresh reason) (\<lambda>_. Return None)
         | None \<Rightarrow> (case fresh of
               None \<Rightarrow> Raise (Error (OtherError ''AssertionError'' []))
             | Some i \<Rightarrow> bind (assign_priority n i) (\<lambda>won. case won of
                   None \<Rightarrow> Return None
                 | Some cl \<Rightarrow> bind (open_prioritized wk n i auto_count cl) (\<lambda>x. Return (Some x))))))"


section \<open>The runnable queue\<close>

definition claim_count :: "string \<Rightarrow> tracker_issue \<Rightarrow> int option worker_prog" where
  "claim_count source i =
     (if source \<noteq> REQUEUE_SOURCE_AUTOMATIC then Return None
      else bind (tried (auto_continuation_count i)) (\<lambda>r. Return (case r of Inl e \<Rightarrow> None | Inr k \<Rightarrow> Some k)))"

text \<open>A conflict requeue has no index; the last counted attempt moves the intake to \<open>stopping\<close>.\<close>

definition open_queued :: "worker \<Rightarrow> claim \<Rightarrow> (claim \<times> checkpoint) worker_prog" where
  "open_queued wk cl =
     (let i = cl_issue cl; conflict = is_conflict_claim (ti_labels i);
          source = (if conflict then REQUEUE_SOURCE_CONFLICT else requeue_source_for_labels (ti_labels i))
      in bind (claim_count source i) (\<lambda>auto_count.
         bind (open_attempt cl source (if conflict then None else continuation_index_for_claim source auto_count) conflict) (\<lambda>c.
         bind (announce_claim wk (ti_number i) conflict source auto_count) (\<lambda>_.
         bind (if wk_control wk then perform (Of_control Enter_stopping) else Return ()) (\<lambda>_.
         Return (cl, c))))))"

definition claim_from_queue :: "worker \<Rightarrow> (claim \<times> checkpoint) option worker_prog" where
  "claim_from_queue wk =
     bind (log_line ''polling_for_issue'' [] ''INFO'' None) (\<lambda>_.
     bind (ask (Of_queue Claim_first) (got (\<lambda>r. case r of The_claim cl \<Rightarrow> Some cl | _ \<Rightarrow> None))) (\<lambda>found. case found of
       None \<Rightarrow> bind (log_line ''no_eligible_issue_found'' (''no eligible issue available; '' @ sleeping wk) ''INFO'' None) (\<lambda>_. Return None)
     | Some cl \<Rightarrow> bind (open_queued wk cl) (\<lambda>x. Return (Some x))))"

definition recheck_priority :: "worker \<Rightarrow> unit worker_prog" where
  "recheck_priority wk = (if wk_control wk then bind next_issue_snapshot (\<lambda>_. Return ()) else Return ())"

definition choose_claim :: "worker \<Rightarrow> (claim \<times> checkpoint) option worker_prog" where
  "choose_claim wk =
     bind (if wk_control wk then claim_prioritized wk else Return None) (\<lambda>prioritized. case prioritized of
       Some x \<Rightarrow> Return (Some x)
     | None \<Rightarrow>
         bind (recheck_priority wk) (\<lambda>_. claim_from_queue wk))"

definition gated_claim :: "worker \<Rightarrow> claim_memory \<Rightarrow> (claim \<times> checkpoint) option claim_body" where
  "gated_claim wk m =
     (if cm_starting m then Return (None, m)
      else bind (if cm_hold_detail m = None then Return (True, m)
          else bind (clear_startup_hold wk m) (\<lambda>(found, m). Return (found \<noteq> None, m))) (\<lambda>(clear, m).
        if \<not> clear then Return (None, m)
        else bind (intake_permits wk m) (\<lambda>(permitted, m).
          if \<not> permitted then Return (None, m)
          else bind (dirty_tree_hold m) (\<lambda>(held, m).
            if held then Return (None, m) else remembering m (choose_claim wk)))))"

end
