(* ===== verification/Worker_Startup.thy ===== *)
theory Worker_Startup
  imports Worker_Claim
begin

text \<open>
  What the Worker does with a checkpoint that it finds at its start (lifecycle.py, \<open>AgentLifecycle._reconcile_startup\<close>):
  an unreadable one holds the intake, a finished one is removed, and any other attempt is published for what its phase
  and its branch say, with the same boundary as a live attempt. \<open>run_once\<close> is the whole cycle.
\<close>

section \<open>What a recovered attempt is worth\<close>

definition final_check_was_interrupted :: "bool \<Rightarrow> bool worker_prog" where
  "final_check_was_interrupted archived =
     (if \<not> archived then Return False
      else ask (Of_log Final_check_marks) (got (\<lambda>r. case r of Marks began finished \<Rightarrow> Some (began \<and> \<not> finished) | _ \<Rightarrow> None)))"

definition infrastructure_decision :: "string \<Rightarrow> completion_decision" where
  "infrastructure_decision reason = \<lparr>cd_outcome = Some INFRASTRUCTURE_ERROR, cd_publication_eligible = False,
     cd_publication_path = PATH_NONE, cd_reasons = [reason]\<rparr>"

definition partial_decision :: "attempt_outcome \<Rightarrow> string \<Rightarrow> completion_decision" where
  "partial_decision oc reason = \<lparr>cd_outcome = Some oc, cd_publication_eligible = False, cd_publication_path = PATH_PARTIAL, cd_reasons = [reason]\<rparr>"

definition complete_decision :: "string \<Rightarrow> completion_decision" where
  "complete_decision reason = \<lparr>cd_outcome = None, cd_publication_eligible = True, cd_publication_path = PATH_COMPLETE, cd_reasons = [reason]\<rparr>"

definition interrupted_model :: "int \<Rightarrow> prepared_attempt \<Rightarrow> bool \<Rightarrow> (completion_decision \<times> bool) worker_prog" where
  "interrupted_model n p archived =
     bind (branch_commits p) (\<lambda>commits.
     if commits = [] then Return (infrastructure_decision ''Model execution was interrupted without commits.'', False)
     else bind (final_check_was_interrupted archived) (\<lambda>mid_check.
       if mid_check then
         bind (log_line ''final_check_interrupted'' (''The final check started but never finished; the attempt process '' @ ''died mid-check.'') ''ERROR'' (Some n)) (\<lambda>_.
         Return (partial_decision INFRASTRUCTURE_ERROR (''Final check was interrupted before completing; committed work '' @ ''is preserved on the branch.''), True))
       else
         bind (perform (Of_attempt (Enter PUSHING))) (\<lambda>_.
         bind (info ''attempt_phase_transitioned'' (''phase='' @ phase_value PUSHING) n) (\<lambda>_.
         Return (partial_decision INCOMPLETE ''Model execution was interrupted; preserved committed work.'', True)))))"

definition interrupted_publication :: "int \<Rightarrow> string \<Rightarrow> prepared_attempt \<Rightarrow> (completion_decision \<times> bool) worker_prog" where
  "interrupted_publication n attempt_id p =
     bind (branch_commits p) (\<lambda>commits.
     bind (note_commit_of p n attempt_id) (\<lambda>note. case note of
       None \<Rightarrow> Return (complete_decision ''Recovered previously completed local evidence for publication.'', commits \<noteq> [])
     | Some c \<Rightarrow>
         bind (judge_note (Some c) commits n p attempt_id) (\<lambda>v.
         bind (emit_handoff_note_events n v) (\<lambda>_.
         Return (if nv_valid v then partial_decision HANDOFF ''Recovered a previously committed handoff note for publication.''
                 else partial_decision INCOMPLETE (nv_reason v), commits \<noteq> [])))))"

definition recovered_decision :: "checkpoint \<Rightarrow> int \<Rightarrow> prepared_attempt \<Rightarrow> bool \<Rightarrow> (completion_decision \<times> bool) worker_prog" where
  "recovered_decision c n p archived =
     (if ck_phase c = MODEL_RUNNING then interrupted_model n p archived
      else if ck_phase c = PUSHING \<or> ck_phase c = PUBLISHING then interrupted_publication n (ck_started_at c) p
      else Return (infrastructure_decision ''Attempt was interrupted before model execution.'', False))"

definition recovered_details :: "completion_decision \<Rightarrow> int \<Rightarrow> string \<Rightarrow> prepared_attempt \<Rightarrow> (string \<times> string option) worker_prog" where
  "recovered_details d n attempt_id p =
     (if cd_outcome d \<noteq> Some HANDOFF then Return (hd (cd_reasons d), None)
      else bind (text_answered (Of_tree (Note_text n))) (\<lambda>t.
        bind (note_commit_of p n attempt_id) (\<lambda>note. Return (t, map_option ac_revision note))))"

definition recovered_request ::
  "worker \<Rightarrow> claim \<Rightarrow> checkpoint \<Rightarrow> prepared_attempt \<Rightarrow> repository_profile \<Rightarrow> completion_decision \<Rightarrow> string \<Rightarrow> string option \<Rightarrow> publication_request worker_prog" where
  "recovered_request wk cl c p pf d details note_sha =
     (let handoff = (cd_outcome d = Some HANDOFF) in
      bind (handoff_publication_details wk cl c details (cd_outcome d)) (\<lambda>details.
      bind (if handoff then handoff_continuation_used cl c else Return None) (\<lambda>used.
      bind (if handoff then handoff_needs_notification wk cl c else Return False) (\<lambda>notify.
      Return \<lparr>pr_issue_number = ti_number (cl_issue cl), pr_issue_title = ti_title (cl_issue cl), pr_branch = pa_branch p,
        pr_started_at = ck_started_at c, pr_decision = d,
        pr_check = no_check\<lparr>ck_not_run_reason := Some ''not rerun during startup recovery''\<rparr>,
        pr_review_cycles = 0, pr_review_findings = ''not rerun during startup recovery'', pr_details = details,
        pr_base_branch = pf_base_branch pf, pr_note_commit_sha = note_sha,
        pr_auto_merge_opt_in = claim_time_opt_in cl (Some c), pr_reviews_performed = 0,
        pr_requeue_source = claim_time_requeue_source cl (Some c), pr_handoff_continuation_count = used,
        pr_handoff_notify = notify, pr_worker_id = cw_worker_id (wk_conflict wk)\<rparr>))))"

definition recovered_locals :: "completion_decision \<Rightarrow> bool \<Rightarrow> publication_result \<Rightarrow> run_locals \<Rightarrow> run_locals" where
  "recovered_locals d has_commits r l = l\<lparr>rl_outcome := rs_outcome r, rl_posted := publication_confirmed r,
     rl_retain := (rs_branch_url r = None \<and> has_commits \<and> (rs_outcome r = INFRASTRUCTURE_ERROR
       \<or> rs_outcome r = INCOMPLETE \<and> cd_publication_path d = PATH_PARTIAL))\<rparr>"

definition RESTART_DETAIL :: string where
  "RESTART_DETAIL = ''Attempt was interrupted by a restart before a result '' @ ''could be verified; the remote branch is left untouched.''"

definition requeued_as_conflict :: "conflict_request \<Rightarrow> conflict_request" where
  "requeued_as_conflict rq = rq\<lparr>cq_requeue_source := Some REQUEUE_SOURCE_CONFLICT\<rparr>"

definition recovered_body :: "worker \<Rightarrow> claim \<Rightarrow> checkpoint \<Rightarrow> bool \<Rightarrow> run_locals attempt_body" where
  "recovered_body wk cl c archived =
     (let n = ti_number (cl_issue cl); l = fresh_locals in
      bind (with_locals l (bind (perform (Of_tree (Ready_base ''main''))) (\<lambda>_.
        ask (Of_tree Get_profile) (got (\<lambda>r. case r of The_profile pf \<Rightarrow> Some pf | _ \<Rightarrow> None))))) (\<lambda>pf.
      let l = l\<lparr>rl_profile := Some pf\<rparr> in
      bind (with_locals l (ready_branch (pf_base_branch pf) n)) (\<lambda>p.
      let l = l\<lparr>rl_prepared := Some p\<rparr> in
      bind (with_locals l (of_conflict (record_lease p n))) (\<lambda>_.
      bind (with_locals l (recovered_decision c n p archived)) (\<lambda>(d, has_commits).
      bind (with_locals l (recovered_details d n (ck_started_at c) p)) (\<lambda>(details, note_sha).
      if is_conflict_attempt c
      then published_then l (\<lambda>l. publish_conflict_bounded wk (requeued_as_conflict
             (conflict_error_request (wk_conflict wk) cl c (Some p) (Some pf) RESTART_DETAIL)) cl) conflict_result_locals
      else published_then l (\<lambda>l. bind (recovered_request wk cl c p pf d details note_sha) (publish_bounded wk))
             (recovered_locals d has_commits)))))))"


section \<open>Exceptions\<close>

text \<open>Unlike in a live attempt, whatever is reported from a handler ends as an infrastructure error.\<close>

definition posted_as_error :: "publication_result \<Rightarrow> run_locals \<Rightarrow> run_locals" where
  "posted_as_error r l = l\<lparr>rl_outcome := INFRASTRUCTURE_ERROR, rl_posted := rs_comment_posted r\<rparr>"

definition report_recovery_failure :: "worker \<Rightarrow> claim \<Rightarrow> checkpoint \<Rightarrow> worker_failure \<Rightarrow> run_locals \<Rightarrow> run_locals attempt_body" where
  "report_recovery_failure wk cl c e l =
     (if is_conflict_attempt c
      then published_then l (\<lambda>l. publish_conflict_bounded wk (requeued_as_conflict
             (conflict_error_request (wk_conflict wk) cl c (rl_prepared l) (rl_profile l) (detail_of e))) cl) posted_as_error
      else published_then l (\<lambda>l. publish_terminal wk cl c l INFRASTRUCTURE_ERROR TERMINAL_DETAILS) posted_as_error)"

definition report_recovery_rebase :: "worker \<Rightarrow> claim \<Rightarrow> checkpoint \<Rightarrow> worker_failure \<Rightarrow> string list \<Rightarrow> run_locals \<Rightarrow> run_locals attempt_body" where
  "report_recovery_rebase wk cl c e files l =
     (if is_conflict_attempt c
      then published_then l (\<lambda>l. publish_conflict_bounded wk (requeued_as_conflict
             (conflict_rebase_request (wk_conflict wk) cl c (rl_prepared l) (rl_profile l) None files)) cl) posted_as_error
      else published_then l (\<lambda>l. publish_rebase_conflict wk cl c l e) posted_as_error)"

definition on_recovery_failure :: "worker \<Rightarrow> claim \<Rightarrow> checkpoint \<Rightarrow> worker_failure \<Rightarrow> run_locals \<Rightarrow> run_locals attempt_body" where
  "on_recovery_failure wk cl c e l =
     (let n = ti_number (cl_issue cl);
          log_exception = with_locals l (log_line ''attempt_exception'' (detail_of e) ''ERROR'' (Some n))
      in if is_dirty e then held_with l (report_dirty n (ck_started_at c) e)
      else if is_unrecoverable e then held_with l (log_line ''git_workspace_unrecoverable'' (detail_of e) ''ERROR'' (Some n))
      else (case e of
          System_exit k \<Rightarrow> Raise (e, l)
        | Rebase_failed m files \<Rightarrow> report_recovery_rebase wk cl c e files l
        | Interrupt k m \<Rightarrow>
            bind log_exception (\<lambda>_.
            bind (handle (report_recovery_failure wk cl c e l)
                (\<lambda>(e', l'). if is_exception e' then Return (l'\<lparr>rl_posted := False\<rparr>) else Raise (e', l'))) (\<lambda>l'.
            Raise (e, l'\<lparr>rl_outcome := INFRASTRUCTURE_ERROR\<rparr>)))
        | _ \<Rightarrow> bind log_exception (\<lambda>_. report_recovery_failure wk cl c e l)))"


section \<open>The start\<close>

text \<open>An attempt that the ledger knows: only its accounting, its handoff and its checkpoint are left.\<close>

definition finish_leftover :: "worker \<Rightarrow> checkpoint \<Rightarrow> unit worker_prog" where
  "finish_leftover wk c =
     (let n = ck_issue_number c; attempt_id = ck_started_at c in
      bind (ask (Of_store (Finished_outcome attempt_id)) (got (\<lambda>r. case r of The_outcome oc \<Rightarrow> Some oc | _ \<Rightarrow> None))) (\<lambda>found.
      bind (case found of
          None \<Rightarrow> Return False
        | Some oc \<Rightarrow>
            bind (record_control_finalization wk attempt_id oc) (\<lambda>_.
            bind (resolve_pending_handoff wk n (Some attempt_id) oc None None True) (\<lambda>res.
            if res = Some False then handoff_owned_by_attempt wk attempt_id else Return False))) (\<lambda>held.
      if held then
        bind (warning ''attempt_finalization_held'' (''A failed operator handoff owns this attempt; the branch, ''
            @ ''checkpoint, and working tree are preserved for recovery.'') n) (\<lambda>_.
        perform (Of_log (Set_active None)))
      else
        bind (perform (Of_attempt Delete_attempt)) (\<lambda>_.
        bind (the_archive n attempt_id) (\<lambda>archived.
        bind (if archived then quietly (perform (Of_log (Seal_archive attempt_id))) else Return ()) (\<lambda>_.
        bind (quietly (perform (Of_log (Telemetry ''finish'')))) (\<lambda>_.
        perform (Of_log (Set_active None)))))))))"

definition recovery_to_boundary :: "worker \<Rightarrow> claim \<Rightarrow> checkpoint \<Rightarrow> bool \<Rightarrow> (worker_failure option \<times> run_locals) worker_prog" where
  "recovery_to_boundary wk cl c archived =
     settle (handle (recovered_body wk cl c archived) (\<lambda>(e, l). on_recovery_failure wk cl c e l))"

definition recover_attempt :: "worker \<Rightarrow> checkpoint \<Rightarrow> attempt_outcome worker_prog" where
  "recover_attempt wk c =
     bind (ask (Of_queue (Recover_claim (ck_issue_number c))) (got (\<lambda>r. case r of The_claim cl \<Rightarrow> Some cl | _ \<Rightarrow> None))) (\<lambda>found. case found of
       None \<Rightarrow> Raise (Error (OtherError ''RuntimeError'' ''Interrupted attempt issue is unavailable for recovery''))
     | Some cl \<Rightarrow>
         bind (perform (Of_log (Set_active (Some (ti_number (cl_issue cl)))))) (\<lambda>_.
         bind (telemetry_begin c) (\<lambda>_.
         bind (perform (Of_log (Set_processing True))) (\<lambda>_.
         bind (if wk_control wk then perform (Of_control Enter_stopping) else Return ()) (\<lambda>_.
         bind (the_archive (ti_number (cl_issue cl)) (ck_started_at c)) (\<lambda>archived.
         bind (recovery_to_boundary wk cl c archived) (end_attempt wk cl c (ck_branch c) archived)))))))"

text \<open>A hold of the start: logged, remembered, and announced once.\<close>

definition hold_at_start :: "worker \<Rightarrow> string \<Rightarrow> string \<Rightarrow> string \<Rightarrow> int option \<Rightarrow> claim_memory \<Rightarrow> attempt_outcome option claim_body" where
  "hold_at_start wk name kind detail n m =
     bind (with_locals m (log_line name detail ''ERROR'' None)) (\<lambda>_.
     bind (note_startup_hold wk detail n (m\<lparr>cm_hold_kind := Some kind, cm_hold_detail := Some detail\<rparr>)) (\<lambda>(u, m).
     remembering m (bind (perform (Of_log (Set_active None))) (\<lambda>_. Return None))))"

definition reconcile_startup :: "worker \<Rightarrow> claim_memory \<Rightarrow> attempt_outcome option claim_body" where
  "reconcile_startup wk m =
     bind (with_locals m (ended stored_checkpoint)) (\<lambda>r. case r of
       Inl e \<Rightarrow> if is_class ''AttemptStateError'' e
         then hold_at_start wk ''attempt_checkpoint_unusable'' ''checkpoint'' (checkpoint_hold_detail e) None m else Raise (e, m)
     | Inr None \<Rightarrow> Return (None, m)
     | Inr (Some c) \<Rightarrow>
         bind (with_locals m (ended (if wk_completions wk then ask_flag (Of_store (Is_finished (ck_started_at c))) else Return False))) (\<lambda>r. case r of
           Inl e \<Rightarrow> if is_class ''CompletionStoreError'' e
             then hold_at_start wk ''attempt_completion_unusable'' ''completion''
               (detail_of e @ '' The completion ledger is preserved for '' @ ''inspection; issue intake is held until it is repaired or removed ''
                @ ''by an operator.'') (Some (ck_issue_number c)) m
             else Raise (e, m)
         | Inr finished \<Rightarrow>
             if finished then remembering m (bind (finish_leftover wk c) (\<lambda>_. Return None))
             else remembering m (bind (recover_attempt wk c) (\<lambda>oc. Return (Some oc)))))"


section \<open>One cycle\<close>

datatype cycle_result = Idle | Attempted attempt_outcome

text \<open>The flag of the first cycle is set before the reconciliation, so an exception of it does not repeat it.\<close>

definition run_once :: "worker \<Rightarrow> bool \<Rightarrow> claim_memory \<Rightarrow> cycle_result claim_body" where
  "run_once wk reconciled m =
     bind (if reconciled then Return (None, m) else reconcile_startup wk m) (\<lambda>(recovered, m). case recovered of
       Some oc \<Rightarrow> Return (Attempted oc, m)
     | None \<Rightarrow>
         bind (gated_claim wk m) (\<lambda>(found, m). remembering m (case found of
           None \<Rightarrow> bind (perform (Of_log Poll_sleep)) (\<lambda>_. Return Idle)
         | Some (cl, c) \<Rightarrow> bind (process_claim wk cl c) (\<lambda>oc. Return (Attempted oc)))))"

end
