(* ===== verification/Worker_Safety.thy ===== *)
theory Worker_Safety
  imports Worker_Run_Props Worker_Startup
begin

text \<open>
  Safety of one cycle of the Worker: whatever its parts answer, an attempt that ends without an exception has removed
  its checkpoint only after its result was posted, its issue released and the branch it had prepared cleaned up. The
  branch of a conflict attempt is the exception that the last property of \<open>Worker_Fates\<close> takes up: it is cleaned up
  only when the conflict attempt returns.
\<close>

section \<open>Publications\<close>

text \<open>A program that publishes: afterwards the trace tells whether the comment of the result stands.\<close>

definition publishes :: "publication_result worker_prog \<Rightarrow> bool" where
  "publishes m \<longleftrightarrow> (\<forall>s. traces (\<lambda>s' y. \<exists>b. s' = s\<lparr>et_posted := b\<rparr> \<and> (\<forall>r. y = Inr r \<longrightarrow> b = rs_comment_posted r)) m s)"

lemma publishesD:
  "publishes m \<Longrightarrow> traces (\<lambda>s' y. \<exists>b. s' = s\<lparr>et_posted := b\<rparr> \<and> (\<forall>r. y = Inr r \<longrightarrow> b = rs_comment_posted r)) m s"
  by (simp add: publishes_def)

lemma publishes_after:
  assumes "calls unmarked m" "\<And>x. publishes (f x)"
  shows "publishes (bind m f)"
  unfolding publishes_def
proof
  fix s
  show "traces (\<lambda>s' y. \<exists>b. s' = s\<lparr>et_posted := b\<rparr> \<and> (\<forall>r. y = Inr r \<longrightarrow> b = rs_comment_posted r)) (bind m f) s"
    by (rule unmarked_bind [OF assms(1)]) (auto intro: exI [where x = "et_posted s"] publishesD [OF assms(2)])
qed

lemma remembers: "every (\<lambda>_. True) (\<lambda>y. \<forall>r'. y = Inr r' \<longrightarrow> r' = r) (remember_publication n i r)"
  unfolding remember_publication_def by (intro every_after calls_any) simp_all

lemma remember_keeps:
  "traces (\<lambda>s' y. s' = s \<and> (\<forall>r'. y = Inr r' \<longrightarrow> r' = r)) (remember_publication n i r) s"
  by (intro follow_conj unmarked_keeps calls_remember follow_every remembers)

lemma got_result: "got (\<lambda>r. case r of The_result x \<Rightarrow> Some x | _ \<Rightarrow> None) r = Inr x \<longleftrightarrow> r = The_result x"
  by (auto simp: got_def split: worker_answer.splits)

lemma published_and:
  assumes "\<And>s r. end_step s q r = s\<lparr>et_posted := posted_in r\<rparr>"
    and "\<And>x s. traces (\<lambda>s' y. s' = s \<and> (\<forall>r'. y = Inr r' \<longrightarrow> r' = x)) (g x) s"
  shows "publishes (bind (published_by q) g)"
  unfolding publishes_def
proof
  fix s
  have "traces (\<lambda>s' y. \<exists>b. s' = s\<lparr>et_posted := b\<rparr> \<and> (\<forall>r. y = Inr r \<longrightarrow> b = rs_comment_posted r)) (published_by q) s"
    by (auto simp: published_by_def assms(1) got_result posted_in_def)
  then show "traces (\<lambda>s' y. \<exists>b. s' = s\<lparr>et_posted := b\<rparr> \<and> (\<forall>r. y = Inr r \<longrightarrow> b = rs_comment_posted r)) (bind (published_by q) g) s"
    by (rule follow_bindI) (auto intro!: follow_mono [OF assms(2)])
qed

lemma publishes_programs:
  "publishes (publish_bounded wk rq)" "publishes (publish_terminal wk cl c l oc d)" "publishes (publish_rebase_conflict wk cl c l e)"
  by (auto simp: publish_bounded_def publish_terminal_def publish_rebase_conflict_def
      intro!: publishes_after published_and remember_keeps calls_rules)

lemma publishes_conflict: "publishes (publish_conflict_bounded wk rq cl)"
proof -
  have escalate: "traces (\<lambda>s' y. s' = s \<and> (\<forall>r'. y = Inr r' \<longrightarrow> r' = r))
      (bind (of_conflict (escalate_to_human cl r b)) (\<lambda>_. remember_publication n i r)) s" for s r b n i
    by (rule unmarked_bind [OF calls_of_conflict]) (simp_all add: remember_keeps)
  show ?thesis unfolding publish_conflict_bounded_def
    by (intro publishes_after published_and escalate calls_rules) simp
qed


section \<open>The attempt up to its boundary\<close>

lemma traces_embed: "traces Q (with_locals l m) s = traces (\<lambda>s y. Q s (case y of Inl e \<Rightarrow> Inl (e, l) | Inr x \<Rightarrow> Inr x)) m s"
  by (induction m arbitrary: s) (simp_all add: with_locals_def)

lemma traces_settle:
  "traces Q (settle m) s = traces (\<lambda>s y. Q s (Inr (case y of Inl (e, l) \<Rightarrow> (Some e, l) | Inr l \<Rightarrow> (None, l)))) m s"
  by (induction m arbitrary: s) (simp_all add: case_prod_beta)

text \<open>What holds while an attempt runs, of its trace and its local variables.\<close>

definition running :: "end_trace \<Rightarrow> run_locals \<Rightarrow> bool" where
  "running s l \<longleftrightarrow> et_sound s \<and> \<not> et_failed s \<and> (et_ready s \<longrightarrow> rl_prepared l \<noteq> None)"

definition arrives :: "end_trace \<Rightarrow> worker_failure \<times> run_locals + run_locals \<Rightarrow> bool" where
  "arrives s y = (case y of Inl (e, l) \<Rightarrow> running s l | Inr l \<Rightarrow> stands s l)"

lemma arrives_simps [simp]: "arrives s (Inl (e, l)) = running s l" "arrives s (Inr l) = stands s l"
  by (simp_all add: arrives_def)

lemma running_posted [simp]: "running (s\<lparr>et_posted := b\<rparr>) l = running s l"
  by (simp add: running_def)

lemma running_published_at [simp]: "running s (l\<lparr>rl_published_at := t\<rparr>) = running s l"
  by (simp add: running_def)

lemma step_arrives:
  assumes "running s l" "calls unmarked m" "\<And>x. traces arrives (f x) s"
  shows "traces arrives (bind (with_locals l m) f) s"
proof (rule follow_bindI)
  show "traces (\<lambda>s' y. s' = s \<and> (\<forall>e. y = Inl e \<longrightarrow> snd e = l)) (with_locals l m) s"
    unfolding traces_embed by (rule follow_mono [OF unmarked_keeps [OF assms(2)]]) (auto split: sum.split)
qed (use assms in auto)

lemma published_arrives:
  assumes "running s l" "\<And>l. publishes (p l)"
    and "\<And>r l. rl_prepared (f r l) = rl_prepared l" "\<And>r l. rl_posted (f r l) \<Longrightarrow> rs_comment_posted r"
  shows "traces arrives (published_then l p f) s"
  unfolding published_then_def Let_def
proof (rule step_arrives [OF assms(1) calls_state(1)])
  fix t
  let ?l = "l\<lparr>rl_published_at := Some t\<rparr>"
  show "traces arrives (bind (with_locals ?l (p ?l)) (\<lambda>r. Return (f r ?l))) s"
  proof (rule follow_bindI)
    show "traces (\<lambda>s' y. \<exists>b. s' = s\<lparr>et_posted := b\<rparr> \<and> (\<forall>e. y = Inl e \<longrightarrow> snd e = ?l) \<and> (\<forall>r. y = Inr r \<longrightarrow> b = rs_comment_posted r))
        (with_locals ?l (p ?l)) s"
      unfolding traces_embed by (rule follow_mono [OF publishesD [OF assms(2)]]) (auto split: sum.split)
  qed (use assms(1,3,4) in \<open>auto simp: running_def stands_def\<close>)
qed

lemma held_arrives: "running s l \<Longrightarrow> calls unmarked m \<Longrightarrow> traces arrives (held_with l m) s"
  unfolding held_with_def by (rule step_arrives) (auto simp: running_def stands_def)

lemmas publication_facts = publishes_programs publishes_conflict publishes_after calls_evidence calls_reports

lemma result_locals [simp]:
  "rl_prepared (conflict_result_locals r l) = rl_prepared l" "rl_posted (conflict_result_locals r l) = rs_comment_posted r"
  "rl_prepared (evidence_locals d r l) = rl_prepared l" "rl_posted (evidence_locals d r l) = publication_confirmed r"
  by (simp_all add: conflict_result_locals_def evidence_locals_def)

lemma branch_arrives:
  assumes "running s l" "rl_prepared l = None" "\<And>p s. running s (l\<lparr>rl_prepared := Some p\<rparr>) \<Longrightarrow> traces arrives (f p) s"
  shows "traces arrives (bind (with_locals l (ready_branch b n)) f) s"
proof (rule follow_bindI)
  show "traces (\<lambda>s' y. \<exists>b. s' = s\<lparr>et_ready := b\<rparr> \<and> (\<forall>e. y = Inl e \<longrightarrow> snd e = l \<and> \<not> b)) (with_locals l (ready_branch b n)) s"
    unfolding traces_embed by (auto simp: ready_branch_def got_def split: worker_answer.split)
qed (use assms in \<open>auto simp: running_def\<close>)

lemma fresh_facts [simp]: "rl_prepared fresh_locals = None"
  by (simp add: fresh_locals_def)

lemma ordinary_arrives: "running s fresh_locals \<Longrightarrow> traces arrives (ordinary_body wk cl c) s"
  unfolding ordinary_body_def Let_def
proof (rule step_arrives [OF _ calls_profile(1)])
  fix pf assume run: "running s fresh_locals"
  have finish: "traces arrives (if \<not> wk_runner wk
      then published_then l (\<lambda>l. publish_terminal wk cl c l INFRASTRUCTURE_ERROR TERMINAL_DETAILS)
             (\<lambda>r l. l\<lparr>rl_outcome := INFRASTRUCTURE_ERROR, rl_posted := rs_comment_posted r\<rparr>)
      else bind (with_locals l (run_attempt cl pf p)) (\<lambda>ev.
        published_then l (\<lambda>l. bind (evidence_request wk cl c p pf ev) (publish_bounded wk)) (evidence_locals (ae_decision ev)))) s"
    if "running s l" for s l p
    using that by (intro follow_if step_arrives published_arrives) (auto intro: publication_facts simp: publication_confirmed_def)
  show "traces arrives (bind (with_locals (fresh_locals\<lparr>rl_profile := Some pf\<rparr>) (ready_branch (pf_base_branch pf) (ti_number (cl_issue cl)))) (\<lambda>p.
      bind (with_locals (fresh_locals\<lparr>rl_profile := Some pf, rl_prepared := Some p\<rparr>) (enter_setup p pf (ti_number (cl_issue cl)))) (\<lambda>_.
      if \<not> wk_runner wk
      then published_then (fresh_locals\<lparr>rl_profile := Some pf, rl_prepared := Some p\<rparr>) (\<lambda>l. publish_terminal wk cl c l INFRASTRUCTURE_ERROR TERMINAL_DETAILS)
             (\<lambda>r l. l\<lparr>rl_outcome := INFRASTRUCTURE_ERROR, rl_posted := rs_comment_posted r\<rparr>)
      else bind (with_locals (fresh_locals\<lparr>rl_profile := Some pf, rl_prepared := Some p\<rparr>) (run_attempt cl pf p)) (\<lambda>ev.
        published_then (fresh_locals\<lparr>rl_profile := Some pf, rl_prepared := Some p\<rparr>) (\<lambda>l. bind (evidence_request wk cl c p pf ev) (publish_bounded wk)) (evidence_locals (ae_decision ev)))))) s"
    using run by (intro branch_arrives step_arrives finish calls_profile) (auto simp: running_def)
qed

lemma conflict_arrives: "running s fresh_locals \<Longrightarrow> traces arrives (conflict_body wk cl c) s"
  unfolding conflict_body_def conflict_published_def
  by (intro step_arrives calls_of_conflict) (auto intro!: published_arrives publication_facts simp: running_def)

lemma report_arrives:
  "running s l \<Longrightarrow> traces arrives (report_failure wk cl c conflict e l) s"
  "running s l \<Longrightarrow> traces arrives (report_rebase wk cl c conflict e fs l) s"
  unfolding report_failure_def report_rebase_def
  by (intro follow_if published_arrives; auto intro: publication_facts)+

text \<open>The last handler raises again, so only what arrives without an exception counts.\<close>

definition lands :: "end_trace \<Rightarrow> worker_failure \<times> run_locals + run_locals \<Rightarrow> bool" where
  "lands s y = (case y of Inl x \<Rightarrow> True | Inr l \<Rightarrow> stands s l)"

lemma arrives_lands: "traces arrives m s \<Longrightarrow> traces lands m s"
  by (erule follow_mono) (auto simp: arrives_def lands_def split: sum.splits)

lemma lands_raised: "traces lands (bind m (\<lambda>l. Raise (e, f l))) s"
  by (rule follow_bindI [where R = "\<lambda>s y. True"]) (auto simp: lands_def intro: follow_any)

lemma log_lands:
  assumes "calls unmarked m" "traces lands m' s"
  shows "traces lands (bind (with_locals l m) (\<lambda>_. m')) s"
  by (rule unmarked_bind [OF calls_with_locals [OF assms(1)]]) (auto simp: lands_def assms(2))

lemma failure_lands: "running s l \<Longrightarrow> traces lands (on_failure wk cl c conflict e l) s"
  unfolding on_failure_def Let_def
  by (intro follow_if arrives_lands [OF held_arrives] calls_rules; assumption?)
     (auto simp: lands_def simp del: follow_bind split: worker_failure.split
       intro!: log_lands arrives_lands [OF report_arrives(1)] arrives_lands [OF report_arrives(2)] lands_raised calls_rules)

lemma reaches_boundary:
  assumes "running s fresh_locals"
  shows "traces (\<lambda>s y. \<exists>raised l. y = Inr (raised, l) \<and> (raised = None \<longrightarrow> stands s l)) (attempt_to_boundary wk cl c) s"
proof -
  have "traces lands (handle (if conflict then conflict_body wk cl c else ordinary_body wk cl c) (\<lambda>(e, l). on_failure wk cl c conflict e l)) s"
    for conflict
    by (rule follow_handleI [where R = arrives]) (use assms in \<open>auto intro: conflict_arrives ordinary_arrives failure_lands simp: lands_def\<close>)
  then show ?thesis unfolding attempt_to_boundary_def Let_def traces_settle
    by (rule follow_mono) (auto simp: lands_def split: sum.split)
qed

lemma end_sound:
  assumes "fst reached = None \<Longrightarrow> stands s (snd reached)"
  shows "traces (\<lambda>s y. case y of Inl e \<Rightarrow> True | Inr oc \<Rightarrow> et_sound s) (end_attempt wk cl c fb arch reached) s"
proof (cases "fst reached")
  case None
  show ?thesis unfolding end_attempt_def
    by (rule follow_bindI [OF boundary_sound [OF assms [OF None]]])
       (auto simp: None intro!: unmarked_any calls_rules simp del: follow_bind split: sum.split)
next
  case (Some e)
  then show ?thesis unfolding end_attempt_def
    by (intro follow_bindI [where R = "\<lambda>s y. True"]) (auto intro: follow_any)
qed


section \<open>The recovery at the start\<close>

lemma calls_recovery [calls_rules]:
  "calls unmarked (final_check_was_interrupted b)" "calls unmarked (recovered_decision c n p b)"
  "calls unmarked (recovered_details d n i p)" "calls unmarked (recovered_request wk cl c p pf d t v)" "calls unmarked (telemetry_begin c)"
  unfolding final_check_was_interrupted_def recovered_decision_def interrupted_model_def interrupted_publication_def
    recovered_details_def text_answered_def recovered_request_def telemetry_begin_def Let_def
  by (auto intro!: calls_rules)

lemma recovered_locals_facts [simp]:
  "rl_prepared (recovered_locals d b r l) = rl_prepared l" "rl_posted (recovered_locals d b r l) = publication_confirmed r"
  "rl_prepared (posted_as_error r l) = rl_prepared l" "rl_posted (posted_as_error r l) = rs_comment_posted r"
  by (simp_all add: recovered_locals_def posted_as_error_def)

lemma recovered_arrives: "running s fresh_locals \<Longrightarrow> traces arrives (recovered_body wk cl c arch) s"
  unfolding recovered_body_def Let_def
proof (rule step_arrives)
  fix pf assume run: "running s fresh_locals"
  have finish: "traces arrives (if is_conflict_attempt c
      then published_then l (\<lambda>l. publish_conflict_bounded wk rq cl) conflict_result_locals
      else published_then l (\<lambda>l. bind (recovered_request wk cl c p pf d t v) (publish_bounded wk)) (recovered_locals d b)) s"
    if "running s l" for s l rq d t v b p
    using that by (intro follow_if published_arrives) (auto intro: publication_facts calls_recovery simp: publication_confirmed_def)
  have decided: "traces arrives (bind (with_locals l (of_conflict (record_lease p n))) (\<lambda>_.
      bind (with_locals l (recovered_decision c n p arch)) (\<lambda>(d, b).
      bind (with_locals l (recovered_details d n (ck_started_at c) p)) (\<lambda>(t, v).
      if is_conflict_attempt c
      then published_then l (\<lambda>l. publish_conflict_bounded wk rq cl) conflict_result_locals
      else published_then l (\<lambda>l. bind (recovered_request wk cl c p pf d t v) (publish_bounded wk)) (recovered_locals d b))))) s"
    if "running s l" for s l n p rq
    using that by (intro step_arrives calls_of_conflict calls_recovery) (auto intro!: step_arrives calls_recovery finish simp del: follow_bind)
  show "traces arrives (bind (with_locals (fresh_locals\<lparr>rl_profile := Some pf\<rparr>) (ready_branch (pf_base_branch pf) (ti_number (cl_issue cl)))) (\<lambda>p.
      bind (with_locals (fresh_locals\<lparr>rl_profile := Some pf, rl_prepared := Some p\<rparr>) (of_conflict (record_lease p (ti_number (cl_issue cl))))) (\<lambda>_.
      bind (with_locals (fresh_locals\<lparr>rl_profile := Some pf, rl_prepared := Some p\<rparr>) (recovered_decision c (ti_number (cl_issue cl)) p arch)) (\<lambda>(d, b).
      bind (with_locals (fresh_locals\<lparr>rl_profile := Some pf, rl_prepared := Some p\<rparr>) (recovered_details d (ti_number (cl_issue cl)) (ck_started_at c) p)) (\<lambda>(t, v).
      if is_conflict_attempt c
      then published_then (fresh_locals\<lparr>rl_profile := Some pf, rl_prepared := Some p\<rparr>) (\<lambda>l. publish_conflict_bounded wk (requeued_as_conflict
             (conflict_error_request (wk_conflict wk) cl c (Some p) (Some pf) RESTART_DETAIL)) cl) conflict_result_locals
      else published_then (fresh_locals\<lparr>rl_profile := Some pf, rl_prepared := Some p\<rparr>)
             (\<lambda>l. bind (recovered_request wk cl c p pf d t v) (publish_bounded wk)) (recovered_locals d b)))))) s"
    using run by (intro branch_arrives decided) (auto simp: running_def)
qed (auto intro!: calls_rules)

lemma recovery_reports:
  "running s l \<Longrightarrow> traces arrives (report_recovery_failure wk cl c e l) s"
  "running s l \<Longrightarrow> traces arrives (report_recovery_rebase wk cl c e fs l) s"
  unfolding report_recovery_failure_def report_recovery_rebase_def
  by (intro follow_if published_arrives; auto intro: publication_facts)+

lemma recovery_failure_lands: "running s l \<Longrightarrow> traces lands (on_recovery_failure wk cl c e l) s"
  unfolding on_recovery_failure_def Let_def
  by (intro follow_if arrives_lands [OF held_arrives] calls_rules; assumption?)
     (auto simp: lands_def simp del: follow_bind split: worker_failure.split
       intro!: log_lands arrives_lands [OF recovery_reports(1)] arrives_lands [OF recovery_reports(2)] lands_raised calls_rules)

lemma recovery_reaches_boundary:
  assumes "running s fresh_locals"
  shows "traces (\<lambda>s y. \<exists>raised l. y = Inr (raised, l) \<and> (raised = None \<longrightarrow> stands s l)) (recovery_to_boundary wk cl c arch) s"
proof -
  have "traces lands (handle (recovered_body wk cl c arch) (\<lambda>(e, l). on_recovery_failure wk cl c e l)) s"
    by (rule follow_handleI [OF recovered_arrives [OF assms]]) (auto intro: recovery_failure_lands simp: lands_def)
  then show ?thesis unfolding recovery_to_boundary_def traces_settle
    by (rule follow_mono) (auto simp: lands_def split: sum.split)
qed


section \<open>The checkpoint is removed last\<close>

text \<open>A conflict attempt that came back from its parts with a prepared branch: publication, handlers and boundary.\<close>

definition conflict_ending ::
  "worker \<Rightarrow> claim \<Rightarrow> checkpoint \<Rightarrow> string \<Rightarrow> bool \<Rightarrow> conflict_request \<Rightarrow> prepared_attempt \<Rightarrow> repository_profile option \<Rightarrow> attempt_outcome worker_prog" where
  "conflict_ending wk cl c fb arch rq p pf =
     bind (settle (handle (conflict_published wk cl rq (Some p) pf) (\<lambda>(e, l). on_failure wk cl c True e l))) (end_attempt wk cl c fb arch)"

lemma conflict_ending_sound:
  assumes "running s (fresh_locals\<lparr>rl_prepared := Some p, rl_profile := pf\<rparr>)"
  shows "traces (\<lambda>s y. case y of Inl e \<Rightarrow> True | Inr oc \<Rightarrow> et_sound s) (conflict_ending wk cl c fb arch rq p pf) s"
proof -
  have body: "traces arrives (conflict_published wk cl rq (Some p) pf) s"
    unfolding conflict_published_def using assms by (intro published_arrives) (auto intro: publication_facts)
  have "traces lands (handle (conflict_published wk cl rq (Some p) pf) (\<lambda>(e, l). on_failure wk cl c True e l)) s"
    by (rule follow_handleI [OF body]) (auto intro: failure_lands simp: lands_def)
  then have "traces (\<lambda>s y. \<exists>raised l. y = Inr (raised, l) \<and> (raised = None \<longrightarrow> stands s l))
      (settle (handle (conflict_published wk cl rq (Some p) pf) (\<lambda>(e, l). on_failure wk cl c True e l))) s"
    unfolding traces_settle by (rule follow_mono) (auto simp: lands_def split: sum.split)
  then show ?thesis unfolding conflict_ending_def by (rule follow_bindI) (auto intro: end_sound simp del: follow_bind)
qed

text \<open>
  C1. Whatever the parts of the Worker answer: when an attempt, live or recovered at the start, ends without an
  exception, its checkpoint was removed only after the result's comment stood, the issue was released, no operator's
  handoff had failed, and the branch was cleaned up that the ordinary or recovered attempt prepared or that a conflict
  attempt handed back (a conflict attempt that fails hands none back). Until the attempt is published nothing of this
  has happened, so for a branch that is handed back the trace starts with it.
\<close>

theorem checkpoint_removed_last:
  "traces (\<lambda>s y. case y of Inl e \<Rightarrow> True | Inr oc \<Rightarrow> et_sound s) (process_claim wk cl c) end_start
   \<and> traces (\<lambda>s y. case y of Inl e \<Rightarrow> True | Inr oc \<Rightarrow> et_sound s) (recover_attempt wk c) end_start
   \<and> traces (\<lambda>s y. case y of Inl e \<Rightarrow> True | Inr oc \<Rightarrow> et_sound s) (conflict_ending wk cl c fb arch rq p pf) (end_start\<lparr>et_ready := True\<rparr>)"
proof (intro conjI)
  have start: "running end_start fresh_locals" by (simp add: running_def end_start_def)
  show "traces (\<lambda>s y. case y of Inl e \<Rightarrow> True | Inr oc \<Rightarrow> et_sound s) (process_claim wk cl c) end_start"
    unfolding process_claim_def Let_def
    by (intro unmarked_bind calls_rules follow_bindI [OF reaches_boundary [OF start]] end_sound) auto
  have live: "traces (\<lambda>s y. case y of Inl e \<Rightarrow> True | Inr oc \<Rightarrow> et_sound s)
      (bind (recovery_to_boundary wk cl c arch) (end_attempt wk cl c fb arch)) end_start" for cl fb arch
    by (intro follow_bindI [OF recovery_reaches_boundary [OF start]] end_sound) auto
  show "traces (\<lambda>s y. case y of Inl e \<Rightarrow> True | Inr oc \<Rightarrow> et_sound s) (recover_attempt wk c) end_start"
    unfolding recover_attempt_def
    by (rule unmarked_bind) (auto intro!: calls_rules unmarked_bind live simp del: follow_bind split: option.split)
  show "traces (\<lambda>s y. case y of Inl e \<Rightarrow> True | Inr oc \<Rightarrow> et_sound s) (conflict_ending wk cl c fb arch rq p pf) (end_start\<lparr>et_ready := True\<rparr>)"
    by (rule conflict_ending_sound) (simp add: running_def end_start_def)
qed

end
