(* ===== verification/Worker_Gates.thy ===== *)
theory Worker_Gates
  imports Worker_Safety
begin

text \<open>
  The gates before a claim: a trace of one cycle records what was last seen of the intake, the checkpoint and the
  working tree, and whether an issue was won.
\<close>

record gate_trace =
  gt_intake :: "intake_state option"
  gt_free :: bool
  gt_clean :: bool
  gt_won :: bool
  gt_sound :: bool

definition gate_start :: gate_trace where
  "gate_start = \<lparr>gt_intake = None, gt_free = False, gt_clean = False, gt_won = False, gt_sound = True\<rparr>"

definition gates_open :: "bool \<Rightarrow> gate_trace \<Rightarrow> bool" where
  "gates_open control s \<longleftrightarrow> (if control then gt_intake s = Some RUNNING \<and> gt_free s else True) \<and> gt_clean s"

definition won_by :: "worker_answer \<Rightarrow> bool" where
  "won_by r = (case r of The_claim (Some cl) \<Rightarrow> True | _ \<Rightarrow> False)"

definition claim_attempted :: "bool \<Rightarrow> gate_trace \<Rightarrow> worker_answer \<Rightarrow> gate_trace" where
  "claim_attempted control s r = s\<lparr>gt_won := won_by r, gt_sound := (gt_sound s \<and> gates_open control s \<and> \<not> gt_won s)\<rparr>"

fun gate_step :: "bool \<Rightarrow> gate_trace \<Rightarrow> worker_call \<Rightarrow> worker_answer \<Rightarrow> gate_trace" where
  "gate_step b s (Of_control Intake_state) r = s\<lparr>gt_intake := (case r of The_intake i \<Rightarrow> Some i | _ \<Rightarrow> None)\<rparr>"
| "gate_step b s (Of_attempt Read_attempt_state) r = s\<lparr>gt_free := (r = The_checkpoint None)\<rparr>"
| "gate_step b s (Of_tree Tree_clean) r = s\<lparr>gt_clean := (r = Flag True)\<rparr>"
| "gate_step b s (Of_queue Claim_first) r = claim_attempted b s r"
| "gate_step b s (Of_queue (Claim_verified i)) r = claim_attempted b s r"
| "gate_step b s (Of_attempt (Begin_attempt rq)) r = s\<lparr>gt_sound := (gt_sound s \<and> gt_won s)\<rparr>"
| "gate_step b s q r = s"

fun ungated :: "worker_call \<Rightarrow> bool" where
  "ungated (Of_control Intake_state) = False"
| "ungated (Of_attempt Read_attempt_state) = False"
| "ungated (Of_tree Tree_clean) = False"
| "ungated (Of_queue Claim_first) = False"
| "ungated (Of_queue (Claim_verified i)) = False"
| "ungated (Of_attempt (Begin_attempt rq)) = False"
| "ungated q = True"

fun unclaiming :: "worker_call \<Rightarrow> bool" where
  "unclaiming (Of_queue Claim_first) = False"
| "unclaiming (Of_queue (Claim_verified i)) = False"
| "unclaiming (Of_attempt (Begin_attempt rq)) = False"
| "unclaiming q = True"

lemma ungated_step: "ungated q \<Longrightarrow> gate_step b s q r = s"
  by (induction b s q r rule: gate_step.induct) auto

lemma unclaiming_step: "unclaiming q \<Longrightarrow> gt_sound (gate_step b s q r) = gt_sound s \<and> gt_won (gate_step b s q r) = gt_won s"
  by (induction b s q r rule: gate_step.induct) auto

lemma ungated_unclaiming: "calls ungated m \<Longrightarrow> calls unclaiming m"
proof (rule every_mono)
  show "unclaiming q" if "ungated q" for q using that by (cases q rule: ungated.cases) auto
qed auto

abbreviation gated :: "bool \<Rightarrow> (gate_trace \<Rightarrow> 'e + 'a \<Rightarrow> bool) \<Rightarrow> (worker_call, worker_answer, 'e, 'a) prog \<Rightarrow> gate_trace \<Rightarrow> bool" where
  "gated b Q m s \<equiv> follow (\<lambda>q r. True) (gate_step b) Q m s"

lemma ungated_keeps: "calls ungated m \<Longrightarrow> gated b (\<lambda>s' y. s' = s) m s"
  by (rule follow_calls [where P = ungated]) (auto simp: ungated_step)

lemma ungated_any: "calls ungated m \<Longrightarrow> (\<And>y. Q s y) \<Longrightarrow> gated b Q m s"
  by (rule follow_mono [OF ungated_keeps]) auto

lemma ungated_bind:
  assumes "calls ungated m" "\<And>e. Q s (Inl e)" "\<And>x. gated b Q (f x) s"
  shows "gated b Q (bind m f) s"
  using assms by (intro follow_bindI [OF ungated_keeps [OF assms(1)]]) auto

text \<open>Nothing was claimed yet.\<close>

definition unclaimed :: "gate_trace \<Rightarrow> bool" where
  "unclaimed s \<longleftrightarrow> gt_sound s \<and> \<not> gt_won s"

lemma unclaiming_keeps: "calls unclaiming m \<Longrightarrow> unclaimed s \<Longrightarrow> gated b (\<lambda>s' y. unclaimed s') m s"
  by (rule follow_calls [where P = unclaiming]) (auto simp: unclaiming_step unclaimed_def)

lemma unclaiming_bind:
  assumes "calls unclaiming m" "unclaimed s" "\<And>s e. unclaimed s \<Longrightarrow> Q s (Inl e)" "\<And>s x. unclaimed s \<Longrightarrow> gated b Q (f x) s"
  shows "gated b Q (bind m f) s"
  using assms by (intro follow_bindI [OF unclaiming_keeps [OF assms(1,2)]]) auto


section \<open>Programs that pass no gate\<close>

lemma calls_ended [calls_rules]: "calls P m \<Longrightarrow> calls P (ended m)"
  by (auto simp: ended_def intro!: calls_rules)

lemma calls_remembering [calls_rules]: "calls P m \<Longrightarrow> calls P (remembering c m)"
  by (auto simp: remembering_def intro!: calls_rules)

lemma ungated_log: "calls ungated (log_line a b d n)" "calls ungated (info a b k)" "calls ungated (warning a b k)"
  by (auto simp: log_line_def info_def warning_def intro!: calls_rules)

lemma ungated_announce: "calls ungated (announce v)" "calls ungated (announce_all is)"
proof -
  show a: "calls ungated (announce v)" for v by (auto simp: announce_def intro!: calls_rules)
  show "calls ungated (announce_all is)" by (induction "is") (auto intro!: calls_rules a)
qed

lemmas ungated_rules = calls_rules ungated_log ungated_announce

lemma ungated_reports:
  "calls ungated (note_startup_hold wk d n m)" "calls ungated (enter_checkpoint_hold wk e m)" "calls ungated dirty_paths_suffix"
  "calls ungated dirty_tree_detail" "calls ungated (emit_conflict_attempt_claim k)" "calls ungated (emit_auto_continuation_claim wk k v)"
  "calls ungated (ambiguous k t)" "calls ungated (give_up_priority k t)" "calls ungated next_issue_snapshot"
  "calls ungated (auto_continuation_count i)" "calls ungated (fetch_fresh k)"
proof -
  show held: "calls ungated (note_startup_hold wk d n m)" for d n m
    by (auto simp: note_startup_hold_def intro!: ungated_rules)
  show "calls ungated (enter_checkpoint_hold wk e m)"
    by (auto simp: enter_checkpoint_hold_def Let_def intro!: ungated_rules held)
  show paths: "calls ungated dirty_paths_suffix" by (auto simp: dirty_paths_suffix_def dirty_path_list_def intro!: ungated_rules)
  show "calls ungated dirty_tree_detail" by (auto simp: dirty_tree_detail_def Let_def intro!: ungated_rules paths)
qed (auto simp: emit_conflict_attempt_claim_def emit_auto_continuation_claim_def ambiguous_def give_up_priority_def
    next_issue_snapshot_def auto_continuation_count_def fetch_fresh_def intro!: ungated_rules)

lemma ungated_revalidate: "calls ungated (revalidate wk k)" "calls ungated (lost_eligibility wk k i t)"
  unfolding revalidate_def lost_eligibility_def by (auto intro!: ungated_rules ungated_reports)

lemma unclaiming_hold: "calls unclaiming (clear_startup_hold wk m)"
  unfolding clear_startup_hold_def reread_after_startup_hold_def stored_checkpoint_def
  by (auto intro!: calls_rules ungated_unclaiming [OF ungated_log(1)])


section \<open>The gates one by one\<close>

lemma seen_checkpoint:
  "gated b (\<lambda>s' y. \<exists>f. s' = s\<lparr>gt_free := f\<rparr> \<and> (y = Inr None \<longrightarrow> f)) stored_checkpoint s"
  by (auto simp: stored_checkpoint_def got_def split: worker_answer.split)

lemma seen_intake: "gated b (\<lambda>s' y. \<exists>i. s' = s\<lparr>gt_intake := i\<rparr> \<and> (\<forall>x. y = Inr x \<longrightarrow> i = Some x)) intake_now s"
  by (auto simp: intake_now_def got_def split: worker_answer.split)

lemma seen_tree: "gated b (\<lambda>s' y. \<exists>f. s' = s\<lparr>gt_clean := f\<rparr> \<and> (y = Inr True \<longrightarrow> f)) (ask_flag (Of_tree Tree_clean)) s"
  by (auto simp: ask_flag_def got_def split: worker_answer.split)

lemma gated_with_locals: "gated b Q (with_locals l m) s = gated b (\<lambda>s y. Q s (case y of Inl e \<Rightarrow> Inl (e, l) | Inr x \<Rightarrow> Inr x)) m s"
  by (induction m arbitrary: s) (simp_all add: with_locals_def)

lemma gated_ended [simp]: "gated b Q (ended m) s = gated b (\<lambda>s y. Q s (Inr y)) m s"
  unfolding ended_def follow_handle follow_bind
  by (rule arg_cong [where f = "\<lambda>Q. gated b Q m s"]) (auto simp: fun_eq_iff split: sum.split)

lemma gated_tried:
  "gated b (\<lambda>s y. case y of Inl e \<Rightarrow> if is_exception e then Q s (Inr (Inl e)) else Q s (Inl e) | Inr x \<Rightarrow> Q s (Inr (Inr x))) m s
   \<Longrightarrow> gated b Q (tried m) s"
  unfolding tried_def follow_handle follow_bind by (erule follow_mono) (auto split: sum.split)

definition permitted :: "bool \<Rightarrow> gate_trace \<Rightarrow> bool" where
  "permitted b s \<longleftrightarrow> (b \<longrightarrow> gt_intake s = Some RUNNING \<and> gt_free s)"

lemma permittedI: "gt_intake s = Some RUNNING \<Longrightarrow> gt_free s \<Longrightarrow> permitted b s"
  by (simp add: permitted_def)

lemma found_or_hold:
  assumes "unclaimed s"
  shows "gated b (\<lambda>s' y. unclaimed s' \<and> (\<forall>m'. y = Inr (Some None, m') \<longrightarrow> gt_intake s' = gt_intake s \<and> gt_free s')) (checkpoint_or_hold wk m) s"
  unfolding checkpoint_or_hold_def
proof (rule follow_bindI)
  show "gated b (\<lambda>s' y. \<exists>f r. s' = s\<lparr>gt_free := f\<rparr> \<and> y = Inr r \<and> (r = Inr None \<longrightarrow> f)) (with_locals m (ended stored_checkpoint)) s"
    unfolding gated_with_locals gated_ended by (rule follow_mono [OF seen_checkpoint]) auto
qed (use assms in \<open>auto intro!: ungated_bind ungated_reports simp: unclaimed_def simp del: follow_bind split: sum.split option.split\<close>)

lemma unclaiming_parts:
  "calls unclaiming stored_checkpoint" "calls unclaiming intake_now" "calls unclaiming (checkpoint_or_hold wk m)"
  "calls unclaiming (report_stopped wk)" "calls unclaiming (finish_empty_stop wk)"
proof -
  show read: "calls unclaiming stored_checkpoint" by (auto simp: stored_checkpoint_def intro!: calls_rules)
  show intake: "calls unclaiming intake_now" by (auto simp: intake_now_def intro!: calls_rules)
  show "calls unclaiming (checkpoint_or_hold wk m)" unfolding checkpoint_or_hold_def
    by (auto intro!: calls_rules read ungated_unclaiming [OF ungated_reports(2)])
  show "calls unclaiming (report_stopped wk)" unfolding report_stopped_def
    by (auto intro!: calls_bind intake ungated_unclaiming [OF ungated_log(1)])
  show "calls unclaiming (finish_empty_stop wk)" unfolding finish_empty_stop_def fail_orphan_handoff_def handoff_state_def
    by (auto intro!: calls_rules ungated_unclaiming [OF ungated_log(1)] ungated_unclaiming [OF ungated_announce(1)]
        ungated_unclaiming [OF ungated_announce(2)])
qed

definition intake_verdict :: "bool \<Rightarrow> gate_trace \<Rightarrow> 'e + bool \<times> claim_memory \<Rightarrow> bool" where
  "intake_verdict b s y \<longleftrightarrow> unclaimed s \<and> (case y of Inl e \<Rightarrow> True | Inr (v, m) \<Rightarrow> v \<longrightarrow> permitted b s)"

lemma intake_verdict_simps [simp]:
  "intake_verdict b s (Inl e) = unclaimed s" "intake_verdict b s (Inr (v, m)) = (unclaimed s \<and> (v \<longrightarrow> permitted b s))"
  by (simp_all add: intake_verdict_def)

lemma intake_closed_gate:
  assumes "unclaimed s"
  shows "gated b (\<lambda>s' y. unclaimed s' \<and> (\<forall>m'. y \<noteq> Inr (True, m'))) (intake_closed wk i m) s"
proof (intro follow_conj unclaiming_keeps follow_every)
  show "calls unclaiming (intake_closed wk i m)" unfolding intake_closed_def
    by (auto intro!: calls_if calls_bind calls_prod calls_option calls_Return calls_remembering unclaiming_parts)
  show "every (\<lambda>_. True) (\<lambda>y. \<forall>m'. y \<noteq> Inr (True, m')) (intake_closed wk i m)" unfolding intake_closed_def
    by (auto intro!: every_after split: option.split)
qed (rule assms)

lemma intake_gate:
  assumes "unclaimed s"
  shows "gated (wk_control wk) (intake_verdict (wk_control wk)) (intake_permits wk m) s"
    (is "gated ?b ?Q _ _")
proof (cases "wk_control wk")
  case True
  have kept: "gated b (intake_verdict b) (bind (remembering m' (report_retained wk c)) (\<lambda>(u, m). Return (False, m))) s'" if "unclaimed s'" for m' c s' b
    using that by (intro ungated_bind calls_remembering) (auto simp: report_retained_def ungated_log)
  have read: "gated b (intake_verdict b) (bind (checkpoint_or_hold wk m) (\<lambda>(found, m). case found of
          None \<Rightarrow> Return (False, m)
        | Some None \<Rightarrow> Return (True, m)
        | Some (Some c) \<Rightarrow> bind (remembering m (report_retained wk c)) (\<lambda>(u, m). Return (False, m)))) s'"
    if "unclaimed s'" "gt_intake s' = Some RUNNING" for s' b
    by (rule follow_bindI [OF found_or_hold [OF that(1)]])
       (use that(2) in \<open>auto simp del: follow_bind intro: kept permittedI split: option.split\<close>)
  have closed: "gated b (intake_verdict b) (intake_closed wk i m) s'" if "unclaimed s'" for s' i b
    by (rule follow_mono [OF intake_closed_gate [OF that]]) (auto simp: intake_verdict_def split: sum.split)
  have "gated ?b (\<lambda>s' y. \<exists>i. s' = s\<lparr>gt_intake := i\<rparr> \<and> (\<forall>x. y = Inr x \<longrightarrow> i = Some x)) (with_locals m intake_now) s"
    unfolding gated_with_locals by (rule follow_mono [OF seen_intake]) (auto split: sum.split)
  then show ?thesis unfolding intake_permits_def using True
    by (simp del: follow_bind) (erule follow_bindI, use assms in \<open>auto intro: closed read simp: unclaimed_def simp del: follow_bind\<close>)
next
  case False
  then show ?thesis using assms by (simp add: intake_permits_def permitted_def)
qed

lemma dirty_gate:
  assumes "unclaimed s" "permitted b s"
  shows "gated b (\<lambda>s' y. unclaimed s' \<and> (\<forall>m'. y = Inr (False, m') \<longrightarrow> gates_open b s')) (dirty_tree_hold m) s"
    (is "gated _ ?Q _ _")
proof -
  have "gated b (\<lambda>s' y. \<exists>f. s' = s\<lparr>gt_clean := f\<rparr> \<and> (y = Inr (Inr True) \<longrightarrow> f)) (with_locals m (tried (ask_flag (Of_tree Tree_clean)))) s"
    unfolding gated_with_locals by (rule gated_tried, rule follow_mono [OF seen_tree]) (auto split: sum.split)
  then show ?thesis unfolding dirty_tree_hold_def
  proof (rule follow_bindI)
    fix s' r assume "\<exists>f. s' = s\<lparr>gt_clean := f\<rparr> \<and> (Inr r = (Inr (Inr True) :: worker_failure \<times> claim_memory + worker_failure + bool) \<longrightarrow> f)"
    then have u: "unclaimed s'" and g: "r = Inr True \<Longrightarrow> gates_open b s'"
      using assms by (auto simp: unclaimed_def permitted_def gates_open_def)
    have reported: "gated b ?Q (bind (remembering m' (bind dirty_tree_detail (\<lambda>d. log_line n d l k))) (\<lambda>(u, m). Return (True, m))) s'" for m' n l k
      using u by (intro ungated_bind calls_remembering calls_bind ungated_reports ungated_log) auto
    have clean: "gated b ?Q (bind (remembering m' (log_line n d l k)) (\<lambda>(u, m). Return (False, m))) s'" if "r = Inr True" for m' n d l k
      using u g [OF that] by (intro ungated_bind calls_remembering ungated_log) auto
    show "gated b ?Q (if r = Inr True then
       (if cm_dirty_reported m
        then bind (remembering (m\<lparr>cm_dirty_reported := False\<rparr>) (log_line ''working_tree_clean''
               ''repository working tree is clean again; intake hold cleared'' ''INFO'' None)) (\<lambda>(u, m). Return (False, m))
        else Return (False, m))
     else if cm_dirty_reported m then Return (True, m)
     else bind (remembering (m\<lparr>cm_dirty_reported := True\<rparr>)
            (bind dirty_tree_detail (\<lambda>detail. log_line ''working_tree_dirty'' detail ''WARNING'' None))) (\<lambda>(u, m). Return (True, m))) s'"
      using u g by (intro follow_if reported clean) auto
  qed (use assms in \<open>auto simp: unclaimed_def\<close>)
qed


section \<open>The claim\<close>

definition ready_to_claim :: "bool \<Rightarrow> gate_trace \<Rightarrow> bool" where
  "ready_to_claim b s \<longleftrightarrow> unclaimed s \<and> gates_open b s"

lemma ready_sound: "ready_to_claim b s \<Longrightarrow> gt_sound s"
  by (simp add: ready_to_claim_def unclaimed_def)

lemma attempt_ready:
  assumes "ready_to_claim b s"
  shows "claim_attempted b s r = s\<lparr>gt_won := won_by r\<rparr>"
  using assms by (simp add: claim_attempted_def ready_to_claim_def unclaimed_def)

lemma lost_ready: "ready_to_claim b s \<Longrightarrow> s\<lparr>gt_won := False\<rparr> = s"
  by (simp add: ready_to_claim_def unclaimed_def)

lemma opens:
  assumes "gt_sound s" "gt_won s"
  shows "gated b (\<lambda>s' y. gt_sound s') (open_attempt cl src i conflict) s"
proof -
  have rest: "calls ungated (bind (record_attempt_open n c) (\<lambda>_. bind (record_attempt_kind n c) (\<lambda>_.
      bind (perform (Of_log (Set_processing True))) (\<lambda>_. bind (telemetry_begin c) (\<lambda>_. Return c)))))" for n c
    unfolding record_attempt_open_def record_attempt_kind_def archived_or_warned_def telemetry_begin_def the_archive_def
    by (auto intro!: ungated_rules)
  show ?thesis unfolding open_attempt_def Let_def using assms
    by (subst follow_bind) (auto intro!: ungated_any [OF rest] simp del: follow_bind split: sum.split)
qed

lemma verified:
  assumes "ready_to_claim b s"
  shows "gated b (\<lambda>s' y. case y of Inl e \<Rightarrow> s' = s | Inr cl \<Rightarrow> gt_sound s' \<and> gt_won s') (claim_verified i) s"
  using lost_ready [OF assms] ready_sound [OF assms]
  by (auto simp: claim_verified_def attempt_ready [OF assms] won_by_def got_def split: worker_answer.split option.split)

definition claim_verdict :: "gate_trace \<Rightarrow> gate_trace \<Rightarrow> 'e + 'a option \<Rightarrow> bool" where
  "claim_verdict s s' y \<longleftrightarrow> gt_sound s' \<and> (case y of Inl e \<Rightarrow> True | Inr None \<Rightarrow> s' = s | Inr (Some cl) \<Rightarrow> gt_won s')"

lemma claim_verdict_simps [simp]:
  "claim_verdict s s' (Inl e) = gt_sound s'" "claim_verdict s s' (Inr None) = (gt_sound s' \<and> s' = s)"
  "claim_verdict s s' (Inr (Some cl)) = (gt_sound s' \<and> gt_won s')"
  by (simp_all add: claim_verdict_def)

lemma assigned:
  assumes "ready_to_claim b s"
  shows "gated b (claim_verdict s) (assign_priority n i) s"
    (is "gated b ?Q _ _")
proof -
  have lost: "gated b ?Q (bind (give_up_priority n t) (\<lambda>_. Return None)) s" "gated b ?Q (bind (ambiguous n t) (\<lambda>_. Raise e)) s" for t e
    using ready_sound [OF assms] by (auto intro!: ungated_bind ungated_reports simp del: follow_bind)
  have "gated b (\<lambda>s' y. case y of Inl e \<Rightarrow> s' = s | Inr (Inl e) \<Rightarrow> s' = s | Inr (Inr cl) \<Rightarrow> gt_sound s' \<and> gt_won s') (tried (claim_verified i)) s"
    by (rule gated_tried, rule follow_mono [OF verified [OF assms]]) (auto split: sum.split)
  then show ?thesis unfolding assign_priority_def
    by (rule follow_bindI) (use ready_sound [OF assms] in \<open>auto simp del: follow_bind append.simps intro: lost split: worker_failure.split sum.splits\<close>)
qed

lemma ungated_counts: "calls ungated (claim_count src i)" "calls ungated (announce_claim wk n conflict src v)"
  unfolding claim_count_def announce_claim_def by (auto intro!: ungated_rules ungated_reports)

lemma opened_prioritized:
  assumes "gt_sound s" "gt_won s"
  shows "gated b (\<lambda>s' y. gt_sound s') (open_prioritized wk n i k cl) s"
proof -
  have opened: "gated b (\<lambda>s' y. gt_sound s') (bind (open_attempt cl src x conflict) (\<lambda>c. Return (cl, c))) s" for src x conflict
    by (rule follow_bindI [OF opens [OF assms]]) auto
  show ?thesis unfolding open_prioritized_def Let_def
    by (intro ungated_bind follow_if opened ungated_reports ungated_rules ungated_counts) (simp_all add: assms)
qed

lemma prioritized:
  assumes "ready_to_claim b s"
  shows "gated b (\<lambda>s' y. gt_sound s' \<and> (y = Inr None \<longrightarrow> s' = s)) (claim_prioritized wk) s" (is "gated b ?Q _ _")
proof -
  note sound = ready_sound [OF assms]
  have won: "gated b ?Q (bind (assign_priority n i) (\<lambda>won. case won of None \<Rightarrow> Return None
      | Some cl \<Rightarrow> bind (open_prioritized wk n i k cl) (\<lambda>x. Return (Some x)))) s" for n i k
    by (rule follow_bindI [OF assigned [OF assms]])
       (auto intro!: follow_bindI [OF opened_prioritized] simp del: follow_bind split: option.split_asm option.split)
  have lost: "gated b ?Q (bind (lost_eligibility wk n i t) (\<lambda>_. Return None)) s" for n i t
    using sound by (intro ungated_bind ungated_revalidate) auto
  show ?thesis unfolding claim_prioritized_def
    using sound by (auto intro!: ungated_bind ungated_reports ungated_revalidate won lost simp del: follow_bind split: option.split)
qed

lemma opened_queued:
  assumes "gt_sound s" "gt_won s"
  shows "gated b (\<lambda>s' y. gt_sound s') (open_queued wk cl) s"
proof -
  have rest: "calls ungated (bind (announce_claim wk n conflict src v) (\<lambda>_.
      bind (if wk_control wk then perform (Of_control Enter_stopping) else Return ()) (\<lambda>_. Return x)))" for n conflict src v x
    by (auto intro!: ungated_rules ungated_counts)
  have opened: "gated b (\<lambda>s' y. gt_sound s') (bind (open_attempt cl src i conflict) (\<lambda>c. bind (announce_claim wk n conflict src v) (\<lambda>_.
      bind (if wk_control wk then perform (Of_control Enter_stopping) else Return ()) (\<lambda>_. Return (cl, c))))) s" for src i conflict n v
    by (rule follow_bindI [OF opens [OF assms]], assumption, rule ungated_any [OF rest])
  show ?thesis unfolding open_queued_def Let_def
    by (intro ungated_bind ungated_counts opened) (simp add: assms)
qed

lemma queued:
  assumes "ready_to_claim b s"
  shows "gated b (\<lambda>s' y. gt_sound s') (claim_from_queue wk) s" (is "gated b ?Q _ _")
proof -
  note sound = ready_sound [OF assms]
  have opened: "gated b ?Q (bind (open_queued wk cl) (\<lambda>x. Return (Some x))) s'" if "gt_sound s'" "gt_won s'" for s' cl
    by (rule follow_bindI [OF opened_queued [OF that]]) auto
  have none: "gated b ?Q (bind (log_line a d l k) (\<lambda>_. Return None)) s" for a d l k
    using sound by (intro ungated_bind ungated_log) auto
  have first: "gated b (\<lambda>s' y. gt_sound s' \<and> (case y of Inl e \<Rightarrow> True | Inr None \<Rightarrow> s' = s | Inr (Some cl) \<Rightarrow> gt_won s'))
      (ask (Of_queue Claim_first) (got (\<lambda>r. case r of The_claim cl \<Rightarrow> Some cl | _ \<Rightarrow> None))) s"
    using sound lost_ready [OF assms] by (auto simp: attempt_ready [OF assms] won_by_def got_def split: worker_answer.split option.split)
  show ?thesis unfolding claim_from_queue_def Let_def
    by (intro ungated_bind ungated_log follow_bindI [OF first])
       (use sound in \<open>auto intro!: opened none simp del: follow_bind append.simps split: option.split_asm option.split\<close>)
qed

lemma chosen:
  assumes "ready_to_claim b s"
  shows "gated b (\<lambda>s' y. gt_sound s') (choose_claim wk) s"
proof -
  have queue: "gated b (\<lambda>s' y. gt_sound s') (bind (recheck_priority wk) (\<lambda>_. claim_from_queue wk)) s"
    using ready_sound [OF assms] unfolding recheck_priority_def
    by (intro ungated_bind calls_if calls_bind ungated_reports calls_Return queued [OF assms]) auto
  have "gated b (\<lambda>s' y. gt_sound s' \<and> (y = Inr None \<longrightarrow> s' = s)) (if c then claim_prioritized wk else Return None) s" for c
    using prioritized [OF assms] ready_sound [OF assms] by simp
  then show ?thesis unfolding choose_claim_def
    by (rule follow_bindI) (auto intro!: queue simp del: follow_bind split: option.split)
qed

text \<open>
  C7. Whatever the parts answer, an issue is claimed only after the intake was seen running, no checkpoint was found
  and the working tree was seen clean, in this very cycle; at most one issue is won, and an attempt is opened only for
  an issue that was won.
\<close>

theorem claim_behind_gates:
  "gated (wk_control wk) (\<lambda>s y. gt_sound s) (gated_claim wk m) gate_start"
proof -
  let ?b = "wk_control wk" and ?Q = "\<lambda>s y. gt_sound s"
  have start: "unclaimed gate_start" by (simp add: unclaimed_def gate_start_def)
  have dirty: "gated ?b ?Q (bind (dirty_tree_hold m') (\<lambda>(held, m). if held then Return (None, m) else remembering m (choose_claim wk))) s"
    if "unclaimed s" "permitted ?b s" for s m'
    by (rule follow_bindI [OF dirty_gate [OF that]])
       (auto simp: unclaimed_def ready_to_claim_def remembering_def gated_with_locals simp del: follow_bind
         intro!: follow_bindI [where R = ?Q] chosen follow_mono [OF chosen])
  have intake: "gated ?b ?Q (bind (intake_permits wk m') (\<lambda>(permitted, m). if \<not> permitted then Return (None, m)
      else bind (dirty_tree_hold m) (\<lambda>(held, m). if held then Return (None, m) else remembering m (choose_claim wk)))) s"
    if "unclaimed s" for s m'
    by (rule follow_bindI [OF intake_gate [OF that]]) (auto simp: unclaimed_def simp del: follow_bind intro!: dirty)
  show ?thesis unfolding gated_claim_def
  proof (intro follow_if unclaiming_bind start)
    show "calls unclaiming (if cm_hold_detail m = None then Return (True, m) else bind (clear_startup_hold wk m) (\<lambda>(found, m). Return (found \<noteq> None, m)))"
      by (auto intro!: calls_rules unclaiming_hold)
  qed (auto simp: unclaimed_def gate_start_def simp del: follow_bind intro!: intake)
qed

end
