(* ===== verification/Worker_Fates.thy ===== *)
theory Worker_Fates
  imports Worker_Safety
begin

text \<open>
  What becomes of an attempt when its parts fail: the boundary finalizes an attempt whose report could not be posted,
  a conflict attempt whose command cannot be run leaves its prepared branch behind, and two restarts in a row publish
  unchecked work on the complete path. The claims hold for all answers of a kind; the runs at the end show answers of
  each kind.
\<close>

section \<open>Answers\<close>

text \<open>An exception that is neither an interrupt nor an exit nor a hold of the workspace.\<close>

definition plain_failure :: "worker_failure \<Rightarrow> bool" where
  "plain_failure e \<longleftrightarrow> (case e of Error f \<Rightarrow> True | _ \<Rightarrow> False) \<and> \<not> is_dirty e \<and> \<not> is_unrecoverable e"

text \<open>
  Parts that work except for plain exceptions: no handoff of the operator is pending, the count of errors stays below
  its limit, log, queue, cleanup and the stores of the boundary answer, and what is published has its comment posted.
\<close>

fun must_work :: "worker_call \<Rightarrow> bool" where
  "must_work (Of_queue q) = True"
| "must_work (Of_tree (Clean_up b)) = True"
| "must_work (Of_attempt Delete_attempt) = True"
| "must_work (Of_store (Record_finished i n b oc)) = True"
| "must_work (Of_log (Log_line a b l n)) = True"
| "must_work (Of_log (Set_active n)) = True"
| "must_work (Of_log (Write_archive s)) = True"
| "must_work q = False"

fun suits :: "worker \<Rightarrow> worker_call \<Rightarrow> worker_answer \<Rightarrow> bool" where
  "suits wk (Of_control Handoff_state) r = (r = The_handoff None)"
| "suits wk (Of_control (Count_finalized i oc)) r = (\<exists>ss. r = Strings ss)"
| "suits wk (Of_store (Count_error oc i)) r = (\<exists>k. r = Numbered k \<and> k < wk_max_consecutive_errors wk)"
| "suits wk (Of_log (Get_archive n i)) r = (\<exists>b. r = Flag b)"
| "suits wk (Of_publisher (Publish_result rq b)) r = (case r of The_result x \<Rightarrow> rs_comment_posted x \<and> rs_handoff_posted x | _ \<Rightarrow> True)"
| "suits wk (Of_publisher (Publish_conflict_result rq b)) r = (case r of The_result x \<Rightarrow> rs_comment_posted x | _ \<Rightarrow> True)"
| "suits wk q r = True"

definition calm :: "worker \<Rightarrow> worker_call \<Rightarrow> worker_answer \<Rightarrow> bool" where
  "calm wk q r \<longleftrightarrow> suits wk q r \<and> (case r of
     Threw e \<Rightarrow> plain_failure e \<and> \<not> must_work q
   | Conflict_reply (Failed f) \<Rightarrow> plain_failure (Error f)
   | _ \<Rightarrow> True)"

text \<open>What is recorded: whether a branch was prepared, a command could not be run after that, and what the boundary did.\<close>

record fate =
  ft_prepared :: bool
  ft_unrunnable :: bool
  ft_cleaned :: bool
  ft_released :: bool
  ft_removed :: bool


definition broke :: "conflict_answer \<Rightarrow> bool" where
  "broke r = (case r of Failed f \<Rightarrow> True | _ \<Rightarrow> False)"

definition went_wrong :: "worker_answer \<Rightarrow> bool" where
  "went_wrong r = (case conflict_answer_of r of Inl e \<Rightarrow> True | Inr x \<Rightarrow> broke x)"

definition gave_branch :: "conflict_answer \<Rightarrow> bool" where
  "gave_branch r = (case r of Prepared_is p \<Rightarrow> True | _ \<Rightarrow> False)"

fun fate_step :: "fate \<Rightarrow> worker_call \<Rightarrow> worker_answer \<Rightarrow> fate" where
  "fate_step s (Conflict_part (Prepare_branch b n)) r = s\<lparr>ft_prepared := (ft_prepared s \<or> (case r of Conflict_reply x \<Rightarrow> gave_branch x | _ \<Rightarrow> False))\<rparr>"
| "fate_step s (Conflict_part (Run_commands cs t env)) r = s\<lparr>ft_unrunnable := (ft_unrunnable s \<or> ft_prepared s \<and> went_wrong r)\<rparr>"
| "fate_step s (Of_tree (Clean_up b)) r = s\<lparr>ft_cleaned := True\<rparr>"
| "fate_step s (Of_queue (Release_handed_off n a)) r = s\<lparr>ft_released := (ft_released s \<or> confirmed r)\<rparr>"
| "fate_step s (Of_queue (Release_with n l a)) r = s\<lparr>ft_released := (ft_released s \<or> confirmed r)\<rparr>"
| "fate_step s (Of_attempt Delete_attempt) r = s\<lparr>ft_removed := (ft_removed s \<or> confirmed r)\<rparr>"
| "fate_step s q r = s"

lemma fate_grows:
  "ft_released s \<Longrightarrow> ft_released (fate_step s q r)" "ft_removed s \<Longrightarrow> ft_removed (fate_step s q r)"
  "ft_unrunnable s \<Longrightarrow> ft_unrunnable (fate_step s q r)" "ft_prepared s \<Longrightarrow> ft_prepared (fate_step s q r)"
  by (induction s q r rule: fate_step.induct) auto


section \<open>Outcomes under calm answers\<close>

text \<open>Whatever the state: the outcome of a program is one of \<open>Q\<close>, and what was recorded of the boundary stays.\<close>

definition outcomes :: "('q \<Rightarrow> 'r \<Rightarrow> bool) \<Rightarrow> ('e + 'a \<Rightarrow> bool) \<Rightarrow> ('q, 'r, 'e, 'a) prog \<Rightarrow> bool" where
  "outcomes legal Q m \<longleftrightarrow> follow legal (\<lambda>s q r. s) (\<lambda>s y. Q y) m ()"

lemma outcomes_Return [simp]: "outcomes legal Q (Return x) = Q (Inr x)"
  by (simp add: outcomes_def)

lemma outcomes_Raise [simp]: "outcomes legal Q (Raise e) = Q (Inl e)"
  by (simp add: outcomes_def)

lemma outcomes_ask: "(\<And>r. legal q r \<Longrightarrow> Q (dec r)) \<Longrightarrow> outcomes legal Q (ask q dec)"
  by (simp add: outcomes_def)

lemma outcomes_bind:
  assumes "outcomes legal R m" "\<And>e. R (Inl e) \<Longrightarrow> Q (Inl e)" "\<And>x. R (Inr x) \<Longrightarrow> outcomes legal Q (f x)"
  shows "outcomes legal Q (bind m f)"
  using assms(1) unfolding outcomes_def by (rule follow_bindI) (use assms(2,3) in \<open>auto simp: outcomes_def\<close>)

lemma outcomes_handle:
  assumes "outcomes legal R m" "\<And>x. R (Inr x) \<Longrightarrow> Q (Inr x)" "\<And>e. R (Inl e) \<Longrightarrow> outcomes legal Q (h e)"
  shows "outcomes legal Q (handle m h)"
  using assms(1) unfolding outcomes_def by (rule follow_handleI) (use assms(2,3) in \<open>auto simp: outcomes_def\<close>)



lemma outcomes_legal: "outcomes legal Q m \<Longrightarrow> (\<And>q r. legal' q r \<Longrightarrow> legal q r) \<Longrightarrow> outcomes legal' Q m"
  unfolding outcomes_def by (rule follow_project [where legal = legal and step = "\<lambda>s q r. s" and proj = "\<lambda>s. ()"]) auto




section \<open>The boundary\<close>




lemma plain_failure_exception: "plain_failure e \<Longrightarrow> is_exception e"
  by (cases e) (simp_all add: plain_failure_def)

















section \<open>Plain exceptions\<close>

definition mild :: "worker \<Rightarrow> 'a worker_prog \<Rightarrow> bool" where
  "mild wk m \<longleftrightarrow> outcomes (calm wk) (\<lambda>y. case y of Inl e \<Rightarrow> plain_failure e | Inr x \<Rightarrow> True) m"

named_theorems mild_rules \<open>programs whose exceptions are plain\<close>

lemma plain_type_error [simp]: "plain_failure (Error (OtherError ''TypeError'' m))"
  by (simp add: plain_failure_def is_dirty_def is_unrecoverable_def)

lemma got_plain: "calm wk q r \<Longrightarrow> got sel r = Inl e \<Longrightarrow> plain_failure e"
  by (auto simp: got_def calm_def split: worker_answer.splits option.splits)

lemma mild_ask [mild_rules]: "mild wk (ask q (got sel))"
  unfolding mild_def by (rule outcomes_ask) (auto dest: got_plain split: sum.split)

lemma mild_Return [mild_rules]: "mild wk (Return x)"
  by (simp add: mild_def)

lemma mild_bind [mild_rules]: "mild wk m \<Longrightarrow> (\<And>x. mild wk (f x)) \<Longrightarrow> mild wk (bind m f)"
  unfolding mild_def by (erule outcomes_bind) simp_all

lemma mild_handle: "mild wk m \<Longrightarrow> (\<And>e. plain_failure e \<Longrightarrow> mild wk (h e)) \<Longrightarrow> mild wk (handle m h)"
  unfolding mild_def by (erule outcomes_handle) simp_all

lemma mild_if [mild_rules]: "(b \<Longrightarrow> mild wk m) \<Longrightarrow> (\<not> b \<Longrightarrow> mild wk n) \<Longrightarrow> mild wk (if b then m else n)"
  by simp

lemma mild_option [mild_rules]:
  "(x = None \<Longrightarrow> mild wk m) \<Longrightarrow> (\<And>y. x = Some y \<Longrightarrow> mild wk (f y)) \<Longrightarrow> mild wk (case x of None \<Rightarrow> m | Some y \<Rightarrow> f y)"
  by (cases x) auto

lemma mild_sum [mild_rules]:
  "(\<And>e. mild wk (g e)) \<Longrightarrow> (\<And>y. mild wk (f y)) \<Longrightarrow> mild wk (case x of Inl e \<Rightarrow> g e | Inr y \<Rightarrow> f y)"
  by (cases x) auto

lemma mild_prod [mild_rules]: "(\<And>a b. mild wk (f a b)) \<Longrightarrow> mild wk (case x of (a, b) \<Rightarrow> f a b)"
  by (cases x) auto

lemma mild_tried [mild_rules]: "mild wk m \<Longrightarrow> mild wk (tried m)"
  unfolding tried_def by (intro mild_handle mild_bind) (auto simp: plain_failure_exception mild_def)

lemma mild_basics [mild_rules]:
  "mild wk (perform q)" "mild wk (ask_flag q)" "mild wk (ask_number q)" "mild wk (ask_maybe q)" "mild wk (ask_strings q)" "mild wk now"
  "mild wk stored_checkpoint" "mild wk handoff_state" "mild wk (log_line a b d n)" "mild wk (info a b k)" "mild wk (warning a b k)"
  by (simp_all add: perform_def ask_flag_def ask_number_def ask_maybe_def ask_strings_def now_def stored_checkpoint_def handoff_state_def
      log_line_def info_def warning_def mild_ask)

lemma mild_quietly [mild_rules]: "mild wk m \<Longrightarrow> mild wk (quietly m)"
  unfolding quietly_def by (intro mild_rules)

lemma mild_text [mild_rules]: "mild wk (the_archive n i)" "mild wk (text_answered q)"
  unfolding the_archive_def text_answered_def by (intro mild_rules)+

lemma mild_reraised: "mild wk m \<Longrightarrow> mild wk (handle m (\<lambda>e. if p e then Return x else Raise e))"
  by (erule mild_handle) (simp add: mild_def)

lemma mild_budget [mild_rules]: "mild wk' (handoff_publish_budget wk)"
  unfolding handoff_publish_budget_def by (intro mild_rules mild_reraised)


lemma mild_profile [mild_rules]: "mild wk (load_profile n)" "mild wk (ready_branch b n)" "mild wk (run_attempt cl pf p)"
  unfolding load_profile_def ready_branch_def run_attempt_def by (intro mild_rules)+

lemma mild_counts [mild_rules]:
  "mild wk' (auto_continuation_status_line wk cl c)" "mild wk' (handoff_needs_notification wk cl c)" "mild wk' (stored_handoff_continuation c)"
  unfolding auto_continuation_status_line_def auto_continuation_count_def handoff_needs_notification_def stored_handoff_continuation_def Let_def
  by (intro mild_rules)+

lemma mild_evidence [mild_rules]: "mild wk' (evidence_request wk cl c p pf ev)"
  unfolding evidence_request_def handoff_publication_details_def handoff_continuation_used_def auto_continuation_count_def Let_def
  by (intro mild_rules)


section \<open>The conflict attempt\<close>

text \<open>
  A part of the conflict attempt that stops at a command which cannot be run: if it returns a value, every command could
  be run, and its exceptions are plain. The state: a branch was prepared, and after that a command could not be run.
\<close>

definition tame :: "conflict_call \<Rightarrow> conflict_answer \<Rightarrow> bool" where
  "tame q r \<longleftrightarrow> (case r of Failed f \<Rightarrow> plain_failure (Error f) | _ \<Rightarrow> True)"

definition command_step :: "bool \<times> bool \<Rightarrow> conflict_call \<Rightarrow> conflict_answer \<Rightarrow> bool \<times> bool" where
  "command_step s q r = (case q of
     Prepare_branch b n \<Rightarrow> (fst s \<or> gave_branch r, snd s)
   | Run_commands cs t env \<Rightarrow> (fst s, snd s \<or> fst s \<and> broke r)
   | _ \<Rightarrow> s)"

definition stopped :: "bool \<times> bool \<Rightarrow> failure + 'a \<Rightarrow> bool" where
  "stopped s y = (case y of Inl f \<Rightarrow> plain_failure (Error f) | Inr x \<Rightarrow> \<not> snd s)"

definition stops :: "'a conflict_prog \<Rightarrow> bool" where
  "stops m \<longleftrightarrow> (\<forall>p. follow tame command_step stopped m (p, False))"

named_theorems stops_rules \<open>parts that stop at a command which cannot be run\<close>

lemma stops_Return [stops_rules]: "stops (Return x)"
  by (simp add: stops_def stopped_def)

lemma stops_bind [stops_rules]: "stops m \<Longrightarrow> (\<And>x. stops (f x)) \<Longrightarrow> stops (bind m f)"
  unfolding stops_def
proof (intro allI follow_bindI [where R = stopped], goal_cases)
  case (3 p s x)
  then show ?case by (cases s) (simp add: stopped_def)
qed (simp_all add: stopped_def)

lemma command_kept: "\<not> broke r \<Longrightarrow> snd (command_step s q r) = snd s"
  by (cases q) (simp_all add: command_step_def)

lemma broke_answer: "broke r \<Longrightarrow> tame q r \<Longrightarrow> \<exists>f. answered sel r = Inl f \<and> plain_failure (Error f)"
  by (cases r) (simp_all add: broke_def tame_def answered_def)

lemma answer_plain: "\<not> broke r \<Longrightarrow> answered sel r = Inl f \<Longrightarrow> plain_failure (Error f)"
  by (cases r) (auto simp: broke_def answered_def split: option.splits)

lemma stops_ask [stops_rules]: "stops (ask q (answered sel))"
  unfolding stops_def follow_ask
proof (intro allI impI)
  fix p r assume "tame q r"
  then show "stopped (command_step (p, False) q r) (answered sel r)"
    using command_kept [of r "(p, False)" q] broke_answer [of r q sel] answer_plain [of r sel]
    by (cases "broke r") (auto simp: stopped_def split: sum.split)
qed

lemma stops_if [stops_rules]: "(b \<Longrightarrow> stops m) \<Longrightarrow> (\<not> b \<Longrightarrow> stops n) \<Longrightarrow> stops (if b then m else n)"
  by simp

lemma stops_option [stops_rules]: "stops m \<Longrightarrow> (\<And>y. stops (f y)) \<Longrightarrow> stops (case x of None \<Rightarrow> m | Some y \<Rightarrow> f y)"
  by (cases x) auto

lemma stops_sum [stops_rules]: "(\<And>e. stops (g e)) \<Longrightarrow> (\<And>y. stops (f y)) \<Longrightarrow> stops (case x of Inl e \<Rightarrow> g e | Inr y \<Rightarrow> f y)"
  by (cases x) auto

lemma stops_prod [stops_rules]: "(\<And>a b. stops (f a b)) \<Longrightarrow> stops (case x of (a, b) \<Rightarrow> f a b)"
  by (cases x) auto

definition no_command :: "conflict_call \<Rightarrow> bool" where
  "no_command q = (case q of Run_commands cs t env \<Rightarrow> False | _ \<Rightarrow> True)"

lemma stops_caught: "calls no_command m \<Longrightarrow> (\<And>e. stops (h e)) \<Longrightarrow> stops (handle m h)"
  unfolding stops_def
proof (intro allI follow_handleI [where R = "\<lambda>s y. \<not> snd s"], goal_cases)
  case (1 p)
  from 1(1) show ?case
    by (rule follow_calls) (auto simp: command_step_def no_command_def split: conflict_call.splits)
next
  case (3 p s e)
  then show ?case by (cases s) simp
qed (simp_all add: stopped_def)

lemma stops_attempted [stops_rules]: "calls no_command m \<Longrightarrow> stops (attempted m)"
  unfolding attempted_def by (intro stops_caught stops_rules calls_rules)

lemma stops_parts [stops_rules]:
  "stops (commanded q)" "stops (event a b d n)" "stops snapshot" "stops (commits_of p)" "stops (run_profile cs t pf)" "stops (enter_phase ph n)"
  by (simp_all add: commanded_def event_def snapshot_def commits_of_def run_profile_def enter_phase_def stops_ask stops_bind)

lemma command_free_parts [calls_rules]:
  "no_command q \<Longrightarrow> calls no_command (commanded q)" "calls no_command (event a b d n)" "calls no_command snapshot" "calls no_command (commits_of p)"
  by (auto simp: commanded_def event_def snapshot_def commits_of_def no_command_def intro!: calls_rules)

lemma stops_record_lease [stops_rules]: "stops (record_lease p n)"
  unfolding record_lease_def by (intro stops_rules calls_rules; simp add: no_command_def)

lemma stops_best_effort [stops_rules]:
  "stops (abort_best_effort p n)" "stops (seal_best_effort n i st)" "stops (archive_model_result b n)"
  unfolding abort_best_effort_def seal_best_effort_def archive_model_result_def
  by (intro stops_rules calls_rules; simp add: no_command_def)+

lemma stops_files [stops_rules]: "stops (files_of_revisions rs)"
  by (induction rs) (simp_all add: stops_rules)

lemma stops_resolution [stops_rules]: "stops (resolve_conflict_with_model cw a)"
  unfolding resolve_conflict_with_model_def run_session_def judge_session_def given_up_def judge_history_def verify_resolution_def
    resolution_verified_def enter_model_phase_def resolution_prompt_def Let_def
  by (intro stops_rules calls_rules; simp add: no_command_def)







section \<open>The attempt up to its boundary\<close>














lemma fresh_posted [simp]: "rl_posted fresh_locals"
  by (simp add: fresh_locals_def)








section \<open>A report that cannot be posted\<close>





section \<open>A command that cannot be run\<close>

definition undisturbed :: "worker_call \<Rightarrow> bool" where
  "undisturbed q = (case q of Of_tree (Clean_up b) \<Rightarrow> False | Conflict_part x \<Rightarrow> no_command x | _ \<Rightarrow> True)"



lemma undisturbed_simps [simp]:
  "undisturbed (Of_log a)" "undisturbed (Of_control b)" "undisturbed (Of_publisher d)" "undisturbed (Conflict_part x) = no_command x"
  "undisturbed (Of_attempt f)" "undisturbed (Of_tree (Abort_branch p))"
  by (simp_all add: undisturbed_def)

lemma undisturbed_conflict [calls_rules]: "calls no_command m \<Longrightarrow> calls undisturbed (of_conflict m)"
  unfolding of_conflict_def by (induction m) (auto split: sum.split)

lemma undisturbed_parts [calls_rules]:
  "calls undisturbed now" "calls undisturbed handoff_state" "calls undisturbed (log_line a b d n)" "calls undisturbed (warning a b k)"
  by (auto simp: now_def handoff_state_def log_line_def warning_def intro!: calls_rules)

lemma undisturbed_publication [calls_rules]: "calls undisturbed (publish_conflict_bounded wk rq cl)"
proof -
  have "calls no_command (stamp_conflict_budget cw cl rq)" "calls no_command (escalate_to_human cl r b)" for cw rq r b
    unfolding stamp_conflict_budget_def escalate_to_human_def Let_def by (auto simp: no_command_def intro!: calls_rules)
  moreover have "calls undisturbed (handoff_publish_budget wk)" "calls undisturbed (remember_publication n i r)" for n i r
    unfolding handoff_publish_budget_def remember_publication_def archive_pull_request_def the_archive_def by (auto intro!: calls_rules)
  ultimately show ?thesis
    unfolding publish_conflict_bounded_def published_by_def by (auto intro!: calls_rules)
qed

lemma undisturbed_published [calls_rules]: "(\<And>l. calls undisturbed (p l)) \<Longrightarrow> calls undisturbed (published_then l p f)"
  unfolding published_then_def Let_def by (auto intro!: calls_rules)











section \<open>Two restarts\<close>

text \<open>
  How the parts answer a recovery: the branch has the commits of the attempt and no note, the archive does not show a
  check that began and did not finish, and nothing raises. The phase is the one that the checkpoint has.
\<close>

fun interrupted_answers :: "attempt_commit list \<Rightarrow> worker_call \<Rightarrow> worker_answer \<Rightarrow> bool" where
  "interrupted_answers cs (Of_tree (Branch_commits p)) r = (r = The_commits cs)"
| "interrupted_answers cs (Of_tree (Note_commit_of p n i)) r = (r = The_commit None)"
| "interrupted_answers cs (Of_log Final_check_marks) r = (r \<in> {Marks False False, Marks False True, Marks True True})"
| "interrupted_answers cs q r = confirmed r"

definition phase_step :: "attempt_phase \<Rightarrow> worker_call \<Rightarrow> worker_answer \<Rightarrow> attempt_phase" where
  "phase_step ph q r = (case q of Of_attempt (Enter x) \<Rightarrow> x | _ \<Rightarrow> ph)"

lemma confirmed_unit: "confirmed r \<Longrightarrow> got (\<lambda>r. Some ()) r = Inr ()"
  by (simp add: got_unit confirmed_def split: worker_answer.splits)

lemma commits_read: "follow (interrupted_answers cs) phase_step (\<lambda>ph' y. ph' = ph \<and> y = Inr cs) (branch_commits p) ph"
  by (simp add: branch_commits_def got_def phase_step_def)

lemma check_read: "follow (interrupted_answers cs) phase_step (\<lambda>ph' y. ph' = ph \<and> y = Inr False) (final_check_was_interrupted archived) ph"
  by (auto simp: final_check_was_interrupted_def got_def phase_step_def)

lemma phase_entered: "follow (interrupted_answers cs) phase_step (\<lambda>ph' y. ph' = x \<and> y = Inr ()) (perform (Of_attempt (Enter x))) ph"
  by (simp add: perform_def confirmed_unit phase_step_def)

lemma line_logged: "follow (interrupted_answers cs) phase_step (\<lambda>ph' y. ph' = ph \<and> y = Inr ()) (info a b n) ph"
  by (simp add: info_def log_line_def perform_def confirmed_unit phase_step_def)

text \<open>
  C31. An attempt that was interrupted while the model ran and left commits is incomplete for the first restart, which
  moves its checkpoint to the publication; a restart from there, before the publication ended, decides the same branch
  as completed local evidence, eligible for the complete path, although no final check and no review ever ended.
\<close>

theorem second_restart_completes_unchecked_work:
  assumes "cs \<noteq> []" "ck_phase c = MODEL_RUNNING"
  shows "follow (interrupted_answers cs) phase_step
    (\<lambda>ph y. case y of Inl e \<Rightarrow> False | Inr (d, b) \<Rightarrow> cd_outcome d = Some INCOMPLETE \<and> \<not> cd_publication_eligible d
      \<and> follow (interrupted_answers cs) phase_step
          (\<lambda>ph' y'. case y' of Inl e \<Rightarrow> False | Inr (d', b') \<Rightarrow> cd_publication_eligible d' \<and> cd_publication_path d' = PATH_COMPLETE)
          (recovered_decision (c\<lparr>ck_phase := ph\<rparr>) n p archived) ph)
    (recovered_decision c n p archived) MODEL_RUNNING"
proof -
  have first: "follow (interrupted_answers cs) phase_step
      (\<lambda>ph y. ph = PUSHING \<and> y = Inr (partial_decision INCOMPLETE ''Model execution was interrupted; preserved committed work.'', True))
      (interrupted_model n p archived) MODEL_RUNNING"
    unfolding interrupted_model_def
  proof (rule follow_bindI [OF commits_read], goal_cases)
    case (2 ph commits)
    then show ?case using assms(1)
      by (simp del: follow_bind follow_ask)
         (rule follow_bindI [OF check_read], simp_all del: follow_bind follow_ask,
          rule follow_bindI [OF phase_entered], simp_all del: follow_bind follow_ask, rule follow_bindI [OF line_logged], simp_all)
  qed simp
  have second: "follow (interrupted_answers cs) phase_step
      (\<lambda>ph' y'. case y' of Inl e \<Rightarrow> False | Inr (d', b') \<Rightarrow> cd_publication_eligible d' \<and> cd_publication_path d' = PATH_COMPLETE)
      (interrupted_publication n i p) ph" for i ph
    by (simp add: interrupted_publication_def branch_commits_def note_commit_of_def got_def complete_decision_def)
  have "recovered_decision c n p archived = interrupted_model n p archived"
    "recovered_decision (c\<lparr>ck_phase := PUSHING\<rparr>) n p archived = interrupted_publication n (ck_started_at c) p"
    using assms(2) by (simp_all add: recovered_decision_def)
  with first show ?thesis by (auto simp: partial_decision_def second elim!: follow_mono)
qed


section \<open>Runs\<close>




definition sample_checkpoint :: "attempt_phase \<Rightarrow> string \<Rightarrow> checkpoint" where
  "sample_checkpoint phase kind = \<lparr>ck_issue_number = 1, ck_branch = ''agent/issue-1'', ck_phase = phase, ck_started_at = ''s'',
     ck_updated_at = ''s'', ck_auto_merge_opt_in = False, ck_requeue_source = ''human'', ck_issue_title = None,
     ck_continuation_index = None, ck_attempt_kind = kind, ck_claim_branch_revision = None, ck_claim_lease_recorded = False\<rparr>"

definition sample_branch :: prepared_attempt where
  "sample_branch = \<lparr>pa_branch = ''agent/issue-1'', pa_base_revision = ''b'', pa_restored_from_remote = True, pa_rebase_conflicts = [],
     pa_pre_rebase_revision = None, pa_remote_branch_revision = None, pa_remote_branch_known = False\<rparr>"







text \<open>A service that keeps the state of a trace.\<close>

definition tracked :: "('s \<Rightarrow> 'q \<Rightarrow> 'r \<Rightarrow> 's) \<Rightarrow> ('q \<Rightarrow> 'r) \<Rightarrow> 's \<Rightarrow> 'q \<Rightarrow> 'r \<times> 's" where
  "tracked step serve s q = (serve q, step s q (serve q))"

lemma follow_tracked:
  "follow legal step Q m s \<Longrightarrow> (\<And>q. legal q (serve q)) \<Longrightarrow> Q (snd (run_prog (tracked step serve) m s)) (fst (run_prog (tracked step serve) m s))"
  by (induction m arbitrary: s) (auto simp: tracked_def)






text \<open>The answers of a recovery, with one commit on the branch.\<close>

definition sample_commits :: "attempt_commit list" where
  "sample_commits = [\<lparr>ac_revision = ''r'', ac_subject = ''w''\<rparr>]"

definition recovery_answer :: "worker_call \<Rightarrow> worker_answer" where
  "recovery_answer q = (case q of
     Of_tree t \<Rightarrow> (case t of Branch_commits p \<Rightarrow> The_commits sample_commits | Note_commit_of p n i \<Rightarrow> The_commit None | _ \<Rightarrow> Good)
   | Of_log l \<Rightarrow> if l = Final_check_marks then Marks True True else Good
   | _ \<Rightarrow> Good)"

lemma recovery_answers: "interrupted_answers sample_commits q (recovery_answer q)"
  by (induction sample_commits q "recovery_answer q" rule: interrupted_answers.induct) (simp_all add: recovery_answer_def confirmed_def)

definition restart :: "attempt_phase \<Rightarrow> (worker_failure + completion_decision \<times> bool) \<times> attempt_phase" where
  "restart ph = run_prog (tracked phase_step recovery_answer)
     (recovered_decision ((sample_checkpoint MODEL_RUNNING ''ordinary'')\<lparr>ck_phase := ph\<rparr>) 1 sample_branch True) ph"

lemma restart_start: "restart MODEL_RUNNING = run_prog (tracked phase_step recovery_answer)
    (recovered_decision (sample_checkpoint MODEL_RUNNING ''ordinary'') 1 sample_branch True) MODEL_RUNNING"
  by (simp add: restart_def sample_checkpoint_def)

theorem second_restart_completes_unchecked_work_witness:
  "(case restart MODEL_RUNNING of (y, ph) \<Rightarrow>
      (case y of Inl e \<Rightarrow> False | Inr (d, b) \<Rightarrow> cd_outcome d = Some INCOMPLETE)
      \<and> (case fst (restart ph) of Inl e \<Rightarrow> False | Inr (d', b') \<Rightarrow> cd_publication_eligible d' \<and> cd_publication_path d' = PATH_COMPLETE))"
proof -
  have "sample_commits \<noteq> []" "ck_phase (sample_checkpoint MODEL_RUNNING ''ordinary'') = MODEL_RUNNING"
    by (simp_all add: sample_commits_def sample_checkpoint_def)
  from follow_tracked [OF second_restart_completes_unchecked_work [OF this, of 1 sample_branch True], of recovery_answer, OF recovery_answers]
  have first: "case fst (restart MODEL_RUNNING) of Inl e \<Rightarrow> False | Inr (d, b) \<Rightarrow> cd_outcome d = Some INCOMPLETE \<and> \<not> cd_publication_eligible d
      \<and> follow (interrupted_answers sample_commits) phase_step
          (\<lambda>ph' y'. case y' of Inl e \<Rightarrow> False | Inr (d', b') \<Rightarrow> cd_publication_eligible d' \<and> cd_publication_path d' = PATH_COMPLETE)
          (recovered_decision ((sample_checkpoint MODEL_RUNNING ''ordinary'')\<lparr>ck_phase := snd (restart MODEL_RUNNING)\<rparr>) 1 sample_branch True)
          (snd (restart MODEL_RUNNING))"
    unfolding restart_start by simp
  obtain x where x: "fst (restart MODEL_RUNNING) = Inr x" using first by (cases "fst (restart MODEL_RUNNING)") simp_all
  obtain d b where db: "x = (d, b)" by (cases x)
  note result = first [unfolded x db sum.case prod.case]
  note F = result [THEN conjunct2, THEN conjunct2]
  from follow_tracked [OF F, of recovery_answer, OF recovery_answers]
  have "case fst (restart (snd (restart MODEL_RUNNING))) of Inl e \<Rightarrow> False | Inr (d', b') \<Rightarrow> cd_publication_eligible d' \<and> cd_publication_path d' = PATH_COMPLETE"
    by (simp add: restart_def)
  with result [THEN conjunct1] x db show ?thesis by (simp add: case_prod_beta)
qed

end
