(* ===== verification/Attempt_Runner.thy ===== *)
theory Attempt_Runner
  imports Worker Emergency_Note Comments
begin

text \<open>
  The runner of an ordinary attempt (lifecycle.py, \<open>ModelAttemptRunner\<close>): setup and baseline, the starting prompt, the
  model's session, the seal of whatever it left, the handoff note of the runtime, the final check, and the decision on
  the evidence. A program over the calls of the checkpoint, the workspace, the commands, the session, the operator's
  handoff, the archive and the log. \<open>tree_program\<close> says which program of the workspace a call stands for.
\<close>

section \<open>Calls\<close>

record skill_event =
  sk_phase :: string
  sk_name :: string
  sk_agent :: "string option"

record model_execution =
  mx_status :: model_status
  mx_explanation :: string
  mx_stop_reason :: "string option"
  mx_terminal_reason :: "string option"
  mx_token_ceiling :: bool
  mx_skills :: "skill_event list"
  mx_budget :: "budget_facts option"
  mx_last_text :: "string option"
  mx_edited_files :: "string list"
  mx_tool_calls :: "tool_call list"
  mx_bash_calls :: "tool_call list"

datatype work_call =
    Commits_since prepared_attempt
  | Conflicts
  | Restore_branch prepared_attempt
  | Dirty_files
  | Seal_tree int string model_status
  | Note_commit prepared_attempt int string
  | Note_revisions prepared_attempt int string
  | Check_note "attempt_commit option" "attempt_commit list" int string "string list"
  | Read_note int
  | Put_note int string
  | Diff_stat string string
  | Previous_note prepared_attempt int

datatype runner_call =
    Say string string string int
  | Work work_call
  | Issue_thread tracker_issue
  | Stored_attempt
  | Phase_to attempt_phase
  | Archive_of int string
  | Record_part string
  | Record_file string string
  | Record_transcripts "string option" int
  | Shell "string list" int "(string \<times> string) list"
  | Session string int string string string
  | Session_id
  | Wire_operator
  | Wire_commits prepared_attempt nat
  | Pending_handoff
  | Latched_request
  | Drop_handoff string string

datatype work_answer =
    Commits "attempt_commit list"
  | Conflicted conflict_state
  | Files "string list"
  | A_commit "attempt_commit option"
  | Revisions "string list"
  | Judged note_validation
  | A_text string
  | A_stat "string option"
  | A_note "previous_note option"
  | Worked

datatype runner_answer =
    Broke worker_failure
  | Done
  | Worked_on work_answer
  | Thread "string list"
  | Stored "checkpoint option"
  | Archive_dir string
  | Shell_result command_result
  | Executed model_execution
  | Perhaps "string option"
  | Handoff_is "handoff_view option"

type_synonym 'a runner_prog = "(runner_call, runner_answer, worker_failure, 'a) prog"

definition heard :: "(runner_answer \<Rightarrow> 'a option) \<Rightarrow> runner_answer \<Rightarrow> worker_failure + 'a" where
  "heard sel r = (case r of
     Broke e \<Rightarrow> Inl e
   | _ \<Rightarrow> (case sel r of None \<Rightarrow> Inl (Error (OtherError ''TypeError'' ''unexpected answer'')) | Some x \<Rightarrow> Inr x))"

definition tell :: "runner_call \<Rightarrow> unit runner_prog" where
  "tell q = ask q (heard (\<lambda>r. Some ()))"

definition tree :: "work_call \<Rightarrow> (work_answer \<Rightarrow> 'a option) \<Rightarrow> 'a runner_prog" where
  "tree q sel = ask (Work q) (heard (\<lambda>r. case r of Worked_on w \<Rightarrow> sel w | _ \<Rightarrow> None))"

definition say :: "string \<Rightarrow> string \<Rightarrow> string \<Rightarrow> int \<Rightarrow> unit runner_prog" where
  "say name detail level n = tell (Say name detail level n)"

definition safely :: "'a runner_prog \<Rightarrow> (worker_failure + 'a) runner_prog" where
  "safely m = handle (bind m (\<lambda>x. Return (Inr x))) (\<lambda>e. if is_exception e then Return (Inl e) else Raise e)"

text \<open>\<open>except GitWorkspaceError\<close>, whose subclass reports a conflict of a rebase, too.\<close>

definition is_git_trouble :: "worker_failure \<Rightarrow> bool" where
  "is_git_trouble e = (case e of Error f \<Rightarrow> is_git_error f | Rebase_failed m fs \<Rightarrow> True | _ \<Rightarrow> False)"

record attempt_runner =
  ar_tree :: workspace
  ar_iso :: iso_parser
  ar_valid_iso :: "string \<Rightarrow> bool"
  ar_parse_instant :: "string \<Rightarrow> rat option"
  ar_archives :: bool
  ar_redactions :: "string list"
  ar_blocking :: "string set"
  ar_criteria :: "claim \<Rightarrow> bool"
  ar_operator :: bool

text \<open>What the workspace does for a call.\<close>

fun tree_program :: "attempt_runner \<Rightarrow> work_call \<Rightarrow> work_answer ws_prog" where
  "tree_program a (Commits_since p) = bind (commits_added (ar_tree a) p) (\<lambda>cs. Return (Commits cs))"
| "tree_program a Conflicts = bind (read_conflict_state (ar_tree a)) (\<lambda>s. Return (Conflicted s))"
| "tree_program a (Restore_branch p) = bind (abort_unresolved_rebase (ar_tree a) p) (\<lambda>_. Return Worked)"
| "tree_program a Dirty_files = bind (dirty_paths (ar_tree a)) (\<lambda>fs. Return (Files fs))"
| "tree_program a (Seal_tree n attempt_id s) = bind (seal (ar_tree a) n attempt_id (status_value s)) (\<lambda>c. Return (A_commit c))"
| "tree_program a (Note_commit p n attempt_id) = bind (handoff_note_commit (ar_tree a) (ar_iso a) p n attempt_id) (\<lambda>c. Return (A_commit c))"
| "tree_program a (Note_revisions p n attempt_id) =
     bind (this_attempt_note_commit_revisions (ar_tree a) (ar_iso a) p n attempt_id) (\<lambda>rs. Return (Revisions rs))"
| "tree_program a (Check_note c cs n base rs) =
     bind (validate_handoff_note (ar_tree a) (ar_valid_iso a) c cs n base (Some rs)) (\<lambda>v. Return (Judged v))"
| "tree_program a (Read_note n) = bind (read_handoff_note (ar_tree a) n) (\<lambda>t. Return (A_text t))"
| "tree_program a (Put_note n t) = bind (commit_handoff_note (ar_tree a) n t) (\<lambda>_. Return Worked)"
| "tree_program a (Diff_stat base endpoint) = bind (git_diff_stat (ws_clone_dir (ar_tree a)) base endpoint) (\<lambda>t. Return (A_stat t))"
| "tree_program a (Previous_note p n) = bind (previous_complete_note (ar_tree a) (ar_iso a) p n) (\<lambda>x. Return (A_note x))"

definition commits_now :: "prepared_attempt \<Rightarrow> attempt_commit list runner_prog" where
  "commits_now p = tree (Commits_since p) (\<lambda>w. case w of Commits cs \<Rightarrow> Some cs | _ \<Rightarrow> None)"

definition conflicts_now :: "conflict_state runner_prog" where
  "conflicts_now = tree Conflicts (\<lambda>w. case w of Conflicted s \<Rightarrow> Some s | _ \<Rightarrow> None)"

definition dirty_now :: "string list runner_prog" where
  "dirty_now = tree Dirty_files (\<lambda>w. case w of Files fs \<Rightarrow> Some fs | _ \<Rightarrow> None)"

definition seal_now :: "int \<Rightarrow> string \<Rightarrow> model_status \<Rightarrow> attempt_commit option runner_prog" where
  "seal_now n attempt_id s = tree (Seal_tree n attempt_id s) (\<lambda>w. case w of A_commit c \<Rightarrow> Some c | _ \<Rightarrow> None)"

definition note_now :: "prepared_attempt \<Rightarrow> int \<Rightarrow> string \<Rightarrow> attempt_commit option runner_prog" where
  "note_now p n attempt_id = tree (Note_commit p n attempt_id) (\<lambda>w. case w of A_commit c \<Rightarrow> Some c | _ \<Rightarrow> None)"

definition note_text_now :: "int \<Rightarrow> string runner_prog" where
  "note_text_now n = tree (Read_note n) (\<lambda>w. case w of A_text t \<Rightarrow> Some t | _ \<Rightarrow> None)"


section \<open>The attempt\<close>

text \<open>What stays the same through an attempt; the archive is the directory it is kept in.\<close>

record attempt_run =
  ru_claim :: claim
  ru_profile :: repository_profile
  ru_prepared :: prepared_attempt
  ru_attempt_id :: string
  ru_archive :: "string option"
  ru_continuation :: bool
  ru_deferred :: bool

definition ru_number :: "attempt_run \<Rightarrow> int" where
  "ru_number u = ti_number (cl_issue (ru_claim u))"

definition record_part :: "attempt_run \<Rightarrow> string \<Rightarrow> unit runner_prog" where
  "record_part u what = (if ru_archive u = None then Return () else tell (Record_part what))"

definition archive_commands :: "attempt_run \<Rightarrow> string \<Rightarrow> command_result \<Rightarrow> unit runner_prog" where
  "archive_commands u name r =
     (if ru_archive u = None then Return ()
      else bind (tell (Record_file (name @ ''_stdout.log'') (concat (map ex_stdout (cr_commands r))))) (\<lambda>_.
           tell (Record_file (name @ ''_stderr.log'') (concat (map ex_stderr (cr_commands r))))))"

definition log_completion_decision :: "int \<Rightarrow> completion_decision \<Rightarrow> unit runner_prog" where
  "log_completion_decision n d =
     say ''completion_decided'' (''outcome='' @ (case cd_outcome d of Some oc \<Rightarrow> outcome_value oc | None \<Rightarrow> ''none'')
         @ ''; reasons='' @ (if cd_reasons d = [] then ''none'' else py_join ''; '' (cd_reasons d)))
       (if cd_outcome d \<in> {Some INCOMPLETE, Some NO_CHANGES, Some INFRASTRUCTURE_ERROR} then ''WARNING'' else ''INFO'') n"

definition NO_EVIDENCE :: string where "NO_EVIDENCE = ''Attempt did not reach local completion evidence.''"

definition evidence_of ::
  "completion_decision \<Rightarrow> repository_profile \<Rightarrow> command_result option \<Rightarrow> int \<Rightarrow> string \<Rightarrow> string \<Rightarrow> string option \<Rightarrow> int \<Rightarrow> attempt_evidence" where
  "evidence_of d pf check cycles findings details sha reviews =
     \<lparr>ae_decision = d,
      ae_check = no_check\<lparr>ck_command := py_join '' && '' (pf_check pf), ck_steps := pf_check pf,
        ck_exit_code := (case check of Some r \<Rightarrow> cr_exit_code r | None \<Rightarrow> None),
        ck_failed_step := (case check of Some r \<Rightarrow> if cr_exit_code r = Some 0 then None else fst (check_failure_step r) | None \<Rightarrow> None),
        ck_failed_index := (case check of Some r \<Rightarrow> if cr_exit_code r = Some 0 then None else snd (check_failure_step r) | None \<Rightarrow> None)\<rparr>,
      ae_review_cycles = cycles, ae_review_findings = findings, ae_details = details, ae_note_commit_sha = sha,
      ae_reviews_performed = reviews\<rparr>"

definition early_evidence :: "completion_decision \<Rightarrow> repository_profile \<Rightarrow> string \<Rightarrow> attempt_evidence" where
  "early_evidence d pf details = evidence_of d pf None 0 ''not run'' details None 0"


section \<open>Preparation\<close>

definition shell :: "string list \<Rightarrow> int \<Rightarrow> repository_profile \<Rightarrow> command_result runner_prog" where
  "shell cs timeout pf =
     ask (Shell cs timeout (pf_env pf)) (heard (\<lambda>r. case r of Shell_result x \<Rightarrow> Some x | _ \<Rightarrow> None))"

text \<open>\<open>VerificationRunner.prepare\<close>, with the state that it leaves.\<close>

definition verify_setup :: "repository_profile \<Rightarrow> bool \<Rightarrow> (preparation_evidence \<times> verification) runner_prog" where
  "verify_setup pf continuation =
     bind (shell (pf_setup pf) (pf_setup_timeout pf) pf) (\<lambda>setup.
     if \<not> cr_succeeded setup then Return (\<lparr>pe_setup = setup, pe_baseline = None\<rparr>, new_verification)
     else bind (shell (pf_check pf) (pf_timeout pf) pf) (\<lambda>baseline.
       Return (\<lparr>pe_setup = setup, pe_baseline = Some baseline\<rparr>,
         new_verification\<lparr>vr_baseline_passed := cr_succeeded baseline \<or> continuation\<rparr>)))"

definition is_type_error :: "worker_failure \<Rightarrow> bool" where
  "is_type_error e \<longleftrightarrow> worker_failure_type e = ''TypeError''"

definition verify_setup_tolerantly :: "repository_profile \<Rightarrow> bool \<Rightarrow> (preparation_evidence \<times> verification) runner_prog" where
  "verify_setup_tolerantly pf continuation =
     handle (verify_setup pf continuation) (\<lambda>e. if is_type_error e then verify_setup pf False else Raise e)"

definition report_setup :: "attempt_run \<Rightarrow> command_result \<Rightarrow> unit runner_prog" where
  "report_setup u r =
     bind (archive_commands u ''setup'' r) (\<lambda>_.
     if \<not> cr_succeeded r then say ''setup_failed'' (command_failure_detail r) ''ERROR'' (ru_number u)
     else say ''setup_succeeded'' [] ''INFO'' (ru_number u))"

definition report_baseline :: "attempt_run \<Rightarrow> bool \<Rightarrow> command_result \<Rightarrow> unit runner_prog" where
  "report_baseline u continuation r =
     bind (archive_commands u ''baseline_check'' r) (\<lambda>_.
     if \<not> cr_succeeded r
     then say ''baseline_check_failed'' (command_failure_detail r) (if continuation then ''WARNING'' else ''ERROR'') (ru_number u)
     else say ''baseline_check_succeeded'' [] ''INFO'' (ru_number u))"

definition no_work :: "preparation_evidence \<Rightarrow> bool \<Rightarrow> evidence" where
  "no_work prep continuation =
     \<lparr>ev_setup = Some (pe_setup prep), ev_baseline = pe_baseline prep, ev_model_status = None, ev_commit_count = 0,
      ev_acceptance_criteria_satisfied = False, ev_review = \<lparr>rv_findings = [], rv_repair_cycles = 0\<rparr>, ev_final_check = None,
      ev_push_succeeded = None, ev_pr_exists = None, ev_profile_error = False, ev_continuation = continuation,
      ev_final_check_dirty_paths = [], ev_deferred_baseline_failed = False\<rparr>"

definition preparation_details :: "preparation_evidence \<Rightarrow> completion_decision \<Rightarrow> string" where
  "preparation_details prep d =
     (let details = (case cd_reasons d of [] \<Rightarrow> [] | r # _ \<Rightarrow> r);
          failure = (if \<not> cr_succeeded (pe_setup prep) then command_failure_detail (pe_setup prep)
            else case pe_baseline prep of Some b \<Rightarrow> if cr_succeeded b then [] else command_failure_detail b | None \<Rightarrow> []);
          both = (if details \<noteq> [] \<and> failure \<noteq> [] then details @ '' '' @ failure else if failure \<noteq> [] then failure else details)
      in if both = [] then NO_EVIDENCE else both)"

definition preparation_failed :: "preparation_evidence \<Rightarrow> bool \<Rightarrow> bool" where
  "preparation_failed prep continuation \<longleftrightarrow> \<not> cr_succeeded (pe_setup prep)
     \<or> (case pe_baseline prep of None \<Rightarrow> True | Some b \<Rightarrow> \<not> cr_succeeded b \<and> \<not> continuation)"

definition run_preparation ::
  "attempt_runner \<Rightarrow> attempt_run \<Rightarrow> bool \<Rightarrow> bool \<Rightarrow> (attempt_evidence + preparation_evidence \<times> verification) runner_prog" where
  "run_preparation a u continuation deferred =
     bind (say ''setup_started'' (if deferred then ''(deferred until conflicts were resolved)'' else []) ''INFO'' (ru_number u)) (\<lambda>_.
     bind (verify_setup_tolerantly (ru_profile u) continuation) (\<lambda>(prep, v).
     bind (report_setup u (pe_setup prep)) (\<lambda>_.
     bind (case pe_baseline prep of None \<Rightarrow> Return () | Some b \<Rightarrow> report_baseline u continuation b) (\<lambda>_.
     if preparation_failed prep continuation then
       (let d = evaluate (ar_blocking a) (no_work prep continuation) in
        bind (log_completion_decision (ru_number u) d) (\<lambda>_.
        Return (Inl (early_evidence d (ru_profile u) (preparation_details prep d)))))
     else Return (Inr (prep, v))))))"


section \<open>The operator's handoff\<close>

text \<open>What the session's provider hands to the model, and what the model's progress does to the command.\<close>

definition deliverable_handoff :: "attempt_runner \<Rightarrow> handoff_view option \<Rightarrow> (string \<times> rat) option" where
  "deliverable_handoff a h = (case h of
     None \<Rightarrow> None
   | Some h \<Rightarrow>
       if hv_acknowledgement h \<noteq> ''accepted'' then None
       else (case (hv_request_id h, hv_accepted_at h) of
           (Some k, Some t) \<Rightarrow>
             if k = [] \<or> py_blank t then None
             else map_option (\<lambda>accepted. (k, accepted)) (ar_parse_instant a (py_replace ''Z'' ''+00:00'' (py_strip t)))
         | _ \<Rightarrow> None))"

definition pending_handoff :: "handoff_view option runner_prog" where
  "pending_handoff = ask Pending_handoff (heard (\<lambda>r. case r of Handoff_is h \<Rightarrow> Some h | _ \<Rightarrow> None))"

definition perhaps :: "runner_call \<Rightarrow> string option runner_prog" where
  "perhaps q = ask q (heard (\<lambda>r. case r of Perhaps t \<Rightarrow> Some t | _ \<Rightarrow> None))"

text \<open>The request that this session served, and the one that arrived too late for it.\<close>

definition read_operator_request :: "attempt_runner \<Rightarrow> (string option \<times> handoff_view option) runner_prog" where
  "read_operator_request a =
     (if \<not> ar_operator a then Return (None, None)
      else bind (safely pending_handoff) (\<lambda>r. case r of
          Inr (Some h) \<Rightarrow>
            if hv_acknowledgement h \<noteq> ''accepted'' then Return (None, None)
            else bind (perhaps Latched_request) (\<lambda>latched.
              Return (if latched \<noteq> None \<and> latched = hv_request_id h then (latched, None) else (None, Some h)))
        | _ \<Rightarrow> Return (None, None)))"

definition operator_note_reason :: "int \<Rightarrow> string option runner_prog" where
  "operator_note_reason n =
     bind (safely (note_text_now n)) (\<lambda>r. Return (case r of
       Inr t \<Rightarrow> if t = [] then None else parse_handoff_note_fields t ''reason''
     | Inl e \<Rightarrow> None))"

definition OPERATOR_REASON :: string where "OPERATOR_REASON = ''operator_request''"

definition py_repr_option :: "string option \<Rightarrow> string" where
  "py_repr_option v = (case v of None \<Rightarrow> ''None'' | Some s \<Rightarrow> py_repr s)"

definition decided_outcome :: "completion_decision \<Rightarrow> string" where
  "decided_outcome d = (case cd_outcome d of Some oc \<Rightarrow> outcome_value oc | None \<Rightarrow> ''unknown'')"

definition drop_late_request :: "handoff_view \<Rightarrow> completion_decision \<Rightarrow> unit runner_prog" where
  "drop_late_request h d =
     (let k = (case hv_request_id h of Some k \<Rightarrow> k | None \<Rightarrow> ''unknown'') in
      tell (Drop_handoff k (''Operator handoff '' @ k @ '' was not delivered to model''
        @ '' execution, so it is not fulfilled; '' @ ''the attempt finalized with the ordinary outcome '' @ decided_outcome d
        @ (case cd_reasons d of [] \<Rightarrow> [] | r # _ \<Rightarrow> '': '' @ r) @ ''.'')))"

definition judge_served_request :: "int \<Rightarrow> string \<Rightarrow> completion_decision \<Rightarrow> unit runner_prog" where
  "judge_served_request n k d =
     (if cd_outcome d = Some HANDOFF then
        bind (operator_note_reason n) (\<lambda>reason.
        if reason = Some OPERATOR_REASON then Return ()
        else tell (Drop_handoff k (''Operator handoff '' @ k @ '' is not fulfilled: the'' @ '' committed handoff note cites reason ''
          @ py_repr_option reason @ '' instead of'' @ '' `'' @ OPERATOR_REASON @ ''`; the valid handoff still''
          @ '' publishes for human-approved continuation.'')))
      else tell (Drop_handoff k (''Operator handoff '' @ k @ '' is not fulfilled: model'' @ '' execution ended with the ordinary outcome ''
        @ decided_outcome d @ '' without a valid operator handoff note.'')))"

definition settle_operator_request ::
  "attempt_runner \<Rightarrow> int \<Rightarrow> string option \<times> handoff_view option \<Rightarrow> completion_decision \<Rightarrow> unit runner_prog" where
  "settle_operator_request a n request d =
     (if \<not> ar_operator a then Return ()
      else case snd request of
        Some h \<Rightarrow> drop_late_request h d
      | None \<Rightarrow> (case fst request of None \<Rightarrow> Return () | Some k \<Rightarrow> judge_served_request n k d))"


section \<open>The session\<close>

definition py_paragraphs :: "string list \<Rightarrow> string" where
  "py_paragraphs parts = py_join (nl @ nl) parts"

definition CONTINUED_INSTRUCTION :: "int \<Rightarrow> string" where
  "CONTINUED_INSTRUCTION n =
     ''This is a continued attempt. Read the current Handoff note at '' @ ''.agent/handoff/'' @ str_of_int n
     @ ''.md before implementing: it is the '' @ ''authoritative, self-contained record of the previous attempt's ''
     @ ''state, remaining work, and evidence, and it supersedes every '' @ ''historical handoff result comment. ''
     @ ''Invoke the `code-review` skill on your changes before finishing, ''
     @ ''even when this run only verifies earlier work or fixes formatting: ''
     @ ''without a `code-review` invocation in this run the attempt is '' @ ''classified as incomplete.''"

definition DEFERRED_INSTRUCTION :: "string \<Rightarrow> string" where
  "DEFERRED_INSTRUCTION base =
     ''The attempt branch has unresolved merge conflicts from rebasing onto '' @ ''`'' @ base
     @ ''`. Resolve them first (inspect with git status, edit the conflicted ''
     @ ''files, stage with git add, and run git rebase --continue until the rebase completes), '' @ ''then continue the implementation.''"

definition build_starting_prompt ::
  "string \<Rightarrow> string list \<Rightarrow> bool \<Rightarrow> int \<Rightarrow> repository_profile \<Rightarrow> string list \<Rightarrow> bool \<Rightarrow> command_result option \<Rightarrow> string" where
  "build_starting_prompt issue_body comments continuation n pf redactions deferred baseline =
     py_paragraphs (issue_body # comments
       @ (if continuation then [CONTINUED_INSTRUCTION n] else [])
       @ (if deferred then [DEFERRED_INSTRUCTION (pf_base_branch pf)] else [])
       @ (case baseline of Some b \<Rightarrow> if cr_succeeded b then [] else [build_baseline_failure_section b False] | None \<Rightarrow> [])
       @ [gate_section pf redactions True])"

definition issue_thread :: "tracker_issue \<Rightarrow> string list runner_prog" where
  "issue_thread i = ask (Issue_thread i) (heard (\<lambda>r. case r of Thread cs \<Rightarrow> Some cs | _ \<Rightarrow> None))"

definition archive_cli_transcripts :: "attempt_run \<Rightarrow> unit runner_prog" where
  "archive_cli_transcripts u =
     (if ru_archive u = None then Return ()
      else bind (safely (bind (perhaps Session_id) (\<lambda>k. tell (Record_transcripts k (ru_number u))))) (\<lambda>r. case r of
          Inl e \<Rightarrow> say ''transcripts_copy_failed'' (''reason='' @ detail_of e) ''WARNING'' (ru_number u)
        | Inr x \<Rightarrow> Return ()))"

definition say_seal_failed :: "attempt_run \<Rightarrow> worker_failure \<Rightarrow> unit runner_prog" where
  "say_seal_failed u e = say ''seal_attempt_work_failed'' (detail_of e) ''ERROR'' (ru_number u)"

text \<open>A session that fails, or whose result cannot be recorded, is sealed before the exception goes on.\<close>

definition seal_failed_session :: "attempt_run \<Rightarrow> worker_failure \<Rightarrow> 'a runner_prog" where
  "seal_failed_session u e =
     bind (archive_cli_transcripts u) (\<lambda>_.
     bind (safely (seal_now (ru_number u) (ru_attempt_id u) MODEL_INFRASTRUCTURE_ERROR)) (\<lambda>r.
     bind (case r of Inl s \<Rightarrow> say_seal_failed u s | Inr c \<Rightarrow> Return ()) (\<lambda>_. Raise e)))"

type_synonym session_end = "model_execution \<times> string option \<times> handoff_view option"

definition recorded_session :: "attempt_runner \<Rightarrow> attempt_run \<Rightarrow> string \<Rightarrow> session_end runner_prog" where
  "recorded_session a u prompt =
     bind (ask (Session prompt (ru_number u) (ru_attempt_id u) (pa_branch (ru_prepared u)) (pa_base_revision (ru_prepared u)))
         (heard (\<lambda>r. case r of Executed x \<Rightarrow> Some x | _ \<Rightarrow> None))) (\<lambda>x.
     bind (archive_cli_transcripts u) (\<lambda>_.
     bind (record_part u ''model'') (\<lambda>_.
     bind (read_operator_request a) (\<lambda>request. Return (x, request)))))"

definition run_session :: "attempt_runner \<Rightarrow> attempt_run \<Rightarrow> string \<Rightarrow> session_end runner_prog" where
  "run_session a u prompt = handle (recorded_session a u prompt) (seal_failed_session u)"

text \<open>The red baseline of a continuation goes along with the prompt.\<close>

definition failed_baseline :: "attempt_run \<Rightarrow> preparation_evidence option \<Rightarrow> command_result option" where
  "failed_baseline u prep = (case prep of
     Some e \<Rightarrow> (case pe_baseline e of Some b \<Rightarrow> if ru_continuation u \<and> \<not> cr_succeeded b then Some b else None | None \<Rightarrow> None)
   | None \<Rightarrow> None)"

definition dispatch :: "attempt_runner \<Rightarrow> attempt_run \<Rightarrow> nat \<Rightarrow> preparation_evidence option \<Rightarrow> session_end runner_prog" where
  "dispatch a u initial prep =
     (let i = cl_issue (ru_claim u); n = ru_number u in
      bind (tell (Phase_to MODEL_RUNNING)) (\<lambda>_.
      bind (say ''attempt_phase_transitioned'' (''phase='' @ phase_value MODEL_RUNNING) ''INFO'' n) (\<lambda>_.
      bind (issue_thread i) (\<lambda>comments.
      bind (say ''model_dispatch_starting'' (''continuation='' @ (if ru_continuation u then ''True'' else ''False'')) ''INFO'' n) (\<lambda>_.
      bind (if ar_operator a then tell Wire_operator else Return ()) (\<lambda>_.
      bind (tell (Wire_commits (ru_prepared u) initial)) (\<lambda>_.
      run_session a u (build_starting_prompt (ti_body i) (filter_prompt_comments comments) (ru_continuation u) n (ru_profile u)
        (ar_redactions a) (ru_deferred u) (failed_baseline u prep)))))))))"


section \<open>The branch after the session\<close>

definition remaining_conflicts :: "conflict_state \<Rightarrow> prepared_attempt \<Rightarrow> string list" where
  "remaining_conflicts s p = (if cs_conflicted_files s \<noteq> [] then cs_conflicted_files s
     else filter (\<lambda>f. \<not> py_blank f) (pa_rebase_conflicts p))"

definition format_conflicted_files :: "string list \<Rightarrow> string" where
  "format_conflicted_files files = (if files = [] then [] else '' Conflicting files: '' @ py_join '', '' files @ ''.'')"

definition unresolved_rebase :: "attempt_run \<Rightarrow> string list \<Rightarrow> worker_failure" where
  "unresolved_rebase u remaining =
     Rebase_failed (''Rebase of '' @ pa_branch (ru_prepared u) @ '' onto '' @ pf_base_branch (ru_profile u) @ '' hit conflicts''
       @ '' (rebase_conflict).'' @ format_conflicted_files remaining @ '' The model left conflicts''
       @ '' unresolved, so the rebase was aborted and setup was not started.'') remaining"

text \<open>A rebase that the model was to finish must be over before anything else runs on the branch.\<close>

definition check_resolution :: "attempt_run \<Rightarrow> string list \<Rightarrow> unit runner_prog" where
  "check_resolution u files =
     bind conflicts_now (\<lambda>post. let problems = py_join '' '' (cs_resolution_problems post) in
     if cs_resolution_problems post = []
     then say ''rebase_resolution_succeeded'' (''The model resolved the rebase conflicts; setup runs normally.''
            @ format_conflicted_files files) ''INFO'' (ru_number u)
     else bind (handle (tree (Restore_branch (ru_prepared u)) (\<lambda>w. Some ())) (\<lambda>e.
           if is_git_trouble e
           then bind (say ''rebase_resolution_failed'' (problems @ '' The branch could not be restored.'') ''ERROR'' (ru_number u)) (\<lambda>_. Raise e)
           else Raise e)) (\<lambda>_.
         bind (say ''rebase_resolution_failed'' (problems @ '' The rebase was aborted and the branch restored to its'' @ '' pre-rebase state.'')
             ''ERROR'' (ru_number u)) (\<lambda>_.
         Raise (unresolved_rebase u (remaining_conflicts post (ru_prepared u))))))"

text \<open>The paths that were dirty before the seal, if they could be listed, and the commit of the seal.\<close>

definition sealed_work :: "attempt_run \<Rightarrow> model_status \<Rightarrow> (worker_failure + string list option \<times> attempt_commit option) runner_prog" where
  "sealed_work u s =
     handle (bind (safely dirty_now) (\<lambda>dirty.
       bind (seal_now (ru_number u) (ru_attempt_id u) s) (\<lambda>c.
       Return (Inr (case dirty of Inl e \<Rightarrow> None | Inr fs \<Rightarrow> Some fs, c)))))
     (\<lambda>e. if is_git_trouble e then Return (Inl e) else Raise e)"

definition unsealed_evidence :: "attempt_run \<Rightarrow> worker_failure \<Rightarrow> attempt_evidence" where
  "unsealed_evidence u e = early_evidence
     \<lparr>cd_outcome = Some INFRASTRUCTURE_ERROR, cd_publication_eligible = False, cd_publication_path = PATH_NONE,
      cd_reasons = [''Failed to seal attempt work after model execution: '' @ worker_failure_text e]\<rparr>
     (ru_profile u) (worker_failure_text e)"


section \<open>The note of the runtime\<close>

text \<open>What the session left: its execution, the preparation, the seal, and the commits.\<close>

record attempt_work =
  aw_execution :: model_execution
  aw_preparation :: preparation_evidence
  aw_dirty :: "string list option"
  aw_seal :: "attempt_commit option"
  aw_commits :: "attempt_commit list"

definition emergency_of :: "attempt_run \<Rightarrow> attempt_work \<Rightarrow> string option \<Rightarrow> string option \<Rightarrow> previous_note option \<Rightarrow> emergency_evidence" where
  "emergency_of u w stat session previous =
     (let x = aw_execution w in
      \<lparr>em_explanation = mx_explanation x, em_diff_stat = stat,
       em_attempt_commits = map (\<lambda>c. take 7 (ac_revision c) @ '' '' @ ac_subject c) (aw_commits w),
       em_sealed_files = (if aw_seal w = None then None else aw_dirty w),
       em_edited_files = mx_edited_files x, em_last_text = mx_last_text x,
       em_skill_invoked = main_thread_handoff_invoked (map (\<lambda>e. (sk_name e, sk_agent e)) (mx_skills x)),
       em_tool_calls = mx_tool_calls x, em_last_check = last_check_call (mx_bash_calls x) (pf_check (ru_profile u)),
       em_baseline = pe_baseline (aw_preparation w), em_budget = mx_budget x,
       em_archive_dir = ru_archive u, em_session = session, em_previous = previous\<rparr>)"

definition emergency_note :: "attempt_run \<Rightarrow> attempt_work \<Rightarrow> string option \<Rightarrow> string option \<Rightarrow> previous_note option \<Rightarrow> string" where
  "emergency_note u w stat session previous =
     (let x = aw_execution w in
      build_emergency_handoff_note (ru_number u) (ru_attempt_id u)
        (classify_handoff_reason (mx_token_ceiling x) (case mx_stop_reason x of Some t \<Rightarrow> t | None \<Rightarrow> [])
          (case mx_terminal_reason x of Some t \<Rightarrow> t | None \<Rightarrow> []))
        (case aw_commits w of c # _ \<Rightarrow> ac_revision c | [] \<Rightarrow> pa_base_revision (ru_prepared u))
        (emergency_of u w stat session previous))"

definition write_emergency_note :: "attempt_run \<Rightarrow> attempt_work \<Rightarrow> attempt_commit list runner_prog" where
  "write_emergency_note u w =
     (let p = ru_prepared u in
      bind (tree (Diff_stat (pa_base_revision p) (case aw_seal w of Some c \<Rightarrow> ac_revision c | None \<Rightarrow> pa_branch p))
          (\<lambda>r. case r of A_stat t \<Rightarrow> Some t | _ \<Rightarrow> None)) (\<lambda>stat.
      bind (perhaps Session_id) (\<lambda>session.
      bind (tree (Previous_note p (ru_number u)) (\<lambda>r. case r of A_note x \<Rightarrow> Some x | _ \<Rightarrow> None)) (\<lambda>previous.
      bind (tree (Put_note (ru_number u) (emergency_note u w stat session previous)) (\<lambda>r. Some ())) (\<lambda>_.
      commits_now p)))))"

text \<open>A session that ran into a limit counts as a handoff: with its own note, or with one that the runtime writes.\<close>

definition preserve_progress :: "attempt_run \<Rightarrow> attempt_work \<Rightarrow> attempt_work runner_prog" where
  "preserve_progress u w =
     (if mx_status (aw_execution w) \<noteq> MODEL_LIMIT_REACHED then Return w
      else bind (note_now (ru_prepared u) (ru_number u) (ru_attempt_id u)) (\<lambda>found.
        bind (if found = None then write_emergency_note u w else Return (aw_commits w)) (\<lambda>cs.
        Return (w\<lparr>aw_commits := cs, aw_execution := (aw_execution w)\<lparr>mx_status := HANDOFF_REQUESTED\<rparr>\<rparr>))))"


section \<open>The final check\<close>

text \<open>A red baseline that was deferred until the conflicts were resolved takes the place of the final check.\<close>

definition deferred_baseline :: "attempt_run \<Rightarrow> attempt_work \<Rightarrow> command_result option" where
  "deferred_baseline u w = (case pe_baseline (aw_preparation w) of
     Some b \<Rightarrow> if ru_deferred u \<and> \<not> cr_succeeded b \<and> mx_status (aw_execution w) = MODEL_SUCCEEDED \<and> aw_commits w \<noteq> [] then Some b else None
   | None \<Rightarrow> None)"

definition report_deferred_baseline :: "attempt_run \<Rightarrow> command_result option \<Rightarrow> unit runner_prog" where
  "report_deferred_baseline u red = (case red of
     None \<Rightarrow> Return ()
   | Some b \<Rightarrow> bind (say ''deferred_baseline_failed'' (deferred_baseline_failed_reason b) ''ERROR'' (ru_number u)) (\<lambda>_.
       record_part u ''deferred_baseline_failed''))"

definition review_count :: "model_execution \<Rightarrow> int" where
  "review_count x = int (length (filter (\<lambda>e. sk_name e = ''code-review'' \<and> sk_phase e = ''PreToolUse'') (mx_skills x)))"

definition review_of :: "model_execution \<Rightarrow> review_evidence" where
  "review_of x = \<lparr>rv_findings = [], rv_repair_cycles = max 0 (review_count x - 1)\<rparr>"

text \<open>\<open>VerificationRunner.mark_review_complete\<close> and \<open>final_check\<close>; \<open>None\<close> when the order forbids the check.\<close>

definition checked_in_order :: "attempt_run \<Rightarrow> attempt_work \<Rightarrow> verification \<Rightarrow> command_result option runner_prog" where
  "checked_in_order u w v =
     (case mark_review_complete (mx_status (aw_execution w)) (int (length (aw_commits w))) (review_of (aw_execution w)) v of
       (Inl e, v') \<Rightarrow> Return None
     | (Inr x, v') \<Rightarrow>
         bind (say ''final_check_started'' (''check='' @ py_join '' && '' (pf_check (ru_profile u))) ''INFO'' (ru_number u)) (\<lambda>_.
         bind (record_part u ''final_check_started'') (\<lambda>_.
         if \<not> vr_review_completed v' then Return None
         else bind (shell (pf_check (ru_profile u)) (pf_timeout (ru_profile u)) (ru_profile u)) (\<lambda>r.
           bind (record_part u ''final_check_finished'') (\<lambda>_. Return (Some r))))))"

definition run_final_check :: "attempt_run \<Rightarrow> attempt_work \<Rightarrow> verification \<Rightarrow> command_result option runner_prog" where
  "run_final_check u w v =
     bind (if mx_status (aw_execution w) = MODEL_SUCCEEDED \<and> aw_commits w \<noteq> [] \<and> deferred_baseline u w = None
       then checked_in_order u w v else Return None) (\<lambda>check.
     bind (case check of None \<Rightarrow> Return ()
       | Some r \<Rightarrow> bind (archive_commands u ''check'' r) (\<lambda>_.
           if \<not> cr_succeeded r then say ''final_check_failed'' (command_failure_detail r) ''ERROR'' (ru_number u)
           else say ''final_check_succeeded'' [] ''INFO'' (ru_number u))) (\<lambda>_.
     Return check))"

text \<open>What a successful check changed in the tree is sealed, too; a tree that cannot be listed counts as unchanged.\<close>

definition check_leftovers :: "attempt_run \<Rightarrow> attempt_work \<Rightarrow> command_result option \<Rightarrow> (string list \<times> attempt_commit option \<times> attempt_work) runner_prog" where
  "check_leftovers u w check =
     (if \<not> check_passed check then Return ([], None, w)
      else bind (safely dirty_now) (\<lambda>found. case found of
          Inl e \<Rightarrow> Return ([], None, w)
        | Inr dirty \<Rightarrow>
            if dirty = [] then Return ([], None, w)
            else bind (say ''final_check_dirtied_workspace'' (final_check_dirty_reason (sort dirty)) ''WARNING'' (ru_number u)) (\<lambda>_.
              bind (safely (seal_now (ru_number u) (ru_attempt_id u) (mx_status (aw_execution w)))) (\<lambda>sealed.
              bind (case sealed of Inl e \<Rightarrow> say_seal_failed u e | Inr c \<Rightarrow> Return ()) (\<lambda>_.
              bind (record_part u ''final_check_dirtied_workspace'') (\<lambda>_.
              bind (commits_now (ru_prepared u)) (\<lambda>cs.
              Return (dirty, case sealed of Inl e \<Rightarrow> None | Inr c \<Rightarrow> c, w\<lparr>aw_commits := cs\<rparr>))))))))"


section \<open>The decision\<close>

definition work_evidence :: "attempt_runner \<Rightarrow> attempt_run \<Rightarrow> attempt_work \<Rightarrow> command_result option \<Rightarrow> string list \<Rightarrow> bool \<Rightarrow> evidence" where
  "work_evidence a u w check dirty red =
     (let x = aw_execution w in
      \<lparr>ev_setup = Some (pe_setup (aw_preparation w)), ev_baseline = pe_baseline (aw_preparation w), ev_model_status = Some (mx_status x),
       ev_commit_count = int (length (aw_commits w)),
       ev_acceptance_criteria_satisfied = (0 < review_count x \<and> ar_criteria a (ru_claim u)), ev_review = review_of x,
       ev_final_check = check, ev_push_succeeded = None, ev_pr_exists = None, ev_profile_error = False,
       ev_continuation = ru_continuation u, ev_final_check_dirty_paths = dirty, ev_deferred_baseline_failed = red\<rparr>)"

text \<open>A handoff stands only with a valid note; otherwise it is incomplete work, for the reason of the validation.\<close>

definition say_note_events :: "int \<Rightarrow> note_validation \<Rightarrow> unit runner_prog" where
  "say_note_events n v =
     bind (case nv_started_at_warning v of None \<Rightarrow> Return () | Some t \<Rightarrow> say ''handoff_note_started_at_invalid'' t ''WARNING'' n) (\<lambda>_.
     bind (case nv_last_work_commit_warning v of None \<Rightarrow> Return () | Some t \<Rightarrow> say ''handoff_note_last_work_commit_mistyped'' t ''WARNING'' n) (\<lambda>_.
     if nv_valid v then Return () else say ''handoff_note_rejected'' (nv_reason v) ''WARNING'' n))"

definition check_note :: "attempt_run \<Rightarrow> attempt_commit list \<Rightarrow> note_validation runner_prog" where
  "check_note u cs =
     (let p = ru_prepared u; n = ru_number u in
      bind (note_now p n (ru_attempt_id u)) (\<lambda>c.
      bind (tree (Note_revisions p n (ru_attempt_id u)) (\<lambda>r. case r of Revisions rs \<Rightarrow> Some rs | _ \<Rightarrow> None)) (\<lambda>rs.
      tree (Check_note c cs n (pa_base_revision p) rs) (\<lambda>r. case r of Judged v \<Rightarrow> Some v | _ \<Rightarrow> None))))"

definition judge_handoff :: "attempt_run \<Rightarrow> attempt_commit list \<Rightarrow> completion_decision \<Rightarrow> (completion_decision \<times> string option) runner_prog" where
  "judge_handoff u cs d =
     (if cd_outcome d \<noteq> Some HANDOFF then Return (d, None)
      else bind (check_note u cs) (\<lambda>v.
        bind (say_note_events (ru_number u) v) (\<lambda>_.
        Return (if nv_valid v then (d, None)
          else (\<lparr>cd_outcome = Some INCOMPLETE, cd_publication_eligible = False,
                 cd_publication_path = (if cs \<noteq> [] then PATH_PARTIAL else PATH_NONE), cd_reasons = [nv_reason v]\<rparr>, Some (nv_reason v))))))"

definition enter_pushing :: "int \<Rightarrow> completion_decision \<Rightarrow> unit runner_prog" where
  "enter_pushing n d =
     (if cd_publication_eligible d \<or> cd_publication_path d = PATH_PARTIAL
      then bind (tell (Phase_to PUSHING)) (\<lambda>_. say ''attempt_phase_transitioned'' (''phase='' @ phase_value PUSHING) ''INFO'' n)
      else Return ())"

definition review_findings_text :: "review_evidence \<Rightarrow> int \<Rightarrow> string" where
  "review_findings_text review count =
     (if rv_findings review \<noteq> [] then py_join ''; '' (map rf_summary (rv_findings review))
      else if 0 < count then ''not collected'' else ''not run'')"

definition decided_details ::
  "attempt_run \<Rightarrow> attempt_work \<Rightarrow> completion_decision \<Rightarrow> string option \<Rightarrow> string list \<Rightarrow> attempt_commit option \<Rightarrow> (string \<times> string option) runner_prog" where
  "decided_details u w d rejected dirty preserved =
     (if cd_outcome d = Some HANDOFF then
        bind (note_text_now (ru_number u)) (\<lambda>t.
        bind (note_now (ru_prepared u) (ru_number u) (ru_attempt_id u)) (\<lambda>c. Return (t, map_option ac_revision c)))
      else Return (case rejected of
          Some reason \<Rightarrow> reason
        | None \<Rightarrow>
            if cd_outcome d \<in> {Some INCOMPLETE, Some NO_CHANGES} \<and> cd_reasons d \<noteq> []
            then py_join ''; '' (cd_reasons d)
              @ (case preserved of Some c \<Rightarrow> if dirty = [] then [] else '' The check's side effects were preserved on the'' @ '' attempt branch in commit ''
                    @ ac_revision c @ ''.'' | None \<Rightarrow> [])
            else mx_explanation (aw_execution w), None))"

definition conclude ::
  "attempt_runner \<Rightarrow> attempt_run \<Rightarrow> string option \<times> handoff_view option \<Rightarrow> attempt_work \<Rightarrow> command_result option \<Rightarrow> string list \<Rightarrow> attempt_commit option
    \<Rightarrow> bool \<Rightarrow> attempt_evidence runner_prog" where
  "conclude a u request w check dirty preserved red =
     bind (judge_handoff u (aw_commits w) (evaluate (ar_blocking a) (work_evidence a u w check dirty red))) (\<lambda>(d, rejected).
     bind (settle_operator_request a (ru_number u) request d) (\<lambda>_.
     bind (log_completion_decision (ru_number u) d) (\<lambda>_.
     bind (enter_pushing (ru_number u) d) (\<lambda>_.
     bind (decided_details u w d rejected dirty preserved) (\<lambda>(details, sha).
     let x = aw_execution w in
     Return (evidence_of d (ru_profile u) check (rv_repair_cycles (review_of x)) (review_findings_text (review_of x) (review_count x))
       details sha (review_count x)))))))"

definition judge_work ::
  "attempt_runner \<Rightarrow> attempt_run \<Rightarrow> string option \<times> handoff_view option \<Rightarrow> verification \<Rightarrow> attempt_work \<Rightarrow> attempt_evidence runner_prog" where
  "judge_work a u request v w =
     bind (preserve_progress u w) (\<lambda>w.
     let red = deferred_baseline u w in
     bind (report_deferred_baseline u red) (\<lambda>_.
     bind (run_final_check u w v) (\<lambda>check.
     bind (check_leftovers u w check) (\<lambda>(dirty, preserved, w).
     conclude a u request w check dirty preserved (red \<noteq> None)))))"


section \<open>The whole attempt\<close>

text \<open>After the session: the conflicts must be resolved, the work is sealed, and a deferred setup runs.\<close>

definition after_session ::
  "attempt_runner \<Rightarrow> attempt_run \<Rightarrow> string list \<Rightarrow> (preparation_evidence \<times> verification) option \<Rightarrow> session_end \<Rightarrow> attempt_evidence runner_prog" where
  "after_session a u files prepared reached =
     (case reached of (x, request) \<Rightarrow>
      bind (if ru_deferred u then check_resolution u files else Return ()) (\<lambda>_.
      bind (sealed_work u (mx_status x)) (\<lambda>r. case r of
        Inl e \<Rightarrow> Return (unsealed_evidence u e)
      | Inr (dirty, c) \<Rightarrow>
          bind (case prepared of Some y \<Rightarrow> Return (Inr y) | None \<Rightarrow> run_preparation a u True True) (\<lambda>r. case r of
            Inl early \<Rightarrow> Return early
          | Inr (prep, v) \<Rightarrow>
              bind (commits_now (ru_prepared u)) (\<lambda>cs.
              judge_work a u request v
                \<lparr>aw_execution = x, aw_preparation = prep, aw_dirty = dirty, aw_seal = c, aw_commits = cs\<rparr>)))))"

definition announce_deferral :: "attempt_run \<Rightarrow> string list \<Rightarrow> unit runner_prog" where
  "announce_deferral u files =
     bind (say ''rebase_resolution_started'' (''The model resolves the rebase conflicts first, before setup runs.''
       @ format_conflicted_files files) ''INFO'' (ru_number u)) (\<lambda>_.
     say ''setup_deferred_unresolved_conflicts'' (''The attempt branch holds unresolved merge conflicts from rebasing onto '' @ ''`''
       @ pf_base_branch (ru_profile u) @ ''`; setup and the baseline check run after the '' @ ''model resolves them.'') ''WARNING'' (ru_number u))"

text \<open>An attempt that fails before the session still settles the operator's request.\<close>

definition end_before_session :: "attempt_runner \<Rightarrow> attempt_run \<Rightarrow> attempt_evidence \<Rightarrow> attempt_evidence runner_prog" where
  "end_before_session a u early =
     bind (read_operator_request a) (\<lambda>request.
     bind (settle_operator_request a (ru_number u) request (ae_decision early)) (\<lambda>_. Return early))"

definition attempt_on :: "attempt_runner \<Rightarrow> attempt_run \<Rightarrow> nat \<Rightarrow> string list \<Rightarrow> attempt_evidence runner_prog" where
  "attempt_on a u initial files =
     (if ru_deferred u
      then bind (announce_deferral u files) (\<lambda>_.
        bind (dispatch a u initial None) (after_session a u files None))
      else bind (run_preparation a u (ru_continuation u) False) (\<lambda>r. case r of
          Inl early \<Rightarrow> end_before_session a u early
        | Inr (prep, v) \<Rightarrow> bind (dispatch a u initial (Some prep)) (after_session a u files (Some (prep, v)))))"

definition branch_missing :: "attempt_runner \<Rightarrow> claim \<Rightarrow> repository_profile \<Rightarrow> prepared_attempt \<Rightarrow> attempt_evidence runner_prog" where
  "branch_missing a cl pf p =
     (let details = ''Expected continuation branch `'' @ pa_branch p @ ''` was not found on origin, so it ''
        @ ''could not be restored. A human should inspect this issue and decide next steps.'' in
      bind (say ''continuation_branch_missing'' details ''ERROR'' (ti_number (cl_issue cl))) (\<lambda>_.
      Return (early_evidence \<lparr>cd_outcome = Some INCOMPLETE, cd_publication_eligible = False, cd_publication_path = PATH_NONE,
        cd_reasons = [details]\<rparr> pf details)))"

definition expects_continuation :: "claim \<Rightarrow> prepared_attempt \<Rightarrow> bool runner_prog" where
  "expects_continuation cl p =
     (if pa_restored_from_remote p then Return False else continuation_expected (cl_issue cl) (issue_thread (cl_issue cl)))"

definition archive_of :: "attempt_runner \<Rightarrow> int \<Rightarrow> checkpoint option \<Rightarrow> string option runner_prog" where
  "archive_of a n c = (case c of
     Some c \<Rightarrow> if ar_archives a
       then bind (ask (Archive_of n (ck_started_at c)) (heard (\<lambda>r. case r of Archive_dir d \<Rightarrow> Some d | _ \<Rightarrow> None))) (\<lambda>d. Return (Some d))
       else Return None
   | None \<Rightarrow> Return None)"

definition run_model_attempt :: "attempt_runner \<Rightarrow> claim \<Rightarrow> repository_profile \<Rightarrow> prepared_attempt \<Rightarrow> attempt_evidence runner_prog" where
  "run_model_attempt a cl pf p =
     bind (expects_continuation cl p) (\<lambda>expected.
     if expected then branch_missing a cl pf p
     else bind (ask Stored_attempt (heard (\<lambda>r. case r of Stored c \<Rightarrow> Some c | _ \<Rightarrow> None))) (\<lambda>c.
       bind (archive_of a (ti_number (cl_issue cl)) c) (\<lambda>archive.
       bind (commits_now p) (\<lambda>initial.
       bind conflicts_now (\<lambda>pre.
       let u = \<lparr>ru_claim = cl, ru_profile = pf, ru_prepared = p, ru_attempt_id = attempt_id_of c, ru_archive = archive,
                ru_continuation = (initial \<noteq> []), ru_deferred = cs_in_progress pre\<rparr>
       in attempt_on a u (length initial) (remaining_conflicts pre p))))))"

end
