(* ===== verification/Attempt_Runner_Props.thy ===== *)
theory Attempt_Runner_Props
  imports Attempt_Runner
begin

text \<open>
  What an attempt of the runner may claim. A trace of its calls keeps the last commands that were run, whether the
  work of the session was sealed, and what had been run when the session began.
\<close>

section \<open>The trace\<close>

record runner_trace =
  rn_last :: "(string list \<times> bool \<times> bool) option"
  rn_entry :: "(string list \<times> bool \<times> bool) option"
  rn_ended :: "model_execution option"
  rn_sessions :: nat
  rn_sealed :: bool

definition runner_start :: runner_trace where
  "runner_start = \<lparr>rn_last = None, rn_entry = None, rn_ended = None, rn_sessions = 0, rn_sealed = False\<rparr>"

definition passed :: "runner_answer \<Rightarrow> bool" where
  "passed r = (case r of Shell_result x \<Rightarrow> cr_succeeded x | _ \<Rightarrow> False)"

fun runner_step :: "runner_trace \<Rightarrow> runner_call \<Rightarrow> runner_answer \<Rightarrow> runner_trace" where
  "runner_step s (Shell c t env) r = s\<lparr>rn_last := Some (c, rn_sealed s, passed r)\<rparr>"
| "runner_step s (Session p n i b v) r = s\<lparr>rn_sessions := Suc (rn_sessions s), rn_entry := rn_last s, rn_sealed := False,
     rn_ended := (case r of Executed x \<Rightarrow> Some x | _ \<Rightarrow> None)\<rparr>"
| "runner_step s (Work (Seal_tree n i st)) r = s\<lparr>rn_sealed := (rn_sealed s \<or> (case r of Worked_on (A_commit c) \<Rightarrow> True | _ \<Rightarrow> False))\<rparr>"
| "runner_step s q r = s"

fun mute :: "runner_call \<Rightarrow> bool" where
  "mute (Shell c t env) = False"
| "mute (Session p n i b v) = False"
| "mute (Work (Seal_tree n i st)) = False"
| "mute q = True"

lemma mute_step: "mute q \<Longrightarrow> runner_step s q r = s"
  by (induction s q r rule: runner_step.induct) auto

abbreviation runs :: "(runner_trace \<Rightarrow> worker_failure + 'a \<Rightarrow> bool) \<Rightarrow> 'a runner_prog \<Rightarrow> runner_trace \<Rightarrow> bool" where
  "runs Q m s \<equiv> follow (\<lambda>q r. True) runner_step Q m s"

lemma mute_keeps: "calls mute m \<Longrightarrow> runs (\<lambda>s' y. s' = s) m s"
  by (rule follow_calls [where P = mute]) (auto simp: mute_step)

lemma mute_any: "calls mute m \<Longrightarrow> (\<And>y. Q s y) \<Longrightarrow> runs Q m s"
  by (rule follow_mono [OF mute_keeps]) auto

lemma mute_bind:
  assumes "calls mute m" "\<And>e. Q s (Inl e)" "\<And>x. runs Q (f x) s"
  shows "runs Q (bind m f) s"
  using assms by (intro follow_bindI [OF mute_keeps [OF assms(1)]]) auto


section \<open>Mute parts\<close>

lemma calls_tell [calls_rules]: "P q \<Longrightarrow> calls P (tell q)" by (simp add: tell_def calls_rules)

lemma calls_tree [calls_rules]: "P (Work q) \<Longrightarrow> calls P (tree q sel)" by (simp add: tree_def calls_rules)

lemma calls_perhaps [calls_rules]: "P q \<Longrightarrow> calls P (perhaps q)" by (simp add: perhaps_def calls_rules)

lemma calls_safely [calls_rules]: "calls P m \<Longrightarrow> calls P (safely m)" by (auto simp: safely_def intro!: calls_rules)

lemma mute_say [calls_rules]: "calls mute (say a b c n)" by (simp add: say_def calls_rules)

lemma mute_reads [calls_rules]:
  "calls mute (commits_now p)" "calls mute conflicts_now" "calls mute dirty_now" "calls mute (note_now p n i)"
  "calls mute (note_text_now n)" "calls mute pending_handoff" "calls mute (issue_thread t)" "calls mute (record_part u w)"
  "calls mute (archive_commands u w r)" "calls mute (log_completion_decision n d)" "calls mute (say_seal_failed u e)"
  by (auto simp: commits_now_def conflicts_now_def dirty_now_def note_now_def note_text_now_def pending_handoff_def
      issue_thread_def record_part_def archive_commands_def log_completion_decision_def say_seal_failed_def intro!: calls_rules)

lemma mute_operator [calls_rules]: "calls mute (read_operator_request a)" "calls mute (settle_operator_request a n rq d)"
proof -
  show "calls mute (read_operator_request a)"
    unfolding read_operator_request_def by (auto intro!: calls_rules)
  have "calls mute (operator_note_reason n)" for n unfolding operator_note_reason_def by (auto intro!: calls_rules)
  then show "calls mute (settle_operator_request a n rq d)"
    unfolding settle_operator_request_def drop_late_request_def judge_served_request_def Let_def
    by (auto intro!: calls_rules)
qed

lemma mute_parts [calls_rules]:
  "calls mute (report_setup u r)" "calls mute (report_baseline u b r)" "calls mute (archive_cli_transcripts u)"
  "calls mute (check_resolution u fs)" "calls mute (report_deferred_baseline u red)" "calls mute (say_note_events n v)"
  "calls mute (enter_pushing n d)" "calls mute (announce_deferral u fs)" "calls mute (write_emergency_note u w)"
  "calls mute (archive_of a n c)" "calls mute (expects_continuation cl p)" "calls mute (check_note u cs)"
  by (auto simp: report_setup_def report_baseline_def archive_cli_transcripts_def check_resolution_def Let_def
      report_deferred_baseline_def say_note_events_def enter_pushing_def announce_deferral_def write_emergency_note_def
      archive_of_def expects_continuation_def continuation_expected_def check_note_def intro!: calls_rules)

lemma shell_passes:
  "runs (\<lambda>s' y. s' = s\<lparr>rn_last := Some (c, rn_sealed s, case y of Inr r \<Rightarrow> cr_succeeded r | Inl e \<Rightarrow> False)\<rparr>) (shell c t pf) s"
  by (auto simp: shell_def heard_def passed_def split: runner_answer.split)


section \<open>Preparation\<close>

text \<open>What commands alone change.\<close>

definition same_session :: "runner_trace \<Rightarrow> runner_trace \<Rightarrow> bool" where
  "same_session s s' \<longleftrightarrow> rn_entry s' = rn_entry s \<and> rn_ended s' = rn_ended s \<and> rn_sessions s' = rn_sessions s
     \<and> (rn_sealed s \<longrightarrow> rn_sealed s')"

lemma same_session_refl [simp]: "same_session s s" by (simp add: same_session_def)

lemma same_session_trans: "same_session s s' \<Longrightarrow> same_session s' s'' \<Longrightarrow> same_session s s''"
  by (simp add: same_session_def)

lemma same_session_last [simp]: "same_session s (s'\<lparr>rn_last := x\<rparr>) = same_session s s'"
  by (simp add: same_session_def)

definition baseline_seen :: "string list \<Rightarrow> bool \<Rightarrow> runner_trace \<Rightarrow> preparation_evidence \<Rightarrow> bool" where
  "baseline_seen c sealed s prep \<longleftrightarrow> (case pe_baseline prep of None \<Rightarrow> True | Some b \<Rightarrow> rn_last s = Some (c, sealed, cr_succeeded b))"

definition prepared_on :: "repository_profile \<Rightarrow> runner_trace \<Rightarrow> runner_trace \<Rightarrow> worker_failure + preparation_evidence \<times> verification \<Rightarrow> bool" where
  "prepared_on pf s s' y \<longleftrightarrow> (\<exists>l. s' = s\<lparr>rn_last := l\<rparr>) \<and> (case y of Inl e \<Rightarrow> True | Inr (prep, v) \<Rightarrow> baseline_seen (pf_check pf) (rn_sealed s) s' prep)"

lemma only_last [simp]: "\<exists>l. s = s\<lparr>rn_last := l\<rparr>"
  by (rule exI [of _ "rn_last s"]) simp

lemma verify_setup_on: "(\<exists>l. s = s0\<lparr>rn_last := l\<rparr>) \<Longrightarrow> runs (prepared_on pf s0) (verify_setup pf cont) s"
  unfolding verify_setup_def
  by (rule follow_bindI [OF shell_passes])
     (auto simp: prepared_on_def baseline_seen_def simp del: follow_bind intro!: follow_bindI [OF shell_passes] split: if_splits)

lemma verify_tolerantly_on: "runs (prepared_on pf s) (verify_setup_tolerantly pf cont) s"
proof -
  have "runs (prepared_on pf s) (verify_setup pf cont) s" by (rule verify_setup_on) (auto intro: exI [of _ "rn_last s"])
  then show ?thesis unfolding verify_setup_tolerantly_def
    by (rule follow_handleI) (auto simp: prepared_on_def intro!: verify_setup_on)
qed

text \<open>Against a runner of commands that is a function, this is \<open>VerificationRunner.prepare\<close>.\<close>

lemma verify_setup_is_prepare:
  assumes "\<And>c t env w. serve w (Shell c t env) = (Shell_result (run c (of_int t) (map_of env)), w)"
  shows "run_prog serve (verify_setup pf cont) w = (case prepare run pf cont v of (Inl e, v') \<Rightarrow> undefined | (Inr prep, v') \<Rightarrow> (Inr (prep, v'), w))"
  by (simp add: verify_setup_def shell_def run_bind ask_def heard_def assms prepare_def Let_def run_check_def new_verification_def)

definition barren :: "completion_decision \<Rightarrow> bool" where
  "barren d \<longleftrightarrow> \<not> cd_publication_eligible d \<and> cd_publication_path d \<noteq> PATH_COMPLETE"

lemma decision_barren [simp]: "barren (decision oc t n)"
  by (simp add: barren_def decision_def)

lemma no_work_barren: "barren (evaluate blocking (no_work prep cont))"
  by (simp add: evaluate_def evaluate_model_def no_work_def split: option.split)


definition prepared_or_early :: "repository_profile \<Rightarrow> bool \<Rightarrow> runner_trace \<Rightarrow> runner_trace \<Rightarrow> worker_failure + (attempt_evidence + preparation_evidence \<times> verification) \<Rightarrow> bool" where
  "prepared_or_early pf cont s s' y \<longleftrightarrow> (\<exists>l. s' = s\<lparr>rn_last := l\<rparr>) \<and> (case y of
     Inl e \<Rightarrow> True
   | Inr (Inl early) \<Rightarrow> barren (ae_decision early)
   | Inr (Inr (prep, v)) \<Rightarrow> \<exists>ok. rn_last s' = Some (pf_check pf, rn_sealed s, ok) \<and> (ok \<or> cont))"

lemma early_decision [simp]: "ae_decision (early_evidence d pf t) = d"
  by (simp add: early_evidence_def evidence_of_def)

lemma preparation_on: "runs (prepared_or_early (ru_profile u) cont s) (run_preparation a u cont deferred) s"
proof -
  have judged: "runs (prepared_or_early (ru_profile u) cont s)
      (if preparation_failed prep cont then
         (let d = evaluate (ar_blocking a) (no_work prep cont) in
          bind (log_completion_decision (ru_number u) d) (\<lambda>_.
          Return (Inl (early_evidence d (ru_profile u) (preparation_details prep d)))))
       else Return (Inr (prep, v))) s'"
    if "s' = s\<lparr>rn_last := l\<rparr>" "baseline_seen (pf_check (ru_profile u)) (rn_sealed s) s' prep" for prep v s' l
    using that unfolding Let_def
    by (intro follow_if mute_bind calls_rules)
       (auto simp: prepared_or_early_def no_work_barren preparation_failed_def baseline_seen_def split: option.splits)
  show ?thesis unfolding run_preparation_def
  proof (intro follow_bindI [OF verify_tolerantly_on] mute_bind calls_rules)
    fix s' x assume "prepared_on (ru_profile u) s s' (Inr x)"
    then obtain prep v l where x: "x = (prep, v)" and s': "s' = s\<lparr>rn_last := l\<rparr>"
      and seen: "baseline_seen (pf_check (ru_profile u)) (rn_sealed s) s' prep"
      by (cases x) (auto simp: prepared_on_def)
    show "runs (prepared_or_early (ru_profile u) cont s) (case x of (prep, v) \<Rightarrow>
        bind (report_setup u (pe_setup prep)) (\<lambda>_.
        bind (case pe_baseline prep of None \<Rightarrow> Return () | Some b \<Rightarrow> report_baseline u cont b) (\<lambda>_.
        if preparation_failed prep cont then
          (let d = evaluate (ar_blocking a) (no_work prep cont) in
           bind (log_completion_decision (ru_number u) d) (\<lambda>_.
           Return (Inl (early_evidence d (ru_profile u) (preparation_details prep d)))))
        else Return (Inr (prep, v))))) s'"
      unfolding x prod.case
      by (intro judged [OF s' seen] mute_bind calls_rules) (auto simp: prepared_or_early_def s')
  qed (auto simp: prepared_or_early_def prepared_on_def)
qed


section \<open>The session\<close>

text \<open>One session more; what was last run before it is kept as the entry.\<close>

definition one_session :: "runner_trace \<Rightarrow> runner_trace \<Rightarrow> worker_failure + session_end \<Rightarrow> bool" where
  "one_session s s' y \<longleftrightarrow> (case y of
     Inl e \<Rightarrow> rn_sessions s' = rn_sessions s \<and> rn_entry s' = rn_entry s \<or> rn_sessions s' = Suc (rn_sessions s) \<and> rn_entry s' = rn_last s
   | Inr (x, rq) \<Rightarrow> s' = s\<lparr>rn_sessions := Suc (rn_sessions s), rn_entry := rn_last s, rn_ended := Some x, rn_sealed := False\<rparr>)"

definition sealed_since :: "runner_trace \<Rightarrow> runner_trace \<Rightarrow> bool \<Rightarrow> bool" where
  "sealed_since s s' ok \<longleftrightarrow> s'\<lparr>rn_sealed := rn_sealed s\<rparr> = s \<and> (rn_sealed s \<or> ok \<longrightarrow> rn_sealed s')"

lemma sealed_fields:
  "sealed_since s s' ok \<Longrightarrow> rn_last s' = rn_last s \<and> rn_entry s' = rn_entry s \<and> rn_ended s' = rn_ended s \<and> rn_sessions s' = rn_sessions s"
  unfolding sealed_since_def
  by (metis (no_types, lifting) runner_trace.select_convs runner_trace.surjective runner_trace.update_convs(5))

lemma sealing: "runs (\<lambda>s' y. sealed_since s s' (case y of Inl e \<Rightarrow> False | Inr c \<Rightarrow> True)) (seal_now n i st) s"
  by (auto simp: seal_now_def tree_def heard_def sealed_since_def split: runner_answer.split work_answer.split)

lemma sealing_safely:
  "runs (\<lambda>s' y. sealed_since s s' (case y of Inr (Inr c) \<Rightarrow> True | _ \<Rightarrow> False)) (safely (seal_now n i st)) s"
  unfolding safely_def follow_handle follow_bind by (rule follow_mono [OF sealing]) (auto split: sum.split)

definition session_answer :: "runner_trace \<Rightarrow> runner_trace \<Rightarrow> worker_failure + model_execution \<Rightarrow> bool" where
  "session_answer s s' y \<longleftrightarrow> rn_sessions s' = Suc (rn_sessions s) \<and> rn_entry s' = rn_last s
     \<and> (case y of Inl e \<Rightarrow> True | Inr x \<Rightarrow> s' = s\<lparr>rn_sessions := Suc (rn_sessions s), rn_entry := rn_last s, rn_ended := Some x, rn_sealed := False\<rparr>)"

lemma session_recorded: "runs (one_session s) (recorded_session a u prompt) s"
proof -
  have asked: "runs (session_answer s) (ask (Session prompt n i b v) (heard (\<lambda>r. case r of Executed x \<Rightarrow> Some x | _ \<Rightarrow> None))) s" for n i b v
    by (auto simp: heard_def session_answer_def split: runner_answer.split)
  show ?thesis unfolding recorded_session_def
    by (intro follow_bindI [OF asked] mute_bind calls_rules) (auto simp: one_session_def session_answer_def)
qed

lemma session_on: "runs (one_session s) (run_session a u prompt) s"
  unfolding run_session_def
proof (rule follow_handleI [OF session_recorded])
  fix s' e assume failed: "one_session s s' (Inl e)"
  then have fails: "one_session s s'' (Inl e')" if "sealed_since s' s'' ok" for s'' ok e'
    using sealed_fields [OF that] by (simp add: one_session_def)
  show "runs (one_session s) (seal_failed_session u e) s'"
    unfolding seal_failed_session_def
  proof (intro follow_bindI [OF sealing_safely] mute_bind calls_rules)
    show "one_session s s' (Inl e')" for e' using failed by (simp add: one_session_def)
  qed (auto intro: fails)
qed auto

lemma dispatch_on: "runs (one_session s) (dispatch a u k prep) s"
  unfolding dispatch_def Let_def
  by (intro mute_bind session_on calls_rules) (simp_all add: one_session_def)


section \<open>The work of the session\<close>

definition earned :: "repository_profile \<Rightarrow> runner_trace \<Rightarrow> bool" where
  "earned pf s \<longleftrightarrow> rn_last s = Some (pf_check pf, True, True)
     \<and> (case rn_ended s of Some x \<Rightarrow> mx_status x = MODEL_SUCCEEDED \<and> 0 < review_count x | None \<Rightarrow> False)"

lemma eligible_needs:
  assumes "cd_publication_eligible (evaluate blocking (work_evidence a u w check dirty red))"
  shows "mx_status (aw_execution w) = MODEL_SUCCEEDED \<and> 0 < review_count (aw_execution w) \<and> check_passed check"
proof -
  let ?e = "work_evidence a u w check dirty red"
  obtain b where "cd_publication_eligible (evaluate_model blocking ?e b)"
    using assms by (auto simp: evaluate_def decision_def split: option.splits if_splits)
  then have "ev_model_status ?e = Some MODEL_SUCCEEDED" "cd_publication_eligible (evaluate_work blocking ?e)"
    by (auto simp: evaluate_model_def decision_def split: option.splits model_status.splits if_splits)
  then show ?thesis by (auto simp: work_evidence_def Let_def evaluate_work_def decision_def split: if_splits)
qed

lemma progress_kept:
  "runs (\<lambda>s' y. s' = s \<and> (case y of Inl e \<Rightarrow> True | Inr w' \<Rightarrow> mx_status (aw_execution w') = MODEL_SUCCEEDED \<longrightarrow> w' = w))
     (preserve_progress u w) s"
  unfolding preserve_progress_def by (intro follow_if mute_bind calls_rules) auto

definition checked_on :: "attempt_run \<Rightarrow> runner_trace \<Rightarrow> runner_trace \<Rightarrow> worker_failure + command_result option \<Rightarrow> bool" where
  "checked_on u s s' y \<longleftrightarrow> (\<exists>l. s' = s\<lparr>rn_last := l\<rparr>) \<and> (case y of Inl e \<Rightarrow> True
     | Inr c \<Rightarrow> check_passed c \<longrightarrow> rn_last s' = Some (pf_check (ru_profile u), rn_sealed s, True))"

lemma no_check_on [simp]: "checked_on u s s (Inr None)" "checked_on u s s (Inl e)"
  by (auto simp: checked_on_def check_passed_def)

lemma ordered_check: "runs (checked_on u s) (checked_in_order u w v) s"
proof -
  have check: "runs (checked_on u s) (bind (shell c t pf) (\<lambda>r. bind (record_part u ''final_check_finished'') (\<lambda>_. Return (Some r)))) s"
    if "c = pf_check (ru_profile u)" for c t pf
    by (intro follow_bindI [OF shell_passes] mute_bind calls_rules) (auto simp: checked_on_def check_passed_def that)
  show ?thesis unfolding checked_in_order_def
    by (auto simp del: follow_bind split: prod.split sum.split intro!: mute_bind calls_rules check)
qed

lemma final_check_on: "runs (checked_on u s) (run_final_check u w v) s"
proof -
  have checked: "runs (checked_on u s) (if c then checked_in_order u w v else Return None) s" for c
    using ordered_check by simp
  show ?thesis unfolding run_final_check_def
    by (intro follow_bindI [OF checked] mute_bind calls_rules) (auto simp: checked_on_def intro!: calls_rules)
qed

lemma leftovers_sealed:
  "runs (\<lambda>s' y. sealed_since s s' False \<and> (case y of Inl e \<Rightarrow> True | Inr (d, c, w') \<Rightarrow> aw_execution w' = aw_execution w))
     (check_leftovers u w check) s"
  unfolding check_leftovers_def
proof (intro follow_if follow_bindI [OF mute_keeps [OF calls_safely [OF mute_reads(3)]]])
  fix s' found assume s': "s' = s"
  show "runs (\<lambda>s' y. sealed_since s s' False \<and> (case y of Inl e \<Rightarrow> True | Inr (d, c, w') \<Rightarrow> aw_execution w' = aw_execution w))
    (case found of Inl e \<Rightarrow> Return ([], None, w)
     | Inr dirty \<Rightarrow>
        if dirty = [] then Return ([], None, w)
        else bind (say ''final_check_dirtied_workspace'' (final_check_dirty_reason (sort dirty)) ''WARNING'' (ru_number u)) (\<lambda>_.
          bind (safely (seal_now (ru_number u) (ru_attempt_id u) (mx_status (aw_execution w)))) (\<lambda>sealed.
          bind (case sealed of Inl e \<Rightarrow> say_seal_failed u e | Inr c \<Rightarrow> Return ()) (\<lambda>_.
          bind (record_part u ''final_check_dirtied_workspace'') (\<lambda>_.
          bind (commits_now (ru_prepared u)) (\<lambda>cs.
          Return (dirty, case sealed of Inl e \<Rightarrow> None | Inr c \<Rightarrow> c, w\<lparr>aw_commits := cs\<rparr>))))))) s'"
    unfolding s'
    by (cases found)
       (auto simp: sealed_since_def simp del: follow_bind intro!: follow_bindI [OF sealing_safely] mute_bind calls_rules split: sum.splits)
qed (auto simp: sealed_since_def)

lemma conclusion:
  "runs (\<lambda>s' y. s' = s \<and> (case y of Inl e \<Rightarrow> True | Inr ev \<Rightarrow> cd_publication_eligible (ae_decision ev) \<longrightarrow>
       cd_publication_eligible (evaluate (ar_blocking a) (work_evidence a u w check dirty red))))
     (conclude a u rq w check dirty preserved red) s"
proof -
  have judged: "runs (\<lambda>s' y. s' = s \<and> (case y of Inl e \<Rightarrow> True | Inr (d', t) \<Rightarrow> cd_publication_eligible d' \<longrightarrow> cd_publication_eligible d))
      (judge_handoff u cs d) s" for cs d
    unfolding judge_handoff_def by (intro follow_if mute_bind calls_rules) auto
  have "calls mute (decided_details u w d t dirty preserved)" for d t
    unfolding decided_details_def by (auto intro!: calls_rules)
  then show ?thesis unfolding conclude_def
    by (intro follow_bindI [OF judged]) (auto simp: evidence_of_def Let_def simp del: follow_bind intro!: mute_bind calls_rules)
qed


text \<open>What the part after a session adds to the trace, and what its evidence may say.\<close>

definition held_back :: "attempt_evidence \<Rightarrow> bool" where
  "held_back ev \<longleftrightarrow> cd_outcome (ae_decision ev) = Some INFRASTRUCTURE_ERROR \<and> cd_publication_path (ae_decision ev) = PATH_NONE"

definition worked :: "attempt_run \<Rightarrow> runner_trace \<Rightarrow> runner_trace \<Rightarrow> worker_failure + attempt_evidence \<Rightarrow> bool" where
  "worked u s s' y \<longleftrightarrow> rn_sessions s' = rn_sessions s \<and> rn_entry s' = rn_entry s \<and> (case y of Inl e \<Rightarrow> True
     | Inr ev \<Rightarrow> (rn_sealed s' \<or> held_back ev) \<and> (cd_publication_eligible (ae_decision ev) \<longrightarrow> earned (ru_profile u) s'))"

lemma worked_raises [simp]: "worked u s s' (Inl e) \<longleftrightarrow> rn_sessions s' = rn_sessions s \<and> rn_entry s' = rn_entry s"
  by (simp add: worked_def)

lemma judged_work:
  assumes s: "rn_sealed s" "rn_ended s = Some (aw_execution w)"
  shows "runs (worked u s) (judge_work a u rq v w) s"
  unfolding judge_work_def Let_def
proof (rule follow_bindI [OF progress_kept])
  fix s1 and w1 :: attempt_work
  assume 1: "s1 = s \<and> (case (Inr w1 :: worker_failure + _) of Inl e \<Rightarrow> True | Inr w' \<Rightarrow> mx_status (aw_execution w') = MODEL_SUCCEEDED \<longrightarrow> w' = w)"
  have left: "runs (worked u s) (bind (check_leftovers u w1 check) (\<lambda>(dirty, preserved, w).
        conclude a u rq w check dirty preserved (deferred_baseline u w1 \<noteq> None))) s2"
    if 2: "checked_on u s1 s2 (Inr check)" for s2 check
    proof (rule follow_bindI [OF leftovers_sealed])
      fix s3 and y :: "string list \<times> attempt_commit option \<times> attempt_work"
      assume 3: "sealed_since s2 s3 False \<and> (case (Inr y :: worker_failure + _) of Inl e \<Rightarrow> True | Inr (d, c, w') \<Rightarrow> aw_execution w' = aw_execution w1)"
      obtain d c w3 where y: "y = (d, c, w3)" by (cases y)
      have kept: "rn_sealed s3" "rn_sessions s3 = rn_sessions s" "rn_entry s3 = rn_entry s" "rn_ended s3 = rn_ended s"
        "rn_last s3 = rn_last s2"
        using 1 2 3 s sealed_fields [of s2 s3 False] by (auto simp: checked_on_def sealed_since_def)
      have "earned (ru_profile u) s3" if "cd_publication_eligible (evaluate (ar_blocking a) (work_evidence a u w3 check d red))" for red
        using eligible_needs [OF that] kept 1 2 3 s y by (auto simp: earned_def checked_on_def)
      with kept show "runs (worked u s) (case y of (dirty, preserved, w) \<Rightarrow>
          conclude a u rq w check dirty preserved (deferred_baseline u w1 \<noteq> None)) s3"
        unfolding y prod.case by (intro follow_mono [OF conclusion]) (auto simp: worked_def split: sum.split)
    qed (use 1 2 sealed_fields in \<open>fastforce simp: checked_on_def\<close>)
  show "runs (worked u s) (bind (report_deferred_baseline u (deferred_baseline u w1)) (\<lambda>_.
      bind (run_final_check u w1 v) (\<lambda>check.
      bind (check_leftovers u w1 check) (\<lambda>(dirty, preserved, w).
      conclude a u rq w check dirty preserved (deferred_baseline u w1 \<noteq> None))))) s1"
    by (intro follow_bindI [OF final_check_on] left mute_bind calls_rules) (use 1 in \<open>auto simp: checked_on_def\<close>)
qed auto

lemma seals_work:
  "runs (\<lambda>s' y. sealed_since s s' (case y of Inr (Inr x) \<Rightarrow> True | _ \<Rightarrow> False)) (sealed_work u st) s"
  unfolding sealed_work_def
  by (rule follow_handleI [where R = "\<lambda>s' y. sealed_since s s' (case y of Inr (Inr x) \<Rightarrow> True | _ \<Rightarrow> False)"];
      (intro follow_bindI [OF sealing] mute_bind calls_rules)?) (auto simp: sealed_since_def)

lemma barren_evidence: "barren (ae_decision ev) \<Longrightarrow> rn_sealed s' \<Longrightarrow> rn_sessions s' = rn_sessions s \<Longrightarrow> rn_entry s' = rn_entry s
    \<Longrightarrow> worked u s s' (Inr ev)"
  by (simp add: worked_def barren_def)

lemma session_worked:
  assumes "rn_ended s = Some (fst r)"
  shows "runs (worked u s) (after_session a u fs prepared r) s"
proof -
  obtain x rq where r: "r = (x, rq)" by (cases r)
  have rest: "runs (worked u s) (bind (case prepared of Some y \<Rightarrow> Return (Inr y) | None \<Rightarrow> run_preparation a u True True) (\<lambda>r. case r of
            Inl early \<Rightarrow> Return early
          | Inr (prep, v) \<Rightarrow>
              bind (commits_now (ru_prepared u)) (\<lambda>cs.
              judge_work a u rq v \<lparr>aw_execution = x, aw_preparation = prep, aw_dirty = dirty, aw_seal = c, aw_commits = cs\<rparr>))) s'"
    if s': "rn_sealed s'" "rn_sessions s' = rn_sessions s" "rn_entry s' = rn_entry s" "rn_ended s' = Some x" for s' dirty c
  proof -
    have judge: "runs (worked u s) (bind (commits_now (ru_prepared u)) (\<lambda>cs.
        judge_work a u rq v \<lparr>aw_execution = x, aw_preparation = prep, aw_dirty = dirty, aw_seal = c, aw_commits = cs\<rparr>)) s''"
      if "rn_sealed s''" "rn_sessions s'' = rn_sessions s" "rn_entry s'' = rn_entry s" "rn_ended s'' = Some x" for s'' v prep
      using that by (intro mute_bind calls_rules follow_mono [OF judged_work]) (auto simp: worked_def)
    show ?thesis
    proof (cases prepared)
      case None
      then show ?thesis
        by (simp del: follow_bind)
           (rule follow_bindI [OF preparation_on], use s' in \<open>auto simp: prepared_or_early_def simp del: follow_bind intro!: judge barren_evidence split: sum.splits\<close>)
    qed (use judge s' in \<open>auto simp del: follow_bind split: prod.split\<close>)
  qed
  show ?thesis unfolding after_session_def r prod.case
  proof (intro follow_bindI [OF seals_work] mute_bind)
    show "calls mute (if ru_deferred u then check_resolution u fs else Return ())" by (intro calls_rules)
    fix s' and sealed :: "worker_failure + string list option \<times> attempt_commit option"
    assume sealed: "sealed_since s s' (case (Inr sealed :: worker_failure + _) of Inr (Inr x) \<Rightarrow> True | _ \<Rightarrow> False)"
    show "runs (worked u s) (case sealed of Inl e \<Rightarrow> Return (unsealed_evidence u e) | Inr (dirty, c) \<Rightarrow>
          bind (case prepared of Some y \<Rightarrow> Return (Inr y) | None \<Rightarrow> run_preparation a u True True) (\<lambda>r. case r of
            Inl early \<Rightarrow> Return early
          | Inr (prep, v) \<Rightarrow>
              bind (commits_now (ru_prepared u)) (\<lambda>cs.
              judge_work a u rq v \<lparr>aw_execution = x, aw_preparation = prep, aw_dirty = dirty, aw_seal = c, aw_commits = cs\<rparr>))) s'"
      using sealed sealed_fields [OF sealed] assms r
      by (auto simp: worked_def unsealed_evidence_def held_back_def sealed_since_def simp del: follow_bind intro!: rest split: sum.splits)
  qed (use sealed_fields in \<open>auto\<close>)
qed


section \<open>The whole attempt\<close>

definition fair_entry :: "attempt_run \<Rightarrow> (string list \<times> bool \<times> bool) option \<Rightarrow> bool" where
  "fair_entry u seen \<longleftrightarrow> ru_deferred u
     \<or> (case seen of Some (c, sealed, ok) \<Rightarrow> c = pf_check (ru_profile u) \<and> (ok \<or> ru_continuation u) | None \<Rightarrow> False)"

definition attempt_ends :: "attempt_run \<Rightarrow> runner_trace \<Rightarrow> worker_failure + attempt_evidence \<Rightarrow> bool" where
  "attempt_ends u s y \<longleftrightarrow> (rn_sessions s = 0 \<or> rn_sessions s = 1 \<and> fair_entry u (rn_entry s)) \<and> (case y of Inl e \<Rightarrow> True
     | Inr ev \<Rightarrow> (rn_sessions s = 0 \<or> rn_sealed s \<or> held_back ev) \<and> (cd_publication_eligible (ae_decision ev) \<longrightarrow> earned (ru_profile u) s))"

lemma dispatched_ends:
  assumes "rn_sessions s = 0" "fair_entry u (rn_last s)"
  shows "runs (attempt_ends u) (bind (dispatch a u k prep) (after_session a u fs prepared)) s"
proof (rule follow_bindI [OF dispatch_on])
  fix s' r assume "one_session s s' (Inr r)"
  then have s': "s' = s\<lparr>rn_sessions := Suc (rn_sessions s), rn_entry := rn_last s, rn_ended := Some (fst r), rn_sealed := False\<rparr>"
    by (cases r) (simp add: one_session_def)
  then show "runs (attempt_ends u) (after_session a u fs prepared r) s'"
    using assms by (intro follow_mono [OF session_worked]) (auto simp: worked_def attempt_ends_def split: sum.splits)
qed (use assms in \<open>auto simp: attempt_ends_def one_session_def\<close>)

lemma attempt_on_ends:
  assumes s: "rn_sessions s = 0"
  shows "runs (attempt_ends u) (attempt_on a u k fs) s"
proof -
  have early: "runs (attempt_ends u) (end_before_session a u ev) s'" if "rn_sessions s' = 0" "barren (ae_decision ev)" for s' ev
    using that unfolding end_before_session_def
    by (intro mute_bind calls_rules) (auto simp: attempt_ends_def barren_def)
  show ?thesis unfolding attempt_on_def
  proof (intro follow_if)
    assume "ru_deferred u"
    then show "runs (attempt_ends u) (bind (announce_deferral u fs) (\<lambda>_. bind (dispatch a u k None) (after_session a u fs None))) s"
      using s by (intro dispatched_ends mute_bind mute_parts) (auto simp: attempt_ends_def fair_entry_def)
  next
    assume "\<not> ru_deferred u"
    show "runs (attempt_ends u) (bind (run_preparation a u (ru_continuation u) False) (\<lambda>r. case r of
          Inl early \<Rightarrow> end_before_session a u early
        | Inr (prep, v) \<Rightarrow> bind (dispatch a u k (Some prep)) (after_session a u fs (Some (prep, v))))) s"
      by (rule follow_bindI [OF preparation_on])
         (use s in \<open>auto simp: prepared_or_early_def attempt_ends_def fair_entry_def simp del: follow_bind
            intro!: early dispatched_ends split: sum.splits\<close>)
  qed
qed

lemma branch_missing_ends: "rn_sessions s = 0 \<Longrightarrow> runs (attempt_ends u) (branch_missing a cl pf p) s"
  unfolding branch_missing_def Let_def
  by (intro mute_bind calls_rules) (auto simp: attempt_ends_def)

text \<open>What holds for every run that \<open>run_model_attempt\<close> enters holds for its own.\<close>

lemma model_attempt_ends:
  assumes "\<And>s y u. attempt_ends u s y \<Longrightarrow> ru_profile u = pf \<Longrightarrow> Q s y"
  shows "runs Q (run_model_attempt a cl pf p) runner_start"
proof -
  have start: "rn_sessions runner_start = 0" by (simp add: runner_start_def)
  let ?u = "\<lambda>t d b c. \<lparr>ru_claim = cl, ru_profile = pf, ru_prepared = p, ru_attempt_id = t, ru_archive = d, ru_continuation = b, ru_deferred = c\<rparr>"
  have raised: "Q runner_start (Inl e)" for e
    by (rule assms [of "?u [] None True True"]) (auto simp: attempt_ends_def start)
  have run: "runs Q (attempt_on a (?u t d b c) k fs) runner_start" for t d b c k fs
    by (rule follow_mono [OF attempt_on_ends [OF start]]) (auto intro: assms)
  have missing: "runs Q (branch_missing a cl pf p) runner_start"
    by (rule follow_mono [OF branch_missing_ends [OF start, of "?u [] None True True"]]) (auto intro: assms)
  show ?thesis unfolding run_model_attempt_def Let_def
    by (intro follow_if missing run mute_bind raised calls_rules) auto
qed

text \<open>
  C2. Whatever the calls answer, the runner says that the evidence suffices for a publication only when the model's
  session succeeded and used the review at least once, its work was sealed, and the last commands that were run are
  those of the check, after the seal, and they succeeded.
\<close>

theorem eligible_evidence_is_earned:
  "runs (\<lambda>s y. case y of Inl e \<Rightarrow> True | Inr ev \<Rightarrow> if cd_publication_eligible (ae_decision ev) then earned pf s else True)
     (run_model_attempt a cl pf p) runner_start"
  by (rule model_attempt_ends) (auto simp: attempt_ends_def split: sum.split)

text \<open>
  C32. Whatever the calls answer, an attempt that returns evidence after a model's session has sealed its work into a
  commit, or found nothing to seal, unless the evidence reports an infrastructure error that publishes nothing.
\<close>

theorem session_work_is_sealed:
  "runs (\<lambda>s y. case y of Inl e \<Rightarrow> True | Inr ev \<Rightarrow> rn_sessions s = 0 \<or> rn_sealed s \<or> held_back ev)
     (run_model_attempt a cl pf p) runner_start"
  by (rule model_attempt_ends) (auto simp: attempt_ends_def split: sum.split)

text \<open>
  An attempt has at most one session of the model. Unless it begins on a branch with conflicts to resolve, the
  last commands before the session are those of the check, and they succeeded, or the branch carried commits before.
\<close>

theorem one_session_after_baseline:
  "runs (\<lambda>s y. rn_sessions s = 0 \<or> rn_sessions s = 1 \<and> fair_entry u (rn_entry s)) (attempt_on a u k fs) runner_start"
  by (rule follow_mono [OF attempt_on_ends]) (auto simp: attempt_ends_def runner_start_def)

end
