(* ===== verification/Shell_Guard.thy ===== *)
theory Shell_Guard
  imports Text
begin

text \<open>
  The guards on the model's shell commands (model_execution.py): \<open>shlex\<close> as they call it, the segments of a command,
  which invocations publish, which redirects write, which commands stay allowed while a handoff is pending, and which
  delete its note.
\<close>

section \<open>Tokens\<close>

text \<open>
  \<open>shlex.shlex(command, posix=True, punctuation_chars=";&|")\<close> with \<open>whitespace_split\<close>: between tokens, in a word, in
  a run of punctuation, in a quote, or after a backslash, where the escape remembers the quote it stands in.
\<close>

datatype lex_state = Between | Word | Punctuation | Quoted char | Escaped "char option"

definition SQUOTE :: char where "SQUOTE = CHR 0x27"
definition DQUOTE :: char where "DQUOTE = CHR 0x22"
definition BACKSLASH :: char where "BACKSLASH = CHR 0x5C"
definition NEWLINE :: char where "NEWLINE = CHR 0x0A"

definition lex_space :: "char \<Rightarrow> bool" where
  "lex_space c \<longleftrightarrow> c \<in> {CHR '' '', CHR 0x09, CHR 0x0D, NEWLINE}"

definition lex_punctuation :: "char \<Rightarrow> bool" where
  "lex_punctuation c \<longleftrightarrow> c \<in> set '';&|''"

definition lex_quote :: "char \<Rightarrow> bool" where
  "lex_quote c \<longleftrightarrow> c = SQUOTE \<or> c = DQUOTE"

definition after_line :: "string \<Rightarrow> string" where
  "after_line cs = drop 1 (dropWhile (\<lambda>c. c \<noteq> NEWLINE) cs)"

lemma after_line_shorter: "length (after_line cs) \<le> length cs"
  unfolding after_line_def by (metis diff_le_self le_trans length_drop length_dropWhile_le)

text \<open>A token counts when it is not empty or was quoted.\<close>

definition emit :: "string \<Rightarrow> bool \<Rightarrow> string list option \<Rightarrow> string list option" where
  "emit tok quoted rest = (if tok \<noteq> [] \<or> quoted then map_option (Cons tok) rest else rest)"

text \<open>The first character of a token: the state and the token after it.\<close>

definition lex_first :: "char \<Rightarrow> lex_state \<times> string" where
  "lex_first c =
     (if c = BACKSLASH then (Escaped None, [])
      else if lex_punctuation c then (Punctuation, [c])
      else if lex_quote c then (Quoted c, [])
      else (Word, [c]))"

text \<open>\<open>None\<close> is the \<open>ValueError\<close> of a quote that is not closed or an escape at the end.\<close>

function lex :: "lex_state \<Rightarrow> string \<Rightarrow> bool \<Rightarrow> string \<Rightarrow> string list option" where
  "lex Between tok q [] = Some []"
| "lex Word tok q [] = emit tok q (Some [])"
| "lex Punctuation tok q [] = emit tok q (Some [])"
| "lex (Quoted d) tok q [] = None"
| "lex (Escaped d) tok q [] = None"
| "lex Between tok q (c # cs) =
     (if lex_space c then lex Between [] False cs
      else if c = CHR ''#'' then lex Between [] False (after_line cs)
      else lex (fst (lex_first c)) (snd (lex_first c)) False cs)"
| "lex Word tok q (c # cs) =
     (if lex_space c then emit tok q (lex Between [] False cs)
      else if c = CHR ''#'' then emit tok q (lex Between [] False (after_line cs))
      else if lex_quote c then lex (Quoted c) tok q cs
      else if c = BACKSLASH then lex (Escaped None) tok q cs
      else if lex_punctuation c then emit tok q (lex Punctuation [c] False cs)
      else lex Word (tok @ [c]) q cs)"
| "lex Punctuation tok q (c # cs) =
     (if lex_space c then emit tok q (lex Between [] False cs)
      else if c = CHR ''#'' then emit tok q (lex Between [] False (after_line cs))
      else if lex_punctuation c then lex Punctuation (tok @ [c]) q cs
      else emit tok q (lex (fst (lex_first c)) (snd (lex_first c)) False cs))"
| "lex (Quoted d) tok q (c # cs) =
     (if c = d then lex Word tok True cs
      else if c = BACKSLASH \<and> d = DQUOTE then lex (Escaped (Some d)) tok True cs
      else lex (Quoted d) (tok @ [c]) True cs)"
| "lex (Escaped d) tok q (c # cs) =
     (case d of
        None \<Rightarrow> lex Word (tok @ [c]) q cs
      | Some e \<Rightarrow> lex (Quoted e) (tok @ (if c \<noteq> BACKSLASH \<and> c \<noteq> e then [BACKSLASH] else []) @ [c]) q cs)"
  by pat_completeness auto
termination by (relation "measure (\<lambda>(s, tok, q, cs). length cs)") (auto simp: le_imp_less_Suc after_line_shorter)

definition shell_tokens :: "string \<Rightarrow> string list option" where
  "shell_tokens command = lex Between [] False command"

definition separates :: "string \<Rightarrow> bool" where
  "separates token \<longleftrightarrow> token \<noteq> [] \<and> list_all lex_punctuation token"

text \<open>The tokens between separators; empty segments are dropped.\<close>

fun split_segments :: "string list \<Rightarrow> string list \<Rightarrow> string list list" where
  "split_segments current [] = (if current = [] then [] else [current])"
| "split_segments current (t # ts) =
     (if separates t then (if current = [] then split_segments [] ts else current # split_segments [] ts)
      else split_segments (current @ [t]) ts)"

definition shell_segments :: "string \<Rightarrow> string list list option" where
  "shell_segments command = map_option (split_segments []) (shell_tokens command)"


section \<open>Invocations\<close>

text \<open>\<open>Path(x).name\<close> of a POSIX path.\<close>

definition path_name :: "string \<Rightarrow> string" where
  "path_name p = (case filter (\<lambda>c. c \<noteq> [] \<and> c \<noteq> ''.'') (py_split (CHR ''/'') p) of [] \<Rightarrow> [] | cs \<Rightarrow> last cs)"

definition assigns :: "string \<Rightarrow> bool" where
  "assigns t \<longleftrightarrow> CHR ''='' \<in> set t \<and> \<not> py_startswith ''-'' t"

text \<open>The program and its arguments, behind assignments and one \<open>command\<close> or \<open>env\<close>.\<close>

definition invocation :: "string list \<Rightarrow> (string \<times> string list) option" where
  "invocation tokens =
     (let words = dropWhile assigns tokens;
          rest = (case words of w # ws \<Rightarrow> if w = ''command'' \<or> w = ''env'' then ws else words | [] \<Rightarrow> [])
      in case rest of [] \<Rightarrow> None | w # ws \<Rightarrow> Some (path_name w, ws))"

fun git_words :: "string list \<Rightarrow> string list" where
  "git_words [] = []"
| "git_words (a # as) =
     (if a = ''-C'' \<and> as \<noteq> [] then git_words (tl as) else if py_startswith ''-'' a then git_words as else a # as)"

definition git_subcommand :: "string list \<Rightarrow> string option" where
  "git_subcommand args = (case git_words args of [] \<Rightarrow> None | w # ws \<Rightarrow> Some w)"

definition git_subcommand_arguments :: "string list \<Rightarrow> string list option" where
  "git_subcommand_arguments args = (case git_words args of [] \<Rightarrow> None | w # ws \<Rightarrow> Some ws)"

definition gh_subcommand :: "string list \<Rightarrow> (string \<times> string) option" where
  "gh_subcommand args = (case filter (\<lambda>a. \<not> py_startswith ''-'' a) args of a # b # _ \<Rightarrow> Some (a, b) | _ \<Rightarrow> None)"

text \<open>The script of \<open>sh -c script\<close>.\<close>

definition script_of :: "string list \<Rightarrow> string option" where
  "script_of args = (case dropWhile (\<lambda>a. a \<noteq> ''-c'') args of _ # script # _ \<Rightarrow> Some script | _ \<Rightarrow> None)"

definition SHELLS :: "string list" where "SHELLS = [''sh'', ''bash'', ''zsh'']"

text \<open>
  A script is judged by the guard itself; the argument \<open>n\<close> bounds the nesting. A script is a token of its command and
  shorter than it, so the length of the command is enough.
\<close>

definition publishes_by :: "(string \<Rightarrow> bool) \<Rightarrow> string list \<Rightarrow> bool" where
  "publishes_by judge tokens = (case invocation tokens of
     None \<Rightarrow> False
   | Some (program, args) \<Rightarrow>
       if program = ''git'' then git_subcommand args = Some ''push''
       else if program = ''gh'' then gh_subcommand args \<in> {Some (''pr'', ''merge''), Some (''issue'', ''close'')}
       else if program \<in> set SHELLS then (case script_of args of None \<Rightarrow> False | Some script \<Rightarrow> judge script)
       else False)"

fun publication_within :: "nat \<Rightarrow> string \<Rightarrow> bool" where
  "publication_within 0 command = False"
| "publication_within (Suc n) command = (case shell_segments command of
     None \<Rightarrow> False
   | Some segments \<Rightarrow> list_ex (publishes_by (publication_within n)) segments)"

definition is_publication_command :: "string \<Rightarrow> bool" where
  "is_publication_command command = publication_within (Suc (length command)) command"


section \<open>The handoff note\<close>

definition HANDOFF_NOTE_MARKER :: string where "HANDOFF_NOTE_MARKER = ''.agent/handoff''"

fun token_targets_handoff_note :: "string \<Rightarrow> bool" where
  "token_targets_handoff_note [] = False"
| "token_targets_handoff_note (c # cs) =
     (py_startswith HANDOFF_NOTE_MARKER (c # cs)
        \<and> (let rest = drop (length HANDOFF_NOTE_MARKER) (c # cs) in rest = [] \<or> py_startswith ''/'' rest)
      \<or> token_targets_handoff_note cs)"

definition deletes_by :: "(string \<Rightarrow> bool) \<Rightarrow> string list \<Rightarrow> bool" where
  "deletes_by judge tokens = (case invocation tokens of
     None \<Rightarrow> False
   | Some (program, args) \<Rightarrow>
       if program \<in> {''rm'', ''unlink'', ''rmdir'', ''mv''} then list_ex token_targets_handoff_note args
       else if program = ''git'' then
         git_subcommand args \<in> {Some ''rm'', Some ''mv'', Some ''clean''}
         \<and> (case git_subcommand_arguments args of None \<Rightarrow> False | Some rest \<Rightarrow> list_ex token_targets_handoff_note rest)
       else if program \<in> set SHELLS then (case script_of args of None \<Rightarrow> False | Some script \<Rightarrow> judge script)
       else False)"

fun deletes_within :: "nat \<Rightarrow> string \<Rightarrow> bool" where
  "deletes_within 0 command = False"
| "deletes_within (Suc n) command = (case shell_segments command of
     None \<Rightarrow> False
   | Some segments \<Rightarrow> list_ex (deletes_by (deletes_within n)) segments)"

definition deletes_handoff_note :: "string \<Rightarrow> bool" where
  "deletes_handoff_note command = deletes_within (Suc (length command)) command"


section \<open>Redirects\<close>

definition is_allowed_redirect_target :: "string option \<Rightarrow> bool" where
  "is_allowed_redirect_target target = (case target of
     None \<Rightarrow> False
   | Some t \<Rightarrow> t \<noteq> [] \<and> (t = ''/dev/null'' \<or> token_targets_handoff_note t))"

datatype quote_state = Plain | Single | Double

definition TARGET_ENDS :: string where "TARGET_ENDS = '' '' @ [CHR 0x09, NEWLINE] @ '';&|<>()''"

text \<open>One word of the shell from the front: what it reads as, and the rest.\<close>

fun redirect_word :: "quote_state \<Rightarrow> bool \<Rightarrow> string \<Rightarrow> string \<Rightarrow> string \<times> string" where
  "redirect_word s escaped parts [] = (parts, [])"
| "redirect_word s escaped parts (c # cs) =
     (if escaped then redirect_word s False (parts @ [c]) cs
      else case s of
        Single \<Rightarrow> if c = SQUOTE then redirect_word Plain False parts cs else redirect_word Single False (parts @ [c]) cs
      | Double \<Rightarrow> if c = DQUOTE then redirect_word Plain False parts cs
          else if c = BACKSLASH then redirect_word Double True parts cs
          else redirect_word Double False (parts @ [c]) cs
      | Plain \<Rightarrow> if c = BACKSLASH then redirect_word Plain True parts cs
          else if c = SQUOTE then redirect_word Single False parts cs
          else if c = DQUOTE then redirect_word Double False parts cs
          else if c \<in> set TARGET_ENDS then (parts, c # cs)
          else redirect_word Plain False (parts @ [c]) cs)"

definition read_redirect_target :: "string \<Rightarrow> string option \<times> string" where
  "read_redirect_target cs =
     (case cs of [] \<Rightarrow> (None, cs)
      | c # _ \<Rightarrow> if c \<in> set '';|&<>()'' \<or> c = NEWLINE then (None, cs)
          else (case redirect_word Plain False [] cs of (target, rest) \<Rightarrow> (if target = [] then None else Some target, rest)))"

lemma redirect_word_shorter: "length (snd (redirect_word s e p cs)) \<le> length cs"
proof (induction s e p cs rule: redirect_word.induct)
  case (2 s escaped parts c cs)
  then show ?case by (cases s; cases escaped) (simp_all add: le_SucI)
qed simp

lemma read_target_shorter: "length (snd (read_redirect_target cs)) \<le> length cs"
  using redirect_word_shorter [of Plain False "[]" cs]
  by (auto simp: read_redirect_target_def split: list.split prod.split)

text \<open>What follows a \<open>>\<close>: further characters of the operator, blanks, then the target.\<close>

definition redirect_start :: "string \<Rightarrow> string" where
  "redirect_start cs = dropWhile (\<lambda>c. c = CHR '' '' \<or> c = CHR 0x09) (dropWhile (\<lambda>c. c = CHR ''>'' \<or> c = CHR ''|'') cs)"

lemma redirect_start_shorter: "length (redirect_start cs) \<le> length cs"
  unfolding redirect_start_def by (meson le_trans length_dropWhile_le)

function disallowed_redirect_from :: "quote_state \<Rightarrow> bool \<Rightarrow> string \<Rightarrow> bool" where
  "disallowed_redirect_from s escaped [] = False"
| "disallowed_redirect_from s escaped (c # cs) =
     (if escaped then disallowed_redirect_from s False cs
      else case s of
        Single \<Rightarrow> disallowed_redirect_from (if c = SQUOTE then Plain else Single) False cs
      | Double \<Rightarrow> if c = DQUOTE then disallowed_redirect_from Plain False cs
          else disallowed_redirect_from Double (c = BACKSLASH) cs
      | Plain \<Rightarrow> if c = BACKSLASH then disallowed_redirect_from Plain True cs
          else if c = SQUOTE then disallowed_redirect_from Single False cs
          else if c = DQUOTE then disallowed_redirect_from Double False cs
          else if c \<noteq> CHR ''>'' then disallowed_redirect_from Plain False cs
          else \<not> is_allowed_redirect_target (fst (read_redirect_target (redirect_start cs)))
            \<or> disallowed_redirect_from Plain False (snd (read_redirect_target (redirect_start cs))))"
  by pat_completeness auto
termination
  by (relation "measure (\<lambda>(s, e, cs). length cs)")
     (auto intro!: le_imp_less_Suc le_trans [OF read_target_shorter redirect_start_shorter])

definition has_disallowed_output_redirect :: "string \<Rightarrow> bool" where
  "has_disallowed_output_redirect command = disallowed_redirect_from Plain False command"

text \<open>The pattern \<open>\d*>&\d+\<close> at the front: the rest behind it.\<close>

definition duplication :: "string \<Rightarrow> string option" where
  "duplication cs = (let rest = dropWhile is_digit cs in
     if py_startswith ''>&'' rest \<and> takeWhile is_digit (drop 2 rest) \<noteq> [] then Some (dropWhile is_digit (drop 2 rest)) else None)"

lemma duplication_shorter: "duplication cs = Some rest \<Longrightarrow> length rest < length cs"
proof -
  assume "duplication cs = Some rest"
  then have start: "py_startswith ''>&'' (dropWhile is_digit cs)" and rest: "rest = dropWhile is_digit (drop 2 (dropWhile is_digit cs))"
    by (auto simp: duplication_def Let_def split: if_splits)
  have "length rest \<le> length (dropWhile is_digit cs) - 2" unfolding rest by (metis length_drop length_dropWhile_le)
  moreover have "2 \<le> length (dropWhile is_digit cs)" using start unfolding py_startswith_def
    by (metis length_Cons length_take list.size(3) min.cobounded1 One_nat_def Suc_1)
  ultimately show ?thesis using length_dropWhile_le [of is_digit cs] by linarith
qed

function strip_duplications :: "string \<Rightarrow> string" where
  "strip_duplications [] = []"
| "strip_duplications (c # cs) = (case duplication (c # cs) of
     Some rest \<Rightarrow> strip_duplications rest
   | None \<Rightarrow> c # strip_duplications cs)"
  by pat_completeness auto
termination by (relation "measure length") (auto dest: duplication_shorter)


section \<open>What stays allowed\<close>

definition READONLY_OUTPUT_FILTERS :: "string list" where
  "READONLY_OUTPUT_FILTERS = [''tail'', ''head'', ''wc'', ''grep'', ''sort'', ''uniq'', ''cut'', ''tr'']"

definition HANDOFF_GIT_COMMANDS :: "string list" where
  "HANDOFF_GIT_COMMANDS = [''status'', ''diff'', ''add'', ''commit'', ''log'', ''rev-parse'', ''rev-list'']"

definition HANDOFF_PROGRAMS :: "string list" where
  "HANDOFF_PROGRAMS = [''date'', ''mkdir'', ''echo'', ''cat'', ''pwd'', ''ls'', ''test'', ''true'']"

definition handoff_segment :: "string list \<Rightarrow> bool" where
  "handoff_segment tokens = (case invocation tokens of
     None \<Rightarrow> True
   | Some (program, args) \<Rightarrow>
       if program = ''git'' then
         (case git_subcommand args of Some c \<Rightarrow> c \<in> set HANDOFF_GIT_COMMANDS | None \<Rightarrow> False)
         \<or> git_subcommand args = Some ''branch'' \<and> git_subcommand_arguments args \<in> {Some [], Some [''--show-current'']}
       else program \<in> set HANDOFF_PROGRAMS \<or> program \<in> set READONLY_OUTPUT_FILTERS)"

definition is_handoff_command :: "string \<Rightarrow> bool" where
  "is_handoff_command command =
     (let stripped = strip_duplications command in
      if has_disallowed_output_redirect stripped then False
      else case shell_segments stripped of None \<Rightarrow> False | Some segments \<Rightarrow> list_all handoff_segment segments)"

end
