(* ===== verification/Shell_Guard_Props.thy ===== *)
theory Shell_Guard_Props
  imports Shell_Guard
begin

text \<open>
  What the guards on commands catch and what they miss: on commands of plain words and separators what is denied as a
  publication, and what stays allowed while a handoff is pending, is described exactly by the programs that the segments
  run; the forms that pass although a shell publishes or writes with them follow from it.
\<close>

section \<open>Plain commands\<close>

definition plain_char :: "char \<Rightarrow> bool" where
  "plain_char c \<longleftrightarrow> \<not> lex_space c \<and> c \<noteq> CHR ''#'' \<and> \<not> lex_quote c \<and> c \<noteq> BACKSLASH \<and> \<not> lex_punctuation c"

definition plain_token :: "string \<Rightarrow> bool" where
  "plain_token t \<longleftrightarrow> t \<noteq> [] \<and> list_all plain_char t \<or> separates t"

lemma lex_plain: "list_all plain_char w \<Longrightarrow> lex Word tok q (w @ cs) = lex Word (tok @ w) q cs"
  by (induction w arbitrary: tok) (auto simp: plain_char_def)

lemma lex_separator: "list_all lex_punctuation w \<Longrightarrow> lex Punctuation tok q (w @ cs) = lex Punctuation (tok @ w) q cs"
proof (induction w arbitrary: tok)
  case (Cons c w)
  then have "lex_punctuation c" "\<not> lex_space c" "c \<noteq> CHR ''#''" by (auto simp: lex_punctuation_def lex_space_def NEWLINE_def)
  with Cons show ?case by simp
qed simp

text \<open>A token at the front, when a blank or the end follows.\<close>

lemma lex_token:
  assumes "plain_token t"
  shows "lex_space b \<Longrightarrow> lex Between [] False (t @ b # cs) = map_option (Cons t) (lex Between [] False cs)"
    and "lex Between [] False t = Some [t]"
proof -
  obtain c w where t: "t = c # w" using assms by (cases t) (auto simp: plain_token_def separates_def)
  have both: "(lex_space b \<longrightarrow> lex Between [] False (t @ b # cs) = map_option (Cons t) (lex Between [] False cs)) \<and> lex Between [] False t = Some [t]"
  proof (cases "list_all plain_char t")
    case True
    then have w: "list_all plain_char w" and c: "plain_char c" by (simp_all add: t)
    then have "lex Between [] False (t @ v) = lex Word t False v" for v
      using lex_plain [OF w, of "[c]" False v] by (simp add: t lex_first_def plain_char_def)
    from this [of "b # cs"] this [of "[]"] show ?thesis by (simp add: emit_def t)
  next
    case False
    then have sep: "list_all lex_punctuation (c # w)" using assms by (auto simp: t plain_token_def separates_def)
    then have w: "list_all lex_punctuation w" and c: "lex_punctuation c" "\<not> lex_space c" "c \<noteq> CHR ''#''" "c \<noteq> BACKSLASH"
      by (auto simp: lex_punctuation_def lex_space_def NEWLINE_def BACKSLASH_def)
    have "lex Between [] False (t @ v) = lex Punctuation t False v" for v
      using lex_separator [OF w, of "[c]" False v] c by (simp add: t lex_first_def)
    from this [of "b # cs"] this [of "[]"] show ?thesis by (simp add: emit_def t)
  qed
  then show "lex_space b \<Longrightarrow> lex Between [] False (t @ b # cs) = map_option (Cons t) (lex Between [] False cs)"
    and "lex Between [] False t = Some [t]" by simp_all
qed

lemma lex_blank: "lex_space (CHR '' '')" "lex_space NEWLINE"
  by (simp_all add: lex_space_def)

lemma plain_tokens: "list_all plain_token ts \<Longrightarrow> shell_tokens (py_join '' '' ts) = Some ts"
  unfolding shell_tokens_def
proof (induction ts)
  case (Cons t ts)
  then show ?case by (cases ts) (simp_all add: lex_token lex_blank)
qed simp

lemma plain_segments: "list_all plain_token ts \<Longrightarrow> shell_segments (py_join '' '' ts) = Some (split_segments [] ts)"
  by (simp add: shell_segments_def plain_tokens)

text \<open>
  A command made of plain words and separators, with blanks between them, is read back as exactly these tokens.
\<close>

theorem plain_tokens_read_back:
  assumes "list_all plain_token ts"
  shows "shell_tokens (py_join '' '' ts) = Some ts"
  by (rule plain_tokens [OF assms])

lemma plain_tokens_read_back_witness: "shell_tokens (py_join '' '' [''ls'', ''&&'', ''pwd'']) = Some [''ls'', ''&&'', ''pwd'']"
  by (rule plain_tokens_read_back) code_simp


section \<open>What is caught\<close>

text \<open>
  The program of a segment of plain words and its arguments, as they are written: behind assignments, and behind at most
  one \<open>command\<close> or \<open>env\<close>.
\<close>

definition runs :: "string list \<Rightarrow> string \<Rightarrow> string list \<Rightarrow> bool" where
  "runs segment program args \<longleftrightarrow> (\<exists>assignments launcher word. segment = assignments @ launcher @ word # args
     \<and> list_all (\<lambda>t. CHR ''='' \<in> set t \<and> \<not> py_startswith ''-'' t) assignments
     \<and> (launcher \<in> {[''command''], [''env'']}
        \<or> launcher = [] \<and> word \<notin> {''command'', ''env''} \<and> (CHR ''='' \<notin> set word \<or> py_startswith ''-'' word))
     \<and> program = path_name word)"

text \<open>Options of git before its subcommand: one word each, or \<open>-C\<close> with a directory.\<close>

fun git_options :: "string list \<Rightarrow> bool" where
  "git_options [] = True"
| "git_options (a # as) = (if a = ''-C'' then (case as of [] \<Rightarrow> False | d # ds \<Rightarrow> git_options ds)
     else py_startswith ''-'' a \<and> git_options as)"

definition runs_git :: "string list \<Rightarrow> string \<Rightarrow> string list \<Rightarrow> bool" where
  "runs_git segment subcommand rest \<longleftrightarrow> (\<exists>options. runs segment ''git'' (options @ subcommand # rest) \<and> git_options options
     \<and> \<not> py_startswith ''-'' subcommand)"

lemma invocation_cases: "invocation segment = Some (program, args) \<longleftrightarrow> runs segment program args"
proof
  assume inv: "invocation segment = Some (program, args)"
  let ?a = "takeWhile assigns segment" and ?w = "dropWhile assigns segment"
  obtain w ws where w: "?w = w # ws" using inv by (cases ?w) (simp_all add: invocation_def)
  then have "\<not> assigns w" by (metis hd_dropWhile list.distinct(1) list.sel(1))
  then have plain: "CHR ''='' \<notin> set w \<or> py_startswith ''-'' w" by (simp add: assigns_def)
  have seg: "segment = ?a @ w # ws" using w by (metis takeWhile_dropWhile_id)
  have a: "list_all (\<lambda>t. CHR ''='' \<in> set t \<and> \<not> py_startswith ''-'' t) ?a"
    by (auto simp: list_all_iff assigns_def dest: set_takeWhileD)
  show "runs segment program args"
  proof (cases "w = ''command'' \<or> w = ''env''")
    case True
    with inv w obtain v where "ws = v # args" "program = path_name v" by (cases ws) (auto simp: invocation_def)
    with seg a True show ?thesis unfolding runs_def by (intro exI [of _ ?a] exI [of _ "[w]"] exI [of _ v]) simp
  next
    case False
    with inv w have "args = ws" "program = path_name w" by (simp_all add: invocation_def)
    with seg a False plain show ?thesis unfolding runs_def by (intro exI [of _ ?a] exI [of _ "[]"] exI [of _ w]) simp
  qed
next
  assume "runs segment program args"
  then obtain a l w where seg: "segment = a @ l @ w # args" and a: "list_all assigns a" and program: "program = path_name w"
    and l: "l \<in> {[''command''], [''env'']} \<or> l = [] \<and> w \<notin> {''command'', ''env''} \<and> \<not> assigns w"
    unfolding runs_def assigns_def by auto
  have drop: "dropWhile assigns (a @ v # vs) = v # vs" if "\<not> assigns v" for v vs
    using a that by (induction a) auto
  from l show "invocation segment = Some (program, args)"
  proof
    assume "l \<in> {[''command''], [''env'']}"
    then obtain v where v: "l = [v]" "v = ''command'' \<or> v = ''env''" by auto
    then have "\<not> assigns v" by (auto simp: assigns_def)
    with v drop [of v "w # args"] show ?thesis by (simp add: invocation_def seg program)
  next
    assume "l = [] \<and> w \<notin> {''command'', ''env''} \<and> \<not> assigns w"
    with drop [of w args] show ?thesis by (simp add: invocation_def seg program)
  qed
qed

lemma git_words_cases:
  "git_words args = w # ws \<longleftrightarrow> (\<exists>options. args = options @ w # ws \<and> git_options options \<and> \<not> py_startswith ''-'' w)"
proof (induction args rule: git_words.induct)
  case (2 a as)
  show ?case
  proof (cases "a = ''-C''")
    case True
    then have dash: "py_startswith ''-'' a" by (simp add: py_startswith_def)
    show ?thesis
    proof (cases as)
      case (Cons d ds)
      have "(\<exists>options. a # as = options @ w # ws \<and> git_options options \<and> \<not> py_startswith ''-'' w)
          \<longleftrightarrow> (\<exists>options. ds = options @ w # ws \<and> git_options options \<and> \<not> py_startswith ''-'' w)" (is "?l \<longleftrightarrow> ?r")
      proof
        assume ?l
        then obtain os where os: "a # d # ds = os @ w # ws" "git_options os" "\<not> py_startswith ''-'' w" by (auto simp: Cons)
        then obtain rest where "os = a # rest" using dash by (cases os) auto
        with os True obtain d' more where "rest = d' # more" by (cases rest) auto
        with os True \<open>os = a # rest\<close> show ?r by auto
      next
        assume ?r
        then obtain os where "ds = os @ w # ws" "git_options os" "\<not> py_startswith ''-'' w" by auto
        then show ?l using True by (intro exI [of _ "a # d # os"]) (simp add: Cons)
      qed
      with 2(1) True Cons show ?thesis by simp
    next
      case Nil
      have "git_options os \<Longrightarrow> [a] \<noteq> os @ w # ws \<or> py_startswith ''-'' w" for os using dash by (cases os) auto
      with True Nil show ?thesis by auto
    qed
  next
    case False
    show ?thesis
    proof (cases "py_startswith ''-'' a")
      case True
      have "(\<exists>options. a # as = options @ w # ws \<and> git_options options \<and> \<not> py_startswith ''-'' w)
          \<longleftrightarrow> (\<exists>options. as = options @ w # ws \<and> git_options options \<and> \<not> py_startswith ''-'' w)" (is "?l \<longleftrightarrow> ?r")
      proof
        assume ?l
        then obtain os where os: "a # as = os @ w # ws" "git_options os" "\<not> py_startswith ''-'' w" by auto
        then obtain rest where "os = a # rest" using True by (cases os) auto
        with os False show ?r by auto
      next
        assume ?r
        then obtain os where "as = os @ w # ws" "git_options os" "\<not> py_startswith ''-'' w" by auto
        then show ?l using True False by (intro exI [of _ "a # os"]) simp
      qed
      with 2(2) True False show ?thesis by simp
    next
      case dash: False
      have "a # as = os @ w # ws \<Longrightarrow> git_options os \<Longrightarrow> os = []" for os using dash \<open>a \<noteq> ''-C''\<close> by (cases os) auto
      with dash \<open>a \<noteq> ''-C''\<close> show ?thesis by (auto intro: exI [of _ "[]"])
    qed
  qed
qed simp

lemma git_subcommand_cases: "git_subcommand args = Some w \<longleftrightarrow> (\<exists>ws. git_words args = w # ws)"
  by (auto simp: git_subcommand_def split: list.splits)

lemma runs_unique: "runs segment p a \<Longrightarrow> runs segment q b \<Longrightarrow> p = q \<and> a = b"
  unfolding invocation_cases [symmetric] by simp


definition plain_word :: "string \<Rightarrow> bool" where
  "plain_word t \<longleftrightarrow> t \<noteq> [] \<and> list_all plain_char t"

lemma plain_word_token: "plain_word t \<Longrightarrow> plain_token t \<and> \<not> separates t"
  by (cases t) (auto simp: plain_word_def plain_token_def separates_def plain_char_def)

lemma segment_words: "list_all plain_token ts \<Longrightarrow> list_all plain_word current \<Longrightarrow> seg \<in> set (split_segments current ts) \<Longrightarrow> list_all plain_word seg"
  by (induction current ts rule: split_segments.induct) (auto simp: plain_token_def plain_word_def split: if_splits)

text \<open>A script that is one plain word has no arguments and publishes nothing.\<close>

lemma word_publishes_nothing: "plain_word v \<Longrightarrow> \<not> publication_within n v"
proof (cases n)
  case (Suc m)
  assume "plain_word v"
  then have "shell_segments v = Some [[v]]" using plain_segments [of "[v]"] plain_word_token [of v] by simp
  moreover have "\<not> publishes_by judge [v]" for judge
    by (auto simp: publishes_by_def invocation_def git_subcommand_def gh_subcommand_def script_of_def Let_def split: list.splits)
  ultimately show ?thesis by (simp add: Suc)
qed simp

lemma script_word: "script_of args = Some v \<Longrightarrow> v \<in> set args"
  unfolding script_of_def by (auto split: list.splits dest!: arg_cong [of _ _ set] dest: set_dropWhileD)

lemma runs_args: "runs seg p args \<Longrightarrow> set args \<subseteq> set seg"
  by (auto simp: runs_def)

text \<open>What publishes: a push by git, or a merge or the closing of an issue by gh.\<close>

definition publishes :: "string list \<Rightarrow> bool" where
  "publishes segment \<longleftrightarrow> (\<exists>rest. runs_git segment ''push'' rest)
     \<or> (\<exists>args rest. runs segment ''gh'' args
          \<and> filter (\<lambda>a. \<not> py_startswith ''-'' a) args \<in> {''pr'' # ''merge'' # rest, ''issue'' # ''close'' # rest})"

lemma runs_git_push: "runs segment ''git'' args \<Longrightarrow> git_subcommand args = Some w \<longleftrightarrow> (\<exists>rest. runs_git segment w rest)"
  unfolding git_subcommand_cases git_words_cases runs_git_def by (blast dest: runs_unique)

lemma gh_cases: "gh_subcommand args = Some (a, b) \<longleftrightarrow> (\<exists>rest. filter (\<lambda>a. \<not> py_startswith ''-'' a) args = a # b # rest)"
  by (auto simp: gh_subcommand_def split: list.splits)

lemma publishes_by_plain:
  assumes "list_all plain_word seg" shows "publishes_by (publication_within n) seg \<longleftrightarrow> publishes seg"
proof (cases "invocation seg")
  case None
  then have "\<not> runs seg p args" for p args using invocation_cases [of seg p args] by simp
  with None show ?thesis by (auto simp: publishes_by_def publishes_def runs_git_def)
next
  case (Some pa)
  then obtain p args where inv: "invocation seg = Some (p, args)" by (cases pa) auto
  then have runs: "runs seg p args" by (simp add: invocation_cases)
  have script: "script_of args = Some v \<Longrightarrow> \<not> publication_within n v" for v
    using assms script_word [of args v] runs_args [OF runs] word_publishes_nothing [of v n] by (auto simp: list_all_iff)
  have only: "runs seg q b \<longleftrightarrow> q = p \<and> b = args" for q b using runs runs_unique by blast
  consider "p = ''git''" | "p = ''gh''" | "p \<noteq> ''git''" "p \<noteq> ''gh''" by blast
  then show ?thesis
  proof cases
    case 1
    then show ?thesis using runs_git_push [of seg args "''push''"] runs by (simp add: publishes_by_def inv publishes_def only)
  next
    case 2
    then show ?thesis by (auto simp: publishes_by_def inv publishes_def runs_git_def only gh_cases)
  next
    case 3
    then show ?thesis using script by (auto simp: publishes_by_def inv publishes_def runs_git_def only split: option.splits)
  qed
qed

lemma publication_segments:
  assumes "shell_segments command = Some segments" "\<forall>seg \<in> set segments. list_all plain_word seg"
  shows "is_publication_command command \<longleftrightarrow> list_ex publishes segments"
  using assms publishes_by_plain by (auto simp: is_publication_command_def list_ex_iff)

lemma plain_publication:
  assumes "list_all plain_token ts"
  shows "is_publication_command (py_join '' '' ts) \<longleftrightarrow> list_ex publishes (split_segments [] ts)"
  using segment_words [OF assms, of "[]"] by (intro publication_segments plain_segments assms) simp

text \<open>
  C33. On a command of plain words and separators the guard denies exactly what publishes: a segment that runs, behind
  assignments and at most one \<open>command\<close> or \<open>env\<close>, git under whatever path with options before its subcommand that are
  words beginning with a dash or \<open>-C\<close> with a directory, and with the subcommand push and whatever arguments; or gh with
  the words pr merge or issue close.
\<close>

theorem plain_push_denied:
  assumes "list_all plain_token ts"
  shows "is_publication_command (py_join '' '' ts) \<longleftrightarrow> list_ex publishes (split_segments [] ts)"
  by (rule plain_publication [OF assms])

theorem plain_push_denied_witness:
  "is_publication_command (py_join '' '' [''ls'', ''&&'', ''A=1'', ''env'', ''/bin/git'', ''-C'', ''d'', ''-q'', ''push'', ''x''])"
proof -
  let ?push = "[''A=1'', ''env'', ''/bin/git'', ''-C'', ''d'', ''-q'', ''push'', ''x'']"
  have "runs_git ?push ''push'' [''x'']"
    unfolding runs_git_def runs_def
    by (rule exI [of _ "[''-C'', ''d'', ''-q'']"], rule conjI, rule exI [of _ "[''A=1'']"], rule exI [of _ "[''env'']"], rule exI [of _ "''/bin/git''"])
       (simp_all add: path_name_def py_startswith_def)
  then have push: "publishes ?push" unfolding publishes_def by blast
  have segments: "split_segments [] (''ls'' # ''&&'' # ?push) = [[''ls''], ?push]" by code_simp
  have plain: "list_all plain_token (''ls'' # ''&&'' # ?push)" by code_simp
  show ?thesis unfolding plain_push_denied [OF plain] segments using push by simp
qed


section \<open>What stays allowed\<close>

lemma no_redirect: "CHR ''>'' \<notin> set cs \<Longrightarrow> \<not> disallowed_redirect_from s e cs"
  by (induction s e cs rule: disallowed_redirect_from.induct) (auto split: quote_state.split)

lemma duplication_blank: "py_startswith ''>&'' (dropWhile is_digit cs) = False \<Longrightarrow> duplication cs = None"
  by (simp add: duplication_def Let_def)

lemma nothing_stripped_before: "CHR ''>'' \<notin> set cs \<Longrightarrow> \<not> py_startswith ''>&'' (dropWhile is_digit rest) \<Longrightarrow>
    strip_duplications (cs @ rest) = cs @ strip_duplications rest"
proof (induction cs)
  case (Cons c cs)
  have "\<not> py_startswith ''>&'' (dropWhile is_digit (c # cs @ rest))"
  proof (cases "list_all is_digit (c # cs)")
    case True
    then have "dropWhile is_digit ((c # cs) @ rest) = dropWhile is_digit rest" by (intro dropWhile_append2) (auto simp: list_all_iff)
    with Cons.prems show ?thesis by simp
  next
    case False
    then obtain x where x: "x \<in> set (c # cs)" "\<not> is_digit x" by (auto simp: list_all_iff)
    then have "dropWhile is_digit ((c # cs) @ rest) = dropWhile is_digit (c # cs) @ rest" by (rule dropWhile_append1)
    moreover have "dropWhile is_digit (c # cs) \<noteq> []" using x by (metis dropWhile_eq_Nil_conv)
    moreover from this obtain y ys where y: "dropWhile is_digit (c # cs) = y # ys" by (cases "dropWhile is_digit (c # cs)") simp
    moreover have "y \<in> set (c # cs)" using y by (metis list.set_intros(1) set_dropWhileD)
    ultimately show ?thesis using Cons.prems by (auto simp: py_startswith_def)
  qed
  then have "duplication (c # cs @ rest) = None" by (simp add: duplication_def)
  with Cons show ?case by simp
qed simp

lemma nothing_stripped: "CHR ''>'' \<notin> set cs \<Longrightarrow> strip_duplications cs = cs"
  using nothing_stripped_before [of cs "[]"] by (simp add: py_startswith_def)

lemma joined_chars: "c \<in> set (py_join s ts) \<Longrightarrow> c \<in> set s \<or> (\<exists>t \<in> set ts. c \<in> set t)"
  by (induction s ts rule: py_join.induct) auto

text \<open>The segments that are allowed: nothing to run, a listed program, or git with a listed subcommand.\<close>

definition allowed_segment :: "string list \<Rightarrow> bool" where
  "allowed_segment segment \<longleftrightarrow> (\<forall>program args. \<not> runs segment program args)
     \<or> (\<exists>args. \<exists>program \<in> {''date'', ''mkdir'', ''echo'', ''cat'', ''pwd'', ''ls'', ''test'', ''true'', ''tail'', ''head'', ''wc'', ''grep'',
          ''sort'', ''uniq'', ''cut'', ''tr''}. runs segment program args)
     \<or> (\<exists>rest. \<exists>c \<in> {''status'', ''diff'', ''add'', ''commit'', ''log'', ''rev-parse'', ''rev-list''}. runs_git segment c rest)
     \<or> runs_git segment ''branch'' [] \<or> runs_git segment ''branch'' [''--show-current'']"

lemma runs_git_words: "runs segment ''git'' args \<Longrightarrow> runs_git segment w rest \<longleftrightarrow> git_words args = w # rest"
  unfolding git_words_cases runs_git_def by (blast dest: runs_unique)

lemma handoff_segment_cases: "handoff_segment seg \<longleftrightarrow> allowed_segment seg"
proof (cases "invocation seg")
  case None
  then have "\<not> runs seg p args" for p args using invocation_cases [of seg p args] by simp
  with None show ?thesis by (simp add: handoff_segment_def allowed_segment_def)
next
  case (Some pa)
  then obtain p args where inv: "invocation seg = Some (p, args)" by (cases pa) auto
  then have runs: "runs seg p args" by (simp add: invocation_cases)
  have only: "runs seg q b \<longleftrightarrow> q = p \<and> b = args" for q b using runs runs_unique by blast
  show ?thesis
  proof (cases "p = ''git''")
    case True
    have words: "runs_git seg w rest \<longleftrightarrow> git_words args = w # rest" for w rest using runs runs_git_words True by blast
    show ?thesis
      by (cases "git_words args")
         (auto simp: handoff_segment_def inv True allowed_segment_def only words git_subcommand_def git_subcommand_arguments_def HANDOFF_GIT_COMMANDS_def)
  next
    case False
    then have "\<not> runs_git seg w rest" for w rest by (simp add: runs_git_def only)
    then show ?thesis using False
      by (simp add: handoff_segment_def inv allowed_segment_def only HANDOFF_PROGRAMS_def READONLY_OUTPUT_FILTERS_def disj_commute disj_left_commute)
  qed
qed

lemma handoff_segments: "handoff_segment = allowed_segment"
  by (rule ext) (rule handoff_segment_cases)

text \<open>A redirect at the end of a command of plain words, to a file with a plain name.\<close>

definition plain_target :: "string \<Rightarrow> bool" where
  "plain_target f \<longleftrightarrow> plain_word f \<and> list_all (\<lambda>c. c \<notin> set ''<>()'') f"

lemma redirect_plain: "list_all (\<lambda>c. plain_char c \<and> c \<notin> set ''<>()'') f \<Longrightarrow> redirect_word Plain False parts f = (parts @ f, [])"
  by (induction f arbitrary: parts)
     (auto simp: plain_char_def lex_space_def lex_punctuation_def lex_quote_def TARGET_ENDS_def)

lemma unquoted_skipped:
  "list_all (\<lambda>c. \<not> lex_quote c \<and> c \<noteq> BACKSLASH \<and> c \<noteq> CHR ''>'') cs \<Longrightarrow> disallowed_redirect_from Plain False (cs @ rest) = disallowed_redirect_from Plain False rest"
  by (induction cs) (auto simp: lex_quote_def)

lemma punctuation_char: "lex_punctuation c \<Longrightarrow> \<not> lex_quote c \<and> c \<noteq> BACKSLASH"
  by (auto simp: lex_punctuation_def lex_quote_def SQUOTE_def DQUOTE_def BACKSLASH_def)

lemma plain_text: "list_all plain_token ts \<Longrightarrow> list_all (\<lambda>t. CHR ''>'' \<notin> set t) ts \<Longrightarrow>
    list_all (\<lambda>c. \<not> lex_quote c \<and> c \<noteq> BACKSLASH \<and> c \<noteq> CHR ''>'') (py_join '' '' ts)"
proof -
  assume ts: "list_all plain_token ts" "list_all (\<lambda>t. CHR ''>'' \<notin> set t) ts"
  have token: "\<not> lex_quote c \<and> c \<noteq> BACKSLASH" if "t \<in> set ts" "c \<in> set t" for c t
  proof -
    have "plain_token t" using ts(1) that by (simp add: list_all_iff)
    then have "plain_char c \<or> lex_punctuation c" using that(2) by (auto simp: plain_token_def separates_def list_all_iff)
    then show ?thesis using punctuation_char by (auto simp: plain_char_def)
  qed
  have blank: "\<not> lex_quote CHR '' '' \<and> CHR '' '' \<noteq> BACKSLASH \<and> CHR '' '' \<noteq> CHR ''>''"
    by (simp add: lex_quote_def SQUOTE_def DQUOTE_def BACKSLASH_def)
  show ?thesis unfolding list_all_iff
  proof
    fix c assume "c \<in> set (py_join '' '' ts)"
    then consider "c = CHR '' ''" | t where "t \<in> set ts" "c \<in> set t" by (auto dest: joined_chars)
    then show "\<not> lex_quote c \<and> c \<noteq> BACKSLASH \<and> c \<noteq> CHR ''>''"
      using blank token ts(2) by cases (auto simp: list_all_iff)
  qed
qed

text \<open>The whole command with its redirect: it is judged by the file, and by the words, where the redirect is two more.\<close>

lemma join_after: "ts \<noteq> [] \<Longrightarrow> py_join '' '' (ts @ us) = py_join '' '' ts @ (if us = [] then [] else '' '' @ py_join '' '' us)"
proof (induction ts rule: induct_list012)
  case (2 t)
  then show ?case by (cases us) simp_all
qed simp_all

lemma redirect_judged:
  assumes "list_all plain_token ts" "list_all (\<lambda>t. CHR ''>'' \<notin> set t) ts" "plain_target f" "ts \<noteq> []"
  shows "is_handoff_command (py_join '' '' ts @ '' > '' @ f) \<longleftrightarrow>
    (f = ''/dev/null'' \<or> token_targets_handoff_note f) \<and> list_all handoff_segment (split_segments [] (ts @ [''>'', f]))"
proof -
  let ?command = "py_join '' '' ts @ '' > '' @ f"
  have f: "f \<noteq> []" "list_all (\<lambda>c. plain_char c \<and> c \<notin> set ''<>()'') f" using assms(3) by (auto simp: plain_target_def plain_word_def list_all_iff)
  obtain c cs where c: "f = c # cs" using f(1) by (cases f) auto
  have gt: "CHR ''>'' \<notin> set f" using f(2) by (auto simp: list_all_iff)
  have chars: "list_all (\<lambda>c. \<not> lex_quote c \<and> c \<noteq> BACKSLASH \<and> c \<noteq> CHR ''>'') (py_join '' '' ts @ '' '')"
    using plain_text [OF assms(1,2)] by (auto simp: list_all_iff lex_quote_def SQUOTE_def DQUOTE_def BACKSLASH_def)
  then have no: "CHR ''>'' \<notin> set (py_join '' '' ts @ '' '')" by (auto simp: list_all_iff)
  have "strip_duplications (''> '' @ f) = ''> '' @ f"
    using nothing_stripped_before [of " '' '' @ f" "[]"] gt by (simp add: duplication_def py_startswith_def is_digit_def char_between_def)
  then have "strip_duplications ((py_join '' '' ts @ '' '') @ ''> '' @ f) = ?command"
    using nothing_stripped_before [OF no, of "''> '' @ f"] by (simp add: py_startswith_def is_digit_def char_between_def)
  then have stripped: "strip_duplications ?command = ?command" by simp
  have start: "redirect_start ('' '' @ f) = f" using f(2) by (simp add: redirect_start_def c plain_char_def lex_space_def)
  have target: "read_redirect_target f = (Some f, [])"
    using f redirect_plain [OF f(2), of "[]"] by (simp add: read_redirect_target_def c plain_char_def lex_punctuation_def lex_space_def)
  have "disallowed_redirect_from Plain False ((py_join '' '' ts @ '' '') @ ''> '' @ f)
      \<longleftrightarrow> \<not> (f = ''/dev/null'' \<or> token_targets_handoff_note f)"
    unfolding unquoted_skipped [OF chars] using start target f(1)
    by (simp add: is_allowed_redirect_target_def BACKSLASH_def SQUOTE_def DQUOTE_def)
  then have redirect: "has_disallowed_output_redirect ?command \<longleftrightarrow> \<not> (f = ''/dev/null'' \<or> token_targets_handoff_note f)"
    by (simp add: has_disallowed_output_redirect_def)
  have "list_all plain_token (ts @ [''>'', f])"
    using assms(1,3) plain_word_token [of f] by (auto simp: plain_target_def plain_token_def plain_char_def lex_space_def lex_quote_def
        SQUOTE_def DQUOTE_def BACKSLASH_def NEWLINE_def lex_punctuation_def)
  from plain_segments [OF this] have "shell_segments ?command = Some (split_segments [] (ts @ [''>'', f]))"
    by (simp add: join_after [OF assms(4)])
  with stripped redirect show ?thesis by (simp add: is_handoff_command_def Let_def)
qed

lemma plain_handoff:
  assumes "list_all plain_token ts" "list_all (\<lambda>t. CHR ''>'' \<notin> set t) ts"
  shows "is_handoff_command (py_join '' '' ts) \<longleftrightarrow> list_all allowed_segment (split_segments [] ts)"
proof -
  have "CHR ''>'' \<notin> set (py_join '' '' ts)" using assms(2) joined_chars by (fastforce simp: list_all_iff)
  then show ?thesis unfolding handoff_segments [symmetric]
    by (simp add: is_handoff_command_def Let_def nothing_stripped has_disallowed_output_redirect_def no_redirect plain_segments [OF assms(1)])
qed

text \<open>
  C34. Which commands of plain words and separators stay allowed while a handoff is pending: without a redirect exactly
  those of which every segment runs nothing, one of sixteen listed programs, or git with one of seven listed subcommands
  or with a branch that is only shown (program and subcommand found behind assignments, \<open>command\<close>, \<open>env\<close> and options as
  for a push); with a redirect at the end exactly those that are allowed so and send their output to the null device or
  to a path with the directory of the handoff notes in it.
\<close>

theorem allowlist_on_plain_commands:
  assumes "list_all plain_token ts" "list_all (\<lambda>t. CHR ''>'' \<notin> set t) ts"
  shows "(is_handoff_command (py_join '' '' ts) \<longleftrightarrow> list_all allowed_segment (split_segments [] ts))
    \<and> (ts \<noteq> [] \<and> plain_target f \<longrightarrow> (is_handoff_command (py_join '' '' ts @ '' > '' @ f) \<longleftrightarrow>
         (f = ''/dev/null'' \<or> token_targets_handoff_note f) \<and> list_all allowed_segment (split_segments [] (ts @ [''>'', f]))))"
  using plain_handoff [OF assms] redirect_judged [OF assms] by (simp add: handoff_segments)

theorem allowlist_on_plain_commands_witness:
  "\<not> is_handoff_command (py_join '' '' [''ls'', '';'', ''rm'', ''x'']) \<and> \<not> is_handoff_command (py_join '' '' [''git'', ''log''] @ '' > '' @ ''main.py'')"
proof
  have rm: "runs [''rm'', ''x''] ''rm'' [''x'']"
    unfolding runs_def by (rule exI [of _ "[]"], rule exI [of _ "[]"], rule exI [of _ "''rm''"]) (simp add: path_name_def)
  then have "\<not> allowed_segment [''rm'', ''x'']" by (auto simp: allowed_segment_def runs_git_def dest: runs_unique)
  moreover have "split_segments [] [''ls'', '';'', ''rm'', ''x''] = [[''ls''], [''rm'', ''x'']]" by code_simp
  moreover have "list_all plain_token [''ls'', '';'', ''rm'', ''x'']" "list_all (\<lambda>t. CHR ''>'' \<notin> set t) [''ls'', '';'', ''rm'', ''x'']" by code_simp+
  ultimately show "\<not> is_handoff_command (py_join '' '' [''ls'', '';'', ''rm'', ''x''])"
    using allowlist_on_plain_commands [THEN conjunct1, of "[''ls'', '';'', ''rm'', ''x'']"] by simp
  have "list_all plain_token [''git'', ''log'']" "list_all (\<lambda>t. CHR ''>'' \<notin> set t) [''git'', ''log'']"
    "[''git'', ''log''] \<noteq> [] \<and> plain_target ''main.py''" by code_simp+
  from allowlist_on_plain_commands [OF this(1,2), THEN conjunct2, THEN mp, OF this(3)]
  have "is_handoff_command (py_join '' '' [''git'', ''log''] @ '' > '' @ ''main.py'') \<Longrightarrow>
    ''main.py'' = ''/dev/null'' \<or> token_targets_handoff_note ''main.py''" by blast
  moreover have "\<not> (''main.py'' = ''/dev/null'' \<or> token_targets_handoff_note ''main.py'')" by code_simp
  ultimately show "\<not> is_handoff_command (py_join '' '' [''git'', ''log''] @ '' > '' @ ''main.py'')" by blast
qed


section \<open>What is missed\<close>

text \<open>To the guards a line break is a blank: two lines are read as the one that has all their words.\<close>

lemma lex_line: "list_all plain_token ts \<Longrightarrow> ts \<noteq> [] \<Longrightarrow>
    lex Between [] False (py_join '' '' ts @ NEWLINE # cs) = map_option (append ts) (lex Between [] False cs)"
proof (induction ts rule: induct_list012)
  case (3 t u ts)
  then show ?case by (simp add: lex_token lex_blank option.map_comp comp_def)
next
  case (2 t)
  have "append [t] = Cons t" by (rule ext) simp
  with 2 show ?case by (simp add: lex_token lex_blank)
qed simp

lemma two_lines:
  assumes "list_all plain_token ts" "list_all plain_token us" "ts \<noteq> []"
  shows "shell_segments (py_join '' '' ts @ NEWLINE # py_join '' '' us) = Some (split_segments [] (ts @ us))"
  using lex_line [OF assms(1,3)] plain_tokens [OF assms(2)] by (simp add: shell_segments_def shell_tokens_def)

lemma one_segment: "list_all plain_word ws \<Longrightarrow> split_segments current ws = (if current @ ws = [] then [] else [current @ ws])"
  by (induction ws arbitrary: current) (auto simp: plain_word_token)

lemma words_are_tokens: "list_all plain_word ws \<Longrightarrow> list_all plain_token ws"
  by (auto simp: list_all_iff plain_word_token)

lemma words_judged:
  "list_all plain_word (w # ws) \<Longrightarrow> is_publication_command (py_join '' '' (w # ws)) \<longleftrightarrow> publishes_by (\<lambda>_. False) (w # ws)"
proof -
  assume "list_all plain_word (w # ws)"
  moreover have "publication_within 0 = (\<lambda>_. False)" by (rule ext) simp
  ultimately show ?thesis
    using plain_publication [OF words_are_tokens, of "w # ws"] publishes_by_plain [of "w # ws" 0] one_segment [of "w # ws" "[]"] by simp
qed

lemma small_words [simp]: "plain_word ''git'' \<and> plain_word ''-c'' \<and> plain_word ''push'' \<and> plain_word ''env''"
  "path_name ''git'' = ''git''" "\<not> assigns ''git''" "\<not> assigns ''env''" "py_startswith ''-'' ''-c''" "py_startswith ''-'' ''-C''"
  "\<not> py_startswith ''-'' ''git''" "\<not> py_startswith ''-'' ''push''"
  by code_simp+

text \<open>
  C35. What the guard against publication lets pass, for all words and lines of the form. A line break separates nothing:
  two lines count as the one line of their words. So whatever follows a program other than git and gh (not behind
  assignments, \<open>command\<close> or \<open>env\<close>) is not denied, be it on a line of its own or run by that program; nor is a push behind
  the option \<open>-c\<close> of git with its value, nor one behind an assignment after \<open>env\<close>.
\<close>

theorem missed_publications:
  "(list_all plain_token ts \<and> list_all plain_token us \<and> ts \<noteq> [] \<longrightarrow>
      (is_publication_command (py_join '' '' ts @ NEWLINE # py_join '' '' us) \<longleftrightarrow> is_publication_command (py_join '' '' (ts @ us))))
   \<and> (list_all plain_word (w # ws) \<and> \<not> assigns w \<and> w \<notin> {''command'', ''env''} \<and> path_name w \<notin> {''git'', ''gh''} \<longrightarrow>
      \<not> is_publication_command (py_join '' '' (w # ws)))
   \<and> (list_all plain_word (v # ws) \<and> \<not> py_startswith ''-'' v \<and> v \<noteq> ''push'' \<longrightarrow>
      \<not> is_publication_command (py_join '' '' (''git'' # ''-c'' # v # ''push'' # ws)))
   \<and> (list_all plain_word (a # ws) \<and> assigns a \<longrightarrow>
      \<not> is_publication_command (py_join '' '' (''env'' # a # ''git'' # ''push'' # ws)))"
proof (intro conjI impI)
  assume lines: "list_all plain_token ts \<and> list_all plain_token us \<and> ts \<noteq> []"
  then have both: "list_all plain_token (ts @ us)" by simp
  show "is_publication_command (py_join '' '' ts @ NEWLINE # py_join '' '' us) \<longleftrightarrow> is_publication_command (py_join '' '' (ts @ us))"
    using lines segment_words [OF both, of "[]"] by (simp add: publication_segments [OF two_lines] plain_publication [OF both])
next
  assume "list_all plain_word (w # ws) \<and> \<not> assigns w \<and> w \<notin> {''command'', ''env''} \<and> path_name w \<notin> {''git'', ''gh''}"
  then show "\<not> is_publication_command (py_join '' '' (w # ws))"
    by (simp del: py_join.simps add: words_judged publishes_by_def invocation_def split: option.split)
next
  assume "list_all plain_word (v # ws) \<and> \<not> py_startswith ''-'' v \<and> v \<noteq> ''push''"
  then show "\<not> is_publication_command (py_join '' '' (''git'' # ''-c'' # v # ''push'' # ws))"
    by (auto simp del: py_join.simps simp: words_judged publishes_by_def invocation_def git_subcommand_def)
next
  assume "list_all plain_word (a # ws) \<and> assigns a"
  then show "\<not> is_publication_command (py_join '' '' (''env'' # a # ''git'' # ''push'' # ws))"
    by (simp del: py_join.simps add: words_judged publishes_by_def invocation_def git_subcommand_def gh_subcommand_def split: option.split)
qed

theorem missed_publications_witness:
  "\<not> is_publication_command (py_join '' '' [''git'', ''status''] @ NEWLINE # py_join '' '' [''git'', ''push''])
   \<and> \<not> is_publication_command (py_join '' '' [''nohup'', ''git'', ''push''])
   \<and> \<not> is_publication_command (py_join '' '' [''git'', ''-c'', ''a=b'', ''push'', ''origin''])
   \<and> \<not> is_publication_command (py_join '' '' [''env'', ''A=1'', ''git'', ''push'', ''origin''])"
proof (intro conjI)
  note forms = missed_publications [of "[''git'', ''status'']" "[''git'', ''push'']"]
  have "list_all plain_token [''git'', ''status''] \<and> list_all plain_token [''git'', ''push''] \<and> [''git'', ''status''] \<noteq> []" by code_simp
  moreover have "\<not> is_publication_command (py_join '' '' ([''git'', ''status''] @ [''git'', ''push'']))" by code_simp
  ultimately show "\<not> is_publication_command (py_join '' '' [''git'', ''status''] @ NEWLINE # py_join '' '' [''git'', ''push''])"
    using forms by blast
  have "list_all plain_word [''nohup'', ''git'', ''push''] \<and> \<not> assigns ''nohup'' \<and> ''nohup'' \<notin> {''command'', ''env''} \<and> path_name ''nohup'' \<notin> {''git'', ''gh''}"
    by code_simp
  then show "\<not> is_publication_command (py_join '' '' [''nohup'', ''git'', ''push''])" using forms by blast
  have "list_all plain_word [''a=b'', ''origin''] \<and> \<not> py_startswith ''-'' ''a=b'' \<and> ''a=b'' \<noteq> ''push''" by code_simp
  then show "\<not> is_publication_command (py_join '' '' [''git'', ''-c'', ''a=b'', ''push'', ''origin''])" using forms by blast
  have "list_all plain_word [''A=1'', ''origin''] \<and> assigns ''A=1''" by code_simp
  then show "\<not> is_publication_command (py_join '' '' [''env'', ''A=1'', ''git'', ''push'', ''origin''])" using forms by blast
qed








end
