(* ===== verification/Session_Texts.thy ===== *)
theory Session_Texts
  imports Handoff_Note Shell_Guard
begin

text \<open>
  What the session tells the model (model_execution.py): the instructions and prompts of a handoff, the denials of the
  guards, and the snapshot of the branch with its pre-filled header. Git is asked through the parameter \<open>gr\<close>, the
  stripped output of a command or \<open>None\<close>.
\<close>

section \<open>Instructions\<close>

definition issue_label :: "int option \<Rightarrow> string" where
  "issue_label n = (case n of Some k \<Rightarrow> str_of_int k | None \<Rightarrow> ''<issue-number>'')"

definition note_path_label :: "int option \<Rightarrow> string" where
  "note_path_label n = ''.agent/handoff/'' @ issue_label n @ ''.md''"

definition note_commit_command :: "int option \<Rightarrow> string" where
  "note_commit_command n =
     ''git add '' @ note_path_label n @ '' && git commit -m '' @ [CHR 0x22] @ ''Handoff note: issue #''
     @ issue_label n @ [CHR 0x22]"

definition handoff_target :: "int option \<Rightarrow> string" where
  "handoff_target n = (case n of
     None \<Rightarrow>
     ''The handoff note path is `.agent/handoff/<issue-number>.md` (use the number of the issue you are working ''
     @ ''on).''
   | Some k \<Rightarrow> ''You are working on issue #'' @ str_of_int k @ ''; the handoff note path is exactly `.agent/handoff/'' @ str_of_int k @ ''.md`.'')"

definition HANDOFF_SKILL_TOOL_HINT :: string where
  "HANDOFF_SKILL_TOOL_HINT =
     ''Invoke it with the `Skill` tool (skill name `handoff`); do not just read `SKILL.md`, because reading it ''
     @ ''does not register the handoff.''"

definition HANDOFF_NOTE_TOOL_HINT :: string where
  "HANDOFF_NOTE_TOOL_HINT =
     ''Create or edit the handoff note with the `Write` (or `Edit`) tool, then commit it with `git add` + `git ''
     @ ''commit` in Bash. Bash cannot create or modify files while the handoff is pending.''"

definition attempt_id_sentence :: "string option \<Rightarrow> string" where
  "attempt_id_sentence attempt_id = (case attempt_id of
     Some a \<Rightarrow> '' Your attempt id is `'' @ a @ ''`; write it verbatim as the `started_at` field in the handoff note.''
   | None \<Rightarrow>
     '' No attempt id was given in this instruction; leave the `started_at` field out of the handoff note (it is ''
     @ ''informational and never blocks the handoff).'')"

definition token_handoff_steps :: "int option \<Rightarrow> string" where
  "token_handoff_steps n =
     ''Do exactly the following and nothing else:'' @ nl
     @ ''1. Do not run diagnostic commands; the state above is current.'' @ nl
     @ ''2. Do not commit work yourself. Sealing will commit any uncommitted work after the attempt.'' @ nl
     @ ''3. Create or edit the handoff note at `.agent/handoff/'' @ issue_label n
     @ ''.md` with the `Write` (or `Edit`) tool, using the pre-filled header above verbatim, and fill in Summary, ''
     @ ''Remaining work and Evidence. Bash cannot create or modify files while the handoff is pending.'' @ nl
     @ ''4. In one `Bash` call, run `git add .agent/handoff/'' @ issue_label n @ ''.md && git commit -m ''
     @ [CHR 0x22] @ ''Handoff note: issue #'' @ issue_label n @ [CHR 0x22] @ ''`.'' @ nl @ ''5. Stop.''"

definition cost_handoff_instruction :: "int option \<Rightarrow> string option \<Rightarrow> string option \<Rightarrow> string" where
  "cost_handoff_instruction n attempt_id snapshot =
     ''This attempt is approaching its token budget. Invoke the `handoff` skill now to preserve your progress cooperatively ''
     @ ''instead of continuing further work. '' @ HANDOFF_SKILL_TOOL_HINT @ '' '' @ handoff_target n
     @ attempt_id_sentence attempt_id @ '' '' @ HANDOFF_NOTE_TOOL_HINT
     @ (case snapshot of None \<Rightarrow> [] | Some s \<Rightarrow> nl @ nl @ s @ nl @ nl @ token_handoff_steps n)"

definition cost_handoff_followup_prompt :: "int option \<Rightarrow> string option \<Rightarrow> string option \<Rightarrow> string" where
  "cost_handoff_followup_prompt n attempt_id snapshot = (case snapshot of
     None \<Rightarrow>
     ''This attempt crossed its token soft threshold and must now end by handing off. Invoke the `handoff` skill ''
     @ ''now to preserve your progress: commit any outstanding work, then write and commit the handoff note. Do not ''
     @ ''attempt further implementation work. '' @ HANDOFF_SKILL_TOOL_HINT @ '' '' @ handoff_target n
     @ attempt_id_sentence attempt_id @ '' '' @ HANDOFF_NOTE_TOOL_HINT
   | Some s \<Rightarrow>
     ''This attempt crossed its token soft threshold and must now end by handing off. Invoke the `handoff` skill ''
     @ ''now and use the current branch state below: write and commit the handoff note, leaving any uncommitted work ''
     @ ''alone. Do not attempt further implementation work. '' @ HANDOFF_SKILL_TOOL_HINT @ '' '' @ handoff_target n
     @ attempt_id_sentence attempt_id @ '' '' @ HANDOFF_NOTE_TOOL_HINT
     @ nl @ nl @ s @ nl @ nl @ token_handoff_steps n)"

definition operator_handoff_instruction :: "int option \<Rightarrow> string option \<Rightarrow> string" where
  "operator_handoff_instruction n attempt_id =
     ''The operator requested a handoff (`agentctl handoff now`). Invoke the `handoff` skill now to preserve your ''
     @ ''progress cooperatively instead of continuing further work: commit any outstanding work in ordinary work ''
     @ ''commits, then write the handoff note with `reason: operator_request` and commit it separately as the final ''
     @ ''commit. Do not start another implementation step. '' @ HANDOFF_SKILL_TOOL_HINT @ '' '' @ handoff_target n
     @ attempt_id_sentence attempt_id @ '' '' @ HANDOFF_NOTE_TOOL_HINT"

definition limit_handoff_followup_prompt :: "int option \<Rightarrow> string option \<Rightarrow> string" where
  "limit_handoff_followup_prompt n attempt_id =
     ''Execution reached its turn or time limit. Invoke the `handoff` skill now to preserve your progress: commit ''
     @ ''any outstanding work, then write and commit the handoff note. Do not attempt further implementation work. ''
     @ HANDOFF_SKILL_TOOL_HINT @ '' '' @ handoff_target n @ attempt_id_sentence attempt_id @ '' ''
     @ HANDOFF_NOTE_TOOL_HINT"

definition operator_handoff_followup_prompt :: "int option \<Rightarrow> string option \<Rightarrow> string" where
  "operator_handoff_followup_prompt n attempt_id =
     ''The operator requested a handoff (`agentctl handoff now`) and the safe boundary was missed. Invoke the `handoff` ''
     @ ''skill now to preserve your progress: commit any outstanding work in ordinary work commits, then write the ''
     @ ''handoff note with `reason: operator_request` and commit it separately as the final commit. Do not attempt ''
     @ ''further implementation work. '' @ HANDOFF_SKILL_TOOL_HINT @ '' '' @ handoff_target n
     @ attempt_id_sentence attempt_id @ '' '' @ HANDOFF_NOTE_TOOL_HINT"

definition COST_ALLOWED_COMMANDS :: string where
  "COST_ALLOWED_COMMANDS =
     ''Still allowed: `git status`, `git diff`, `git add`, `git commit`, `git log`, `git rev-parse`, `git rev-list`, ''
     @ ''`git branch --show-current`, and committing a handoff note created with the `Write` (or `Edit`) tool under ''
     @ ''`.agent/handoff/`. Bash cannot create or modify files after the threshold: write the note with the `Write`/`Edit` ''
     @ ''tool, then run `git add` + `git commit`. A compound command (`&&`, `;`, `|`) is denied as a whole if any ''
     @ ''part of it is not allowed, so split it up.''"

definition CODE_REVIEW_NUDGE :: string where
  "CODE_REVIEW_NUDGE =
     ''Invoke the `code-review` skill on your changes before finishing: completion requires at least one `code-review` ''
     @ ''invocation in this run, even when the checks pass and the change is small (for example formatting).''"


section \<open>Denials\<close>

text \<open>A decision of a hook before a tool runs: let it run, or deny it with a reason.\<close>

datatype tool_decision = Allow | Deny string

definition cost_deny :: "string \<Rightarrow> int option \<Rightarrow> tool_decision" where
  "cost_deny restriction n = Deny (
     ''Token soft threshold reached. '' @ restriction
     @ '' You must invoke the `handoff` skill now to preserve your progress. '' @ COST_ALLOWED_COMMANDS
     @ '' Create or edit the handoff note at `'' @ note_path_label n @ ''` with the `Write` (or `Edit`) tool ''
     @ em_dash @ '' Bash cannot create or modify files while the handoff is pending '' @ em_dash
     @ '' then commit it with `git add` + `git commit` in Bash.'')"

definition note_delete_deny :: "int option \<Rightarrow> tool_decision" where
  "note_delete_deny n = Deny (
     ''Token soft threshold reached. Do not delete or move the handoff note at `'' @ note_path_label n
     @ ''` while the handoff is pending. Write the note, commit it with `'' @ note_commit_command n
     @ ''`, then stop.'')"

definition operator_note_delete_deny :: "int option \<Rightarrow> tool_decision" where
  "operator_note_delete_deny n = Deny (
     ''Operator handoff in progress. Do not delete or move the handoff note at `'' @ note_path_label n
     @ ''` while the handoff is pending. Write the note, commit it separately as the final commit, then stop.'')"

definition operator_deny :: "string \<Rightarrow> int option \<Rightarrow> tool_decision" where
  "operator_deny restriction n = Deny (
     ''Operator handoff in progress. '' @ restriction
     @ '' Invoke the `handoff` skill now to preserve your progress. Create or edit the handoff note at `''
     @ note_path_label n @ ''` with the `Write` (or `Edit`) tool '' @ em_dash
     @ '' Bash cannot create or modify files while the handoff is pending '' @ em_dash
     @ '' then commit it with `git add` + `git commit` in Bash.'')"

definition note_delete_committed_deny :: "int option \<Rightarrow> tool_decision" where
  "note_delete_committed_deny n = Deny (
     ''Handoff note committed. The attempt is over: do not delete or move the handoff note at `'' @ note_path_label n
     @ ''`. End your turn now without further tool calls.'')"

definition operator_note_delete_committed_deny :: "int option \<Rightarrow> tool_decision" where
  "operator_note_delete_committed_deny n = Deny (
     ''Operator handoff note committed. The attempt is over: do not delete or move the handoff note at `''
     @ note_path_label n @ ''`. End your turn now without further tool calls.'')"

definition cost_committed_deny :: "string \<Rightarrow> int option \<Rightarrow> tool_decision" where
  "cost_committed_deny restriction n = Deny (
     ''Handoff note committed. The attempt is over: '' @ restriction
     @ '' End your turn now without further tool calls.'')"

definition operator_committed_deny :: "string \<Rightarrow> int option \<Rightarrow> tool_decision" where
  "operator_committed_deny restriction n = Deny (
     ''Operator handoff note committed. The attempt is over: '' @ restriction
     @ '' End your turn now without further tool calls.'')"

definition subagent_deny :: tool_decision where
  "subagent_deny = Deny (
     ''Subagent work is stopped. Do not start the handoff or write a handoff note; the main thread does that. End ''
     @ ''now with a brief final report of what you found.'')"


section \<open>The snapshot\<close>

text \<open>One git command: its exit code and output, or \<open>None\<close> when it could not run.\<close>

definition snapshot_git :: "(int \<times> string) option \<Rightarrow> string option" where
  "snapshot_git completed = (case completed of
     Some (code, out) \<Rightarrow> if code \<noteq> 0 then None else Some (py_strip out)
   | None \<Rightarrow> None)"

type_synonym git_reader = "string list \<Rightarrow> string option"

definition SNAPSHOT_LINE_LIMIT :: nat where "SNAPSHOT_LINE_LIMIT = 40"

definition cap_snapshot_lines :: "string \<Rightarrow> string" where
  "cap_snapshot_lines text = (let ls = py_splitlines text in
     if length ls \<le> SNAPSHOT_LINE_LIMIT then text
     else py_join nl (take SNAPSHOT_LINE_LIMIT ls @ [''...+'' @ str_of_nat (length ls - SNAPSHOT_LINE_LIMIT) @ '' more'']))"

definition snapshot_section :: "string \<Rightarrow> string option \<Rightarrow> string \<Rightarrow> string" where
  "snapshot_section title output none = (case output of
     None \<Rightarrow> title @ '':'' @ nl @ ''(unavailable)''
   | Some t \<Rightarrow> (let body = (if py_strip t \<noteq> [] then py_strip t else none) in title @ '':'' @ nl @ cap_snapshot_lines body))"

definition attempt_start_seconds :: "iso_parser \<Rightarrow> string option \<Rightarrow> int option" where
  "attempt_start_seconds parse_iso attempt_id = (case attempt_id of None \<Rightarrow> None | Some a \<Rightarrow> attempt_start_epoch parse_iso a)"

text \<open>A line of \<open>%H%x00%at\<close>: the revision of a commit authored in this attempt.\<close>

definition authored_in_attempt :: "int option \<Rightarrow> string \<Rightarrow> string option" where
  "authored_in_attempt started line = (case py_partition (CHR 0x00) line of
     (revision, Some authored) \<Rightarrow>
       if revision = [] \<or> py_strip authored = [] \<or> \<not> list_all is_digit (py_strip authored) then None
       else (case started of
           Some t \<Rightarrow> if int (nat_of_digits (py_strip authored)) < t then None else Some revision
         | None \<Rightarrow> Some revision)
   | (_, None) \<Rightarrow> None)"

definition stripped_lines :: "string \<Rightarrow> string list" where
  "stripped_lines t = filter (\<lambda>l. l \<noteq> []) (map py_strip (py_splitlines t))"

text \<open>Whether a commit that touches the note is a note only, or at least keeps the note.\<close>

definition is_note_commit :: "git_reader \<Rightarrow> string \<Rightarrow> string \<Rightarrow> bool" where
  "is_note_commit gr relpath revision =
     (case gr [''diff-tree'', ''--no-commit-id'', ''--name-only'', ''-r'', ''--root'', revision, ''--''] of
        None \<Rightarrow> False
      | Some files \<Rightarrow> list_all (\<lambda>p. p = relpath) (stripped_lines files)
          \<or> gr [''cat-file'', ''-e'', revision @ '':'' @ relpath] \<noteq> None)"

definition this_attempt_note_revisions :: "git_reader \<Rightarrow> iso_parser \<Rightarrow> string \<Rightarrow> int \<Rightarrow> string option \<Rightarrow> string list" where
  "this_attempt_note_revisions gr parse_iso base n attempt_id =
     (let relpath = handoff_note_relpath n in
      case gr [''log'', ''--format=%H%x00%at'', base @ ''..HEAD'', ''--'', relpath] of
        None \<Rightarrow> []
      | Some out \<Rightarrow> filter (is_note_commit gr relpath)
          (List.map_filter (authored_in_attempt (attempt_start_seconds parse_iso attempt_id)) (py_splitlines out)))"

definition token_expected_last_work_commit ::
  "git_reader option \<Rightarrow> iso_parser \<Rightarrow> string option \<Rightarrow> int option \<Rightarrow> string option \<Rightarrow> string option \<Rightarrow> string option" where
  "token_expected_last_work_commit directory parse_iso base n attempt_id head =
     (case head of None \<Rightarrow> None
      | Some h \<Rightarrow> (case (directory, base, n) of
          (Some gr, Some b, Some k) \<Rightarrow> (case gr [''log'', ''--format=%H'', b @ ''..HEAD''] of
             None \<Rightarrow> Some h
           | Some out \<Rightarrow> (let revisions = stripped_lines out in
               if revisions = [] then Some b
               else Some (expected_handoff_last_work_commit revisions (this_attempt_note_revisions gr parse_iso b k attempt_id) b 0)))
        | _ \<Rightarrow> Some h))"

definition token_handoff_prefill :: "int option \<Rightarrow> string option \<Rightarrow> string option \<Rightarrow> string" where
  "token_handoff_prefill n attempt_id head = py_join nl
     ([''# Handoff note: issue #'' @ issue_label n, [], ''- issue: '' @ issue_label n]
      @ (case attempt_id of None \<Rightarrow> [] | Some a \<Rightarrow> [''- started_at: '' @ a])
      @ [''- reason: token_soft_threshold'',
         ''- last_work_commit: '' @ (case head of Some h \<Rightarrow> if h = [] then ''(unknown)'' else take 12 h | None \<Rightarrow> ''(unknown)'')])"

text \<open>\<open>text or None\<close>: an empty text counts as none.\<close>

definition or_none :: "string option \<Rightarrow> string option" where
  "or_none t = (case t of Some s \<Rightarrow> if s = [] then None else Some s | None \<Rightarrow> None)"

definition shown_or :: "string option \<Rightarrow> string \<Rightarrow> string" where
  "shown_or t standard = (case or_none t of Some s \<Rightarrow> s | None \<Rightarrow> standard)"

definition snapshot_head :: "git_reader \<Rightarrow> string option" where
  "snapshot_head gr = or_none (map_option py_strip (gr [''rev-parse'', ''HEAD'']))"

definition range_section :: "string \<Rightarrow> string option \<Rightarrow> string \<Rightarrow> string option \<Rightarrow> string \<Rightarrow> string" where
  "range_section title base unknown output none = (case base of
     None \<Rightarrow> title @ '':'' @ nl @ unknown
   | Some b \<Rightarrow> snapshot_section title output none)"

definition token_handoff_snapshot ::
  "git_reader option \<Rightarrow> iso_parser \<Rightarrow> string option \<Rightarrow> string option \<Rightarrow> int option \<Rightarrow> string option \<Rightarrow> string" where
  "token_handoff_snapshot directory parse_iso branch base n attempt_id =
     (let read = (\<lambda>args. case directory of None \<Rightarrow> None | Some gr \<Rightarrow> gr args);
          shown = (case directory of None \<Rightarrow> None | Some gr \<Rightarrow> map_option py_strip (gr [''branch'', ''--show-current'']));
          head = (case directory of None \<Rightarrow> None | Some gr \<Rightarrow> snapshot_head gr);
          status = read [''status'', ''--short''];
          ranged = (\<lambda>args. case or_none base of None \<Rightarrow> None | Some b \<Rightarrow> read (args b))
      in py_join (nl @ nl)
       [''Branch: '' @ shown_or shown (shown_or branch ''(unknown)''),
        ''Base revision: '' @ shown_or base ''(unknown)'',
        ''HEAD: '' @ shown_or head ''(unavailable)'',
        snapshot_section ''git status --short'' status ''(clean)'',
        range_section ''git log --oneline <base>..HEAD'' base ''(unknown base revision; log unavailable)''
          (ranged (\<lambda>b. [''log'', ''--oneline'', b @ ''..HEAD''])) ''(no commits)'',
        range_section ''git diff --stat <base>'' base ''(unknown base revision; diff unavailable)''
          (ranged (\<lambda>b. [''diff'', ''--stat'', b])) ''(no differences)'',
        ''started_at: '' @ (case attempt_id of Some a \<Rightarrow> a | None \<Rightarrow> ''(none given; omit started_at)''),
        ''Pre-filled note header (copy verbatim, then fill in Summary, Remaining work and Evidence):'' @ nl
          @ token_handoff_prefill n attempt_id (token_expected_last_work_commit directory parse_iso base n attempt_id head),
        ''The handoff note path is exactly `.agent/handoff/'' @ issue_label n @ ''.md`.''])"

end
