(* ===== verification/Session_State.thy ===== *)
theory Session_State
  imports Session_Texts Attempt_Runner Config Token_Ledger
begin

text \<open>
  The state of one session of the model (model_execution.py, \<open>ModelExecutor\<close>), what a hook is told, what surrounds it,
  and the steps that the hooks and the stream share: the thresholds of the token budget, the operator's request, the
  subagents, the trail of tool calls and the record of skills. The log keeps each event with what identifies it; the
  figures formatted into it are left out, as is the view published for telemetry.
\<close>

section \<open>State\<close>

text \<open>A hook's input: the tool, the text fields of its input, its response, the calling subagent and the call's id.\<close>

record hook =
  hk_tool :: string
  hk_input :: "(string \<times> string) list"
  hk_response :: json
  hk_agent :: "string option"
  hk_use_id :: "string option"

record operator_request =
  oq_id :: string
  oq_accepted :: rat

text \<open>What a step finds outside: the clock, the operator's request, git, and the commits added by the run.\<close>

record surroundings =
  en_now :: rat
  en_monotonic :: rat
  en_request :: "operator_request option"
  en_git :: git_reader
  en_iso :: iso_parser
  en_commits :: "int option"

record subagent_info =
  su_type :: string
  su_running :: bool

record session =
  se_config :: runtime_config
  se_issue :: "int option"
  se_attempt :: "string option"
  se_directory :: bool
  se_branch :: "string option"
  se_base :: "string option"
  se_watched :: bool
  se_skills :: "skill_event list"
  se_reviews :: nat
  se_nudged :: bool
  se_crossed :: bool
  se_crossed_at :: "rat option"
  se_rule :: "string option"
  se_effective :: "int option"
  se_ceiling :: bool
  se_delivered :: bool
  se_committed :: bool
  se_baseline :: "string option"
  se_reinject :: bool
  se_operator_reinject :: bool
  se_snapshot :: "string option"
  se_running :: "string list"
  se_stopped :: "string list"
  se_request :: "operator_request option"
  se_told :: bool
  se_via :: "string option"
  se_fallback_used :: bool
  se_fallback_blocked :: bool
  se_begun :: bool
  se_expired :: bool
  se_cli_session :: "string option"
  se_last_text :: "string option"
  se_edited :: "string list"
  se_calls :: nat
  se_trail :: "(nat \<times> tool_call) list"
  se_trail_pending :: "(string \<times> nat) list"
  se_bash :: "(nat \<times> tool_call) list"
  se_bash_pending :: "(string \<times> nat) list"
  se_ledger :: ledger
  se_stream_ids :: "(string \<times> string) list"
  se_pending_usage :: "((string \<times> string) \<times> usage) list"
  se_counted :: "(string \<times> string) list"
  se_logged :: "(string \<times> string) list"
  se_degraded :: bool
  se_cache_checked :: bool
  se_auto :: nat
  se_subagents :: "(string \<times> subagent_info) list"
  se_compactions :: nat
  se_reports :: "(string \<times> string) list"
  se_log :: "(string \<times> string) list"

definition note_event :: "string \<Rightarrow> string \<Rightarrow> session \<Rightarrow> session" where
  "note_event name about s = s\<lparr>se_log := se_log s @ [(name, about)]\<rparr>"

definition git_of :: "surroundings \<Rightarrow> session \<Rightarrow> git_reader option" where
  "git_of e s = (if se_directory s then Some (en_git e) else None)"


section \<open>Fields of a hook\<close>

definition skill_name :: "hook \<Rightarrow> string option" where
  "skill_name h = map_of (hk_input h) ''skill''"

definition hook_agent :: "hook \<Rightarrow> string option" where
  "hook_agent h = or_none (hk_agent h)"

definition is_main_thread :: "hook \<Rightarrow> bool" where
  "is_main_thread h \<longleftrightarrow> hook_agent h = None"

definition thread_label :: "hook \<Rightarrow> string" where
  "thread_label h = (case hook_agent h of Some a \<Rightarrow> '' [subagent:'' @ a @ '']'' | None \<Rightarrow> '' [main]'')"

definition is_subagent_launch :: "hook \<Rightarrow> bool" where
  "is_subagent_launch h \<longleftrightarrow> list_ex (\<lambda>k. map_of (hk_input h) k \<noteq> None) [''prompt'', ''description'', ''subagent_type'']"

text \<open>A tool that starts a subagent: \<open>Agent\<close>, or \<open>Task\<close> unless it polls one.\<close>

definition launches :: "hook \<Rightarrow> bool" where
  "launches h \<longleftrightarrow> hk_tool h = ''Agent'' \<or> hk_tool h = ''Task'' \<and> is_subagent_launch h"

definition tool_label :: "hook \<Rightarrow> string" where
  "tool_label h = (case (if hk_tool h = ''Skill'' then or_none (skill_name h) else None) of
     Some k \<Rightarrow> ''skill:'' @ k | None \<Rightarrow> hk_tool h)"

definition names_skill :: "hook \<Rightarrow> bool" where
  "names_skill h \<longleftrightarrow> hk_tool h = ''Skill'' \<and> or_none (skill_name h) \<noteq> None"

definition log_tool_use :: "string \<Rightarrow> hook \<Rightarrow> session \<Rightarrow> session" where
  "log_tool_use kind h s = note_event
     (if \<not> names_skill h then kind else if kind = ''tool_result'' then ''skill_result'' else ''skill_call'')
     (tool_label h @ thread_label h) s"

definition log_pre_tool_denied :: "hook \<Rightarrow> session \<Rightarrow> session" where
  "log_pre_tool_denied h s = note_event (if names_skill h then ''skill_call_denied'' else ''tool_call_denied'')
     (tool_label h @ thread_label h @ '': denied'') s"


section \<open>Budget\<close>

definition main_context :: "ledger \<Rightarrow> rat" where
  "main_context l = (case map_of (l_threads l) ''main'' of Some t \<Rightarrow> t_context t | None \<Rightarrow> 0)"

definition hard_limit_reached :: "session \<Rightarrow> bool" where
  "hard_limit_reached s \<longleftrightarrow> se_ceiling s \<or> of_int (rc_max_budget_tokens (se_config s)) \<le> budget_tokens (se_ledger s)"

definition capture_handoff_baseline :: "surroundings \<Rightarrow> session \<Rightarrow> session" where
  "capture_handoff_baseline e s =
     (if se_baseline s \<noteq> None \<or> \<not> se_directory s then s
      else s\<lparr>se_baseline := or_none (en_git e [''rev-parse'', ''HEAD''])\<rparr>)"

definition stop_running_subagents :: "session \<Rightarrow> session" where
  "stop_running_subagents s =
     (let stopped = sort (se_running s)
      in note_event ''token_soft_threshold_subagents_stopped'' (py_join '','' stopped)
           (s\<lparr>se_stopped := se_stopped s @ filter (\<lambda>a. a \<notin> set (se_stopped s)) stopped, se_running := []\<rparr>))"

definition cross_soft_threshold :: "string \<Rightarrow> int \<Rightarrow> string \<Rightarrow> surroundings \<Rightarrow> session \<Rightarrow> session" where
  "cross_soft_threshold thread threshold rule e s =
     stop_running_subagents (capture_handoff_baseline e (note_event ''token_soft_threshold_crossed'' thread
       (s\<lparr>se_crossed := True, se_crossed_at := Some (budget_tokens (se_ledger s)), se_rule := Some rule,
          se_effective := Some threshold\<rparr>)))"

definition check_limits :: "string \<Rightarrow> surroundings \<Rightarrow> session \<Rightarrow> session" where
  "check_limits thread e s =
     (let budget = budget_tokens (se_ledger s) in
      case effective_soft_threshold (se_config s) (main_context (se_ledger s)) of (threshold, rule, reserve) \<Rightarrow>
        (let s1 = (if \<not> se_crossed s \<and> of_int threshold \<le> budget then cross_soft_threshold thread threshold rule e s else s)
         in if \<not> se_ceiling s1 \<and> of_int (rc_max_budget_tokens (se_config s)) \<le> budget
            then note_event ''token_hard_ceiling_reached'' thread (s1\<lparr>se_ceiling := True\<rparr>) else s1))"


section \<open>The operator's request\<close>

text \<open>The newest request wins until its instruction is delivered or its handoff has begun.\<close>

definition poll_operator_handoff :: "surroundings \<Rightarrow> session \<Rightarrow> session" where
  "poll_operator_handoff e s =
     (case (if se_watched s then en_request e else None) of
        None \<Rightarrow> s
      | Some current \<Rightarrow> (case se_request s of
          Some latched \<Rightarrow> if oq_id latched = oq_id current \<or> se_told s \<or> se_begun s then s else s\<lparr>se_request := Some current\<rparr>
        | None \<Rightarrow> s\<lparr>se_request := Some current\<rparr>))"

definition report_operator :: "string \<Rightarrow> session \<Rightarrow> session" where
  "report_operator what s = (case se_request s of
     None \<Rightarrow> s | Some r \<Rightarrow> s\<lparr>se_reports := se_reports s @ [(what, oq_id r)]\<rparr>)"

definition DELIVERY_WINDOW_SECONDS :: rat where "DELIVERY_WINDOW_SECONDS = 60"
definition MODEL_DEADLINE_SECONDS :: rat where "MODEL_DEADLINE_SECONDS = 240"

datatype due_action = Fallback | Expire

definition undelivered :: "session \<Rightarrow> bool" where
  "undelivered s \<longleftrightarrow> \<not> se_fallback_used s \<and> \<not> se_told s \<and> \<not> se_begun s"

definition operator_due_action :: "surroundings \<Rightarrow> session \<Rightarrow> due_action option" where
  "operator_due_action e s = (case se_request s of
     None \<Rightarrow> None
   | Some r \<Rightarrow>
       if se_expired s then None
       else if MODEL_DEADLINE_SECONDS \<le> en_now e - oq_accepted r then Some Expire
       else if undelivered s \<and> DELIVERY_WINDOW_SECONDS \<le> en_now e - oq_accepted r then Some Fallback
       else None)"

text \<open>How long the stream may wait: \<open>None\<close> is without an end.\<close>

definition operator_stream_wait :: "surroundings \<Rightarrow> session \<Rightarrow> rat option" where
  "operator_stream_wait e s = (case se_request s of
     None \<Rightarrow> if se_watched s then Some DELIVERY_WINDOW_SECONDS else None
   | Some r \<Rightarrow>
       let elapsed = en_now e - oq_accepted r;
           deadline = MODEL_DEADLINE_SECONDS - elapsed;
           next = (if undelivered s then min deadline (DELIVERY_WINDOW_SECONDS - elapsed) else deadline)
       in Some (max next 0))"

definition operator_delivery_label :: "session \<Rightarrow> string" where
  "operator_delivery_label s = (if \<not> se_told s then ''no'' else if se_via s = Some ''fallback'' then ''fallback''
     else ''main-thread tool boundary'')"

definition operator_fallback_label :: "session \<Rightarrow> string" where
  "operator_fallback_label s = (if se_fallback_blocked s then ''blocked'' else if se_fallback_used s then ''fired'' else ''not due'')"

definition operator_step_trail :: "session \<Rightarrow> string" where
  "operator_step_trail s = ''delivered='' @ operator_delivery_label s @ ''; fallback='' @ operator_fallback_label s
     @ ''; begun='' @ (if se_begun s then ''yes'' else ''no'')"

definition request_label :: "session \<Rightarrow> string" where
  "request_label s = (case se_request s of Some r \<Rightarrow> oq_id r | None \<Rightarrow> ''None'')"

definition operator_expired_explanation :: "session \<Rightarrow> string" where
  "operator_expired_explanation s = ''Operator handoff '' @ request_label s @ '' reached its 240-second model deadline ''
     @ (if se_begun s then ''after the model invoked the handoff skill but before it finished ('' @ operator_step_trail s @ '').''
        else ''without the model invoking the handoff skill ('' @ operator_step_trail s @ '').'')"


section \<open>Subagents\<close>

text \<open>\<open>_ensure_ledger_thread\<close>: the set of known threads is that of the ledger.\<close>

definition ensure_ledger_thread :: "string \<Rightarrow> string option \<Rightarrow> nat \<Rightarrow> session \<Rightarrow> session" where
  "ensure_ledger_thread thread subagent_type prompt_chars s =
     (if map_of (l_threads (se_ledger s)) thread \<noteq> None then s
      else s\<lparr>se_ledger := snd (start_thread thread (if thread = ''main'' then ''main'' else ''subagent'') prompt_chars
               subagent_type (se_ledger s))\<rparr>)"

definition launch_prompt :: "hook \<Rightarrow> string" where
  "launch_prompt h = (case map_of (hk_input h) ''prompt'' of Some p \<Rightarrow> p
     | None \<Rightarrow> (case map_of (hk_input h) ''description'' of Some d \<Rightarrow> d | None \<Rightarrow> []))"

definition note_launch :: "string \<Rightarrow> string option \<Rightarrow> session \<Rightarrow> session" where
  "note_launch thread subagent_type s = (case map_of (se_subagents s) thread of
     None \<Rightarrow> s\<lparr>se_subagents := se_subagents s @ [(thread,
         \<lparr>su_type = (case or_none subagent_type of Some t \<Rightarrow> t | None \<Rightarrow> ''unknown''), su_running = True\<rparr>)]\<rparr>
   | Some i \<Rightarrow> s\<lparr>se_subagents := map (\<lambda>(k, i). if k = thread
         then (k, i\<lparr>su_running := True, su_type := (case or_none subagent_type of Some t \<Rightarrow> t | None \<Rightarrow> su_type i)\<rparr>) else (k, i))
         (se_subagents s)\<rparr>)"

definition start_launch_thread :: "hook \<Rightarrow> session \<Rightarrow> session" where
  "start_launch_thread h s = (case hk_use_id h of
     None \<Rightarrow> s
   | Some thread \<Rightarrow>
       if \<not> launches h then s
       else note_launch thread (map_of (hk_input h) ''subagent_type'')
              (ensure_ledger_thread thread (map_of (hk_input h) ''subagent_type'') (length (launch_prompt h)) s))"

definition track_subagent_seen :: "hook \<Rightarrow> session \<Rightarrow> session" where
  "track_subagent_seen h s = (case hook_agent h of
     None \<Rightarrow> s
   | Some a \<Rightarrow> if a \<in> set (se_stopped s) \<or> a \<in> set (se_running s) then s else s\<lparr>se_running := se_running s @ [a]\<rparr>)"


section \<open>The trail of tool calls\<close>

definition MAX_TOOL_TRAIL :: nat where "MAX_TOOL_TRAIL = 15"
definition MAX_BASH_HISTORY :: nat where "MAX_BASH_HISTORY = 50"
definition MAX_SHORT_TARGET :: nat where "MAX_SHORT_TARGET = 100"

definition shorten :: "string \<Rightarrow> string" where
  "shorten v = (let collapsed = py_join '' '' (py_words v) in
     if length collapsed \<le> MAX_SHORT_TARGET then collapsed else take MAX_SHORT_TARGET collapsed @ ''...'')"

definition text_field :: "string \<Rightarrow> hook \<Rightarrow> string" where
  "text_field k h = (case map_of (hk_input h) k of Some v \<Rightarrow> v | None \<Rightarrow> [])"

definition first_field :: "string list \<Rightarrow> hook \<Rightarrow> string" where
  "first_field ks h = (case filter (\<lambda>v. v \<noteq> []) (map (\<lambda>k. text_field k h) ks) of v # _ \<Rightarrow> shorten v | [] \<Rightarrow> [])"

definition short_tool_target :: "hook \<Rightarrow> string" where
  "short_tool_target h =
     (if hk_tool h \<in> {''Edit'', ''Write'', ''Read''} then shorten (text_field ''file_path'' h)
      else if hk_tool h = ''Bash'' then shorten (text_field ''command'' h)
      else if hk_tool h \<in> {''Agent'', ''Task''} then first_field [''description'', ''subagent_type'', ''prompt''] h
      else first_field [''path'', ''file'', ''command'', ''pattern'', ''skill''] h)"

definition recent :: "nat \<Rightarrow> 'a list \<Rightarrow> 'a list" where
  "recent k xs = drop (length xs - k) xs"

text \<open>\<open>pending[id] = record\<close> keeps the place of a known id; the oldest entries beyond the bound are dropped.\<close>

definition put_pending :: "nat \<Rightarrow> string \<Rightarrow> nat \<Rightarrow> (string \<times> nat) list \<Rightarrow> (string \<times> nat) list" where
  "put_pending bound k v ps =
     recent bound (if map_of ps k \<noteq> None then map (\<lambda>(k', w). (k', if k' = k then v else w)) ps else ps @ [(k, v)])"

definition call_record :: "hook \<Rightarrow> tool_call" where
  "call_record h = \<lparr>tc_tool = hk_tool h,
     tc_target = (if hk_tool h = ''Skill'' then (case skill_name h of Some k \<Rightarrow> k | None \<Rightarrow> []) else short_tool_target h),
     tc_outcome = ''unknown'', tc_command = (if hk_tool h = ''Bash'' then text_field ''command'' h else [])\<rparr>"

definition record_edit :: "hook \<Rightarrow> session \<Rightarrow> session" where
  "record_edit h s = (let path = text_field ''file_path'' h in
     if hk_tool h \<in> {''Edit'', ''Write''} \<and> path \<noteq> [] \<and> path \<notin> set (se_edited s)
     then s\<lparr>se_edited := se_edited s @ [path]\<rparr> else s)"

definition record_trail :: "hook \<Rightarrow> session \<Rightarrow> session" where
  "record_trail h s = s\<lparr>
     se_trail := recent MAX_TOOL_TRAIL (se_trail s @ [(se_calls s, call_record h)]),
     se_trail_pending := (case or_none (hk_use_id h) of None \<Rightarrow> se_trail_pending s
       | Some k \<Rightarrow> put_pending (4 * MAX_TOOL_TRAIL) k (se_calls s) (se_trail_pending s))\<rparr>"

definition record_bash :: "hook \<Rightarrow> session \<Rightarrow> session" where
  "record_bash h s = (if hk_tool h \<noteq> ''Bash'' then s else s\<lparr>
     se_bash := recent MAX_BASH_HISTORY (se_bash s @ [(se_calls s, call_record h)]),
     se_bash_pending := (case or_none (hk_use_id h) of None \<Rightarrow> se_bash_pending s
       | Some k \<Rightarrow> put_pending (4 * MAX_BASH_HISTORY) k (se_calls s) (se_bash_pending s))\<rparr>)"

text \<open>The records are shared between the trail and what is pending: \<open>se_calls\<close> numbers them.\<close>

definition record_tool_call :: "hook \<Rightarrow> session \<Rightarrow> session" where
  "record_tool_call h s = (if hk_tool h = [] then s
     else (record_bash h (record_trail h (record_edit h s)))\<lparr>se_calls := Suc (se_calls s)\<rparr>)"

definition tool_result_outcome :: "json \<Rightarrow> string" where
  "tool_result_outcome r = (case r of
     JObj d \<Rightarrow> if jget d ''interrupted'' JNull = JBool True \<or> jget d ''is_error'' JNull = JBool True then ''error'' else ''ok''
   | _ \<Rightarrow> ''ok'')"

definition settle_call :: "nat option \<Rightarrow> string \<Rightarrow> (nat \<times> tool_call) list \<Rightarrow> (nat \<times> tool_call) list" where
  "settle_call which outcome trail = map (\<lambda>(i, r). (i, if which = Some i then r\<lparr>tc_outcome := outcome\<rparr> else r)) trail"

definition record_tool_result :: "hook \<Rightarrow> session \<Rightarrow> session" where
  "record_tool_result h s = (case or_none (hk_use_id h) of
     None \<Rightarrow> s
   | Some k \<Rightarrow> (let outcome = tool_result_outcome (hk_response h) in s\<lparr>
       se_trail := settle_call (map_of (se_trail_pending s) k) outcome (se_trail s),
       se_trail_pending := filter (\<lambda>(k', _). k' \<noteq> k) (se_trail_pending s),
       se_bash := settle_call (map_of (se_bash_pending s) k) outcome (se_bash s),
       se_bash_pending := filter (\<lambda>(k', _). k' \<noteq> k) (se_bash_pending s)\<rparr>))"


section \<open>Skills\<close>

definition main_thread_handoff_invoked :: "session \<Rightarrow> bool" where
  "main_thread_handoff_invoked s \<longleftrightarrow> list_ex (\<lambda>k. sk_name k = ''handoff'' \<and> sk_agent k = None) (se_skills s)"

definition token_handoff_done :: "session \<Rightarrow> bool" where
  "token_handoff_done s \<longleftrightarrow> se_crossed s \<and> (main_thread_handoff_invoked s \<or> se_committed s)"

definition begin_operator_handoff :: "session \<Rightarrow> session" where
  "begin_operator_handoff s =
     note_event ''operator_handoff_begun'' (request_label s) (report_operator ''begun'' (s\<lparr>se_begun := True\<rparr>))"

definition record_skill_event :: "string \<Rightarrow> hook \<Rightarrow> session \<Rightarrow> session" where
  "record_skill_event phase h s = (case (if hk_tool h = ''Skill'' then skill_name h else None) of
     None \<Rightarrow> s
   | Some name \<Rightarrow>
       if name = ''handoff'' \<and> (hk_agent h \<noteq> None \<or> se_ceiling s) then s
       else let s1 = s\<lparr>se_skills := se_skills s @ [\<lparr>sk_phase = phase, sk_name = name, sk_agent = hk_agent h\<rparr>]\<rparr>
         in if name = ''handoff'' \<and> hk_agent h = None \<and> se_request s \<noteq> None \<and> \<not> se_begun s
            then begin_operator_handoff s1 else s1)"

end
