(* ===== verification/Session_Hooks.thy ===== *)
theory Session_Hooks
  imports Session_State
begin

text \<open>
  The three hooks of a session (model_execution.py): before a tool, after a tool, and when the model stops. Each is a
  function of the surroundings, the hook's input and the state; the event loop runs them one at a time.
\<close>

section \<open>Before a tool\<close>

text \<open>What a pending handoff of the token budget allows.\<close>

definition soft_denial :: "string \<Rightarrow> session \<Rightarrow> tool_decision" where
  "soft_denial restriction s =
     (if se_committed s then cost_committed_deny restriction (se_issue s) else cost_deny restriction (se_issue s))"

definition targets_note :: "hook \<Rightarrow> bool" where
  "targets_note h \<longleftrightarrow> py_contains HANDOFF_NOTE_MARKER (text_field ''file_path'' h)"

definition soft_gate :: "hook \<Rightarrow> session \<Rightarrow> tool_decision" where
  "soft_gate h s =
     (if hk_tool h = ''Skill'' \<and> skill_name h = Some ''handoff'' then Allow
      else if launches h then soft_denial ''New subagent launches are disabled.'' s
      else if hk_tool h \<in> {''Edit'', ''Write''} then
        (if targets_note h then Allow else soft_denial ''Further implementation work is disabled.'' s)
      else if hk_tool h = ''Bash'' then
        (if deletes_handoff_note (text_field ''command'' h)
         then (if se_committed s then note_delete_committed_deny (se_issue s) else note_delete_deny (se_issue s))
         else if \<not> is_handoff_command (text_field ''command'' h)
         then soft_denial ''Further implementation work is disabled.'' s else Allow)
      else Allow)"

text \<open>What a delivered request of the operator allows; a subagent's denial does not point at the handoff.\<close>

definition operator_denial :: "string \<Rightarrow> hook \<Rightarrow> session \<Rightarrow> tool_decision" where
  "operator_denial restriction h s =
     (if \<not> is_main_thread h then subagent_deny
      else if se_committed s then operator_committed_deny restriction (se_issue s) else operator_deny restriction (se_issue s))"

definition operator_gate :: "hook \<Rightarrow> session \<Rightarrow> tool_decision" where
  "operator_gate h s =
     (if hk_tool h = ''Skill'' then
        (if skill_name h \<noteq> Some ''handoff'' then operator_denial ''Only the `handoff` skill stays allowed.'' h s else Allow)
      else if hk_tool h \<in> {''Edit'', ''Write''} then
        (if targets_note h then Allow else operator_denial ''Further implementation work is disabled.'' h s)
      else if hk_tool h = ''Bash'' then
        (if deletes_handoff_note (text_field ''command'' h)
         then (if \<not> is_main_thread h then subagent_deny
               else if se_committed s then operator_note_delete_committed_deny (se_issue s)
               else operator_note_delete_deny (se_issue s))
         else if \<not> is_handoff_command (text_field ''command'' h)
         then operator_denial ''Further implementation work is disabled.'' h s else Allow)
      else Allow)"

text \<open>A subagent never performs the handoff of a request that has not begun.\<close>

definition subagent_handoff :: "hook \<Rightarrow> session \<Rightarrow> bool" where
  "subagent_handoff h s \<longleftrightarrow> se_request s \<noteq> None \<and> \<not> se_begun s \<and> \<not> is_main_thread h
     \<and> hk_tool h = ''Skill'' \<and> skill_name h = Some ''handoff''"

definition publication_guard :: "hook \<Rightarrow> tool_decision" where
  "publication_guard h = (if hk_tool h = ''Bash'' \<and> is_publication_command (text_field ''command'' h)
     then Deny ''Publication is owned by the driving process.'' else Allow)"

text \<open>The gates in their order; the first that denies decides.\<close>

definition gates :: "hook \<Rightarrow> session \<Rightarrow> tool_decision" where
  "gates h s = (case (if se_crossed s then soft_gate h s else Allow) of
     Deny r \<Rightarrow> Deny r
   | Allow \<Rightarrow>
       if subagent_handoff h s then subagent_deny
       else (case (if se_told s then operator_gate h s else Allow) of
         Deny r \<Rightarrow> Deny r
       | Allow \<Rightarrow> publication_guard h))"

definition deny_call :: "hook \<Rightarrow> tool_decision \<Rightarrow> session \<Rightarrow> tool_decision \<times> session" where
  "deny_call h d s = (d, log_pre_tool_denied h s)"

definition CEILING_REASON :: "session \<Rightarrow> string" where
  "CEILING_REASON s = ''Token budget reached the hard ceiling (max_budget_tokens='' @ str_of_int (rc_max_budget_tokens (se_config s))
     @ ''); the attempt was stopped unconditionally and no further tool''
     @ '' use is allowed, including the handoff skill and git commands.''"

definition note_stopped_agent :: "hook \<Rightarrow> session \<Rightarrow> session" where
  "note_stopped_agent h s = (case hook_agent h of
     Some a \<Rightarrow> if a \<in> set (se_stopped s) then s else s\<lparr>se_stopped := se_stopped s @ [a]\<rparr> | None \<Rightarrow> s)"

definition judge_call :: "hook \<Rightarrow> session \<Rightarrow> tool_decision \<times> session" where
  "judge_call h s =
     (let s1 = (if se_crossed s then s else track_subagent_seen h s)
      in if se_crossed s1 \<and> \<not> is_main_thread h then deny_call h subagent_deny (note_stopped_agent h s1)
         else (case gates h s1 of
             Deny r \<Rightarrow> deny_call h (Deny r) s1
           | Allow \<Rightarrow> (Allow, record_skill_event ''PreToolUse'' h s1)))"

definition count_review :: "hook \<Rightarrow> session \<Rightarrow> session" where
  "count_review h s = (if skill_name h = Some ''code-review'' then s\<lparr>se_reviews := Suc (se_reviews s)\<rparr> else s)"

definition pre_tool :: "surroundings \<Rightarrow> hook \<Rightarrow> session \<Rightarrow> tool_decision \<times> session" where
  "pre_tool e h s =
     (let s1 = check_limits (case hook_agent h of Some a \<Rightarrow> a | None \<Rightarrow> ''main'') e s;
          s2 = record_tool_call h (log_tool_use ''tool_call'' h s1)
      in if se_ceiling s2 then deny_call h (Deny (CEILING_REASON s2)) s2
         else let s3 = count_review h (start_launch_thread h s2)
           in if skill_name h = Some ''code-review'' \<and> 3 < se_reviews s3
              then deny_call h (Deny ''At most two code-review repair cycles are allowed.'') s3
              else judge_call h s3)"


section \<open>When the model stops\<close>

definition new_commits_count :: "surroundings \<Rightarrow> int" where
  "new_commits_count e = (case en_commits e of None \<Rightarrow> 0 | Some n \<Rightarrow> max 0 n)"

text \<open>Some reason blocks the stop.\<close>

definition gate_review_on_stop :: "surroundings \<Rightarrow> session \<Rightarrow> string option \<times> session" where
  "gate_review_on_stop e s =
     (if se_crossed s \<and> se_committed s then (None, s)
      else if se_nudged s \<or> 0 < se_reviews s then (None, s)
      else if new_commits_count e \<le> 0 then (None, s)
      else (Some CODE_REVIEW_NUDGE, note_event ''code_review_nudge'' [] (s\<lparr>se_nudged := True\<rparr>)))"


section \<open>After a tool\<close>

text \<open>The newest commit since the baseline that touches the note.\<close>

definition confirmed_note_revision :: "surroundings \<Rightarrow> session \<Rightarrow> string option" where
  "confirmed_note_revision e s = (case (se_issue s, git_of e s, se_baseline s) of
     (Some n, Some gr, Some base) \<Rightarrow>
       (case or_none (gr [''log'', ''--format=%H'', base @ ''..HEAD'', ''--'', handoff_note_relpath n]) of
          None \<Rightarrow> None
        | Some out \<Rightarrow> (case py_splitlines out of l # _ \<Rightarrow> or_none (Some (py_strip l)) | [] \<Rightarrow> None))
   | _ \<Rightarrow> None)"

definition observe_note_commit :: "surroundings \<Rightarrow> hook \<Rightarrow> session \<Rightarrow> session" where
  "observe_note_commit e h s =
     (if se_committed s \<or> \<not> se_crossed s \<and> \<not> se_told s \<or> \<not> is_main_thread h \<or> hk_tool h \<noteq> ''Bash''
        \<or> \<not> py_contains ''commit'' (text_field ''command'' h) then s
      else (case confirmed_note_revision e s of
          None \<Rightarrow> s
        | Some revision \<Rightarrow> note_event
            (if se_crossed s then ''token_soft_threshold_handoff_note_committed'' else ''operator_handoff_note_committed'') revision
            (s\<lparr>se_committed := True, se_reinject := False, se_operator_reinject := False\<rparr>)))"

definition build_snapshot :: "surroundings \<Rightarrow> session \<Rightarrow> string" where
  "build_snapshot e s = token_handoff_snapshot (git_of e s) (en_iso e) (se_branch s) (se_base s) (se_issue s) (se_attempt s)"

definition refresh_snapshot :: "surroundings \<Rightarrow> session \<Rightarrow> session" where
  "refresh_snapshot e s = s\<lparr>se_snapshot := Some (build_snapshot e s)\<rparr>"

definition soft_instruction :: "session \<Rightarrow> string" where
  "soft_instruction s = cost_handoff_instruction (se_issue s) (se_attempt s) (se_snapshot s)"

definition REPEATED_INSTRUCTION :: string where
  "REPEATED_INSTRUCTION = ''Your context was compacted while the handoff was still pending, so the handoff instruction is repeated here. ''"

definition REPEATED_OPERATOR_INSTRUCTION :: string where
  "REPEATED_OPERATOR_INSTRUCTION = ''Your context was compacted while the operator handoff was still''
     @ '' pending, so the handoff instruction is repeated here. ''"

text \<open>The four texts that may reach the model at the boundary, each with the state behind it.\<close>

definition deliver_soft :: "surroundings \<Rightarrow> hook \<Rightarrow> session \<Rightarrow> string list \<times> session" where
  "deliver_soft e h s =
     (if se_crossed s \<and> \<not> se_delivered s \<and> is_main_thread h
      then let s1 = refresh_snapshot e (note_event ''token_soft_threshold_handoff_context_injected'' [] (s\<lparr>se_delivered := True\<rparr>))
           in ([soft_instruction s1], s1)
      else ([], s))"

definition deliver_operator :: "surroundings \<Rightarrow> hook \<Rightarrow> session \<Rightarrow> string list \<times> session" where
  "deliver_operator e h s =
     (if se_request s \<noteq> None \<and> \<not> se_told s \<and> is_main_thread h
      then let s1 = note_event ''operator_handoff_context_delivered'' (request_label s)
             (report_operator ''delivered'' (capture_handoff_baseline e (s\<lparr>se_told := True, se_via := Some ''post_tool''\<rparr>)))
           in ([operator_handoff_instruction (se_issue s) (se_attempt s)], s1)
      else ([], s))"

definition repeat_soft :: "surroundings \<Rightarrow> hook \<Rightarrow> session \<Rightarrow> string list \<times> session" where
  "repeat_soft e h s =
     (if se_reinject s \<and> se_crossed s \<and> \<not> se_committed s \<and> is_main_thread h
      then let s1 = refresh_snapshot e (note_event ''token_soft_threshold_handoff_context_reinjected'' [] (s\<lparr>se_reinject := False\<rparr>))
           in ([REPEATED_INSTRUCTION @ soft_instruction s1], s1)
      else ([], s))"

definition repeat_operator :: "hook \<Rightarrow> session \<Rightarrow> string list \<times> session" where
  "repeat_operator h s =
     (if se_operator_reinject s \<and> se_request s \<noteq> None \<and> \<not> se_begun s \<and> \<not> se_committed s \<and> is_main_thread h
      then ([REPEATED_OPERATOR_INSTRUCTION @ operator_handoff_instruction (se_issue s) (se_attempt s)],
            note_event ''operator_handoff_context_reinjected'' (request_label s) (s\<lparr>se_operator_reinject := False\<rparr>))
      else ([], s))"

definition observe_result :: "surroundings \<Rightarrow> hook \<Rightarrow> session \<Rightarrow> session" where
  "observe_result e h s =
     (let s1 = record_skill_event ''PostToolUse'' h (record_tool_result h (log_tool_use ''tool_result'' h s));
          s2 = (if se_crossed s1 then s1 else track_subagent_seen h s1)
      in observe_note_commit e h (poll_operator_handoff e s2))"

definition post_tool :: "surroundings \<Rightarrow> hook \<Rightarrow> session \<Rightarrow> string option \<times> session" where
  "post_tool e h s =
     (case deliver_soft e h (observe_result e h s) of (a, s1) \<Rightarrow>
      case deliver_operator e h s1 of (b, s2) \<Rightarrow>
      case repeat_soft e h s2 of (c, s3) \<Rightarrow>
      case repeat_operator h s3 of (d, s4) \<Rightarrow>
        (let contexts = a @ b @ c @ d in (if contexts = [] then None else Some (py_join (nl @ nl) contexts), s4)))"

text \<open>What a compaction of the context arms: a pending instruction that was delivered is sent again.\<close>

definition arm_reinject_after_compaction :: "session \<Rightarrow> session" where
  "arm_reinject_after_compaction s =
     (if se_committed s then s
      else let s1 = (if se_crossed s \<and> se_delivered s \<and> \<not> se_reinject s
               then note_event ''token_soft_threshold_handoff_reinject_pending'' [] (s\<lparr>se_reinject := True\<rparr>) else s)
        in if se_told s1 \<and> \<not> se_begun s1 \<and> \<not> se_operator_reinject s1
           then note_event ''operator_handoff_reinject_pending'' [] (s1\<lparr>se_operator_reinject := True\<rparr>) else s1)"

end
