(* ===== verification/Session_Stream.thy ===== *)
theory Session_Stream
  imports Session_Hooks "HOL-Library.AList"
begin

text \<open>
  The stream of a session (model_execution.py, \<open>_receive_terminal\<close>): the messages, what each does to the ledger and to
  the state, the background tasks that hold a result back, and the loop that reads until a result is terminal. While
  the loop waits the hooks run: each call hands over the state and its answer returns it, with the surroundings.
\<close>

section \<open>Messages\<close>

text \<open>\<open>cb_chars\<close> is what \<open>_content_chars\<close> counts for a block that is not text.\<close>

record content_block =
  cb_text :: "string option"
  cb_chars :: nat
  cb_result :: "string option"

record assistant_message =
  as_thread :: "string option"
  as_id :: "string option"
  as_uuid :: "string option"
  as_content :: "content_block list"
  as_usage :: "usage_report option"
  as_model :: "string option"

record result_message =
  re_is_error :: bool
  re_stop_reason :: "string option"
  re_terminal_reason :: "string option"
  re_subtype :: "string option"
  re_cost :: "rat option"
  re_turns :: string
  re_api_error :: string
  re_errors :: string
  re_usage :: "(string \<times> usage_report) list option"

datatype message_kind =
    Compacted "string option"
  | Task_started string "string option"
  | Task_notified string string "string option" "string option"
  | Task_updated string "string option"
  | Result_message result_message
  | Assistant_message assistant_message
  | Response_started "string option" "string option"
  | Usage_delta "string option" "(string \<times> int option) list"
  | User_message "string option" "content_block list"
  | Other_message

record stream_message =
  sm_session :: "string option"
  sm_kind :: message_kind

definition main_or :: "string option \<Rightarrow> string" where
  "main_or thread = (case or_none thread of Some t \<Rightarrow> t | None \<Rightarrow> ''main'')"

definition block_chars :: "content_block \<Rightarrow> nat" where
  "block_chars b = (case cb_text b of Some t \<Rightarrow> length t | None \<Rightarrow> cb_chars b)"

definition content_chars :: "content_block list \<Rightarrow> nat" where
  "content_chars bs = sum_list (map block_chars bs)"

text \<open>The blocks are taken from a stack, the last first.\<close>

definition tool_result_ids :: "content_block list \<Rightarrow> string list" where
  "tool_result_ids bs = rev (List.map_filter (\<lambda>b. or_none (cb_result b)) bs)"


section \<open>What a message does to the ledger\<close>

text \<open>One \<open>limits_checked\<close> entry per settled response.\<close>

definition log_newly_settled :: "string \<Rightarrow> string list \<Rightarrow> session \<Rightarrow> session" where
  "log_newly_settled thread ids s = fold (\<lambda>k s. if (thread, k) \<in> set (se_logged s) then s
     else note_event ''limits_checked'' k (s\<lparr>se_logged := se_logged s @ [(thread, k)]\<rparr>)) ids s"

definition PROMPT_CACHE_MIN_MEASURED_RESPONSES :: nat where "PROMPT_CACHE_MIN_MEASURED_RESPONSES = 20"
definition PROMPT_CACHE_HIT_RATE_THRESHOLD :: rat where "PROMPT_CACHE_HIT_RATE_THRESHOLD = 1/2"

definition check_prompt_cache :: "session \<Rightarrow> session" where
  "check_prompt_cache s =
     (if se_cache_checked s \<or> main_measured_settled_count (se_ledger s) < PROMPT_CACHE_MIN_MEASURED_RESPONSES then s
      else let s1 = s\<lparr>se_cache_checked := True\<rparr> in
        (case main_hit_rate (Some PROMPT_CACHE_MIN_MEASURED_RESPONSES) (se_ledger s) of
           None \<Rightarrow> s1
         | Some rate \<Rightarrow> if PROMPT_CACHE_HIT_RATE_THRESHOLD \<le> rate then s1 else note_event ''prompt_cache_ineffective'' [] s1))"

definition after_ledger_update :: "string \<Rightarrow> surroundings \<Rightarrow> session \<Rightarrow> session" where
  "after_ledger_update thread e s =
     (let s1 = check_limits thread e s;
          s2 = (case l_first_notice (se_ledger s1) of
             Some notice \<Rightarrow> if se_degraded s1 then s1
               else note_event ''token_estimate_degraded'' (dn_thread notice) (s1\<lparr>se_degraded := True\<rparr>)
           | None \<Rightarrow> s1);
          s3 = log_newly_settled thread (case settled_response_ids thread (se_ledger s2) of Some ids \<Rightarrow> ids | None \<Rightarrow> []) s2
      in check_prompt_cache s3)"

text \<open>The id of a response and the state: the message's own id, its uuid, or the next number.\<close>

definition assistant_response_id :: "assistant_message \<Rightarrow> string \<Rightarrow> session \<Rightarrow> string \<times> session" where
  "assistant_response_id m thread s = (case or_none (as_id m) of
     Some k \<Rightarrow> (k, s)
   | None \<Rightarrow> (case or_none (as_uuid m) of
       Some k \<Rightarrow> (k, s)
     | None \<Rightarrow> (''auto-'' @ thread @ ''-'' @ str_of_nat (Suc (se_auto s)), s\<lparr>se_auto := Suc (se_auto s)\<rparr>)))"

definition record_last_assistant_text :: "content_block list \<Rightarrow> session \<Rightarrow> session" where
  "record_last_assistant_text bs s =
     (let texts = filter (\<lambda>t. py_strip t \<noteq> []) (List.map_filter cb_text bs)
      in if texts = [] then s else s\<lparr>se_last_text := Some (py_join nl texts)\<rparr>)"

definition USAGE_CATEGORIES :: "string list" where
  "USAGE_CATEGORIES = [''input_tokens'', ''cache_read_input_tokens'', ''cache_creation_input_tokens'', ''output_tokens'']"

definition usage_report_of :: "usage \<Rightarrow> usage_report" where
  "usage_report_of u = zip USAGE_CATEGORIES (map Some [input_tokens u, cache_read_input_tokens u, cache_creation_input_tokens u, output_tokens u])"

definition with_ledger :: "ledger \<Rightarrow> session \<Rightarrow> session" where
  "with_ledger l s = s\<lparr>se_ledger := l\<rparr>"

definition log_model_response :: "content_block list \<Rightarrow> session \<Rightarrow> session" where
  "log_model_response bs s = fold (\<lambda>t. note_event ''model_response'' []) (filter (\<lambda>t. py_strip t \<noteq> []) (List.map_filter cb_text bs)) s"

definition log_usage_shape :: "session \<Rightarrow> session" where
  "log_usage_shape s = (if ''model_usage_shape'' \<in> fst ` set (se_log s) then s else note_event ''model_usage_shape'' [] s)"

definition count_response :: "string \<Rightarrow> string \<Rightarrow> nat \<Rightarrow> session \<Rightarrow> session" where
  "count_response thread k chars s = with_ledger (snd (observe_response thread k chars (se_ledger s)))
     (if (thread, k) \<in> set (se_counted s) then s else s\<lparr>se_counted := se_counted s @ [(thread, k)]\<rparr>)"

definition apply_usage :: "string \<Rightarrow> string \<Rightarrow> usage_report option \<Rightarrow> session \<Rightarrow> session" where
  "apply_usage thread k report s = with_ledger (snd (observe_usage thread k report (se_ledger s))) s"

text \<open>A delta that came before its response is applied now.\<close>

definition apply_pending_usage :: "string \<Rightarrow> string \<Rightarrow> session \<Rightarrow> session" where
  "apply_pending_usage thread k s =
     (apply_usage thread k (map_option usage_report_of (map_of (se_pending_usage s) (thread, k))) s)
       \<lparr>se_pending_usage := filter (\<lambda>(j, _). j \<noteq> (thread, k)) (se_pending_usage s)\<rparr>"

definition observe_assistant_message :: "surroundings \<Rightarrow> assistant_message \<Rightarrow> session \<Rightarrow> session" where
  "observe_assistant_message e m s =
     (let thread = main_or (as_thread m) in
      case assistant_response_id m thread (ensure_ledger_thread thread None 0 s) of (k, s1) \<Rightarrow>
      after_ledger_update thread e (log_usage_shape (apply_pending_usage thread k (apply_usage thread k (as_usage m)
        (count_response thread k (content_chars (as_content m))
          (if thread = ''main'' then record_last_assistant_text (as_content m) s1 else s1))))))"

text \<open>A category of a delta that waits for its response is read under its own name only.\<close>

definition delta_value :: "(string \<times> int option) list \<Rightarrow> string \<Rightarrow> int" where
  "delta_value report category = (case map_of report category of Some (Some n) \<Rightarrow> n | _ \<Rightarrow> 0)"

definition delta_usage :: "(string \<times> int option) list \<Rightarrow> usage" where
  "delta_usage report = \<lparr>input_tokens = delta_value report ''input_tokens'',
     cache_read_input_tokens = delta_value report ''cache_read_input_tokens'',
     cache_creation_input_tokens = delta_value report ''cache_creation_input_tokens'',
     output_tokens = delta_value report ''output_tokens''\<rparr>"

definition stash_usage :: "string \<times> string \<Rightarrow> usage \<Rightarrow> session \<Rightarrow> session" where
  "stash_usage k u s = (let old = (case map_of (se_pending_usage s) k of Some v \<Rightarrow> v | None \<Rightarrow> no_usage)
     in s\<lparr>se_pending_usage := AList.update k (usage_max old u) (se_pending_usage s)\<rparr>)"

definition observe_response_start :: "string option \<Rightarrow> string option \<Rightarrow> session \<Rightarrow> session" where
  "observe_response_start parent response s =
     (let thread = main_or parent; s1 = ensure_ledger_thread thread None 0 s
      in case or_none response of Some k \<Rightarrow> s1\<lparr>se_stream_ids := AList.update thread k (se_stream_ids s1)\<rparr> | None \<Rightarrow> s1)"

definition observe_usage_delta :: "surroundings \<Rightarrow> string option \<Rightarrow> (string \<times> int option) list \<Rightarrow> session \<Rightarrow> session" where
  "observe_usage_delta e parent report s =
     (let thread = main_or parent; s1 = ensure_ledger_thread thread None 0 s
      in case map_of (se_stream_ids s1) thread of
           None \<Rightarrow> s1
         | Some k \<Rightarrow> after_ledger_update thread e
             (if (thread, k) \<in> set (se_counted s1)
              then apply_usage thread k (Some report) s1
              else stash_usage (thread, k) (delta_usage report) s1))"

definition settle_one_and_log :: "string \<Rightarrow> session \<Rightarrow> session" where
  "settle_one_and_log thread s = (case settle_thread thread (se_ledger s) of (ids, l) \<Rightarrow>
     log_newly_settled thread ids (with_ledger l s))"

text \<open>The result of a subagent's call ends its thread.\<close>

definition end_subagent :: "string \<Rightarrow> string \<Rightarrow> session \<Rightarrow> session" where
  "end_subagent thread k s =
     (let s1 = (if k \<noteq> thread \<and> map_of (l_threads (se_ledger s)) k \<noteq> None then settle_one_and_log k s else s)
      in s1\<lparr>se_subagents := map (\<lambda>(j, i). (j, if j = k then i\<lparr>su_running := False\<rparr> else i)) (se_subagents s1)\<rparr>)"

definition observe_user_message :: "surroundings \<Rightarrow> string option \<Rightarrow> content_block list \<Rightarrow> session \<Rightarrow> session" where
  "observe_user_message e parent bs s =
     (let thread = main_or parent;
          s1 = fold (end_subagent thread) (tool_result_ids bs) (ensure_ledger_thread thread None 0 s)
      in after_ledger_update thread e (with_ledger (snd (observe_input thread (content_chars bs) (se_ledger s1))) s1))"

definition settle_all_and_log :: "session \<Rightarrow> session" where
  "settle_all_and_log s = (case settle_all_threads (se_ledger s) of (settled, l) \<Rightarrow>
     fold (\<lambda>(thread, ids). log_newly_settled thread ids) settled (with_ledger l s))"

definition interrupt_ledger :: "session \<Rightarrow> session" where
  "interrupt_ledger s = with_ledger (snd (mark_interrupted (se_ledger s))) s"

definition log_context_compacted :: "string option \<Rightarrow> session \<Rightarrow> session" where
  "log_context_compacted parent s = note_event ''context_compacted'' (main_or parent)
     (s\<lparr>se_ledger := notify_compaction (main_or parent) (se_ledger s), se_compactions := Suc (se_compactions s)\<rparr>)"

definition record_cli_session_id :: "stream_message \<Rightarrow> session \<Rightarrow> session" where
  "record_cli_session_id m s = (case or_none (sm_session m) of Some k \<Rightarrow> s\<lparr>se_cli_session := Some k\<rparr> | None \<Rightarrow> s)"


section \<open>Background tasks\<close>

record finished_task =
  ft_id :: string
  ft_summary :: "string option"
  ft_output :: "string option"

record receiving =
  rv_pending :: "(string \<times> string option) list"
  rv_finished :: "finished_task list"
  rv_deferred :: nat
  rv_turn_after :: bool
  rv_followed_up :: bool
  rv_result :: "result_message option"
  rv_grace :: "rat option"
  rv_models :: "string list"

definition new_receiving :: receiving where
  "new_receiving = \<lparr>rv_pending = [], rv_finished = [], rv_deferred = 0, rv_turn_after = False, rv_followed_up = False,
     rv_result = None, rv_grace = None, rv_models = []\<rparr>"

definition DEFERRING_TASK_TYPES :: "string list" where "DEFERRING_TASK_TYPES = [''local_agent'', ''local_workflow'']"

definition deferring :: "receiving \<Rightarrow> string list" where
  "deferring v = sort (map fst (filter (\<lambda>(k, t). case t of Some x \<Rightarrow> x \<in> set DEFERRING_TASK_TYPES | None \<Rightarrow> False) (rv_pending v)))"

definition drop_tasks :: "string list \<Rightarrow> receiving \<Rightarrow> receiving" where
  "drop_tasks ks v = v\<lparr>rv_pending := filter (\<lambda>(k, _). k \<notin> set ks) (rv_pending v)\<rparr>"

definition finish_task :: "string \<Rightarrow> string option \<Rightarrow> string option \<Rightarrow> receiving \<Rightarrow> receiving" where
  "finish_task k summary output v = drop_tasks [k]
     (if k = [] \<or> k \<in> ft_id ` set (rv_finished v) then v
      else v\<lparr>rv_finished := rv_finished v @ [\<lparr>ft_id = k, ft_summary = summary, ft_output = output\<rparr>]\<rparr>)"

text \<open>A message of a task's life; \<open>ends\<close> are the statuses that the SDK calls terminal. \<open>None\<close>: another message.\<close>

definition observe_background_task :: "(string \<Rightarrow> bool) \<Rightarrow> message_kind \<Rightarrow> receiving \<Rightarrow> receiving option" where
  "observe_background_task ends m v = (case m of
     Task_started k type \<Rightarrow> Some (if k = [] \<or> map_of (rv_pending v) k \<noteq> None then v else v\<lparr>rv_pending := rv_pending v @ [(k, type)]\<rparr>)
   | Task_notified k status summary output \<Rightarrow> Some (if ends status then finish_task k summary output v else v)
   | Task_updated k status \<Rightarrow> Some (case status of Some x \<Rightarrow> if ends x then finish_task k None None v else v | None \<Rightarrow> v)
   | _ \<Rightarrow> None)"

definition followup_line :: "finished_task \<Rightarrow> string" where
  "followup_line t = (let k = (if ft_id t = [] then ''unknown'' else ft_id t);
       summary = shown_or (ft_summary t) (''task '' @ k)
     in ''- '' @ k @ '': '' @ summary @ (case or_none (ft_output t) of Some f \<Rightarrow> '' (full output in '' @ f @ '')'' | None \<Rightarrow> []))"

definition background_tasks_followup_prompt :: "finished_task list \<Rightarrow> string" where
  "background_tasks_followup_prompt finished =
     ''Your background agents finished while the conversation was idle:'' @ nl @ py_join nl (map followup_line finished) @ nl
     @ ''Read their output, incorporate the results into the implementation, and finish the work that depended on ''
     @ ''them instead of waiting.''"


section \<open>Calls of the client\<close>

datatype session_call =
    Connect string
  | Read_usage
  | Next_message "rat option"
  | Interrupt
  | Drain
  | Query string
  | Stop_task string
  | Disconnect
  | Reap

datatype session_answer =
    Went_well
  | Arrived stream_message
  | Stream_ended
  | Nothing_yet
  | Drained "result_message option"
  | Broken string
  | Timed_out

text \<open>\<open>Cancelled\<close> is the end of a surrounding timeout; every other exception goes by its type.\<close>

datatype session_error = Cancelled | Failed string

type_synonym moment = "surroundings \<times> session"

type_synonym 'a session_prog = "(session_call \<times> session, session_answer \<times> moment, session_error \<times> moment, 'a) prog"

definition await :: "session_call \<Rightarrow> (session_answer \<Rightarrow> 'a option) \<Rightarrow> session \<Rightarrow> ('a \<times> moment) session_prog" where
  "await q sel s = ask (q, s) (\<lambda>(r, m). case r of
     Timed_out \<Rightarrow> Inl (Cancelled, m)
   | Broken name \<Rightarrow> Inl (Failed name, m)
   | _ \<Rightarrow> (case sel r of Some x \<Rightarrow> Inr (x, m) | None \<Rightarrow> Inl (Failed ''TypeError'', m)))"

definition tell_client :: "session_call \<Rightarrow> session \<Rightarrow> moment session_prog" where
  "tell_client q s = bind (await q (\<lambda>r. Some ()) s) (\<lambda>(_, m). Return m)"

text \<open>An exception becomes a value, a cancellation passes.\<close>

definition attempted :: "'a session_prog \<Rightarrow> (string \<times> moment + 'a) session_prog" where
  "attempted p = handle (bind p (\<lambda>x. Return (Inr x)))
     (\<lambda>(x, m). case x of Failed name \<Rightarrow> Return (Inl (name, m)) | Cancelled \<Rightarrow> Raise (Cancelled, m))"

text \<open>\<open>_drain\<close> swallows exceptions; the messages it reads are discarded but for the first result.\<close>

definition drain :: "session \<Rightarrow> (result_message option \<times> moment) session_prog" where
  "drain s = bind (attempted (await Drain (\<lambda>r. case r of Drained x \<Rightarrow> Some x | _ \<Rightarrow> None) s))
     (\<lambda>x. case x of Inl (name, m) \<Rightarrow> Return (None, m) | Inr y \<Rightarrow> Return y)"

primrec stop_tasks :: "string list \<Rightarrow> moment \<Rightarrow> (string list \<times> moment) session_prog" where
  "stop_tasks [] m = Return ([], m)"
| "stop_tasks (k # ks) m = bind (attempted (tell_client (Stop_task k) (snd m))) (\<lambda>x. case x of
     Inl (name, e, s) \<Rightarrow> stop_tasks ks (e, note_event ''background_task_stop_failed'' k s)
   | Inr m1 \<Rightarrow> bind (stop_tasks ks m1) (\<lambda>(stopped, m2). Return (k # stopped, m2)))"

definition stop_background_tasks :: "string list \<Rightarrow> moment \<Rightarrow> moment session_prog" where
  "stop_background_tasks ks m = (if ks = [] then Return m
     else bind (stop_tasks ks m) (\<lambda>(stopped, e, s). Return (e, note_event ''background_tasks_stopped'' (py_join '','' stopped) s)))"

text \<open>The wake-up prompt: at most once, after a deferred result, when all tasks settled and no turn followed.\<close>

definition wants_followup :: "receiving \<Rightarrow> bool" where
  "wants_followup v \<longleftrightarrow> \<not> rv_followed_up v \<and> deferring v = [] \<and> rv_finished v \<noteq> [] \<and> 0 < rv_deferred v \<and> \<not> rv_turn_after v"

definition background_followup :: "receiving \<Rightarrow> moment \<Rightarrow> (receiving option \<times> moment) session_prog" where
  "background_followup v m = (if \<not> wants_followup v then Return (None, m)
     else bind (tell_client (Query (background_tasks_followup_prompt (rv_finished v)))
            (note_event ''background_tasks_followup'' (py_join '','' (sort (map ft_id (rv_finished v)))) (snd m)))
          (\<lambda>m1. Return (Some (v\<lparr>rv_followed_up := True\<rparr>), m1)))"


section \<open>The loop\<close>

type_synonym terminal = "result_message option \<times> string list"

text \<open>Interrupt, drain, and one follow-up query; \<open>None\<close> goes on with the stream.\<close>

definition operator_fallback ::
  "(moment \<Rightarrow> (terminal \<times> moment) session_prog) \<Rightarrow> string list \<Rightarrow> moment \<Rightarrow> (terminal option \<times> moment) session_prog" where
  "operator_fallback again models m = (case m of (e, s0) \<Rightarrow>
     let s = s0\<lparr>se_fallback_used := True\<rparr> in
     if se_request s = None then Return (None, e, s)
     else if hard_limit_reached s
     then Return (None, e, note_event ''operator_handoff_fallback_blocked'' (request_label s) (s\<lparr>se_fallback_blocked := True\<rparr>))
     else bind (tell_client Interrupt (note_event ''operator_handoff_fallback'' (request_label s)
                  (report_operator ''delivered'' (capture_handoff_baseline e (s\<lparr>se_told := True, se_via := Some ''fallback''\<rparr>)))))
       (\<lambda>m1. bind (drain (snd m1)) (\<lambda>(_, m2).
        bind (attempted (bind (tell_client (Query (operator_handoff_followup_prompt (se_issue (snd m2)) (se_attempt (snd m2)))) (snd m2)) again))
          (\<lambda>x. case x of
             Inl (name, m3) \<Rightarrow> Return (None, m3)
           | Inr ((result, others), m3) \<Rightarrow> Return (Some (result, models @ others), m3)))))"

definition expire :: "string list \<Rightarrow> moment \<Rightarrow> (terminal \<times> moment) session_prog" where
  "expire models m = bind (tell_client Interrupt (interrupt_ledger (snd m))) (\<lambda>m1. bind (drain (snd m1)) (\<lambda>(_, e, s).
     let s1 = s\<lparr>se_expired := True\<rparr>
     in Return ((None, models), e, note_event ''operator_handoff_model_deadline_expired'' (operator_step_trail s1) s1)))"

definition stop_at_ceiling :: "string list \<Rightarrow> moment \<Rightarrow> (terminal \<times> moment) session_prog" where
  "stop_at_ceiling models m = bind (tell_client Interrupt (interrupt_ledger (snd m))) (\<lambda>m1. bind (drain (snd m1)) (\<lambda>(r, e, s).
     Return ((r, models), e, settle_all_and_log s)))"

text \<open>A result is terminal unless deferring tasks run and the note is not committed.\<close>

definition observe_session_result ::
  "receiving \<Rightarrow> result_message \<Rightarrow> moment \<Rightarrow> ((terminal + receiving) \<times> moment) session_prog" where
  "observe_session_result v r m = (case m of (e, s) \<Rightarrow>
     if deferring v \<noteq> [] \<and> \<not> se_committed s
     then Return (Inr (v\<lparr>rv_deferred := Suc (rv_deferred v), rv_result := Some r,
              rv_grace := (case rv_grace v of Some g \<Rightarrow> Some g | None \<Rightarrow> Some (en_monotonic e))\<rparr>), e,
            note_event ''background_result_deferred'' (py_join '','' (deferring v)) (settle_all_and_log s))
     else bind (stop_background_tasks (sort (map fst (rv_pending v))) (e, settle_all_and_log s))
            (\<lambda>m1. Return (Inl (Some r, rv_models v), m1)))"

text \<open>A compaction is logged and arms the instructions before the context is read again, which may fail.\<close>

definition observe_compaction :: "message_kind \<Rightarrow> moment \<Rightarrow> moment session_prog" where
  "observe_compaction k m = (case k of
     Compacted parent \<Rightarrow> bind (attempted (tell_client Read_usage (arm_reinject_after_compaction (log_context_compacted parent (snd m)))))
       (\<lambda>x. case x of Inl (name, m1) \<Rightarrow> Return m1 | Inr m1 \<Rightarrow> Return m1)
   | _ \<Rightarrow> Return m)"

definition count_message :: "surroundings \<Rightarrow> message_kind \<Rightarrow> session \<Rightarrow> session" where
  "count_message e k s = (case k of
     Assistant_message a \<Rightarrow> observe_assistant_message e a (log_model_response (as_content a) s)
   | Response_started parent response \<Rightarrow> observe_response_start parent response s
   | Usage_delta parent report \<Rightarrow> observe_usage_delta e parent report s
   | User_message parent bs \<Rightarrow> observe_user_message e parent bs s
   | _ \<Rightarrow> s)"

definition turn_after :: "message_kind \<Rightarrow> receiving \<Rightarrow> receiving" where
  "turn_after k v = (case k of Assistant_message a \<Rightarrow> if 0 < rv_deferred v then v\<lparr>rv_turn_after := True\<rparr> else v | _ \<Rightarrow> v)"

definition seen_model :: "message_kind \<Rightarrow> receiving \<Rightarrow> receiving" where
  "seen_model k v = (case k of
     Assistant_message a \<Rightarrow> (case as_model a of Some x \<Rightarrow> v\<lparr>rv_models := rv_models v @ [x]\<rparr> | None \<Rightarrow> v) | _ \<Rightarrow> v)"

text \<open>The message of a task that leaves none behind a deferred result is logged.\<close>

definition log_settled_tasks :: "receiving \<Rightarrow> receiving \<Rightarrow> session \<Rightarrow> session" where
  "log_settled_tasks v v1 s = (if rv_pending v \<noteq> [] \<and> rv_pending v1 = [] \<and> 0 < rv_deferred v
     then note_event ''background_tasks_settled'' (py_join '','' (sort (map ft_id (rv_finished v1)))) s else s)"

definition end_of_message :: "message_kind \<Rightarrow> receiving \<Rightarrow> moment \<Rightarrow> ((terminal + receiving) \<times> moment) session_prog" where
  "end_of_message k v m = (if se_ceiling (snd m)
     then bind (stop_at_ceiling (rv_models v) m) (\<lambda>(t, m1). Return (Inl t, m1))
     else Return (Inr (seen_model k v), m))"

definition observe_message ::
  "(string \<Rightarrow> bool) \<Rightarrow> stream_message \<Rightarrow> receiving \<Rightarrow> moment \<Rightarrow> ((terminal + receiving) \<times> moment) session_prog" where
  "observe_message ends message v m =
     (let k = sm_kind message in
      bind (observe_compaction k (fst m, record_cli_session_id message (snd m))) (\<lambda>(e, s).
      case observe_background_task ends k v of
        Some v1 \<Rightarrow> end_of_message k v1 (e, log_settled_tasks v v1 s)
      | None \<Rightarrow> (case k of
          Result_message r \<Rightarrow> observe_session_result v r (e, s)
        | _ \<Rightarrow> end_of_message k (turn_after k v) (e, count_message e k s))))"

definition grace_over :: "receiving \<Rightarrow> moment \<Rightarrow> bool" where
  "grace_over v m = (case rv_grace v of
     None \<Rightarrow> False
   | Some g \<Rightarrow> deferring v \<noteq> [] \<and> of_int (rc_background_task_grace_seconds (se_config (snd m))) \<le> en_monotonic (fst m) - g)"

definition end_of_grace :: "receiving \<Rightarrow> moment \<Rightarrow> ((terminal + receiving) \<times> moment) session_prog" where
  "end_of_grace v m = bind (stop_background_tasks (deferring v) m) (\<lambda>m1.
     let v1 = drop_tasks (deferring v) v
     in bind (background_followup v1 m1) (\<lambda>(again, m2). case again of
          Some v2 \<Rightarrow> Return (Inr v2, m2)
        | None \<Rightarrow> bind (stop_background_tasks (sort (map fst (rv_pending v1))) m2)
            (\<lambda>m3. Return (Inl (rv_result v1, rv_models v1), m3))))"

definition end_of_stream :: "receiving \<Rightarrow> moment \<Rightarrow> ((terminal + receiving) \<times> moment) session_prog" where
  "end_of_stream v m = bind (background_followup v m) (\<lambda>(again, m1). case again of
     Some v1 \<Rightarrow> Return (Inr v1, m1) | None \<Rightarrow> Return (Inl (None, rv_models v), m1))"

definition message_wait :: "receiving \<Rightarrow> moment \<Rightarrow> rat option" where
  "message_wait v m = (let wait = operator_stream_wait (fst m) (snd m) in
     case rv_grace v of
       None \<Rightarrow> wait
     | Some g \<Rightarrow>
         if deferring v = [] then wait
         else let remaining = max (of_int (rc_background_task_grace_seconds (se_config (snd m))) - (en_monotonic (fst m) - g)) 0
           in Some (case wait of None \<Rightarrow> remaining | Some w \<Rightarrow> min w remaining))"

text \<open>One round: an action of the operator that is due, the end of the grace, or the next message.\<close>

definition receive_round ::
  "(moment \<Rightarrow> (terminal \<times> moment) session_prog) \<Rightarrow> (string \<Rightarrow> bool) \<Rightarrow> receiving \<Rightarrow> moment
     \<Rightarrow> ((terminal + receiving) \<times> moment) session_prog" where
  "receive_round again ends v m0 =
     (let m = (fst m0, poll_operator_handoff (fst m0) (snd m0)) in
      case operator_due_action (fst m) (snd m) of
        Some Fallback \<Rightarrow> bind (operator_fallback again (rv_models v) m) (\<lambda>(t, m1).
          Return (case t of Some x \<Rightarrow> Inl x | None \<Rightarrow> Inr v, m1))
      | Some Expire \<Rightarrow> bind (expire (rv_models v) m) (\<lambda>(t, m1). Return (Inl t, m1))
      | None \<Rightarrow>
          if grace_over v m then end_of_grace v m
          else bind (await (Next_message (message_wait v m))
                 (\<lambda>r. case r of Arrived x \<Rightarrow> Some (Some (Some x)) | Stream_ended \<Rightarrow> Some (Some None) | Nothing_yet \<Rightarrow> Some None | _ \<Rightarrow> None) (snd m))
            (\<lambda>(x, m1). case x of
               None \<Rightarrow> Return (Inr v, m1)
             | Some None \<Rightarrow> end_of_stream v m1
             | Some (Some message) \<Rightarrow> observe_message ends message v m1))"

text \<open>At most \<open>n\<close> rounds: the surrounding timeout ends every longer wait.\<close>

fun receive_terminal :: "nat \<Rightarrow> (string \<Rightarrow> bool) \<Rightarrow> receiving \<Rightarrow> moment \<Rightarrow> (terminal \<times> moment) session_prog" where
  "receive_terminal 0 ends v m = Raise (Cancelled, m)"
| "receive_terminal (Suc n) ends v m =
     bind (receive_round (receive_terminal n ends new_receiving) ends v m) (\<lambda>(x, m1). case x of
       Inl t \<Rightarrow> Return (t, m1) | Inr v1 \<Rightarrow> receive_terminal n ends v1 m1)"

end
