(* ===== verification/Session_Execute.thy ===== *)
theory Session_Execute
  imports Session_Stream
begin

text \<open>
  A whole session (model_execution.py, \<open>execute\<close>): the state it starts with, the classification of its result, the one
  follow-up after a limit, and the evidence that the runner of the attempt receives.
\<close>

section \<open>Evidence\<close>

text \<open>What the SDK and Python's printing contribute: the terminal statuses of tasks, and how a number is shown.\<close>

record session_facts =
  sf_ends :: "string \<Rightarrow> bool"
  sf_show :: "rat \<Rightarrow> string"

definition rounded_text :: "rat \<Rightarrow> string" where
  "rounded_text x = str_of_int (round_half_even x)"

definition elapsed_seconds :: "surroundings \<Rightarrow> rat \<Rightarrow> int" where
  "elapsed_seconds e started = max 0 (truncated (en_now e - started))"

definition main_turns :: "ledger \<Rightarrow> int" where
  "main_turns l = int (length (main_responses l))"

text \<open>The figures of the reconciled budget that the handoff note of the runtime shows.\<close>

definition budget_facts_of :: "session_facts \<Rightarrow> rat \<Rightarrow> surroundings \<Rightarrow> session \<Rightarrow> budget_facts" where
  "budget_facts_of f started e s = (let l = se_ledger s in
     \<lparr>bf_soft_crossed = se_crossed s, bf_soft_at = map_option round_half_even (se_crossed_at s),
      bf_hit_rate = map_option (sf_show f) (cs_hit_rate (main_cache_stats None l)),
      bf_budget_tokens = Some (round_half_even (budget_tokens l)),
      bf_max_budget_tokens = Some (rc_max_budget_tokens (se_config s)),
      bf_peak_context = Some (round_half_even (l_peak l)), bf_turns = Some (main_turns l),
      bf_elapsed = Some (str_of_int (elapsed_seconds e started))\<rparr>)"

definition reconcile_token_budget :: "(string \<times> usage_report) list option \<Rightarrow> session \<Rightarrow> session" where
  "reconcile_token_budget usage s = note_event ''token_budget_reconciled'' [] (with_ledger (snd (reconcile usage (se_ledger s))) s)"

definition evidence ::
  "session_facts \<Rightarrow> rat \<Rightarrow> model_status \<Rightarrow> string \<Rightarrow> string option \<Rightarrow> string option \<Rightarrow> (string \<times> usage_report) list option
     \<Rightarrow> moment \<Rightarrow> model_execution \<times> moment" where
  "evidence f started status explanation stop_reason terminal_reason usage m = (case m of (e, s0) \<Rightarrow>
     let s = note_event ''model_execution_finished'' (status_value status) (reconcile_token_budget usage s0)
     in (\<lparr>mx_status = status, mx_explanation = explanation, mx_stop_reason = stop_reason, mx_terminal_reason = terminal_reason,
          mx_token_ceiling = se_ceiling s, mx_skills = se_skills s, mx_budget = Some (budget_facts_of f started e s),
          mx_last_text = se_last_text s, mx_edited_files = se_edited s, mx_tool_calls = map snd (se_trail s),
          mx_bash_calls = map snd (se_bash s)\<rparr>, e, s))"

definition hard_ceiling_explanation :: "session \<Rightarrow> string" where
  "hard_ceiling_explanation s = ''Token budget reached the hard ceiling (budget_tokens='' @ rounded_text (budget_tokens (se_ledger s))
     @ ''; max_budget_tokens='' @ str_of_int (rc_max_budget_tokens (se_config s)) @ ''); ''
     @ ''the attempt was stopped unconditionally and no further implementation work was permitted.''"

definition ceiling_evidence ::
  "session_facts \<Rightarrow> rat \<Rightarrow> result_message option \<Rightarrow> moment \<Rightarrow> model_execution \<times> moment" where
  "ceiling_evidence f started r m = evidence f started MODEL_LIMIT_REACHED (hard_ceiling_explanation (snd m))
     (Option.bind r re_stop_reason) (Option.bind r re_terminal_reason) (Option.bind r re_usage) m"


section \<open>Results\<close>

definition all_models :: "string list \<Rightarrow> result_message \<Rightarrow> string list" where
  "all_models observed r = rev (remdups (rev (observed @ (case re_usage r of Some u \<Rightarrow> map fst u | None \<Rightarrow> []))))"

definition aborted :: "result_message \<Rightarrow> bool" where
  "aborted r \<longleftrightarrow> re_stop_reason r = Some ''timeout''
     \<or> (case re_stop_reason r of Some x \<Rightarrow> py_startswith ''aborted_'' x | None \<Rightarrow> False)
     \<or> re_terminal_reason r \<in> {Some ''aborted_streaming'', Some ''aborted_tools''}"

definition out_of_turns :: "result_message \<Rightarrow> bool" where
  "out_of_turns r \<longleftrightarrow> re_terminal_reason r = Some ''max_turns'' \<or> re_subtype r = Some ''error_max_turns''
     \<or> re_stop_reason r = Some ''max_turns_exceeded''"

definition over_cost :: "runtime_config \<Rightarrow> result_message \<Rightarrow> bool" where
  "over_cost c r \<longleftrightarrow> re_is_error r \<and> (case re_cost r of Some x \<Rightarrow> of_int (rc_max_budget_usd c) \<le> x | None \<Rightarrow> False)"

definition out_of_budget :: "runtime_config \<Rightarrow> result_message \<Rightarrow> bool" where
  "out_of_budget c r \<longleftrightarrow> re_terminal_reason r = Some ''budget_exhausted'' \<or> re_subtype r = Some ''error_max_budget_usd''
     \<or> re_stop_reason r = Some ''max_budget_usd_exceeded'' \<or> over_cost c r"

text \<open>The prediction before the follow-up, in the order of its tests.\<close>

definition is_model_limit :: "runtime_config \<Rightarrow> string list \<Rightarrow> result_message \<Rightarrow> bool" where
  "is_model_limit c observed r =
     (if list_ex (\<lambda>x. x \<noteq> rc_model c) (all_models observed r) then False
      else if aborted r then False
      else if out_of_turns r \<or> out_of_budget c r then True
      else re_is_error r)"

text \<open>What a missing value prints as.\<close>

definition shown_option :: "string option \<Rightarrow> string" where
  "shown_option t = (case t of None \<Rightarrow> ''None'' | Some x \<Rightarrow> x)"

definition repr_option :: "string option \<Rightarrow> string" where
  "repr_option t = (case t of None \<Rightarrow> ''None'' | Some x \<Rightarrow> py_repr x)"

definition OPERATOR_DONE :: string where "OPERATOR_DONE = ''Model invoked the handoff skill after an operator handoff request.''"
definition SKILL_DONE :: string where "SKILL_DONE = ''Model invoked the handoff skill after a token soft-threshold instruction.''"
definition NOTE_DONE :: string where "NOTE_DONE = ''Model committed the handoff note after a token soft-threshold instruction.''"
definition LIMIT_DONE :: string where "LIMIT_DONE = ''Model invoked the handoff skill after reaching a turns/timeout limit.''"

definition cost_explanation :: "session_facts \<Rightarrow> result_message \<Rightarrow> string" where
  "cost_explanation f r = ''Model execution reached the hard cost ceiling (total_cost_usd=''
     @ (case re_cost r of Some x \<Rightarrow> sf_show f x | None \<Rightarrow> ''None'') @ '', num_turns='' @ re_turns r
     @ ''); no further implementation work was permitted.''"

definition error_explanation :: "result_message \<Rightarrow> string" where
  "error_explanation r = ''Claude SDK returned an error result (stop_reason='' @ repr_option (re_stop_reason r)
     @ '', terminal_reason='' @ repr_option (re_terminal_reason r) @ '', subtype='' @ repr_option (re_subtype r)
     @ '', api_error_status='' @ re_api_error r @ '', errors='' @ re_errors r @ '').''"

text \<open>The status and explanation of a result when the hard ceiling was not reached.\<close>

definition judge_result :: "session_facts \<Rightarrow> session \<Rightarrow> string list \<Rightarrow> result_message \<Rightarrow> model_status \<times> string" where
  "judge_result f s observed r =
     (let mismatches = filter (\<lambda>x. x \<noteq> rc_model (se_config s)) (all_models observed r) in
      if se_told s \<and> main_thread_handoff_invoked s then (HANDOFF_REQUESTED, OPERATOR_DONE)
      else if token_handoff_done s then (HANDOFF_REQUESTED, if main_thread_handoff_invoked s then SKILL_DONE else NOTE_DONE)
      else if mismatches \<noteq> [] then (MODEL_INFRASTRUCTURE_ERROR, ''Observed model mismatch: '' @ py_join '', '' mismatches @ ''.'')
      else if out_of_turns r then (MODEL_LIMIT_REACHED, ''Model execution reached max_turns.'')
      else if aborted r then (MODEL_INFRASTRUCTURE_ERROR,
        ''Model execution stopped with '' @ shown_option (if or_none (re_terminal_reason r) \<noteq> None then re_terminal_reason r else re_stop_reason r) @ ''.'')
      else if out_of_budget (se_config s) r then (MODEL_LIMIT_REACHED, cost_explanation f r)
      else if re_is_error r then (MODEL_LIMIT_REACHED, error_explanation r)
      else if se_crossed s then (MODEL_LIMIT_REACHED,
        ''Token soft threshold was crossed without a main-thread handoff, so the attempt ends incomplete instead of succeeding.'')
      else (MODEL_SUCCEEDED, ''Claude SDK completed the implementation workflow.''))"

definition classify ::
  "session_facts \<Rightarrow> rat \<Rightarrow> result_message \<Rightarrow> string list \<Rightarrow> moment \<Rightarrow> model_execution \<times> moment" where
  "classify f started r observed m =
     (if se_ceiling (snd m) then ceiling_evidence f started (Some r) m
      else (case judge_result f (snd m) observed r of (status, explanation) \<Rightarrow>
        evidence f started status explanation (re_stop_reason r) (re_terminal_reason r) (re_usage r) m))"


section \<open>The follow-up\<close>

text \<open>Whether one more response of the main thread would overrun the ceiling.\<close>

definition cost_followup_cannot_fit :: "session \<Rightarrow> bool" where
  "cost_followup_cannot_fit s \<longleftrightarrow> map_of (l_threads (se_ledger s)) ''main'' \<noteq> None
     \<and> of_int (rc_max_budget_tokens (se_config s)) - budget_tokens (se_ledger s) < main_context (se_ledger s)"

definition needs_cost_handoff_followup :: "string list \<Rightarrow> result_message \<Rightarrow> session \<Rightarrow> bool \<times> session" where
  "needs_cost_handoff_followup observed r s =
     (if token_handoff_done s \<or> \<not> se_crossed s then (False, s)
      else if hard_limit_reached s \<or> cost_followup_cannot_fit s
      then (False, note_event ''token_soft_threshold_handoff_followup_blocked'' [] s)
      else (\<not> re_is_error r \<and> \<not> aborted r \<and> \<not> list_ex (\<lambda>x. x \<noteq> rc_model (se_config s)) (all_models observed r), s))"

text \<open>
  One query with a prompt; a failure of any kind, a timeout included, is no handoff. Counted are the skills of the
  whole session and, where allowed, the commit of the note.
\<close>

definition handoff_followup ::
  "session_facts \<Rightarrow> rat \<Rightarrow> nat \<Rightarrow> string \<Rightarrow> string \<Rightarrow> bool \<Rightarrow> moment \<Rightarrow> (model_execution option \<times> moment) session_prog" where
  "handoff_followup f started n prompt success allow_note m =
     bind (handle (bind (tell_client (Query prompt) (snd m)) (\<lambda>m1. bind (receive_terminal n (sf_ends f) new_receiving m1)
         (\<lambda>((r, models), m2). Return (r, m2))))
       (\<lambda>(x, m1). Return (None, m1)))
     (\<lambda>(r, m2). case r of
        None \<Rightarrow> Return (None, m2)
      | Some x \<Rightarrow>
          if main_thread_handoff_invoked (snd m2) \<or> allow_note \<and> se_committed (snd m2)
          then (case evidence f started HANDOFF_REQUESTED
                  (if allow_note \<and> se_committed (snd m2) \<and> \<not> main_thread_handoff_invoked (snd m2) then NOTE_DONE else success)
                  (re_stop_reason x) None (re_usage x) m2 of (ev, m3) \<Rightarrow> Return (Some ev, m3))
          else Return (None, m2))"


section \<open>The session\<close>

definition new_session ::
  "runtime_config \<Rightarrow> int option \<Rightarrow> string option \<Rightarrow> string option \<Rightarrow> string option \<Rightarrow> bool \<Rightarrow> nat \<Rightarrow> session" where
  "new_session c issue attempt_id branch base watched body_length =
     \<lparr>se_config = c, se_issue = issue, se_attempt = attempt_id, se_directory = True, se_branch = branch, se_base = base,
      se_watched = watched, se_skills = [], se_reviews = 0, se_nudged = False, se_crossed = False, se_crossed_at = None,
      se_rule = None, se_effective = None, se_ceiling = False, se_delivered = False, se_committed = False, se_baseline = None,
      se_reinject = False, se_operator_reinject = False, se_snapshot = None, se_running = [], se_stopped = [],
      se_request = None, se_told = False, se_via = None, se_fallback_used = False, se_fallback_blocked = False,
      se_begun = False, se_expired = False, se_cli_session = None, se_last_text = None, se_edited = [], se_calls = 0,
      se_trail = [], se_trail_pending = [], se_bash = [], se_bash_pending = [],
      se_ledger = snd (start_thread ''main'' ''main'' body_length None default_ledger),
      se_stream_ids = [], se_pending_usage = [], se_counted = [], se_logged = [], se_degraded = False,
      se_cache_checked = False, se_auto = 0, se_subagents = [], se_compactions = 0, se_reports = [],
      se_log = [(''model_execution_started'', [])]\<rparr>"

text \<open>What the session ends with before its client is closed: evidence, or a result that is still to be classified.\<close>

datatype session_end = Decided model_execution | Undecided "result_message option" "string list"

definition or_undecided ::
  "result_message option \<Rightarrow> string list \<Rightarrow> (model_execution option \<times> moment) session_prog \<Rightarrow> (session_end \<times> moment) session_prog" where
  "or_undecided r observed p = bind p (\<lambda>(x, m). Return (case x of Some ev \<Rightarrow> Decided ev | None \<Rightarrow> Undecided r observed, m))"

definition decided :: "model_execution \<times> moment \<Rightarrow> (session_end \<times> moment) session_prog" where
  "decided x = Return (Decided (fst x), snd x)"

definition TIMEOUT_EXPLANATION :: string where
  "TIMEOUT_EXPLANATION = ''Model execution exceeded MODEL_TIMEOUT and was interrupted.''"

text \<open>The timeout of the session: interrupt, drain, and one follow-up unless the ceiling was reached.\<close>

definition after_timeout :: "session_facts \<Rightarrow> rat \<Rightarrow> nat \<Rightarrow> moment \<Rightarrow> (session_end \<times> moment) session_prog" where
  "after_timeout f started n m =
     bind (tell_client Interrupt (interrupt_ledger (snd m))) (\<lambda>m1. bind (drain (snd m1)) (\<lambda>(_, m2).
     if se_ceiling (snd m2) then decided (ceiling_evidence f started None m2)
     else bind (handoff_followup f started n (limit_handoff_followup_prompt (se_issue (snd m2)) (se_attempt (snd m2))) LIMIT_DONE False m2)
       (\<lambda>(x, m3). case x of
          Some ev \<Rightarrow> Return (Decided ev, m3)
        | None \<Rightarrow> decided (evidence f started MODEL_INFRASTRUCTURE_ERROR TIMEOUT_EXPLANATION None None None m3))))"

definition token_followup :: "session_facts \<Rightarrow> rat \<Rightarrow> nat \<Rightarrow> moment \<Rightarrow> (model_execution option \<times> moment) session_prog" where
  "token_followup f started n m = (case m of (e, s0) \<Rightarrow>
     let s = refresh_snapshot e (note_event ''token_soft_threshold_handoff_followup'' [] s0)
     in handoff_followup f started n (cost_handoff_followup_prompt (se_issue s) (se_attempt s) (se_snapshot s)) SKILL_DONE True (e, s))"

definition after_stream :: "session_facts \<Rightarrow> rat \<Rightarrow> nat \<Rightarrow> terminal \<Rightarrow> moment \<Rightarrow> (session_end \<times> moment) session_prog" where
  "after_stream f started n t m = (case t of (r, observed) \<Rightarrow>
     if se_ceiling (snd m) then decided (ceiling_evidence f started r m)
     else (case r of
         None \<Rightarrow> Return (Undecided None observed, m)
       | Some x \<Rightarrow>
           if is_model_limit (se_config (snd m)) observed x
           then or_undecided r observed
             (handoff_followup f started n (limit_handoff_followup_prompt (se_issue (snd m)) (se_attempt (snd m))) LIMIT_DONE False m)
           else (case needs_cost_handoff_followup observed x (snd m) of (needed, s) \<Rightarrow>
             if needed then or_undecided r observed (token_followup f started n (fst m, s))
             else Return (Undecided r observed, (fst m, s)))))"

text \<open>The part under the session's timeout; a \<open>TimeoutError\<close> of the SDK is taken for it.\<close>

definition timed_stream :: "session_facts \<Rightarrow> rat \<Rightarrow> nat \<Rightarrow> moment \<Rightarrow> (session_end \<times> moment) session_prog" where
  "timed_stream f started n m =
     bind (handle (bind (receive_terminal n (sf_ends f) new_receiving m) (\<lambda>(t, m1). Return (Some t, m1)))
       (\<lambda>(x, m1). if x = Cancelled \<or> x = Failed ''TimeoutError'' then Return (None, m1) else Raise (x, m1)))
     (\<lambda>(t, m1). case t of Some t \<Rightarrow> after_stream f started n t m1 | None \<Rightarrow> after_timeout f started n m1)"

definition connected_session :: "session_facts \<Rightarrow> rat \<Rightarrow> nat \<Rightarrow> string \<Rightarrow> moment \<Rightarrow> (session_end \<times> moment) session_prog" where
  "connected_session f started n body m =
     bind (tell_client (Connect (''/implement'' @ nl @ nl @ body)) (snd m)) (\<lambda>m1.
     bind (attempted (tell_client Read_usage (snd m1))) (\<lambda>x.
     timed_stream f started n (case x of Inl (name, m2) \<Rightarrow> m2 | Inr m2 \<Rightarrow> m2)))"

text \<open>\<open>finally\<close>: the client is closed and the processes are reaped, whatever happened; neither failure counts.\<close>

definition close_session :: "moment \<Rightarrow> moment session_prog" where
  "close_session m =
     bind (attempted (tell_client Disconnect (snd m))) (\<lambda>x.
     bind (attempted (tell_client Reap (case x of Inl (name, e, s) \<Rightarrow> note_event ''client_disconnect_failed'' name s | Inr (e, s) \<Rightarrow> s)))
       (\<lambda>y. Return (case y of Inl (name, e, s) \<Rightarrow> (e, note_event ''attempt_process_reap_failed'' name s) | Inr m1 \<Rightarrow> m1)))"

definition failed_session :: "session_facts \<Rightarrow> rat \<Rightarrow> session_error \<Rightarrow> moment \<Rightarrow> model_execution \<times> moment" where
  "failed_session f started x m = evidence f started MODEL_INFRASTRUCTURE_ERROR
     (''Claude SDK execution failed: '' @ (case x of Failed name \<Rightarrow> name | Cancelled \<Rightarrow> ''CancelledError'') @ ''.'') None None None m"

definition conclude_session ::
  "session_facts \<Rightarrow> rat \<Rightarrow> (session_error \<times> moment) + (session_end \<times> moment) \<Rightarrow> moment \<Rightarrow> model_execution \<times> moment" where
  "conclude_session f started outcome m = (case outcome of
     Inl (x, _) \<Rightarrow> failed_session f started x m
   | Inr (Decided ev, _) \<Rightarrow> (ev, m)
   | Inr (Undecided None observed, _) \<Rightarrow>
       if se_expired (snd m) \<and> se_request (snd m) \<noteq> None
       then evidence f started OPERATOR_HANDOFF_EXPIRED (operator_expired_explanation (snd m)) None None None m
       else evidence f started MODEL_INFRASTRUCTURE_ERROR ''Claude SDK stream ended without a terminal ResultMessage.'' None None None m
   | Inr (Undecided (Some r) observed, _) \<Rightarrow> classify f started r observed m)"

definition moment_of :: "(session_error \<times> moment) + (session_end \<times> moment) \<Rightarrow> moment" where
  "moment_of outcome = (case outcome of Inl (_, m) \<Rightarrow> m | Inr (_, m) \<Rightarrow> m)"

text \<open>A session from its first state to its evidence; \<open>n\<close> bounds the rounds of each reading of the stream.\<close>

definition execute_session :: "session_facts \<Rightarrow> nat \<Rightarrow> string \<Rightarrow> moment \<Rightarrow> (model_execution \<times> moment) session_prog" where
  "execute_session f n body m = (let started = en_now (fst m) in
     bind (handle (bind (connected_session f started n body m) (\<lambda>x. Return (Inr x))) (\<lambda>x. Return (Inl x))) (\<lambda>outcome.
     bind (close_session (moment_of outcome)) (\<lambda>m1. Return (conclude_session f started outcome m1))))"

end
