(* ===== verification/Session_Laws.thy ===== *)
theory Session_Laws
  imports Session_Execute
begin

text \<open>
  What every step of a session keeps: the flags of the two handoffs imply each other as the code assumes, a handoff
  counts from the main thread only, no subagent runs after the threshold, and the trails stay bounded. The steps are
  those of the hooks and of the stream; \<open>sound\<close> carries the invariant through the programs.
\<close>

section \<open>The invariant\<close>

definition flags_ok :: "session \<Rightarrow> bool" where
  "flags_ok s \<longleftrightarrow>
     (se_committed s \<longrightarrow> se_crossed s \<or> se_told s) \<and> (se_delivered s \<longrightarrow> se_crossed s)
     \<and> (se_reinject s \<longrightarrow> se_delivered s \<and> \<not> se_committed s) \<and> (se_operator_reinject s \<longrightarrow> se_told s \<and> \<not> se_committed s)
     \<and> (se_told s \<or> se_begun s \<longrightarrow> se_request s \<noteq> None) \<and> (se_fallback_blocked s \<longrightarrow> se_fallback_used s)
     \<and> (se_crossed s \<longrightarrow> se_running s = [])"

definition skills_ok :: "session \<Rightarrow> bool" where
  "skills_ok s \<longleftrightarrow> list_all (\<lambda>k. sk_name k = ''handoff'' \<longrightarrow> sk_agent k = None) (se_skills s)"

definition trails_ok :: "session \<Rightarrow> bool" where
  "trails_ok s \<longleftrightarrow> length (se_trail s) \<le> MAX_TOOL_TRAIL \<and> length (se_bash s) \<le> MAX_BASH_HISTORY
     \<and> length (se_trail_pending s) \<le> 4 * MAX_TOOL_TRAIL \<and> length (se_bash_pending s) \<le> 4 * MAX_BASH_HISTORY"

definition session_ok :: "session \<Rightarrow> bool" where
  "session_ok s \<longleftrightarrow> flags_ok s \<and> skills_ok s \<and> trails_ok s"

lemmas ok_defs = session_ok_def flags_ok_def skills_ok_def trails_ok_def

named_theorems ok_rules
  \<open>steps that keep the invariant\<close>

lemma ok_new [ok_rules]: "session_ok (new_session c issue attempt_id branch base watched k)"
  by (simp add: ok_defs new_session_def)

text \<open>Fields that the invariant does not read.\<close>

lemma ok_note_event [simp]: "session_ok (note_event n a s) = session_ok s"
  by (simp add: ok_defs note_event_def)

lemma ok_with_ledger [simp]: "session_ok (with_ledger l s) = session_ok s"
  by (simp add: ok_defs with_ledger_def)

lemma ok_unread [simp]:
  "session_ok (s\<lparr>se_ledger := l\<rparr>) = session_ok s" "session_ok (s\<lparr>se_snapshot := t\<rparr>) = session_ok s"
  "session_ok (s\<lparr>se_baseline := b\<rparr>) = session_ok s" "session_ok (s\<lparr>se_ceiling := c\<rparr>) = session_ok s"
  "session_ok (s\<lparr>se_stopped := ks\<rparr>) = session_ok s" "session_ok (s\<lparr>se_reports := rs\<rparr>) = session_ok s"
  "session_ok (s\<lparr>se_nudged := n\<rparr>) = session_ok s" "session_ok (s\<lparr>se_reviews := v\<rparr>) = session_ok s"
  "session_ok (s\<lparr>se_subagents := us\<rparr>) = session_ok s" "session_ok (s\<lparr>se_edited := ps\<rparr>) = session_ok s"
  "session_ok (s\<lparr>se_calls := k\<rparr>) = session_ok s" "session_ok (s\<lparr>se_cli_session := x\<rparr>) = session_ok s"
  "session_ok (s\<lparr>se_last_text := x\<rparr>) = session_ok s" "session_ok (s\<lparr>se_expired := e\<rparr>) = session_ok s"
  "session_ok (s\<lparr>se_auto := k\<rparr>) = session_ok s" "session_ok (s\<lparr>se_counted := zs\<rparr>) = session_ok s"
  "session_ok (s\<lparr>se_logged := zs\<rparr>) = session_ok s" "session_ok (s\<lparr>se_degraded := d\<rparr>) = session_ok s"
  "session_ok (s\<lparr>se_cache_checked := d\<rparr>) = session_ok s" "session_ok (s\<lparr>se_pending_usage := pu\<rparr>) = session_ok s"
  "session_ok (s\<lparr>se_stream_ids := si\<rparr>) = session_ok s" "session_ok (s\<lparr>se_ledger := l, se_compactions := k\<rparr>) = session_ok s"
  by (simp_all add: ok_defs)

lemma ok_fallback [ok_rules]:
  assumes "session_ok s"
  shows "session_ok (s\<lparr>se_fallback_used := True\<rparr>)" "session_ok (s\<lparr>se_fallback_used := True, se_fallback_blocked := True\<rparr>)"
    "se_request s \<noteq> None \<Longrightarrow> session_ok (s\<lparr>se_fallback_used := True, se_told := True, se_via := v\<rparr>)"
  using assms by (simp_all add: ok_defs)


section \<open>The shared steps\<close>

lemma ok_capture [simp]: "session_ok (capture_handoff_baseline e s) = session_ok s"
  by (simp add: capture_handoff_baseline_def)

lemma ok_report [simp]: "session_ok (report_operator what s) = session_ok s"
  by (simp add: report_operator_def split: option.split)

lemma ok_stop_running [ok_rules]: "session_ok s \<Longrightarrow> session_ok (stop_running_subagents s)"
  by (auto simp: stop_running_subagents_def Let_def) (simp add: ok_defs)

lemma ok_cross [ok_rules]:
  assumes "session_ok s" shows "session_ok (cross_soft_threshold thread threshold rule e s)"
proof -
  let ?s = "capture_handoff_baseline e (note_event ''token_soft_threshold_crossed'' thread
    (s\<lparr>se_crossed := True, se_crossed_at := Some (budget_tokens (se_ledger s)), se_rule := Some rule, se_effective := Some threshold\<rparr>))"
  have "session_ok (?s\<lparr>se_stopped := ks, se_running := []\<rparr>)" for ks
    using assms by (auto simp: ok_defs capture_handoff_baseline_def note_event_def)
  then show ?thesis by (simp add: cross_soft_threshold_def stop_running_subagents_def Let_def)
qed

lemma ok_check_limits [ok_rules]: "session_ok s \<Longrightarrow> session_ok (check_limits thread e s)"
  by (auto simp: check_limits_def Let_def split: prod.split intro: ok_rules)

lemma ok_poll [ok_rules]: "session_ok s \<Longrightarrow> session_ok (poll_operator_handoff e s)"
  by (auto simp: poll_operator_handoff_def ok_defs split: option.split)

lemma ok_log_use [simp]: "session_ok (log_tool_use kind h s) = session_ok s" "session_ok (log_pre_tool_denied h s) = session_ok s"
  by (simp_all add: log_tool_use_def log_pre_tool_denied_def)

lemma ok_ensure [simp]: "session_ok (ensure_ledger_thread thread st n s) = session_ok s"
  by (simp add: ensure_ledger_thread_def)

lemma ok_note_launch [simp]: "session_ok (note_launch thread st s) = session_ok s"
  by (simp add: note_launch_def split: option.split)

lemma ok_launch [simp]: "session_ok (start_launch_thread h s) = session_ok s"
  by (simp add: start_launch_thread_def split: option.split)

lemma ok_track [ok_rules]: "session_ok s \<Longrightarrow> \<not> se_crossed s \<Longrightarrow> session_ok (track_subagent_seen h s)"
  by (auto simp: track_subagent_seen_def ok_defs split: option.split)

lemma length_recent: "length (recent k xs) \<le> k"
  by (simp add: recent_def)

lemma length_put_pending: "length (put_pending k i v ps) \<le> k"
  by (simp add: put_pending_def length_recent)

lemma ok_record_edit [simp]: "session_ok (record_edit h s) = session_ok s"
  by (simp add: record_edit_def Let_def)

lemma ok_record_trail [ok_rules]: "session_ok s \<Longrightarrow> session_ok (record_trail h s)"
  by (auto simp: record_trail_def ok_defs length_recent length_put_pending split: option.split)

lemma ok_record_bash [ok_rules]: "session_ok s \<Longrightarrow> session_ok (record_bash h s)"
  by (auto simp: record_bash_def ok_defs length_recent length_put_pending split: option.split)

lemma ok_record_tool_call [ok_rules]: "session_ok s \<Longrightarrow> session_ok (record_tool_call h s)"
  by (simp add: record_tool_call_def ok_rules)

lemma length_settle_call [simp]: "length (settle_call k out trail) = length trail"
  by (simp add: settle_call_def)

lemma ok_record_tool_result [ok_rules]: "session_ok s \<Longrightarrow> session_ok (record_tool_result h s)"
  by (auto simp: record_tool_result_def Let_def ok_defs split: option.split intro: le_trans [OF length_filter_le])

lemma ok_record_skill [ok_rules]: "session_ok s \<Longrightarrow> session_ok (record_skill_event phase h s)"
  by (auto simp: record_skill_event_def Let_def begin_operator_handoff_def report_operator_def note_event_def ok_defs
        split: option.split)


section \<open>The hooks\<close>

inductive hook_step :: "session \<Rightarrow> session \<Rightarrow> bool" where
  before_tool: "hook_step s (snd (pre_tool e h s))"
| after_tool: "hook_step s (snd (post_tool e h s))"
| stopping: "hook_step s (snd (gate_review_on_stop e s))"

lemma ok_judge: "session_ok s \<Longrightarrow> session_ok (snd (judge_call h s))"
  by (auto simp: judge_call_def Let_def deny_call_def note_stopped_agent_def ok_rules split: tool_decision.split option.split)

lemma ok_pre_tool: "session_ok s \<Longrightarrow> session_ok (snd (pre_tool e h s))"
  by (simp add: pre_tool_def Let_def deny_call_def count_review_def ok_rules ok_judge)

lemma ok_stop_gate: "session_ok s \<Longrightarrow> session_ok (snd (gate_review_on_stop e s))"
  by (simp add: gate_review_on_stop_def)

lemma ok_commit [ok_rules]:
  "session_ok s \<Longrightarrow> se_crossed s \<or> se_told s \<Longrightarrow> session_ok (s\<lparr>se_committed := True, se_reinject := False, se_operator_reinject := False\<rparr>)"
  by (simp add: ok_defs)

lemma ok_observe_note [ok_rules]: "session_ok s \<Longrightarrow> session_ok (observe_note_commit e h s)"
  by (simp add: observe_note_commit_def ok_commit split: option.split)

lemma ok_observe_result [ok_rules]: "session_ok s \<Longrightarrow> session_ok (observe_result e h s)"
  by (simp add: observe_result_def Let_def ok_rules)

lemma ok_deliver_soft: "session_ok s \<Longrightarrow> session_ok (snd (deliver_soft e h s))"
  by (auto simp: deliver_soft_def Let_def refresh_snapshot_def note_event_def ok_defs)

lemma ok_deliver_operator: "session_ok s \<Longrightarrow> session_ok (snd (deliver_operator e h s))"
  by (auto simp: deliver_operator_def Let_def) (auto simp: ok_defs)

lemma ok_repeat_soft: "session_ok s \<Longrightarrow> session_ok (snd (repeat_soft e h s))"
  by (auto simp: repeat_soft_def Let_def refresh_snapshot_def note_event_def ok_defs)

lemma ok_repeat_operator: "session_ok s \<Longrightarrow> session_ok (snd (repeat_operator h s))"
  by (auto simp: repeat_operator_def note_event_def ok_defs)

lemma post_tool_state: "snd (post_tool e h s) = snd (repeat_operator h (snd (repeat_soft e h
    (snd (deliver_operator e h (snd (deliver_soft e h (observe_result e h s))))))))"
  by (simp add: post_tool_def Let_def split_beta)

lemma ok_post_tool: "session_ok s \<Longrightarrow> session_ok (snd (post_tool e h s))"
  by (simp add: post_tool_state ok_deliver_soft ok_deliver_operator ok_repeat_soft ok_repeat_operator ok_observe_result)

lemma ok_hook_step: "hook_step s s' \<Longrightarrow> session_ok s \<Longrightarrow> session_ok s'"
  by (erule hook_step.cases) (auto intro: ok_pre_tool ok_post_tool ok_stop_gate)


section \<open>The stream\<close>

lemma ok_fold: "(\<And>x s. session_ok (f x s) = session_ok s) \<Longrightarrow> session_ok (fold f xs s) = session_ok s"
  by (induction xs arbitrary: s) simp_all

lemma ok_log_settled [simp]: "session_ok (log_newly_settled thread ids s) = session_ok s"
  unfolding log_newly_settled_def by (rule ok_fold) simp

lemma ok_prompt_cache [simp]: "session_ok (check_prompt_cache s) = session_ok s"
  by (simp add: check_prompt_cache_def Let_def split: option.split)

lemma ok_after_update [ok_rules]: "session_ok s \<Longrightarrow> session_ok (after_ledger_update thread e s)"
  by (simp add: after_ledger_update_def Let_def ok_rules split: option.split)

lemma ok_log_response [simp]: "session_ok (log_model_response bs s) = session_ok s"
proof -
  have "session_ok (fold (\<lambda>t. note_event n a) ts s) = session_ok s" for ts n a
    by (rule ok_fold) simp
  then show ?thesis by (simp add: log_model_response_def)
qed

lemma ok_response_id [simp]: "session_ok (snd (assistant_response_id m thread s)) = session_ok s"
  by (simp add: assistant_response_id_def split: option.split)

lemma ok_last_text [simp]: "session_ok (record_last_assistant_text bs s) = session_ok s"
  by (simp add: record_last_assistant_text_def Let_def)

lemma ok_usage_shape [simp]: "session_ok (log_usage_shape s) = session_ok s"
  by (simp add: log_usage_shape_def)

lemma ok_counted [simp]: "session_ok (count_response thread k chars s) = session_ok s"
  by (simp add: count_response_def)

lemma ok_usage [simp]: "session_ok (apply_usage thread k report s) = session_ok s"
  by (simp add: apply_usage_def)

lemma ok_pending_usage [simp]: "session_ok (apply_pending_usage thread k s) = session_ok s"
  by (simp add: apply_pending_usage_def)

lemma ok_assistant [ok_rules]: "session_ok s \<Longrightarrow> session_ok (observe_assistant_message e m s)"
  by (simp add: observe_assistant_message_def Let_def split_beta ok_rules)

lemma ok_delta [ok_rules]: "session_ok s \<Longrightarrow> session_ok (observe_usage_delta e parent report s)"
  by (simp add: observe_usage_delta_def stash_usage_def Let_def ok_rules split: option.split)

lemma ok_response_start [simp]: "session_ok (observe_response_start parent response s) = session_ok s"
  by (simp add: observe_response_start_def Let_def split: option.split)

lemma ok_end_subagent [simp]: "session_ok (end_subagent thread k s) = session_ok s"
  by (simp add: end_subagent_def settle_one_and_log_def Let_def split: prod.split)

lemma ok_user [ok_rules]: "session_ok s \<Longrightarrow> session_ok (observe_user_message e parent bs s)"
proof -
  have "session_ok (fold (end_subagent thread) ks s) = session_ok s" for thread ks and s :: session
    by (rule ok_fold) simp
  then show "session_ok s \<Longrightarrow> ?thesis" by (simp add: observe_user_message_def Let_def ok_rules)
qed

lemma ok_settle_all [simp]: "session_ok (settle_all_and_log s) = session_ok s"
proof -
  have "session_ok (fold (\<lambda>(thread, ids). log_newly_settled thread ids) xs s) = session_ok s" for xs and s :: session
    by (rule ok_fold) (simp add: split_beta)
  then show ?thesis by (simp add: settle_all_and_log_def split: prod.split)
qed

lemma ok_interrupt [simp]: "session_ok (interrupt_ledger s) = session_ok s"
  by (simp add: interrupt_ledger_def)

lemma ok_compacted [simp]: "session_ok (log_context_compacted parent s) = session_ok s"
  by (simp add: log_context_compacted_def)

lemma ok_armed [ok_rules]:
  "session_ok s \<Longrightarrow> \<not> se_committed s \<Longrightarrow> se_delivered s \<Longrightarrow> session_ok (s\<lparr>se_reinject := True\<rparr>)"
  "session_ok s \<Longrightarrow> \<not> se_committed s \<Longrightarrow> se_told s \<Longrightarrow> session_ok (s\<lparr>se_operator_reinject := True\<rparr>)"
  by (simp_all add: ok_defs)

lemma ok_arm [ok_rules]: "session_ok s \<Longrightarrow> session_ok (arm_reinject_after_compaction s)"
  by (simp add: arm_reinject_after_compaction_def Let_def ok_armed) (simp add: note_event_def ok_defs)

lemma ok_session_id [simp]: "session_ok (record_cli_session_id m s) = session_ok s"
  by (simp add: record_cli_session_id_def split: option.split)

lemma ok_log_tasks [simp]: "session_ok (log_settled_tasks v v1 s) = session_ok s"
  by (simp add: log_settled_tasks_def)

lemma ok_count [ok_rules]: "session_ok s \<Longrightarrow> session_ok (count_message e k s)"
  by (simp add: count_message_def ok_rules split: message_kind.split)

text \<open>The steps that the loop and the follow-ups take between two calls of the client.\<close>

inductive stream_step :: "session \<Rightarrow> session \<Rightarrow> bool" where
  logged: "stream_step s (note_event n a s)"
| polled: "stream_step s (poll_operator_handoff e s)"
| compacted: "stream_step s (arm_reinject_after_compaction (log_context_compacted parent s))"
| counted: "stream_step s (count_message e k s)"
| identified: "stream_step s (record_cli_session_id m s)"
| tasks_logged: "stream_step s (log_settled_tasks v v1 s)"
| settled: "stream_step s (settle_all_and_log s)"
| interrupted: "stream_step s (interrupt_ledger s)"
| reconciled: "stream_step s (reconcile_token_budget usage s)"
| refreshed: "stream_step s (refresh_snapshot e s)"
| fallback_missed: "stream_step s (s\<lparr>se_fallback_used := True\<rparr>)"
| fallback_blocked: "stream_step s (s\<lparr>se_fallback_used := True, se_fallback_blocked := True\<rparr>)"
| fallback_told: "se_request s \<noteq> None
    \<Longrightarrow> stream_step s (report_operator what (capture_handoff_baseline e (s\<lparr>se_fallback_used := True, se_told := True, se_via := v\<rparr>)))"
| expired: "stream_step s (s\<lparr>se_expired := True\<rparr>)"

lemma ok_stream_step: "stream_step s s' \<Longrightarrow> session_ok s \<Longrightarrow> session_ok s'"
  by (induction rule: stream_step.induct) (simp_all add: ok_rules reconcile_token_budget_def refresh_snapshot_def)

text \<open>Any number of steps of either kind.\<close>

definition evolves :: "session \<Rightarrow> session \<Rightarrow> bool" where
  "evolves = (sup hook_step stream_step)\<^sup>*\<^sup>*"

lemma evolves_refl [simp, intro]: "evolves s s"
  by (simp add: evolves_def)

lemma evolves_trans: "evolves s t \<Longrightarrow> evolves t u \<Longrightarrow> evolves s u"
  unfolding evolves_def by (rule rtranclp_trans)

lemma evolves_stream: "evolves s t \<Longrightarrow> stream_step t u \<Longrightarrow> evolves s u"
  unfolding evolves_def by (metis (mono_tags) rtranclp.rtrancl_into_rtrancl sup2CI)

lemma evolves_hooks: "evolves s t \<Longrightarrow> hook_step\<^sup>*\<^sup>* t u \<Longrightarrow> evolves s u"
proof -
  assume st: "evolves s t" and tu: "hook_step\<^sup>*\<^sup>* t u"
  have "evolves t u" unfolding evolves_def by (rule rtranclp_mono [THEN predicate2D, OF _ tu]) auto
  then show "evolves s u" by (rule evolves_trans [OF st])
qed

lemma evolves_induct [consumes 1, case_names start hook stream]:
  assumes "evolves s t" "P s" "\<And>u v. P u \<Longrightarrow> hook_step u v \<Longrightarrow> P v" "\<And>u v. P u \<Longrightarrow> stream_step u v \<Longrightarrow> P v"
  shows "P t"
  using assms(1) unfolding evolves_def by (induction rule: rtranclp_induct) (auto intro: assms(2-4))

lemma ok_evolves: "evolves s t \<Longrightarrow> session_ok s \<Longrightarrow> session_ok t"
  by (induction rule: evolves_induct) (auto intro: ok_hook_step ok_stream_step)

end
