(* ===== verification/Session_Sound.thy ===== *)
theory Session_Sound
  imports Session_Laws "HOL-Library.Sublist"
begin

text \<open>
  The steps along a whole session: whatever the client answers and whatever hooks run while it is asked, every state
  at a call and at the end comes from the first one by steps of the hooks and of the stream.
\<close>

section \<open>Programs\<close>

text \<open>Each step of the stream goes on from what has evolved.\<close>

lemmas evolve_rules [simp] = logged [THEN evolves_stream [rotated]] polled [THEN evolves_stream [rotated]]
  compacted [THEN evolves_stream [rotated]] counted [THEN evolves_stream [rotated]] identified [THEN evolves_stream [rotated]]
  tasks_logged [THEN evolves_stream [rotated]] settled [THEN evolves_stream [rotated]] interrupted [THEN evolves_stream [rotated]]
  reconciled [THEN evolves_stream [rotated]] refreshed [THEN evolves_stream [rotated]] fallback_missed [THEN evolves_stream [rotated]]
  fallback_blocked [THEN evolves_stream [rotated]] fallback_told [THEN evolves_stream [rotated]] expired [THEN evolves_stream [rotated]]

text \<open>
  \<open>sound s0 R p\<close>: if only hooks run while a call is answered, the state at every call of \<open>p\<close> and with every exception
  has evolved from \<open>s0\<close>, and \<open>R\<close> holds of every result.
\<close>

definition hooks_run :: "session_call \<times> session \<Rightarrow> session_answer \<times> moment \<Rightarrow> bool" where
  "hooks_run q r \<longleftrightarrow> hook_step\<^sup>*\<^sup>* (snd q) (snd (snd r))"

definition evolved_so_far :: "session \<Rightarrow> bool \<Rightarrow> session_call \<times> session \<Rightarrow> session_answer \<times> moment \<Rightarrow> bool" where
  "evolved_so_far s0 b q r \<longleftrightarrow> b \<and> evolves s0 (snd q)"

definition ended :: "session \<Rightarrow> ('a \<Rightarrow> bool) \<Rightarrow> bool \<Rightarrow> (session_error \<times> moment) + 'a \<Rightarrow> bool" where
  "ended s0 R b y \<longleftrightarrow> b \<and> (case y of Inl (x, m) \<Rightarrow> evolves s0 (snd m) | Inr z \<Rightarrow> R z)"

definition sound :: "session \<Rightarrow> ('a \<Rightarrow> bool) \<Rightarrow> 'a session_prog \<Rightarrow> bool" where
  "sound s0 R p \<longleftrightarrow> follow hooks_run (evolved_so_far s0) (ended s0 R) p True"

abbreviation from_start :: "session \<Rightarrow> 'a \<times> moment \<Rightarrow> bool" where
  "from_start s0 x \<equiv> evolves s0 (snd (snd x))"

named_theorems sound_rules
  \<open>programs that keep the invariant\<close>

lemma sound_Return [sound_rules]: "R x \<Longrightarrow> sound s0 R (Return x)"
  by (simp add: sound_def ended_def)

lemma sound_Raise [sound_rules]: "evolves s0 (snd m) \<Longrightarrow> sound s0 R (Raise (x, m))"
  by (simp add: sound_def ended_def)

lemma sound_bind:
  assumes "sound s0 S p" "\<And>x. S x \<Longrightarrow> sound s0 R (f x)" shows "sound s0 R (bind p f)"
  unfolding sound_def
proof (rule follow_bindI [OF assms(1) [unfolded sound_def]])
  show "ended s0 R b (Inl e)" if "ended s0 S b (Inl e)" for b e using that by (simp add: ended_def)
  show "follow hooks_run (evolved_so_far s0) (ended s0 R) (f x) b" if "ended s0 S b (Inr x)" for b x
    using that assms(2) [of x] by (auto simp: ended_def sound_def)
qed

lemma sound_handle:
  assumes "sound s0 S p" "\<And>x. S x \<Longrightarrow> R x" "\<And>x m. evolves s0 (snd m) \<Longrightarrow> sound s0 R (h (x, m))" shows "sound s0 R (handle p h)"
  unfolding sound_def
proof (rule follow_handleI [OF assms(1) [unfolded sound_def]])
  show "ended s0 R b (Inr x)" if "ended s0 S b (Inr x)" for b x using that assms(2) by (simp add: ended_def)
  show "follow hooks_run (evolved_so_far s0) (ended s0 R) (h e) b" if "ended s0 S b (Inl e)" for b e
    using that assms(3) by (cases e) (auto simp: ended_def sound_def)
qed

lemma sound_mono: "sound s0 S p \<Longrightarrow> (\<And>x. S x \<Longrightarrow> R x) \<Longrightarrow> sound s0 R p"
  unfolding sound_def by (erule follow_mono) (auto simp: ended_def split: sum.splits)

lemma sound_await:
  assumes "evolves s0 s" shows "sound s0 (from_start s0) (await q sel s)"
  using assms by (auto simp: sound_def await_def hooks_run_def evolved_so_far_def ended_def split: session_answer.split option.split
      intro: evolves_hooks)

lemma sound_tell: "evolves s0 s \<Longrightarrow> sound s0 (\<lambda>m. evolves s0 (snd m)) (tell_client q s)"
  unfolding tell_client_def by (rule sound_bind [OF sound_await]) (auto intro: sound_Return)

lemma sound_attempted:
  assumes "sound s0 R p"
  shows "sound s0 (\<lambda>x. case x of Inl (name, m) \<Rightarrow> evolves s0 (snd m) | Inr y \<Rightarrow> R y) (attempted p)"
  unfolding attempted_def
  by (rule sound_handle [OF sound_bind [OF assms]]) (auto intro!: sound_Return sound_Raise split: session_error.split)

lemma sound_drain: "evolves s0 s \<Longrightarrow> sound s0 (from_start s0) (drain s)"
  unfolding drain_def by (rule sound_bind [OF sound_attempted [OF sound_await]]) (auto intro!: sound_Return split: sum.splits)

lemma sound_stop_tasks: "evolves s0 (snd m) \<Longrightarrow> sound s0 (from_start s0) (stop_tasks ks m)"
proof (induction ks arbitrary: m)
  case (Cons k ks)
  show ?case unfolding stop_tasks.simps
    by (rule sound_bind [OF sound_attempted [OF sound_tell]])
       (auto simp: Cons.prems intro!: Cons.IH sound_bind [OF Cons.IH] sound_Return split: sum.splits)
qed (simp add: sound_Return)

lemma sound_stop_background: "evolves s0 (snd m) \<Longrightarrow> sound s0 (\<lambda>m. evolves s0 (snd m)) (stop_background_tasks ks m)"
  unfolding stop_background_tasks_def by (auto intro!: sound_Return sound_bind [OF sound_stop_tasks])

lemma sound_followup: "evolves s0 (snd m) \<Longrightarrow> sound s0 (from_start s0) (background_followup v m)"
  unfolding background_followup_def by (auto intro!: sound_Return sound_bind [OF sound_tell])

lemma sound_expire: "evolves s0 (snd m) \<Longrightarrow> sound s0 (from_start s0) (expire models m)"
  unfolding expire_def Let_def by (auto intro!: sound_Return sound_bind [OF sound_tell] sound_bind [OF sound_drain])

lemma sound_ceiling: "evolves s0 (snd m) \<Longrightarrow> sound s0 (from_start s0) (stop_at_ceiling models m)"
  unfolding stop_at_ceiling_def by (auto intro!: sound_Return sound_bind [OF sound_tell] sound_bind [OF sound_drain])

lemma sound_fallback:
  assumes "evolves s0 (snd m)" "\<And>m. evolves s0 (snd m) \<Longrightarrow> sound s0 (from_start s0) (again m)"
  shows "sound s0 (from_start s0) (operator_fallback again models m)"
proof -
  obtain e s where m: "m = (e, s)" by (cases m)
  show ?thesis
    unfolding operator_fallback_def m prod.case Let_def
    using assms(1)
    by (auto simp: m intro!: sound_Return sound_bind [OF sound_tell] sound_bind [OF sound_drain]
          sound_bind [OF sound_attempted [OF sound_bind [OF sound_tell]]] assms(2) split: sum.splits)
qed

lemma sound_result: "evolves s0 (snd m) \<Longrightarrow> sound s0 (from_start s0) (observe_session_result v r m)"
  unfolding observe_session_result_def by (auto intro!: sound_Return sound_bind [OF sound_stop_background] split: prod.split)

lemma sound_compaction: "evolves s0 (snd m) \<Longrightarrow> sound s0 (\<lambda>m. evolves s0 (snd m)) (observe_compaction k m)"
  unfolding observe_compaction_def
  by (auto intro!: sound_Return sound_bind [OF sound_attempted [OF sound_tell]] split: message_kind.split sum.splits)

lemma sound_end_of_message: "evolves s0 (snd m) \<Longrightarrow> sound s0 (from_start s0) (end_of_message k v m)"
  unfolding end_of_message_def by (auto intro!: sound_Return sound_bind [OF sound_ceiling])

lemma sound_message: "evolves s0 (snd m) \<Longrightarrow> sound s0 (from_start s0) (observe_message ends message v m)"
  unfolding observe_message_def Let_def
proof (rule sound_bind [OF sound_compaction])
  fix x :: moment assume x: "evolves s0 (snd x)"
  obtain e s where es: "x = (e, s)" by (cases x)
  show "sound s0 (from_start s0) (case x of (e, s) \<Rightarrow> case observe_background_task ends (sm_kind message) v of
      Some v1 \<Rightarrow> end_of_message (sm_kind message) v1 (e, log_settled_tasks v v1 s)
    | None \<Rightarrow> (case sm_kind message of Result_message r \<Rightarrow> observe_session_result v r (e, s)
        | _ \<Rightarrow> end_of_message (sm_kind message) (turn_after (sm_kind message) v) (e, count_message e (sm_kind message) s)))"
    using x unfolding es prod.case
    by (auto intro!: sound_end_of_message sound_result split: option.split message_kind.split)
qed simp

lemma sound_grace: "evolves s0 (snd m) \<Longrightarrow> sound s0 (from_start s0) (end_of_grace v m)"
  unfolding end_of_grace_def Let_def
  by (auto intro!: sound_bind [OF sound_stop_background] sound_bind [OF sound_followup] sound_Return split: option.split)

lemma sound_stream_end: "evolves s0 (snd m) \<Longrightarrow> sound s0 (from_start s0) (end_of_stream v m)"
  unfolding end_of_stream_def by (auto intro!: sound_bind [OF sound_followup] sound_Return split: option.split)

lemma sound_round:
  assumes "evolves s0 (snd m)" "\<And>m. evolves s0 (snd m) \<Longrightarrow> sound s0 (from_start s0) (again m)"
  shows "sound s0 (from_start s0) (receive_round again ends v m)"
proof -
  let ?m = "(fst m, poll_operator_handoff (fst m) (snd m))"
  have polled: "evolves s0 (snd ?m)" using assms(1) by simp
  have acts: "sound s0 (from_start s0) (bind (operator_fallback again (rv_models v) ?m) (\<lambda>(t, m1). Return (case t of Some x \<Rightarrow> Inl x | None \<Rightarrow> Inr v, m1)))"
    "sound s0 (from_start s0) (bind (expire (rv_models v) ?m) (\<lambda>(t, m1). Return (Inl t, m1)))"
    "sound s0 (from_start s0) (end_of_grace v ?m)"
    using polled assms(2)
    by (auto intro!: sound_bind [OF sound_fallback] sound_bind [OF sound_expire] sound_Return sound_grace split: option.split)
  have onward: "sound s0 (from_start s0) (bind (await q sel (snd ?m)) (\<lambda>(x, m1). case x of
      None \<Rightarrow> Return (Inr v, m1) | Some None \<Rightarrow> end_of_stream v m1 | Some (Some message) \<Rightarrow> observe_message ends message v m1))" for q sel
    using polled by (auto intro!: sound_bind [OF sound_await] sound_Return sound_stream_end sound_message split: option.split)
  show ?thesis unfolding receive_round_def Let_def
    using acts onward by (auto split: option.split due_action.split)
qed

lemma sound_receive: "evolves s0 (snd m) \<Longrightarrow> sound s0 (from_start s0) (receive_terminal n ends v m)"
proof (induction n arbitrary: v m)
  case (Suc n)
  show ?case unfolding receive_terminal.simps
    by (rule sound_bind [OF sound_round]) (auto simp: Suc.prems intro!: Suc.IH sound_Return split: sum.split)
qed (cases m, simp add: sound_Raise)


section \<open>The session\<close>

lemma started_evidence: "evolves s0 (snd m) \<Longrightarrow> from_start s0 (evidence f started status explanation sr tr usage m)"
  by (cases m) (simp add: evidence_def Let_def)

lemma started_ceiling_evidence: "evolves s0 (snd m) \<Longrightarrow> from_start s0 (ceiling_evidence f started r m)"
  by (simp add: ceiling_evidence_def started_evidence)

lemma started_classify: "evolves s0 (snd m) \<Longrightarrow> from_start s0 (classify f started r observed m)"
  by (simp add: classify_def started_ceiling_evidence started_evidence split: prod.split)

lemma sound_decided: "from_start s0 x \<Longrightarrow> sound s0 (from_start s0) (decided x)"
  by (simp add: decided_def sound_Return)

lemma sound_handoff_followup:
  assumes "evolves s0 (snd m)" shows "sound s0 (from_start s0) (handoff_followup f started n prompt success allow m)"
  unfolding handoff_followup_def
proof (rule sound_bind)
  show "sound s0 (from_start s0) (handle (bind (tell_client (Query prompt) (snd m)) (\<lambda>m1. bind (receive_terminal n (sf_ends f) new_receiving m1)
      (\<lambda>((r, models), m2). Return (r, m2)))) (\<lambda>(x, m1). Return (None, m1)))"
    using assms by (intro sound_handle [where S = "from_start s0"] sound_bind [OF sound_tell] sound_bind [OF sound_receive])
      (auto intro: sound_Return)
qed (auto intro!: sound_Return started_evidence simp: split_beta split: option.split)

lemma sound_or_undecided: "sound s0 (from_start s0) p \<Longrightarrow> sound s0 (from_start s0) (or_undecided r observed p)"
  unfolding or_undecided_def by (erule sound_bind) (auto intro: sound_Return)

lemma sound_timeout: "evolves s0 (snd m) \<Longrightarrow> sound s0 (from_start s0) (after_timeout f started n m)"
  unfolding after_timeout_def
  by (auto intro!: sound_bind [OF sound_tell] sound_bind [OF sound_drain] sound_bind [OF sound_handoff_followup] sound_decided
        sound_Return started_ceiling_evidence started_evidence split: option.split)

lemma sound_token_followup: "evolves s0 (snd m) \<Longrightarrow> sound s0 (from_start s0) (token_followup f started n m)"
  unfolding token_followup_def Let_def by (auto intro!: sound_handoff_followup split: prod.split)

lemma sound_after_stream: "evolves s0 (snd m) \<Longrightarrow> sound s0 (from_start s0) (after_stream f started n t m)"
  unfolding after_stream_def needs_cost_handoff_followup_def
  by (auto intro!: sound_decided started_ceiling_evidence sound_Return sound_or_undecided sound_handoff_followup sound_token_followup
        split: option.split prod.split)

lemma sound_timed: "evolves s0 (snd m) \<Longrightarrow> sound s0 (from_start s0) (timed_stream f started n m)"
  unfolding timed_stream_def
  by (rule sound_bind [where S = "from_start s0"], rule sound_handle [where S = "from_start s0"], rule sound_bind [OF sound_receive])
     (auto intro!: sound_Return sound_Raise sound_after_stream sound_timeout split: option.split)

lemma sound_connected: "evolves s0 (snd m) \<Longrightarrow> sound s0 (from_start s0) (connected_session f started n body m)"
  unfolding connected_session_def
  by (auto intro!: sound_bind [OF sound_tell] sound_bind [OF sound_attempted [OF sound_tell]] sound_timed split: sum.splits)

lemma sound_close: "evolves s0 (snd m) \<Longrightarrow> sound s0 (\<lambda>m. evolves s0 (snd m)) (close_session m)"
  unfolding close_session_def
  by (auto intro!: sound_bind [OF sound_attempted [OF sound_tell]] sound_Return split: sum.splits)

lemma started_conclude: "evolves s0 (snd m) \<Longrightarrow> from_start s0 (conclude_session f started outcome m)"
  by (auto simp: conclude_session_def failed_session_def started_evidence started_classify split: sum.split prod.split session_end.split option.split)

lemma sound_execute:
  assumes "evolves s0 (snd m)" shows "sound s0 (from_start s0) (execute_session f n body m)"
  unfolding execute_session_def Let_def
proof (rule sound_bind)
  show "sound s0 (\<lambda>x. evolves s0 (snd (moment_of x)))
      (handle (bind (connected_session f (en_now (fst m)) n body m) (\<lambda>x. Return (Inr x))) (\<lambda>x. Return (Inl x)))"
    using assms by (intro sound_handle [OF sound_bind [OF sound_connected]]) (auto intro!: sound_Return simp: moment_of_def)
qed (auto intro!: sound_bind [OF sound_close] sound_Return started_conclude)


section \<open>What stays decided\<close>

text \<open>
  What is decided in a session stays decided: the thresholds, the commit of the note, the delivery and the begin of the
  operator's handoff with the request they belong to, the nudge, the counted reviews and the recorded skills.
\<close>

definition latched :: "session \<Rightarrow> session \<Rightarrow> bool" where
  "latched r s \<longleftrightarrow> (se_crossed r \<longrightarrow> se_crossed s) \<and> (se_ceiling r \<longrightarrow> se_ceiling s) \<and> (se_committed r \<longrightarrow> se_committed s)
     \<and> (se_told r \<longrightarrow> se_told s) \<and> (se_begun r \<longrightarrow> se_begun s) \<and> (se_request r \<noteq> None \<and> (se_told r \<or> se_begun r) \<longrightarrow> se_request s = se_request r)
     \<and> (se_nudged r \<longrightarrow> se_nudged s) \<and> se_reviews r \<le> se_reviews s
     \<and> prefix (se_skills r) (se_skills s)"

named_theorems latch_rules
  \<open>steps that keep what is decided\<close>

lemma latched_refl: "latched s s"
  by (simp add: latched_def)

text \<open>Steps on other fields.\<close>

lemma latched_unread [simp]:
  "latched r (note_event n a s) = latched r s" "latched r (with_ledger l s) = latched r s"
  "latched r (s\<lparr>se_ledger := l\<rparr>) = latched r s" "latched r (s\<lparr>se_snapshot := t\<rparr>) = latched r s"
  "latched r (s\<lparr>se_baseline := b\<rparr>) = latched r s" "latched r (s\<lparr>se_stopped := ks\<rparr>) = latched r s"
  "latched r (s\<lparr>se_stopped := ks, se_running := as\<rparr>) = latched r s" "latched r (s\<lparr>se_running := as\<rparr>) = latched r s"
  "latched r (s\<lparr>se_reports := rs\<rparr>) = latched r s" "latched r (s\<lparr>se_subagents := us\<rparr>) = latched r s"
  "latched r (s\<lparr>se_edited := ps\<rparr>) = latched r s" "latched r (s\<lparr>se_calls := k\<rparr>) = latched r s"
  "latched r (s\<lparr>se_trail := tr, se_trail_pending := tp\<rparr>) = latched r s"
  "latched r (s\<lparr>se_bash := ba, se_bash_pending := bp\<rparr>) = latched r s"
  "latched r (s\<lparr>se_trail := tr, se_trail_pending := tp, se_bash := ba, se_bash_pending := bp\<rparr>) = latched r s"
  "latched r (s\<lparr>se_cli_session := x\<rparr>) = latched r s" "latched r (s\<lparr>se_last_text := x\<rparr>) = latched r s"
  "latched r (s\<lparr>se_expired := d\<rparr>) = latched r s" "latched r (s\<lparr>se_auto := k\<rparr>) = latched r s"
  "latched r (s\<lparr>se_counted := zs\<rparr>) = latched r s" "latched r (s\<lparr>se_logged := zs\<rparr>) = latched r s"
  "latched r (s\<lparr>se_degraded := d\<rparr>) = latched r s" "latched r (s\<lparr>se_cache_checked := d\<rparr>) = latched r s"
  "latched r (s\<lparr>se_pending_usage := pu\<rparr>) = latched r s" "latched r (s\<lparr>se_stream_ids := si\<rparr>) = latched r s"
  "latched r (s\<lparr>se_ledger := l, se_compactions := k\<rparr>) = latched r s" "latched r (s\<lparr>se_delivered := d\<rparr>) = latched r s"
  "latched r (s\<lparr>se_reinject := d\<rparr>) = latched r s" "latched r (s\<lparr>se_operator_reinject := d\<rparr>) = latched r s"
  "latched r (s\<lparr>se_fallback_used := d\<rparr>) = latched r s"
  "latched r (s\<lparr>se_fallback_used := d, se_fallback_blocked := d\<rparr>) = latched r s"
  by (simp_all add: latched_def note_event_def with_ledger_def)

text \<open>Steps that set a latch.\<close>

lemma latched_set [latch_rules]:
  assumes "latched r s"
  shows "latched r (s\<lparr>se_crossed := True, se_crossed_at := ca, se_rule := ru, se_effective := ef\<rparr>)"
    "latched r (s\<lparr>se_ceiling := True\<rparr>)" "latched r (s\<lparr>se_nudged := True\<rparr>)" "latched r (s\<lparr>se_reviews := Suc (se_reviews s)\<rparr>)"
    "latched r (s\<lparr>se_committed := True\<rparr>)"
    "latched r (s\<lparr>se_told := True, se_via := v\<rparr>)" "latched r (s\<lparr>se_fallback_used := True, se_told := True, se_via := v\<rparr>)"
    "latched r (s\<lparr>se_begun := True\<rparr>)"
  using assms by (auto simp: latched_def)

lemma latched_skills [latch_rules]: "latched r s \<Longrightarrow> latched r (s\<lparr>se_skills := se_skills s @ xs\<rparr>)"
  by (simp add: latched_def)

lemma latched_poll [latch_rules]: "latched r s \<Longrightarrow> latched r (poll_operator_handoff e s)"
  unfolding poll_operator_handoff_def latched_def by (cases "se_request s"; cases "en_request e") auto

lemma latched_capture [simp]: "latched r (capture_handoff_baseline e s) = latched r s"
  by (simp add: capture_handoff_baseline_def)

lemma latched_report [simp]: "latched r (report_operator what s) = latched r s"
  by (simp add: report_operator_def split: option.split)

lemma latched_stop [simp]: "latched r (stop_running_subagents s) = latched r s"
  by (simp add: stop_running_subagents_def Let_def)

lemma latched_cross [latch_rules]: "latched r s \<Longrightarrow> latched r (cross_soft_threshold thread threshold rule e s)"
  by (simp add: cross_soft_threshold_def latch_rules)

lemma latched_limits [latch_rules]: "latched r s \<Longrightarrow> latched r (check_limits thread e s)"
  by (simp add: check_limits_def Let_def split_beta latch_rules)

lemma latched_skill_event [latch_rules]: "latched r s \<Longrightarrow> latched r (record_skill_event phase h s)"
  by (auto simp: record_skill_event_def begin_operator_handoff_def Let_def latch_rules split: option.split)

lemma latched_log_use [simp]: "latched r (log_tool_use kind h s) = latched r s" "latched r (log_pre_tool_denied h s) = latched r s"
  by (simp_all add: log_tool_use_def log_pre_tool_denied_def)

lemma latched_record_call [simp]: "latched r (record_tool_call h s) = latched r s"
  by (simp add: record_tool_call_def record_bash_def record_trail_def record_edit_def Let_def)

lemma latched_record_result [simp]: "latched r (record_tool_result h s) = latched r s"
  by (simp add: record_tool_result_def Let_def split: option.split)

lemma latched_launch [simp]: "latched r (start_launch_thread h s) = latched r s"
  by (simp add: start_launch_thread_def note_launch_def ensure_ledger_thread_def split: option.split)

lemma latched_track [simp]: "latched r (track_subagent_seen h s) = latched r s"
  by (simp add: track_subagent_seen_def split: option.split)

lemma latched_stopped [simp]: "latched r (note_stopped_agent h s) = latched r s"
  by (simp add: note_stopped_agent_def split: option.split)


section \<open>Hooks\<close>

lemma latched_judge: "latched r s \<Longrightarrow> latched r (snd (judge_call h s))"
  by (auto simp: judge_call_def deny_call_def Let_def latch_rules split: tool_decision.split)

lemma latched_pre_tool: "latched r s \<Longrightarrow> latched r (snd (pre_tool e h s))"
  by (simp add: pre_tool_def Let_def deny_call_def count_review_def latch_rules latched_judge)

lemma latched_observe [latch_rules]: "latched r s \<Longrightarrow> latched r (observe_result e h s)"
  by (simp add: observe_result_def observe_note_commit_def Let_def latch_rules split: option.split)

lemma latched_deliver: "latched r s \<Longrightarrow> latched r (snd (deliver_soft e h s))" "latched r s \<Longrightarrow> latched r (snd (deliver_operator e h s))"
  "latched r s \<Longrightarrow> latched r (snd (repeat_soft e h s))" "latched r s \<Longrightarrow> latched r (snd (repeat_operator h s))"
  by (simp_all add: deliver_soft_def deliver_operator_def repeat_soft_def repeat_operator_def refresh_snapshot_def Let_def latch_rules)

lemma latched_hook: "hook_step s t \<Longrightarrow> latched r s \<Longrightarrow> latched r t"
  by (erule hook_step.cases) (auto simp: post_tool_state gate_review_on_stop_def intro!: latched_pre_tool latched_deliver latch_rules)


section \<open>The stream\<close>

lemma latched_fold: "(\<And>x s. latched r (f x s) = latched r s) \<Longrightarrow> latched r (fold f xs s) = latched r s"
  by (induction xs arbitrary: s) auto

lemma latched_settled [simp]: "latched r (log_newly_settled thread ids s) = latched r s"
  unfolding log_newly_settled_def by (rule latched_fold) simp

lemma latched_update [latch_rules]: "latched r s \<Longrightarrow> latched r (after_ledger_update thread e s)"
  by (simp add: after_ledger_update_def check_prompt_cache_def Let_def latch_rules split: option.split)

lemma latched_figures [simp]:
  "latched r (ensure_ledger_thread thread st n s) = latched r s"
  "latched r (snd (assistant_response_id m thread s)) = latched r s"
  "latched r (record_last_assistant_text bs s) = latched r s" "latched r (log_usage_shape s) = latched r s"
  "latched r (count_response thread k chars s) = latched r s" "latched r (apply_usage thread k report s) = latched r s"
  "latched r (observe_response_start parent response s) = latched r s" "latched r (stash_usage p u s) = latched r s"
  by (simp_all add: ensure_ledger_thread_def assistant_response_id_def record_last_assistant_text_def log_usage_shape_def
      count_response_def apply_usage_def observe_response_start_def stash_usage_def Let_def split: option.split)

lemma latched_pending_usage [simp]: "latched r (apply_pending_usage thread k s) = latched r s"
  by (simp add: apply_pending_usage_def)

lemma latched_text [simp]: "latched r (log_model_response bs s) = latched r s"
  unfolding log_model_response_def by (rule latched_fold) simp

lemma latched_end_subagent [simp]: "latched r (end_subagent thread k s) = latched r s"
  by (simp add: end_subagent_def settle_one_and_log_def Let_def split_beta)

lemma latched_count [latch_rules]: "latched r s \<Longrightarrow> latched r (count_message e k s)"
  by (simp add: count_message_def observe_assistant_message_def observe_usage_delta_def observe_user_message_def latched_fold
      split_beta Let_def latch_rules split: message_kind.split option.split)

lemma latched_all_settled [simp]: "latched r (settle_all_and_log s) = latched r s"
proof -
  have "latched r (fold (\<lambda>(thread, ids). log_newly_settled thread ids) xs s) = latched r s" for xs s
    by (rule latched_fold) auto
  then show ?thesis by (simp add: settle_all_and_log_def split: prod.split)
qed

lemma latched_stream: "stream_step s t \<Longrightarrow> latched r s \<Longrightarrow> latched r t"
  by (induction rule: stream_step.induct)
     (auto simp: arm_reinject_after_compaction_def log_context_compacted_def record_cli_session_id_def log_settled_tasks_def
        interrupt_ledger_def reconcile_token_budget_def refresh_snapshot_def Let_def split: option.split intro!: latch_rules)

lemma evolves_latched: "evolves s t \<Longrightarrow> latched s t"
  by (induction rule: evolves_induct) (auto intro: latched_refl latched_hook latched_stream)

end
