(* ===== verification/Session_Props.thy ===== *)
theory Session_Props
  imports Session_Sound Emergency_Note_Props
begin

text \<open>
  What a session promises: a consistent state throughout, evidence that was earned, and a pre-filled header
  of a handoff note that the validation of notes accepts if nothing below it reads as a header again.
\<close>

section \<open>Consistency\<close>

definition consistent_so_far :: "bool \<Rightarrow> session_call \<times> session \<Rightarrow> session_answer \<times> moment \<Rightarrow> bool" where
  "consistent_so_far b q r \<longleftrightarrow> b \<and> session_ok (snd q)"

definition ends_consistent :: "bool \<Rightarrow> (session_error \<times> moment) + (model_execution \<times> moment) \<Rightarrow> bool" where
  "ends_consistent b y \<longleftrightarrow> b \<and> (case y of Inl (x, m) \<Rightarrow> session_ok (snd m) | Inr (ev, m) \<Rightarrow> session_ok (snd m))"

lemma follow_simulation:
  assumes "follow legal step Q m s" "rel s t" "\<And>s t q r. rel s t \<Longrightarrow> rel (step s q r) (step' t q r)"
    and "\<And>s t y. rel s t \<Longrightarrow> Q s y \<Longrightarrow> Q' t y"
  shows "follow legal step' Q' m t"
  using assms(1,2)
proof (induction m arbitrary: s t)
  case (Call q k)
  then show ?case using assms(3) by (auto intro: Call.IH)
qed (auto intro: assms(4))

text \<open>
  C37. Whatever the client answers, and whatever hooks run while it is asked, at every call of a session and at its end
  a committed note belongs to a handoff, a repeated instruction to a delivered one, a delivered request of the operator
  is there, only the main thread's handoff counts, no subagent counts as running after the threshold, and the trails
  keep at most 15 calls and 50 commands.
\<close>

theorem sessions_stay_consistent:
  "follow hooks_run consistent_so_far ends_consistent
     (execute_session f n body (e, new_session c issue attempt_id branch base watched k)) True"
proof -
  let ?s = "new_session c issue attempt_id branch base watched k"
  have "follow hooks_run (evolved_so_far ?s) (ended ?s (from_start ?s)) (execute_session f n body (e, ?s)) True"
    using sound_execute [of ?s "(e, ?s)"] by (simp add: sound_def)
  then show ?thesis
    by (rule follow_simulation [where rel = "\<lambda>a b. a \<longrightarrow> b"])
       (auto simp: evolved_so_far_def consistent_so_far_def ended_def ends_consistent_def
          intro: ok_evolves ok_new split: sum.splits)
qed


section \<open>Evidence\<close>

definition crossed_in :: "model_execution \<Rightarrow> bool" where
  "crossed_in ev \<longleftrightarrow> (case mx_budget ev of Some b \<Rightarrow> bf_soft_crossed b | None \<Rightarrow> False)"

definition handed_off_in :: "model_execution \<Rightarrow> bool" where
  "handed_off_in ev \<longleftrightarrow> list_ex (\<lambda>k. sk_name k = ''handoff'' \<and> sk_agent k = None) (mx_skills ev)"

definition earned :: "model_execution \<Rightarrow> bool" where
  "earned ev \<longleftrightarrow> (case mx_status ev of
     MODEL_SUCCEEDED \<Rightarrow> \<not> mx_token_ceiling ev \<and> \<not> crossed_in ev
   | HANDOFF_REQUESTED \<Rightarrow> handed_off_in ev \<or> crossed_in ev
   | _ \<Rightarrow> True)"

lemma evidence_fields:
  "mx_status (fst (evidence f started status explanation sr tr usage m)) = status"
  "mx_token_ceiling (fst (evidence f started status explanation sr tr usage m)) = se_ceiling (snd m)"
  "mx_skills (fst (evidence f started status explanation sr tr usage m)) = se_skills (snd m)"
  "crossed_in (fst (evidence f started status explanation sr tr usage m)) = se_crossed (snd m)"
  by (simp_all add: evidence_def Let_def crossed_in_def budget_facts_of_def reconcile_token_budget_def note_event_def with_ledger_def
      split_beta)

lemma earned_evidence:
  assumes "status = MODEL_SUCCEEDED \<Longrightarrow> \<not> se_ceiling (snd m) \<and> \<not> se_crossed (snd m)"
    and "status = HANDOFF_REQUESTED \<Longrightarrow> main_thread_handoff_invoked (snd m) \<or> se_crossed (snd m)"
  shows "earned (fst (evidence f started status explanation sr tr usage m))"
  using assms
  by (simp add: earned_def evidence_fields handed_off_in_def main_thread_handoff_invoked_def split: model_status.split)

lemma earned_ceiling: "earned (fst (ceiling_evidence f started r m))"
  unfolding ceiling_evidence_def by (rule earned_evidence) auto

lemma earned_classify: "earned (fst (classify f started r observed m))"
proof (cases "se_ceiling (snd m)")
  case False
  obtain status explanation where j: "judge_result f (snd m) observed r = (status, explanation)" by fastforce
  have "earned (fst (evidence f started status explanation (re_stop_reason r) (re_terminal_reason r) (re_usage r) m))"
    by (rule earned_evidence)
       (use j False in \<open>auto simp: judge_result_def Let_def token_handoff_done_def split: if_splits\<close>)
  then show ?thesis using False j by (simp add: classify_def)
qed (simp add: classify_def earned_ceiling)

definition earned_end :: "session_end \<Rightarrow> bool" where
  "earned_end x \<longleftrightarrow> (case x of Decided ev \<Rightarrow> earned ev | Undecided r observed \<Rightarrow> True)"

lemma earned_conclude:
  "(case outcome of Inr (x, m1) \<Rightarrow> earned_end x | _ \<Rightarrow> True) \<Longrightarrow> earned (fst (conclude_session f started outcome m))"
  by (auto simp: conclude_session_def failed_session_def earned_end_def earned_classify
      intro!: earned_evidence split: sum.splits prod.split session_end.splits option.split)

text \<open>From a state at which the threshold was crossed it stays so.\<close>

lemma sound_later:
  assumes "sound t R p" "evolves s t" shows "sound s R p"
  unfolding sound_def
  by (rule follow_simulation [OF assms(1) [unfolded sound_def], where rel = "\<lambda>a b. a \<longrightarrow> b"])
     (auto simp: evolved_so_far_def ended_def intro: evolves_trans [OF assms(2)] split: sum.splits)

lemma sound_both: "sound s R p \<Longrightarrow> sound s S p \<Longrightarrow> sound s (\<lambda>x. R x \<and> S x) p"
  unfolding sound_def by (drule follow_conj, assumption, erule follow_mono) (auto simp: ended_def split: sum.splits)

abbreviation earned_maybe :: "session \<Rightarrow> model_execution option \<times> moment \<Rightarrow> bool" where
  "earned_maybe s x \<equiv> from_start s x \<and> (case fst x of Some ev \<Rightarrow> earned ev | None \<Rightarrow> True)"

abbreviation earned_so :: "session \<Rightarrow> session_end \<times> moment \<Rightarrow> bool" where
  "earned_so s x \<equiv> from_start s x \<and> earned_end (fst x)"

lemma earned_followup:
  assumes "evolves s (snd m)" "allow \<Longrightarrow> se_crossed s"
  shows "sound s (earned_maybe s) (handoff_followup f started n prompt success allow m)"
  unfolding handoff_followup_def
proof (rule sound_bind [where S = "from_start s"])
  show "sound s (from_start s) (handle (bind (tell_client (Query prompt) (snd m)) (\<lambda>m1. bind (receive_terminal n (sf_ends f) new_receiving m1)
      (\<lambda>((r, models), m2). Return (r, m2)))) (\<lambda>(x, m1). Return (None, m1)))"
    using assms by (intro sound_handle [where S = "from_start s"] sound_bind [OF sound_tell] sound_bind [OF sound_receive])
      (auto intro: sound_Return)
next
  fix x :: "result_message option \<times> moment" assume x: "from_start s x"
  obtain r m2 where xs: "x = (r, m2)" by (cases x)
  have "se_crossed (snd m2)" if allow
    using evolves_latched [of s "snd m2"] x assms(2) [OF that] by (simp add: latched_def xs)
  then show "sound s (earned_maybe s) (case x of (r, m2) \<Rightarrow> case r of None \<Rightarrow> Return (None, m2)
      | Some x \<Rightarrow> if main_thread_handoff_invoked (snd m2) \<or> allow \<and> se_committed (snd m2)
          then (case evidence f started HANDOFF_REQUESTED
                  (if allow \<and> se_committed (snd m2) \<and> \<not> main_thread_handoff_invoked (snd m2) then NOTE_DONE else success)
                  (re_stop_reason x) None (re_usage x) m2 of (ev, m3) \<Rightarrow> Return (Some ev, m3))
          else Return (None, m2))"
    using x by (auto simp: xs split_beta intro!: sound_Return started_evidence earned_evidence split: option.split)
qed

lemma earned_undecided: "sound s (earned_maybe s) p \<Longrightarrow> sound s (earned_so s) (or_undecided r observed p)"
  unfolding or_undecided_def by (erule sound_bind) (auto simp: earned_end_def intro!: sound_Return split: option.split)

lemma earned_decided: "from_start s x \<Longrightarrow> earned (fst x) \<Longrightarrow> sound s (earned_so s) (decided x)"
  by (simp add: decided_def sound_Return earned_end_def)

lemma earned_timeout: "evolves s (snd m) \<Longrightarrow> sound s (earned_so s) (after_timeout f started n m)"
  unfolding after_timeout_def
  by (auto intro!: sound_bind [OF sound_tell] sound_bind [OF sound_drain] sound_bind [OF earned_followup] earned_decided
        sound_Return started_ceiling_evidence started_evidence earned_ceiling earned_evidence split: option.split)
     (simp add: earned_end_def)

lemma earned_token_followup:
  assumes "evolves s (snd m)" "se_crossed (snd m)"
  shows "sound s (earned_maybe s) (token_followup f started n m)"
proof -
  obtain e s1 where m: "m = (e, s1)" by (cases m)
  define s2 where "s2 = refresh_snapshot e (note_event ''token_soft_threshold_handoff_followup'' [] s1)"
  have later: "evolves s s2" using assms(1) by (simp add: m s2_def)
  have "se_crossed s2" using assms(2) by (simp add: m s2_def refresh_snapshot_def note_event_def)
  then have "sound s2 (earned_maybe s2) (token_followup f started n m)"
    unfolding token_followup_def m prod.case Let_def s2_def [symmetric] by (intro earned_followup) simp_all
  from sound_later [OF this later] show ?thesis
    by (rule sound_mono) (auto intro: evolves_trans [OF later])
qed

lemma needs_followup:
  assumes "needs_cost_handoff_followup observed r s = (needed, t)"
  shows "evolves s t" "needed \<Longrightarrow> se_crossed t"
  using assms by (auto simp: needs_cost_handoff_followup_def split: if_splits)

lemma earned_after_stream: "evolves s (snd m) \<Longrightarrow> sound s (earned_so s) (after_stream f started n t m)"
proof -
  assume start: "evolves s (snd m)"
  obtain r observed where t: "t = (r, observed)" by (cases t)
  have undecided: "sound s (earned_so s) (Return (Undecided x y, m1))" if "evolves s (snd m1)" for x y m1
    using that by (simp add: sound_Return earned_end_def)
  have ceiling: "sound s (earned_so s) (decided (ceiling_evidence f started r m))"
    by (rule earned_decided [OF started_ceiling_evidence [OF start] earned_ceiling])
  have limit: "sound s (earned_so s) (or_undecided r observed (handoff_followup f started n p LIMIT_DONE False m))" for p
    by (rule earned_undecided [OF earned_followup [OF start]]) simp
  have cost: "sound s (earned_so s) (case needs_cost_handoff_followup observed x (snd m) of (needed, s1) \<Rightarrow>
      if needed then or_undecided r observed (token_followup f started n (fst m, s1)) else Return (Undecided r observed, (fst m, s1)))" for x
  proof -
    obtain needed s1 where needs: "needs_cost_handoff_followup observed x (snd m) = (needed, s1)" by fastforce
    have "evolves s (snd (fst m, s1))" using evolves_trans [OF start needs_followup(1) [OF needs]] by simp
    then show ?thesis
      using needs_followup(2) [OF needs] undecided earned_undecided [OF earned_token_followup [of s "(fst m, s1)"]]
      by (simp add: needs)
  qed
  show ?thesis unfolding after_stream_def t prod.case
    using ceiling limit cost undecided [OF start] by (cases r) simp_all
qed

lemma earned_connected: "evolves s (snd m) \<Longrightarrow> sound s (earned_so s) (connected_session f started n body m)"
proof -
  have timed: "sound s (earned_so s) (timed_stream f started n m)" if "evolves s (snd m)" for m
    using that unfolding timed_stream_def
    by (intro sound_bind [where S = "from_start s"] sound_handle [where S = "from_start s"] sound_bind [OF sound_receive])
       (auto intro!: sound_Return sound_Raise earned_after_stream earned_timeout split: option.split)
  show "evolves s (snd m) \<Longrightarrow> ?thesis" unfolding connected_session_def
    by (auto intro!: sound_bind [OF sound_tell] sound_bind [OF sound_attempted [OF sound_tell]] timed split: sum.splits)
qed

text \<open>
  C3. Whatever the client answers, and whatever hooks run while it is asked, a session that is reported as succeeded
  reached neither threshold of the token budget, and one reported as handed off has a handoff skill of the main thread
  on record, or crossed the soft threshold.
\<close>

theorem session_evidence_is_earned:
  "follow hooks_run (\<lambda>b q r. b) (\<lambda>b y. case y of Inr (ev, m) \<Rightarrow> earned ev | Inl x \<Rightarrow> True) (execute_session f n body (e, s)) True"
proof -
  have "sound s (\<lambda>x. earned (fst x)) (execute_session f n body (e, s))"
    unfolding execute_session_def Let_def
  proof (rule sound_bind)
    show "sound s (\<lambda>x. evolves s (snd (moment_of x)) \<and> (case x of Inr (y, m) \<Rightarrow> earned_end y | _ \<Rightarrow> True))
        (handle (bind (connected_session f (en_now (fst (e, s))) n body (e, s)) (\<lambda>x. Return (Inr x))) (\<lambda>x. Return (Inl x)))"
      by (intro sound_handle [OF sound_bind [OF earned_connected]]) (auto intro!: sound_Return simp: moment_of_def)
  qed (auto intro!: sound_bind [OF sound_close] sound_Return earned_conclude split: sum.splits)
  then show ?thesis
    unfolding sound_def by (rule follow_simulation [where rel = "\<lambda>a b. True"]) (auto simp: ended_def split: sum.splits)
qed


section \<open>The pre-filled header of a note\<close>












end
