(* ===== verification/Session_Gates.thy ===== *)
theory Session_Gates
  imports Session_Execute
begin

text \<open>
  What the hooks allow and ask for: which calls pass the gates after the soft threshold, how often a review or a nudge
  may happen, and how the prediction of a limit compares with the classification.
\<close>

section \<open>After the threshold\<close>

lemma standing_unread [simp]:
  "se_crossed (note_event n a s) = se_crossed s" "se_ceiling (note_event n a s) = se_ceiling s"
  "se_told (note_event n a s) = se_told s" "se_reviews (note_event n a s) = se_reviews s"
  "se_crossed (log_pre_tool_denied h s) = se_crossed s" "se_ceiling (log_pre_tool_denied h s) = se_ceiling s"
  "se_told (log_pre_tool_denied h s) = se_told s" "se_reviews (log_pre_tool_denied h s) = se_reviews s"
  "se_crossed (record_skill_event phase h s) = se_crossed s" "se_ceiling (record_skill_event phase h s) = se_ceiling s"
  "se_told (record_skill_event phase h s) = se_told s" "se_reviews (record_skill_event phase h s) = se_reviews s"
  "se_crossed (track_subagent_seen h s) = se_crossed s" "se_ceiling (track_subagent_seen h s) = se_ceiling s"
  "se_told (track_subagent_seen h s) = se_told s" "se_reviews (track_subagent_seen h s) = se_reviews s"
  "se_crossed (note_stopped_agent h s) = se_crossed s" "se_ceiling (note_stopped_agent h s) = se_ceiling s"
  "se_told (note_stopped_agent h s) = se_told s" "se_reviews (note_stopped_agent h s) = se_reviews s"
  by (simp_all add: note_event_def log_pre_tool_denied_def record_skill_event_def begin_operator_handoff_def report_operator_def
      track_subagent_seen_def note_stopped_agent_def Let_def split: option.split)

text \<open>
  What passes when the soft threshold is crossed: calls of the main thread that start no subagent, of which edits and
  writes must have \<open>.agent/handoff\<close> somewhere in their path, commands must be handoff commands that delete no
  note and publish nothing, and skills are restrained only when an operator's request was told. No other tool is.
\<close>

definition passes_after_crossing :: "hook \<Rightarrow> session \<Rightarrow> bool" where
  "passes_after_crossing h s \<longleftrightarrow> is_main_thread h \<and> \<not> launches h
     \<and> (hk_tool h \<in> {''Edit'', ''Write''} \<longrightarrow> py_contains ''.agent/handoff'' (text_field ''file_path'' h))
     \<and> (hk_tool h = ''Bash'' \<longrightarrow> is_handoff_command (text_field ''command'' h)
          \<and> \<not> deletes_handoff_note (text_field ''command'' h) \<and> \<not> is_publication_command (text_field ''command'' h))
     \<and> (hk_tool h = ''Skill'' \<and> se_told s \<longrightarrow> skill_name h = Some ''handoff'')"

lemma denials [simp]:
  "soft_denial restriction s \<noteq> Allow" "operator_denial restriction h s \<noteq> Allow" "subagent_deny \<noteq> Allow"
  "note_delete_deny n \<noteq> Allow" "note_delete_committed_deny n \<noteq> Allow"
  "operator_note_delete_deny n \<noteq> Allow" "operator_note_delete_committed_deny n \<noteq> Allow"
  by (simp_all add: soft_denial_def operator_denial_def cost_deny_def cost_committed_deny_def subagent_deny_def operator_deny_def
      operator_committed_deny_def note_delete_deny_def note_delete_committed_deny_def operator_note_delete_deny_def
      operator_note_delete_committed_deny_def)

lemma gate_cases: "(case d of Allow \<Rightarrow> x | Deny r \<Rightarrow> Deny r) = Allow \<longleftrightarrow> d = Allow \<and> x = Allow"
  by (cases d) simp_all

lemma gates_exact:
  assumes "se_crossed s" "is_main_thread h" shows "gates h s = Allow \<longleftrightarrow> passes_after_crossing h s"
proof -
  have "launches h \<Longrightarrow> hk_tool h \<in> {''Agent'', ''Task''}" by (auto simp: launches_def)
  then show ?thesis
    using assms
    by (auto simp: gates_def gate_cases soft_gate_def operator_gate_def subagent_handoff_def publication_guard_def targets_note_def
        HANDOFF_NOTE_MARKER_def passes_after_crossing_def split: if_splits)
qed

lemma judge_exact:
  assumes "judge_call h s = (d, t)"
  shows "se_crossed t = se_crossed s \<and> se_ceiling t = se_ceiling s \<and> se_told t = se_told s \<and> se_reviews t = se_reviews s
    \<and> (se_crossed s \<longrightarrow> (d = Allow \<longleftrightarrow> passes_after_crossing h s))"
proof (cases "se_crossed s \<and> \<not> is_main_thread h")
  case True
  then show ?thesis using assms by (auto simp: judge_call_def deny_call_def passes_after_crossing_def)
next
  case False
  show ?thesis
    using assms False gates_exact [of s h] by (auto simp: judge_call_def deny_call_def Let_def split: if_splits tool_decision.splits)
qed

text \<open>
  C4. Which calls the hook before a tool allows once the soft threshold is crossed, exactly: before the hard ceiling,
  and not for a code review beyond the cap, those of the main thread that start no subagent; an edit or a write passes
  if its path contains \<open>.agent/handoff\<close>, a command if it is a command of the handoff, deletes no note and
  publishes nothing, a skill if no operator's request was told or it is the handoff skill, and every other tool (a
  notebook edit, say) always. Before the crossing, too, nothing is allowed after the hard ceiling.
\<close>

theorem allowed_after_crossing:
  "case pre_tool e h s of (d, t) \<Rightarrow>
     if se_crossed t
     then d = Allow \<longleftrightarrow> \<not> se_ceiling t \<and> passes_after_crossing h t \<and> \<not> (skill_name h = Some ''code-review'' \<and> 3 < se_reviews t)
     else \<not> (d = Allow \<and> se_ceiling t)"
proof (cases "pre_tool e h s")
  case (Pair d t)
  define s2 where "s2 = record_tool_call h (log_tool_use ''tool_call'' h
    (check_limits (case hook_agent h of Some a \<Rightarrow> a | None \<Rightarrow> ''main'') e s))"
  define s3 where "s3 = count_review h (start_launch_thread h s2)"
  have ceiling: "se_ceiling s3 = se_ceiling s2"
    by (simp add: s3_def start_launch_thread_def note_launch_def ensure_ledger_thread_def count_review_def split: option.split)
  have passes: "passes_after_crossing h u = passes_after_crossing h v" if "se_told u = se_told v" for u v
    using that by (simp add: passes_after_crossing_def)
  consider "se_ceiling s2" "d \<noteq> Allow" "se_ceiling t"
    | "skill_name h = Some ''code-review''" "3 < se_reviews s3" "d \<noteq> Allow" "se_reviews t = se_reviews s3"
    | "\<not> se_ceiling s2" "\<not> (skill_name h = Some ''code-review'' \<and> 3 < se_reviews s3)" "judge_call h s3 = (d, t)"
    using Pair by (auto simp: pre_tool_def Let_def deny_call_def s2_def [symmetric] s3_def [symmetric] split: if_splits)
  then show ?thesis
  proof cases
    case 3
    then show ?thesis using judge_exact [OF 3(3)] passes [of t s3] ceiling by (auto simp: Pair)
  qed (auto simp: Pair)
qed


section \<open>Reviews and nudges\<close>

datatype hook_event = Before surroundings hook | After surroundings hook | Stopping surroundings

text \<open>Along a sequence of hooks: how many reviews are allowed, and how many stops are blocked.\<close>

fun allowed_reviews :: "hook_event list \<Rightarrow> session \<Rightarrow> nat" where
  "allowed_reviews [] s = 0"
| "allowed_reviews (Before e h # hs) s = (case pre_tool e h s of (d, t) \<Rightarrow>
     (if d = Allow \<and> skill_name h = Some ''code-review'' then 1 else 0) + allowed_reviews hs t)"
| "allowed_reviews (After e h # hs) s = allowed_reviews hs (snd (post_tool e h s))"
| "allowed_reviews (Stopping e # hs) s = allowed_reviews hs (snd (gate_review_on_stop e s))"

fun blocked_stops :: "hook_event list \<Rightarrow> session \<Rightarrow> nat" where
  "blocked_stops [] s = 0"
| "blocked_stops (Before e h # hs) s = blocked_stops hs (snd (pre_tool e h s))"
| "blocked_stops (After e h # hs) s = blocked_stops hs (snd (post_tool e h s))"
| "blocked_stops (Stopping e # hs) s = (case gate_review_on_stop e s of (r, t) \<Rightarrow>
     (if r \<noteq> None then 1 else 0) + blocked_stops hs t)"

definition tallies :: "session \<Rightarrow> nat \<times> bool" where
  "tallies s = (se_reviews s, se_nudged s)"

lemma tallies_unread [simp]:
  "tallies (note_event n a s) = tallies s" "tallies (capture_handoff_baseline e s) = tallies s"
  "tallies (stop_running_subagents s) = tallies s" "tallies (poll_operator_handoff e s) = tallies s"
  "tallies (report_operator what s) = tallies s" "tallies (log_tool_use kind h s) = tallies s"
  "tallies (log_pre_tool_denied h s) = tallies s" "tallies (record_tool_call h s) = tallies s"
  "tallies (record_tool_result h s) = tallies s" "tallies (start_launch_thread h s) = tallies s"
  "tallies (track_subagent_seen h s) = tallies s" "tallies (note_stopped_agent h s) = tallies s"
  "tallies (record_skill_event phase h s) = tallies s"
  by (simp_all add: tallies_def note_event_def capture_handoff_baseline_def stop_running_subagents_def poll_operator_handoff_def
      report_operator_def log_tool_use_def log_pre_tool_denied_def record_tool_call_def record_bash_def record_trail_def record_edit_def
      record_tool_result_def start_launch_thread_def note_launch_def ensure_ledger_thread_def track_subagent_seen_def
      note_stopped_agent_def record_skill_event_def begin_operator_handoff_def Let_def split: option.split)

lemma tallies_set [simp]:
  "tallies (s\<lparr>se_ceiling := a\<rparr>) = tallies s" "tallies (s\<lparr>se_committed := a\<rparr>) = tallies s"
  "tallies (s\<lparr>se_delivered := a\<rparr>) = tallies s" "tallies (s\<lparr>se_told := a, se_via := v\<rparr>) = tallies s"
  "tallies (s\<lparr>se_reinject := a\<rparr>) = tallies s" "tallies (s\<lparr>se_operator_reinject := a\<rparr>) = tallies s"
  "tallies (s\<lparr>se_snapshot := w\<rparr>) = tallies s"
  by (simp_all add: tallies_def)

lemma tallies_cross [simp]: "tallies (cross_soft_threshold thread threshold rule e s) = tallies s"
  unfolding cross_soft_threshold_def tallies_unread by (simp add: tallies_def note_event_def)

lemma tallies_limits [simp]: "tallies (check_limits thread e s) = tallies s"
  by (simp add: check_limits_def Let_def split_beta)

lemma tallies_judge: "tallies (snd (judge_call h s)) = tallies s"
  by (simp add: judge_call_def deny_call_def Let_def split: tool_decision.split)

lemma tallies_post: "tallies (snd (post_tool e h s)) = tallies s"
proof -
  have observed: "tallies (observe_result e h s) = tallies s" for s
    by (simp add: observe_result_def observe_note_commit_def Let_def split: option.split)
  have texts: "tallies (snd (deliver_soft e h s)) = tallies s" "tallies (snd (deliver_operator e h s)) = tallies s"
    "tallies (snd (repeat_soft e h s)) = tallies s" "tallies (snd (repeat_operator h s)) = tallies s" for s
    by (simp_all add: deliver_soft_def deliver_operator_def repeat_soft_def repeat_operator_def refresh_snapshot_def Let_def)
  show ?thesis using observed texts by (simp add: post_tool_def Let_def split_beta)
qed

lemma reviews_before:
  "pre_tool e h s = (d, t) \<Longrightarrow> se_nudged t = se_nudged s \<and> se_reviews s \<le> se_reviews t
     \<and> (d = Allow \<and> skill_name h = Some ''code-review'' \<longrightarrow> se_reviews t = Suc (se_reviews s) \<and> se_reviews t \<le> 3)"
proof -
  assume pre: "pre_tool e h s = (d, t)"
  define s2 where "s2 = record_tool_call h (log_tool_use ''tool_call'' h
    (check_limits (case hook_agent h of Some a \<Rightarrow> a | None \<Rightarrow> ''main'') e s))"
  define s3 where "s3 = count_review h (start_launch_thread h s2)"
  have s2: "tallies s2 = tallies s" by (simp add: s2_def)
  have "tallies s3 = (if skill_name h = Some ''code-review'' then (Suc (fst (tallies s)), snd (tallies s)) else tallies s)"
    using s2 tallies_unread(10) [of h s2] by (auto simp: s3_def count_review_def tallies_def)
  moreover have "tallies t = (if se_ceiling s2 then tallies s2 else tallies s3)"
    using pre tallies_judge [of h s3]
    by (auto simp: pre_tool_def Let_def deny_call_def s2_def [symmetric] s3_def [symmetric] split: if_splits dest: arg_cong [where f = snd])
  moreover have "d = Allow \<Longrightarrow> \<not> se_ceiling s2 \<and> (skill_name h = Some ''code-review'' \<longrightarrow> se_reviews s3 \<le> 3)"
    using pre by (auto simp: pre_tool_def Let_def deny_call_def s2_def [symmetric] s3_def [symmetric] split: if_splits)
  ultimately show ?thesis using s2 by (auto simp: tallies_def split: if_splits)
qed

lemma reviews_left: "allowed_reviews hs s \<le> 3 - se_reviews s"
proof (induction hs arbitrary: s)
  case (Cons x hs)
  show ?case
  proof (cases x)
    case (Before e h)
    obtain d t where pre: "pre_tool e h s = (d, t)" by fastforce
    show ?thesis using reviews_before [OF pre] Cons [of t] by (auto simp: Before pre)
  next
    case (After e h)
    then show ?thesis using Cons [of "snd (post_tool e h s)"] tallies_post [of e h s] by (simp add: tallies_def)
  next
    case (Stopping e)
    have "se_reviews (snd (gate_review_on_stop e s)) = se_reviews s" by (simp add: gate_review_on_stop_def note_event_def)
    then show ?thesis using Cons [of "snd (gate_review_on_stop e s)"] by (simp add: Stopping)
  qed
qed simp

lemma nudges_left: "blocked_stops hs s \<le> (if se_nudged s then 0 else 1)"
proof (induction hs arbitrary: s)
  case (Cons x hs)
  show ?case
  proof (cases x)
    case (Before e h)
    obtain d t where pre: "pre_tool e h s = (d, t)" by fastforce
    show ?thesis using reviews_before [OF pre] Cons [of t] by (simp add: Before pre)
  next
    case (After e h)
    then show ?thesis using Cons [of "snd (post_tool e h s)"] tallies_post [of e h s] by (simp add: tallies_def)
  next
    case (Stopping e)
    obtain r t where gate: "gate_review_on_stop e s = (r, t)" by fastforce
    then have "r = None \<and> se_nudged t = se_nudged s \<or> r \<noteq> None \<and> \<not> se_nudged s \<and> se_nudged t"
      by (auto simp: gate_review_on_stop_def note_event_def split: if_splits)
    then show ?thesis using Cons [of t] by (auto simp: Stopping gate)
  qed
qed simp

text \<open>
  C38. Along any sequence of hooks of a session at most three code reviews are allowed, and at most one stop is blocked.
\<close>

theorem reviews_and_nudges_bounded: "allowed_reviews hs s \<le> 3 \<and> blocked_stops hs s \<le> 1"
  using reviews_left [of hs s] nudges_left [of hs s] by (auto split: if_splits)


section \<open>Limits\<close>

lemma no_mismatch: "\<not> list_ex (\<lambda>x. x \<noteq> m) xs \<longleftrightarrow> filter (\<lambda>x. x \<noteq> m) xs = []"
  by (simp add: list_ex_iff filter_empty_conv)

text \<open>
  C40. In a session that did not cross the soft threshold and in which no operator's request was told, the prediction
  that a result is a limit, on which the follow-up depends, is the classification of the result as a limit, except for
  a result that both ran out of turns and was aborted or timed out: this is classified as a limit but not predicted.
\<close>

theorem limit_predicted_iff_classified:
  "se_crossed s \<or> se_told s \<or>
     is_model_limit (se_config s) observed r
       = (fst (judge_result f s observed r) = MODEL_LIMIT_REACHED \<and> (if out_of_turns r then \<not> aborted r else True))"
  using no_mismatch [of "rc_model (se_config s)" "all_models observed r"]
  by (auto simp: is_model_limit_def judge_result_def Let_def token_handoff_done_def)

end
