(* ===== verification/Spec2Isabelle.thy ===== *)
theory Spec2Isabelle
  imports Control_Props Control_Plans Token_Ledger_Props Completion_Props Command_Runner Attempt_Props
    Handoff_Record_Props Comments Store_Props Tracker_Props
    Publication_Props Publication_Record Conflict_Comments
    Git_Workspace_Props Git_Cleanup Config_Props Conflict_Execution_Props Handoff_Note_Props Emergency_Note_Props
    Worker_Gates Worker_Safety Worker_Fates Attempt_Runner_Props
    Shell_Guard_Props Session_Props Session_Gates
begin

text \<open>
  A verification development of simple-coding-agent, a Worker that takes issues of a GitHub repository, lets a model
  work on them in a container and publishes the result. The code is Python; its decisions rest on a few durable
  files, on one SQLite store of operator commands, on what GitHub answers, and on text markers in issue comments.
  Each component is modelled from its source under src/simple_coding_agent, as functions on explicit state.

  The prelude. \<open>Prelude\<close>: Python's string operations, decimal numbers, computations with a state and exceptions
  (\<open>seq\<close>, \<open>ret\<close>, \<open>throw\<close>) and a small calculus of what a computation keeps. \<open>Json\<close>: JSON values, files with their
  faults, and the interface \<open>json_store\<close> of a document kept in a file. \<open>Timestamps\<close>: instants and their text.
  \<open>Text\<close>: splitting, lines and the few regular expressions the markers need. \<open>Effects\<close>: programs that call a
  service (\<open>Return\<close>, \<open>Raise\<close>, \<open>Call\<close>), what holds for all answers (\<open>every\<close>, \<open>follow\<close>), and any number of programs
  interleaved at one service (\<open>together\<close>).

  The intake control (control.py). \<open>Control\<close> holds the tables as a record, \<open>Control_Ops\<close> the operations of
  ControlStore, each as one transaction. \<open>Control_Laws\<close> has the store's view, the abstract intake gate and the
  rules of its internals, \<open>Control_Sim\<close> the simulation of every command, \<open>Control_System\<close> the completion boundaries
  and the interface of a system with an invariant, \<open>Control_Total\<close> and \<open>Control_Returns\<close> the commands that must
  return, \<open>Control_Frame\<close> what each command leaves alone and the reachable stores. The properties are in
  \<open>Control_Props\<close> and \<open>Control_Plans\<close>: refinement of the gate, no command lost or doubled, countdowns that end after exactly as many
  attempts as asked.

  The token ledger (token_ledger.py): \<open>Token_Ledger\<close> with \<open>Token_Ledger_Laws\<close> and \<open>Token_Ledger_Props\<close>: each response
  counts once, reports may repeat and reorder, the budget is the sum of its parts.

  Completion (completion.py and the command runner): \<open>Completion\<close>, \<open>Completion_Props\<close>, \<open>Command_Runner\<close>: which evidence
  makes an attempt complete, which commands run, and that no secret reaches a log or a command.

  The durable files. \<open>Attempt_State\<close> and \<open>Attempt_Props\<close>: the checkpoint of the active attempt (attempt_state.py) as a
  state machine with an invariant. \<open>Stores\<close>: error counter, halt, instance and completions (operating.py, halt.py,
  instance.py, finalization.py); \<open>Store_Laws\<close> interprets the interface of stores and of stores of entries on each
  file; \<open>Store_Props\<close> says what they promise over histories of operations. \<open>Handoff_Records\<close> and
  \<open>Handoff_Record_Props\<close>: the shared handoff record (handoff_record.py), its round trip through a comment and the
  count of continuations (recovery.py). \<open>Markers\<close> and \<open>Comments\<close>: the other markers and generated comments of
  recovery.py.

  The issue tracker (github_tracker.py). \<open>Tracker\<close>: eligibility, the transport's calls, the comments of an issue.
  \<open>Tracker_Ops\<close>: conflict detector, queue, claim, retreat, recovery and release as programs. \<open>Tracker_Props\<close>: two
  Workers never both win an issue, in every interleaving; what a claim touches; the order of the queue.

  Publication (publication.py). \<open>Publication\<close>: requests, results, the calls of the transport, git and the stores, and the
  generated bodies and comments. \<open>Publication_Ops\<close>: \<open>Publisher\<close> as programs over these calls. \<open>Publication_Props\<close>: what
  a result may claim, the order of push, durable mark, look-up and creation, and what a conflict attempt may report.
  \<open>Publication_Record\<close>: a handoff is confirmed only by reading it back. \<open>Conflict_Comments\<close>: the comment of a conflict
  attempt is read back by the next one.

  The workspace (git_workspace.py). \<open>Git_Workspace\<close>: the calls of git and the parsers of its output.
  \<open>Git_Workspace_Ops\<close> and \<open>Git_Workspace_Push\<close>: every method of GitWorkspace as a program.
  \<open>Git_Workspace_Props\<close>: of two Workers with one lease at most one pushes; a push counts only when the remote shows
  it. \<open>Git_Cleanup\<close>: cleanup removes nothing unless everything dirty was ignored, and then only that.

  Configuration (config.py). \<open>Config\<close> reads the settings; \<open>Config_Props\<close>: what an accepted configuration satisfies.

  Conflict attempts (conflict_attempt.py, lifecycle.py). \<open>Conflict_Attempt\<close>: texts, classification and the judgement of
  a resolution. \<open>Conflict_Execution\<close>: the attempt itself. \<open>Conflict_Execution_Props\<close>: a push is asked for only after the
  checks passed on what was verified.

  Handoff notes (lifecycle.py). \<open>Handoff_Note\<close> and \<open>Handoff_Note_Props\<close>: how a note is parsed and validated, with the
  bounded edit distance that tells a slip from a stale note. \<open>Emergency_Note\<close> and \<open>Emergency_Note_Props\<close>: the note that
  the runtime writes itself, and how it is read back.

  The Worker's loop (lifecycle.py). \<open>Worker\<close>: its calls, exceptions and configuration. \<open>Worker_Finalize\<close>: the end of an
  attempt, from the operator's handoff over release and cleanup to the durable completion. \<open>Worker_Run\<close>: an attempt from
  its claim to this end, with the handlers of its exceptions, which carry the local variables that \<open>finally\<close> reads.
  \<open>Worker_Claim\<close>: the holds, the operator's priority, the queue, the checkpoint that opens an attempt.
  \<open>Worker_Startup\<close>: the recovery of a checkpoint found at the start, and \<open>run_once\<close>. \<open>Worker_Run_Props\<close> and
  \<open>Worker_Safety\<close>: a trace of the calls of an attempt, and that its checkpoint goes last, for every answer of its parts,
  with what an attempt must have done before it, the ordinary and the conflict attempt apart. \<open>Worker_Fates\<close>: what becomes of
  an attempt when reports, commands or restarts fail, for all answers of such a kind (\<open>calm\<close>), with a run of each kind as
  its witness. \<open>Worker_Gates\<close>: the gates before a claim. \<open>Attempt_Runner\<close>: what runs between the preparation of the branch and the publication of an ordinary
  attempt, with \<open>Attempt_Runner_Props\<close>: what its evidence may claim.

  The guards of the model's session (model_execution.py). \<open>Shell_Guard\<close>: how a command is split into tokens and
  segments, which publish, write or delete the handoff note, and which stay allowed while a handoff is pending.
  \<open>Shell_Guard_Props\<close>: exactly which commands of plain words are denied as publications and which stay allowed, by the
  programs that their segments run, and the forms that pass although they publish or write.

  The model's session (model_execution.py). \<open>Session_Texts\<close>: prompts, denials, and the snapshot of the branch from
  which the header of a handoff note is pre-filled; that the validation of notes accepts such a header is
  in \<open>Session_Props\<close>. \<open>Session_State\<close>: the fields of \<open>ModelExecutor\<close> as one record, the limits, the operator's request,
  subagents and the trail of tool calls. \<open>Session_Hooks\<close>: the three hooks of the client (before a tool, after a tool,
  at a stop). \<open>Session_Stream\<close>: the loop over the messages of a turn, with the token ledger and the background tasks.
  \<open>Session_Execute\<close>: \<open>execute\<close>, the classification of a result and the follow-ups. \<open>Session_Laws\<close>: the invariant of a
  session and which steps of a hook or of the stream change what; \<open>Session_Sound\<close>: a calculus that carries an
  invariant and a relation to the start of the session through a program, for every answer of its calls,
  with the facts that stay once they hold. \<open>Session_Props\<close>: what the evidence of a session may claim.
  \<open>Session_Gates\<close>: exactly which calls the gates of a pending handoff allow, how often a review or a nudge happens, and
  when the prediction of a limit agrees with the classification.

  Bounds. Recursion is structural except where a listing of GitHub is paged: there a poll reads at most a given
  number of pages, and \<open>poll_reads_to_the_end\<close> says that a bound of at least the length of the listing changes
  nothing, and in \<open>receive_terminal\<close>, whose argument bounds the messages of a turn: the theorems hold for every bound,
  a larger bound only continues the same run, and a session that has used it up is one which the timeout around
  \<open>receive_terminal\<close> ends in the code. Numbers are Python's unbounded integers, so nothing wraps; the floating-point numbers of the configuration
  are rationals rounded to 53 bits, without a range of exponents.

  Parameters. The clock, \<open>datetime.fromisoformat\<close> (whose language differs between Python versions), the processes
  that run commands, git, the file system, the model's sessions, and GitHub, as relations between calls and answers;
  what a theorem relies on of them is a hypothesis with a name (\<open>claim_service\<close> and its parts). Arguments have the
  Python type that the code declares, strings are lists of bytes.

  Not modelled. The GraphQL transport below the tracker; of model_execution.py the options and the environment of the
  client, the view for telemetry, the archived payloads and the figures in log lines; the rest of lifecycle.py
  (the operator's recovery commands, the status snapshots), the operator's HTTP
  endpoint and its documents (control_server.py, contract_adapter.py, contract_events.py, contract_status.py),
  telemetry, the offline and command-line tools, operating-system locks and process groups, the release scripts and
  the conformance harness.
\<close>

end
